(* ===== verification/Go_Prelude.thy ===== *)
theory Go_Prelude
  imports Main "HOL-Library.Sublist" "HOL-Library.Word"
begin

text \<open>
  The part of the Go language and of its standard library that every component of the
  service uses: error values and their chains (package errors), 64-bit integers, decimal
  conversion (package strconv) and byte strings (package strings). A Go string is a list
  of bytes, here \<open>string\<close> with one \<open>char\<close> for each byte.
\<close>

named_theorems go_simps \<open>rewrite rules for the modelled standard library\<close>
named_theorems go_bounds \<open>range facts about machine integers\<close>

section \<open>Errors\<close>

text \<open>
  An error value is a package-level variable compared by identity, a fresh error with a
  message, an error wrapped by \<open>fmt.Errorf\<close> with \<open>%w\<close>, an error with a text of its own that
  unwraps to another, an error of the database server with its code and message
  (\<open>*pgconn.PgError\<close>), or the join of several errors.
  A nil error is \<open>None\<close> where a function returns only an error, and \<open>Inr\<close> in a result.
\<close>

datatype goerr =
    Sentinel string
  | ErrText string
  | ErrWrap string goerr
  | ErrAs string goerr
  | ErrPg string string
  | ErrJoin "goerr list"

type_synonym 'a res = "goerr + 'a"

fun errors_is :: "goerr \<Rightarrow> string \<Rightarrow> bool" where
  "errors_is (Sentinel n) t = (n = t)"
| "errors_is (ErrText m) t = False"
| "errors_is (ErrWrap m e) t = errors_is e t"
| "errors_is (ErrAs m e) t = errors_is e t"
| "errors_is (ErrPg c m) t = False"
| "errors_is (ErrJoin es) t = list_ex (\<lambda>e. errors_is e t) es"

text \<open>\<open>errors.As\<close> with a \<open>*pgconn.PgError\<close>: the first one in the tree.\<close>

fun as_pg :: "goerr \<Rightarrow> (string \<times> string) option" where
  "as_pg (ErrPg c m) = Some (c, m)"
| "as_pg (ErrWrap m e) = as_pg e"
| "as_pg (ErrAs m e) = as_pg e"
| "as_pg (ErrJoin []) = None"
| "as_pg (ErrJoin (e # es)) = (case as_pg e of Some x \<Rightarrow> Some x | None \<Rightarrow> as_pg (ErrJoin es))"
| "as_pg e = None"

text \<open>The text \<open>err.Error()\<close> of an error.\<close>

fun show_error :: "goerr \<Rightarrow> string" where
  "show_error (Sentinel n) = n"
| "show_error (ErrText m) = m"
| "show_error (ErrWrap m e) = m @ '': '' @ show_error e"
| "show_error (ErrAs m e) = m"
| "show_error (ErrPg c m) = ''ERROR: '' @ m @ '' (SQLSTATE '' @ c @ '')''"
| "show_error (ErrJoin []) = []"
| "show_error (ErrJoin [e]) = show_error e"
| "show_error (ErrJoin (e # f # es)) = show_error e @ [CHR 0x0A] @ show_error (ErrJoin (f # es))"

definition some_errors :: "goerr option list \<Rightarrow> goerr list" where
  "some_errors es = List.map_filter id es"

definition errors_join :: "goerr option list \<Rightarrow> goerr option" where
  "errors_join es = (case some_errors es of [] \<Rightarrow> None | ys \<Rightarrow> Some (ErrJoin ys))"

lemma some_errors_simps [simp, go_simps]:
  "some_errors [] = []"
  "some_errors (None # es) = some_errors es"
  "some_errors (Some e # es) = e # some_errors es"
  by (simp_all add: some_errors_def List.map_filter_def)

lemma errors_join_None_iff: "errors_join es = None \<longleftrightarrow> (\<forall>e \<in> set es. e = None)"
proof -
  have "some_errors es = [] \<longleftrightarrow> (\<forall>e \<in> set es. e = None)"
    by (induction es) (auto simp: some_errors_def List.map_filter_def split: option.splits)
  moreover have "errors_join es = None \<longleftrightarrow> some_errors es = []"
    by (cases "some_errors es") (simp_all add: errors_join_def)
  ultimately show ?thesis by simp
qed

lemma errors_join_pair [simp, go_simps]:
  "errors_join [None, None] = None"
  "errors_join [Some e, None] = Some (ErrJoin [e])"
  "errors_join [None, Some e] = Some (ErrJoin [e])"
  "errors_join [Some d, Some e] = Some (ErrJoin [d, e])"
  by (simp_all add: errors_join_def)

lemma errors_join_Some_left: "\<exists>e. errors_join (Some d # es) = Some e"
  by (simp add: errors_join_def)

lemma errors_is_join:
  "errors_join es = Some e \<Longrightarrow> errors_is e t \<longleftrightarrow> (\<exists>d. Some d \<in> set es \<and> errors_is d t)"
proof -
  have set_some: "set (some_errors xs) = {d. Some d \<in> set xs}" for xs
    by (induction xs) (auto simp: some_errors_def List.map_filter_def split: option.splits)
  assume "errors_join es = Some e"
  then have "e = ErrJoin (some_errors es)"
    by (auto simp: errors_join_def split: list.splits)
  then show ?thesis by (auto simp: list_ex_iff set_some)
qed

section \<open>64-bit integers\<close>

definition int64_min :: int where "int64_min = - (2 ^ 63)"
definition int64_max :: int where "int64_max = 2 ^ 63 - 1"

definition in_int64 :: "int \<Rightarrow> bool" where
  "in_int64 x \<longleftrightarrow> int64_min \<le> x \<and> x \<le> int64_max"

definition wrap64 :: "int \<Rightarrow> int" where
  "wrap64 x = (x + 2 ^ 63) mod 2 ^ 64 - 2 ^ 63"

lemma wrap64_in_int64 [go_bounds]: "in_int64 (wrap64 x)"
proof -
  have "0 \<le> (x + 2 ^ 63) mod 2 ^ 64" "(x + 2 ^ 63) mod 2 ^ 64 < (2::int) ^ 64"
    by simp_all
  then show ?thesis
    by (simp add: in_int64_def wrap64_def int64_min_def int64_max_def)
qed

lemma wrap64_id [go_simps]: "in_int64 x \<Longrightarrow> wrap64 x = x"
  by (simp add: in_int64_def wrap64_def int64_min_def int64_max_def)

lemma wrap64_word: "wrap64 x = sint (word_of_int x :: 64 word)"
proof -
  have "sint (word_of_int x :: 64 word) = signed_take_bit 63 x"
    by (simp add: sint_sbintrunc')
  also have "\<dots> = (x + 2 ^ 63) mod 2 ^ Suc 63 - 2 ^ 63"
    by (rule signed_take_bit_eq_take_bit_shift [of 63 x, unfolded take_bit_eq_mod])
  finally show ?thesis by (simp add: wrap64_def)
qed

section \<open>Decimal conversion\<close>

definition digit_char :: "nat \<Rightarrow> char" where
  "digit_char d = char_of (48 + d)"

definition is_digit :: "char \<Rightarrow> bool" where
  "is_digit c \<longleftrightarrow> 48 \<le> (of_char c :: nat) \<and> (of_char c :: nat) \<le> 57"

definition digit_val :: "char \<Rightarrow> nat" where
  "digit_val c = of_char c - 48"

lemma digit_char_code: "d < 10 \<Longrightarrow> of_char (digit_char d) = 48 + d"
  by (simp add: digit_char_def)

lemma digit_char_props [simp]:
  assumes "d < 10"
  shows "is_digit (digit_char d)" "digit_val (digit_char d) = d"
  using digit_char_code [OF assms] assms by (simp_all add: is_digit_def digit_val_def)

lemma digit_val_less: "is_digit c \<Longrightarrow> digit_val c < 10"
  unfolding is_digit_def digit_val_def by linarith

fun show_nat :: "nat \<Rightarrow> string" where
  "show_nat n = (if n < 10 then [digit_char n] else show_nat (n div 10) @ [digit_char (n mod 10)])"

declare show_nat.simps [simp del]

definition show_int :: "int \<Rightarrow> string" where
  "show_int v = (if v < 0 then CHR ''-'' # show_nat (nat (- v)) else show_nat (nat v))"

definition digits_val :: "string \<Rightarrow> nat" where
  "digits_val s = foldl (\<lambda>a c. 10 * a + digit_val c) 0 s"

definition parse_uint :: "string \<Rightarrow> nat option" where
  "parse_uint s = (if s \<noteq> [] \<and> list_all is_digit s then Some (digits_val s) else None)"

text \<open>\<open>strconv.ParseInt(s, 10, 64)\<close> and \<open>strconv.Atoi\<close>: one optional sign, then digits,
  then the range check.\<close>

definition parse_int64 :: "string \<Rightarrow> int option" where
  "parse_int64 s =
     (let neg = (s \<noteq> [] \<and> hd s = CHR ''-'');
          rest = (if s \<noteq> [] \<and> (hd s = CHR ''-'' \<or> hd s = CHR ''+'') then tl s else s)
      in case parse_uint rest of None \<Rightarrow> None
         | Some n \<Rightarrow> let v = (if neg then - int n else int n)
                     in if in_int64 v then Some v else None)"

lemma show_nat_nonempty [simp]: "show_nat n \<noteq> []"
  by (subst show_nat.simps) simp

lemma show_nat_digits: "list_all is_digit (show_nat n)"
proof (induction n rule: show_nat.induct)
  case (1 n)
  then show ?case by (subst show_nat.simps) simp
qed

lemma digits_val_append: "digits_val (xs @ [c]) = 10 * digits_val xs + digit_val c"
  by (simp add: digits_val_def)

lemma digits_val_show_nat: "digits_val (show_nat n) = n"
proof (induction n rule: show_nat.induct)
  case (1 n)
  show ?case
  proof (cases "n < 10")
    case True
    then show ?thesis by (subst show_nat.simps) (simp add: digits_val_def)
  next
    case False
    with 1 have "digits_val (show_nat (n div 10)) = n div 10" by simp
    with False show ?thesis by (subst show_nat.simps) (simp add: digits_val_append)
  qed
qed

lemma parse_uint_show_nat [go_simps]: "parse_uint (show_nat n) = Some n"
  by (simp add: parse_uint_def show_nat_digits digits_val_show_nat)

lemma is_digit_not_sign: "is_digit c \<Longrightarrow> c \<noteq> CHR ''-'' \<and> c \<noteq> CHR ''+'' \<and> c \<noteq> CHR '',''"
  by (auto simp: is_digit_def)

lemma hd_show_nat_digit: "is_digit (hd (show_nat n))"
  using show_nat_digits [of n] by (cases "show_nat n") auto

lemma parse_int64_show_int: "in_int64 v \<Longrightarrow> parse_int64 (show_int v) = Some v"
  using is_digit_not_sign [OF hd_show_nat_digit, of "nat v"]
  by (auto simp: parse_int64_def show_int_def parse_uint_show_nat Let_def)

lemma parse_int64_range [go_bounds]: "parse_int64 s = Some v \<Longrightarrow> in_int64 v"
  by (auto simp: parse_int64_def Let_def split: option.splits if_splits)

section \<open>Strings\<close>

definition has_prefix :: "string \<Rightarrow> string \<Rightarrow> bool" where
  "has_prefix s p = (take (length p) s = p)"

definition has_suffix :: "string \<Rightarrow> string \<Rightarrow> bool" where
  "has_suffix s p = (length p \<le> length s \<and> drop (length s - length p) s = p)"

definition trim_prefix :: "string \<Rightarrow> string \<Rightarrow> string" where
  "trim_prefix s p = (if has_prefix s p then drop (length p) s else s)"

definition trim_suffix :: "string \<Rightarrow> string \<Rightarrow> string" where
  "trim_suffix s p = (if has_suffix s p then take (length s - length p) s else s)"

fun str_contains :: "string \<Rightarrow> string \<Rightarrow> bool" where
  "str_contains [] t = (t = [])"
| "str_contains (c # cs) t = (has_prefix (c # cs) t \<or> str_contains cs t)"

definition contains_any :: "string \<Rightarrow> string \<Rightarrow> bool" where
  "contains_any s chars = list_ex (\<lambda>c. c \<in> set chars) s"

fun str_join :: "string \<Rightarrow> string list \<Rightarrow> string" where
  "str_join sep [] = []"
| "str_join sep [x] = x"
| "str_join sep (x # y # ys) = x @ sep @ str_join sep (y # ys)"

fun split_byte :: "char \<Rightarrow> string \<Rightarrow> string list" where
  "split_byte c [] = [[]]"
| "split_byte c (x # xs) =
     (if x = c then [] # split_byte c xs
      else (case split_byte c xs of [] \<Rightarrow> [[x]] | y # ys \<Rightarrow> (x # y) # ys))"

text \<open>\<open>strings.ReplaceAll\<close> for a non-empty pattern: leftmost, non-overlapping.\<close>

function replace_all :: "string \<Rightarrow> string \<Rightarrow> string \<Rightarrow> string" where
  "replace_all s old new =
     (if old = [] \<or> s = [] then s
      else if has_prefix s old then new @ replace_all (drop (length old) s) old new
      else hd s # replace_all (tl s) old new)"
  by pat_completeness auto
termination by (relation "measure (\<lambda>(s, old, new). length s)") auto

declare replace_all.simps [simp del]

definition remove_byte :: "char \<Rightarrow> string \<Rightarrow> string" where
  "remove_byte c s = replace_all s [c] []"

text \<open>\<open>strings.LastIndexByte\<close>, split: the part before the last separator and the part after it.\<close>

definition cut_last :: "char \<Rightarrow> string \<Rightarrow> (string \<times> string) option" where
  "cut_last c s =
     (if c \<in> set s
      then Some (rev (tl (dropWhile (\<lambda>x. x \<noteq> c) (rev s))), rev (takeWhile (\<lambda>x. x \<noteq> c) (rev s)))
      else None)"

lemma has_prefix_iff [go_simps]: "has_prefix s p \<longleftrightarrow> prefix p s"
  by (auto simp: has_prefix_def prefix_def) (metis append_take_drop_id)

lemma has_suffix_iff [go_simps]: "has_suffix s p \<longleftrightarrow> suffix p s"
  by (auto simp: has_suffix_def suffix_def) (metis append_take_drop_id)

lemma str_contains_iff [go_simps]: "str_contains s t \<longleftrightarrow> sublist t s"
  by (induction s) (auto simp: has_prefix_iff sublist_Cons_right)

lemma str_contains_Nil [simp]: "str_contains s [] = True"
  by (cases s) (simp_all add: has_prefix_def)

lemma replace_all_Nil [simp]: "replace_all [] old new = []"
  by (simp add: replace_all.simps)

lemma remove_byte_filter [go_simps]: "remove_byte c s = filter (\<lambda>x. x \<noteq> c) s"
proof -
  have "replace_all s [c] [] = filter (\<lambda>x. x \<noteq> c) s"
  proof (induction s)
    case (Cons x xs)
    then show ?case
      by (subst replace_all.simps) (simp add: has_prefix_def)
  qed simp
  then show ?thesis by (simp add: remove_byte_def)
qed

lemma replace_all_absent: "\<not> str_contains s old \<Longrightarrow> replace_all s old new = s"
proof (induction s old new rule: replace_all.induct)
  case (1 s old new)
  show ?case
  proof (cases "old = [] \<or> s = []")
    case True
    then show ?thesis by (subst replace_all.simps) simp
  next
    case False
    with "1.prems" have np: "\<not> has_prefix s old" and nc: "\<not> str_contains (tl s) old"
      by (cases s; simp)+
    with False 1 have "replace_all (tl s) old new = tl s" by simp
    with False np show ?thesis by (subst replace_all.simps) simp
  qed
qed

lemma split_byte_nonempty [simp]: "split_byte c s \<noteq> []"
  by (cases s) (auto split: list.splits)

lemma split_byte_join: "str_join [c] (split_byte c s) = s"
proof (induction s)
  case (Cons x xs)
  show ?case
  proof (cases "split_byte c xs")
    case Nil
    then show ?thesis by simp
  next
    case (Cons y ys)
    with Cons.IH show ?thesis by (cases ys) auto
  qed
qed simp

lemma split_byte_no_sep: "p \<in> set (split_byte c s) \<Longrightarrow> c \<notin> set p"
proof (induction s arbitrary: p)
  case (Cons x xs)
  then show ?case by (auto split: if_splits list.splits)
qed simp

lemma cut_last_append:
  assumes "c \<notin> set b"
  shows "cut_last c (a @ c # b) = Some (a, b)"
proof -
  have "takeWhile (\<lambda>x. x \<noteq> c) (rev b @ c # rev a) = rev b"
       "dropWhile (\<lambda>x. x \<noteq> c) (rev b @ c # rev a) = c # rev a"
    using assms by (auto simp: takeWhile_append dropWhile_append)
  then show ?thesis by (simp add: cut_last_def)
qed

lemma cut_last_Some:
  assumes "cut_last c s = Some (a, b)"
  shows "s = a @ c # b \<and> c \<notin> set b"
proof -
  from assms have "c \<in> set s"
    by (auto simp: cut_last_def split: if_splits)
  then obtain x y where xy: "s = x @ c # y" "c \<notin> set y"
    by (meson split_list_last)
  with assms show ?thesis by (simp add: cut_last_append)
qed

section \<open>Lists\<close>

text \<open>\<open>appendUnique\<close> is written the same way in internal/report/render.go and in
  internal/app/postgres_web.go.\<close>

definition appendUnique :: "string list \<Rightarrow> string \<Rightarrow> string list" where
  "appendUnique values v =
     (if v = [] then values
      else if list_ex (\<lambda>existing. existing = v) values then values
      else values @ [v])"

lemma appendUnique_distinct: "distinct xs \<Longrightarrow> distinct (appendUnique xs v)"
  by (auto simp: appendUnique_def list_ex_iff)

lemma set_appendUnique: "set (appendUnique xs v) = set xs \<union> (if v = [] then {} else {v})"
  by (auto simp: appendUnique_def list_ex_iff)

lemma appendUnique_prefix: "prefix xs (appendUnique xs v)"
  by (simp add: appendUnique_def)

lemma foldl_appendUnique:
  "distinct xs \<Longrightarrow> [] \<notin> set xs \<Longrightarrow>
   distinct (foldl appendUnique xs vs) \<and> [] \<notin> set (foldl appendUnique xs vs) \<and>
   set (foldl appendUnique xs vs) = set xs \<union> (set vs - {[]})"
proof (induction vs arbitrary: xs)
  case (Cons v vs)
  from Cons.prems have "distinct (appendUnique xs v)" "[] \<notin> set (appendUnique xs v)"
    by (auto simp: appendUnique_distinct set_appendUnique)
  with Cons.IH [of "appendUnique xs v"] show ?case
    by (auto simp: set_appendUnique split: if_splits)
qed simp

end
