(* ===== verification/Go_Utf8.thy ===== *)
theory Go_Utf8
  imports Go_Prelude
begin

text \<open>
  Runes: package unicode/utf8, the \<open>range\<close> loop over a string, and the functions of
  package strings that look at code points (TrimSpace, ToLower, Map). The lower-case table of
  package unicode is data, so \<open>to_lower\<close> takes the mapping of the code points from 128 on as
  a parameter; below 128 it is written out.
\<close>

section \<open>Decoding\<close>

definition byte :: "char \<Rightarrow> nat" where
  "byte c = of_char c"

definition cont_byte :: "nat \<Rightarrow> bool" where
  "cont_byte b \<longleftrightarrow> 128 \<le> b \<and> b \<le> 191"

text \<open>Bounds of the second byte for the first byte of a three and a four byte sequence.\<close>

definition second_ok :: "nat \<Rightarrow> nat \<Rightarrow> bool" where
  "second_ok b0 b1 \<longleftrightarrow>
     (if b0 = 224 then 160 \<le> b1 \<and> b1 \<le> 191
      else if b0 = 237 then 128 \<le> b1 \<and> b1 \<le> 159
      else if b0 = 240 then 144 \<le> b1 \<and> b1 \<le> 191
      else if b0 = 244 then 128 \<le> b1 \<and> b1 \<le> 143
      else cont_byte b1)"

abbreviation rune_error :: nat where "rune_error \<equiv> 65533"

text \<open>\<open>utf8.DecodeRuneInString\<close>: the rune and its width; an invalid sequence is
  \<open>RuneError\<close> with width 1.\<close>

fun decode_rune :: "string \<Rightarrow> nat \<times> nat" where
  "decode_rune [] = (rune_error, 0)"
| "decode_rune (c0 # cs) =
     (let b0 = byte c0; b1 = byte (cs ! 0); b2 = byte (cs ! 1); b3 = byte (cs ! 2)
      in if b0 < 128 then (b0, 1)
         else if 194 \<le> b0 \<and> b0 \<le> 223 then
           (if 1 \<le> length cs \<and> cont_byte b1
            then ((b0 - 192) * 64 + (b1 - 128), 2) else (rune_error, 1))
         else if 224 \<le> b0 \<and> b0 \<le> 239 then
           (if 2 \<le> length cs \<and> second_ok b0 b1 \<and> cont_byte b2
            then ((b0 - 224) * 4096 + (b1 - 128) * 64 + (b2 - 128), 3) else (rune_error, 1))
         else if 240 \<le> b0 \<and> b0 \<le> 244 then
           (if 3 \<le> length cs \<and> second_ok b0 b1 \<and> cont_byte b2 \<and> cont_byte b3
            then ((b0 - 240) * 262144 + (b1 - 128) * 4096 + (b2 - 128) * 64 + (b3 - 128), 4)
            else (rune_error, 1))
         else (rune_error, 1))"

declare decode_rune.simps [simp del]

lemma decode_rune_size_pos: "s \<noteq> [] \<Longrightarrow> 1 \<le> snd (decode_rune s)"
  by (cases s) (auto simp: decode_rune.simps Let_def)

lemma decode_rune_size_le: "snd (decode_rune s) \<le> length s"
  by (cases s) (auto simp: decode_rune.simps Let_def)

lemma decode_rune_size_le4: "snd (decode_rune s) \<le> 4"
  by (cases s) (auto simp: decode_rune.simps Let_def)

text \<open>The runes a \<open>range\<close> loop yields, each with its width.\<close>

function runes :: "string \<Rightarrow> (nat \<times> nat) list" where
  "runes s = (if s = [] then [] else decode_rune s # runes (drop (snd (decode_rune s)) s))"
  by pat_completeness auto
termination
proof (relation "measure length")
  fix s :: string
  assume "s \<noteq> []"
  then show "(drop (snd (decode_rune s)) s, s) \<in> measure length"
    using decode_rune_size_pos [of s] by simp
qed simp

declare runes.simps [simp del]

definition valid_utf8 :: "string \<Rightarrow> bool" where
  "valid_utf8 s \<longleftrightarrow> list_all (\<lambda>(r, n). \<not> (r = rune_error \<and> n = 1)) (runes s)"

definition rune_count :: "string \<Rightarrow> nat" where
  "rune_count s = length (runes s)"

lemma runes_Nil [simp]: "runes [] = []"
  by (simp add: runes.simps)

lemma valid_utf8_Nil [simp]: "valid_utf8 []"
  by (simp add: valid_utf8_def)

lemma runes_unfold:
  "s \<noteq> [] \<Longrightarrow> runes s = decode_rune s # runes (drop (snd (decode_rune s)) s)"
  by (subst runes.simps) simp

lemma rune_count_le: "rune_count s \<le> length s"
proof (induction s rule: runes.induct)
  case (1 s)
  show ?case
  proof (cases "s = []")
    case False
    with 1 decode_rune_size_pos [OF False] decode_rune_size_le [of s] show ?thesis
      by (simp add: rune_count_def runes_unfold)
  qed (simp add: rune_count_def)
qed

section \<open>Encoding\<close>

definition valid_rune :: "nat \<Rightarrow> bool" where
  "valid_rune r \<longleftrightarrow> r < 55296 \<or> (57344 \<le> r \<and> r \<le> 1114111)"

definition encode_rune :: "nat \<Rightarrow> string" where
  "encode_rune r =
     (let q = (if valid_rune r then r else rune_error)
      in if q < 128 then [char_of q]
         else if q < 2048 then [char_of (192 + q div 64), char_of (128 + q mod 64)]
         else if q < 65536 then
           [char_of (224 + q div 4096), char_of (128 + q div 64 mod 64), char_of (128 + q mod 64)]
         else
           [char_of (240 + q div 262144), char_of (128 + q div 4096 mod 64),
            char_of (128 + q div 64 mod 64), char_of (128 + q mod 64)])"

lemma byte_char_of [simp]: "n < 256 \<Longrightarrow> byte (char_of n) = n"
  by (simp add: byte_def)

lemma byte_less: "byte c < 256"
  by (simp add: byte_def)

lemma decode_encode_rune:
  assumes "valid_rune r"
  shows "decode_rune (encode_rune r @ s) = (r, length (encode_rune r))"
proof -
  consider "r < 128" | "128 \<le> r" "r < 2048" | "2048 \<le> r" "r < 65536" | "65536 \<le> r" "r \<le> 1114111"
    using assms by (fastforce simp: valid_rune_def)
  then show ?thesis
  proof cases
    case 1
    then show ?thesis using assms
      by (simp add: encode_rune_def decode_rune.simps Let_def)
  next
    case 2
    have d: "2 \<le> r div 64" "r div 64 \<le> 31" "r div 64 * 64 + r mod 64 = r" using 2 by auto
    have m: "r mod 64 \<le> 63" by simp
    have enc: "encode_rune r = [char_of (192 + r div 64), char_of (128 + r mod 64)]"
      using 2 assms by (simp add: encode_rune_def)
    show ?thesis using d m
      unfolding enc by (simp add: decode_rune.simps Let_def cont_byte_def)
  next
    case 3
    define x a y b where "x = r mod 64" and "a = r div 64" and "y = a mod 64" and "b = a div 64"
    have eqs: "r = 64 * a + x" "a = 64 * b + y" "x \<le> 63" "y \<le> 63"
      by (simp_all add: x_def a_def y_def b_def)
    have q: "r div 4096 = b" by (simp add: b_def a_def div_mult2_eq [symmetric])
    have b15: "b \<le> 15" and low: "b = 0 \<Longrightarrow> 32 \<le> y" and high: "b = 13 \<Longrightarrow> y \<le> 31"
      using 3 eqs assms unfolding valid_rune_def by linarith+
    have enc: "encode_rune r = [char_of (224 + b), char_of (128 + y), char_of (128 + x)]"
      using 3 assms q by (simp add: encode_rune_def x_def y_def a_def)
    have sum: "b * 4096 + y * 64 + x = r" using eqs by simp
    show ?thesis using b15 low high eqs(3,4) sum
      unfolding enc
      by (simp add: decode_rune.simps Let_def cont_byte_def second_ok_def)
  next
    case 4
    define x a y b z c where "x = r mod 64" and "a = r div 64" and "y = a mod 64" and "b = a div 64"
      and "z = b mod 64" and "c = b div 64"
    have eqs: "r = 64 * a + x" "a = 64 * b + y" "b = 64 * c + z" "x \<le> 63" "y \<le> 63" "z \<le> 63"
      by (simp_all add: x_def a_def y_def b_def z_def c_def)
    have q: "r div 4096 = b" "r div 262144 = c"
      by (simp_all add: c_def b_def a_def div_mult2_eq [symmetric])
    have c4: "c \<le> 4" and low: "c = 0 \<Longrightarrow> 16 \<le> z" and high: "c = 4 \<Longrightarrow> z \<le> 15"
      using 4 eqs by linarith+
    have enc: "encode_rune r =
        [char_of (240 + c), char_of (128 + z), char_of (128 + y), char_of (128 + x)]"
      using 4 assms q by (simp add: encode_rune_def x_def y_def a_def z_def)
    have sum: "c * 262144 + z * 4096 + y * 64 + x = r" using eqs by simp
    show ?thesis using c4 low high eqs(4-6) sum
      unfolding enc
      by (simp add: decode_rune.simps Let_def cont_byte_def second_ok_def)
  qed
qed

lemma encode_rune_nonempty [simp]: "encode_rune r \<noteq> []"
  by (simp add: encode_rune_def Let_def)

lemma encode_rune_high: "128 \<le> r \<Longrightarrow> c \<in> set (encode_rune r) \<Longrightarrow> 128 \<le> byte c"
proof -
  assume r: "128 \<le> r" and c: "c \<in> set (encode_rune r)"
  define q where "q = (if valid_rune r then r else rune_error)"
  have q: "128 \<le> q" "q \<le> 1114111" using r by (auto simp: q_def valid_rune_def)
  have m: "n mod 64 \<le> 63" for n :: nat by simp
  have d: "q < 2048 \<Longrightarrow> q div 64 \<le> 31" "q < 65536 \<Longrightarrow> q div 4096 \<le> 15" "q div 262144 \<le> 4"
    using q by auto
  show ?thesis
    using c q d m [of q] m [of "q div 64"] m [of "q div 4096"]
    by (auto simp: encode_rune_def q_def [symmetric] Let_def split: if_splits)
qed

lemma runes_encode:
  assumes "valid_rune r"
  shows "runes (encode_rune r @ s) = (r, length (encode_rune r)) # runes s"
  using decode_encode_rune [OF assms, of s] by (subst runes_unfold) simp_all

lemma runes_encode_list:
  "list_all valid_rune rs \<Longrightarrow>
   runes (concat (map encode_rune rs)) = map (\<lambda>r. (r, length (encode_rune r))) rs"
  by (induction rs) (simp_all add: runes_encode)

lemma encode_rune_size1: "length (encode_rune r) = 1 \<Longrightarrow> valid_rune r \<Longrightarrow> r < 128"
  by (auto simp: encode_rune_def Let_def split: if_splits)

lemma valid_utf8_encode:
  assumes "list_all valid_rune rs"
  shows "valid_utf8 (concat (map encode_rune rs))"
proof -
  have "\<not> (r = rune_error \<and> length (encode_rune r) = 1)" if "r \<in> set rs" for r
    using encode_rune_size1 [of r] assms that by (auto simp: list_all_iff)
  then show ?thesis
    by (auto simp: valid_utf8_def runes_encode_list [OF assms] list_all_iff)
qed

lemma runes_ascii: "list_all (\<lambda>c. byte c < 128) s \<Longrightarrow> runes s = map (\<lambda>c. (byte c, 1)) s"
proof (induction s)
  case (Cons c cs)
  then have "decode_rune (c # cs) = (byte c, 1)" by (simp add: decode_rune.simps Let_def)
  with Cons show ?case by (subst runes_unfold) simp_all
qed simp

lemma valid_utf8_ascii: "list_all (\<lambda>c. byte c < 128) s \<Longrightarrow> valid_utf8 s"
  by (auto simp: valid_utf8_def runes_ascii list_all_iff)

section \<open>Case and space\<close>

definition lower_byte :: "char \<Rightarrow> char" where
  "lower_byte c = (if 65 \<le> byte c \<and> byte c \<le> 90 then char_of (byte c + 32) else c)"

definition lower_rune :: "(nat \<Rightarrow> nat) \<Rightarrow> nat \<Rightarrow> nat" where
  "lower_rune ulow r = (if r < 128 then (if 65 \<le> r \<and> r \<le> 90 then r + 32 else r) else ulow r)"

definition to_lower :: "(nat \<Rightarrow> nat) \<Rightarrow> string \<Rightarrow> string" where
  "to_lower ulow s =
     (if list_all (\<lambda>c. byte c < 128) s then map lower_byte s
      else concat (map (\<lambda>(r, n). encode_rune (lower_rune ulow r)) (runes s)))"

text \<open>The encodings of the code points with the White\_Space property
  (\<open>unicode.IsSpace\<close>).\<close>

definition space_encodings :: "string list" where
  "space_encodings =
     map encode_rune
       ([9, 10, 11, 12, 13, 32, 133, 160, 5760] @ [8192..<8203] @ [8232, 8233, 8239, 8287, 12288])"

lemma space_encodings_nonempty: "e \<in> set space_encodings \<Longrightarrow> e \<noteq> []"
  unfolding space_encodings_def set_map by (auto simp only: image_iff encode_rune_nonempty)

definition leading_space :: "string \<Rightarrow> nat" where
  "leading_space s = (case find (\<lambda>e. has_prefix s e) space_encodings of None \<Rightarrow> 0 | Some e \<Rightarrow> length e)"

definition trailing_space :: "string \<Rightarrow> nat" where
  "trailing_space s = (case find (\<lambda>e. has_suffix s e) space_encodings of None \<Rightarrow> 0 | Some e \<Rightarrow> length e)"

function trim_left :: "string \<Rightarrow> string" where
  "trim_left s = (if leading_space s = 0 \<or> s = [] then s else trim_left (drop (leading_space s) s))"
  by pat_completeness auto
termination by (relation "measure length") auto

function trim_right :: "string \<Rightarrow> string" where
  "trim_right s =
     (if trailing_space s = 0 \<or> s = [] then s
      else trim_right (take (length s - trailing_space s) s))"
  by pat_completeness auto
termination by (relation "measure length") auto

declare trim_left.simps [simp del] trim_right.simps [simp del]

definition trim_space :: "string \<Rightarrow> string" where
  "trim_space s = trim_right (trim_left s)"

lemma leading_space_Nil [simp]: "leading_space [] = 0"
proof -
  have "find (\<lambda>e. has_prefix [] e) space_encodings = None"
    by (auto simp: find_None_iff has_prefix_def dest: space_encodings_nonempty)
  then show ?thesis by (simp add: leading_space_def)
qed

lemma trailing_space_Nil [simp]: "trailing_space [] = 0"
proof -
  have "find (\<lambda>e. has_suffix [] e) space_encodings = None"
    by (auto simp: find_None_iff has_suffix_def dest: space_encodings_nonempty)
  then show ?thesis by (simp add: trailing_space_def)
qed

lemma trim_left_suffix: "suffix (trim_left s) s"
proof (induction s rule: trim_left.induct)
  case (1 s)
  show ?case
  proof (cases "leading_space s = 0 \<or> s = []")
    case True
    then show ?thesis by (subst trim_left.simps) simp
  next
    case False
    with 1 have "suffix (trim_left (drop (leading_space s) s)) (drop (leading_space s) s)" by simp
    then have "suffix (trim_left (drop (leading_space s) s)) s"
      using suffix_drop suffix_order.trans by blast
    with False show ?thesis by (subst trim_left.simps) simp
  qed
qed

lemma trim_right_prefix: "prefix (trim_right s) s"
proof (induction s rule: trim_right.induct)
  case (1 s)
  show ?case
  proof (cases "trailing_space s = 0 \<or> s = []")
    case True
    then show ?thesis by (subst trim_right.simps) simp
  next
    case False
    let ?t = "take (length s - trailing_space s) s"
    from False 1 have "prefix (trim_right ?t) ?t" by simp
    then have "prefix (trim_right ?t) s"
      using take_is_prefix prefix_order.trans by blast
    with False show ?thesis by (subst trim_right.simps) simp
  qed
qed

lemma trim_left_done: "leading_space (trim_left s) = 0"
proof (induction s rule: trim_left.induct)
  case (1 s)
  then show ?case by (subst trim_left.simps) auto
qed

lemma trim_right_done: "trailing_space (trim_right s) = 0"
proof (induction s rule: trim_right.induct)
  case (1 s)
  then show ?case by (subst trim_right.simps) auto
qed

lemma leading_space_prefix:
  assumes "prefix t s" "leading_space s = 0"
  shows "leading_space t = 0"
proof -
  have "find (\<lambda>e. has_prefix s e) space_encodings = None"
    using assms(2) space_encodings_nonempty
    by (auto simp: leading_space_def find_Some_iff split: option.splits) (metis nth_mem)
  then have none: "\<forall>e \<in> set space_encodings. \<not> has_prefix s e"
    by (auto simp: find_None_iff)
  have "\<not> has_prefix t e" if "e \<in> set space_encodings" for e
    using none that assms(1) by (auto simp: has_prefix_iff dest: prefix_order.trans)
  then have "find (\<lambda>e. has_prefix t e) space_encodings = None"
    by (auto simp: find_None_iff)
  then show ?thesis by (simp add: leading_space_def)
qed

lemma trim_left_id: "leading_space s = 0 \<Longrightarrow> trim_left s = s"
  by (simp add: trim_left.simps)

lemma trim_right_id: "trailing_space s = 0 \<Longrightarrow> trim_right s = s"
  by (simp add: trim_right.simps)

lemma trim_space_trimmed: "leading_space (trim_space s) = 0" "trailing_space (trim_space s) = 0"
  using leading_space_prefix [OF trim_right_prefix trim_left_done] trim_right_done
  by (simp_all add: trim_space_def)

lemma trim_space_id: "leading_space s = 0 \<Longrightarrow> trailing_space s = 0 \<Longrightarrow> trim_space s = s"
  by (simp add: trim_space_def trim_left_id trim_right_id)

lemma trim_space_idem [simp, go_simps]: "trim_space (trim_space s) = trim_space s"
  by (simp add: trim_space_id trim_space_trimmed)

lemma trim_space_Nil [simp]: "trim_space [] = []"
  by (simp add: trim_space_id)

lemma trim_space_sublist: "sublist (trim_space s) s"
  using trim_right_prefix [of "trim_left s"] trim_left_suffix [of s]
  unfolding trim_space_def
  by (meson prefix_imp_sublist sublist_order.order_trans suffix_imp_sublist)

lemma set_trim_space: "set (trim_space s) \<subseteq> set s"
  using trim_space_sublist set_mono_sublist by blast

lemma length_trim_space: "length (trim_space s) \<le> length s"
  using trim_space_sublist sublist_length_le by blast

text \<open>A string that starts and ends with visible ASCII bytes has nothing to trim.\<close>

definition visible :: "char \<Rightarrow> bool" where
  "visible c \<longleftrightarrow> 32 < byte c \<and> byte c < 128"

lemma space_encodings_visible: "e \<in> set space_encodings \<Longrightarrow> \<not> list_ex visible e"
proof -
  assume "e \<in> set space_encodings"
  then obtain r where e: "e = encode_rune r"
    and r: "r \<in> {9, 10, 11, 12, 13, 32} \<or> 128 \<le> r"
    by (auto simp: space_encodings_def)
  from r show ?thesis
  proof
    assume "r \<in> {9, 10, 11, 12, 13, 32}"
    then show ?thesis by (auto simp: e encode_rune_def visible_def valid_rune_def)
  next
    assume "128 \<le> r"
    then show ?thesis
      by (auto simp: e list_ex_iff visible_def dest: encode_rune_high)
  qed
qed

lemma trim_space_visible:
  assumes "s \<noteq> []" "visible (hd s)" "visible (last s)"
  shows "trim_space s = s"
proof -
  have "\<not> has_prefix s e" "\<not> has_suffix s e" if "e \<in> set space_encodings" for e
  proof -
    have e: "e \<noteq> []" "\<not> list_ex visible e"
      using that by (auto dest: space_encodings_nonempty space_encodings_visible)
    show "\<not> has_prefix s e"
    proof
      assume "has_prefix s e"
      then have "hd e = hd s" using e(1) by (auto simp: has_prefix_iff prefix_def)
      then show False using e assms(2) by (auto simp: list_ex_iff) (metis hd_in_set)
    qed
    show "\<not> has_suffix s e"
    proof
      assume "has_suffix s e"
      then have "last e = last s" using e(1) by (auto simp: has_suffix_iff suffix_def)
      then show False using e assms(3) by (auto simp: list_ex_iff) (metis last_in_set)
    qed
  qed
  then have "find (\<lambda>e. has_prefix s e) space_encodings = None"
      "find (\<lambda>e. has_suffix s e) space_encodings = None"
    by (auto simp: find_None_iff)
  then show ?thesis
    by (simp add: trim_space_id leading_space_def trailing_space_def)
qed

definition is_control :: "nat \<Rightarrow> bool" where
  "is_control r \<longleftrightarrow> r < 32 \<or> (127 \<le> r \<and> r < 160)"

end
