(* ===== verification/Go_Time.thy ===== *)
theory Go_Time
  imports Go_Prelude
begin

text \<open>
  Package time. An instant is a number of nanoseconds since the zero time (1 January of the
  year 1, 00:00 UTC), a duration a 64-bit number of nanoseconds. Calendar dates are those of
  the proleptic Gregorian calendar. The zone of the service is Korea Standard Time: the code
  uses a fixed zone of nine hours and, in some places, the tz database's Asia/Seoul, which
  is the same offset for every instant since October 1988.
\<close>

type_synonym time = int
type_synonym duration = int

abbreviation second_ns :: int where "second_ns \<equiv> 1000000000"
abbreviation minute_ns :: int where "minute_ns \<equiv> 60000000000"
abbreviation hour_ns :: int where "hour_ns \<equiv> 3600000000000"
abbreviation day_ns :: int where "day_ns \<equiv> 86400000000000"

definition is_zero :: "time \<Rightarrow> bool" where "is_zero t \<longleftrightarrow> t = 0"

text \<open>\<open>Time.Sub\<close> saturates at the largest and smallest duration.\<close>

definition time_sub :: "time \<Rightarrow> time \<Rightarrow> duration" where
  "time_sub t u = max int64_min (min int64_max (t - u))"

definition dur_mul :: "duration \<Rightarrow> duration \<Rightarrow> duration" where
  "dur_mul a b = wrap64 (a * b)"

lemma time_sub_le_iff: "d < int64_max \<Longrightarrow> int64_min \<le> d \<Longrightarrow> time_sub t u \<le> d \<longleftrightarrow> t - u \<le> d"
  by (auto simp: time_sub_def)

section \<open>Calendar\<close>

definition kst_offset :: int where "kst_offset = 9 * hour_ns"

text \<open>The number of whole days from 1 January of the year 1 to the instant, in a zone.\<close>

definition day_in :: "int \<Rightarrow> time \<Rightarrow> int" where
  "day_in off t = (t + off) div day_ns"

definition kst_day :: "time \<Rightarrow> int" where
  "kst_day t = day_in kst_offset t"

text \<open>1 January of the year 1 is a Monday; Sunday is 0.\<close>

definition weekday_of_day :: "int \<Rightarrow> int" where
  "weekday_of_day d = (d + 1) mod 7"

text \<open>\<open>time.Date\<close> of a calendar day of the zone, with an hour and a minute.\<close>

definition kst_at :: "int \<Rightarrow> int \<Rightarrow> int \<Rightarrow> time" where
  "kst_at d hour minute = d * day_ns + hour * hour_ns + minute * minute_ns - kst_offset"

text \<open>Year, month and day of a day number.\<close>

definition civil :: "int \<Rightarrow> int \<times> int \<times> int" where
  "civil d =
     (let z = d + 306;
          era = z div 146097;
          doe = z mod 146097;
          yoe = (doe - doe div 1460 + doe div 36524 - doe div 146096) div 365;
          doy = doe - (365 * yoe + yoe div 4 - yoe div 100);
          mp = (5 * doy + 2) div 153;
          dd = doy - (153 * mp + 2) div 5 + 1;
          m = (if mp < 10 then mp + 3 else mp - 9);
          y = yoe + era * 400 + (if m \<le> 2 then 1 else 0)
      in (y, m, dd))"

lemma weekday_range: "0 \<le> weekday_of_day d \<and> weekday_of_day d < 7"
  by (simp add: weekday_of_day_def)

lemma kst_day_at:
  assumes "0 \<le> h" "h \<le> 23" "0 \<le> m" "m \<le> 59"
  shows "kst_day (kst_at d h m) = d"
proof -
  have "0 \<le> h * hour_ns + m * minute_ns" "h * hour_ns + m * minute_ns < day_ns"
    using assms by linarith+
  then have "(h * hour_ns + m * minute_ns) div day_ns = 0"
    by (rule div_pos_pos_trivial)
  moreover have "((h * hour_ns + m * minute_ns) + d * day_ns) div day_ns
      = d + (h * hour_ns + m * minute_ns) div day_ns"
    by (rule div_mult_self1) simp
  moreover have "kst_at d h m + kst_offset = (h * hour_ns + m * minute_ns) + d * day_ns"
    by (simp add: kst_at_def)
  ultimately show ?thesis by (simp only: kst_day_def day_in_def)
qed

lemma kst_day_mono: "t \<le> u \<Longrightarrow> kst_day t \<le> kst_day u"
  by (simp add: kst_day_def day_in_def zdiv_mono1)

lemma kst_at_mono_day: "d \<le> e \<Longrightarrow> kst_at d h m \<le> kst_at e h m"
  by (simp add: kst_at_def)

lemma kst_at_strict_day: "d < e \<Longrightarrow> kst_at d h m < kst_at e h m"
  by (simp add: kst_at_def)

lemma kst_at_next_day: "kst_at (d + k) h m = kst_at d h m + k * day_ns"
  by (simp add: kst_at_def algebra_simps)

text \<open>The instants of a calendar day.\<close>

lemma kst_day_bounds:
  "kst_at (kst_day t) 0 0 \<le> t \<and> t < kst_at (kst_day t) 0 0 + day_ns"
proof -
  have "(t + kst_offset) div day_ns * day_ns \<le> t + kst_offset"
       "t + kst_offset < (t + kst_offset) div day_ns * day_ns + day_ns"
    using minus_mod_eq_div_mult [of "t + kst_offset" day_ns]
      pos_mod_bound [of day_ns "t + kst_offset"] pos_mod_sign [of day_ns "t + kst_offset"]
    by linarith+
  then show ?thesis by (simp add: kst_day_def day_in_def kst_at_def)
qed

lemma kst_at_after_day: "kst_day t < d \<Longrightarrow> 0 \<le> h \<Longrightarrow> 0 \<le> m \<Longrightarrow> t < kst_at d h m"
proof -
  assume "kst_day t < d" "0 \<le> h" "0 \<le> m"
  then have "kst_at (kst_day t + 1) 0 0 \<le> kst_at d h m"
    by (simp add: kst_at_def)
  then show "t < kst_at d h m"
    using kst_day_bounds [of t] by (simp add: kst_at_next_day)
qed

section \<open>Formatting\<close>

definition pad :: "nat \<Rightarrow> int \<Rightarrow> string" where
  "pad n v = (let s = show_int v in replicate (n - length s) CHR ''0'' @ s)"

definition clock_of :: "int \<Rightarrow> time \<Rightarrow> int \<times> int \<times> int" where
  "clock_of off t =
     (let r = (t + off) mod day_ns
      in (r div hour_ns, r mod hour_ns div minute_ns, r mod minute_ns div second_ns))"

definition format_date :: "string \<Rightarrow> int \<Rightarrow> time \<Rightarrow> string" where
  "format_date sep off t =
     (case civil (day_in off t) of (y, m, d) \<Rightarrow> pad 4 y @ sep @ pad 2 m @ sep @ pad 2 d)"

definition format_clock :: "string \<Rightarrow> int \<Rightarrow> time \<Rightarrow> string" where
  "format_clock sep off t =
     (case clock_of off t of (h, m, s) \<Rightarrow> pad 2 h @ sep @ pad 2 m @ sep @ pad 2 s)"

definition format_zone :: "int \<Rightarrow> string" where
  "format_zone off =
     (if off = 0 then ''Z''
      else let a = \<bar>off\<bar> div minute_ns
           in (if off < 0 then ''-'' else ''+'') @ pad 2 (a div 60) @ '':'' @ pad 2 (a mod 60))"

text \<open>The layouts RFC3339 and RFC3339Nano (fraction without trailing zeros).\<close>

definition format_rfc3339 :: "int \<Rightarrow> time \<Rightarrow> string" where
  "format_rfc3339 off t = format_date ''-'' off t @ ''T'' @ format_clock '':'' off t @ format_zone off"

definition fraction :: "time \<Rightarrow> string" where
  "fraction t =
     (let ds = rev (dropWhile (\<lambda>c. c = CHR ''0'') (rev (pad 9 (t mod second_ns))))
      in if ds = [] then [] else CHR ''.'' # ds)"

definition format_rfc3339_nano :: "int \<Rightarrow> time \<Rightarrow> string" where
  "format_rfc3339_nano off t =
     format_date ''-'' off t @ ''T'' @ format_clock '':'' off t @ fraction t @ format_zone off"

text \<open>A time value as it is stored: the instant and the offset of its location.\<close>

record ztime =
  z_inst :: time
  z_off :: int

definition zt_zero :: ztime where "zt_zero = \<lparr>z_inst = 0, z_off = 0\<rparr>"

definition zt_weekday :: "ztime \<Rightarrow> int" where
  "zt_weekday z = weekday_of_day (day_in (z_off z) (z_inst z))"

section \<open>Early returns\<close>

text \<open>A statement of a function body either returns (\<open>Inl\<close>) or continues with a value.\<close>

definition early :: "('r + 'a) \<Rightarrow> ('a \<Rightarrow> 'r + 'b) \<Rightarrow> 'r + 'b" where
  "early m f = (case m of Inl r \<Rightarrow> Inl r | Inr a \<Rightarrow> f a)"

lemma early_simps [simp, go_simps]: "early (Inl r) f = Inl r" "early (Inr a) f = f a"
  by (simp_all add: early_def)

lemma early_Inr: "early m f = Inr b \<longleftrightarrow> (\<exists>a. m = Inr a \<and> f a = Inr b)"
  by (cases m) simp_all

definition body_result :: "('r + 'r) \<Rightarrow> 'r" where
  "body_result m = (case m of Inl r \<Rightarrow> r | Inr r \<Rightarrow> r)"

lemma body_result_simps [simp, go_simps]: "body_result (Inl r) = r" "body_result (Inr r) = r"
  by (simp_all add: body_result_def)

end
