(* ===== verification/Notice.thy ===== *)
theory Notice
  imports Go_Utf8 Go_Time
begin

text \<open>
  internal/model/notice.go: the notice record, its normalisation and validation, and the two
  content hashes that identify a notice and one revision of it. The Unicode normal form
  (golang.org/x/text) and the SHA-256 digest, printed in hexadecimal, are the parameters
  \<open>nfc\<close> and \<open>sha\<close>.
\<close>

record notice =
  n_category :: string
  n_bid_number :: string
  n_bid_sequence :: string
  n_title :: string
  n_agency :: string
  n_region :: string
  n_source_url :: string
  n_amount :: int
  n_posted_at :: ztime
  n_deadline :: ztime
  n_raw_json :: string

definition CategoryConstruction :: string where "CategoryConstruction = ''construction''"
definition CategoryService :: string where "CategoryService = ''service''"
definition CategoryGoods :: string where "CategoryGoods = ''goods''"
definition CategoryForeign :: string where "CategoryForeign = ''foreign''"

definition NormalizeText :: "(string \<Rightarrow> string) \<Rightarrow> string \<Rightarrow> string" where
  "NormalizeText nfc v = trim_space (nfc v)"

text \<open>The field of the \<open>SourceValidationError\<close>, or nil.\<close>

definition ValidateSource :: "(string \<Rightarrow> string) \<Rightarrow> notice \<Rightarrow> string option" where
  "ValidateSource nfc n =
     (if n_category n \<noteq> CategoryConstruction \<and> n_category n \<noteq> CategoryService \<and>
         n_category n \<noteq> CategoryGoods \<and> n_category n \<noteq> CategoryForeign then Some ''category''
      else if NormalizeText nfc (n_bid_number n) = [] then Some ''bid number''
      else if NormalizeText nfc (n_bid_sequence n) = [] then Some ''bid sequence''
      else if NormalizeText nfc (n_title n) = [] then Some ''title''
      else None)"

definition hash :: "(string \<Rightarrow> string) \<Rightarrow> string list \<Rightarrow> string" where
  "hash sha vs = sha (str_join [CHR 0x00] vs)"

definition Identity :: "(string \<Rightarrow> string) \<Rightarrow> (string \<Rightarrow> string) \<Rightarrow> notice \<Rightarrow> string" where
  "Identity nfc sha n =
     (if ValidateSource nfc n \<noteq> None then []
      else hash sha [n_category n, NormalizeText nfc (n_bid_number n),
                     NormalizeText nfc (n_bid_sequence n)])"

definition revisionRawJSON :: "string \<Rightarrow> string" where
  "revisionRawJSON raw = (let v = trim_space raw in if v = ''null'' then [] else v)"

definition Revision :: "(string \<Rightarrow> string) \<Rightarrow> (string \<Rightarrow> string) \<Rightarrow> notice \<Rightarrow> string" where
  "Revision nfc sha n =
     (if Identity nfc sha n = [] then []
      else hash sha
        [Identity nfc sha n, NormalizeText nfc (n_title n), NormalizeText nfc (n_agency n),
         NormalizeText nfc (n_region n), show_int (n_amount n), NormalizeText nfc (n_source_url n),
         format_rfc3339_nano 0 (z_inst (n_posted_at n)), format_rfc3339_nano 0 (z_inst (n_deadline n)),
         revisionRawJSON (n_raw_json n)])"

section \<open>Joined fields\<close>

lemma str_join_inj:
  assumes "length xs = length ys" "xs \<noteq> []"
    and "\<forall>x \<in> set xs. c \<notin> set x" "\<forall>y \<in> set ys. c \<notin> set y"
    and "str_join [c] xs = str_join [c] ys"
  shows "xs = ys"
  using assms
proof (induction xs ys rule: list_induct2)
  case (Cons x xs y ys)
  have cut: "a = b \<and> s = t" if "a @ c # s = b @ c # t" "c \<notin> set a" "c \<notin> set b" for a b s t
    using that by (auto simp: append_eq_append_conv2 append_eq_Cons_conv Cons_eq_append_conv)
  show ?case
  proof (cases xs)
    case Nil
    with Cons show ?thesis by (cases ys) auto
  next
    case (Cons x' xs')
    with \<open>length xs = length ys\<close> obtain y' ys' where ys: "ys = y' # ys'" by (cases ys) auto
    from Cons ys Cons.prems(4) have "x @ c # str_join [c] xs = y @ c # str_join [c] ys" by simp
    then have "x = y" "str_join [c] xs = str_join [c] ys"
      using cut [of x "str_join [c] xs" y "str_join [c] ys"] Cons.prems(2,3) by auto
    with Cons.IH Cons Cons.prems(2,3) show ?thesis by auto
  qed
qed simp

section \<open>Validation\<close>

lemma ValidateSource_None_iff:
  "ValidateSource nfc n = None \<longleftrightarrow>
     n_category n \<in> {CategoryConstruction, CategoryService, CategoryGoods, CategoryForeign} \<and>
     NormalizeText nfc (n_bid_number n) \<noteq> [] \<and> NormalizeText nfc (n_bid_sequence n) \<noteq> [] \<and>
     NormalizeText nfc (n_title n) \<noteq> []"
  by (auto simp: ValidateSource_def)

lemma category_no_nul:
  "ValidateSource nfc n = None \<Longrightarrow> CHR 0x00 \<notin> set (n_category n)"
  by (auto simp: ValidateSource_None_iff CategoryConstruction_def CategoryService_def
      CategoryGoods_def CategoryForeign_def)

lemma Identity_valid:
  "ValidateSource nfc n = None \<Longrightarrow>
   Identity nfc sha n = hash sha [n_category n, NormalizeText nfc (n_bid_number n),
                                  NormalizeText nfc (n_bid_sequence n)]"
  by (simp add: Identity_def)

text \<open>The identity ignores everything but the category and the two bid fields.\<close>

lemma Identity_frame:
  assumes "n_category m = n_category n" "n_bid_number m = n_bid_number n"
    "n_bid_sequence m = n_bid_sequence n"
    "(NormalizeText nfc (n_title m) = []) = (NormalizeText nfc (n_title n) = [])"
  shows "Identity nfc sha m = Identity nfc sha n"
  using assms by (simp add: Identity_def ValidateSource_def)

definition identity_text :: "(string \<Rightarrow> string) \<Rightarrow> notice \<Rightarrow> string" where
  "identity_text nfc n =
     str_join [CHR 0x00] [n_category n, NormalizeText nfc (n_bid_number n),
                          NormalizeText nfc (n_bid_sequence n)]"

text \<open>
  The identity hash names one announcement. For two valid notices whose bid number and
  sequence hold no NUL byte, and a digest that does not collide on their two inputs, the
  identities agree exactly when category, normalised bid number and normalised bid sequence
  agree; title, region, amount and dates never enter.
\<close>

theorem identity_separates:
  assumes "ValidateSource nfc m = None" "ValidateSource nfc n = None"
    and "CHR 0x00 \<notin> set (NormalizeText nfc (n_bid_number m) @ NormalizeText nfc (n_bid_sequence m))"
    and "CHR 0x00 \<notin> set (NormalizeText nfc (n_bid_number n) @ NormalizeText nfc (n_bid_sequence n))"
    and "inj_on sha {identity_text nfc m, identity_text nfc n}"
  shows "Identity nfc sha m = Identity nfc sha n \<longleftrightarrow>
    n_category m = n_category n \<and>
    NormalizeText nfc (n_bid_number m) = NormalizeText nfc (n_bid_number n) \<and>
    NormalizeText nfc (n_bid_sequence m) = NormalizeText nfc (n_bid_sequence n)"
proof
  assume "Identity nfc sha m = Identity nfc sha n"
  then have "sha (identity_text nfc m) = sha (identity_text nfc n)"
    using assms(1,2) by (simp add: Identity_valid hash_def identity_text_def)
  then have "identity_text nfc m = identity_text nfc n"
    by (rule inj_onD [OF assms(5)]) simp_all
  then have eq: "str_join [CHR 0x00] [n_category m, NormalizeText nfc (n_bid_number m), NormalizeText nfc (n_bid_sequence m)]
      = str_join [CHR 0x00] [n_category n, NormalizeText nfc (n_bid_number n), NormalizeText nfc (n_bid_sequence n)]"
    (is "str_join _ ?xs = str_join _ ?ys") unfolding identity_text_def by assumption
  have nul: "\<forall>x \<in> set ?xs. CHR 0x00 \<notin> set x" "\<forall>y \<in> set ?ys. CHR 0x00 \<notin> set y"
    using assms(3,4) category_no_nul [OF assms(1)] category_no_nul [OF assms(2)] by simp_all
  have "?xs = ?ys" by (rule str_join_inj [OF _ _ nul eq]) simp_all
  then show "n_category m = n_category n \<and>
    NormalizeText nfc (n_bid_number m) = NormalizeText nfc (n_bid_number n) \<and>
    NormalizeText nfc (n_bid_sequence m) = NormalizeText nfc (n_bid_sequence n)" by simp
qed (use assms(1,2) in \<open>simp add: Identity_valid\<close>)

definition sample_notice :: notice where
  "sample_notice = \<lparr>n_category = ''goods'', n_bid_number = ''R26BK1'', n_bid_sequence = ''000'',
     n_title = ''Desks'', n_agency = ''Office'', n_region = [], n_source_url = [],
     n_amount = 42000000, n_posted_at = zt_zero, n_deadline = zt_zero, n_raw_json = ''{}''\<rparr>"

lemma sample_fields:
  "NormalizeText id (n_bid_number sample_notice) = ''R26BK1''"
  "NormalizeText id (n_bid_sequence sample_notice) = ''000''"
  "NormalizeText id (n_title sample_notice) = ''Desks''"
  by (simp_all add: NormalizeText_def sample_notice_def trim_space_visible visible_def byte_def)

lemma sample_valid: "ValidateSource id sample_notice = None"
  by (simp add: ValidateSource_None_iff sample_fields)
    (simp add: sample_notice_def CategoryGoods_def)

theorem identity_separates_witness:
  "Identity id id (sample_notice\<lparr>n_amount := 7\<rparr>) = Identity id id sample_notice"
proof -
  have "ValidateSource id (sample_notice\<lparr>n_amount := 7\<rparr>) = None"
    using sample_valid by (simp add: ValidateSource_None_iff)
  then show ?thesis
    using identity_separates [of id "sample_notice\<lparr>n_amount := 7\<rparr>" sample_notice id]
    by (simp add: sample_valid sample_fields)
qed

end
