(* ===== verification/Matcher.thy ===== *)
theory Matcher
  imports Notice
begin

text \<open>
  internal/matcher/matcher.go: the filter rule of a customer, the evaluation of a notice
  against it, and the reasons that are stored with a match. Unicode normal form and case
  folding (golang.org/x/text) are the parameters \<open>nfc\<close> and \<open>cf\<close>.
\<close>

datatype reason =
    ReasonIncludeAny | ReasonIncludeAll | ReasonExcluded | ReasonCategory | ReasonAgency
  | ReasonRegion | ReasonMinAmount | ReasonMaxAmount | ReasonDeadlineWeekday
  | ReasonDeadlineWithinDays | ReasonInvalidDeadline

fun reason_code :: "reason \<Rightarrow> string" where
  "reason_code ReasonIncludeAny = ''include_any''"
| "reason_code ReasonIncludeAll = ''include_all''"
| "reason_code ReasonExcluded = ''excluded''"
| "reason_code ReasonCategory = ''category''"
| "reason_code ReasonAgency = ''agency''"
| "reason_code ReasonRegion = ''region''"
| "reason_code ReasonMinAmount = ''min_amount''"
| "reason_code ReasonMaxAmount = ''max_amount''"
| "reason_code ReasonDeadlineWeekday = ''deadline_weekday''"
| "reason_code ReasonDeadlineWithinDays = ''deadline_within_days''"
| "reason_code ReasonInvalidDeadline = ''invalid_deadline''"

record rule =
  IncludeAny :: "string list"
  IncludeAll :: "string list"
  Exclude :: "string list"
  Categories :: "string list"
  Agencies :: "string list"
  Regions :: "string list"
  MinAmount :: "int option"
  MaxAmount :: "int option"
  DeadlineWeekdays :: "int list"
  DeadlineWithinDays :: "int option"

record detail =
  Code :: reason
  Field :: string
  RuleValue :: string
  NoticeValue :: string

record match_result =
  Matched :: bool
  Reasons :: "reason list"
  Details :: "detail list"

definition no_result :: match_result where
  "no_result = \<lparr>Matched = False, Reasons = [], Details = []\<rparr>"

section \<open>Terms and fields\<close>

definition contains_folded :: "(string \<Rightarrow> string) \<Rightarrow> (string \<Rightarrow> string) \<Rightarrow> string \<Rightarrow> string \<Rightarrow> bool" where
  "contains_folded nfc cf v term = str_contains (cf (NormalizeText nfc v)) (cf (NormalizeText nfc term))"

definition hasTerms :: "string list \<Rightarrow> bool" where
  "hasTerms terms = list_ex (\<lambda>term. trim_space term \<noteq> []) terms"

fun matchingTerm :: "(string \<Rightarrow> string) \<Rightarrow> (string \<Rightarrow> string) \<Rightarrow> string \<Rightarrow> string list \<Rightarrow> string option" where
  "matchingTerm nfc cf v [] = None"
| "matchingTerm nfc cf v (term # terms) =
     (if trim_space term \<noteq> [] \<and> contains_folded nfc cf v term then Some term
      else matchingTerm nfc cf v terms)"

definition keyword_fields :: "notice \<Rightarrow> (string \<times> string) list" where
  "keyword_fields n = [(''title'', n_title n), (''agency'', n_agency n), (''region'', n_region n)]"

fun keywordMatch :: "(string \<Rightarrow> string) \<Rightarrow> (string \<Rightarrow> string) \<Rightarrow> notice \<Rightarrow> string list \<Rightarrow> (string \<times> string) option" where
  "keywordMatch nfc cf n [] = None"
| "keywordMatch nfc cf n (term # terms) =
     (if trim_space term = [] then keywordMatch nfc cf n terms
      else (case find (\<lambda>f. contains_folded nfc cf (snd f) term) (keyword_fields n) of
              Some f \<Rightarrow> Some (fst f, term)
            | None \<Rightarrow> keywordMatch nfc cf n terms))"

definition detailValue :: "notice \<Rightarrow> string \<Rightarrow> string" where
  "detailValue n field =
     (if field = ''title'' then n_title n
      else if field = ''agency'' then n_agency n
      else if field = ''region'' then n_region n
      else if field = ''category'' then n_category n
      else if field = ''amount'' then show_int (n_amount n)
      else if field = ''deadline'' then format_rfc3339 (z_off (n_deadline n)) (z_inst (n_deadline n))
      else [])"

definition weekday_name :: "int \<Rightarrow> string" where
  "weekday_name d =
     (if d = 0 then ''Sunday'' else if d = 1 then ''Monday'' else if d = 2 then ''Tuesday''
      else if d = 3 then ''Wednesday'' else if d = 4 then ''Thursday'' else if d = 5 then ''Friday''
      else if d = 6 then ''Saturday''
      else ''%!Weekday('' @ show_int (if d < 0 then d + 2 ^ 64 else d) @ '')'')"

definition weekdays :: "int list \<Rightarrow> string list" where
  "weekdays ds = map weekday_name ds"

definition hasCategory :: "string \<Rightarrow> string list \<Rightarrow> bool" where
  "hasCategory want categories = list_ex (\<lambda>c. want = c) categories"

definition hasWeekday :: "int \<Rightarrow> int list \<Rightarrow> bool" where
  "hasWeekday want ds = list_ex (\<lambda>d. want = d) ds"

section \<open>Evaluation\<close>

definition add_reason :: "notice \<Rightarrow> reason \<Rightarrow> string \<Rightarrow> string \<Rightarrow> match_result \<Rightarrow> match_result" where
  "add_reason n code field v r =
     r\<lparr>Reasons := Reasons r @ [code],
       Details := Details r @ [\<lparr>Code = code, Field = field, RuleValue = v, NoticeValue = detailValue n field\<rparr>]\<rparr>"

text \<open>The blocks of \<open>MatchAt\<close>, in order; each returns early or extends the result.\<close>

definition stage_include_any :: "(string \<Rightarrow> string) \<Rightarrow> (string \<Rightarrow> string) \<Rightarrow> notice \<Rightarrow> rule \<Rightarrow> match_result \<Rightarrow> match_result + match_result" where
  "stage_include_any nfc cf n rl r =
     (if hasTerms (IncludeAny rl) then
        (case keywordMatch nfc cf n (IncludeAny rl) of
           None \<Rightarrow> Inl no_result
         | Some (field, term) \<Rightarrow> Inr (add_reason n ReasonIncludeAny field term r))
      else Inr r)"

fun include_all_loop :: "(string \<Rightarrow> string) \<Rightarrow> (string \<Rightarrow> string) \<Rightarrow> notice \<Rightarrow> string list \<Rightarrow> match_result \<Rightarrow> match_result + match_result" where
  "include_all_loop nfc cf n [] r = Inr r"
| "include_all_loop nfc cf n (term # terms) r =
     (case keywordMatch nfc cf n [term] of
        None \<Rightarrow> (if trim_space term \<noteq> [] then Inl no_result else include_all_loop nfc cf n terms r)
      | Some (field, v) \<Rightarrow>
          include_all_loop nfc cf n terms
            (if trim_space term \<noteq> [] then add_reason n ReasonIncludeAll field v r else r))"

definition stage_include_all :: "(string \<Rightarrow> string) \<Rightarrow> (string \<Rightarrow> string) \<Rightarrow> notice \<Rightarrow> rule \<Rightarrow> match_result \<Rightarrow> match_result + match_result" where
  "stage_include_all nfc cf n rl r =
     (if hasTerms (IncludeAll rl) then include_all_loop nfc cf n (IncludeAll rl) r else Inr r)"

definition stage_category :: "notice \<Rightarrow> rule \<Rightarrow> match_result \<Rightarrow> match_result + match_result" where
  "stage_category n rl r =
     (if Categories rl \<noteq> [] then
        (if \<not> hasCategory (n_category n) (Categories rl) then Inl no_result
         else Inr (add_reason n ReasonCategory ''category'' (n_category n) r))
      else Inr r)"

definition stage_agency :: "(string \<Rightarrow> string) \<Rightarrow> (string \<Rightarrow> string) \<Rightarrow> notice \<Rightarrow> rule \<Rightarrow> match_result \<Rightarrow> match_result + match_result" where
  "stage_agency nfc cf n rl r =
     (if hasTerms (Agencies rl) then
        (case matchingTerm nfc cf (n_agency n) (Agencies rl) of
           None \<Rightarrow> Inl no_result
         | Some term \<Rightarrow> Inr (add_reason n ReasonAgency ''agency'' term r))
      else Inr r)"

definition stage_region :: "(string \<Rightarrow> string) \<Rightarrow> (string \<Rightarrow> string) \<Rightarrow> notice \<Rightarrow> rule \<Rightarrow> match_result \<Rightarrow> match_result + match_result" where
  "stage_region nfc cf n rl r =
     (if hasTerms (Regions rl) then
        (case matchingTerm nfc cf (n_region n) (Regions rl) of
           None \<Rightarrow> Inl no_result
         | Some term \<Rightarrow> Inr (add_reason n ReasonRegion ''region'' term r))
      else Inr r)"

definition stage_min :: "notice \<Rightarrow> rule \<Rightarrow> match_result \<Rightarrow> match_result + match_result" where
  "stage_min n rl r =
     (case MinAmount rl of None \<Rightarrow> Inr r
      | Some m \<Rightarrow> if n_amount n < m then Inl no_result
                  else Inr (add_reason n ReasonMinAmount ''amount'' (show_int m) r))"

definition stage_max :: "notice \<Rightarrow> rule \<Rightarrow> match_result \<Rightarrow> match_result + match_result" where
  "stage_max n rl r =
     (case MaxAmount rl of None \<Rightarrow> Inr r
      | Some m \<Rightarrow> if n_amount n > m then Inl no_result
                  else Inr (add_reason n ReasonMaxAmount ''amount'' (show_int m) r))"

definition invalid_deadline :: "string \<Rightarrow> match_result" where
  "invalid_deadline v =
     \<lparr>Matched = False, Reasons = [ReasonInvalidDeadline],
      Details = [\<lparr>Code = ReasonInvalidDeadline, Field = ''deadline'', RuleValue = v, NoticeValue = []\<rparr>]\<rparr>"

definition stage_weekday :: "notice \<Rightarrow> rule \<Rightarrow> match_result \<Rightarrow> match_result + match_result" where
  "stage_weekday n rl r =
     (if DeadlineWeekdays rl \<noteq> [] then
        (let v = str_join '','' (weekdays (DeadlineWeekdays rl))
         in if is_zero (z_inst (n_deadline n)) then Inl (invalid_deadline v)
            else if \<not> hasWeekday (zt_weekday (n_deadline n)) (DeadlineWeekdays rl) then Inl no_result
            else Inr (add_reason n ReasonDeadlineWeekday ''deadline'' v r))
      else Inr r)"

definition within_duration :: "int \<Rightarrow> duration" where
  "within_duration days = dur_mul (dur_mul days 24) hour_ns"

definition stage_within :: "time \<Rightarrow> notice \<Rightarrow> rule \<Rightarrow> match_result \<Rightarrow> match_result + match_result" where
  "stage_within now n rl r =
     (case DeadlineWithinDays rl of None \<Rightarrow> Inr r
      | Some days \<Rightarrow>
          if is_zero (z_inst (n_deadline n)) then Inl (invalid_deadline (show_int days))
          else if z_inst (n_deadline n) < now \<or>
                  time_sub (z_inst (n_deadline n)) now > within_duration days then Inl no_result
          else Inr (add_reason n ReasonDeadlineWithinDays ''deadline'' (show_int days) r))"

definition MatchAt :: "(string \<Rightarrow> string) \<Rightarrow> (string \<Rightarrow> string) \<Rightarrow> time \<Rightarrow> notice \<Rightarrow> rule \<Rightarrow> match_result" where
  "MatchAt nfc cf now n rl =
     (case keywordMatch nfc cf n (Exclude rl) of
        Some (field, term) \<Rightarrow>
          \<lparr>Matched = False, Reasons = [ReasonExcluded],
           Details = [\<lparr>Code = ReasonExcluded, Field = field, RuleValue = term, NoticeValue = detailValue n field\<rparr>]\<rparr>
      | None \<Rightarrow>
          body_result
            (early (stage_include_any nfc cf n rl no_result) (\<lambda>r.
             early (stage_include_all nfc cf n rl r) (\<lambda>r.
             early (stage_category n rl r) (\<lambda>r.
             early (stage_agency nfc cf n rl r) (\<lambda>r.
             early (stage_region nfc cf n rl r) (\<lambda>r.
             early (stage_min n rl r) (\<lambda>r.
             early (stage_max n rl r) (\<lambda>r.
             early (stage_weekday n rl r) (\<lambda>r.
             early (stage_within now n rl r) (\<lambda>r.
             Inr (r\<lparr>Matched := True\<rparr>))))))))))))"

lemmas stage_defs = stage_include_any_def stage_include_all_def stage_category_def stage_agency_def
  stage_region_def stage_min_def stage_max_def stage_weekday_def stage_within_def

section \<open>The rule as a condition\<close>

text \<open>What the rule means, without order, early returns or reasons.\<close>

definition term_hits :: "(string \<Rightarrow> string) \<Rightarrow> (string \<Rightarrow> string) \<Rightarrow> notice \<Rightarrow> string \<Rightarrow> bool" where
  "term_hits nfc cf n term \<longleftrightarrow>
     trim_space term \<noteq> [] \<and>
     (contains_folded nfc cf (n_title n) term \<or> contains_folded nfc cf (n_agency n) term \<or>
      contains_folded nfc cf (n_region n) term)"

definition field_hits :: "(string \<Rightarrow> string) \<Rightarrow> (string \<Rightarrow> string) \<Rightarrow> string \<Rightarrow> string list \<Rightarrow> bool" where
  "field_hits nfc cf v terms \<longleftrightarrow>
     (hasTerms terms \<longrightarrow> (\<exists>term \<in> set terms. trim_space term \<noteq> [] \<and> contains_folded nfc cf v term))"

definition rule_holds :: "(string \<Rightarrow> string) \<Rightarrow> (string \<Rightarrow> string) \<Rightarrow> time \<Rightarrow> notice \<Rightarrow> rule \<Rightarrow> bool" where
  "rule_holds nfc cf now n rl \<longleftrightarrow>
     (\<forall>term \<in> set (Exclude rl). \<not> term_hits nfc cf n term) \<and>
     (hasTerms (IncludeAny rl) \<longrightarrow> (\<exists>term \<in> set (IncludeAny rl). term_hits nfc cf n term)) \<and>
     (\<forall>term \<in> set (IncludeAll rl). trim_space term \<noteq> [] \<longrightarrow> term_hits nfc cf n term) \<and>
     (Categories rl \<noteq> [] \<longrightarrow> n_category n \<in> set (Categories rl)) \<and>
     field_hits nfc cf (n_agency n) (Agencies rl) \<and>
     field_hits nfc cf (n_region n) (Regions rl) \<and>
     (\<forall>m. MinAmount rl = Some m \<longrightarrow> m \<le> n_amount n) \<and>
     (\<forall>m. MaxAmount rl = Some m \<longrightarrow> n_amount n \<le> m) \<and>
     (DeadlineWeekdays rl \<noteq> [] \<longrightarrow>
        z_inst (n_deadline n) \<noteq> 0 \<and> zt_weekday (n_deadline n) \<in> set (DeadlineWeekdays rl)) \<and>
     (\<forall>days. DeadlineWithinDays rl = Some days \<longrightarrow>
        z_inst (n_deadline n) \<noteq> 0 \<and> now \<le> z_inst (n_deadline n) \<and>
        time_sub (z_inst (n_deadline n)) now \<le> within_duration days)"

lemma keywordMatch_None_iff:
  "keywordMatch nfc cf n terms = None \<longleftrightarrow> (\<forall>term \<in> set terms. \<not> term_hits nfc cf n term)"
  by (induction terms) (auto simp: term_hits_def keyword_fields_def split: option.splits if_splits)

lemma keywordMatch_hit:
  "keywordMatch nfc cf n terms = Some (field, term) \<Longrightarrow>
     term \<in> set terms \<and> trim_space term \<noteq> [] \<and>
     (\<exists>v. (field, v) \<in> set (keyword_fields n) \<and> contains_folded nfc cf v term)"
proof (induction terms)
  case (Cons t ts)
  then show ?case
    by (auto simp: keyword_fields_def split: if_splits option.splits)
qed simp

lemma matchingTerm_None_iff:
  "matchingTerm nfc cf v terms = None \<longleftrightarrow>
     (\<forall>term \<in> set terms. \<not> (trim_space term \<noteq> [] \<and> contains_folded nfc cf v term))"
  by (induction terms) auto

lemma include_all_loop_Inl: "include_all_loop nfc cf n terms r = Inl x \<Longrightarrow> x = no_result"
  by (induction terms arbitrary: r) (auto split: option.splits if_splits)

lemma include_all_loop_Inr:
  "(\<exists>x. include_all_loop nfc cf n terms r = Inr x) \<longleftrightarrow>
     (\<forall>term \<in> set terms. trim_space term \<noteq> [] \<longrightarrow> term_hits nfc cf n term)"
proof (induction terms arbitrary: r)
  case (Cons t ts)
  show ?case
  proof (cases "keywordMatch nfc cf n [t]")
    case None
    then have "\<not> term_hits nfc cf n t" by (simp only: keywordMatch_None_iff) simp
    with None Cons show ?thesis by (simp del: keywordMatch.simps)
  next
    case (Some p)
    then have "term_hits nfc cf n t"
      using keywordMatch_None_iff [of nfc cf n "[t]"] by simp
    with Some Cons show ?thesis by (cases p) (simp del: keywordMatch.simps)
  qed
qed simp

text \<open>Every early return of a stage is an unmatched result.\<close>

lemma stage_Inl_unmatched:
  "stage_include_any nfc cf n rl r = Inl x \<Longrightarrow> \<not> Matched x"
  "stage_include_all nfc cf n rl r = Inl x \<Longrightarrow> \<not> Matched x"
  "stage_category n rl r = Inl x \<Longrightarrow> \<not> Matched x"
  "stage_agency nfc cf n rl r = Inl x \<Longrightarrow> \<not> Matched x"
  "stage_region nfc cf n rl r = Inl x \<Longrightarrow> \<not> Matched x"
  "stage_min n rl r = Inl x \<Longrightarrow> \<not> Matched x"
  "stage_max n rl r = Inl x \<Longrightarrow> \<not> Matched x"
  "stage_weekday n rl r = Inl x \<Longrightarrow> \<not> Matched x"
  "stage_within now n rl r = Inl x \<Longrightarrow> \<not> Matched x"
  by (auto simp: stage_defs no_result_def invalid_deadline_def Let_def
      dest!: include_all_loop_Inl split: if_splits option.splits)

text \<open>A stage continues exactly when its condition holds.\<close>

lemma stage_Inr_iff:
  "(\<exists>x. stage_include_any nfc cf n rl r = Inr x) \<longleftrightarrow>
     (hasTerms (IncludeAny rl) \<longrightarrow> (\<exists>term \<in> set (IncludeAny rl). term_hits nfc cf n term))"
  "(\<exists>x. stage_include_all nfc cf n rl r = Inr x) \<longleftrightarrow>
     (\<forall>term \<in> set (IncludeAll rl). trim_space term \<noteq> [] \<longrightarrow> term_hits nfc cf n term)"
  "(\<exists>x. stage_category n rl r = Inr x) \<longleftrightarrow>
     (Categories rl \<noteq> [] \<longrightarrow> n_category n \<in> set (Categories rl))"
  "(\<exists>x. stage_agency nfc cf n rl r = Inr x) \<longleftrightarrow> field_hits nfc cf (n_agency n) (Agencies rl)"
  "(\<exists>x. stage_region nfc cf n rl r = Inr x) \<longleftrightarrow> field_hits nfc cf (n_region n) (Regions rl)"
  "(\<exists>x. stage_min n rl r = Inr x) \<longleftrightarrow> (\<forall>m. MinAmount rl = Some m \<longrightarrow> m \<le> n_amount n)"
  "(\<exists>x. stage_max n rl r = Inr x) \<longleftrightarrow> (\<forall>m. MaxAmount rl = Some m \<longrightarrow> n_amount n \<le> m)"
  "(\<exists>x. stage_weekday n rl r = Inr x) \<longleftrightarrow>
     (DeadlineWeekdays rl \<noteq> [] \<longrightarrow>
        z_inst (n_deadline n) \<noteq> 0 \<and> zt_weekday (n_deadline n) \<in> set (DeadlineWeekdays rl))"
  "(\<exists>x. stage_within now n rl r = Inr x) \<longleftrightarrow>
     (\<forall>days. DeadlineWithinDays rl = Some days \<longrightarrow>
        z_inst (n_deadline n) \<noteq> 0 \<and> now \<le> z_inst (n_deadline n) \<and>
        time_sub (z_inst (n_deadline n)) now \<le> within_duration days)"
  subgoal using keywordMatch_None_iff [of nfc cf n "IncludeAny rl"]
    by (auto simp: stage_include_any_def split: option.splits)
  subgoal
    by (auto simp: stage_include_all_def include_all_loop_Inr hasTerms_def list_ex_iff)
  subgoal by (auto simp: stage_category_def hasCategory_def list_ex_iff)
  subgoal using matchingTerm_None_iff [of nfc cf "n_agency n" "Agencies rl"]
    by (auto simp: stage_agency_def field_hits_def split: option.splits)
  subgoal using matchingTerm_None_iff [of nfc cf "n_region n" "Regions rl"]
    by (auto simp: stage_region_def field_hits_def split: option.splits)
  subgoal by (auto simp: stage_min_def split: option.splits)
  subgoal by (auto simp: stage_max_def split: option.splits)
  subgoal by (auto simp: stage_weekday_def hasWeekday_def is_zero_def list_ex_iff Let_def)
  subgoal by (auto simp: stage_within_def is_zero_def split: option.splits)
  done

text \<open>The reasons and the details of every stage stay in step, and no stage excludes.\<close>

definition explained :: "match_result \<Rightarrow> bool" where
  "explained r \<longleftrightarrow> Reasons r = map Code (Details r) \<and> ReasonExcluded \<notin> set (Reasons r)"

lemma explained_simps [simp]:
  "explained no_result" "explained (invalid_deadline v)"
  "explained (r\<lparr>Matched := b\<rparr>) = explained r"
  by (simp_all add: explained_def no_result_def invalid_deadline_def)

lemma explained_add_reason [simp]:
  "c \<noteq> ReasonExcluded \<Longrightarrow> explained (add_reason n c f v r) = explained r"
  by (auto simp: explained_def add_reason_def)

definition sum_explained :: "match_result + match_result \<Rightarrow> bool" where
  "sum_explained m = explained (body_result m)"

lemma sum_explained_simps [simp]:
  "sum_explained (Inl r) = explained r" "sum_explained (Inr r) = explained r"
  by (simp_all add: sum_explained_def)

lemma sum_explained_early:
  "sum_explained m \<Longrightarrow> (\<And>r. explained r \<Longrightarrow> sum_explained (f r)) \<Longrightarrow> sum_explained (early m f)"
  by (cases m) simp_all

lemma include_all_loop_explained:
  "explained r \<Longrightarrow> sum_explained (include_all_loop nfc cf n terms r)"
  by (induction terms arbitrary: r) (auto split: option.splits)

lemma stage_explained:
  assumes "explained r"
  shows "sum_explained (stage_include_any nfc cf n rl r)" "sum_explained (stage_include_all nfc cf n rl r)"
    "sum_explained (stage_category n rl r)" "sum_explained (stage_agency nfc cf n rl r)"
    "sum_explained (stage_region nfc cf n rl r)" "sum_explained (stage_min n rl r)"
    "sum_explained (stage_max n rl r)" "sum_explained (stage_weekday n rl r)"
    "sum_explained (stage_within now n rl r)"
  using assms include_all_loop_explained
  by (auto simp: stage_defs Let_def split: option.splits)

section \<open>Properties\<close>

lemma early_const:
  assumes "\<And>x. m = Inl x \<Longrightarrow> \<not> Matched x" and "(\<exists>x. m = Inr x) \<longleftrightarrow> A"
    and "\<And>x. m = Inr x \<Longrightarrow> Matched (body_result (f x)) \<longleftrightarrow> Q"
  shows "Matched (body_result (early m f)) \<longleftrightarrow> A \<and> Q"
  using assms by (cases m) auto

text \<open>
  C16: \<open>MatchAt\<close> decides the rule. A notice matches exactly when no exclusion term hits it, some
  include-any term hits (if the rule has any), every include-all term hits, category, agency,
  region and amount bounds hold, and the deadline conditions hold; blank terms never count.
\<close>

theorem MatchAt_iff_rule_holds:
  "Matched (MatchAt nfc cf now n rl) \<longleftrightarrow> rule_holds nfc cf now n rl"
proof (cases "keywordMatch nfc cf n (Exclude rl)")
  case None
  then have excl: "\<forall>term \<in> set (Exclude rl). \<not> term_hits nfc cf n term"
    by (simp add: keywordMatch_None_iff)
  have "Matched (MatchAt nfc cf now n rl) \<longleftrightarrow>
     (hasTerms (IncludeAny rl) \<longrightarrow> (\<exists>term \<in> set (IncludeAny rl). term_hits nfc cf n term)) \<and>
     (\<forall>term \<in> set (IncludeAll rl). trim_space term \<noteq> [] \<longrightarrow> term_hits nfc cf n term) \<and>
     (Categories rl \<noteq> [] \<longrightarrow> n_category n \<in> set (Categories rl)) \<and>
     field_hits nfc cf (n_agency n) (Agencies rl) \<and> field_hits nfc cf (n_region n) (Regions rl) \<and>
     (\<forall>m. MinAmount rl = Some m \<longrightarrow> m \<le> n_amount n) \<and>
     (\<forall>m. MaxAmount rl = Some m \<longrightarrow> n_amount n \<le> m) \<and>
     (DeadlineWeekdays rl \<noteq> [] \<longrightarrow>
        z_inst (n_deadline n) \<noteq> 0 \<and> zt_weekday (n_deadline n) \<in> set (DeadlineWeekdays rl)) \<and>
     (\<forall>days. DeadlineWithinDays rl = Some days \<longrightarrow>
        z_inst (n_deadline n) \<noteq> 0 \<and> now \<le> z_inst (n_deadline n) \<and>
        time_sub (z_inst (n_deadline n)) now \<le> within_duration days) \<and> True"
    unfolding MatchAt_def None option.case
    by (intro early_const stage_Inr_iff) (auto dest: stage_Inl_unmatched)
  with excl show ?thesis unfolding rule_holds_def by simp
next
  case (Some p)
  then have "\<not> (\<forall>term \<in> set (Exclude rl). \<not> term_hits nfc cf n term)"
    using keywordMatch_None_iff by (metis option.distinct(1))
  with Some show ?thesis by (cases p) (auto simp: MatchAt_def rule_holds_def)
qed

text \<open>
  The stored explanation is faithful: the reason codes are those of the details, one for one
  and in order, for matches, exclusions and invalid deadlines alike; the reason \<open>excluded\<close> is
  given exactly when a term of the exclusion list hits the notice.
\<close>

theorem MatchAt_explained:
  "Reasons (MatchAt nfc cf now n rl) = map Code (Details (MatchAt nfc cf now n rl)) \<and>
   (ReasonExcluded \<in> set (Reasons (MatchAt nfc cf now n rl)) \<longleftrightarrow>
      (\<exists>term \<in> set (Exclude rl). term_hits nfc cf n term))"
proof (cases "keywordMatch nfc cf n (Exclude rl)")
  case None
  have "explained (MatchAt nfc cf now n rl)"
    unfolding MatchAt_def None option.case sum_explained_def [symmetric]
    by (intro sum_explained_early stage_explained) simp_all
  moreover have "\<not> (\<exists>term \<in> set (Exclude rl). term_hits nfc cf n term)"
    using None by (simp add: keywordMatch_None_iff)
  ultimately show ?thesis unfolding explained_def by blast
next
  case (Some p)
  then have "\<exists>term \<in> set (Exclude rl). term_hits nfc cf n term"
    using keywordMatch_None_iff by (metis option.distinct(1))
  with Some show ?thesis by (cases p) (simp add: MatchAt_def)
qed

text \<open>
  The remaining-days condition means what it says for every rule of up to 106751 days: the
  64-bit product of days and hours does not overflow, so a deadline that is set satisfies it
  exactly when it lies between now and now plus that many days. The web form admits 1 to 365.
\<close>

theorem within_days_exact:
  assumes "0 \<le> days" "days \<le> 106751"
    and "DeadlineWithinDays rl = Some days" "z_inst (n_deadline n) \<noteq> 0"
  shows "(\<exists>r'. stage_within now n rl r = Inr r') \<longleftrightarrow>
     now \<le> z_inst (n_deadline n) \<and> z_inst (n_deadline n) \<le> now + days * day_ns"
proof -
  have "in_int64 (days * 24)" "in_int64 (days * 24 * hour_ns)"
    using assms(1,2) by (simp_all add: in_int64_def int64_min_def int64_max_def)
  then have "within_duration days = days * day_ns"
    by (simp add: within_duration_def dur_mul_def wrap64_id)
  moreover have "days * day_ns < int64_max" "int64_min \<le> days * day_ns"
    using assms(1,2) by (simp_all add: int64_min_def int64_max_def)
  ultimately show ?thesis
    using assms(3,4) by (simp add: stage_Inr_iff(9) time_sub_le_iff) linarith
qed

definition sample_rule :: rule where
  "sample_rule = \<lparr>IncludeAny = [], IncludeAll = [], Exclude = [], Categories = [], Agencies = [],
     Regions = [], MinAmount = None, MaxAmount = None, DeadlineWeekdays = [],
     DeadlineWithinDays = Some 7\<rparr>"

theorem within_days_exact_witness:
  "\<not> (\<exists>r'. stage_within day_ns (sample_notice\<lparr>n_deadline := \<lparr>z_inst = 9 * day_ns, z_off = 0\<rparr>\<rparr>)
        sample_rule no_result = Inr r')"
proof -
  have h: "DeadlineWithinDays sample_rule = Some 7" by (simp add: sample_rule_def)
  have d: "z_inst (n_deadline (sample_notice\<lparr>n_deadline := \<lparr>z_inst = 9 * day_ns, z_off = 0\<rparr>\<rparr>)) \<noteq> 0"
    by simp
  show ?thesis using within_days_exact [OF _ _ h d, of day_ns no_result] by simp
qed

end
