(* ===== verification/Matcher_Laws.thy ===== *)
theory Matcher_Laws
  imports Matcher
begin

text \<open>
  The reasons of a match have the order of the checks: \<open>reason\<close> is a linear order of the library, the
  one in which \<open>MatchAt\<close> asks, and the reasons that are stored with a match are sorted in it.
\<close>

section \<open>The order of the checks\<close>

fun reason_rank :: "reason \<Rightarrow> nat" where
  "reason_rank ReasonExcluded = 0"
| "reason_rank ReasonIncludeAny = 1"
| "reason_rank ReasonIncludeAll = 2"
| "reason_rank ReasonCategory = 3"
| "reason_rank ReasonAgency = 4"
| "reason_rank ReasonRegion = 5"
| "reason_rank ReasonMinAmount = 6"
| "reason_rank ReasonMaxAmount = 7"
| "reason_rank ReasonDeadlineWeekday = 8"
| "reason_rank ReasonDeadlineWithinDays = 9"
| "reason_rank ReasonInvalidDeadline = 10"

lemma reason_rank_inj: "reason_rank a = reason_rank b \<longleftrightarrow> a = b"
  by (cases a; cases b) simp_all

instantiation reason :: linorder
begin

definition less_eq_reason :: "reason \<Rightarrow> reason \<Rightarrow> bool" where
  "a \<le> b \<longleftrightarrow> reason_rank a \<le> reason_rank b"

definition less_reason :: "reason \<Rightarrow> reason \<Rightarrow> bool" where
  "a < b \<longleftrightarrow> reason_rank a < reason_rank b"

instance
  by standard (auto simp: less_eq_reason_def less_reason_def reason_rank_inj [symmetric])

end

section \<open>Reasons so far\<close>

text \<open>Sorted, and none after the given one.\<close>

definition reasons_to :: "reason \<Rightarrow> match_result \<Rightarrow> bool" where
  "reasons_to c r \<longleftrightarrow> sorted (Reasons r) \<and> (\<forall>x \<in> set (Reasons r). x \<le> c)"

definition stage_to :: "reason \<Rightarrow> match_result + match_result \<Rightarrow> bool" where
  "stage_to c m \<longleftrightarrow> (case m of Inl r \<Rightarrow> sorted (Reasons r) | Inr r \<Rightarrow> reasons_to c r)"

lemma stage_to_simps [simp]:
  "stage_to c (Inl r) \<longleftrightarrow> sorted (Reasons r)" "stage_to c (Inr r) \<longleftrightarrow> reasons_to c r"
  by (simp_all add: stage_to_def)

lemma reasons_to_simps [simp]:
  "sorted (Reasons no_result)" "sorted (Reasons (invalid_deadline v))" "reasons_to c no_result"
  "reasons_to c (r\<lparr>Matched := b\<rparr>) \<longleftrightarrow> reasons_to c r"
  by (simp_all add: reasons_to_def no_result_def invalid_deadline_def)

lemma reasons_to_add: "reasons_to c r \<Longrightarrow> c \<le> d \<Longrightarrow> reasons_to d (add_reason n d f v r)"
  by (auto simp: reasons_to_def add_reason_def sorted_append intro: order_trans)

lemma reasons_to_mono: "reasons_to c r \<Longrightarrow> c \<le> d \<Longrightarrow> reasons_to d r"
  by (auto simp: reasons_to_def intro: order_trans)

lemma stage_to_early:
  "stage_to c m \<Longrightarrow> (\<And>r. reasons_to c r \<Longrightarrow> stage_to d (f r)) \<Longrightarrow> stage_to d (early m f)"
  by (cases m) simp_all

lemma include_all_loop_to:
  "reasons_to ReasonIncludeAll r \<Longrightarrow> stage_to ReasonIncludeAll (include_all_loop nfc cf n terms r)"
  by (induction terms arbitrary: r) (auto intro: reasons_to_add split: option.splits)

lemma stages_to:
  "reasons_to ReasonExcluded r \<Longrightarrow> stage_to ReasonIncludeAny (stage_include_any nfc cf n rl r)"
  "reasons_to ReasonIncludeAny r \<Longrightarrow> stage_to ReasonIncludeAll (stage_include_all nfc cf n rl r)"
  "reasons_to ReasonIncludeAll r \<Longrightarrow> stage_to ReasonCategory (stage_category n rl r)"
  "reasons_to ReasonCategory r \<Longrightarrow> stage_to ReasonAgency (stage_agency nfc cf n rl r)"
  "reasons_to ReasonAgency r \<Longrightarrow> stage_to ReasonRegion (stage_region nfc cf n rl r)"
  "reasons_to ReasonRegion r \<Longrightarrow> stage_to ReasonMinAmount (stage_min n rl r)"
  "reasons_to ReasonMinAmount r \<Longrightarrow> stage_to ReasonMaxAmount (stage_max n rl r)"
  "reasons_to ReasonMaxAmount r \<Longrightarrow> stage_to ReasonDeadlineWeekday (stage_weekday n rl r)"
  "reasons_to ReasonDeadlineWeekday r \<Longrightarrow> stage_to ReasonDeadlineWithinDays (stage_within now n rl r)"
  using reasons_to_mono [of ReasonIncludeAny r ReasonIncludeAll]
  by (auto simp: stage_defs Let_def less_eq_reason_def
      intro: reasons_to_add reasons_to_mono include_all_loop_to split: option.splits)

lemmas stage_chain = stages_to [THEN stage_to_early]

text \<open>
  The reasons of a match are listed in the order of the checks, whatever the rule and the notice, so
  two explanations are compared place by place.
\<close>

theorem reasons_in_order_of_checks: "sorted (Reasons (MatchAt nfc cf now n rl))"
proof (cases "keywordMatch nfc cf n (Exclude rl)")
  case None
  have "stage_to ReasonDeadlineWithinDays
     (early (stage_include_any nfc cf n rl no_result) (\<lambda>r.
      early (stage_include_all nfc cf n rl r) (\<lambda>r.
      early (stage_category n rl r) (\<lambda>r.
      early (stage_agency nfc cf n rl r) (\<lambda>r.
      early (stage_region nfc cf n rl r) (\<lambda>r.
      early (stage_min n rl r) (\<lambda>r.
      early (stage_max n rl r) (\<lambda>r.
      early (stage_weekday n rl r) (\<lambda>r.
      early (stage_within now n rl r) (\<lambda>r.
      Inr (r\<lparr>Matched := True\<rparr>)))))))))))"
    by (intro stage_chain) simp_all
  then show ?thesis
    unfolding MatchAt_def None option.case
    by (auto simp: stage_to_def reasons_to_def body_result_def split: sum.splits)
qed (auto simp: MatchAt_def)

end
