(* ===== verification/Scheduler.thy ===== *)
theory Scheduler
  imports Go_Time
begin

text \<open>
  internal/jobs/scheduler.go: the background scheduler. One tick runs a due collection, moves
  the next collection and then always runs the report job. The two jobs and the clock act on an
  environment state \<open>'s\<close> and are parameters.
\<close>

record scheduler =
  collectEvery :: duration
  nextCollection :: time
  collectionFailures :: int

record 's scheduler_jobs =
  collect :: "time \<Rightarrow> 's \<Rightarrow> goerr option \<times> 's"
  report :: "time \<Rightarrow> 's \<Rightarrow> goerr option \<times> 's"
  clock :: "'s \<Rightarrow> time"

definition ErrCollection :: string where "ErrCollection = ''collection job failed''"
definition ErrReport :: string where "ErrReport = ''report job failed''"

text \<open>\<open>newScheduler\<close>: nil jobs and clock become the defaults given as arguments.\<close>

definition nil_job :: "time \<Rightarrow> 's \<Rightarrow> goerr option \<times> 's" where
  "nil_job now s = (None, s)"

definition newScheduler ::
  "duration \<Rightarrow> (time \<Rightarrow> 's \<Rightarrow> goerr option \<times> 's) option \<Rightarrow> (time \<Rightarrow> 's \<Rightarrow> goerr option \<times> 's) option \<Rightarrow>
   ('s \<Rightarrow> time) option \<Rightarrow> ('s \<Rightarrow> time) \<Rightarrow> scheduler \<times> 's scheduler_jobs" where
  "newScheduler every collect_job report_job clk time_Now =
     (\<lparr>collectEvery = (if every \<le> 0 then hour_ns else every), nextCollection = 0, collectionFailures = 0\<rparr>,
      \<lparr>collect = (case collect_job of None \<Rightarrow> nil_job | Some j \<Rightarrow> j),
       report = (case report_job of None \<Rightarrow> nil_job | Some j \<Rightarrow> j),
       clock = (case clk of None \<Rightarrow> time_Now | Some c \<Rightarrow> c)\<rparr>)"

function retry_delay_loop :: "int \<Rightarrow> int \<Rightarrow> duration \<Rightarrow> duration" where
  "retry_delay_loop attempt failures delay =
     (if attempt < failures \<and> delay < 30 * minute_ns
      then retry_delay_loop (attempt + 1) failures (dur_mul delay 2) else delay)"
  by pat_completeness auto
termination by (relation "measure (\<lambda>(a, f, d). nat (f - a))") auto

declare retry_delay_loop.simps [simp del]

definition collectionRetryDelay :: "int \<Rightarrow> duration" where
  "collectionRetryDelay failures =
     (let delay = retry_delay_loop 1 failures minute_ns
      in if delay > 30 * minute_ns then 30 * minute_ns else delay)"

text \<open>\<open>Scheduler.Tick\<close> under its mutex: the joined error, the scheduler and the environment.\<close>

definition Tick :: "'s scheduler_jobs \<Rightarrow> scheduler \<Rightarrow> time \<Rightarrow> 's \<Rightarrow> goerr option \<times> scheduler \<times> 's" where
  "Tick jobs sch now s =
     (let (failures, reportAt, sch1, s1) =
        (if is_zero (nextCollection sch) \<or> \<not> now < nextCollection sch then
           (let (collectErr, s') = collect jobs now s;
                finishedAt = (if clock jobs s' < now then now else clock jobs s')
            in case collectErr of
                 Some e \<Rightarrow>
                   ([Some (ErrWrap (show_error e) (Sentinel ErrCollection))], finishedAt,
                    sch\<lparr>collectionFailures := collectionFailures sch + 1,
                        nextCollection := finishedAt + collectionRetryDelay (collectionFailures sch + 1)\<rparr>, s')
               | None \<Rightarrow>
                   ([], finishedAt,
                    sch\<lparr>nextCollection := finishedAt + collectEvery sch, collectionFailures := 0\<rparr>, s'))
         else ([], now, sch, s));
          (reportErr, s2) = report jobs reportAt s1
      in (errors_join (failures @ [map_option (\<lambda>e. ErrWrap (show_error e) (Sentinel ErrReport)) reportErr]),
          sch1, s2))"

section \<open>The retry delay\<close>

lemma retry_step:
  "attempt < failures \<Longrightarrow> delay < 30 * minute_ns \<Longrightarrow>
   retry_delay_loop attempt failures delay = retry_delay_loop (attempt + 1) failures (dur_mul delay 2)"
  by (subst retry_delay_loop.simps) simp

lemma retry_stop:
  "\<not> (attempt < failures \<and> delay < 30 * minute_ns) \<Longrightarrow> retry_delay_loop attempt failures delay = delay"
  by (subst retry_delay_loop.simps) (rule if_not_P)

lemma dur_mul_minutes: "0 \<le> k \<Longrightarrow> k \<le> 1000 \<Longrightarrow> dur_mul (k * minute_ns) 2 = (2 * k) * minute_ns"
  by (simp add: dur_mul_def wrap64_id in_int64_def int64_min_def int64_max_def)

lemma retry_delay_cases:
  "collectionRetryDelay failures =
     (if failures \<le> 1 then minute_ns else if failures = 2 then 2 * minute_ns
      else if failures = 3 then 4 * minute_ns else if failures = 4 then 8 * minute_ns
      else if failures = 5 then 16 * minute_ns else 30 * minute_ns)"
proof -
  have steps:
    "1 < failures \<Longrightarrow> retry_delay_loop 1 failures minute_ns = retry_delay_loop 2 failures (2 * minute_ns)"
    "2 < failures \<Longrightarrow> retry_delay_loop 2 failures (2 * minute_ns) = retry_delay_loop 3 failures (4 * minute_ns)"
    "3 < failures \<Longrightarrow> retry_delay_loop 3 failures (4 * minute_ns) = retry_delay_loop 4 failures (8 * minute_ns)"
    "4 < failures \<Longrightarrow> retry_delay_loop 4 failures (8 * minute_ns) = retry_delay_loop 5 failures (16 * minute_ns)"
    "5 < failures \<Longrightarrow> retry_delay_loop 5 failures (16 * minute_ns) = retry_delay_loop 6 failures (32 * minute_ns)"
    using dur_mul_minutes [of 1] dur_mul_minutes [of 2] dur_mul_minutes [of 4] dur_mul_minutes [of 8]
      dur_mul_minutes [of 16]
    by (simp_all add: retry_step)
  have stop: "retry_delay_loop 6 failures (32 * minute_ns) = 32 * minute_ns"
    by (rule retry_stop) simp
  consider "failures \<le> 1" | "failures = 2" | "failures = 3" | "failures = 4" | "failures = 5" | "6 \<le> failures"
    by linarith
  then show ?thesis
    by cases (use steps stop in \<open>simp_all add: collectionRetryDelay_def retry_stop\<close>)
qed

lemma collectionRetryDelay_bounds:
  "minute_ns \<le> collectionRetryDelay failures \<and> collectionRetryDelay failures \<le> 30 * minute_ns"
  by (simp add: retry_delay_cases)

text \<open>
  The delay after a number of consecutive failures: one minute doubled for every failure
  after the first, capped at thirty minutes; the doubling never overflows.
\<close>

theorem collectionRetryDelay_exact:
  "collectionRetryDelay failures =
     (if failures \<le> 1 then minute_ns else min (30 * minute_ns) (2 ^ nat (failures - 1) * minute_ns))"
proof -
  have "min (30 * minute_ns) (2 ^ nat (failures - 1) * minute_ns) = 30 * minute_ns" if "6 \<le> failures"
  proof -
    have "(2::int) ^ 5 \<le> 2 ^ nat (failures - 1)" using that by (intro power_increasing) simp_all
    then show ?thesis by simp
  qed
  then show ?thesis by (auto simp: retry_delay_cases)
qed

section \<open>A tick\<close>

definition collection_due :: "scheduler \<Rightarrow> time \<Rightarrow> bool" where
  "collection_due sch now \<longleftrightarrow> nextCollection sch = 0 \<or> nextCollection sch \<le> now"

definition finished_at :: "'s scheduler_jobs \<Rightarrow> time \<Rightarrow> 's \<Rightarrow> time" where
  "finished_at jobs now s = max now (clock jobs (snd (collect jobs now s)))"

lemma finished_at_ge: "now \<le> finished_at jobs now s"
  by (simp add: finished_at_def)

lemma Tick_not_due:
  "\<not> collection_due sch now \<Longrightarrow>
   Tick jobs sch now s =
     (errors_join [map_option (\<lambda>e. ErrWrap (show_error e) (Sentinel ErrReport)) (fst (report jobs now s))],
      sch, snd (report jobs now s))"
  by (auto simp: Tick_def collection_due_def is_zero_def split: prod.splits)

lemma Tick_sched_eq:
  "fst (snd (Tick jobs sch now s)) =
     (if \<not> collection_due sch now then sch
      else case fst (collect jobs now s) of
        None \<Rightarrow> sch\<lparr>nextCollection := finished_at jobs now s + collectEvery sch, collectionFailures := 0\<rparr>
      | Some e \<Rightarrow> sch\<lparr>collectionFailures := collectionFailures sch + 1,
                      nextCollection := finished_at jobs now s
                        + collectionRetryDelay (collectionFailures sch + 1)\<rparr>)"
  by (auto simp: Tick_def collection_due_def is_zero_def finished_at_def max_def Let_def
      split: prod.splits option.splits)

text \<open>
  A tick leaves the schedule untouched unless a collection was due; then the next collection
  is after a success the collection interval, after a failure at least one and at most thirty
  minutes, after a finish time that is not before the tick; the failure count is reset or raised
  by one.
\<close>

theorem Tick_schedule:
  "case Tick jobs sch now s of (err, sch', s') \<Rightarrow>
     (if \<not> collection_due sch now then sch' = sch
      else if fst (collect jobs now s) = None then
        collectionFailures sch' = 0 \<and>
        nextCollection sch' = max now (clock jobs (snd (collect jobs now s))) + collectEvery sch
      else
        collectionFailures sch' = collectionFailures sch + 1 \<and>
        nextCollection sch' - max now (clock jobs (snd (collect jobs now s)))
          \<in> {minute_ns .. 30 * minute_ns})"
  using Tick_sched_eq [of jobs sch now s] collectionRetryDelay_bounds [of "collectionFailures sch + 1"]
  by (auto simp: finished_at_def split: prod.splits option.splits)

text \<open>The input of the report job: the finish time and the environment after the collection.\<close>

definition report_input :: "'s scheduler_jobs \<Rightarrow> scheduler \<Rightarrow> time \<Rightarrow> 's \<Rightarrow> time \<times> 's" where
  "report_input jobs sch now s =
     (if collection_due sch now then (finished_at jobs now s, snd (collect jobs now s)) else (now, s))"

text \<open>
  The report job runs on every tick, also after a failed collection, and on the environment
  the collection left. The error of a tick names the job that failed: a collection error exactly
  when a due collection failed, a report error exactly when the report job failed.
\<close>

theorem Tick_errors:
  "case (Tick jobs sch now s, report_input jobs sch now s) of ((err, sch', s'), (at, s1)) \<Rightarrow>
     s' = snd (report jobs at s1) \<and>
     (case err of None \<Rightarrow> False | Some e \<Rightarrow> errors_is e ErrCollection)
       = (collection_due sch now \<and> fst (collect jobs now s) \<noteq> None) \<and>
     (case err of None \<Rightarrow> False | Some e \<Rightarrow> errors_is e ErrReport) = (fst (report jobs at s1) \<noteq> None)"
proof -
  have d: "is_zero (nextCollection sch) \<or> \<not> now < nextCollection sch \<longleftrightarrow> collection_due sch now"
    by (auto simp: collection_due_def is_zero_def)
  have f: "(if clock jobs (snd (collect jobs now s)) < now then now
      else clock jobs (snd (collect jobs now s))) = finished_at jobs now s"
    by (simp add: finished_at_def max_def)
  have ne: "ErrCollection \<noteq> ErrReport" by (simp add: ErrCollection_def ErrReport_def)
  show ?thesis
    by (cases "collection_due sch now"; cases "fst (collect jobs now s)";
        cases "fst (report jobs (fst (report_input jobs sch now s)) (snd (report_input jobs sch now s)))")
       (use f ne in \<open>auto simp: Tick_def d report_input_def errors_join_def Let_def
         split: prod.splits\<close>)
qed

text \<open>Any number of ticks: the scheduler's own fields over a run.\<close>

fun run_ticks :: "'s scheduler_jobs \<Rightarrow> scheduler \<Rightarrow> time list \<Rightarrow> 's \<Rightarrow> scheduler \<times> 's" where
  "run_ticks jobs sch [] s = (sch, s)"
| "run_ticks jobs sch (now # nows) s =
     (case Tick jobs sch now s of (err, sch', s') \<Rightarrow> run_ticks jobs sch' nows s')"

definition scheduler_inv :: "scheduler \<Rightarrow> bool" where
  "scheduler_inv sch \<longleftrightarrow> 0 < collectEvery sch \<and> 0 \<le> collectionFailures sch"

lemma newScheduler_inv: "scheduler_inv (fst (newScheduler every c r clk tn))"
  by (simp add: newScheduler_def scheduler_inv_def)

lemma Tick_inv: "scheduler_inv sch \<Longrightarrow> scheduler_inv (fst (snd (Tick jobs sch now s)))"
  by (auto simp: Tick_sched_eq scheduler_inv_def split: option.splits)

lemma Tick_next_mono:
  "scheduler_inv sch \<Longrightarrow> nextCollection sch = 0 \<longrightarrow> 0 \<le> now \<Longrightarrow>
   nextCollection sch \<le> nextCollection (fst (snd (Tick jobs sch now s)))"
  using collectionRetryDelay_bounds [of "collectionFailures sch + 1"]
    finished_at_ge [of now jobs s]
  by (auto simp: Tick_sched_eq scheduler_inv_def collection_due_def split: option.splits)

text \<open>
  Along every run of ticks the scheduler stays well formed (a positive interval, a failure
  count that is never negative) and the next collection never moves back, whatever the jobs
  return and however the clock jumps.
\<close>

theorem run_ticks_invariant:
  assumes "scheduler_inv sch" "0 \<le> nextCollection sch" "\<forall>now \<in> set nows. 0 \<le> now"
  shows "scheduler_inv (fst (run_ticks jobs sch nows s)) \<and>
    nextCollection sch \<le> nextCollection (fst (run_ticks jobs sch nows s))"
  using assms
proof (induction nows arbitrary: sch s)
  case (Cons now nows)
  obtain err sch' s' where t: "Tick jobs sch now s = (err, sch', s')"
    by (metis prod_cases3)
  have inv: "scheduler_inv sch'" and mono: "nextCollection sch \<le> nextCollection sch'"
    using Tick_inv [OF Cons.prems(1), of jobs now s] Tick_next_mono [OF Cons.prems(1), of now jobs s]
      Cons.prems(3) t by auto
  with Cons.IH [OF inv, of s'] Cons.prems t show ?case by auto
qed simp

definition flaky_jobs :: "nat scheduler_jobs" where
  "flaky_jobs = \<lparr>collect = (\<lambda>now s. (if even s then Some (ErrText ''down'') else None, Suc s)),
     report = (\<lambda>now s. (None, s)), clock = (\<lambda>s. 0)\<rparr>"

theorem run_ticks_invariant_witness:
  "scheduler_inv (fst (run_ticks flaky_jobs
     \<lparr>collectEvery = hour_ns, nextCollection = 0, collectionFailures = 0\<rparr> [day_ns, 2 * day_ns] 0))"
  using run_ticks_invariant [of "\<lparr>collectEvery = hour_ns, nextCollection = 0, collectionFailures = 0\<rparr>"
      "[day_ns, 2 * day_ns]" flaky_jobs 0]
  by (simp add: scheduler_inv_def)

end
