(* ===== verification/Sql.thy ===== *)
theory Sql
  imports Go_Time
begin

text \<open>
  The database as the Go code uses it: a sequence of statements inside transactions. The rows
  are a value \<open>'t\<close>; the statements of the Go strings are functions on it. Every statement,
  \<open>Begin\<close> and \<open>Commit\<close> included, may fail: an environment decides for the n-th call whether it
  fails, what the server clock shows and which values \<open>gen_random_uuid()\<close> returns in it
  (\<open>uuid_at n i\<close>); \<open>db_set\<close> says that the connection pool is not nil. Transactions
  are serial, which the row locks and the advisory locks of the statements enforce for the rows
  they touch. A failed transaction leaves the rows as they were (rollback); the call counter
  goes on.
\<close>

record 't db =
  rows :: 't
  tick :: nat

record dbenv =
  fault :: "nat \<Rightarrow> goerr option"
  clock_at :: "nat \<Rightarrow> time"
  uuid_at :: "nat \<Rightarrow> nat \<Rightarrow> string"
  db_set :: bool

type_synonym ('t, 'a) sql = "'t db \<Rightarrow> 'a res \<times> 't db"

definition sql_return :: "'a \<Rightarrow> ('t, 'a) sql" where
  "sql_return a d = (Inr a, d)"

definition sql_fail :: "goerr \<Rightarrow> ('t, 'a) sql" where
  "sql_fail e d = (Inl e, d)"

definition sql_bind :: "('t, 'a) sql \<Rightarrow> ('a \<Rightarrow> ('t, 'b) sql) \<Rightarrow> ('t, 'b) sql" where
  "sql_bind m f d = (case m d of (Inl e, d') \<Rightarrow> (Inl e, d') | (Inr a, d') \<Rightarrow> f a d')"

text \<open>\<open>fmt.Errorf("...: %w", err)\<close> around the error of a call.\<close>

definition sql_wrap :: "string \<Rightarrow> ('t, 'a) sql \<Rightarrow> ('t, 'a) sql" where
  "sql_wrap msg m d = (case m d of (Inl e, d') \<Rightarrow> (Inl (ErrWrap msg e), d') | (Inr a, d') \<Rightarrow> (Inr a, d'))"

text \<open>One statement: it fails with the fault of the call, or runs on the rows and may still fail
  with a constraint violation, leaving the rows unchanged.\<close>

definition sql_stmt :: "dbenv \<Rightarrow> (nat \<Rightarrow> 't \<Rightarrow> goerr + 'a \<times> 't) \<Rightarrow> ('t, 'a) sql" where
  "sql_stmt E f d =
     (case fault E (tick d) of
        Some e \<Rightarrow> (Inl e, d\<lparr>tick := Suc (tick d)\<rparr>)
      | None \<Rightarrow>
         (case f (tick d) (rows d) of
            Inl e \<Rightarrow> (Inl e, d\<lparr>tick := Suc (tick d)\<rparr>)
          | Inr (a, t) \<Rightarrow> (Inr a, \<lparr>rows = t, tick = Suc (tick d)\<rparr>)))"

text \<open>Statements that only read.\<close>

definition sql_query :: "dbenv \<Rightarrow> ('t \<Rightarrow> 'a) \<Rightarrow> ('t, 'a) sql" where
  "sql_query E q = sql_stmt E (\<lambda>n t. Inr (q t, t))"

definition sql_call :: "dbenv \<Rightarrow> ('t, unit) sql" where
  "sql_call E = sql_query E (\<lambda>t. ())"

text \<open>The deferred \<open>Rollback\<close> of a function that begins a transaction: unless the function
  returned without an error, the rows are those at the start.\<close>

definition sql_rollback :: "('t, 'a) sql \<Rightarrow> ('t, 'a) sql" where
  "sql_rollback m d = (case m d of (Inl e, d') \<Rightarrow> (Inl e, d'\<lparr>rows := rows d\<rparr>) | (Inr a, d') \<Rightarrow> (Inr a, d'))"

text \<open>Update of every row a condition selects: the new rows and the number of rows affected.\<close>

definition update_where :: "('r \<Rightarrow> bool) \<Rightarrow> ('r \<Rightarrow> 'r) \<Rightarrow> 'r list \<Rightarrow> 'r list" where
  "update_where P f rs = map (\<lambda>r. if P r then f r else r) rs"

definition affected :: "('r \<Rightarrow> bool) \<Rightarrow> 'r list \<Rightarrow> nat" where
  "affected P rs = length (filter P rs)"

definition lease_ns :: duration where "lease_ns = 15 * minute_ns"

definition MaxDeliveryAttempts :: int where "MaxDeliveryAttempts = 3"

section \<open>Rules\<close>

lemma sql_simps [simp, go_simps]:
  "sql_return a d = (Inr a, d)"
  "sql_fail e d = (Inl e, d)"
  by (simp_all add: sql_return_def sql_fail_def)

lemma sql_bind_Inr:
  "fst (sql_bind m f d) = Inr b \<Longrightarrow> \<exists>a d'. m d = (Inr a, d') \<and> f a d' = (Inr b, snd (sql_bind m f d))"
  by (auto simp: sql_bind_def prod_eq_iff split: prod.splits sum.splits)

lemma sql_wrap_Inr: "fst (sql_wrap msg m d) = Inr b \<longleftrightarrow> fst (m d) = Inr b"
  by (auto simp: sql_wrap_def split: prod.splits sum.splits)

lemma snd_sql_wrap [simp]: "snd (sql_wrap msg m d) = snd (m d)"
  by (auto simp: sql_wrap_def split: prod.splits sum.splits)

lemma sql_rollback_Inl:
  "fst (sql_rollback m d) = Inl e \<Longrightarrow> rows (snd (sql_rollback m d)) = rows d"
  by (auto simp: sql_rollback_def split: prod.splits sum.splits)

lemma sql_rollback_Inr: "fst (sql_rollback m d) = Inr b \<longleftrightarrow> fst (m d) = Inr b"
  by (auto simp: sql_rollback_def split: prod.splits sum.splits)

lemma sql_rollback_rows:
  "rows (snd (sql_rollback m d)) = rows d \<or>
   (\<exists>b. fst (m d) = Inr b \<and> rows (snd (sql_rollback m d)) = rows (snd (m d)))"
  by (auto simp: sql_rollback_def split: prod.splits sum.splits)

text \<open>A statement list keeps a property of the rows: one rule per construct.\<close>

definition keeps :: "('t \<Rightarrow> bool) \<Rightarrow> ('t, 'a) sql \<Rightarrow> bool" where
  "keeps I m \<longleftrightarrow> (\<forall>d. I (rows d) \<longrightarrow> I (rows (snd (m d))))"

named_theorems keeps_intros \<open>rules that decompose the keeps judgement\<close>

lemma keeps_return [keeps_intros]: "keeps I (sql_return a)"
  by (simp add: keeps_def)

lemma keeps_fail [keeps_intros]: "keeps I (sql_fail e)"
  by (simp add: keeps_def)

lemma keeps_Pair [simp]: "keeps I (Pair r)"
  by (simp add: keeps_def)

lemma keeps_bind [keeps_intros]:
  "keeps I m \<Longrightarrow> (\<And>a. keeps I (f a)) \<Longrightarrow> keeps I (sql_bind m f)"
  unfolding keeps_def sql_bind_def
  by (fastforce split: prod.splits sum.splits)

lemma keeps_wrap [keeps_intros]: "keeps I m \<Longrightarrow> keeps I (sql_wrap msg m)"
  by (simp add: keeps_def)

lemma keeps_rollback [keeps_intros]: "keeps I m \<Longrightarrow> keeps I (sql_rollback m)"
  unfolding keeps_def sql_rollback_def
  by (fastforce split: prod.splits sum.splits)

lemma keeps_query [keeps_intros]: "keeps I (sql_query E q)"
  by (simp add: keeps_def sql_query_def sql_stmt_def split: option.splits)

lemma keeps_call [keeps_intros]: "keeps I (sql_call E)"
  by (simp add: sql_call_def keeps_query)

lemma keeps_stmt:
  "(\<And>n t a t'. I t \<Longrightarrow> f n t = Inr (a, t') \<Longrightarrow> I t') \<Longrightarrow> keeps I (sql_stmt E f)"
  by (fastforce simp: keeps_def sql_stmt_def split: option.splits sum.splits)

lemma keeps_if [keeps_intros]:
  "(b \<Longrightarrow> keeps I m) \<Longrightarrow> (\<not> b \<Longrightarrow> keeps I k) \<Longrightarrow> keeps I (if b then m else k)"
  by simp

lemma keeps_case_option [keeps_intros]:
  "keeps I m \<Longrightarrow> (\<And>x. keeps I (f x)) \<Longrightarrow> keeps I (case opt of None \<Rightarrow> m | Some x \<Rightarrow> f x)"
  by (cases opt) simp_all

lemma keeps_case_prod [keeps_intros]:
  "(\<And>x y. keeps I (f x y)) \<Longrightarrow> keeps I (case p of (x, y) \<Rightarrow> f x y)"
  by (cases p) simp

lemma keeps_let [keeps_intros]: "keeps I (f x) \<Longrightarrow> keeps I (let y = x in f y)"
  by simp

lemma keepsD: "keeps I m \<Longrightarrow> I (rows d) \<Longrightarrow> I (rows (snd (m d)))"
  by (simp add: keeps_def)

text \<open>A successful statement has no fault.\<close>

lemma sql_stmt_Inr:
  "sql_stmt E f d = (Inr a, d') \<longleftrightarrow>
     fault E (tick d) = None \<and> (\<exists>t. f (tick d) (rows d) = Inr (a, t) \<and> d' = \<lparr>rows = t, tick = Suc (tick d)\<rparr>)"
  by (auto simp: sql_stmt_def split: option.splits sum.splits prod.splits)

lemma sql_query_Inr:
  "sql_query E q d = (Inr a, d') \<longleftrightarrow>
     fault E (tick d) = None \<and> a = q (rows d) \<and> d' = \<lparr>rows = rows d, tick = Suc (tick d)\<rparr>"
  by (auto simp: sql_query_def sql_stmt_Inr)

lemma sql_call_Inr:
  "sql_call E d = (Inr a, d') \<longleftrightarrow>
     fault E (tick d) = None \<and> d' = \<lparr>rows = rows d, tick = Suc (tick d)\<rparr>"
  by (auto simp: sql_call_def sql_query_Inr)

lemma sql_bind_eq_Inr:
  "sql_bind m f d = (Inr b, d') \<longleftrightarrow> (\<exists>a d1. m d = (Inr a, d1) \<and> f a d1 = (Inr b, d'))"
  by (auto simp: sql_bind_def split: prod.splits sum.splits)

lemma sql_bindE:
  assumes "sql_bind m f d = (Inr b, d')"
  obtains a d1 where "m d = (Inr a, d1)" "f a d1 = (Inr b, d')"
  using assms by (auto simp: sql_bind_eq_Inr)

lemma sql_wrap_eq_Inr: "sql_wrap msg m d = (Inr b, d') \<longleftrightarrow> m d = (Inr b, d')"
  by (auto simp: sql_wrap_def split: prod.splits sum.splits)

lemma sql_rollback_eq_Inr: "sql_rollback m d = (Inr b, d') \<longleftrightarrow> m d = (Inr b, d')"
  by (auto simp: sql_rollback_def split: prod.splits sum.splits)

text \<open>Partial correctness: what holds of the result and the rows when a statement list succeeds.
  With a rollback around it, an invariant that every success re-establishes is kept.\<close>

definition ensures :: "('t \<Rightarrow> bool) \<Rightarrow> ('t, 'a) sql \<Rightarrow> ('a \<Rightarrow> 't \<Rightarrow> bool) \<Rightarrow> bool" where
  "ensures P m Q \<longleftrightarrow> (\<forall>d a d'. P (rows d) \<longrightarrow> m d = (Inr a, d') \<longrightarrow> Q a (rows d'))"

lemma ensuresD: "ensures P m Q \<Longrightarrow> P (rows d) \<Longrightarrow> m d = (Inr a, d') \<Longrightarrow> Q a (rows d')"
  unfolding ensures_def by blast

lemma ensures_weaken: "ensures P m R \<Longrightarrow> (\<And>a t. R a t \<Longrightarrow> Q a t) \<Longrightarrow> ensures P m Q"
  unfolding ensures_def by blast

lemma ensures_pre: "ensures R m Q \<Longrightarrow> (\<And>t. P t \<Longrightarrow> R t) \<Longrightarrow> ensures P m Q"
  unfolding ensures_def by blast

lemma ensures_return: "(\<And>t. P t \<Longrightarrow> Q a t) \<Longrightarrow> ensures P (sql_return a) Q"
  by (simp add: ensures_def)

lemma ensures_fail: "ensures P (sql_fail e) Q"
  by (simp add: ensures_def)

lemma ensures_Pair [simp]: "ensures P (Pair (Inl e)) Q" "ensures P (Pair (Inr a)) Q \<longleftrightarrow> (\<forall>d :: 't db. P (rows d) \<longrightarrow> Q a (rows d))"
  by (auto simp: ensures_def)

lemma ensures_bind:
  "ensures P m R \<Longrightarrow> (\<And>a. ensures (R a) (f a) Q) \<Longrightarrow> ensures P (sql_bind m f) Q"
  unfolding ensures_def by (auto elim!: sql_bindE)

lemma ensures_wrap: "ensures P m Q \<Longrightarrow> ensures P (sql_wrap msg m) Q"
  unfolding ensures_def by (simp add: sql_wrap_eq_Inr)

lemma ensures_rollback: "ensures P m Q \<Longrightarrow> ensures P (sql_rollback m) Q"
  unfolding ensures_def by (simp add: sql_rollback_eq_Inr)

lemma ensures_stmt:
  "(\<And>n t a t'. P t \<Longrightarrow> f n t = Inr (a, t') \<Longrightarrow> Q a t') \<Longrightarrow> ensures P (sql_stmt E f) Q"
  unfolding ensures_def by (auto simp: sql_stmt_Inr)

lemma ensures_query: "(\<And>t. P t \<Longrightarrow> Q (q t) t) \<Longrightarrow> ensures P (sql_query E q) Q"
  unfolding ensures_def by (auto simp: sql_query_Inr)

lemma ensures_call: "(\<And>t. P t \<Longrightarrow> Q () t) \<Longrightarrow> ensures P (sql_call E) Q"
  unfolding ensures_def by (auto simp: sql_call_Inr)

lemma ensures_if:
  "(b \<Longrightarrow> ensures P m Q) \<Longrightarrow> (\<not> b \<Longrightarrow> ensures P k Q) \<Longrightarrow> ensures P (if b then m else k) Q"
  by simp

text \<open>The continuation of a bind may rely on what the first part ensures.\<close>

lemma keeps_bind_ensures:
  assumes "keeps I m" "ensures I m R" "\<And>a d. R a (rows d) \<Longrightarrow> I (rows (snd (f a d)))"
  shows "keeps I (sql_bind m f)"
  unfolding keeps_def
proof (intro allI impI)
  fix d :: "'a db"
  assume d: "I (rows d)"
  obtain r d1 where m: "m d = (r, d1)" by (cases "m d")
  show "I (rows (snd (sql_bind m f d)))"
  proof (cases r)
    case (Inl e)
    then show ?thesis using keepsD [OF assms(1) d] m by (simp add: sql_bind_def)
  next
    case (Inr a)
    then show ?thesis using assms(3) [of a d1] ensuresD [OF assms(2) d] m by (simp add: sql_bind_def)
  qed
qed

lemma keeps_by_ensures: "ensures I m (\<lambda>a. I) \<Longrightarrow> keeps I (sql_rollback m)"
  unfolding keeps_def ensures_def sql_rollback_def
  by (auto split: prod.splits sum.splits)

text \<open>A statement list only goes forward in the sequence of calls.\<close>

definition forward :: "('t, 'a) sql \<Rightarrow> bool" where
  "forward m \<longleftrightarrow> (\<forall>d. tick d \<le> tick (snd (m d)))"

named_theorems forward_intros \<open>rules that decompose the forward judgement\<close>

lemma forward_return [forward_intros]: "forward (sql_return a)"
  by (simp add: forward_def)

lemma forward_fail [forward_intros]: "forward (sql_fail e)"
  by (simp add: forward_def)

lemma forward_stmt [forward_intros]: "forward (sql_stmt E f)"
  by (auto simp: forward_def sql_stmt_def split: option.splits sum.splits)

lemma forward_query [forward_intros]: "forward (sql_query E q)"
  by (simp add: sql_query_def forward_stmt)

lemma forward_call [forward_intros]: "forward (sql_call E)"
  by (simp add: sql_call_def forward_query)

lemma forward_wrap [forward_intros]: "forward m \<Longrightarrow> forward (sql_wrap msg m)"
  by (simp add: forward_def)

lemma forward_rollback [forward_intros]: "forward m \<Longrightarrow> forward (sql_rollback m)"
  unfolding forward_def sql_rollback_def
proof
  fix d :: "'a db"
  assume "\<forall>d. tick d \<le> tick (snd (m d))"
  then have "tick d \<le> tick (snd (m d))" ..
  then show "tick d \<le> tick (snd (case m d of (Inl e, d') \<Rightarrow> (Inl e, d'\<lparr>rows := rows d\<rparr>)
      | (Inr a, d') \<Rightarrow> (Inr a, d')))"
    by (auto split: prod.splits sum.splits)
qed

lemma forward_bind [forward_intros]:
  "forward m \<Longrightarrow> (\<And>a. forward (f a)) \<Longrightarrow> forward (sql_bind m f)"
  unfolding forward_def sql_bind_def
  by (auto split: prod.splits sum.splits) (metis order.trans snd_conv)+

lemma forward_if [forward_intros]: "forward m \<Longrightarrow> forward k \<Longrightarrow> forward (if b then m else k)"
  by simp

lemma forward_case_option [forward_intros]:
  "forward m \<Longrightarrow> (\<And>x. forward (f x)) \<Longrightarrow> forward (case opt of None \<Rightarrow> m | Some x \<Rightarrow> f x)"
  by (cases opt) simp_all

lemma forward_case_prod [forward_intros]:
  "(\<And>x y. forward (f x y)) \<Longrightarrow> forward (case p of (x, y) \<Rightarrow> f x y)"
  by (cases p) simp

lemmas sql_Inr_simps =
  sql_stmt_Inr sql_query_Inr sql_call_Inr sql_bind_eq_Inr sql_wrap_eq_Inr sql_rollback_eq_Inr

lemma set_update_where:
  "set (update_where P f rs) = {r \<in> set rs. \<not> P r} \<union> f ` {r \<in> set rs. P r}"
  by (auto simp: update_where_def)

lemma update_where_none: "affected P rs = 0 \<Longrightarrow> update_where P f rs = rs"
  by (auto simp: affected_def update_where_def filter_empty_conv intro!: map_idI)

lemma affected_pos: "affected P rs \<noteq> 0 \<longleftrightarrow> (\<exists>r \<in> set rs. P r)"
  by (auto simp: affected_def filter_empty_conv)

lemma map_update_where:
  "(\<And>r. g (f r) = g r) \<Longrightarrow> map g (update_where P f rs) = map g rs"
  by (simp add: update_where_def)

end
