(* ===== verification/Json.thy ===== *)
theory Json
  imports Go_Prelude
begin

text \<open>
  JSON documents (package encoding/json and the jsonb columns) as values. A number keeps its
  literal text, as \<open>json.Number\<close> and \<open>json.RawMessage\<close> do. Decoding into a struct follows
  \<open>json.Unmarshal\<close>: keys match field names exactly or up to ASCII case, later keys overwrite
  earlier ones, null leaves a field alone, and a value of the wrong type is an error.
\<close>

datatype json =
    JNull
  | JBool bool
  | JNum string
  | JStr string
  | JArr "json list"
  | JObj "(string \<times> json) list"

definition fold_char :: "char \<Rightarrow> char" where
  "fold_char c = (let n = (of_char c :: nat) in if 65 \<le> n \<and> n \<le> 90 then char_of (n + 32) else c)"

text \<open>Names are compared up to simple case folding: ASCII letters, and the two other runes that fold
  to one, the long s (U+017F) and the Kelvin sign (U+212A).\<close>

function fold_key :: "string \<Rightarrow> string" where
  "fold_key [] = []"
| "fold_key (c # s) =
     (if c = CHR 0xC5 \<and> has_prefix s [CHR 0xBF] then CHR ''s'' # fold_key (drop 1 s)
      else if c = CHR 0xE2 \<and> has_prefix s [CHR 0x84, CHR 0xAA] then CHR ''k'' # fold_key (drop 2 s)
      else fold_char c # fold_key s)"
  by pat_completeness auto
termination by (relation "measure length") auto

text \<open>The field of a struct a key decodes into: the exact name first, then up to case.\<close>

definition field_for :: "string list \<Rightarrow> string \<Rightarrow> string option" where
  "field_for names key =
     (if key \<in> set names then Some key else find (\<lambda>n. fold_key n = fold_key key) names)"

text \<open>The value that reaches a field: the last key of the object that decodes into it and is
  not null.\<close>

fun last_value :: "string list \<Rightarrow> string \<Rightarrow> (string \<times> json) list \<Rightarrow> json option" where
  "last_value names n [] = None"
| "last_value names n ((k, v) # kvs) =
     (case last_value names n kvs of
        Some w \<Rightarrow> Some w
      | None \<Rightarrow> if field_for names k = Some n \<and> v \<noteq> JNull then Some v else None)"

fun json_string :: "json \<Rightarrow> string option" where
  "json_string (JStr s) = Some s"
| "json_string v = None"

text \<open>A string field: missing or null gives the zero value, a wrong type is an error.\<close>

definition decode_string_field :: "string list \<Rightarrow> string \<Rightarrow> (string \<times> json) list \<Rightarrow> string option" where
  "decode_string_field names n kvs =
     (if list_all (\<lambda>(k, v). field_for names k = Some n \<longrightarrow> v = JNull \<or> json_string v \<noteq> None) kvs
      then Some (case last_value names n kvs of None \<Rightarrow> [] | Some v \<Rightarrow> the (json_string v))
      else None)"

text \<open>\<open>storedMatchReasons\<close> of internal/app/postgres_digest.go.\<close>

record match_detail =
  md_code :: string
  md_field :: string
  md_rule_value :: string
  md_notice_value :: string

record stored_match_reasons =
  sm_reasons :: "string list"
  sm_details :: "match_detail list"

definition detail_fields :: "string list" where
  "detail_fields = [''Code'', ''Field'', ''RuleValue'', ''NoticeValue'']"

fun decode_match_detail :: "json \<Rightarrow> match_detail option" where
  "decode_match_detail JNull =
     Some \<lparr>md_code = [], md_field = [], md_rule_value = [], md_notice_value = []\<rparr>"
| "decode_match_detail (JObj kvs) =
     (case (decode_string_field detail_fields ''Code'' kvs,
            decode_string_field detail_fields ''Field'' kvs,
            decode_string_field detail_fields ''RuleValue'' kvs,
            decode_string_field detail_fields ''NoticeValue'' kvs) of
        (Some c, Some f, Some r, Some n) \<Rightarrow>
          Some \<lparr>md_code = c, md_field = f, md_rule_value = r, md_notice_value = n\<rparr>
      | _ \<Rightarrow> None)"
| "decode_match_detail v = None"

fun all_some :: "'a option list \<Rightarrow> 'a list option" where
  "all_some [] = Some []"
| "all_some (None # xs) = None"
| "all_some (Some x # xs) = map_option (\<lambda>ys. x # ys) (all_some xs)"

fun json_array :: "json \<Rightarrow> json list option" where
  "json_array (JArr vs) = Some vs"
| "json_array v = None"

definition null_string :: "json \<Rightarrow> string option" where
  "null_string v = (if v = JNull then Some [] else json_string v)"

definition decode_list_field ::
  "(json \<Rightarrow> 'a option) \<Rightarrow> string list \<Rightarrow> string \<Rightarrow> (string \<times> json) list \<Rightarrow> 'a list option" where
  "decode_list_field dec names n kvs =
     (if list_all (\<lambda>(k, v). field_for names k = Some n \<longrightarrow>
            v = JNull \<or> (case json_array v of None \<Rightarrow> False | Some vs \<Rightarrow> all_some (map dec vs) \<noteq> None)) kvs
      then (case last_value names n kvs of
              None \<Rightarrow> Some []
            | Some v \<Rightarrow> (case json_array v of None \<Rightarrow> None | Some vs \<Rightarrow> all_some (map dec vs)))
      else None)"

definition reasons_fields :: "string list" where
  "reasons_fields = [''reasons'', ''details'']"

fun unmarshal_reasons :: "json \<Rightarrow> stored_match_reasons option" where
  "unmarshal_reasons JNull = Some \<lparr>sm_reasons = [], sm_details = []\<rparr>"
| "unmarshal_reasons (JObj kvs) =
     (case (decode_list_field null_string reasons_fields ''reasons'' kvs,
            decode_list_field decode_match_detail reasons_fields ''details'' kvs) of
        (Some rs, Some ds) \<Rightarrow> Some \<lparr>sm_reasons = rs, sm_details = ds\<rparr>
      | _ \<Rightarrow> None)"
| "unmarshal_reasons v = None"

text \<open>What the collector stores for a match decodes to what it stored.\<close>

definition marshal_detail :: "match_detail \<Rightarrow> json" where
  "marshal_detail d =
     JObj [(''Code'', JStr (md_code d)), (''Field'', JStr (md_field d)),
           (''RuleValue'', JStr (md_rule_value d)), (''NoticeValue'', JStr (md_notice_value d))]"

definition marshal_reasons :: "stored_match_reasons \<Rightarrow> json" where
  "marshal_reasons r =
     JObj [(''details'', JArr (map marshal_detail (sm_details r))),
           (''reasons'', JArr (map JStr (sm_reasons r)))]"

lemma all_some_map: "(\<And>x. x \<in> set xs \<Longrightarrow> f x = Some (g x)) \<Longrightarrow> all_some (map f xs) = Some (map g xs)"
  by (induction xs) simp_all

lemma decode_marshal_detail: "decode_match_detail (marshal_detail d) = Some d"
  by (cases d) (simp add: marshal_detail_def decode_string_field_def field_for_def detail_fields_def)

lemma unmarshal_marshal_reasons: "unmarshal_reasons (marshal_reasons r) = Some r"
proof -
  have "all_some (map decode_match_detail (map marshal_detail (sm_details r))) = Some (sm_details r)"
    using all_some_map [of "sm_details r" "\<lambda>d. decode_match_detail (marshal_detail d)" id]
    by (simp add: decode_marshal_detail comp_def)
  moreover have "all_some (map null_string (map JStr (sm_reasons r))) = Some (sm_reasons r)"
    using all_some_map [of "sm_reasons r" "\<lambda>s. null_string (JStr s)" id]
    by (simp add: null_string_def comp_def)
  ultimately show ?thesis
    by (simp add: marshal_reasons_def decode_list_field_def field_for_def reasons_fields_def)
qed

end
