(* ===== verification/Tables.thy ===== *)
theory Tables
  imports Sql Json Matcher
begin

text \<open>
  The tables of src/migrations that the modelled statements read and write, one record per row.
  A jsonb column is the document it holds; a notice payload and a filter's rules are the decoded
  value, with \<open>None\<close> for a document that does not decode. Shared by \<open>Deliveries\<close>,
  \<open>Digest_Window\<close>, \<open>Report_Table\<close> and \<open>Pg_Collector\<close>.
\<close>

datatype window_status = WPending | WCompleted | WFailed
datatype delivery_status = DPending | DSending | DSent | DFailed
datatype report_status = RGenerating | RGenerated | RFailed

record schedule_row =
  s_tenant :: string
  s_id :: string
  s_name :: string
  s_hour :: int
  s_minute :: int
  s_timezone :: string
  s_weekdays :: "int list"
  s_enabled :: bool
  s_last_success :: "time option"

record window_row =
  w_tenant :: string
  w_schedule :: string
  w_due :: time
  w_end :: time
  w_status :: window_status
  w_completed :: "time option"

record window_item =
  wi_tenant :: string
  wi_schedule :: string
  wi_due :: time
  wi_end :: time
  wi_match :: string
  wi_notice :: string
  wi_title :: string
  wi_url :: string
  wi_reasons :: json
  wi_matched :: time

record window_recipient =
  wr_tenant :: string
  wr_schedule :: string
  wr_due :: time
  wr_end :: time
  wr_recipient :: string
  wr_email :: string

record delivery_row =
  d_id :: string
  d_tenant :: string
  d_schedule :: string
  d_recipient :: string
  d_key :: string
  d_due :: time
  d_end :: time
  d_status :: delivery_status
  d_attempts :: int
  d_error :: "string option"
  d_sent :: "time option"
  d_claimed :: time
  d_token :: string

record report_row =
  rp_tenant :: string
  rp_id :: string
  rp_schedule :: "string option"
  rp_due :: time
  rp_start :: "time option"
  rp_end :: time
  rp_tenant_name :: string
  rp_schedule_name :: string
  rp_trigger :: string
  rp_status :: report_status
  rp_path :: string
  rp_sha :: string
  rp_count :: int
  rp_attempts :: int
  rp_error :: "string option"
  rp_token :: "string option"
  rp_claimed :: "time option"
  rp_generated :: "time option"
  rp_deleted :: "time option"

record report_item =
  ri_tenant :: string
  ri_report :: string
  ri_ordinal :: int
  ri_match :: string
  ri_notice :: string
  ri_title :: string
  ri_category :: string
  ri_agency :: string
  ri_region :: string
  ri_amount :: int
  ri_deadline :: time
  ri_url :: string
  ri_rule_name :: string
  ri_reasons :: json
  ri_source_kind :: "string option"
  ri_posted :: "time option"
  ri_collected :: "time option"
  ri_recorded :: "time option"

record notice_row =
  nr_id :: string
  nr_identity :: string
  nr_revision :: string
  nr_source :: string
  nr_title :: string
  nr_published :: "time option"
  nr_deadline :: "time option"
  nr_payload :: "notice option"
  nr_legacy_url :: "string option"
  nr_collected :: time
  nr_region_complete :: bool

record match_row =
  m_id :: string
  m_tenant :: string
  m_filter :: string
  m_notice :: string
  m_reasons :: json
  m_created :: time

record filter_row =
  f_tenant :: string
  f_id :: string
  f_name :: string
  f_rule :: "rule option"
  f_enabled :: bool
  f_created :: time
  f_updated :: time

record recipient_row =
  rc_tenant :: string
  rc_id :: string
  rc_name :: string
  rc_email :: string
  rc_enabled :: bool

record source_warning =
  sw_category :: string
  sw_page :: int
  sw_item :: int
  sw_field :: string
  sw_code :: string
  sw_raw :: string

record collection_state =
  cs_last_success :: "time option"
  cs_result :: json
  cs_error :: "string option"

record job_run =
  jr_tenant :: string
  jr_kind :: string
  jr_status :: string
  jr_started :: time
  jr_finished :: time
  jr_detail :: json

record schema =
  tenants :: "(string \<times> string) list"
  schedules :: "schedule_row list"
  windows :: "window_row list"
  window_items :: "window_item list"
  window_recipients :: "window_recipient list"
  deliveries :: "delivery_row list"
  reports :: "report_row list"
  report_items :: "report_item list"
  notices :: "notice_row list"
  notice_revisions :: "(string \<times> string) list"
  matches :: "match_row list"
  filters :: "filter_row list"
  recipients :: "recipient_row list"
  source_warnings :: "source_warning list"
  collection_state :: "collection_state list"
  job_runs :: "job_run list"
  api_usage :: "(string \<times> int) list"

text \<open>\<open>GREATEST(COALESCE(last_success_at, '-infinity'), e)\<close>.\<close>

definition advance_to :: "time \<Rightarrow> time option \<Rightarrow> time option" where
  "advance_to e prev = Some (case prev of None \<Rightarrow> e | Some l \<Rightarrow> max l e)"

lemma advance_to_ge: "advance_to e prev = Some l \<Longrightarrow> e \<le> l \<and> (\<forall>l0. prev = Some l0 \<longrightarrow> l0 \<le> l)"
  by (auto simp: advance_to_def split: option.splits)

definition update_schedule :: "string \<Rightarrow> string \<Rightarrow> time \<Rightarrow> schema \<Rightarrow> schema" where
  "update_schedule tenantID scheduleID e t =
     t\<lparr>schedules := update_where (\<lambda>s. s_tenant s = tenantID \<and> s_id s = scheduleID)
         (\<lambda>s. s\<lparr>s_last_success := advance_to e (s_last_success s)\<rparr>) (schedules t)\<rparr>"

definition is_window :: "string \<Rightarrow> string \<Rightarrow> time \<Rightarrow> time \<Rightarrow> window_row \<Rightarrow> bool" where
  "is_window tenantID scheduleID dueAt windowEnd w \<longleftrightarrow>
     w_tenant w = tenantID \<and> w_schedule w = scheduleID \<and> w_due w = dueAt \<and> w_end w = windowEnd"

lemma update_schedule_simps [simp]:
  "windows (update_schedule a b e t) = windows t" "deliveries (update_schedule a b e t) = deliveries t"
  "reports (update_schedule a b e t) = reports t"
  "window_recipients (update_schedule a b e t) = window_recipients t"
  by (simp_all add: update_schedule_def)

end
