(* ===== verification/Lease.thy ===== *)
theory Lease
  imports Sql
begin

text \<open>
  The contract that deliveries (internal/store/deliveries.go) and reports
  (internal/app/postgres_report.go) share: work is claimed under a fencing token, a claim counts
  an attempt, an attempt count never exceeds three, and only the holder of the current token
  finalizes. A report may be retried by hand, which starts its count anew. The laws are proved for
  the code's own operations by interpretations in \<open>Delivery_Laws\<close> and \<open>Report_Grants\<close>.
\<close>

text \<open>The claims of a run: for every command the key it claimed, if it claimed one.\<close>

fun run_commands :: "('c \<Rightarrow> 's \<Rightarrow> 's) \<Rightarrow> 'c list \<Rightarrow> 's \<Rightarrow> 's" where
  "run_commands step [] s = s"
| "run_commands step (c # cs) s = run_commands step cs (step c s)"

fun claims_in :: "('c \<Rightarrow> 's \<Rightarrow> 's) \<Rightarrow> ('c \<Rightarrow> 's \<Rightarrow> 'k option) \<Rightarrow> 'k \<Rightarrow> 'c list \<Rightarrow> 's \<Rightarrow> nat" where
  "claims_in step claimed k [] s = 0"
| "claims_in step claimed k (c # cs) s =
     (if claimed c s = Some k then 1 else 0) + claims_in step claimed k cs (step c s)"

locale claim_counter =
  fixes step :: "'c \<Rightarrow> 's \<Rightarrow> 's"
    and claimed :: "'c \<Rightarrow> 's \<Rightarrow> 'k option"
    and inv :: "'s \<Rightarrow> bool"
    and attempts :: "'s \<Rightarrow> 'k \<Rightarrow> int"
    and limit :: int
  assumes step_inv: "inv s \<Longrightarrow> inv (step c s)"
    and attempts_bounds: "inv s \<Longrightarrow> 0 \<le> attempts s k \<and> attempts s k \<le> limit"
    and attempts_mono: "inv s \<Longrightarrow> attempts s k \<le> attempts (step c s) k"
    and attempts_claim: "inv s \<Longrightarrow> claimed c s = Some k \<Longrightarrow> attempts (step c s) k = attempts s k + 1"
begin

lemma run_inv: "inv s \<Longrightarrow> inv (run_commands step cs s)"
  by (induction cs arbitrary: s) (simp_all add: step_inv)

lemma claims_attempts:
  "inv s \<Longrightarrow> attempts s k + int (claims_in step claimed k cs s) \<le> attempts (run_commands step cs s) k"
proof (induction cs arbitrary: s)
  case (Cons c cs)
  with step_inv have "inv (step c s)" by blast
  then have ih: "attempts (step c s) k + int (claims_in step claimed k cs (step c s))
      \<le> attempts (run_commands step cs (step c s)) k"
    by (rule Cons.IH)
  show ?case
    using ih attempts_mono [OF Cons.prems, of k c] attempts_claim [OF Cons.prems, of c k] by auto
qed simp

lemma claims_bounded:
  assumes "inv s"
  shows "int (claims_in step claimed k cs s) \<le> limit - attempts s k"
  using claims_attempts [OF assms, of k cs] attempts_bounds [OF run_inv [OF assms], of cs k] by linarith

end

text \<open>A count that may be started anew: a command claims any number of keys, and restarts the counts
  of some. Every start allows as many claims as the limit.\<close>

fun all_claims :: "('c \<Rightarrow> 's \<Rightarrow> 's) \<Rightarrow> ('c \<Rightarrow> 's \<Rightarrow> 'k list) \<Rightarrow> 'k \<Rightarrow> 'c list \<Rightarrow> 's \<Rightarrow> nat" where
  "all_claims step claimed k [] s = 0"
| "all_claims step claimed k (c # cs) s = count_list (claimed c s) k + all_claims step claimed k cs (step c s)"

fun restarts_in :: "('c \<Rightarrow> 's \<Rightarrow> 's) \<Rightarrow> ('c \<Rightarrow> 's \<Rightarrow> 'k \<Rightarrow> bool) \<Rightarrow> 'k \<Rightarrow> 'c list \<Rightarrow> 's \<Rightarrow> nat" where
  "restarts_in step restarted k [] s = 0"
| "restarts_in step restarted k (c # cs) s =
     (if restarted c s k then 1 else 0) + restarts_in step restarted k cs (step c s)"

locale restarting_counter =
  fixes step :: "'c \<Rightarrow> 's \<Rightarrow> 's"
    and claimed :: "'c \<Rightarrow> 's \<Rightarrow> 'k list"
    and restarted :: "'c \<Rightarrow> 's \<Rightarrow> 'k \<Rightarrow> bool"
    and inv :: "'s \<Rightarrow> bool"
    and attempts :: "'s \<Rightarrow> 'k \<Rightarrow> int"
    and limit :: int
  assumes step_inv: "inv s \<Longrightarrow> inv (step c s)"
    and attempts_bounds: "inv s \<Longrightarrow> 0 \<le> attempts s k \<and> attempts s k \<le> limit"
    and counts: "inv s \<Longrightarrow> \<not> restarted c s k \<Longrightarrow>
      attempts s k + int (count_list (claimed c s) k) \<le> attempts (step c s) k"
    and restart: "inv s \<Longrightarrow> restarted c s k \<Longrightarrow> int (count_list (claimed c s) k) \<le> attempts (step c s) k"
begin

lemma all_claims_bound:
  "inv s \<Longrightarrow> attempts s k + int (all_claims step claimed k cs s) \<le>
     limit + limit * int (restarts_in step restarted k cs s)"
proof (induction cs arbitrary: s)
  case Nil
  then show ?case using attempts_bounds by simp
next
  case (Cons c cs)
  note inv' = step_inv [OF Cons.prems, of c]
  have ih: "attempts (step c s) k + int (all_claims step claimed k cs (step c s)) \<le>
      limit + limit * int (restarts_in step restarted k cs (step c s))"
    by (rule Cons.IH [OF inv'])
  show ?case
  proof (cases "restarted c s k")
    case True
    with ih restart [OF Cons.prems True] attempts_bounds [OF Cons.prems, of k] show ?thesis
      by (simp add: algebra_simps)
  next
    case False
    with ih counts [OF Cons.prems False] show ?thesis by simp
  qed
qed

end

text \<open>The counter without restarts.\<close>

sublocale claim_counter \<subseteq> once: restarting_counter
  step "\<lambda>c s. case claimed c s of None \<Rightarrow> [] | Some k \<Rightarrow> [k]" "\<lambda>c s k. False" inv attempts limit
proof
  show "inv s \<Longrightarrow> inv (step c s)" for c s by (rule step_inv)
  show "inv s \<Longrightarrow> 0 \<le> attempts s k \<and> attempts s k \<le> limit" for s k by (rule attempts_bounds)
  show "inv s \<Longrightarrow> attempts s k + int (count_list (case claimed c s of None \<Rightarrow> [] | Some k \<Rightarrow> [k]) k)
      \<le> attempts (step c s) k" for c s k
    using attempts_mono [of s k c] attempts_claim [of s c k] by (auto split: option.split)
qed simp

text \<open>Fencing. A claim stores a new token; finalizing under any other token is refused and leaves
  the rows alone, so once work has been claimed again the earlier holder has no effect.\<close>

locale fenced =
  fixes inv :: "'s \<Rightarrow> bool"
    and token :: "'s \<Rightarrow> 'k \<Rightarrow> string option"
    and claim :: "'k \<Rightarrow> 's \<Rightarrow> string option \<times> 's"
    and finalize :: "'k \<Rightarrow> string \<Rightarrow> 'f \<Rightarrow> 's \<Rightarrow> goerr option \<times> 's"
    and same_rows :: "'s \<Rightarrow> 's \<Rightarrow> bool"
  assumes finalize_stale:
    "inv s \<Longrightarrow> token s k \<noteq> Some tok \<Longrightarrow>
     fst (finalize k tok f s) \<noteq> None \<and> same_rows s (snd (finalize k tok f s))"
    and claim_token: "inv s \<Longrightarrow> claim k s = (Some tok, s') \<Longrightarrow> token s' k = Some tok"
    and claim_inv: "inv s \<Longrightarrow> inv (snd (claim k s))"
begin

lemma superseded:
  assumes "inv s" "claim k s = (Some tok', s')" "tok \<noteq> tok'"
  shows "fst (finalize k tok f s') \<noteq> None \<and> same_rows s' (snd (finalize k tok f s'))"
  using finalize_stale [of s' k tok f] claim_token [OF assms(1,2)] claim_inv [OF assms(1), of k] assms(2,3)
  by simp

lemma finalize_ok_holder: "inv s \<Longrightarrow> fst (finalize k tok f s) = None \<Longrightarrow> token s k = Some tok"
  using finalize_stale by blast

end

end
