(* ===== verification/Deliveries.thy ===== *)
theory Deliveries
  imports Tables Lease
begin

text \<open>
  internal/store/deliveries.go and the window statement of internal/app/postgres_digest.go: one
  mail delivery per schedule, recipient and due time is claimed under a fresh token with a
  lease of fifteen minutes, finalized as sent or failed by the holder of the token, and the
  digest window is closed once every recipient is settled.
\<close>

definition ErrDeliveryNotClaimed :: string where
  "ErrDeliveryNotClaimed = ''delivery is not actively claimed''"

record delivery_claim =
  dc_tenant :: string
  dc_schedule :: string
  dc_recipient :: string
  dc_key :: string
  dc_due :: time
  dc_end :: time

record delivery_reservation =
  rs_claimed :: bool
  rs_attempts :: int
  rs_token :: string

definition no_reservation :: delivery_reservation where
  "no_reservation = \<lparr>rs_claimed = False, rs_attempts = 0, rs_token = []\<rparr>"

definition beginTenant :: "dbenv \<Rightarrow> string \<Rightarrow> (schema, unit) sql" where
  "beginTenant E tenantID =
     (if \<not> db_set E \<or> tenantID = [] then sql_fail (ErrText ''delivery database and tenant are required'')
      else sql_bind (sql_call E) (\<lambda>_. sql_wrap ''set delivery tenant context'' (sql_call E)))"

definition pending_windows :: "string \<Rightarrow> string \<Rightarrow> time \<Rightarrow> time \<Rightarrow> schema \<Rightarrow> nat" where
  "pending_windows tenantID scheduleID dueAt windowEnd t =
     affected (\<lambda>w. is_window tenantID scheduleID dueAt windowEnd w \<and> w_status w = WPending) (windows t)"

text \<open>The delivery of a schedule to a recipient for a due time and window.\<close>

definition natural :: "delivery_claim \<Rightarrow> delivery_row \<Rightarrow> bool" where
  "natural c d \<longleftrightarrow> d_tenant d = dc_tenant c \<and> d_schedule d = dc_schedule c \<and>
     d_recipient d = dc_recipient c \<and> d_due d = dc_due c \<and> d_end d = dc_end c"

definition keyed :: "delivery_claim \<Rightarrow> delivery_row \<Rightarrow> bool" where
  "keyed c d \<longleftrightarrow> d_tenant d = dc_tenant c \<and> d_key d = dc_key c"

definition normalize_key :: "delivery_claim \<Rightarrow> schema \<Rightarrow> schema" where
  "normalize_key c t =
     t\<lparr>deliveries := update_where
         (\<lambda>d. natural c d \<and> d_key d \<noteq> dc_key c \<and>
              \<not> list_ex (\<lambda>owner. keyed c owner \<and> d_id owner \<noteq> d_id d) (deliveries t))
         (\<lambda>d. d\<lparr>d_key := dc_key c\<rparr>) (deliveries t)\<rparr>"

text \<open>The \<open>ON CONFLICT\<close> update and its \<open>WHERE\<close>.\<close>

definition claimable :: "time \<Rightarrow> delivery_row \<Rightarrow> bool" where
  "claimable now d \<longleftrightarrow>
     (d_status d = DPending \<and> d_attempts d < 3) \<or> (d_status d = DFailed \<and> d_attempts d < 3) \<or>
     (d_status d = DSending \<and> d_claimed d < now - lease_ns)"

definition claim_row :: "time \<Rightarrow> string \<Rightarrow> delivery_row \<Rightarrow> delivery_row" where
  "claim_row now tok d =
     (let exhausted = (d_status d = DSending \<and> 3 \<le> d_attempts d)
      in d\<lparr>d_status := (if exhausted then DFailed else DSending),
           d_attempts := (if d_attempts d < 3 then d_attempts d + 1 else d_attempts d),
           d_error := (if exhausted then Some ''delivery lease expired at retry limit'' else None),
           d_sent := None, d_claimed := now, d_token := tok\<rparr>)"

definition new_delivery :: "delivery_claim \<Rightarrow> time \<Rightarrow> string \<Rightarrow> string \<Rightarrow> delivery_row" where
  "new_delivery c now i tok =
     \<lparr>d_id = i, d_tenant = dc_tenant c, d_schedule = dc_schedule c, d_recipient = dc_recipient c,
      d_key = dc_key c, d_due = dc_due c, d_end = dc_end c, d_status = DSending, d_attempts = 1,
      d_error = None, d_sent = None, d_claimed = now, d_token = tok\<rparr>"

text \<open>The constraints an inserted delivery can violate.\<close>

definition insert_violation :: "delivery_claim \<Rightarrow> schema \<Rightarrow> goerr option" where
  "insert_violation c t =
     (if list_ex (\<lambda>d. d_tenant d = dc_tenant c \<and> d_schedule d = dc_schedule c \<and>
            d_recipient d = dc_recipient c \<and> d_due d = dc_due c) (deliveries t)
      then Some (ErrText ''deliveries_recipient_window_unique'')
      else if \<not> list_ex (\<lambda>r. wr_tenant r = dc_tenant c \<and> wr_schedule r = dc_schedule c \<and>
            wr_due r = dc_due c \<and> wr_end r = dc_end c \<and> wr_recipient r = dc_recipient c) (window_recipients t)
      then Some (ErrText ''deliveries_digest_window_recipient_fk'')
      else None)"

definition upsert_delivery ::
  "dbenv \<Rightarrow> delivery_claim \<Rightarrow> time \<Rightarrow> nat \<Rightarrow> schema \<Rightarrow>
   goerr + (int \<times> string \<times> delivery_status) option \<times> schema" where
  "upsert_delivery E c now n t =
     (case find (keyed c) (deliveries t) of
        Some d \<Rightarrow>
          if claimable now d \<and> natural c d then
            (let d' = claim_row now (uuid_at E n 0) d
             in Inr (Some (d_attempts d', d_token d', d_status d'),
                     t\<lparr>deliveries := update_where ((=) d) (claim_row now (uuid_at E n 0)) (deliveries t)\<rparr>))
          else Inr (None, t)
      | None \<Rightarrow>
          (case insert_violation c t of
             Some e \<Rightarrow> Inl e
           | None \<Rightarrow> Inr (Some (1, uuid_at E n 0, DSending),
               t\<lparr>deliveries := deliveries t @ [new_delivery c now (uuid_at E n 1) (uuid_at E n 0)]\<rparr>)))"

section \<open>Closing a window\<close>

definition recipient_deliveries ::
  "string \<Rightarrow> string \<Rightarrow> time \<Rightarrow> time \<Rightarrow> schema \<Rightarrow> delivery_row option list" where
  "recipient_deliveries tenantID scheduleID dueAt windowEnd t =
     concat (map (\<lambda>r. case filter (\<lambda>d. d_tenant d = wr_tenant r \<and> d_schedule d = wr_schedule r \<and>
                                    d_recipient d = wr_recipient r \<and> d_due d = wr_due r \<and> d_end d = wr_end r)
                         (deliveries t) of
                   [] \<Rightarrow> [None] | ds \<Rightarrow> map Some ds)
       (filter (\<lambda>r. wr_tenant r = tenantID \<and> wr_schedule r = scheduleID \<and> wr_due r = dueAt \<and> wr_end r = windowEnd)
          (window_recipients t)))"

definition is_sent :: "delivery_row option \<Rightarrow> bool" where
  "is_sent x = (case x of None \<Rightarrow> False | Some d \<Rightarrow> d_status d = DSent)"

definition is_exhausted :: "delivery_row option \<Rightarrow> bool" where
  "is_exhausted x = (case x of None \<Rightarrow> False | Some d \<Rightarrow> d_status d = DFailed \<and> 3 \<le> d_attempts d)"

definition close_window ::
  "string \<Rightarrow> string \<Rightarrow> time \<Rightarrow> time \<Rightarrow> window_status \<Rightarrow> time \<Rightarrow> schema \<Rightarrow> schema" where
  "close_window tenantID scheduleID dueAt windowEnd st now t =
     t\<lparr>windows := update_where
         (\<lambda>w. is_window tenantID scheduleID dueAt windowEnd w \<and> w_status w = WPending)
         (\<lambda>w. w\<lparr>w_status := st, w_completed := Some (case w_completed w of None \<Rightarrow> now | Some c \<Rightarrow> c)\<rparr>)
         (windows t)\<rparr>"

definition complete_window_rows ::
  "string \<Rightarrow> string \<Rightarrow> time \<Rightarrow> time \<Rightarrow> time \<Rightarrow> schema \<Rightarrow> schema" where
  "complete_window_rows tenantID scheduleID dueAt windowEnd now t =
     (let xs = recipient_deliveries tenantID scheduleID dueAt windowEnd t;
          all_sent = list_all is_sent xs;
          all_terminal = list_all (\<lambda>x. is_sent x \<or> is_exhausted x) xs;
          any_exhausted = list_ex is_exhausted xs
      in if xs \<noteq> [] \<and> (all_sent \<or> all_terminal \<and> any_exhausted) \<and>
            pending_windows tenantID scheduleID dueAt windowEnd t \<noteq> 0
         then update_schedule tenantID scheduleID windowEnd
                (close_window tenantID scheduleID dueAt windowEnd
                   (if all_sent then WCompleted else WFailed) now t)
         else t)"

definition completeScheduleWindow ::
  "dbenv \<Rightarrow> string \<Rightarrow> string \<Rightarrow> time \<Rightarrow> time \<Rightarrow> time \<Rightarrow> (schema, unit) sql" where
  "completeScheduleWindow E tenantID scheduleID dueAt windowEnd now =
     sql_wrap ''complete delivery window''
       (sql_stmt E (\<lambda>n t. Inr ((), complete_window_rows tenantID scheduleID dueAt windowEnd now t)))"

section \<open>The operations\<close>

definition Claim_result ::
  "dbenv \<Rightarrow> delivery_claim \<Rightarrow> time \<Rightarrow> (int \<times> string \<times> delivery_status) option \<Rightarrow>
   (schema, delivery_reservation) sql" where
  "Claim_result E c now row =
     (case row of
        None \<Rightarrow>
          sql_bind (completeScheduleWindow E (dc_tenant c) (dc_schedule c) (dc_due c) (dc_end c) now) (\<lambda>_.
          sql_bind (sql_wrap ''commit unclaimed delivery'' (sql_call E)) (\<lambda>_. sql_return no_reservation))
      | Some (attempts, tok, status) \<Rightarrow>
          if status \<noteq> DSending then
            sql_bind (completeScheduleWindow E (dc_tenant c) (dc_schedule c) (dc_due c) (dc_end c) now) (\<lambda>_.
            sql_bind (sql_wrap ''commit exhausted delivery'' (sql_call E)) (\<lambda>_.
              sql_return \<lparr>rs_claimed = False, rs_attempts = attempts, rs_token = []\<rparr>))
          else
            sql_bind (sql_wrap ''commit delivery claim'' (sql_call E)) (\<lambda>_.
              sql_return \<lparr>rs_claimed = True, rs_attempts = attempts, rs_token = tok\<rparr>))"

definition Claim_body :: "dbenv \<Rightarrow> delivery_claim \<Rightarrow> time \<Rightarrow> (schema, delivery_reservation) sql" where
  "Claim_body E c now =
     sql_bind (sql_wrap ''lock claim digest window''
                 (sql_query E (pending_windows (dc_tenant c) (dc_schedule c) (dc_due c) (dc_end c)))) (\<lambda>locked.
     if locked \<noteq> 1 then
       sql_bind (sql_wrap ''commit closed delivery window'' (sql_call E)) (\<lambda>_. sql_return no_reservation)
     else
     sql_bind (sql_wrap ''normalize legacy delivery key'' (sql_stmt E (\<lambda>n t. Inr ((), normalize_key c t)))) (\<lambda>_.
     sql_bind (sql_wrap ''claim delivery'' (sql_stmt E (upsert_delivery E c now))) (Claim_result E c now)))"

text \<open>\<open>now()\<close> is the time at which the transaction began.\<close>

definition Claim :: "dbenv \<Rightarrow> delivery_claim \<Rightarrow> (schema, delivery_reservation) sql" where
  "Claim E c d =
     (if is_zero (dc_due c) \<or> dc_end c < dc_due c then
        sql_fail (ErrText ''delivery requires a valid fixed window'') d
      else
        sql_rollback (sql_bind (sql_wrap ''begin delivery claim'' (beginTenant E (dc_tenant c)))
          (\<lambda>_. Claim_body E c (clock_at E (tick d)))) d)"

text \<open>The row a finalization updates: the claim's identity, token and attempt must all match.\<close>

definition held :: "delivery_claim \<Rightarrow> string \<Rightarrow> int \<Rightarrow> delivery_row \<Rightarrow> bool" where
  "held c tok attempts d \<longleftrightarrow> keyed c d \<and> natural c d \<and> d_token d = tok \<and> d_status d = DSending \<and>
     d_attempts d = attempts"

definition finalize_delivery ::
  "dbenv \<Rightarrow> string \<Rightarrow> string \<Rightarrow> string \<Rightarrow> string \<Rightarrow> delivery_claim \<Rightarrow> string \<Rightarrow> int \<Rightarrow>
   (delivery_row \<Rightarrow> delivery_row) \<Rightarrow> time \<Rightarrow> (schema, unit) sql" where
  "finalize_delivery E begin_msg lock_msg update_msg commit_msg c tok attempts f now =
     sql_rollback
      (sql_bind (sql_wrap begin_msg (beginTenant E (dc_tenant c))) (\<lambda>_.
       sql_bind (sql_wrap lock_msg
                   (sql_query E (pending_windows (dc_tenant c) (dc_schedule c) (dc_due c) (dc_end c)))) (\<lambda>locked.
       if locked \<noteq> 1 then sql_fail (Sentinel ErrDeliveryNotClaimed) else
       sql_bind (sql_wrap update_msg
                   (sql_stmt E (\<lambda>n t. Inr (affected (held c tok attempts) (deliveries t),
                      t\<lparr>deliveries := update_where (held c tok attempts) f (deliveries t)\<rparr>)))) (\<lambda>n.
       if n \<noteq> 1 then sql_fail (Sentinel ErrDeliveryNotClaimed) else
       sql_bind (completeScheduleWindow E (dc_tenant c) (dc_schedule c) (dc_due c) (dc_end c) now) (\<lambda>_.
       sql_wrap commit_msg (sql_call E))))))"

definition mark_failed :: "string \<Rightarrow> delivery_row \<Rightarrow> delivery_row" where
  "mark_failed msg d = d\<lparr>d_status := DFailed, d_error := Some msg\<rparr>"

definition mark_sent :: "time \<Rightarrow> delivery_row \<Rightarrow> delivery_row" where
  "mark_sent sentAt d = d\<lparr>d_status := DSent, d_sent := Some sentAt, d_error := None\<rparr>"

definition attempts_error :: goerr where
  "attempts_error = ErrText (''attempts must be between 1 and '' @ show_int MaxDeliveryAttempts)"

definition FinalizeFailure ::
  "dbenv \<Rightarrow> delivery_claim \<Rightarrow> string \<Rightarrow> int \<Rightarrow> goerr option \<Rightarrow> (schema, unit) sql" where
  "FinalizeFailure E c tok attempts sendErr d =
     (case sendErr of
        None \<Rightarrow> sql_fail (ErrText ''delivery failure requires an error'') d
      | Some e \<Rightarrow>
         if attempts < 1 \<or> MaxDeliveryAttempts < attempts then sql_fail attempts_error d
         else if tok = [] \<or> is_zero (dc_due c) \<or> dc_end c < dc_due c then
           sql_fail (ErrText ''delivery failure requires a valid claim identity'') d
         else finalize_delivery E ''begin delivery failure'' ''lock failed digest window''
                ''finalize failed delivery'' ''commit delivery failure'' c tok attempts
                (mark_failed (show_error e)) (clock_at E (tick d)) d)"

definition FinalizeSent ::
  "dbenv \<Rightarrow> delivery_claim \<Rightarrow> string \<Rightarrow> int \<Rightarrow> time \<Rightarrow> (schema, unit) sql" where
  "FinalizeSent E c tok attempts sentAt d =
     (if attempts < 1 \<or> MaxDeliveryAttempts < attempts then sql_fail attempts_error d
      else if tok = [] \<or> is_zero (dc_due c) \<or> dc_end c < dc_due c then
        sql_fail (ErrText ''delivery requires a valid fixed window'') d
      else finalize_delivery E ''begin sent delivery'' ''lock digest window''
             ''finalize sent delivery'' ''commit sent delivery'' c tok attempts
             (mark_sent sentAt) (clock_at E (tick d)) d)"

section \<open>Terminating an empty window\<close>

definition expiredDigestTerminalReason :: string where
  "expiredDigestTerminalReason = ''delivery cancelled: all matched notices expired before delivery''"

definition cancel_error :: "string option \<Rightarrow> string option" where
  "cancel_error e =
     (let msg = (case e of None \<Rightarrow> [] | Some m \<Rightarrow> m)
      in if str_contains msg expiredDigestTerminalReason then e
         else Some (if msg = [] then expiredDigestTerminalReason
                    else msg @ ''; '' @ expiredDigestTerminalReason))"

definition window_delivery :: "string \<Rightarrow> string \<Rightarrow> time \<Rightarrow> time \<Rightarrow> delivery_row \<Rightarrow> bool" where
  "window_delivery tenantID scheduleID dueAt windowEnd d \<longleftrightarrow>
     d_tenant d = tenantID \<and> d_schedule d = scheduleID \<and> d_due d = dueAt \<and> d_end d = windowEnd"

definition active_lease :: "string \<Rightarrow> string \<Rightarrow> time \<Rightarrow> time \<Rightarrow> time \<Rightarrow> schema \<Rightarrow> bool" where
  "active_lease tenantID scheduleID dueAt windowEnd clk t \<longleftrightarrow>
     pending_windows tenantID scheduleID dueAt windowEnd t \<noteq> 0 \<and>
     list_ex (\<lambda>d. window_delivery tenantID scheduleID dueAt windowEnd d \<and> d_status d = DSending \<and>
                  clk - lease_ns \<le> d_claimed d) (deliveries t)"

definition cancel_deliveries :: "string \<Rightarrow> string \<Rightarrow> time \<Rightarrow> time \<Rightarrow> schema \<Rightarrow> schema" where
  "cancel_deliveries tenantID scheduleID dueAt windowEnd t =
     t\<lparr>deliveries := update_where
         (\<lambda>d. window_delivery tenantID scheduleID dueAt windowEnd d \<and> d_status d \<noteq> DSent)
         (\<lambda>d. d\<lparr>d_status := DFailed, d_error := cancel_error (d_error d)\<rparr>) (deliveries t)\<rparr>"

text \<open>The statement of \<open>completeNoopDigestWindow\<close>: its effect and the rows it returns. All its
  parts see the rows as they were before the statement.\<close>

definition noop_rows ::
  "string \<Rightarrow> string \<Rightarrow> time \<Rightarrow> time \<Rightarrow> time \<Rightarrow> time \<Rightarrow> schema \<Rightarrow> nat \<times> schema" where
  "noop_rows tenantID scheduleID dueAt windowEnd now clk t =
     (let pending = (pending_windows tenantID scheduleID dueAt windowEnd t \<noteq> 0);
          active = active_lease tenantID scheduleID dueAt windowEnd clk t;
          closes = (pending \<and> \<not> active);
          advanced = (if closes then affected (\<lambda>s. s_tenant s = tenantID \<and> s_id s = scheduleID) (schedules t) else 0);
          completed = affected (\<lambda>w. is_window tenantID scheduleID dueAt windowEnd w \<and> w_status w = WCompleted)
                        (windows t)
      in (advanced + completed + (if active then 1 else 0),
          if closes then
            update_schedule tenantID scheduleID windowEnd
              (close_window tenantID scheduleID dueAt windowEnd WCompleted now
                (cancel_deliveries tenantID scheduleID dueAt windowEnd t))
          else t))"

definition completeNoopDigestWindow ::
  "dbenv \<Rightarrow> string \<Rightarrow> string \<Rightarrow> time \<Rightarrow> time \<Rightarrow> time \<Rightarrow> (schema, unit) sql" where
  "completeNoopDigestWindow E tenantID scheduleID dueAt windowEnd now =
     sql_bind (sql_wrap ''terminalize empty digest''
        (sql_stmt E (\<lambda>n t. Inr (noop_rows tenantID scheduleID dueAt windowEnd now (clock_at E n) t)))) (\<lambda>n.
     if n \<noteq> 1 then sql_fail (ErrText ''digest window is missing, failed, or has no schedule'')
     else sql_return ())"

end
