(* ===== verification/Tenant_Tx.thy ===== *)
theory Tenant_Tx
  imports Deliveries
begin

text \<open>
  internal/app/postgres_tenant.go: the tenant transaction around an operation, the retry while
  the collector holds its advisory lock, and the lock itself.
\<close>

definition ErrCollectionRunning :: string where
  "ErrCollectionRunning = ''collection is already running''"

text \<open>What the surroundings of a tenant transaction decide: whether the context is done at the
  n-th call, and whether the collection lock is free then.\<close>

record lockenv =
  ctx_err :: "nat \<Rightarrow> goerr option"
  lock_free :: "nat \<Rightarrow> bool"

definition open_env :: lockenv where
  "open_env = \<lparr>ctx_err = (\<lambda>n. None), lock_free = (\<lambda>n. True)\<rparr>"

definition tenantTransaction :: "dbenv \<Rightarrow> (time \<Rightarrow> ('t, 'a) sql) \<Rightarrow> ('t, 'a) sql" where
  "tenantTransaction E fn d =
     sql_rollback
      (sql_bind (sql_wrap ''begin tenant transaction'' (sql_call E)) (\<lambda>_.
       sql_bind (sql_wrap ''set tenant context'' (sql_call E)) (\<lambda>_.
       sql_bind (fn (clock_at E (tick d))) (\<lambda>a.
       sql_bind (sql_wrap ''commit tenant transaction'' (sql_call E)) (\<lambda>_. sql_return a))))) d"

definition tryCollectionLock :: "dbenv \<Rightarrow> lockenv \<Rightarrow> ('t, unit) sql" where
  "tryCollectionLock E L =
     sql_bind (sql_stmt E (\<lambda>n t. Inr (lock_free L n, t))) (\<lambda>locked.
       if locked then sql_return () else sql_fail (Sentinel ErrCollectionRunning))"

definition is_busy :: "'a res \<Rightarrow> bool" where
  "is_busy r = (case r of Inl e \<Rightarrow> errors_is e ErrCollectionRunning | Inr a \<Rightarrow> False)"

definition wait_tick :: "'t db \<Rightarrow> 't db" where
  "wait_tick d = d\<lparr>tick := Suc (tick d)\<rparr>"

text \<open>\<open>retryCollectionBusy\<close>: \<open>None\<close> is the loop that never returns.\<close>

partial_function (option) retryCollectionBusy ::
  "lockenv \<Rightarrow> ('t, 'a) sql \<Rightarrow> 't db \<Rightarrow> ('a res \<times> 't db) option" where
  "retryCollectionBusy L operation d =
     (case ctx_err L (tick d) of
        Some e \<Rightarrow> Some (Inl e, d)
      | None \<Rightarrow>
         (case operation d of (r, d') \<Rightarrow>
            if \<not> is_busy r then Some (r, d')
            else (case ctx_err L (tick d') of
                    Some e \<Rightarrow> Some (Inl e, d')
                  | None \<Rightarrow> retryCollectionBusy L operation (wait_tick d'))))"

definition withTenant ::
  "dbenv \<Rightarrow> lockenv \<Rightarrow> string \<Rightarrow> (time \<Rightarrow> ('t, 'a) sql) \<Rightarrow> 't db \<Rightarrow> ('a res \<times> 't db) option" where
  "withTenant E L tenantID fn d =
     (if \<not> db_set E \<or> tenantID = [] then
        Some (Inl (ErrText ''tenant transaction requires a pool, tenant, and operation''), d)
      else retryCollectionBusy L (tenantTransaction E fn) d)"

lemma tenantTransaction_error:
  "fst (tenantTransaction E fn d) = Inl e \<Longrightarrow> rows (snd (tenantTransaction E fn d)) = rows d"
  unfolding tenantTransaction_def by (rule sql_rollback_Inl)

lemma keeps_tenantTransaction [keeps_intros]:
  "(\<And>now. keeps I (fn now)) \<Longrightarrow> keeps I (tenantTransaction E fn)"
proof -
  assume fn: "\<And>now. keeps I (fn now)"
  have k: "keeps I (sql_rollback
      (sql_bind (sql_wrap ''begin tenant transaction'' (sql_call E)) (\<lambda>_.
       sql_bind (sql_wrap ''set tenant context'' (sql_call E)) (\<lambda>_.
       sql_bind (fn now) (\<lambda>a.
       sql_bind (sql_wrap ''commit tenant transaction'' (sql_call E)) (\<lambda>_. sql_return a))))))" for now
    by (intro keeps_intros fn)
  show ?thesis using k unfolding keeps_def tenantTransaction_def by blast
qed

lemma tenantTransaction_Inr:
  "tenantTransaction E fn d = (Inr a, d') \<Longrightarrow>
   \<exists>d1 d2. rows d1 = rows d \<and> fn (clock_at E (tick d)) d1 = (Inr a, d2) \<and> rows d' = rows d2"
  unfolding tenantTransaction_def
  by (auto simp: sql_Inr_simps) (metis db.select_convs(1) db.surjective)

lemma is_busy_Inl: "is_busy r \<Longrightarrow> \<exists>e. r = Inl e"
  by (auto simp: is_busy_def split: sum.splits)

text \<open>What holds before every try: it holds after a failed loop, and before the try that succeeds.\<close>

lemma retryCollectionBusy_from:
  fixes operation :: "('t, 'a) sql"
  assumes "retryCollectionBusy L operation d = Some x" and J: "J d"
    and fails: "\<And>d e. J d \<Longrightarrow> fst (operation d) = Inl e \<Longrightarrow> J (snd (operation d))"
    and wait: "\<And>d. J d \<Longrightarrow> J (wait_tick d)"
  shows "case fst x of Inl e \<Rightarrow> J (snd x) | Inr a \<Rightarrow> (\<exists>d0. J d0 \<and> operation d0 = (Inr a, snd x))"
  using assms(1)
proof (rule retryCollectionBusy.raw_induct [where P = "\<lambda>L' op' d x. op' = operation \<longrightarrow> J d \<longrightarrow>
    (case fst x of Inl e \<Rightarrow> J (snd x) | Inr a \<Rightarrow> (\<exists>d0. J d0 \<and> operation d0 = (Inr a, snd x)))", rotated, THEN mp, THEN mp])
  show "operation = operation" "J d" using J by simp_all
next
  fix loop L' op' and d :: "'t db" and x
  assume IH: "\<And>L' op' (d :: 't db) x. loop L' op' d = Some x \<Longrightarrow> op' = operation \<longrightarrow> J d \<longrightarrow>
      (case fst x of Inl e \<Rightarrow> J (snd x) | Inr a \<Rightarrow> (\<exists>d0. J d0 \<and> operation d0 = (Inr a, snd x)))"
    and step: "(case ctx_err L' (tick d) of Some e \<Rightarrow> Some (Inl e, d)
      | None \<Rightarrow> (case op' d of (r, d') \<Rightarrow>
            if \<not> is_busy r then Some (r, d')
            else (case ctx_err L' (tick d') of
                    Some e \<Rightarrow> Some (Inl e, d')
                  | None \<Rightarrow> loop L' op' (wait_tick d')))) = Some x"
  show "op' = operation \<longrightarrow> J d \<longrightarrow>
      (case fst x of Inl e \<Rightarrow> J (snd x) | Inr a \<Rightarrow> (\<exists>d0. J d0 \<and> operation d0 = (Inr a, snd x)))"
  proof (intro impI)
    assume op: "op' = operation" and Jd: "J d"
    obtain r d' where r: "operation d = (r, d')" by (cases "operation d")
    have J': "J d'" if "r = Inl e" for e
      using fails [OF Jd, of e] r that by simp
    show "case fst x of Inl e \<Rightarrow> J (snd x) | Inr a \<Rightarrow> (\<exists>d0. J d0 \<and> operation d0 = (Inr a, snd x))"
    proof (cases "ctx_err L' (tick d)")
      case (Some e)
      with step Jd show ?thesis by auto
    next
      case None
      show ?thesis
      proof (cases "is_busy r")
        case False
        with None step op r have "x = (r, d')" by simp
        with J' r Jd show ?thesis by (cases r) auto
      next
        case True
        then obtain e where e: "r = Inl e" using is_busy_Inl by blast
        show ?thesis
        proof (cases "ctx_err L' (tick d')")
          case None
          with \<open>ctx_err L' (tick d) = None\<close> True step op r
          have "loop L' operation (wait_tick d') = Some x" by simp
          from IH [OF this] wait [OF J' [OF e]] show ?thesis by blast
        next
          case (Some f)
          with \<open>ctx_err L' (tick d) = None\<close> True step op r have "x = (Inl f, d')" by simp
          with J' [OF e] show ?thesis by simp
        qed
      qed
    qed
  qed
qed

lemma retryCollectionBusy_result:
  fixes operation :: "('t, 'a) sql"
  assumes "retryCollectionBusy L operation d = Some x"
    and "\<And>d e. fst (operation d) = Inl e \<Longrightarrow> rows (snd (operation d)) = rows d"
  shows "case fst x of Inl e \<Rightarrow> rows (snd x) = rows d
    | Inr a \<Rightarrow> (\<exists>d0. rows d0 = rows d \<and> operation d0 = (Inr a, snd x))"
  by (rule retryCollectionBusy_from [OF assms(1), where J = "\<lambda>d'. rows d' = rows d"])
     (simp_all add: assms(2) wait_tick_def)

text \<open>An operation that takes no collection lock never waits: it is one transaction.\<close>

definition tenant_once :: "dbenv \<Rightarrow> lockenv \<Rightarrow> string \<Rightarrow> (time \<Rightarrow> ('t, 'a) sql) \<Rightarrow> ('t, 'a) sql" where
  "tenant_once E L tenantID fn d =
     (if \<not> db_set E \<or> tenantID = [] then
        (Inl (ErrText ''tenant transaction requires a pool, tenant, and operation''), d)
      else case ctx_err L (tick d) of
        Some e \<Rightarrow> (Inl e, d)
      | None \<Rightarrow> tenantTransaction E fn d)"

definition quiet :: "('t, 'a) sql \<Rightarrow> bool" where
  "quiet m \<longleftrightarrow> (\<forall>d e d'. m d = (Inl e, d') \<longrightarrow> \<not> errors_is e ErrCollectionRunning)"

definition quiet_faults :: "dbenv \<Rightarrow> bool" where
  "quiet_faults E \<longleftrightarrow> (\<forall>n e. fault E n = Some e \<longrightarrow> \<not> errors_is e ErrCollectionRunning)"

named_theorems quiet_intros \<open>rules that decompose the quiet judgement\<close>

lemma quiet_return [quiet_intros]: "quiet (sql_return a)"
  by (simp add: quiet_def)

lemma quiet_fail: "\<not> errors_is e ErrCollectionRunning \<Longrightarrow> quiet (sql_fail e)"
  by (simp add: quiet_def)

lemma quiet_fail_text [quiet_intros]: "quiet (sql_fail (ErrText msg))"
  by (rule quiet_fail) simp

lemma quiet_bind [quiet_intros]: "quiet m \<Longrightarrow> (\<And>a. quiet (f a)) \<Longrightarrow> quiet (sql_bind m f)"
  unfolding quiet_def sql_bind_def
  by (auto split: prod.splits sum.splits)

lemma quiet_wrap [quiet_intros]: "quiet m \<Longrightarrow> quiet (sql_wrap msg m)"
  unfolding quiet_def sql_wrap_def
  by (auto split: prod.splits sum.splits)

lemma quiet_rollback [quiet_intros]: "quiet m \<Longrightarrow> quiet (sql_rollback m)"
  unfolding quiet_def sql_rollback_def
  by (auto split: prod.splits sum.splits)

lemma quiet_stmt:
  "quiet_faults E \<Longrightarrow> (\<And>n t e. f n t = Inl e \<Longrightarrow> \<not> errors_is e ErrCollectionRunning) \<Longrightarrow> quiet (sql_stmt E f)"
  unfolding quiet_def quiet_faults_def sql_stmt_def
  by (auto split: option.splits sum.splits prod.splits)

lemma quiet_query: "quiet_faults E \<Longrightarrow> quiet (sql_query E q)"
  unfolding sql_query_def by (rule quiet_stmt) simp_all

lemma quiet_call: "quiet_faults E \<Longrightarrow> quiet (sql_call E)"
  by (simp add: sql_call_def quiet_query)

lemma quiet_if [quiet_intros]: "quiet m \<Longrightarrow> quiet k \<Longrightarrow> quiet (if b then m else k)"
  by simp

lemma quiet_case_option [quiet_intros]:
  "quiet m \<Longrightarrow> (\<And>x. quiet (f x)) \<Longrightarrow> quiet (case opt of None \<Rightarrow> m | Some x \<Rightarrow> f x)"
  by (cases opt) simp_all

lemma quiet_tenantTransaction:
  assumes "quiet_faults E" "\<And>now. quiet (fn now)"
  shows "quiet (tenantTransaction E fn)"
proof -
  have "quiet (sql_rollback
      (sql_bind (sql_wrap ''begin tenant transaction'' (sql_call E)) (\<lambda>_.
       sql_bind (sql_wrap ''set tenant context'' (sql_call E)) (\<lambda>_.
       sql_bind (fn now) (\<lambda>a.
       sql_bind (sql_wrap ''commit tenant transaction'' (sql_call E)) (\<lambda>_. sql_return a))))))" for now
    by (intro quiet_intros quiet_call assms)
  then show ?thesis unfolding quiet_def tenantTransaction_def by blast
qed

lemma withTenant_once:
  assumes "quiet_faults E" "\<And>now. quiet (fn now)"
  shows "withTenant E L tenantID fn d = Some (tenant_once E L tenantID fn d)"
proof -
  obtain r d' where r: "tenantTransaction E fn d = (r, d')" by (cases "tenantTransaction E fn d")
  have "quiet (tenantTransaction E fn)" using assms by (rule quiet_tenantTransaction)
  with r have "\<not> is_busy r" by (auto simp: quiet_def is_busy_def split: sum.splits)
  with r show ?thesis
    by (simp add: withTenant_def tenant_once_def retryCollectionBusy.simps split: option.split)
qed

text \<open>
  C39: A tenant transaction that has to wait for the collector is repeated, and only the last try
  shows: whatever \<open>withTenant\<close> returns is an error with the rows unchanged, or the result and the
  rows of one single transaction on the rows there were at the start.
\<close>

theorem withTenant_one_transaction:
  "case withTenant E L tenantID fn d of
     None \<Rightarrow> True
   | Some (Inl e, d') \<Rightarrow> rows d' = rows d
   | Some (Inr a, d') \<Rightarrow> (\<exists>d0. rows d0 = rows d \<and> tenantTransaction E fn d0 = (Inr a, d'))"
  using retryCollectionBusy_result [of L "tenantTransaction E fn" d, OF _ tenantTransaction_error]
  by (fastforce simp: withTenant_def split: option.splits prod.splits sum.splits)

text \<open>What an operation leaves alone in one transaction, \<open>withTenant\<close> leaves alone.\<close>

lemma withTenant_unchanged:
  assumes "withTenant E L tenantID fn d = Some (r, d')"
    and same: "\<And>now d0 a d1. rows d0 = rows d \<Longrightarrow> fn now d0 = (Inr a, d1) \<Longrightarrow> rows d1 = rows d0 \<and> P a"
  shows "rows d' = rows d \<and> (\<forall>a. r = Inr a \<longrightarrow> P a)"
proof (cases "db_set E \<and> tenantID \<noteq> []")
  case True
  with assms(1) have "retryCollectionBusy L (tenantTransaction E fn) d = Some (r, d')" by (auto simp: withTenant_def)
  moreover have "\<And>d e. fst (tenantTransaction E fn d) = Inl e \<Longrightarrow> rows (snd (tenantTransaction E fn d)) = rows d"
    by (rule tenantTransaction_error)
  ultimately have res: "case r of Inl e \<Rightarrow> rows d' = rows d
    | Inr a \<Rightarrow> (\<exists>d0. rows d0 = rows d \<and> tenantTransaction E fn d0 = (Inr a, d'))"
    using retryCollectionBusy_result [of L "tenantTransaction E fn" d "(r, d')"] by (cases r) simp_all
  show ?thesis
  proof (cases r)
    case (Inr a)
    with res obtain d0 where d0: "rows d0 = rows d" "tenantTransaction E fn d0 = (Inr a, d')" by auto
    from tenantTransaction_Inr [OF d0(2)] obtain d1 d2 where
      "rows d1 = rows d0" "fn (clock_at E (tick d0)) d1 = (Inr a, d2)" "rows d' = rows d2" by blast
    with same [of d1 "clock_at E (tick d0)" a d2] d0(1) Inr show ?thesis by simp
  qed (use res in simp)
qed (use assms(1) in \<open>auto simp: withTenant_def\<close>)

lemma retryCollectionBusy_returns:
  assumes fwd: "forward operation" and stops: "\<forall>m \<ge> n. ctx_err L m \<noteq> None"
  shows "retryCollectionBusy L operation d \<noteq> None"
proof (induction "n - tick d" arbitrary: d rule: less_induct)
  case less
  obtain r d' where r: "operation d = (r, d')" by (cases "operation d")
  then have le: "tick d \<le> tick d'" using fwd by (auto simp: forward_def dest: spec [of _ d])
  show ?case
  proof (cases "ctx_err L (tick d) = None \<and> is_busy r \<and> ctx_err L (tick d') = None")
    case True
    then have "tick d < n" using stops by (meson linorder_not_less)
    with le have "n - tick (wait_tick d') < n - tick d" by (simp add: wait_tick_def)
    with less have "retryCollectionBusy L operation (wait_tick d') \<noteq> None" by blast
    with True r show ?thesis by (subst retryCollectionBusy.simps) simp
  next
    case False
    with r show ?thesis by (subst retryCollectionBusy.simps) (auto split: option.splits)
  qed
qed

lemma forward_tenantTransaction [forward_intros]:
  "(\<And>now. forward (fn now)) \<Longrightarrow> forward (tenantTransaction E fn)"
proof -
  assume fn: "\<And>now. forward (fn now)"
  have k: "forward (sql_rollback
      (sql_bind (sql_wrap ''begin tenant transaction'' (sql_call E)) (\<lambda>_.
       sql_bind (sql_wrap ''set tenant context'' (sql_call E)) (\<lambda>_.
       sql_bind (fn now) (\<lambda>a.
       sql_bind (sql_wrap ''commit tenant transaction'' (sql_call E)) (\<lambda>_. sql_return a))))))" for now
    by (intro forward_intros fn)
  show ?thesis using k unfolding forward_def tenantTransaction_def by blast
qed

lemma forward_tryCollectionLock [forward_intros]: "forward (tryCollectionLock E L)"
  unfolding tryCollectionLock_def by (intro forward_intros)

text \<open>What \<open>withTenant\<close> returns, with the calls going forward.\<close>

lemma tenantTransaction_forward:
  assumes "tenantTransaction E fn d = (Inr a, d')"
  shows "\<exists>d1 d2. rows d1 = rows d \<and> tick d \<le> tick d1 \<and> fn (clock_at E (tick d)) d1 = (Inr a, d2) \<and>
    rows d' = rows d2 \<and> tick d2 \<le> tick d'"
proof -
  from assms obtain d1 d2 where d1: "d1 = \<lparr>rows = rows d, tick = Suc (Suc (tick d))\<rparr>"
    and f: "fn (clock_at E (tick d)) d1 = (Inr a, d2)" and d': "d' = \<lparr>rows = rows d2, tick = Suc (tick d2)\<rparr>"
    unfolding tenantTransaction_def by (auto simp: sql_Inr_simps)
  show ?thesis by (rule exI [of _ d1], rule exI [of _ d2]) (simp add: d1 d' f [unfolded d1])
qed

lemma withTenant_forward:
  assumes w: "withTenant E L tenantID fn d = Some (r, d')" and fwd: "\<And>now. forward (fn now)"
  shows "case r of Inl e \<Rightarrow> rows d' = rows d \<and> tick d \<le> tick d'
    | Inr a \<Rightarrow> (\<exists>now d1 d2. rows d1 = rows d \<and> tick d \<le> tick d1 \<and> fn now d1 = (Inr a, d2) \<and>
        rows d' = rows d2 \<and> tick d2 \<le> tick d')"
proof (cases "db_set E \<and> tenantID \<noteq> []")
  case True
  let ?J = "\<lambda>d0. rows d0 = rows d \<and> tick d \<le> tick d0"
  have step: "tick d0 \<le> tick (snd (tenantTransaction E fn d0))" for d0
    using forward_tenantTransaction [of fn E, OF fwd] by (simp add: forward_def)
  from True w have "retryCollectionBusy L (tenantTransaction E fn) d = Some (r, d')" by (auto simp: withTenant_def)
  then have "case fst (r, d') of Inl e \<Rightarrow> ?J (snd (r, d'))
      | Inr a \<Rightarrow> (\<exists>d0. ?J d0 \<and> tenantTransaction E fn d0 = (Inr a, snd (r, d')))"
    by (rule retryCollectionBusy_from [where J = ?J])
       (use step tenantTransaction_error [of E fn] le_trans in \<open>fastforce simp: wait_tick_def\<close>)+
  then show ?thesis
    by (cases r) (auto dest!: tenantTransaction_forward intro: order_trans, metis (lifting) order_trans)
qed (use w in \<open>auto simp: withTenant_def\<close>)

text \<open>
  Waiting for the collector ends: once the context of the request is done for good, every
  tenant transaction has returned, however long the lock stays taken.
\<close>

theorem withTenant_returns:
  assumes "\<And>now. forward (fn now)" and "\<forall>m \<ge> n. ctx_err L m \<noteq> None"
  shows "withTenant E L tenantID fn d \<noteq> None"
  unfolding withTenant_def
  using retryCollectionBusy_returns [OF forward_tenantTransaction [of fn E, OF assms(1)] assms(2)] by simp

definition plain_env :: dbenv where
  "plain_env = \<lparr>fault = (\<lambda>n. None), clock_at = (\<lambda>n. day_ns + int n * second_ns),
     uuid_at = (\<lambda>n i. ''u'' @ show_nat n @ ''-'' @ show_nat i), db_set = True\<rparr>"

definition locked_env :: lockenv where
  "locked_env = \<lparr>ctx_err = (\<lambda>n. if n < 40 then None else Some (ErrText ''context deadline exceeded'')),
     lock_free = (\<lambda>n. False)\<rparr>"

theorem withTenant_returns_witness:
  "withTenant plain_env locked_env ''t1'' (\<lambda>now. tryCollectionLock plain_env locked_env)
     \<lparr>rows = (), tick = 0\<rparr> \<noteq> None"
  by (rule withTenant_returns [where n = 40])
     (auto simp: locked_env_def intro!: forward_intros)

end
