(* ===== verification/Digest_Window.thy ===== *)
theory Digest_Window
  imports Tenant_Tx "HOL-Library.Char_ord" "HOL-Library.List_Lexorder" "HOL-Library.Product_Lexorder"
begin

text \<open>
  internal/app/postgres_digest.go: which window of a schedule is due, fixing the window with its
  snapshot of items and recipients, and turning the snapshot into the digests to send. The
  collation of the server, by which text columns are ordered, is the parameter \<open>collate\<close> (a sort
  key); \<open>tz\<close> says that the tz database has Asia/Seoul.
\<close>

section \<open>The due time\<close>

fun due_loop :: "time \<Rightarrow> time \<Rightarrow> int \<Rightarrow> int \<Rightarrow> int list \<Rightarrow> nat \<Rightarrow> nat \<Rightarrow> time option" where
  "due_loop now lastSuccess hour minute wds daysAgo 0 = None"
| "due_loop now lastSuccess hour minute wds daysAgo (Suc rounds) =
     (let date = kst_day now - int daysAgo;
          candidate = kst_at date hour minute
      in if now < candidate \<or> weekday_of_day (kst_day candidate) \<notin> set wds
         then due_loop now lastSuccess hour minute wds (Suc daysAgo) rounds
         else if \<not> is_zero lastSuccess \<and> \<not> lastSuccess < candidate then None
         else Some candidate)"

text \<open>The loop runs for \<open>daysAgo\<close> from 0 to 7: eight rounds.\<close>

definition latestDigestDue :: "bool \<Rightarrow> time \<Rightarrow> time \<Rightarrow> int \<Rightarrow> int \<Rightarrow> int list \<Rightarrow> time option" where
  "latestDigestDue tz now lastSuccess hour minute wds =
     (if hour < 0 \<or> 23 < hour \<or> minute < 0 \<or> 59 < minute \<or> wds = [] then None
      else if list_ex (\<lambda>w. w < 0 \<or> 6 < w) wds then None
      else if \<not> tz then None
      else due_loop now lastSuccess hour minute wds 0 8)"

record digest_schedule =
  ds_id :: string
  ds_hour :: int
  ds_minute :: int
  ds_timezone :: string
  ds_weekdays :: "int list"
  ds_last_success :: time
  ds_pending_due :: time
  ds_pending_end :: time

text \<open>\<open>selectDigestWindow\<close>: the due time, the window end and whether the window exists already;
  \<open>None\<close> when nothing is due.\<close>

definition selectDigestWindow :: "bool \<Rightarrow> time \<Rightarrow> digest_schedule \<Rightarrow> (time \<times> time \<times> bool) option" where
  "selectDigestWindow tz now s =
     (if \<not> is_zero (ds_pending_due s) then
        (if ds_pending_end s < ds_pending_due s then None
         else Some (ds_pending_due s, ds_pending_end s, True))
      else map_option (\<lambda>due. (due, 0, False))
             (latestDigestDue tz now (ds_last_success s) (ds_hour s) (ds_minute s) (ds_weekdays s)))"

section \<open>Fixing a window\<close>

definition nullif_coalesce :: "string \<Rightarrow> string option \<Rightarrow> string" where
  "nullif_coalesce a b = (if a \<noteq> [] then a else case b of None \<Rightarrow> [] | Some x \<Rightarrow> x)"

definition row_source_url :: "notice_row \<Rightarrow> string" where
  "row_source_url n =
     nullif_coalesce (case nr_payload n of None \<Rightarrow> [] | Some p \<Rightarrow> n_source_url p) (nr_legacy_url n)"

definition row_open :: "time \<Rightarrow> notice_row \<Rightarrow> bool" where
  "row_open at_time n = (case nr_deadline n of None \<Rightarrow> True | Some dl \<Rightarrow> at_time \<le> dl)"

definition enabled_matches :: "string \<Rightarrow> schema \<Rightarrow> (match_row \<times> filter_row \<times> notice_row) list" where
  "enabled_matches tenantID t =
     concat (map (\<lambda>m. concat (map (\<lambda>f. map (\<lambda>n. (m, f, n))
        (filter (\<lambda>n. nr_id n = m_notice m) (notices t)))
        (filter (\<lambda>f. f_tenant f = m_tenant m \<and> f_id f = m_filter m \<and> f_enabled f) (filters t))))
        (filter (\<lambda>m. m_tenant m = tenantID) (matches t)))"

definition snapshot_items :: "string \<Rightarrow> string \<Rightarrow> time \<Rightarrow> time \<Rightarrow> time option \<Rightarrow> schema \<Rightarrow> window_item list" where
  "snapshot_items tenantID scheduleID dueAt windowEnd since t =
     map (\<lambda>(m, f, n). \<lparr>wi_tenant = tenantID, wi_schedule = scheduleID, wi_due = dueAt, wi_end = windowEnd,
            wi_match = m_id m, wi_notice = nr_id n, wi_title = nr_title n, wi_url = row_source_url n,
            wi_reasons = m_reasons m, wi_matched = m_created m\<rparr>)
       (filter (\<lambda>(m, f, n). (case since of None \<Rightarrow> True | Some s \<Rightarrow> s < m_created m) \<and>
            m_created m \<le> windowEnd \<and> row_open windowEnd n) (enabled_matches tenantID t))"

definition snapshot_recipients :: "string \<Rightarrow> string \<Rightarrow> time \<Rightarrow> time \<Rightarrow> schema \<Rightarrow> window_recipient list" where
  "snapshot_recipients tenantID scheduleID dueAt windowEnd t =
     map (\<lambda>r. \<lparr>wr_tenant = tenantID, wr_schedule = scheduleID, wr_due = dueAt, wr_end = windowEnd,
             wr_recipient = rc_id r, wr_email = rc_email r\<rparr>)
       (filter (\<lambda>r. rc_tenant r = tenantID \<and> rc_enabled r) (recipients t))"

definition due_window :: "string \<Rightarrow> string \<Rightarrow> time \<Rightarrow> window_row \<Rightarrow> bool" where
  "due_window tenantID scheduleID dueAt w \<longleftrightarrow>
     w_tenant w = tenantID \<and> w_schedule w = scheduleID \<and> w_due w = dueAt"

text \<open>The \<open>INSERT ... ON CONFLICT DO NOTHING\<close> with the constraints of the table.\<close>

definition insert_window ::
  "string \<Rightarrow> string \<Rightarrow> time \<Rightarrow> time \<Rightarrow> schema \<Rightarrow> goerr + time option \<times> schema" where
  "insert_window tenantID scheduleID dueAt windowEnd t =
     (if windowEnd < dueAt then Inl (ErrText ''digest_windows_check'')
      else if list_ex (due_window tenantID scheduleID dueAt) (windows t) then Inr (None, t)
      else if list_ex (\<lambda>w. w_tenant w = tenantID \<and> w_schedule w = scheduleID \<and> w_status w = WPending) (windows t)
        then Inl (ErrText ''digest_windows_one_pending_per_schedule'')
      else if \<not> list_ex (\<lambda>s. s_tenant s = tenantID \<and> s_id s = scheduleID) (schedules t)
        then Inl (ErrText ''digest_windows_schedule_tenant_fk'')
      else Inr (Some windowEnd, t\<lparr>windows := windows t @
             [\<lparr>w_tenant = tenantID, w_schedule = scheduleID, w_due = dueAt, w_end = windowEnd,
               w_status = WPending, w_completed = None\<rparr>]\<rparr>))"

definition ErrNoRows :: string where "ErrNoRows = ''no rows in result set''"

definition getOrCreateDigestWindow ::
  "dbenv \<Rightarrow> string \<Rightarrow> string \<Rightarrow> time \<Rightarrow> time \<Rightarrow> time \<Rightarrow> (schema, time) sql" where
  "getOrCreateDigestWindow E tenantID scheduleID dueAt windowEnd lastSuccess =
     sql_bind (sql_wrap ''create digest window''
        (sql_stmt E (\<lambda>n. insert_window tenantID scheduleID dueAt windowEnd))) (\<lambda>created.
     case created of
       None \<Rightarrow>
         sql_wrap ''create digest window''
          (sql_bind (sql_query E (\<lambda>t. find (due_window tenantID scheduleID dueAt) (windows t))) (\<lambda>w.
           case w of None \<Rightarrow> sql_fail (Sentinel ErrNoRows) | Some w \<Rightarrow> sql_return (w_end w)))
     | Some fixed \<Rightarrow>
         sql_bind (sql_wrap ''snapshot digest window items''
            (sql_stmt E (\<lambda>n t. Inr ((), t\<lparr>window_items := window_items t @
               snapshot_items tenantID scheduleID dueAt fixed
                 (if is_zero lastSuccess then None else Some lastSuccess) t\<rparr>)))) (\<lambda>_.
         sql_bind (sql_wrap ''snapshot digest window recipients''
            (sql_stmt E (\<lambda>n t. Inr ((), t\<lparr>window_recipients := window_recipients t @
               snapshot_recipients tenantID scheduleID dueAt fixed t\<rparr>)))) (\<lambda>_.
         sql_return fixed)))"

section \<open>Loading\<close>

definition schedule_of_row :: "schedule_row \<Rightarrow> digest_schedule" where
  "schedule_of_row s =
     \<lparr>ds_id = s_id s, ds_hour = s_hour s, ds_minute = s_minute s, ds_timezone = s_timezone s,
      ds_weekdays = s_weekdays s,
      ds_last_success = (case s_last_success s of None \<Rightarrow> 0 | Some l \<Rightarrow> l),
      ds_pending_due = 0, ds_pending_end = 0\<rparr>"

definition enabled_schedules :: "string \<Rightarrow> schema \<Rightarrow> schedule_row list" where
  "enabled_schedules tenantID t =
     sort_key s_id (filter (\<lambda>s. s_tenant s = tenantID \<and> s_enabled s) (schedules t))"

fun load_pending :: "dbenv \<Rightarrow> string \<Rightarrow> digest_schedule list \<Rightarrow> (schema, digest_schedule list) sql" where
  "load_pending E tenantID [] = sql_return []"
| "load_pending E tenantID (s # ss) =
     sql_bind (sql_wrap (''query pending digest window for schedule '' @ ds_id s)
       (sql_query E (\<lambda>t. find (\<lambda>w. w_tenant w = tenantID \<and> w_schedule w = ds_id s \<and> w_status w = WPending)
          (windows t)))) (\<lambda>w.
     sql_bind (load_pending E tenantID ss) (\<lambda>rest.
       sql_return ((case w of None \<Rightarrow> s | Some w \<Rightarrow> s\<lparr>ds_pending_due := w_due w, ds_pending_end := w_end w\<rparr>) # rest)))"

definition loadDigestSchedules :: "dbenv \<Rightarrow> string \<Rightarrow> (schema, digest_schedule list) sql" where
  "loadDigestSchedules E tenantID =
     sql_bind (sql_wrap ''query digest schedules'' (sql_query E (enabled_schedules tenantID))) (\<lambda>ss.
       load_pending E tenantID (map schedule_of_row ss))"

definition loadDigestRecipients ::
  "dbenv \<Rightarrow> (string \<Rightarrow> string) \<Rightarrow> string \<Rightarrow> string \<Rightarrow> time \<Rightarrow> time \<Rightarrow> (schema, (string \<times> string) list) sql" where
  "loadDigestRecipients E collate tenantID scheduleID dueAt windowEnd =
     sql_wrap ''query digest recipients'' (sql_query E (\<lambda>t.
       map (\<lambda>r. (wr_recipient r, wr_email r))
         (sort_key (\<lambda>r. (collate (wr_email r), wr_recipient r))
           (filter (\<lambda>r. wr_tenant r = tenantID \<and> wr_schedule r = scheduleID \<and> wr_due r = dueAt \<and>
              wr_end r = windowEnd) (window_recipients t)))))"

record digest_notice_row =
  nrw_id :: string
  nrw_title :: string
  nrw_url :: string
  nrw_reasons :: json

definition loadDigestNoticeRows ::
  "dbenv \<Rightarrow> (string \<Rightarrow> string) \<Rightarrow> string \<Rightarrow> string \<Rightarrow> time \<Rightarrow> time \<Rightarrow> time \<Rightarrow> (schema, digest_notice_row list) sql" where
  "loadDigestNoticeRows E collate tenantID scheduleID dueAt windowEnd cutoff =
     sql_wrap ''query digest matches'' (sql_query E (\<lambda>t.
       map (\<lambda>i. \<lparr>nrw_id = wi_notice i, nrw_title = wi_title i, nrw_url = wi_url i, nrw_reasons = wi_reasons i\<rparr>)
         (sort_key (\<lambda>i. (collate (wi_title i), wi_notice i, wi_matched i, wi_match i))
           (filter (\<lambda>i. wi_tenant i = tenantID \<and> wi_schedule i = scheduleID \<and> wi_due i = dueAt \<and>
              wi_end i = windowEnd \<and>
              list_ex (\<lambda>n. nr_id n = wi_notice i \<and> row_open cutoff n) (notices t)) (window_items t)))))"

definition lockDigestSnapshot :: "dbenv \<Rightarrow> lockenv \<Rightarrow> (schema, time) sql" where
  "lockDigestSnapshot E L =
     sql_bind (sql_wrap ''wait for collection before digest snapshot'' (tryCollectionLock E L)) (\<lambda>_.
       sql_wrap ''read digest snapshot cutoff'' (sql_stmt E (\<lambda>n t. Inr (clock_at E n, t))))"

section \<open>Readable reasons\<close>

definition label_include_any :: string where
  "label_include_any =
     [CHR 0xED, CHR 0x8F, CHR 0xAC, CHR 0xED, CHR 0x95, CHR 0xA8, CHR 0x20, CHR 0xED, CHR 0x82,
      CHR 0xA4, CHR 0xEC, CHR 0x9B, CHR 0x8C, CHR 0xEB, CHR 0x93, CHR 0x9C]"

definition label_include_all :: string where
  "label_include_all =
     [CHR 0xED, CHR 0x95, CHR 0x84, CHR 0xEC, CHR 0x88, CHR 0x98, CHR 0x20, CHR 0xED, CHR 0x82,
      CHR 0xA4, CHR 0xEC, CHR 0x9B, CHR 0x8C, CHR 0xEB, CHR 0x93, CHR 0x9C]"

definition label_category :: string where
  "label_category =
     [CHR 0xEC, CHR 0x97, CHR 0x85, CHR 0xEB, CHR 0xAC, CHR 0xB4, CHR 0xEA, CHR 0xB5, CHR 0xAC,
      CHR 0xEB, CHR 0xB6, CHR 0x84]"

definition label_agency :: string where
  "label_agency =
     [CHR 0xEA, CHR 0xB8, CHR 0xB0, CHR 0xEA, CHR 0xB4, CHR 0x80]"

definition label_region :: string where
  "label_region =
     [CHR 0xEC, CHR 0xA7, CHR 0x80, CHR 0xEC, CHR 0x97, CHR 0xAD]"

definition label_min_amount :: string where
  "label_min_amount =
     [CHR 0xEC, CHR 0xB5, CHR 0x9C, CHR 0xEC, CHR 0x86, CHR 0x8C, CHR 0xEA, CHR 0xB8, CHR 0x88,
      CHR 0xEC, CHR 0x95, CHR 0xA1]"

definition label_max_amount :: string where
  "label_max_amount =
     [CHR 0xEC, CHR 0xB5, CHR 0x9C, CHR 0xEB, CHR 0x8C, CHR 0x80, CHR 0xEA, CHR 0xB8, CHR 0x88,
      CHR 0xEC, CHR 0x95, CHR 0xA1]"

definition label_deadline_weekday :: string where
  "label_deadline_weekday =
     [CHR 0xEB, CHR 0xA7, CHR 0x88, CHR 0xEA, CHR 0xB0, CHR 0x90, CHR 0x20, CHR 0xEC, CHR 0x9A,
      CHR 0x94, CHR 0xEC, CHR 0x9D, CHR 0xBC]"

definition label_deadline_within_days :: string where
  "label_deadline_within_days =
     [CHR 0xEB, CHR 0xA7, CHR 0x88, CHR 0xEA, CHR 0xB0, CHR 0x90, CHR 0x20, CHR 0xEC, CHR 0x9E,
      CHR 0x94, CHR 0xEC, CHR 0x97, CHR 0xAC, CHR 0xEC, CHR 0x9D, CHR 0xBC]"

definition default_reason :: string where
  "default_reason =
     [CHR 0xEB, CHR 0x93, CHR 0xB1, CHR 0xEB, CHR 0xA1, CHR 0x9D, CHR 0xEB, CHR 0x90, CHR 0x9C,
      CHR 0x20, CHR 0xEC, CHR 0xA1, CHR 0xB0, CHR 0xEA, CHR 0xB1, CHR 0xB4, CHR 0xEA, CHR 0xB3,
      CHR 0xBC, CHR 0x20, CHR 0xEC, CHR 0x9D, CHR 0xBC, CHR 0xEC, CHR 0xB9, CHR 0x98]"

definition match_label :: "string \<Rightarrow> string" where
  "match_label code =
     (if code = ''include_any'' then label_include_any
      else if code = ''include_all'' then label_include_all
      else if code = ''category'' then label_category
      else if code = ''agency'' then label_agency
      else if code = ''region'' then label_region
      else if code = ''min_amount'' then label_min_amount
      else if code = ''max_amount'' then label_max_amount
      else if code = ''deadline_weekday'' then label_deadline_weekday
      else if code = ''deadline_within_days'' then label_deadline_within_days
      else code)"

text \<open>The first loop, over the details: the labels, and the codes seen with a label.\<close>

definition detail_label :: "match_detail \<Rightarrow> string" where
  "detail_label dt =
     (let v = trim_space (md_rule_value dt) in match_label (md_code dt) @ (if v \<noteq> [] then '': '' @ v else []))"

definition readableMatchReasons :: "stored_match_reasons \<Rightarrow> string list" where
  "readableMatchReasons payload =
     (let from_details = filter (\<lambda>dt. detail_label dt \<noteq> []) (sm_details payload);
          seenCode = set (map md_code from_details)
      in map detail_label from_details @
         map match_label (filter (\<lambda>code. code \<notin> seenCode \<and> match_label code \<noteq> []) (sm_reasons payload)))"

record digest_notice =
  dn_title :: string
  dn_url :: string
  dn_reason :: string

record accumulated =
  ac_id :: string
  ac_title :: string
  ac_url :: string
  ac_reasons :: "string list"

definition add_reasons :: "string list \<Rightarrow> string list \<Rightarrow> string list" where
  "add_reasons seen new = foldl (\<lambda>acc r. if r \<in> set acc then acc else acc @ [r]) seen new"

text \<open>One row of \<open>mergeDigestNoticeRows\<close>: the entry of its notice is updated, or a new entry is
  appended.\<close>

definition merge_row :: "accumulated list \<Rightarrow> digest_notice_row \<Rightarrow> stored_match_reasons \<Rightarrow> accumulated list" where
  "merge_row acc row payload =
     (if list_ex (\<lambda>a. ac_id a = nrw_id row) acc then
        map (\<lambda>a. if ac_id a = nrw_id row then
                   a\<lparr>ac_url := (if ac_url a = [] then nrw_url row else ac_url a),
                     ac_reasons := add_reasons (ac_reasons a) (readableMatchReasons payload)\<rparr>
                 else a) acc
      else acc @ [\<lparr>ac_id = nrw_id row, ac_title = nrw_title row, ac_url = nrw_url row,
                   ac_reasons = add_reasons [] (readableMatchReasons payload)\<rparr>])"

fun merge_rows :: "accumulated list \<Rightarrow> digest_notice_row list \<Rightarrow> accumulated list res" where
  "merge_rows acc [] = Inr acc"
| "merge_rows acc (row # rest) =
     (if nrw_id row = [] \<or> trim_space (nrw_title row) = [] then
        Inl (ErrText ''digest notice requires an id and title'')
      else case unmarshal_reasons (nrw_reasons row) of
        None \<Rightarrow> Inl (ErrWrap (''decode reasons for notice '' @ nrw_id row) (ErrText ''json''))
      | Some payload \<Rightarrow> merge_rows (merge_row acc row payload) rest)"

definition merged_notice :: "accumulated \<Rightarrow> digest_notice" where
  "merged_notice a =
     \<lparr>dn_title = ac_title a, dn_url = ac_url a,
      dn_reason = str_join '', '' (if ac_reasons a = [] then [default_reason] else ac_reasons a)\<rparr>"

definition mergeDigestNoticeRows :: "digest_notice_row list \<Rightarrow> digest_notice list res" where
  "mergeDigestNoticeRows rows' = (case merge_rows [] rows' of Inl e \<Rightarrow> Inl e | Inr acc \<Rightarrow> Inr (map merged_notice acc))"

record digest_work =
  dw_tenant :: string
  dw_schedule :: string
  dw_recipient :: string
  dw_email :: string
  dw_due :: time
  dw_end :: time
  dw_notices :: "digest_notice list"

definition buildDigestWorks ::
  "string \<Rightarrow> digest_schedule \<Rightarrow> time \<Rightarrow> time \<Rightarrow> (string \<times> string) list \<Rightarrow> digest_notice_row list \<Rightarrow> digest_work list res" where
  "buildDigestWorks tenantID s dueAt windowEnd recipients' rows' =
     (case mergeDigestNoticeRows rows' of
        Inl e \<Rightarrow> Inl e
      | Inr ns \<Rightarrow>
         if ns = [] \<or> recipients' = [] then
           Inr [\<lparr>dw_tenant = tenantID, dw_schedule = ds_id s, dw_recipient = [], dw_email = [],
                 dw_due = dueAt, dw_end = windowEnd, dw_notices = []\<rparr>]
         else Inr (map (\<lambda>(rid, email). \<lparr>dw_tenant = tenantID, dw_schedule = ds_id s, dw_recipient = rid,
                 dw_email = email, dw_due = dueAt, dw_end = windowEnd, dw_notices = ns\<rparr>) recipients'))"

section \<open>The due digests\<close>

definition sql_lift :: "'a res \<Rightarrow> ('t, 'a) sql" where
  "sql_lift r = (case r of Inl e \<Rightarrow> sql_fail e | Inr a \<Rightarrow> sql_return a)"

lemma keeps_lift [keeps_intros]: "keeps I (sql_lift r)"
  by (simp add: sql_lift_def keeps_return keeps_fail split: sum.split)

definition schedule_digests ::
  "dbenv \<Rightarrow> bool \<Rightarrow> (string \<Rightarrow> string) \<Rightarrow> string \<Rightarrow> time \<Rightarrow> digest_schedule \<Rightarrow> (schema, digest_work list) sql" where
  "schedule_digests E tz collate tenantID snapshotAt s =
     (if ds_timezone s \<noteq> ''Asia/Seoul'' then
        sql_fail (ErrText (''schedule '' @ ds_id s @ '' has unsupported timezone''))
      else case selectDigestWindow tz snapshotAt s of
        None \<Rightarrow> sql_return []
      | Some (dueAt, pendingEnd, existing) \<Rightarrow>
          sql_bind (if existing then sql_return pendingEnd
                    else sql_wrap (''fix schedule '' @ ds_id s @ '' digest window'')
                      (getOrCreateDigestWindow E tenantID (ds_id s) dueAt snapshotAt (ds_last_success s))) (\<lambda>windowEnd.
          sql_bind (sql_wrap (''load schedule '' @ ds_id s @ '' recipients'')
                      (loadDigestRecipients E collate tenantID (ds_id s) dueAt windowEnd)) (\<lambda>rs.
          sql_bind (sql_wrap (''load schedule '' @ ds_id s @ '' matches'')
                      (loadDigestNoticeRows E collate tenantID (ds_id s) dueAt windowEnd snapshotAt)) (\<lambda>ns.
          sql_wrap (''build schedule '' @ ds_id s @ '' digest'')
            (sql_lift (buildDigestWorks tenantID s dueAt windowEnd rs ns))))))"

fun schedules_digests ::
  "dbenv \<Rightarrow> bool \<Rightarrow> (string \<Rightarrow> string) \<Rightarrow> string \<Rightarrow> time \<Rightarrow> digest_schedule list \<Rightarrow> (schema, digest_work list) sql" where
  "schedules_digests E tz collate tenantID snapshotAt [] = sql_return []"
| "schedules_digests E tz collate tenantID snapshotAt (s # ss) =
     sql_bind (schedule_digests E tz collate tenantID snapshotAt s) (\<lambda>items.
     sql_bind (schedules_digests E tz collate tenantID snapshotAt ss) (\<lambda>rest. sql_return (items @ rest)))"

definition tenant_digests ::
  "dbenv \<Rightarrow> lockenv \<Rightarrow> bool \<Rightarrow> (string \<Rightarrow> string) \<Rightarrow> string \<Rightarrow> time \<Rightarrow> (schema, digest_work list) sql" where
  "tenant_digests E L tz collate tenantID now =
     sql_bind (lockDigestSnapshot E L) (\<lambda>snapshotAt.
     sql_bind (loadDigestSchedules E tenantID) (schedules_digests E tz collate tenantID snapshotAt))"

text \<open>\<open>DueDigests\<close> over the tenants of the catalog; \<open>None\<close> when a wait for the collector never ends.\<close>

fun DueDigests_loop ::
  "dbenv \<Rightarrow> lockenv \<Rightarrow> bool \<Rightarrow> (string \<Rightarrow> string) \<Rightarrow> (string \<times> string) list \<Rightarrow> schema db \<Rightarrow>
   (digest_work list res \<times> schema db) option" where
  "DueDigests_loop E L tz collate [] d = Some (Inr [], d)"
| "DueDigests_loop E L tz collate ((tenantID, name) # ts) d =
     (case withTenant E L tenantID (tenant_digests E L tz collate tenantID) d of
        None \<Rightarrow> None
      | Some (Inl e, d') \<Rightarrow> Some (Inl (ErrWrap (''load tenant '' @ tenantID @ '' digests'') e), d')
      | Some (Inr items, d') \<Rightarrow>
         (case DueDigests_loop E L tz collate ts d' of
            None \<Rightarrow> None
          | Some (Inl e, d'') \<Rightarrow> Some (Inl e, d'')
          | Some (Inr rest, d'') \<Rightarrow> Some (Inr (items @ rest), d'')))"

definition tenantCatalog :: "dbenv \<Rightarrow> (schema, (string \<times> string) list) sql" where
  "tenantCatalog E =
     (if \<not> db_set E then sql_fail (ErrText ''database pool is not configured'')
      else sql_wrap ''load tenant catalog'' (sql_query E tenants))"

definition DueDigests ::
  "dbenv \<Rightarrow> lockenv \<Rightarrow> bool \<Rightarrow> (string \<Rightarrow> string) \<Rightarrow> schema db \<Rightarrow> (digest_work list res \<times> schema db) option" where
  "DueDigests E L tz collate d =
     (case tenantCatalog E d of
        (Inl e, d') \<Rightarrow> Some (Inl e, d')
      | (Inr ts, d') \<Rightarrow> DueDigests_loop E L tz collate ts d')"

end
