(* ===== verification/Digest.thy ===== *)
theory Digest
  imports Digest_Window
begin

text \<open>
  internal/digest/digest.go: the digest mail, the daily schedule, the retry helper and the key of a
  delivery. Package net/url, net/mail and mime act through the parameters \<open>url_parse\<close> (scheme and
  host of a URL, or an error), \<open>parse_address\<close>, \<open>q_encode\<close> and \<open>quoted_printable\<close>; \<open>sha\<close> is the
  hexadecimal SHA-256 digest.
\<close>

section \<open>The mail\<close>

definition count_char :: "char \<Rightarrow> string \<Rightarrow> nat" where
  "count_char c s = length (filter (\<lambda>x. x = c) s)"

definition id_char :: "char \<Rightarrow> bool" where
  "id_char c \<longleftrightarrow>
     (97 \<le> byte c \<and> byte c \<le> 122) \<or> (65 \<le> byte c \<and> byte c \<le> 90) \<or> (48 \<le> byte c \<and> byte c \<le> 57) \<or>
     c \<in> set (''.!#$%&'' @ [CHR 0x27] @ ''*+-/=?^_'' @ [CHR 0x60] @ ''{|}~@'')"

text \<open>The rune loop accepts ASCII only, so it can be read byte by byte.\<close>

definition validMessageID :: "string \<Rightarrow> bool" where
  "validMessageID v =
     (if 254 < length v \<or> count_char CHR ''@'' v \<noteq> 1 \<or> contains_any v (''<>'' @ [CHR 0x0D, CHR 0x0A, CHR 0x09, CHR 0x20])
      then False
      else let left = takeWhile (\<lambda>c. c \<noteq> CHR ''@'') v;
               right = tl (dropWhile (\<lambda>c. c \<noteq> CHR ''@'') v)
           in if left = [] \<or> right = [] \<or> has_prefix right ''.'' \<or> has_suffix right ''.'' then False
              else list_all id_char v)"

fun escape_char :: "char \<Rightarrow> string" where
  "escape_char c =
     (if c = CHR ''&'' then ''&amp;''
      else if c = CHR 0x27 then ''&#39;''
      else if c = CHR ''<'' then ''&lt;''
      else if c = CHR ''>'' then ''&gt;''
      else if c = CHR 0x22 then ''&#34;''
      else [c])"

definition html_escape :: "string \<Rightarrow> string" where
  "html_escape s = concat (map escape_char s)"

definition safeURL :: "(string \<Rightarrow> (string \<times> string) option) \<Rightarrow> string \<Rightarrow> string" where
  "safeURL url_parse raw =
     (case url_parse raw of
        None \<Rightarrow> ''#''
      | Some (scheme, host) \<Rightarrow>
          if host = [] \<or> (scheme \<noteq> ''http'' \<and> scheme \<noteq> ''https'') then ''#'' else raw)"

definition text_no_match :: string where
  "text_no_match =
     [CHR 0xEC, CHR 0x83, CHR 0x88, CHR 0xEB, CHR 0xA1, CHR 0x9C, CHR 0x20, CHR 0xEC, CHR 0x9D,
      CHR 0xBC, CHR 0xEC, CHR 0xB9, CHR 0x98, CHR 0xED, CHR 0x95, CHR 0x9C, CHR 0x20, CHR 0xEA,
      CHR 0xB3, CHR 0xB5, CHR 0xEA, CHR 0xB3, CHR 0xA0, CHR 0xEA, CHR 0xB0, CHR 0x80, CHR 0x20,
      CHR 0xEC, CHR 0x97, CHR 0x86, CHR 0xEC, CHR 0x8A, CHR 0xB5, CHR 0xEB, CHR 0x8B, CHR 0x88,
      CHR 0xEB, CHR 0x8B, CHR 0xA4, CHR 0x2E]"

definition text_reason :: string where
  "text_reason =
     [CHR 0xEC, CHR 0x9D, CHR 0xBC, CHR 0xEC, CHR 0xB9, CHR 0x98, CHR 0x20, CHR 0xEC, CHR 0x82,
      CHR 0xAC, CHR 0xEC, CHR 0x9C, CHR 0xA0, CHR 0x3A, CHR 0x20]"

definition article :: "(string \<Rightarrow> (string \<times> string) option) \<Rightarrow> digest_notice \<Rightarrow> string" where
  "article url_parse n =
     ''<article><h2><a href='' @ [CHR 0x22] @ html_escape (safeURL url_parse (dn_url n)) @ [CHR 0x22] @ ''>'' @
     html_escape (dn_title n) @ ''</a></h2><p>'' @ text_reason @ html_escape (dn_reason n) @ ''</p></article>''"

definition BuildHTML :: "(string \<Rightarrow> (string \<times> string) option) \<Rightarrow> string \<Rightarrow> digest_notice list \<Rightarrow> string" where
  "BuildHTML url_parse subject ns =
     ''<!doctype html><html lang='' @ [CHR 0x22] @ ''ko'' @ [CHR 0x22] @ ''><body><h1>'' @
     html_escape subject @ ''</h1>'' @
     (if ns = [] then ''<p>'' @ text_no_match @ ''</p>'' else []) @
     concat (map (article url_parse) ns) @ ''</body></html>''"

record mail_env =
  me_url_parse :: "string \<Rightarrow> (string \<times> string) option"
  me_parse_address :: "string \<Rightarrow> string option"
  me_q_encode :: "string \<Rightarrow> string"
  me_quoted_printable :: "string \<Rightarrow> string"

definition crlf :: string where "crlf = [CHR 0x0D, CHR 0x0A]"

fun parse_recipients :: "mail_env \<Rightarrow> string list \<Rightarrow> string list option" where
  "parse_recipients M [] = Some []"
| "parse_recipients M (r # rs) =
     (case me_parse_address M r of None \<Rightarrow> None | Some a \<Rightarrow> map_option ((#) a) (parse_recipients M rs))"

definition BuildSMTPMessageWithID ::
  "mail_env \<Rightarrow> string \<Rightarrow> string list \<Rightarrow> string \<Rightarrow> digest_notice list \<Rightarrow> string \<Rightarrow> string res" where
  "BuildSMTPMessageWithID M from_addr to_addrs subject ns messageID =
     (if contains_any subject crlf then Inl (ErrText ''invalid subject'')
      else if messageID \<noteq> [] \<and> \<not> validMessageID messageID then Inl (ErrText ''invalid message id'')
      else case me_parse_address M from_addr of
        None \<Rightarrow> Inl (ErrWrap ''parse sender'' (ErrText ''mail''))
      | Some sender \<Rightarrow>
        (case parse_recipients M to_addrs of
           None \<Rightarrow> Inl (ErrWrap ''parse recipient'' (ErrText ''mail''))
         | Some to \<Rightarrow>
             if to = [] then Inl (ErrText ''at least one recipient is required'')
             else Inr (''From: '' @ sender @ crlf @
                ''To: '' @ str_join '', '' to @ crlf @
                ''Subject: '' @ me_q_encode M subject @ crlf @
                (if messageID \<noteq> [] then ''Message-ID: <'' @ messageID @ ''>'' @ crlf else []) @
                ''MIME-Version: 1.0'' @ crlf @ ''Content-Type: text/html; charset=UTF-8'' @ crlf @
                ''Content-Transfer-Encoding: quoted-printable'' @ crlf @ crlf @
                me_quoted_printable M (BuildHTML (me_url_parse M) subject ns))))"

section \<open>The daily schedule\<close>

definition Due :: "bool \<Rightarrow> int \<Rightarrow> int \<Rightarrow> time \<Rightarrow> time \<Rightarrow> time option" where
  "Due tz hour minute now lastSuccess =
     (if hour < 0 \<or> 23 < hour \<or> minute < 0 \<or> 59 < minute then None
      else if \<not> tz then None
      else let due0 = kst_at (kst_day now) hour minute;
               due = (if now < due0 then kst_at (kst_day due0 - 1) hour minute else due0)
           in if \<not> is_zero lastSuccess \<and> \<not> lastSuccess < due then None else Some due)"

fun retry_loop :: "('s \<Rightarrow> goerr option \<times> 's) \<Rightarrow> nat \<Rightarrow> goerr option \<Rightarrow> 's \<Rightarrow> goerr option \<times> 's" where
  "retry_loop send 0 err s = (err, s)"
| "retry_loop send (Suc n) err s =
     (case send s of (None, s') \<Rightarrow> (None, s') | (Some e, s') \<Rightarrow> retry_loop send n (Some e) s')"

definition Retry3 :: "('s \<Rightarrow> goerr option \<times> 's) \<Rightarrow> 's \<Rightarrow> goerr option \<times> 's" where
  "Retry3 send s = retry_loop send 3 None s"

definition DeliveryKey :: "(string \<Rightarrow> string) \<Rightarrow> string \<Rightarrow> string \<Rightarrow> string \<Rightarrow> time \<Rightarrow> string" where
  "DeliveryKey sha tenantID scheduleID recipientID due =
     sha (tenantID @ [CHR 0x00] @ scheduleID @ [CHR 0x00] @ recipientID @ [CHR 0x00] @ format_rfc3339_nano 0 due)"

section \<open>Properties\<close>

lemma count_char_append [simp]: "count_char c (a @ b) = count_char c a + count_char c b"
  by (simp add: count_char_def)

lemma count_char_Cons: "count_char c (x # xs) = (if x = c then 1 else 0) + count_char c xs"
  by (simp add: count_char_def)

lemma count_char_Nil [simp]: "count_char c [] = 0"
  by (simp add: count_char_def)

lemma html_escape_no_markup: "count_char CHR ''<'' (html_escape s) = 0" "count_char CHR ''>'' (html_escape s) = 0"
    "count_char CHR 0x22 (html_escape s) = 0"
  by (induction s) (auto simp: html_escape_def count_char_Cons)

lemma count_text: "count_char CHR ''<'' text_no_match = 0" "count_char CHR ''<'' text_reason = 0"
    "count_char CHR 0x22 text_no_match = 0" "count_char CHR 0x22 text_reason = 0"
  by (simp_all add: text_no_match_def text_reason_def count_char_Cons)

lemma count_article:
  "count_char CHR ''<'' (article url_parse n) = 8" "count_char CHR 0x22 (article url_parse n) = 2"
  by (simp_all add: article_def html_escape_no_markup count_text count_char_Cons)

lemma count_articles:
  "count_char CHR ''<'' (concat (map (article url_parse) ns)) = 8 * length ns"
  "count_char CHR 0x22 (concat (map (article url_parse) ns)) = 2 * length ns"
  by (induction ns) (simp_all add: count_article)

text \<open>The attribute values of an HTML text: what stands between its first and second quote, its third
  and fourth, and so on. The value that is open is carried along.\<close>

fun attribute_values :: "string option \<Rightarrow> string \<Rightarrow> string list" where
  "attribute_values None [] = []"
| "attribute_values None (c # cs) = (if c = CHR 0x22 then attribute_values (Some []) cs else attribute_values None cs)"
| "attribute_values (Some v) [] = [v]"
| "attribute_values (Some v) (c # cs) =
     (if c = CHR 0x22 then v # attribute_values None cs else attribute_values (Some (v @ [c])) cs)"

lemma values_outside: "CHR 0x22 \<notin> set a \<Longrightarrow> attribute_values None (a @ s) = attribute_values None s"
  by (induction a) auto

lemma values_inside: "CHR 0x22 \<notin> set a \<Longrightarrow> attribute_values (Some v) (a @ CHR 0x22 # s) = (v @ a) # attribute_values None s"
  by (induction a arbitrary: v) auto

lemma html_escape_quotes: "CHR 0x22 \<notin> set (html_escape s)"
  by (induction s) (auto simp: html_escape_def)

lemma values_article:
  "attribute_values None (article url_parse n @ s) = html_escape (safeURL url_parse (dn_url n)) # attribute_values None s"
proof -
  have "attribute_values None (article url_parse n @ s) = attribute_values None (''<article><h2><a href='' @ CHR 0x22 #
      html_escape (safeURL url_parse (dn_url n)) @ CHR 0x22 # (''>'' @ html_escape (dn_title n) @ ''</a></h2><p>'' @ text_reason @
      html_escape (dn_reason n) @ ''</p></article>'') @ s)"
    by (simp add: article_def)
  also have "\<dots> = html_escape (safeURL url_parse (dn_url n)) # attribute_values None ((''>'' @ html_escape (dn_title n) @
      ''</a></h2><p>'' @ text_reason @ html_escape (dn_reason n) @ ''</p></article>'') @ s)"
    by (subst values_outside) (simp_all add: values_inside html_escape_quotes)
  also have "attribute_values None ((''>'' @ html_escape (dn_title n) @
      ''</a></h2><p>'' @ text_reason @ html_escape (dn_reason n) @ ''</p></article>'') @ s) = attribute_values None s"
    by (rule values_outside) (simp add: html_escape_quotes text_reason_def)
  finally show ?thesis .
qed

lemma values_articles:
  "attribute_values None (concat (map (article url_parse) ns) @ s) =
     map (\<lambda>n. html_escape (safeURL url_parse (dn_url n))) ns @ attribute_values None s"
  by (induction ns) (simp_all add: values_article)

text \<open>A link into the web: an absolute URL of one of the two schemes.\<close>

definition web_link :: "(string \<Rightarrow> (string \<times> string) option) \<Rightarrow> string \<Rightarrow> bool" where
  "web_link url_parse u \<longleftrightarrow>
     (\<exists>scheme host. url_parse u = Some (scheme, host) \<and> host \<noteq> [] \<and> (scheme = ''http'' \<or> scheme = ''https''))"

lemma safeURL_link: "safeURL url_parse u = (if web_link url_parse u then u else ''#'')"
  by (auto simp: safeURL_def web_link_def split: option.splits)

text \<open>
  C38: No notice can inject markup into the digest mail: the number of opening brackets and of
  quotes in the HTML depends on the number of notices only, whatever the subject, the titles,
  the links and the reasons contain; and the attribute values of the HTML are the language and, for
  each notice in order, its link: the escaped stored URL when this is an absolute URL with scheme
  http or https, and the harmless \<open>#\<close> otherwise.
\<close>

theorem digest_html_no_injection:
  "count_char CHR ''<'' (BuildHTML url_parse subject ns) = 7 + (if ns = [] then 2 else 0) + 8 * length ns \<and>
   count_char CHR 0x22 (BuildHTML url_parse subject ns) = 2 + 2 * length ns \<and>
   attribute_values None (BuildHTML url_parse subject ns) =
     ''ko'' # map (\<lambda>n. html_escape (if web_link url_parse (dn_url n) then dn_url n else ''#'')) ns"
proof -
  have "attribute_values None (BuildHTML url_parse subject ns) =
      ''ko'' # attribute_values None ((''><body><h1>'' @ html_escape subject @ ''</h1>'' @
        (if ns = [] then ''<p>'' @ text_no_match @ ''</p>'' else [])) @ concat (map (article url_parse) ns) @ ''</body></html>'')"
    by (simp add: BuildHTML_def)
  also have "\<dots> = ''ko'' # attribute_values None (concat (map (article url_parse) ns) @ ''</body></html>'')"
    by (subst values_outside) (auto simp: html_escape_quotes text_no_match_def)
  finally show ?thesis
    by (simp add: values_articles safeURL_link BuildHTML_def html_escape_no_markup count_text count_articles count_char_Cons)
qed

text \<open>
  The daily schedule is the weekly one with every weekday allowed: \<open>DailySchedule.Due\<close> and the
  digest's \<open>latestDigestDue\<close> agree for every hour, minute, instant and last success, also on
  invalid times.
\<close>

theorem daily_due_is_weekly_due:
  "Due tz hour minute now lastSuccess = latestDigestDue tz now lastSuccess hour minute [0, 1, 2, 3, 4, 5, 6]"
proof (cases "hour < 0 \<or> 23 < hour \<or> minute < 0 \<or> 59 < minute \<or> \<not> tz")
  case True
  then show ?thesis by (auto simp: Due_def latestDigestDue_def)
next
  case False
  then have hm: "0 \<le> hour" "hour \<le> 23" "0 \<le> minute" "minute \<le> 59" and tz by auto
  have day: "weekday_of_day d \<in> set [0, 1, 2, 3, 4, 5, 6]" for d
    using weekday_range [of d] by (simp add: set_eq_iff) linarith
  have d1: "kst_at (kst_day now - 1) hour minute \<le> now"
    using kst_day_bounds [of now] hm by (simp add: kst_at_def)
  have k: "kst_day (kst_at (kst_day now) hour minute) = kst_day now" by (rule kst_day_at [OF hm])
  have eight: "8 = Suc (Suc 6)" by simp
  have loop: "due_loop now lastSuccess hour minute [0, 1, 2, 3, 4, 5, 6] 0 8 =
     (let due = (if now < kst_at (kst_day now) hour minute then kst_at (kst_day now - 1) hour minute
                 else kst_at (kst_day now) hour minute)
      in if \<not> is_zero lastSuccess \<and> \<not> lastSuccess < due then None else Some due)"
    unfolding eight due_loop.simps Let_def using d1 day
    by (auto simp del: set_simps)
  show ?thesis
    using False loop k \<open>tz\<close> by (simp add: Due_def latestDigestDue_def Let_def)
qed

end
