(* ===== verification/Delivery_Laws.thy ===== *)
theory Delivery_Laws
  imports Tenant_Tx
begin

text \<open>
  What the delivery operations of \<open>Deliveries\<close> guarantee over any sequence of calls: at most
  three claims of one delivery, fencing by the claim token, no second sending of a delivery that
  was sent, and the rule by which a window closes. A command is one call of the repository with
  every statement subject to the faults of the environment.
\<close>

datatype delivery_command =
    CmdClaim delivery_claim
  | CmdSent delivery_claim string int time
  | CmdFailure delivery_claim string int "goerr option"
  | CmdNoop string string time time

definition CompleteNoop :: "dbenv \<Rightarrow> string \<Rightarrow> string \<Rightarrow> time \<Rightarrow> time \<Rightarrow> (schema, unit) sql" where
  "CompleteNoop E tenantID scheduleID dueAt windowEnd d =
     (if is_zero dueAt \<or> windowEnd < dueAt then sql_fail (ErrText ''digest requires a valid fixed window'') d
      else tenantTransaction E (completeNoopDigestWindow E tenantID scheduleID dueAt windowEnd) d)"

fun delivery_step :: "dbenv \<Rightarrow> delivery_command \<Rightarrow> schema db \<Rightarrow> schema db" where
  "delivery_step E (CmdClaim c) d = snd (Claim E c d)"
| "delivery_step E (CmdSent c tok attempts sentAt) d = snd (FinalizeSent E c tok attempts sentAt d)"
| "delivery_step E (CmdFailure c tok attempts e) d = snd (FinalizeFailure E c tok attempts e d)"
| "delivery_step E (CmdNoop tenantID scheduleID dueAt windowEnd) d =
     snd (CompleteNoop E tenantID scheduleID dueAt windowEnd d)"

type_synonym delivery_identity = "string \<times> string \<times> string \<times> time"

definition identity_of :: "delivery_row \<Rightarrow> delivery_identity" where
  "identity_of d = (d_tenant d, d_schedule d, d_recipient d, d_due d)"

definition claim_identity :: "delivery_claim \<Rightarrow> delivery_identity" where
  "claim_identity c = (dc_tenant c, dc_schedule c, dc_recipient c, dc_due c)"

fun delivery_claimed :: "dbenv \<Rightarrow> delivery_command \<Rightarrow> schema db \<Rightarrow> delivery_identity option" where
  "delivery_claimed E (CmdClaim c) d =
     (case fst (Claim E c d) of
        Inr r \<Rightarrow> if rs_claimed r then Some (claim_identity c) else None
      | Inl e \<Rightarrow> None)"
| "delivery_claimed E cmd d = None"

definition deliveries_inv :: "schema \<Rightarrow> bool" where
  "deliveries_inv t \<longleftrightarrow>
     distinct (map identity_of (deliveries t)) \<and>
     (\<forall>d \<in> set (deliveries t). 0 \<le> d_attempts d \<and> d_attempts d \<le> 3)"

definition find_delivery :: "delivery_identity \<Rightarrow> schema \<Rightarrow> delivery_row option" where
  "find_delivery k t = find (\<lambda>d. identity_of d = k) (deliveries t)"

definition delivery_attempts :: "schema \<Rightarrow> delivery_identity \<Rightarrow> int" where
  "delivery_attempts t k = (case find_delivery k t of None \<Rightarrow> 0 | Some d \<Rightarrow> d_attempts d)"

section \<open>Rows of the table\<close>

lemma find_delivery_Some:
  "find_delivery k t = Some d \<Longrightarrow> d \<in> set (deliveries t) \<and> identity_of d = k"
  by (auto simp: find_delivery_def find_Some_iff)

lemma find_delivery_unique:
  assumes "deliveries_inv t" "d \<in> set (deliveries t)"
  shows "find_delivery (identity_of d) t = Some d"
proof -
  obtain e where e: "find_delivery (identity_of d) t = Some e"
    using assms(2) by (cases "find_delivery (identity_of d) t") (auto simp: find_delivery_def find_None_iff)
  with assms show ?thesis
    by (auto simp: deliveries_inv_def distinct_map inj_on_def dest: find_delivery_Some)
qed

lemma delivery_attempts_row:
  "deliveries_inv t \<Longrightarrow> d \<in> set (deliveries t) \<Longrightarrow> delivery_attempts t (identity_of d) = d_attempts d"
  by (simp add: delivery_attempts_def find_delivery_unique)

lemma delivery_attempts_bounds:
  assumes "deliveries_inv t"
  shows "0 \<le> delivery_attempts t k \<and> delivery_attempts t k \<le> 3"
proof (cases "find_delivery k t")
  case (Some d)
  with find_delivery_Some [OF Some] assms show ?thesis
    by (simp add: delivery_attempts_def deliveries_inv_def)
qed (simp add: delivery_attempts_def)

lemma find_update_where:
  assumes "\<And>d. identity_of (f d) = identity_of d"
  shows "find (\<lambda>d. identity_of d = k) (update_where P f ds) =
    map_option (\<lambda>d. if P d then f d else d) (find (\<lambda>d. identity_of d = k) ds)"
  using assms by (induction ds) (auto simp: update_where_def)

text \<open>The operations change deliveries by updates that keep the identity and never lower the
  attempts, and by inserting a row under a new identity.\<close>

definition advances :: "schema \<Rightarrow> schema \<Rightarrow> bool" where
  "advances t0 t \<longleftrightarrow> deliveries_inv t \<and> (\<forall>k. delivery_attempts t0 k \<le> delivery_attempts t k)"

lemma advances_refl: "deliveries_inv t \<Longrightarrow> advances t t"
  by (simp add: advances_def)

lemma advances_same_deliveries:
  "advances t0 t \<Longrightarrow> deliveries t' = deliveries t \<Longrightarrow> advances t0 t'"
  by (simp add: advances_def deliveries_inv_def delivery_attempts_def find_delivery_def)

lemma advances_update:
  assumes "advances t0 t"
    and f: "\<And>d. identity_of (f d) = identity_of d"
    and att: "\<And>d. d \<in> set (deliveries t) \<Longrightarrow> d_attempts d \<le> 3 \<Longrightarrow>
      d_attempts d \<le> d_attempts (f d) \<and> d_attempts (f d) \<le> 3"
  shows "advances t0 (t\<lparr>deliveries := update_where P f (deliveries t)\<rparr>)"
proof -
  let ?t = "t\<lparr>deliveries := update_where P f (deliveries t)\<rparr>"
  have inv: "deliveries_inv t" and mono: "\<And>k. delivery_attempts t0 k \<le> delivery_attempts t k"
    using assms(1) by (auto simp: advances_def)
  have "deliveries_inv ?t"
    using inv att f by (fastforce simp: deliveries_inv_def map_update_where set_update_where)
  moreover have "delivery_attempts t k \<le> delivery_attempts ?t k" for k
  proof (cases "find_delivery k t")
    case None
    then show ?thesis
      by (simp add: delivery_attempts_def find_delivery_def find_update_where [OF f])
  next
    case (Some d)
    then have "d \<in> set (deliveries t)" "d_attempts d \<le> 3"
      using find_delivery_Some [OF Some] inv by (auto simp: deliveries_inv_def)
    with Some att [of d] show ?thesis
      by (auto simp: delivery_attempts_def find_delivery_def find_update_where [OF f])
  qed
  ultimately show ?thesis using mono order_trans unfolding advances_def by blast
qed

lemma natural_identity: "natural c d \<Longrightarrow> identity_of d = claim_identity c"
  by (simp add: natural_def identity_of_def claim_identity_def)

lemma identity_keeps [simp]:
  "identity_of (d\<lparr>d_key := k\<rparr>) = identity_of d"
  "identity_of (claim_row now tok d) = identity_of d"
  "identity_of (mark_failed msg d) = identity_of d"
  "identity_of (mark_sent at d) = identity_of d"
  "identity_of (d\<lparr>d_status := st, d_error := e\<rparr>) = identity_of d"
  by (simp_all add: identity_of_def claim_row_def mark_failed_def mark_sent_def Let_def)

lemma attempts_keeps [simp]:
  "d_attempts (mark_failed msg d) = d_attempts d" "d_attempts (mark_sent at d) = d_attempts d"
  by (simp_all add: mark_failed_def mark_sent_def)

lemma no_violation_new:
  "insert_violation c t = None \<Longrightarrow> find_delivery (claim_identity c) t = None"
  by (auto simp: insert_violation_def find_delivery_def find_None_iff identity_of_def
      claim_identity_def list_ex_iff split: if_splits)

lemma identity_new: "identity_of (new_delivery c now i tok) = claim_identity c"
  by (simp add: new_delivery_def identity_of_def claim_identity_def)

lemma find_delivery_insert:
  assumes "find_delivery (identity_of d) t = None"
  shows "find_delivery k (t\<lparr>deliveries := deliveries t @ [d]\<rparr>) =
    (if k = identity_of d then Some d else find_delivery k t)"
proof -
  have "find P (xs @ [x]) = (case find P xs of None \<Rightarrow> if P x then Some x else None | Some y \<Rightarrow> Some y)"
    for P and xs and x :: delivery_row
    by (induction xs) auto
  then show ?thesis using assms by (auto simp: find_delivery_def split: option.splits)
qed

lemma advances_insert:
  assumes "advances t0 t" "find_delivery (identity_of d) t = None" "0 \<le> d_attempts d" "d_attempts d \<le> 3"
  shows "advances t0 (t\<lparr>deliveries := deliveries t @ [d]\<rparr>)"
proof -
  have "identity_of d \<notin> identity_of ` set (deliveries t)"
    using assms(2) by (auto simp: find_delivery_def find_None_iff)
  then have "deliveries_inv (t\<lparr>deliveries := deliveries t @ [d]\<rparr>)"
    using assms by (auto simp: advances_def deliveries_inv_def)
  moreover have "delivery_attempts t k \<le> delivery_attempts (t\<lparr>deliveries := deliveries t @ [d]\<rparr>) k" for k
    using assms by (auto simp: delivery_attempts_def find_delivery_insert split: option.splits)
  ultimately show ?thesis using assms(1) order_trans unfolding advances_def by blast
qed

section \<open>Every operation advances\<close>

lemma advances_normalize: "advances t0 t \<Longrightarrow> advances t0 (normalize_key c t)"
  unfolding normalize_key_def by (rule advances_update) simp_all

lemma claim_row_attempts: "d_attempts d \<le> 3 \<Longrightarrow> d_attempts d \<le> d_attempts (claim_row now tok d) \<and> d_attempts (claim_row now tok d) \<le> 3"
  by (simp add: claim_row_def Let_def)

lemma advances_upsert:
  assumes "advances t0 t" "upsert_delivery E c now n t = Inr (r, t')"
  shows "advances t0 t'"
proof (cases "find (keyed c) (deliveries t)")
  case None
  then have "insert_violation c t = None"
    and t': "t' = t\<lparr>deliveries := deliveries t @ [new_delivery c now (uuid_at E n 1) (uuid_at E n 0)]\<rparr>"
    using assms(2) by (auto simp: upsert_delivery_def split: option.splits)
  then show ?thesis
    unfolding t' using assms(1)
    by (intro advances_insert) (simp_all add: identity_new no_violation_new, simp_all add: new_delivery_def)
next
  case (Some d)
  then show ?thesis
    using assms advances_update [OF assms(1), of "claim_row now (uuid_at E n 0)" "(=) d"] claim_row_attempts
    by (auto simp: upsert_delivery_def Let_def split: if_splits)
qed

lemma deliveries_close_window [simp]: "deliveries (close_window a b c e st now t) = deliveries t"
  by (simp add: close_window_def)

lemma deliveries_complete_window [simp]:
  "deliveries (complete_window_rows a b c e now t) = deliveries t"
  by (simp add: complete_window_rows_def Let_def)

lemma keeps_completeScheduleWindow [keeps_intros]:
  "keeps (advances t0) (completeScheduleWindow E a b c e now)"
  unfolding completeScheduleWindow_def
  by (intro keeps_intros keeps_stmt) (auto intro: advances_same_deliveries)

lemma keeps_beginTenant [keeps_intros]: "keeps I (beginTenant E tenantID)"
  unfolding beginTenant_def by (intro keeps_intros)

lemma keeps_Claim_body: "keeps (advances t0) (Claim_body E c now)"
  unfolding Claim_body_def Claim_result_def
  by (intro keeps_intros keeps_stmt) (auto intro: advances_normalize advances_upsert)

lemma Claim_advances: "advances t0 (rows d) \<Longrightarrow> advances t0 (rows (snd (Claim E c d)))"
  unfolding Claim_def
  by (auto intro!: keepsD [of "advances t0", OF keeps_rollback]
      keeps_bind keeps_wrap keeps_beginTenant keeps_Claim_body)

lemma keeps_finalize:
  assumes "\<And>d. identity_of (f d) = identity_of d" "\<And>d. d_attempts (f d) = d_attempts d"
  shows "keeps (advances t0) (finalize_delivery E m1 m2 m3 m4 c tok attempts f now)"
  unfolding finalize_delivery_def
  by (intro keeps_intros keeps_stmt) (auto intro!: advances_update simp: assms)

lemma FinalizeSent_advances: "advances t0 (rows d) \<Longrightarrow> advances t0 (rows (snd (FinalizeSent E c tok n at d)))"
  unfolding FinalizeSent_def
  by (auto intro!: keepsD [of "advances t0", OF keeps_finalize])

lemma FinalizeFailure_advances:
  "advances t0 (rows d) \<Longrightarrow> advances t0 (rows (snd (FinalizeFailure E c tok n e d)))"
  unfolding FinalizeFailure_def
  by (auto intro!: keepsD [of "advances t0", OF keeps_finalize] split: option.splits)

lemma advances_cancel: "advances t0 t \<Longrightarrow> advances t0 (cancel_deliveries a b c e t)"
  unfolding cancel_deliveries_def by (rule advances_update) simp_all

lemma advances_noop: "advances t0 t \<Longrightarrow> advances t0 (snd (noop_rows a b c e now clk t))"
  using advances_same_deliveries [OF advances_cancel, of t0 t
      "update_schedule a b e (close_window a b c e WCompleted now (cancel_deliveries a b c e t))" a b c e]
  by (simp add: noop_rows_def Let_def)

lemma keeps_noop: "keeps (advances t0) (completeNoopDigestWindow E a b c e now)"
  unfolding completeNoopDigestWindow_def
  by (intro keeps_intros keeps_stmt) (metis advances_noop Inr_inject snd_conv)

lemma CompleteNoop_advances: "advances t0 (rows d) \<Longrightarrow> advances t0 (rows (snd (CompleteNoop E a b c e d)))"
  unfolding CompleteNoop_def
  by (auto intro!: keepsD [of "advances t0", OF keeps_tenantTransaction] keeps_noop)

lemma delivery_step_advances:
  "advances t0 (rows d) \<Longrightarrow> advances t0 (rows (delivery_step E cmd d))"
  by (cases cmd) (simp_all add: Claim_advances FinalizeSent_advances FinalizeFailure_advances
      CompleteNoop_advances)

section \<open>A claim counts one attempt\<close>

text \<open>What a granted claim did to the rows.\<close>

lemma beginTenant_Inr: "beginTenant E tenantID d = (Inr u, d1) \<Longrightarrow> rows d1 = rows d"
  by (auto simp: beginTenant_def sql_Inr_simps split: if_splits)

lemma Claim_body_granted:
  assumes "Claim_body E c now d = (Inr r, d')" "rs_claimed r"
  shows "\<exists>n. upsert_delivery E c now n (normalize_key c (rows d))
      = Inr (Some (rs_attempts r, rs_token r, DSending), rows d')
    \<and> pending_windows (dc_tenant c) (dc_schedule c) (dc_due c) (dc_end c) (rows d) = 1"
proof -
  let ?pending = "pending_windows (dc_tenant c) (dc_schedule c) (dc_due c) (dc_end c) (rows d)"
  have one: "?pending = 1"
    using assms by (cases "?pending = 1")
      (auto simp: Claim_body_def sql_bind_eq_Inr sql_wrap_eq_Inr sql_query_Inr no_reservation_def)
  obtain d1 d2 d3 u row where d1: "rows d1 = rows d"
    and d2: "sql_stmt E (\<lambda>n t. Inr ((), normalize_key c t)) d1 = (Inr u, d2)"
    and d3: "sql_stmt E (upsert_delivery E c now) d2 = (Inr row, d3)"
    and rest: "Claim_result E c now row d3 = (Inr r, d')"
    using assms(1) one unfolding Claim_body_def
    by (auto elim!: sql_bindE simp: sql_wrap_eq_Inr sql_query_Inr) (metis db.select_convs(1))
  from d2 have r2: "rows d2 = normalize_key c (rows d)" using d1 by (auto simp: sql_stmt_Inr)
  obtain attempts tok where row: "row = Some (attempts, tok, DSending)"
    and r: "r = \<lparr>rs_claimed = True, rs_attempts = attempts, rs_token = tok\<rparr>" "rows d' = rows d3"
    using rest assms(2) unfolding Claim_result_def
    by (auto elim!: sql_bindE simp: sql_wrap_eq_Inr sql_call_Inr no_reservation_def split: option.splits if_splits)
  from d3 r2 row r one show ?thesis by (auto simp: sql_stmt_Inr)
qed

lemma Claim_granted:
  assumes "Claim E c d = (Inr r, d')" "rs_claimed r"
  shows "\<exists>n. upsert_delivery E c (clock_at E (tick d)) n (normalize_key c (rows d))
      = Inr (Some (rs_attempts r, rs_token r, DSending), rows d')
    \<and> pending_windows (dc_tenant c) (dc_schedule c) (dc_due c) (dc_end c) (rows d) = 1"
proof -
  let ?now = "clock_at E (tick d)"
  from assms(1) obtain u d1 where d1: "beginTenant E (dc_tenant c) d = (Inr u, d1)"
    and body: "Claim_body E c ?now d1 = (Inr r, d')"
    by (auto simp: Claim_def sql_rollback_eq_Inr sql_bind_eq_Inr sql_wrap_eq_Inr split: if_splits)
  have r1: "rows d1 = rows d" using d1 by (rule beginTenant_Inr)
  from Claim_body_granted [OF body assms(2)] show ?thesis unfolding r1 .
qed

lemma attempts_normalize [simp]: "delivery_attempts (normalize_key c t) k = delivery_attempts t k"
proof -
  have "find_delivery k (normalize_key c t) = map_option (\<lambda>d.
      if natural c d \<and> d_key d \<noteq> dc_key c \<and>
          \<not> list_ex (\<lambda>owner. keyed c owner \<and> d_id owner \<noteq> d_id d) (deliveries t)
      then d\<lparr>d_key := dc_key c\<rparr> else d) (find_delivery k t)"
    unfolding find_delivery_def normalize_key_def by (simp add: find_update_where)
  then show ?thesis by (auto simp: delivery_attempts_def split: option.splits)
qed

lemma normalize_inv: "deliveries_inv t \<Longrightarrow> deliveries_inv (normalize_key c t)"
  using advances_normalize [OF advances_refl] by (auto simp: advances_def)

text \<open>A granted claim leaves the row of its identity claimed under the returned token.\<close>

lemma upsert_granted:
  assumes inv: "deliveries_inv t" and up: "upsert_delivery E c now n t = Inr (Some (a, tok, DSending), t')"
  shows "a = delivery_attempts t (claim_identity c) + 1 \<and> tok = uuid_at E n 0 \<and>
    (\<exists>row. find_delivery (claim_identity c) t' = Some row \<and> d_token row = tok \<and> d_status row = DSending \<and>
       d_attempts row = a \<and> d_claimed row = now \<and> keyed c row \<and> natural c row \<and>
       (\<forall>old. find_delivery (claim_identity c) t = Some old \<longrightarrow> claimable now old))"
proof (cases "find (keyed c) (deliveries t)")
  case None
  then have v: "insert_violation c t = None" and a: "a = 1" "tok = uuid_at E n 0"
    and t': "t' = t\<lparr>deliveries := deliveries t @ [new_delivery c now (uuid_at E n 1) (uuid_at E n 0)]\<rparr>"
    using up by (auto simp: upsert_delivery_def split: option.splits)
  have "find_delivery (claim_identity c) t' = Some (new_delivery c now (uuid_at E n 1) (uuid_at E n 0))"
    using no_violation_new [OF v] unfolding t'
    by (subst find_delivery_insert) (simp_all add: identity_new)
  with a no_violation_new [OF v] show ?thesis
    by (simp add: delivery_attempts_def) (simp add: new_delivery_def keyed_def natural_def)
next
  case (Some row)
  let ?f = "claim_row now (uuid_at E n 0)"
  from Some have row: "row \<in> set (deliveries t)" "keyed c row" by (auto simp: find_Some_iff)
  from up Some have c: "claimable now row" "natural c row"
    and up': "a = d_attempts (?f row)" "tok = d_token (?f row)" "d_status (?f row) = DSending"
    and t': "t' = t\<lparr>deliveries := update_where ((=) row) ?f (deliveries t)\<rparr>"
    by (auto simp: upsert_delivery_def Let_def split: if_splits)
  have id: "identity_of row = claim_identity c" using c(2) by (rule natural_identity)
  have old: "find_delivery (claim_identity c) t = Some row"
    using find_delivery_unique [OF inv row(1)] id by simp
  then have new: "find_delivery (claim_identity c) t' = Some (?f row)"
    by (simp add: t' find_delivery_def find_update_where)
  have "d_attempts row < 3"
    using c(1) up'(3) by (auto simp: claimable_def claim_row_def Let_def split: if_splits)
  with up' c row(2) old new show ?thesis
    by (auto simp: delivery_attempts_def claim_row_def keyed_def natural_def Let_def)
qed

lemma Claim_counts:
  assumes "deliveries_inv (rows d)" "delivery_claimed E cmd d = Some k"
  shows "delivery_attempts (rows (delivery_step E cmd d)) k = delivery_attempts (rows d) k + 1"
proof -
  obtain c r d' where cmd: "cmd = CmdClaim c" "Claim E c d = (Inr r, d')" "rs_claimed r" "k = claim_identity c"
    using assms(2) by (cases cmd; cases "Claim E (case cmd of CmdClaim c \<Rightarrow> c) d")
      (auto split: sum.splits if_splits)
  from Claim_granted [OF cmd(2,3)] obtain n where
    "upsert_delivery E c (clock_at E (tick d)) n (normalize_key c (rows d))
      = Inr (Some (rs_attempts r, rs_token r, DSending), rows d')" by blast
  from upsert_granted [OF normalize_inv [OF assms(1)] this] cmd show ?thesis
    by (auto simp: delivery_attempts_def [of "rows d'"])
qed

interpretation delivery_claims: claim_counter
  "delivery_step E" "delivery_claimed E" "\<lambda>d. deliveries_inv (rows d)"
  "\<lambda>d. delivery_attempts (rows d)" 3 for E :: dbenv
proof
  fix d :: "schema db" and cmd k
  assume inv: "deliveries_inv (rows d)"
  have adv: "advances (rows d) (rows (delivery_step E cmd d))"
    by (rule delivery_step_advances [OF advances_refl [OF inv]])
  show "deliveries_inv (rows (delivery_step E cmd d))" using adv by (simp add: advances_def)
  show "0 \<le> delivery_attempts (rows d) k \<and> delivery_attempts (rows d) k \<le> 3"
    by (rule delivery_attempts_bounds [OF inv])
  show "delivery_attempts (rows d) k \<le> delivery_attempts (rows (delivery_step E cmd d)) k"
    using adv unfolding advances_def by blast
  show "delivery_claimed E cmd d = Some k \<Longrightarrow>
      delivery_attempts (rows (delivery_step E cmd d)) k = delivery_attempts (rows d) k + 1"
    by (rule Claim_counts [OF inv])
qed

section \<open>Fencing\<close>

definition delivery_token :: "schema db \<Rightarrow> delivery_claim \<Rightarrow> string option" where
  "delivery_token d c =
     (case find (\<lambda>row. keyed c row \<and> natural c row \<and> d_status row = DSending) (deliveries (rows d)) of
        None \<Rightarrow> None | Some row \<Rightarrow> Some (d_token row))"

text \<open>A finalization: sent at a time, or failed with an error.\<close>

definition finalize_claim ::
  "dbenv \<Rightarrow> delivery_claim \<Rightarrow> string \<Rightarrow> int \<times> (time + goerr) \<Rightarrow> schema db \<Rightarrow> goerr option \<times> schema db" where
  "finalize_claim E c tok f d =
     (case (case f of (attempts, Inl sentAt) \<Rightarrow> FinalizeSent E c tok attempts sentAt d
            | (attempts, Inr e) \<Rightarrow> FinalizeFailure E c tok attempts (Some e) d) of
        (Inl e, d') \<Rightarrow> (Some e, d') | (Inr u, d') \<Rightarrow> (None, d'))"

definition take_claim :: "dbenv \<Rightarrow> delivery_claim \<Rightarrow> schema db \<Rightarrow> string option \<times> schema db" where
  "take_claim E c d =
     (case Claim E c d of
        (Inr r, d') \<Rightarrow> (if rs_claimed r then Some (rs_token r) else None, d')
      | (Inl e, d') \<Rightarrow> (None, d'))"

lemma token_row:
  assumes inv: "deliveries_inv (rows d)"
    and row: "find_delivery (claim_identity c) (rows d) = Some row"
      "keyed c row" "natural c row" "d_status row = DSending"
  shows "delivery_token d c = Some (d_token row)"
proof -
  let ?P = "\<lambda>x. keyed c x \<and> natural c x \<and> d_status x = DSending"
  have mem: "row \<in> set (deliveries (rows d))" using find_delivery_Some [OF row(1)] by simp
  obtain x where x: "find ?P (deliveries (rows d)) = Some x"
    using mem row by (cases "find ?P (deliveries (rows d))") (auto simp: find_None_iff)
  then have "x \<in> set (deliveries (rows d))" "natural c x" by (auto simp: find_Some_iff)
  then have "find_delivery (claim_identity c) (rows d) = Some x"
    using find_delivery_unique [OF inv, of x] natural_identity by auto
  with row x show ?thesis by (simp add: delivery_token_def)
qed

lemma finalize_delivery_holder:
  assumes inv: "deliveries_inv (rows d)"
    and ok: "finalize_delivery E m1 m2 m3 m4 c tok attempts f now d = (Inr u, d')"
  shows "delivery_token d c = Some tok"
proof -
  have "affected (held c tok attempts) (deliveries (rows d)) = 1"
    using ok unfolding finalize_delivery_def sql_rollback_eq_Inr
    by (auto elim!: sql_bindE dest!: beginTenant_Inr simp: sql_wrap_eq_Inr sql_query_Inr sql_stmt_Inr
        split: if_splits)
  then obtain row where row: "row \<in> set (deliveries (rows d))" "held c tok attempts row"
    using affected_pos [of "held c tok attempts" "deliveries (rows d)"] by auto
  then have "find_delivery (claim_identity c) (rows d) = Some row"
    using find_delivery_unique [OF inv row(1)] natural_identity by (auto simp: held_def)
  with token_row [OF inv this] row(2) show ?thesis by (simp add: held_def)
qed

lemma finalize_claim_stale:
  assumes "deliveries_inv (rows d)" "delivery_token d c \<noteq> Some tok"
  shows "fst (finalize_claim E c tok f d) \<noteq> None \<and> rows (snd (finalize_claim E c tok f d)) = rows d"
proof -
  have fd: "\<exists>e. fst (finalize_delivery E m1 m2 m3 m4 c tok a g now d) = Inl e" for m1 m2 m3 m4 a g now
    using finalize_delivery_holder [OF assms(1), of E m1 m2 m3 m4 c tok a g now] assms(2)
    by (cases "finalize_delivery E m1 m2 m3 m4 c tok a g now d"; cases "fst (finalize_delivery E m1 m2 m3 m4 c tok a g now d)")
      auto
  have rb: "rows (snd (finalize_delivery E m1 m2 m3 m4 c tok a g now d)) = rows d" for m1 m2 m3 m4 a g now
    using fd [of m1 m2 m3 m4 a g now] unfolding finalize_delivery_def by (auto intro: sql_rollback_Inl)
  have sent: "\<exists>e. fst (FinalizeSent E c tok a at d) = Inl e" "rows (snd (FinalizeSent E c tok a at d)) = rows d"
    and failed: "\<exists>e. fst (FinalizeFailure E c tok a (Some x) d) = Inl e"
      "rows (snd (FinalizeFailure E c tok a (Some x) d)) = rows d" for a at x
    using fd rb by (auto simp: FinalizeSent_def FinalizeFailure_def)
  obtain a r where "f = (a, r)" by fastforce
  then show ?thesis
    using sent [of a "projl r"] failed [of a "projr r"]
    by (cases r) (auto simp: finalize_claim_def split: prod.splits sum.splits)
qed

interpretation delivery_fence: fenced
  "\<lambda>d. deliveries_inv (rows d)" delivery_token "take_claim E" "finalize_claim E" "\<lambda>d d'. rows d' = rows d"
  for E :: dbenv
proof
  fix d d' :: "schema db" and c tok f
  assume inv: "deliveries_inv (rows d)"
  show "delivery_token d c \<noteq> Some tok \<Longrightarrow>
      fst (finalize_claim E c tok f d) \<noteq> None \<and> rows (snd (finalize_claim E c tok f d)) = rows d"
    by (rule finalize_claim_stale [OF inv])
  have adv: "deliveries_inv (rows (snd (Claim E c d)))"
    using Claim_advances [OF advances_refl [OF inv]] by (simp add: advances_def)
  then show "deliveries_inv (rows (snd (take_claim E c d)))"
    by (auto simp: take_claim_def split: prod.splits sum.splits)
  assume "take_claim E c d = (Some tok, d')"
  then obtain r where r: "Claim E c d = (Inr r, d')" "rs_claimed r" "rs_token r = tok"
    by (auto simp: take_claim_def split: prod.splits sum.splits if_splits)
  from Claim_granted [OF r(1,2)] obtain n where
    "upsert_delivery E c (clock_at E (tick d)) n (normalize_key c (rows d))
      = Inr (Some (rs_attempts r, rs_token r, DSending), rows d')" by blast
  from upsert_granted [OF normalize_inv [OF inv] this] show "delivery_token d' c = Some tok"
    using token_row [of d' c] adv r by auto
qed

section \<open>Properties\<close>

text \<open>
  C1: Whatever sequence of claims, finalizations and terminations runs, with whatever database
  faults, at most three claims are granted for one delivery (tenant, schedule, recipient and due
  time): a recipient is mailed at most three times for one due time.
\<close>

theorem delivery_claimed_at_most_thrice:
  assumes "deliveries_inv (rows d)"
  shows "claims_in (delivery_step E) (delivery_claimed E) k cmds d \<le> 3"
  using delivery_claims.claims_bounded [OF assms, of E k cmds] delivery_attempts_bounds [OF assms, of k] by simp

definition sample_claim :: delivery_claim where
  "sample_claim = \<lparr>dc_tenant = ''t1'', dc_schedule = ''s1'', dc_recipient = ''r1'', dc_key = ''k1'',
     dc_due = day_ns, dc_end = day_ns + hour_ns\<rparr>"

definition sample_window :: window_row where
  "sample_window = \<lparr>w_tenant = ''t1'', w_schedule = ''s1'', w_due = day_ns, w_end = day_ns + hour_ns,
     w_status = WPending, w_completed = None\<rparr>"

definition sample_schema :: schema where
  "sample_schema =
     \<lparr>tenants = [(''t1'', ''one'')], schedules = [], windows = [sample_window], window_items = [],
      window_recipients = [\<lparr>wr_tenant = ''t1'', wr_schedule = ''s1'', wr_due = day_ns,
        wr_end = day_ns + hour_ns, wr_recipient = ''r1'', wr_email = ''a@b''\<rparr>],
      deliveries = [], reports = [], report_items = [], notices = [], notice_revisions = [],
      matches = [], filters = [], recipients = [], source_warnings = [], collection_state = [], job_runs = [], api_usage = []\<rparr>"

definition sample_db :: "schema db" where
  "sample_db = \<lparr>rows = sample_schema, tick = 0\<rparr>"

lemma sample_db_inv: "deliveries_inv (rows sample_db)"
  by (simp add: sample_db_def sample_schema_def deliveries_inv_def)

theorem delivery_claimed_at_most_thrice_witness:
  "claims_in (delivery_step plain_env) (delivery_claimed plain_env) (claim_identity sample_claim)
     [CmdClaim sample_claim, CmdClaim sample_claim] sample_db \<le> 3"
  by (rule delivery_claimed_at_most_thrice [OF sample_db_inv])

text \<open>
  C9: Fencing: once a delivery has been claimed again, finalizing it under an earlier token, as
  sent or as failed, is refused and changes no row.
\<close>

theorem superseded_delivery_claim_refused:
  assumes "deliveries_inv (rows d)" "Claim E c d = (Inr r, d')" "rs_claimed r" "tok \<noteq> rs_token r"
  shows "(\<exists>e. fst (FinalizeSent E c tok attempts sentAt d') = Inl e) \<and>
    rows (snd (FinalizeSent E c tok attempts sentAt d')) = rows d' \<and>
    (\<exists>e. fst (FinalizeFailure E c tok attempts (Some err) d') = Inl e) \<and>
    rows (snd (FinalizeFailure E c tok attempts (Some err) d')) = rows d'"
proof -
  have claim: "take_claim E c d = (Some (rs_token r), d')"
    using assms(2,3) by (simp add: take_claim_def)
  note refused = delivery_fence.superseded [OF assms(1) claim assms(4)]
  show ?thesis
    using refused [of "(attempts, Inl sentAt)"] refused [of "(attempts, Inr err)"]
    by (auto simp: finalize_claim_def split: prod.splits sum.splits)
qed

lemma sample_claim_granted:
  "fst (Claim plain_env sample_claim sample_db) =
     Inr \<lparr>rs_claimed = True, rs_attempts = 1, rs_token = ''u4-0''\<rparr>"
  by code_simp

theorem superseded_delivery_claim_refused_witness:
  "rows (snd (FinalizeSent plain_env sample_claim ''old'' 1 (2 * day_ns)
      (snd (Claim plain_env sample_claim sample_db)))) = rows (snd (Claim plain_env sample_claim sample_db))"
  using superseded_delivery_claim_refused [OF sample_db_inv, of plain_env sample_claim _ _ "''old''" 1 "2 * day_ns"]
    sample_claim_granted by (cases "Claim plain_env sample_claim sample_db") auto

section \<open>A sent delivery stays sent\<close>

definition sent_row :: "delivery_identity \<Rightarrow> time option \<Rightarrow> int \<Rightarrow> schema \<Rightarrow> bool" where
  "sent_row k at n t \<longleftrightarrow> deliveries_inv t \<and>
     (\<exists>row. find_delivery k t = Some row \<and> d_status row = DSent \<and> d_sent row = at \<and> d_attempts row = n)"

lemma sent_row_same: "sent_row k at n t \<Longrightarrow> deliveries t' = deliveries t \<Longrightarrow> sent_row k at n t'"
  by (simp add: sent_row_def deliveries_inv_def find_delivery_def)

lemma sent_row_update:
  assumes "sent_row k at n t" "deliveries_inv (t\<lparr>deliveries := update_where P f (deliveries t)\<rparr>)"
    and f: "\<And>d. identity_of (f d) = identity_of d"
    and keep: "\<And>d. d \<in> set (deliveries t) \<Longrightarrow> P d \<Longrightarrow> d_status d = DSent \<Longrightarrow>
      d_status (f d) = DSent \<and> d_sent (f d) = d_sent d \<and> d_attempts (f d) = d_attempts d"
  shows "sent_row k at n (t\<lparr>deliveries := update_where P f (deliveries t)\<rparr>)"
proof -
  obtain row where row: "find_delivery k t = Some row" "d_status row = DSent" "d_sent row = at" "d_attempts row = n"
    using assms(1) by (auto simp: sent_row_def)
  then have "row \<in> set (deliveries t)" using find_delivery_Some by blast
  with row keep [of row] assms(2) show ?thesis
    by (auto simp: sent_row_def find_delivery_def find_update_where [OF f])
qed

lemma advances_inv: "(\<And>t0. advances t0 t \<Longrightarrow> advances t0 t') \<Longrightarrow> deliveries_inv t \<Longrightarrow> deliveries_inv t'"
  using advances_refl [of t] unfolding advances_def by blast

lemma sent_row_inv: "sent_row k at n t \<Longrightarrow> deliveries_inv t"
  by (simp add: sent_row_def)

lemma sent_row_normalize: "sent_row k at n t \<Longrightarrow> sent_row k at n (normalize_key c t)"
  using normalize_inv [OF sent_row_inv, of k at n t c] unfolding normalize_key_def
  by (intro sent_row_update) auto

lemma sent_row_upsert:
  assumes "sent_row k at n t" "upsert_delivery E c now i t = Inr (r, t')"
  shows "sent_row k at n t'"
proof -
  have "advances t t'"
    by (rule advances_upsert [OF advances_refl [OF sent_row_inv [OF assms(1)]] assms(2)])
  then have inv: "deliveries_inv t'" by (simp add: advances_def)
  show ?thesis
  proof (cases "find (keyed c) (deliveries t)")
    case None
    then have v: "insert_violation c t = None"
      and t': "t' = t\<lparr>deliveries := deliveries t @ [new_delivery c now (uuid_at E i 1) (uuid_at E i 0)]\<rparr>"
      using assms(2) by (auto simp: upsert_delivery_def split: option.splits)
    with assms(1) inv no_violation_new [OF v] show ?thesis
      by (auto simp: sent_row_def find_delivery_insert identity_new)
  next
    case (Some d)
    then have "t' = t \<or> (claimable now d \<and>
        t' = t\<lparr>deliveries := update_where ((=) d) (claim_row now (uuid_at E i 0)) (deliveries t)\<rparr>)"
      using assms(2) by (auto simp: upsert_delivery_def Let_def split: if_splits)
    with assms(1) inv show ?thesis
      by (auto simp: claimable_def intro!: sent_row_update)
  qed
qed

lemma sent_row_mark:
  assumes "sent_row k at n t" "\<And>d. identity_of (f d) = identity_of d" "\<And>d. d_attempts (f d) = d_attempts d"
  shows "sent_row k at n (t\<lparr>deliveries := update_where (held c tok m) f (deliveries t)\<rparr>)"
proof (rule sent_row_update [OF assms(1) _ assms(2)])
  show "deliveries_inv (t\<lparr>deliveries := update_where (held c tok m) f (deliveries t)\<rparr>)"
    by (rule advances_inv [OF advances_update sent_row_inv [OF assms(1)]]) (simp_all add: assms)
qed (simp add: held_def)

lemma sent_row_cancel: "sent_row k at n t \<Longrightarrow> sent_row k at n (cancel_deliveries a b c e t)"
  using advances_inv [OF advances_cancel, of t] sent_row_inv [of k at n t] unfolding cancel_deliveries_def
  by (intro sent_row_update) auto

lemma sent_row_noop: "sent_row k at n t \<Longrightarrow> sent_row k at n (snd (noop_rows a b c e now clk t))"
  by (auto simp: noop_rows_def Let_def intro: sent_row_same [OF sent_row_cancel])

lemma keeps_sent:
  "keeps (sent_row k at n) (completeScheduleWindow E a b c e now)"
  "keeps (sent_row k at n) (Claim_body E cl now)"
  "keeps (sent_row k at n) (completeNoopDigestWindow E a b c e now)"
  subgoal unfolding completeScheduleWindow_def
    by (intro keeps_intros keeps_stmt) (auto intro: sent_row_same)
  subgoal unfolding Claim_body_def Claim_result_def completeScheduleWindow_def
    by (intro keeps_intros keeps_stmt)
       (auto intro: sent_row_same sent_row_normalize sent_row_upsert)
  subgoal unfolding completeNoopDigestWindow_def
    by (intro keeps_intros keeps_stmt) (metis sent_row_noop Inr_inject snd_conv)
  done

lemma keeps_sent_finalize:
  assumes "\<And>d. identity_of (f d) = identity_of d" "\<And>d. d_attempts (f d) = d_attempts d"
  shows "keeps (sent_row k at n) (finalize_delivery E m1 m2 m3 m4 c tok m f now)"
  unfolding finalize_delivery_def
  by (intro keeps_intros keeps_sent keeps_stmt) (auto intro!: sent_row_mark simp: assms)

lemma sent_row_step: "sent_row k at n (rows d) \<Longrightarrow> sent_row k at n (rows (delivery_step E cmd d))"
proof (induction cmd)
  case (CmdClaim c)
  then show ?case
    by (auto simp: Claim_def intro!: keepsD [of "sent_row k at n", OF keeps_rollback]
        keeps_bind keeps_wrap keeps_beginTenant keeps_sent)
next
  case (CmdSent c tok m sentAt)
  then show ?case
    by (auto simp: FinalizeSent_def intro!: keepsD [of "sent_row k at n", OF keeps_sent_finalize])
next
  case (CmdFailure c tok m e)
  then show ?case
    by (auto simp: FinalizeFailure_def intro!: keepsD [of "sent_row k at n", OF keeps_sent_finalize]
        split: option.splits)
next
  case (CmdNoop a b c e)
  then show ?case
    by (auto simp: CompleteNoop_def intro!: keepsD [of "sent_row k at n", OF keeps_tenantTransaction] keeps_sent)
qed

lemma sent_row_run: "sent_row k at n (rows d) \<Longrightarrow> sent_row k at n (rows (run_commands (delivery_step E) cmds d))"
  by (induction cmds arbitrary: d) (simp_all add: sent_row_step)

text \<open>
  A delivery that was sent is final: along every further sequence of calls it stays sent, with
  the same sending time and attempt count, and no claim of it is ever granted again, so a mail
  recorded as sent is not sent twice.
\<close>

theorem sent_delivery_is_final:
  assumes "deliveries_inv (rows d)" "find_delivery k (rows d) = Some row" "d_status row = DSent"
  shows "claims_in (delivery_step E) (delivery_claimed E) k cmds d = 0 \<and>
    (\<exists>row'. find_delivery k (rows (run_commands (delivery_step E) cmds d)) = Some row' \<and>
      d_status row' = DSent \<and> d_sent row' = d_sent row)"
proof -
  have "sent_row k (d_sent row) (d_attempts row) (rows (run_commands (delivery_step E) cmds d))"
    by (rule sent_row_run) (use assms in \<open>simp add: sent_row_def\<close>)
  then obtain row' where row': "find_delivery k (rows (run_commands (delivery_step E) cmds d)) = Some row'"
      "d_status row' = DSent" "d_sent row' = d_sent row" "d_attempts row' = d_attempts row"
    by (auto simp: sent_row_def)
  have "int (claims_in (delivery_step E) (delivery_claimed E) k cmds d) \<le> 0"
    using delivery_claims.claims_attempts [OF assms(1), of k E cmds] row' assms(2)
    by (simp add: delivery_attempts_def)
  with row' show ?thesis by auto
qed

definition sent_db :: "schema db" where
  "sent_db = \<lparr>rows = sample_schema\<lparr>deliveries :=
     [(new_delivery sample_claim day_ns ''d1'' ''u1'')\<lparr>d_status := DSent, d_sent := Some (day_ns + hour_ns)\<rparr>]\<rparr>,
     tick = 7\<rparr>"

theorem sent_delivery_is_final_witness:
  "claims_in (delivery_step plain_env) (delivery_claimed plain_env) (claim_identity sample_claim)
     [CmdClaim sample_claim] sent_db = 0"
  using sent_delivery_is_final [of sent_db "claim_identity sample_claim"
      "(new_delivery sample_claim day_ns ''d1'' ''u1'')\<lparr>d_status := DSent, d_sent := Some (day_ns + hour_ns)\<rparr>"
      plain_env "[CmdClaim sample_claim]"]
  by (simp add: sent_db_def deliveries_inv_def new_delivery_def find_delivery_def identity_of_def
      claim_identity_def)

section \<open>Windows and their deliveries\<close>

text \<open>
  What the delivery operations keep of the rule that a closed window has no delivery in flight. The set \<open>X\<close> holds the windows that the
  rule leaves out; the report operations close windows of their own accord (\<open>Work_Laws\<close>).
\<close>

definition window_key :: "window_row \<Rightarrow> string \<times> string \<times> time \<times> time" where
  "window_key w = (w_tenant w, w_schedule w, w_due w, w_end w)"

definition has_recipient :: "schema \<Rightarrow> delivery_row \<Rightarrow> bool" where
  "has_recipient t d \<longleftrightarrow> (\<exists>r \<in> set (window_recipients t). wr_tenant r = d_tenant d \<and>
     wr_schedule r = d_schedule d \<and> wr_due r = d_due d \<and> wr_end r = d_end d \<and> wr_recipient r = d_recipient d)"

definition delivery_window :: "delivery_row \<Rightarrow> string \<times> string \<times> time \<times> time" where
  "delivery_window d = (d_tenant d, d_schedule d, d_due d, d_end d)"

definition settled :: "delivery_row \<Rightarrow> bool" where
  "settled d \<longleftrightarrow> d_status d = DSent \<or> d_status d = DFailed"

text \<open>No delivery of a closed window is pending or being sent; with the keys the schema
  enforces.\<close>

definition closed_settled :: "(string \<times> string \<times> time \<times> time) set \<Rightarrow> schema \<Rightarrow> bool" where
  "closed_settled X t \<longleftrightarrow>
     distinct (map window_key (windows t)) \<and> (\<forall>d \<in> set (deliveries t). has_recipient t d) \<and>
     (\<forall>w \<in> set (windows t). \<forall>d \<in> set (deliveries t).
        w_status w \<noteq> WPending \<longrightarrow> window_key w \<notin> X \<longrightarrow> delivery_window d = window_key w \<longrightarrow> settled d)"

lemma is_window_key: "is_window a b c e w \<longleftrightarrow> window_key w = (a, b, c, e)"
  by (auto simp: is_window_def window_key_def)

lemma window_delivery_key: "window_delivery a b c e d \<longleftrightarrow> delivery_window d = (a, b, c, e)"
  by (auto simp: window_delivery_def delivery_window_def)

lemma closed_settled_cong:
  "closed_settled X t \<Longrightarrow> windows t' = windows t \<Longrightarrow> deliveries t' = deliveries t \<Longrightarrow>
   window_recipients t' = window_recipients t \<Longrightarrow> closed_settled X t'"
  by (simp add: closed_settled_def has_recipient_def)

text \<open>An update that settles or leaves settled rows alone, or that touches a pending window only.\<close>

lemma closed_settled_update:
  assumes cs: "closed_settled X t"
    and f: "\<And>d. delivery_window (f d) = delivery_window d \<and> d_recipient (f d) = d_recipient d"
    and upd: "\<And>d. d \<in> set (deliveries t) \<Longrightarrow> P d \<Longrightarrow> (settled d \<longrightarrow> settled (f d)) \<or>
      (\<forall>w \<in> set (windows t). window_key w = delivery_window d \<longrightarrow> w_status w = WPending)"
  shows "closed_settled X (t\<lparr>deliveries := update_where P f (deliveries t)\<rparr>)"
proof -
  have rec: "has_recipient t d \<Longrightarrow> has_recipient (t\<lparr>deliveries := ds\<rparr>) d" for d ds
    by (simp add: has_recipient_def)
  have recf: "has_recipient t d \<Longrightarrow> has_recipient t (f d)" for d
    using f [of d] by (simp add: has_recipient_def delivery_window_def)
  have "settled x" if w: "w \<in> set (windows t)" "w_status w \<noteq> WPending" "window_key w \<notin> X"
    and x: "x \<in> set (update_where P f (deliveries t))" "delivery_window x = window_key w" for w x
  proof -
    from x obtain d where d: "d \<in> set (deliveries t)" "x = (if P d then f d else d)"
      by (auto simp: update_where_def)
    with x f [of d] have dw: "delivery_window d = window_key w" by (auto split: if_splits)
    with cs w d have "settled d" unfolding closed_settled_def by blast
    with d dw upd [of d] w show ?thesis by (auto split: if_splits)
  qed
  moreover have "has_recipient t x" if "x \<in> set (update_where P f (deliveries t))" for x
    using that cs recf by (auto simp: update_where_def closed_settled_def)
  ultimately show ?thesis
    using cs rec unfolding closed_settled_def by simp
qed

lemma closed_settled_close:
  assumes cs: "closed_settled X t"
    and all: "\<And>d. (a, b, c, e) \<notin> X \<Longrightarrow> d \<in> set (deliveries t) \<Longrightarrow> delivery_window d = (a, b, c, e) \<Longrightarrow> settled d"
  shows "closed_settled X (close_window a b c e st now t)"
proof -
  let ?u = "\<lambda>w. w\<lparr>w_status := st, w_completed := Some (case w_completed w of None \<Rightarrow> now | Some c \<Rightarrow> c)\<rparr>"
  have key: "window_key (?u w) = window_key w" for w by (simp add: window_key_def)
  have ws: "windows (close_window a b c e st now t) =
      update_where (\<lambda>w. is_window a b c e w \<and> w_status w = WPending) ?u (windows t)"
    by (simp add: close_window_def)
  have "settled d" if w: "w \<in> set (windows (close_window a b c e st now t))" "w_status w \<noteq> WPending" "window_key w \<notin> X"
    and d: "d \<in> set (deliveries t)" "delivery_window d = window_key w" for w d
  proof -
    from w(1) obtain v where v: "v \<in> set (windows t)"
      "w = (if is_window a b c e v \<and> w_status v = WPending then ?u v else v)"
      unfolding ws by (auto simp: update_where_def)
    show ?thesis
    proof (cases "is_window a b c e v \<and> w_status v = WPending")
      case True
      with v have "window_key w = (a, b, c, e)" by (simp add: key is_window_key)
      with d w(3) all show ?thesis by simp
    next
      case False
      with v have wv: "w = v" by simp
      show ?thesis using cs v(1) w(2,3) d unfolding closed_settled_def wv by blast
    qed
  qed
  moreover have "map window_key (windows (close_window a b c e st now t)) = map window_key (windows t)"
    unfolding ws by (rule map_update_where) (rule key)
  ultimately show ?thesis
    using cs unfolding closed_settled_def
    by (simp add: has_recipient_def) (simp add: close_window_def)
qed

definition ledger :: "(string \<times> string \<times> time \<times> time) set \<Rightarrow> schema \<Rightarrow> bool" where
  "ledger X t \<longleftrightarrow> deliveries_inv t \<and> closed_settled X t"

text \<open>When the statement of \<open>completeScheduleWindow\<close> closes a window, all of its deliveries are settled.\<close>

lemma recipient_delivery_listed:
  assumes "d \<in> set (deliveries t)" "has_recipient t d" "delivery_window d = (a, b, c, e)"
  shows "Some d \<in> set (recipient_deliveries a b c e t)"
proof -
  obtain r where r: "r \<in> set (window_recipients t)" "wr_tenant r = d_tenant d"
     "wr_schedule r = d_schedule d" "wr_due r = d_due d" "wr_end r = d_end d" "wr_recipient r = d_recipient d"
    using assms(2) by (auto simp: has_recipient_def)
  let ?ds = "filter (\<lambda>d. d_tenant d = wr_tenant r \<and> d_schedule d = wr_schedule r \<and>
      d_recipient d = wr_recipient r \<and> d_due d = wr_due r \<and> d_end d = wr_end r) (deliveries t)"
  have "d \<in> set ?ds" using assms(1) r by simp
  then have "Some d \<in> set (case ?ds of [] \<Rightarrow> [None] | ds \<Rightarrow> map Some ds)"
    by (cases ?ds) auto
  moreover have "r \<in> set (filter (\<lambda>r. wr_tenant r = a \<and> wr_schedule r = b \<and> wr_due r = c \<and> wr_end r = e)
      (window_recipients t))"
    using r assms(3) by (simp add: delivery_window_def)
  ultimately show ?thesis unfolding recipient_deliveries_def by auto
qed

lemma ledger_complete:
  assumes "ledger X t"
  shows "ledger X (complete_window_rows a b c e now t)"
proof -
  let ?xs = "recipient_deliveries a b c e t"
  show ?thesis
  proof (cases "?xs \<noteq> [] \<and> (list_all is_sent ?xs \<or>
      list_all (\<lambda>x. is_sent x \<or> is_exhausted x) ?xs \<and> list_ex is_exhausted ?xs) \<and>
      pending_windows a b c e t \<noteq> 0")
    case True
    then have terminal: "\<forall>x \<in> set ?xs. is_sent x \<or> is_exhausted x"
      by (auto simp: list_all_iff)
    have "settled d" if "d \<in> set (deliveries t)" "delivery_window d = (a, b, c, e)" for d
    proof -
      have "Some d \<in> set ?xs"
        using assms that by (intro recipient_delivery_listed) (auto simp: ledger_def closed_settled_def)
      with terminal have "is_sent (Some d) \<or> is_exhausted (Some d)" by blast
      then show ?thesis by (auto simp: is_sent_def is_exhausted_def settled_def)
    qed
    then have "closed_settled X (close_window a b c e st now t)" for st
      using assms by (intro closed_settled_close) (auto simp: ledger_def)
    then have "closed_settled X (update_schedule a b e (close_window a b c e st now t))" for st
      by (rule closed_settled_cong) simp_all
    then have "closed_settled X (complete_window_rows a b c e now t)"
      using True unfolding complete_window_rows_def Let_def by simp
    moreover have "deliveries_inv (complete_window_rows a b c e now t)"
      using assms by (simp add: ledger_def deliveries_inv_def)
    ultimately show ?thesis by (simp add: ledger_def)
  next
    case False
    with assms show ?thesis unfolding complete_window_rows_def Let_def by (simp only: if_False)
  qed
qed

lemma settled_claim_keeps [simp]:
  "delivery_window (d\<lparr>d_key := x\<rparr>) = delivery_window d"
  "delivery_window (claim_row now tok d) = delivery_window d"
  "delivery_window (mark_failed msg d) = delivery_window d"
  "delivery_window (mark_sent at d) = delivery_window d"
  "delivery_window (d\<lparr>d_status := st, d_error := err\<rparr>) = delivery_window d"
  "d_recipient (claim_row now tok d) = d_recipient d"
  "d_recipient (mark_failed msg d) = d_recipient d" "d_recipient (mark_sent at d) = d_recipient d"
  "settled (d\<lparr>d_key := x\<rparr>) = settled d" "settled (mark_failed msg d)" "settled (mark_sent at d)"
  by (simp_all add: delivery_window_def claim_row_def mark_failed_def mark_sent_def settled_def Let_def)

lemma ledger_normalize: "ledger X t \<Longrightarrow> ledger X (normalize_key c t)"
  using normalize_inv [of t c] unfolding ledger_def normalize_key_def
  by (auto intro: closed_settled_update)

lemma ledger_mark:
  assumes "ledger X t" "\<And>d. identity_of (f d) = identity_of d" "\<And>d. d_attempts (f d) = d_attempts d"
    "\<And>d. delivery_window (f d) = delivery_window d \<and> d_recipient (f d) = d_recipient d" "\<And>d. settled (f d)"
  shows "ledger X (t\<lparr>deliveries := update_where P f (deliveries t)\<rparr>)"
proof -
  have "advances t (t\<lparr>deliveries := update_where P f (deliveries t)\<rparr>)"
    by (rule advances_update [OF advances_refl]) (use assms in \<open>simp_all add: ledger_def\<close>)
  moreover have "closed_settled X (t\<lparr>deliveries := update_where P f (deliveries t)\<rparr>)"
    by (rule closed_settled_update) (use assms in \<open>simp_all add: ledger_def\<close>)
  ultimately show ?thesis by (simp add: ledger_def advances_def)
qed

lemma pending_window_unique:
  assumes "closed_settled X t" "pending_windows a b c e t = 1" "w \<in> set (windows t)" "window_key w = (a, b, c, e)"
  shows "w_status w = WPending"
proof -
  obtain v where v: "v \<in> set (windows t)" "window_key v = (a, b, c, e)" "w_status v = WPending"
    using assms(2) affected_pos [of "\<lambda>w. is_window a b c e w \<and> w_status w = WPending" "windows t"]
    by (auto simp: pending_windows_def is_window_key)
  with assms have "v = w" by (auto simp: closed_settled_def distinct_map inj_on_def)
  with v show ?thesis by simp
qed

definition open_ledger :: "(string \<times> string \<times> time \<times> time) set \<Rightarrow> delivery_claim \<Rightarrow> schema \<Rightarrow> bool" where
  "open_ledger X c t \<longleftrightarrow> ledger X t \<and> pending_windows (dc_tenant c) (dc_schedule c) (dc_due c) (dc_end c) t = 1"

lemma ledger_upsert:
  assumes op: "open_ledger X c t" and up: "upsert_delivery E c now n t = Inr (r, t')"
  shows "ledger X t'"
proof -
  have inv: "deliveries_inv t" and cs: "closed_settled X t" using op by (auto simp: open_ledger_def ledger_def)
  have pend: "w_status w = WPending"
    if "w \<in> set (windows t)" "window_key w = (dc_tenant c, dc_schedule c, dc_due c, dc_end c)" for w
    using pending_window_unique [OF cs _ that] op by (simp add: open_ledger_def)
  have inv': "deliveries_inv t'"
    using advances_upsert [OF advances_refl [OF inv] up] by (simp add: advances_def)
  have "closed_settled X t'"
  proof (cases "find (keyed c) (deliveries t)")
    case (Some d)
    then have "t' = t \<or> (natural c d \<and>
        t' = t\<lparr>deliveries := update_where ((=) d) (claim_row now (uuid_at E n 0)) (deliveries t)\<rparr>)"
      using up by (auto simp: upsert_delivery_def Let_def split: if_splits)
    then show ?thesis
    proof
      assume d: "natural c d \<and>
        t' = t\<lparr>deliveries := update_where ((=) d) (claim_row now (uuid_at E n 0)) (deliveries t)\<rparr>"
      then have "delivery_window d = (dc_tenant c, dc_schedule c, dc_due c, dc_end c)"
        by (simp add: natural_def delivery_window_def)
      with d cs pend show ?thesis by (auto intro!: closed_settled_update)
    qed (use cs in simp)
  next
    case None
    let ?n = "new_delivery c now (uuid_at E n 1) (uuid_at E n 0)"
    from None up have v: "insert_violation c t = None" and t': "t' = t\<lparr>deliveries := deliveries t @ [?n]\<rparr>"
      by (auto simp: upsert_delivery_def split: option.splits)
    have dw: "delivery_window ?n = (dc_tenant c, dc_schedule c, dc_due c, dc_end c)"
      by (simp add: delivery_window_def new_delivery_def)
    have "has_recipient t ?n"
      using v by (auto simp: insert_violation_def has_recipient_def new_delivery_def list_ex_iff split: if_splits)
    then show ?thesis
      using cs dw pend unfolding t' closed_settled_def has_recipient_def by auto
  qed
  with inv' show ?thesis by (simp add: ledger_def)
qed

lemma ledger_noop:
  assumes "ledger X t"
  shows "ledger X (snd (noop_rows a b c e now clk t))"
proof -
  let ?c = "cancel_deliveries a b c e t"
  have l: "ledger X ?c"
    unfolding cancel_deliveries_def by (rule ledger_mark [OF assms]) (simp_all add: settled_def)
  have "settled d" if "d \<in> set (deliveries ?c)" "delivery_window d = (a, b, c, e)" for d
    using that by (auto simp: cancel_deliveries_def update_where_def window_delivery_key settled_def
        split: if_splits)
  then have "closed_settled X (close_window a b c e WCompleted now ?c)"
    using l by (intro closed_settled_close) (auto simp: ledger_def)
  then have "closed_settled X (update_schedule a b e (close_window a b c e WCompleted now ?c))"
    by (rule closed_settled_cong) simp_all
  moreover have "deliveries_inv (update_schedule a b e (close_window a b c e WCompleted now ?c))"
    using l by (simp add: ledger_def deliveries_inv_def)
  ultimately show ?thesis using assms by (simp add: noop_rows_def Let_def ledger_def)
qed

lemma ensures_complete: "ensures (ledger X) (completeScheduleWindow E a b c e now) (\<lambda>u. ledger X)"
  unfolding completeScheduleWindow_def
  by (rule ensures_wrap, rule ensures_stmt) (auto simp: ledger_complete)

lemma ensures_commit: "(\<And>t. P t \<Longrightarrow> Q t) \<Longrightarrow> ensures P (sql_wrap msg (sql_call E)) (\<lambda>u. Q)"
  by (intro ensures_wrap ensures_call)

lemma ensures_beginTenant: "ensures P (beginTenant E x) (\<lambda>u. P)"
  by (simp add: ensures_def) (metis beginTenant_Inr)

lemma ensures_Claim_result: "ensures (ledger X) (Claim_result E c now row) (\<lambda>r. ledger X)"
proof -
  have tail: "ensures (ledger X) (sql_bind (completeScheduleWindow E (dc_tenant c) (dc_schedule c) (dc_due c) (dc_end c) now)
      (\<lambda>_. sql_bind (sql_wrap msg (sql_call E)) (\<lambda>_. sql_return r))) (\<lambda>r. ledger X)" for msg and r :: delivery_reservation
    by (rule ensures_bind [OF ensures_complete], rule ensures_bind [OF ensures_commit [where Q = "ledger X"]])
       (simp_all add: ensures_return)
  have commit: "ensures (ledger X) (sql_bind (sql_wrap msg (sql_call E)) (\<lambda>_. sql_return r)) (\<lambda>r. ledger X)"
    for msg and r :: delivery_reservation
    by (rule ensures_bind [OF ensures_commit [where Q = "ledger X"]]) (simp_all add: ensures_return)
  show ?thesis
    using tail commit by (cases row) (auto simp: Claim_result_def)
qed

lemma ensures_Claim_body: "ensures (ledger X) (Claim_body E c now) (\<lambda>r. ledger X)"
  unfolding Claim_body_def
proof (rule ensures_bind)
  let ?R = "\<lambda>n t. ledger X t \<and> pending_windows (dc_tenant c) (dc_schedule c) (dc_due c) (dc_end c) t = n"
  show "ensures (ledger X) (sql_wrap ''lock claim digest window''
      (sql_query E (pending_windows (dc_tenant c) (dc_schedule c) (dc_due c) (dc_end c)))) ?R"
    by (intro ensures_wrap ensures_query) simp
  have claim: "ensures (open_ledger X c)
      (sql_bind (sql_wrap ''normalize legacy delivery key'' (sql_stmt E (\<lambda>n t. Inr ((), normalize_key c t)))) (\<lambda>_.
       sql_bind (sql_wrap ''claim delivery'' (sql_stmt E (upsert_delivery E c now))) (Claim_result E c now)))
      (\<lambda>r. ledger X)"
    by (rule ensures_bind [where R = "\<lambda>u. open_ledger X c"], rule ensures_wrap, rule ensures_stmt,
        fastforce simp: open_ledger_def ledger_normalize pending_windows_def normalize_key_def
          dest: ledger_normalize [unfolded normalize_key_def],
        rule ensures_bind [where R = "\<lambda>u. ledger X"], rule ensures_wrap, rule ensures_stmt)
       (auto intro: ledger_upsert ensures_Claim_result)
  fix n
  show "ensures (?R n) (if n \<noteq> 1
      then sql_bind (sql_wrap ''commit closed delivery window'' (sql_call E)) (\<lambda>_. sql_return no_reservation)
      else sql_bind (sql_wrap ''normalize legacy delivery key'' (sql_stmt E (\<lambda>n t. Inr ((), normalize_key c t))))
         (\<lambda>_. sql_bind (sql_wrap ''claim delivery'' (sql_stmt E (upsert_delivery E c now))) (Claim_result E c now)))
      (\<lambda>r. ledger X)"
    by (rule ensures_if)
       (rule ensures_bind [OF ensures_commit [where Q = "ledger X"]], simp, simp add: ensures_return,
        rule ensures_pre [OF claim], simp add: open_ledger_def)
qed

lemma ensures_finalize:
  assumes "\<And>d. identity_of (f d) = identity_of d" "\<And>d. d_attempts (f d) = d_attempts d"
    "\<And>d. delivery_window (f d) = delivery_window d \<and> d_recipient (f d) = d_recipient d" "\<And>d. settled (f d)"
  shows "keeps (ledger X) (finalize_delivery E m1 m2 m3 m4 c tok attempts f now)"
  unfolding finalize_delivery_def
  by (rule keeps_by_ensures, rule ensures_bind [where R = "\<lambda>u. ledger X"],
      rule ensures_wrap, rule ensures_beginTenant,
      rule ensures_bind [where R = "\<lambda>u. ledger X"], rule ensures_wrap, rule ensures_query, assumption,
      rule ensures_if, rule ensures_fail,
      rule ensures_bind [where R = "\<lambda>u. ledger X"], rule ensures_wrap, rule ensures_stmt)
     (auto simp: assms intro!: ledger_mark ensures_if ensures_fail ensures_bind [OF ensures_complete]
        ensures_commit)

lemma ledger_step: "ledger X (rows d) \<Longrightarrow> ledger X (rows (delivery_step E cmd d))"
proof (induction cmd)
  case (CmdClaim c)
  have "keeps (ledger X) (sql_rollback (sql_bind (sql_wrap ''begin delivery claim'' (beginTenant E (dc_tenant c)))
      (\<lambda>_. Claim_body E c now)))" for now
    by (rule keeps_by_ensures, rule ensures_bind [where R = "\<lambda>u. ledger X"])
       (auto intro: ensures_wrap ensures_beginTenant ensures_Claim_body)
  from keepsD [OF this CmdClaim, of "clock_at E (tick d)"] CmdClaim show ?case
    by (simp add: Claim_def)
next
  case (CmdSent c tok m sentAt)
  then show ?case by (auto simp: FinalizeSent_def intro!: keepsD [of "ledger X", OF ensures_finalize])
next
  case (CmdFailure c tok m e)
  then show ?case
    by (auto simp: FinalizeFailure_def intro!: keepsD [of "ledger X", OF ensures_finalize] split: option.splits)
next
  case (CmdNoop a b c e)
  have "keeps (ledger X) (completeNoopDigestWindow E a b c e now)" for now
    unfolding completeNoopDigestWindow_def
    by (intro keeps_intros keeps_stmt) (metis ledger_noop Inr_inject snd_conv)
  with CmdNoop show ?case
    by (auto simp: CompleteNoop_def intro!: keepsD [of "ledger X", OF keeps_tenantTransaction])
qed

end
