(* ===== verification/Run_Tally.thy ===== *)
theory Run_Tally
  imports Go_Time
begin

text \<open>
  The counters both runners keep (internal/app/digest_runner.go, internal/app/report_runner.go):
  one entry per tenant in the order of the first item, created on first use, with the number of
  successes, failures and skips and the joined error of the tenant.
\<close>

record tenant_tally =
  ty_tenant :: string
  ty_done :: int
  ty_failed :: int
  ty_skipped :: int
  ty_err :: "goerr option"

datatype item_outcome = ItemDone | ItemFailed goerr | ItemSkipped

definition new_tally :: "string \<Rightarrow> tenant_tally" where
  "new_tally tenantID = \<lparr>ty_tenant = tenantID, ty_done = 0, ty_failed = 0, ty_skipped = 0, ty_err = None\<rparr>"

fun count_outcome :: "item_outcome \<Rightarrow> tenant_tally \<Rightarrow> tenant_tally" where
  "count_outcome ItemDone ty = ty\<lparr>ty_done := ty_done ty + 1\<rparr>"
| "count_outcome (ItemFailed e) ty =
     ty\<lparr>ty_failed := ty_failed ty + 1, ty_err := errors_join [ty_err ty, Some e]\<rparr>"
| "count_outcome ItemSkipped ty = ty\<lparr>ty_skipped := ty_skipped ty + 1\<rparr>"

definition tally_add :: "string \<Rightarrow> item_outcome \<Rightarrow> tenant_tally list \<Rightarrow> tenant_tally list" where
  "tally_add tenantID r tys =
     map (\<lambda>ty. if ty_tenant ty = tenantID then count_outcome r ty else ty)
       (if list_ex (\<lambda>ty. ty_tenant ty = tenantID) tys then tys else tys @ [new_tally tenantID])"

text \<open>The entry of a tenant counts exactly the outcomes of its items, and the tenant has an error
  exactly when one of its items failed.\<close>

definition count_of :: "(item_outcome \<Rightarrow> bool) \<Rightarrow> (string \<times> item_outcome) list \<Rightarrow> string \<Rightarrow> int" where
  "count_of P log tenantID = int (length (filter (\<lambda>(t, r). t = tenantID \<and> P r) log))"

definition is_failed :: "item_outcome \<Rightarrow> bool" where
  "is_failed r = (case r of ItemFailed e \<Rightarrow> True | _ \<Rightarrow> False)"

definition tally_of :: "(string \<times> item_outcome) list \<Rightarrow> tenant_tally list \<Rightarrow> bool" where
  "tally_of log tys \<longleftrightarrow>
     distinct (map ty_tenant tys) \<and> set (map ty_tenant tys) = fst ` set log \<and>
     (\<forall>ty \<in> set tys. ty_done ty = count_of (\<lambda>r. r = ItemDone) log (ty_tenant ty) \<and>
        ty_failed ty = count_of is_failed log (ty_tenant ty) \<and>
        ty_skipped ty = count_of (\<lambda>r. r = ItemSkipped) log (ty_tenant ty) \<and>
        (ty_err ty = None \<longleftrightarrow> ty_failed ty = 0))"

lemma count_of_snoc:
  "count_of P (log @ [(t, r)]) tenantID = count_of P log tenantID + (if t = tenantID \<and> P r then 1 else 0)"
  by (simp add: count_of_def)

lemma count_of_absent: "tenantID \<notin> fst ` set log \<Longrightarrow> count_of P log tenantID = 0"
  by (force simp: count_of_def filter_empty_conv)

lemma count_of_nonneg: "0 \<le> count_of P log tenantID"
  by (simp add: count_of_def)

lemma tally_of_Nil: "tally_of [] []"
  by (simp add: tally_of_def)

lemma ty_tenant_count [simp]: "ty_tenant (count_outcome r ty) = ty_tenant ty"
  by (cases r) simp_all

lemma tally_of_snoc:
  assumes "tally_of log tys"
  shows "tally_of (log @ [(t, r)]) (tally_add t r tys)"
proof -
  let ?base = "if list_ex (\<lambda>ty. ty_tenant ty = t) tys then tys else tys @ [new_tally t]"
  have ex: "list_ex (\<lambda>ty. ty_tenant ty = t) tys \<longleftrightarrow> t \<in> fst ` set log"
  proof -
    have "list_ex (\<lambda>ty. ty_tenant ty = t) tys \<longleftrightarrow> t \<in> set (map ty_tenant tys)" by (auto simp: list_ex_iff)
    also have "\<dots> \<longleftrightarrow> t \<in> fst ` set log" using assms by (simp add: tally_of_def)
    finally show ?thesis .
  qed
  have names: "map ty_tenant (tally_add t r tys) = map ty_tenant ?base"
    by (simp add: tally_add_def)
  have base: "distinct (map ty_tenant ?base)" "set (map ty_tenant ?base) = insert t (fst ` set log)"
    using assms ex by (auto simp: tally_of_def new_tally_def)
  have old: "ty_done ty = count_of (\<lambda>r. r = ItemDone) log (ty_tenant ty) \<and>
        ty_failed ty = count_of is_failed log (ty_tenant ty) \<and>
        ty_skipped ty = count_of (\<lambda>r. r = ItemSkipped) log (ty_tenant ty) \<and>
        (ty_err ty = None \<longleftrightarrow> ty_failed ty = 0)" if "ty \<in> set ?base" for ty
    using that assms ex
    by (auto simp: tally_of_def new_tally_def count_of_absent split: if_splits)
  have "ty_done ty = count_of (\<lambda>r. r = ItemDone) (log @ [(t, r)]) (ty_tenant ty) \<and>
        ty_failed ty = count_of is_failed (log @ [(t, r)]) (ty_tenant ty) \<and>
        ty_skipped ty = count_of (\<lambda>r. r = ItemSkipped) (log @ [(t, r)]) (ty_tenant ty) \<and>
        (ty_err ty = None \<longleftrightarrow> ty_failed ty = 0)" if ty: "ty \<in> set (tally_add t r tys)" for ty
  proof -
    obtain b where b: "b \<in> set ?base" "ty = (if ty_tenant b = t then count_outcome r b else b)"
      using ty by (auto simp: tally_add_def)
    have "0 \<le> ty_failed b" using old [OF b(1)] count_of_nonneg by metis
    with old [OF b(1)] b(2) show ?thesis
      by (cases r) (auto simp: count_of_snoc is_failed_def errors_join_def
          some_errors_def List.map_filter_def split: option.splits)
  qed
  then show ?thesis
    using names base unfolding tally_of_def by simp
qed

end
