(* ===== verification/Digest_Runner.thy ===== *)
theory Digest_Runner
  imports Digest Delivery_Laws Run_Tally
begin

text \<open>
  internal/app/digest_runner.go and internal/app/digest_job.go: one run over the due digests. The
  repository, the mailer, the clock and the context act on an environment state \<open>'s\<close>.
\<close>

record 's digest_env =
  de_ready :: bool
  de_due :: "time \<Rightarrow> 's \<Rightarrow> digest_work list res \<times> 's"
  de_claim :: "delivery_claim \<Rightarrow> 's \<Rightarrow> delivery_reservation res \<times> 's"
  de_sent :: "delivery_claim \<Rightarrow> string \<Rightarrow> int \<Rightarrow> time \<Rightarrow> 's \<Rightarrow> goerr option \<times> 's"
  de_failure :: "delivery_claim \<Rightarrow> string \<Rightarrow> int \<Rightarrow> goerr \<Rightarrow> 's \<Rightarrow> goerr option \<times> 's"
  de_noop :: "string \<Rightarrow> string \<Rightarrow> time \<Rightarrow> time \<Rightarrow> 's \<Rightarrow> goerr option \<times> 's"
  de_send :: "string \<Rightarrow> string \<Rightarrow> string \<Rightarrow> 's \<Rightarrow> goerr option \<times> 's"
  de_ctx_err :: "'s \<Rightarrow> goerr option"
  de_now :: "'s \<Rightarrow> time"
  de_mail :: mail_env
  de_sha :: "string \<Rightarrow> string"
  de_from :: string

definition hash_part :: "string \<Rightarrow> string" where
  "hash_part v = show_nat (length v) @ '':'' @ v"

definition digestMessageID :: "(string \<Rightarrow> string) \<Rightarrow> string \<Rightarrow> digest_notice list \<Rightarrow> string" where
  "digestMessageID sha deliveryKey ns =
     sha (hash_part deliveryKey @
          concat (map (\<lambda>n. hash_part (dn_title n) @ hash_part (dn_url n) @ hash_part (dn_reason n)) ns))
     @ ''@namo.invalid''"

definition subject_prefix :: string where
  "subject_prefix =
     [CHR 0xEB, CHR 0x82, CHR 0x98, CHR 0xEB, CHR 0x9D, CHR 0xBC, CHR 0xEC, CHR 0x9E, CHR 0xA5,
      CHR 0xED, CHR 0x84, CHR 0xB0, CHR 0x20, CHR 0xEC, CHR 0x8B, CHR 0xA0, CHR 0xEA, CHR 0xB7,
      CHR 0x9C, CHR 0x20, CHR 0xEC, CHR 0x9E, CHR 0x85, CHR 0xEC, CHR 0xB0, CHR 0xB0, CHR 0xEA,
      CHR 0xB3, CHR 0xB5, CHR 0xEA, CHR 0xB3, CHR 0xA0, CHR 0x20]"

definition subject_suffix :: string where
  "subject_suffix =
     [CHR 0xEA, CHR 0xB1, CHR 0xB4]"

definition digest_subject :: "nat \<Rightarrow> string" where
  "digest_subject n = subject_prefix @ show_nat n @ subject_suffix"

definition join_error :: "goerr \<Rightarrow> goerr option \<Rightarrow> goerr" where
  "join_error e other = (case other of None \<Rightarrow> e | Some f \<Rightarrow> ErrJoin [e, f])"

text \<open>The part of the loop body after a claim was granted under a token.\<close>

definition send_claimed ::
  "'s digest_env \<Rightarrow> time \<Rightarrow> digest_work \<Rightarrow> delivery_claim \<Rightarrow> string \<Rightarrow> int \<Rightarrow> 's \<Rightarrow> item_outcome \<times> 's" where
  "send_claimed D now item claim tok attempts s =
     (case BuildSMTPMessageWithID (de_mail D) (de_from D) [dw_email item]
             (digest_subject (length (dw_notices item))) (dw_notices item)
             (digestMessageID (de_sha D) (dc_key claim) (dw_notices item)) of
        Inl err \<Rightarrow>
          (case de_failure D claim tok attempts err s of (finalizeErr, s1) \<Rightarrow>
             (ItemFailed (ErrWrap ''build digest'' (join_error err finalizeErr)), s1))
      | Inr message \<Rightarrow>
          (case de_send D (de_from D) (dw_email item) message s of (sendErr0, s1) \<Rightarrow>
             let sendErr = (if sendErr0 \<noteq> None \<and> de_ctx_err D s1 \<noteq> None then de_ctx_err D s1 else sendErr0)
             in case sendErr of
                  Some e \<Rightarrow>
                    (case de_failure D claim tok attempts e s1 of (finalizeErr, s2) \<Rightarrow>
                       (ItemFailed (ErrWrap ''send digest'' (join_error e finalizeErr)), s2))
                | None \<Rightarrow>
                    (let sentAt = (if de_now D s1 < now then now else de_now D s1)
                     in case de_sent D claim tok attempts sentAt s1 of
                          (Some e, s2) \<Rightarrow> (ItemFailed (ErrWrap ''finalize digest'' e), s2)
                        | (None, s2) \<Rightarrow> (ItemDone, s2))))"

definition item_claim :: "'s digest_env \<Rightarrow> digest_work \<Rightarrow> delivery_claim" where
  "item_claim D item =
     \<lparr>dc_tenant = dw_tenant item, dc_schedule = dw_schedule item, dc_recipient = dw_recipient item,
      dc_key = DeliveryKey (de_sha D) (dw_tenant item) (dw_schedule item) (dw_recipient item) (dw_due item),
      dc_due = dw_due item, dc_end = dw_end item\<rparr>"

definition missing_token :: goerr where
  "missing_token = ErrText ''claim digest: missing fencing token''"

definition invalid_attempt :: "int \<Rightarrow> goerr" where
  "invalid_attempt n = ErrText (''claim digest: invalid reserved attempt '' @ show_int n)"

text \<open>One round of the loop of \<open>Run\<close>.\<close>

definition run_item :: "'s digest_env \<Rightarrow> time \<Rightarrow> digest_work \<Rightarrow> 's \<Rightarrow> item_outcome \<times> 's" where
  "run_item D now item s =
     (if dw_notices item = [] then
        (case de_noop D (dw_tenant item) (dw_schedule item) (dw_due item) (dw_end item) s of
           (Some e, s1) \<Rightarrow> (ItemFailed (ErrWrap ''complete empty digest'' e), s1)
         | (None, s1) \<Rightarrow> (ItemSkipped, s1))
      else
        (case de_claim D (item_claim D item) s of
           (Inl e, s1) \<Rightarrow> (ItemFailed (ErrWrap ''claim digest'' e), s1)
         | (Inr reservation, s1) \<Rightarrow>
             if \<not> rs_claimed reservation then (ItemSkipped, s1)
             else if rs_token reservation = [] then (ItemFailed missing_token, s1)
             else if rs_attempts reservation < 1 \<or> 3 < rs_attempts reservation then
               (ItemFailed (invalid_attempt (rs_attempts reservation)), s1)
             else send_claimed D now item (item_claim D item) (rs_token reservation) (rs_attempts reservation) s1))"

record digest_result =
  dr_sent :: int
  dr_failed :: int
  dr_skipped :: int
  dr_tenants :: "tenant_tally list"

fun count_result :: "item_outcome \<Rightarrow> digest_result \<Rightarrow> digest_result" where
  "count_result ItemDone r = r\<lparr>dr_sent := dr_sent r + 1\<rparr>"
| "count_result (ItemFailed e) r = r\<lparr>dr_failed := dr_failed r + 1\<rparr>"
| "count_result ItemSkipped r = r\<lparr>dr_skipped := dr_skipped r + 1\<rparr>"

definition join_run :: "goerr option \<Rightarrow> item_outcome \<Rightarrow> goerr option" where
  "join_run runErr r = (case r of ItemFailed e \<Rightarrow> errors_join [runErr, Some e] | _ \<Rightarrow> runErr)"

fun run_items ::
  "'s digest_env \<Rightarrow> time \<Rightarrow> digest_work list \<Rightarrow> digest_result \<Rightarrow> goerr option \<Rightarrow> 's \<Rightarrow>
   digest_result \<times> goerr option \<times> 's" where
  "run_items D now [] r runErr s = (r, runErr, s)"
| "run_items D now (item # items) r runErr s =
     (case run_item D now item s of (out, s1) \<Rightarrow>
        run_items D now items
          ((count_result out r)\<lparr>dr_tenants := tally_add (dw_tenant item) out (dr_tenants r)\<rparr>)
          (join_run runErr out) s1)"

definition empty_result :: digest_result where
  "empty_result = \<lparr>dr_sent = 0, dr_failed = 0, dr_skipped = 0, dr_tenants = []\<rparr>"

definition Run :: "'s digest_env \<Rightarrow> 's \<Rightarrow> digest_result \<times> goerr option \<times> 's" where
  "Run D s =
     (if \<not> de_ready D then (empty_result, Some (ErrText ''digest dependencies are required''), s) else
      let now = de_now D s
      in case de_due D now s of
           (Inl e, s1) \<Rightarrow> (empty_result, Some (ErrWrap ''load due digests'' e), s1)
         | (Inr work, s1) \<Rightarrow> run_items D now work empty_result None s1)"

section \<open>The scheduled job\<close>

record run_record =
  rr_tenant :: string
  rr_status :: string
  rr_started :: time
  rr_finished :: time
  rr_done :: int
  rr_failed :: int
  rr_skipped :: int
  rr_err :: "goerr option"

record 's run_journal =
  rj_tenants :: "'s \<Rightarrow> string list res \<times> 's"
  rj_record :: "run_record \<Rightarrow> 's \<Rightarrow> goerr option \<times> 's"

definition tally_record :: "time \<Rightarrow> time \<Rightarrow> tenant_tally \<Rightarrow> run_record" where
  "tally_record startedAt finishedAt ty =
     \<lparr>rr_tenant = ty_tenant ty, rr_status = (if ty_err ty \<noteq> None then ''failed'' else ''succeeded''),
      rr_started = startedAt, rr_finished = finishedAt, rr_done = ty_done ty, rr_failed = ty_failed ty,
      rr_skipped = ty_skipped ty, rr_err = ty_err ty\<rparr>"

fun journal_records :: "'s run_journal \<Rightarrow> run_record list \<Rightarrow> goerr option \<Rightarrow> 's \<Rightarrow> goerr option \<times> 's" where
  "journal_records J [] err s = (err, s)"
| "journal_records J (r # rs) err s =
     (case rj_record J r s of
        (None, s1) \<Rightarrow> journal_records J rs err s1
      | (Some e, s1) \<Rightarrow> journal_records J rs (errors_join [err, Some e]) s1)"

definition runScheduledDigest ::
  "'s digest_env \<Rightarrow> 's run_journal option \<Rightarrow> ('s \<Rightarrow> time) \<Rightarrow> time \<Rightarrow> 's \<Rightarrow> goerr option \<times> 's" where
  "runScheduledDigest D journal clk startedAt s =
     (case journal of
        None \<Rightarrow> (Some (ErrText ''digest run journal is required''), s)
      | Some J \<Rightarrow>
         (case Run D s of (result, runErr, s1) \<Rightarrow>
            let finishedAt = (if clk s1 < startedAt then startedAt else clk s1);
                records = map (tally_record startedAt finishedAt) (dr_tenants result)
            in if records = [] \<and> runErr \<noteq> None then
                 (case rj_tenants J s1 of
                    (Inl e, s2) \<Rightarrow> (errors_join [runErr, Some e], s2)
                  | (Inr ids, s2) \<Rightarrow>
                      (case journal_records J
                         (map (\<lambda>tenantID. \<lparr>rr_tenant = tenantID, rr_status = ''failed'', rr_started = startedAt,
                            rr_finished = finishedAt, rr_done = 0, rr_failed = 0, rr_skipped = 0,
                            rr_err = runErr\<rparr>) ids) None s2 of
                         (journalErr, s3) \<Rightarrow> (errors_join [runErr, journalErr], s3)))
               else
                 (case journal_records J records None s1 of
                    (journalErr, s2) \<Rightarrow> (errors_join [runErr, journalErr], s2))))"

end
