(* ===== verification/Digest_Run_Laws.thy ===== *)
theory Digest_Run_Laws
  imports Digest_Runner Delivery_Laws
begin

text \<open>
  What a digest run of \<open>Digest_Runner\<close> guarantees: its books balance, its message identifiers are
  valid, and with a repository that keeps the delivery contract, which \<open>Deliveries\<close> does, a mail
  counted as sent is recorded as sent.
\<close>

section \<open>The books\<close>

fun outcomes :: "'s digest_env \<Rightarrow> time \<Rightarrow> digest_work list \<Rightarrow> 's \<Rightarrow> (string \<times> item_outcome) list" where
  "outcomes D now [] s = []"
| "outcomes D now (item # items) s =
     (dw_tenant item, fst (run_item D now item s)) # outcomes D now items (snd (run_item D now item s))"

definition balanced :: "(string \<times> item_outcome) list \<Rightarrow> digest_result \<Rightarrow> goerr option \<Rightarrow> bool" where
  "balanced log r runErr \<longleftrightarrow>
     tally_of log (dr_tenants r) \<and>
     dr_sent r = int (length (filter (\<lambda>(t, x). x = ItemDone) log)) \<and>
     dr_failed r = int (length (filter (\<lambda>(t, x). is_failed x) log)) \<and>
     dr_skipped r = int (length (filter (\<lambda>(t, x). x = ItemSkipped) log)) \<and>
     (runErr = None \<longleftrightarrow> dr_failed r = 0)"

lemma balanced_snoc:
  assumes "balanced log r runErr"
  shows "balanced (log @ [(t, x)]) ((count_result x r)\<lparr>dr_tenants := tally_add t x (dr_tenants r)\<rparr>)
    (join_run runErr x)"
  using assms tally_of_snoc [of log "dr_tenants r" t x] unfolding balanced_def
  by (cases x) (auto simp: is_failed_def join_run_def errors_join_def some_errors_def
      List.map_filter_def split: option.splits)

lemma run_items_balanced:
  "balanced log r runErr \<Longrightarrow> run_items D now items r runErr s = (r', runErr', s') \<Longrightarrow>
   balanced (log @ outcomes D now items s) r' runErr'"
proof (induction items arbitrary: log r runErr s)
  case (Cons item items)
  obtain out s1 where out: "run_item D now item s = (out, s1)" by fastforce
  from Cons.IH [OF balanced_snoc [OF Cons.prems(1)]] Cons.prems(2) out show ?case by simp
qed simp

lemma outcomes_length [simp]: "length (outcomes D now items s) = length items"
  by (induction items arbitrary: s) simp_all

lemma outcomes_tenants: "map fst (outcomes D now items s) = map dw_tenant items"
  by (induction items arbitrary: s) simp_all

lemma three_outcomes:
  "length (filter (\<lambda>(t, x). x = ItemDone) log) + length (filter (\<lambda>(t, x). is_failed x) log) +
   length (filter (\<lambda>(t, x). x = ItemSkipped) log) = length log"
  by (induction log) (auto simp: is_failed_def split: item_outcome.splits)

lemma three_counts:
  "count_of (\<lambda>r. r = ItemDone) log t + count_of is_failed log t + count_of (\<lambda>r. r = ItemSkipped) log t
     = int (length (filter (\<lambda>(t', x). t' = t) log))"
proof (induction log)
  case (Cons p log)
  obtain t' x where p: "p = (t', x)" by fastforce
  have "count_of P (p # log) t = (if t' = t \<and> P x then 1 else 0) + count_of P log t" for P
    by (simp add: count_of_def p)
  with Cons show ?case by (cases x) (auto simp: p is_failed_def)
qed (simp add: count_of_def)

text \<open>
  The books of a digest run balance: sent, failed and skipped add up to the due digests; the
  run reports an error exactly when some digest failed; every tenant with a due digest has one
  entry, and its entry has an error exactly when one of its own digests failed.
\<close>

theorem digest_run_accounts:
  assumes "de_ready D" "de_due D (de_now D s) s = (Inr work, s1)" "Run D s = (r, runErr, s')"
  shows "dr_sent r + dr_failed r + dr_skipped r = int (length work) \<and>
    (runErr = None \<longleftrightarrow> dr_failed r = 0) \<and>
    distinct (map ty_tenant (dr_tenants r)) \<and> ty_tenant ` set (dr_tenants r) = dw_tenant ` set work \<and>
    (\<forall>ty \<in> set (dr_tenants r). ty_done ty + ty_failed ty + ty_skipped ty
        = int (length (filter (\<lambda>w. dw_tenant w = ty_tenant ty) work)) \<and>
      (ty_err ty = None \<longleftrightarrow> ty_failed ty = 0))"
proof -
  let ?log = "outcomes D (de_now D s) work s1"
  have run: "run_items D (de_now D s) work empty_result None s1 = (r, runErr, s')"
    using assms by (simp add: Run_def Let_def)
  have "balanced [] empty_result None"
    by (simp add: balanced_def empty_result_def tally_of_Nil)
  from run_items_balanced [OF this run] have b: "balanced ?log r runErr" by simp
  have "dr_sent r + dr_failed r + dr_skipped r = int (length ?log)"
    using b three_outcomes [of ?log] unfolding balanced_def by linarith
  moreover have "ty_done ty + ty_failed ty + ty_skipped ty
      = int (length (filter (\<lambda>w. dw_tenant w = ty_tenant ty) work))"
    if ty: "ty \<in> set (dr_tenants r)" for ty
  proof -
    let ?mine = "filter (\<lambda>(t, x). t = ty_tenant ty) ?log"
    have "ty_done ty + ty_failed ty + ty_skipped ty = int (length ?mine)"
      using b ty three_counts [of ?log "ty_tenant ty"] unfolding balanced_def tally_of_def by simp
    also have "length ?mine = length (filter (\<lambda>t. t = ty_tenant ty) (map fst ?log))"
      unfolding filter_map length_map by (rule arg_cong [where f = length], rule filter_cong) auto
    also have "\<dots> = length (filter (\<lambda>w. dw_tenant w = ty_tenant ty) work)"
      by (simp only: outcomes_tenants) (simp add: filter_map comp_def)
    finally show ?thesis .
  qed
  moreover have "fst ` set ?log = dw_tenant ` set work"
    using outcomes_tenants [of D "de_now D s" work s1] by (metis list.set_map)
  ultimately show ?thesis
    using b unfolding balanced_def tally_of_def by auto
qed

section \<open>Message identifiers\<close>

definition hex_digest :: "string \<Rightarrow> bool" where
  "hex_digest h \<longleftrightarrow> length h = 64 \<and> list_all (\<lambda>c. (48 \<le> byte c \<and> byte c \<le> 57) \<or> (97 \<le> byte c \<and> byte c \<le> 102)) h"

text \<open>
  The message identifier of a digest always passes the validation of the mail builder, so a
  claimed delivery never fails because of its own identifier: SHA-256 digests are 64 lower-case
  hexadecimal digits.
\<close>

theorem digest_message_id_valid:
  assumes "\<And>x. hex_digest (sha x)"
  shows "validMessageID (digestMessageID sha key ns)"
proof -
  obtain x where x: "digestMessageID sha key ns = sha x @ ''@namo.invalid''"
    unfolding digestMessageID_def by blast
  define h where "h = sha x"
  have h: "length h = 64" "\<And>c. c \<in> set h \<Longrightarrow> id_char c \<and> c \<noteq> CHR ''@'' \<and> c \<notin> set (''<>'' @ [CHR 0x0D, CHR 0x0A, CHR 0x09, CHR 0x20])"
    using assms [of x] by (auto simp: h_def hex_digest_def list_all_iff id_char_def byte_def)
  have at: "CHR ''@'' \<notin> set h" using h(2) by blast
  then have split: "takeWhile (\<lambda>c. c \<noteq> CHR ''@'') (h @ ''@namo.invalid'') = h"
    "dropWhile (\<lambda>c. c \<noteq> CHR ''@'') (h @ ''@namo.invalid'') = ''@namo.invalid''"
    by (auto simp: takeWhile_append dropWhile_append)
  have "count_char CHR ''@'' h = 0" using at
    by (auto simp: count_char_def filter_empty_conv)
  then have one: "count_char CHR ''@'' (h @ ''@namo.invalid'') = 1" by (simp add: count_char_Cons)
  have clean: "\<not> contains_any (h @ ''@namo.invalid'') (''<>'' @ [CHR 0x0D, CHR 0x0A, CHR 0x09, CHR 0x20])"
    using h(2) by (auto simp: contains_any_def list_ex_iff)
  have "list_all id_char h" unfolding list_all_iff using h(2) by blast
  moreover have "list_all id_char ''@namo.invalid''" by code_simp
  ultimately have ids: "list_all id_char (h @ ''@namo.invalid'')" unfolding list_all_append ..
  have h0: "h \<noteq> []" using h(1) by auto
  have len: "\<not> 254 < length (h @ ''@namo.invalid'')" using h(1) by simp
  have right: "tl ''@namo.invalid'' = ''namo.invalid''" "''namo.invalid'' \<noteq> []"
    "\<not> has_prefix ''namo.invalid'' ''.''" "\<not> has_suffix ''namo.invalid'' ''.''"
    by code_simp+
  show ?thesis
    unfolding x h_def [symmetric] validMessageID_def Let_def split
    by (simp only: len one clean ids h0 right simp_thms if_False if_True)
qed

theorem digest_message_id_valid_witness:
  "validMessageID (digestMessageID (\<lambda>x. replicate 64 CHR ''a'') ''k'' [])"
  by (rule digest_message_id_valid) (simp add: hex_digest_def list_all_iff byte_def)

section \<open>The repository contract\<close>

locale digest_repository =
  fixes valid :: "'s \<Rightarrow> bool"
    and claim :: "delivery_claim \<Rightarrow> 's \<Rightarrow> delivery_reservation res \<times> 's"
    and sent :: "delivery_claim \<Rightarrow> string \<Rightarrow> int \<Rightarrow> time \<Rightarrow> 's \<Rightarrow> goerr option \<times> 's"
    and recorded :: "delivery_claim \<Rightarrow> 's \<Rightarrow> bool"
  assumes claim_valid: "valid s \<Longrightarrow> valid (snd (claim c s))"
    and claim_granted: "valid s \<Longrightarrow> claim c s = (Inr r, s') \<Longrightarrow> rs_claimed r \<Longrightarrow>
      rs_token r \<noteq> [] \<and> 1 \<le> rs_attempts r \<and> rs_attempts r \<le> 3"
    and sent_recorded: "valid s \<Longrightarrow> sent c tok n at s = (None, s') \<Longrightarrow> recorded c s'"
begin

lemma send_claimed_done:
  assumes "de_sent D = sent" "\<And>a b m s. valid s \<Longrightarrow> valid (snd (de_send D a b m s))"
    and "valid s" "send_claimed D now item c tok n s = (ItemDone, s')"
  shows "recorded c s'"
proof -
  obtain message where m: "BuildSMTPMessageWithID (de_mail D) (de_from D) [dw_email item]
      (digest_subject (length (dw_notices item))) (dw_notices item)
      (digestMessageID (de_sha D) (dc_key c) (dw_notices item)) = Inr message"
    using assms(4) by (auto simp: send_claimed_def split: sum.splits prod.splits)
  obtain e s1 where s1: "de_send D (de_from D) (dw_email item) message s = (e, s1)" by fastforce
  have v: "valid s1" using assms(2) [OF assms(3), of "de_from D" "dw_email item" message] s1 by simp
  obtain at where "sent c tok n at s1 = (None, s')"
    using assms(1,4) m s1
    by (auto simp: send_claimed_def Let_def split: option.splits prod.splits if_splits)
  with v show ?thesis by (rule sent_recorded)
qed

lemma run_item_contract:
  assumes "de_claim D = claim" "de_sent D = sent"
    and "\<And>a b m s. valid s \<Longrightarrow> valid (snd (de_send D a b m s))"
    and "valid s" "run_item D now item s = (out, s')"
  shows "out \<noteq> ItemFailed missing_token \<and> out \<noteq> ItemFailed (invalid_attempt n) \<and>
    (out = ItemDone \<longrightarrow> recorded (item_claim D item) s')"
proof (cases "dw_notices item = []")
  case True
  with assms(5) show ?thesis
    by (auto simp: run_item_def missing_token_def invalid_attempt_def split: prod.splits option.splits)
next
  case False
  obtain r s1 where r: "claim (item_claim D item) s = (r, s1)" by fastforce
  have v: "valid s1" using claim_valid [OF assms(4), of "item_claim D item"] r by simp
  show ?thesis
  proof (cases r)
    case (Inl e)
    with False assms(1,5) r show ?thesis
      by (auto simp: run_item_def missing_token_def invalid_attempt_def)
  next
    case (Inr res)
    show ?thesis
    proof (cases "rs_claimed res")
      case False
      with \<open>dw_notices item \<noteq> []\<close> assms(1,5) r Inr show ?thesis by (auto simp: run_item_def)
    next
      case True
      with claim_granted [OF assms(4)] r Inr
      have g: "rs_token res \<noteq> []" "1 \<le> rs_attempts res" "rs_attempts res \<le> 3" by blast+
      with False True assms(1,5) r Inr
      have send: "send_claimed D now item (item_claim D item) (rs_token res) (rs_attempts res) s1 = (out, s')"
        by (simp add: run_item_def)
      then have "out \<noteq> ItemFailed missing_token \<and> out \<noteq> ItemFailed (invalid_attempt n)"
        by (auto simp: send_claimed_def missing_token_def invalid_attempt_def Let_def
            split: sum.splits prod.splits option.splits if_splits)
      with send_claimed_done [OF assms(2,3) v] send show ?thesis by blast
    qed
  qed
qed

end

definition repository_valid :: "dbenv \<Rightarrow> schema db \<Rightarrow> bool" where
  "repository_valid E d \<longleftrightarrow> deliveries_inv (rows d) \<and> (\<forall>n i. uuid_at E n i \<noteq> [])"

definition repository_sent ::
  "dbenv \<Rightarrow> delivery_claim \<Rightarrow> string \<Rightarrow> int \<Rightarrow> time \<Rightarrow> schema db \<Rightarrow> goerr option \<times> schema db" where
  "repository_sent E c tok n at d =
     (case FinalizeSent E c tok n at d of (Inl e, d') \<Rightarrow> (Some e, d') | (Inr u, d') \<Rightarrow> (None, d'))"

definition sent_recorded_in :: "delivery_claim \<Rightarrow> schema \<Rightarrow> bool" where
  "sent_recorded_in c t \<longleftrightarrow>
     (\<exists>row \<in> set (deliveries t). identity_of row = claim_identity c \<and> d_status row = DSent)"

lemma finalize_sent_records:
  "ensures (\<lambda>t. True) (finalize_delivery E m1 m2 m3 m4 c tok n (mark_sent at) now) (\<lambda>u. sent_recorded_in c)"
  unfolding finalize_delivery_def
proof (rule ensures_rollback, rule ensures_bind [where R = "\<lambda>u t. True"], goal_cases)
  case 1
  show ?case by (simp add: ensures_def)
next
  case 2
  show ?case
  proof (rule ensures_bind [where R = "\<lambda>u t. True"], goal_cases)
    case 1
    show ?case by (simp add: ensures_def)
  next
    case 2
    show ?case
    proof (rule ensures_if [OF ensures_fail], rule ensures_bind [where R = "\<lambda>k t. k = 1 \<longrightarrow> sent_recorded_in c t"], goal_cases)
      case 1
      have "sent_recorded_in c (t\<lparr>deliveries := update_where (held c tok n) (mark_sent at) (deliveries t)\<rparr>)"
        if one: "affected (held c tok n) (deliveries t) = 1" for t
      proof -
        obtain row where row: "row \<in> set (deliveries t)" "held c tok n row"
          using affected_pos [of "held c tok n" "deliveries t"] one by auto
        then have "identity_of (mark_sent at row) = claim_identity c \<and> d_status (mark_sent at row) = DSent"
          using natural_identity [of c row] by (simp add: held_def mark_sent_def identity_of_def)
        moreover have "mark_sent at row \<in> set (update_where (held c tok n) (mark_sent at) (deliveries t))"
          using row by (auto simp: set_update_where)
        ultimately show ?thesis unfolding sent_recorded_in_def
          by (intro bexI [where x = "mark_sent at row"]) (simp_all del: identity_keeps)
      qed
      then show ?case by (intro ensures_wrap ensures_stmt) auto
    next
      case (2 k)
      have keep: "ensures (sent_recorded_in c) (completeScheduleWindow E a b x y now) (\<lambda>u. sent_recorded_in c)" for a b x y
        unfolding completeScheduleWindow_def
        by (intro ensures_wrap ensures_stmt) (auto simp: sent_recorded_in_def)
      show ?case
        by (rule ensures_if [OF ensures_fail], rule ensures_pre, rule ensures_bind [OF keep])
           (auto intro: ensures_commit)
    qed
  qed
qed

interpretation delivery_repository: digest_repository
  "repository_valid E" "Claim E" "repository_sent E" "\<lambda>c d. sent_recorded_in c (rows d)" for E :: dbenv
proof
  fix d d' :: "schema db" and c r tok n at
  assume v: "repository_valid E d"
  then have inv: "deliveries_inv (rows d)" and u: "\<And>n i. uuid_at E n i \<noteq> []"
    by (auto simp: repository_valid_def)
  show "repository_valid E (snd (Claim E c d))"
    using Claim_advances [OF advances_refl [OF inv]] u by (simp add: repository_valid_def advances_def)
  show "rs_token r \<noteq> [] \<and> 1 \<le> rs_attempts r \<and> rs_attempts r \<le> 3"
    if g: "Claim E c d = (Inr r, d')" "rs_claimed r"
  proof -
    from Claim_granted [OF g] obtain k where
      up: "upsert_delivery E c (clock_at E (tick d)) k (normalize_key c (rows d))
        = Inr (Some (rs_attempts r, rs_token r, DSending), rows d')" by blast
    have inv': "deliveries_inv (rows d')"
      using Claim_advances [OF advances_refl [OF inv], of E c] g(1) by (simp add: advances_def)
    obtain row where row: "find_delivery (claim_identity c) (rows d') = Some row" "d_attempts row = rs_attempts r"
      "rs_token r = uuid_at E k 0"
      "rs_attempts r = delivery_attempts (normalize_key c (rows d)) (claim_identity c) + 1"
      using upsert_granted [OF normalize_inv [OF inv] up] by blast
    have "rs_attempts r \<le> 3"
      using row(1,2) inv' find_delivery_Some [OF row(1)] by (auto simp: deliveries_inv_def)
    moreover have "1 \<le> rs_attempts r"
      using row(4) delivery_attempts_bounds [OF inv, of "claim_identity c"] by simp
    ultimately show ?thesis using row(3) u by simp
  qed
  show "sent_recorded_in c (rows d')" if s: "repository_sent E c tok n at d = (None, d')"
  proof -
    have "\<exists>u. FinalizeSent E c tok n at d = (Inr u, d')"
      using s by (auto simp: repository_sent_def split: prod.splits sum.splits)
    then obtain u now where "finalize_delivery E ''begin sent delivery'' ''lock digest window''
        ''finalize sent delivery'' ''commit sent delivery'' c tok n (mark_sent at) now d = (Inr u, d')"
      by (auto simp: FinalizeSent_def split: if_splits)
    from ensuresD [OF finalize_sent_records _ this] show ?thesis by simp
  qed
qed

text \<open>A mailer that fails or succeeds by the number of the call and does not touch the database.\<close>

definition model_digest_env ::
  "dbenv \<Rightarrow> mail_env \<Rightarrow> (string \<Rightarrow> string) \<Rightarrow> string \<Rightarrow> (nat \<Rightarrow> goerr option) \<Rightarrow>
   (time \<Rightarrow> schema db \<Rightarrow> digest_work list res \<times> schema db) \<Rightarrow> (nat \<Rightarrow> goerr option) \<Rightarrow> schema db digest_env" where
  "model_digest_env E M sha from_addr mailer due ctx =
     \<lparr>de_ready = True, de_due = due, de_claim = Claim E, de_sent = repository_sent E,
      de_failure = (\<lambda>c tok n e d. case FinalizeFailure E c tok n (Some e) d of
         (Inl x, d') \<Rightarrow> (Some x, d') | (Inr u, d') \<Rightarrow> (None, d')),
      de_noop = (\<lambda>a b c e d. case CompleteNoop E a b c e d of
         (Inl x, d') \<Rightarrow> (Some x, d') | (Inr u, d') \<Rightarrow> (None, d')),
      de_send = (\<lambda>f to m d. (mailer (tick d), wait_tick d)),
      de_ctx_err = (\<lambda>d. ctx (tick d)), de_now = (\<lambda>d. clock_at E (tick d)),
      de_mail = M, de_sha = sha, de_from = from_addr\<rparr>"

text \<open>
  C5: The digest runner and the delivery table together: with the model's repository a digest
  counted as sent has its delivery recorded as sent, and the runner's own checks of the fencing
  token and of the reserved attempt never fail, whatever the mailer and the database do.
\<close>

theorem sent_digest_is_recorded:
  assumes "deliveries_inv (rows d)" "\<forall>n i. uuid_at E n i \<noteq> []"
    and "run_item (model_digest_env E M sha from_addr mailer due ctx) now item d = (out, d')"
  shows "out \<noteq> ItemFailed missing_token \<and> out \<noteq> ItemFailed (invalid_attempt n) \<and>
    (out = ItemDone \<longrightarrow>
      (\<exists>row \<in> set (deliveries (rows d')). d_tenant row = dw_tenant item \<and> d_schedule row = dw_schedule item \<and>
         d_recipient row = dw_recipient item \<and> d_due row = dw_due item \<and> d_status row = DSent))"
proof -
  let ?D = "model_digest_env E M sha from_addr mailer due ctx"
  have v: "repository_valid E d" using assms(1,2) by (simp add: repository_valid_def)
  have "out \<noteq> ItemFailed missing_token \<and> out \<noteq> ItemFailed (invalid_attempt n) \<and>
      (out = ItemDone \<longrightarrow> sent_recorded_in (item_claim ?D item) (rows d'))"
    by (rule delivery_repository.run_item_contract [OF _ _ _ v assms(3)])
       (simp_all add: model_digest_env_def repository_valid_def wait_tick_def)
  then show ?thesis
    by (auto simp: sent_recorded_in_def item_claim_def identity_of_def claim_identity_def)
qed

definition sample_mail :: mail_env where
  "sample_mail = \<lparr>me_url_parse = (\<lambda>u. None), me_parse_address = (\<lambda>a. Some a), me_q_encode = (\<lambda>s. s),
     me_quoted_printable = (\<lambda>s. s)\<rparr>"

definition sample_work :: digest_work where
  "sample_work = \<lparr>dw_tenant = ''t1'', dw_schedule = ''s1'', dw_recipient = ''r1'', dw_email = ''a@b'',
     dw_due = day_ns, dw_end = day_ns + hour_ns,
     dw_notices = [\<lparr>dn_title = ''road'', dn_url = [], dn_reason = ''x''\<rparr>]\<rparr>"

definition sample_digest_env :: "schema db digest_env" where
  "sample_digest_env = model_digest_env plain_env sample_mail (\<lambda>x. replicate 64 CHR ''a'') ''n@b'' (\<lambda>n. None)
     (\<lambda>t d. (Inr [sample_work], d)) (\<lambda>n. None)"

definition sample_item_run :: "item_outcome \<times> schema db" where
  "sample_item_run = run_item sample_digest_env day_ns sample_work sample_db"

lemma sample_item_done: "fst sample_item_run = ItemDone"
  unfolding sample_item_run_def by code_simp

theorem sent_digest_is_recorded_witness:
  "\<exists>row \<in> set (deliveries (rows (snd sample_item_run))). d_recipient row = ''r1'' \<and> d_status row = DSent"
proof -
  have u: "\<forall>n i. uuid_at plain_env n i \<noteq> []" by (simp add: plain_env_def)
  show ?thesis
    using sent_digest_is_recorded [OF sample_db_inv u, of sample_mail "\<lambda>x. replicate 64 CHR ''a''" "''n@b''"
        "\<lambda>n. None" "\<lambda>t d. (Inr [sample_work], d)" "\<lambda>n. None" day_ns sample_work
        "fst sample_item_run" "snd sample_item_run"] sample_item_done
    by (auto simp: sample_item_run_def sample_digest_env_def sample_work_def)
qed

theorem digest_run_accounts_witness:
  "dr_sent (fst (Run sample_digest_env sample_db)) + dr_failed (fst (Run sample_digest_env sample_db))
     + dr_skipped (fst (Run sample_digest_env sample_db)) = 1"
proof -
  have due: "de_ready sample_digest_env"
    "de_due sample_digest_env (de_now sample_digest_env sample_db) sample_db = (Inr [sample_work], sample_db)"
    by (simp_all add: sample_digest_env_def model_digest_env_def)
  obtain r e d' where run: "Run sample_digest_env sample_db = (r, e, d')" by (metis prod_cases3)
  from digest_run_accounts [OF due run] run show ?thesis by simp
qed

end
