(* ===== verification/Digest_Laws.thy ===== *)
theory Digest_Laws
  imports Digest_Window Delivery_Laws
begin

text \<open>
  What the digest windows of \<open>Digest_Window\<close> guarantee: the due time is the latest slot of the
  schedule, a window is fixed once, and merging the matched rows loses no match and no reason.
\<close>

section \<open>The due time\<close>

definition slot :: "time \<Rightarrow> int \<Rightarrow> int \<Rightarrow> nat \<Rightarrow> time" where
  "slot now hour minute daysAgo = kst_at (kst_day now - int daysAgo) hour minute"

definition slot_ok :: "time \<Rightarrow> int \<Rightarrow> int \<Rightarrow> int list \<Rightarrow> nat \<Rightarrow> bool" where
  "slot_ok now hour minute wds daysAgo \<longleftrightarrow>
     slot now hour minute daysAgo \<le> now \<and> weekday_of_day (kst_day (slot now hour minute daysAgo)) \<in> set wds"

lemma due_loop_find:
  "due_loop now last_ok hour minute wds k r =
     (case find (slot_ok now hour minute wds) [k..<k + r] of
        None \<Rightarrow> None
      | Some j \<Rightarrow> if last_ok \<noteq> 0 \<and> slot now hour minute j \<le> last_ok then None else Some (slot now hour minute j))"
proof (induction r arbitrary: k)
  case (Suc r)
  have "[k..<k + Suc r] = k # [Suc k..<Suc k + r]" by (simp add: upt_conv_Cons)
  with Suc [of "Suc k"] show ?case
    by (auto simp: slot_ok_def slot_def is_zero_def Let_def not_less not_le split: option.splits)
qed simp

lemma find_upt_Some:
  "find P [0..<n] = Some j \<longleftrightarrow> j < n \<and> P j \<and> (\<forall>i<j. \<not> P i)"
  unfolding find_Some_iff by (intro iffI; force)

text \<open>Seven days in a row contain every weekday.\<close>

lemma weekday_within_week:
  assumes "0 \<le> w" "w \<le> 6"
  shows "\<exists>j. 1 \<le> j \<and> j \<le> (7::nat) \<and> weekday_of_day (d - int j) = w"
proof -
  define r where "r = (d - w) mod 7"
  have r: "0 \<le> r" "r < 7" by (simp_all add: r_def)
  have eq: "(d - r) mod 7 = w"
    using assms unfolding r_def by (simp add: mod_diff_right_eq)
  have "weekday_of_day (d - (r + 1)) = w" using eq by (simp add: weekday_of_day_def)
  then show ?thesis using r by (intro exI [of _ "nat (r + 1)"]) auto
qed

lemma slot_earlier_day:
  assumes "0 \<le> hour" "hour \<le> 23" "0 \<le> minute" "minute \<le> 59" "1 \<le> j"
  shows "slot now hour minute j \<le> now"
proof -
  have "slot now hour minute j \<le> kst_at (kst_day now) 0 0"
    using assms by (simp add: slot_def kst_at_def)
  with kst_day_bounds [of now] show ?thesis by simp
qed

lemma slot_weekday:
  assumes "0 \<le> hour" "hour \<le> 23" "0 \<le> minute" "minute \<le> 59"
  shows "kst_day (slot now hour minute j) = kst_day now - int j"
  using assms by (simp add: slot_def kst_day_at)

text \<open>
  The due time of a schedule is exact: it is the latest slot (an allowed weekday at the
  schedule's hour and minute in Korean time) that is not after now, and it is reported exactly
  when that slot lies after the last success. Looking back seven days always suffices.
\<close>

theorem latestDigestDue_exact:
  assumes "0 \<le> hour" "hour \<le> 23" "0 \<le> minute" "minute \<le> 59"
    and "wds \<noteq> []" "\<forall>w \<in> set wds. 0 \<le> w \<and> w \<le> 6"
  shows "latestDigestDue True now lastSuccess hour minute wds = Some c \<longleftrightarrow>
    (\<exists>d. c = kst_at d hour minute \<and> weekday_of_day d \<in> set wds) \<and> c \<le> now \<and>
    (\<forall>d. weekday_of_day d \<in> set wds \<longrightarrow> kst_at d hour minute \<le> now \<longrightarrow> kst_at d hour minute \<le> c) \<and>
    (lastSuccess = 0 \<or> lastSuccess < c)"
proof -
  let ?ok = "slot_ok now hour minute wds" and ?D = "kst_day now"
  have ok_iff: "?ok j \<longleftrightarrow> slot now hour minute j \<le> now \<and> weekday_of_day (?D - int j) \<in> set wds" for j
    using slot_weekday [OF assms(1-4)] by (simp add: slot_ok_def)
  obtain w where w: "w \<in> set wds" using assms(5) by (cases wds) auto
  then obtain j0 where j0: "1 \<le> j0" "j0 \<le> 7" "weekday_of_day (?D - int j0) = w"
    using weekday_within_week [of w ?D] assms(6) by auto
  then have "?ok j0" using slot_earlier_day [OF assms(1-4)] w by (simp add: ok_iff)
  moreover have "j0 \<in> set [0..<8]" using j0 by simp
  ultimately have "find ?ok [0..<8] \<noteq> None" unfolding find_None_iff by blast
  then obtain j where j: "find ?ok [0..<8] = Some j" by auto
  then have okj: "?ok j" and first: "\<And>i. i < j \<Longrightarrow> \<not> ?ok i" by (auto simp: find_upt_Some)
  let ?c = "slot now hour minute j"
  have run: "latestDigestDue True now lastSuccess hour minute wds =
      (if lastSuccess \<noteq> 0 \<and> ?c \<le> lastSuccess then None else Some ?c)"
  proof -
    have bad: "\<not> list_ex (\<lambda>w. w < 0 \<or> 6 < w) wds" using assms(6) by (force simp: list_ex_iff)
    show ?thesis
      using assms(1-5) bad j by (simp add: latestDigestDue_def due_loop_find del: upt_Suc)
  qed
  have latest: "kst_at d hour minute \<le> ?c" if d: "weekday_of_day d \<in> set wds" "kst_at d hour minute \<le> now" for d
  proof -
    have "d \<le> ?D" using kst_at_after_day [of now d hour minute] d(2) assms(1,3) by (cases "?D < d") auto
    then have sd: "slot now hour minute (nat (?D - d)) = kst_at d hour minute" by (simp add: slot_def)
    then have "?ok (nat (?D - d))" using d \<open>d \<le> ?D\<close> by (simp add: ok_iff)
    then have "j \<le> nat (?D - d)" using first not_le by blast
    then have "d \<le> ?D - int j" using \<open>d \<le> ?D\<close> by linarith
    then show ?thesis unfolding slot_def by (rule kst_at_mono_day)
  qed
  have mem: "?c = kst_at (?D - int j) hour minute" "weekday_of_day (?D - int j) \<in> set wds" "?c \<le> now"
    using okj by (simp_all add: ok_iff slot_def)
  show ?thesis
  proof
    assume "latestDigestDue True now lastSuccess hour minute wds = Some c"
    then have "c = ?c" "lastSuccess = 0 \<or> lastSuccess < c" using run by (auto split: if_splits)
    with mem latest show "(\<exists>d. c = kst_at d hour minute \<and> weekday_of_day d \<in> set wds) \<and> c \<le> now \<and>
        (\<forall>d. weekday_of_day d \<in> set wds \<longrightarrow> kst_at d hour minute \<le> now \<longrightarrow> kst_at d hour minute \<le> c) \<and>
        (lastSuccess = 0 \<or> lastSuccess < c)" by auto
  next
    assume c: "(\<exists>d. c = kst_at d hour minute \<and> weekday_of_day d \<in> set wds) \<and> c \<le> now \<and>
        (\<forall>d. weekday_of_day d \<in> set wds \<longrightarrow> kst_at d hour minute \<le> now \<longrightarrow> kst_at d hour minute \<le> c) \<and>
        (lastSuccess = 0 \<or> lastSuccess < c)"
    then have "?c \<le> c" using mem by metis
    moreover have "c \<le> ?c" using c latest by blast
    ultimately show "latestDigestDue True now lastSuccess hour minute wds = Some c" using run c by auto
  qed
qed

theorem latestDigestDue_exact_witness:
  "latestDigestDue True (kst_at 738000 10 30) 0 9 0 [0, 1, 2, 3, 4, 5, 6] = Some (kst_at 738000 9 0) \<longleftrightarrow>
    (\<exists>d. kst_at 738000 9 0 = kst_at d 9 0 \<and> weekday_of_day d \<in> set [0, 1, 2, 3, 4, 5, 6]) \<and>
    kst_at 738000 9 0 \<le> kst_at 738000 10 30 \<and>
    (\<forall>d. weekday_of_day d \<in> set [0, 1, 2, 3, 4, 5, 6] \<longrightarrow> kst_at d 9 0 \<le> kst_at 738000 10 30 \<longrightarrow>
      kst_at d 9 0 \<le> kst_at 738000 9 0) \<and> ((0::int) = 0 \<or> 0 < kst_at 738000 9 0)"
  by (rule latestDigestDue_exact) simp_all

section \<open>A window is fixed once\<close>

lemma find_append_None:
  "find P (xs @ ys) = (case find P xs of None \<Rightarrow> find P ys | Some x \<Rightarrow> Some x)"
  by (induction xs) auto

lemma insert_window_None:
  "insert_window a b c e t = Inr (None, t') \<Longrightarrow> t' = t \<and> (\<exists>w. find (due_window a b c) (windows t) = Some w)"
  by (cases "find (due_window a b c) (windows t)")
     (auto simp: insert_window_def list_ex_iff find_None_iff split: if_splits)

lemma insert_window_Some:
  assumes "insert_window a b c e t = Inr (Some f, t')"
  shows "find (due_window a b c) (windows t) = None \<and>
     (\<exists>w. find (due_window a b c) (windows t') = Some w \<and> w_end w = f)"
proof -
  have none: "find (due_window a b c) (windows t) = None"
    using assms by (auto simp: insert_window_def list_ex_iff find_None_iff split: if_splits)
  have "\<exists>w. windows t' = windows t @ [w] \<and> due_window a b c w \<and> w_end w = f"
    using assms by (auto simp: insert_window_def due_window_def split: if_splits)
  with none show ?thesis by (auto simp: find_append_None)
qed

lemma getOrCreate_result:
  assumes "getOrCreateDigestWindow E a b c e lastSuccess d = (Inr fixed, d')"
  shows "\<exists>w. find (due_window a b c) (windows (rows d')) = Some w \<and> w_end w = fixed \<and>
    (find (due_window a b c) (windows (rows d)) \<noteq> None \<longrightarrow> rows d' = rows d)"
proof -
  obtain created d1 where ins: "insert_window a b c e (rows d) = Inr (created, rows d1)"
    and rest: "(case created of
       None \<Rightarrow> sql_wrap ''create digest window''
          (sql_bind (sql_query E (\<lambda>t. find (due_window a b c) (windows t))) (\<lambda>w.
           case w of None \<Rightarrow> sql_fail (Sentinel ErrNoRows) | Some w \<Rightarrow> sql_return (w_end w))) d1 = (Inr fixed, d')
     | Some f \<Rightarrow> windows (rows d') = windows (rows d1) \<and> fixed = f)"
  proof -
    from assms obtain created d1 where s: "sql_stmt E (\<lambda>n. insert_window a b c e) d = (Inr created, d1)"
      and rest: "(case created of
       None \<Rightarrow> sql_wrap ''create digest window''
          (sql_bind (sql_query E (\<lambda>t. find (due_window a b c) (windows t))) (\<lambda>w.
           case w of None \<Rightarrow> sql_fail (Sentinel ErrNoRows) | Some w \<Rightarrow> sql_return (w_end w)))
       | Some fixed \<Rightarrow>
         sql_bind (sql_wrap ''snapshot digest window items''
            (sql_stmt E (\<lambda>n t. Inr ((), t\<lparr>window_items := window_items t @
               snapshot_items a b c fixed
                 (if is_zero lastSuccess then None else Some lastSuccess) t\<rparr>)))) (\<lambda>_.
         sql_bind (sql_wrap ''snapshot digest window recipients''
            (sql_stmt E (\<lambda>n t. Inr ((), t\<lparr>window_recipients := window_recipients t @
               snapshot_recipients a b c fixed t\<rparr>)))) (\<lambda>_.
         sql_return fixed))) d1 = (Inr fixed, d')"
      unfolding getOrCreateDigestWindow_def by (auto elim!: sql_bindE simp: sql_wrap_eq_Inr)
    from s have "insert_window a b c e (rows d) = Inr (created, rows d1)" by (auto simp: sql_stmt_Inr)
    moreover have "windows (rows d') = windows (rows d1) \<and> fixed = f" if "created = Some f" for f
      using rest that by (auto elim!: sql_bindE simp: sql_wrap_eq_Inr sql_stmt_Inr)
    ultimately show ?thesis using rest that [of created d1] by (cases created) auto
  qed
  show ?thesis
  proof (cases created)
    case None
    with insert_window_None [of a b c e "rows d" "rows d1"] ins rest show ?thesis
      by (auto elim!: sql_bindE simp: sql_wrap_eq_Inr sql_query_Inr split: option.splits)
  next
    case (Some f)
    with insert_window_Some [of a b c e "rows d" f "rows d1"] ins rest show ?thesis by auto
  qed
qed

text \<open>An attempt for a window that exists changes nothing, whether it succeeds or fails.\<close>

lemma getOrCreate_again:
  assumes w: "find (due_window a b c) (windows (rows d)) = Some w"
    and g: "getOrCreateDigestWindow E a b c e lastSuccess d = (r, d')"
  shows "rows d' = rows d \<and> (\<forall>x. r = Inr x \<longrightarrow> x = w_end w)"
proof -
  have ex: "list_ex (due_window a b c) (windows (rows d))" using w by (auto simp: find_Some_iff list_ex_iff)
  have ins: "insert_window a b c e (rows d) = (if e < c then Inl (ErrText ''digest_windows_check'') else Inr (None, rows d))"
    using ex by (simp add: insert_window_def)
  show ?thesis
    using g w ins unfolding getOrCreateDigestWindow_def
    by (auto simp: sql_bind_def sql_wrap_def sql_stmt_def sql_query_def sql_return_def sql_fail_def
        split: option.splits if_splits sum.splits prod.splits)
qed

lemma find_map_key:
  assumes "prefix (map window_key ws) (map window_key vs)" "find (due_window a b c) ws = Some w"
  obtains v where "find (due_window a b c) vs = Some v" "w_end v = w_end w"
proof -
  have due: "due_window a b c x \<longleftrightarrow> (\<exists>e. window_key x = (a, b, c, e))" for x
    by (auto simp: due_window_def window_key_def)
  have "prefix (map window_key ws) (map window_key vs) \<Longrightarrow> find (due_window a b c) ws = Some w \<Longrightarrow>
      \<exists>v. find (due_window a b c) vs = Some v \<and> window_key v = window_key w"
  proof (induction ws arbitrary: vs)
    case (Cons x ws)
    then obtain y ys where vs: "vs = y # ys" "window_key y = window_key x" "prefix (map window_key ws) (map window_key ys)"
      by (cases vs) auto
    with due [of x] due [of y] have same: "due_window a b c y = due_window a b c x" by simp
    show ?case
    proof (cases "due_window a b c x")
      case True
      with Cons.prems(2) vs same show ?thesis by simp
    next
      case False
      with Cons.prems(2) Cons.IH [OF vs(3)] vs(1) same show ?thesis by simp
    qed
  qed simp
  with assms obtain v where "find (due_window a b c) vs = Some v" "window_key v = window_key w" by blast
  with that show thesis by (simp add: window_key_def)
qed

text \<open>
  C37: A digest window is fixed once. When a window has been obtained for a schedule and a due time,
  then on every later database, however its matches, filters, notices, recipients, schedules and the
  states of its windows have changed and whatever windows have been added, as long as the windows that
  there were keep their keys, an attempt with whatever other end, last success and faults can only
  return the same end, and leaves all rows as they are: nothing is added to the items or to the
  recipients of the window, also when recipients or matches have come since.
\<close>

theorem digest_window_fixed_once:
  assumes "getOrCreateDigestWindow E tenantID scheduleID dueAt windowEnd lastSuccess d = (Inr fixed, d1)"
    and "prefix (map window_key (windows (rows d1))) (map window_key (windows (rows d2)))"
    and "getOrCreateDigestWindow E' tenantID scheduleID dueAt windowEnd' lastSuccess' d2 = (r, d3)"
  shows "rows d3 = rows d2 \<and> (\<forall>fixed'. r = Inr fixed' \<longrightarrow> fixed' = fixed)"
proof -
  obtain w where w: "find (due_window tenantID scheduleID dueAt) (windows (rows d1)) = Some w" "w_end w = fixed"
    using getOrCreate_result [OF assms(1)] by blast
  obtain v where v: "find (due_window tenantID scheduleID dueAt) (windows (rows d2)) = Some v" "w_end v = fixed"
    using find_map_key [OF assms(2) w(1)] w(2) by metis
  show ?thesis using getOrCreate_again [OF v(1) assms(3)] v(2) by blast
qed

definition scheduled_db :: "schema db" where
  "scheduled_db = sample_db\<lparr>rows := sample_schema\<lparr>windows := [], window_recipients := [],
     schedules := [\<lparr>s_tenant = ''t1'', s_id = ''s1'', s_name = ''daily'', s_hour = 9, s_minute = 0, s_timezone = ''Asia/Seoul'',
       s_weekdays = [1], s_enabled = True, s_last_success = None\<rparr>],
     recipients := [\<lparr>rc_tenant = ''t1'', rc_id = ''r1'', rc_name = ''a'', rc_email = ''a@b'', rc_enabled = True\<rparr>]\<rparr>\<rparr>"

definition fixed_run :: "time res \<times> schema db" where
  "fixed_run = getOrCreateDigestWindow plain_env ''t1'' ''s1'' day_ns (day_ns + hour_ns) 0 scheduled_db"

lemma fixed_run_facts:
  "fst fixed_run = Inr (day_ns + hour_ns)" "map window_key (windows (rows (snd fixed_run))) = [(''t1'', ''s1'', day_ns, day_ns + hour_ns)]"
  "map wr_recipient (window_recipients (rows (snd fixed_run))) = [''r1'']"
  by code_simp+

text \<open>Later the window is closed, another is open and there is a second recipient.\<close>

definition later_db :: "schema db" where
  "later_db = \<lparr>rows = (rows (snd fixed_run))\<lparr>windows :=
     [\<lparr>w_tenant = ''t1'', w_schedule = ''s1'', w_due = day_ns, w_end = day_ns + hour_ns, w_status = WCompleted, w_completed = Some (2 * day_ns)\<rparr>,
      \<lparr>w_tenant = ''t1'', w_schedule = ''s1'', w_due = 2 * day_ns, w_end = 2 * day_ns, w_status = WPending, w_completed = None\<rparr>],
     recipients := recipients (rows scheduled_db) @
       [\<lparr>rc_tenant = ''t1'', rc_id = ''r2'', rc_name = ''b'', rc_email = ''b@b'', rc_enabled = True\<rparr>]\<rparr>, tick = 9\<rparr>"

theorem digest_window_fixed_once_witness:
  "fst (getOrCreateDigestWindow plain_env ''t1'' ''s1'' day_ns (2 * day_ns) day_ns later_db) = Inr (day_ns + hour_ns) \<and>
   rows (snd (getOrCreateDigestWindow plain_env ''t1'' ''s1'' day_ns (2 * day_ns) day_ns later_db)) = rows later_db"
proof -
  have r: "getOrCreateDigestWindow plain_env ''t1'' ''s1'' day_ns (day_ns + hour_ns) 0 scheduled_db = (Inr (day_ns + hour_ns), snd fixed_run)"
    using fixed_run_facts(1) unfolding fixed_run_def by (metis prod.collapse)
  have keys: "prefix (map window_key (windows (rows (snd fixed_run)))) (map window_key (windows (rows later_db)))"
    unfolding fixed_run_facts(2) by (simp add: later_db_def window_key_def)
  obtain x d3 where again: "getOrCreateDigestWindow plain_env ''t1'' ''s1'' day_ns (2 * day_ns) day_ns later_db = (Inr x, d3)"
  proof -
    obtain q d3 where q: "getOrCreateDigestWindow plain_env ''t1'' ''s1'' day_ns (2 * day_ns) day_ns later_db = (q, d3)" by fastforce
    have "case fst (getOrCreateDigestWindow plain_env ''t1'' ''s1'' day_ns (2 * day_ns) day_ns later_db) of
        Inr f \<Rightarrow> True | Inl e \<Rightarrow> False"
      by code_simp
    then have "case q of Inr f \<Rightarrow> True | Inl e \<Rightarrow> False" unfolding q by simp
    then obtain x where "q = Inr x" by (cases q) auto
    with q that show ?thesis by blast
  qed
  from digest_window_fixed_once [OF r keys again] have "rows d3 = rows later_db \<and> x = day_ns + hour_ns" by blast
  with again show ?thesis by simp
qed

section \<open>Merging the matches\<close>

lemma set_add_reasons: "set (add_reasons seen new) = set seen \<union> set new"
  by (induction new arbitrary: seen) (auto simp: add_reasons_def)

lemma add_reasons_distinct: "distinct seen \<Longrightarrow> distinct (add_reasons seen new)"
  by (induction new arbitrary: seen) (auto simp: add_reasons_def)

text \<open>The entries after some rows: one for each notice, with the title of its first row and the
  reasons of all of its rows.\<close>

definition merged_of :: "digest_notice_row list \<Rightarrow> accumulated list \<Rightarrow> bool" where
  "merged_of done acc \<longleftrightarrow>
     map ac_id acc = add_reasons [] (map nrw_id done) \<and>
     (\<forall>a \<in> set acc. distinct (ac_reasons a) \<and>
        map_option nrw_title (find (\<lambda>r. nrw_id r = ac_id a) done) = Some (ac_title a) \<and>
        set (ac_reasons a) = (\<Union>r \<in> {r \<in> set done. nrw_id r = ac_id a}.
           case unmarshal_reasons (nrw_reasons r) of None \<Rightarrow> {} | Some p \<Rightarrow> set (readableMatchReasons p)))"

lemma add_reasons_snoc:
  "add_reasons seen (new @ [x]) = (if x \<in> set (add_reasons seen new) then add_reasons seen new
     else add_reasons seen new @ [x])"
  by (simp add: add_reasons_def)

lemma merged_of_step:
  assumes m: "merged_of prev acc" and p: "unmarshal_reasons (nrw_reasons row) = Some p"
  shows "merged_of (prev @ [row]) (merge_row acc row p)"
proof -
  have ids: "map ac_id acc = add_reasons [] (map nrw_id prev)" using m by (simp add: merged_of_def)
  have mem: "(nrw_id row \<in> ac_id ` set acc) = (nrw_id row \<in> nrw_id ` set prev)"
    by (metis ids list.set_map set_add_reasons Un_empty_left list.set(1))
  show ?thesis
  proof (cases "list_ex (\<lambda>a. ac_id a = nrw_id row) acc")
    case True
    then have in_acc: "nrw_id row \<in> ac_id ` set acc" unfolding list_ex_iff by (metis image_eqI)
    then have fnd: "find (\<lambda>r. nrw_id r = nrw_id row) prev \<noteq> None"
      using mem by (auto simp: find_None_iff)
    have ids': "map ac_id (merge_row acc row p) = add_reasons [] (map nrw_id (prev @ [row]))"
    proof -
      have "map ac_id (merge_row acc row p) = map ac_id acc" using True by (simp add: merge_row_def)
      then show ?thesis using in_acc ids by (simp add: add_reasons_snoc) (metis list.set_map)
    qed
    have entry: "distinct (ac_reasons a) \<and>
        map_option nrw_title (find (\<lambda>r. nrw_id r = ac_id a) (prev @ [row])) = Some (ac_title a) \<and>
        set (ac_reasons a) = (\<Union>r \<in> {r \<in> set (prev @ [row]). nrw_id r = ac_id a}.
           case unmarshal_reasons (nrw_reasons r) of None \<Rightarrow> {} | Some p \<Rightarrow> set (readableMatchReasons p))"
      if a: "a \<in> set (merge_row acc row p)" for a
    proof -
      obtain b where b: "b \<in> set acc"
        "a = (if ac_id b = nrw_id row then b\<lparr>ac_url := (if ac_url b = [] then nrw_url row else ac_url b),
            ac_reasons := add_reasons (ac_reasons b) (readableMatchReasons p)\<rparr> else b)"
        using a True by (auto simp: merge_row_def)
      have mb: "distinct (ac_reasons b)"
        "map_option nrw_title (find (\<lambda>r. nrw_id r = ac_id b) prev) = Some (ac_title b)"
        "set (ac_reasons b) = (\<Union>r \<in> {r \<in> set prev. nrw_id r = ac_id b}.
           case unmarshal_reasons (nrw_reasons r) of None \<Rightarrow> {} | Some p \<Rightarrow> set (readableMatchReasons p))"
        using m b(1) by (auto simp: merged_of_def)
      show ?thesis
        using mb b(2) p fnd
        by (auto simp: find_append_None set_add_reasons add_reasons_distinct split: option.splits if_splits)
    qed
    show ?thesis using ids' entry unfolding merged_of_def by blast
  next
    case False
    let ?new = "\<lparr>ac_id = nrw_id row, ac_title = nrw_title row, ac_url = nrw_url row,
                   ac_reasons = add_reasons [] (readableMatchReasons p)\<rparr>"
    have acc': "merge_row acc row p = acc @ [?new]" using False by (simp add: merge_row_def)
    have not_acc: "nrw_id row \<notin> ac_id ` set acc" using False by (auto simp: list_ex_iff)
    then have not_prev: "\<forall>r \<in> set prev. nrw_id r \<noteq> nrw_id row"
      using mem by (metis image_eqI)
    then have fnd: "find (\<lambda>r. nrw_id r = nrw_id row) prev = None" by (simp add: find_None_iff)
    have ids': "map ac_id (acc @ [?new]) = add_reasons [] (map nrw_id (prev @ [row]))"
      using not_acc ids by (simp add: add_reasons_snoc) (metis list.set_map)
    have old: "\<forall>a \<in> set acc. ac_id a \<noteq> nrw_id row" using not_acc by force
    have entry: "distinct (ac_reasons a) \<and>
        map_option nrw_title (find (\<lambda>r. nrw_id r = ac_id a) (prev @ [row])) = Some (ac_title a) \<and>
        set (ac_reasons a) = (\<Union>r \<in> {r \<in> set (prev @ [row]). nrw_id r = ac_id a}.
           case unmarshal_reasons (nrw_reasons r) of None \<Rightarrow> {} | Some p \<Rightarrow> set (readableMatchReasons p))"
      if a: "a \<in> set (acc @ [?new])" for a
    proof (cases "a = ?new")
      case True
      have "{r \<in> set (prev @ [row]). nrw_id r = ac_id ?new} = {row}" using not_prev by auto
      then show ?thesis
        using True fnd p by (simp add: find_append_None set_add_reasons add_reasons_distinct)
    next
      case False
      with a have b: "a \<in> set acc" by simp
      have ma: "distinct (ac_reasons a)"
        "map_option nrw_title (find (\<lambda>r. nrw_id r = ac_id a) prev) = Some (ac_title a)"
        "set (ac_reasons a) = (\<Union>r \<in> {r \<in> set prev. nrw_id r = ac_id a}.
           case unmarshal_reasons (nrw_reasons r) of None \<Rightarrow> {} | Some p \<Rightarrow> set (readableMatchReasons p))"
        using m b by (auto simp: merged_of_def)
      have "{r \<in> set (prev @ [row]). nrw_id r = ac_id a} = {r \<in> set prev. nrw_id r = ac_id a}"
        using old b by auto
      with ma show ?thesis by (auto simp: find_append_None split: option.splits)
    qed
    show ?thesis using ids' entry unfolding acc' merged_of_def by blast
  qed
qed

lemma merge_rows_merged:
  "merge_rows acc rs = Inr acc' \<Longrightarrow> merged_of prev acc \<Longrightarrow> merged_of (prev @ rs) acc'"
proof (induction rs arbitrary: acc prev)
  case (Cons row rs)
  then obtain p where p: "unmarshal_reasons (nrw_reasons row) = Some p"
    and rest: "merge_rows (merge_row acc row p) rs = Inr acc'"
    by (auto split: if_splits option.splits)
  from Cons.IH [OF rest merged_of_step [OF Cons.prems(2) p]] show ?case by simp
qed simp

lemma str_join_member: "x \<in> set xs \<Longrightarrow> sublist x (str_join sep xs)"
proof (induction sep xs rule: str_join.induct)
  case (3 sep y z zs)
  show ?case
  proof (cases "x = y")
    case True
    then show ?thesis by (simp add: prefix_imp_sublist)
  next
    case False
    with 3 have "sublist x (str_join sep (z # zs))" by simp
    moreover have "sublist (str_join sep (z # zs)) (str_join sep (y # z # zs))"
      by (simp add: suffix_imp_sublist suffix_def)
    ultimately show ?thesis by (rule sublist_order.order_trans)
  qed
qed simp_all

text \<open>
  A digest loses nothing: it has one entry for every distinct notice of the window, in the
  order of first appearance and under its stored title, and the reason text of the entry
  contains every readable reason of every match of that notice. It is never empty.
\<close>

theorem digest_merge_complete:
  assumes "mergeDigestNoticeRows rs = Inr ns"
  shows "length ns = card (nrw_id ` set rs) \<and>
    (\<forall>r \<in> set rs. \<exists>n \<in> set ns. \<exists>p.
       Some (dn_title n) = map_option nrw_title (find (\<lambda>q. nrw_id q = nrw_id r) rs) \<and>
       unmarshal_reasons (nrw_reasons r) = Some p \<and>
       (\<forall>line \<in> set (readableMatchReasons p). str_contains (dn_reason n) line))"
proof -
  obtain acc where acc: "merge_rows [] rs = Inr acc" "ns = map merged_notice acc"
    using assms by (auto simp: mergeDigestNoticeRows_def split: sum.splits)
  have "merged_of [] []" by (simp add: merged_of_def add_reasons_def)
  from merge_rows_merged [OF acc(1) this] have m: "merged_of rs acc" by simp
  have ids: "map ac_id acc = add_reasons [] (map nrw_id rs)" using m by (simp add: merged_of_def)
  have decoded: "merge_rows a xs = Inr b \<Longrightarrow> r \<in> set xs \<Longrightarrow> unmarshal_reasons (nrw_reasons r) \<noteq> None" for a xs b r
    by (induction xs arbitrary: a) (auto split: if_splits option.splits)
  have "length acc = length (add_reasons [] (map nrw_id rs))" using ids by (metis length_map)
  also have "\<dots> = card (nrw_id ` set rs)"
    using distinct_card [of "add_reasons [] (map nrw_id rs)"] by (simp add: add_reasons_distinct set_add_reasons)
  finally have len: "length ns = card (nrw_id ` set rs)" using acc(2) by simp
  have "\<exists>n \<in> set ns. \<exists>p.
       Some (dn_title n) = map_option nrw_title (find (\<lambda>q. nrw_id q = nrw_id r) rs) \<and>
       unmarshal_reasons (nrw_reasons r) = Some p \<and>
       (\<forall>line \<in> set (readableMatchReasons p). str_contains (dn_reason n) line)" if r: "r \<in> set rs" for r
  proof -
    have "nrw_id r \<in> set (map ac_id acc)" using r unfolding ids by (simp add: set_add_reasons)
    then obtain a where a: "a \<in> set acc" "ac_id a = nrw_id r" by auto
    obtain p where p: "unmarshal_reasons (nrw_reasons r) = Some p" using decoded [OF acc(1) r] by auto
    have sub: "set (readableMatchReasons p) \<subseteq> set (ac_reasons a)"
      using m a r p unfolding merged_of_def by fastforce
    have "str_contains (dn_reason (merged_notice a)) line" if "line \<in> set (readableMatchReasons p)" for line
    proof -
      have "line \<in> set (ac_reasons a)" using sub that by blast
      then show ?thesis by (auto simp: merged_notice_def str_contains_iff intro: str_join_member)
    qed
    moreover have "Some (dn_title (merged_notice a)) = map_option nrw_title (find (\<lambda>q. nrw_id q = nrw_id r) rs)"
      using m a unfolding merged_of_def merged_notice_def by fastforce
    ultimately show ?thesis using a(1) p acc(2) by auto
  qed
  with len show ?thesis by blast
qed

definition sample_payload :: stored_match_reasons where
  "sample_payload = \<lparr>sm_reasons = [''category''],
     sm_details = [\<lparr>md_code = ''category'', md_field = ''category'', md_rule_value = ''goods'', md_notice_value = ''goods''\<rparr>]\<rparr>"

definition sample_rows :: "digest_notice_row list" where
  "sample_rows =
     [\<lparr>nrw_id = ''n1'', nrw_title = ''road'', nrw_url = [], nrw_reasons = marshal_reasons sample_payload\<rparr>,
      \<lparr>nrw_id = ''n1'', nrw_title = ''road'', nrw_url = ''u'', nrw_reasons = JNull\<rparr>]"

theorem digest_merge_complete_witness:
  "case mergeDigestNoticeRows sample_rows of Inr ns \<Rightarrow> length ns = 1 | Inl e \<Rightarrow> False"
proof -
  have c: "nrw_id ` set sample_rows = {''n1''}" by (simp add: sample_rows_def)
  have ok: "\<exists>ns. mergeDigestNoticeRows sample_rows = Inr ns"
  proof -
    have v: "trim_space ''road'' = ''road''" by (rule trim_space_visible) (simp_all add: visible_def byte_def)
    then have "merge_rows a sample_rows \<noteq> Inl e" for a e
      by (simp add: sample_rows_def unmarshal_marshal_reasons)
    then show ?thesis
      by (cases "merge_rows [] sample_rows") (auto simp: mergeDigestNoticeRows_def)
  qed
  then obtain ns where ns: "mergeDigestNoticeRows sample_rows = Inr ns" ..
  from digest_merge_complete [OF ns] c ns show ?thesis by simp
qed

end
