(* ===== verification/Go_Path.thy ===== *)
theory Go_Path
  imports Go_Prelude
begin

text \<open>
  Package path/filepath on a system with the separator \<open>/\<close> (package path is the same there): the
  lexical functions, written on the list of components.
\<close>

abbreviation slash :: char where "slash \<equiv> CHR ''/''"

definition components :: "string \<Rightarrow> string list" where
  "components p = split_byte slash p"

definition IsAbs :: "string \<Rightarrow> bool" where
  "IsAbs p = has_prefix p ''/''"

fun clean_step :: "bool \<Rightarrow> string list \<Rightarrow> string \<Rightarrow> string list" where
  "clean_step rooted stack c =
     (if c = [] \<or> c = ''.'' then stack
      else if c = ''..'' then
        (if stack \<noteq> [] \<and> last stack \<noteq> ''..'' then butlast stack
         else if rooted then stack else stack @ [c])
      else stack @ [c])"

definition Clean :: "string \<Rightarrow> string" where
  "Clean p =
     (if p = [] then ''.''
      else let rooted = IsAbs p;
               cs = foldl (clean_step rooted) [] (components p);
               body = str_join ''/'' cs
           in if rooted then ''/'' @ body else if cs = [] then ''.'' else body)"

definition IsLocal :: "string \<Rightarrow> bool" where
  "IsLocal p =
     (if IsAbs p \<or> p = [] then False
      else let q = (if list_ex (\<lambda>c. c = ''.'' \<or> c = ''..'') (components p) then Clean p else p)
           in \<not> (q = ''..'' \<or> has_prefix q ''../''))"

text \<open>\<open>filepath.Join\<close>: empty elements are dropped.\<close>

definition Join :: "string list \<Rightarrow> string" where
  "Join es = (let es' = filter (\<lambda>e. e \<noteq> []) es in if es' = [] then [] else Clean (str_join ''/'' es'))"

definition Dir :: "string \<Rightarrow> string" where
  "Dir p = Clean (case cut_last slash p of None \<Rightarrow> [] | Some (d, b) \<Rightarrow> d @ ''/'')"

section \<open>Component lists\<close>

definition plain :: "string \<Rightarrow> bool" where
  "plain c \<longleftrightarrow> c \<noteq> [] \<and> c \<noteq> ''.'' \<and> c \<noteq> ''..'' \<and> slash \<notin> set c"

lemma plainD: "plain c \<Longrightarrow> c \<noteq> [] \<and> c \<noteq> ''.'' \<and> c \<noteq> ''..'' \<and> slash \<notin> set c"
  by (simp add: plain_def)

lemma split_byte_append: "c \<notin> set a \<Longrightarrow> split_byte c (a @ c # b) = a # split_byte c b"
  by (induction a) auto

lemma split_byte_single: "c \<notin> set a \<Longrightarrow> split_byte c a = [a]"
  by (induction a) auto

lemma split_join:
  assumes "cs \<noteq> []" "\<forall>x \<in> set cs. c \<notin> set x"
  shows "split_byte c (str_join [c] cs) = cs"
  using assms
proof (induction "[c]" cs rule: str_join.induct)
  case (2 x)
  then show ?case by (simp add: split_byte_single)
next
  case (3 x y ys)
  then show ?case by (simp add: split_byte_append)
qed simp

lemma components_join: "cs \<noteq> [] \<Longrightarrow> list_all plain cs \<Longrightarrow> components (str_join ''/'' cs) = cs"
  unfolding components_def by (rule split_join) (auto simp: list_all_iff plain_def)

lemma components_no_slash: "c \<in> set (components p) \<Longrightarrow> slash \<notin> set c"
  unfolding components_def by (rule split_byte_no_sep)

lemma IsAbs_components: "IsAbs p \<longleftrightarrow> p \<noteq> [] \<and> hd p = slash"
  by (cases p) (auto simp: IsAbs_def has_prefix_def)

lemma hd_str_join: "cs \<noteq> [] \<Longrightarrow> hd cs \<noteq> [] \<Longrightarrow> hd (str_join sep cs) = hd (hd cs) \<and> str_join sep cs \<noteq> []"
  by (cases cs rule: remdups_adj.cases) auto

lemma join_not_abs: "cs \<noteq> [] \<Longrightarrow> list_all plain cs \<Longrightarrow> \<not> IsAbs (str_join ''/'' cs) \<and> str_join ''/'' cs \<noteq> []"
  using hd_str_join [of cs "''/''"] by (cases cs) (auto simp: IsAbs_components plain_def dest: hd_in_set)

lemma foldl_clean_plain:
  "list_all plain cs \<Longrightarrow> foldl (clean_step rooted) stack cs = stack @ cs"
  by (induction cs arbitrary: stack) (auto simp: plain_def)

lemma foldl_clean_filter:
  "\<forall>c \<in> set cs. c \<noteq> ''..'' \<Longrightarrow>
   foldl (clean_step rooted) stack cs = stack @ filter (\<lambda>c. c \<noteq> [] \<and> c \<noteq> ''.'') cs"
  by (induction cs arbitrary: stack) auto

lemma Clean_plain: "cs \<noteq> [] \<Longrightarrow> list_all plain cs \<Longrightarrow> Clean (str_join ''/'' cs) = str_join ''/'' cs"
  using join_not_abs [of cs] by (simp add: Clean_def Let_def components_join foldl_clean_plain)

lemma Dir_join:
  assumes "list_all plain cs" "plain c"
  shows "Dir (str_join ''/'' (cs @ [c])) = (if cs = [] then ''.'' else str_join ''/'' cs)"
proof (cases "cs = []")
  case True
  then show ?thesis using assms by (simp add: Dir_def cut_last_def plain_def Clean_def)
next
  case False
  have join: "str_join ''/'' (cs @ [c]) = str_join ''/'' cs @ slash # c"
    using False by (induction "''/''" cs rule: str_join.induct) auto
  have "cut_last slash (str_join ''/'' (cs @ [c])) = Some (str_join ''/'' cs, c)"
    unfolding join using assms(2) by (intro cut_last_append) (simp add: plain_def)
  moreover have "Clean (str_join ''/'' cs @ ''/'') = str_join ''/'' cs"
  proof -
    have "split_byte slash (s @ [slash]) = split_byte slash s @ [[]]" for s
      by (induction s) (auto split: list.splits)
    then have "components (str_join ''/'' cs @ ''/'') = cs @ [[]]"
      using components_join [OF False assms(1)] by (simp add: components_def)
    then show ?thesis
      using join_not_abs [OF False assms(1)] assms(1) False
      by (auto simp: Clean_def Let_def foldl_clean_plain IsAbs_components)
  qed
  ultimately show ?thesis using False by (simp add: Dir_def)
qed

end
