(* ===== verification/File_Store.thy ===== *)
theory File_Store
  imports Go_Path Tenant_Tx
begin

text \<open>
  internal/report/files.go: the report files below one root directory. The file system maps a
  cleaned relative path to what is there; the operations of \<open>os.Root\<close> are single calls that may
  fail at any point (the same calls-with-faults monad as the database), the context may be done at
  any check, random names come from the environment. \<open>sha\<close> is the hexadecimal SHA-256 digest.
\<close>

datatype node = NDir | NFile string | NOther

type_synonym fs = "string \<Rightarrow> node option"
type_synonym 'a io = "(fs, 'a) sql"

definition ErrNotExist :: string where "ErrNotExist = ''file does not exist''"
definition ErrExist :: string where "ErrExist = ''file already exists''"

section \<open>The calls\<close>

definition dir_ok :: "fs \<Rightarrow> string \<Rightarrow> bool" where
  "dir_ok fs p \<longleftrightarrow> p = ''.'' \<or> fs p = Some NDir"

text \<open>What is at a path: an entry is reached only through directories.\<close>

definition lookup_node :: "fs \<Rightarrow> string \<Rightarrow> goerr + node" where
  "lookup_node fs p =
     (if p = ''.'' then Inr NDir
      else case fs p of
        Some n \<Rightarrow> if dir_ok fs (Dir p) then Inr n else Inl (ErrText ''not a directory'')
      | None \<Rightarrow> (case fs (Dir p) of
           None \<Rightarrow> Inl (Sentinel ErrNotExist)
         | Some NDir \<Rightarrow> Inl (Sentinel ErrNotExist)
         | Some n \<Rightarrow> if Dir p = ''.'' then Inl (Sentinel ErrNotExist) else Inl (ErrText ''not a directory'')))"

definition create_node :: "node \<Rightarrow> fs \<Rightarrow> string \<Rightarrow> goerr + unit \<times> fs" where
  "create_node n fs p =
     (case fs p of
        Some m \<Rightarrow> Inl (Sentinel ErrExist)
      | None \<Rightarrow> if dir_ok fs (Dir p) then Inr ((), fs(p \<mapsto> n)) else Inl (Sentinel ErrNotExist))"

definition fs_lookup :: "dbenv \<Rightarrow> string \<Rightarrow> node io" where
  "fs_lookup E p = sql_stmt E (\<lambda>k fs. case lookup_node fs p of Inl e \<Rightarrow> Inl e | Inr n \<Rightarrow> Inr (n, fs))"

definition fs_mkdir :: "dbenv \<Rightarrow> string \<Rightarrow> unit io" where
  "fs_mkdir E p = sql_stmt E (\<lambda>k fs. create_node NDir fs p)"

definition fs_create :: "dbenv \<Rightarrow> string \<Rightarrow> unit io" where
  "fs_create E p = sql_stmt E (\<lambda>k fs. create_node (NFile []) fs p)"

definition fs_append :: "dbenv \<Rightarrow> string \<Rightarrow> string \<Rightarrow> unit io" where
  "fs_append E p bytes = sql_stmt E (\<lambda>k fs. case fs p of
     Some (NFile c) \<Rightarrow> Inr ((), fs(p \<mapsto> NFile (c @ bytes)))
   | _ \<Rightarrow> Inl (ErrText ''write''))"

definition fs_link :: "dbenv \<Rightarrow> string \<Rightarrow> string \<Rightarrow> unit io" where
  "fs_link E old new = sql_stmt E (\<lambda>k fs. case fs old of
     Some (NFile c) \<Rightarrow> create_node (NFile c) fs new
   | _ \<Rightarrow> Inl (Sentinel ErrNotExist))"

definition fs_remove :: "dbenv \<Rightarrow> string \<Rightarrow> unit io" where
  "fs_remove E p = sql_stmt E (\<lambda>k fs. case fs p of
     None \<Rightarrow> Inl (Sentinel ErrNotExist)
   | Some n \<Rightarrow> Inr ((), fs(p := None)))"

text \<open>\<open>ctx.Err()\<close> at this point, and calls whose error is ignored.\<close>

definition ctx_check :: "lockenv \<Rightarrow> unit io" where
  "ctx_check L d = (case ctx_err L (tick d) of Some e \<Rightarrow> (Inl e, d) | None \<Rightarrow> (Inr (), d))"

definition ignore_error :: "unit io \<Rightarrow> unit io" where
  "ignore_error m d = (Inr (), snd (m d))"

text \<open>A call whose error the caller inspects.\<close>

definition attempt :: "'a io \<Rightarrow> 'a res io" where
  "attempt m d = (Inr (fst (m d)), snd (m d))"

section \<open>Paths\<close>

text \<open>The byte loop of \<open>hasDotDotComponent\<close>: the component read so far is kept reversed.\<close>

fun dotdot_loop :: "string \<Rightarrow> string \<Rightarrow> bool" where
  "dotdot_loop cur [] = (rev cur = ''..'')"
| "dotdot_loop cur (c # cs) =
     (if c = slash then (if rev cur = ''..'' then True else dotdot_loop [] cs)
      else dotdot_loop (c # cur) cs)"

definition hasDotDotComponent :: "string \<Rightarrow> bool" where
  "hasDotDotComponent p = dotdot_loop [] p"

definition invalid_path :: "string \<Rightarrow> goerr" where
  "invalid_path p = ErrText (''invalid report path '' @ p)"

definition validateRelativePath :: "string \<Rightarrow> string res" where
  "validateRelativePath p =
     (if p = [] \<or> CHR 0x00 \<in> set p \<or> hasDotDotComponent p \<or> \<not> IsLocal p \<or> last p = slash
      then Inl (invalid_path p)
      else let q = Clean p in if q = ''.'' then Inl (invalid_path q) else Inr q)"

section \<open>Reading and hashing\<close>

definition fileChunkSize :: nat where "fileChunkSize = 65536"

function sha256_loop :: "lockenv \<Rightarrow> string \<Rightarrow> unit io" where
  "sha256_loop L body =
     (if body = [] then ctx_check L
      else sql_bind (ctx_check L) (\<lambda>_. sha256_loop L (drop fileChunkSize body)))"
  by pat_completeness auto
termination by (relation "measure (\<lambda>(L, b). length b)") (auto simp: fileChunkSize_def)

definition sha256HexContext :: "(string \<Rightarrow> string) \<Rightarrow> lockenv \<Rightarrow> string \<Rightarrow> string io" where
  "sha256HexContext sha L body = sql_bind (sha256_loop L body) (\<lambda>_. sql_return (sha body))"

text \<open>The read loop: every read returns up to a chunk of what is left, or fails; the error of the
  context has precedence. The value is the part that was hashed.\<close>

definition read_error :: "lockenv \<Rightarrow> goerr \<Rightarrow> 'a io" where
  "read_error L e = sql_bind (ctx_check L) (\<lambda>_. sql_fail e)"

function read_loop :: "dbenv \<Rightarrow> lockenv \<Rightarrow> string \<Rightarrow> string \<Rightarrow> string io" where
  "read_loop E L hashed left =
     sql_bind (ctx_check L) (\<lambda>_.
     sql_bind (attempt (sql_call E)) (\<lambda>r.
     case r of
       Inl e \<Rightarrow> read_error L e
     | Inr u \<Rightarrow>
         if left = [] then sql_return hashed
         else read_loop E L (hashed @ take fileChunkSize left) (drop fileChunkSize left)))"
  by pat_completeness auto
termination by (relation "measure (\<lambda>(E, L, h, l). length l)") (auto simp: fileChunkSize_def)

declare sha256_loop.simps [simp del] read_loop.simps [simp del]

definition Open :: "dbenv \<Rightarrow> string \<Rightarrow> string io" where
  "Open E relativePath =
     (case validateRelativePath relativePath of
        Inl e \<Rightarrow> sql_fail e
      | Inr p \<Rightarrow>
          sql_bind (sql_wrap (''open report '' @ p) (fs_lookup E p)) (\<lambda>n.
          sql_bind (sql_wrap (''stat report '' @ p) (sql_call E)) (\<lambda>_.
          case n of NFile c \<Rightarrow> sql_return c
          | _ \<Rightarrow> sql_fail (ErrText (''report '' @ p @ '' is not a regular file'')))))"

definition existingHash ::
  "(string \<Rightarrow> string) \<Rightarrow> dbenv \<Rightarrow> lockenv \<Rightarrow> string \<Rightarrow> string option io" where
  "existingHash sha E L p =
     sql_bind (ctx_check L) (\<lambda>_.
     sql_bind (attempt (Open E p)) (\<lambda>r.
     case r of
       Inl e \<Rightarrow> if errors_is e ErrNotExist then sql_bind (ctx_check L) (\<lambda>_. sql_return None) else read_error L e
     | Inr content \<Rightarrow>
         sql_bind (read_loop E L [] content) (\<lambda>hashed.
         sql_bind (ctx_check L) (\<lambda>_. sql_return (Some (sha hashed))))))"

section \<open>Writing\<close>

fun create_parents_loop :: "dbenv \<Rightarrow> string \<Rightarrow> string list \<Rightarrow> unit io" where
  "create_parents_loop E cur [] = sql_return ()"
| "create_parents_loop E cur (c # cs) =
     (let next = Join [cur, c]
      in sql_bind (attempt (fs_mkdir E next)) (\<lambda>r.
         sql_bind
           (case r of
              Inr u \<Rightarrow> sql_call E
            | Inl e \<Rightarrow>
                if \<not> errors_is e ErrExist then sql_fail e
                else sql_bind (fs_lookup E next) (\<lambda>n.
                  if n = NDir then sql_return () else sql_fail (ErrText (next @ '' is not a directory''))))
           (\<lambda>_. create_parents_loop E next cs)))"

definition createParents :: "dbenv \<Rightarrow> string \<Rightarrow> unit io" where
  "createParents E parent =
     (if parent = ''.'' then sql_return () else create_parents_loop E [] (components parent))"

definition temp_path :: "string \<Rightarrow> string \<Rightarrow> string" where
  "temp_path parent random = Join [parent, ''.report-'' @ random @ ''.tmp'']"

fun create_temp_loop :: "dbenv \<Rightarrow> string \<Rightarrow> nat \<Rightarrow> string io" where
  "create_temp_loop E parent 0 = sql_fail (ErrText ''could not allocate a unique temporary file'')"
| "create_temp_loop E parent (Suc n) =
     sql_bind (sql_stmt E (\<lambda>k fs. Inr (uuid_at E k 0, fs))) (\<lambda>random.
     let p = temp_path parent random
     in sql_bind (attempt (fs_create E p)) (\<lambda>r.
        case r of
          Inr u \<Rightarrow> sql_return p
        | Inl e \<Rightarrow> if \<not> errors_is e ErrExist then sql_fail e else create_temp_loop E parent n))"

definition createTemp :: "dbenv \<Rightarrow> string \<Rightarrow> string io" where
  "createTemp E parent = create_temp_loop E parent 100"

function writeAllContext :: "dbenv \<Rightarrow> lockenv \<Rightarrow> string \<Rightarrow> string \<Rightarrow> unit io" where
  "writeAllContext E L p body =
     (if body = [] then ctx_check L
      else sql_bind (ctx_check L) (\<lambda>_.
           sql_bind (fs_append E p (take fileChunkSize body)) (\<lambda>_.
             writeAllContext E L p (drop fileChunkSize body))))"
  by pat_completeness auto
termination by (relation "measure (\<lambda>(E, L, p, b). length b)") (auto simp: fileChunkSize_def)

declare writeAllContext.simps [simp del]

definition syncParent :: "dbenv \<Rightarrow> string \<Rightarrow> unit io" where
  "syncParent E parent =
     ignore_error (sql_bind (fs_lookup E parent) (\<lambda>_.
       sql_bind (ignore_error (sql_call E)) (\<lambda>_. ignore_error (sql_call E))))"

record file_result =
  fr_path :: string
  fr_sha :: string

definition collision :: "string \<Rightarrow> goerr" where
  "collision p = ErrText (''report '' @ p @ '' already exists with different content'')"

text \<open>From the temporary file to the published one: the body of \<open>Write\<close> under its deferred
  cleanup. The flag of the result says whether the temporary file is already gone.\<close>

definition publish ::
  "(string \<Rightarrow> string) \<Rightarrow> dbenv \<Rightarrow> lockenv \<Rightarrow> string \<Rightarrow> string \<Rightarrow> string \<Rightarrow> file_result \<Rightarrow> (file_result \<times> bool) io" where
  "publish sha E L tempPath p body result =
     sql_bind (attempt (fs_link E tempPath p)) (\<lambda>r.
     case r of
       Inl e \<Rightarrow>
         sql_bind (attempt (existingHash sha E L p)) (\<lambda>inspected.
         case inspected of
           Inl inspectErr \<Rightarrow>
             sql_fail (ErrWrap (''publish report '' @ p @ '', inspect collision'') inspectErr)
         | Inr (Some h) \<Rightarrow>
             if h = fr_sha result then
               sql_bind (sql_wrap (''publish report '' @ p) (ctx_check L)) (\<lambda>_. sql_return (result, False))
             else sql_fail (collision p)
         | Inr None \<Rightarrow> sql_fail (ErrWrap (''publish report '' @ p) e))
     | Inr u \<Rightarrow>
         sql_bind (sql_wrap ''remove published report temporary file'' (fs_remove E tempPath)) (\<lambda>_.
           sql_return (result, True)))"

definition fill_and_publish ::
  "(string \<Rightarrow> string) \<Rightarrow> dbenv \<Rightarrow> lockenv \<Rightarrow> string \<Rightarrow> string \<Rightarrow> string \<Rightarrow> file_result \<Rightarrow> (file_result \<times> bool) io" where
  "fill_and_publish sha E L tempPath p body result =
     sql_bind (sql_wrap (''write report '' @ p) (writeAllContext E L tempPath body)) (\<lambda>_.
     sql_bind (sql_wrap (''sync report '' @ p) (sql_call E)) (\<lambda>_.
     sql_bind (sql_wrap (''write report '' @ p) (ctx_check L)) (\<lambda>_.
     sql_bind (sql_wrap (''chmod report '' @ p) (sql_call E)) (\<lambda>_.
     sql_bind (sql_wrap (''close report '' @ p) (sql_call E)) (\<lambda>_.
     sql_bind (sql_wrap (''write report '' @ p) (ctx_check L)) (\<lambda>_.
     publish sha E L tempPath p body result))))))"

text \<open>The deferred removal of the temporary file unless it was removed already.\<close>

definition with_temp :: "dbenv \<Rightarrow> string \<Rightarrow> string \<Rightarrow> (file_result \<times> bool) io \<Rightarrow> file_result io" where
  "with_temp E parent tempPath m d =
     (case m d of
        (Inr (result, True), d') \<Rightarrow> (Inr result, snd (syncParent E parent d'))
      | (Inr (result, False), d') \<Rightarrow> (Inr result, snd (fs_remove E tempPath d'))
      | (Inl e, d') \<Rightarrow> (Inl e, snd (fs_remove E tempPath d')))"

definition Write ::
  "(string \<Rightarrow> string) \<Rightarrow> dbenv \<Rightarrow> lockenv \<Rightarrow> string \<Rightarrow> string \<Rightarrow> file_result io" where
  "Write sha E L relativePath body =
     (case validateRelativePath relativePath of
        Inl e \<Rightarrow> sql_fail e
      | Inr p \<Rightarrow>
          sql_bind (sql_wrap (''write report '' @ p) (sha256HexContext sha L body)) (\<lambda>h.
          let result = \<lparr>fr_path = p, fr_sha = h\<rparr>
          in sql_bind (sql_wrap (''inspect report '' @ p) (existingHash sha E L p)) (\<lambda>existing.
             case existing of
               Some g \<Rightarrow>
                 sql_bind (sql_wrap (''write report '' @ p) (ctx_check L)) (\<lambda>_.
                   if g = h then sql_return result else sql_fail (collision p))
             | None \<Rightarrow>
                 sql_bind (sql_wrap (''create report parent '' @ Dir p) (createParents E (Dir p))) (\<lambda>_.
                 sql_bind (sql_wrap (''write report '' @ p) (ctx_check L)) (\<lambda>_.
                 sql_bind (sql_wrap ''create report temporary file'' (createTemp E (Dir p))) (\<lambda>tempPath.
                   with_temp E (Dir p) tempPath (fill_and_publish sha E L tempPath p body result)))))))"

section \<open>Removing\<close>

definition Remove :: "dbenv \<Rightarrow> lockenv \<Rightarrow> string \<Rightarrow> unit io" where
  "Remove E L relativePath =
     (case validateRelativePath relativePath of
        Inl e \<Rightarrow> sql_fail e
      | Inr p \<Rightarrow>
          sql_bind (ctx_check L) (\<lambda>_.
          sql_bind (attempt (fs_lookup E p)) (\<lambda>r.
          case r of
            Inl e \<Rightarrow>
              if errors_is e ErrNotExist then sql_return ()
              else sql_fail (ErrWrap ''inspect report for deletion'' e)
          | Inr (NFile c) \<Rightarrow>
              sql_bind (attempt (fs_remove E p)) (\<lambda>r.
              case r of
                Inl e \<Rightarrow>
                  if errors_is e ErrNotExist then syncParent E (Dir p)
                  else sql_fail (ErrWrap ''delete report file'' e)
              | Inr u \<Rightarrow> syncParent E (Dir p))
          | Inr n \<Rightarrow> sql_fail (ErrText ''only regular report files can be deleted''))))"

end
