(* ===== verification/File_Laws.thy ===== *)
theory File_Laws
  imports File_Store
begin

text \<open>
  What the report files of \<open>File_Store\<close> guarantee: paths stay below the root, writing publishes
  the content it was given and never replaces anything, removing takes away one regular file.
\<close>

section \<open>Paths\<close>

lemma dotdot_loop_iff:
  "slash \<notin> set cur \<Longrightarrow> dotdot_loop cur p \<longleftrightarrow> ''..'' \<in> set (split_byte slash (rev cur @ p))"
proof (induction cur p rule: dotdot_loop.induct)
  case (1 cur)
  then show ?case by (simp add: split_byte_single eq_commute)
next
  case (2 cur c cs)
  show ?case
  proof (cases "c = slash")
    case True
    have split: "split_byte slash (rev cur @ slash # cs) = rev cur # split_byte slash cs"
      using "2.prems" by (simp add: split_byte_append)
    show ?thesis
    proof (cases "rev cur = ''..''")
      case yes: True
      then have "dotdot_loop cur (c # cs)" using True by simp
      moreover have "''..'' \<in> set (split_byte slash (rev cur @ c # cs))"
        unfolding True split yes by simp
      ultimately show ?thesis by simp
    next
      case no: False
      then have "dotdot_loop cur (c # cs) = dotdot_loop [] cs" using True by simp
      also have "\<dots> = (''..'' \<in> set (split_byte slash cs))" using "2.IH"(1) [OF True no] by simp
      also have "\<dots> = (''..'' \<in> set (split_byte slash (rev cur @ c # cs)))"
        unfolding True split using no by (metis set_ConsD list.set_intros(2))
      finally show ?thesis .
    qed
  next
    case False
    with 2 show ?thesis by simp
  qed
qed

lemma hasDotDot_iff: "hasDotDotComponent p \<longleftrightarrow> ''..'' \<in> set (components p)"
  by (simp add: hasDotDotComponent_def components_def dotdot_loop_iff)

lemma set_split_byte: "c \<in> set (split_byte b p) \<Longrightarrow> set c \<subseteq> set p"
proof (induction p arbitrary: c)
  case (Cons x xs)
  show ?case
  proof (cases "c \<in> set (split_byte b xs)")
    case True
    then show ?thesis using Cons.IH by fastforce
  next
    case False
    with Cons.prems show ?thesis
      using Cons.IH [of "hd (split_byte b xs)"] by (auto split: if_splits list.splits)
  qed
qed simp

lemma set_str_join_slash: "set (str_join ''/'' xs) \<subseteq> insert slash (\<Union> (set ` set xs))"
  by (induction "''/''" xs rule: str_join.induct) auto

text \<open>A join of plain components is a valid path, and a fixed point of the validation.\<close>

lemma plain_path_validates:
  assumes cs: "cs \<noteq> []" and plain: "list_all plain cs" and nul: "\<And>c. c \<in> set cs \<Longrightarrow> CHR 0x00 \<notin> set c"
    and q: "q = str_join ''/'' cs"
  shows "validateRelativePath q = Inr q \<and> components q = cs"
proof -
  have comps: "components q = cs" using components_join [OF cs plain] q by simp
  have clean: "Clean q = q" using Clean_plain [OF cs plain] q by simp
  have abs: "\<not> IsAbs q" "q \<noteq> []" using join_not_abs [OF cs plain] q by auto
  have dots: "\<not> list_ex (\<lambda>c. c = ''.'' \<or> c = ''..'') (components q)"
    unfolding comps using plain by (auto simp: list_ex_iff list_all_iff plain_def)
  have single: "components ''..'' = [''..'']" "components ''.'' = [''.'']" by (simp_all add: components_def)
  have "hd cs \<noteq> ''..''" using cs plain by (cases cs) (auto simp: plain_def)
  moreover have "hd (components q) = ''..''" if pre: "has_prefix q ''../''"
  proof -
    obtain r where "q = ''..'' @ slash # r" using pre by (auto simp: has_prefix_iff prefix_def)
    then show ?thesis using split_byte_append [of slash "''..''" r] by (simp add: components_def)
  qed
  ultimately have first: "q \<noteq> ''..'' \<and> \<not> has_prefix q ''../''" using comps single by force
  have loc: "IsLocal q" using abs dots first by (simp add: IsLocal_def)
  have no_nul: "CHR 0x00 \<notin> set q" using set_str_join_slash [of cs] nul unfolding q by fastforce
  have lst: "last q \<noteq> slash"
  proof
    assume "last q = slash"
    then obtain r where "q = r @ [slash]" using abs(2) by (metis append_butlast_last_id)
    moreover have "split_byte slash (s @ [slash]) = split_byte slash s @ [[]]" for s
      by (induction s) (auto split: list.splits)
    ultimately have "components q = split_byte slash r @ [[]]" by (simp add: components_def)
    with comps plain show False by (auto simp: plain_def)
  qed
  have "q \<noteq> ''.''" using comps single plain by (auto simp: plain_def)
  then have "validateRelativePath q = Inr q"
    using abs(2) no_nul loc lst clean comps plain
    by (auto simp: validateRelativePath_def hasDotDot_iff Let_def list_all_iff plain_def)
  with comps show ?thesis by simp
qed

lemma validated_path_lemma:
  assumes "validateRelativePath p = Inr q"
  shows "(\<exists>cs. cs \<noteq> [] \<and> list_all plain cs \<and> q = str_join ''/'' cs \<and> components q = cs) \<and>
    validateRelativePath q = Inr q"
proof -
  have p: "p \<noteq> []" "CHR 0x00 \<notin> set p" "''..'' \<notin> set (components p)" "IsLocal p" "q = Clean p" "q \<noteq> ''.''"
    using assms by (auto simp: validateRelativePath_def hasDotDot_iff Let_def split: if_splits)
  then have rel: "\<not> IsAbs p" by (auto simp: IsLocal_def)
  define cs where "cs = filter (\<lambda>c. c \<noteq> [] \<and> c \<noteq> ''.'') (components p)"
  have "foldl (clean_step False) [] (components p) = cs"
    using foldl_clean_filter [of "components p" False "[]"] p(3) by (auto simp: cs_def)
  then have q: "q = str_join ''/'' cs" "cs \<noteq> []"
    using p rel by (auto simp: Clean_def Let_def split: if_splits)
  have plain: "list_all plain cs"
    using p(3) components_no_slash by (auto simp: cs_def list_all_iff plain_def)
  have "CHR 0x00 \<notin> set c" if "c \<in> set cs" for c
    using that p(2) set_split_byte [of c slash p] by (auto simp: cs_def components_def)
  from plain_path_validates [OF q(2) plain this q(1)] q plain show ?thesis by blast
qed

text \<open>
  A validated report path stays below the root: it is a non-empty list of plain components
  (none of them empty, a dot or a double dot) joined by slashes, without a NUL byte, and
  validating it again returns it unchanged.
\<close>

theorem validated_path_is_local:
  assumes "validateRelativePath p = Inr q"
  shows "(\<exists>cs. cs \<noteq> [] \<and> list_all plain cs \<and> q = str_join ''/'' cs \<and> components q = cs) \<and>
    validateRelativePath q = Inr q"
  using assms by (rule validated_path_lemma)

theorem validated_path_is_local_witness:
  "validateRelativePath ''t1//2024/./a.html'' = Inr ''t1/2024/a.html'' \<and>
   validateRelativePath ''t1/2024/a.html'' = Inr ''t1/2024/a.html''"
proof -
  have v: "validateRelativePath ''t1//2024/./a.html'' = Inr ''t1/2024/a.html''" by code_simp
  with validated_path_is_local [OF v] show ?thesis by blast
qed

section \<open>Nothing is replaced\<close>

lemma keeps_attempt [keeps_intros]: "keeps I m \<Longrightarrow> keeps I (attempt m)"
  by (simp add: keeps_def attempt_def)

lemma keeps_ignore [keeps_intros]: "keeps I m \<Longrightarrow> keeps I (ignore_error m)"
  by (simp add: keeps_def ignore_error_def)

lemma keeps_ctx [keeps_intros]: "keeps I (ctx_check L)"
  by (simp add: keeps_def ctx_check_def split: option.splits)

lemma keeps_case_sum [keeps_intros]:
  "(\<And>e. keeps I (f e)) \<Longrightarrow> (\<And>a. keeps I (g a)) \<Longrightarrow> keeps I (case r of Inl e \<Rightarrow> f e | Inr a \<Rightarrow> g a)"
  by (cases r) simp_all

lemma keeps_case_node [keeps_intros]:
  "keeps I a \<Longrightarrow> (\<And>c. keeps I (f c)) \<Longrightarrow> keeps I b \<Longrightarrow>
   keeps I (case n of NDir \<Rightarrow> a | NFile c \<Rightarrow> f c | NOther \<Rightarrow> b)"
  by (cases n) simp_all

lemma keeps_lookup [keeps_intros]: "keeps I (fs_lookup E p)"
  unfolding fs_lookup_def by (rule keeps_stmt) (auto split: sum.splits)

lemma keeps_read_error [keeps_intros]: "keeps I (read_error L e)"
  unfolding read_error_def by (intro keeps_intros)

lemma keeps_sha256_loop: "keeps I (sha256_loop L body)"
proof (induction L body rule: sha256_loop.induct)
  case (1 L body)
  then show ?case by (subst sha256_loop.simps) (auto intro!: keeps_intros)
qed

lemma keeps_read_loop: "keeps I (read_loop E L h l)"
proof (induction E L h l rule: read_loop.induct)
  case (1 E L h l)
  then show ?case by (subst read_loop.simps) (auto intro!: keeps_intros)
qed

lemma keeps_Open [keeps_intros]: "keeps I (Open E p)"
  unfolding Open_def by (intro keeps_intros)

lemma keeps_existingHash [keeps_intros]: "keeps I (existingHash sha E L p)"
  unfolding existingHash_def by (intro keeps_intros keeps_read_loop)

lemma keeps_syncParent [keeps_intros]: "keeps I (syncParent E p)"
  unfolding syncParent_def by (intro keeps_intros)

lemma create_node_extends: "fs0 \<subseteq>\<^sub>m fs \<Longrightarrow> create_node n fs p = Inr (u, fs') \<Longrightarrow> fs0 \<subseteq>\<^sub>m fs' \<and> fs p = None \<and> fs' p = Some n"
  by (auto simp: create_node_def map_le_def dom_def split: option.splits if_splits)

lemma keeps_mkdir [keeps_intros]: "keeps ((\<subseteq>\<^sub>m) fs0) (fs_mkdir E p)"
  unfolding fs_mkdir_def by (rule keeps_stmt) (auto dest: create_node_extends)

lemma keeps_create [keeps_intros]: "keeps ((\<subseteq>\<^sub>m) fs0) (fs_create E p)"
  unfolding fs_create_def by (rule keeps_stmt) (auto dest: create_node_extends)

lemma keeps_create_parents_loop: "keeps ((\<subseteq>\<^sub>m) fs0) (create_parents_loop E cur cs)"
  by (induction E cur cs rule: create_parents_loop.induct) (auto simp: Let_def intro!: keeps_intros)

lemma keeps_createParents [keeps_intros]: "keeps ((\<subseteq>\<^sub>m) fs0) (createParents E p)"
  unfolding createParents_def by (intro keeps_intros keeps_create_parents_loop)

lemma keeps_create_temp_loop: "keeps ((\<subseteq>\<^sub>m) fs0) (create_temp_loop E parent n)"
  by (induction n)
     (auto simp: Let_def intro!: keeps_intros keeps_stmt)

text \<open>A temporary file is new.\<close>

definition fresh_temp :: "dbenv \<Rightarrow> fs \<Rightarrow> string \<Rightarrow> string \<Rightarrow> fs \<Rightarrow> bool" where
  "fresh_temp E fs0 parent p fs \<longleftrightarrow>
     fs0 \<subseteq>\<^sub>m fs \<and> fs0 p = None \<and> fs p = Some (NFile []) \<and> (\<exists>k. p = temp_path parent (uuid_at E k 0))"

lemma attempt_Inr: "attempt m d = (r, d') \<longleftrightarrow> (\<exists>x. m d = (x, d') \<and> r = Inr x)"
  by (cases "m d") (auto simp: attempt_def)

lemma create_temp_fresh:
  "ensures ((\<subseteq>\<^sub>m) fs0) (create_temp_loop E parent n) (fresh_temp E fs0 parent)"
proof (induction n)
  case 0
  show ?case by (simp add: ensures_fail)
next
  case (Suc n)
  show ?case
    unfolding ensures_def
  proof (intro allI impI)
    fix d a d'
    assume d: "fs0 \<subseteq>\<^sub>m rows d" and run: "create_temp_loop E parent (Suc n) d = (Inr a, d')"
    then obtain k d1 where d1: "rows d1 = rows d"
      and rest: "sql_bind (attempt (fs_create E (temp_path parent (uuid_at E k 0)))) (\<lambda>r.
        case r of Inr u \<Rightarrow> sql_return (temp_path parent (uuid_at E k 0))
        | Inl e \<Rightarrow> if \<not> errors_is e ErrExist then sql_fail e else create_temp_loop E parent n) d1 = (Inr a, d')"
    proof -
      from run obtain random d1 where s: "sql_stmt E (\<lambda>k fs. Inr (uuid_at E k 0, fs)) d = (Inr random, d1)"
        and r: "(let p = temp_path parent random
           in sql_bind (attempt (fs_create E p)) (\<lambda>r.
             case r of Inr u \<Rightarrow> sql_return p
             | Inl e \<Rightarrow> if \<not> errors_is e ErrExist then sql_fail e else create_temp_loop E parent n)) d1 = (Inr a, d')"
        unfolding create_temp_loop.simps by (rule sql_bindE)
      from s have "random = uuid_at E (tick d) 0" "rows d1 = rows d" by (auto simp: sql_stmt_Inr)
      with r that [of d1 "tick d"] show ?thesis by (simp add: Let_def)
    qed
    let ?p = "temp_path parent (uuid_at E k 0)"
    obtain x d2 where x: "fs_create E ?p d1 = (x, d2)" by fastforce
    show "fresh_temp E fs0 parent a (rows d')"
    proof (cases x)
      case (Inl e)
      have "fs0 \<subseteq>\<^sub>m rows d2" using keepsD [OF keeps_create, of fs0 d1 E ?p] d d1 x by simp
      moreover have "create_temp_loop E parent n d2 = (Inr a, d')"
        using rest x Inl by (auto simp: sql_bind_def attempt_def split: if_splits)
      ultimately show ?thesis using ensuresD [OF Suc.IH] by blast
    next
      case (Inr u)
      with rest x have a: "a = ?p" "d' = d2" by (auto simp: sql_bind_def attempt_def)
      have c: "create_node (NFile []) (rows d1) ?p = Inr ((), rows d2)"
        using x Inr by (auto simp: fs_create_def sql_stmt_Inr)
      have "fs0 ?p = None"
        using create_node_extends [OF _ c, of fs0] d d1
        by (metis domIff map_le_def)
      with create_node_extends [OF _ c, of fs0] d d1 a show ?thesis by (auto simp: fresh_temp_def)
    qed
  qed
qed

lemma keeps_append:
  "fs0 temp = None \<Longrightarrow> keeps ((\<subseteq>\<^sub>m) fs0) (fs_append E temp bytes)"
  unfolding fs_append_def by (rule keeps_stmt) (auto simp: map_le_def split: option.splits node.splits)

lemma keeps_remove:
  "fs0 temp = None \<Longrightarrow> keeps ((\<subseteq>\<^sub>m) fs0) (fs_remove E temp)"
  unfolding fs_remove_def by (rule keeps_stmt) (auto simp: map_le_def split: option.splits)

lemma keeps_link [keeps_intros]: "keeps ((\<subseteq>\<^sub>m) fs0) (fs_link E a b)"
  unfolding fs_link_def by (rule keeps_stmt) (auto dest: create_node_extends split: option.splits node.splits)

lemma keeps_writeAll:
  "fs0 temp = None \<Longrightarrow> keeps ((\<subseteq>\<^sub>m) fs0) (writeAllContext E L temp body)"
proof (induction E L temp body rule: writeAllContext.induct)
  case (1 E L temp body)
  then show ?case by (subst writeAllContext.simps) (auto intro!: keeps_intros keeps_append)
qed

lemma keeps_case_option_pair [keeps_intros]:
  "keeps I m \<Longrightarrow> (\<And>x. keeps I (f x)) \<Longrightarrow> keeps I (case opt of None \<Rightarrow> m | Some x \<Rightarrow> f x)"
  by (cases opt) simp_all

lemma keeps_fill:
  "fs0 temp = None \<Longrightarrow> keeps ((\<subseteq>\<^sub>m) fs0) (fill_and_publish sha E L temp p body result)"
  unfolding fill_and_publish_def publish_def
  by (intro keeps_intros keeps_writeAll keeps_remove)

lemma with_temp_extends:
  assumes "fresh_temp E fs0 parent temp (rows d)"
  shows "fs0 \<subseteq>\<^sub>m rows (snd (with_temp E (Dir p) temp (fill_and_publish sha E L temp p body result) d))"
proof -
  have none: "fs0 temp = None" and le: "fs0 \<subseteq>\<^sub>m rows d" using assms by (auto simp: fresh_temp_def)
  let ?r = "fill_and_publish sha E L temp p body result d"
  have "keeps ((\<subseteq>\<^sub>m) fs0) (fill_and_publish sha E L temp p body result)" using none by (rule keeps_fill)
  then have f: "fs0 \<subseteq>\<^sub>m rows (snd ?r)" using le unfolding keeps_def by blast
  have "keeps ((\<subseteq>\<^sub>m) fs0) (fs_remove E temp)" using none by (rule keeps_remove)
  then have "fs0 \<subseteq>\<^sub>m rows (snd (fs_remove E temp (snd ?r)))" using f unfolding keeps_def by blast
  moreover have "keeps ((\<subseteq>\<^sub>m) fs0) (syncParent E (Dir p))" by (rule keeps_syncParent)
  then have "fs0 \<subseteq>\<^sub>m rows (snd (syncParent E (Dir p) (snd ?r)))" using f unfolding keeps_def by blast
  ultimately show ?thesis
    by (auto simp: with_temp_def split: prod.splits sum.splits bool.splits)
qed

text \<open>
  C28: Writing a report never replaces or removes anything: every file and directory that was there
  is still there with the same content, whatever the outcome, with every call allowed to fail and
  the context allowed to end at any point.
\<close>

theorem Write_replaces_nothing:
  "rows d \<subseteq>\<^sub>m rows (snd (Write sha E L relativePath body d))"
proof (cases "validateRelativePath relativePath")
  case (Inl e)
  then show ?thesis by (simp add: Write_def)
next
  case (Inr p)
  have sha_keeps: "keeps ((\<subseteq>\<^sub>m) (rows d)) (sha256HexContext sha L body)"
    unfolding sha256HexContext_def by (intro keeps_intros keeps_sha256_loop)
  have tail: "keeps ((\<subseteq>\<^sub>m) (rows d))
      (sql_bind (sql_wrap ''create report temporary file'' (createTemp E (Dir p))) (\<lambda>tempPath.
         with_temp E (Dir p) tempPath (fill_and_publish sha E L tempPath p body result)))" for result
    unfolding createTemp_def
    by (rule keeps_bind_ensures [OF keeps_wrap [OF keeps_create_temp_loop] ensures_wrap [OF create_temp_fresh]])
       (rule with_temp_extends)
  have "keeps ((\<subseteq>\<^sub>m) (rows d)) (Write sha E L relativePath body)"
    unfolding Write_def Inr sum.case Let_def
    by (intro keeps_intros sha_keeps tail)
  then show ?thesis by (rule keepsD) simp
qed

section \<open>What is published\<close>

lemma ensures_ctx: "(\<And>t. P t \<Longrightarrow> Q () t) \<Longrightarrow> ensures P (ctx_check L) Q"
  by (auto simp: ensures_def ctx_check_def split: option.splits)

lemma ensures_attempt:
  fixes m :: "'a io"
  assumes k: "keeps P m" and e: "ensures P m R"
  shows "ensures P (attempt m) (\<lambda>r t. case r of Inl e \<Rightarrow> P t | Inr a \<Rightarrow> R a t)"
  unfolding ensures_def
proof (intro allI impI)
  fix d :: "fs db" and a d'
  assume d: "P (rows d)" and run: "attempt m d = (Inr a, d')"
  then have m: "m d = (a, d')" by (cases "m d") (simp add: attempt_def)
  then have "P (rows d')" using k d unfolding keeps_def by (metis snd_conv)
  moreover have "R x (rows d')" if "a = Inr x" for x using e d m that unfolding ensures_def by blast
  ultimately show "case a of Inl e \<Rightarrow> P (rows d') | Inr a \<Rightarrow> R a (rows d')"
    by (cases a) auto
qed

lemma ensures_read_error: "ensures P (read_error L e) Q"
  unfolding read_error_def by (rule ensures_bind [OF ensures_ctx [where Q = "\<lambda>u t. True"]]) (simp_all add: ensures_fail)

lemma ensures_read_loop: "ensures P (read_loop E L h l) (\<lambda>r t. P t \<and> r = h @ l)"
proof (induction E L h l rule: read_loop.induct)
  case (1 E L h l)
  have step: "ensures P (attempt (sql_call E)) (\<lambda>r. P)"
    by (rule ensures_weaken [OF ensures_attempt [OF keeps_call ensures_call [where Q = "\<lambda>u. P"]]])
       (auto split: sum.splits)
  have "ensures P (if l = [] then sql_return h
      else read_loop E L (h @ take fileChunkSize l) (drop fileChunkSize l)) (\<lambda>r t. P t \<and> r = h @ l)"
    using "1.IH" by (auto intro!: ensures_if ensures_return)
  then show ?case
    by (subst read_loop.simps)
       (rule ensures_bind [OF ensures_ctx [where Q = "\<lambda>u. P"]], assumption,
        rule ensures_bind [OF step], auto split: sum.splits intro: ensures_read_error)
qed

text \<open>A path that \<open>validateRelativePath\<close> returned.\<close>

definition valid_path :: "string \<Rightarrow> bool" where
  "valid_path p \<longleftrightarrow> validateRelativePath p = Inr p \<and> p \<noteq> ''.''"

lemma validated_valid:
  assumes "validateRelativePath p = Inr q"
  shows "valid_path q"
  using assms validated_path_lemma [OF assms]
  by (auto simp: valid_path_def validateRelativePath_def Let_def split: if_splits)

lemma ensures_lookup:
  "p \<noteq> ''.'' \<Longrightarrow> ensures P (fs_lookup E p) (\<lambda>n t. P t \<and> t p = Some n)"
  unfolding fs_lookup_def
  by (rule ensures_stmt) (auto simp: lookup_node_def split: sum.splits option.splits if_splits node.splits)

lemma ensures_Open:
  assumes "valid_path p"
  shows "ensures P (Open E p) (\<lambda>c t. P t \<and> t p = Some (NFile c))"
proof -
  have dot: "p \<noteq> ''.''" and v: "validateRelativePath p = Inr p" using assms by (auto simp: valid_path_def)
  show ?thesis
    unfolding Open_def v sum.case
    by (rule ensures_bind [OF ensures_wrap [OF ensures_lookup [OF dot]]],
        rule ensures_bind [OF ensures_wrap [OF ensures_call]], assumption)
       (auto intro!: ensures_return ensures_fail split: node.splits)
qed

definition hash_at :: "(string \<Rightarrow> string) \<Rightarrow> string \<Rightarrow> string option \<Rightarrow> fs \<Rightarrow> bool" where
  "hash_at sha p r t \<longleftrightarrow> (case r of None \<Rightarrow> True | Some h \<Rightarrow> \<exists>c. t p = Some (NFile c) \<and> h = sha c)"

lemma ensures_existingHash:
  assumes "valid_path p"
  shows "ensures P (existingHash sha E L p) (\<lambda>r t. P t \<and> hash_at sha p r t)"
  unfolding existingHash_def
proof (rule ensures_bind [OF ensures_ctx [where Q = "\<lambda>u. P"]], assumption,
       rule ensures_bind [OF ensures_attempt [OF keeps_Open ensures_Open [OF assms]]])
  fix u :: unit and r :: "string res"
  show "ensures (\<lambda>t. case r of Inl e \<Rightarrow> P t | Inr c \<Rightarrow> P t \<and> t p = Some (NFile c))
     (case r of Inl e \<Rightarrow> if errors_is e ErrNotExist then sql_bind (ctx_check L) (\<lambda>_. sql_return None) else read_error L e
      | Inr content \<Rightarrow> sql_bind (read_loop E L [] content) (\<lambda>hashed.
          sql_bind (ctx_check L) (\<lambda>_. sql_return (Some (sha hashed)))))
     (\<lambda>r t. P t \<and> hash_at sha p r t)"
  proof (cases r)
    case (Inl e)
    have "ensures P (sql_bind (ctx_check L) (\<lambda>_. sql_return None)) (\<lambda>r t. P t \<and> hash_at sha p r t)"
      by (rule ensures_bind [OF ensures_ctx [where Q = "\<lambda>u. P"]]) (auto intro!: ensures_return simp: hash_at_def)
    then show ?thesis using Inl by (auto intro: ensures_read_error)
  next
    case (Inr c)
    have "ensures (\<lambda>t. P t \<and> t p = Some (NFile c))
      (sql_bind (read_loop E L [] c) (\<lambda>hashed. sql_bind (ctx_check L) (\<lambda>_. sql_return (Some (sha hashed)))))
      (\<lambda>r t. P t \<and> hash_at sha p r t)"
    proof (rule ensures_bind [OF ensures_read_loop])
      fix a
      show "ensures (\<lambda>t. (P t \<and> t p = Some (NFile c)) \<and> a = [] @ c)
        (sql_bind (ctx_check L) (\<lambda>_. sql_return (Some (sha a)))) (\<lambda>r t. P t \<and> hash_at sha p r t)"
        by (rule ensures_bind [OF ensures_ctx [where Q = "\<lambda>u t. P t \<and> t p = Some (NFile c) \<and> a = c"]])
           (auto intro!: ensures_return simp: hash_at_def)
    qed
    then show ?thesis using Inr by simp
  qed
qed

text \<open>Writing appends to the temporary file; publishing puts the content at the path or finds it
  there.\<close>

definition has_content :: "string \<Rightarrow> string \<Rightarrow> fs \<Rightarrow> bool" where
  "has_content p c t \<longleftrightarrow> t p = Some (NFile c)"

lemma ensures_append:
  "ensures (has_content temp c) (fs_append E temp bytes) (\<lambda>u. has_content temp (c @ bytes))"
  unfolding fs_append_def by (rule ensures_stmt) (auto simp: has_content_def)

lemma ensures_writeAll:
  "ensures (has_content temp c) (writeAllContext E L temp body) (\<lambda>u. has_content temp (c @ body))"
proof (induction E L temp body arbitrary: c rule: writeAllContext.induct)
  case (1 E L temp body)
  show ?case
  proof (cases "body = []")
    case True
    then show ?thesis by (subst writeAllContext.simps) (auto intro!: ensures_ctx)
  next
    case False
    have "ensures (has_content temp (c @ take fileChunkSize body))
        (writeAllContext E L temp (drop fileChunkSize body)) (\<lambda>u. has_content temp (c @ body))"
      using "1.IH" [OF False, of "c @ take fileChunkSize body"] by simp
    then show ?thesis
      using False
      by (subst writeAllContext.simps)
         (auto intro!: ensures_bind [OF ensures_ctx [where Q = "\<lambda>u. has_content temp c"]] ensures_bind [OF ensures_append])
  qed
qed

text \<open>What a successful write leaves at the path.\<close>

definition published :: "(string \<Rightarrow> string) \<Rightarrow> string \<Rightarrow> string \<Rightarrow> fs \<Rightarrow> bool" where
  "published sha p body t \<longleftrightarrow> (\<exists>c. t p = Some (NFile c) \<and> sha c = sha body)"

lemma ensures_link:
  "p \<noteq> temp \<Longrightarrow> ensures (has_content temp body) (fs_link E temp p) (\<lambda>u t. published sha p body t)"
  unfolding fs_link_def
  by (rule ensures_stmt) (auto simp: has_content_def published_def create_node_def split: option.splits if_splits)

lemma keeps_published_remove: "p \<noteq> temp \<Longrightarrow> keeps (published sha p body) (fs_remove E temp)"
  unfolding fs_remove_def by (rule keeps_stmt) (auto simp: published_def split: option.splits)

lemma ensures_published_remove:
  "p \<noteq> temp \<Longrightarrow> ensures (published sha p body) (fs_remove E temp) (\<lambda>u. published sha p body)"
  unfolding fs_remove_def by (rule ensures_stmt) (auto simp: published_def split: option.splits)

lemma keeps_content_link: "keeps (has_content temp body) (fs_link E temp p)"
  unfolding fs_link_def
  by (rule keeps_stmt) (auto simp: has_content_def create_node_def split: option.splits if_splits)

lemma ensures_publish:
  assumes p: "valid_path p" "p \<noteq> temp" and h: "fr_sha result = sha body"
  shows "ensures (has_content temp body) (publish sha E L temp p body result)
    (\<lambda>(r, gone) t. r = result \<and> published sha p body t)"
  unfolding publish_def
proof (rule ensures_bind [OF ensures_attempt [OF keeps_content_link ensures_link [OF p(2), where sha = sha]]])
  fix a :: "unit res"
  let ?Q = "\<lambda>(r, gone) t. r = result \<and> published sha p body t"
  show "ensures (\<lambda>t. case a of Inl e \<Rightarrow> has_content temp body t | Inr u \<Rightarrow> published sha p body t)
    (case a of
       Inl e \<Rightarrow>
         sql_bind (attempt (existingHash sha E L p)) (\<lambda>inspected.
         case inspected of
           Inl inspectErr \<Rightarrow>
             sql_fail (ErrWrap (''publish report '' @ p @ '', inspect collision'') inspectErr)
         | Inr (Some h) \<Rightarrow>
             if h = fr_sha result then
               sql_bind (sql_wrap (''publish report '' @ p) (ctx_check L)) (\<lambda>_. sql_return (result, False))
             else sql_fail (collision p)
         | Inr None \<Rightarrow> sql_fail (ErrWrap (''publish report '' @ p) e))
     | Inr u \<Rightarrow>
         sql_bind (sql_wrap ''remove published report temporary file'' (fs_remove E temp)) (\<lambda>_.
           sql_return (result, True))) ?Q"
  proof (cases a)
    case (Inr u)
    have "ensures (published sha p body)
        (sql_bind (sql_wrap ''remove published report temporary file'' (fs_remove E temp)) (\<lambda>_.
           sql_return (result, True))) ?Q"
      by (rule ensures_bind [OF ensures_wrap [OF ensures_published_remove [OF p(2)]]])
         (auto intro: ensures_return)
    then show ?thesis using Inr by simp
  next
    case (Inl e)
    have hit: "ensures (\<lambda>t. hash_at sha p (Some (sha body)) t)
        (sql_bind (sql_wrap (''publish report '' @ p) (ctx_check L)) (\<lambda>_. sql_return (result, False))) ?Q"
      by (rule ensures_bind [OF ensures_wrap [OF ensures_ctx [where Q = "\<lambda>u. published sha p body"]]])
         (auto simp: hash_at_def published_def intro: ensures_return)
    show ?thesis
      unfolding Inl sum.case
    proof (rule ensures_bind [OF ensures_attempt [OF keeps_existingHash ensures_existingHash [OF p(1)]]], goal_cases)
      case (1 r)
      show ?case
      proof (cases r)
        case (Inl err)
        then show ?thesis unfolding Inl sum.case by (intro ensures_fail)
      next
        case (Inr x)
        show ?thesis
        proof (cases x)
          case None
          show ?thesis unfolding Inr None sum.case option.case by (rule ensures_fail)
        next
          case (Some g)
          show ?thesis
            unfolding Inr Some sum.case option.case
            using h by (intro ensures_if ensures_fail ensures_pre [OF hit]) auto
        qed
      qed
    qed
  qed
qed

lemma ensures_fill:
  assumes "valid_path p" "p \<noteq> temp" "fr_sha result = sha body"
  shows "ensures (has_content temp []) (fill_and_publish sha E L temp p body result)
    (\<lambda>(r, gone) t. r = result \<and> published sha p body t)"
  unfolding fill_and_publish_def
  using ensures_writeAll [of temp "[]" E L body] assms
  by (auto intro!: ensures_bind [OF ensures_wrap]
      ensures_bind [OF ensures_wrap [OF ensures_call [where Q = "\<lambda>u. has_content temp body"]]]
      ensures_bind [OF ensures_wrap [OF ensures_ctx [where Q = "\<lambda>u. has_content temp body"]]]
      ensures_publish)

lemma ensures_with_temp:
  assumes m: "ensures P m (\<lambda>(r, gone) t. r = result \<and> published sha p body t)" and p: "p \<noteq> temp"
  shows "ensures P (with_temp E parent temp m) (\<lambda>r t. r = result \<and> published sha p body t)"
  unfolding ensures_def
proof (intro allI impI)
  fix d :: "fs db" and a d'
  assume d: "P (rows d)" and run: "with_temp E parent temp m d = (Inr a, d')"
  then obtain gone d1 where m1: "m d = (Inr (a, gone), d1)"
    and d': "d' = (if gone then snd (syncParent E parent d1) else snd (fs_remove E temp d1))"
    by (auto simp: with_temp_def split: prod.splits sum.splits bool.splits)
  have "case (a, gone) of (r, gone) \<Rightarrow> r = result \<and> published sha p body (rows d1)"
    using m d m1 unfolding ensures_def by blast
  then have r: "a = result" "published sha p body (rows d1)" by auto
  have "keeps (published sha p body) (syncParent E parent)" by (rule keeps_syncParent)
  moreover have "keeps (published sha p body) (fs_remove E temp)" using p by (rule keeps_published_remove)
  ultimately show "a = result \<and> published sha p body (rows d')"
    using r d' unfolding keeps_def by auto
qed

lemma ensures_True: "ensures P m (\<lambda>a t. True)"
  by (simp add: ensures_def)

lemma ensures_sha: "ensures P (sha256HexContext sha L body) (\<lambda>h t. h = sha body)"
  unfolding sha256HexContext_def
  by (rule ensures_bind [OF ensures_True]) (rule ensures_return, simp)

lemma ensures_createTemp:
  assumes "\<And>k. temp_path parent (uuid_at E k 0) \<noteq> p"
  shows "ensures (\<lambda>t. True) (createTemp E parent) (\<lambda>temp t. p \<noteq> temp \<and> has_content temp [] t)"
proof -
  have "ensures ((\<subseteq>\<^sub>m) Map.empty) (createTemp E parent) (fresh_temp E Map.empty parent)"
    unfolding createTemp_def by (rule create_temp_fresh)
  then have "ensures ((\<subseteq>\<^sub>m) Map.empty) (createTemp E parent) (\<lambda>temp t. p \<noteq> temp \<and> has_content temp [] t)"
    by (rule ensures_weaken) (use assms in \<open>auto simp: fresh_temp_def has_content_def\<close>)
  then show ?thesis by (rule ensures_pre) simp
qed

lemma ensures_Write:
  assumes p: "valid_path p" and v: "validateRelativePath relativePath = Inr p"
    and temps: "\<And>k. temp_path (Dir p) (uuid_at E k 0) \<noteq> p"
  shows "ensures (\<lambda>t. True) (Write sha E L relativePath body)
    (\<lambda>r t. r = \<lparr>fr_path = p, fr_sha = sha body\<rparr> \<and> published sha p body t)"
  unfolding Write_def v sum.case Let_def
proof (rule ensures_bind [OF ensures_wrap [OF ensures_sha]],
       rule ensures_bind [OF ensures_wrap [OF ensures_existingHash [OF p]]], goal_cases)
  case (1 h existing)
  show ?case
  proof (cases existing)
    case None
    have tail: "ensures (\<lambda>t. p \<noteq> temp \<and> has_content temp [] t)
        (with_temp E (Dir p) temp (fill_and_publish sha E L temp p body \<lparr>fr_path = p, fr_sha = h\<rparr>))
        (\<lambda>r t. r = \<lparr>fr_path = p, fr_sha = sha body\<rparr> \<and> published sha p body t)"
      if "h = sha body" for temp
    proof (cases "p = temp")
      case False
      have "ensures (has_content temp [])
          (fill_and_publish sha E L temp p body \<lparr>fr_path = p, fr_sha = h\<rparr>)
          (\<lambda>(r, gone) t. r = \<lparr>fr_path = p, fr_sha = sha body\<rparr> \<and> published sha p body t)"
        using ensures_fill [of p temp "\<lparr>fr_path = p, fr_sha = h\<rparr>" sha body E L] p False that by simp
      from ensures_with_temp [OF this False] show ?thesis by (rule ensures_pre) simp
    qed (simp add: ensures_def)
    show ?thesis
      unfolding None option.case
      using tail
      by (cases "h = sha body")
         (auto simp: ensures_def [where P = "\<lambda>t. False"] intro!: ensures_bind [OF ensures_True]
           ensures_bind [OF ensures_wrap [OF ensures_createTemp [OF temps]]])
  next
    case (Some g)
    show ?thesis
      unfolding Some option.case
      by (rule ensures_bind [OF ensures_wrap [OF ensures_ctx [where Q = "\<lambda>u t. h = sha body \<and> hash_at sha p (Some g) t"]]])
         (auto simp: hash_at_def published_def intro!: ensures_if ensures_return ensures_fail)
  qed
qed

text \<open>
  C27: A successful write returns the cleaned path and the digest of the content, and the file at
  that path then has a content with this digest (the one written, or one that was there before with
  the same digest). No random temporary name may be the path itself.
\<close>

theorem Write_publishes:
  assumes v: "validateRelativePath relativePath = Inr p"
    and temps: "\<forall>k. temp_path (Dir p) (uuid_at E k 0) \<noteq> p"
    and run: "Write sha E L relativePath body d = (Inr r, d')"
  shows "r = \<lparr>fr_path = p, fr_sha = sha body\<rparr> \<and> (\<exists>c. rows d' p = Some (NFile c) \<and> sha c = sha body)"
proof -
  have "ensures (\<lambda>t. True) (Write sha E L relativePath body)
      (\<lambda>r t. r = \<lparr>fr_path = p, fr_sha = sha body\<rparr> \<and> published sha p body t)"
    using temps by (intro ensures_Write validated_valid [OF v] v) blast
  then show ?thesis using run unfolding ensures_def published_def by blast
qed

definition file_env :: dbenv where
  "file_env = \<lparr>fault = (\<lambda>n. None), clock_at = int, uuid_at = (\<lambda>n i. ''r''), db_set = True\<rparr>"

definition file_lock :: lockenv where
  "file_lock = \<lparr>ctx_err = (\<lambda>n. None), lock_free = (\<lambda>n. True)\<rparr>"

theorem Write_publishes_witness:
  "\<exists>r d'. Write id file_env file_lock ''t/./a'' [] \<lparr>rows = Map.empty, tick = 0\<rparr> = (Inr r, d') \<and>
     fr_path r = ''t/a'' \<and> rows d' ''t/a'' = Some (NFile [])"
proof -
  let ?w = "Write id file_env file_lock ''t/./a'' [] \<lparr>rows = Map.empty, tick = 0\<rparr>"
  have v: "validateRelativePath ''t/./a'' = Inr ''t/a''" by code_simp
  have t: "\<forall>k. temp_path (Dir ''t/a'') (uuid_at file_env k 0) \<noteq> ''t/a''"
    by (simp add: file_env_def) code_simp
  have "isl (fst ?w) = False" by code_simp
  then obtain r where "fst ?w = Inr r" by (cases "fst ?w") auto
  then have w: "?w = (Inr r, snd ?w)" by (metis prod.collapse)
  have p: "fr_path r = ''t/a''" "rows (snd ?w) ''t/a'' = Some (NFile [])"
    using Write_publishes [OF v t w] by auto
  show ?thesis by (intro exI conjI, rule w, rule p(1), rule p(2))
qed

section \<open>Removing\<close>

text \<open>The faults of the environment are failures of the system, not missing files.\<close>

definition real_faults :: "dbenv \<Rightarrow> bool" where
  "real_faults E \<longleftrightarrow> (\<forall>k e. fault E k = Some e \<longrightarrow> \<not> errors_is e ErrNotExist)"

lemma fs_lookup_rows: "fs_lookup E p d = (x, d1) \<Longrightarrow> rows d1 = rows d"
  by (auto simp: fs_lookup_def sql_stmt_def split: option.splits sum.splits)

lemma syncParent_rows: "syncParent E p d = (x, d1) \<Longrightarrow> rows d1 = rows d \<and> x = Inr ()"
proof -
  assume run: "syncParent E p d = (x, d1)"
  have "keeps (\<lambda>t. t = rows d) (syncParent E p)" by (rule keeps_syncParent)
  then have "rows (snd (syncParent E p d)) = rows d" unfolding keeps_def by blast
  moreover have "fst (syncParent E p d) = Inr ()" by (simp add: syncParent_def ignore_error_def)
  ultimately show ?thesis using run by simp
qed

lemma lookup_missing:
  "real_faults E \<Longrightarrow> fs_lookup E p d = (Inl e, d1) \<Longrightarrow> errors_is e ErrNotExist \<Longrightarrow> rows d p = None"
  by (auto simp: fs_lookup_def sql_stmt_def lookup_node_def real_faults_def
      split: option.splits sum.splits if_splits node.splits)

text \<open>
  Removing a report touches no other path, takes away nothing but a regular file, and when it
  returns without an error there is nothing at the path any more.
\<close>

theorem Remove_exact:
  assumes v: "validateRelativePath relativePath = Inr p" and F: "real_faults E"
    and run: "Remove E L relativePath d = (r, d')"
  shows "(\<forall>q. q \<noteq> p \<longrightarrow> rows d' q = rows d q) \<and>
    (rows d' p = rows d p \<or> (\<exists>c. rows d p = Some (NFile c)) \<and> rows d' p = None) \<and>
    (r = Inr () \<longrightarrow> rows d' p = None)"
proof -
  have dot: "p \<noteq> ''.''" using validated_valid [OF v] by (simp add: valid_path_def)
  obtain x d1 where l: "fs_lookup E p d = (x, d1)" by fastforce
  have d1: "rows d1 = rows d" using fs_lookup_rows [OF l] .
  show ?thesis
  proof (cases "ctx_err L (tick d)")
    case (Some e)
    then show ?thesis using run v by (auto simp: Remove_def sql_bind_def ctx_check_def)
  next
    case None
    show ?thesis
    proof (cases x)
      case (Inl e)
      then have "errors_is e ErrNotExist \<Longrightarrow> rows d p = None" using lookup_missing [OF F] l by blast
      then show ?thesis using run v None l d1 Inl
        by (auto simp: Remove_def sql_bind_def ctx_check_def attempt_def split: if_splits)
    next
      case (Inr n)
      have n: "rows d p = Some n" using ensures_lookup [OF dot, of "\<lambda>t. True"] l Inr d1 unfolding ensures_def by fastforce
      show ?thesis
      proof (cases "\<exists>c. n = NFile c")
        case False
        then show ?thesis using run v None l d1 Inr
          by (cases n) (auto simp: Remove_def sql_bind_def ctx_check_def attempt_def)
      next
        case True
        obtain y d2 where m: "fs_remove E p d1 = (y, d2)" by fastforce
        have removed: "y = Inr () \<and> rows d2 = (rows d)(p := None) \<or>
            (\<exists>e. y = Inl e \<and> rows d2 = rows d \<and> \<not> errors_is e ErrNotExist)"
          using m n d1 F by (auto simp: fs_remove_def sql_stmt_def real_faults_def split: option.splits)
        have "rows d' = rows d2 \<and> (r = Inr () \<longrightarrow> y = Inr ())"
          using run v None l Inr True m removed syncParent_rows
          by (auto simp: Remove_def sql_bind_def ctx_check_def attempt_def split: if_splits dest!: syncParent_rows)
        with removed n True show ?thesis by auto
      qed
    qed
  qed
qed

theorem Remove_exact_witness:
  "rows (snd (Remove file_env file_lock ''a'' \<lparr>rows = [''a'' \<mapsto> NFile ''x'', ''b'' \<mapsto> NFile ''y''], tick = 0\<rparr>)) ''b''
     = Some (NFile ''y'')"
proof -
  let ?d = "\<lparr>rows = [''a'' \<mapsto> NFile ''x'', ''b'' \<mapsto> NFile ''y''], tick = 0\<rparr> :: fs db"
  have v: "validateRelativePath ''a'' = Inr ''a''" by code_simp
  have F: "real_faults file_env" by (simp add: real_faults_def file_env_def)
  have "\<forall>q. q \<noteq> ''a'' \<longrightarrow> rows (snd (Remove file_env file_lock ''a'' ?d)) q = rows ?d q"
    using Remove_exact [OF v F, of file_lock ?d] by (metis prod.collapse)
  then have "rows (snd (Remove file_env file_lock ''a'' ?d)) ''b'' = rows ?d ''b''" by simp
  then show ?thesis by simp
qed

end
