(* ===== verification/Pg_Collector.thy ===== *)
theory Pg_Collector
  imports Digest_Window
begin

text \<open>
  internal/app/postgres_collector.go and \<open>refreshFilterMatches\<close> of internal/app/postgres_web.go: the
  daily call budget, storing notices and their revisions, the active notices and enabled filters,
  and the matches, written under the revision of the filter they were computed for. A hash column
  is its hexadecimal text. The text environment holds what is outside the code: NFC, case folding,
  SHA-256, and \<open>te_enc\<close>, the notice that \<open>json.Marshal\<close> and the jsonb payload column give back on
  reading (\<open>None\<close> for a notice that cannot be encoded).
\<close>

record text_env =
  te_nfc :: "string \<Rightarrow> string"
  te_fold :: "string \<Rightarrow> string"
  te_sha :: "string \<Rightarrow> string"
  te_enc :: "notice \<Rightarrow> notice option"

section \<open>The daily call budget\<close>

definition ErrDailyAPICallBudget :: string where
  "ErrDailyAPICallBudget = ''daily '' @
     [CHR 0xEB, CHR 0x82, CHR 0x98, CHR 0xEB, CHR 0x9D, CHR 0xBC, CHR 0xEC, CHR 0x9E, CHR 0xA5,
      CHR 0xED, CHR 0x84, CHR 0xB0] @ '' API call budget exhausted''"

definition defaultDailyAPICallLimit :: int where "defaultDailyAPICallLimit = 900"

definition usage_day :: "time \<Rightarrow> string" where
  "usage_day now = format_date ''-'' kst_offset now"

definition usage_of :: "string \<Rightarrow> schema \<Rightarrow> int option" where
  "usage_of day t = map_of (api_usage t) day"

text \<open>The upsert with the check of the table that a day has at most 1000 calls.\<close>

definition count_call :: "string \<Rightarrow> int \<Rightarrow> schema \<Rightarrow> goerr + int option \<times> schema" where
  "count_call day limit t =
     (case usage_of day t of
        None \<Rightarrow> Inr (Some 1, t\<lparr>api_usage := (day, 1) # api_usage t\<rparr>)
      | Some calls \<Rightarrow>
          if \<not> calls < limit then Inr (None, t)
          else if 1000 < calls + 1 then Inl (ErrText ''api_daily_usage_calls_check'')
          else Inr (Some (calls + 1), t\<lparr>api_usage := map (\<lambda>(d, c). if d = day then (d, c + 1) else (d, c)) (api_usage t)\<rparr>))"

definition budget_limit :: "int \<Rightarrow> int" where
  "budget_limit configured = (if configured \<le> 0 then defaultDailyAPICallLimit else configured)"

definition Take :: "dbenv \<Rightarrow> int \<Rightarrow> time \<Rightarrow> (schema, unit) sql" where
  "Take E configured now =
     (if \<not> db_set E then sql_fail (ErrText ''daily API call budget database is required'')
      else sql_bind (sql_wrap ''consume daily API call budget''
             (sql_stmt E (\<lambda>n. count_call (usage_day now) (budget_limit configured)))) (\<lambda>calls.
           case calls of None \<Rightarrow> sql_fail (Sentinel ErrDailyAPICallBudget) | Some c \<Rightarrow> sql_return ()))"

section \<open>Notices\<close>

definition hex_hash :: "string \<Rightarrow> bool" where
  "hex_hash h \<longleftrightarrow> length h = 64 \<and>
     list_all (\<lambda>c. (48 \<le> byte c \<and> byte c \<le> 57) \<or> (97 \<le> byte c \<and> byte c \<le> 102) \<or> (65 \<le> byte c \<and> byte c \<le> 70)) h"

definition validation_error :: "string \<Rightarrow> goerr" where
  "validation_error field = ErrText (''missing required notice field: '' @ field)"

definition noticeHashes :: "text_env \<Rightarrow> notice \<Rightarrow> goerr + string \<times> string" where
  "noticeHashes T n =
     (case ValidateSource (te_nfc T) n of
        Some field \<Rightarrow> Inl (validation_error field)
      | None \<Rightarrow>
          if \<not> hex_hash (Identity (te_nfc T) (te_sha T) n) then Inl (ErrText ''invalid notice identity hash'')
          else if \<not> hex_hash (Revision (te_nfc T) (te_sha T) n) then Inl (ErrText ''invalid notice revision hash'')
          else Inr (Identity (te_nfc T) (te_sha T) n, Revision (te_nfc T) (te_sha T) n))"

definition nullableTime :: "time \<Rightarrow> time option" where
  "nullableTime v = (if is_zero v then None else Some v)"

record stored_notice =
  sn_id :: string
  sn_changed :: bool
  sn_region :: string
  sn_complete :: bool

text \<open>\<open>mergeStoredRegion\<close>: the stored payload is \<open>None\<close> when it does not decode.\<close>

definition mergeStoredRegion ::
  "text_env \<Rightarrow> notice \<Rightarrow> notice option \<Rightarrow> bool \<Rightarrow> goerr + notice \<times> bool" where
  "mergeStoredRegion T n payload lookupComplete =
     (if n_region n \<noteq> [] then Inr (n, True)
      else case payload of
        None \<Rightarrow> Inl (ErrText ''decode stored notice for region preservation'')
      | Some stored \<Rightarrow>
          if Identity (te_nfc T) (te_sha T) stored \<noteq> Identity (te_nfc T) (te_sha T) n
          then Inl (ErrText ''stored notice identity does not match incoming notice'')
          else let candidate = n\<lparr>n_region := n_region stored\<rparr>
               in if Revision (te_nfc T) (te_sha T) candidate = Revision (te_nfc T) (te_sha T) stored
                  then Inr (candidate, lookupComplete) else Inr (n, False))"

definition encode_notice :: "string \<Rightarrow> text_env \<Rightarrow> notice \<Rightarrow> goerr + notice" where
  "encode_notice msg T n = (case te_enc T n of None \<Rightarrow> Inl (ErrText msg) | Some p \<Rightarrow> Inr p)"

definition insert_notice ::
  "dbenv \<Rightarrow> time \<Rightarrow> string \<Rightarrow> string \<Rightarrow> notice \<Rightarrow> notice \<Rightarrow> bool \<Rightarrow> nat \<Rightarrow> schema \<Rightarrow> goerr + string \<times> schema" where
  "insert_notice E now identity revision n payload complete k t =
     (if list_ex (\<lambda>r. nr_identity r = identity) (notices t) then Inl (ErrText ''notices_identity_hash_key'')
      else Inr (uuid_at E k 0, t\<lparr>notices := notices t @
        [\<lparr>nr_id = uuid_at E k 0, nr_identity = identity, nr_revision = revision, nr_source = n_bid_number n,
          nr_title = n_title n, nr_published = nullableTime (z_inst (n_posted_at n)),
          nr_deadline = nullableTime (z_inst (n_deadline n)), nr_payload = Some payload,
          nr_legacy_url = None, nr_collected = now, nr_region_complete = complete\<rparr>]\<rparr>))"

definition touch_notice :: "time \<Rightarrow> string \<Rightarrow> schema \<Rightarrow> schema" where
  "touch_notice now i t =
     t\<lparr>notices := update_where (\<lambda>r. nr_id r = i) (\<lambda>r. r\<lparr>nr_collected := now\<rparr>) (notices t)\<rparr>"

definition revise_notice ::
  "time \<Rightarrow> string \<Rightarrow> string \<Rightarrow> notice \<Rightarrow> notice \<Rightarrow> bool \<Rightarrow> schema \<Rightarrow> schema" where
  "revise_notice now i revision n payload complete t =
     t\<lparr>notices := update_where (\<lambda>r. nr_id r = i)
        (\<lambda>r. r\<lparr>nr_revision := revision, nr_source := n_bid_number n, nr_title := n_title n,
               nr_published := nullableTime (z_inst (n_posted_at n)),
               nr_deadline := nullableTime (z_inst (n_deadline n)), nr_payload := Some payload,
               nr_legacy_url := None, nr_collected := now, nr_region_complete := complete\<rparr>) (notices t)\<rparr>"

definition record_revision :: "string \<Rightarrow> string \<Rightarrow> schema \<Rightarrow> schema" where
  "record_revision i revision t =
     (if (i, revision) \<in> set (notice_revisions t) then t
      else t\<lparr>notice_revisions := notice_revisions t @ [(i, revision)]\<rparr>)"

text \<open>The end of a store that changed something.\<close>

definition store_changed :: "dbenv \<Rightarrow> string \<Rightarrow> string \<Rightarrow> string \<Rightarrow> bool \<Rightarrow> (schema, stored_notice) sql" where
  "store_changed E i revision region complete =
     sql_bind (sql_wrap ''record notice revision'' (sql_stmt E (\<lambda>n t. Inr ((), record_revision i revision t)))) (\<lambda>_.
     sql_bind (sql_wrap ''commit notice'' (sql_call E)) (\<lambda>_.
       sql_return \<lparr>sn_id = i, sn_changed = True, sn_region = region, sn_complete = complete\<rparr>))"

definition store_existing ::
  "dbenv \<Rightarrow> text_env \<Rightarrow> time \<Rightarrow> notice \<Rightarrow> notice_row \<Rightarrow> (schema, stored_notice) sql" where
  "store_existing E T now incoming row =
     sql_bind (sql_lift (mergeStoredRegion T incoming (nr_payload row) (nr_region_complete row))) (\<lambda>(n, complete).
     sql_bind (sql_lift (noticeHashes T n)) (\<lambda>(identity, revision).
     sql_bind (sql_lift (encode_notice ''encode merged notice'' T n)) (\<lambda>payload.
     if nr_revision row = revision then
       sql_bind (sql_wrap ''touch notice'' (sql_stmt E (\<lambda>k t. Inr ((), touch_notice now (nr_id row) t)))) (\<lambda>_.
       sql_bind (sql_wrap ''commit unchanged notice'' (sql_call E)) (\<lambda>_.
         sql_return \<lparr>sn_id = nr_id row, sn_changed = False, sn_region = n_region n, sn_complete = complete\<rparr>))
     else
       sql_bind (sql_wrap ''update notice''
          (sql_stmt E (\<lambda>k t. Inr ((), revise_notice now (nr_id row) revision n payload complete t)))) (\<lambda>_.
         store_changed E (nr_id row) revision (n_region n) complete))))"

definition store_tx ::
  "dbenv \<Rightarrow> text_env \<Rightarrow> time \<Rightarrow> notice \<Rightarrow> string \<Rightarrow> string \<Rightarrow> notice \<Rightarrow> (schema, stored_notice) sql" where
  "store_tx E T now n identity revision payload =
     sql_bind (sql_wrap ''begin notice transaction'' (sql_call E)) (\<lambda>_.
     sql_bind (sql_wrap ''read notice revision''
        (sql_query E (\<lambda>t. find (\<lambda>r. nr_identity r = identity) (notices t)))) (\<lambda>row.
     case row of
       Some r \<Rightarrow> store_existing E T now n r
     | None \<Rightarrow>
         sql_bind (sql_wrap ''insert notice''
            (sql_stmt E (insert_notice E now identity revision n payload (n_region n \<noteq> [])))) (\<lambda>i.
           store_changed E i revision (n_region n) (n_region n \<noteq> []))))"

definition StoreNotice :: "dbenv \<Rightarrow> text_env \<Rightarrow> notice \<Rightarrow> (schema, stored_notice) sql" where
  "StoreNotice E T n d =
     (case noticeHashes T n of
        Inl e \<Rightarrow> (Inl e, d)
      | Inr (identity, revision) \<Rightarrow>
         (case encode_notice ''encode notice'' T n of
            Inl e \<Rightarrow> (Inl e, d)
          | Inr payload \<Rightarrow>
              sql_rollback (store_tx E T (clock_at E (tick d)) n identity revision payload) d))"

record active_notice =
  an_id :: string
  an_notice :: notice
  an_complete :: bool

fun scan_active :: "text_env \<Rightarrow> notice_row list \<Rightarrow> goerr + active_notice list" where
  "scan_active T [] = Inr []"
| "scan_active T (r # rs) =
     (case nr_payload r of
        None \<Rightarrow> Inl (ErrText (''decode active notice '' @ nr_id r))
      | Some n \<Rightarrow>
         (case ValidateSource (te_nfc T) n of
            Some field \<Rightarrow> Inl (ErrWrap (''validate active notice '' @ nr_id r) (validation_error field))
          | None \<Rightarrow>
             (case scan_active T rs of
                Inl e \<Rightarrow> Inl e
              | Inr ns \<Rightarrow> Inr (\<lparr>an_id = nr_id r, an_notice = n, an_complete = nr_region_complete r\<rparr> # ns))))"

text \<open>\<open>ORDER BY published_at DESC NULLS LAST, id\<close>.\<close>

definition published_key :: "notice_row \<Rightarrow> bool \<times> int" where
  "published_key r = (case nr_published r of None \<Rightarrow> (True, 0) | Some p \<Rightarrow> (False, - p))"

definition active_rows :: "time \<Rightarrow> schema \<Rightarrow> notice_row list" where
  "active_rows now t = sort_key (\<lambda>r. (published_key r, nr_id r)) (filter (row_open now) (notices t))"

definition loadActiveNotices :: "dbenv \<Rightarrow> text_env \<Rightarrow> time \<Rightarrow> (schema, active_notice list) sql" where
  "loadActiveNotices E T now =
     sql_bind (sql_wrap ''query active notices'' (sql_query E (active_rows now))) (\<lambda>rs. sql_lift (scan_active T rs))"

definition MarkRegionLookupComplete :: "dbenv \<Rightarrow> string \<Rightarrow> (schema, unit) sql" where
  "MarkRegionLookupComplete E noticeID =
     sql_bind (sql_wrap ''mark region lookup complete''
       (sql_stmt E (\<lambda>k t. Inr (affected (\<lambda>r. nr_id r = noticeID) (notices t),
          t\<lparr>notices := update_where (\<lambda>r. nr_id r = noticeID)
             (\<lambda>r. r\<lparr>nr_region_complete := True, nr_collected := clock_at E k\<rparr>) (notices t)\<rparr>)))) (\<lambda>n.
     if n \<noteq> 1 then sql_fail (ErrText ''notice not found while completing region lookup'') else sql_return ())"

definition StoreWarning :: "dbenv \<Rightarrow> source_warning \<Rightarrow> (schema, unit) sql" where
  "StoreWarning E w =
     sql_wrap ''insert source warning''
       (sql_stmt E (\<lambda>k t. Inr ((), t\<lparr>source_warnings := source_warnings t @ [w]\<rparr>)))"

section \<open>Filters and matches\<close>

record stored_filter =
  sf_id :: string
  sf_tenant :: string
  sf_rule :: rule
  sf_revision :: time

fun scan_filters :: "string \<Rightarrow> filter_row list \<Rightarrow> goerr + stored_filter list" where
  "scan_filters tenantID [] = Inr []"
| "scan_filters tenantID (f # fs) =
     (case f_rule f of
        None \<Rightarrow> Inl (ErrText (''decode filter '' @ f_id f))
      | Some r \<Rightarrow>
         (case scan_filters tenantID fs of
            Inl e \<Rightarrow> Inl e
          | Inr rest \<Rightarrow> Inr (\<lparr>sf_id = f_id f, sf_tenant = tenantID, sf_rule = r, sf_revision = f_updated f\<rparr> # rest)))"

definition loadEnabledFilters :: "dbenv \<Rightarrow> string \<Rightarrow> (schema, stored_filter list) sql" where
  "loadEnabledFilters E tenantID =
     sql_bind (sql_wrap ''query filters'' (sql_query E (\<lambda>t.
        sort_key f_created (filter (\<lambda>f. f_tenant f = tenantID \<and> f_enabled f) (filters t)))))
       (\<lambda>fs. sql_lift (scan_filters tenantID fs))"

fun EnabledFilters_loop ::
  "dbenv \<Rightarrow> lockenv \<Rightarrow> (string \<times> string) list \<Rightarrow> schema db \<Rightarrow> (stored_filter list res \<times> schema db) option" where
  "EnabledFilters_loop E L [] d = Some (Inr [], d)"
| "EnabledFilters_loop E L ((tenantID, name) # ts) d =
     (case withTenant E L tenantID (\<lambda>now. loadEnabledFilters E tenantID) d of
        None \<Rightarrow> None
      | Some (Inl e, d') \<Rightarrow> Some (Inl e, d')
      | Some (Inr fs, d') \<Rightarrow>
         (case EnabledFilters_loop E L ts d' of
            None \<Rightarrow> None
          | Some (Inl e, d'') \<Rightarrow> Some (Inl e, d'')
          | Some (Inr rest, d'') \<Rightarrow> Some (Inr (fs @ rest), d'')))"

definition EnabledFilters ::
  "dbenv \<Rightarrow> lockenv \<Rightarrow> schema db \<Rightarrow> (stored_filter list res \<times> schema db) option" where
  "EnabledFilters E L d =
     (case tenantCatalog E d of
        (Inl e, d') \<Rightarrow> Some (Inl e, d')
      | (Inr ts, d') \<Rightarrow> EnabledFilters_loop E L ts d')"

record stored_match =
  sx_tenant :: string
  sx_filter :: string
  sx_notice :: string
  sx_reasons :: "reason list"
  sx_details :: "detail list"
  sx_revision :: time

definition detail_json :: "detail \<Rightarrow> json" where
  "detail_json dt =
     marshal_detail \<lparr>md_code = reason_code (Code dt), md_field = Field dt, md_rule_value = RuleValue dt,
                     md_notice_value = NoticeValue dt\<rparr>"

definition reasons_payload :: "reason list \<Rightarrow> detail list \<Rightarrow> json" where
  "reasons_payload rs ds =
     JObj [(''reasons'', JArr (map (JStr \<circ> reason_code) rs)), (''details'', JArr (map detail_json ds))]"

text \<open>The filter row a match may be written under: enabled, and still at the revision of the rule
  the match was computed for.\<close>

definition eligible_filter :: "string \<Rightarrow> string \<Rightarrow> time \<Rightarrow> schema \<Rightarrow> bool" where
  "eligible_filter tenantID filterID revision t =
     list_ex (\<lambda>f. f_tenant f = tenantID \<and> f_id f = filterID \<and> f_enabled f \<and> f_updated f = revision) (filters t)"

definition same_match :: "string \<Rightarrow> string \<Rightarrow> string \<Rightarrow> match_row \<Rightarrow> bool" where
  "same_match tenantID filterID noticeID m \<longleftrightarrow>
     m_tenant m = tenantID \<and> m_filter m = filterID \<and> m_notice m = noticeID"

definition new_match :: "string \<Rightarrow> string \<Rightarrow> string \<Rightarrow> json \<Rightarrow> string \<Rightarrow> time \<Rightarrow> match_row" where
  "new_match tenantID filterID noticeID payload i now =
     \<lparr>m_id = i, m_tenant = tenantID, m_filter = filterID, m_notice = noticeID, m_reasons = payload, m_created = now\<rparr>"

definition insert_match ::
  "dbenv \<Rightarrow> time \<Rightarrow> stored_match \<Rightarrow> json \<Rightarrow> nat \<Rightarrow> schema \<Rightarrow> goerr + bool option \<times> schema" where
  "insert_match E now m payload k t =
     (if \<not> eligible_filter (sx_tenant m) (sx_filter m) (sx_revision m) t then Inr (None, t)
      else if list_ex (same_match (sx_tenant m) (sx_filter m) (sx_notice m)) (matches t) then Inr (None, t)
      else if \<not> list_ex (\<lambda>r. nr_id r = sx_notice m) (notices t) then Inl (ErrText ''matches_notice_id_fkey'')
      else Inr (Some True, t\<lparr>matches := matches t @
             [new_match (sx_tenant m) (sx_filter m) (sx_notice m) payload (uuid_at E k 0) now]\<rparr>))"

definition update_match :: "stored_match \<Rightarrow> json \<Rightarrow> schema \<Rightarrow> nat \<times> schema" where
  "update_match m payload t =
     (if eligible_filter (sx_tenant m) (sx_filter m) (sx_revision m) t
      then (affected (same_match (sx_tenant m) (sx_filter m) (sx_notice m)) (matches t),
            t\<lparr>matches := update_where (same_match (sx_tenant m) (sx_filter m) (sx_notice m))
               (\<lambda>r. r\<lparr>m_reasons := payload\<rparr>) (matches t)\<rparr>)
      else (0, t))"

text \<open>The pair of the result: created, applied.\<close>

definition upsertMatchRevision ::
  "dbenv \<Rightarrow> time \<Rightarrow> stored_match \<Rightarrow> json \<Rightarrow> (schema, bool \<times> bool) sql" where
  "upsertMatchRevision E now m payload =
     sql_bind (sql_stmt E (insert_match E now m payload)) (\<lambda>created.
     case created of
       Some c \<Rightarrow> sql_return (c, True)
     | None \<Rightarrow> sql_bind (sql_stmt E (\<lambda>k t. Inr (update_match m payload t))) (\<lambda>n. sql_return (False, n = 1)))"

definition delete_match :: "stored_match \<Rightarrow> schema \<Rightarrow> nat \<times> schema" where
  "delete_match m t =
     (if eligible_filter (sx_tenant m) (sx_filter m) (sx_revision m) t
      then (affected (same_match (sx_tenant m) (sx_filter m) (sx_notice m)) (matches t),
            t\<lparr>matches := filter (\<lambda>r. \<not> same_match (sx_tenant m) (sx_filter m) (sx_notice m) r) (matches t)\<rparr>)
      else (0, t))"

definition deleteMatchRevision :: "dbenv \<Rightarrow> stored_match \<Rightarrow> (schema, bool) sql" where
  "deleteMatchRevision E m = sql_bind (sql_stmt E (\<lambda>k t. Inr (delete_match m t))) (\<lambda>n. sql_return (n = 1))"

definition UpsertMatch :: "dbenv \<Rightarrow> lockenv \<Rightarrow> stored_match \<Rightarrow> schema db \<Rightarrow> (bool res \<times> schema db) option" where
  "UpsertMatch E L m =
     withTenant E L (sx_tenant m) (\<lambda>now.
       sql_bind (upsertMatchRevision E now m (reasons_payload (sx_reasons m) (sx_details m))) (\<lambda>(created, applied).
         sql_return created))"

definition DeleteMatch :: "dbenv \<Rightarrow> lockenv \<Rightarrow> stored_match \<Rightarrow> schema db \<Rightarrow> (unit res \<times> schema db) option" where
  "DeleteMatch E L m =
     withTenant E L (sx_tenant m) (\<lambda>now. sql_bind (deleteMatchRevision E m) (\<lambda>_. sql_return ()))"

text \<open>\<open>refreshFilterMatches\<close>: the batch is one round trip, its statements run in order.\<close>

definition match_of :: "text_env \<Rightarrow> time \<Rightarrow> stored_filter \<Rightarrow> active_notice \<Rightarrow> stored_match" where
  "match_of T now f a =
     (let r = MatchAt (te_nfc T) (te_fold T) now (an_notice a) (sf_rule f)
      in \<lparr>sx_tenant = sf_tenant f, sx_filter = sf_id f, sx_notice = an_id a, sx_reasons = Reasons r,
          sx_details = Details r, sx_revision = sf_revision f\<rparr>)"

definition upsert_match ::
  "dbenv \<Rightarrow> time \<Rightarrow> stored_match \<Rightarrow> json \<Rightarrow> nat \<Rightarrow> nat \<Rightarrow> schema \<Rightarrow> goerr + schema" where
  "upsert_match E created m payload k i t =
     (if \<not> eligible_filter (sx_tenant m) (sx_filter m) (sx_revision m) t then Inr t
      else if list_ex (same_match (sx_tenant m) (sx_filter m) (sx_notice m)) (matches t)
        then Inr (snd (update_match m payload t))
      else if \<not> list_ex (\<lambda>r. nr_id r = sx_notice m) (notices t) then Inl (ErrText ''matches_notice_id_fkey'')
      else Inr (t\<lparr>matches := matches t @
             [new_match (sx_tenant m) (sx_filter m) (sx_notice m) payload (uuid_at E k i) created]\<rparr>))"

definition refresh_one ::
  "dbenv \<Rightarrow> text_env \<Rightarrow> time \<Rightarrow> time \<Rightarrow> stored_filter \<Rightarrow> active_notice \<Rightarrow> nat \<Rightarrow> nat \<Rightarrow> schema \<Rightarrow> goerr + schema" where
  "refresh_one E T created now f a k i t =
     (let m = match_of T now f a
      in if Matched (MatchAt (te_nfc T) (te_fold T) now (an_notice a) (sf_rule f))
         then upsert_match E created m (reasons_payload (sx_reasons m) (sx_details m)) k i t
         else Inr (snd (delete_match m t)))"

fun refresh_batch ::
  "dbenv \<Rightarrow> text_env \<Rightarrow> time \<Rightarrow> time \<Rightarrow> stored_filter \<Rightarrow> active_notice list \<Rightarrow> nat \<Rightarrow> nat \<Rightarrow> schema \<Rightarrow> goerr + unit \<times> schema" where
  "refresh_batch E T created now f [] k i t = Inr ((), t)"
| "refresh_batch E T created now f (a # as) k i t =
     (case refresh_one E T created now f a k i t of
        Inl e \<Rightarrow> Inl e
      | Inr t' \<Rightarrow> refresh_batch E T created now f as k (Suc i) t')"

definition refreshFilterMatches ::
  "dbenv \<Rightarrow> text_env \<Rightarrow> time \<Rightarrow> time \<Rightarrow> stored_filter \<Rightarrow> active_notice list \<Rightarrow> (schema, unit) sql" where
  "refreshFilterMatches E T created now f as =
     (if as = [] then sql_return ()
      else sql_wrap ''refresh filter matches'' (sql_stmt E (\<lambda>k. refresh_batch E T created now f as k 0)))"

section \<open>Finishing a collection\<close>

record collection_result =
  cr_fetched :: int
  cr_changed :: int
  cr_matched :: int
  cr_warnings :: int

definition result_json :: "collection_result \<Rightarrow> json" where
  "result_json r =
     JObj [(''Fetched'', JNum (show_int (cr_fetched r))), (''Changed'', JNum (show_int (cr_changed r))),
           (''Matched'', JNum (show_int (cr_matched r))), (''Warnings'', JNum (show_int (cr_warnings r)))]"

fun record_runs :: "dbenv \<Rightarrow> string \<Rightarrow> json \<Rightarrow> time \<Rightarrow> (string \<times> string) list \<Rightarrow> (schema, unit) sql" where
  "record_runs E status payload now [] = sql_return ()"
| "record_runs E status payload now ((tenantID, name) # ts) =
     sql_bind (sql_wrap ''set collection tenant context'' (sql_call E)) (\<lambda>_.
     sql_bind (sql_wrap ''record tenant collection run'' (sql_stmt E (\<lambda>k t. Inr ((), t\<lparr>job_runs := job_runs t @
        [\<lparr>jr_tenant = tenantID, jr_kind = ''collection'', jr_status = status, jr_started = now,
          jr_finished = now, jr_detail = payload\<rparr>]\<rparr>)))) (\<lambda>_.
     record_runs E status payload now ts))"

definition finish_state :: "time option \<Rightarrow> json \<Rightarrow> string option \<Rightarrow> schema \<Rightarrow> schema" where
  "finish_state successAt payload errorText t =
     t\<lparr>collection_state := map (\<lambda>s. s\<lparr>cs_last_success := (case successAt of None \<Rightarrow> cs_last_success s | Some a \<Rightarrow> Some a),
         cs_result := payload, cs_error := errorText\<rparr>) (collection_state t)\<rparr>"

definition FinishCollection ::
  "dbenv \<Rightarrow> time \<Rightarrow> collection_result \<Rightarrow> goerr option \<Rightarrow> (schema, unit) sql" where
  "FinishCollection E at_time result runErr =
     (let payload = result_json result;
          successAt = (if \<not> is_zero at_time \<and> runErr = None then Some at_time else None);
          errorText = map_option show_error runErr;
          status = (if runErr = None then ''succeeded'' else ''failed'')
      in sql_bind (tenantCatalog E) (\<lambda>ts. (\<lambda>d.
         let now = clock_at E (tick d) in
         sql_rollback
          (sql_bind (sql_wrap ''begin collection completion'' (sql_call E)) (\<lambda>_.
           sql_bind (sql_wrap ''update collection state''
              (sql_stmt E (\<lambda>k t. Inr ((), finish_state successAt payload errorText t)))) (\<lambda>_.
           sql_bind (record_runs E status payload now ts) (\<lambda>_.
           sql_wrap ''commit collection completion'' (sql_call E))))) d)))"

definition LastSuccessfulCollection :: "dbenv \<Rightarrow> (schema, time) sql" where
  "LastSuccessfulCollection E =
     sql_bind (sql_wrap ''read collection state'' (sql_query E (\<lambda>t. map cs_last_success (collection_state t)))) (\<lambda>rs.
     case rs of
       [] \<Rightarrow> sql_fail (ErrWrap ''read collection state'' (Sentinel ErrNoRows))
     | r # _ \<Rightarrow> sql_return (case r of None \<Rightarrow> 0 | Some l \<Rightarrow> l))"

end
