(* ===== verification/Collector_Laws.thy ===== *)
theory Collector_Laws
  imports Pg_Collector
begin

text \<open>
  What the statements of \<open>Pg_Collector\<close> guarantee: the call budget is never exceeded, a stored
  notice is the one row of its identity with its revision recorded, matches are written only under
  the current revision of their filter, and a refresh leaves exactly the matches of the rule.
\<close>

section \<open>The budget\<close>

definition budget_cap :: "int \<Rightarrow> int" where
  "budget_cap configured = min 1000 (budget_limit configured)"

definition within_budget :: "int \<Rightarrow> schema db \<Rightarrow> bool" where
  "within_budget configured d \<longleftrightarrow>
     (\<forall>day c. usage_of day (rows d) = Some c \<longrightarrow> 0 \<le> c \<and> c \<le> budget_cap configured)"

definition used :: "schema db \<Rightarrow> string \<Rightarrow> int" where
  "used d day = (case usage_of day (rows d) of None \<Rightarrow> 0 | Some c \<Rightarrow> c)"

definition take_step :: "dbenv \<Rightarrow> int \<Rightarrow> time \<Rightarrow> schema db \<Rightarrow> schema db" where
  "take_step E configured now d = snd (Take E configured now d)"

definition take_granted :: "dbenv \<Rightarrow> int \<Rightarrow> time \<Rightarrow> schema db \<Rightarrow> string option" where
  "take_granted E configured now d =
     (case fst (Take E configured now d) of Inl e \<Rightarrow> None | Inr u \<Rightarrow> Some (usage_day now))"

lemma usage_increment:
  "usage_of day (t\<lparr>api_usage := map (\<lambda>(d, c). if d = day' then (d, c + 1) else (d, c)) (api_usage t)\<rparr>)
   = (if day = day' then map_option (\<lambda>c. c + 1) (usage_of day t) else usage_of day t)"
proof -
  have "map_of (map (\<lambda>(d, c). if d = day' then (d, c + 1) else (d, c)) xs) day
      = (if day = day' then map_option (\<lambda>c. c + 1) (map_of xs day) else map_of xs day)" for xs :: "(string \<times> int) list"
    by (induction xs) auto
  then show ?thesis by (simp add: usage_of_def)
qed

lemma usage_insert:
  "usage_of day (t\<lparr>api_usage := (day', c) # api_usage t\<rparr>) = (if day = day' then Some c else usage_of day t)"
  by (simp add: usage_of_def)

text \<open>The three outcomes of a call: granted, refused, failed.\<close>

lemma Take_cases:
  obtains (granted) "fst (Take E cfg now d) = Inr ()"
      "used (snd (Take E cfg now d)) (usage_day now) = used d (usage_day now) + 1"
      "used d (usage_day now) < budget_limit cfg" "used d (usage_day now) < 1000 \<or> usage_of (usage_day now) (rows d) = None"
      "\<And>day. day \<noteq> usage_day now \<Longrightarrow> usage_of day (rows (snd (Take E cfg now d))) = usage_of day (rows d)"
      "usage_of (usage_day now) (rows (snd (Take E cfg now d))) = Some (used d (usage_day now) + 1)"
  | (not_granted) e where "fst (Take E cfg now d) = Inl e" "rows (snd (Take E cfg now d)) = rows d"
proof (cases "db_set E \<and> fault E (tick d) = None")
  case False
  then have "(\<exists>e. fst (Take E cfg now d) = Inl e) \<and> rows (snd (Take E cfg now d)) = rows d"
    by (auto simp: Take_def sql_bind_def sql_wrap_def sql_stmt_def split: option.splits)
  then show ?thesis using not_granted by blast
next
  case True
  then have no: "db_set E" "fault E (tick d) = None" by auto
  have pos: "1 \<le> budget_limit cfg" by (simp add: budget_limit_def defaultDailyAPICallLimit_def)
  show ?thesis
  proof (cases "usage_of (usage_day now) (rows d)")
    case None
    show ?thesis
      by (rule granted)
         (use None no pos in \<open>simp_all add: Take_def sql_bind_def sql_wrap_def sql_stmt_def count_call_def used_def usage_insert\<close>)
  next
    case (Some c)
    show ?thesis
    proof (cases "c < budget_limit cfg \<and> \<not> 1000 < c + 1")
      case True
      show ?thesis
        by (rule granted)
           (use Some no True in \<open>simp_all add: Take_def sql_bind_def sql_wrap_def sql_stmt_def count_call_def used_def usage_increment\<close>)
    next
      case False
      then have "(\<exists>e. count_call (usage_day now) (budget_limit cfg) (rows d) = Inl e) \<or>
          count_call (usage_day now) (budget_limit cfg) (rows d) = Inr (None, rows d)"
        using Some by (auto simp: count_call_def)
      then have "(\<exists>e. fst (Take E cfg now d) = Inl e) \<and> rows (snd (Take E cfg now d)) = rows d"
        using no by (auto simp: Take_def sql_bind_def sql_wrap_def sql_stmt_def)
      then show ?thesis using not_granted by blast
    qed
  qed
qed

interpretation api_budget: claim_counter "take_step E cfg" "take_granted E cfg" "within_budget cfg" used "budget_cap cfg"
proof
  fix c :: time and d :: "schema db" and k
  assume inv: "within_budget cfg d"
  have cap0: "0 \<le> budget_cap cfg" by (simp add: budget_cap_def budget_limit_def defaultDailyAPICallLimit_def)
  show "0 \<le> used d k \<and> used d k \<le> budget_cap cfg"
    using inv cap0 by (auto simp: within_budget_def used_def split: option.splits)
  have "within_budget cfg (take_step E cfg c d) \<and> used d k \<le> used (take_step E cfg c d) k \<and>
    (take_granted E cfg c d = Some k \<longrightarrow> used (take_step E cfg c d) k = used d k + 1)"
  proof (cases rule: Take_cases [of E cfg c d])
    case granted
    have one: "1 \<le> budget_cap cfg" by (simp add: budget_cap_def budget_limit_def defaultDailyAPICallLimit_def)
    have "0 \<le> used d (usage_day c) + 1 \<and> used d (usage_day c) + 1 \<le> budget_cap cfg"
      using granted(3,4) inv one
      by (auto simp: budget_cap_def used_def within_budget_def split: option.splits)
    then have "within_budget cfg (take_step E cfg c d)"
      using inv granted(5,6) unfolding within_budget_def take_step_def by (metis option.inject)
    moreover have "used d k \<le> used (take_step E cfg c d) k"
      using granted(2,5) by (cases "k = usage_day c") (simp_all add: take_step_def used_def)
    moreover have "take_granted E cfg c d = Some k \<longrightarrow> used (take_step E cfg c d) k = used d k + 1"
      using granted(1,2) by (auto simp: take_step_def take_granted_def)
    ultimately show ?thesis by blast
  next
    case not_granted
    then show ?thesis using inv by (simp add: take_step_def take_granted_def used_def within_budget_def)
  qed
  then show "within_budget cfg (take_step E cfg c d)" "used d k \<le> used (take_step E cfg c d) k"
    "take_granted E cfg c d = Some k \<Longrightarrow> used (take_step E cfg c d) k = used d k + 1"
    by auto
qed

text \<open>
  C14: The daily call budget holds. Over any sequence of requests, at any times and with any
  database failures, the calls granted for one day, added to those recorded before, never exceed
  the configured limit (900 when none is set), nor 1000.
\<close>

theorem daily_budget_never_exceeded:
  assumes "within_budget configured d"
  shows "int (claims_in (take_step E configured) (take_granted E configured) day nows d)
    \<le> min 1000 (budget_limit configured) - used d day"
  using api_budget.claims_bounded [OF assms] by (simp add: budget_cap_def)

definition budget_db :: "schema db" where
  "budget_db = \<lparr>rows = \<lparr>tenants = [], schedules = [], windows = [], window_items = [], window_recipients = [],
     deliveries = [], reports = [], report_items = [], notices = [], notice_revisions = [], matches = [],
     filters = [], recipients = [], source_warnings = [], collection_state = [], job_runs = [],
     api_usage = [(''2024-01-02'', 2)]\<rparr>, tick = 0\<rparr>"

theorem daily_budget_never_exceeded_witness:
  "int (claims_in (take_step plain_env 3) (take_granted plain_env 3) ''2024-01-02'' [0, 1, 2] budget_db) \<le> 1"
proof -
  have "within_budget 3 budget_db"
    by (auto simp: within_budget_def budget_db_def usage_of_def budget_cap_def budget_limit_def split: if_splits)
  from daily_budget_never_exceeded [OF this, of plain_env "''2024-01-02''" "[0, 1, 2]"]
  show ?thesis by (simp add: budget_limit_def used_def usage_of_def budget_db_def)
qed

section \<open>Matches\<close>

text \<open>The match writes take no collection lock, so they do not wait: they are one transaction.\<close>

definition upsert_once :: "dbenv \<Rightarrow> lockenv \<Rightarrow> stored_match \<Rightarrow> (schema, bool) sql" where
  "upsert_once E L m = tenant_once E L (sx_tenant m) (\<lambda>now.
     sql_bind (upsertMatchRevision E now m (reasons_payload (sx_reasons m) (sx_details m))) (\<lambda>(created, applied).
       sql_return created))"

definition delete_once :: "dbenv \<Rightarrow> lockenv \<Rightarrow> stored_match \<Rightarrow> (schema, unit) sql" where
  "delete_once E L m = tenant_once E L (sx_tenant m) (\<lambda>now. sql_bind (deleteMatchRevision E m) (\<lambda>_. sql_return ()))"

lemma UpsertMatch_once: "quiet_faults E \<Longrightarrow> UpsertMatch E L m d = Some (upsert_once E L m d)"
  unfolding UpsertMatch_def upsert_once_def
proof (rule withTenant_once)
  assume E: "quiet_faults E"
  show "quiet (sql_bind (upsertMatchRevision E now m (reasons_payload (sx_reasons m) (sx_details m)))
      (\<lambda>(created, applied). sql_return created))" for now
    unfolding upsertMatchRevision_def
    by (intro quiet_intros quiet_stmt E) (auto simp: insert_match_def quiet_return split: if_splits)
qed

lemma DeleteMatch_once: "quiet_faults E \<Longrightarrow> DeleteMatch E L m d = Some (delete_once E L m d)"
  unfolding DeleteMatch_def delete_once_def deleteMatchRevision_def
  by (rule withTenant_once) (auto intro!: quiet_intros quiet_stmt)

lemma stale_filter: "\<forall>f \<in> set (filters t). f_tenant f = a \<and> f_id f = i \<longrightarrow> \<not> f_enabled f \<or> f_updated f \<noteq> v \<Longrightarrow>
    \<not> eligible_filter a i v t"
  by (auto simp: eligible_filter_def list_ex_iff)

lemma upsert_not_eligible:
  assumes "\<not> eligible_filter (sx_tenant m) (sx_filter m) (sx_revision m) (rows d)"
    and "upsertMatchRevision E now m payload d = (Inr a, d')"
  shows "rows d' = rows d \<and> a = (False, False)"
  using assms
  by (auto simp: upsertMatchRevision_def sql_bind_def sql_stmt_def insert_match_def update_match_def split: option.splits)

lemma delete_not_eligible:
  assumes "\<not> eligible_filter (sx_tenant m) (sx_filter m) (sx_revision m) (rows d)"
    and "deleteMatchRevision E m d = (Inr a, d')"
  shows "rows d' = rows d"
  using assms by (auto simp: deleteMatchRevision_def sql_bind_def sql_stmt_def delete_match_def split: option.splits)

text \<open>
  C15: A match computed for an old rule is never written: when every row of the filter is disabled or
  at another revision than the one the match was computed under, upserting and deleting the match
  leave every row as it was, however long they wait and whatever fails, and no match is reported as
  created.
\<close>

theorem stale_filter_revision_ignored:
  assumes "\<forall>f \<in> set (filters (rows d)). f_tenant f = sx_tenant m \<and> f_id f = sx_filter m \<longrightarrow>
      \<not> f_enabled f \<or> f_updated f \<noteq> sx_revision m"
  shows "(UpsertMatch E L m d = Some (r, d') \<longrightarrow> rows d' = rows d \<and> r \<noteq> Inr True) \<and>
    (DeleteMatch E L m d = Some (u, d') \<longrightarrow> rows d' = rows d)"
proof (intro conjI impI)
  note stale = stale_filter [OF assms]
  assume "UpsertMatch E L m d = Some (r, d')"
  then have "rows d' = rows d \<and> (\<forall>a. r = Inr a \<longrightarrow> \<not> a)"
    unfolding UpsertMatch_def
    by (rule withTenant_unchanged) (use stale in \<open>auto simp: sql_Inr_simps dest!: upsert_not_eligible [rotated]\<close>)
  then show "rows d' = rows d" "r \<noteq> Inr True" by auto
next
  note stale = stale_filter [OF assms]
  assume "DeleteMatch E L m d = Some (u, d')"
  then have "rows d' = rows d \<and> (\<forall>a. u = Inr a \<longrightarrow> True)"
    unfolding DeleteMatch_def
    by (rule withTenant_unchanged) (use stale in \<open>auto simp: sql_Inr_simps dest!: delete_not_eligible [rotated]\<close>)
  then show "rows d' = rows d" ..
qed

text \<open>The matches of one filter, as pairs of notice and reasons.\<close>

definition filter_matches :: "stored_filter \<Rightarrow> schema \<Rightarrow> (string \<times> json) set" where
  "filter_matches f t =
     {(m_notice m, m_reasons m) | m. m \<in> set (matches t) \<and> m_tenant m = sf_tenant f \<and> m_filter m = sf_id f}"

definition current_filter :: "stored_filter \<Rightarrow> schema \<Rightarrow> bool" where
  "current_filter f t \<longleftrightarrow> eligible_filter (sf_tenant f) (sf_id f) (sf_revision f) t"

definition wanted :: "text_env \<Rightarrow> time \<Rightarrow> stored_filter \<Rightarrow> active_notice \<Rightarrow> (string \<times> json) set" where
  "wanted T now f a =
     (let r = MatchAt (te_nfc T) (te_fold T) now (an_notice a) (sf_rule f)
      in if Matched r then {(an_id a, reasons_payload (Reasons r) (Details r))} else {})"

definition at_notice :: "string \<Rightarrow> (string \<times> json) set \<Rightarrow> (string \<times> json) set" where
  "at_notice n M = {p \<in> M. fst p = n}"

lemma same_match_filter:
  "same_match (sf_tenant f) (sf_id f) n m \<longleftrightarrow> m_tenant m = sf_tenant f \<and> m_filter m = sf_id f \<and> m_notice m = n"
  by (simp add: same_match_def)

lemma filter_matches_snoc:
  "filter_matches f (t\<lparr>matches := matches t @ [m]\<rparr>) = filter_matches f t \<union>
     (if m_tenant m = sf_tenant f \<and> m_filter m = sf_id f then {(m_notice m, m_reasons m)} else {})"
  unfolding filter_matches_def by auto

lemma refresh_one_matches:
  assumes run: "refresh_one E T created now f a k i t = Inr t'" and cur: "current_filter f t"
  shows "filter_matches f t' = (filter_matches f t - at_notice (an_id a) (filter_matches f t)) \<union> wanted T now f a \<and>
    filters t' = filters t \<and> notices t' = notices t"
proof -
  let ?r = "MatchAt (te_nfc T) (te_fold T) now (an_notice a) (sf_rule f)"
  let ?S = "same_match (sf_tenant f) (sf_id f) (an_id a)"
  have e: "eligible_filter (sf_tenant f) (sf_id f) (sf_revision f) t" using cur by (simp add: current_filter_def)
  show ?thesis
  proof (cases "Matched ?r")
    case False
    then have "t' = t\<lparr>matches := filter (\<lambda>r. \<not> ?S r) (matches t)\<rparr>"
      using run e by (simp add: refresh_one_def match_of_def Let_def delete_match_def)
    then show ?thesis using False
      by (auto simp: filter_matches_def at_notice_def wanted_def Let_def same_match_def)
  next
    case True
    let ?p = "reasons_payload (Reasons ?r) (Details ?r)"
    show ?thesis
    proof (cases "list_ex ?S (matches t)")
      case has: True
      then have t': "t' = t\<lparr>matches := update_where ?S (\<lambda>r. r\<lparr>m_reasons := ?p\<rparr>) (matches t)\<rparr>"
        using run e True by (simp add: refresh_one_def match_of_def Let_def upsert_match_def update_match_def)
      obtain m where m: "m \<in> set (matches t)" "?S m" using has by (auto simp: list_ex_iff)
      have "filter_matches f t' = (filter_matches f t - at_notice (an_id a) (filter_matches f t)) \<union> {(an_id a, ?p)}"
      proof (intro subset_antisym subsetI)
        fix x assume "x \<in> filter_matches f t'"
        then show "x \<in> (filter_matches f t - at_notice (an_id a) (filter_matches f t)) \<union> {(an_id a, ?p)}"
          by (auto simp: filter_matches_def at_notice_def t' set_update_where same_match_def)
      next
        fix x assume x: "x \<in> (filter_matches f t - at_notice (an_id a) (filter_matches f t)) \<union> {(an_id a, ?p)}"
        show "x \<in> filter_matches f t'"
        proof (cases "x = (an_id a, ?p)")
          case True
          define m2 where "m2 = m\<lparr>m_reasons := ?p\<rparr>"
          have "m2 \<in> set (matches t')" using m by (auto simp: t' set_update_where m2_def)
          moreover have "m_tenant m2 = sf_tenant f" "m_filter m2 = sf_id f" "m_notice m2 = an_id a" "m_reasons m2 = ?p"
            using m by (simp_all add: same_match_def m2_def)
          ultimately show ?thesis unfolding True filter_matches_def
            by (intro CollectI exI [where x = m2]) simp
        next
          case False
          with x show ?thesis by (auto simp: filter_matches_def at_notice_def t' set_update_where same_match_def)
        qed
      qed
      with True t' show ?thesis by (simp add: wanted_def Let_def)
    next
      case has: False
      then have t': "t' = t\<lparr>matches := matches t @
          [new_match (sf_tenant f) (sf_id f) (an_id a) ?p (uuid_at E k i) created]\<rparr>"
        using run e True by (auto simp: refresh_one_def match_of_def Let_def upsert_match_def split: if_splits)
      have "at_notice (an_id a) (filter_matches f t) = {}"
        using has by (auto simp: at_notice_def filter_matches_def same_match_def list_ex_iff)
      then have "filter_matches f t' =
          (filter_matches f t - at_notice (an_id a) (filter_matches f t)) \<union> {(an_id a, ?p)}"
        unfolding t' filter_matches_snoc by (simp add: new_match_def)
      with True t' show ?thesis by (simp add: wanted_def Let_def)
    qed
  qed
qed

lemma refresh_batch_matches:
  assumes "refresh_batch E T created now f as k i t = Inr ((), t')" "current_filter f t" "distinct (map an_id as)"
  shows "filter_matches f t' =
      {p \<in> filter_matches f t. fst p \<notin> an_id ` set as} \<union> (\<Union>a \<in> set as. wanted T now f a)"
  using assms
proof (induction as arbitrary: i t)
  case (Cons a as)
  obtain t1 where one: "refresh_one E T created now f a k i t = Inr t1"
    and rest: "refresh_batch E T created now f as k (Suc i) t1 = Inr ((), t')"
    using Cons.prems(1) by (auto split: sum.splits)
  note m1 = refresh_one_matches [OF one Cons.prems(2)]
  have cur: "current_filter f t1" using Cons.prems(2) m1 by (simp add: current_filter_def eligible_filter_def)
  have ih: "filter_matches f t' =
      {p \<in> filter_matches f t1. fst p \<notin> an_id ` set as} \<union> (\<Union>a \<in> set as. wanted T now f a)"
    using Cons.IH [OF rest cur] Cons.prems(3) by simp
  have "fst p = an_id a" if "p \<in> wanted T now f a" for p
    using that by (auto simp: wanted_def Let_def split: if_splits)
  moreover have "an_id a \<notin> an_id ` set as" using Cons.prems(3) by simp
  ultimately show ?case using m1 unfolding ih by (auto simp: at_notice_def)
qed auto

lemma refresh_exact:
  assumes "refreshFilterMatches E T created now f as d = (Inr (), d')"
    and "current_filter f (rows d)" "distinct (map an_id as)"
  shows "filter_matches f (rows d') =
    {p \<in> filter_matches f (rows d). fst p \<notin> an_id ` set as} \<union>
    {(an_id a, reasons_payload (Reasons r) (Details r)) | a r.
       a \<in> set as \<and> r = MatchAt (te_nfc T) (te_fold T) now (an_notice a) (sf_rule f) \<and> Matched r}"
proof -
  have "(\<Union>a \<in> set as. wanted T now f a) =
    {(an_id a, reasons_payload (Reasons r) (Details r)) | a r.
       a \<in> set as \<and> r = MatchAt (te_nfc T) (te_fold T) now (an_notice a) (sf_rule f) \<and> Matched r}"
    by (auto simp: wanted_def Let_def split: if_splits)
  moreover have "filter_matches f (rows d') =
      {p \<in> filter_matches f (rows d). fst p \<notin> an_id ` set as} \<union> (\<Union>a \<in> set as. wanted T now f a)"
  proof (cases "as = []")
    case True
    then show ?thesis using assms(1) by (simp add: refreshFilterMatches_def)
  next
    case False
    then have "refresh_batch E T created now f as (tick d) 0 (rows d) = Inr ((), rows d')"
      using assms(1) by (auto simp: refreshFilterMatches_def sql_wrap_eq_Inr sql_stmt_Inr)
    from refresh_batch_matches [OF this assms(2,3)] show ?thesis .
  qed
  ultimately show ?thesis by simp
qed

text \<open>
  Refreshing a filter leaves exactly the matches of its rule: for the given notices a match row
  exists if and only if the rule matches the notice now, with the reasons of that evaluation, and
  the matches of other notices are as before.
\<close>

theorem refresh_leaves_exactly_the_matches:
  assumes "refreshFilterMatches E T created now f as d = (Inr (), d')"
    and "current_filter f (rows d)" "distinct (map an_id as)"
  shows "filter_matches f (rows d') =
    {p \<in> filter_matches f (rows d). fst p \<notin> an_id ` set as} \<union>
    {(an_id a, reasons_payload (Reasons r) (Details r)) | a r.
       a \<in> set as \<and> r = MatchAt (te_nfc T) (te_fold T) now (an_notice a) (sf_rule f) \<and> Matched r}"
  using assms by (rule refresh_exact)

definition plain_text :: text_env where
  "plain_text = \<lparr>te_nfc = id, te_fold = id, te_sha = id, te_enc = Some\<rparr>"

definition open_rule :: rule where
  "open_rule = \<lparr>IncludeAny = [], IncludeAll = [], Exclude = [], Categories = [], Agencies = [], Regions = [],
     MinAmount = None, MaxAmount = None, DeadlineWeekdays = [], DeadlineWithinDays = None\<rparr>"

definition open_filter :: stored_filter where
  "open_filter = \<lparr>sf_id = ''f1'', sf_tenant = ''t1'', sf_rule = open_rule, sf_revision = 5\<rparr>"

definition filter_db :: "schema db" where
  "filter_db = budget_db\<lparr>rows := (rows budget_db)\<lparr>
     filters := [\<lparr>f_tenant = ''t1'', f_id = ''f1'', f_name = ''all'', f_rule = Some open_rule, f_enabled = True,
       f_created = 1, f_updated = 5\<rparr>],
     notices := [\<lparr>nr_id = ''n1'', nr_identity = ''i'', nr_revision = ''r'', nr_source = ''s'', nr_title = ''Desks'',
       nr_published = None, nr_deadline = None, nr_payload = Some sample_notice, nr_legacy_url = None,
       nr_collected = 1, nr_region_complete = True\<rparr>]\<rparr>\<rparr>"

lemma open_filter_fields:
  "sf_id open_filter = ''f1''" "sf_tenant open_filter = ''t1''" "sf_revision open_filter = 5"
  by (simp_all add: open_filter_def)

definition stale_match :: stored_match where
  "stale_match = \<lparr>sx_tenant = ''t1'', sx_filter = ''f1'', sx_notice = ''n1'', sx_reasons = [], sx_details = [], sx_revision = 4\<rparr>"

theorem stale_filter_revision_ignored_witness:
  "rows (snd (the (UpsertMatch plain_env open_env stale_match filter_db))) = rows filter_db"
proof -
  have stale: "\<forall>f \<in> set (filters (rows filter_db)). f_tenant f = sx_tenant stale_match \<and> f_id f = sx_filter stale_match \<longrightarrow>
      \<not> f_enabled f \<or> f_updated f \<noteq> sx_revision stale_match"
    by (simp add: filter_db_def stale_match_def)
  have "quiet_faults plain_env" by (simp add: quiet_faults_def plain_env_def)
  then have run: "UpsertMatch plain_env open_env stale_match filter_db =
      Some (fst (upsert_once plain_env open_env stale_match filter_db), snd (upsert_once plain_env open_env stale_match filter_db))"
    by (simp only: UpsertMatch_once prod.collapse)
  from stale_filter_revision_ignored [OF stale, of plain_env open_env] run show ?thesis by (simp only: option.sel snd_conv)
qed

theorem refresh_leaves_exactly_the_matches_witness:
  "filter_matches open_filter (rows (snd (refreshFilterMatches plain_env plain_text 9 10 open_filter
     [\<lparr>an_id = ''n1'', an_notice = sample_notice, an_complete = True\<rparr>] filter_db))) =
   {(''n1'', reasons_payload [] [])}"
proof -
  let ?as = "[\<lparr>an_id = ''n1'', an_notice = sample_notice, an_complete = True\<rparr>]"
  let ?w = "refreshFilterMatches plain_env plain_text 9 10 open_filter ?as filter_db"
  have m: "MatchAt (te_nfc plain_text) (te_fold plain_text) 10 sample_notice (sf_rule open_filter) =
      \<lparr>Matched = True, Reasons = [], Details = []\<rparr>"
    by (simp add: MatchAt_def stage_defs open_filter_def open_rule_def hasTerms_def no_result_def)
  have "fst ?w = Inr ()"
    by (simp add: refreshFilterMatches_def sql_wrap_def sql_stmt_def refresh_one_def match_of_def m
        upsert_match_def eligible_filter_def filter_db_def budget_db_def open_filter_fields plain_env_def)
  then have w: "?w = (Inr (), snd ?w)" by (metis prod.collapse)
  have cur: "current_filter open_filter (rows filter_db)"
    by (simp add: current_filter_def eligible_filter_def open_filter_def filter_db_def)
  have dist: "distinct (map an_id ?as)" by simp
  have none: "filter_matches open_filter (rows filter_db) = {}"
    by (simp add: filter_matches_def filter_db_def budget_db_def)
  show ?thesis
    unfolding refresh_leaves_exactly_the_matches [OF w cur dist] none by (auto simp: m)
qed

section \<open>Notices\<close>

definition revision_text :: "text_env \<Rightarrow> notice \<Rightarrow> string" where
  "revision_text T n =
     str_join [CHR 0x00]
       [Identity (te_nfc T) (te_sha T) n, NormalizeText (te_nfc T) (n_title n), NormalizeText (te_nfc T) (n_agency n),
        NormalizeText (te_nfc T) (n_region n), show_int (n_amount n), NormalizeText (te_nfc T) (n_source_url n),
        format_rfc3339_nano 0 (z_inst (n_posted_at n)), format_rfc3339_nano 0 (z_inst (n_deadline n)),
        revisionRawJSON (n_raw_json n)]"

lemma Identity_region_raw:
  "Identity nfc sha (n\<lparr>n_region := g, n_raw_json := raw\<rparr>) = Identity nfc sha n"
  "Identity nfc sha (n\<lparr>n_region := g\<rparr>) = Identity nfc sha n"
  by (simp_all add: Identity_def ValidateSource_def)

text \<open>
  A known region survives a later listing without one exactly when the raw source text comes
  back from the payload column unchanged. When a notice is listed again with every field as stored
  but no region, the stored region and its lookup state are taken over if the raw text is the same;
  if the column gives it back in another spelling, the region is dropped and the lookup is pending.
\<close>

theorem region_kept_iff_raw_text_kept:
  assumes "n_region n = []" "Identity (te_nfc T) (te_sha T) n \<noteq> []"
    and "stored = n\<lparr>n_region := g, n_raw_json := raw\<rparr>"
    and "inj_on (te_sha T) {revision_text T stored, revision_text T (n\<lparr>n_region := g\<rparr>)}"
  shows "mergeStoredRegion T n (Some stored) complete =
    (if revisionRawJSON raw = revisionRawJSON (n_raw_json n) then Inr (n\<lparr>n_region := g\<rparr>, complete)
     else Inr (n, False))"
proof -
  let ?c = "n\<lparr>n_region := g\<rparr>"
  have rev: "Revision (te_nfc T) (te_sha T) m = te_sha T (revision_text T m)"
    if "Identity (te_nfc T) (te_sha T) m \<noteq> []" for m
    using that by (simp add: Revision_def hash_def revision_text_def)
  have "Revision (te_nfc T) (te_sha T) ?c = Revision (te_nfc T) (te_sha T) stored \<longleftrightarrow>
      revision_text T ?c = revision_text T stored"
    using assms(2,3,4) rev [of ?c] rev [of stored] by (auto simp: Identity_region_raw dest: inj_onD)
  also have "\<dots> \<longleftrightarrow> revisionRawJSON raw = revisionRawJSON (n_raw_json n)"
    by (auto simp: revision_text_def assms(3) Identity_region_raw)
  finally show ?thesis
    using assms(1,3) by (simp add: mergeStoredRegion_def Identity_region_raw Let_def)
qed

theorem region_kept_iff_raw_text_kept_witness:
  "mergeStoredRegion plain_text (sample_notice\<lparr>n_raw_json := ''[1,2]''\<rparr>)
     (Some (sample_notice\<lparr>n_region := ''Seoul'', n_raw_json := ''[1, 2]''\<rparr>)) True
   = Inr (sample_notice\<lparr>n_raw_json := ''[1,2]''\<rparr>, False)"
proof -
  let ?n = "sample_notice\<lparr>n_raw_json := ''[1,2]''\<rparr>"
  have v: "ValidateSource id ?n = None" using sample_valid by (simp add: ValidateSource_None_iff)
  have "n_category ?n = ''goods''" by (simp add: sample_notice_def)
  then have i: "Identity (te_nfc plain_text) (te_sha plain_text) ?n \<noteq> []"
    using Identity_valid [OF v, of id] by (simp add: plain_text_def hash_def)
  have r: "n_region ?n = []" by (simp add: sample_notice_def)
  have ne: "revisionRawJSON ''[1, 2]'' \<noteq> revisionRawJSON (n_raw_json ?n)"
    by (simp add: revisionRawJSON_def trim_space_visible visible_def byte_def)
  have s: "sample_notice\<lparr>n_region := ''Seoul'', n_raw_json := ''[1, 2]''\<rparr> =
      ?n\<lparr>n_region := ''Seoul'', n_raw_json := ''[1, 2]''\<rparr>" by simp
  have inj: "inj_on (te_sha plain_text) A" for A by (simp add: plain_text_def)
  show ?thesis using region_kept_iff_raw_text_kept [OF r i s inj, of True] ne by simp
qed

text \<open>Storing a notice, by the row found for its identity.\<close>

definition other_notices :: "string \<Rightarrow> schema \<Rightarrow> notice_row list" where
  "other_notices identity t = filter (\<lambda>r. nr_identity r \<noteq> identity) (notices t)"

definition stored_row :: "string \<Rightarrow> notice \<Rightarrow> stored_notice \<Rightarrow> schema \<Rightarrow> schema \<Rightarrow> bool" where
  "stored_row identity n s t t' \<longleftrightarrow>
     (\<exists>r \<in> set (notices t'). nr_id r = sn_id s \<and> nr_identity r = identity \<and>
        (sn_changed s \<longrightarrow> nr_title r = n_title n \<and> nr_source r = n_bid_number n \<and>
           (nr_id r, nr_revision r) \<in> set (notice_revisions t'))) \<and>
     (\<not> sn_changed s \<longrightarrow> notice_revisions t' = notice_revisions t)"

lemma merge_fields:
  "mergeStoredRegion T n p c = Inr (n', c') \<Longrightarrow>
     n_title n' = n_title n \<and> n_bid_number n' = n_bid_number n \<and> Identity nfc sha n' = Identity nfc sha n"
  by (auto simp: mergeStoredRegion_def Let_def Identity_region_raw split: if_splits option.splits)

lemma sql_lift_Inr: "sql_lift r d = (Inr a, d') \<longleftrightarrow> r = Inr a \<and> d' = d"
  by (auto simp: sql_lift_def split: sum.splits)

lemma store_changed_rows:
  "store_changed E i revision region complete d = (Inr s, d') \<Longrightarrow>
   rows d' = record_revision i revision (rows d) \<and> sn_id s = i \<and> sn_changed s"
  by (auto simp: store_changed_def sql_Inr_simps)

lemma record_revision_simps [simp]:
  "notices (record_revision i v t) = notices t" "(i, v) \<in> set (notice_revisions (record_revision i v t))"
  by (auto simp: record_revision_def)

lemma store_existing_rows:
  assumes "store_existing E T now n row d = (Inr s, d')"
  obtains (same) "rows d' = touch_notice now (nr_id row) (rows d)" "sn_id s = nr_id row" "\<not> sn_changed s"
  | (changed) n' revision payload complete where
      "rows d' = record_revision (nr_id row) revision (revise_notice now (nr_id row) revision n' payload complete (rows d))"
      "sn_id s = nr_id row" "sn_changed s" "n_title n' = n_title n" "n_bid_number n' = n_bid_number n"
proof -
  from assms obtain n' complete identity revision payload where
    m: "mergeStoredRegion T n (nr_payload row) (nr_region_complete row) = Inr (n', complete)"
    and rest: "(if nr_revision row = revision then
       sql_bind (sql_wrap ''touch notice'' (sql_stmt E (\<lambda>k t. Inr ((), touch_notice now (nr_id row) t)))) (\<lambda>_.
       sql_bind (sql_wrap ''commit unchanged notice'' (sql_call E)) (\<lambda>_.
         sql_return \<lparr>sn_id = nr_id row, sn_changed = False, sn_region = n_region n', sn_complete = complete\<rparr>))
     else
       sql_bind (sql_wrap ''update notice''
          (sql_stmt E (\<lambda>k t. Inr ((), revise_notice now (nr_id row) revision n' payload complete t)))) (\<lambda>_.
         store_changed E (nr_id row) revision (n_region n') complete)) d = (Inr s, d')"
    unfolding store_existing_def by (auto simp: sql_bind_eq_Inr sql_lift_Inr)
  show ?thesis
  proof (cases "nr_revision row = revision")
    case True
    with rest show ?thesis by (intro same) (auto simp: sql_Inr_simps)
  next
    case False
    with rest obtain d1 where "rows d1 = revise_notice now (nr_id row) revision n' payload complete (rows d)"
      and "store_changed E (nr_id row) revision (n_region n') complete d1 = (Inr s, d')"
      by (auto simp: sql_Inr_simps intro: that [of "\<lparr>rows = revise_notice now (nr_id row) revision n' payload complete (rows d), tick = Suc (tick d)\<rparr>"])
    with store_changed_rows show ?thesis using merge_fields [OF m] by (metis changed)
  qed
qed

lemma unique_id_row:
  "distinct (map nr_id ns) \<Longrightarrow> r \<in> set ns \<Longrightarrow> r' \<in> set ns \<Longrightarrow> nr_id r' = nr_id r \<Longrightarrow> r' = r"
  by (metis distinct_map inj_onD)

text \<open>Updating the row of one id, where the update leaves id and identity alone.\<close>

lemma update_row_facts:
  assumes "distinct (map nr_id ns)" "r \<in> set ns"
    and "\<And>x. nr_id (g x) = nr_id x" "\<And>x. nr_identity (g x) = nr_identity x"
  shows "map nr_id (update_where (\<lambda>x. nr_id x = nr_id r) g ns) = map nr_id ns"
    "map nr_identity (update_where (\<lambda>x. nr_id x = nr_id r) g ns) = map nr_identity ns"
    "g r \<in> set (update_where (\<lambda>x. nr_id x = nr_id r) g ns)"
    "filter (\<lambda>x. nr_identity x \<noteq> nr_identity r) (update_where (\<lambda>x. nr_id x = nr_id r) g ns)
       = filter (\<lambda>x. nr_identity x \<noteq> nr_identity r) ns"
proof -
  show "map nr_id (update_where (\<lambda>x. nr_id x = nr_id r) g ns) = map nr_id ns"
    by (rule map_update_where) (simp add: assms(3))
  show "map nr_identity (update_where (\<lambda>x. nr_id x = nr_id r) g ns) = map nr_identity ns"
    by (rule map_update_where) (simp add: assms(4))
  show "g r \<in> set (update_where (\<lambda>x. nr_id x = nr_id r) g ns)"
    using assms(2) by (auto simp: set_update_where)
  have "filter (\<lambda>x. nr_identity x \<noteq> nr_identity r) (update_where (\<lambda>x. nr_id x = nr_id r) g xs)
      = filter (\<lambda>x. nr_identity x \<noteq> nr_identity r) xs" if "set xs \<subseteq> set ns" for xs
    using that
  proof (induction xs)
    case (Cons x xs)
    then have "nr_id x = nr_id r \<Longrightarrow> x = r" using unique_id_row [OF assms(1,2), of x] by simp
    with Cons show ?case by (auto simp: update_where_def assms(4))
  qed (simp add: update_where_def)
  then show "filter (\<lambda>x. nr_identity x \<noteq> nr_identity r) (update_where (\<lambda>x. nr_id x = nr_id r) g ns)
       = filter (\<lambda>x. nr_identity x \<noteq> nr_identity r) ns" by blast
qed

lemma store_new_rows:
  assumes run: "sql_bind (sql_wrap ''insert notice''
              (sql_stmt E (insert_notice E now identity revision n payload complete))) (\<lambda>i.
             store_changed E i revision region complete) d = (Inr s, d')"
  obtains k r where "notices (rows d') = notices (rows d) @ [r]" "nr_id r = uuid_at E k 0" "nr_id r = sn_id s"
    "nr_identity r = identity" "nr_title r = n_title n" "nr_source r = n_bid_number n" "sn_changed s"
    "(nr_id r, nr_revision r) \<in> set (notice_revisions (rows d'))"
    "identity \<notin> nr_identity ` set (notices (rows d))"
proof -
  from run obtain i d1 where st: "sql_stmt E (insert_notice E now identity revision n payload complete) d = (Inr i, d1)"
    and ch: "store_changed E i revision region complete d1 = (Inr s, d')"
    by (auto simp: sql_bind_eq_Inr sql_wrap_eq_Inr)
  let ?r = "\<lparr>nr_id = uuid_at E (tick d) 0, nr_identity = identity, nr_revision = revision, nr_source = n_bid_number n,
          nr_title = n_title n, nr_published = nullableTime (z_inst (n_posted_at n)),
          nr_deadline = nullableTime (z_inst (n_deadline n)), nr_payload = Some payload,
          nr_legacy_url = None, nr_collected = now, nr_region_complete = complete\<rparr>"
  from st have ins: "insert_notice E now identity revision n payload complete (tick d) (rows d) = Inr (i, rows d1)"
    by (auto simp: sql_stmt_Inr)
  then have new: "identity \<notin> nr_identity ` set (notices (rows d))"
    by (auto simp: insert_notice_def list_ex_iff split: if_splits)
  from ins have i: "i = uuid_at E (tick d) 0" and "rows d1 = (rows d)\<lparr>notices := notices (rows d) @ [?r]\<rparr>"
    by (auto simp: insert_notice_def split: if_splits)
  then have "notices (rows d1) = notices (rows d) @ [?r]" by simp
  with i store_changed_rows [OF ch] new show ?thesis
    by (intro that [of ?r "tick d"]) simp_all
qed

text \<open>
  Storing a notice that succeeds leaves exactly one row for its identity, under the id it
  returns; if it reports a change, that row carries the title and bid number of the notice and its
  revision is on record, otherwise no revision is added; the rows of other notices stay as they
  were, and so do ids and identities of all rows.
\<close>

theorem StoreNotice_exact:
  assumes run: "StoreNotice E T n d = (Inr s, d')"
    and ids: "distinct (map nr_id (notices (rows d)))" and idents: "distinct (map nr_identity (notices (rows d)))"
    and fresh: "\<forall>k. uuid_at E k 0 \<notin> nr_id ` set (notices (rows d))"
  shows "stored_row (Identity (te_nfc T) (te_sha T) n) n s (rows d) (rows d') \<and>
    distinct (map nr_id (notices (rows d'))) \<and> distinct (map nr_identity (notices (rows d'))) \<and>
    other_notices (Identity (te_nfc T) (te_sha T) n) (rows d') = other_notices (Identity (te_nfc T) (te_sha T) n) (rows d)"
proof -
  let ?id = "Identity (te_nfc T) (te_sha T) n"
  let ?now = "clock_at E (tick d)"
  obtain revision payload d1 where rows1: "rows d1 = rows d"
    and rest: "(case find (\<lambda>r. nr_identity r = ?id) (notices (rows d)) of
         Some r \<Rightarrow> store_existing E T ?now n r
       | None \<Rightarrow>
           sql_bind (sql_wrap ''insert notice''
              (sql_stmt E (insert_notice E ?now ?id revision n payload (n_region n \<noteq> [])))) (\<lambda>i.
             store_changed E i revision (n_region n) (n_region n \<noteq> []))) d1 = (Inr s, d')"
  proof -
    from run obtain revision payload where h: "noticeHashes T n = Inr (?id, revision)"
      and body: "store_tx E T ?now n ?id revision payload d = (Inr s, d')"
    proof -
      obtain p where p: "noticeHashes T n = Inr p" using run by (auto simp: StoreNotice_def split: sum.splits)
      then have "fst p = ?id" by (auto simp: noticeHashes_def split: option.splits if_splits)
      with run p that [of "snd p"] show ?thesis
        by (auto simp: StoreNotice_def sql_rollback_eq_Inr split: sum.splits prod.splits)
    qed
    then obtain d2 d3 row where "sql_call E d = (Inr (), d2)" "sql_query E (\<lambda>t. find (\<lambda>r. nr_identity r = ?id) (notices t)) d2 = (Inr row, d3)"
      and rest: "(case row of Some r \<Rightarrow> store_existing E T ?now n r
       | None \<Rightarrow>
         sql_bind (sql_wrap ''insert notice''
            (sql_stmt E (insert_notice E ?now ?id revision n payload (n_region n \<noteq> [])))) (\<lambda>i.
           store_changed E i revision (n_region n) (n_region n \<noteq> []))) d3 = (Inr s, d')"
      unfolding store_tx_def by (auto elim!: sql_bindE simp: sql_wrap_eq_Inr)
    then have "rows d3 = rows d" "row = find (\<lambda>r. nr_identity r = ?id) (notices (rows d))"
      by (auto simp: sql_call_Inr sql_query_Inr)
    with rest that [of d3 revision payload] show ?thesis by simp
  qed
  show ?thesis
  proof (cases "find (\<lambda>r. nr_identity r = ?id) (notices (rows d))")
    case None
    from rest [unfolded None option.case] obtain k r where new:
      "notices (rows d') = notices (rows d1) @ [r]" "nr_id r = uuid_at E k 0" "nr_id r = sn_id s"
      "nr_identity r = ?id" "nr_title r = n_title n" "nr_source r = n_bid_number n" "sn_changed s"
      "(nr_id r, nr_revision r) \<in> set (notice_revisions (rows d'))" "?id \<notin> nr_identity ` set (notices (rows d1))"
      by (rule store_new_rows)
    have "uuid_at E k 0 \<notin> nr_id ` set (notices (rows d))" using fresh by blast
    with new show ?thesis using ids idents
      by (auto simp: stored_row_def other_notices_def rows1)
  next
    case (Some row)
    have row: "row \<in> set (notices (rows d))" "nr_identity row = ?id"
      using Some by (auto simp: find_Some_iff)
    from rest [unfolded Some option.case] show ?thesis
    proof (cases rule: store_existing_rows)
      case same
      note u = update_row_facts [OF ids row(1), of "\<lambda>r. r\<lparr>nr_collected := ?now\<rparr>", simplified]
      have "notices (rows d') = update_where (\<lambda>x. nr_id x = nr_id row) (\<lambda>r. r\<lparr>nr_collected := ?now\<rparr>) (notices (rows d))"
        "notice_revisions (rows d') = notice_revisions (rows d)"
        using same(1) rows1 by (simp_all add: touch_notice_def)
      with u same row show ?thesis using ids idents
        by (auto simp: stored_row_def other_notices_def intro!: bexI [OF _ u(3)])
    next
      case (changed n' revision payload complete)
      let ?g = "\<lambda>r. r\<lparr>nr_revision := revision, nr_source := n_bid_number n', nr_title := n_title n',
               nr_published := nullableTime (z_inst (n_posted_at n')),
               nr_deadline := nullableTime (z_inst (n_deadline n')), nr_payload := Some payload,
               nr_legacy_url := None, nr_collected := ?now, nr_region_complete := complete\<rparr>"
      note u = update_row_facts [OF ids row(1), of ?g, simplified]
      have ns: "notices (rows d') = update_where (\<lambda>x. nr_id x = nr_id row) ?g (notices (rows d))"
        using changed(1) rows1 by (simp add: revise_notice_def)
      have rev: "(nr_id row, revision) \<in> set (notice_revisions (rows d'))" using changed(1) by simp
      have mem: "?g row \<in> set (notices (rows d'))" unfolding ns by (rule u(3))
      have "stored_row ?id n s (rows d) (rows d')"
        unfolding stored_row_def using rev changed row by (intro conjI bexI [OF _ mem]) simp_all
      moreover have "map nr_id (notices (rows d')) = map nr_id (notices (rows d))"
        "map nr_identity (notices (rows d')) = map nr_identity (notices (rows d))"
        "other_notices ?id (rows d') = other_notices ?id (rows d)"
        using u(1,2,4) row(2) unfolding ns other_notices_def by simp_all
      ultimately show ?thesis using ids idents by simp
    qed
  qed
qed

definition hex_text :: text_env where
  "hex_text = \<lparr>te_nfc = id, te_fold = id, te_sha = (\<lambda>x. replicate 64 CHR ''a''), te_enc = Some\<rparr>"

lemma hex_text_hashes: "noticeHashes hex_text sample_notice = Inr (replicate 64 CHR ''a'', replicate 64 CHR ''a'')"
proof -
  have i: "Identity id (\<lambda>x. replicate 64 CHR ''a'') sample_notice = replicate 64 CHR ''a''"
    using sample_valid by (simp add: Identity_def hash_def)
  then have "Revision id (\<lambda>x. replicate 64 CHR ''a'') sample_notice = replicate 64 CHR ''a''"
    by (simp add: Revision_def hash_def)
  moreover have "hex_hash (replicate 64 CHR ''a'')" by (simp add: hex_hash_def byte_def list_all_iff)
  ultimately show ?thesis using i sample_valid by (simp add: noticeHashes_def hex_text_def)
qed

theorem StoreNotice_exact_witness:
  "\<exists>s d'. StoreNotice plain_env hex_text sample_notice budget_db = (Inr s, d') \<and>
     other_notices (Identity id (\<lambda>x. replicate 64 CHR ''a'') sample_notice) (rows d') = []"
proof -
  let ?w = "StoreNotice plain_env hex_text sample_notice budget_db"
  have enc: "te_enc hex_text = Some" by (simp add: hex_text_def)
  have "\<exists>s. fst ?w = Inr s"
    by (simp add: StoreNotice_def hex_text_hashes encode_notice_def enc store_tx_def sql_rollback_def
        sql_bind_def sql_wrap_def sql_call_def sql_query_def sql_stmt_def plain_env_def budget_db_def
        insert_notice_def store_changed_def)
  then obtain s where "fst ?w = Inr s" by blast
  then have w: "?w = (Inr s, snd ?w)" by (metis prod.collapse)
  have "other_notices (Identity (te_nfc hex_text) (te_sha hex_text) sample_notice) (rows (snd ?w)) =
      other_notices (Identity (te_nfc hex_text) (te_sha hex_text) sample_notice) (rows budget_db)"
    using StoreNotice_exact [OF w] by (simp add: budget_db_def)
  with w show ?thesis by (intro exI conjI) (auto simp: other_notices_def budget_db_def hex_text_def)
qed

end
