(* ===== verification/Report_Model.thy ===== *)
theory Report_Model
  imports File_Laws Run_Tally
begin

text \<open>
  The data of internal/report/render.go and internal/app/report_contract.go, and the file name of
  a report (internal/app/report_runner.go: \<open>reportRelativePath\<close>, \<open>reportFilterLabel\<close>,
  \<open>safeReportPathID\<close>), with the proof that every name the runner builds is a path the file store
  accepts.
\<close>

section \<open>Data\<close>

record report_match =
  rm_rule_name :: string
  rm_reasons :: "string list"

record report_notice =
  rn_id :: string
  rn_title :: string
  rn_category :: string
  rn_agency :: string
  rn_region :: string
  rn_url :: string
  rn_source_kind :: string
  rn_keywords :: "string list"
  rn_amount :: int
  rn_deadline :: time
  rn_posted :: time
  rn_collected :: time
  rn_recorded :: time
  rn_matches :: "report_match list"

record report_work =
  rw_report :: string
  rw_tenant :: string
  rw_tenant_name :: string
  rw_schedule :: string
  rw_schedule_name :: string
  rw_trigger :: string
  rw_path :: string
  rw_token :: string
  rw_due :: time
  rw_end :: time
  rw_start :: "time option"
  rw_attempts :: int
  rw_notices :: "report_notice list"

record report_artifact =
  ra_path :: string
  ra_sha :: string
  ra_count :: int

record report_outcome =
  ro_id :: string
  ro_path :: string
  ro_created :: bool
  ro_count :: int

section \<open>The name of the file\<close>

definition safeReportPathID :: "string \<Rightarrow> bool" where
  "safeReportPathID v \<longleftrightarrow> v \<noteq> [] \<and> v \<noteq> ''.'' \<and> v \<noteq> ''..'' \<and> \<not> contains_any v [CHR ''/'', CHR 0x5C, CHR 0x5C]"

definition label_all :: string where
  "label_all =
     [CHR 0xED, CHR 0x86, CHR 0xB5, CHR 0xED, CHR 0x95, CHR 0xA9]"

definition label_report :: string where
  "label_report =
     [CHR 0xEB, CHR 0xB3, CHR 0xB4, CHR 0xEA, CHR 0xB3, CHR 0xA0, CHR 0xEC, CHR 0x84, CHR 0x9C]"

text \<open>The loops over the notices and their matches: \<open>Inl\<close> is the return from inside.\<close>

fun label_names :: "string \<Rightarrow> string list \<Rightarrow> string + string" where
  "label_names name [] = Inr name"
| "label_names name (n # ns) =
     (let candidate = trim_space n
      in if candidate = [] then label_names name ns
         else if name \<noteq> [] \<and> name \<noteq> candidate then Inl label_all
         else label_names candidate ns)"

definition reserved :: "nat \<Rightarrow> bool" where
  "reserved r \<longleftrightarrow> is_control r \<or> r \<in> set (map byte (''/'' @ [CHR 0x5C] @ '':*?'' @ [CHR 0x22] @ ''<>|''))"

definition clean_runes :: "string \<Rightarrow> string" where
  "clean_runes s = concat (map (\<lambda>(r, n). encode_rune (if reserved r then byte CHR ''_'' else r)) (runes s))"

definition trim_edges :: "string \<Rightarrow> string" where
  "trim_edges s = rev (dropWhile (\<lambda>c. c \<in> set '' .'') (rev (dropWhile (\<lambda>c. c \<in> set '' .'') s)))"

fun label_loop :: "string \<Rightarrow> nat \<Rightarrow> nat list \<Rightarrow> string" where
  "label_loop label count [] = label"
| "label_loop label count (r # rs) =
     (if count = 60 \<or> 220 < length label + length (encode_rune r) then label
      else label_loop (label @ encode_rune r) (Suc count) rs)"

definition reportFilterLabel :: "report_notice list \<Rightarrow> string" where
  "reportFilterLabel ns =
     (case label_names [] (concat (map (\<lambda>n. map rm_rule_name (rn_matches n)) ns)) of
        Inl all \<Rightarrow> all
      | Inr name \<Rightarrow>
          let label = label_loop [] 0 (map fst (runes (trim_edges (clean_runes name))))
          in if label = [] then label_all else label)"

definition report_year :: "time \<Rightarrow> string" where
  "report_year t = (case civil (day_in kst_offset t) of (y, m, d) \<Rightarrow> pad 4 y)"

definition report_month :: "time \<Rightarrow> string" where
  "report_month t = (case civil (day_in kst_offset t) of (y, m, d) \<Rightarrow> pad 2 m)"

definition unsupported_trigger :: "string \<Rightarrow> goerr" where
  "unsupported_trigger tr = ErrText (''unsupported report trigger '' @ tr)"

definition reportRelativePath :: "report_work \<Rightarrow> goerr + string" where
  "reportRelativePath w =
     (if \<not> safeReportPathID (rw_tenant w) \<or> \<not> safeReportPathID (rw_report w) \<or> is_zero (rw_due w)
      then Inl (ErrText ''report path requires safe tenant and report IDs and a due time'')
      else if rw_trigger w \<noteq> ''scheduled'' \<and> rw_trigger w \<noteq> ''manual'' then Inl (unsupported_trigger (rw_trigger w))
      else
        let stamp = ''namo-'' @ format_date [] kst_offset (rw_due w) @ ''-'' @ format_clock [] kst_offset (rw_due w);
            legacy_name = (if rw_trigger w = ''manual'' then stamp @ ''-'' @ rw_report w else stamp);
            parent = Join [rw_tenant w, report_year (rw_due w), report_month (rw_due w)];
            legacyPath = Join [parent, legacy_name @ ''.html'']
        in if rw_path w = legacyPath then Inr legacyPath
           else Inr (Join [parent, rw_report w,
                  format_date [] kst_offset (rw_due w) @ ''_'' @ reportFilterLabel (rw_notices w) @
                  label_report @ ''.html'']))"

section \<open>The label fits a file name\<close>

lemma label_loop_length: "length label \<le> 220 \<Longrightarrow> length (label_loop label count rs) \<le> 220"
  by (induction label count rs rule: label_loop.induct) auto

lemma reportFilterLabel_length: "length (reportFilterLabel ns) \<le> 220"
proof -
  have "label_names n xs = Inl a \<Longrightarrow> a = label_all" for n xs a
    by (induction n xs rule: label_names.induct) (auto simp: Let_def split: if_splits)
  moreover have "length label_all \<le> 220" by (simp add: label_all_def)
  ultimately show ?thesis
    using label_loop_length [of "[]"] by (auto simp: reportFilterLabel_def Let_def split: sum.splits)
qed

text \<open>No byte of a label separates paths or ends a string.\<close>

definition name_char :: "char \<Rightarrow> bool" where
  "name_char c \<longleftrightarrow> c \<noteq> slash \<and> c \<noteq> CHR 0x00"

lemma name_char_byte: "name_char c \<longleftrightarrow> byte c \<noteq> byte slash \<and> byte c \<noteq> 0"
proof -
  have "byte c = byte slash \<longleftrightarrow> c = slash" "byte c = byte CHR 0x00 \<longleftrightarrow> c = CHR 0x00"
    unfolding byte_def of_char_eq_iff by (rule refl)+
  moreover have "byte CHR 0x00 = 0" by (simp add: byte_def)
  ultimately show ?thesis by (simp add: name_char_def)
qed

lemma decode_rune_low: "fst (decode_rune (c # cs)) < 128 \<Longrightarrow> fst (decode_rune (c # cs)) = byte c"
proof -
  have two: "(b0 - 192) * 64 + (b1 - 128) \<ge> 128" if "194 \<le> b0" for b0 b1 :: nat using that by linarith
  have three: "(b0 - 224) * 4096 + (b1 - 128) * 64 + (b2 - 128) \<ge> 128" if "224 \<le> b0" "second_ok b0 b1" for b0 b1 b2 :: nat
  proof (cases "b0 = 224")
    case True
    with that have "160 \<le> b1" by (simp add: second_ok_def)
    then show ?thesis by linarith
  next
    case False
    with that have "1 \<le> b0 - 224" by linarith
    then have "4096 \<le> (b0 - 224) * 4096" by linarith
    then show ?thesis by linarith
  qed
  have four: "(b0 - 240) * 262144 + (b1 - 128) * 4096 + x + y \<ge> 128" if "240 \<le> b0" "second_ok b0 b1" for b0 b1 x y :: nat
  proof (cases "b0 = 240")
    case True
    with that have "144 \<le> b1" by (simp add: second_ok_def)
    then show ?thesis by linarith
  next
    case False
    with that have "1 \<le> b0 - 240" by linarith
    then have "262144 \<le> (b0 - 240) * 262144" by linarith
    then show ?thesis by linarith
  qed
  assume "fst (decode_rune (c # cs)) < 128"
  then show ?thesis
    using two [of "byte c" "byte (cs ! 0)"] three [of "byte c" "byte (cs ! 0)" "byte (cs ! 1)"]
      four [of "byte c" "byte (cs ! 0)" "(byte (cs ! 1) - 128) * 64" "byte (cs ! 2) - 128"]
    by (auto simp: decode_rune.simps Let_def split: if_splits)
qed

lemma runes_low: "(r, n) \<in> set (runes s) \<Longrightarrow> r < 128 \<Longrightarrow> \<exists>c \<in> set s. byte c = r"
proof (induction s rule: runes.induct)
  case (1 s)
  show ?case
  proof (cases s)
    case Nil
    with 1 show ?thesis by simp
  next
    case (Cons c cs)
    then consider "(r, n) = decode_rune s" | "(r, n) \<in> set (runes (drop (snd (decode_rune s)) s))"
      using "1.prems"(1) runes_unfold [of s] by auto
    then show ?thesis
    proof cases
      case 1
      then have "fst (decode_rune (c # cs)) = r" using Cons by (metis fst_conv)
      then show ?thesis using decode_rune_low [of c cs] "1.prems"(2) Cons by auto
    next
      case 2
      then show ?thesis using "1.IH" Cons "1.prems"(2) by (metis in_set_dropD list.distinct(1))
    qed
  qed
qed

lemma encode_rune_low: "r < 128 \<Longrightarrow> encode_rune r = [char_of r]"
  by (simp add: encode_rune_def valid_rune_def)

lemma encode_name_char:
  assumes "c \<in> set (encode_rune r)" "r \<noteq> byte slash" "r \<noteq> 0"
  shows "name_char c"
proof (cases "r < 128")
  case True
  then have "c = char_of r" using assms(1) by (simp add: encode_rune_low)
  then have "byte c = r" using True by simp
  then show ?thesis using assms(2,3) by (simp add: name_char_byte)
next
  case False
  then have "128 \<le> byte c" using encode_rune_high [of r c] assms(1) by simp
  then show ?thesis by (auto simp: name_char_byte) (simp add: byte_def)
qed

lemma clean_runes_chars: "c \<in> set (clean_runes s) \<Longrightarrow> name_char c"
  by (auto simp: clean_runes_def reserved_def is_control_def byte_def intro!: encode_name_char split: if_splits)

lemma label_loop_chars:
  "c \<in> set (label_loop label k rs) \<Longrightarrow> c \<in> set label \<or> (\<exists>r \<in> set rs. c \<in> set (encode_rune r))"
  by (induction label k rs rule: label_loop.induct) (auto split: if_splits)

lemma set_trim_edges: "set (trim_edges s) \<subseteq> set s"
  by (auto simp: trim_edges_def dest!: set_dropWhileD)

lemma label_all_chars: "c \<in> set label_all \<Longrightarrow> name_char c"
  by (auto simp: label_all_def name_char_def)

lemma reportFilterLabel_chars: "c \<in> set (reportFilterLabel ns) \<Longrightarrow> name_char c"
proof -
  have all: "label_names n xs = Inl a \<Longrightarrow> a = label_all" for n xs a
    by (induction n xs rule: label_names.induct) (auto simp: Let_def split: if_splits)
  have "name_char c" if c: "c \<in> set (label_loop [] 0 (map fst (runes (trim_edges (clean_runes name)))))" for name
  proof -
    obtain r n where r: "(r, n) \<in> set (runes (trim_edges (clean_runes name)))" "c \<in> set (encode_rune r)"
      using label_loop_chars [OF c] by auto
    have "name_char d" if "d \<in> set (trim_edges (clean_runes name))" for d
      using clean_runes_chars set_trim_edges that by blast
    then have "byte d \<noteq> byte slash \<and> byte d \<noteq> 0" if "d \<in> set (trim_edges (clean_runes name))" for d
      using that unfolding name_char_byte by blast
    moreover have "byte slash < 128" by (simp add: byte_def)
    ultimately have "r \<noteq> byte slash \<and> r \<noteq> 0" using runes_low [OF r(1)]
      by (metis zero_less_numeral)
    then show ?thesis using encode_name_char r(2) by blast
  qed
  moreover assume "c \<in> set (reportFilterLabel ns)"
  ultimately show ?thesis using label_all_chars all
    by (auto simp: reportFilterLabel_def Let_def split: sum.splits if_splits)
qed

section \<open>The path is valid\<close>

lemma plainI: "c \<in> set s \<Longrightarrow> c \<noteq> CHR ''.'' \<Longrightarrow> (\<And>x. x \<in> set s \<Longrightarrow> name_char x) \<Longrightarrow> plain s"
  by (auto simp: plain_def name_char_def)

lemma show_int_char: "c \<in> set (show_int v) \<Longrightarrow> is_digit c \<or> c = CHR ''-''"
  using show_nat_digits by (auto simp: show_int_def list_all_iff split: if_splits)

lemma show_int_nonempty: "show_int v \<noteq> []"
  by (simp add: show_int_def)

lemma digit_chars: "is_digit c \<Longrightarrow> name_char c \<and> c \<noteq> CHR ''.''"
  by (auto simp: is_digit_def name_char_def)

lemma pad_char: "c \<in> set (pad n v) \<Longrightarrow> name_char c \<and> c \<noteq> CHR ''.''"
  using show_int_char [of c v] digit_chars [of c]
  by (auto simp: pad_def Let_def name_char_def)

lemma pad_plain: "plain (pad n v)"
proof -
  have "pad n v \<noteq> []" using show_int_nonempty [of v] by (simp add: pad_def Let_def)
  then have "hd (pad n v) \<in> set (pad n v)" by simp
  then show ?thesis using pad_char [of _ n v] by (intro plainI [of "hd (pad n v)"]) blast+
qed

lemma format_date_char: "c \<in> set (format_date [] off t) \<Longrightarrow> name_char c"
  using pad_char by (auto simp: format_date_def split: prod.splits)

lemma format_clock_char: "c \<in> set (format_clock [] off t) \<Longrightarrow> name_char c"
  using pad_char by (auto simp: format_clock_def split: prod.splits)

lemma safe_id_plain: "safeReportPathID v \<Longrightarrow> plain v"
  by (auto simp: safeReportPathID_def plain_def contains_any_def list_ex_iff)

lemma Join_plain:
  assumes "cs \<noteq> []" "list_all plain cs" shows "Join cs = str_join ''/'' cs"
proof -
  have "filter (\<lambda>e. e \<noteq> []) cs = cs" using assms(2) by (auto simp: list_all_iff plain_def filter_id_conv)
  then show ?thesis using assms Clean_plain [OF assms] by (simp add: Join_def Let_def)
qed

lemma str_join_nest: "cs \<noteq> [] \<Longrightarrow> ds \<noteq> [] \<Longrightarrow> str_join sep (str_join sep cs # ds) = str_join sep (cs @ ds)"
proof (induction sep cs rule: str_join.induct)
  case (2 sep x)
  then show ?case by (cases ds) auto
next
  case (3 sep x y zs)
  then show ?case by (cases ds) auto
qed simp

lemma Join_nest:
  assumes "cs \<noteq> []" "ds \<noteq> []" "list_all plain cs" "list_all plain ds"
  shows "Join (Join cs # ds) = str_join ''/'' (cs @ ds)"
proof -
  have "Join cs = str_join ''/'' cs" using assms by (simp add: Join_plain)
  moreover have "str_join ''/'' cs \<noteq> []" using join_not_abs assms by blast
  moreover have "filter (\<lambda>e. e \<noteq> []) ds = ds" using assms(4) by (auto simp: list_all_iff plain_def filter_id_conv)
  moreover have "Clean (str_join ''/'' (cs @ ds)) = str_join ''/'' (cs @ ds)"
    using assms by (intro Clean_plain) auto
  ultimately show ?thesis using assms by (simp add: Join_def Let_def str_join_nest)
qed

definition legacy_name :: "report_work \<Rightarrow> string" where
  "legacy_name w =
     (let stamp = ''namo-'' @ format_date [] kst_offset (rw_due w) @ ''-'' @ format_clock [] kst_offset (rw_due w)
      in (if rw_trigger w = ''manual'' then stamp @ ''-'' @ rw_report w else stamp) @ ''.html'')"

definition file_name :: "report_work \<Rightarrow> string" where
  "file_name w = format_date [] kst_offset (rw_due w) @ ''_'' @ reportFilterLabel (rw_notices w) @ label_report @ ''.html''"

definition month_dir :: "report_work \<Rightarrow> string list" where
  "month_dir w = [rw_tenant w, report_year (rw_due w), report_month (rw_due w)]"

lemma month_dir_plain: "safeReportPathID (rw_tenant w) \<Longrightarrow> list_all plain (month_dir w)"
  by (auto simp: month_dir_def safe_id_plain report_year_def report_month_def pad_plain split: prod.splits)

lemma safe_id_char: "safeReportPathID v \<Longrightarrow> CHR 0x00 \<notin> set v \<Longrightarrow> c \<in> set v \<Longrightarrow> name_char c"
  by (auto simp: name_char_def dest: safe_id_plain plainD)

lemma literal_chars:
  "c \<in> set ''namo-'' \<Longrightarrow> name_char c" "c \<in> set ''.html'' \<Longrightarrow> name_char c" "name_char CHR ''_''" "name_char CHR ''-''"
  "c \<in> set label_report \<Longrightarrow> name_char c"
  by (auto simp: name_char_def label_report_def)

lemma file_name_char: "c \<in> set (file_name w) \<Longrightarrow> name_char c"
  using format_date_char reportFilterLabel_chars literal_chars by (auto simp: file_name_def)

lemma legacy_name_char:
  "safeReportPathID (rw_report w) \<Longrightarrow> CHR 0x00 \<notin> set (rw_report w) \<Longrightarrow> c \<in> set (legacy_name w) \<Longrightarrow> name_char c"
  using format_date_char format_clock_char literal_chars safe_id_char [of "rw_report w"]
  by (auto simp: legacy_name_def Let_def split: if_splits)

lemma file_name_plain: "plain (file_name w)"
proof -
  have "CHR ''_'' \<in> set (file_name w)" by (simp add: file_name_def)
  from plainI [OF this _ file_name_char] show ?thesis by simp
qed

lemma legacy_name_plain:
  "safeReportPathID (rw_report w) \<Longrightarrow> CHR 0x00 \<notin> set (rw_report w) \<Longrightarrow> plain (legacy_name w)"
proof -
  assume safe: "safeReportPathID (rw_report w)" "CHR 0x00 \<notin> set (rw_report w)"
  have "CHR ''n'' \<in> set (legacy_name w)" by (simp add: legacy_name_def Let_def)
  from plainI [OF this _ legacy_name_char [OF safe]] show ?thesis by simp
qed

text \<open>The two shapes of a report path.\<close>

lemma reportRelativePath_shape:
  assumes "reportRelativePath w = Inr p" "CHR 0x00 \<notin> set (rw_report w)"
  shows "safeReportPathID (rw_tenant w) \<and> safeReportPathID (rw_report w) \<and>
    (p = str_join ''/'' (month_dir w @ [legacy_name w]) \<or> p = str_join ''/'' (month_dir w @ [rw_report w, file_name w]))"
proof -
  have safe: "safeReportPathID (rw_tenant w)" "safeReportPathID (rw_report w)"
    using assms by (auto simp: reportRelativePath_def split: if_splits)
  have "p = Join [Join (month_dir w), legacy_name w] \<or> p = Join [Join (month_dir w), rw_report w, file_name w]"
    using assms(1)
    by (auto simp: reportRelativePath_def month_dir_def legacy_name_def file_name_def Let_def split: if_splits)
  moreover have "Join [Join (month_dir w), legacy_name w] = str_join ''/'' (month_dir w @ [legacy_name w])"
    using month_dir_plain [OF safe(1)] legacy_name_plain [OF safe(2) assms(2)]
    by (intro Join_nest) (auto simp: month_dir_def)
  moreover have "Join [Join (month_dir w), rw_report w, file_name w] = str_join ''/'' (month_dir w @ [rw_report w, file_name w])"
    using month_dir_plain [OF safe(1)] safe_id_plain [OF safe(2)] file_name_plain
    by (intro Join_nest) (auto simp: month_dir_def)
  ultimately show ?thesis using safe by auto
qed

lemma report_path_valid:
  assumes path: "reportRelativePath w = Inr p"
    and nul: "CHR 0x00 \<notin> set (rw_tenant w)" "CHR 0x00 \<notin> set (rw_report w)"
  obtains tail where "validateRelativePath p = Inr p" "components p = month_dir w @ tail"
    "tail = [legacy_name w] \<or> tail = [rw_report w, file_name w]"
proof -
  note shape = reportRelativePath_shape [OF path nul(2)]
  have safe: "safeReportPathID (rw_tenant w)" "safeReportPathID (rw_report w)" using shape by blast+
  obtain tail where tail: "p = str_join ''/'' (month_dir w @ tail)" "tail = [legacy_name w] \<or> tail = [rw_report w, file_name w]"
    using shape by blast
  have plain: "list_all plain (month_dir w @ tail)"
    using tail(2) month_dir_plain [OF safe(1)] legacy_name_plain [OF safe(2) nul(2)] safe_id_plain [OF safe(2)] file_name_plain
    by auto
  have dirs: "CHR 0x00 \<notin> set c" if "c \<in> set (month_dir w)" for c
    using that nul(1) pad_char by (fastforce simp: month_dir_def report_year_def report_month_def name_char_def split: prod.splits)
  have "CHR 0x00 \<notin> set c" if "c \<in> set tail" for c
    using that tail(2) nul(2) legacy_name_char [OF safe(2) nul(2), of "CHR 0x00"] file_name_char [of "CHR 0x00" w]
    by (auto simp: name_char_def)
  then have no_nul: "CHR 0x00 \<notin> set c" if "c \<in> set (month_dir w @ tail)" for c using that dirs by auto
  have ok: "validateRelativePath p = Inr p \<and> components p = month_dir w @ tail"
    using plain no_nul tail by (intro plain_path_validates) (auto simp: month_dir_def)
  then show ?thesis using tail(2) that by blast
qed

text \<open>
  Every file name built for a report is a path the file store accepts as it is, it lies in the
  directory of the report's tenant, and, for a year of four digits and a UUID, no component is
  longer than the 255 bytes of a file name, whatever the filter names are.
\<close>

theorem report_path_accepted:
  assumes path: "reportRelativePath w = Inr p"
    and nul: "CHR 0x00 \<notin> set (rw_tenant w)" "CHR 0x00 \<notin> set (rw_report w)"
    and short: "length (rw_report w) \<le> 36" "length (format_date [] kst_offset (rw_due w)) = 8"
      "length (format_clock [] kst_offset (rw_due w)) = 6"
  shows "validateRelativePath p = Inr p \<and> hd (components p) = rw_tenant w \<and> 4 \<le> length (components p) \<and>
    length (last (components p)) \<le> 255"
proof -
  obtain tail where ok: "validateRelativePath p = Inr p \<and> components p = month_dir w @ tail"
    and tail: "tail = [legacy_name w] \<or> tail = [rw_report w, file_name w]"
    using report_path_valid [OF path nul] by metis
  have "length (file_name w) \<le> 255"
    using reportFilterLabel_length [of "rw_notices w"] short(2) by (simp add: file_name_def label_report_def)
  moreover have "length (legacy_name w) \<le> 255" using short by (simp add: legacy_name_def Let_def)
  ultimately have "length (last (components p)) \<le> 255" using ok tail by auto
  moreover have "hd (components p) = rw_tenant w" "4 \<le> length (components p)"
    using ok tail by (auto simp: month_dir_def)
  ultimately show ?thesis using ok by blast
qed

definition sample_work :: report_work where
  "sample_work = \<lparr>rw_report = ''r1'', rw_tenant = ''t1'', rw_tenant_name = ''one'', rw_schedule = ''s1'',
     rw_schedule_name = ''daily'', rw_trigger = ''scheduled'', rw_path = [], rw_token = ''k'',
     rw_due = 738000 * day_ns, rw_end = 738000 * day_ns, rw_start = None, rw_attempts = 1, rw_notices = []\<rparr>"

theorem report_path_accepted_witness:
  "\<exists>p. reportRelativePath sample_work = Inr p \<and> validateRelativePath p = Inr p \<and> hd (components p) = ''t1''"
proof -
  have "safeReportPathID (rw_tenant sample_work)" "safeReportPathID (rw_report sample_work)"
    "\<not> is_zero (rw_due sample_work)" "rw_trigger sample_work = ''scheduled''"
    by (simp_all add: sample_work_def safeReportPathID_def contains_any_def is_zero_def)
  then have "\<exists>p. reportRelativePath sample_work = Inr p" by (simp add: reportRelativePath_def Let_def)
  then obtain p where p: "reportRelativePath sample_work = Inr p" by blast
  have f: "rw_tenant sample_work = ''t1''" "rw_report sample_work = ''r1''" by (simp_all add: sample_work_def)
  have "day_in kst_offset (rw_due sample_work) = 738000"
    by (simp add: sample_work_def day_in_def kst_offset_def)
  moreover have "civil 738000 = (2021, 7, 30)" by code_simp
  ultimately have civ: "civil (day_in kst_offset (rw_due sample_work)) = (2021, 7, 30)" by simp
  have clk: "clock_of kst_offset (rw_due sample_work) = (9, 0, 0)"
    by (simp add: sample_work_def clock_of_def kst_offset_def Let_def)
  have d: "length (format_date [] kst_offset (rw_due sample_work)) = 8"
    "length (format_clock [] kst_offset (rw_due sample_work)) = 6"
    by (simp_all add: format_date_def format_clock_def civ clk) (simp_all add: pad_def show_int_def show_nat.simps)
  from report_path_accepted [OF p _ _ _ d] p f show ?thesis by auto
qed

end
