(* ===== verification/Report_Table.thy ===== *)
theory Report_Table
  imports Report_Model Pg_Collector
begin

text \<open>
  internal/app/postgres_report.go, report_delete.go and postgres_report_runs.go: reports are claimed
  under a fencing token with a lease of fifteen minutes, one scheduled report per schedule and due
  time; the claim takes a snapshot of the matches, and the holder finalizes it as generated, which
  closes the digest window and advances the schedule, or as failed. Each \<open>tx\<close> function is a
  statement list on the tables; the exported method runs it in one tenant transaction.
\<close>

section \<open>Schedules\<close>

record report_schedule =
  rs_name :: string
  rs_sched :: digest_schedule

definition scheduled_for :: "string \<Rightarrow> string \<Rightarrow> time \<Rightarrow> report_row \<Rightarrow> bool" where
  "scheduled_for tenantID scheduleID dueAt r \<longleftrightarrow>
     rp_tenant r = tenantID \<and> rp_schedule r = Some scheduleID \<and> rp_due r = dueAt \<and> rp_trigger r = ''scheduled''"

definition lease_expired :: "time \<Rightarrow> report_row \<Rightarrow> bool" where
  "lease_expired now r \<longleftrightarrow> rp_status r = RGenerating \<and>
     (case rp_claimed r of None \<Rightarrow> False | Some c \<Rightarrow> c < now - lease_ns)"

text \<open>The condition under which a report may be claimed again.\<close>

definition reclaimable :: "time \<Rightarrow> report_row \<Rightarrow> bool" where
  "reclaimable now r \<longleftrightarrow> rp_deleted r = None \<and> rp_attempts r < 3 \<and> (lease_expired now r \<or> rp_status r = RFailed)"

definition window_has_items :: "string \<Rightarrow> string \<Rightarrow> time \<Rightarrow> time \<Rightarrow> schema \<Rightarrow> bool" where
  "window_has_items tenantID scheduleID dueAt windowEnd t =
     list_ex (\<lambda>i. wi_tenant i = tenantID \<and> wi_schedule i = scheduleID \<and> wi_due i = dueAt \<and> wi_end i = windowEnd)
       (window_items t)"

text \<open>The latest completed window whose report is missing or may be claimed again.\<close>

definition completed_candidates :: "string \<Rightarrow> string \<Rightarrow> time \<Rightarrow> schema \<Rightarrow> window_row list" where
  "completed_candidates tenantID scheduleID clk t =
     sort_key (\<lambda>w. - w_due w)
       (filter (\<lambda>w. w_tenant w = tenantID \<and> w_schedule w = scheduleID \<and> w_status w = WCompleted \<and>
          window_has_items tenantID scheduleID (w_due w) (w_end w) t \<and>
          list_all (reclaimable clk) (filter (scheduled_for tenantID scheduleID (w_due w)) (reports t)))
        (windows t))"

definition first_row :: "'a list \<Rightarrow> 'a option" where
  "first_row xs = (case xs of [] \<Rightarrow> None | x # _ \<Rightarrow> Some x)"

definition with_pending :: "window_row \<Rightarrow> report_schedule \<Rightarrow> report_schedule" where
  "with_pending w s = s\<lparr>rs_sched := (rs_sched s)\<lparr>ds_pending_due := w_due w, ds_pending_end := w_end w\<rparr>\<rparr>"

definition load_report_pending :: "dbenv \<Rightarrow> string \<Rightarrow> report_schedule \<Rightarrow> (schema, report_schedule) sql" where
  "load_report_pending E tenantID s =
     (let i = ds_id (rs_sched s) in
      sql_bind (sql_wrap (''query completed report window for schedule '' @ i)
        (sql_stmt E (\<lambda>n t. Inr (first_row (completed_candidates tenantID i (clock_at E n) t), t)))) (\<lambda>w.
      case w of
        Some w \<Rightarrow> sql_return (with_pending w s)
      | None \<Rightarrow>
          sql_bind (sql_wrap (''query pending report window for schedule '' @ i)
            (sql_query E (\<lambda>t. find (\<lambda>w. w_tenant w = tenantID \<and> w_schedule w = i \<and> w_status w = WPending) (windows t)))) (\<lambda>p.
          sql_return (case p of None \<Rightarrow> s | Some w \<Rightarrow> with_pending w s))))"

fun load_report_pendings :: "dbenv \<Rightarrow> string \<Rightarrow> report_schedule list \<Rightarrow> (schema, report_schedule list) sql" where
  "load_report_pendings E tenantID [] = sql_return []"
| "load_report_pendings E tenantID (s # ss) =
     sql_bind (load_report_pending E tenantID s) (\<lambda>s'.
     sql_bind (load_report_pendings E tenantID ss) (\<lambda>ss'. sql_return (s' # ss')))"

definition loadReportSchedules :: "dbenv \<Rightarrow> string \<Rightarrow> (schema, report_schedule list) sql" where
  "loadReportSchedules E tenantID =
     sql_bind (sql_wrap ''query report schedules'' (sql_query E (\<lambda>t.
        map (\<lambda>s. \<lparr>rs_name = s_name s, rs_sched = schedule_of_row s\<rparr>) (enabled_schedules tenantID t))))
       (load_report_pendings E tenantID)"

section \<open>Snapshots\<close>

definition source_kind :: string where
  "source_kind =
     [CHR 0xEC, CHR 0x9E, CHR 0x85, CHR 0xEC, CHR 0xB0, CHR 0xB0, CHR 0xEA, CHR 0xB3, CHR 0xB5,
      CHR 0xEA, CHR 0xB3, CHR 0xA0, CHR 0xEB, CHR 0xAA, CHR 0xA9, CHR 0xEB, CHR 0xA1, CHR 0x9D,
      CHR 0x2D, CHR 0xEC, CHR 0x9E, CHR 0x85, CHR 0xEC, CHR 0xB0, CHR 0xB0, CHR 0xEA, CHR 0xB3,
      CHR 0xB5, CHR 0xEA, CHR 0xB3, CHR 0xA0]"

definition manual_name :: string where
  "manual_name =
     [CHR 0xEC, CHR 0x88, CHR 0x98, CHR 0xEB, CHR 0x8F, CHR 0x99]"

text \<open>A row to be inserted: everything but report and ordinal. A payload that does not decode makes
  the statement fail.\<close>

definition snapshot_row ::
  "string \<Rightarrow> notice \<Rightarrow> notice_row \<Rightarrow> string \<Rightarrow> string \<Rightarrow> string \<Rightarrow> string \<Rightarrow> json \<Rightarrow> time \<Rightarrow> report_item" where
  "snapshot_row tenantID p n matchID title url ruleName reasons recorded =
     \<lparr>ri_tenant = tenantID, ri_report = [], ri_ordinal = 0, ri_match = matchID, ri_notice = nr_id n, ri_title = title,
      ri_category = n_category p, ri_agency = n_agency p, ri_region = n_region p, ri_amount = n_amount p,
      ri_deadline = (case nr_deadline n of None \<Rightarrow> 0 | Some dl \<Rightarrow> dl), ri_url = url, ri_rule_name = ruleName,
      ri_reasons = reasons, ri_source_kind = Some source_kind, ri_posted = nr_published n,
      ri_collected = Some (nr_collected n), ri_recorded = Some recorded\<rparr>"

text \<open>The filter name of a match, as the two left joins give it.\<close>

definition rule_name_of :: "string \<Rightarrow> string \<Rightarrow> schema \<Rightarrow> string" where
  "rule_name_of tenantID matchID t =
     (case find (\<lambda>m. m_tenant m = tenantID \<and> m_id m = matchID) (matches t) of
        None \<Rightarrow> []
      | Some m \<Rightarrow>
         (case find (\<lambda>f. f_tenant f = m_tenant m \<and> f_id f = m_filter m) (filters t) of
            None \<Rightarrow> [] | Some f \<Rightarrow> f_name f))"

definition item_key :: "(string \<Rightarrow> string) \<Rightarrow> notice_row \<times> report_item \<Rightarrow> (bool \<times> int) \<times> string \<times> string \<times> time \<times> string" where
  "item_key collate = (\<lambda>(n, i). (published_key n, collate (ri_title i), ri_notice i,
     (case ri_recorded i of None \<Rightarrow> 0 | Some r \<Rightarrow> r), ri_match i))"

definition scheduled_rows ::
  "(string \<Rightarrow> string) \<Rightarrow> string \<Rightarrow> string \<Rightarrow> time \<Rightarrow> time \<Rightarrow> schema \<Rightarrow> report_item option list" where
  "scheduled_rows collate tenantID scheduleID dueAt windowEnd t =
     (let joined = concat (map (\<lambda>i. map (\<lambda>n. (i, n)) (filter (\<lambda>n. nr_id n = wi_notice i) (notices t)))
            (filter (\<lambda>i. wi_tenant i = tenantID \<and> wi_schedule i = scheduleID \<and> wi_due i = dueAt \<and> wi_end i = windowEnd)
               (window_items t)))
      in if list_all (\<lambda>(i, n). nr_payload n \<noteq> None) joined
         then map Some (map snd (sort_key (item_key collate)
                (map (\<lambda>(i, n). (n, snapshot_row tenantID (the (nr_payload n)) n (wi_match i) (wi_title i) (wi_url i)
                       (rule_name_of tenantID (wi_match i) t) (wi_reasons i) (wi_matched i))) joined)))
         else [None])"

definition manual_rows :: "(string \<Rightarrow> string) \<Rightarrow> string \<Rightarrow> time \<Rightarrow> schema \<Rightarrow> report_item option list" where
  "manual_rows collate tenantID now t =
     (let joined = filter (\<lambda>(m, f, n). row_open now n) (enabled_matches tenantID t)
      in if list_all (\<lambda>(m, f, n). nr_payload n \<noteq> None) joined
         then map Some (map snd (sort_key (item_key collate)
                (map (\<lambda>(m, f, n). (n, snapshot_row tenantID (the (nr_payload n)) n (m_id m) (nr_title n) (row_source_url n)
                       (f_name f) (m_reasons m) (m_created m))) joined)))
         else [None])"

text \<open>The constraints of \<open>report_items\<close> on a new row.\<close>

definition item_violation :: "report_item \<Rightarrow> report_item list \<Rightarrow> goerr option" where
  "item_violation i items =
     (if ri_category i \<notin> {CategoryConstruction, CategoryService, CategoryGoods, CategoryForeign}
      then Some (ErrText ''report_items_category_check'')
      else if ri_amount i < 0 then Some (ErrText ''report_items_amount_check'')
      else if list_ex (\<lambda>x. ri_tenant x = ri_tenant i \<and> ri_report x = ri_report i \<and> ri_ordinal x = ri_ordinal i) items
      then Some (ErrText ''report_items_tenant_id_report_id_ordinal_key'')
      else None)"

definition same_item :: "report_item \<Rightarrow> report_item \<Rightarrow> bool" where
  "same_item i x \<longleftrightarrow> ri_tenant x = ri_tenant i \<and> ri_report x = ri_report i \<and> ri_match x = ri_match i"

text \<open>Insert in order; \<open>skip\<close> is \<open>ON CONFLICT (tenant_id, report_id, match_id) DO NOTHING\<close>. The
  result counts the rows inserted.\<close>

fun insert_items :: "bool \<Rightarrow> string \<Rightarrow> int \<Rightarrow> report_item option list \<Rightarrow> report_item list \<Rightarrow> goerr + nat \<times> report_item list" where
  "insert_items skip reportID k [] items = Inr (0, items)"
| "insert_items skip reportID k (None # rs) items = Inl (ErrText ''invalid input syntax'')"
| "insert_items skip reportID k (Some r # rs) items =
     (let i = r\<lparr>ri_report := reportID, ri_ordinal := k\<rparr>
      in if list_ex (same_item i) items then
           (if skip then insert_items skip reportID (k + 1) rs items
            else Inl (ErrText ''report_items_tenant_id_report_id_match_id_key''))
         else case item_violation i items of
           Some e \<Rightarrow> Inl e
         | None \<Rightarrow>
            (case insert_items skip reportID (k + 1) rs (items @ [i]) of
               Inl e \<Rightarrow> Inl e | Inr (c, out) \<Rightarrow> Inr (Suc c, out)))"

definition snapshot_stmt :: "dbenv \<Rightarrow> bool \<Rightarrow> string \<Rightarrow> (schema \<Rightarrow> report_item option list) \<Rightarrow> (schema, nat) sql" where
  "snapshot_stmt E skip reportID rowsf =
     sql_stmt E (\<lambda>n t. case insert_items skip reportID 1 (rowsf t) (report_items t) of
        Inl e \<Rightarrow> Inl e | Inr (c, items) \<Rightarrow> Inr (c, t\<lparr>report_items := items\<rparr>))"

section \<open>Loading the notices of a report\<close>

fun keywords_loop :: "match_detail list \<Rightarrow> string list \<Rightarrow> string list" where
  "keywords_loop [] ks = ks"
| "keywords_loop (d # ds) ks =
     keywords_loop ds
       (if md_code d = reason_code ReasonIncludeAny \<or> md_code d = reason_code ReasonIncludeAll
        then appendUnique ks (md_rule_value d) else ks)"

definition matchedKeywords :: "stored_match_reasons \<Rightarrow> string list" where
  "matchedKeywords payload = keywords_loop (sm_details payload) []"

definition notice_of_item :: "report_item \<Rightarrow> report_notice" where
  "notice_of_item i =
     \<lparr>rn_id = ri_notice i, rn_title = ri_title i, rn_category = ri_category i, rn_agency = ri_agency i,
      rn_region = ri_region i, rn_url = ri_url i,
      rn_source_kind = (case ri_source_kind i of None \<Rightarrow> [] | Some k \<Rightarrow> k), rn_keywords = [],
      rn_amount = ri_amount i, rn_deadline = ri_deadline i,
      rn_posted = (case ri_posted i of None \<Rightarrow> 0 | Some p \<Rightarrow> p),
      rn_collected = (case ri_collected i of None \<Rightarrow> 0 | Some c \<Rightarrow> c),
      rn_recorded = (case ri_recorded i of None \<Rightarrow> 0 | Some r \<Rightarrow> r), rn_matches = []\<rparr>"

definition add_match :: "string \<Rightarrow> stored_match_reasons \<Rightarrow> report_notice \<Rightarrow> report_notice" where
  "add_match ruleName reasons n =
     n\<lparr>rn_keywords := foldl appendUnique (rn_keywords n) (matchedKeywords reasons),
       rn_matches := rn_matches n @ [\<lparr>rm_rule_name = ruleName, rm_reasons = readableMatchReasons reasons\<rparr>]\<rparr>"

text \<open>One row: the first row of a notice appends an entry, every row adds its match to it.\<close>

definition load_item :: "report_item \<Rightarrow> stored_match_reasons \<Rightarrow> report_notice list \<Rightarrow> report_notice list" where
  "load_item i reasons ns =
     (let ns' = (if list_ex (\<lambda>n. rn_id n = ri_notice i) ns then ns else ns @ [notice_of_item i])
      in map (\<lambda>n. if rn_id n = ri_notice i then add_match (ri_rule_name i) reasons n else n) ns')"

fun load_items :: "report_item list \<Rightarrow> report_notice list \<Rightarrow> goerr + report_notice list" where
  "load_items [] ns = Inr ns"
| "load_items (i # is) ns =
     (case unmarshal_reasons (ri_reasons i) of
        None \<Rightarrow> Inl (ErrText ''decode report item reasons'')
      | Some reasons \<Rightarrow> load_items is (load_item i reasons ns))"

definition items_of_report :: "string \<Rightarrow> string \<Rightarrow> schema \<Rightarrow> report_item list" where
  "items_of_report tenantID reportID t =
     sort_key ri_ordinal (filter (\<lambda>i. ri_tenant i = tenantID \<and> ri_report i = reportID) (report_items t))"

definition loadReportNotices :: "dbenv \<Rightarrow> report_work \<Rightarrow> (schema, report_work) sql" where
  "loadReportNotices E work =
     sql_bind (sql_wrap ''query report items'' (sql_query E (items_of_report (rw_tenant work) (rw_report work)))) (\<lambda>is.
     sql_bind (sql_lift (load_items is (rw_notices work))) (\<lambda>ns. sql_return (work\<lparr>rw_notices := ns\<rparr>)))"

end
