(* ===== verification/Report_Claim.thy ===== *)
theory Report_Claim
  imports Report_Table
begin

text \<open>
  The operations of internal/app/postgres_report.go on one report, internal/app/report_delete.go and
  the run records of internal/app/postgres_report_runs.go, over the tables and snapshots of
  \<open>Report_Table\<close>.
\<close>

section \<open>Claims\<close>

definition work_of_row :: "report_row \<Rightarrow> report_work" where
  "work_of_row r =
     \<lparr>rw_report = rp_id r, rw_tenant = rp_tenant r, rw_tenant_name = rp_tenant_name r,
      rw_schedule = (case rp_schedule r of None \<Rightarrow> [] | Some s \<Rightarrow> s), rw_schedule_name = rp_schedule_name r,
      rw_trigger = rp_trigger r, rw_path = rp_path r, rw_token = (case rp_token r of None \<Rightarrow> [] | Some k \<Rightarrow> k),
      rw_due = rp_due r, rw_end = rp_end r, rw_start = rp_start r, rw_attempts = rp_attempts r, rw_notices = []\<rparr>"

definition placeholder_path :: "string \<Rightarrow> string \<Rightarrow> string" where
  "placeholder_path tenantID reportID = ''reports/'' @ tenantID @ ''/'' @ reportID @ ''.html''"

definition blank_name :: "string \<Rightarrow> bool" where
  "blank_name s = list_all (\<lambda>c. c = CHR '' '') s"

text \<open>The constraints of \<open>reports\<close> on a new row.\<close>

definition report_violation :: "report_row \<Rightarrow> schema \<Rightarrow> goerr option" where
  "report_violation r t =
     (if (case rp_start r of None \<Rightarrow> False | Some s \<Rightarrow> rp_end r < s) then Some (ErrText ''reports_check'')
      else if blank_name (rp_tenant_name r) then Some (ErrText ''reports_tenant_name_nonblank'')
      else if blank_name (rp_schedule_name r) then Some (ErrText ''reports_schedule_name_nonblank'')
      else if list_ex (\<lambda>x. rp_id x = rp_id r) (reports t) then Some (ErrText ''reports_pkey'')
      else (case rp_schedule r of
              None \<Rightarrow> None
            | Some s \<Rightarrow> if list_ex (is_window (rp_tenant r) s (rp_due r) (rp_end r)) (windows t) then None
                        else Some (ErrText ''reports_digest_window_fk'')))"

definition new_report ::
  "string \<Rightarrow> string option \<Rightarrow> time \<Rightarrow> time option \<Rightarrow> time \<Rightarrow> string \<Rightarrow> string \<Rightarrow> string \<Rightarrow> string \<Rightarrow> string \<Rightarrow> time \<Rightarrow> report_row" where
  "new_report tenantID scheduleID dueAt windowStart windowEnd tenantName scheduleName trigger i tok now =
     \<lparr>rp_tenant = tenantID, rp_id = i, rp_schedule = scheduleID, rp_due = dueAt, rp_start = windowStart, rp_end = windowEnd,
      rp_tenant_name = tenantName, rp_schedule_name = scheduleName, rp_trigger = trigger, rp_status = RGenerating,
      rp_path = placeholder_path tenantID i, rp_sha = [], rp_count = 0, rp_attempts = 1, rp_error = None,
      rp_token = Some tok, rp_claimed = Some now, rp_generated = None, rp_deleted = None\<rparr>"

text \<open>A report taken again: by lease expiry or after a failure it counts an attempt, by a manual retry
  it starts counting anew.\<close>

definition claim_again :: "time \<Rightarrow> string \<Rightarrow> report_row \<Rightarrow> report_row" where
  "claim_again now tok r =
     r\<lparr>rp_status := RGenerating, rp_attempts := rp_attempts r + 1, rp_token := Some tok, rp_claimed := Some now,
       rp_error := None\<rparr>"

definition claim_anew :: "time \<Rightarrow> string \<Rightarrow> report_row \<Rightarrow> report_row" where
  "claim_anew now tok r =
     r\<lparr>rp_status := RGenerating, rp_attempts := 1, rp_token := Some tok, rp_claimed := Some now, rp_error := None\<rparr>"

definition upsert_report ::
  "dbenv \<Rightarrow> string \<Rightarrow> string \<Rightarrow> report_schedule \<Rightarrow> time \<Rightarrow> time \<Rightarrow> time \<Rightarrow> nat \<Rightarrow> schema \<Rightarrow> goerr + report_work option \<times> schema" where
  "upsert_report E tenantID tenantName s dueAt windowEnd now n t =
     (let i = ds_id (rs_sched s);
          start = (if is_zero (ds_last_success (rs_sched s)) then None else Some (ds_last_success (rs_sched s)));
          new = new_report tenantID (Some i) dueAt start windowEnd tenantName (rs_name s) ''scheduled''
                  (uuid_at E n 0) (uuid_at E n 1) now
      in case find (scheduled_for tenantID i dueAt) (reports t) of
           Some r \<Rightarrow>
             if reclaimable now r
             then Inr (Some (work_of_row (claim_again now (uuid_at E n 2) r)),
                       t\<lparr>reports := update_where ((=) r) (claim_again now (uuid_at E n 2)) (reports t)\<rparr>)
             else Inr (None, t)
         | None \<Rightarrow>
             (case report_violation new t of
                Some e \<Rightarrow> Inl e
              | None \<Rightarrow> Inr (Some (work_of_row new), t\<lparr>reports := reports t @ [new]\<rparr>)))"

definition snapshot_state :: "string \<Rightarrow> string \<Rightarrow> time \<Rightarrow> time \<Rightarrow> schema \<Rightarrow> bool \<times> bool" where
  "snapshot_state tenantID scheduleID dueAt windowEnd t =
     (window_has_items tenantID scheduleID dueAt windowEnd t,
      list_ex (\<lambda>r. scheduled_for tenantID scheduleID dueAt r \<and> rp_deleted r \<noteq> None) (reports t))"

definition claimScheduledReport ::
  "dbenv \<Rightarrow> (string \<Rightarrow> string) \<Rightarrow> time \<Rightarrow> string \<Rightarrow> string \<Rightarrow> report_schedule \<Rightarrow> time \<Rightarrow> time \<Rightarrow> time \<Rightarrow> (schema, report_work option) sql" where
  "claimScheduledReport E collate txnow tenantID tenantName s dueAt windowEnd now =
     (let i = ds_id (rs_sched s) in
      sql_bind (sql_wrap ''check scheduled report snapshot'' (sql_query E (snapshot_state tenantID i dueAt windowEnd))) (\<lambda>(hasItems, deleted).
      if deleted \<or> \<not> hasItems then
        sql_bind (completeNoopDigestWindow E tenantID i dueAt windowEnd txnow) (\<lambda>_. sql_return None)
      else
        sql_bind (sql_wrap ''scan claimed report'' (sql_stmt E (upsert_report E tenantID tenantName s dueAt windowEnd now))) (\<lambda>claimed.
        case claimed of
          None \<Rightarrow> sql_return None
        | Some work \<Rightarrow>
            sql_bind (sql_wrap ''snapshot scheduled report items''
               (snapshot_stmt E True (rw_report work) (scheduled_rows collate tenantID i dueAt windowEnd))) (\<lambda>_.
            sql_bind (loadReportNotices E work) (\<lambda>w. sql_return (Some w))))))"

fun refresh_filters ::
  "dbenv \<Rightarrow> text_env \<Rightarrow> time \<Rightarrow> time \<Rightarrow> active_notice list \<Rightarrow> stored_filter list \<Rightarrow> (schema, unit) sql" where
  "refresh_filters E T txnow now as [] = sql_return ()"
| "refresh_filters E T txnow now as (f # fs) =
     sql_bind (refreshFilterMatches E T txnow now f as) (\<lambda>_. refresh_filters E T txnow now as fs)"

definition tenant_name_of :: "dbenv \<Rightarrow> string \<Rightarrow> (schema, string) sql" where
  "tenant_name_of E tenantID =
     sql_wrap ''load manual report tenant''
       (sql_bind (sql_query E (\<lambda>t. map_of (tenants t) tenantID)) (\<lambda>n.
        case n of None \<Rightarrow> sql_fail (Sentinel ErrNoRows) | Some name \<Rightarrow> sql_return name))"

definition insert_manual ::
  "dbenv \<Rightarrow> string \<Rightarrow> string \<Rightarrow> time \<Rightarrow> nat \<Rightarrow> schema \<Rightarrow> goerr + report_work \<times> schema" where
  "insert_manual E tenantID tenantName now n t =
     (let new = new_report tenantID None now None now tenantName manual_name ''manual'' (uuid_at E n 0) (uuid_at E n 1) now
      in case report_violation new t of
           Some e \<Rightarrow> Inl e | None \<Rightarrow> Inr (work_of_row new, t\<lparr>reports := reports t @ [new]\<rparr>))"

definition claimManualReport ::
  "dbenv \<Rightarrow> text_env \<Rightarrow> (string \<Rightarrow> string) \<Rightarrow> time \<Rightarrow> string \<Rightarrow> time \<Rightarrow> (schema, report_work option) sql" where
  "claimManualReport E T collate txnow tenantID now =
     sql_bind (loadActiveNotices E T now) (\<lambda>as.
     sql_bind (loadEnabledFilters E tenantID) (\<lambda>fs.
     sql_bind (refresh_filters E T txnow now as fs) (\<lambda>_.
     sql_bind (tenant_name_of E tenantID) (\<lambda>tenantName.
     sql_bind (sql_wrap ''check manual report matches''
        (sql_query E (\<lambda>t. list_ex (\<lambda>(m, f, n). row_open now n) (enabled_matches tenantID t)))) (\<lambda>hasMatches.
     if \<not> hasMatches then sql_return None
     else
       sql_bind (sql_wrap ''scan claimed report'' (sql_stmt E (insert_manual E tenantID tenantName now))) (\<lambda>work.
       sql_bind (sql_wrap ''snapshot manual report items''
          (snapshot_stmt E False (rw_report work) (manual_rows collate tenantID now))) (\<lambda>count.
       if count = 0 then sql_fail (ErrText ''manual report snapshot disappeared during claim'')
       else sql_bind (loadReportNotices E work) (\<lambda>w. sql_return (Some w)))))))))"

text \<open>The update of the one row a condition selects, with the row it returns.\<close>

definition claim_where ::
  "(report_row \<Rightarrow> bool) \<Rightarrow> (report_row \<Rightarrow> report_row) \<Rightarrow> schema \<Rightarrow> report_work option \<times> schema" where
  "claim_where P f t =
     (map_option (\<lambda>r. work_of_row (f r)) (find P (reports t)), t\<lparr>reports := update_where P f (reports t)\<rparr>)"

definition scanAndLoadReport :: "dbenv \<Rightarrow> (schema, report_work option) sql \<Rightarrow> (schema, report_work option) sql" where
  "scanAndLoadReport E row =
     sql_bind (sql_wrap ''scan claimed report'' row) (\<lambda>claimed.
     case claimed of
       None \<Rightarrow> sql_return None
     | Some work \<Rightarrow> sql_bind (loadReportNotices E work) (\<lambda>w. sql_return (Some w)))"

definition report_key :: "string \<Rightarrow> string \<Rightarrow> report_row \<Rightarrow> bool" where
  "report_key tenantID reportID r \<longleftrightarrow> rp_tenant r = tenantID \<and> rp_id r = reportID"

definition reclaimReport :: "dbenv \<Rightarrow> string \<Rightarrow> string \<Rightarrow> (schema, report_work option) sql" where
  "reclaimReport E tenantID reportID =
     scanAndLoadReport E (sql_stmt E (\<lambda>n t.
       Inr (claim_where (\<lambda>r. report_key tenantID reportID r \<and> reclaimable (clock_at E n) r)
              (claim_again (clock_at E n) (uuid_at E n 0)) t)))"

definition retryReport :: "dbenv \<Rightarrow> string \<Rightarrow> string \<Rightarrow> time \<Rightarrow> (schema, report_work option) sql" where
  "retryReport E tenantID reportID now =
     scanAndLoadReport E (sql_stmt E (\<lambda>n t.
       Inr (claim_where (\<lambda>r. report_key tenantID reportID r \<and> rp_deleted r = None \<and> rp_status r = RFailed)
              (claim_anew now (uuid_at E n 0)) t)))"

section \<open>Finalization\<close>

definition held_report :: "report_work \<Rightarrow> report_row \<Rightarrow> bool" where
  "held_report w r \<longleftrightarrow> report_key (rw_tenant w) (rw_report w) r \<and> rp_status r = RGenerating \<and>
     rp_token r = Some (rw_token w) \<and> rp_attempts r = rw_attempts w"

definition validateReportArtifact :: "report_work \<Rightarrow> report_artifact \<Rightarrow> time \<Rightarrow> goerr option" where
  "validateReportArtifact w a generatedAt =
     (if rw_report w = [] \<or> rw_tenant w = [] \<or> rw_token w = [] \<or> rw_attempts w < 1 \<or> is_zero generatedAt
      then Some (ErrText ''claimed report and generation time are required'')
      else if ra_path a = [] \<or> ra_path a \<noteq> rw_path w \<or> trim_space (ra_sha a) = [] \<or> ra_count a < 0
      then Some (ErrText ''report artifact does not match the claimed path'')
      else None)"

definition mark_generated :: "report_artifact \<Rightarrow> time \<Rightarrow> report_row \<Rightarrow> report_row" where
  "mark_generated a generatedAt r =
     r\<lparr>rp_status := RGenerated, rp_path := ra_path a, rp_sha := ra_sha a, rp_count := ra_count a,
       rp_generated := Some generatedAt, rp_error := None\<rparr>"

definition stale_claim :: goerr where
  "stale_claim = ErrText ''report claim is stale or already finalized''"

text \<open>Closing the window and advancing the schedule; the result is the number of schedules advanced.\<close>

definition complete_report_window :: "report_work \<Rightarrow> time \<Rightarrow> schema \<Rightarrow> nat \<times> schema" where
  "complete_report_window w generatedAt t =
     (let target = filter (is_window (rw_tenant w) (rw_schedule w) (rw_due w) (rw_end w)) (windows t);
          eligible = list_ex (\<lambda>x. w_status x = WPending \<or> w_status x = WCompleted) target
      in if eligible
         then (affected (\<lambda>s. s_tenant s = rw_tenant w \<and> s_id s = rw_schedule w) (schedules t),
               update_schedule (rw_tenant w) (rw_schedule w) (rw_end w)
                 (close_window (rw_tenant w) (rw_schedule w) (rw_due w) (rw_end w) WCompleted generatedAt t))
         else (0, t))"

definition finalizeReport :: "dbenv \<Rightarrow> report_work \<Rightarrow> report_artifact \<Rightarrow> time \<Rightarrow> (schema, unit) sql" where
  "finalizeReport E w a generatedAt =
     sql_bind (sql_wrap ''finalize report'' (sql_stmt E (\<lambda>n t. Inr (affected (held_report w) (reports t),
        t\<lparr>reports := update_where (held_report w) (mark_generated a generatedAt) (reports t)\<rparr>)))) (\<lambda>count.
     if count \<noteq> 1 then sql_fail stale_claim
     else if rw_trigger w \<noteq> ''scheduled'' then sql_return ()
     else
       sql_bind (sql_wrap ''complete scheduled report window''
          (sql_stmt E (\<lambda>n t. Inr (complete_report_window w generatedAt t)))) (\<lambda>advanced.
       if advanced \<noteq> 1 then sql_fail (ErrText ''scheduled report window is missing or already completed'')
       else sql_return ()))"

definition mark_report_failed :: "string \<Rightarrow> report_row \<Rightarrow> report_row" where
  "mark_report_failed msg r = r\<lparr>rp_status := RFailed, rp_error := Some msg\<rparr>"

definition finalizeReportFailure :: "dbenv \<Rightarrow> report_work \<Rightarrow> goerr \<Rightarrow> (schema, unit) sql" where
  "finalizeReportFailure E w err =
     sql_bind (sql_wrap ''finalize report failure'' (sql_stmt E (\<lambda>n t. Inr (affected (held_report w) (reports t),
        t\<lparr>reports := update_where (held_report w) (mark_report_failed (show_error err)) (reports t)\<rparr>)))) (\<lambda>count.
     if count \<noteq> 1 then sql_fail stale_claim else sql_return ())"

section \<open>The repository\<close>

definition tenant_schedule_report ::
  "dbenv \<Rightarrow> bool \<Rightarrow> (string \<Rightarrow> string) \<Rightarrow> time \<Rightarrow> string \<Rightarrow> string \<Rightarrow> time \<Rightarrow> report_schedule \<Rightarrow> (schema, report_work list) sql" where
  "tenant_schedule_report E tz collate txnow tenantID tenantName now s =
     (let ds = rs_sched s in
      if ds_timezone ds \<noteq> ''Asia/Seoul'' then
        sql_fail (ErrText (''schedule '' @ ds_id ds @ '' has unsupported timezone''))
      else case selectDigestWindow tz now ds of
        None \<Rightarrow> sql_return []
      | Some (dueAt, pendingEnd, existing) \<Rightarrow>
          sql_bind (if existing then sql_return pendingEnd
                    else sql_wrap (''fix schedule '' @ ds_id ds @ '' report window'')
                      (getOrCreateDigestWindow E tenantID (ds_id ds) dueAt now (ds_last_success ds))) (\<lambda>windowEnd.
          sql_bind (sql_wrap (''claim schedule '' @ ds_id ds @ '' report'')
                      (claimScheduledReport E collate txnow tenantID tenantName s dueAt windowEnd now)) (\<lambda>work.
          sql_return (case work of None \<Rightarrow> [] | Some w \<Rightarrow> [w]))))"

fun tenant_schedule_reports ::
  "dbenv \<Rightarrow> bool \<Rightarrow> (string \<Rightarrow> string) \<Rightarrow> time \<Rightarrow> string \<Rightarrow> string \<Rightarrow> time \<Rightarrow> report_schedule list \<Rightarrow> (schema, report_work list) sql" where
  "tenant_schedule_reports E tz collate txnow tenantID tenantName now [] = sql_return []"
| "tenant_schedule_reports E tz collate txnow tenantID tenantName now (s # ss) =
     sql_bind (tenant_schedule_report E tz collate txnow tenantID tenantName now s) (\<lambda>ws.
     sql_bind (tenant_schedule_reports E tz collate txnow tenantID tenantName now ss) (\<lambda>rest. sql_return (ws @ rest)))"

definition tenant_reports ::
  "dbenv \<Rightarrow> lockenv \<Rightarrow> bool \<Rightarrow> (string \<Rightarrow> string) \<Rightarrow> string \<Rightarrow> string \<Rightarrow> time \<Rightarrow> time \<Rightarrow> (schema, report_work list) sql" where
  "tenant_reports E L tz collate tenantID tenantName now txnow =
     sql_bind (sql_wrap ''wait for collection before report snapshot'' (tryCollectionLock E L)) (\<lambda>_.
     sql_bind (loadReportSchedules E tenantID) (tenant_schedule_reports E tz collate txnow tenantID tenantName now))"

fun ClaimDueReports_loop ::
  "dbenv \<Rightarrow> lockenv \<Rightarrow> bool \<Rightarrow> (string \<Rightarrow> string) \<Rightarrow> time \<Rightarrow> (string \<times> string) list \<Rightarrow> schema db \<Rightarrow>
   (report_work list res \<times> schema db) option" where
  "ClaimDueReports_loop E L tz collate now [] d = Some (Inr [], d)"
| "ClaimDueReports_loop E L tz collate now ((tenantID, name) # ts) d =
     (case withTenant E L tenantID (tenant_reports E L tz collate tenantID name now) d of
        None \<Rightarrow> None
      | Some (Inl e, d') \<Rightarrow> Some (Inl (ErrWrap (''claim tenant '' @ tenantID @ '' reports'') e), d')
      | Some (Inr ws, d') \<Rightarrow>
         (case ClaimDueReports_loop E L tz collate now ts d' of
            None \<Rightarrow> None
          | Some (Inl e, d'') \<Rightarrow> Some (Inl e, d'')
          | Some (Inr rest, d'') \<Rightarrow> Some (Inr (ws @ rest), d'')))"

definition ClaimDueReports ::
  "dbenv \<Rightarrow> lockenv \<Rightarrow> bool \<Rightarrow> (string \<Rightarrow> string) \<Rightarrow> time \<Rightarrow> schema db \<Rightarrow> (report_work list res \<times> schema db) option" where
  "ClaimDueReports E L tz collate now d =
     (if is_zero now then Some (Inl (ErrText ''report claim time is required''), d)
      else case tenantCatalog E d of
        (Inl e, d') \<Rightarrow> Some (Inl e, d')
      | (Inr ts, d') \<Rightarrow> ClaimDueReports_loop E L tz collate now ts d')"

definition ClaimManualReport ::
  "dbenv \<Rightarrow> lockenv \<Rightarrow> text_env \<Rightarrow> (string \<Rightarrow> string) \<Rightarrow> string \<Rightarrow> time \<Rightarrow> schema db \<Rightarrow>
   (report_work option res \<times> schema db) option" where
  "ClaimManualReport E L T collate tenantID now d =
     (if tenantID = [] \<or> is_zero now then Some (Inl (ErrText ''manual report requires tenant and claim time''), d)
      else withTenant E L tenantID (\<lambda>txnow.
             sql_bind (lockDigestSnapshot E L) (claimManualReport E T collate txnow tenantID)) d)"

text \<open>The operations below take no collection lock, so \<open>withTenant\<close> is one transaction
  (\<open>withTenant_once\<close>).\<close>

abbreviation one_tenant_tx :: "dbenv \<Rightarrow> lockenv \<Rightarrow> string \<Rightarrow> ('t, 'a) sql \<Rightarrow> ('t, 'a) sql" where
  "one_tenant_tx E L tenantID body \<equiv> tenant_once E L tenantID (\<lambda>now. body)"

definition ReclaimReport :: "dbenv \<Rightarrow> lockenv \<Rightarrow> string \<Rightarrow> string \<Rightarrow> (schema, report_work option) sql" where
  "ReclaimReport E L tenantID reportID = one_tenant_tx E L tenantID (reclaimReport E tenantID reportID)"

definition RetryReport :: "dbenv \<Rightarrow> lockenv \<Rightarrow> string \<Rightarrow> string \<Rightarrow> time \<Rightarrow> (schema, report_work option) sql" where
  "RetryReport E L tenantID reportID now =
     (if is_zero now then sql_fail (ErrText ''report retry time is required'')
      else one_tenant_tx E L tenantID (retryReport E tenantID reportID now))"

definition FinalizeReport :: "dbenv \<Rightarrow> lockenv \<Rightarrow> report_work \<Rightarrow> report_artifact \<Rightarrow> time \<Rightarrow> (schema, unit) sql" where
  "FinalizeReport E L w a generatedAt =
     (case validateReportArtifact w a generatedAt of
        Some e \<Rightarrow> sql_fail e
      | None \<Rightarrow> one_tenant_tx E L (rw_tenant w) (finalizeReport E w a generatedAt))"

definition FinalizeReportFailure :: "dbenv \<Rightarrow> lockenv \<Rightarrow> report_work \<Rightarrow> goerr option \<Rightarrow> (schema, unit) sql" where
  "FinalizeReportFailure E L w err =
     (case err of
        None \<Rightarrow> sql_fail (ErrText ''claimed report and failure are required'')
      | Some e \<Rightarrow>
         if rw_report w = [] \<or> rw_tenant w = [] \<or> rw_token w = [] \<or> rw_attempts w < 1
         then sql_fail (ErrText ''claimed report and failure are required'')
         else one_tenant_tx E L (rw_tenant w) (finalizeReportFailure E w e))"

text \<open>Work on a second store (the report files) inside the transaction, after the statements of
  \<open>pre\<close>: the second store is not rolled back.\<close>

definition tx_with ::
  "dbenv \<Rightarrow> lockenv \<Rightarrow> string \<Rightarrow> ('t, 'b) sql \<Rightarrow> ('b \<Rightarrow> 'f \<Rightarrow> 'a res \<times> 'f) \<Rightarrow> 't db \<times> 'f \<Rightarrow> 'a res \<times> ('t db \<times> 'f)" where
  "tx_with E L tenantID pre work = (\<lambda>(d, f).
     (if \<not> db_set E \<or> tenantID = [] then
        (Inl (ErrText ''tenant transaction requires a pool, tenant, and operation''), d, f)
      else case ctx_err L (tick d) of
        Some e \<Rightarrow> (Inl e, d, f)
      | None \<Rightarrow>
         (case sql_bind (sql_wrap ''begin tenant transaction'' (sql_call E)) (\<lambda>_.
               sql_bind (sql_wrap ''set tenant context'' (sql_call E)) (\<lambda>_. pre)) d of
            (Inl e, d1) \<Rightarrow> (Inl e, d1\<lparr>rows := rows d\<rparr>, f)
          | (Inr b, d1) \<Rightarrow>
             (case work b f of
                (Inl e, f1) \<Rightarrow> (Inl e, d1\<lparr>rows := rows d\<rparr>, f1)
              | (Inr a, f1) \<Rightarrow>
                 (case sql_wrap ''commit tenant transaction'' (sql_call E) d1 of
                    (Inl e, d2) \<Rightarrow> (Inl e, d2\<lparr>rows := rows d\<rparr>, f1)
                  | (Inr u, d2) \<Rightarrow> (Inr a, d2, f1))))))"

definition claim_active :: "report_work \<Rightarrow> report_row \<Rightarrow> bool" where
  "claim_active w r \<longleftrightarrow> report_key (rw_tenant w) (rw_report w) r \<and> rp_token r = Some (rw_token w) \<and>
     rp_status r = RGenerating \<and> rp_deleted r = None"

definition lock_claim :: "dbenv \<Rightarrow> report_work \<Rightarrow> (schema, unit) sql" where
  "lock_claim E w =
     sql_wrap ''lock active report claim''
       (sql_bind (sql_query E (\<lambda>t. list_ex (claim_active w) (reports t))) (\<lambda>found.
        if found then sql_return () else sql_fail (Sentinel ErrNoRows)))"

definition WithReportClaim ::
  "dbenv \<Rightarrow> lockenv \<Rightarrow> report_work \<Rightarrow> ('f \<Rightarrow> 'a res \<times> 'f) \<Rightarrow> schema db \<times> 'f \<Rightarrow> 'a res \<times> (schema db \<times> 'f)" where
  "WithReportClaim E L w action = tx_with E L (rw_tenant w) (lock_claim E w) (\<lambda>u. action)"

section \<open>Deletion\<close>

definition ErrReportNotFound :: string where "ErrReportNotFound = ''report is unavailable''"

text \<open>What deletion removes from the tables, and the path of the file: \<open>None\<close> when the report was
  deleted before.\<close>

definition deletion_path :: "string \<Rightarrow> string \<Rightarrow> report_row \<Rightarrow> string list \<Rightarrow> goerr + string" where
  "deletion_path tenantID reportID r names =
     (let p = (if rp_status r = RFailed \<and> rp_path r = placeholder_path tenantID reportID
               then reportRelativePath ((work_of_row r)\<lparr>rw_notices := map (\<lambda>n.
                      \<lparr>rn_id = [], rn_title = [], rn_category = [], rn_agency = [], rn_region = [], rn_url = [],
                       rn_source_kind = [], rn_keywords = [], rn_amount = 0, rn_deadline = 0, rn_posted = 0,
                       rn_collected = 0, rn_recorded = 0, rn_matches = [\<lparr>rm_rule_name = n, rm_reasons = []\<rparr>]\<rparr>) names\<rparr>)
               else Inr (rp_path r))
      in case p of
           Inl e \<Rightarrow> Inl e
         | Inr q \<Rightarrow> if has_prefix q (tenantID @ ''/'') then Inr q
                    else Inl (ErrText ''stored report path is outside its tenant''))"

definition filter_names :: "dbenv \<Rightarrow> string \<Rightarrow> string \<Rightarrow> report_row \<Rightarrow> (schema, string list) sql" where
  "filter_names E tenantID reportID r =
     (if rp_status r = RFailed \<and> rp_path r = placeholder_path tenantID reportID
      then sql_wrap ''load failed report filter names''
        (sql_query E (\<lambda>t. remdups (map ri_rule_name (filter (\<lambda>i. ri_tenant i = tenantID \<and> ri_report i = reportID) (report_items t)))))
      else sql_return [])"

definition mark_deleted :: "time \<Rightarrow> report_row \<Rightarrow> report_row" where
  "mark_deleted clk r = r\<lparr>rp_deleted := Some clk, rp_path := [], rp_sha := [], rp_error := None\<rparr>"

definition delete_rows :: "dbenv \<Rightarrow> string \<Rightarrow> string \<Rightarrow> (schema, unit) sql" where
  "delete_rows E tenantID reportID =
     sql_bind (sql_wrap ''mark report deleted'' (sql_stmt E (\<lambda>n t. Inr ((),
        t\<lparr>reports := update_where (report_key tenantID reportID) (mark_deleted (clock_at E n)) (reports t)\<rparr>)))) (\<lambda>_.
     sql_wrap ''delete report snapshot'' (sql_stmt E (\<lambda>n t. Inr ((),
        t\<lparr>report_items := filter (\<lambda>i. \<not> (ri_tenant i = tenantID \<and> ri_report i = reportID)) (report_items t)\<rparr>))))"

definition deleteReport_rows :: "dbenv \<Rightarrow> string \<Rightarrow> string \<Rightarrow> (schema, string option) sql" where
  "deleteReport_rows E tenantID reportID =
     sql_bind (sql_wrap ''lock report for deletion''
        (sql_query E (\<lambda>t. find (\<lambda>r. report_key tenantID reportID r \<and> rp_status r \<noteq> RGenerating) (reports t)))) (\<lambda>row.
     case row of
       None \<Rightarrow> sql_fail (Sentinel ErrReportNotFound)
     | Some r \<Rightarrow>
         if rp_deleted r \<noteq> None then sql_return None
         else
           sql_bind (filter_names E tenantID reportID r) (\<lambda>names.
           sql_bind (sql_lift (deletion_path tenantID reportID r names)) (\<lambda>p.
           sql_bind (delete_rows E tenantID reportID) (\<lambda>_. sql_return (Some p)))))"

text \<open>\<open>DeleteReport\<close> after its role check: the file is removed last, inside the transaction.\<close>

definition DeleteReport ::
  "dbenv \<Rightarrow> lockenv \<Rightarrow> (string \<Rightarrow> 'f \<Rightarrow> unit res \<times> 'f) \<Rightarrow> string \<Rightarrow> string \<Rightarrow> schema db \<times> 'f \<Rightarrow> unit res \<times> (schema db \<times> 'f)" where
  "DeleteReport E L remove tenantID reportID =
     tx_with E L tenantID (deleteReport_rows E tenantID reportID)
       (\<lambda>p f. case p of None \<Rightarrow> (Inr (), f) | Some q \<Rightarrow> remove q f)"

end
