(* ===== verification/Report_Lease.thy ===== *)
theory Report_Lease
  imports Report_Claim Lease
begin

text \<open>
  What the report repository of \<open>Report_Claim\<close> does to a report: what it keeps of the ids and of the
  counts of attempts, the work a claim hands out and the row it stands for, what a finalization and a
  deletion do, and that work whose token is not the one in the row is refused.
\<close>

section \<open>Attempts\<close>

definition reports_inv :: "schema \<Rightarrow> bool" where
  "reports_inv t \<longleftrightarrow> distinct (map rp_id (reports t)) \<and> (\<forall>r \<in> set (reports t). 1 \<le> rp_attempts r \<and> rp_attempts r \<le> 3)"

definition find_report :: "string \<Rightarrow> schema \<Rightarrow> report_row option" where
  "find_report k t = find (\<lambda>r. rp_id r = k) (reports t)"

definition report_attempts :: "schema \<Rightarrow> string \<Rightarrow> int" where
  "report_attempts t k = (case find_report k t of None \<Rightarrow> 0 | Some r \<Rightarrow> rp_attempts r)"

definition report_grows :: "schema \<Rightarrow> schema \<Rightarrow> bool" where
  "report_grows t0 t \<longleftrightarrow> reports_inv t \<and> (\<forall>k. report_attempts t0 k \<le> report_attempts t k)"

lemma find_report_unique: "reports_inv t \<Longrightarrow> r \<in> set (reports t) \<Longrightarrow> find_report (rp_id r) t = Some r"
proof -
  assume inv: "reports_inv t" and r: "r \<in> set (reports t)"
  then obtain x where x: "find_report (rp_id r) t = Some x"
    by (cases "find_report (rp_id r) t") (auto simp: find_report_def find_None_iff)
  then have "x \<in> set (reports t)" "rp_id x = rp_id r" by (auto simp: find_report_def find_Some_iff)
  with inv r have "x = r" by (auto simp: reports_inv_def distinct_map dest: inj_onD)
  with x show ?thesis by simp
qed

lemma find_report_Some: "find_report k t = Some r \<Longrightarrow> r \<in> set (reports t) \<and> rp_id r = k"
  by (auto simp: find_report_def find_Some_iff)

lemma find_report_update:
  assumes "\<And>r. rp_id (f r) = rp_id r"
  shows "find_report k (t\<lparr>reports := update_where P f (reports t)\<rparr>) =
    map_option (\<lambda>r. if P r then f r else r) (find_report k t)"
proof -
  have "find (\<lambda>r. rp_id r = k) (update_where P f rs) = map_option (\<lambda>r. if P r then f r else r) (find (\<lambda>r. rp_id r = k) rs)" for rs
    by (induction rs) (auto simp: update_where_def assms)
  then show ?thesis by (simp add: find_report_def)
qed

lemma report_attempts_bounds: "reports_inv t \<Longrightarrow> 0 \<le> report_attempts t k \<and> report_attempts t k \<le> 3"
  by (force simp: report_attempts_def reports_inv_def dest: find_report_Some split: option.splits)

lemma grows_refl: "reports_inv t \<Longrightarrow> report_grows t t"
  by (simp add: report_grows_def)

lemma grows_same: "report_grows t0 t \<Longrightarrow> reports t' = reports t \<Longrightarrow> report_grows t0 t'"
  by (simp add: report_grows_def reports_inv_def report_attempts_def find_report_def)

lemma grows_update:
  assumes g: "report_grows t0 t" and f: "\<And>r. rp_id (f r) = rp_id r"
    and a: "\<And>r. r \<in> set (reports t) \<Longrightarrow> P r \<Longrightarrow> rp_attempts r \<le> rp_attempts (f r) \<and> rp_attempts (f r) \<le> 3"
  shows "report_grows t0 (t\<lparr>reports := update_where P f (reports t)\<rparr>)"
proof -
  let ?t = "t\<lparr>reports := update_where P f (reports t)\<rparr>"
  have inv: "reports_inv t" using g by (simp add: report_grows_def)
  have "map rp_id (reports ?t) = map rp_id (reports t)" using map_update_where [of rp_id f] f by simp
  moreover have "1 \<le> rp_attempts r \<and> rp_attempts r \<le> 3" if "r \<in> set (reports ?t)" for r
    using that inv a by (fastforce simp: set_update_where reports_inv_def)
  ultimately have "reports_inv ?t" using inv by (simp add: reports_inv_def)
  moreover have "report_attempts t k \<le> report_attempts ?t k" for k
    using a find_report_Some [of k t]
    by (auto simp: report_attempts_def find_report_update [OF f] split: option.splits)
  ultimately show ?thesis using g unfolding report_grows_def by (meson order_trans)
qed

lemma grows_insert:
  assumes g: "report_grows t0 t" and new: "rp_id r \<notin> rp_id ` set (reports t)" "rp_attempts r = 1"
  shows "report_grows t0 (t\<lparr>reports := reports t @ [r]\<rparr>)"
proof -
  let ?t = "t\<lparr>reports := reports t @ [r]\<rparr>"
  have "find (\<lambda>x. rp_id x = k) (xs @ [r]) = (case find (\<lambda>x. rp_id x = k) xs of
      Some y \<Rightarrow> Some y | None \<Rightarrow> if rp_id r = k then Some r else None)" for k xs
    by (induction xs) auto
  then have "report_attempts t k \<le> report_attempts ?t k" for k
    using new by (auto simp: report_attempts_def find_report_def split: option.splits)
  moreover have "reports_inv ?t" using g new by (auto simp: report_grows_def reports_inv_def)
  ultimately show ?thesis using g unfolding report_grows_def by (meson order_trans)
qed

text \<open>Statements that leave the reports alone.\<close>

lemma update_schedule_reports: "reports (update_schedule a b e t) = reports t"
  by (simp add: update_schedule_def)

lemma noop_reports: "reports (snd (noop_rows a b c e now clk t)) = reports t"
  by (simp add: noop_rows_def Let_def close_window_def cancel_deliveries_def)

lemma grows_same_reports:
  "(\<And>n t x t'. f n t = Inr (x, t') \<Longrightarrow> reports t' = reports t) \<Longrightarrow> keeps (report_grows t0) (sql_stmt E f)"
  by (rule keeps_stmt) (auto elim!: grows_same)

lemma noop_reports': "noop_rows a b c e now clk t = (x, t') \<Longrightarrow> reports t' = reports t"
  using noop_reports by (metis snd_conv)

lemma grows_noop: "keeps (report_grows t0) (completeNoopDigestWindow E a b c e now)"
  unfolding completeNoopDigestWindow_def
  by (intro keeps_intros grows_same_reports) (auto dest: noop_reports')

lemma grows_load: "keeps (report_grows t0) (loadReportNotices E w)"
  unfolding loadReportNotices_def by (intro keeps_intros)

lemma grows_snapshot: "keeps (report_grows t0) (snapshot_stmt E skip i f)"
  unfolding snapshot_stmt_def by (rule grows_same_reports) (auto split: sum.splits)

lemma violation_fresh: "report_violation r t = None \<Longrightarrow> rp_id r \<notin> rp_id ` set (reports t)"
  by (auto simp: report_violation_def list_ex_iff split: if_splits)

lemma grows_upsert: "report_grows t0 t \<Longrightarrow> upsert_report E a b s dueAt windowEnd now n t = Inr (r, t') \<Longrightarrow> report_grows t0 t'"
  by (auto simp: upsert_report_def Let_def reclaimable_def claim_again_def new_report_def
      intro!: grows_update grows_insert dest!: violation_fresh split: option.splits if_splits)

lemma grows_claimScheduled: "keeps (report_grows t0) (claimScheduledReport E collate x a b s dueAt windowEnd now)"
  unfolding claimScheduledReport_def Let_def
  by (intro keeps_intros grows_noop grows_snapshot grows_load keeps_stmt) (erule (1) grows_upsert)

lemma grows_claim_where:
  assumes "\<And>r. rp_id (f r) = rp_id r" "\<And>r. P r \<Longrightarrow> rp_attempts r \<le> rp_attempts (f r) \<and> rp_attempts (f r) \<le> 3"
  shows "report_grows t0 t \<Longrightarrow> report_grows t0 (snd (claim_where P f t))"
  using assms by (auto simp: claim_where_def intro!: grows_update)

lemma grows_reclaim: "keeps (report_grows t0) (reclaimReport E a i)"
proof -
  have "report_grows t0 (snd (claim_where (\<lambda>r. report_key a i r \<and> reclaimable now r) (claim_again now tok) t))"
    if "report_grows t0 t" for now tok t
    using that by (intro grows_claim_where) (auto simp: claim_again_def reclaimable_def)
  then show ?thesis
    unfolding reclaimReport_def scanAndLoadReport_def
    by (intro keeps_intros grows_load keeps_stmt) (metis Inr_inject snd_conv)
qed

lemma complete_report_window_reports: "reports (snd (complete_report_window w at t)) = reports t"
  by (simp add: complete_report_window_def Let_def close_window_def)

lemma grows_mark: "(\<And>r. rp_id (f r) = rp_id r \<and> rp_attempts (f r) = rp_attempts r) \<Longrightarrow>
    report_grows t0 t \<Longrightarrow> report_grows t0 (t\<lparr>reports := update_where P f (reports t)\<rparr>)"
  by (rule grows_update) (auto simp: report_grows_def reports_inv_def)

lemma complete_window_reports': "complete_report_window w at t = (x, t') \<Longrightarrow> reports t' = reports t"
  using complete_report_window_reports by (metis snd_conv)

lemma grows_mark_stmt:
  assumes "\<And>n r. rp_id (f n r) = rp_id r \<and> rp_attempts (f n r) = rp_attempts r"
  shows "keeps (report_grows t0) (sql_stmt E (\<lambda>n t. Inr (g t, t\<lparr>reports := update_where P (f n) (reports t)\<rparr>)))"
  by (rule keeps_stmt) (auto intro!: grows_mark simp: assms)

lemma grows_finalize: "keeps (report_grows t0) (finalizeReport E w a at)"
proof -
  have "keeps (report_grows t0) (sql_stmt E (\<lambda>n t. Inr (complete_report_window w at t)))"
    by (rule grows_same_reports) (auto dest: complete_window_reports')
  then show ?thesis
    unfolding finalizeReport_def by (intro keeps_intros grows_mark_stmt) (simp_all add: mark_generated_def)
qed

lemma grows_fail: "keeps (report_grows t0) (finalizeReportFailure E w e)"
  unfolding finalizeReportFailure_def
  by (intro keeps_intros grows_mark_stmt) (simp_all add: mark_report_failed_def)

lemma grows_delete_rows: "keeps (report_grows t0) (delete_rows E a i)"
proof -
  have "keeps (report_grows t0) (sql_stmt E (\<lambda>n t. Inr ((), t\<lparr>report_items := f t\<rparr>)))" for f
    by (rule grows_same_reports) auto
  then show ?thesis
    unfolding delete_rows_def by (intro keeps_intros grows_mark_stmt) (simp_all add: mark_deleted_def)
qed

lemma grows_delete: "keeps (report_grows t0) (deleteReport_rows E a i)"
  unfolding deleteReport_rows_def filter_names_def
  by (intro keeps_intros grows_delete_rows)


section \<open>Transactions\<close>

lemma rows_one_tenant_tx:
  assumes "keeps I body" "I (rows d)"
  shows "I (rows (snd (one_tenant_tx E L a body d)))"
  using keepsD [OF keeps_tenantTransaction [of I "\<lambda>now. body" E], OF assms]
  by (auto simp: tenant_once_def assms split: option.splits)

lemma one_tenant_tx_Inl:
  assumes "fst (one_tenant_tx E L a body d) = Inl e"
  shows "rows (snd (one_tenant_tx E L a body d)) = rows d"
  using assms tenantTransaction_error [of E "\<lambda>now. body" d e]
  by (auto simp: tenant_once_def split: option.splits if_splits)

lemma one_tenant_tx_Inr:
  assumes "one_tenant_tx E L a body d = (Inr x, d')"
  shows "\<exists>d1 d2. rows d1 = rows d \<and> body d1 = (Inr x, d2) \<and> rows d' = rows d2"
  using assms tenantTransaction_Inr [of E "\<lambda>now. body" d x d']
  by (auto simp: tenant_once_def split: option.splits if_splits)

lemma rows_tx_with:
  assumes "keeps I pre" "I (rows d)"
  shows "I (rows (fst (snd (tx_with E L a pre work (d, f)))))"
proof -
  let ?body = "sql_bind (sql_wrap ''begin tenant transaction'' (sql_call E)) (\<lambda>_.
      sql_bind (sql_wrap ''set tenant context'' (sql_call E)) (\<lambda>_. pre))"
  let ?commit = "sql_wrap ''commit tenant transaction'' (sql_call E) :: ('a, unit) sql"
  have "keeps I ?body" by (intro keeps_intros assms)
  then have b: "I (rows (snd (?body d)))" using assms(2) by (rule keepsD)
  have c: "keeps I ?commit" by (intro keeps_intros)
  obtain r d1 where b1: "?body d = (r, d1)" by (cases "?body d")
  obtain r2 d2 where c1: "?commit d1 = (r2, d2)" by (cases "?commit d1")
  have I1: "I (rows d1)" using b b1 by simp
  have I2: "I (rows d2)" using keepsD [OF c I1] c1 by simp
  show ?thesis
    using b1 c1 I1 I2 assms(2)
    by (cases "ctx_err L (tick d)"; cases r; cases r2; cases "work (projr r) f")
       (auto simp: tx_with_def split: sum.splits)
qed

lemma tx_with_pre_fails:
  assumes "\<And>d1 x d2. rows d1 = rows d \<Longrightarrow> pre d1 \<noteq> (Inr x, d2)"
  shows "\<exists>e d'. tx_with E L a pre work (d, f) = (Inl e, d', f) \<and> rows d' = rows d"
proof -
  have "\<exists>e d1. sql_bind (sql_wrap ''begin tenant transaction'' (sql_call E)) (\<lambda>_.
      sql_bind (sql_wrap ''set tenant context'' (sql_call E)) (\<lambda>_. pre)) d = (Inl e, d1)" (is "\<exists>e d1. ?m d = _")
  proof (cases "?m d")
    case (Pair r d1)
    then show ?thesis using assms
      by (cases r) (auto elim!: sql_bindE simp: sql_wrap_eq_Inr sql_call_Inr)
  qed
  then show ?thesis by (auto simp: tx_with_def split: option.splits)
qed


section \<open>No wait\<close>

lemma quiet_loadReportNotices: "quiet_faults E \<Longrightarrow> quiet (loadReportNotices E w)"
proof -
  assume E: "quiet_faults E"
  have "load_items is ns = Inl e \<Longrightarrow> \<not> errors_is e ErrCollectionRunning" for "is" ns e
    by (induction "is" ns rule: load_items.induct) (auto split: option.splits)
  then have "quiet (sql_lift (load_items is ns))" for "is" ns
    by (auto simp: sql_lift_def quiet_fail quiet_return split: sum.split)
  then show ?thesis unfolding loadReportNotices_def by (intro quiet_intros quiet_query E)
qed

text \<open>The operations on one report are one tenant transaction, as the model of the repository has them.\<close>

lemma report_operations_do_not_wait:
  assumes "quiet_faults E"
  shows "withTenant E L a (\<lambda>now. reclaimReport E a i) d = Some (one_tenant_tx E L a (reclaimReport E a i) d)"
    "withTenant E L a (\<lambda>now. retryReport E a i t) d = Some (one_tenant_tx E L a (retryReport E a i t) d)"
    "withTenant E L a (\<lambda>now. finalizeReport E w art t) d = Some (one_tenant_tx E L a (finalizeReport E w art t) d)"
    "withTenant E L a (\<lambda>now. finalizeReportFailure E w e) d = Some (one_tenant_tx E L a (finalizeReportFailure E w e) d)"
proof -
  have q: "quiet (reclaimReport E a i)" "quiet (retryReport E a i t)"
    unfolding reclaimReport_def retryReport_def scanAndLoadReport_def
    by (intro quiet_intros quiet_stmt quiet_loadReportNotices assms; simp)+
  have f: "quiet (finalizeReport E w art t)" "quiet (finalizeReportFailure E w e)"
    unfolding finalizeReport_def finalizeReportFailure_def stale_claim_def
    by (intro quiet_intros quiet_stmt assms; simp)+
  show "withTenant E L a (\<lambda>now. reclaimReport E a i) d = Some (one_tenant_tx E L a (reclaimReport E a i) d)"
    "withTenant E L a (\<lambda>now. retryReport E a i t) d = Some (one_tenant_tx E L a (retryReport E a i t) d)"
    "withTenant E L a (\<lambda>now. finalizeReport E w art t) d = Some (one_tenant_tx E L a (finalizeReport E w art t) d)"
    "withTenant E L a (\<lambda>now. finalizeReportFailure E w e) d = Some (one_tenant_tx E L a (finalizeReportFailure E w e) d)"
    using q f by (simp_all add: withTenant_once [OF assms])
qed

section \<open>What a claim hands out\<close>

lemma loadReportNotices_Inr:
  "loadReportNotices E w d = (Inr w', d') \<Longrightarrow> rows d' = rows d \<and> (\<exists>ns. w' = w\<lparr>rw_notices := ns\<rparr>)"
  by (auto simp: loadReportNotices_def sql_lift_def sql_wrap_eq_Inr sql_query_Inr elim!: sql_bindE split: sum.splits)

lemma work_of_row_sel [simp]:
  "rw_report (work_of_row r) = rp_id r" "rw_tenant (work_of_row r) = rp_tenant r"
  "rw_attempts (work_of_row r) = rp_attempts r" "rw_token (work_of_row r) = (case rp_token r of None \<Rightarrow> [] | Some k \<Rightarrow> k)"
  by (simp_all add: work_of_row_def)

lemma work_of_row_unloaded [simp]: "(work_of_row r)\<lparr>rw_notices := []\<rparr> = work_of_row r"
  by (simp add: work_of_row_def)

text \<open>The row a claim left behind: the one the work describes, being generated under its token.\<close>

definition holds_report :: "report_work \<Rightarrow> schema \<Rightarrow> bool" where
  "holds_report w t \<longleftrightarrow>
     (\<exists>r. find_report (rw_report w) t = Some r \<and> work_of_row r = w\<lparr>rw_notices := []\<rparr> \<and> rp_token r = Some (rw_token w) \<and>
        rp_status r = RGenerating \<and> rp_deleted r = None)"

text \<open>What the row of a held report says of the work.\<close>

lemma holds_report_row:
  assumes "holds_report w t"
  obtains r where "find_report (rw_report w) t = Some r" "rp_tenant r = rw_tenant w" "rp_token r = Some (rw_token w)"
    "rp_status r = RGenerating" "rp_trigger r = rw_trigger w" "rp_due r = rw_due w" "rp_end r = rw_end w"
    "rw_schedule w = (case rp_schedule r of None \<Rightarrow> [] | Some s \<Rightarrow> s)" "rp_attempts r = rw_attempts w"
proof -
  obtain r where r: "find_report (rw_report w) t = Some r" "work_of_row r = w\<lparr>rw_notices := []\<rparr>"
    "rp_token r = Some (rw_token w)" "rp_status r = RGenerating"
    using assms by (auto simp: holds_report_def)
  have "f (work_of_row r) = f (w\<lparr>rw_notices := []\<rparr>)" for f :: "report_work \<Rightarrow> 'b" using r(2) by simp
  from this [of rw_attempts] this [of rw_tenant] this [of rw_trigger] this [of rw_due] this [of rw_end] this [of rw_schedule] r that [of r]
  show ?thesis by (simp add: work_of_row_def)
qed

lemma holds_attempts: "holds_report w t \<Longrightarrow> report_attempts t (rw_report w) = rw_attempts w"
  by (erule holds_report_row) (simp add: report_attempts_def)

text \<open>A claim counts one attempt and leaves the row held.\<close>

definition granted_claim :: "schema \<Rightarrow> report_work \<Rightarrow> schema \<Rightarrow> bool" where
  "granted_claim t w t' \<longleftrightarrow> holds_report w t' \<and> report_attempts t' (rw_report w) = report_attempts t (rw_report w) + 1"

lemma granted_same_reports: "granted_claim t w t' \<Longrightarrow> reports t'' = reports t' \<Longrightarrow> granted_claim t w t''"
  by (simp add: granted_claim_def holds_report_def report_attempts_def find_report_def)

lemma granted_notices [simp]: "granted_claim t (w\<lparr>rw_notices := ns\<rparr>) t' = granted_claim t w t'"
  by (simp add: granted_claim_def holds_report_def)

lemma find_report_insert:
  "rp_id r \<notin> rp_id ` set (reports t) \<Longrightarrow> find_report (rp_id r) (t\<lparr>reports := reports t @ [r]\<rparr>) = Some r"
proof -
  have "rp_id r \<notin> rp_id ` set rs \<Longrightarrow> find (\<lambda>x. rp_id x = rp_id r) (rs @ [r]) = Some r" for rs
    by (induction rs) auto
  then show "rp_id r \<notin> rp_id ` set (reports t) \<Longrightarrow> ?thesis" by (simp add: find_report_def)
qed

lemma find_report_fresh: "rp_id r \<notin> rp_id ` set (reports t) \<Longrightarrow> find_report (rp_id r) t = None"
  by (force simp: find_report_def find_None_iff)

lemma granted_again:
  assumes inv: "reports_inv t" and r: "r \<in> set (reports t)" and P: "P r" and a: "reclaimable now r"
  shows "granted_claim t (work_of_row (claim_again now tok r))
    (t\<lparr>reports := update_where P (claim_again now tok) (reports t)\<rparr>)"
proof -
  have f: "\<And>r. rp_id (claim_again now tok r) = rp_id r" by (simp add: claim_again_def)
  have "find_report (rp_id r) (t\<lparr>reports := update_where P (claim_again now tok) (reports t)\<rparr>) = Some (claim_again now tok r)"
    using find_report_unique [OF inv r] P by (simp add: find_report_update [OF f])
  with find_report_unique [OF inv r] a show ?thesis
    by (simp add: granted_claim_def holds_report_def report_attempts_def claim_again_def reclaimable_def)
qed

lemma granted_new:
  assumes "report_violation (new_report a s due st e tn sn tr i tok now) t = None"
  shows "granted_claim t (work_of_row (new_report a s due st e tn sn tr i tok now))
    (t\<lparr>reports := reports t @ [new_report a s due st e tn sn tr i tok now]\<rparr>)"
proof -
  let ?r = "new_report a s due st e tn sn tr i tok now"
  note fresh = violation_fresh [OF assms]
  have "find_report (rp_id ?r) t = None" "find_report (rp_id ?r) (t\<lparr>reports := reports t @ [?r]\<rparr>) = Some ?r"
    using find_report_fresh [OF fresh] find_report_insert [OF fresh] by blast+
  then show ?thesis
    by (simp add: granted_claim_def holds_report_def report_attempts_def) (simp add: new_report_def)
qed

lemma upsert_report_granted:
  assumes "reports_inv t" "upsert_report E a b s dueAt windowEnd now n t = Inr (Some w, t')"
  shows "granted_claim t w t'"
proof (cases "find (scheduled_for a (ds_id (rs_sched s)) dueAt) (reports t)")
  case None
  with assms(2) show ?thesis
    by (auto simp: upsert_report_def Let_def split: option.splits intro!: granted_new)
next
  case (Some r)
  then have "r \<in> set (reports t)" by (auto simp: find_Some_iff)
  with assms Some show ?thesis
    by (auto simp: upsert_report_def Let_def split: if_splits intro!: granted_again)
qed

lemma snapshot_Inr: "snapshot_stmt E skip i f d = (Inr c, d') \<Longrightarrow> reports (rows d') = reports (rows d)"
  by (auto simp: snapshot_stmt_def sql_stmt_Inr split: sum.splits)

lemma claimScheduled_granted:
  assumes inv: "reports_inv (rows d)"
    and ok: "claimScheduledReport E collate x a b s dueAt windowEnd now d = (Inr (Some w), d')"
  shows "granted_claim (rows d) w (rows d')"
proof -
  from ok obtain d1 d2 d3 w0 c where d1: "rows d1 = rows d"
    and up: "sql_stmt E (upsert_report E a b s dueAt windowEnd now) d1 = (Inr (Some w0), d2)"
    and snap: "snapshot_stmt E True (rw_report w0) (scheduled_rows collate a (ds_id (rs_sched s)) dueAt windowEnd) d2 = (Inr c, d3)"
    and load: "loadReportNotices E w0 d3 = (Inr w, d')"
    unfolding claimScheduledReport_def Let_def
    by (auto elim!: sql_bindE simp: sql_wrap_eq_Inr sql_query_Inr split: if_splits option.splits)
       (metis db.select_convs(1))
  obtain n where n: "upsert_report E a b s dueAt windowEnd now n (rows d) = Inr (Some w0, rows d2)"
    using up d1 by (auto simp: sql_stmt_Inr)
  from loadReportNotices_Inr [OF load] snapshot_Inr [OF snap] show ?thesis
    by (auto intro: granted_same_reports [OF upsert_report_granted [OF inv n]])
qed

text \<open>The update of the one row of a key.\<close>

lemma reclaim_granted:
  assumes inv: "reports_inv (rows d)" and ok: "reclaimReport E a i d = (Inr (Some w), d')"
  shows "granted_claim (rows d) w (rows d') \<and> rw_tenant w = a \<and> rw_report w = i"
proof -
  obtain now tok w0 t1 where c: "claim_where (\<lambda>r. report_key a i r \<and> reclaimable now r) (claim_again now tok) (rows d) = (Some w0, t1)"
    and r: "reports (rows d') = reports t1" "\<exists>ns. w = w0\<lparr>rw_notices := ns\<rparr>"
    using ok loadReportNotices_Inr unfolding reclaimReport_def scanAndLoadReport_def
    by (auto elim!: sql_bindE simp: sql_wrap_eq_Inr sql_stmt_Inr split: option.splits)
  from c obtain x where x: "find (\<lambda>r. report_key a i r \<and> reclaimable now r) (reports (rows d)) = Some x"
    and w0: "w0 = work_of_row (claim_again now tok x)"
    and t1: "t1 = (rows d)\<lparr>reports := update_where (\<lambda>r. report_key a i r \<and> reclaimable now r) (claim_again now tok) (reports (rows d))\<rparr>"
    by (auto simp: claim_where_def)
  from x have "x \<in> set (reports (rows d))" "report_key a i x \<and> reclaimable now x" by (auto simp: find_Some_iff)
  then have "granted_claim (rows d) w0 t1" unfolding w0 t1 by (intro granted_again [OF inv]) auto
  with r x show ?thesis
    by (auto intro: granted_same_reports simp: w0 claim_again_def report_key_def find_Some_iff)
qed


section \<open>Transactions that keep the rows of the reports growing\<close>

lemma FinalizeReport_grows:
  "report_grows t0 (rows d) \<Longrightarrow> report_grows t0 (rows (snd (FinalizeReport E L w art at d)))"
  using rows_one_tenant_tx [OF grows_finalize] by (auto simp: FinalizeReport_def split: option.splits)

lemma FinalizeReportFailure_grows:
  "report_grows t0 (rows d) \<Longrightarrow> report_grows t0 (rows (snd (FinalizeReportFailure E L w e d)))"
  using rows_one_tenant_tx [OF grows_fail] by (auto simp: FinalizeReportFailure_def split: option.splits)

section \<open>The token of a claim\<close>

text \<open>The token a report is being generated under, by tenant and id.\<close>

definition report_token :: "schema db \<Rightarrow> string \<times> string \<Rightarrow> string option" where
  "report_token d k = (case find_report (snd k) (rows d) of
     None \<Rightarrow> None | Some r \<Rightarrow> if rp_tenant r = fst k \<and> rp_status r = RGenerating then rp_token r else None)"

lemma holder_token:
  assumes inv: "reports_inv (rows d)" and r: "r \<in> set (reports (rows d))"
    and h: "report_key a i r" "rp_status r = RGenerating" "rp_token r = Some tok"
  shows "report_token d (a, i) = Some tok"
  using find_report_unique [OF inv r] h by (auto simp: report_token_def report_key_def)

text \<open>Each of the three operations of a holder fails when the token is not the current one.\<close>

lemma stmt_count_Inr:
  "sql_stmt E (\<lambda>n t. Inr (g t, h n t)) d = (Inr c, d') \<Longrightarrow> c = g (rows d)"
  by (auto simp: sql_stmt_Inr)

lemma held_token:
  assumes inv: "reports_inv (rows d)" and c: "affected (held_report w) (reports (rows d)) = 1"
  shows "report_token d (rw_tenant w, rw_report w) = Some (rw_token w)"
proof -
  obtain r where "r \<in> set (reports (rows d))" "held_report w r" using c affected_pos [of "held_report w" "reports (rows d)"] by auto
  then show ?thesis by (intro holder_token [OF inv]) (auto simp: held_report_def)
qed

lemma finalizeReport_holder:
  "reports_inv (rows d) \<Longrightarrow> finalizeReport E w art at d = (Inr u, d') \<Longrightarrow>
   report_token d (rw_tenant w, rw_report w) = Some (rw_token w)"
  unfolding finalizeReport_def
  by (auto elim!: sql_bindE simp: sql_wrap_eq_Inr split: if_splits dest!: stmt_count_Inr intro!: held_token)

lemma finalizeReportFailure_holder:
  "reports_inv (rows d) \<Longrightarrow> finalizeReportFailure E w e d = (Inr u, d') \<Longrightarrow>
   report_token d (rw_tenant w, rw_report w) = Some (rw_token w)"
  unfolding finalizeReportFailure_def
  by (auto elim!: sql_bindE simp: sql_wrap_eq_Inr split: if_splits dest!: stmt_count_Inr intro!: held_token)

lemma lock_claim_holder:
  "reports_inv (rows d) \<Longrightarrow> lock_claim E w d = (Inr u, d') \<Longrightarrow>
   report_token d (rw_tenant w, rw_report w) = Some (rw_token w)"
  unfolding lock_claim_def
  by (auto elim!: sql_bindE simp: sql_wrap_eq_Inr sql_query_Inr list_ex_iff claim_active_def intro: holder_token split: if_splits)

lemma report_token_rows: "rows d1 = rows d \<Longrightarrow> report_token d1 k = report_token d k"
  by (simp add: report_token_def)

lemma tx_stale:
  assumes "\<And>d1 x d2. rows d1 = rows d \<Longrightarrow> body d1 \<noteq> (Inr x, d2)"
  shows "(\<exists>e. fst (one_tenant_tx E L a body d) = Inl e) \<and> rows (snd (one_tenant_tx E L a body d)) = rows d"
proof -
  obtain r d' where r: "one_tenant_tx E L a body d = (r, d')" by fastforce
  then have "\<exists>e. r = Inl e" using one_tenant_tx_Inr [of E L a body d _ d'] assms by (cases r) blast+
  then show ?thesis using r one_tenant_tx_Inl [of E L a body d] by auto
qed

lemma FinalizeReport_stale:
  assumes inv: "reports_inv (rows d)" and t: "report_token d (rw_tenant w, rw_report w) \<noteq> Some (rw_token w)"
  shows "(\<exists>e. fst (FinalizeReport E L w art at d) = Inl e) \<and> rows (snd (FinalizeReport E L w art at d)) = rows d"
proof -
  have "finalizeReport E w art at d1 \<noteq> (Inr x, d2)" if "rows d1 = rows d" for d1 x d2
    using that inv t finalizeReport_holder [of d1 E w art at x d2] report_token_rows [of d1 d] by auto
  from tx_stale [of d "finalizeReport E w art at" E L "rw_tenant w", OF this] show ?thesis
    by (auto simp: FinalizeReport_def split: option.splits)
qed

lemma FinalizeReportFailure_stale:
  assumes inv: "reports_inv (rows d)" and t: "report_token d (rw_tenant w, rw_report w) \<noteq> Some (rw_token w)"
  shows "(\<exists>e. fst (FinalizeReportFailure E L w err d) = Inl e) \<and> rows (snd (FinalizeReportFailure E L w err d)) = rows d"
proof -
  have "finalizeReportFailure E w e d1 \<noteq> (Inr x, d2)" if "rows d1 = rows d" for d1 x d2 e
    using that inv t finalizeReportFailure_holder [of d1 E w e x d2] report_token_rows [of d1 d] by auto
  from tx_stale [of d "finalizeReportFailure E w (the err)" E L "rw_tenant w", OF this] show ?thesis
    by (auto simp: FinalizeReportFailure_def split: option.splits)
qed

lemma WithReportClaim_stale:
  assumes inv: "reports_inv (rows d)" and t: "report_token d (rw_tenant w, rw_report w) \<noteq> Some (rw_token w)"
  shows "\<exists>e d'. WithReportClaim E L w action (d, f) = (Inl e, d', f) \<and> rows d' = rows d"
proof -
  have "lock_claim E w d1 \<noteq> (Inr x, d2)" if "rows d1 = rows d" for d1 x d2
    using that inv t lock_claim_holder [of d1 E w x d2] report_token_rows [of d1 d] by auto
  from tx_with_pre_fails [of d "lock_claim E w", OF this] show ?thesis unfolding WithReportClaim_def .
qed

section \<open>The manual retry\<close>

lemma inv_update:
  assumes "reports_inv t" "\<And>r. rp_id (f r) = rp_id r" "\<And>r. P r \<Longrightarrow> 1 \<le> rp_attempts r \<Longrightarrow> 1 \<le> rp_attempts (f r) \<and> rp_attempts (f r) \<le> 3"
  shows "reports_inv (t\<lparr>reports := update_where P f (reports t)\<rparr>)"
proof -
  let ?t = "t\<lparr>reports := update_where P f (reports t)\<rparr>"
  have "map rp_id (reports ?t) = map rp_id (reports t)" using map_update_where [of rp_id f] assms(2) by simp
  moreover have "1 \<le> rp_attempts r \<and> rp_attempts r \<le> 3" if "r \<in> set (reports ?t)" for r
    using that assms by (fastforce simp: set_update_where reports_inv_def)
  ultimately show ?thesis using assms(1) by (simp add: reports_inv_def)
qed

lemma inv_retry: "keeps reports_inv (retryReport E a i now)"
  unfolding retryReport_def scanAndLoadReport_def loadReportNotices_def
  by (intro keeps_intros keeps_stmt) (auto simp: claim_where_def claim_anew_def intro!: inv_update)

lemma grows_keeps_inv: "(\<And>t0. keeps (report_grows t0) m) \<Longrightarrow> keeps reports_inv m"
  unfolding keeps_def by (meson grows_refl report_grows_def)

lemma retry_holds:
  assumes inv: "reports_inv (rows d)" and ok: "retryReport E a i now d = (Inr (Some w), d')"
  shows "holds_report w (rows d') \<and> rw_tenant w = a \<and> rw_report w = i"
proof -
  let ?P = "\<lambda>r. report_key a i r \<and> rp_deleted r = None \<and> rp_status r = RFailed"
  obtain tok w0 t1 where c: "claim_where ?P (claim_anew now tok) (rows d) = (Some w0, t1)"
    and r: "reports (rows d') = reports t1" "\<exists>ns. w = w0\<lparr>rw_notices := ns\<rparr>"
    using ok loadReportNotices_Inr unfolding retryReport_def scanAndLoadReport_def
    by (auto elim!: sql_bindE simp: sql_wrap_eq_Inr sql_stmt_Inr split: option.splits)
  from c obtain x where x: "find ?P (reports (rows d)) = Some x" and w0: "w0 = work_of_row (claim_anew now tok x)"
    and t1: "t1 = (rows d)\<lparr>reports := update_where ?P (claim_anew now tok) (reports (rows d))\<rparr>"
    by (auto simp: claim_where_def)
  from x have m: "x \<in> set (reports (rows d))" "?P x" by (auto simp: find_Some_iff)
  have f: "\<And>r. rp_id (claim_anew now tok r) = rp_id r" by (simp add: claim_anew_def)
  have "find_report (rp_id x) t1 = Some (claim_anew now tok x)"
    using find_report_unique [OF inv m(1)] m(2) unfolding t1 by (simp add: find_report_update [OF f])
  then have "find_report (rp_id x) (rows d') = Some (claim_anew now tok x)" using r(1) by (simp add: find_report_def)
  with r(2) m(2) show ?thesis by (auto simp: w0 holds_report_def claim_anew_def report_key_def)
qed


section \<open>A finalized report\<close>

lemma affected_one: "affected P rs = 1 \<Longrightarrow> \<exists>r. filter P rs = [r]"
  by (simp add: affected_def length_Suc_conv)

lemma filter_update_where:
  "(\<And>r. P (f r) = P r) \<Longrightarrow> filter P (update_where P f rs) = map f (filter P rs)"
  by (induction rs) (auto simp: update_where_def)

definition window_closed :: "report_work \<Rightarrow> schema \<Rightarrow> bool" where
  "window_closed w t \<longleftrightarrow>
     (\<exists>x \<in> set (windows t). is_window (rw_tenant w) (rw_schedule w) (rw_due w) (rw_end w) x \<and> w_status x = WCompleted) \<and>
     (\<forall>x \<in> set (windows t). is_window (rw_tenant w) (rw_schedule w) (rw_due w) (rw_end w) x \<longrightarrow> w_status x \<noteq> WPending)"

definition schedule_advanced :: "report_work \<Rightarrow> schema \<Rightarrow> bool" where
  "schedule_advanced w t \<longleftrightarrow>
     (\<exists>s l. filter (\<lambda>s. s_tenant s = rw_tenant w \<and> s_id s = rw_schedule w) (schedules t) = [s] \<and>
        s_last_success s = Some l \<and> rw_end w \<le> l)"

definition report_generated :: "report_work \<Rightarrow> report_artifact \<Rightarrow> time \<Rightarrow> schema \<Rightarrow> bool" where
  "report_generated w a at t \<longleftrightarrow>
     (\<exists>r. find_report (rw_report w) t = Some r \<and> rp_status r = RGenerated \<and> rp_path r = ra_path a \<and>
        rp_sha r = ra_sha a \<and> rp_count r = ra_count a \<and> rp_generated r = Some at)"

lemma complete_window_result:
  assumes "complete_report_window w at t = (1, t')"
  shows "window_closed w t' \<and> schedule_advanced w t' \<and> reports t' = reports t"
proof -
  let ?W = "is_window (rw_tenant w) (rw_schedule w) (rw_due w) (rw_end w)"
  let ?S = "\<lambda>s. s_tenant s = rw_tenant w \<and> s_id s = rw_schedule w"
  let ?f = "\<lambda>x :: window_row. x\<lparr>w_status := WCompleted, w_completed := Some (case w_completed x of None \<Rightarrow> at | Some c \<Rightarrow> c)\<rparr>"
  let ?g = "\<lambda>s :: schedule_row. s\<lparr>s_last_success := advance_to (rw_end w) (s_last_success s)\<rparr>"
  have eligible: "list_ex (\<lambda>x. w_status x = WPending \<or> w_status x = WCompleted) (filter ?W (windows t))"
    and one: "affected ?S (schedules t) = 1"
    and t': "t' = update_schedule (rw_tenant w) (rw_schedule w) (rw_end w)
      (close_window (rw_tenant w) (rw_schedule w) (rw_due w) (rw_end w) WCompleted at t)"
    using assms by (auto simp: complete_report_window_def Let_def split: if_splits)
  have win: "windows t' = update_where (\<lambda>x. ?W x \<and> w_status x = WPending) ?f (windows t)"
    and sch: "schedules t' = update_where ?S ?g (schedules t)" and rep: "reports t' = reports t"
    by (simp_all add: t' update_schedule_def close_window_def)
  have W: "?W (?f x) = ?W x" for x by (simp add: is_window_def)
  obtain x where x: "x \<in> set (windows t)" "?W x" "w_status x = WPending \<or> w_status x = WCompleted"
    using eligible by (auto simp: list_ex_iff)
  define y where "y = (if w_status x = WPending then ?f x else x)"
  have "y \<in> set (windows t')" "?W y" "w_status y = WCompleted"
    unfolding win set_update_where using x by (auto simp: y_def W)
  moreover have "w_status z \<noteq> WPending" if "z \<in> set (windows t')" "?W z" for z
    using that unfolding win set_update_where by auto
  ultimately have "window_closed w t'" unfolding window_closed_def by blast
  moreover obtain s where s: "filter ?S (schedules t) = [s]" using affected_one [OF one] by blast
  have "filter ?S (schedules t') = [?g s]" unfolding sch by (subst filter_update_where) (simp_all add: s)
  then have "schedule_advanced w t'"
    unfolding schedule_advanced_def using advance_to_ge [of "rw_end w" "s_last_success s"] by (auto simp: advance_to_def)
  ultimately show ?thesis using rep by blast
qed

lemma generated_update:
  assumes inv: "reports_inv t" and one: "affected (held_report w) (reports t) = 1"
  shows "report_generated w a at (t\<lparr>reports := update_where (held_report w) (mark_generated a at) (reports t)\<rparr>)"
proof -
  obtain r where r: "r \<in> set (reports t)" "held_report w r"
    using one affected_pos [of "held_report w" "reports t"] by auto
  then have id: "rp_id r = rw_report w" by (simp add: held_report_def report_key_def)
  have f: "\<And>r. rp_id (mark_generated a at r) = rp_id r" by (simp add: mark_generated_def)
  show ?thesis
    using find_report_unique [OF inv r(1)] r(2) id
    by (simp add: report_generated_def find_report_update [OF f]) (simp add: mark_generated_def)
qed

lemma generated_same: "report_generated w a at t \<Longrightarrow> reports t' = reports t \<Longrightarrow> report_generated w a at t'"
  by (simp add: report_generated_def find_report_def)

lemma finalizeReport_Inr:
  assumes inv: "reports_inv (rows d)" and ok: "finalizeReport E w a at d = (Inr u, d')"
  shows "report_generated w a at (rows d') \<and>
    (rw_trigger w = ''scheduled'' \<longrightarrow> window_closed w (rows d') \<and> schedule_advanced w (rows d'))"
proof -
  let ?t1 = "(rows d)\<lparr>reports := update_where (held_report w) (mark_generated a at) (reports (rows d))\<rparr>"
  have one: "affected (held_report w) (reports (rows d)) = 1"
    using ok unfolding finalizeReport_def by (auto elim!: sql_bindE simp: sql_wrap_eq_Inr sql_stmt_Inr split: if_splits)
  note gen = generated_update [OF inv one, of a at]
  show ?thesis
  proof (cases "rw_trigger w = ''scheduled''")
    case True
    with ok have "complete_report_window w at ?t1 = (1, rows d')"
      unfolding finalizeReport_def by (auto elim!: sql_bindE simp: sql_wrap_eq_Inr sql_stmt_Inr split: if_splits)
    from complete_window_result [OF this] generated_same [OF gen] show ?thesis by blast
  next
    case False
    with ok have "rows d' = ?t1"
      unfolding finalizeReport_def by (auto elim!: sql_bindE simp: sql_wrap_eq_Inr sql_stmt_Inr split: if_splits)
    with gen False show ?thesis by simp
  qed
qed

text \<open>
  When a report is finalized, its row is generated with the path and the hash of the written
  artifact, the path being the one the work named; for a scheduled report the same transaction has
  closed its digest window for good and advanced the one schedule row to the end of the window.
\<close>

theorem finalized_report_completes:
  assumes "reports_inv (rows d)" "FinalizeReport E L w a at d = (Inr (), d')"
  shows "report_generated w a at (rows d') \<and> ra_path a = rw_path w \<and>
    (rw_trigger w = ''scheduled'' \<longrightarrow> window_closed w (rows d') \<and> schedule_advanced w (rows d'))"
proof -
  have v: "validateReportArtifact w a at = None" and tx: "one_tenant_tx E L (rw_tenant w) (finalizeReport E w a at) d = (Inr (), d')"
    using assms(2) by (auto simp: FinalizeReport_def split: option.splits)
  obtain d1 d2 where "rows d1 = rows d" "finalizeReport E w a at d1 = (Inr (), d2)" "rows d' = rows d2"
    using one_tenant_tx_Inr [OF tx] by blast
  with finalizeReport_Inr [of d1 E w a at "()" d2] assms(1) v show ?thesis
    by (auto simp: validateReportArtifact_def split: if_splits)
qed

definition failed_report :: report_row where
  "failed_report =
     \<lparr>rp_tenant = ''t1'', rp_id = ''p1'', rp_schedule = None, rp_due = day_ns, rp_start = None, rp_end = day_ns,
      rp_tenant_name = ''one'', rp_schedule_name = ''daily'', rp_trigger = ''manual'', rp_status = RFailed,
      rp_path = placeholder_path ''t1'' ''p1'', rp_sha = [], rp_count = 0, rp_attempts = 1, rp_error = Some ''disk full'',
      rp_token = Some ''old'', rp_claimed = Some day_ns, rp_generated = None, rp_deleted = None\<rparr>"

definition report_db :: "schema db" where
  "report_db = \<lparr>rows = \<lparr>tenants = [(''t1'', ''one'')], schedules = [], windows = [], window_items = [],
      window_recipients = [], deliveries = [], reports = [failed_report], report_items = [], notices = [],
      notice_revisions = [], matches = [], filters = [], recipients = [], source_warnings = [],
      collection_state = [], job_runs = [], api_usage = []\<rparr>, tick = 0\<rparr>"

lemma report_db_inv: "reports_inv (rows report_db)"
  by (simp add: report_db_def reports_inv_def failed_report_def)

definition held_row :: report_row where
  "held_row = failed_report\<lparr>rp_status := RGenerating, rp_error := None\<rparr>"

definition held_db :: "schema db" where
  "held_db = report_db\<lparr>rows := (rows report_db)\<lparr>reports := [held_row]\<rparr>\<rparr>"

definition held_artifact :: report_artifact where
  "held_artifact = \<lparr>ra_path = rp_path held_row, ra_sha = ''ab'', ra_count = 0\<rparr>"

lemma held_valid: "validateReportArtifact (work_of_row held_row) held_artifact (2 * day_ns) = None"
proof -
  have "trim_space ''ab'' = ''ab''" by (rule trim_space_visible) (simp_all add: visible_def byte_def)
  then show ?thesis
    by (simp add: validateReportArtifact_def work_of_row_def held_artifact_def held_row_def failed_report_def
        placeholder_path_def is_zero_def)
qed

lemma held_stored:
  "fst (one_tenant_tx plain_env open_env ''t1'' (finalizeReport plain_env (work_of_row held_row) held_artifact (2 * day_ns)) held_db) = Inr ()"
  by code_simp

lemma held_finalized: "fst (FinalizeReport plain_env open_env (work_of_row held_row) held_artifact (2 * day_ns) held_db) = Inr ()"
  using held_valid held_stored by (simp add: FinalizeReport_def held_row_def failed_report_def)

theorem finalized_report_completes_witness:
  "report_generated (work_of_row held_row) held_artifact (2 * day_ns)
     (rows (snd (FinalizeReport plain_env open_env (work_of_row held_row) held_artifact (2 * day_ns) held_db)))"
proof -
  have "reports_inv (rows held_db)" by (simp add: held_db_def reports_inv_def held_row_def failed_report_def)
  moreover have "FinalizeReport plain_env open_env (work_of_row held_row) held_artifact (2 * day_ns) held_db =
      (Inr (), snd (FinalizeReport plain_env open_env (work_of_row held_row) held_artifact (2 * day_ns) held_db))"
    by (rule prod_eqI) (simp_all only: fst_conv snd_conv held_finalized)
  ultimately show ?thesis by (rule finalized_report_completes [THEN conjunct1])
qed

end
