(* ===== verification/Report_Commands.thy ===== *)
theory Report_Commands
  imports Report_Lease
begin

text \<open>
  The report repository (internal/app/postgres_report.go, report_delete.go) as a system: its
  operations are the commands of a run, in any order and with whatever database faults, and what a
  command hands out is the work of the claims it granted.
\<close>

section \<open>Commands\<close>

record 'f repo_env =
  rv_db :: dbenv
  rv_lock :: lockenv
  rv_text :: text_env
  rv_zone :: bool
  rv_collate :: "string \<Rightarrow> string"
  rv_remove :: "string \<Rightarrow> 'f \<Rightarrow> unit res \<times> 'f"

text \<open>\<open>ClaimDueReports\<close> is one transaction for each tenant, so \<open>CmdDueReports\<close> is the part of it for
  one tenant (\<open>due_loop_is_run\<close>); every other command is one call of the repository.\<close>

datatype report_command =
    CmdDueReports string string time
  | CmdManualReport string time
  | CmdReclaimReport string string
  | CmdRegenerate string string time
  | CmdFinalizeReport report_work report_artifact time
  | CmdFailReport report_work "goerr option"
  | CmdRemoveReport string string

definition handed_work :: "report_work option res \<Rightarrow> report_work list" where
  "handed_work r = (case r of Inr (Some w) \<Rightarrow> [w] | _ \<Rightarrow> [])"

definition handed_works :: "report_work list res \<Rightarrow> report_work list" where
  "handed_works r = (case r of Inr ws \<Rightarrow> ws | Inl e \<Rightarrow> [])"

text \<open>The works a command hands out, and the state after it. A call that waits for the collector for
  ever has committed nothing.\<close>

fun report_call ::
  "'f repo_env \<Rightarrow> report_command \<Rightarrow> schema db \<times> 'f \<Rightarrow> report_work list \<times> (schema db \<times> 'f)" where
  "report_call V (CmdDueReports tenantID name now) (d, f) =
     (case withTenant (rv_db V) (rv_lock V) tenantID
        (tenant_reports (rv_db V) (rv_lock V) (rv_zone V) (rv_collate V) tenantID name now) d of
        None \<Rightarrow> ([], d, f) | Some (r, d') \<Rightarrow> (handed_works r, d', f))"
| "report_call V (CmdManualReport tenantID now) (d, f) =
     (case ClaimManualReport (rv_db V) (rv_lock V) (rv_text V) (rv_collate V) tenantID now d of
        None \<Rightarrow> ([], d, f) | Some (r, d') \<Rightarrow> (handed_work r, d', f))"
| "report_call V (CmdReclaimReport tenantID reportID) (d, f) =
     (case ReclaimReport (rv_db V) (rv_lock V) tenantID reportID d of (r, d') \<Rightarrow> (handed_work r, d', f))"
| "report_call V (CmdRegenerate tenantID reportID now) (d, f) =
     (case RetryReport (rv_db V) (rv_lock V) tenantID reportID now d of (r, d') \<Rightarrow> (handed_work r, d', f))"
| "report_call V (CmdFinalizeReport w a generatedAt) (d, f) =
     ([], snd (FinalizeReport (rv_db V) (rv_lock V) w a generatedAt d), f)"
| "report_call V (CmdFailReport w err) (d, f) =
     ([], snd (FinalizeReportFailure (rv_db V) (rv_lock V) w err d), f)"
| "report_call V (CmdRemoveReport tenantID reportID) s =
     ([], snd (DeleteReport (rv_db V) (rv_lock V) (rv_remove V) tenantID reportID s))"

definition report_step :: "'f repo_env \<Rightarrow> report_command \<Rightarrow> schema db \<times> 'f \<Rightarrow> schema db \<times> 'f" where
  "report_step V c s = snd (report_call V c s)"

text \<open>The reports a command grants, by id, and whether it is the manual retry of a report.\<close>

definition granted_reports :: "'f repo_env \<Rightarrow> report_command \<Rightarrow> schema db \<times> 'f \<Rightarrow> string list" where
  "granted_reports V c s = map rw_report (fst (report_call V c s))"

definition is_retry :: "report_command \<Rightarrow> bool" where
  "is_retry c = (case c of CmdRegenerate a i now \<Rightarrow> True | _ \<Rightarrow> False)"

definition restarted_report :: "'f repo_env \<Rightarrow> report_command \<Rightarrow> schema db \<times> 'f \<Rightarrow> string \<Rightarrow> bool" where
  "restarted_report V c s k \<longleftrightarrow> is_retry c \<and> k \<in> set (granted_reports V c s)"

lemma due_loop_is_run:
  assumes "ClaimDueReports_loop (rv_db V) (rv_lock V) (rv_zone V) (rv_collate V) now ts d = Some (r, d')"
  shows "\<exists>n. run_commands (report_step V) (map (\<lambda>(tenantID, name). CmdDueReports tenantID name now) (take n ts)) (d, f) = (d', f)"
  using assms
proof (induction ts arbitrary: d r)
  case Nil
  then show ?case by simp
next
  case (Cons tn ts)
  obtain a name where tn: "tn = (a, name)" by fastforce
  let ?body = "tenant_reports (rv_db V) (rv_lock V) (rv_zone V) (rv_collate V) a name now"
  obtain q d1 where q: "withTenant (rv_db V) (rv_lock V) a ?body d = Some (q, d1)"
    using Cons.prems tn by (cases "withTenant (rv_db V) (rv_lock V) a ?body d") auto
  then have step: "report_step V (CmdDueReports a name now) (d, f) = (d1, f)" by (simp add: report_step_def)
  show ?case
  proof (cases q)
    case (Inl e)
    with Cons.prems tn q step show ?thesis by (intro exI [of _ 1]) simp
  next
    case (Inr ws)
    with Cons.prems tn q obtain r1 where
      "ClaimDueReports_loop (rv_db V) (rv_lock V) (rv_zone V) (rv_collate V) now ts d1 = Some (r1, d')"
      by (auto split: option.splits sum.splits)
    from Cons.IH [OF this] obtain n where
      "run_commands (report_step V) (map (\<lambda>(tenantID, name). CmdDueReports tenantID name now) (take n ts)) (d1, f) = (d', f)" ..
    with step tn show ?thesis by (intro exI [of _ "Suc n"]) simp
  qed
qed

section \<open>Invariants of the claiming transactions\<close>

text \<open>A judgement on the statements from the call \<open>n\<close> on, whose ids come from the calls from \<open>n\<close> on.\<close>

definition keeps_from :: "nat \<Rightarrow> ('t \<Rightarrow> bool) \<Rightarrow> ('t, 'a) sql \<Rightarrow> bool" where
  "keeps_from n I m \<longleftrightarrow> (\<forall>d. n \<le> tick d \<longrightarrow> I (rows d) \<longrightarrow> n \<le> tick (snd (m d)) \<and> I (rows (snd (m d))))"

named_theorems from_intros \<open>rules that decompose the judgement keeps\_from\<close>

lemma keeps_fromD: "keeps_from n I m \<Longrightarrow> n \<le> tick d \<Longrightarrow> I (rows d) \<Longrightarrow> n \<le> tick (snd (m d)) \<and> I (rows (snd (m d)))"
  by (simp add: keeps_from_def)

lemma from_keeps: "keeps I m \<Longrightarrow> forward m \<Longrightarrow> keeps_from n I m"
  by (auto simp: keeps_from_def keeps_def forward_def intro: order_trans)

lemma from_return [from_intros]: "keeps_from n I (sql_return a)"
  by (simp add: keeps_from_def)

lemma from_Pair [simp]: "keeps_from n I (Pair r)"
  by (simp add: keeps_from_def)

lemma from_fail [from_intros]: "keeps_from n I (sql_fail e)"
  by (simp add: keeps_from_def)

lemma from_wrap [from_intros]: "keeps_from n I m \<Longrightarrow> keeps_from n I (sql_wrap msg m)"
  by (simp add: keeps_from_def)

lemma from_query [from_intros]: "keeps_from n I (sql_query E q)"
  by (intro from_keeps keeps_intros forward_intros)

lemma from_call [from_intros]: "keeps_from n I (sql_call E)"
  by (intro from_keeps keeps_intros forward_intros)

lemma from_lift [from_intros]: "keeps_from n I (sql_lift r)"
  by (simp add: sql_lift_def from_return from_fail split: sum.split)

lemma from_bind [from_intros]:
  "keeps_from n I m \<Longrightarrow> (\<And>a. keeps_from n I (f a)) \<Longrightarrow> keeps_from n I (sql_bind m f)"
  unfolding keeps_from_def sql_bind_def by (fastforce split: prod.splits sum.splits)

lemma from_stmt:
  "(\<And>k t a t'. n \<le> k \<Longrightarrow> I t \<Longrightarrow> f k t = Inr (a, t') \<Longrightarrow> I t') \<Longrightarrow> keeps_from n I (sql_stmt E f)"
  by (fastforce simp: keeps_from_def sql_stmt_def split: option.splits sum.splits)

lemma Inr_snd: "Inr p = Inr (a, t') \<Longrightarrow> I (snd p) \<Longrightarrow> I t'"
  by (cases p) simp

lemma from_if [from_intros]: "(b \<Longrightarrow> keeps_from n I m) \<Longrightarrow> (\<not> b \<Longrightarrow> keeps_from n I k) \<Longrightarrow> keeps_from n I (if b then m else k)"
  by simp

lemma from_case_option [from_intros]:
  "keeps_from n I m \<Longrightarrow> (\<And>x. keeps_from n I (f x)) \<Longrightarrow> keeps_from n I (case opt of None \<Rightarrow> m | Some x \<Rightarrow> f x)"
  by (cases opt) simp_all

lemma from_case_prod [from_intros]:
  "(\<And>x y. keeps_from n I (f x y)) \<Longrightarrow> keeps_from n I (case p of (x, y) \<Rightarrow> f x y)"
  by (cases p) simp

lemma from_forward: "(\<And>n. keeps_from n (\<lambda>t. True) m) \<Longrightarrow> forward m"
  unfolding keeps_from_def forward_def by blast

text \<open>What the transactions that claim reports do to the rows, statement by statement: a property of
  the rows that each of them keeps is kept by every claim. \<open>n0\<close> bounds the calls, whose ids are the
  new ones.\<close>

locale claim_invariant =
  fixes E :: dbenv and n0 :: nat and I :: "schema \<Rightarrow> bool"
  assumes items: "I t \<Longrightarrow> I (t\<lparr>report_items := ris\<rparr>)"
    and matched: "I t \<Longrightarrow> I (t\<lparr>matches := ms\<rparr>)"
    and listed: "I t \<Longrightarrow> I (t\<lparr>window_items := wis\<rparr>)"
    and addressed: "I t \<Longrightarrow> I (t\<lparr>window_recipients := window_recipients t @ rs\<rparr>)"
    and opened: "I t \<Longrightarrow> insert_window a b c e t = Inr (x, t') \<Longrightarrow> I t'"
    and noop: "I t \<Longrightarrow> I (snd (noop_rows a b c e now clk t))"
    and upsert: "n0 \<le> n \<Longrightarrow> I t \<Longrightarrow> upsert_report E a nm s dueAt windowEnd now n t = Inr (r, t') \<Longrightarrow> I t'"
    and manual: "n0 \<le> n \<Longrightarrow> I t \<Longrightarrow> insert_manual E a nm now n t = Inr (w, t') \<Longrightarrow> I t'"
    and reclaim: "n0 \<le> n \<Longrightarrow> I t \<Longrightarrow>
      I (snd (claim_where (\<lambda>r. report_key a i r \<and> reclaimable clk r) (claim_again clk (uuid_at E n 0)) t))"
begin

lemma kept_open: "keeps_from n0 I (getOrCreateDigestWindow E a b c e success)"
  unfolding getOrCreateDigestWindow_def
  by (intro from_intros from_stmt) (auto intro: opened listed addressed)

lemma kept_noop: "keeps_from n0 I (completeNoopDigestWindow E a b c e now)"
  unfolding completeNoopDigestWindow_def
  by (intro from_intros from_stmt) (erule Inr_snd, erule noop)

lemma kept_snapshot: "keeps_from n0 I (snapshot_stmt E skip i f)"
  unfolding snapshot_stmt_def by (rule from_stmt) (auto intro: items split: sum.splits)

lemma kept_load: "keeps_from n0 I (loadReportNotices E w)"
  unfolding loadReportNotices_def by (intro from_intros)

lemma kept_refresh: "keeps_from n0 I (refreshFilterMatches E T x now f as)"
proof -
  have one: "I t \<Longrightarrow> refresh_one E T x now f a k i t = Inr t' \<Longrightarrow> I t'" for a k i t t'
    by (auto simp: refresh_one_def Let_def upsert_match_def delete_match_def update_match_def intro: matched split: if_splits)
  have "I t \<Longrightarrow> refresh_batch E T x now f as k i t = Inr ((), t') \<Longrightarrow> I t'" for as k i t t'
    by (induction as arbitrary: i t) (auto dest: one split: sum.splits)
  then show ?thesis unfolding refreshFilterMatches_def by (intro from_intros from_stmt) auto
qed

lemma kept_refreshes: "keeps_from n0 I (refresh_filters E T x now as fs)"
  by (induction fs) (simp_all add: from_intros kept_refresh)

lemma kept_claimScheduled: "keeps_from n0 I (claimScheduledReport E collate x a nm s dueAt windowEnd now)"
  unfolding claimScheduledReport_def Let_def
  by (intro from_intros kept_noop kept_snapshot kept_load from_stmt) (erule (2) upsert)

lemma kept_claimManual: "keeps_from n0 I (claimManualReport E T collate x a now)"
  unfolding claimManualReport_def loadActiveNotices_def loadEnabledFilters_def tenant_name_of_def
  by (intro from_intros kept_refreshes kept_snapshot kept_load from_stmt) (erule (2) manual)

lemma kept_lock: "keeps_from n0 I (tryCollectionLock E L)" "keeps_from n0 I (lockDigestSnapshot E L)"
  unfolding lockDigestSnapshot_def tryCollectionLock_def by (intro from_intros from_stmt; simp)+

lemma kept_schedules: "keeps_from n0 I (loadReportSchedules E a)"
proof -
  have "keeps_from n0 I (load_report_pending E a s)" for s
    unfolding load_report_pending_def Let_def by (intro from_intros from_stmt) auto
  then have "keeps_from n0 I (load_report_pendings E a ss)" for ss
    by (induction ss) (simp_all add: from_intros)
  then show ?thesis unfolding loadReportSchedules_def by (intro from_intros)
qed

lemma kept_schedule_report: "keeps_from n0 I (tenant_schedule_report E tz collate x a nm now s)"
  unfolding tenant_schedule_report_def Let_def
  by (intro from_intros kept_open kept_claimScheduled)

lemma kept_schedule_reports: "keeps_from n0 I (tenant_schedule_reports E tz collate x a nm now ss)"
  by (induction ss) (simp_all add: from_intros kept_schedule_report)

lemma kept_tenant_reports: "keeps_from n0 I (tenant_reports E L tz collate a nm now x)"
  unfolding tenant_reports_def by (intro from_intros kept_lock kept_schedules kept_schedule_reports)

lemma kept_reclaim: "keeps_from n0 I (reclaimReport E a i)"
  unfolding reclaimReport_def scanAndLoadReport_def
  by (intro from_intros kept_load from_stmt) (erule Inr_snd, erule (1) reclaim)

end

text \<open>The transactions around the statements.\<close>

lemma from_rollback [from_intros]: "keeps_from n I m \<Longrightarrow> keeps_from n I (sql_rollback m)"
  unfolding keeps_from_def sql_rollback_def by (fastforce split: prod.splits sum.splits)

lemma from_tenantTransaction:
  assumes "\<And>now. keeps_from n I (fn now)"
  shows "keeps_from n I (tenantTransaction E fn)"
proof -
  have "keeps_from n I (sql_rollback
      (sql_bind (sql_wrap ''begin tenant transaction'' (sql_call E)) (\<lambda>_.
       sql_bind (sql_wrap ''set tenant context'' (sql_call E)) (\<lambda>_.
       sql_bind (fn now) (\<lambda>a.
       sql_bind (sql_wrap ''commit tenant transaction'' (sql_call E)) (\<lambda>_. sql_return a))))))" for now
    by (intro from_intros assms)
  then show ?thesis unfolding keeps_from_def tenantTransaction_def by blast
qed

lemma from_tenant_once: "(\<And>now. keeps_from n I (fn now)) \<Longrightarrow> keeps_from n I (tenant_once E L a fn)"
  using from_tenantTransaction [of n I fn E] by (auto simp: keeps_from_def tenant_once_def split: option.split)

lemma from_withTenant:
  assumes fn: "\<And>now. keeps_from n I (fn now)" and w: "withTenant E L a fn d = Some (r, d')"
    and d: "n \<le> tick d" "I (rows d)"
  shows "n \<le> tick d' \<and> I (rows d')"
proof (cases "db_set E \<and> a \<noteq> []")
  case True
  let ?J = "\<lambda>d. n \<le> tick d \<and> I (rows d)"
  have step: "?J (snd (tenantTransaction E fn d0))" if "?J d0" for d0
    using keeps_fromD [OF from_tenantTransaction [of n I fn E, OF fn]] that by blast
  from True w have "retryCollectionBusy L (tenantTransaction E fn) d = Some (r, d')" by (auto simp: withTenant_def)
  then have res: "case fst (r, d') of Inl e \<Rightarrow> ?J (snd (r, d'))
      | Inr x \<Rightarrow> (\<exists>d0. ?J d0 \<and> tenantTransaction E fn d0 = (Inr x, snd (r, d')))"
    by (rule retryCollectionBusy_from [where J = ?J]) (use d step in \<open>simp_all add: wait_tick_def\<close>)
  show ?thesis
  proof (cases r)
    case (Inr x)
    with res obtain d0 where d0: "?J d0" "tenantTransaction E fn d0 = (Inr x, d')" by auto
    with step [OF d0(1)] show ?thesis by simp
  qed (use res in simp)
qed (use w d in \<open>auto simp: withTenant_def\<close>)

lemma from_tx_with:
  assumes "keeps_from n I pre" "n \<le> tick d" "I (rows d)"
  shows "n \<le> tick (fst (snd (tx_with E L a pre work (d, f)))) \<and> I (rows (fst (snd (tx_with E L a pre work (d, f)))))"
proof -
  let ?body = "sql_bind (sql_wrap ''begin tenant transaction'' (sql_call E)) (\<lambda>_.
      sql_bind (sql_wrap ''set tenant context'' (sql_call E)) (\<lambda>_. pre))"
  let ?commit = "sql_wrap ''commit tenant transaction'' (sql_call E) :: ('a, unit) sql"
  have "keeps_from n I ?body" "keeps_from n I ?commit" by (intro from_intros assms)+
  note b = keeps_fromD [OF this(1) assms(2,3)] and c = keeps_fromD [OF this(2)]
  obtain r d1 where b1: "?body d = (r, d1)" by (cases "?body d")
  obtain r2 d2 where c1: "?commit d1 = (r2, d2)" by (cases "?commit d1")
  have I1: "n \<le> tick d1 \<and> I (rows d1)" using b b1 by simp
  have I2: "n \<le> tick d2 \<and> I (rows d2)" using c [of d1] c1 I1 by simp
  have run: "tx_with E L a pre work (d, f) =
      (if \<not> db_set E \<or> a = [] then
         (Inl (ErrText ''tenant transaction requires a pool, tenant, and operation''), d, f)
       else case ctx_err L (tick d) of
         Some e \<Rightarrow> (Inl e, d, f)
       | None \<Rightarrow> (case r of
           Inl e \<Rightarrow> (Inl e, d1\<lparr>rows := rows d\<rparr>, f)
         | Inr b \<Rightarrow> (case work b f of
             (Inl e, f1) \<Rightarrow> (Inl e, d1\<lparr>rows := rows d\<rparr>, f1)
           | (Inr x, f1) \<Rightarrow> (case r2 of
               Inl e \<Rightarrow> (Inl e, d2\<lparr>rows := rows d\<rparr>, f1) | Inr u \<Rightarrow> (Inr x, d2, f1)))))"
    unfolding tx_with_def by (simp only: prod.case b1 c1)
  show ?thesis
    unfolding run using I1 I2 assms(2,3) by (simp split: option.split sum.split prod.split)
qed

text \<open>A transaction that succeeds: what its body did.\<close>

lemma one_tenant_tx_forward:
  assumes "one_tenant_tx E L a body d = (Inr x, d')"
  obtains d1 d2 where "rows d1 = rows d" "tick d \<le> tick d1" "body d1 = (Inr x, d2)" "rows d' = rows d2"
  using assms tenantTransaction_forward [of E "\<lambda>now. body" d x d']
  by (auto simp: tenant_once_def split: option.splits if_splits)

lemma withTenant_body:
  assumes "withTenant E L a fn d = Some (Inr x, d')" and fwd: "\<And>now. forward (fn now)"
  obtains now d1 d2 where "rows d1 = rows d" "tick d \<le> tick d1" "fn now d1 = (Inr x, d2)" "rows d' = rows d2"
  using withTenant_forward [OF assms] by auto

text \<open>Every command of the repository keeps a property that its statements keep. Which finalizations
  and retries it holds for is a parameter.\<close>

locale report_invariant = claim_invariant +
  fixes allowed :: "report_command \<Rightarrow> bool"
  assumes retried: "allowed (CmdRegenerate a i now) \<Longrightarrow> n0 \<le> n \<Longrightarrow> I t \<Longrightarrow>
      I (snd (claim_where (\<lambda>r. report_key a i r \<and> rp_deleted r = None \<and> rp_status r = RFailed) (claim_anew now (uuid_at E n 0)) t))"
    and finalized: "allowed (CmdFinalizeReport w art at) \<Longrightarrow> I (rows d) \<Longrightarrow> finalizeReport E w art at d = (Inr u, d') \<Longrightarrow> I (rows d')"
    and failed: "I t \<Longrightarrow> I (t\<lparr>reports := update_where (held_report w) (mark_report_failed msg) (reports t)\<rparr>)"
    and removed: "I t \<Longrightarrow> I (t\<lparr>reports := update_where (report_key a i) (mark_deleted clk) (reports t)\<rparr>)"
begin

lemma kept_retry: "allowed (CmdRegenerate a i now) \<Longrightarrow> keeps_from n0 I (retryReport E a i now)"
  unfolding retryReport_def scanAndLoadReport_def
  by (intro from_intros kept_load from_stmt) (erule Inr_snd, erule (2) retried)

lemma kept_fail: "keeps_from n0 I (finalizeReportFailure E w err)"
  unfolding finalizeReportFailure_def stale_claim_def
  by (intro from_intros from_stmt) (auto intro: failed)

lemma kept_delete: "keeps_from n0 I (deleteReport_rows E a i)"
  unfolding deleteReport_rows_def delete_rows_def filter_names_def
  by (intro from_intros from_stmt) (auto intro: removed items)

lemma forward_finalize: "forward (finalizeReport E w art at)"
  unfolding finalizeReport_def stale_claim_def by (intro forward_intros)

lemma kept_FinalizeReport:
  assumes "allowed (CmdFinalizeReport w art at)" "n0 \<le> tick d" "I (rows d)"
  shows "n0 \<le> tick (snd (FinalizeReport E L w art at d)) \<and> I (rows (snd (FinalizeReport E L w art at d)))"
proof (cases "validateReportArtifact w art at")
  case None
  then have fr: "FinalizeReport E L w art at d = one_tenant_tx E L (rw_tenant w) (finalizeReport E w art at) d"
    by (simp add: FinalizeReport_def)
  have "keeps_from n0 (\<lambda>t. True) (finalizeReport E w art at)"
    by (intro from_keeps forward_finalize) (simp add: keeps_def)
  then have "keeps_from n0 (\<lambda>t. True) (one_tenant_tx E L (rw_tenant w) (finalizeReport E w art at))" by (rule from_tenant_once)
  then have t: "n0 \<le> tick (snd (FinalizeReport E L w art at d))" unfolding fr by (metis keeps_fromD assms(2))
  obtain r d' where r: "one_tenant_tx E L (rw_tenant w) (finalizeReport E w art at) d = (r, d')" by fastforce
  have "I (rows d')"
  proof (cases r)
    case (Inl e)
    with one_tenant_tx_Inl [of E L "rw_tenant w" "finalizeReport E w art at" d e] r assms(3) show ?thesis by simp
  next
    case (Inr u)
    from one_tenant_tx_Inr [OF r [unfolded Inr]] finalized [OF assms(1)] assms(3) show ?thesis by metis
  qed
  with t r fr show ?thesis by simp
qed (use assms in \<open>simp add: FinalizeReport_def\<close>)

lemma step_keeps:
  assumes V: "rv_db V = E" and c: "allowed c" and d: "n0 \<le> tick (fst s)" "I (rows (fst s))"
  shows "n0 \<le> tick (fst (report_step V c s)) \<and> I (rows (fst (report_step V c s)))"
proof -
  obtain d0 f where s: "s = (d0, f)" by (cases s)
  have d0: "n0 \<le> tick d0" "I (rows d0)" using d s by auto
  show ?thesis
  proof (cases c)
    case (CmdDueReports a nm now)
    with s V d0 from_withTenant [OF kept_tenant_reports _ d0] show ?thesis
      by (auto simp: report_step_def split: option.split)
  next
    case (CmdManualReport a now)
    have k: "keeps_from n0 I (sql_bind (lockDigestSnapshot E L) (claimManualReport E T collate x a))" for L T collate x
      by (intro from_intros kept_lock kept_claimManual)
    from CmdManualReport s V d0 from_withTenant [OF k _ d0] show ?thesis
      by (auto simp: report_step_def ClaimManualReport_def split: option.split)
  next
    case (CmdReclaimReport a i)
    have k: "keeps_from n0 I (ReclaimReport E L a i)" for L
      unfolding ReclaimReport_def by (intro from_tenant_once kept_reclaim)
    obtain r d1 where r: "ReclaimReport E (rv_lock V) a i d0 = (r, d1)" by fastforce
    with keeps_fromD [OF k d0, of "rv_lock V"] CmdReclaimReport s V show ?thesis by (simp add: report_step_def)
  next
    case (CmdRegenerate a i now)
    have k: "keeps_from n0 I (RetryReport E L a i now)" for L
      unfolding RetryReport_def using c CmdRegenerate
      by (intro from_intros from_tenant_once kept_retry) simp
    obtain r d1 where r: "RetryReport E (rv_lock V) a i now d0 = (r, d1)" by fastforce
    with keeps_fromD [OF k d0, of "rv_lock V"] CmdRegenerate s V show ?thesis by (simp add: report_step_def)
  next
    case (CmdFinalizeReport w art at)
    with s V c kept_FinalizeReport [OF _ d0] show ?thesis by (simp add: report_step_def)
  next
    case (CmdFailReport w err)
    with s V d0 keeps_fromD [OF from_tenant_once [OF kept_fail] d0] show ?thesis
      by (auto simp: report_step_def FinalizeReportFailure_def split: option.split)
  next
    case (CmdRemoveReport a i)
    with s V from_tx_with [OF kept_delete d0] show ?thesis by (simp add: report_step_def DeleteReport_def)
  qed
qed

end

end
