(* ===== verification/Report_Grants.thy ===== *)
theory Report_Grants
  imports Report_Commands
begin

text \<open>
  What the claims of the report repository guarantee over any run of \<open>Report_Commands\<close>: a report is
  generated at most three times for each start of its count, and the work of a claim that was
  superseded is of no use any more.
\<close>

section \<open>Invariants of the reports\<close>

lemma insert_window_reports: "insert_window a b c e t = Inr (x, t') \<Longrightarrow> reports t' = reports t"
  by (auto simp: insert_window_def split: if_splits)

lemma insert_manual_Inr:
  assumes "insert_manual E a nm now n t = Inr (w, t')"
  obtains "report_violation (new_report a None now None now nm manual_name ''manual'' (uuid_at E n 0) (uuid_at E n 1) now) t = None"
    "w = work_of_row (new_report a None now None now nm manual_name ''manual'' (uuid_at E n 0) (uuid_at E n 1) now)"
    "t' = t\<lparr>reports := reports t @ [new_report a None now None now nm manual_name ''manual'' (uuid_at E n 0) (uuid_at E n 1) now]\<rparr>"
  using assms by (auto simp: insert_manual_def Let_def split: option.splits)

lemma grows_manual: "report_grows t0 t \<Longrightarrow> insert_manual E a nm now n t = Inr (w, t') \<Longrightarrow> report_grows t0 t'"
  by (erule insert_manual_Inr) (auto intro!: grows_insert dest!: violation_fresh simp: new_report_def)

lemma grows_reclaim_row:
  "report_grows t0 t \<Longrightarrow> report_grows t0 (snd (claim_where (\<lambda>r. report_key a i r \<and> reclaimable clk r) (claim_again clk tok) t))"
  by (rule grows_claim_where) (auto simp: claim_again_def reclaimable_def)

interpretation always: report_invariant E n0 "\<lambda>t. True" "\<lambda>c. True" for E :: dbenv and n0 :: nat
  by unfold_locales simp_all

interpretation growing: report_invariant E n0 "report_grows t0" "\<lambda>c. \<not> is_retry c" for E :: dbenv and n0 :: nat and t0
proof unfold_locales
  fix t
  assume t: "report_grows t0 t"
  show "report_grows t0 (t\<lparr>report_items := ris\<rparr>)" "report_grows t0 (t\<lparr>matches := ms\<rparr>)" "report_grows t0 (t\<lparr>window_items := wis\<rparr>)"
    "report_grows t0 (t\<lparr>window_recipients := window_recipients t @ rs\<rparr>)" for ris ms wis rs
    by (rule grows_same [OF t]; simp)+
  show "report_grows t0 t'" if "insert_window a b c e t = Inr (x, t')" for a b c e x t'
    by (rule grows_same [OF t insert_window_reports [OF that]])
  show "report_grows t0 (snd (noop_rows a b c e now clk t))" for a b c e now clk
    by (rule grows_same [OF t noop_reports])
  show "report_grows t0 t'" if "upsert_report E a nm s dueAt windowEnd now n t = Inr (r, t')" for a nm s dueAt windowEnd now n r t'
    by (rule grows_upsert [OF t that])
  show "report_grows t0 t'" if "insert_manual E a nm now n t = Inr (w, t')" for a nm now n w t'
    by (rule grows_manual [OF t that])
  show "report_grows t0 (snd (claim_where (\<lambda>r. report_key a i r \<and> reclaimable clk r) (claim_again clk (uuid_at E n 0)) t))" for a i clk n
    by (rule grows_reclaim_row [OF t])
  show "report_grows t0 (t\<lparr>reports := update_where (held_report w) (mark_report_failed msg) (reports t)\<rparr>)"
    "report_grows t0 (t\<lparr>reports := update_where (report_key a i) (mark_deleted clk) (reports t)\<rparr>)" for w msg a i clk
    by (rule grows_mark [OF _ t]; simp add: mark_report_failed_def mark_deleted_def)+
next
  show "report_grows t0 (rows d')" if "report_grows t0 (rows d)" "finalizeReport E w art at d = (Inr u, d')" for w art at d u d'
    using keepsD [OF grows_finalize that(1), of E w art at] that(2) by simp
qed (simp add: is_retry_def)

text \<open>The ids stay unique and the counts within one and three, the manual retry included.\<close>

lemma inv_of_growth: "report_grows t t' \<Longrightarrow> reports_inv t'"
  by (simp add: report_grows_def)

interpretation numbered: report_invariant E n0 reports_inv "\<lambda>c. True" for E :: dbenv and n0 :: nat
proof unfold_locales
  fix t
  assume t: "reports_inv t"
  note g = grows_refl [OF t]
  show "reports_inv (t\<lparr>report_items := ris\<rparr>)" "reports_inv (t\<lparr>matches := ms\<rparr>)" "reports_inv (t\<lparr>window_items := wis\<rparr>)"
    "reports_inv (t\<lparr>window_recipients := window_recipients t @ rs\<rparr>)" for ris ms wis rs
    by (rule inv_of_growth [OF growing.items [OF g]] inv_of_growth [OF growing.matched [OF g]]
        inv_of_growth [OF growing.listed [OF g]] inv_of_growth [OF growing.addressed [OF g]])+
  show "reports_inv t'" if "insert_window a b c e t = Inr (x, t')" for a b c e x t'
    by (rule inv_of_growth [OF growing.opened [OF g that]])
  show "reports_inv (snd (noop_rows a b c e now clk t))" for a b c e now clk
    by (rule inv_of_growth [OF growing.noop [OF g]])
  show "reports_inv t'" if "upsert_report E a nm s dueAt windowEnd now n t = Inr (r, t')" for a nm s dueAt windowEnd now n r t'
    by (rule inv_of_growth [OF grows_upsert [OF g that]])
  show "reports_inv t'" if "insert_manual E a nm now n t = Inr (w, t')" for a nm now n w t'
    by (rule inv_of_growth [OF grows_manual [OF g that]])
  show "reports_inv (snd (claim_where (\<lambda>r. report_key a i r \<and> reclaimable clk r) (claim_again clk (uuid_at E n 0)) t))" for a i clk n
    by (rule inv_of_growth [OF grows_reclaim_row [OF g]])
  show "reports_inv (snd (claim_where (\<lambda>r. report_key a i r \<and> rp_deleted r = None \<and> rp_status r = RFailed) (claim_anew now (uuid_at E n 0)) t))" for a i now n
    using t by (auto simp: claim_where_def claim_anew_def intro!: inv_update)
  show "reports_inv (t\<lparr>reports := update_where (held_report w) (mark_report_failed msg) (reports t)\<rparr>)"
    "reports_inv (t\<lparr>reports := update_where (report_key a i) (mark_deleted clk) (reports t)\<rparr>)" for w msg a i clk
    by (rule inv_of_growth [OF growing.failed [OF g]] inv_of_growth [OF growing.removed [OF g]])+
next
  show "reports_inv (rows d')" if "reports_inv (rows d)" "finalizeReport E w art at d = (Inr u, d')" for w art at d u d'
    using keepsD [OF grows_finalize grows_refl [OF that(1)], of E w art at] that(2) by (simp add: report_grows_def)
qed

section \<open>Tokens\<close>

text \<open>A report is not held under a token.\<close>

definition unheld :: "string \<Rightarrow> string \<Rightarrow> schema \<Rightarrow> bool" where
  "unheld tok k t \<longleftrightarrow> (\<forall>r \<in> set (reports t). rp_id r = k \<longrightarrow> rp_token r \<noteq> Some tok)"

lemma unheld_same: "unheld tok k t \<Longrightarrow> reports t' = reports t \<Longrightarrow> unheld tok k t'"
  by (simp add: unheld_def)

lemma unheld_update:
  assumes t: "unheld tok k t" and f: "\<And>r. rp_id (f r) = rp_id r \<and> rp_token (f r) = Some new" and new: "new \<noteq> tok"
  shows "unheld tok k (t\<lparr>reports := update_where P f (reports t)\<rparr>)"
  using t f new by (auto simp: unheld_def set_update_where)

lemma unheld_insert:
  "unheld tok k t \<Longrightarrow> rp_token r = Some new \<Longrightarrow> new \<noteq> tok \<Longrightarrow> unheld tok k (t\<lparr>reports := reports t @ [r]\<rparr>)"
  by (auto simp: unheld_def)

lemma unheld_upsert:
  assumes t: "unheld tok k t" and new: "\<And>i. uuid_at E n i \<noteq> tok"
    and up: "upsert_report E a nm s dueAt windowEnd now n t = Inr (r, t')"
  shows "unheld tok k t'"
proof -
  have again: "unheld tok k (t\<lparr>reports := update_where P (claim_again now (uuid_at E n 2)) (reports t)\<rparr>)" for P
    by (rule unheld_update [OF t _ new]) (simp add: claim_again_def)
  have insert: "unheld tok k (t\<lparr>reports := reports t @ [new_report a x dueAt y windowEnd nm z tr (uuid_at E n 0) (uuid_at E n 1) now]\<rparr>)" for x y z tr
    by (rule unheld_insert [OF t _ new]) (simp add: new_report_def)
  show ?thesis
    using up again insert t by (auto simp: upsert_report_def Let_def split: option.splits if_splits)
qed

text \<open>When the ids to come differ from a token, no command brings the token back.\<close>

lemma unheld_invariant:
  assumes fresh: "\<And>n i. n0 \<le> n \<Longrightarrow> uuid_at E n i \<noteq> tok"
  shows "report_invariant E n0 (unheld tok k) (\<lambda>c. True)"
proof unfold_locales
  fix t
  assume t: "unheld tok k t"
  show "unheld tok k (t\<lparr>report_items := ris\<rparr>)" "unheld tok k (t\<lparr>matches := ms\<rparr>)" "unheld tok k (t\<lparr>window_items := wis\<rparr>)"
    "unheld tok k (t\<lparr>window_recipients := window_recipients t @ rs\<rparr>)" for ris ms wis rs
    by (rule unheld_same [OF t]; simp)+
  show "unheld tok k t'" if "insert_window a b c e t = Inr (x, t')" for a b c e x t'
    by (rule unheld_same [OF t insert_window_reports [OF that]])
  show "unheld tok k (snd (noop_rows a b c e now clk t))" for a b c e now clk
    by (rule unheld_same [OF t noop_reports])
  show "unheld tok k (t\<lparr>reports := update_where (held_report w) (mark_report_failed msg) (reports t)\<rparr>)"
    "unheld tok k (t\<lparr>reports := update_where (report_key a i) (mark_deleted clk) (reports t)\<rparr>)" for w msg a i clk
    using t by (auto simp: unheld_def set_update_where mark_report_failed_def mark_deleted_def)
  fix n
  assume "n0 \<le> n"
  then have new: "\<And>i. uuid_at E n i \<noteq> tok" by (rule fresh)
  show "unheld tok k t'" if "upsert_report E a nm s dueAt windowEnd now n t = Inr (r, t')" for a nm s dueAt windowEnd now r t'
    by (rule unheld_upsert [OF t new that])
  show "unheld tok k t'" if "insert_manual E a nm now n t = Inr (w, t')" for a nm now w t'
    using that by (rule insert_manual_Inr) (simp, rule unheld_insert [OF t _ new], simp add: new_report_def)
  show "unheld tok k (snd (claim_where (\<lambda>r. report_key a i r \<and> reclaimable clk r) (claim_again clk (uuid_at E n 0)) t))" for a i clk
    unfolding claim_where_def snd_conv by (rule unheld_update [OF t _ new]) (simp add: claim_again_def)
  show "unheld tok k (snd (claim_where (\<lambda>r. report_key a i r \<and> rp_deleted r = None \<and> rp_status r = RFailed) (claim_anew now (uuid_at E n 0)) t))" for a i now
    unfolding claim_where_def snd_conv by (rule unheld_update [OF t _ new]) (simp add: claim_anew_def)
next
  fix w art at d u d'
  assume d: "unheld tok k (rows d)" "finalizeReport E w art at d = (Inr u, d')"
  have "keeps (unheld tok k) (finalizeReport E w art at)"
    unfolding finalizeReport_def
    by (intro keeps_intros keeps_stmt)
       (auto simp: unheld_def set_update_where mark_generated_def dest!: complete_window_reports')
  from keepsD [OF this d(1)] d(2) show "unheld tok k (rows d')" by simp
qed

section \<open>What each claim hands out\<close>

text \<open>The work of a claim: its row is held, under a token of the calls from \<open>n\<close> on.\<close>

definition issued :: "dbenv \<Rightarrow> nat \<Rightarrow> report_work \<Rightarrow> schema \<Rightarrow> bool" where
  "issued E n w t \<longleftrightarrow> holds_report w t \<and> (\<exists>m i. n \<le> m \<and> rw_token w = uuid_at E m i)"

lemma issuedI: "holds_report w t \<Longrightarrow> n \<le> m \<Longrightarrow> rw_token w = uuid_at E m i \<Longrightarrow> issued E n w t"
  unfolding issued_def by blast

lemma issued_from: "issued E m w t \<Longrightarrow> n \<le> m \<Longrightarrow> issued E n w t"
  unfolding issued_def by (meson le_trans)

lemma held_unheld:
  assumes "reports_inv t" "holds_report w t" "rw_token w \<noteq> tok"
  shows "unheld tok (rw_report w) t"
proof -
  obtain r where r: "find_report (rw_report w) t = Some r" "rp_token r = Some (rw_token w)"
    using assms(2) by (rule holds_report_row)
  then have "x = r" if "x \<in> set (reports t)" "rp_id x = rw_report w" for x
    using find_report_unique [OF assms(1) that(1)] that(2) by simp
  with r(2) assms(3) show ?thesis by (auto simp: unheld_def)
qed

lemma load_token: "loadReportNotices E w0 d = (Inr w, d') \<Longrightarrow> rw_token w = rw_token w0"
  using loadReportNotices_Inr by fastforce

lemma forward_load: "forward (loadReportNotices E w)"
  using always.kept_load by (rule from_forward)

lemma claimScheduled_issued:
  assumes "reports_inv (rows d)" and ok: "claimScheduledReport E collate x a b s dueAt windowEnd now d = (Inr (Some w), d')"
  shows "issued E (tick d) w (rows d')"
proof -
  from ok obtain d1 d2 d3 w0 c where d1: "tick d \<le> tick d1"
    and up: "sql_stmt E (upsert_report E a b s dueAt windowEnd now) d1 = (Inr (Some w0), d2)"
    and load: "loadReportNotices E w0 d3 = (Inr w, d')"
    unfolding claimScheduledReport_def Let_def
    by (auto elim!: sql_bindE simp: sql_wrap_eq_Inr sql_query_Inr split: if_splits option.splits)
       (metis db.select_convs(2) le_SucI order_refl)
  from up have "rw_token w0 = uuid_at E (tick d1) 1 \<or> rw_token w0 = uuid_at E (tick d1) 2"
    by (auto simp: sql_stmt_Inr upsert_report_def Let_def new_report_def claim_again_def split: option.splits if_splits)
  with load_token [OF load] d1 claimScheduled_granted [OF assms(1) ok] show ?thesis
    by (auto simp: granted_claim_def intro: issuedI)
qed

lemma scan_stmt_token:
  assumes run: "scanAndLoadReport E (sql_stmt E f) d = (Inr (Some w), d')"
    and f: "\<And>w0 t. f (tick d) (rows d) = Inr (Some w0, t) \<Longrightarrow> rw_token w0 = tok"
  shows "rw_token w = tok"
proof -
  from run obtain w0 d1 where "sql_stmt E f d = (Inr (Some w0), d1)" "loadReportNotices E w0 d1 = (Inr w, d')"
    unfolding scanAndLoadReport_def by (auto elim!: sql_bindE simp: sql_wrap_eq_Inr split: option.splits)
  with f load_token show ?thesis by (auto simp: sql_stmt_Inr)
qed

lemma claim_where_token:
  "(\<And>r. rp_token (f r) = Some tok) \<Longrightarrow> claim_where P f t = (Some w, t') \<Longrightarrow> rw_token w = tok"
  by (auto simp: claim_where_def)

lemma reclaim_issued:
  assumes "reports_inv (rows d)" "reclaimReport E a i d = (Inr (Some w), d')"
  shows "issued E (tick d) w (rows d')"
proof -
  have "rw_token w = uuid_at E (tick d) 0"
    by (rule scan_stmt_token [OF assms(2) [unfolded reclaimReport_def]])
       (simp, erule claim_where_token [rotated], simp add: claim_again_def)
  then show ?thesis using reclaim_granted [OF assms] by (auto simp: granted_claim_def intro: issuedI)
qed

lemma retry_issued:
  assumes "reports_inv (rows d)" "retryReport E a i now d = (Inr (Some w), d')"
  shows "issued E (tick d) w (rows d')"
proof -
  have "rw_token w = uuid_at E (tick d) 0"
    by (rule scan_stmt_token [OF assms(2) [unfolded retryReport_def]])
       (simp, erule claim_where_token [rotated], simp add: claim_anew_def)
  then show ?thesis using retry_holds [OF assms] by (auto intro: issuedI)
qed

text \<open>A manual report is inserted into the rows as the refreshed filters left them.\<close>

lemma claimManual_steps:
  assumes ok: "claimManualReport E T collate x a now d = (Inr (Some w), d')"
  obtains nm d1 d2 d3 d4 w0 c where
    "sql_bind (loadActiveNotices E T now) (\<lambda>as. sql_bind (loadEnabledFilters E a) (\<lambda>fs. refresh_filters E T x now as fs)) d = (Inr (), d1)"
    "rows d2 = rows d1" "tick d1 \<le> tick d2"
    "sql_stmt E (insert_manual E a nm now) d2 = (Inr w0, d3)"
    "snapshot_stmt E False (rw_report w0) (manual_rows collate a now) d3 = (Inr c, d4)"
    "loadReportNotices E w0 d4 = (Inr w, d')"
  using ok unfolding claimManualReport_def
proof (elim sql_bindE, goal_cases)
  case (1 as d01 fs d02 u d1 nm d03 has d2)
  have pre: "sql_bind (loadActiveNotices E T now) (\<lambda>as. sql_bind (loadEnabledFilters E a) (\<lambda>fs. refresh_filters E T x now as fs)) d = (Inr (), d1)"
    using 1(2-4) by (simp add: sql_bind_def)
  have "rows d03 = rows d1 \<and> tick d1 \<le> tick d03"
    using 1(5) unfolding tenant_name_of_def
    by (auto elim!: sql_bindE simp: sql_wrap_eq_Inr sql_query_Inr split: option.splits)
  then have d2: "rows d2 = rows d1" "tick d1 \<le> tick d2" using 1(6) by (auto simp: sql_wrap_eq_Inr sql_query_Inr)
  have has: has using 1(7) by (auto split: if_splits)
  obtain w0 d3 c d4 where "sql_stmt E (insert_manual E a nm now) d2 = (Inr w0, d3)"
    "snapshot_stmt E False (rw_report w0) (manual_rows collate a now) d3 = (Inr c, d4)" "loadReportNotices E w0 d4 = (Inr w, d')"
    using 1(7) has by (auto elim!: sql_bindE simp: sql_wrap_eq_Inr split: if_splits)
  with 1(1) [OF pre d2] show ?case by blast
qed

lemma claimManual_issued:
  assumes inv: "reports_inv (rows d)" and ok: "claimManualReport E T collate x a now d = (Inr (Some w), d')"
  shows "issued E (tick d) w (rows d') \<and> (\<exists>t1. report_grows (rows d) t1 \<and> granted_claim t1 w (rows d'))"
proof -
  from ok obtain nm d1 d2 d3 d4 w0 c where
    pre: "sql_bind (loadActiveNotices E T now) (\<lambda>as. sql_bind (loadEnabledFilters E a) (\<lambda>fs. refresh_filters E T x now as fs)) d = (Inr (), d1)"
    and d2: "rows d2 = rows d1" "tick d1 \<le> tick d2"
    and ins: "sql_stmt E (insert_manual E a nm now) d2 = (Inr w0, d3)"
    and snap: "snapshot_stmt E False (rw_report w0) (manual_rows collate a now) d3 = (Inr c, d4)"
    and load: "loadReportNotices E w0 d4 = (Inr w, d')"
    by (rule claimManual_steps)
  have "keeps_from (tick d) (report_grows (rows d))
      (sql_bind (loadActiveNotices E T now) (\<lambda>as. sql_bind (loadEnabledFilters E a) (\<lambda>fs. refresh_filters E T x now as fs)))"
    unfolding loadActiveNotices_def loadEnabledFilters_def by (intro from_intros growing.kept_refreshes)
  from keeps_fromD [OF this order_refl grows_refl [OF inv]] pre have g: "tick d \<le> tick d1" "report_grows (rows d) (rows d1)" by auto
  from ins have i: "insert_manual E a nm now (tick d2) (rows d1) = Inr (w0, rows d3)" by (auto simp: sql_stmt_Inr d2)
  have "granted_claim (rows d1) w0 (rows d3)"
    using i by (rule insert_manual_Inr) (simp only: granted_new)
  moreover obtain ns where "rows d' = rows d4" "w = w0\<lparr>rw_notices := ns\<rparr>" using loadReportNotices_Inr [OF load] by blast
  ultimately have gr: "granted_claim (rows d1) w (rows d')"
    using granted_same_reports [of "rows d1" w0 "rows d3" "rows d'"] snapshot_Inr [OF snap] by simp
  have tok: "rw_token w = uuid_at E (tick d2) 1"
    using i by (rule insert_manual_Inr) (simp add: load_token [OF load] new_report_def)
  have "holds_report w (rows d')" using gr by (simp add: granted_claim_def)
  then have "issued E (tick d) w (rows d')" using g(1) d2(2) by (rule issuedI [OF _ le_trans tok])
  with g(2) gr show ?thesis by blast
qed

section \<open>The claims of the due reports of a company\<close>

text \<open>The works of several claims: each counts an attempt.\<close>

definition counted :: "schema \<Rightarrow> report_work list \<Rightarrow> schema \<Rightarrow> bool" where
  "counted t ws t' \<longleftrightarrow> reports_inv t' \<and>
     (\<forall>k. report_attempts t k + int (count_list (map rw_report ws) k) \<le> report_attempts t' k)"

lemma counted_none: "report_grows t t' \<Longrightarrow> counted t [] t'"
  by (simp add: counted_def report_grows_def)

lemma counted_one:
  assumes "report_grows t t1" "granted_claim t1 w t'" "report_grows t1 t'"
  shows "counted t [w] t'"
proof -
  have "report_attempts t k \<le> report_attempts t1 k" "report_attempts t1 k \<le> report_attempts t' k" for k
    using assms(1,3) by (auto simp: report_grows_def)
  moreover have "report_attempts t (rw_report w) + 1 \<le> report_attempts t' (rw_report w)"
    using assms(1,2) by (simp add: granted_claim_def report_grows_def)
  ultimately show ?thesis using assms(3) by (auto simp: counted_def report_grows_def intro: order_trans)
qed

lemma counted_append: "counted t ws t1 \<Longrightarrow> counted t1 vs t2 \<Longrightarrow> counted t (ws @ vs) t2"
  unfolding counted_def by (auto simp: algebra_simps) (smt (verit, best))

text \<open>One schedule: nothing, or one claim on the rows with the window fixed.\<close>

lemma schedule_report_cases:
  assumes inv: "reports_inv (rows d)" and ok: "tenant_schedule_report E tz collate x a nm now s d = (Inr ws, d')"
  obtains "ws = []"
  | w d1 dueAt windowEnd where "ws = [w]" "report_grows (rows d) (rows d1)" "tick d \<le> tick d1"
      "claimScheduledReport E collate x a nm s dueAt windowEnd now d1 = (Inr (Some w), d')"
proof (cases "selectDigestWindow tz now (rs_sched s)")
  case None
  with ok that(1) show thesis by (auto simp: tenant_schedule_report_def Let_def split: if_splits)
next
  case (Some p)
  obtain dueAt pend existing where p: "p = (dueAt, pend, existing)" by (cases p)
  let ?fix = "if existing then sql_return pend
      else sql_wrap (''fix schedule '' @ ds_id (rs_sched s) @ '' report window'')
        (getOrCreateDigestWindow E a (ds_id (rs_sched s)) dueAt now (ds_last_success (rs_sched s)))"
  from ok Some p obtain we d1 work where fix1: "?fix d = (Inr we, d1)"
    and claim: "claimScheduledReport E collate x a nm s dueAt we now d1 = (Inr work, d')"
    and ws: "ws = (case work of None \<Rightarrow> [] | Some w \<Rightarrow> [w])"
    by (auto simp: tenant_schedule_report_def Let_def sql_wrap_eq_Inr elim!: sql_bindE split: if_splits)
  have "keeps_from (tick d) (report_grows (rows d)) ?fix" by (intro from_intros growing.kept_open)
  from keeps_fromD [OF this order_refl grows_refl [OF inv]] fix1
  have "tick d \<le> tick d1" "report_grows (rows d) (rows d1)" by auto
  with ws claim that show thesis by (cases work) auto
qed

lemma schedule_report_counted:
  assumes inv: "reports_inv (rows d)" and ok: "tenant_schedule_report E tz collate x a nm now s d = (Inr ws, d')"
  shows "counted (rows d) ws (rows d')"
  using inv ok
proof (rule schedule_report_cases)
  assume "ws = []"
  with keeps_fromD [OF growing.kept_schedule_report order_refl grows_refl [OF inv], of E tz collate x a nm now s] ok
  show ?thesis by (auto intro: counted_none)
next
  fix w d1 dueAt we
  assume c: "ws = [w]" "report_grows (rows d) (rows d1)"
    "claimScheduledReport E collate x a nm s dueAt we now d1 = (Inr (Some w), d')"
  then have inv1: "reports_inv (rows d1)" by (simp add: report_grows_def)
  have "report_grows (rows d1) (rows d')"
    using keepsD [OF grows_claimScheduled grows_refl [OF inv1], of E collate x a nm s dueAt we now] c(3) by simp
  with c claimScheduled_granted [OF inv1 c(3)] show ?thesis by (auto intro: counted_one)
qed

lemma schedule_reports_counted:
  "reports_inv (rows d) \<Longrightarrow> tenant_schedule_reports E tz collate x a nm now ss d = (Inr ws, d') \<Longrightarrow> counted (rows d) ws (rows d')"
proof (induction ss arbitrary: d ws)
  case Nil
  then show ?case by (simp add: counted_none grows_refl)
next
  case (Cons s ss)
  from Cons.prems(2) obtain ws1 d1 ws2 where one: "tenant_schedule_report E tz collate x a nm now s d = (Inr ws1, d1)"
    and rest: "tenant_schedule_reports E tz collate x a nm now ss d1 = (Inr ws2, d')" and ws: "ws = ws1 @ ws2"
    by (auto elim!: sql_bindE)
  have c: "counted (rows d) ws1 (rows d1)" by (rule schedule_report_counted [OF Cons.prems(1) one])
  then have "reports_inv (rows d1)" by (simp add: counted_def)
  from counted_append [OF c Cons.IH [OF this rest]] ws show ?case by simp
qed

text \<open>What holds of every issued work and is kept by the claims holds of all works at the end.\<close>

lemma schedule_reports_issued:
  assumes est: "\<And>w t. reports_inv t \<Longrightarrow> issued E n0 w t \<Longrightarrow> P w t" and kept: "\<And>w. claim_invariant E n0 (P w)"
  shows "n0 \<le> tick d \<Longrightarrow> reports_inv (rows d) \<Longrightarrow>
    tenant_schedule_reports E tz collate x a nm now ss d = (Inr ws, d') \<Longrightarrow> w \<in> set ws \<Longrightarrow> P w (rows d')"
proof (induction ss arbitrary: d ws)
  case (Cons s ss)
  from Cons.prems(3) obtain ws1 d1 ws2 where one: "tenant_schedule_report E tz collate x a nm now s d = (Inr ws1, d1)"
    and rest: "tenant_schedule_reports E tz collate x a nm now ss d1 = (Inr ws2, d')" and ws: "ws = ws1 @ ws2"
    by (auto elim!: sql_bindE)
  have d1: "n0 \<le> tick d1" "reports_inv (rows d1)"
    using keeps_fromD [OF numbered.kept_schedule_report Cons.prems(1,2), of E tz collate x a nm now s] one by auto
  show ?case
  proof (cases "w \<in> set ws2")
    case True
    from Cons.IH [OF d1 rest this] show ?thesis .
  next
    case False
    with ws Cons.prems(4) have w: "w \<in> set ws1" by simp
    from Cons.prems(2) one have "P w (rows d1)"
    proof (rule schedule_report_cases)
      fix w' d2 dueAt we
      assume c: "ws1 = [w']" "report_grows (rows d) (rows d2)" "tick d \<le> tick d2"
        "claimScheduledReport E collate x a nm s dueAt we now d2 = (Inr (Some w'), d1)"
      then have "issued E (tick d2) w (rows d1)" using w claimScheduled_issued [of d2] by (auto simp: report_grows_def)
      then have "issued E n0 w (rows d1)" using c(3) Cons.prems(1) by (meson issued_from le_trans)
      then show ?thesis by (rule est [OF d1(2)])
    qed (use w in simp)
    from keeps_fromD [OF claim_invariant.kept_schedule_reports [OF kept] d1(1) this, of tz collate x a nm now ss] rest
    show ?thesis by auto
  qed
qed simp

section \<open>The commands\<close>

lemma tenant_reports_steps:
  assumes "n0 \<le> tick d" "reports_inv (rows d)" "tenant_reports E L tz collate a nm now x d = (Inr ws, d')"
  obtains d1 ss where "n0 \<le> tick d1" "report_grows (rows d) (rows d1)"
    "tenant_schedule_reports E tz collate x a nm now ss d1 = (Inr ws, d')"
proof -
  let ?pre = "sql_bind (sql_wrap ''wait for collection before report snapshot'' (tryCollectionLock E L)) (\<lambda>_. loadReportSchedules E a)"
  have k: "keeps_from n0 (report_grows (rows d)) ?pre" by (intro from_intros growing.kept_lock growing.kept_schedules)
  obtain ss d1 where "?pre d = (Inr ss, d1)" "tenant_schedule_reports E tz collate x a nm now ss d1 = (Inr ws, d')"
    using assms(3) unfolding tenant_reports_def by (auto simp: sql_bind_eq_Inr)
  with keeps_fromD [OF k assms(1) grows_refl [OF assms(2)]] that show thesis by auto
qed

lemma handed_eqs [simp]:
  "w \<in> set (handed_work r) \<longleftrightarrow> r = Inr (Some w)" "w \<in> set (handed_works q) \<longleftrightarrow> (\<exists>ws. q = Inr ws \<and> w \<in> set ws)"
  by (auto simp: handed_work_def handed_works_def split: sum.splits option.splits)

text \<open>What every issued work satisfies and the claims keep, every handed work satisfies at the end of
  the command.\<close>

lemma call_issued:
  assumes est: "\<And>w t. reports_inv t \<Longrightarrow> issued (rv_db V) n0 w t \<Longrightarrow> P w t" and kept: "\<And>w. claim_invariant (rv_db V) n0 (P w)"
    and s: "n0 \<le> tick (fst s)" "reports_inv (rows (fst s))" and w: "w \<in> set (fst (report_call V c s))"
  shows "P w (rows (fst (report_step V c s)))"
proof -
  obtain d f where sd: "s = (d, f)" by (cases s)
  have d: "n0 \<le> tick d" "reports_inv (rows d)" using s sd by auto
  have one: "P w (rows d')" if "issued (rv_db V) (tick d1) w (rows d2)" "rows d' = rows d2" "tick d \<le> tick d1" "reports_inv (rows d2)" for d1 d2 d'
    using est [OF that(4) issued_from [OF that(1)]] that(2,3) d(1) by simp
  show ?thesis
  proof (cases c)
    case (CmdDueReports a nm now)
    then obtain ws d' where run: "withTenant (rv_db V) (rv_lock V) a
        (tenant_reports (rv_db V) (rv_lock V) (rv_zone V) (rv_collate V) a nm now) d = Some (Inr ws, d')" "w \<in> set ws"
      using w sd by (auto split: option.splits)
    from run(1) obtain x d1 d2 where b: "rows d1 = rows d" "tick d \<le> tick d1" "rows d' = rows d2"
      "tenant_reports (rv_db V) (rv_lock V) (rv_zone V) (rv_collate V) a nm now x d1 = (Inr ws, d2)"
      by (rule withTenant_body) (rule from_forward, rule always.kept_tenant_reports)
    have n1: "n0 \<le> tick d1" and inv1: "reports_inv (rows d1)" using b d by auto
    from n1 inv1 b(4) obtain d3 ss where t: "n0 \<le> tick d3" "report_grows (rows d1) (rows d3)"
      "tenant_schedule_reports (rv_db V) (rv_zone V) (rv_collate V) x a nm now ss d3 = (Inr ws, d2)"
      by (rule tenant_reports_steps)
    from schedule_reports_issued [where P = P, OF est kept t(1) inv_of_growth [OF t(2)] t(3) run(2)] b(3) CmdDueReports sd run(1)
    show ?thesis by (simp add: report_step_def)
  next
    case (CmdManualReport a now)
    then obtain d' where run: "ClaimManualReport (rv_db V) (rv_lock V) (rv_text V) (rv_collate V) a now d = Some (Inr (Some w), d')"
      using w sd by (auto split: option.splits)
    then have "withTenant (rv_db V) (rv_lock V) a (\<lambda>x. sql_bind (lockDigestSnapshot (rv_db V) (rv_lock V))
        (claimManualReport (rv_db V) (rv_text V) (rv_collate V) x a)) d = Some (Inr (Some w), d')"
      by (auto simp: ClaimManualReport_def split: if_splits)
    then obtain x d1 d2 where b: "rows d1 = rows d" "tick d \<le> tick d1" "rows d' = rows d2"
      "sql_bind (lockDigestSnapshot (rv_db V) (rv_lock V)) (claimManualReport (rv_db V) (rv_text V) (rv_collate V) x a) d1 = (Inr (Some w), d2)"
      by (rule withTenant_body) (rule from_forward, intro from_intros always.kept_lock always.kept_claimManual)
    from b(4) obtain t d3 where l: "lockDigestSnapshot (rv_db V) (rv_lock V) d1 = (Inr t, d3)"
      and m: "claimManualReport (rv_db V) (rv_text V) (rv_collate V) x a t d3 = (Inr (Some w), d2)" by (rule sql_bindE)
    have d3: "tick d1 \<le> tick d3" "reports_inv (rows d3)"
      using keeps_fromD [OF numbered.kept_lock(2) order_refl, of d1 "rv_db V" "rv_lock V"] b(1) d(2) l by auto
    have "reports_inv (rows d2)"
      using keeps_fromD [OF numbered.kept_claimManual order_refl d3(2), of "rv_db V" "rv_text V" "rv_collate V" x a t] m by simp
    with one [of d3 d2 d'] claimManual_issued [OF d3(2) m] b d3(1) CmdManualReport sd run show ?thesis
      by (simp add: report_step_def)
  next
    case (CmdReclaimReport a i)
    then obtain d' where run: "ReclaimReport (rv_db V) (rv_lock V) a i d = (Inr (Some w), d')"
      using w sd by (cases "ReclaimReport (rv_db V) (rv_lock V) a i d") auto
    then obtain d1 d2 where b: "rows d1 = rows d" "tick d \<le> tick d1" "reclaimReport (rv_db V) a i d1 = (Inr (Some w), d2)" "rows d' = rows d2"
      unfolding ReclaimReport_def by (rule one_tenant_tx_forward)
    have inv1: "reports_inv (rows d1)" using b(1) d(2) by simp
    have "reports_inv (rows d2)" using keeps_fromD [OF numbered.kept_reclaim order_refl inv1, of "rv_db V" a i] b(3) by simp
    with one [of d1 d2 d'] reclaim_issued [OF inv1 b(3)] b CmdReclaimReport sd run show ?thesis by (simp add: report_step_def)
  next
    case (CmdRegenerate a i now)
    then obtain d' where run: "RetryReport (rv_db V) (rv_lock V) a i now d = (Inr (Some w), d')"
      using w sd by (cases "RetryReport (rv_db V) (rv_lock V) a i now d") auto
    then have "one_tenant_tx (rv_db V) (rv_lock V) a (retryReport (rv_db V) a i now) d = (Inr (Some w), d')"
      by (auto simp: RetryReport_def split: if_splits)
    then obtain d1 d2 where b: "rows d1 = rows d" "tick d \<le> tick d1" "retryReport (rv_db V) a i now d1 = (Inr (Some w), d2)" "rows d' = rows d2"
      by (rule one_tenant_tx_forward)
    have inv1: "reports_inv (rows d1)" using b(1) d(2) by simp
    have "reports_inv (rows d2)" using keeps_fromD [OF numbered.kept_retry order_refl inv1, of "rv_db V" a i now] b(3) by simp
    with one [of d1 d2 d'] retry_issued [OF inv1 b(3)] b CmdRegenerate sd run show ?thesis by (simp add: report_step_def)
  qed (use w sd in auto)
qed

section \<open>The row of a work\<close>

text \<open>The window of a report, and of the work of a claim.\<close>

definition row_window :: "report_row \<Rightarrow> string \<times> string \<times> time \<times> time" where
  "row_window r = (rp_tenant r, (case rp_schedule r of None \<Rightarrow> [] | Some s \<Rightarrow> s), rp_due r, rp_end r)"

definition work_window :: "report_work \<Rightarrow> string \<times> string \<times> time \<times> time" where
  "work_window w = (rw_tenant w, rw_schedule w, rw_due w, rw_end w)"

definition names_row :: "report_work \<Rightarrow> schema \<Rightarrow> bool" where
  "names_row w t \<longleftrightarrow> (\<exists>r \<in> set (reports t).
     rp_id r = rw_report w \<and> rp_trigger r = rw_trigger w \<and> row_window r = work_window w)"

lemma names_same: "names_row w t \<Longrightarrow> reports t' = reports t \<Longrightarrow> names_row w t'"
  by (simp add: names_row_def)

lemma names_update:
  "names_row w t \<Longrightarrow> (\<And>r. rp_id (f r) = rp_id r \<and> rp_trigger (f r) = rp_trigger r \<and> row_window (f r) = row_window r) \<Longrightarrow>
   names_row w (t\<lparr>reports := update_where P f (reports t)\<rparr>)"
  unfolding names_row_def
proof (elim bexE conjE, goal_cases)
  case (1 r)
  then show ?case
    by (intro bexI [of _ "if P r then f r else r"]) (simp_all add: update_where_def)
qed

lemma names_insert: "names_row w t \<Longrightarrow> names_row w (t\<lparr>reports := reports t @ [r]\<rparr>)"
  by (auto simp: names_row_def)

lemma row_window_keeps [simp]:
  "row_window (claim_again now tok r) = row_window r" "row_window (claim_anew now tok r) = row_window r"
  "row_window (mark_generated art at r) = row_window r" "row_window (mark_report_failed msg r) = row_window r"
  "row_window (mark_deleted clk r) = row_window r"
  "rp_trigger (claim_again now tok r) = rp_trigger r" "rp_trigger (claim_anew now tok r) = rp_trigger r"
  "rp_trigger (mark_generated art at r) = rp_trigger r" "rp_trigger (mark_report_failed msg r) = rp_trigger r"
  "rp_trigger (mark_deleted clk r) = rp_trigger r"
  "rp_id (claim_again now tok r) = rp_id r" "rp_id (claim_anew now tok r) = rp_id r"
  "rp_id (mark_generated art at r) = rp_id r" "rp_id (mark_report_failed msg r) = rp_id r"
  "rp_id (mark_deleted clk r) = rp_id r"
  by (simp_all add: row_window_def claim_again_def claim_anew_def mark_generated_def mark_report_failed_def mark_deleted_def)

text \<open>What the upsert of a scheduled report does to the table.\<close>

lemma upsert_report_reports:
  assumes "upsert_report E a nm s dueAt windowEnd now n t = Inr (r, t')"
  obtains "t' = t"
  | x where "reclaimable now x" "t' = t\<lparr>reports := update_where ((=) x) (claim_again now (uuid_at E n 2)) (reports t)\<rparr>"
  | y where "rp_status y = RGenerating" "t' = t\<lparr>reports := reports t @ [y]\<rparr>"
proof (cases "find (scheduled_for a (ds_id (rs_sched s)) dueAt) (reports t)")
  case (Some x)
  with assms that(1) that(2) [of x] show thesis by (auto simp: upsert_report_def Let_def split: if_splits)
next
  case None
  define y where "y = new_report a (Some (ds_id (rs_sched s))) dueAt
      (if is_zero (ds_last_success (rs_sched s)) then None else Some (ds_last_success (rs_sched s)))
      windowEnd nm (rs_name s) ''scheduled'' (uuid_at E n 0) (uuid_at E n 1) now"
  have "rp_status y = RGenerating" unfolding y_def new_report_def by simp
  moreover have "t' = t\<lparr>reports := reports t @ [y]\<rparr>"
    using assms unfolding upsert_report_def Let_def None option.case y_def [symmetric] by (auto split: option.splits)
  ultimately show thesis by (rule that(3))
qed

interpretation named: report_invariant E n0 "names_row w" "\<lambda>c. True" for E :: dbenv and n0 :: nat and w
proof unfold_locales
  fix t
  assume t: "names_row w t"
  show "names_row w (t\<lparr>report_items := ris\<rparr>)" "names_row w (t\<lparr>matches := ms\<rparr>)" "names_row w (t\<lparr>window_items := wis\<rparr>)"
    "names_row w (t\<lparr>window_recipients := window_recipients t @ rs\<rparr>)" for ris ms wis rs
    by (rule names_same [OF t]; simp)+
  show "names_row w t'" if "insert_window a b c e t = Inr (x, t')" for a b c e x t'
    by (rule names_same [OF t insert_window_reports [OF that]])
  show "names_row w (snd (noop_rows a b c e now clk t))" for a b c e now clk
    by (rule names_same [OF t noop_reports])
  show "names_row w t'" if "upsert_report E a nm s dueAt windowEnd now n t = Inr (r, t')" for a nm s dueAt windowEnd now n r t'
    using that by (rule upsert_report_reports) (use t in \<open>auto intro: names_update names_insert\<close>)
  show "names_row w t'" if "insert_manual E a nm now n t = Inr (v, t')" for a nm now n v t'
    using that by (rule insert_manual_Inr) (simp add: names_insert [OF t])
  show "names_row w (snd (claim_where (\<lambda>r. report_key a i r \<and> reclaimable clk r) (claim_again clk (uuid_at E n 0)) t))"
    "names_row w (snd (claim_where (\<lambda>r. report_key a i r \<and> rp_deleted r = None \<and> rp_status r = RFailed) (claim_anew clk (uuid_at E n 0)) t))" for a i clk n
    unfolding claim_where_def snd_conv by (rule names_update [OF t]; simp)+
  show "names_row w (t\<lparr>reports := update_where (held_report v) (mark_report_failed msg) (reports t)\<rparr>)"
    "names_row w (t\<lparr>reports := update_where (report_key a i) (mark_deleted clk) (reports t)\<rparr>)" for v msg a i clk
    by (rule names_update [OF t]; simp)+
next
  fix v art at d u d'
  assume d: "names_row w (rows d)" "finalizeReport E v art at d = (Inr u, d')"
  have "keeps (names_row w) (finalizeReport E v art at)"
    unfolding finalizeReport_def
    by (intro keeps_intros keeps_stmt)
       (auto intro: names_update names_same dest!: complete_window_reports')
  from keepsD [OF this d(1)] d(2) show "names_row w (rows d')" by simp
qed

lemma issued_names: "issued E n w t \<Longrightarrow> names_row w t"
  unfolding issued_def names_row_def
  by (elim conjE holds_report_row) (auto simp: row_window_def work_window_def dest!: find_report_Some)

text \<open>Every work that is handed out has its row.\<close>

lemma handed_named:
  assumes "reports_inv (rows (fst s))" "w \<in> set (fst (report_call V c s))"
  shows "names_row w (rows (fst (report_step V c s)))"
  using issued_names named.claim_invariant_axioms order_refl assms by (rule call_issued)

section \<open>Counting\<close>

lemma step_without_claims:
  assumes "reports_inv (rows (fst s))" "\<not> is_retry c"
  shows "report_grows (rows (fst s)) (rows (fst (report_step V c s)))"
  using growing.step_keeps [OF refl assms(2) order_refl grows_refl [OF assms(1)], of V] by simp

lemma counted_rows: "reports_inv t \<Longrightarrow> report_grows t t1 \<Longrightarrow> counted t1 ws t2 \<Longrightarrow> counted t ws t2"
  using counted_append [OF counted_none, of t t1 ws t2] by simp

lemma step_counted:
  assumes inv: "reports_inv (rows (fst s))" and c: "\<not> is_retry c"
  shows "counted (rows (fst s)) (fst (report_call V c s)) (rows (fst (report_step V c s)))"
proof (cases "fst (report_call V c s) = []")
  case True
  then show ?thesis using counted_none [OF step_without_claims [OF inv c]] by simp
next
  case False
  obtain d f where sd: "s = (d, f)" by (cases s)
  have d: "reports_inv (rows d)" using inv sd by simp
  have grows: "report_grows (rows d) (rows (fst (report_step V c s)))" using step_without_claims [OF inv c, of V] sd by simp
  show ?thesis
  proof (cases c)
    case (CmdDueReports a nm now)
    with False sd obtain ws d' where run: "withTenant (rv_db V) (rv_lock V) a
        (tenant_reports (rv_db V) (rv_lock V) (rv_zone V) (rv_collate V) a nm now) d = Some (Inr ws, d')"
      by (auto simp: handed_works_def split: option.splits sum.splits)
    then obtain x d1 d2 where b: "rows d1 = rows d" "tick d \<le> tick d1" "rows d' = rows d2"
      "tenant_reports (rv_db V) (rv_lock V) (rv_zone V) (rv_collate V) a nm now x d1 = (Inr ws, d2)"
      by (rule withTenant_body) (rule from_forward, rule always.kept_tenant_reports)
    have inv1: "reports_inv (rows d1)" using b(1) d by simp
    from order_refl inv1 b(4) obtain d3 ss where t: "report_grows (rows d1) (rows d3)"
      "tenant_schedule_reports (rv_db V) (rv_zone V) (rv_collate V) x a nm now ss d3 = (Inr ws, d2)"
      by (rule tenant_reports_steps)
    from counted_rows [OF inv1 t(1) schedule_reports_counted [OF inv_of_growth [OF t(1)] t(2)]]
    show ?thesis using CmdDueReports sd run b by (simp add: report_step_def handed_works_def)
  next
    case (CmdManualReport a now)
    with False sd obtain w d' where run: "ClaimManualReport (rv_db V) (rv_lock V) (rv_text V) (rv_collate V) a now d = Some (Inr (Some w), d')"
      by (auto simp: handed_work_def split: option.splits sum.splits)
    then have "withTenant (rv_db V) (rv_lock V) a (\<lambda>x. sql_bind (lockDigestSnapshot (rv_db V) (rv_lock V))
        (claimManualReport (rv_db V) (rv_text V) (rv_collate V) x a)) d = Some (Inr (Some w), d')"
      by (auto simp: ClaimManualReport_def split: if_splits)
    then obtain x d1 d2 where b: "rows d1 = rows d" "tick d \<le> tick d1" "rows d' = rows d2"
      "sql_bind (lockDigestSnapshot (rv_db V) (rv_lock V)) (claimManualReport (rv_db V) (rv_text V) (rv_collate V) x a) d1 = (Inr (Some w), d2)"
      by (rule withTenant_body) (rule from_forward, intro from_intros always.kept_lock always.kept_claimManual)
    from b(4) obtain t d3 where l: "lockDigestSnapshot (rv_db V) (rv_lock V) d1 = (Inr t, d3)"
      and m: "claimManualReport (rv_db V) (rv_text V) (rv_collate V) x a t d3 = (Inr (Some w), d2)" by (rule sql_bindE)
    have g3: "report_grows (rows d1) (rows d3)"
      using keeps_fromD [OF growing.kept_lock(2) order_refl, of "rows d" d1 "rv_db V" "rv_lock V"] grows_refl [OF d] b(1) l by simp
    note inv3 = inv_of_growth [OF g3]
    obtain t1 where t1: "report_grows (rows d3) t1" "granted_claim t1 w (rows d2)" using claimManual_issued [OF inv3 m] by blast
    have g2: "report_grows t0 (rows d2)" if "report_grows t0 (rows d3)" for t0
      using keeps_fromD [OF growing.kept_claimManual order_refl that, of "rv_db V" "rv_text V" "rv_collate V" x a t] m by simp
    have "counted (rows d3) [w] (rows d2)"
      unfolding counted_def using t1 g2 [OF grows_refl [OF inv3]]
      by (auto simp: report_grows_def granted_claim_def)
    with counted_rows [OF _ g3] b(1,3) d CmdManualReport sd run show ?thesis by (simp add: report_step_def handed_work_def)
  next
    case (CmdReclaimReport a i)
    obtain r d' where run: "ReclaimReport (rv_db V) (rv_lock V) a i d = (r, d')" by fastforce
    with CmdReclaimReport False sd obtain w where r: "r = Inr (Some w)" by (auto simp: handed_work_def split: sum.splits option.splits)
    from run [unfolded r] obtain d1 d2 where b: "rows d1 = rows d" "tick d \<le> tick d1" "reclaimReport (rv_db V) a i d1 = (Inr (Some w), d2)" "rows d' = rows d2"
      unfolding ReclaimReport_def by (rule one_tenant_tx_forward)
    have "granted_claim (rows d) w (rows d')" using reclaim_granted [OF _ b(3)] b(1,4) d by simp
    moreover have "report_grows (rows d) (rows d')" using grows CmdReclaimReport sd run by (simp add: report_step_def)
    ultimately have "counted (rows d) [w] (rows d')" by (rule counted_one [OF grows_refl [OF d]])
    then show ?thesis using CmdReclaimReport sd run r by (simp add: report_step_def handed_work_def)
  qed (use False sd c in \<open>auto simp: is_retry_def\<close>)
qed

text \<open>A manual retry concerns one report; the counts of the others stay.\<close>

lemma update_where_unused: "find P rs = None \<Longrightarrow> update_where P f rs = rs"
  by (auto simp: update_where_def find_None_iff intro: map_idI)

lemma retryReport_rows:
  assumes "retryReport E a i now d = (Inr x, d')"
  obtains tok where "reports (rows d') = update_where (\<lambda>r. report_key a i r \<and> rp_deleted r = None \<and> rp_status r = RFailed)
      (claim_anew now tok) (reports (rows d))"
    "x = None \<Longrightarrow> reports (rows d') = reports (rows d)" "\<And>w. x = Some w \<Longrightarrow> rw_report w = i"
proof -
  let ?P = "\<lambda>r. report_key a i r \<and> rp_deleted r = None \<and> rp_status r = RFailed"
  let ?f = "claim_anew now (uuid_at E (tick d) 0)"
  from assms obtain w0 d1 where wr: "sql_wrap ''scan claimed report'' (sql_stmt E (\<lambda>n t. Inr (claim_where ?P (claim_anew now (uuid_at E n 0)) t))) d = (Inr w0, d1)"
    and rest: "(case w0 of None \<Rightarrow> sql_return None | Some work \<Rightarrow> sql_bind (loadReportNotices E work) (\<lambda>w. sql_return (Some w))) d1 = (Inr x, d')"
    unfolding retryReport_def scanAndLoadReport_def by (rule sql_bindE)
  from wr have st: "sql_stmt E (\<lambda>n t. Inr (claim_where ?P (claim_anew now (uuid_at E n 0)) t)) d = (Inr w0, d1)"
    by (simp only: sql_wrap_eq_Inr)
  have w0: "w0 = map_option (\<lambda>r. work_of_row (?f r)) (find ?P (reports (rows d)))"
    and d1: "reports (rows d1) = update_where ?P ?f (reports (rows d))"
    using st by (auto simp: sql_stmt_Inr claim_where_def)
  have d': "reports (rows d') = update_where ?P ?f (reports (rows d))"
    using rest d1 by (auto split: option.splits elim!: sql_bindE dest!: loadReportNotices_Inr)
  moreover have "update_where ?P ?f (reports (rows d)) = reports (rows d)" if "x = None"
    using rest w0 that by (intro update_where_unused) (auto split: option.splits elim!: sql_bindE)
  moreover have "rw_report w = i" if "x = Some w" for w
    using rest w0 that
    by (auto split: option.splits elim!: sql_bindE dest!: loadReportNotices_Inr
        simp: find_Some_iff report_key_def claim_anew_def)
  ultimately show thesis using that by simp
qed

lemma retried_counts:
  assumes inv: "reports_inv (rows (fst s))" and c: "is_retry c"
  shows "(k \<notin> set (granted_reports V c s) \<longrightarrow> report_attempts (rows (fst (report_step V c s))) k = report_attempts (rows (fst s)) k) \<and>
    count_list (granted_reports V c s) k \<le> 1"
proof -
  obtain a i now where c: "c = CmdRegenerate a i now" using c by (cases c) (auto simp: is_retry_def)
  obtain d f where sd: "s = (d, f)" by (cases s)
  obtain r d' where run: "RetryReport (rv_db V) (rv_lock V) a i now d = (r, d')" by fastforce
  have same: "report_attempts (rows d') k = report_attempts (rows d) k" if k: "k \<notin> set (map rw_report (handed_work r))"
  proof (cases "is_zero now")
    case True
    with run show ?thesis by (auto simp: RetryReport_def)
  next
    case False
    with run have tx: "one_tenant_tx (rv_db V) (rv_lock V) a (retryReport (rv_db V) a i now) d = (r, d')"
      by (simp add: RetryReport_def)
    show ?thesis
    proof (cases r)
      case (Inl e)
      with tx one_tenant_tx_Inl [of "rv_db V" "rv_lock V" a "retryReport (rv_db V) a i now" d e] show ?thesis by simp
    next
      case (Inr x)
      from tx [unfolded Inr] obtain d1 d2 where b: "rows d1 = rows d" "tick d \<le> tick d1" "retryReport (rv_db V) a i now d1 = (Inr x, d2)" "rows d' = rows d2"
        by (rule one_tenant_tx_forward)
      from b(3) obtain tok where t: "reports (rows d2) = update_where (\<lambda>r. report_key a i r \<and> rp_deleted r = None \<and> rp_status r = RFailed)
          (claim_anew now tok) (reports (rows d1))"
        "x = None \<Longrightarrow> reports (rows d2) = reports (rows d1)" "\<And>w. x = Some w \<Longrightarrow> rw_report w = i"
        by (rule retryReport_rows) blast
      show ?thesis
      proof (cases x)
        case None
        with t(2) b show ?thesis by (simp add: report_attempts_def find_report_def)
      next
        case (Some w)
        with k Inr t(3) have ki: "k \<noteq> i" by (auto simp: handed_work_def)
        have "find_report k (rows d2) = find_report k ((rows d1)\<lparr>reports := update_where (\<lambda>r. report_key a i r \<and> rp_deleted r = None \<and> rp_status r = RFailed)
          (claim_anew now tok) (reports (rows d1))\<rparr>)" using t(1) by (simp add: find_report_def)
        also have "\<dots> = find_report k (rows d1)"
          using ki by (subst find_report_update)
            (cases "find_report k (rows d1)"; auto simp: claim_anew_def report_key_def dest: find_report_Some)+
        finally show ?thesis using b by (simp add: report_attempts_def)
      qed
    qed
  qed
  have "count_list (map rw_report (handed_work r)) k \<le> 1"
    by (auto simp: handed_work_def split: sum.split option.split)
  with same c sd run show ?thesis by (simp add: report_step_def granted_reports_def)
qed

interpretation report_claims: restarting_counter
  "report_step V" "granted_reports V" "restarted_report V" "\<lambda>s. reports_inv (rows (fst s))"
  "\<lambda>s. report_attempts (rows (fst s))" 3
  for V :: "'f repo_env"
proof
  fix s :: "schema db \<times> 'f" and c k
  assume inv: "reports_inv (rows (fst s))"
  show inv': "reports_inv (rows (fst (report_step V c s)))"
    using numbered.step_keeps [OF refl _ order_refl inv, of V c] by simp
  show "0 \<le> report_attempts (rows (fst s)) k \<and> report_attempts (rows (fst s)) k \<le> 3"
    by (rule report_attempts_bounds [OF inv])
  show "report_attempts (rows (fst s)) k + int (count_list (granted_reports V c s) k) \<le>
      report_attempts (rows (fst (report_step V c s))) k" if "\<not> restarted_report V c s k"
  proof (cases "is_retry c")
    case True
    with that have "k \<notin> set (granted_reports V c s)" by (simp add: restarted_report_def)
    with retried_counts [OF inv True, of k V] show ?thesis by (simp add: count_notin)
  next
    case False
    from step_counted [OF inv False, of V] show ?thesis by (simp add: counted_def granted_reports_def)
  qed
  show "int (count_list (granted_reports V c s) k) \<le> report_attempts (rows (fst (report_step V c s))) k"
    if r: "restarted_report V c s k"
  proof -
    have c: "is_retry c" "k \<in> set (granted_reports V c s)" using r by (auto simp: restarted_report_def)
    obtain w where w: "w \<in> set (fst (report_call V c s))" "rw_report w = k" using c(2) by (auto simp: granted_reports_def)
    obtain r where "r \<in> set (reports (rows (fst (report_step V c s))))" "rp_id r = k"
      using handed_named [OF inv w(1)] w(2) by (auto simp: names_row_def)
    then have "find_report k (rows (fst (report_step V c s))) = Some r"
      using find_report_unique [OF inv'] by blast
    then have "1 \<le> report_attempts (rows (fst (report_step V c s))) k"
      using inv' by (auto simp: report_attempts_def reports_inv_def dest!: find_report_Some)
    with retried_counts [OF inv c(1), of k V] show ?thesis by linarith
  qed
qed

section \<open>At most three claims between two retries\<close>

definition plain_repo :: "unit repo_env" where
  "plain_repo = \<lparr>rv_db = plain_env, rv_lock = open_env, rv_text = \<lparr>te_nfc = id, te_fold = id, te_sha = id, te_enc = Some\<rparr>,
     rv_zone = True, rv_collate = id, rv_remove = (\<lambda>path f. (Inr (), f))\<rparr>"

text \<open>
  C11: Over any run of the report repository's operations (scheduled and manual claims, reclaims, manual
  retries, finalizations, failures and deletions, in any order and with any faults of the database),
  a report is claimed for generation at most three times, and at most three times more for each
  manual retry that was granted for it.
\<close>

theorem report_claimed_at_most_thrice:
  assumes "reports_inv (rows (fst s))"
  shows "all_claims (report_step V) (granted_reports V) k cmds s \<le>
    3 * Suc (restarts_in (report_step V) (restarted_report V) k cmds s)"
proof -
  have "int (all_claims (report_step V) (granted_reports V) k cmds s) \<le>
      int (3 * Suc (restarts_in (report_step V) (restarted_report V) k cmds s))"
    using report_claims.all_claims_bound [OF assms, of k V cmds] report_attempts_bounds [OF assms, of k] by simp
  then show ?thesis by (simp only: of_nat_le_iff)
qed

definition retried_work :: report_work where
  "retried_work = hd (fst (report_call plain_repo (CmdRegenerate ''t1'' ''p1'' day_ns) (report_db, ())))"

definition retry_commands :: "report_command list" where
  "retry_commands = [CmdRegenerate ''t1'' ''p1'' day_ns, CmdFailReport retried_work (Some (ErrText ''disk full'')),
     CmdReclaimReport ''t1'' ''p1'']"

lemma retry_commands_count:
  "all_claims (report_step plain_repo) (granted_reports plain_repo) ''p1'' retry_commands (report_db, ()) = 2"
  "restarts_in (report_step plain_repo) (restarted_report plain_repo) ''p1'' retry_commands (report_db, ()) = 1"
  by code_simp+

theorem report_claimed_at_most_thrice_witness:
  "all_claims (report_step plain_repo) (granted_reports plain_repo) ''p1'' retry_commands (report_db, ()) = 2 \<and>
   (2::nat) \<le> 3 * Suc 1"
proof -
  have "reports_inv (rows (fst (report_db, ())))" using report_db_inv by simp
  from report_claimed_at_most_thrice [OF this, of plain_repo "''p1''" retry_commands] retry_commands_count
  show ?thesis by simp
qed

section \<open>An earlier holder of a claimed report\<close>

lemma run_unheld:
  assumes "\<And>n i. n0 \<le> n \<Longrightarrow> uuid_at (rv_db V) n i \<noteq> tok"
    and "n0 \<le> tick (fst s)" "reports_inv (rows (fst s))" "unheld tok k (rows (fst s))"
  shows "reports_inv (rows (fst (run_commands (report_step V) cs s))) \<and>
    unheld tok k (rows (fst (run_commands (report_step V) cs s)))"
  using assms(2-)
proof (induction cs arbitrary: s)
  case (Cons c cs)
  have inv: "n0 \<le> tick (fst (report_step V c s))" "reports_inv (rows (fst (report_step V c s)))"
    using numbered.step_keeps [OF refl _ Cons.prems(1,2), of V c] by simp_all
  have un: "unheld tok k (rows (fst (report_step V c s)))"
    using report_invariant.step_keeps [OF unheld_invariant [OF assms(1)] refl _ Cons.prems(1,3), of c] by simp
  from Cons.IH [OF inv un] show ?case by simp
qed simp

lemma unheld_token:
  assumes "unheld tok k (rows d)"
  shows "report_token d (a, k) \<noteq> Some tok"
  using assms by (auto simp: report_token_def unheld_def split: option.splits dest!: find_report_Some)

text \<open>
  C10: When a report is claimed, be it on its schedule, by hand, by a reclaim or by a manual retry, and
  whatever commands of the repository follow, every earlier holder of the report, whose token none of
  the new calls generates, is refused: it can neither finalize the report, nor record its failure, nor
  write its file, and the rows and files stay as they are.
\<close>

theorem superseded_report_claim_refused:
  assumes "reports_inv (rows (fst s))"
    and "w \<in> set (fst (report_call V c s))" "rw_report w = rw_report old"
    and "\<And>n i. tick (fst s) \<le> n \<Longrightarrow> uuid_at (rv_db V) n i \<noteq> rw_token old"
    and "(d, f) = run_commands (report_step V) later (report_step V c s)"
  shows "(\<exists>e. fst (FinalizeReport (rv_db V) (rv_lock V) old art at d) = Inl e) \<and>
    rows (snd (FinalizeReport (rv_db V) (rv_lock V) old art at d)) = rows d \<and>
    (\<exists>e. fst (FinalizeReportFailure (rv_db V) (rv_lock V) old err d) = Inl e) \<and>
    rows (snd (FinalizeReportFailure (rv_db V) (rv_lock V) old err d)) = rows d \<and>
    (\<exists>e d'. WithReportClaim (rv_db V) (rv_lock V) old action (d, f) = (Inl e, d', f) \<and> rows d' = rows d)"
proof -
  have "unheld (rw_token old) (rw_report w) (rows (fst (report_step V c s)))"
    using _ _ order_refl assms(1,2)
  proof (rule call_issued)
    show "unheld (rw_token old) (rw_report v) t" if "reports_inv t" "issued (rv_db V) (tick (fst s)) v t" for v t
      using that(2) unfolding issued_def by (elim conjE exE) (rule held_unheld [OF that(1)], simp_all add: assms(4))
    show "claim_invariant (rv_db V) (tick (fst s)) (unheld (rw_token old) (rw_report v))" for v
      using unheld_invariant [OF assms(4)] by (rule report_invariant.axioms)
  qed
  moreover have "tick (fst s) \<le> tick (fst (report_step V c s))" "reports_inv (rows (fst (report_step V c s)))"
    using numbered.step_keeps [OF refl _ order_refl assms(1), of V c] by simp_all
  ultimately have run: "reports_inv (rows d)" "unheld (rw_token old) (rw_report old) (rows d)"
    using run_unheld [OF assms(4), where s = "report_step V c s" and cs = later] assms(3) arg_cong [OF assms(5), of fst] by simp_all
  note stale = unheld_token [OF run(2), of "rw_tenant old"]
  show ?thesis
    by (intro conjI FinalizeReport_stale [OF run(1) stale, THEN conjunct1] FinalizeReport_stale [OF run(1) stale, THEN conjunct2]
        FinalizeReportFailure_stale [OF run(1) stale, THEN conjunct1] FinalizeReportFailure_stale [OF run(1) stale, THEN conjunct2]
        WithReportClaim_stale [OF run(1) stale])
qed

definition old_work :: report_work where
  "old_work = work_of_row failed_report"

theorem superseded_report_claim_refused_witness:
  "rw_token old_work = ''old'' \<and>
   rows (snd (FinalizeReport plain_env open_env old_work held_artifact (2 * day_ns)
     (fst (report_step plain_repo (CmdReclaimReport ''t1'' ''p1'') (report_db, ()))))) =
   rows (fst (report_step plain_repo (CmdReclaimReport ''t1'' ''p1'') (report_db, ())))"
proof -
  let ?c = "CmdReclaimReport ''t1'' ''p1''" and ?s = "(report_db, ())"
  have w: "map rw_report (fst (report_call plain_repo ?c ?s)) = [''p1'']" by code_simp
  then obtain w where w: "w \<in> set (fst (report_call plain_repo ?c ?s))" "rw_report w = ''p1''"
    by (cases "fst (report_call plain_repo ?c ?s)") auto
  have old: "rw_report old_work = ''p1''" "rw_token old_work = ''old''"
    by (simp_all add: old_work_def work_of_row_def failed_report_def)
  obtain d f where df: "(d, f) = run_commands (report_step plain_repo) [] (report_step plain_repo ?c ?s)" by (metis surj_pair)
  have "uuid_at (rv_db plain_repo) n i \<noteq> rw_token old_work" for n i
    by (simp add: plain_repo_def plain_env_def old)
  from superseded_report_claim_refused [OF _ w(1) _ this df, where art = held_artifact and at = "2 * day_ns" and err = None
      and action = "\<lambda>f. (Inr (), f)"]
  have "rows (snd (FinalizeReport (rv_db plain_repo) (rv_lock plain_repo) old_work held_artifact (2 * day_ns) d)) = rows d"
    using report_db_inv w(2) old(1) by simp
  moreover have "rv_db plain_repo = plain_env" "rv_lock plain_repo = open_env" by (simp_all add: plain_repo_def)
  moreover have "d = fst (report_step plain_repo ?c ?s)" using arg_cong [OF df, of fst] by simp
  ultimately show ?thesis using old(2) by simp
qed

end
