(* ===== verification/Work_Laws.thy ===== *)
theory Work_Laws
  imports Report_Grants Delivery_Laws
begin

text \<open>
  The operations that share the digest windows, as one system: the deliveries of mail
  (internal/store/deliveries.go), the digests that fix windows (internal/app/postgres_digest.go) and
  the reports (internal/app/postgres_report.go). The invariant says when a window may be closed.
\<close>

datatype work_command =
    OnDelivery delivery_command
  | OnDigests string
  | OnReport report_command

text \<open>\<open>OnDigests\<close> is the part of \<open>DueDigests\<close> for one tenant, one transaction with its retries.\<close>

fun work_step :: "'f repo_env \<Rightarrow> work_command \<Rightarrow> schema db \<times> 'f \<Rightarrow> schema db \<times> 'f" where
  "work_step V (OnDelivery c) (d, f) = (delivery_step (rv_db V) c d, f)"
| "work_step V (OnDigests a) (d, f) =
     (case withTenant (rv_db V) (rv_lock V) a
        (tenant_digests (rv_db V) (rv_lock V) (rv_zone V) (rv_collate V) a) d of None \<Rightarrow> (d, f) | Some (r, d') \<Rightarrow> (d', f))"
| "work_step V (OnReport c) s = report_step V c s"

text \<open>A report is finalized only with the work of a claim, handed out earlier in the run or before it.\<close>

definition handed_by :: "'f repo_env \<Rightarrow> work_command \<Rightarrow> schema db \<times> 'f \<Rightarrow> report_work list" where
  "handed_by V c s = (case c of OnReport rc \<Rightarrow> fst (report_call V rc s) | _ \<Rightarrow> [])"

definition uses_work :: "report_work list \<Rightarrow> report_command \<Rightarrow> bool" where
  "uses_work ws c = (case c of CmdFinalizeReport w art at \<Rightarrow> w \<in> set ws | _ \<Rightarrow> True)"

definition uses_handed :: "report_work list \<Rightarrow> work_command \<Rightarrow> bool" where
  "uses_handed ws c = (case c of OnReport rc \<Rightarrow> uses_work ws rc | _ \<Rightarrow> True)"

fun claimed_before_use :: "'f repo_env \<Rightarrow> report_work list \<Rightarrow> work_command list \<Rightarrow> schema db \<times> 'f \<Rightarrow> bool" where
  "claimed_before_use V ws [] s = True"
| "claimed_before_use V ws (c # cs) s =
     (uses_handed ws c \<and> claimed_before_use V (ws @ handed_by V c s) cs (work_step V c s))"

section \<open>The windows with a finished report\<close>

definition reported :: "schema \<Rightarrow> (string \<times> string \<times> time \<times> time) set" where
  "reported t = row_window ` {r \<in> set (reports t). rp_trigger r = ''scheduled'' \<and> rp_status r = RGenerated}"

definition windows_ok :: "schema \<Rightarrow> bool" where
  "windows_ok t \<longleftrightarrow> ledger (reported t) t \<and> reports_inv t"

definition works_ok :: "report_work list \<Rightarrow> schema \<Rightarrow> bool" where
  "works_ok ws t \<longleftrightarrow> windows_ok t \<and> (\<forall>w \<in> set ws. names_row w t)"

lemma closed_settled_mono: "closed_settled X t \<Longrightarrow> X \<subseteq> Y \<Longrightarrow> closed_settled Y t"
  unfolding closed_settled_def by blast

lemma reported_same: "reports t' = reports t \<Longrightarrow> reported t' = reported t"
  by (simp add: reported_def)

text \<open>A change of the reports that keeps the generated ones, or adds some.\<close>

lemma ledger_reports:
  assumes "ledger (reported t) t" "windows t' = windows t" "deliveries t' = deliveries t"
    "window_recipients t' = window_recipients t" "reported t \<subseteq> reported t'"
  shows "ledger (reported t') t'"
proof -
  have "closed_settled (reported t') t'"
    using closed_settled_mono [OF closed_settled_cong [OF _ assms(2-4)] assms(5)] assms(1) by (simp add: ledger_def)
  moreover have "deliveries_inv t'" using assms(1,3) by (simp add: ledger_def deliveries_inv_def)
  ultimately show ?thesis by (simp add: ledger_def)
qed

lemma reported_update:
  assumes f: "\<And>r. row_window (f r) = row_window r \<and> rp_trigger (f r) = rp_trigger r"
    and P: "\<And>r. P r \<Longrightarrow> rp_status r = RGenerated \<Longrightarrow> rp_status (f r) = RGenerated"
  shows "reported t \<subseteq> reported (t\<lparr>reports := update_where P f (reports t)\<rparr>)"
proof
  fix k
  assume "k \<in> reported t"
  then obtain r where r: "r \<in> set (reports t)" "rp_trigger r = ''scheduled''" "rp_status r = RGenerated" "k = row_window r"
    by (auto simp: reported_def)
  let ?r = "if P r then f r else r"
  have "?r \<in> set (update_where P f (reports t))" using r(1) by (simp add: update_where_def)
  moreover have "rp_trigger ?r = ''scheduled'' \<and> rp_status ?r = RGenerated \<and> k = row_window ?r" using r P [of r] f [of r] by simp
  ultimately show "k \<in> reported (t\<lparr>reports := update_where P f (reports t)\<rparr>)" unfolding reported_def by force
qed

lemma ledger_update_reports:
  assumes "ledger (reported t) t"
    and "\<And>r. row_window (f r) = row_window r \<and> rp_trigger (f r) = rp_trigger r"
    and "\<And>r. P r \<Longrightarrow> rp_status r = RGenerated \<Longrightarrow> rp_status (f r) = RGenerated"
  shows "ledger (reported (t\<lparr>reports := update_where P f (reports t)\<rparr>)) (t\<lparr>reports := update_where P f (reports t)\<rparr>)"
  using assms(1) by (rule ledger_reports) (use reported_update [OF assms(2,3)] in simp_all)

lemma ledger_insert_report:
  assumes "ledger (reported t) t"
  shows "ledger (reported (t\<lparr>reports := reports t @ [r]\<rparr>)) (t\<lparr>reports := reports t @ [r]\<rparr>)"
  using assms by (rule ledger_reports) (auto simp: reported_def)

text \<open>A new window is pending, with recipients of its own.\<close>

lemma ledger_open:
  assumes "ledger X t" "insert_window a b c e t = Inr (x, t')"
  shows "ledger X t'"
proof (cases "t' = t")
  case False
  then obtain w where w: "t' = t\<lparr>windows := windows t @ [w]\<rparr>" "w_status w = WPending" "window_key w = (a, b, c, e)"
    and new: "\<not> list_ex (due_window a b c) (windows t)"
    using assms(2) by (auto simp: insert_window_def window_key_def split: if_splits)
  have "window_key w \<noteq> window_key v" if "v \<in> set (windows t)" for v
    using new that w(3) by (auto simp: list_ex_iff due_window_def window_key_def)
  then have "closed_settled X t'"
    using assms(1) w unfolding ledger_def closed_settled_def has_recipient_def by auto
  with assms(1) w(1) show ?thesis by (simp add: ledger_def deliveries_inv_def)
qed (use assms in simp)

lemma ledger_recipients:
  "ledger X t \<Longrightarrow> ledger X (t\<lparr>window_recipients := window_recipients t @ rs\<rparr>)"
  unfolding ledger_def closed_settled_def deliveries_inv_def has_recipient_def by auto

section \<open>Finalizing a report\<close>

lemma held_named:
  assumes "reports_inv t" "names_row w t" "r \<in> set (reports t)" "held_report w r"
  shows "row_window r = work_window w" "rp_trigger r = rw_trigger w"
proof -
  obtain x where x: "x \<in> set (reports t)" "rp_id x = rw_report w" "rp_trigger x = rw_trigger w" "row_window x = work_window w"
    using assms(2) by (auto simp: names_row_def)
  have "rp_id r = rw_report w" using assms(4) by (simp add: held_report_def report_key_def)
  then have "r = x" using find_report_unique [OF assms(1,3)] find_report_unique [OF assms(1) x(1)] x(2) by simp
  with x(3,4) show "row_window r = work_window w" "rp_trigger r = rw_trigger w" by simp_all
qed

lemma ledger_finalize:
  assumes l: "ledger (reported (rows d)) (rows d)" and inv: "reports_inv (rows d)" and w: "names_row w (rows d)"
    and run: "finalizeReport E w art at d = (Inr u, d')"
  shows "ledger (reported (rows d')) (rows d')"
proof -
  let ?t1 = "(rows d)\<lparr>reports := update_where (held_report w) (mark_generated art at) (reports (rows d))\<rparr>"
  have l1: "ledger (reported ?t1) ?t1" using l by (rule ledger_update_reports) (simp, simp add: mark_generated_def)
  from run obtain count d1 where st: "sql_wrap ''finalize report'' (sql_stmt E (\<lambda>n t. Inr (affected (held_report w) (reports t),
        t\<lparr>reports := update_where (held_report w) (mark_generated art at) (reports t)\<rparr>))) d = (Inr count, d1)"
    and tail: "(if count \<noteq> 1 then sql_fail stale_claim
     else if rw_trigger w \<noteq> ''scheduled'' then sql_return ()
     else
       sql_bind (sql_wrap ''complete scheduled report window''
          (sql_stmt E (\<lambda>n t. Inr (complete_report_window w at t)))) (\<lambda>advanced.
       if advanced \<noteq> 1 then sql_fail (ErrText ''scheduled report window is missing or already completed'')
       else sql_return ())) d1 = (Inr u, d')"
    unfolding finalizeReport_def by (rule sql_bindE)
  from st have one: "count = affected (held_report w) (reports (rows d))" and d1: "rows d1 = ?t1"
    by (simp_all add: sql_wrap_eq_Inr sql_stmt_Inr)
  have c1: "count = 1" using tail by (simp split: if_splits)
  have rest: "rw_trigger w = ''scheduled'' \<and> rows d' = snd (complete_report_window w at ?t1) \<or> rows d' = ?t1"
  proof (cases "rw_trigger w = ''scheduled''")
    case True
    with tail c1 have "sql_bind (sql_wrap ''complete scheduled report window''
          (sql_stmt E (\<lambda>n t. Inr (complete_report_window w at t)))) (\<lambda>advanced.
       if advanced \<noteq> 1 then sql_fail (ErrText ''scheduled report window is missing or already completed'')
       else sql_return ()) d1 = (Inr u, d')" by simp
    then obtain n d2 where cw: "sql_wrap ''complete scheduled report window'' (sql_stmt E (\<lambda>n t. Inr (complete_report_window w at t))) d1 = (Inr n, d2)"
      and fin: "(if n \<noteq> 1 then sql_fail (ErrText ''scheduled report window is missing or already completed'') else sql_return ()) d2 = (Inr u, d')"
      by (rule sql_bindE)
    from cw have "rows d2 = snd (complete_report_window w at ?t1)"
      by (auto simp: sql_wrap_eq_Inr sql_stmt_Inr d1 dest: arg_cong [of _ _ snd])
    moreover have "d' = d2" using fin by (simp split: if_splits)
    ultimately show ?thesis using True by simp
  next
    case False
    with tail c1 d1 show ?thesis by simp
  qed
  show ?thesis using rest
  proof
    assume s: "rw_trigger w = ''scheduled'' \<and> rows d' = snd (complete_report_window w at ?t1)"
    obtain r where r: "r \<in> set (reports (rows d))" "held_report w r"
      using one c1 affected_pos [of "held_report w" "reports (rows d)"] by auto
    have "mark_generated art at r \<in> set (reports ?t1)" using r by (auto simp: update_where_def)
    then have "row_window (mark_generated art at r) \<in> reported ?t1"
      using held_named(2) [OF inv w r] s by (auto simp: reported_def mark_generated_def)
    then have in_t1: "work_window w \<in> reported ?t1" using held_named(1) [OF inv w r] by simp
    let ?c = "close_window (rw_tenant w) (rw_schedule w) (rw_due w) (rw_end w) WCompleted at ?t1"
    have "closed_settled (reported ?t1) ?c"
      by (rule closed_settled_close) (use l1 in_t1 in \<open>simp_all add: ledger_def work_window_def\<close>)
    then have u: "closed_settled (reported ?t1) (update_schedule (rw_tenant w) (rw_schedule w) (rw_end w) ?c)"
      by (rule closed_settled_cong) simp_all
    have "ledger (reported ?t1) (rows d')"
      using s u l1 by (auto simp: complete_report_window_def Let_def ledger_def deliveries_inv_def)
    moreover have "reports (rows d') = reports ?t1"
      using s complete_window_reports' [of w at ?t1] by (metis prod.collapse)
    ultimately show ?thesis using reported_same by metis
  qed (use l1 in simp)
qed

section \<open>The report operations\<close>

lemma works_ok_reports:
  assumes "works_ok ws t" "ledger (reported t') t'" "reports_inv t'" "\<And>w. names_row w t \<Longrightarrow> names_row w t'"
  shows "works_ok ws t'"
  using assms by (auto simp: works_ok_def windows_ok_def)

interpretation work: report_invariant E n0 "works_ok ws" "uses_work ws" for E :: dbenv and n0 :: nat and ws
proof unfold_locales
  fix t
  assume t: "works_ok ws t"
  then have l: "ledger (reported t) t" and inv: "reports_inv t" by (auto simp: works_ok_def windows_ok_def)
  note keep = works_ok_reports [OF t]
  show "works_ok ws (t\<lparr>report_items := ris\<rparr>)" "works_ok ws (t\<lparr>matches := ms\<rparr>)" "works_ok ws (t\<lparr>window_items := wis\<rparr>)" for ris ms wis
    by (rule keep, rule ledger_reports [OF l]; simp add: reported_def inv_of_growth numbered.items [OF inv] numbered.matched [OF inv]
        numbered.listed [OF inv] names_row_def)+
  show "works_ok ws (t\<lparr>window_recipients := window_recipients t @ rs\<rparr>)" for rs
    by (rule keep) (use ledger_recipients [OF l] numbered.addressed [OF inv] in \<open>simp_all add: reported_def names_row_def\<close>)
  show "works_ok ws t'" if "insert_window a b c e t = Inr (x, t')" for a b c e x t'
    using ledger_open [OF l that] reported_same [OF insert_window_reports [OF that]] numbered.opened [OF inv that]
      names_same [OF _ insert_window_reports [OF that]] by (intro keep) simp_all
  show "works_ok ws (snd (noop_rows a b c e now clk t))" for a b c e now clk
    using ledger_noop [OF l] reported_same [OF noop_reports] numbered.noop [OF inv] names_same [OF _ noop_reports]
    by (intro keep) simp_all
  show "works_ok ws t'" if up: "upsert_report E a nm s dueAt windowEnd now n t = Inr (r, t')" for a nm s dueAt windowEnd now n r t'
  proof (rule keep)
    show "reports_inv t'" by (rule inv_of_growth [OF grows_upsert [OF grows_refl [OF inv] up]])
    show "names_row w t'" if w: "names_row w t" for w
      using up by (rule upsert_report_reports) (use w in \<open>auto intro: names_update names_insert\<close>)
    show "ledger (reported t') t'"
      using up
      by (rule upsert_report_reports) (use l ledger_insert_report [OF l] in \<open>auto intro!: ledger_update_reports simp: reclaimable_def lease_expired_def\<close>)
  qed
  show "works_ok ws t'" if man: "insert_manual E a nm now n t = Inr (v, t')" for a nm now n v t'
  proof (rule keep)
    show "reports_inv t'" by (rule inv_of_growth [OF grows_manual [OF grows_refl [OF inv] man]])
    show "names_row w t'" if w: "names_row w t" for w
      using man by (rule insert_manual_Inr) (simp add: names_insert [OF w])
    show "ledger (reported t') t'"
      using man by (rule insert_manual_Inr) (simp add: ledger_insert_report [OF l])
  qed
  have upd: "works_ok ws (t\<lparr>reports := update_where P f (reports t)\<rparr>)"
    if f: "\<And>r. row_window (f r) = row_window r \<and> rp_trigger (f r) = rp_trigger r \<and> rp_id (f r) = rp_id r"
      and P: "\<And>r. P r \<Longrightarrow> rp_status r = RGenerated \<Longrightarrow> rp_status (f r) = RGenerated"
      and i: "reports_inv (t\<lparr>reports := update_where P f (reports t)\<rparr>)" for P f
    using f by (intro keep ledger_update_reports [OF l] i names_update P) auto
  show "works_ok ws (snd (claim_where (\<lambda>r. report_key a i r \<and> reclaimable clk r) (claim_again clk (uuid_at E n 0)) t))" for a i clk n
    using numbered.reclaim [OF order_refl inv, of a i clk E n] unfolding claim_where_def snd_conv
    by (intro upd) (auto simp: reclaimable_def lease_expired_def)
  show "works_ok ws (snd (claim_where (\<lambda>r. report_key a i r \<and> rp_deleted r = None \<and> rp_status r = RFailed) (claim_anew now (uuid_at E n 0)) t))" for a i now n
    using numbered.retried [OF _ order_refl inv, of a i now E n] unfolding claim_where_def snd_conv
    by (intro upd) auto
  show "works_ok ws (t\<lparr>reports := update_where (held_report w) (mark_report_failed msg) (reports t)\<rparr>)" for w msg
    by (rule upd) (use numbered.failed [OF inv] in \<open>auto simp: held_report_def\<close>)
  show "works_ok ws (t\<lparr>reports := update_where (report_key a i) (mark_deleted clk) (reports t)\<rparr>)" for a i clk
    by (rule upd, simp, simp add: mark_deleted_def, rule numbered.removed [OF inv])
next
  fix w art at d u d'
  assume c: "uses_work ws (CmdFinalizeReport w art at)" and t: "works_ok ws (rows d)" and run: "finalizeReport E w art at d = (Inr u, d')"
  have w: "names_row w (rows d)" and l: "ledger (reported (rows d)) (rows d)" and inv: "reports_inv (rows d)"
    using c t by (auto simp: uses_work_def works_ok_def windows_ok_def)
  show "works_ok ws (rows d')"
  proof (rule works_ok_reports [OF t ledger_finalize [OF l inv w run]])
    show "reports_inv (rows d')" by (rule numbered.finalized [OF _ inv run]) simp
    show "names_row v (rows d')" if "names_row v (rows d)" for v by (rule named.finalized [OF _ that run]) simp
  qed
qed

section \<open>The deliveries and the digests\<close>

text \<open>The delivery operations leave the reports alone.\<close>

lemma delivery_step_reports: "reports (rows (delivery_step E c d)) = reports (rows d)"
proof -
  let ?I = "\<lambda>t. reports t = reports (rows d)"
  have complete: "keeps ?I (completeScheduleWindow E a b x e now)" for a b x e now
    unfolding completeScheduleWindow_def
    by (intro keeps_intros keeps_stmt) (auto simp: complete_window_rows_def Let_def close_window_def)
  have claim: "keeps ?I (Claim_body E cl now)" for cl now
    unfolding Claim_body_def Claim_result_def
    by (intro keeps_intros keeps_stmt complete)
      (auto simp: normalize_key_def upsert_delivery_def Let_def split: option.splits if_splits)
  have finalize: "keeps ?I (finalize_delivery E m1 m2 m3 m4 cl tok n g now)" for m1 m2 m3 m4 cl tok n g now
    unfolding finalize_delivery_def by (intro keeps_intros keeps_beginTenant keeps_stmt complete) auto
  have noop: "keeps ?I (completeNoopDigestWindow E a b x e now)" for a b x e now
    unfolding completeNoopDigestWindow_def by (intro keeps_intros keeps_stmt) (auto dest: noop_reports')
  show ?thesis
  proof (cases c)
    case (CmdClaim cl)
    then show ?thesis
      by (auto simp: Claim_def intro!: keepsD [of ?I, OF keeps_rollback] keeps_bind keeps_wrap keeps_beginTenant claim)
  next
    case (CmdNoop a b x e)
    then show ?thesis by (auto simp: CompleteNoop_def intro!: keepsD [of ?I, OF keeps_tenantTransaction] noop)
  qed (auto simp: FinalizeSent_def FinalizeFailure_def intro!: keepsD [of ?I, OF finalize] split: option.split)
qed

text \<open>The digests of a tenant, statement by statement.\<close>

context claim_invariant
begin

lemma kept_digest_schedules: "keeps_from n0 I (loadDigestSchedules E a)"
proof -
  have "keeps_from n0 I (load_pending E a ss)" for ss by (induction ss) (simp_all add: from_intros)
  then show ?thesis unfolding loadDigestSchedules_def by (intro from_intros)
qed

lemma kept_tenant_digests: "keeps_from n0 I (tenant_digests E L tz collate a now)"
proof -
  have one: "keeps_from n0 I (schedule_digests E tz collate a at s)" for at s
    unfolding schedule_digests_def loadDigestRecipients_def loadDigestNoticeRows_def by (intro from_intros kept_open)
  have "keeps_from n0 I (schedules_digests E tz collate a at ss)" for at ss
    by (induction ss) (simp_all add: from_intros one)
  then show ?thesis unfolding tenant_digests_def by (intro from_intros kept_lock kept_digest_schedules)
qed

end

section \<open>Runs\<close>

lemma work_step_ok:
  assumes t: "works_ok ws (rows (fst s))" and c: "uses_handed ws c"
  shows "works_ok (ws @ handed_by V c s) (rows (fst (work_step V c s)))"
proof -
  obtain d f where sd: "s = (d, f)" by (cases s)
  show ?thesis
  proof (cases c)
    case (OnDelivery dc)
    have "works_ok ws (rows (delivery_step (rv_db V) dc d))"
    proof (rule works_ok_reports)
      show "works_ok ws (rows d)" using t sd by simp
      then show "ledger (reported (rows (delivery_step (rv_db V) dc d))) (rows (delivery_step (rv_db V) dc d))"
        unfolding reported_same [OF delivery_step_reports] by (intro ledger_step) (simp add: works_ok_def windows_ok_def)
      show "reports_inv (rows (delivery_step (rv_db V) dc d))"
        using t sd delivery_step_reports [of "rv_db V" dc d] by (simp add: works_ok_def windows_ok_def reports_inv_def)
    qed (rule names_same [OF _ delivery_step_reports])
    with OnDelivery sd show ?thesis by (simp add: handed_by_def)
  next
    case (OnDigests a)
    with t sd from_withTenant [OF work.kept_tenant_digests _ order_refl, of "rv_db V" "rv_lock V" a] show ?thesis
      by (auto simp: handed_by_def split: option.split)
  next
    case (OnReport rc)
    have "works_ok ws (rows (fst (report_step V rc s)))"
      using work.step_keeps [OF refl _ order_refl t, of rc V] c OnReport by (simp add: uses_handed_def)
    moreover have "names_row w (rows (fst (report_step V rc s)))" if "w \<in> set (fst (report_call V rc s))" for w
      using that t by (intro handed_named) (simp_all add: works_ok_def windows_ok_def)
    ultimately show ?thesis using OnReport by (auto simp: works_ok_def handed_by_def)
  qed
qed

lemma work_run_ok:
  "works_ok ws (rows (fst s)) \<Longrightarrow> claimed_before_use V ws cs s \<Longrightarrow> windows_ok (rows (fst (run_commands (work_step V) cs s)))"
proof (induction cs arbitrary: ws s)
  case (Cons c cs)
  from Cons.prems(2) have u: "uses_handed ws c" and rest: "claimed_before_use V (ws @ handed_by V c s) cs (work_step V c s)" by simp_all
  from Cons.IH [OF work_step_ok [OF Cons.prems(1) u] rest] show ?case by simp
qed (simp add: works_ok_def)

text \<open>
  C13: Over any run of the operations on digest windows (mail claims and finalizations, closings of
  empty windows, the digests that fix windows, report claims, finalizations, failures, retries and
  deletions, in any order and with any database faults, each report being finalized only with the
  work of a claim), a digest window is closed only for one of two reasons: none of its deliveries is
  pending or being sent, every one is sent or failed; or a scheduled report of exactly this window has
  been generated, which closes the window without looking at its deliveries.
\<close>

theorem closed_window_has_no_open_delivery:
  assumes "works_ok ws (rows (fst s))" "claimed_before_use V ws cs s"
    and "(d, f) = run_commands (work_step V) cs s"
    and "w \<in> set (windows (rows d))" "w_status w \<noteq> WPending"
    and "x \<in> set (deliveries (rows d))" "delivery_window x = window_key w"
  shows "d_status x = DSent \<or> d_status x = DFailed \<or>
    (\<exists>r \<in> set (reports (rows d)). rp_trigger r = ''scheduled'' \<and> rp_status r = RGenerated \<and> row_window r = window_key w)"
proof -
  have d: "d = fst (run_commands (work_step V) cs s)" using arg_cong [OF assms(3), of fst] by simp
  have "closed_settled (reported (rows d)) (rows d)"
    using work_run_ok [OF assms(1,2)] d by (simp add: windows_ok_def ledger_def)
  then have "window_key w \<in> reported (rows d) \<or> settled x" using assms(4-7) unfolding closed_settled_def by blast
  then show ?thesis
  proof
    assume "window_key w \<in> reported (rows d)"
    then obtain r where r: "window_key w = row_window r" "r \<in> set (reports (rows d))" "rp_trigger r = ''scheduled'' \<and> rp_status r = RGenerated"
      unfolding reported_def by (elim imageE CollectE conjE) simp
    then have "\<exists>r \<in> set (reports (rows d)). rp_trigger r = ''scheduled'' \<and> rp_status r = RGenerated \<and> row_window r = window_key w"
      by (intro bexI [of _ r]) simp_all
    then show ?thesis by (rule disjI2 [OF disjI2])
  next
    assume "settled x"
    then have "d_status x = DSent \<or> d_status x = DFailed" by (simp add: settled_def)
    then show ?thesis by (elim disjE) simp_all
  qed
qed

definition sent_commands :: "work_command list" where
  "sent_commands = [OnDelivery (CmdClaim sample_claim), OnDelivery (CmdSent sample_claim ''u4-0'' 1 (2 * day_ns))]"

definition sent_state :: "schema db \<times> unit" where
  "sent_state = run_commands (work_step plain_repo) sent_commands (sample_db, ())"

lemma sent_state_facts:
  "map w_status (windows (rows (fst sent_state))) = [WCompleted]"
  "map window_key (windows (rows (fst sent_state))) = [(''t1'', ''s1'', day_ns, day_ns + hour_ns)]"
  "map delivery_window (deliveries (rows (fst sent_state))) = [(''t1'', ''s1'', day_ns, day_ns + hour_ns)]"
  "reports (rows (fst sent_state)) = []"
  by code_simp+

theorem closed_window_has_no_open_delivery_witness:
  "map w_status (windows (rows (fst sent_state))) = [WCompleted] \<and>
   (d_status (hd (deliveries (rows (fst sent_state)))) = DSent \<or> d_status (hd (deliveries (rows (fst sent_state)))) = DFailed)"
proof -
  let ?ws = "windows (rows (fst sent_state))" and ?xs = "deliveries (rows (fst sent_state))"
  have ok: "works_ok [] (rows (fst (sample_db, ())))"
    by (simp add: works_ok_def windows_ok_def ledger_def closed_settled_def deliveries_inv_def reports_inv_def reported_def
        sample_db_def sample_schema_def)
  have use: "claimed_before_use plain_repo [] sent_commands (sample_db, ())"
    by (simp add: sent_commands_def uses_handed_def)
  have run: "(fst sent_state, ()) = run_commands (work_step plain_repo) sent_commands (sample_db, ())"
    unfolding sent_state_def by (rule prod_eqI) simp_all
  have at: "hd ?ws \<in> set ?ws" "w_status (hd ?ws) \<noteq> WPending" "hd ?xs \<in> set ?xs" "delivery_window (hd ?xs) = window_key (hd ?ws)"
    using sent_state_facts by (cases ?ws; cases ?xs; simp)+
  show ?thesis
    using closed_window_has_no_open_delivery [OF ok use run at] sent_state_facts(1,4) by simp
qed

end
