(* ===== verification/Run_Records.thy ===== *)
theory Run_Records
  imports Digest_Runner
begin

text \<open>
  internal/app/postgres_report_runs.go and postgres_digest_runs.go: one row of \<open>job_runs\<close> per tenant
  and run, with the counters and a bounded error text, which is valid UTF-8 and so valid JSON.
\<close>

section \<open>The error text\<close>

text \<open>\<open>boundedReportRunError\<close>: the longest prefix of at most 2048 bytes that ends on a rune.\<close>

function valid_prefix :: "string \<Rightarrow> string" where
  "valid_prefix s = (if valid_utf8 s then s else valid_prefix (butlast s))"
  by pat_completeness auto
termination
proof (relation "measure length")
  fix s :: string
  assume "\<not> valid_utf8 s"
  then have "s \<noteq> []" by auto
  then show "(butlast s, s) \<in> measure length" by simp
qed simp

declare valid_prefix.simps [simp del]

definition boundedReportRunError :: "goerr \<Rightarrow> string" where
  "boundedReportRunError e =
     (let message = show_error e in if length message \<le> 2048 then message else valid_prefix (take 2048 message))"

definition run_detail :: "string \<Rightarrow> int \<Rightarrow> int \<Rightarrow> int \<Rightarrow> goerr option \<Rightarrow> json" where
  "run_detail done_name n failed skipped err =
     JObj ((case err of None \<Rightarrow> [] | Some e \<Rightarrow> [(''error'', JStr (boundedReportRunError e))]) @
           [(''failed'', JNum (show_int failed)), (done_name, JNum (show_int n)), (''skipped'', JNum (show_int skipped))])"

section \<open>The row\<close>

definition valid_run_record :: "run_record \<Rightarrow> bool" where
  "valid_run_record r \<longleftrightarrow> rr_tenant r \<noteq> [] \<and> (rr_status r = ''succeeded'' \<or> rr_status r = ''failed'') \<and>
     \<not> is_zero (rr_started r) \<and> \<not> is_zero (rr_finished r)"

definition insert_run :: "dbenv \<Rightarrow> string \<Rightarrow> string \<Rightarrow> run_record \<Rightarrow> (schema, unit) sql" where
  "insert_run E kind done_name r =
     sql_wrap (''record tenant '' @ kind @ '' run'') (sql_stmt E (\<lambda>n t. Inr ((), t\<lparr>job_runs := job_runs t @
        [\<lparr>jr_tenant = rr_tenant r, jr_kind = kind, jr_status = rr_status r, jr_started = rr_started r,
          jr_finished = rr_finished r,
          jr_detail = run_detail done_name (rr_done r) (rr_failed r) (rr_skipped r) (rr_err r)\<rparr>]\<rparr>)))"

definition insertReportRun :: "dbenv \<Rightarrow> run_record \<Rightarrow> (schema, unit) sql" where
  "insertReportRun E = insert_run E ''report'' ''generated''"

definition insertDigestRun :: "dbenv \<Rightarrow> run_record \<Rightarrow> (schema, unit) sql" where
  "insertDigestRun E = insert_run E ''digest'' ''sent''"

definition RecordReportRun :: "dbenv \<Rightarrow> lockenv \<Rightarrow> run_record \<Rightarrow> schema db \<Rightarrow> (unit res \<times> schema db) option" where
  "RecordReportRun E L r d =
     (if \<not> valid_run_record r then Some (Inl (ErrText ''valid tenant report run is required''), d)
      else withTenant E L (rr_tenant r) (\<lambda>now. insertReportRun E r) d)"

definition RecordDigestRun :: "dbenv \<Rightarrow> lockenv \<Rightarrow> run_record \<Rightarrow> schema db \<Rightarrow> (unit res \<times> schema db) option" where
  "RecordDigestRun E L r d =
     (if \<not> valid_run_record r then Some (Inl (ErrText ''valid tenant digest run is required''), d)
      else withTenant E L (rr_tenant r) (\<lambda>now. insertDigestRun E r) d)"

definition RunTenantIDs :: "dbenv \<Rightarrow> (schema, string list) sql" where
  "RunTenantIDs E = sql_bind (tenantCatalog E) (\<lambda>ts. sql_return (map fst ts))"

section \<open>The bound\<close>

lemma valid_prefix_facts: "prefix (valid_prefix s) s \<and> valid_utf8 (valid_prefix s)"
proof (induction s rule: valid_prefix.induct)
  case (1 s)
  show ?case
  proof (cases "valid_utf8 s")
    case False
    have "prefix (butlast s) s" by (metis append_butlast_last_id append_Nil2 prefixI prefix_order.refl butlast.simps(1))
    then show ?thesis using 1 False by (subst (1 2) valid_prefix.simps) (auto intro: prefix_order.trans)
  qed (simp add: valid_prefix.simps)
qed

lemma valid_prefix_longest: "prefix p s \<Longrightarrow> valid_utf8 p \<Longrightarrow> length p \<le> length (valid_prefix s)"
proof (induction s rule: valid_prefix.induct)
  case (1 s)
  show ?case
  proof (cases "valid_utf8 s")
    case True
    then show ?thesis using 1(2) by (simp add: valid_prefix.simps prefix_length_le)
  next
    case False
    then have "p \<noteq> s" using 1(3) by blast
    then have "prefix p (butlast s)" using 1(2)
      by (metis append_butlast_last_id append_Nil2 prefix_snoc butlast.simps(1))
    with 1 False show ?thesis by (subst valid_prefix.simps) simp
  qed
qed

text \<open>
  The error text of a run record is a prefix of the message of at most 2048 bytes; a longer
  message is cut to the longest prefix within the bound that is valid UTF-8, so the text never ends
  inside a character, and a short message is kept whole.
\<close>

theorem run_error_bounded:
  "prefix (boundedReportRunError e) (show_error e) \<and> length (boundedReportRunError e) \<le> 2048 \<and>
   (if length (show_error e) \<le> 2048 then boundedReportRunError e = show_error e
    else valid_utf8 (boundedReportRunError e) \<and>
      (\<forall>p. prefix p (take 2048 (show_error e)) \<and> valid_utf8 p \<longrightarrow> length p \<le> length (boundedReportRunError e)))"
proof (cases "length (show_error e) \<le> 2048")
  case False
  note f = valid_prefix_facts [of "take 2048 (show_error e)"]
  have "prefix (take 2048 (show_error e)) (show_error e)" by (rule take_is_prefix)
  moreover have "length (valid_prefix (take 2048 (show_error e))) \<le> 2048"
    using f prefix_length_le [of "valid_prefix (take 2048 (show_error e))"] by fastforce
  ultimately show ?thesis
    using f False valid_prefix_longest by (auto simp: boundedReportRunError_def Let_def intro: prefix_order.trans)
qed (simp add: boundedReportRunError_def)

theorem run_error_bounded_witness:
  "length (boundedReportRunError (ErrText (replicate 3000 CHR ''x''))) \<le> 2048"
  using run_error_bounded [of "ErrText (replicate 3000 CHR ''x'')"] by blast

end
