(* ===== verification/Render.thy ===== *)
theory Render
  imports Report_Model Digest
begin

text \<open>
  internal/report/render.go: the view of a report. The template text and the escaping of package
  html/template are the parameter \<open>re_execute\<close>, and net/url is \<open>re_url_parse\<close> (scheme and
  host), as in \<open>Digest\<close>; everything the template shows is computed here. Times in the header are
  formatted in the location they carry, which is \<open>re_offset\<close> and \<open>re_zone\<close>.
\<close>

section \<open>Data\<close>

record report_document =
  rd_tenant_name :: string
  rd_schedule_name :: string
  rd_trigger :: string
  rd_due :: time
  rd_end :: time
  rd_start :: "time option"
  rd_notices :: "report_notice list"

record notice_view =
  nv_id :: string
  nv_title :: string
  nv_category :: string
  nv_agency :: string
  nv_region :: string
  nv_url :: string
  nv_amount :: string
  nv_deadline :: string
  nv_link :: "string option"
  nv_matches :: "(string \<times> string list) list"

record row_view =
  rv_ordinal :: nat
  rv_kind :: string
  rv_date :: string
  rv_clock :: string
  rv_keyword :: string
  rv_category :: string
  rv_trade :: string
  rv_title :: string
  rv_agency :: string
  rv_posted :: string
  rv_amount :: string
  rv_record :: string
  rv_link :: "string option"

record report_view =
  vw_tenant_name :: string
  vw_schedule_name :: string
  vw_trigger :: string
  vw_window :: string
  vw_due :: string
  vw_total :: nat
  vw_construction :: nat
  vw_service :: nat
  vw_goods :: nat
  vw_foreign :: nat
  vw_notices :: "notice_view list"
  vw_query_date :: string
  vw_query_kinds :: string
  vw_query_keywords :: string
  vw_query_filters :: string
  vw_amount_total :: string
  vw_rows :: "row_view list"

record render_env =
  re_url_parse :: "string \<Rightarrow> (string \<times> string) option"
  re_offset :: int
  re_zone :: string
  re_execute :: "report_view \<Rightarrow> goerr + string"

section \<open>Texts\<close>

definition label_construction :: string where
  "label_construction =
     [CHR 0xEA, CHR 0xB3, CHR 0xB5, CHR 0xEC, CHR 0x82, CHR 0xAC]"

definition label_service :: string where
  "label_service =
     [CHR 0xEC, CHR 0x9A, CHR 0xA9, CHR 0xEC, CHR 0x97, CHR 0xAD]"

definition label_goods :: string where
  "label_goods =
     [CHR 0xEB, CHR 0xAC, CHR 0xBC, CHR 0xED, CHR 0x92, CHR 0x88]"

definition label_foreign :: string where
  "label_foreign =
     [CHR 0xEC, CHR 0x99, CHR 0xB8, CHR 0xEC, CHR 0x9E, CHR 0x90]"

definition label_domestic :: string where
  "label_domestic =
     [CHR 0xEB, CHR 0x82, CHR 0xB4, CHR 0xEC, CHR 0x9E, CHR 0x90]"

definition text_first_window :: string where
  "text_first_window =
     [CHR 0xEC, CHR 0xB5, CHR 0x9C, CHR 0xEC, CHR 0xB4, CHR 0x88, CHR 0x20, CHR 0xEC, CHR 0x88,
      CHR 0x98, CHR 0xEC, CHR 0xA7, CHR 0x91, CHR 0x20, CHR 0xEC, CHR 0x9D, CHR 0xB4, CHR 0xED,
      CHR 0x9B, CHR 0x84, CHR 0x20, CHR 0x7E, CHR 0x20]"

definition text_no_deadline :: string where
  "text_no_deadline =
     [CHR 0xEB, CHR 0xA7, CHR 0x88, CHR 0xEA, CHR 0xB0, CHR 0x90, CHR 0x20, CHR 0xEB, CHR 0xAF,
      CHR 0xB8, CHR 0xEC, CHR 0xA0, CHR 0x95]"

definition text_no_amount :: string where
  "text_no_amount =
     [CHR 0xEB, CHR 0xAF, CHR 0xB8, CHR 0xEC, CHR 0xA0, CHR 0x95]"

definition text_won :: string where
  "text_won =
     [CHR 0xEC, CHR 0x9B, CHR 0x90]"

text \<open>\<open>strings.EqualFold\<close> on the schemes \<open>url.Parse\<close> returns, which are ASCII.\<close>

definition validSourceURL :: "render_env \<Rightarrow> string \<Rightarrow> bool" where
  "validSourceURL R raw =
     (case re_url_parse R raw of
        None \<Rightarrow> False
      | Some (scheme, host) \<Rightarrow> scheme \<noteq> [] \<and> host \<noteq> [] \<and> (fold_key scheme = ''http'' \<or> fold_key scheme = ''https''))"

definition categoryLabel :: "string \<Rightarrow> string" where
  "categoryLabel category =
     (if category = ''construction'' then label_construction
      else if category = ''service'' then label_service
      else if category = ''goods'' then label_goods
      else if category = ''foreign'' then label_foreign
      else category)"

definition tradeLabel :: "string \<Rightarrow> string" where
  "tradeLabel category = (if category = ''foreign'' then label_foreign else label_domestic)"

definition countCategory :: "string \<Rightarrow> report_view \<Rightarrow> report_view" where
  "countCategory category v =
     (if category = ''construction'' then v\<lparr>vw_construction := Suc (vw_construction v)\<rparr>
      else if category = ''service'' then v\<lparr>vw_service := Suc (vw_service v)\<rparr>
      else if category = ''goods'' then v\<lparr>vw_goods := Suc (vw_goods v)\<rparr>
      else if category = ''foreign'' then v\<lparr>vw_foreign := Suc (vw_foreign v)\<rparr>
      else v)"

text \<open>The layout \<open>2006-01-02 15:04 MST\<close> in the location of the value.\<close>

definition hour_minute :: "int \<Rightarrow> time \<Rightarrow> string" where
  "hour_minute off t = (case clock_of off t of (h, m, s) \<Rightarrow> pad 2 h @ '':'' @ pad 2 m)"

definition formatTime :: "render_env \<Rightarrow> time \<Rightarrow> string" where
  "formatTime R t =
     (if is_zero t then ''-''
      else format_date ''-'' (re_offset R) t @ '' '' @ hour_minute (re_offset R) t @ '' '' @ re_zone R)"

definition formatWindow :: "render_env \<Rightarrow> time option \<Rightarrow> time \<Rightarrow> string" where
  "formatWindow R start e =
     (case start of None \<Rightarrow> text_first_window @ formatTime R e
      | Some s \<Rightarrow> formatTime R s @ '' ~ '' @ formatTime R e)"

definition formatDeadline :: "render_env \<Rightarrow> time \<Rightarrow> string" where
  "formatDeadline R t = (if is_zero t then text_no_deadline else formatTime R t)"

text \<open>Grouping: commas are inserted from the right; an index that would be negative stops the
  loop like zero does.\<close>

fun group_loop :: "nat \<Rightarrow> string \<Rightarrow> string" where
  "group_loop index text =
     (if index = 0 then text
      else group_loop (index - 3) (take index text @ '','' @ drop index text))"

declare group_loop.simps [simp del]

definition groupDigits :: "int \<Rightarrow> string" where
  "groupDigits v =
     (let text = show_int v;
          (pre, digits) = (if has_prefix text ''-'' then (''-'', tl text) else ([], text))
      in pre @ group_loop (length digits - 3) digits)"

definition formatAmount :: "int \<Rightarrow> string" where
  "formatAmount v = (if v = 0 then text_no_amount else groupDigits v @ text_won)"

definition formatTableAmount :: "int \<Rightarrow> string" where
  "formatTableAmount v = (if v = 0 then ''-'' else groupDigits v @ text_won)"

text \<open>The sum in 64 bits: the guards are evaluated in 64 bits too.\<close>

definition addAmountTotal :: "int \<Rightarrow> int \<Rightarrow> goerr + int" where
  "addAmountTotal acc amount =
     (if 0 < amount \<and> wrap64 (int64_max - amount) < acc then
        Inl (ErrText (''estimated amount total overflow: '' @ show_int acc @ '' + '' @ show_int amount))
      else if amount < 0 \<and> acc < wrap64 (int64_min - amount) then
        Inl (ErrText (''estimated amount total underflow: '' @ show_int acc @ '' + '' @ show_int amount))
      else Inr (wrap64 (acc + amount)))"

definition dash :: "string \<Rightarrow> string" where
  "dash v = (if trim_space v = [] then ''-'' else v)"

definition dashJoin :: "string list \<Rightarrow> string" where
  "dashJoin vs = dash (str_join '', '' vs)"

definition dashTime :: "time \<Rightarrow> (time \<Rightarrow> string) \<Rightarrow> string" where
  "dashTime t layout = (if is_zero t then ''-'' else layout t)"

definition kst_clock :: "time \<Rightarrow> string" where
  "kst_clock t = (case clock_of kst_offset t of (h, m, s) \<Rightarrow> pad 2 h @ pad 2 m)"

section \<open>The view\<close>

definition notice_entry :: "render_env \<Rightarrow> report_notice \<Rightarrow> notice_view" where
  "notice_entry R n =
     \<lparr>nv_id = rn_id n, nv_title = rn_title n, nv_category = categoryLabel (rn_category n), nv_agency = rn_agency n,
      nv_region = rn_region n, nv_url = rn_url n, nv_amount = formatAmount (rn_amount n),
      nv_deadline = formatDeadline R (rn_deadline n),
      nv_link = (if validSourceURL R (rn_url n) then Some (rn_url n) else None),
      nv_matches = map (\<lambda>m. (rm_rule_name m, rm_reasons m)) (rn_matches n)\<rparr>"

definition row_entry :: "render_env \<Rightarrow> nat \<Rightarrow> report_notice \<Rightarrow> row_view" where
  "row_entry R index n =
     \<lparr>rv_ordinal = Suc index, rv_kind = dash (rn_source_kind n),
      rv_date = dashTime (rn_collected n) (format_date [] kst_offset), rv_clock = dashTime (rn_collected n) kst_clock,
      rv_keyword = dash (str_join '', '' (rn_keywords n)), rv_category = categoryLabel (rn_category n),
      rv_trade = tradeLabel (rn_category n), rv_title = rn_title n, rv_agency = dash (rn_agency n),
      rv_posted = dashTime (rn_posted n) (format_date ''-'' kst_offset), rv_amount = formatTableAmount (rn_amount n),
      rv_record = dashTime (rn_recorded n) (\<lambda>t. format_date ''-'' kst_offset t @ '' '' @ format_clock '':'' kst_offset t),
      rv_link = (if validSourceURL R (rn_url n) then Some (rn_url n) else None)\<rparr>"

record view_state =
  vs_view :: report_view
  vs_total :: int
  vs_kinds :: "string list"
  vs_keywords :: "string list"
  vs_filters :: "string list"

definition view_step :: "render_env \<Rightarrow> nat \<Rightarrow> report_notice \<Rightarrow> view_state \<Rightarrow> goerr + view_state" where
  "view_step R index n st =
     (case addAmountTotal (vs_total st) (rn_amount n) of
        Inl e \<Rightarrow> Inl e
      | Inr acc \<Rightarrow>
          Inr \<lparr>vs_view = (let v = countCategory (rn_category n) (vs_view st) in
                 v\<lparr>vw_notices := vw_notices v @ [notice_entry R n], vw_rows := vw_rows v @ [row_entry R index n]\<rparr>),
               vs_total = acc, vs_kinds = appendUnique (vs_kinds st) (rn_source_kind n),
               vs_keywords = foldl appendUnique (vs_keywords st) (rn_keywords n),
               vs_filters = foldl appendUnique (vs_filters st) (map rm_rule_name (rn_matches n))\<rparr>)"

fun view_loop :: "render_env \<Rightarrow> nat \<Rightarrow> report_notice list \<Rightarrow> view_state \<Rightarrow> goerr + view_state" where
  "view_loop R index [] st = Inr st"
| "view_loop R index (n # ns) st =
     (case view_step R index n st of Inl e \<Rightarrow> Inl e | Inr st' \<Rightarrow> view_loop R (Suc index) ns st')"

definition empty_view :: "render_env \<Rightarrow> report_document \<Rightarrow> report_view" where
  "empty_view R doc =
     \<lparr>vw_tenant_name = rd_tenant_name doc, vw_schedule_name = rd_schedule_name doc, vw_trigger = rd_trigger doc,
      vw_window = formatWindow R (rd_start doc) (rd_end doc), vw_due = formatTime R (rd_due doc),
      vw_total = length (rd_notices doc), vw_construction = 0, vw_service = 0, vw_goods = 0, vw_foreign = 0,
      vw_notices = [], vw_query_date = [], vw_query_kinds = [], vw_query_keywords = [], vw_query_filters = [],
      vw_amount_total = [], vw_rows = []\<rparr>"

definition report_view_of :: "render_env \<Rightarrow> report_document \<Rightarrow> goerr + report_view" where
  "report_view_of R doc =
     (case view_loop R 0 (rd_notices doc)
             \<lparr>vs_view = empty_view R doc, vs_total = 0, vs_kinds = [], vs_keywords = [], vs_filters = []\<rparr> of
        Inl e \<Rightarrow> Inl e
      | Inr st \<Rightarrow>
          Inr ((vs_view st)\<lparr>vw_query_date := dashTime (rd_due doc) (format_date ''-'' kst_offset),
                 vw_query_kinds := dashJoin (vs_kinds st), vw_query_keywords := dashJoin (vs_keywords st),
                 vw_query_filters := dashJoin (vs_filters st), vw_amount_total := formatTableAmount (vs_total st)\<rparr>))"

definition BuildReportHTML :: "render_env \<Rightarrow> report_document \<Rightarrow> goerr + string" where
  "BuildReportHTML R doc =
     (case report_view_of R doc of
        Inl e \<Rightarrow> Inl e
      | Inr v \<Rightarrow> (case re_execute R v of Inl e \<Rightarrow> Inl (ErrWrap ''render report'' e) | Inr html \<Rightarrow> Inr html))"

section \<open>Amounts\<close>

lemma addAmountTotal_exact:
  assumes "in_int64 acc" "in_int64 amount"
  shows "addAmountTotal acc amount = Inr s \<longleftrightarrow> in_int64 (acc + amount) \<and> s = acc + amount"
proof -
  have "wrap64 (int64_max - amount) = int64_max - amount" if "0 < amount"
    using that assms by (intro wrap64_id) (auto simp: in_int64_def int64_min_def int64_max_def)
  moreover have "wrap64 (int64_min - amount) = int64_min - amount" if "amount < 0"
    using that assms by (intro wrap64_id) (auto simp: in_int64_def int64_min_def int64_max_def)
  moreover have "wrap64 (acc + amount) = acc + amount" if "in_int64 (acc + amount)"
    using that by (rule wrap64_id)
  ultimately show ?thesis
    using assms by (auto simp: addAmountTotal_def in_int64_def)
qed

text \<open>The digits in groups of three.\<close>

fun grouped :: "string \<Rightarrow> string" where
  "grouped s = (if length s \<le> 3 then s else grouped (take (length s - 3) s) @ '','' @ drop (length s - 3) s)"

declare grouped.simps [simp del]

lemma group_loop_grouped: "i \<noteq> 0 \<Longrightarrow> length a = i \<Longrightarrow> group_loop i (a @ b) = grouped a @ '','' @ b"
proof (induction i arbitrary: a b rule: less_induct)
  case (less i)
  have step: "group_loop i (a @ b) = group_loop (i - 3) (a @ '','' @ b)"
    using less.prems by (subst group_loop.simps) simp
  show ?case
  proof (cases "i \<le> 3")
    case True
    then show ?thesis using less.prems step by (simp add: group_loop.simps [of 0] grouped.simps [of a])
  next
    case False
    then have "group_loop (i - 3) (take (i - 3) a @ (drop (i - 3) a @ '','' @ b)) =
        grouped (take (i - 3) a) @ '','' @ (drop (i - 3) a @ '','' @ b)"
      using less.prems by (intro less.IH) simp_all
    then have "group_loop (i - 3) (a @ '','' @ b) = grouped (take (i - 3) a) @ '','' @ drop (i - 3) a @ '','' @ b"
      by (metis append.assoc append_take_drop_id)
    with step show ?thesis using False less.prems by (simp add: grouped.simps [of a])
  qed
qed

lemma group_loop_all: "group_loop (length s - 3) s = grouped s"
proof (cases "length s \<le> 3")
  case True
  then show ?thesis by (simp add: group_loop.simps [of 0] grouped.simps)
next
  case False
  then show ?thesis
    using group_loop_grouped [of "length s - 3" "take (length s - 3) s" "drop (length s - 3) s"]
    by (simp add: grouped.simps [of s])
qed

lemma grouped_digits: "list_all is_digit s \<Longrightarrow> filter (\<lambda>c. c \<noteq> CHR '','') (grouped s) = s"
proof (induction s rule: grouped.induct)
  case (1 s)
  have all: "filter (\<lambda>c. c \<noteq> CHR '','') t = t" if "list_all is_digit t" for t
    using that is_digit_not_sign by (auto simp: filter_id_conv list_all_iff)
  show ?case
  proof (cases "length s \<le> 3")
    case True
    with 1 all show ?thesis by (subst grouped.simps) simp
  next
    case False
    have "list_all is_digit (take (length s - 3) s)" "list_all is_digit (drop (length s - 3) s)"
      using 1(2) by (auto simp: list_all_iff dest: in_set_takeD in_set_dropD)
    with 1 False all show ?thesis by (subst grouped.simps) simp
  qed
qed

lemma split_byte_snoc_group:
  "c \<notin> set b \<Longrightarrow> split_byte c (a @ c # b) = split_byte c a @ [b]"
proof (induction a)
  case Nil
  then have "split_byte c b = [b]" by (induction b) auto
  then show ?case by simp
next
  case (Cons x a)
  then show ?case by (cases "split_byte c a") auto
qed

lemma grouped_groups:
  "s \<noteq> [] \<Longrightarrow> list_all is_digit s \<Longrightarrow>
   \<exists>g gs. split_byte CHR '','' (grouped s) = g # gs \<and> 1 \<le> length g \<and> length g \<le> 3 \<and> (\<forall>h \<in> set gs. length h = 3)"
proof (induction s rule: grouped.induct)
  case (1 s)
  have nc: "CHR '','' \<notin> set t" if "list_all is_digit t" for t
    using that is_digit_not_sign by (auto simp: list_all_iff)
  show ?case
  proof (cases "length s \<le> 3")
    case True
    then have "split_byte CHR '','' (grouped s) = [s]"
      using nc [OF 1(3)] by (simp add: grouped.simps [of s] split_byte_single)
    moreover have "1 \<le> length s" using 1(2) by (cases s) auto
    ultimately show ?thesis using True by (intro exI [of _ s] exI [of _ "[]"]) simp
  next
    case False
    let ?a = "take (length s - 3) s" and ?b = "drop (length s - 3) s"
    have d: "list_all is_digit ?a" "list_all is_digit ?b" "?a \<noteq> []" "length ?b = 3"
      using 1(3) False by (auto simp: list_all_iff dest: in_set_takeD in_set_dropD)
    obtain g gs where g: "split_byte CHR '','' (grouped ?a) = g # gs" "1 \<le> length g" "length g \<le> 3" "\<forall>h \<in> set gs. length h = 3"
      using 1(1) [OF False d(3,1)] by blast
    have "grouped s = grouped ?a @ CHR '','' # ?b" using False by (subst grouped.simps) simp
    then have "split_byte CHR '','' (grouped s) = g # (gs @ [?b])"
      using g(1) split_byte_snoc_group [OF nc [OF d(2)], of "grouped ?a"] by simp
    with g d(4) show ?thesis by (intro exI [of _ g] exI [of _ "gs @ [?b]"]) auto
  qed
qed


text \<open>
  Amounts read back: removing the commas from a formatted amount gives the decimal text of the
  amount, which parses to it over the whole 64-bit range, and the commas separate groups of exactly
  three digits after a first group of one to three, with the sign in front.
\<close>

theorem group_digits_roundtrip:
  assumes "in_int64 v"
  shows "parse_int64 (remove_byte CHR '','' (groupDigits v)) = Some v \<and>
    (\<exists>sign g gs. groupDigits v = sign @ str_join '','' (g # gs) \<and> sign = (if v < 0 then ''-'' else []) \<and>
       1 \<le> length g \<and> length g \<le> 3 \<and> list_all (\<lambda>h. length h = 3) gs)"
proof -
  let ?ds = "show_nat (nat \<bar>v\<bar>)" and ?sign = "if v < 0 then ''-'' else []"
  have shown: "show_int v = ?sign @ ?ds" by (simp add: show_int_def)
  have minus: "\<not> has_prefix ?ds ''-''"
    using show_nat_digits [of "nat \<bar>v\<bar>"] is_digit_not_sign by (cases ?ds) (auto simp: has_prefix_iff)
  have G: "groupDigits v = ?sign @ grouped ?ds"
    using minus by (auto simp: groupDigits_def shown group_loop_all has_prefix_iff)
  note d = show_nat_digits [of "nat \<bar>v\<bar>"]
  have "remove_byte CHR '','' (groupDigits v) = show_int v"
    unfolding remove_byte_filter G shown using grouped_digits [OF d] by simp
  moreover obtain g gs where "split_byte CHR '','' (grouped ?ds) = g # gs" "1 \<le> length g" "length g \<le> 3" "\<forall>h \<in> set gs. length h = 3"
    using grouped_groups [OF show_nat_nonempty d] by blast
  moreover from this(1) have "grouped ?ds = str_join '','' (g # gs)" using split_byte_join [of "CHR '',''" "grouped ?ds"] by simp
  ultimately show ?thesis using G parse_int64_show_int [OF assms] by (auto simp: list_all_iff)
qed

theorem group_digits_roundtrip_witness:
  "parse_int64 (remove_byte CHR '','' (groupDigits (- 1234567))) = Some (- 1234567)"
  using group_digits_roundtrip [of "- 1234567"] by (simp add: in_int64_def int64_min_def int64_max_def)

section \<open>The view accounts for every notice\<close>

definition of_category :: "string \<Rightarrow> report_notice list \<Rightarrow> nat" where
  "of_category c ns = length (filter (\<lambda>n. rn_category n = c) ns)"

definition amounts :: "report_notice list \<Rightarrow> int" where
  "amounts ns = sum_list (map rn_amount ns)"

definition view_of :: "render_env \<Rightarrow> report_notice list \<Rightarrow> report_view \<Rightarrow> bool" where
  "view_of R ns v \<longleftrightarrow>
     vw_rows v = map (\<lambda>i. row_entry R i (ns ! i)) [0..<length ns] \<and> vw_notices v = map (notice_entry R) ns \<and>
     vw_construction v = of_category ''construction'' ns \<and> vw_service v = of_category ''service'' ns \<and>
     vw_goods v = of_category ''goods'' ns \<and> vw_foreign v = of_category ''foreign'' ns"

lemma view_of_snoc:
  assumes "view_of R ns v"
  shows "view_of R (ns @ [n]) ((countCategory (rn_category n) v)
    \<lparr>vw_notices := vw_notices (countCategory (rn_category n) v) @ [notice_entry R n],
     vw_rows := vw_rows (countCategory (rn_category n) v) @ [row_entry R (length ns) n]\<rparr>)"
proof -
  have "map (\<lambda>i. row_entry R i ((ns @ [n]) ! i)) [0..<length ns] = map (\<lambda>i. row_entry R i (ns ! i)) [0..<length ns]"
    by (rule map_cong) (auto simp: nth_append)
  with assms show ?thesis by (simp add: view_of_def of_category_def countCategory_def)
qed

lemma vw_total_count [simp]: "vw_total (countCategory c v) = vw_total v"
  by (simp add: countCategory_def)

lemma view_loop_exact:
  assumes "view_of R pre (vs_view st)" "vs_total st = amounts pre" "in_int64 (amounts pre)"
    "\<forall>n \<in> set ns. in_int64 (rn_amount n)"
  shows "case view_loop R (length pre) ns st of
      Inl e \<Rightarrow> \<exists>k \<le> length ns. \<not> in_int64 (amounts (pre @ take k ns))
    | Inr st' \<Rightarrow> view_of R (pre @ ns) (vs_view st') \<and> vw_total (vs_view st') = vw_total (vs_view st) \<and>
        vs_total st' = amounts (pre @ ns) \<and> (\<forall>k \<le> length ns. in_int64 (amounts (pre @ take k ns)))"
  using assms
proof (induction ns arbitrary: pre st)
  case (Cons n ns)
  have a: "in_int64 (rn_amount n)" using Cons.prems(4) by simp
  have snoc: "amounts (pre @ [n]) = vs_total st + rn_amount n" using Cons.prems(2) by (simp add: amounts_def)
  have exact: "addAmountTotal (vs_total st) (rn_amount n) = Inr s \<longleftrightarrow> in_int64 (amounts (pre @ [n])) \<and> s = amounts (pre @ [n])" for s
    using addAmountTotal_exact [of "vs_total st" "rn_amount n" s] a Cons.prems(2,3) snoc by simp
  show ?case
  proof (cases "in_int64 (amounts (pre @ [n]))")
    case False
    then have "\<exists>e. addAmountTotal (vs_total st) (rn_amount n) = Inl e"
      using exact by (cases "addAmountTotal (vs_total st) (rn_amount n)") auto
    then obtain e where "view_loop R (length pre) (n # ns) st = Inl e" by (auto simp: view_step_def)
    with False show ?thesis by (auto intro!: exI [of _ 1])
  next
    case True
    then have add: "addAmountTotal (vs_total st) (rn_amount n) = Inr (amounts (pre @ [n]))" using exact by simp
    have "\<exists>st'. view_step R (length pre) n st = Inr st' \<and> view_of R (pre @ [n]) (vs_view st') \<and>
        vs_total st' = amounts (pre @ [n]) \<and> vw_total (vs_view st') = vw_total (vs_view st)"
      using view_of_snoc [OF Cons.prems(1), of n] by (simp add: view_step_def add Let_def)
    then obtain st' where step: "view_step R (length pre) n st = Inr st'" and
      st': "view_of R (pre @ [n]) (vs_view st')" "vs_total st' = amounts (pre @ [n])" "vw_total (vs_view st') = vw_total (vs_view st)"
      by blast
    have "(\<exists>k \<le> length ns. \<not> in_int64 (amounts ((pre @ [n]) @ take k ns))) \<longrightarrow>
        (\<exists>k \<le> length (n # ns). \<not> in_int64 (amounts (pre @ take k (n # ns))))"
      by (metis Suc_le_mono append.assoc append_Cons append_Nil length_Cons take_Suc_Cons)
    moreover have "\<forall>k \<le> length ns. in_int64 (amounts ((pre @ [n]) @ take k ns)) \<Longrightarrow>
        \<forall>k \<le> length (n # ns). in_int64 (amounts (pre @ take k (n # ns)))"
      using Cons.prems(3) by (auto simp: take_Cons split: nat.split)
    ultimately show ?thesis
      using Cons.IH [of "pre @ [n]" st'] st' True Cons.prems(4) step by (auto split: sum.splits)
  qed
qed (simp add: amounts_def)

text \<open>
  A report shows every notice of the document: one card and one table row for each, numbered from
  one in order, the counts per category exact and the total the exact sum of the amounts; it is
  refused exactly when some running sum leaves the 64-bit range.
\<close>

theorem report_view_exact:
  assumes "\<forall>n \<in> set (rd_notices doc). in_int64 (rn_amount n)"
  shows "case report_view_of R doc of
      Inl e \<Rightarrow> \<exists>k \<le> length (rd_notices doc). \<not> in_int64 (amounts (take k (rd_notices doc)))
    | Inr v \<Rightarrow> view_of R (rd_notices doc) v \<and> vw_total v = length (rd_notices doc) \<and>
        vw_amount_total v = formatTableAmount (amounts (rd_notices doc)) \<and>
        (\<forall>k \<le> length (rd_notices doc). in_int64 (amounts (take k (rd_notices doc))))"
proof -
  let ?st = "\<lparr>vs_view = empty_view R doc, vs_total = 0, vs_kinds = [], vs_keywords = [], vs_filters = []\<rparr>"
  have "view_of R [] (vs_view ?st)" "vs_total ?st = amounts []" "in_int64 (amounts [])"
    by (simp_all add: view_of_def empty_view_def of_category_def amounts_def in_int64_def int64_min_def int64_max_def)
  from view_loop_exact [OF this assms] show ?thesis
    by (simp add: report_view_of_def view_of_def empty_view_def split: sum.splits)
qed

definition sample_document :: report_document where
  "sample_document =
     \<lparr>rd_tenant_name = ''one'', rd_schedule_name = ''daily'', rd_trigger = ''manual'', rd_due = day_ns, rd_end = day_ns,
      rd_start = None, rd_notices = [\<lparr>rn_id = ''n1'', rn_title = ''road'', rn_category = ''construction'', rn_agency = [],
        rn_region = [], rn_url = [], rn_source_kind = [], rn_keywords = [], rn_amount = int64_max, rn_deadline = 0,
        rn_posted = 0, rn_collected = 0, rn_recorded = 0, rn_matches = []\<rparr>]\<rparr>"

definition plain_render :: render_env where
  "plain_render = \<lparr>re_url_parse = (\<lambda>_. None), re_offset = 0, re_zone = ''UTC'', re_execute = (\<lambda>v. Inr (vw_amount_total v))\<rparr>"

theorem report_view_exact_witness:
  "\<exists>v. report_view_of plain_render sample_document = Inr v \<and> vw_total v = 1 \<and>
     vw_amount_total v = formatTableAmount int64_max"
proof -
  have h: "\<forall>n \<in> set (rd_notices sample_document). in_int64 (rn_amount n)"
    by (simp add: sample_document_def in_int64_def int64_min_def int64_max_def)
  have len: "length (rd_notices sample_document) = 1" and all: "amounts (rd_notices sample_document) = int64_max"
    by (simp_all add: sample_document_def amounts_def)
  have "in_int64 (amounts (take k (rd_notices sample_document)))" for k
    by (cases k) (simp_all add: sample_document_def amounts_def in_int64_def int64_min_def int64_max_def)
  then show ?thesis using report_view_exact [OF h, of plain_render]
    by (cases "report_view_of plain_render sample_document") (simp_all add: len all)
qed

end
