(* ===== verification/Report_Runner.thy ===== *)
theory Report_Runner
  imports Render Report_Lease Run_Records
begin

text \<open>
  internal/app/report_runner.go and internal/app/report_job.go: one run over the due reports, a
  manual report and a manual retry, each report in at most three rounds. The repository, the file
  writer, the clock and the context act on an environment state \<open>'s\<close>; \<open>rx_publish\<close> is the file
  write inside \<open>WithReportClaim\<close>.
\<close>

section \<open>The environment\<close>

record 's report_env =
  rx_ready :: bool
  rx_due :: "time \<Rightarrow> 's \<Rightarrow> report_work list res \<times> 's"
  rx_manual :: "string \<Rightarrow> time \<Rightarrow> 's \<Rightarrow> report_work option res \<times> 's"
  rx_retry :: "string \<Rightarrow> string \<Rightarrow> time \<Rightarrow> 's \<Rightarrow> report_work option res \<times> 's"
  rx_reclaim :: "string \<Rightarrow> string \<Rightarrow> 's \<Rightarrow> report_work option res \<times> 's"
  rx_publish :: "report_work \<Rightarrow> string \<Rightarrow> string \<Rightarrow> 's \<Rightarrow> file_result res \<times> 's"
  rx_finalize :: "report_work \<Rightarrow> report_artifact \<Rightarrow> time \<Rightarrow> 's \<Rightarrow> goerr option \<times> 's"
  rx_failure :: "report_work \<Rightarrow> goerr \<Rightarrow> 's \<Rightarrow> goerr option \<times> 's"
  rx_ctx_err :: "'s \<Rightarrow> goerr option"
  rx_now :: "'s \<Rightarrow> time"
  rx_render :: render_env

definition missing_dependencies :: goerr where
  "missing_dependencies = ErrText ''report dependencies are required''"

section \<open>One report\<close>

definition document_of :: "report_work \<Rightarrow> report_document" where
  "document_of w =
     \<lparr>rd_tenant_name = rw_tenant_name w, rd_schedule_name = rw_schedule_name w, rd_trigger = rw_trigger w,
      rd_due = rw_due w, rd_end = rw_end w, rd_start = rw_start w, rd_notices = rw_notices w\<rparr>"

text \<open>Render, publish under the claim, finalize: \<open>None\<close> when all of it succeeded.\<close>

definition create_report :: "'s report_env \<Rightarrow> report_work \<Rightarrow> string \<Rightarrow> 's \<Rightarrow> goerr option \<times> 's" where
  "create_report X w relativePath s =
     (case BuildReportHTML (rx_render X) (document_of w) of
        Inl e \<Rightarrow> (Some (ErrWrap ''create report'' e), s)
      | Inr body \<Rightarrow>
         (case rx_publish X w relativePath body s of
            (Inl e, s1) \<Rightarrow> (Some (ErrWrap ''create report'' e), s1)
          | (Inr r, s1) \<Rightarrow>
              if Clean (fr_path r) \<noteq> Clean relativePath \<or> trim_space (fr_sha r) = [] then
                (Some (ErrWrap ''create report'' (ErrText ''report writer returned an invalid artifact'')), s1)
              else
                (case rx_finalize X w \<lparr>ra_path = relativePath, ra_sha = fr_sha r, ra_count = int (length (rw_notices w))\<rparr>
                        (rx_now X s1) s1 of
                   (Some e, s2) \<Rightarrow> (Some (ErrWrap ''finalize report'' e), s2)
                 | (None, s2) \<Rightarrow> (None, s2))))"

definition invalid_report_attempt :: "report_work \<Rightarrow> goerr" where
  "invalid_report_attempt w =
     ErrText (''report '' @ rw_report w @ '' has invalid attempt '' @ show_int (rw_attempts w))"

text \<open>After a failed round: record the failure and take the report again.\<close>

definition after_failure ::
  "'s report_env \<Rightarrow> report_work \<Rightarrow> report_outcome \<Rightarrow> goerr \<Rightarrow> 's \<Rightarrow> ((report_outcome \<times> goerr option) + report_work) \<times> 's" where
  "after_failure X w out operationErr s =
     (case rx_failure X w operationErr s of (failureErr, s1) \<Rightarrow>
        let e = join_error operationErr failureErr
        in case rx_ctx_err X s1 of
             Some c \<Rightarrow> (Inl (out, errors_join [Some e, Some c]), s1)
           | None \<Rightarrow>
               if rw_attempts w = 3 then (Inl (out, Some e), s1)
               else (case rx_reclaim X (rw_tenant w) (rw_report w) s1 of
                  (Inl r, s2) \<Rightarrow> (Inl (out, errors_join [Some e, Some (ErrWrap ''reclaim report'' r)]), s2)
                | (Inr None, s2) \<Rightarrow> (Inl (out, Some e), s2)
                | (Inr (Some next), s2) \<Rightarrow> (Inr next, s2)))"

text \<open>One round of \<open>runClaimed\<close>: it returns (\<open>Inl\<close>) or goes on with the work it claimed again.\<close>

definition claimed_round ::
  "'s report_env \<Rightarrow> report_work \<Rightarrow> report_outcome \<Rightarrow> 's \<Rightarrow>
   ((report_outcome \<times> goerr option) + report_work \<times> report_outcome) \<times> 's" where
  "claimed_round X w out s =
     (case rx_ctx_err X s of
        Some e \<Rightarrow> (Inl (out, Some e), s)
      | None \<Rightarrow>
          if rw_attempts w < 1 \<or> 3 < rw_attempts w then (Inl (out, Some (invalid_report_attempt w)), s)
          else (case reportRelativePath w of
             Inl e \<Rightarrow> (Inl (out, Some e), s)
           | Inr p \<Rightarrow>
              (let w' = w\<lparr>rw_path := p\<rparr>; out' = out\<lparr>ro_path := p\<rparr>
               in case create_report X w' p s of
                    (None, s1) \<Rightarrow> (Inl (out'\<lparr>ro_created := True\<rparr>, None), s1)
                  | (Some operationErr, s1) \<Rightarrow>
                      (case after_failure X w' out' operationErr s1 of
                         (Inl r, s2) \<Rightarrow> (Inl r, s2)
                       | (Inr next, s2) \<Rightarrow> (Inr (next, out'), s2)))))"

partial_function (option) runClaimed_loop ::
  "'s report_env \<Rightarrow> report_work \<Rightarrow> report_outcome \<Rightarrow> 's \<Rightarrow> ((report_outcome \<times> goerr option) \<times> 's) option" where
  [code]: "runClaimed_loop X w out s =
     (case claimed_round X w out s of
        (Inl r, s1) \<Rightarrow> Some (r, s1)
      | (Inr (next, out1), s1) \<Rightarrow> runClaimed_loop X next out1 s1)"

definition runClaimed :: "'s report_env \<Rightarrow> report_work \<Rightarrow> 's \<Rightarrow> ((report_outcome \<times> goerr option) \<times> 's) option" where
  "runClaimed X w s =
     runClaimed_loop X w
       \<lparr>ro_id = rw_report w, ro_path = [], ro_created = False, ro_count = int (length (rw_notices w))\<rparr> s"

section \<open>The runner\<close>

definition empty_outcome :: report_outcome where
  "empty_outcome = \<lparr>ro_id = [], ro_path = [], ro_created = False, ro_count = 0\<rparr>"

definition run_claim ::
  "'s report_env \<Rightarrow> string \<Rightarrow> report_outcome \<Rightarrow> report_work option res \<times> 's \<Rightarrow> ((report_outcome \<times> goerr option) \<times> 's) option" where
  "run_claim X msg none claim =
     (case claim of
        (Inl e, s1) \<Rightarrow> Some ((empty_outcome, Some (ErrWrap msg e)), s1)
      | (Inr None, s1) \<Rightarrow> Some ((none, None), s1)
      | (Inr (Some w), s1) \<Rightarrow> runClaimed X w s1)"

definition RunManual :: "'s report_env \<Rightarrow> string \<Rightarrow> 's \<Rightarrow> ((report_outcome \<times> goerr option) \<times> 's) option" where
  "RunManual X tenantID s =
     (if \<not> rx_ready X then Some ((empty_outcome, Some missing_dependencies), s)
      else run_claim X ''claim manual report'' empty_outcome (rx_manual X tenantID (rx_now X s) s))"

definition Retry :: "'s report_env \<Rightarrow> string \<Rightarrow> string \<Rightarrow> 's \<Rightarrow> ((report_outcome \<times> goerr option) \<times> 's) option" where
  "Retry X tenantID reportID s =
     (if \<not> rx_ready X then Some ((empty_outcome, Some missing_dependencies), s)
      else run_claim X ''claim report retry'' (empty_outcome\<lparr>ro_id := reportID\<rparr>)
             (rx_retry X tenantID reportID (rx_now X s) s))"

record report_result =
  rt_generated :: int
  rt_failed :: int
  rt_skipped :: int
  rt_tenants :: "tenant_tally list"

definition empty_report_result :: report_result where
  "empty_report_result = \<lparr>rt_generated = 0, rt_failed = 0, rt_skipped = 0, rt_tenants = []\<rparr>"

definition outcome_of :: "goerr option \<Rightarrow> item_outcome" where
  "outcome_of err = (case err of None \<Rightarrow> ItemDone | Some e \<Rightarrow> ItemFailed e)"

definition count_report :: "string \<Rightarrow> goerr option \<Rightarrow> report_result \<Rightarrow> report_result" where
  "count_report tenantID err r =
     (case err of
        None \<Rightarrow> r\<lparr>rt_generated := rt_generated r + 1, rt_tenants := tally_add tenantID (outcome_of err) (rt_tenants r)\<rparr>
      | Some e \<Rightarrow> r\<lparr>rt_failed := rt_failed r + 1, rt_tenants := tally_add tenantID (outcome_of err) (rt_tenants r)\<rparr>)"

fun run_reports :: "'s report_env \<Rightarrow> report_work list \<Rightarrow> report_result \<Rightarrow> 's \<Rightarrow> (report_result \<times> 's) option" where
  "run_reports X [] r s = Some (r, s)"
| "run_reports X (w # ws) r s =
     (case runClaimed X w s of
        None \<Rightarrow> None
      | Some ((out, err), s1) \<Rightarrow> run_reports X ws (count_report (rw_tenant w) err r) s1)"

definition join_tenants :: "tenant_tally list \<Rightarrow> goerr option" where
  "join_tenants tys = foldl (\<lambda>err ty. errors_join [err, ty_err ty]) None tys"

definition RunReports :: "'s report_env \<Rightarrow> 's \<Rightarrow> ((report_result \<times> goerr option) \<times> 's) option" where
  "RunReports X s =
     (if \<not> rx_ready X then Some ((empty_report_result, Some missing_dependencies), s)
      else case rx_due X (rx_now X s) s of
        (Inl e, s1) \<Rightarrow> Some ((empty_report_result, Some (ErrWrap ''claim due reports'' e)), s1)
      | (Inr ws, s1) \<Rightarrow>
         (case run_reports X ws empty_report_result s1 of
            None \<Rightarrow> None
          | Some (r, s2) \<Rightarrow> Some ((r, join_tenants (rt_tenants r)), s2)))"

section \<open>The scheduled job\<close>

definition idle_record :: "time \<Rightarrow> time \<Rightarrow> bool \<Rightarrow> goerr option \<Rightarrow> string \<Rightarrow> run_record" where
  "idle_record startedAt finishedAt no_tenants runErr tenantID =
     (if runErr \<noteq> None \<and> no_tenants
      then \<lparr>rr_tenant = tenantID, rr_status = ''failed'', rr_started = startedAt, rr_finished = finishedAt,
            rr_done = 0, rr_failed = 1, rr_skipped = 0, rr_err = runErr\<rparr>
      else \<lparr>rr_tenant = tenantID, rr_status = ''succeeded'', rr_started = startedAt, rr_finished = finishedAt,
            rr_done = 0, rr_failed = 0, rr_skipped = 1, rr_err = None\<rparr>)"

text \<open>The records in the order they are written: the tenants of the run, then every other tenant,
  each once.\<close>

fun other_tenants :: "string list \<Rightarrow> string list \<Rightarrow> string list" where
  "other_tenants [] seen = []"
| "other_tenants (t # ts) seen = (if t \<in> set seen then other_tenants ts seen else t # other_tenants ts (t # seen))"

definition report_records :: "time \<Rightarrow> time \<Rightarrow> report_result \<Rightarrow> goerr option \<Rightarrow> string list \<Rightarrow> run_record list" where
  "report_records startedAt finishedAt result runErr tenantIDs =
     map (tally_record startedAt finishedAt) (rt_tenants result) @
     map (idle_record startedAt finishedAt (rt_tenants result = []) runErr)
       (other_tenants tenantIDs (map ty_tenant (rt_tenants result)))"

definition runScheduledReport ::
  "'s report_env \<Rightarrow> 's run_journal option \<Rightarrow> ('s \<Rightarrow> time) \<Rightarrow> time \<Rightarrow> 's \<Rightarrow> (goerr option \<times> 's) option" where
  "runScheduledReport X journal clk startedAt s =
     (case journal of
        None \<Rightarrow> Some (Some (ErrText ''report run journal is required''), s)
      | Some J \<Rightarrow>
         (case RunReports X s of
            None \<Rightarrow> None
          | Some ((result, runErr), s1) \<Rightarrow>
             (let finishedAt = (if clk s1 < startedAt then startedAt else clk s1)
              in case rj_tenants J s1 of
                   (Inl e, s2) \<Rightarrow> Some (errors_join [runErr, Some e], s2)
                 | (Inr tenantIDs, s2) \<Rightarrow>
                    (case journal_records J (report_records startedAt finishedAt result runErr tenantIDs) None s2 of
                       (journalErr, s3) \<Rightarrow> Some (errors_join [runErr, journalErr], s3)))))"

end
