(* ===== verification/Report_Run_Laws.thy ===== *)
theory Report_Run_Laws
  imports Report_Runner
begin

text \<open>
  The report runner over a repository and a file store: the contract it relies on, the proof that a
  claimed report is finished in a bounded number of rounds, and the interpretation of the contract on
  the tables of \<open>Report_Claim\<close> and the files of \<open>File_Store\<close>.
\<close>

section \<open>The contract\<close>

lemma is_failed_simps [simp]: "is_failed (ItemFailed e)" "\<not> is_failed ItemDone" "\<not> is_failed ItemSkipped"
  by (simp_all add: is_failed_def)

text \<open>The loop over a claimed report, cut off after a number of rounds.\<close>

fun claimed_rounds ::
  "nat \<Rightarrow> 's report_env \<Rightarrow> report_work \<Rightarrow> report_outcome \<Rightarrow> 's \<Rightarrow> ((report_outcome \<times> goerr option) \<times> 's) option" where
  "claimed_rounds 0 X w out s = None"
| "claimed_rounds (Suc n) X w out s =
     (case claimed_round X w out s of
        (Inl r, s1) \<Rightarrow> Some (r, s1)
      | (Inr (next, out1), s1) \<Rightarrow> claimed_rounds n X next out1 s1)"

definition start_outcome :: "report_work \<Rightarrow> report_outcome" where
  "start_outcome w = \<lparr>ro_id = rw_report w, ro_path = [], ro_created = False, ro_count = int (length (rw_notices w))\<rparr>"

locale report_service =
  fixes X :: "'s report_env"
    and inv :: "'s \<Rightarrow> bool"
    and attempts :: "'s \<Rightarrow> string \<Rightarrow> int"
    and good :: "string \<Rightarrow> string \<Rightarrow> bool"
    and published :: "string \<Rightarrow> string \<Rightarrow> file_result \<Rightarrow> 's \<Rightarrow> bool"
    and generated :: "report_work \<Rightarrow> report_artifact \<Rightarrow> 's \<Rightarrow> bool"
  assumes publish_inv: "inv s \<Longrightarrow> inv (snd (rx_publish X w p b s)) \<and> attempts s i \<le> attempts (snd (rx_publish X w p b s)) i"
    and finalize_inv: "inv s \<Longrightarrow> inv (snd (rx_finalize X w a t s)) \<and> attempts s i \<le> attempts (snd (rx_finalize X w a t s)) i"
    and failure_inv: "inv s \<Longrightarrow> inv (snd (rx_failure X w e s)) \<and> attempts s i \<le> attempts (snd (rx_failure X w e s)) i"
    and reclaim_inv: "inv s \<Longrightarrow> inv (snd (rx_reclaim X te k s)) \<and> attempts s i \<le> attempts (snd (rx_reclaim X te k s)) i"
    and reclaim_counts: "inv s \<Longrightarrow> rx_reclaim X te k s = (Inr (Some w), s') \<Longrightarrow>
        rw_attempts w = attempts s k + 1 \<and> rw_attempts w \<le> 3 \<and> attempts s' k = rw_attempts w \<and>
        rw_tenant w = te \<and> rw_report w = k"
    and publish_ok: "inv s \<Longrightarrow> good (rw_tenant w) (rw_report w) \<Longrightarrow> reportRelativePath w = Inr p \<Longrightarrow>
        rx_publish X (w\<lparr>rw_path := p\<rparr>) p b s = (Inr r, s') \<Longrightarrow> published p b r s'"
    and finalize_ok: "inv s \<Longrightarrow> rx_finalize X w a t s = (None, s') \<Longrightarrow> generated w a s'"
    and finalize_files: "published p b r s \<Longrightarrow> published p b r (snd (rx_finalize X w a t s))"
begin

text \<open>A created report: its row is generated for the file that holds the rendered body.\<close>

definition delivered :: "string \<Rightarrow> string \<Rightarrow> report_outcome \<Rightarrow> 's \<Rightarrow> bool" where
  "delivered te k out s \<longleftrightarrow>
     (\<exists>w body r. rw_tenant w = te \<and> rw_report w = k \<and> BuildReportHTML (rx_render X) (document_of w) = Inr body \<and>
        published (ro_path out) body r s \<and>
        generated w \<lparr>ra_path = ro_path out, ra_sha = fr_sha r, ra_count = int (length (rw_notices w))\<rparr> s)"

lemma create_report_ok:
  assumes "inv s" "good (rw_tenant w) (rw_report w)" "reportRelativePath w = Inr p"
    and run: "create_report X (w\<lparr>rw_path := p\<rparr>) p s = (None, s')" and out: "ro_path out = p"
  shows "delivered (rw_tenant w) (rw_report w) out s'"
proof -
  let ?w = "w\<lparr>rw_path := p\<rparr>"
  from run obtain body r s1 where body: "BuildReportHTML (rx_render X) (document_of ?w) = Inr body"
    and pub: "rx_publish X ?w p body s = (Inr r, s1)"
    and fin: "rx_finalize X ?w \<lparr>ra_path = p, ra_sha = fr_sha r, ra_count = int (length (rw_notices ?w))\<rparr> (rx_now X s1) s1 = (None, s')"
    by (auto simp: create_report_def split: sum.splits prod.splits option.splits if_splits)
  have "published p body r s1" by (rule publish_ok [OF assms(1-3) pub])
  from finalize_files [OF this, of ?w] fin have "published p body r s'" by (metis snd_conv)
  moreover have "inv s1" using publish_inv [OF assms(1), of ?w p body] pub by simp
  ultimately show ?thesis
    using finalize_ok [OF _ fin] body out unfolding delivered_def by (intro exI [of _ ?w]) auto
qed

lemma create_report_inv:
  assumes "inv s"
  shows "inv (snd (create_report X w p s)) \<and> attempts s i \<le> attempts (snd (create_report X w p s)) i"
proof (cases "BuildReportHTML (rx_render X) (document_of w)")
  case (Inr body)
  obtain x s1 where pub: "rx_publish X w p body s = (x, s1)" by fastforce
  have s1: "inv s1" "attempts s i \<le> attempts s1 i" using publish_inv [OF assms, of w p body i] pub by auto
  obtain y s2 where fin: "\<And>r. x = Inr r \<Longrightarrow> rx_finalize X w \<lparr>ra_path = p, ra_sha = fr_sha r, ra_count = int (length (rw_notices w))\<rparr> (rx_now X s1) s1 = (y, s2)"
    by (cases x) (auto simp: prod_eq_iff)
  have "inv s2 \<and> attempts s i \<le> attempts s2 i" if "x = Inr r" for r
    using finalize_inv [OF s1(1), of w _ "rx_now X s1" i] fin [OF that] s1(2) by (metis order_trans snd_conv)
  with s1 assms pub fin Inr show ?thesis
    by (cases x; cases y) (auto simp: create_report_def)
qed (use assms in \<open>simp add: create_report_def\<close>)

lemma after_failure_inv:
  assumes "inv s"
  shows "inv (snd (after_failure X w out e s)) \<and> attempts s i \<le> attempts (snd (after_failure X w out e s)) i"
proof -
  obtain f s1 where fail: "rx_failure X w e s = (f, s1)" by fastforce
  obtain r s2 where again: "rx_reclaim X (rw_tenant w) (rw_report w) s1 = (r, s2)" by fastforce
  have s1: "inv s1" "attempts s i \<le> attempts s1 i" using failure_inv [OF assms, of w e i] fail by auto
  have s2: "inv s2" "attempts s i \<le> attempts s2 i"
    using reclaim_inv [OF s1(1), of "rw_tenant w" "rw_report w" i] again s1(2) by auto
  from s1 s2 fail again show ?thesis
    by (auto simp: after_failure_def Let_def split: option.splits sum.splits)
qed

lemma after_failure_next:
  assumes "inv s" "after_failure X w out e s = (Inr next, s')" "rw_attempts w \<le> attempts s (rw_report w)"
  shows "rw_attempts w < rw_attempts next \<and> rw_attempts next \<le> 3 \<and> rw_attempts next \<le> attempts s' (rw_report next) \<and>
    rw_tenant next = rw_tenant w \<and> rw_report next = rw_report w"
proof -
  obtain f s1 where fail: "rx_failure X w e s = (f, s1)" by fastforce
  have s1: "inv s1" "attempts s (rw_report w) \<le> attempts s1 (rw_report w)"
    using failure_inv [OF assms(1), of w e "rw_report w"] fail by auto
  have "rx_reclaim X (rw_tenant w) (rw_report w) s1 = (Inr (Some next), s')"
    using assms(2) fail by (auto simp: after_failure_def Let_def split: option.splits sum.splits prod.splits if_splits)
  from reclaim_counts [OF s1(1) this] assms(3) s1(2) show ?thesis by auto
qed

lemma after_failure_done: "after_failure X w out e s = (Inl (out', err), s') \<Longrightarrow> out' = out \<and> err \<noteq> None"
  by (auto simp: after_failure_def Let_def split: option.splits sum.splits prod.splits if_splits)

lemma round_inv:
  assumes "inv s"
  shows "inv (snd (claimed_round X w out s)) \<and> attempts s i \<le> attempts (snd (claimed_round X w out s)) i"
proof (cases "reportRelativePath w")
  case (Inr p)
  let ?w = "w\<lparr>rw_path := p\<rparr>" and ?out = "out\<lparr>ro_path := p\<rparr>"
  obtain e s1 where c: "create_report X ?w p s = (e, s1)" by fastforce
  have s1: "inv s1" "attempts s i \<le> attempts s1 i" using create_report_inv [OF assms, of ?w p i] c by auto
  obtain r s2 where a: "after_failure X ?w ?out (the e) s1 = (r, s2)" by fastforce
  have s2: "inv s2" "attempts s i \<le> attempts s2 i"
    using after_failure_inv [OF s1(1), of ?w ?out "the e" i] a s1(2) by auto
  show ?thesis
    using assms c a s1 s2 Inr
    by (cases e; cases r) (auto simp: claimed_round_def Let_def split: option.splits)
qed (use assms in \<open>simp add: claimed_round_def split: option.splits\<close>)

lemma round_done:
  assumes "inv s" "good (rw_tenant w) (rw_report w)" "\<not> ro_created out"
    and "claimed_round X w out s = (Inl (out', err), s')"
  shows "(err = None \<longleftrightarrow> ro_created out') \<and> (err = None \<longrightarrow> delivered (rw_tenant w) (rw_report w) out' s')"
proof (cases "rx_ctx_err X s = None \<and> \<not> (rw_attempts w < 1 \<or> 3 < rw_attempts w) \<and> (\<exists>p. reportRelativePath w = Inr p)")
  case True
  then obtain p where p: "reportRelativePath w = Inr p" by blast
  obtain e s1 where c: "create_report X (w\<lparr>rw_path := p\<rparr>) p s = (e, s1)" by fastforce
  show ?thesis
  proof (cases e)
    case None
    with True p c assms(4) have r: "out' = out\<lparr>ro_path := p, ro_created := True\<rparr>" "err = None" "s' = s1"
      by (auto simp: claimed_round_def Let_def)
    with create_report_ok [OF assms(1,2) p, of s1 out'] c None show ?thesis by simp
  next
    case (Some x)
    with True p c assms(4) have "after_failure X (w\<lparr>rw_path := p\<rparr>) (out\<lparr>ro_path := p\<rparr>) x s1 = (Inl (out', err), s')"
      by (auto simp: claimed_round_def Let_def split: sum.splits prod.splits)
    from after_failure_done [OF this] assms(3) show ?thesis by auto
  qed
next
  case False
  with assms(3,4) show ?thesis
  proof (cases "rx_ctx_err X s")
    case None
    with False assms(3,4) show ?thesis by (auto simp: claimed_round_def split: sum.splits if_splits)
  next
    case (Some c)
    then have "claimed_round X w out s = (Inl (out, Some c), s)" by (simp add: claimed_round_def)
    with assms(3,4) show ?thesis by auto
  qed
qed

lemma round_next:
  assumes "inv s" "rw_attempts w \<le> attempts s (rw_report w)" "\<not> ro_created out"
    and "claimed_round X w out s = (Inr (next, out'), s')"
  shows "rw_attempts w < rw_attempts next \<and> rw_attempts next \<le> 3 \<and> rw_attempts next \<le> attempts s' (rw_report next) \<and>
    rw_tenant next = rw_tenant w \<and> rw_report next = rw_report w \<and> \<not> ro_created out'"
proof -
  obtain p where p: "reportRelativePath w = Inr p"
    using assms(4) by (cases "reportRelativePath w") (auto simp: claimed_round_def split: option.splits if_splits)
  obtain e s1 where c: "create_report X (w\<lparr>rw_path := p\<rparr>) p s = (e, s1)" by fastforce
  have s1: "inv s1" "rw_attempts w \<le> attempts s1 (rw_report w)"
    using create_report_inv [OF assms(1), of "w\<lparr>rw_path := p\<rparr>" p "rw_report w"] c assms(2) by auto
  obtain x where e: "e = Some x" using assms(4) p c
    by (cases e) (auto simp: claimed_round_def Let_def split: option.splits if_splits)
  with assms(4) p c have "after_failure X (w\<lparr>rw_path := p\<rparr>) (out\<lparr>ro_path := p\<rparr>) x s1 = (Inr next, s')"
    and "out' = out\<lparr>ro_path := p\<rparr>"
    by (auto simp: claimed_round_def Let_def split: option.splits if_splits sum.splits prod.splits)
  from after_failure_next [OF s1(1) this(1)] s1(2) this(2) assms(3) show ?thesis by auto
qed

lemma loop_returns:
  assumes "inv s" "rw_attempts w \<le> attempts s (rw_report w)" "good (rw_tenant w) (rw_report w)" "\<not> ro_created out"
  shows "\<exists>out' err s'. runClaimed_loop X w out s = Some ((out', err), s') \<and> inv s' \<and> (\<forall>i. attempts s i \<le> attempts s' i) \<and>
    (err = None \<longleftrightarrow> ro_created out') \<and> (err = None \<longrightarrow> delivered (rw_tenant w) (rw_report w) out' s')"
  using assms
proof (induction "nat (3 - rw_attempts w)" arbitrary: w out s rule: less_induct)
  case less
  obtain r s1 where r: "claimed_round X w out s = (r, s1)" by fastforce
  have s1: "inv s1" "\<And>i. attempts s i \<le> attempts s1 i" using round_inv [OF less.prems(1), of w out] r by auto
  show ?case
  proof (cases r)
    case (Inl q)
    obtain out' err where q: "q = (out', err)" by fastforce
    from round_done [OF less.prems(1,3,4)] r Inl q s1 show ?thesis by (simp add: runClaimed_loop.simps)
  next
    case (Inr q)
    obtain nxt out' where q: "q = (nxt, out')" by fastforce
    note n = round_next [OF less.prems(1,2,4), of nxt out' s1]
    have n: "rw_attempts w < rw_attempts nxt" "rw_attempts nxt \<le> 3" "rw_attempts nxt \<le> attempts s1 (rw_report nxt)"
      "rw_tenant nxt = rw_tenant w" "rw_report nxt = rw_report w" "\<not> ro_created out'"
      using n r Inr q by auto
    have "nat (3 - rw_attempts nxt) < nat (3 - rw_attempts w)" using n(1,2) by linarith
    from less.hyps [OF this s1(1) n(3) _ n(6)] less.prems(3) n(4,5) obtain out2 err s2 where
      rest: "runClaimed_loop X nxt out' s1 = Some ((out2, err), s2)" "inv s2" "\<forall>i. attempts s1 i \<le> attempts s2 i"
        "err = None \<longleftrightarrow> ro_created out2" "err = None \<longrightarrow> delivered (rw_tenant w) (rw_report w) out2 s2" by auto
    have "runClaimed_loop X w out s = Some ((out2, err), s2)"
      using r Inr q rest(1) by (subst runClaimed_loop.simps) simp
    moreover have "\<forall>i. attempts s i \<le> attempts s2 i" using s1(2) rest(3) order_trans by blast
    ultimately show ?thesis using rest(2,4,5) by blast
  qed
qed

text \<open>Every round takes up one of the attempts that are left.\<close>

lemma loop_rounds:
  assumes "inv s" "rw_attempts w \<le> attempts s (rw_report w)" "\<not> ro_created out" "rw_attempts w \<le> 3" "4 \<le> rw_attempts w + int n"
  shows "claimed_rounds n X w out s \<noteq> None \<and> runClaimed_loop X w out s = claimed_rounds n X w out s"
  using assms
proof (induction n arbitrary: w out s)
  case (Suc n)
  obtain r s1 where r: "claimed_round X w out s = (r, s1)" by fastforce
  show ?case
  proof (cases r)
    case (Inl q)
    with r show ?thesis by (simp add: runClaimed_loop.simps [of X w])
  next
    case (Inr q)
    obtain nxt out' where q: "q = (nxt, out')" by fastforce
    have n: "rw_attempts w < rw_attempts nxt" "rw_attempts nxt \<le> 3" "rw_attempts nxt \<le> attempts s1 (rw_report nxt)" "\<not> ro_created out'"
      using round_next [OF Suc.prems(1-3), of nxt out' s1] r Inr q by auto
    have "inv s1" using round_inv [OF Suc.prems(1), of w out] r by simp
    from Suc.IH [OF this n(3,4,2)] n(1) Suc.prems(5) show ?thesis
      using r Inr q by (simp add: runClaimed_loop.simps [of X w])
  qed
qed simp

lemma claimed_returns:
  assumes "inv s" "rw_attempts w \<le> attempts s (rw_report w)" "good (rw_tenant w) (rw_report w)"
  shows "\<exists>out err s'. runClaimed X w s = Some ((out, err), s') \<and> inv s' \<and> (\<forall>i. attempts s i \<le> attempts s' i) \<and>
    (err = None \<longleftrightarrow> ro_created out) \<and> (err = None \<longrightarrow> delivered (rw_tenant w) (rw_report w) out s')"
  unfolding runClaimed_def by (rule loop_returns [OF assms]) simp

text \<open>A whole run: every work item is counted once, as generated or as failed.\<close>

definition accounts :: "string list \<Rightarrow> report_result \<Rightarrow> bool" where
  "accounts ts r \<longleftrightarrow>
     (\<exists>log. map fst log = ts \<and> tally_of log (rt_tenants r) \<and>
        rt_generated r = int (length (filter (\<lambda>(t, o'). o' = ItemDone) log)) \<and>
        rt_failed r = int (length (filter (\<lambda>(t, o'). is_failed o') log)) \<and> rt_skipped r = 0 \<and>
        list_all (\<lambda>(t, o'). o' = ItemDone \<or> is_failed o') log)"

lemma accounts_snoc: "accounts ts r \<Longrightarrow> accounts (ts @ [t]) (count_report t err r)"
proof -
  assume "accounts ts r"
  then obtain log where log: "map fst log = ts" "tally_of log (rt_tenants r)"
    "rt_generated r = int (length (filter (\<lambda>(t, o'). o' = ItemDone) log))"
    "rt_failed r = int (length (filter (\<lambda>(t, o'). is_failed o') log))" "rt_skipped r = 0"
    "list_all (\<lambda>(t, o'). o' = ItemDone \<or> is_failed o') log"
    unfolding accounts_def by blast
  from tally_of_snoc [OF log(2), of t "outcome_of err"] log show ?thesis
    unfolding accounts_def
    by (intro exI [of _ "log @ [(t, outcome_of err)]"])
       (auto simp: count_report_def outcome_of_def split: option.splits)
qed

lemma run_reports_returns:
  assumes "inv s" "\<forall>w \<in> set ws. rw_attempts w \<le> attempts s (rw_report w) \<and> good (rw_tenant w) (rw_report w)"
    "accounts ts r"
  shows "\<exists>r' s'. run_reports X ws r s = Some (r', s') \<and> inv s' \<and> accounts (ts @ map rw_tenant ws) r'"
  using assms
proof (induction ws arbitrary: ts r s)
  case (Cons w ws)
  obtain out err s1 where c: "runClaimed X w s = Some ((out, err), s1)" "inv s1" "\<forall>i. attempts s i \<le> attempts s1 i"
    using claimed_returns [of s w] Cons.prems(1,2) by auto
  have "\<forall>w \<in> set ws. rw_attempts w \<le> attempts s1 (rw_report w) \<and> good (rw_tenant w) (rw_report w)"
    using Cons.prems(2) c(3) order_trans by fastforce
  from Cons.IH [OF c(2) this accounts_snoc [OF Cons.prems(3), of "rw_tenant w" err]] c(1) show ?case by auto
qed simp

end


section \<open>Publishing under the claim\<close>

lemma str_join_snoc: "suffix x (str_join sep (xs @ [x]))"
proof (induction sep xs rule: str_join.induct)
  case (3 sep x y zs)
  then show ?case by (auto simp: suffix_def)
qed (auto simp: suffix_def)

lemma Clean_last:
  assumes "x \<noteq> [] \<and> x \<noteq> ''.'' \<and> x \<noteq> ''..''" "slash \<notin> set x"
  shows "suffix x (Clean (a @ slash # x))" "suffix x (Clean x)"
proof -
  let ?q = "a @ slash # x"
  define cs where "cs = foldl (clean_step (IsAbs ?q)) [] (components a)"
  have "components ?q = components a @ [x]"
    using split_byte_snoc_group [OF assms(2)] by (simp add: components_def)
  then have "foldl (clean_step (IsAbs ?q)) [] (components ?q) = cs @ [x]" using assms(1) by (simp add: cs_def)
  then have "Clean ?q = (if IsAbs ?q then ''/'' @ str_join ''/'' (cs @ [x]) else str_join ''/'' (cs @ [x]))"
    by (cases "IsAbs ?q") (simp_all add: Clean_def Let_def)
  moreover have "suffix x (''/'' @ str_join ''/'' (cs @ [x]))" using str_join_snoc by (rule suffix_appendI)
  ultimately show "suffix x (Clean ?q)" using str_join_snoc [of x "''/''" cs] by simp
  have "components x = [x]" using assms(2) by (simp add: components_def split_byte_single)
  moreover have "\<not> IsAbs x" using assms by (cases x) (auto simp: IsAbs_components)
  ultimately show "suffix x (Clean x)" using assms(1) by (simp add: Clean_def Let_def)
qed

lemma temp_path_suffix: "slash \<notin> set r \<Longrightarrow> suffix ''.tmp'' (temp_path parent r)"
proof -
  assume r: "slash \<notin> set r"
  let ?x = "''.report-'' @ r @ ''.tmp''"
  have x: "?x \<noteq> [] \<and> ?x \<noteq> ''.'' \<and> ?x \<noteq> ''..''" "slash \<notin> set ?x" using r by auto
  have "suffix ?x (temp_path parent r)"
    using Clean_last(1) [OF x, of parent] Clean_last(2) [OF x] by (simp add: temp_path_def Join_def)
  moreover have "suffix ''.tmp'' ?x" by (simp add: suffix_def)
  ultimately show ?thesis by (rule suffix_order.trans [rotated])
qed

lemma report_path_suffix:
  assumes "reportRelativePath w = Inr p" "CHR 0x00 \<notin> set (rw_report w)"
  shows "suffix ''.html'' p"
proof -
  have "suffix ''.html'' (legacy_name w)" "suffix ''.html'' (file_name w)"
    by (simp_all add: legacy_name_def file_name_def suffix_def Let_def)
  moreover have "suffix (legacy_name w) p \<or> suffix (file_name w) p"
    using reportRelativePath_shape [OF assms] str_join_snoc [of "legacy_name w" "''/''" "month_dir w"]
      str_join_snoc [of "file_name w" "''/''" "month_dir w @ [rw_report w]"] by auto
  ultimately show ?thesis using suffix_order.trans by blast
qed

lemma report_path_not_temp:
  assumes "reportRelativePath w = Inr p" "CHR 0x00 \<notin> set (rw_report w)" "slash \<notin> set r"
  shows "temp_path (Dir p) r \<noteq> p"
proof
  assume "temp_path (Dir p) r = p"
  with temp_path_suffix [OF assms(3), of "Dir p"] have "suffix ''.tmp'' p" by simp
  with report_path_suffix [OF assms(1,2)] show False by (auto simp: suffix_def)
qed

lemma tx_with_Inr:
  "tx_with E L a pre work (d, f) = (Inr x, d', f') \<Longrightarrow> \<exists>b. work b f = (Inr x, f')"
  by (auto simp: tx_with_def split: option.splits if_splits prod.splits sum.splits)


section \<open>The repository and the file store\<close>

text \<open>The environment of the runner: the transactions of \<open>Report_Claim\<close> on the tables, the file
  store of \<open>File_Store\<close> under the claim. What the due and the manual claims return, after their
  wait for the collector, is given.\<close>

definition model_report_env ::
  "dbenv \<Rightarrow> lockenv \<Rightarrow> dbenv \<Rightarrow> lockenv \<Rightarrow> (string \<Rightarrow> string) \<Rightarrow> render_env \<Rightarrow> (nat \<Rightarrow> goerr option) \<Rightarrow>
   (time \<Rightarrow> schema db \<times> fs db \<Rightarrow> report_work list res \<times> schema db \<times> fs db) \<Rightarrow>
   (string \<Rightarrow> time \<Rightarrow> schema db \<times> fs db \<Rightarrow> report_work option res \<times> schema db \<times> fs db) \<Rightarrow>
   (schema db \<times> fs db) report_env" where
  "model_report_env E L EF LF sha R ctx due manual =
     \<lparr>rx_ready = True, rx_due = due, rx_manual = manual,
      rx_retry = (\<lambda>a i now (d, f). case RetryReport E L a i now d of (r, d') \<Rightarrow> (r, d', f)),
      rx_reclaim = (\<lambda>a i (d, f). case ReclaimReport E L a i d of (r, d') \<Rightarrow> (r, d', f)),
      rx_publish = (\<lambda>w p body. WithReportClaim E L w (Write sha EF LF p body)),
      rx_finalize = (\<lambda>w a t (d, f). case FinalizeReport E L w a t d of
         (Inl e, d') \<Rightarrow> (Some e, d', f) | (Inr u, d') \<Rightarrow> (None, d', f)),
      rx_failure = (\<lambda>w e (d, f). case FinalizeReportFailure E L w (Some e) d of
         (Inl x, d') \<Rightarrow> (Some x, d', f) | (Inr u, d') \<Rightarrow> (None, d', f)),
      rx_ctx_err = (\<lambda>(d, f). ctx (tick d)), rx_now = (\<lambda>(d, f). clock_at E (tick d)), rx_render = R\<rparr>"

text \<open>An id without a NUL byte, such as a UUID.\<close>

definition clean_ids :: "string \<Rightarrow> string \<Rightarrow> bool" where
  "clean_ids te k \<longleftrightarrow> CHR 0x00 \<notin> set te \<and> CHR 0x00 \<notin> set k"

definition stored_file :: "(string \<Rightarrow> string) \<Rightarrow> string \<Rightarrow> string \<Rightarrow> file_result \<Rightarrow> schema db \<times> fs db \<Rightarrow> bool" where
  "stored_file sha p body r s \<longleftrightarrow>
     r = \<lparr>fr_path = p, fr_sha = sha body\<rparr> \<and> (\<exists>c. rows (snd s) p = Some (NFile c) \<and> sha c = sha body)"

definition row_generated :: "report_work \<Rightarrow> report_artifact \<Rightarrow> schema db \<times> fs db \<Rightarrow> bool" where
  "row_generated w a s \<longleftrightarrow>
     (\<exists>at. report_generated w a at (rows (fst s))) \<and>
     (rw_trigger w = ''scheduled'' \<longrightarrow> window_closed w (rows (fst s)) \<and> schedule_advanced w (rows (fst s)))"

lemma Write_stores:
  assumes "reportRelativePath w = Inr p" "clean_ids (rw_tenant w) (rw_report w)" "\<forall>k. slash \<notin> set (uuid_at EF k 0)"
    and run: "Write sha EF LF p body f = (Inr r, f')"
  shows "stored_file sha p body r (d, f')"
proof -
  have ids: "CHR 0x00 \<notin> set (rw_tenant w)" "CHR 0x00 \<notin> set (rw_report w)" using assms(2) by (simp_all add: clean_ids_def)
  obtain v: "validateRelativePath p = Inr p" using report_path_valid [OF assms(1) ids] by metis
  have "ensures (\<lambda>t. True) (Write sha EF LF p body) (\<lambda>r t. r = \<lparr>fr_path = p, fr_sha = sha body\<rparr> \<and> published sha p body t)"
    using report_path_not_temp [OF assms(1) ids(2)] assms(3)
    by (intro ensures_Write validated_valid [OF v] v) blast
  then show ?thesis using run unfolding ensures_def published_def stored_file_def by auto
qed

lemma grows_step: "report_grows t t' \<Longrightarrow> reports_inv t' \<and> report_attempts t i \<le> report_attempts t' i"
  by (simp add: report_grows_def)

lemma keeps_lock_claim: "keeps I (lock_claim E w)"
  unfolding lock_claim_def by (intro keeps_intros)

lemma finalized_row:
  assumes "reports_inv (rows d)" "FinalizeReport E L w a t d = (Inr (), d')"
  shows "row_generated w a (d', f)"
proof -
  have tx: "one_tenant_tx E L (rw_tenant w) (finalizeReport E w a t) d = (Inr (), d')"
    using assms(2) by (auto simp: FinalizeReport_def split: option.splits)
  obtain d1 d2 where "rows d1 = rows d" "finalizeReport E w a t d1 = (Inr (), d2)" "rows d' = rows d2"
    using one_tenant_tx_Inr [OF tx] by blast
  with finalizeReport_Inr [of d1 E w a t "()" d2] assms(1) show ?thesis by (auto simp: row_generated_def)
qed

definition plain_names :: "dbenv \<Rightarrow> bool" where
  "plain_names EF \<longleftrightarrow> (\<forall>k. slash \<notin> set (uuid_at EF k 0))"

lemma model_env_sel [simp]:
  "rx_publish (model_report_env E L EF LF sha R ctx due manual) w p body s = WithReportClaim E L w (Write sha EF LF p body) s"
  "rx_finalize (model_report_env E L EF LF sha R ctx due manual) w a t (d, f) =
     (case FinalizeReport E L w a t d of (Inl e, d') \<Rightarrow> (Some e, d', f) | (Inr u, d') \<Rightarrow> (None, d', f))"
  "rx_failure (model_report_env E L EF LF sha R ctx due manual) w e (d, f) =
     (case FinalizeReportFailure E L w (Some e) d of (Inl x, d') \<Rightarrow> (Some x, d', f) | (Inr u, d') \<Rightarrow> (None, d', f))"
  "rx_reclaim (model_report_env E L EF LF sha R ctx due manual) te k (d, f) =
     (case ReclaimReport E L te k d of (r, d') \<Rightarrow> (r, d', f))"
  by (simp_all add: model_report_env_def)

lemma grows_WithReportClaim:
  "report_grows t0 (rows d) \<Longrightarrow> report_grows t0 (rows (fst (snd (WithReportClaim E L w action (d, f)))))"
  unfolding WithReportClaim_def by (rule rows_tx_with [OF keeps_lock_claim])

lemma grows_ReclaimReport: "report_grows t0 (rows d) \<Longrightarrow> report_grows t0 (rows (snd (ReclaimReport E L a i d)))"
  unfolding ReclaimReport_def by (rule rows_one_tenant_tx [OF grows_reclaim])

interpretation served: report_service
  "model_report_env E L EF LF sha R ctx due manual" "\<lambda>s. reports_inv (rows (fst s))"
  "\<lambda>s. report_attempts (rows (fst s))" "\<lambda>te k. clean_ids te k \<and> plain_names EF" "stored_file sha" row_generated
  for E L EF LF sha R ctx due manual
proof
  let ?X = "model_report_env E L EF LF sha R ctx due manual"
  fix s :: "schema db \<times> fs db" and i
  obtain d f where s: "s = (d, f)" by fastforce
  assume "reports_inv (rows (fst s))"
  then have inv: "reports_inv (rows d)" using s by simp
  show "reports_inv (rows (fst (snd (rx_publish ?X w p b s)))) \<and>
      report_attempts (rows (fst s)) i \<le> report_attempts (rows (fst (snd (rx_publish ?X w p b s)))) i" for w p b
    using grows_step [OF grows_WithReportClaim [OF grows_refl [OF inv]]] by (simp add: s)
  show "reports_inv (rows (fst (snd (rx_finalize ?X w a t s)))) \<and>
      report_attempts (rows (fst s)) i \<le> report_attempts (rows (fst (snd (rx_finalize ?X w a t s)))) i" for w a t
    using grows_step [OF FinalizeReport_grows [OF grows_refl [OF inv], of E L w a t], of i]
    by (cases "FinalizeReport E L w a t d"; cases "fst (FinalizeReport E L w a t d)") (auto simp: s)
  show "reports_inv (rows (fst (snd (rx_failure ?X w e s)))) \<and>
      report_attempts (rows (fst s)) i \<le> report_attempts (rows (fst (snd (rx_failure ?X w e s)))) i" for w e
    using grows_step [OF FinalizeReportFailure_grows [OF grows_refl [OF inv], of E L w "Some e"], of i]
    by (cases "FinalizeReportFailure E L w (Some e) d"; cases "fst (FinalizeReportFailure E L w (Some e) d)") (auto simp: s)
  show "reports_inv (rows (fst (snd (rx_reclaim ?X te k s)))) \<and>
      report_attempts (rows (fst s)) i \<le> report_attempts (rows (fst (snd (rx_reclaim ?X te k s)))) i" for te k
    using grows_step [OF grows_ReclaimReport [OF grows_refl [OF inv], of E L te k], of i] by (cases "ReclaimReport E L te k d") (auto simp: s)
next
  let ?X = "model_report_env E L EF LF sha R ctx due manual"
  fix s s' :: "schema db \<times> fs db"
  obtain d f d' f' where s: "s = (d, f)" "s' = (d', f')" by fastforce
  assume "reports_inv (rows (fst s))"
  then have inv: "reports_inv (rows d)" using s by simp
  show "rw_attempts w = report_attempts (rows (fst s)) k + 1 \<and> rw_attempts w \<le> 3 \<and>
      report_attempts (rows (fst s')) k = rw_attempts w \<and> rw_tenant w = te \<and> rw_report w = k"
    if "rx_reclaim ?X te k s = (Inr (Some w), s')" for te k w
  proof -
    have "one_tenant_tx E L te (reclaimReport E te k) d = (Inr (Some w), d')"
      using that s by (auto simp: ReclaimReport_def split: prod.splits)
    from one_tenant_tx_Inr [OF this] obtain d1 d2 where
      r: "rows d1 = rows d" "reclaimReport E te k d1 = (Inr (Some w), d2)" "rows d' = rows d2" by blast
    from reclaim_granted [OF _ r(2)] inv r have g: "granted_claim (rows d) w (rows d')" "rw_tenant w = te" "rw_report w = k" by auto
    have "reports_inv (rows d')"
      using grows_step [OF grows_ReclaimReport [OF grows_refl [OF inv], of E L te k], of k] that s by (auto split: prod.splits)
    from report_attempts_bounds [OF this, of k] g holds_attempts [of w "rows d'"] show ?thesis
      by (auto simp: s granted_claim_def)
  qed
  show "row_generated w a s'" if "rx_finalize ?X w a t s = (None, s')" for w a t
    using that finalized_row [OF inv, of E L w a t d' f'] s by (auto split: prod.splits sum.splits)
  show "stored_file sha p b r s'"
    if "clean_ids (rw_tenant w) (rw_report w) \<and> plain_names EF" "reportRelativePath w = Inr p"
      "rx_publish ?X (w\<lparr>rw_path := p\<rparr>) p b s = (Inr r, s')" for w p b r
    using that tx_with_Inr [of E L _ _ _ d f r d' f'] Write_stores [of w p EF sha LF b f r f' d'] s
    by (auto simp: WithReportClaim_def plain_names_def)
next
  fix p b r and s :: "schema db \<times> fs db" and w a t
  obtain d f where s: "s = (d, f)" by fastforce
  show "stored_file sha p b r (snd (rx_finalize (model_report_env E L EF LF sha R ctx due manual) w a t s))"
    if "stored_file sha p b r s"
    using that by (auto simp: s stored_file_def split: prod.splits sum.splits)
qed


section \<open>Properties\<close>

text \<open>
  C12: The loop over one claimed report ends within the attempts that are left: for work the repository
  has granted, whatever fails in the database, in the file system and in the rendering, the runner
  returns what the loop cut off after 4 - n rounds returns, n being the number of the attempt the
  claim granted (1, 2 or 3); so a claimed report is generated at most three times, and never for ever.
\<close>

theorem claimed_report_returns:
  assumes "reports_inv (rows d)" "holds_report w (rows d)" "clean_ids (rw_tenant w) (rw_report w)" "plain_names EF"
  shows "1 \<le> rw_attempts w \<and> rw_attempts w \<le> 3 \<and>
    (\<exists>r. runClaimed (model_report_env E L EF LF sha R ctx due manual) w (d, f) = Some r \<and>
      claimed_rounds (nat (4 - rw_attempts w)) (model_report_env E L EF LF sha R ctx due manual) w (start_outcome w) (d, f) = Some r)"
proof -
  have a: "report_attempts (rows d) (rw_report w) = rw_attempts w" by (rule holds_attempts [OF assms(2)])
  have one: "1 \<le> rw_attempts w" "rw_attempts w \<le> 3"
  proof -
    obtain r where "find_report (rw_report w) (rows d) = Some r" "rp_attempts r = rw_attempts w"
      using assms(2) by (rule holds_report_row)
    with find_report_Some [OF this(1)] assms(1) show "1 \<le> rw_attempts w" "rw_attempts w \<le> 3"
      by (auto simp: reports_inv_def)
  qed
  then show ?thesis
    using served.loop_rounds [of "(d, f)" w "start_outcome w" "nat (4 - rw_attempts w)" E L EF LF sha R ctx due manual] a assms(1)
    unfolding runClaimed_def start_outcome_def by auto
qed

definition file_names_env :: dbenv where
  "file_names_env = \<lparr>fault = (\<lambda>n. None), clock_at = int, uuid_at = (\<lambda>n i. show_nat n), db_set = True\<rparr>"

lemma file_names_plain: "plain_names file_names_env"
proof -
  have "slash \<notin> set (show_nat k)" for k using show_nat_digits [of k] by (auto simp: list_all_iff is_digit_def)
  then show ?thesis by (simp add: plain_names_def file_names_env_def)
qed

lemma held_db_inv: "reports_inv (rows held_db)"
  by (simp add: held_db_def reports_inv_def held_row_def failed_report_def)

lemma held_db_holds: "holds_report (work_of_row held_row) (rows held_db)"
  by (simp add: holds_report_def held_db_def held_row_def failed_report_def find_report_def work_of_row_def)

lemma held_ids: "clean_ids (rw_tenant (work_of_row held_row)) (rw_report (work_of_row held_row))"
  by (simp add: clean_ids_def held_row_def failed_report_def)

definition no_due :: "time \<Rightarrow> schema db \<times> fs db \<Rightarrow> report_work list res \<times> schema db \<times> fs db" where
  "no_due t s = (Inr [], s)"

definition no_manual :: "string \<Rightarrow> time \<Rightarrow> schema db \<times> fs db \<Rightarrow> report_work option res \<times> schema db \<times> fs db" where
  "no_manual a t s = (Inr None, s)"

definition no_files :: "fs db" where
  "no_files = \<lparr>rows = Map.empty, tick = 0\<rparr>"

theorem claimed_report_returns_witness:
  "\<exists>r. runClaimed (model_report_env plain_env open_env file_names_env open_env (\<lambda>x. x) plain_render (\<lambda>n. None) no_due no_manual)
     (work_of_row held_row) (held_db, no_files) = Some r \<and>
     claimed_rounds 3 (model_report_env plain_env open_env file_names_env open_env (\<lambda>x. x) plain_render (\<lambda>n. None) no_due no_manual)
       (work_of_row held_row) (start_outcome (work_of_row held_row)) (held_db, no_files) = Some r"
proof -
  have "rw_attempts (work_of_row held_row) = 1" by (simp add: held_row_def failed_report_def)
  then show ?thesis
    using claimed_report_returns [OF held_db_inv held_db_holds held_ids file_names_plain, of plain_env open_env open_env
      "\<lambda>x. x" plain_render "\<lambda>n. None" no_due no_manual no_files] by simp
qed

text \<open>
  C2: A report counted as created is there: its row is generated with the path and the hash the runner
  returned, the file store has a file at that path whose digest is the digest of the rendered body,
  and a scheduled report has closed its window; and an outcome is marked created exactly when no
  error is returned.
\<close>

theorem created_report_is_delivered:
  assumes "reports_inv (rows d)" "holds_report w (rows d)" "clean_ids (rw_tenant w) (rw_report w)" "plain_names EF"
    and "runClaimed (model_report_env E L EF LF sha R ctx due manual) w (d, f) = Some ((out, err), d', f')"
  shows "(err = None \<longleftrightarrow> ro_created out) \<and>
    (ro_created out \<longrightarrow>
      (\<exists>row body c. find_report (rw_report w) (rows d') = Some row \<and> rp_status row = RGenerated \<and>
         rp_path row = ro_path out \<and> rp_sha row = sha body \<and>
         rows f' (ro_path out) = Some (NFile c) \<and> sha c = sha body \<and>
         (\<exists>w'. rw_report w' = rw_report w \<and> BuildReportHTML R (document_of w') = Inr body)))"
proof -
  let ?X = "model_report_env E L EF LF sha R ctx due manual"
  have R: "rx_render ?X = R" by (simp add: model_report_env_def)
  have e: "(err = None \<longleftrightarrow> ro_created out)"
    and d: "err = None \<longrightarrow> served.delivered E L EF LF sha R ctx due manual (rw_tenant w) (rw_report w) out (d', f')"
    using served.claimed_returns [of "(d, f)" w EF E L LF sha R ctx due manual] holds_attempts [OF assms(2)] assms(1,3-5)
    by auto
  show ?thesis
  proof (intro conjI impI e)
    assume "ro_created out"
    with e d obtain w' body r where w': "rw_report w' = rw_report w" "BuildReportHTML R (document_of w') = Inr body"
      and stored: "stored_file sha (ro_path out) body r (d', f')"
      and row: "row_generated w' \<lparr>ra_path = ro_path out, ra_sha = fr_sha r, ra_count = int (length (rw_notices w'))\<rparr> (d', f')"
      unfolding served.delivered_def R by auto
    from stored obtain c where "rows f' (ro_path out) = Some (NFile c)" "sha c = sha body" "fr_sha r = sha body"
      by (auto simp: stored_file_def)
    with row w' show "\<exists>row body c. find_report (rw_report w) (rows d') = Some row \<and> rp_status row = RGenerated \<and>
         rp_path row = ro_path out \<and> rp_sha row = sha body \<and>
         rows f' (ro_path out) = Some (NFile c) \<and> sha c = sha body \<and>
         (\<exists>w'. rw_report w' = rw_report w \<and> BuildReportHTML R (document_of w') = Inr body)"
      by (auto simp: row_generated_def report_generated_def)
  qed
qed

theorem created_report_is_delivered_witness:
  "\<exists>out err s'. runClaimed (model_report_env plain_env open_env file_names_env open_env (\<lambda>x. x) plain_render (\<lambda>n. None) no_due no_manual)
     (work_of_row held_row) (held_db, no_files) = Some ((out, err), s') \<and> (err = None \<longleftrightarrow> ro_created out)"
proof -
  let ?X = "model_report_env plain_env open_env file_names_env open_env (\<lambda>x. x) plain_render (\<lambda>n. None) no_due no_manual"
  obtain out err d' f' where run: "runClaimed ?X (work_of_row held_row) (held_db, no_files) = Some ((out, err), d', f')"
    using served.claimed_returns [of "(held_db, no_files)" "work_of_row held_row" file_names_env
        plain_env open_env open_env "\<lambda>x. x" plain_render "\<lambda>n. None" no_due no_manual]
      holds_attempts [OF held_db_holds] held_db_inv held_ids file_names_plain by (auto simp: split_paired_all)
  from created_report_is_delivered [OF held_db_inv held_db_holds held_ids file_names_plain run] run show ?thesis by blast
qed

lemma join_tenants_None: "join_tenants tys = None \<longleftrightarrow> (\<forall>ty \<in> set tys. ty_err ty = None)"
proof -
  have "foldl (\<lambda>err ty. errors_join [err, ty_err ty]) e tys = None \<longleftrightarrow> e = None \<and> (\<forall>ty \<in> set tys. ty_err ty = None)" for e
    by (induction tys arbitrary: e) (auto simp: errors_join_None_iff)
  then show ?thesis by (simp add: join_tenants_def)
qed

text \<open>The error of a run is there exactly when a report failed.\<close>

lemma run_error_iff:
  assumes "served.accounts ts r"
  shows "join_tenants (rt_tenants r) = None \<longleftrightarrow> rt_failed r = 0"
proof -
  obtain log where log: "tally_of log (rt_tenants r)" "rt_failed r = int (length (filter (\<lambda>(t, o'). is_failed o') log))"
    using assms unfolding served.accounts_def by blast
  have err: "ty_err ty = None \<longleftrightarrow> count_of is_failed log (ty_tenant ty) = 0" if "ty \<in> set (rt_tenants r)" for ty
    using log(1) that by (simp add: tally_of_def)
  have all: "set (map ty_tenant (rt_tenants r)) = fst ` set log" using log(1) by (simp add: tally_of_def)
  have "(\<forall>ty \<in> set (rt_tenants r). ty_err ty = None) \<longleftrightarrow> (\<forall>t \<in> fst ` set log. count_of is_failed log t = 0)"
    using err all by (metis (no_types, lifting) imageE image_eqI list.set_map)
  also have "\<dots> \<longleftrightarrow> (\<forall>x \<in> set log. \<not> is_failed (snd x))" by (force simp: count_of_def filter_empty_conv)
  also have "\<dots> \<longleftrightarrow> rt_failed r = 0" unfolding log(2) by (auto simp: filter_empty_conv)
  finally show ?thesis unfolding join_tenants_None .
qed


lemma accounts_counts:
  assumes "served.accounts ts r"
  shows "rt_generated r + rt_failed r = int (length ts) \<and> rt_skipped r = 0 \<and>
    distinct (map ty_tenant (rt_tenants r)) \<and> set (map ty_tenant (rt_tenants r)) = set ts"
proof -
  obtain log where log: "map fst log = ts" "tally_of log (rt_tenants r)"
    "rt_generated r = int (length (filter (\<lambda>(t, o'). o' = ItemDone) log))"
    "rt_failed r = int (length (filter (\<lambda>(t, o'). is_failed o') log))" "rt_skipped r = 0"
    "list_all (\<lambda>(t, o'). o' = ItemDone \<or> is_failed o') log"
    using assms unfolding served.accounts_def by blast
  have "list_all (\<lambda>(t, o'). o' = ItemDone \<or> is_failed o') log \<Longrightarrow>
      length (filter (\<lambda>(t, o'). o' = ItemDone) log) + length (filter (\<lambda>(t, o'). is_failed o') log) = length log"
    for log :: "(string \<times> item_outcome) list"
    by (induction log) auto
  from this [OF log(6)] log(3-5) have "rt_generated r + rt_failed r = int (length log) \<and> rt_skipped r = 0" by simp
  moreover have "length log = length ts" "set ts = fst ` set log" using log(1) by (auto simp flip: log(1) intro: rev_image_eqI)
  ultimately show ?thesis using log(2) by (simp add: tally_of_def)
qed

text \<open>
  A run over the due reports returns and accounts for every claimed report: each is counted once,
  as generated or as failed, no tenant is listed twice and exactly the tenants of the claimed reports
  are, and the run returns an error exactly when a report failed.
\<close>

theorem report_run_accounts:
  assumes due: "due (clock_at E (tick d)) (d, f) = (Inr ws, d1, f1)" and inv: "reports_inv (rows d1)"
    and ws: "list_all (\<lambda>w. holds_report w (rows d1) \<and> clean_ids (rw_tenant w) (rw_report w)) ws" and names: "plain_names EF"
  shows "\<exists>r err s'. RunReports (model_report_env E L EF LF sha R ctx due manual) (d, f) = Some ((r, err), s') \<and>
    rt_generated r + rt_failed r = int (length ws) \<and> rt_skipped r = 0 \<and> (err = None \<longleftrightarrow> rt_failed r = 0) \<and>
    distinct (map ty_tenant (rt_tenants r)) \<and> set (map ty_tenant (rt_tenants r)) = rw_tenant ` set ws"
proof -
  let ?X = "model_report_env E L EF LF sha R ctx due manual"
  have X: "rx_ready ?X" "rx_now ?X (d, f) = clock_at E (tick d)" "rx_due ?X = due" by (simp_all add: model_report_env_def)
  have empty: "served.accounts [] empty_report_result"
    unfolding served.accounts_def by (intro exI [of _ "[]"]) (simp add: empty_report_result_def tally_of_Nil)
  have "\<forall>w \<in> set ws. rw_attempts w \<le> report_attempts (rows (fst (d1, f1))) (rw_report w) \<and>
      clean_ids (rw_tenant w) (rw_report w) \<and> plain_names EF"
    using ws names holds_attempts by (auto simp: list_all_iff)
  from served.run_reports_returns [OF _ this empty, of E L LF sha R ctx due manual] inv
  obtain r s' where run: "run_reports ?X ws empty_report_result (d1, f1) = Some (r, s')"
    and a: "served.accounts (map rw_tenant ws) r" by auto
  have "RunReports ?X (d, f) = Some ((r, join_tenants (rt_tenants r)), s')"
    using due run by (simp add: RunReports_def X)
  with accounts_counts [OF a] run_error_iff [OF a] show ?thesis by simp
qed

theorem report_run_accounts_witness:
  "\<exists>r err s'. RunReports (model_report_env plain_env open_env file_names_env open_env (\<lambda>x. x) plain_render (\<lambda>n. None)
       (\<lambda>t s. (Inr [work_of_row held_row], s)) no_manual) (held_db, no_files) = Some ((r, err), s') \<and>
     rt_generated r + rt_failed r = 1"
proof -
  let ?due = "\<lambda>t s. (Inr [work_of_row held_row], s)"
  have due: "?due (clock_at plain_env (tick held_db)) (held_db, no_files) = (Inr [work_of_row held_row], held_db, no_files)" by simp
  have ws: "list_all (\<lambda>w. holds_report w (rows held_db) \<and> clean_ids (rw_tenant w) (rw_report w)) [work_of_row held_row]"
    using held_db_holds held_ids by simp
  from report_run_accounts [where due = ?due and E = plain_env and d = held_db, OF due held_db_inv ws file_names_plain, of open_env open_env "\<lambda>x. x" plain_render "\<lambda>n. None" no_manual]
  obtain r err s' where r: "RunReports (model_report_env plain_env open_env file_names_env open_env (\<lambda>x. x) plain_render (\<lambda>n. None)
       ?due no_manual) (held_db, no_files) = Some ((r, err), s')" "rt_generated r + rt_failed r = int (length [work_of_row held_row])"
    by (elim exE conjE)
  show ?thesis by (rule exI, rule exI, rule exI, rule conjI, rule r(1)) (use r(2) in simp)
qed

end
