(* ===== verification/Collector.thy ===== *)
theory Collector
  imports Pg_Collector
begin

text \<open>
  internal/app/collector.go: one collection, from the checkpoint to the matches. The procurement
  source, the repository, the matcher and the context are the environment; every call acts on the
  rows \<open>'t\<close> and may fail. A failure inside the collection is recorded by \<open>finishFailure\<close> with the
  counters reached so far. The location of the clock has no daylight saving (KST), so
  \<open>AddDate(0, 0, -7)\<close> is seven days of 24 hours.
\<close>

section \<open>The environment\<close>

definition ErrLookupBudget :: string where "ErrLookupBudget = ''participant region lookup budget exhausted''"

record 't collector_env =
  ce_ready :: bool
  ce_now :: "'t db \<Rightarrow> time"
  ce_last :: "('t, time) sql"
  ce_filters :: "('t, stored_filter list) sql"
  ce_fetch :: "string \<Rightarrow> time \<Rightarrow> time \<Rightarrow> ('t, notice list \<times> source_warning list) sql"
  ce_warn :: "source_warning \<Rightarrow> ('t, unit) sql"
  ce_store :: "notice \<Rightarrow> ('t, stored_notice) sql"
  ce_active :: "time \<Rightarrow> ('t, active_notice list) sql"
  ce_lookup :: "(string \<Rightarrow> string \<Rightarrow> ('t, string) sql) option"
  ce_mark :: "string \<Rightarrow> ('t, unit) sql"
  ce_upsert :: "stored_match \<Rightarrow> ('t, bool) sql"
  ce_delete :: "stored_match \<Rightarrow> ('t, unit) sql"
  ce_finish :: "time \<Rightarrow> collection_result \<Rightarrow> goerr option \<Rightarrow> ('t, unit) sql"
  ce_match :: "time \<Rightarrow> notice \<Rightarrow> rule \<Rightarrow> match_result"
  ce_ctx :: "'t db \<Rightarrow> goerr option"

section \<open>Steps that count\<close>

text \<open>A part of the collection: it fails with the counters and the error for \<open>finishFailure\<close>, or
  goes on with new counters and a value.\<close>

type_synonym ('t, 'a) collect =
  "collection_result \<Rightarrow> 't db \<Rightarrow> ((collection_result \<times> goerr) + (collection_result \<times> 'a)) \<times> 't db"

definition col_return :: "'a \<Rightarrow> ('t, 'a) collect" where
  "col_return a r d = (Inr (r, a), d)"

definition col_count :: "(collection_result \<Rightarrow> collection_result) \<Rightarrow> ('t, unit) collect" where
  "col_count f r d = (Inr (f r, ()), d)"

definition col_bind :: "('t, 'a) collect \<Rightarrow> ('a \<Rightarrow> ('t, 'b) collect) \<Rightarrow> ('t, 'b) collect" where
  "col_bind m f r d = (case m r d of (Inl x, d') \<Rightarrow> (Inl x, d') | (Inr (r', a), d') \<Rightarrow> f a r' d')"

definition col_do :: "string \<Rightarrow> ('t, 'a) sql \<Rightarrow> ('t, 'a) collect" where
  "col_do msg op r d = (case op d of (Inl e, d') \<Rightarrow> (Inl (r, ErrWrap msg e), d') | (Inr a, d') \<Rightarrow> (Inr (r, a), d'))"

definition col_attempt :: "('t, 'a) sql \<Rightarrow> ('t, 'a res) collect" where
  "col_attempt op r d = (case op d of (x, d') \<Rightarrow> (Inr (r, x), d'))"

definition col_check :: "('t db \<Rightarrow> goerr option) \<Rightarrow> ('t, unit) collect" where
  "col_check ctx r d = (case ctx d of Some e \<Rightarrow> (Inl (r, e), d) | None \<Rightarrow> (Inr (r, ()), d))"

definition one_fetched :: "collection_result \<Rightarrow> collection_result" where
  "one_fetched r = r\<lparr>cr_fetched := cr_fetched r + 1\<rparr>"

definition one_changed :: "collection_result \<Rightarrow> collection_result" where
  "one_changed r = r\<lparr>cr_changed := cr_changed r + 1\<rparr>"

definition one_matched :: "collection_result \<Rightarrow> collection_result" where
  "one_matched r = r\<lparr>cr_matched := cr_matched r + 1\<rparr>"

definition one_warning :: "collection_result \<Rightarrow> collection_result" where
  "one_warning r = r\<lparr>cr_warnings := cr_warnings r + 1\<rparr>"

section \<open>Fetching and storing\<close>

definition collectionCategories :: "string list" where
  "collectionCategories = [CategoryConstruction, CategoryService, CategoryGoods, CategoryForeign]"

fun store_warnings :: "'t collector_env \<Rightarrow> string \<Rightarrow> source_warning list \<Rightarrow> ('t, unit) collect" where
  "store_warnings C category [] = col_return ()"
| "store_warnings C category (w # ws) =
     col_bind (col_do ''store source warning''
        (ce_warn C (if sw_category w = [] then w\<lparr>sw_category := category\<rparr> else w))) (\<lambda>_.
     col_bind (col_count one_warning) (\<lambda>_. store_warnings C category ws))"

fun store_notices :: "'t collector_env \<Rightarrow> notice list \<Rightarrow> ('t, unit) collect" where
  "store_notices C [] = col_return ()"
| "store_notices C (n # ns) =
     col_bind (col_count one_fetched) (\<lambda>_.
     col_bind (col_do (''store notice '' @ n_bid_number n) (ce_store C n)) (\<lambda>stored.
     col_bind (if sn_changed stored then col_count one_changed else col_return ()) (\<lambda>_. store_notices C ns)))"

fun collect_categories :: "'t collector_env \<Rightarrow> time \<Rightarrow> time \<Rightarrow> string list \<Rightarrow> ('t, unit) collect" where
  "collect_categories C start now [] = col_return ()"
| "collect_categories C start now (category # cs) =
     col_bind (col_do (''fetch '' @ category @ '' notices'') (ce_fetch C category start now)) (\<lambda>(ns, ws).
     col_bind (store_warnings C category ws) (\<lambda>_.
     col_bind (store_notices C ns) (\<lambda>_. collect_categories C start now cs)))"

section \<open>Regions and matches\<close>

definition lookup_failed :: "'t collector_env \<Rightarrow> notice \<Rightarrow> goerr \<Rightarrow> ('t, unit) collect" where
  "lookup_failed C n e =
     col_bind (col_check (ce_ctx C)) (\<lambda>_.
     col_bind (col_do ''store region lookup warning'' (ce_warn C
        \<lparr>sw_category = n_category n, sw_page = 0, sw_item = 0, sw_field = ''region'', sw_code = ''region_lookup_failed'',
         sw_raw = n_raw_json n\<rparr>)) (\<lambda>_.
     col_count one_warning))"

text \<open>The region of one active notice: the notice to match, its id, and whether to look up further.\<close>

definition resolve_region :: "'t collector_env \<Rightarrow> bool \<Rightarrow> active_notice \<Rightarrow> ('t, notice \<times> string \<times> bool) collect" where
  "resolve_region C canLookup a =
     (let n = an_notice a in
      case ce_lookup C of
        Some lookup \<Rightarrow>
          if n_region n = [] \<and> \<not> an_complete a \<and> canLookup then
            col_bind (col_attempt (lookup (n_bid_number n) (n_bid_sequence n))) (\<lambda>x.
            case x of
              Inl e \<Rightarrow>
                col_bind (lookup_failed C n e) (\<lambda>_. col_return (n, an_id a, \<not> errors_is e ErrLookupBudget))
            | Inr region \<Rightarrow>
                if region = [] then
                  col_bind (col_do ''complete empty region lookup'' (ce_mark C (an_id a))) (\<lambda>_.
                    col_return (n, an_id a, canLookup))
                else
                  col_bind (col_do (''store enriched notice '' @ n_bid_number n) (ce_store C (n\<lparr>n_region := region\<rparr>))) (\<lambda>enriched.
                    col_return (n\<lparr>n_region := region\<rparr>,
                      if sn_id enriched \<noteq> [] then sn_id enriched else an_id a, canLookup)))
          else col_return (n, an_id a, canLookup)
      | None \<Rightarrow> col_return (n, an_id a, canLookup))"

definition match_for :: "match_result \<Rightarrow> stored_filter \<Rightarrow> string \<Rightarrow> stored_match" where
  "match_for r f noticeID =
     \<lparr>sx_tenant = sf_tenant f, sx_filter = sf_id f, sx_notice = noticeID, sx_reasons = Reasons r,
      sx_details = Details r, sx_revision = sf_revision f\<rparr>"

fun match_filters :: "'t collector_env \<Rightarrow> time \<Rightarrow> notice \<Rightarrow> string \<Rightarrow> stored_filter list \<Rightarrow> ('t, unit) collect" where
  "match_filters C now n noticeID [] = col_return ()"
| "match_filters C now n noticeID (f # fs) =
     (let r = ce_match C now n (sf_rule f) in
      if \<not> Matched r then
        col_bind (col_do ''delete stale match'' (ce_delete C (match_for r f noticeID))) (\<lambda>_.
          match_filters C now n noticeID fs)
      else
        col_bind (col_do ''store match'' (ce_upsert C (match_for r f noticeID))) (\<lambda>created.
        col_bind (if created then col_count one_matched else col_return ()) (\<lambda>_.
          match_filters C now n noticeID fs)))"

fun match_active :: "'t collector_env \<Rightarrow> time \<Rightarrow> stored_filter list \<Rightarrow> bool \<Rightarrow> active_notice list \<Rightarrow> ('t, unit) collect" where
  "match_active C now fs canLookup [] = col_return ()"
| "match_active C now fs canLookup (a # as) =
     col_bind (resolve_region C canLookup a) (\<lambda>(n, noticeID, can).
     col_bind (match_filters C now n noticeID fs) (\<lambda>_. match_active C now fs can as))"

definition collect_body :: "'t collector_env \<Rightarrow> time \<Rightarrow> time \<Rightarrow> stored_filter list \<Rightarrow> ('t, unit) collect" where
  "collect_body C now start fs =
     col_bind (collect_categories C start now collectionCategories) (\<lambda>_.
     col_bind (col_do ''load active notices'' (ce_active C now)) (\<lambda>as.
       match_active C now fs (ce_lookup C \<noteq> None \<and> fs \<noteq> []) as))"

section \<open>The run\<close>

definition finishFailure ::
  "'t collector_env \<Rightarrow> collection_result \<Rightarrow> goerr \<Rightarrow> 't db \<Rightarrow> (collection_result \<times> goerr option) \<times> 't db" where
  "finishFailure C r e d =
     (case ce_finish C 0 r (Some e) d of
        (Inl x, d') \<Rightarrow> ((r, errors_join [Some e, Some (ErrWrap ''record collection failure'' x)]), d')
      | (Inr u, d') \<Rightarrow> ((r, Some e), d'))"

definition zero_result :: collection_result where
  "zero_result = \<lparr>cr_fetched = 0, cr_changed = 0, cr_matched = 0, cr_warnings = 0\<rparr>"

definition fetch_start :: "time \<Rightarrow> time \<Rightarrow> time" where
  "fetch_start now last_success = (if is_zero last_success then now - 7 * day_ns else last_success - 10 * minute_ns)"

definition RunCollection :: "'t collector_env \<Rightarrow> 't db \<Rightarrow> (collection_result \<times> goerr option) \<times> 't db" where
  "RunCollection C d =
     (if \<not> ce_ready C then ((zero_result, Some (ErrText ''collector dependencies are required'')), d)
      else
        let now = ce_now C d in
        case ce_last C d of
          (Inl e, d1) \<Rightarrow> ((zero_result, Some (ErrWrap ''read collection checkpoint'' e)), d1)
        | (Inr last_success, d1) \<Rightarrow>
           (case ce_filters C d1 of
              (Inl e, d2) \<Rightarrow> finishFailure C zero_result (ErrWrap ''load filters'' e) d2
            | (Inr fs, d2) \<Rightarrow>
               (case collect_body C now (fetch_start now last_success) fs zero_result d2 of
                  (Inl (r, e), d3) \<Rightarrow> finishFailure C r e d3
                | (Inr (r, u), d3) \<Rightarrow>
                   (case ce_finish C now r None d3 of
                      (Inl e, d4) \<Rightarrow> ((r, Some (ErrWrap ''finish collection'' e)), d4)
                    | (Inr u, d4) \<Rightarrow> ((r, None), d4)))))"

end
