(* ===== verification/Collection_Laws.thy ===== *)
theory Collection_Laws
  imports Collector Collector_Laws
begin

text \<open>
  What a collection guarantees: the checkpoint moves exactly with a success, to the time the collection
  started, and the next collection starts before it, so no notice falls between two collections.
\<close>

section \<open>Invariants of a collection\<close>

definition col_keeps :: "('t \<Rightarrow> bool) \<Rightarrow> ('t, 'a) collect \<Rightarrow> bool" where
  "col_keeps I m \<longleftrightarrow> (\<forall>r d. I (rows d) \<longrightarrow> I (rows (snd (m r d))))"

named_theorems col_intros \<open>rules that decompose the col_keeps judgement\<close>

lemma col_keeps_return [col_intros]: "col_keeps I (col_return a)"
  by (simp add: col_keeps_def col_return_def)

lemma col_keeps_count [col_intros]: "col_keeps I (col_count f)"
  by (simp add: col_keeps_def col_count_def)

lemma col_keeps_check [col_intros]: "col_keeps I (col_check ctx)"
  by (simp add: col_keeps_def col_check_def split: option.split)

lemma col_keeps_do [col_intros]: "keeps I op \<Longrightarrow> col_keeps I (col_do msg op)"
  unfolding keeps_def col_keeps_def col_do_def by (auto split: prod.splits sum.splits)

lemma col_keeps_attempt [col_intros]: "keeps I op \<Longrightarrow> col_keeps I (col_attempt op)"
  unfolding keeps_def col_keeps_def col_attempt_def by (auto split: prod.splits)

lemma col_keeps_bind [col_intros]: "col_keeps I m \<Longrightarrow> (\<And>a. col_keeps I (f a)) \<Longrightarrow> col_keeps I (col_bind m f)"
  unfolding col_keeps_def
proof (intro allI impI)
  fix r and d :: "'a db"
  assume m: "\<forall>r d. I (rows d) \<longrightarrow> I (rows (snd (m r d)))" and f: "\<And>a. \<forall>r d. I (rows d) \<longrightarrow> I (rows (snd (f a r d)))"
    and d: "I (rows d)"
  obtain x d1 where x: "m r d = (x, d1)" by fastforce
  then have "I (rows d1)" using m d by (metis snd_conv)
  with f x show "I (rows (snd (col_bind m f r d)))" by (cases x) (auto simp: col_bind_def)
qed

lemma col_keeps_if [col_intros]: "col_keeps I m \<Longrightarrow> col_keeps I k \<Longrightarrow> col_keeps I (if b then m else k)"
  by simp

lemma col_keeps_prod [col_intros]: "(\<And>x y. col_keeps I (f x y)) \<Longrightarrow> col_keeps I (case p of (x, y) \<Rightarrow> f x y)"
  by (cases p) simp

lemma col_keeps_sum [col_intros]:
  "(\<And>x. col_keeps I (f x)) \<Longrightarrow> (\<And>y. col_keeps I (g y)) \<Longrightarrow> col_keeps I (case s of Inl x \<Rightarrow> f x | Inr y \<Rightarrow> g y)"
  by (cases s) simp_all

lemma col_keepsD: "col_keeps I m \<Longrightarrow> I (rows d) \<Longrightarrow> I (rows (snd (m r d)))"
  by (simp add: col_keeps_def)

section \<open>The contract of the repository\<close>

locale checkpointed =
  fixes C :: "'t collector_env"
    and inv :: "'t \<Rightarrow> bool"
    and checkpoint :: "'t \<Rightarrow> time option"
  assumes last_reads: "ce_last C d = (Inr l, d') \<Longrightarrow> l = (case checkpoint (rows d) of None \<Rightarrow> 0 | Some c \<Rightarrow> c)"
    and last_keeps: "keeps (\<lambda>t. inv t \<and> checkpoint t = c) (ce_last C)"
    and filters_keeps: "keeps (\<lambda>t. inv t \<and> checkpoint t = c) (ce_filters C)"
    and fetch_keeps: "keeps (\<lambda>t. inv t \<and> checkpoint t = c) (ce_fetch C category start now)"
    and warn_keeps: "keeps (\<lambda>t. inv t \<and> checkpoint t = c) (ce_warn C w)"
    and store_keeps: "keeps (\<lambda>t. inv t \<and> checkpoint t = c) (ce_store C n)"
    and active_keeps: "keeps (\<lambda>t. inv t \<and> checkpoint t = c) (ce_active C now)"
    and lookup_keeps: "ce_lookup C = Some lookup \<Longrightarrow> keeps (\<lambda>t. inv t \<and> checkpoint t = c) (lookup number sequence)"
    and mark_keeps: "keeps (\<lambda>t. inv t \<and> checkpoint t = c) (ce_mark C i)"
    and upsert_keeps: "keeps (\<lambda>t. inv t \<and> checkpoint t = c) (ce_upsert C m)"
    and delete_keeps: "keeps (\<lambda>t. inv t \<and> checkpoint t = c) (ce_delete C m)"
    and finish_failed: "keeps (\<lambda>t. inv t \<and> checkpoint t = c) (ce_finish C 0 r (Some e))"
    and finish_ok: "inv (rows d) \<Longrightarrow> ce_finish C now r None d = (Inr u, d') \<Longrightarrow> \<not> is_zero now \<Longrightarrow>
        inv (rows d') \<and> checkpoint (rows d') = Some now"
    and finish_error: "inv (rows d) \<Longrightarrow> ce_finish C now r None d = (Inl e, d') \<Longrightarrow>
        inv (rows d') \<and> checkpoint (rows d') = checkpoint (rows d)"
begin

lemmas steps_keep = last_keeps filters_keeps fetch_keeps warn_keeps store_keeps active_keeps mark_keeps
  upsert_keeps delete_keeps finish_failed

abbreviation at_checkpoint :: "time option \<Rightarrow> 't \<Rightarrow> bool" where
  "at_checkpoint c \<equiv> (\<lambda>t. inv t \<and> checkpoint t = c)"

lemma warnings_keep: "col_keeps (at_checkpoint c) (store_warnings C category ws)"
  by (induction ws) (auto intro!: col_intros steps_keep)

lemma notices_keep: "col_keeps (at_checkpoint c) (store_notices C ns)"
  by (induction ns) (auto intro!: col_intros steps_keep)

lemma categories_keep: "col_keeps (at_checkpoint c) (collect_categories C start now cs)"
  by (induction cs) (auto intro!: col_intros steps_keep warnings_keep notices_keep)

lemma region_keeps: "col_keeps (at_checkpoint c) (resolve_region C can a)"
proof (cases "ce_lookup C")
  case None
  then show ?thesis by (simp add: resolve_region_def Let_def col_keeps_return)
next
  case (Some lookup)
  then show ?thesis
    by (simp add: resolve_region_def Let_def lookup_failed_def)
       (intro conjI impI col_intros steps_keep lookup_keeps [OF Some])
qed

lemma filters_match_keep: "col_keeps (at_checkpoint c) (match_filters C now n i fs)"
  by (induction fs) (auto simp: Let_def intro!: col_intros steps_keep)

lemma active_match_keep: "col_keeps (at_checkpoint c) (match_active C now fs can as)"
  by (induction as arbitrary: can) (auto intro!: col_intros region_keeps filters_match_keep)

lemma body_keeps: "col_keeps (at_checkpoint c) (collect_body C now start fs)"
  unfolding collect_body_def by (intro col_intros steps_keep categories_keep active_match_keep)

lemma finishFailure_keeps:
  assumes "at_checkpoint c (rows d)" "finishFailure C r e d = ((r', err), d')"
  shows "at_checkpoint c (rows d') \<and> err \<noteq> None"
  using assms keepsD [OF finish_failed [of c r e] assms(1)]
  by (auto simp: finishFailure_def split: prod.splits sum.splits)

text \<open>A collection that returns an error leaves the checkpoint; one that returns none has moved it to
  the time it read at its start.\<close>

lemma run_checkpoint:
  assumes inv: "inv (rows d)" and run: "RunCollection C d = ((r, err), d')" and now: "\<not> is_zero (ce_now C d)"
  shows "inv (rows d') \<and> checkpoint (rows d') = (if err = None then Some (ce_now C d) else checkpoint (rows d))"
proof -
  let ?now = "ce_now C d" and ?c = "checkpoint (rows d)"
  have c: "at_checkpoint ?c (rows d)" using inv by simp
  obtain x d1 where l: "ce_last C d = (x, d1)" by fastforce
  have c1: "at_checkpoint ?c (rows d1)" using keepsD [OF last_keeps c] l by simp
  obtain y d2 where f: "ce_filters C d1 = (y, d2)" by fastforce
  have c2: "at_checkpoint ?c (rows d2)" using keepsD [OF filters_keeps c1] f by simp
  obtain z d3 where b: "collect_body C ?now (fetch_start ?now (projr x)) (projr y) zero_result d2 = (z, d3)" by fastforce
  have c3: "at_checkpoint ?c (rows d3)" using col_keepsD [OF body_keeps c2] b by (metis snd_conv)
  obtain u d4 where fin: "ce_finish C ?now (fst (projr z)) None d3 = (u, d4)" by fastforce
  show ?thesis
  proof (cases "ce_ready C")
    case False
    with run c show ?thesis by (auto simp: RunCollection_def)
  next
    case ready: True
    show ?thesis
    proof (cases "\<exists>e. x = Inl e")
      case True
      with run l c1 ready show ?thesis by (auto simp: RunCollection_def Let_def)
    next
      case False
      then obtain ls where x: "x = Inr ls" by (cases x) auto
      show ?thesis
      proof (cases y)
        case (Inl e)
        with run l f x ready have "finishFailure C zero_result (ErrWrap ''load filters'' e) d2 = ((r, err), d')"
          by (simp add: RunCollection_def Let_def)
        from finishFailure_keeps [OF c2 this] show ?thesis by auto
      next
        case (Inr fs)
        show ?thesis
        proof (cases z)
          case z: (Inl re)
          obtain r0 e where re: "re = (r0, e)" by fastforce
          with run l f x b z Inr ready have "finishFailure C r0 e d3 = ((r, err), d')"
            by (simp add: RunCollection_def Let_def)
          from finishFailure_keeps [OF c3 this] show ?thesis by auto
        next
          case z: (Inr ru)
          obtain r0 v where ru: "ru = (r0, v)" by (cases ru)
          show ?thesis
          proof (cases u)
            case u: (Inl e)
            with run l f x b z Inr ready fin ru have "err = Some (ErrWrap ''finish collection'' e)" "d' = d4"
              by (simp_all add: RunCollection_def Let_def)
            with finish_error [of d3 ?now "fst (projr z)" e d4] fin u c3 show ?thesis by simp
          next
            case u: (Inr w)
            with run l f x b z Inr ready fin ru have "err = None" "d' = d4"
              by (simp_all add: RunCollection_def Let_def)
            with finish_ok [of d3 ?now "fst (projr z)" w d4] fin u c3 now show ?thesis by simp
          qed
        qed
      qed
    qed
  qed
qed

end


section \<open>The repository of the tables\<close>

fun filters_once :: "dbenv \<Rightarrow> lockenv \<Rightarrow> (string \<times> string) list \<Rightarrow> (schema, stored_filter list) sql" where
  "filters_once E L [] = sql_return []"
| "filters_once E L ((tenantID, name) # ts) =
     sql_bind (tenant_once E L tenantID (\<lambda>now. loadEnabledFilters E tenantID)) (\<lambda>fs.
     sql_bind (filters_once E L ts) (\<lambda>rest. sql_return (fs @ rest)))"

lemma quiet_lift: "(\<And>e. r = Inl e \<Longrightarrow> \<not> errors_is e ErrCollectionRunning) \<Longrightarrow> quiet (sql_lift r)"
  by (cases r) (simp_all add: sql_lift_def quiet_fail quiet_return)

lemma quiet_loadEnabledFilters: "quiet_faults E \<Longrightarrow> quiet (loadEnabledFilters E tenantID)"
proof -
  have "scan_filters tenantID fs = Inl e \<Longrightarrow> \<not> errors_is e ErrCollectionRunning" for fs e
    by (induction fs) (auto split: option.splits sum.splits)
  then show "quiet_faults E \<Longrightarrow> quiet (loadEnabledFilters E tenantID)"
    unfolding loadEnabledFilters_def by (intro quiet_intros quiet_query quiet_lift)
qed

lemma EnabledFilters_loop_once:
  "quiet_faults E \<Longrightarrow> EnabledFilters_loop E L ts d = Some (filters_once E L ts d)"
proof (induction ts arbitrary: d)
  case (Cons x ts)
  obtain a name where x: "x = (a, name)" by fastforce
  have once: "withTenant E L a (\<lambda>now. loadEnabledFilters E a) d = Some (tenant_once E L a (\<lambda>now. loadEnabledFilters E a) d)"
    using Cons.prems quiet_loadEnabledFilters by (intro withTenant_once)
  show ?case using Cons once
    by (auto simp: x sql_bind_def split: prod.splits sum.splits)
qed simp

lemma EnabledFilters_once:
  "quiet_faults E \<Longrightarrow> EnabledFilters E L d = Some (sql_bind (tenantCatalog E) (filters_once E L) d)"
  by (auto simp: EnabledFilters_def sql_bind_def EnabledFilters_loop_once split: prod.splits sum.splits)

definition model_collector_env ::
  "dbenv \<Rightarrow> lockenv \<Rightarrow> text_env \<Rightarrow> (string \<Rightarrow> time \<Rightarrow> time \<Rightarrow> (schema, notice list \<times> source_warning list) sql) \<Rightarrow>
   (string \<Rightarrow> string \<Rightarrow> (schema, string) sql) option \<Rightarrow> schema collector_env" where
  "model_collector_env E L T fetch lookup =
     \<lparr>ce_ready = True, ce_now = (\<lambda>d. clock_at E (tick d)), ce_last = LastSuccessfulCollection E,
      ce_filters = sql_bind (tenantCatalog E) (filters_once E L), ce_fetch = fetch, ce_warn = StoreWarning E,
      ce_store = StoreNotice E T, ce_active = loadActiveNotices E T, ce_lookup = lookup,
      ce_mark = MarkRegionLookupComplete E, ce_upsert = upsert_once E L, ce_delete = delete_once E L,
      ce_finish = FinishCollection E, ce_match = MatchAt (te_nfc T) (te_fold T), ce_ctx = (\<lambda>d. ctx_err L (tick d))\<rparr>"

text \<open>The one row of \<open>collection_state\<close>.\<close>

definition one_state :: "schema \<Rightarrow> bool" where
  "one_state t \<longleftrightarrow> length (collection_state t) = 1"

definition checkpoint_of :: "schema \<Rightarrow> time option" where
  "checkpoint_of t = (case collection_state t of [] \<Rightarrow> None | s # _ \<Rightarrow> cs_last_success s)"

text \<open>The source reads the procurement service; of the tables it only counts its calls.\<close>

definition leaves_state :: "(schema, 'a) sql \<Rightarrow> bool" where
  "leaves_state m \<longleftrightarrow> (\<forall>c. keeps (\<lambda>t. collection_state t = c) m)"

lemma leaves_stateI: "(\<And>c. keeps (\<lambda>t. collection_state t = c) m) \<Longrightarrow> leaves_state m"
  by (simp add: leaves_state_def)

lemma leaves_checkpoint: "leaves_state m \<Longrightarrow> keeps (\<lambda>t. one_state t \<and> checkpoint_of t = c) m"
  unfolding leaves_state_def keeps_def one_state_def checkpoint_of_def by metis

lemma state_stmt:
  "(\<And>n t a t'. f n t = Inr (a, t') \<Longrightarrow> collection_state t' = collection_state t) \<Longrightarrow> keeps (\<lambda>t. collection_state t = c) (sql_stmt E f)"
  by (rule keeps_stmt) auto

lemma keeps_tenant_once: "(\<And>now. keeps I (fn now)) \<Longrightarrow> keeps I (tenant_once E L a fn)"
  using keeps_tenantTransaction [of I fn E]
  by (auto simp: keeps_def tenant_once_def split: option.splits)

lemma state_filters: "leaves_state (sql_bind (tenantCatalog E) (filters_once E L))"
proof (rule leaves_stateI)
  fix c
  let ?I = "\<lambda>t :: schema. collection_state t = c"
  have "keeps ?I (loadEnabledFilters E a)" for a
    unfolding loadEnabledFilters_def by (intro keeps_intros)
  then have "keeps ?I (filters_once E L ts)" for ts
    by (induction ts) (auto intro!: keeps_intros keeps_tenant_once)
  then show "keeps ?I (sql_bind (tenantCatalog E) (filters_once E L))"
    unfolding tenantCatalog_def by (auto intro!: keeps_intros)
qed


lemma state_store: "leaves_state (StoreNotice E T n)"
proof (rule leaves_stateI)
  fix c
  let ?I = "\<lambda>t :: schema. collection_state t = c"
  have changed: "keeps ?I (store_changed E i revision region complete)" for i revision region complete
    unfolding store_changed_def by (intro keeps_intros state_stmt) (auto simp: record_revision_def split: if_splits)
  have old: "keeps ?I (store_existing E T now m r)" for now m r
    unfolding store_existing_def
    by (intro keeps_intros changed state_stmt) (auto simp: touch_notice_def revise_notice_def)
  have "keeps ?I (store_tx E T now m identity revision payload)" for now m identity revision payload
    unfolding store_tx_def
    by (intro keeps_intros old changed state_stmt) (auto simp: insert_notice_def split: if_splits)
  then have "keeps ?I (sql_rollback (store_tx E T now m identity revision payload))" for now m identity revision payload
    by (intro keeps_intros)
  then show "keeps ?I (StoreNotice E T n)"
    unfolding keeps_def StoreNotice_def by (auto split: sum.splits prod.splits)
qed

lemma state_marks:
  "leaves_state (StoreWarning E w)" "leaves_state (loadActiveNotices E T now)" "leaves_state (MarkRegionLookupComplete E i)"
  "leaves_state (LastSuccessfulCollection E)"
proof -
  show "leaves_state (StoreWarning E w)"
    unfolding StoreWarning_def by (intro leaves_stateI keeps_intros state_stmt) auto
  show "leaves_state (loadActiveNotices E T now)"
    unfolding loadActiveNotices_def by (intro leaves_stateI keeps_intros)
  show "leaves_state (MarkRegionLookupComplete E i)"
    unfolding MarkRegionLookupComplete_def by (intro leaves_stateI keeps_intros state_stmt) auto
  have "keeps I (case rs of [] \<Rightarrow> sql_fail e | r # x \<Rightarrow> sql_return (f r x))" for I :: "schema \<Rightarrow> bool" and rs e f
    by (cases rs) (simp_all add: keeps_return keeps_fail)
  then show "leaves_state (LastSuccessfulCollection E)"
    unfolding LastSuccessfulCollection_def by (intro leaves_stateI keeps_intros)
qed

lemma state_matches: "leaves_state (upsert_once E L m)" "leaves_state (delete_once E L m)"
proof -
  show "leaves_state (upsert_once E L m)"
    unfolding upsert_once_def upsertMatchRevision_def
    by (intro leaves_stateI keeps_tenant_once keeps_intros state_stmt)
       (auto simp: insert_match_def update_match_def split: if_splits)
  show "leaves_state (delete_once E L m)"
    unfolding delete_once_def deleteMatchRevision_def
    by (intro leaves_stateI keeps_tenant_once keeps_intros state_stmt) (auto simp: delete_match_def split: if_splits)
qed

text \<open>Finishing: the transaction that writes the state and the runs.\<close>

definition finish_tx :: "dbenv \<Rightarrow> time option \<Rightarrow> json \<Rightarrow> string option \<Rightarrow> string \<Rightarrow> time \<Rightarrow> (string \<times> string) list \<Rightarrow> (schema, unit) sql" where
  "finish_tx E successAt payload errorText status now ts =
     sql_rollback
       (sql_bind (sql_wrap ''begin collection completion'' (sql_call E)) (\<lambda>_.
        sql_bind (sql_wrap ''update collection state''
           (sql_stmt E (\<lambda>k t. Inr ((), finish_state successAt payload errorText t)))) (\<lambda>_.
        sql_bind (record_runs E status payload now ts) (\<lambda>_.
        sql_wrap ''commit collection completion'' (sql_call E)))))"

lemma FinishCollection_tx:
  "FinishCollection E at_time r err =
     sql_bind (tenantCatalog E) (\<lambda>ts d. finish_tx E (if \<not> is_zero at_time \<and> err = None then Some at_time else None)
       (result_json r) (map_option show_error err) (if err = None then ''succeeded'' else ''failed'')
       (clock_at E (tick d)) ts d)"
  by (simp add: FinishCollection_def finish_tx_def Let_def)

lemma runs_keep_state: "keeps (\<lambda>t. collection_state t = c) (record_runs E status payload now ts)"
  by (induction ts) (auto intro!: keeps_intros state_stmt)

definition finished_state :: "time option \<Rightarrow> collection_state list \<Rightarrow> collection_state list \<Rightarrow> bool" where
  "finished_state successAt ss ss' \<longleftrightarrow> length ss' = length ss \<and>
     (ss \<noteq> [] \<longrightarrow> cs_last_success (hd ss') = (case successAt of None \<Rightarrow> cs_last_success (hd ss) | Some a \<Rightarrow> Some a))"

lemma finish_tx_state:
  assumes "finish_tx E successAt payload errorText status now ts d = (x, d')"
  shows "case x of Inl e \<Rightarrow> rows d' = rows d
    | Inr u \<Rightarrow> finished_state successAt (collection_state (rows d)) (collection_state (rows d'))"
proof (cases x)
  case (Inl e)
  have "rows (snd (finish_tx E successAt payload errorText status now ts d)) = rows d"
    unfolding finish_tx_def by (rule sql_rollback_Inl [where e = e]) (use assms Inl in \<open>simp add: finish_tx_def\<close>)
  with assms Inl show ?thesis by simp
next
  case (Inr u)
  with assms obtain d1 v d2 where d1: "rows d1 = finish_state successAt payload errorText (rows d)"
    and runs: "record_runs E status payload now ts d1 = (Inr v, d2)" and d': "rows d' = rows d2"
    unfolding finish_tx_def
    by (auto elim!: sql_bindE simp: sql_rollback_eq_Inr sql_wrap_eq_Inr sql_call_Inr sql_stmt_Inr)
       (metis db.select_convs(1))
  have "collection_state (rows d2) = collection_state (rows d1)"
    using keepsD [OF runs_keep_state, of d1 "collection_state (rows d1)" E status payload now ts] runs by simp
  with Inr d1 d' show ?thesis
    by (cases "collection_state (rows d)") (auto simp: finished_state_def finish_state_def split: option.split)
qed

lemma FinishCollection_state:
  assumes "FinishCollection E at_time r err d = (x, d')"
  shows "case x of Inl e \<Rightarrow> rows d' = rows d
    | Inr u \<Rightarrow> finished_state (if \<not> is_zero at_time \<and> err = None then Some at_time else None)
        (collection_state (rows d)) (collection_state (rows d'))"
proof -
  have cat: "rows d1 = rows d" if "tenantCatalog E d = (y, d1)" for y d1
    using that by (auto simp: tenantCatalog_def sql_wrap_def sql_query_def sql_stmt_def split: if_splits option.splits)
  show ?thesis
  proof (cases "tenantCatalog E d")
    case (Pair y d1)
    note r1 = cat [OF Pair]
    show ?thesis
    proof (cases y)
      case (Inl e)
      with assms Pair r1 show ?thesis by (auto simp: FinishCollection_tx sql_bind_def)
    next
      case (Inr ts)
      with assms Pair have "finish_tx E (if \<not> is_zero at_time \<and> err = None then Some at_time else None)
         (result_json r) (map_option show_error err) (if err = None then ''succeeded'' else ''failed'')
         (clock_at E (tick d1)) ts d1 = (x, d')" by (simp add: FinishCollection_tx sql_bind_def)
      from finish_tx_state [OF this] show ?thesis unfolding r1 .
    qed
  qed
qed

text \<open>The collector over a source that leaves the state of the collection alone.\<close>

definition source_ok ::
  "(string \<Rightarrow> time \<Rightarrow> time \<Rightarrow> (schema, notice list \<times> source_warning list) sql) \<Rightarrow>
   (string \<Rightarrow> string \<Rightarrow> (schema, string) sql) option \<Rightarrow> bool" where
  "source_ok fetch lookup \<longleftrightarrow> (\<forall>category start now. leaves_state (fetch category start now)) \<and>
     (\<forall>f number sequence. lookup = Some f \<longrightarrow> leaves_state (f number sequence))"

lemma finish_keeps_checkpoint: "keeps (\<lambda>t. one_state t \<and> checkpoint_of t = c) (FinishCollection E 0 r (Some e))"
  unfolding keeps_def
proof (intro allI impI)
  fix d :: "schema db" assume d: "one_state (rows d) \<and> checkpoint_of (rows d) = c"
  obtain x d' where x: "FinishCollection E 0 r (Some e) d = (x, d')" by fastforce
  from FinishCollection_state [OF x] d x
  show "one_state (rows (snd (FinishCollection E 0 r (Some e) d))) \<and> checkpoint_of (rows (snd (FinishCollection E 0 r (Some e) d))) = c"
    by (cases x; cases "collection_state (rows d)"; cases "collection_state (rows d')")
       (auto simp: finished_state_def one_state_def checkpoint_of_def)
qed


lemma LastSuccessfulCollection_reads:
  assumes "LastSuccessfulCollection E d = (Inr l, d')"
  shows "l = (case checkpoint_of (rows d) of None \<Rightarrow> 0 | Some c \<Rightarrow> c)"
  using assms
  by (cases "collection_state (rows d)")
     (auto elim!: sql_bindE simp: LastSuccessfulCollection_def sql_wrap_eq_Inr sql_query_Inr checkpoint_of_def)

interpretation collecting: checkpointed
  "model_collector_env E L T fetch lookup" "\<lambda>t. one_state t \<and> source_ok fetch lookup" checkpoint_of
  for E L T fetch lookup
proof
  let ?C = "model_collector_env E L T fetch lookup"
  have with_source: "keeps (\<lambda>t. (one_state t \<and> source_ok fetch lookup) \<and> checkpoint_of t = c) m"
    if "source_ok fetch lookup \<Longrightarrow> leaves_state m" for c and m :: "(schema, 'x) sql"
    using that leaves_checkpoint [of m c] by (auto simp: keeps_def)
  have with_finish: "keeps (\<lambda>t. (one_state t \<and> source_ok fetch lookup) \<and> checkpoint_of t = c) (FinishCollection E 0 r (Some e))" for c r e
    using finish_keeps_checkpoint [of c E r e] by (auto simp: keeps_def)
  show "ce_last ?C d = (Inr l, d') \<Longrightarrow> l = (case checkpoint_of (rows d) of None \<Rightarrow> 0 | Some c \<Rightarrow> c)" for d l d'
    using LastSuccessfulCollection_reads by (simp add: model_collector_env_def)
  fix c :: "time option"
  let ?I = "\<lambda>t. (one_state t \<and> source_ok fetch lookup) \<and> checkpoint_of t = c"
  show "keeps ?I (ce_last ?C)" using with_source [OF state_marks(4)] by (simp add: model_collector_env_def)
  show "keeps ?I (ce_filters ?C)" using with_source [OF state_filters] by (simp add: model_collector_env_def)
  show "keeps ?I (ce_fetch ?C category start now)" for category start now
    using leaves_checkpoint [of "fetch category start now" c] by (auto simp: model_collector_env_def keeps_def source_ok_def)
  show "keeps ?I (ce_warn ?C w)" for w using with_source [OF state_marks(1)] by (simp add: model_collector_env_def)
  show "keeps ?I (ce_store ?C n)" for n
    using leaves_checkpoint [OF state_store, of c E T n] by (auto simp: model_collector_env_def keeps_def)
  show "keeps ?I (ce_active ?C now)" for now
    using leaves_checkpoint [OF state_marks(2), of c E T now] by (auto simp: model_collector_env_def keeps_def)
  show "keeps ?I (ce_mark ?C i)" for i using with_source [OF state_marks(3)] by (simp add: model_collector_env_def)
  show "keeps ?I (ce_upsert ?C m)" for m
    using leaves_checkpoint [OF state_matches(1), of c E L m] by (auto simp: model_collector_env_def keeps_def)
  show "keeps ?I (ce_delete ?C m)" for m using with_source [OF state_matches(2)] by (simp add: model_collector_env_def)
  show "keeps ?I (ce_finish ?C 0 r (Some e))" for r e using with_finish by (simp add: model_collector_env_def)
  show "keeps ?I (f number sequence)" if "ce_lookup ?C = Some f" for f number sequence
    using that leaves_checkpoint [of "f number sequence" c] by (auto simp: model_collector_env_def keeps_def source_ok_def)
next
  let ?C = "model_collector_env E L T fetch lookup"
  fix d d' :: "schema db" and now r
  assume d: "one_state (rows d) \<and> source_ok fetch lookup"
  show "(one_state (rows d') \<and> source_ok fetch lookup) \<and> checkpoint_of (rows d') = Some now"
    if "ce_finish ?C now r None d = (Inr u, d')" "\<not> is_zero now" for u
    using FinishCollection_state [of E now r None d "Inr u" d'] that d
    by (cases "collection_state (rows d)"; cases "collection_state (rows d')")
       (auto simp: model_collector_env_def finished_state_def one_state_def checkpoint_of_def)
  show "(one_state (rows d') \<and> source_ok fetch lookup) \<and> checkpoint_of (rows d') = checkpoint_of (rows d)"
    if "ce_finish ?C now r None d = (Inl e, d')" for e
    using FinishCollection_state [of E now r None d "Inl e" d'] that d by (simp add: model_collector_env_def)
qed

text \<open>
  C7: The checkpoint of the collections: a collection that returns no error has stored the time it read
  at its start as the last success; one that returns an error, at whatever point it failed, has left
  the checkpoint as it was. And what is fetched next reaches back before the checkpoint, so a notice
  published after the start of the last successful collection is never skipped.
\<close>

theorem collection_checkpoint:
  assumes "one_state (rows d)" "source_ok fetch lookup" "\<not> is_zero (clock_at E (tick d))"
    and "RunCollection (model_collector_env E L T fetch lookup) d = ((r, err), d')"
  shows "one_state (rows d') \<and>
    checkpoint_of (rows d') = (if err = None then Some (clock_at E (tick d)) else checkpoint_of (rows d)) \<and>
    (\<not> is_zero last_success \<longrightarrow> fetch_start now last_success < last_success)"
  using collecting.run_checkpoint [OF _ assms(4)] assms(1-3)
  by (simp add: model_collector_env_def fetch_start_def)

definition empty_source :: "string \<Rightarrow> time \<Rightarrow> time \<Rightarrow> (schema, notice list \<times> source_warning list) sql" where
  "empty_source category start now = sql_bind (Take plain_env 10 now) (\<lambda>_. sql_return ([], []))"

lemma Take_leaves: "leaves_state (Take E limit now)"
  unfolding Take_def
  by (intro leaves_stateI keeps_intros state_stmt) (auto simp: count_call_def split: option.splits if_splits)

lemma empty_source_ok: "source_ok empty_source None"
  using Take_leaves unfolding source_ok_def empty_source_def leaves_state_def by (auto intro!: keeps_intros)

definition collection_db :: "schema db" where
  "collection_db = budget_db\<lparr>rows := (rows budget_db)\<lparr>collection_state := [\<lparr>cs_last_success = None, cs_result = JNull, cs_error = None\<rparr>]\<rparr>\<rparr>"


definition plain_collector :: "schema collector_env" where
  "plain_collector = model_collector_env plain_env locked_env
     \<lparr>te_nfc = (\<lambda>x. x), te_fold = (\<lambda>x. x), te_sha = (\<lambda>x. x), te_enc = Some\<rparr> empty_source None"

lemma plain_collection_succeeds: "snd (fst (RunCollection plain_collector collection_db)) = None"
  by code_simp

theorem collection_checkpoint_witness:
  "checkpoint_of (rows (snd (RunCollection plain_collector collection_db))) = Some (clock_at plain_env 0)"
proof -
  have one: "one_state (rows collection_db)" by (simp add: one_state_def collection_db_def budget_db_def)
  have now: "\<not> is_zero (clock_at plain_env (tick collection_db))"
    by (simp add: is_zero_def plain_env_def collection_db_def budget_db_def)
  have run: "RunCollection plain_collector collection_db =
      ((fst (fst (RunCollection plain_collector collection_db)), None), snd (RunCollection plain_collector collection_db))"
    using plain_collection_succeeds by (metis prod.collapse)
  have t: "tick collection_db = 0" by (simp add: collection_db_def budget_db_def)
  from collection_checkpoint [OF one empty_source_ok now run [unfolded plain_collector_def], THEN conjunct2, THEN conjunct1] t
  show ?thesis by (simp add: plain_collector_def)
qed

end
