(* ===== verification/Collection_Job.thy ===== *)
theory Collection_Job
  imports Collector
begin

text \<open>
  internal/app/collection_job.go: a collection under the advisory lock of its own session. The
  session, the lock and the collection act on an environment state \<open>'s\<close>; deferred calls run in
  reverse order on every way out.
\<close>

record 's collection_job =
  cj_ready :: bool
  cj_acquire :: "'s \<Rightarrow> bool res \<times> 's"
  cj_exec :: "string \<Rightarrow> 's \<Rightarrow> goerr option \<times> 's"
  cj_try_lock :: "'s \<Rightarrow> bool res \<times> 's"
  cj_run :: "'s \<Rightarrow> (collection_result \<times> goerr option) \<times> 's"
  cj_release :: "'s \<Rightarrow> 's"

text \<open>\<open>cj_acquire\<close> gives \<open>Inr False\<close> for a nil session. The deferred rollback:\<close>

definition job_rollback ::
  "'s collection_job \<Rightarrow> (collection_result \<times> goerr option) \<times> 's \<Rightarrow> (collection_result \<times> goerr option) \<times> 's" where
  "job_rollback J out =
     (case out of ((r, err), s) \<Rightarrow>
       (case cj_exec J ''ROLLBACK'' s of
          (None, s1) \<Rightarrow> ((r, err), s1)
        | (Some e, s1) \<Rightarrow> ((r, errors_join [err, Some (ErrWrap ''rollback collection lock transaction'' e)]), s1)))"

text \<open>The body after \<open>BEGIN\<close>; the boolean says whether the transaction is still open.\<close>

definition locked_body ::
  "'s collection_job \<Rightarrow> 's \<Rightarrow> bool \<times> (collection_result \<times> goerr option) \<times> 's" where
  "locked_body J s =
     (case cj_try_lock J s of
        (Inl e, s1) \<Rightarrow> (True, (zero_result, Some (ErrWrap ''acquire collection advisory lock'' e)), s1)
      | (Inr False, s1) \<Rightarrow> (True, (zero_result, Some (Sentinel ErrCollectionRunning)), s1)
      | (Inr True, s1) \<Rightarrow>
         (case cj_run J s1 of ((r, runErr), s2) \<Rightarrow>
           (case cj_exec J ''COMMIT'' s2 of
              (Some e, s3) \<Rightarrow>
                (True, (r, errors_join [runErr, Some (ErrWrap ''commit collection lock transaction'' e)]), s3)
            | (None, s3) \<Rightarrow> (False, (r, runErr), s3))))"

definition release_after ::
  "'s collection_job \<Rightarrow> (collection_result \<times> goerr option) \<times> 's \<Rightarrow> (collection_result \<times> goerr option) \<times> 's" where
  "release_after J out = (case out of (x, s) \<Rightarrow> (x, cj_release J s))"

definition RunLocked :: "'s collection_job \<Rightarrow> 's \<Rightarrow> (collection_result \<times> goerr option) \<times> 's" where
  "RunLocked J s =
     (if \<not> cj_ready J then ((zero_result, Some (ErrText ''collection job dependencies are required'')), s)
      else case cj_acquire J s of
        (Inl e, s1) \<Rightarrow> ((zero_result, Some (ErrWrap ''acquire collection lock session'' e)), s1)
      | (Inr False, s1) \<Rightarrow> ((zero_result, Some (ErrText ''collection lock session is nil'')), s1)
      | (Inr True, s1) \<Rightarrow>
          release_after J
           (case cj_exec J ''BEGIN'' s1 of
              (Some e, s2) \<Rightarrow> ((zero_result, Some (ErrWrap ''begin collection lock transaction'' e)), s2)
            | (None, s2) \<Rightarrow>
               (case locked_body J s2 of (open_tx, out) \<Rightarrow> if open_tx then job_rollback J out else out)))"

section \<open>The protocol of the lock session\<close>

text \<open>The calls of a job, recorded in order; their outcomes come from the environment.\<close>

datatype job_event = EvAcquire | EvExec string | EvLock | EvRun | EvRelease

record job_outcomes =
  jo_acquire :: "bool res"
  jo_exec :: "string \<Rightarrow> goerr option"
  jo_lock :: "bool res"
  jo_run :: "collection_result \<times> goerr option"

definition recorded_job :: "job_outcomes \<Rightarrow> job_event list collection_job" where
  "recorded_job O' =
     \<lparr>cj_ready = True, cj_acquire = (\<lambda>es. (jo_acquire O', es @ [EvAcquire])),
      cj_exec = (\<lambda>q es. (jo_exec O' q, es @ [EvExec q])), cj_try_lock = (\<lambda>es. (jo_lock O', es @ [EvLock])),
      cj_run = (\<lambda>es. (jo_run O', es @ [EvRun])), cj_release = (\<lambda>es. es @ [EvRelease])\<rparr>"

definition begun :: "job_event list" where "begun = [EvAcquire, EvExec ''BEGIN'', EvLock]"

lemmas protocol_defs = RunLocked_def release_after_def locked_body_def job_rollback_def recorded_job_def begun_def
  errors_join_def

text \<open>
  C36: The advisory lock protocol, for every outcome of every call: the collection runs only after a
  transaction was begun and the lock was granted, at most once, and is followed by COMMIT; a
  transaction that was begun and not committed is rolled back; an acquired session is released, once
  and last; and a collection error is returned exactly when nothing else went wrong to be joined to it.
\<close>

theorem collection_lock_protocol:
  "case RunLocked (recorded_job O') [] of ((r, err), trace) \<Rightarrow>
    trace =
      (if jo_acquire O' \<noteq> Inr True then [EvAcquire]
       else if jo_exec O' ''BEGIN'' \<noteq> None then [EvAcquire, EvExec ''BEGIN'', EvRelease]
       else if jo_lock O' \<noteq> Inr True then begun @ [EvExec ''ROLLBACK'', EvRelease]
       else if jo_exec O' ''COMMIT'' \<noteq> None then begun @ [EvRun, EvExec ''COMMIT'', EvExec ''ROLLBACK'', EvRelease]
       else begun @ [EvRun, EvExec ''COMMIT'', EvRelease]) \<and>
    (err = None \<longleftrightarrow> jo_acquire O' = Inr True \<and> jo_exec O' ''BEGIN'' = None \<and> jo_lock O' = Inr True \<and>
       snd (jo_run O') = None \<and> jo_exec O' ''COMMIT'' = None) \<and>
    (jo_acquire O' = Inr True \<and> jo_exec O' ''BEGIN'' = None \<and> jo_lock O' = Inr False \<and> jo_exec O' ''ROLLBACK'' = None \<longrightarrow>
       err = Some (Sentinel ErrCollectionRunning))"
proof -
  obtain r err where run: "jo_run O' = (r, err)" by fastforce
  consider e where "jo_acquire O' = Inl e" | "jo_acquire O' = Inr False" | "jo_acquire O' = Inr True"
    by (cases "jo_acquire O'") auto
  then show ?thesis
  proof cases
    case 3
    consider e where "jo_lock O' = Inl e" | "jo_lock O' = Inr False" | "jo_lock O' = Inr True"
      by (cases "jo_lock O'") auto
    then show ?thesis
    proof cases
      case 3
      with \<open>jo_acquire O' = Inr True\<close> run show ?thesis
        by (cases "jo_exec O' ''BEGIN''"; cases "jo_exec O' ''COMMIT''"; cases "jo_exec O' ''ROLLBACK''"; cases err)
           (simp_all add: protocol_defs)
    qed (use \<open>jo_acquire O' = Inr True\<close> in
      \<open>cases "jo_exec O' ''BEGIN''"; cases "jo_exec O' ''ROLLBACK''"; simp add: protocol_defs\<close>)+
  qed (simp_all add: RunLocked_def recorded_job_def)
qed

definition lock_taken :: job_outcomes where
  "lock_taken = \<lparr>jo_acquire = Inr True, jo_exec = (\<lambda>_. None), jo_lock = Inr False, jo_run = (zero_result, None)\<rparr>"

theorem collection_lock_protocol_witness:
  "snd (fst (RunLocked (recorded_job lock_taken) [])) = Some (Sentinel ErrCollectionRunning) \<and>
   EvRun \<notin> set (snd (RunLocked (recorded_job lock_taken) []))"
  using collection_lock_protocol [of lock_taken]
  by (auto simp: lock_taken_def begun_def split: prod.splits)

end
