(* ===== verification/Async_Collection.thy ===== *)
theory Async_Collection
  imports Go_Time
begin

text \<open>
  internal/app/async_collection.go: manually requested collections. Several callers run \<open>Trigger\<close>
  while one goroutine runs \<open>loop\<close>; the mutex makes each access of \<open>busy\<close> one step, the channel
  \<open>wake\<close> holds one request. The steps below are the places where the goroutines may interleave.
\<close>

datatype loop_state = Waiting | Collecting | Clearing | Returned

text \<open>\<open>tr_sender\<close> is the caller that has set \<open>busy\<close> and is at its \<open>select\<close>; \<open>tr_runs\<close> counts the
  collections started.\<close>

record trigger =
  tr_done :: bool
  tr_busy :: bool
  tr_wake :: bool
  tr_sender :: bool
  tr_loop :: loop_state
  tr_runs :: nat

definition new_trigger :: trigger where
  "new_trigger = \<lparr>tr_done = False, tr_busy = False, tr_wake = False, tr_sender = False, tr_loop = Waiting, tr_runs = 0\<rparr>"

text \<open>The event of a step: what a caller of \<open>Trigger\<close> sees, or what the goroutine does.\<close>

datatype trigger_event = Coalesced | Marked | Sent | Cancelled | Refused | Started | Finished | Cleared | Stopped | ServiceDone

inductive trigger_step :: "trigger_event \<Rightarrow> trigger \<Rightarrow> trigger \<Rightarrow> bool" where
  coalesce: "tr_busy s \<Longrightarrow> trigger_step Coalesced s s"
| mark: "\<not> tr_busy s \<Longrightarrow> trigger_step Marked s (s\<lparr>tr_busy := True, tr_sender := True\<rparr>)"
| send: "tr_sender s \<Longrightarrow> \<not> tr_wake s \<Longrightarrow> trigger_step Sent s (s\<lparr>tr_wake := True, tr_sender := False\<rparr>)"
| cancel: "tr_sender s \<Longrightarrow> tr_done s \<Longrightarrow> trigger_step Cancelled s (s\<lparr>tr_busy := False, tr_sender := False\<rparr>)"
| refuse: "tr_done s \<Longrightarrow> trigger_step Refused s s"
| start: "tr_loop s = Waiting \<Longrightarrow> tr_wake s \<Longrightarrow>
    trigger_step Started s (s\<lparr>tr_wake := False, tr_loop := Collecting, tr_runs := Suc (tr_runs s)\<rparr>)"
| finish: "tr_loop s = Collecting \<Longrightarrow> trigger_step Finished s (s\<lparr>tr_loop := Clearing\<rparr>)"
| clear: "tr_loop s = Clearing \<Longrightarrow> trigger_step Cleared s (s\<lparr>tr_busy := False, tr_loop := Waiting\<rparr>)"
| stop: "tr_loop s = Waiting \<Longrightarrow> tr_done s \<Longrightarrow> trigger_step Stopped s (s\<lparr>tr_loop := Returned\<rparr>)"
| service_done: "trigger_step ServiceDone s (s\<lparr>tr_done := True\<rparr>)"

code_pred (modes: i \<Rightarrow> i \<Rightarrow> o \<Rightarrow> bool as next_state) trigger_step .

inductive_cases trigger_stepE: "trigger_step e s t"

inductive_simps coalesced_simp: "trigger_step Coalesced s t"
inductive_simps marked_simp: "trigger_step Marked s t"
inductive_simps sent_simp: "trigger_step Sent s t"
inductive_simps started_simp: "trigger_step Started s t"
inductive_simps finished_simp: "trigger_step Finished s t"
inductive_simps cleared_simp: "trigger_step Cleared s t"

lemmas own_step_simps = sent_simp started_simp finished_simp cleared_simp

inductive reachable :: "trigger \<Rightarrow> bool" where
  init: "reachable new_trigger"
| step: "reachable s \<Longrightarrow> trigger_step e s t \<Longrightarrow> reachable t"

section \<open>One collection at a time\<close>

text \<open>The places where an accepted request can be.\<close>

definition places :: "trigger \<Rightarrow> nat" where
  "places s = (if tr_sender s then 1 else 0) + (if tr_wake s then 1 else 0) +
     (if tr_loop s = Collecting \<or> tr_loop s = Clearing then 1 else 0)"

definition trigger_inv :: "trigger \<Rightarrow> bool" where
  "trigger_inv s \<longleftrightarrow> places s = (if tr_busy s then 1 else 0) \<and> (tr_loop s = Returned \<longrightarrow> tr_done s)"

lemma reachable_inv: "reachable s \<Longrightarrow> trigger_inv s"
proof (induction rule: reachable.induct)
  case init
  then show ?case by (simp add: trigger_inv_def places_def new_trigger_def)
next
  case (step s e t)
  from step.hyps(2) step.IH show ?case
    by (elim trigger_stepE) (auto simp: trigger_inv_def places_def split: if_splits)
qed

text \<open>The steps of the goroutine and of the sender that only they can take.\<close>

definition own_step :: "trigger \<Rightarrow> trigger \<Rightarrow> bool" where
  "own_step s t \<longleftrightarrow> (\<exists>e \<in> {Sent, Started, Finished, Cleared}. trigger_step e s t)"

fun own_steps :: "nat \<Rightarrow> trigger \<Rightarrow> trigger \<Rightarrow> bool" where
  "own_steps 0 s t = (s = t)"
| "own_steps (Suc n) s t = (\<exists>u. own_step s u \<and> own_steps n u t)"

text \<open>How far an accepted request is from its end.\<close>

definition distance :: "trigger \<Rightarrow> nat" where
  "distance s =
     (if tr_sender s then 4 else if tr_wake s then 3 else if tr_loop s = Collecting then 2
      else if tr_loop s = Clearing then 1 else 0)"

lemma own_step_progress:
  assumes "trigger_inv s" "\<not> tr_done s" "tr_busy s"
  shows "\<exists>!t. own_step s t"
    and "own_step s t \<Longrightarrow> trigger_inv t \<and> \<not> tr_done t \<and> distance s = Suc (distance t) \<and>
      (tr_busy t \<longleftrightarrow> distance t \<noteq> 0) \<and>
      tr_runs t = tr_runs s + (if distance s = 3 then 1 else 0)"
proof -
  have places: "places s = 1" and loop: "tr_loop s \<noteq> Returned" using assms by (auto simp: trigger_inv_def)
  then consider
      (sender) "tr_sender s" "\<not> tr_wake s" "tr_loop s = Waiting"
    | (wake) "\<not> tr_sender s" "tr_wake s" "tr_loop s = Waiting"
    | (running) "\<not> tr_sender s" "\<not> tr_wake s" "tr_loop s = Collecting"
    | (clearing) "\<not> tr_sender s" "\<not> tr_wake s" "tr_loop s = Clearing"
    by (cases "tr_loop s") (auto simp: places_def split: if_splits)
  then show "\<exists>!t. own_step s t" by cases (auto simp: own_step_def own_step_simps)
  assume "own_step s t"
  then show "trigger_inv t \<and> \<not> tr_done t \<and> distance s = Suc (distance t) \<and>
      (tr_busy t \<longleftrightarrow> distance t \<noteq> 0) \<and> tr_runs t = tr_runs s + (if distance s = 3 then 1 else 0)"
    using assms \<open>places s = 1\<close>
    by (auto simp: own_step_def own_step_simps trigger_inv_def places_def distance_def split: if_splits)
qed

text \<open>
  C35: Manual collections are coalesced safely: in every reachable state at most one accepted request
  exists, being sent, waiting in the channel or being collected, and \<open>busy\<close> says so; the channel has
  room for a request that is about to be sent, so \<open>Trigger\<close> never blocks; and the goroutine has
  returned only after the service was shut down.
\<close>

theorem one_collection_at_a_time:
  assumes "reachable s"
  shows "(tr_busy s \<longleftrightarrow> places s = 1) \<and> places s \<le> 1 \<and> (tr_sender s \<longrightarrow> (\<exists>t. trigger_step Sent s t)) \<and>
    (tr_loop s = Returned \<longrightarrow> tr_done s)"
proof -
  have inv: "trigger_inv s" by (rule reachable_inv [OF assms])
  then have "tr_sender s \<Longrightarrow> \<not> tr_wake s" by (auto simp: trigger_inv_def places_def split: if_splits)
  with inv show ?thesis by (auto simp: trigger_inv_def sent_simp split: if_splits)
qed

definition accepted :: trigger where
  "accepted = new_trigger\<lparr>tr_busy := True, tr_sender := True\<rparr>"

lemma accepted_reachable: "reachable accepted"
proof (rule reachable.step [OF reachable.init])
  show "trigger_step Marked new_trigger accepted"
    by (simp add: marked_simp accepted_def) (simp add: new_trigger_def)
qed

theorem one_collection_at_a_time_witness: "tr_sender accepted \<and> (\<exists>t. trigger_step Sent accepted t)"
  using one_collection_at_a_time [OF accepted_reachable] by (simp add: accepted_def)

lemma own_steps_reach:
  assumes "trigger_inv s" "\<not> tr_done s" "tr_busy s \<longleftrightarrow> distance s \<noteq> 0"
  shows "\<exists>!t. own_steps (distance s) s t"
    and "own_steps (distance s) s t \<Longrightarrow> \<not> tr_busy t \<and> tr_loop t = Waiting \<and>
      tr_runs t = tr_runs s + (if 3 \<le> distance s then 1 else 0)"
proof -
  have "(\<exists>!t. own_steps (distance s) s t) \<and> (\<forall>t. own_steps (distance s) s t \<longrightarrow> \<not> tr_busy t \<and> tr_loop t = Waiting \<and>
      tr_runs t = tr_runs s + (if 3 \<le> distance s then 1 else 0))"
    using assms
  proof (induction "distance s" arbitrary: s)
    case 0
    then have "tr_loop s = Waiting"
      by (cases "tr_loop s") (auto simp: trigger_inv_def distance_def split: if_splits)
    with 0 show ?case by simp
  next
    case (Suc n)
    then have busy: "tr_busy s" by simp
    obtain u where u: "own_step s u" and only: "\<And>v. own_step s v \<Longrightarrow> v = u"
      using own_step_progress(1) [OF Suc.prems(1,2) busy] by blast
    note p = own_step_progress(2) [OF Suc.prems(1,2) busy u]
    then have n: "n = distance u" using Suc.hyps(2) by simp
    have "own_step s v \<longleftrightarrow> v = u" for v using u only by metis
    then have "own_steps (Suc (distance u)) s t \<longleftrightarrow> own_steps (distance u) u t" for t by simp
    then have steps: "own_steps (distance s) s t \<longleftrightarrow> own_steps (distance u) u t" for t
      using p by simp
    have "(\<exists>!t. own_steps (distance u) u t) \<and> (\<forall>t. own_steps (distance u) u t \<longrightarrow> \<not> tr_busy t \<and> tr_loop t = Waiting \<and>
      tr_runs t = tr_runs u + (if 3 \<le> distance u then 1 else 0))"
      using p by (intro Suc.hyps(1) [OF n]) auto
    with p show ?case unfolding steps by auto
  qed
  then show "\<exists>!t. own_steps (distance s) s t"
    and "own_steps (distance s) s t \<Longrightarrow> \<not> tr_busy t \<and> tr_loop t = Waiting \<and>
      tr_runs t = tr_runs s + (if 3 \<le> distance s then 1 else 0)" by blast+
qed

lemma inv_distance: "trigger_inv s \<Longrightarrow> tr_busy s \<longleftrightarrow> distance s \<noteq> 0"
  by (cases "tr_loop s") (auto simp: trigger_inv_def places_def distance_def split: if_splits)

text \<open>
  Liveness of manual collections: while the service runs, an accepted request that is not being
  collected yet is collected: the goroutines' own steps are forced, one at a time, and after exactly
  \<open>distance s\<close> of them (at most four) a collection has been started, has finished, and the
  trigger accepts requests again.
\<close>

theorem accepted_request_is_collected:
  assumes "reachable s" "\<not> tr_done s" "tr_sender s \<or> tr_wake s"
  shows "distance s \<le> 4 \<and> (\<exists>!t. own_steps (distance s) s t) \<and>
    (\<exists>t. own_steps (distance s) s t \<and> tr_runs t = Suc (tr_runs s) \<and> \<not> tr_busy t \<and> tr_loop t = Waiting)"
proof -
  have inv: "trigger_inv s" by (rule reachable_inv [OF assms(1)])
  have d: "3 \<le> distance s" "distance s \<le> 4" using assms(3) by (auto simp: distance_def)
  note r = own_steps_reach [OF inv assms(2) inv_distance [OF inv]]
  obtain t where t: "own_steps (distance s) s t" using r(1) by blast
  from r(2) [OF t] d(1) t have "tr_runs t = Suc (tr_runs s) \<and> \<not> tr_busy t \<and> tr_loop t = Waiting" by simp
  with t r(1) d(2) show ?thesis by blast
qed

theorem accepted_request_is_collected_witness:
  "\<exists>t. own_steps 4 accepted t \<and> tr_runs t = 1 \<and> \<not> tr_busy t"
proof -
  have "\<not> tr_done accepted" "tr_sender accepted \<or> tr_wake accepted" "distance accepted = 4" "tr_runs accepted = 0"
    by (simp_all add: accepted_def new_trigger_def distance_def)
  with accepted_request_is_collected [OF accepted_reachable] show ?thesis by auto
qed

end
