(* ===== verification/Json_Text.thy ===== *)
theory Json_Text
  imports Json Go_Utf8 "HOL-Library.Char_ord" "HOL-Library.List_Lexorder"
begin

text \<open>
  The text of JSON documents as package encoding/json reads and writes it: the scanner, the decoding
  of strings, the members and elements with their raw text (\<open>json.RawMessage\<close>), the value decoded into
  \<open>any\<close>, and \<open>json.Marshal\<close> with its HTML escapes and sorted map keys.
\<close>

section \<open>White space and strings\<close>

definition is_ws :: "char \<Rightarrow> bool" where
  "is_ws c \<longleftrightarrow> c \<in> {CHR 0x20, CHR 0x09, CHR 0x0A, CHR 0x0D}"

definition skip_ws :: "string \<Rightarrow> string" where
  "skip_ws s = dropWhile is_ws s"

abbreviation quotation_mark :: char where "quotation_mark \<equiv> CHR 0x22"
abbreviation backslash :: char where "backslash \<equiv> CHR 0x5C"

definition hex_val :: "char \<Rightarrow> nat option" where
  "hex_val c =
     (if 48 \<le> byte c \<and> byte c \<le> 57 then Some (byte c - 48)
      else if 97 \<le> byte c \<and> byte c \<le> 102 then Some (byte c - 87)
      else if 65 \<le> byte c \<and> byte c \<le> 70 then Some (byte c - 55)
      else None)"

text \<open>\<open>getu4\<close> after its backslash and \<open>u\<close>.\<close>

fun hex4 :: "string \<Rightarrow> nat option" where
  "hex4 (a # b # c # d # s) =
     (case (hex_val a, hex_val b, hex_val c, hex_val d) of
        (Some w, Some x, Some y, Some z) \<Rightarrow> Some (((w * 16 + x) * 16 + y) * 16 + z)
      | _ \<Rightarrow> None)"
| "hex4 s = None"

definition escape_chars :: string where
  "escape_chars = [CHR ''b'', CHR ''f'', CHR ''n'', CHR ''r'', CHR ''t'', backslash, CHR ''/'', quotation_mark]"

text \<open>The scanner after an opening quotation mark: the raw body, and what follows the closing one.\<close>

function scan_string :: "string \<Rightarrow> (string \<times> string) option" where
  "scan_string [] = None"
| "scan_string (c # s) =
     (if c = quotation_mark then Some ([], s)
      else if c = backslash then
        (case s of [] \<Rightarrow> None
         | e # t \<Rightarrow>
             if e \<in> set escape_chars then map_option (apfst (\<lambda>b. c # e # b)) (scan_string t)
             else if e = CHR ''u'' \<and> hex4 t \<noteq> None
               then map_option (apfst (\<lambda>b. c # e # take 4 t @ b)) (scan_string (drop 4 t))
             else None)
      else if byte c < 32 then None
      else map_option (apfst (\<lambda>b. c # b)) (scan_string s))"
  by pat_completeness auto
termination by (relation "measure length") auto

declare scan_string.simps(2) [simp del]

definition unescape :: "char \<Rightarrow> char" where
  "unescape e =
     (if e = CHR ''b'' then CHR 0x08 else if e = CHR ''f'' then CHR 0x0C else if e = CHR ''n'' then CHR 0x0A
      else if e = CHR ''r'' then CHR 0x0D else if e = CHR ''t'' then CHR 0x09 else e)"

definition is_surrogate :: "nat \<Rightarrow> bool" where
  "is_surrogate r \<longleftrightarrow> 55296 \<le> r \<and> r < 57344"

text \<open>\<open>utf16.DecodeRune\<close> of a first half and the escape that may follow it.\<close>

definition second_half :: "nat \<Rightarrow> string \<Rightarrow> nat option" where
  "second_half r s =
     (case s of
        b # u # t \<Rightarrow>
          if b = backslash \<and> u = CHR ''u'' then
            (case hex4 t of
               Some lo \<Rightarrow> if 55296 \<le> r \<and> r < 56320 \<and> 56320 \<le> lo \<and> lo < 57344
                          then Some (65536 + (r - 55296) * 1024 + (lo - 56320)) else None
             | None \<Rightarrow> None)
          else None
      | _ \<Rightarrow> None)"

function unquote :: "string \<Rightarrow> string" where
  "unquote [] = []"
| "unquote (c # s) =
     (if c = backslash then
        (case s of [] \<Rightarrow> []
         | e # t \<Rightarrow>
             if e = CHR ''u'' then
               (case hex4 t of None \<Rightarrow> []
                | Some r \<Rightarrow>
                   if is_surrogate r then
                     (case second_half r (drop 4 t) of
                        Some q \<Rightarrow> encode_rune q @ unquote (drop 10 t)
                      | None \<Rightarrow> encode_rune rune_error @ unquote (drop 4 t))
                   else encode_rune r @ unquote (drop 4 t))
             else unescape e # unquote t)
      else if byte c < 128 then c # unquote s
      else encode_rune (fst (decode_rune (c # s))) @ unquote (drop (snd (decode_rune (c # s)) - 1) s))"
  by pat_completeness auto
termination by (relation "measure length") auto

declare unquote.simps(2) [simp del]

section \<open>Values\<close>

definition leading_digits :: "string \<Rightarrow> string option" where
  "leading_digits s = (if s \<noteq> [] \<and> is_digit (hd s) then Some (dropWhile is_digit s) else None)"

text \<open>What follows a number literal.\<close>

definition after_int :: "string \<Rightarrow> string option" where
  "after_int s = (if s \<noteq> [] \<and> hd s = CHR ''0'' then Some (tl s) else leading_digits s)"

definition after_frac :: "string \<Rightarrow> string option" where
  "after_frac s = (if s \<noteq> [] \<and> hd s = CHR ''.'' then leading_digits (tl s) else Some s)"

definition after_sign :: "string \<Rightarrow> string" where
  "after_sign s = (if s \<noteq> [] \<and> (hd s = CHR ''+'' \<or> hd s = CHR ''-'') then tl s else s)"

definition after_exp :: "string \<Rightarrow> string option" where
  "after_exp s =
     (if s \<noteq> [] \<and> (hd s = CHR ''e'' \<or> hd s = CHR ''E'') then leading_digits (after_sign (tl s)) else Some s)"

definition after_minus :: "string \<Rightarrow> string" where
  "after_minus s = (if s \<noteq> [] \<and> hd s = CHR ''-'' then tl s else s)"

definition after_number :: "string \<Rightarrow> string option" where
  "after_number s =
     (case after_int (after_minus s) of None \<Rightarrow> None
      | Some r \<Rightarrow> (case after_frac r of None \<Rightarrow> None | Some r' \<Rightarrow> after_exp r'))"

text \<open>The part of \<open>s\<close> before its suffix \<open>r\<close>.\<close>

definition span :: "string \<Rightarrow> string \<Rightarrow> string" where
  "span s r = take (length s - length r) s"

definition literal :: "string \<Rightarrow> json \<Rightarrow> string \<Rightarrow> (json \<times> string) option" where
  "literal word v s = (if has_prefix s word then Some (v, drop (length word) s) else None)"

text \<open>The scanner and decoder with the fuel \<open>n\<close> and the nesting depth left \<open>d\<close>. Elements and members
  come with their raw text.\<close>

fun parse_value :: "nat \<Rightarrow> nat \<Rightarrow> string \<Rightarrow> (json \<times> string) option"
  and parse_elems :: "nat \<Rightarrow> nat \<Rightarrow> string \<Rightarrow> ((string \<times> json) list \<times> string) option"
  and parse_members :: "nat \<Rightarrow> nat \<Rightarrow> string \<Rightarrow> ((string \<times> string \<times> json) list \<times> string) option"
where
  "parse_value 0 d s = None"
| "parse_value (Suc n) d s =
     (case skip_ws s of [] \<Rightarrow> None
      | c # r \<Rightarrow>
          if c = quotation_mark then map_option (apfst (\<lambda>b. JStr (unquote b))) (scan_string r)
          else if c = CHR ''['' then
            (if d = 0 then None
             else if skip_ws r \<noteq> [] \<and> hd (skip_ws r) = CHR '']'' then Some (JArr [], tl (skip_ws r))
             else map_option (apfst (\<lambda>vs. JArr (map snd vs))) (parse_elems n (d - 1) r))
          else if c = CHR ''{'' then
            (if d = 0 then None
             else if skip_ws r \<noteq> [] \<and> hd (skip_ws r) = CHR ''}'' then Some (JObj [], tl (skip_ws r))
             else map_option (apfst (\<lambda>ms. JObj (map (\<lambda>(k, raw, v). (k, v)) ms))) (parse_members n (d - 1) r))
          else if c = CHR ''t'' then literal ''true'' (JBool True) (c # r)
          else if c = CHR ''f'' then literal ''false'' (JBool False) (c # r)
          else if c = CHR ''n'' then literal ''null'' JNull (c # r)
          else map_option (\<lambda>rest. (JNum (span (c # r) rest), rest)) (after_number (c # r)))"
| "parse_elems 0 d s = None"
| "parse_elems (Suc n) d s =
     (case parse_value n d s of None \<Rightarrow> None
      | Some (v, r) \<Rightarrow>
          (case skip_ws r of [] \<Rightarrow> None
           | c # t \<Rightarrow>
               if c = CHR '','' then map_option (apfst (\<lambda>vs. (span (skip_ws s) r, v) # vs)) (parse_elems n d t)
               else if c = CHR '']'' then Some ([(span (skip_ws s) r, v)], t)
               else None))"
| "parse_members 0 d s = None"
| "parse_members (Suc n) d s =
     (case skip_ws s of [] \<Rightarrow> None
      | q # r0 \<Rightarrow>
          if q \<noteq> quotation_mark then None
          else (case scan_string r0 of None \<Rightarrow> None
                | Some (k, r1) \<Rightarrow>
                    (case skip_ws r1 of [] \<Rightarrow> None
                     | c # r2 \<Rightarrow>
                         if c \<noteq> CHR '':'' then None
                         else (case parse_value n d r2 of None \<Rightarrow> None
                               | Some (v, r3) \<Rightarrow>
                                   (case skip_ws r3 of [] \<Rightarrow> None
                                    | e # t \<Rightarrow>
                                        if e = CHR '','' then
                                          map_option (apfst (\<lambda>ms. (unquote k, span (skip_ws r2) r3, v) # ms))
                                            (parse_members n d t)
                                        else if e = CHR ''}'' then Some ([(unquote k, span (skip_ws r2) r3, v)], t)
                                        else None)))))"

definition max_depth :: nat where
  "max_depth = 10000"

definition enough :: "string \<Rightarrow> nat" where
  "enough s = 2 * length s + 1"

definition json_doc :: "string \<Rightarrow> json option" where
  "json_doc s =
     (case parse_value (enough s) max_depth s of
        Some (v, r) \<Rightarrow> if skip_ws r = [] then Some v else None
      | None \<Rightarrow> None)"

text \<open>The elements of an array and the members of an object with their raw text, for a document
  that has been scanned.\<close>

definition raw_elems :: "string \<Rightarrow> string list option" where
  "raw_elems s =
     (case skip_ws s of [] \<Rightarrow> None
      | c # r \<Rightarrow>
          if c \<noteq> CHR ''['' then None
          else if skip_ws r \<noteq> [] \<and> hd (skip_ws r) = CHR '']'' then Some []
          else map_option (\<lambda>(vs, t). map fst vs) (parse_elems (enough s) max_depth r))"

definition raw_members :: "string \<Rightarrow> (string \<times> string) list option" where
  "raw_members s =
     (case skip_ws s of [] \<Rightarrow> None
      | c # r \<Rightarrow>
          if c \<noteq> CHR ''{'' then None
          else if skip_ws r \<noteq> [] \<and> hd (skip_ws r) = CHR ''}'' then Some []
          else map_option (\<lambda>(ms, t). map (\<lambda>(k, raw, v). (k, raw)) ms) (parse_members (enough s) max_depth r))"

section \<open>Decoding into any\<close>

text \<open>An object becomes a map: the last value of a key stays. A map is kept here as its members in the
  order of the keys, in which \<open>json.Marshal\<close> writes them.\<close>

fun put_member :: "string \<Rightarrow> json \<Rightarrow> (string \<times> json) list \<Rightarrow> (string \<times> json) list" where
  "put_member k v [] = [(k, v)]"
| "put_member k v ((a, b) # ps) =
     (if k < a then (k, v) # (a, b) # ps else if k = a then (k, v) # ps else (a, b) # put_member k v ps)"

definition as_map :: "(string \<times> json) list \<Rightarrow> (string \<times> json) list" where
  "as_map ms = foldl (\<lambda>ps (k, v). put_member k v ps) [] ms"

fun any_value :: "json \<Rightarrow> json" where
  "any_value (JArr vs) = JArr (map any_value vs)"
| "any_value (JObj ms) = JObj (as_map (map (\<lambda>(k, v). (k, any_value v)) ms))"
| "any_value v = v"

section \<open>Writing\<close>

definition hex_digit :: "nat \<Rightarrow> char" where
  "hex_digit n = (if n < 10 then char_of (48 + n) else char_of (87 + n))"

definition u_escape :: "nat \<Rightarrow> string" where
  "u_escape r = [backslash, CHR ''u'', hex_digit (r div 4096 mod 16), hex_digit (r div 256 mod 16),
     hex_digit (r div 16 mod 16), hex_digit (r mod 16)]"

definition escape_byte :: "char \<Rightarrow> string" where
  "escape_byte c =
     (if c = quotation_mark \<or> c = backslash then [backslash, c]
      else if c = CHR 0x08 then [backslash, CHR ''b''] else if c = CHR 0x0C then [backslash, CHR ''f'']
      else if c = CHR 0x0A then [backslash, CHR ''n''] else if c = CHR 0x0D then [backslash, CHR ''r'']
      else if c = CHR 0x09 then [backslash, CHR ''t'']
      else if byte c < 32 \<or> c = CHR ''<'' \<or> c = CHR ''>'' \<or> c = CHR ''&'' then u_escape (byte c)
      else [c])"

function quote_body :: "string \<Rightarrow> string" where
  "quote_body [] = []"
| "quote_body (c # s) =
     (if byte c < 128 then escape_byte c @ quote_body s
      else (case decode_rune (c # s) of (r, n) \<Rightarrow>
        if r = rune_error \<and> n = 1 then u_escape rune_error @ quote_body s
        else if r = 8232 \<or> r = 8233 then u_escape r @ quote_body (drop (n - 1) s)
        else take n (c # s) @ quote_body (drop (n - 1) s)))"
  by pat_completeness auto
termination by (relation "measure length") auto

declare quote_body.simps(2) [simp del]

definition json_quote :: "string \<Rightarrow> string" where
  "json_quote s = quotation_mark # quote_body s @ [quotation_mark]"

fun json_text :: "json \<Rightarrow> string" where
  "json_text JNull = ''null''"
| "json_text (JBool b) = (if b then ''true'' else ''false'')"
| "json_text (JNum s) = s"
| "json_text (JStr s) = json_quote s"
| "json_text (JArr vs) = CHR ''['' # str_join '','' (map json_text vs) @ '']''"
| "json_text (JObj ms) =
     CHR ''{'' # str_join '','' (map (\<lambda>(k, v). json_quote k @ CHR '':'' # json_text v) ms) @ ''}''"

lemma hex_val_digit: "n < 16 \<Longrightarrow> hex_val (hex_digit n) = Some n"
  by (auto simp: hex_val_def hex_digit_def byte_def)

end
