(* ===== verification/Json_Laws.thy ===== *)
theory Json_Laws
  imports Json_Text
begin

text \<open>
  Laws of the JSON text: a written document is read back as the value it was written from, and the
  fuel of the scanner is enough.
\<close>

section \<open>Runes\<close>

lemma char_of_byte [simp]: "char_of (byte c) = c"
  by (simp add: byte_def)

lemma mod64: "y < 64 \<Longrightarrow> (64 * x + y :: nat) div 64 = x" "y < 64 \<Longrightarrow> (64 * x + y :: nat) mod 64 = y"
  by simp_all

lemma encode_rune2:
  assumes "2 \<le> (x::nat)" "x \<le> 31" "y \<le> 63"
  shows "encode_rune (x * 64 + y) = [char_of (192 + x), char_of (128 + y)]" "valid_rune (x * 64 + y)"
  using assms by (simp_all add: encode_rune_def valid_rune_def)

lemma encode_rune3:
  assumes "x \<le> (15::nat)" "y \<le> 63" "z \<le> 63" "x = 0 \<longrightarrow> 32 \<le> y" "x = 13 \<longrightarrow> y \<le> 31"
  shows "encode_rune (x * 4096 + y * 64 + z) = [char_of (224 + x), char_of (128 + y), char_of (128 + z)]"
    "valid_rune (x * 4096 + y * 64 + z)"
proof -
  define R a where "R = 64 * a + z" and "a = 64 * x + y"
  have r: "x * 4096 + y * 64 + z = R" by (simp add: R_def a_def)
  have v: "valid_rune R" using assms unfolding valid_rune_def r [symmetric] by (cases "x = 13"; linarith)
  have b: "2048 \<le> R" "R < 65536" using assms unfolding r [symmetric] by (cases "x = 0"; linarith)+
  have lt: "z < 64" "y < 64" using assms by simp_all
  have d: "R div 64 = a" "R mod 64 = z" unfolding R_def by (rule mod64 [OF lt(1)])+
  have d2: "a div 64 = x" "a mod 64 = y" unfolding a_def by (rule mod64 [OF lt(2)])+
  have "R div 4096 = R div 64 div 64" by (simp add: div_mult2_eq [symmetric])
  then have q: "R div 4096 = x" unfolding d d2 .
  show "encode_rune (x * 4096 + y * 64 + z) = [char_of (224 + x), char_of (128 + y), char_of (128 + z)]"
    unfolding r using v b by (simp add: encode_rune_def d d2 q)
  show "valid_rune (x * 4096 + y * 64 + z)" unfolding r by (rule v)
qed

lemma encode_rune4:
  assumes "w \<le> (4::nat)" "x \<le> 63" "y \<le> 63" "z \<le> 63" "w = 0 \<longrightarrow> 16 \<le> x" "w = 4 \<longrightarrow> x \<le> 15"
  shows "encode_rune (w * 262144 + x * 4096 + y * 64 + z) =
      [char_of (240 + w), char_of (128 + x), char_of (128 + y), char_of (128 + z)]"
    "valid_rune (w * 262144 + x * 4096 + y * 64 + z)"
proof -
  define R a b where "R = 64 * a + z" and "a = 64 * b + y" and "b = 64 * w + x"
  have r: "w * 262144 + x * 4096 + y * 64 + z = R" by (simp add: R_def a_def b_def)
  have bd: "65536 \<le> R" "R \<le> 1114111" using assms unfolding r [symmetric] by (cases "w = 0"; cases "w = 4"; linarith)+
  then have v: "valid_rune R" by (simp add: valid_rune_def)
  have lt: "z < 64" "y < 64" "x < 64" using assms by simp_all
  have d: "R div 64 = a" "R mod 64 = z" unfolding R_def by (rule mod64 [OF lt(1)])+
  have d2: "a div 64 = b" "a mod 64 = y" unfolding a_def by (rule mod64 [OF lt(2)])+
  have d3: "b div 64 = w" "b mod 64 = x" unfolding b_def by (rule mod64 [OF lt(3)])+
  have "R div 4096 = R div 64 div 64" "R div 262144 = R div 64 div 64 div 64"
    by (simp_all add: div_mult2_eq [symmetric])
  then have q: "R div 4096 = b" "R div 262144 = w" unfolding d d2 d3 .
  show "encode_rune (w * 262144 + x * 4096 + y * 64 + z) =
      [char_of (240 + w), char_of (128 + x), char_of (128 + y), char_of (128 + z)]"
    unfolding r using v bd by (simp add: encode_rune_def d d2 d3 q)
  show "valid_rune (w * 262144 + x * 4096 + y * 64 + z)" unfolding r by (rule v)
qed

text \<open>Decoding loses nothing but invalid bytes.\<close>

lemma encode_decode_rune:
  assumes "s \<noteq> []" and "\<not> (fst (decode_rune s) = rune_error \<and> snd (decode_rune s) = 1)"
  shows "encode_rune (fst (decode_rune s)) = take (snd (decode_rune s)) s" "valid_rune (fst (decode_rune s))"
proof -
  obtain c cs where s: "s = c # cs" using assms(1) by (cases s) auto
  have "encode_rune (fst (decode_rune s)) = take (snd (decode_rune s)) s \<and> valid_rune (fst (decode_rune s))"
  proof (cases cs)
    case Nil
    with assms(2) show ?thesis
      by (auto simp: s decode_rune.simps Let_def encode_rune_def valid_rune_def split: if_splits)
  next
    case (Cons c1 cs1)
    consider (one) "byte c < 128"
      | (two) "194 \<le> byte c" "byte c \<le> 223" "cont_byte (byte c1)" "decode_rune s = ((byte c - 192) * 64 + (byte c1 - 128), 2)"
      | (three) c2 cs2 where "224 \<le> byte c" "byte c \<le> 239" "cs1 = c2 # cs2" "second_ok (byte c) (byte c1)" "cont_byte (byte c2)"
          "decode_rune s = ((byte c - 224) * 4096 + (byte c1 - 128) * 64 + (byte c2 - 128), 3)"
      | (four) c2 c3 cs2 where "240 \<le> byte c" "byte c \<le> 244" "cs1 = c2 # c3 # cs2" "second_ok (byte c) (byte c1)"
          "cont_byte (byte c2)" "cont_byte (byte c3)"
          "decode_rune s = ((byte c - 240) * 262144 + (byte c1 - 128) * 4096 + (byte c2 - 128) * 64 + (byte c3 - 128), 4)"
      using assms(2)
      by (cases cs1; cases "tl cs1") (auto simp: s Cons decode_rune.simps Let_def split: if_splits)
    then show ?thesis
    proof cases
      case one
      then show ?thesis by (simp add: s decode_rune.simps encode_rune_def valid_rune_def)
    next
      case two
      have "2 \<le> byte c - 192" "byte c - 192 \<le> 31" "byte c1 - 128 \<le> 63" using two(1-3) by (auto simp: cont_byte_def)
      note e = encode_rune2 [OF this]
      show ?thesis using e two by (simp add: s Cons cont_byte_def)
    next
      case three
      have "byte c - 224 \<le> 15" "byte c1 - 128 \<le> 63" "byte c2 - 128 \<le> 63" "byte c - 224 = 0 \<longrightarrow> 32 \<le> byte c1 - 128"
        "byte c - 224 = 13 \<longrightarrow> byte c1 - 128 \<le> 31"
        using three(1-5) by (auto simp: cont_byte_def second_ok_def split: if_splits)
      note e = encode_rune3 [OF this]
      have "128 \<le> byte c1" using three(1,2,4) by (auto simp: cont_byte_def second_ok_def split: if_splits)
      then show ?thesis using e three by (simp add: s Cons cont_byte_def)
    next
      case four
      have "byte c - 240 \<le> 4" "byte c1 - 128 \<le> 63" "byte c2 - 128 \<le> 63" "byte c3 - 128 \<le> 63"
        "byte c - 240 = 0 \<longrightarrow> 16 \<le> byte c1 - 128" "byte c - 240 = 4 \<longrightarrow> byte c1 - 128 \<le> 15"
        using four(1-6) by (auto simp: cont_byte_def second_ok_def split: if_splits)
      note e = encode_rune4 [OF this]
      have "128 \<le> byte c1" using four(1,2,4) by (auto simp: cont_byte_def second_ok_def split: if_splits)
      then show ?thesis using e four by (simp add: s Cons cont_byte_def)
    qed
  qed
  then show "encode_rune (fst (decode_rune s)) = take (snd (decode_rune s)) s" "valid_rune (fst (decode_rune s))" by auto
qed

section \<open>Strings\<close>

lemma hex4_digits:
  assumes "r < 65536"
  shows "hex4 (drop 2 (u_escape r) @ t) = Some r"
proof -
  have lt: "r div 4096 < 16" using assms by simp
  have "((r div 4096 * 16 + r div 256 mod 16) * 16 + r div 16 mod 16) * 16 + r mod 16 = r"
  proof -
    have "r div 256 = r div 16 div 16" "r div 4096 = r div 16 div 16 div 16" by (simp_all add: div_mult2_eq [symmetric])
    then show ?thesis by (simp add: mult.commute [of _ 16])
  qed
  then show ?thesis using lt by (simp add: u_escape_def hex_val_digit)
qed

lemma u_escape_Cons: "u_escape r = backslash # CHR ''u'' # drop 2 (u_escape r)" "length (drop 2 (u_escape r)) = 4"
  by (simp_all add: u_escape_def)

lemma u_not_escape: "CHR ''u'' \<notin> set escape_chars"
  by (simp add: escape_chars_def)

lemma scan_u_escape:
  "r < 65536 \<Longrightarrow> scan_string (u_escape r @ t) = map_option (apfst (\<lambda>b. u_escape r @ b)) (scan_string t)"
proof -
  assume r: "r < 65536"
  define h where "h = drop 2 (u_escape r)"
  have h: "u_escape r = backslash # CHR ''u'' # h" "length h = 4" "hex4 (h @ t) = Some r"
    using u_escape_Cons [of r] hex4_digits [OF r] by (simp_all add: h_def)
  show ?thesis unfolding h(1) by (simp add: scan_string.simps(2) u_not_escape h(2,3))
qed

lemma escape_byte_cases:
  assumes "byte c < 128"
  obtains (short) e where "escape_byte c = [backslash, e]" "e \<in> set escape_chars" "unescape e = c" "e \<noteq> CHR ''u''"
    | (u) "escape_byte c = u_escape (byte c)"
    | (plain) "escape_byte c = [c]" "c \<noteq> quotation_mark" "c \<noteq> backslash" "32 \<le> byte c"
proof (cases "c \<in> {quotation_mark, backslash, CHR 0x08, CHR 0x0C, CHR 0x0A, CHR 0x0D, CHR 0x09}")
  case True
  then show ?thesis by (auto intro!: short simp: escape_byte_def escape_chars_def unescape_def)
next
  case False
  then have "escape_byte c = (if byte c < 32 \<or> c = CHR ''<'' \<or> c = CHR ''>'' \<or> c = CHR ''&'' then u_escape (byte c) else [c])"
    by (simp add: escape_byte_def)
  with False show ?thesis using u plain by (auto split: if_splits)
qed

lemma scan_escape:
  assumes "byte c < 128"
  shows "scan_string (escape_byte c @ t) = map_option (apfst (\<lambda>b. escape_byte c @ b)) (scan_string t)"
  using assms
proof (cases rule: escape_byte_cases)
  case u
  then show ?thesis using assms by (simp add: scan_u_escape)
qed (simp_all add: scan_string.simps(2))

lemma scan_high:
  "list_all (\<lambda>c. 128 \<le> byte c) p \<Longrightarrow> scan_string (p @ t) = map_option (apfst (\<lambda>b. p @ b)) (scan_string t)"
proof (induction p)
  case (Cons c p)
  then have "c \<noteq> quotation_mark" "c \<noteq> backslash" by (auto simp: byte_def)
  with Cons show ?case by (simp add: scan_string.simps(2) option.map_comp comp_def apfst_compose)
qed (cases "scan_string t"; auto)

lemma decode_high:
  assumes "128 \<le> byte c" and "\<not> (fst (decode_rune (c # s)) = rune_error \<and> snd (decode_rune (c # s)) = 1)"
  shows "128 \<le> fst (decode_rune (c # s))"
    and "list_all (\<lambda>c. 128 \<le> byte c) (take (snd (decode_rune (c # s))) (c # s))"
proof -
  note e = encode_decode_rune [OF _ assms(2), simplified]
  show r: "128 \<le> fst (decode_rune (c # s))"
  proof (rule ccontr)
    assume "\<not> 128 \<le> fst (decode_rune (c # s))"
    then have "encode_rune (fst (decode_rune (c # s))) = [char_of (fst (decode_rune (c # s)))]"
      by (simp add: encode_rune_def valid_rune_def)
    with e(1) have "hd (take (snd (decode_rune (c # s))) (c # s)) = char_of (fst (decode_rune (c # s)))" by (metis list.sel(1))
    then have "c = char_of (fst (decode_rune (c # s)))"
      using decode_rune_size_pos [of "c # s"] by (cases "snd (decode_rune (c # s))") simp_all
    then have "byte c = byte (char_of (fst (decode_rune (c # s))))" by simp
    also have "\<dots> = fst (decode_rune (c # s))" using \<open>\<not> 128 \<le> fst (decode_rune (c # s))\<close> by simp
    finally have "byte c = fst (decode_rune (c # s))" .
    with assms(1) \<open>\<not> 128 \<le> fst (decode_rune (c # s))\<close> show False by simp
  qed
  show "list_all (\<lambda>c. 128 \<le> byte c) (take (snd (decode_rune (c # s))) (c # s))"
    unfolding e(1) [symmetric] list_all_iff using encode_rune_high [OF r] by blast
qed

lemma take_drop_Cons: "1 \<le> n \<Longrightarrow> take n (c # s) @ drop (n - 1) s = c # s"
  by (cases n) simp_all

lemma scan_quote: "scan_string (quote_body s @ quotation_mark # rest) = Some (quote_body s, rest)"
proof (induction s rule: quote_body.induct)
  case 1
  then show ?case by (simp add: scan_string.simps(2))
next
  case (2 c s)
  obtain r n where d: "decode_rune (c # s) = (r, n)" by fastforce
  show ?case
  proof (cases "byte c < 128")
    case True
    with 2(1) show ?thesis by (simp add: quote_body.simps(2) scan_escape)
  next
    case False
    show ?thesis
    proof (cases "r = rune_error \<and> n = 1")
      case True
      with 2(2) [OF False d [symmetric] True] False d show ?thesis
        by (simp add: quote_body.simps(2) scan_u_escape)
    next
      case ne: False
      show ?thesis
      proof (cases "r = 8232 \<or> r = 8233")
        case True
        with 2(3) [OF False d [symmetric] ne True] False d ne show ?thesis
          by (auto simp: quote_body.simps(2) scan_u_escape)
      next
        case sep: False
        have "list_all (\<lambda>c. 128 \<le> byte c) (take n (c # s))" using decode_high(2) [of c s] False ne d by simp
        moreover have "quote_body (c # s) = take n (c # s) @ quote_body (drop (n - 1) s)"
          unfolding quote_body.simps(2) d using False ne sep by (simp only: if_False prod.case)
        ultimately show ?thesis using 2(4) [OF False d [symmetric] ne sep]
          by (simp add: scan_high del: take_Suc_Cons)
      qed
    qed
  qed
qed

text \<open>What a string becomes on its way through JSON: invalid bytes turn into U+FFFD.\<close>

lemma valid_utf8_Cons:
  "valid_utf8 (c # s) \<longleftrightarrow> \<not> (fst (decode_rune (c # s)) = rune_error \<and> snd (decode_rune (c # s)) = 1) \<and>
     valid_utf8 (drop (snd (decode_rune (c # s)) - 1) s)"
proof -
  have "drop (snd (decode_rune (c # s))) (c # s) = drop (snd (decode_rune (c # s)) - 1) s"
    using decode_rune_size_pos [of "c # s"] by (cases "snd (decode_rune (c # s))") simp_all
  then show ?thesis by (simp add: valid_utf8_def runes_unfold [of "c # s"] case_prod_unfold)
qed

lemma unquote_u_escape:
  assumes "r < 65536" "\<not> is_surrogate r"
  shows "unquote (u_escape r @ t) = encode_rune r @ unquote t"
proof -
  define h where "h = drop 2 (u_escape r)"
  have h: "u_escape r = backslash # CHR ''u'' # h" "length h = 4" "hex4 (h @ t) = Some r"
    using u_escape_Cons [of r] hex4_digits [OF assms(1)] by (simp_all add: h_def)
  show ?thesis unfolding h(1) using assms(2) by (simp add: unquote.simps(2) h(2,3))
qed

lemma unquote_escape:
  assumes "byte c < 128"
  shows "unquote (escape_byte c @ t) = c # unquote t"
  using assms
proof (cases rule: escape_byte_cases)
  case u
  have "encode_rune (byte c) = [c]" using assms by (simp add: encode_rune_def valid_rune_def)
  moreover have "\<not> is_surrogate (byte c)" using assms by (simp add: is_surrogate_def)
  ultimately show ?thesis using assms unquote_u_escape [of "byte c" t] u by simp
qed (use assms in \<open>simp_all add: unquote.simps(2)\<close>)

lemma unquote_high:
  assumes "128 \<le> r" "valid_rune r"
  shows "unquote (encode_rune r @ t) = encode_rune r @ unquote t"
proof -
  obtain c p where c: "encode_rune r = c # p" by (cases "encode_rune r") auto
  then have high: "128 \<le> byte c" using encode_rune_high [OF assms(1), of c] by simp
  then have "c \<noteq> backslash" by (auto simp: byte_def)
  moreover have "decode_rune (c # p @ t) = (r, Suc (length p))" using decode_encode_rune [OF assms(2), of t] c by simp
  ultimately show ?thesis using high c by (simp add: unquote.simps(2))
qed

definition to_valid :: "string \<Rightarrow> string" where
  "to_valid s = concat (map (\<lambda>(r, n). encode_rune r) (runes s))"

lemma to_valid_Nil [simp]: "to_valid [] = []"
  by (simp add: to_valid_def)

lemma drop_decode: "drop (snd (decode_rune (c # s))) (c # s) = drop (snd (decode_rune (c # s)) - 1) s"
  using decode_rune_size_pos [of "c # s"] by (cases "snd (decode_rune (c # s))") simp_all

lemma to_valid_Cons:
  "decode_rune (c # s) = (r, n) \<Longrightarrow> to_valid (c # s) = encode_rune r @ to_valid (drop (n - 1) s)"
  using drop_decode [of c s] by (simp add: to_valid_def runes_unfold [of "c # s"])

lemma to_valid_valid: "valid_utf8 s \<Longrightarrow> to_valid s = s"
proof (induction s rule: quote_body.induct)
  case (2 c s)
  obtain r n where d: "decode_rune (c # s) = (r, n)" by fastforce
  from 2(5) d have ne: "\<not> (r = rune_error \<and> n = 1)" and v: "valid_utf8 (drop (n - 1) s)"
    by (simp_all add: valid_utf8_Cons)
  have n: "1 \<le> n" using decode_rune_size_pos [of "c # s"] d by simp
  have "to_valid (drop (n - 1) s) = drop (n - 1) s"
  proof (cases "byte c < 128")
    case True
    then have "n = 1" using d by (simp add: decode_rune.simps)
    with 2(1) [OF True] v show ?thesis by simp
  next
    case False
    then show ?thesis using 2(3) [OF False d [symmetric] ne _ v] 2(4) [OF False d [symmetric] ne _ v] by blast
  qed
  with encode_decode_rune(1) [of "c # s"] d ne take_drop_Cons [OF n, of c s] show ?case
    by (simp add: to_valid_Cons [OF d] del: take_Suc_Cons)
qed simp

lemma unquote_quote: "unquote (quote_body s) = to_valid s"
proof (induction s rule: quote_body.induct)
  case (2 c s)
  obtain r n where d: "decode_rune (c # s) = (r, n)" by fastforce
  note valid = to_valid_Cons [OF d]
  show ?case
  proof (cases "byte c < 128")
    case True
    then have "r = byte c" "n = 1" using d by (simp_all add: decode_rune.simps)
    moreover have "encode_rune (byte c) = [c]" using True by (simp add: encode_rune_def valid_rune_def)
    ultimately show ?thesis using True 2(1) by (simp add: quote_body.simps(2) unquote_escape valid)
  next
    case False
    show ?thesis
    proof (cases "r = rune_error \<and> n = 1")
      case True
      then have "quote_body (c # s) = u_escape rune_error @ quote_body s"
        unfolding quote_body.simps(2) d using False by simp
      moreover have "\<not> is_surrogate rune_error" by (simp add: is_surrogate_def)
      ultimately show ?thesis using 2(2) [OF False d [symmetric] True] True by (simp add: unquote_u_escape valid)
    next
      case ne: False
      have e: "encode_rune r = take n (c # s)" "valid_rune r" using encode_decode_rune [of "c # s"] d ne by simp_all
      have r: "128 \<le> r" using decode_high(1) [of c s] False ne d by simp
      show ?thesis
      proof (cases "r = 8232 \<or> r = 8233")
        case True
        then have u: "r < 65536" "\<not> is_surrogate r" by (auto simp: is_surrogate_def)
        have "quote_body (c # s) = u_escape r @ quote_body (drop (n - 1) s)"
          unfolding quote_body.simps(2) d using False ne True by (simp only: if_False if_True prod.case)
        with unquote_u_escape [OF u] 2(3) [OF False d [symmetric] ne True] show ?thesis by (simp add: valid)
      next
        case sep: False
        have "quote_body (c # s) = encode_rune r @ quote_body (drop (n - 1) s)"
          unfolding quote_body.simps(2) d e(1) using False ne sep by (simp only: if_False prod.case)
        with unquote_high [OF r e(2)] 2(4) [OF False d [symmetric] ne sep] show ?thesis by (simp add: valid)
      qed
    qed
  qed
qed simp

section \<open>Numbers\<close>

text \<open>What may follow a value inside a document.\<close>

definition delimited :: "string \<Rightarrow> bool" where
  "delimited s \<longleftrightarrow> s = [] \<or> hd s = CHR '','' \<or> hd s = CHR '']'' \<or> hd s = CHR ''}''"

lemma delimited_simps [simp]:
  "delimited []" "delimited (CHR '','' # s)" "delimited (CHR '']'' # s)" "delimited (CHR ''}'' # s)"
  by (simp_all add: delimited_def)

lemma delimited_drop: "delimited s \<Longrightarrow> dropWhile is_digit s = s"
  by (cases s) (auto simp: delimited_def is_digit_def)

lemma dropWhile_delimited: "delimited t \<Longrightarrow> dropWhile is_digit (s @ t) = dropWhile is_digit s @ t"
  by (induction s) (auto simp: delimited_drop)

lemma leading_digits_append: "leading_digits s = Some r \<Longrightarrow> delimited t \<Longrightarrow> leading_digits (s @ t) = Some (r @ t)"
  by (cases s) (auto simp: leading_digits_def dropWhile_delimited split: if_splits)

lemma after_int_append: "after_int s = Some r \<Longrightarrow> delimited t \<Longrightarrow> after_int (s @ t) = Some (r @ t)"
  using leading_digits_append [of s r t]
  by (cases s) (auto simp: after_int_def leading_digits_def split: if_splits)

lemma after_frac_append: "after_frac s = Some r \<Longrightarrow> delimited t \<Longrightarrow> after_frac (s @ t) = Some (r @ t)"
  using leading_digits_append [of "tl s" r t]
  by (cases s) (auto simp: after_frac_def delimited_def split: if_splits)

lemma after_exp_append: "after_exp s = Some r \<Longrightarrow> delimited t \<Longrightarrow> after_exp (s @ t) = Some (r @ t)"
proof (cases "s \<noteq> [] \<and> (hd s = CHR ''e'' \<or> hd s = CHR ''E'')")
  case True
  assume a: "after_exp s = Some r" "delimited t"
  then have "leading_digits (after_sign (tl s)) = Some r" using True by (simp add: after_exp_def)
  then have "leading_digits (after_sign (tl s) @ t) = Some (r @ t)" "after_sign (tl s) \<noteq> []"
    using a(2) by (auto simp: leading_digits_append) (auto simp: leading_digits_def)
  moreover from this(2) have "after_sign (tl s @ t) = after_sign (tl s) @ t"
    by (cases "tl s") (auto simp: after_sign_def split: if_splits)
  ultimately show ?thesis using True by (cases s) (auto simp: after_exp_def)
qed (cases s; auto simp: after_exp_def delimited_def)

lemma after_number_append:
  assumes "after_number s = Some []" "delimited t"
  shows "after_number (s @ t) = Some t"
proof -
  obtain r r' where r: "after_int (after_minus s) = Some r" "after_frac r = Some r'" "after_exp r' = Some []"
    using assms(1) by (auto simp: after_number_def split: option.splits)
  then have "after_minus s \<noteq> []" by (auto simp: after_int_def leading_digits_def split: if_splits)
  then have "after_minus (s @ t) = after_minus s @ t" by (cases s) (auto simp: after_minus_def split: if_splits)
  with after_int_append [OF r(1) assms(2)] after_frac_append [OF r(2) assms(2)] after_exp_append [OF r(3) assms(2)]
  show ?thesis by (simp add: after_number_def)
qed

lemma after_number_head:
  assumes "after_number s = Some r"
  obtains c t where "s = c # t" "c = CHR ''-'' \<or> is_digit c"
  using assms
  by (cases s) (auto simp: after_number_def after_int_def after_minus_def leading_digits_def is_digit_def
      split: if_splits option.splits)

section \<open>Reading back\<close>

fun json_depth :: "json \<Rightarrow> nat" where
  "json_depth (JArr vs) = Suc (foldr (\<lambda>v m. max (json_depth v) m) vs 0)"
| "json_depth (JObj ms) = Suc (foldr (\<lambda>(k, v) m. max (json_depth v) m) ms 0)"
| "json_depth v = 0"

fun json_wf :: "json \<Rightarrow> bool" where
  "json_wf (JNum s) = (after_number s = Some [])"
| "json_wf (JArr vs) = list_all json_wf vs"
| "json_wf (JObj ms) = list_all (\<lambda>(k, v). json_wf v) ms"
| "json_wf v = True"

text \<open>The value a document is read back as.\<close>

fun json_valid :: "json \<Rightarrow> json" where
  "json_valid (JStr s) = JStr (to_valid s)"
| "json_valid (JArr vs) = JArr (map json_valid vs)"
| "json_valid (JObj ms) = JObj (map (\<lambda>(k, v). (to_valid k, json_valid v)) ms)"
| "json_valid v = v"

lemma depth_elem: "v \<in> set vs \<Longrightarrow> json_depth v \<le> foldr (\<lambda>v m. max (json_depth v) m) vs 0"
  by (induction vs) auto

lemma depth_member: "(k, v) \<in> set ms \<Longrightarrow> json_depth v \<le> foldr (\<lambda>(k, v) m. max (json_depth v) m) ms 0"
  by (induction ms) auto

lemma json_text_head:
  assumes "json_wf v"
  obtains c t where "json_text v = c # t" "\<not> is_ws c" "c \<noteq> CHR '']''"
proof (cases v)
  case (JNum s)
  with assms obtain c t where "s = c # t" "c = CHR ''-'' \<or> is_digit c" by (auto elim: after_number_head)
  then have "\<not> is_ws c" "c \<noteq> CHR '']''" by (auto simp: is_ws_def is_digit_def)
  with JNum \<open>s = c # t\<close> that show ?thesis by simp
next
  case (JBool b)
  with that show ?thesis by (cases b) (auto simp: is_ws_def)
qed (use that in \<open>auto simp: json_quote_def is_ws_def\<close>)

lemma skip_ws_text: "json_wf v \<Longrightarrow> skip_ws (json_text v @ t) = json_text v @ t"
  by (erule json_text_head [of v]) (simp add: skip_ws_def)

lemma skip_ws_delimited: "delimited t \<Longrightarrow> skip_ws t = t"
  by (cases t) (auto simp: delimited_def skip_ws_def is_ws_def)

lemma skip_ws_marks [simp]:
  "skip_ws [] = []"
  "skip_ws (CHR '','' # s) = CHR '','' # s" "skip_ws (CHR '':'' # s) = CHR '':'' # s"
  "skip_ws (CHR '']'' # s) = CHR '']'' # s" "skip_ws (CHR ''}'' # s) = CHR ''}'' # s"
  "skip_ws (quotation_mark # s) = quotation_mark # s"
  by (simp_all add: skip_ws_def is_ws_def)

lemma span_append [simp]: "span (s @ t) t = s"
  by (simp add: span_def)

lemma scan_json_quote: "scan_string (quote_body s @ quotation_mark # t) = Some (quote_body s, t)"
  by (rule scan_quote)

definition reads_back :: "json \<Rightarrow> bool" where
  "reads_back v \<longleftrightarrow> (\<forall>n d t. json_depth v \<le> d \<longrightarrow> length (json_text v) \<le> n \<longrightarrow> delimited t \<longrightarrow>
     parse_value n d (json_text v @ t) = Some (json_valid v, t))"

lemma parse_elems_text:
  assumes "vs \<noteq> []" "\<forall>v \<in> set vs. json_wf v \<and> json_depth v \<le> d \<and> reads_back v"
    and "length (str_join '','' (map json_text vs)) < n"
  shows "parse_elems n d (str_join '','' (map json_text vs) @ CHR '']'' # t) = Some (map (\<lambda>v. (json_text v, json_valid v)) vs, t)"
  using assms
proof (induction vs arbitrary: n)
  case (Cons v vs)
  then obtain m where n: "n = Suc m" by (cases n) auto
  have v: "json_wf v" "json_depth v \<le> d" "reads_back v" using Cons.prems(2) by auto
  show ?case
  proof (cases vs)
    case Nil
    have "parse_value m d (json_text v @ CHR '']'' # t) = Some (json_valid v, CHR '']'' # t)"
      using v Cons.prems(3) Nil by (simp add: reads_back_def n)
    with v(1) show ?thesis by (simp add: n Nil skip_ws_text)
  next
    case (Cons w ws)
    let ?rest = "str_join '','' (map json_text vs) @ CHR '']'' # t"
    have joined: "str_join '','' (map json_text (v # vs)) @ CHR '']'' # t = json_text v @ CHR '','' # ?rest"
      by (simp add: Cons)
    have len: "length (json_text v) \<le> m" "length (str_join '','' (map json_text vs)) < m"
      using Cons.prems(3) by (simp_all add: n Cons)
    have pv: "parse_value m d (json_text v @ CHR '','' # ?rest) = Some (json_valid v, CHR '','' # ?rest)"
      using v len(1) by (simp add: reads_back_def)
    have pe: "parse_elems m d ?rest = Some (map (\<lambda>v. (json_text v, json_valid v)) vs, t)"
      by (rule Cons.IH) (use Cons.prems(2) len(2) Cons in auto)
    show ?thesis unfolding joined n parse_elems.simps(2) pv using v(1)
      by (simp add: skip_ws_delimited skip_ws_text pe)
  qed
qed simp

lemma parse_members_text:
  assumes "ms \<noteq> []" "\<forall>(k, v) \<in> set ms. json_wf v \<and> json_depth v \<le> d \<and> reads_back v"
    and "length (str_join '','' (map (\<lambda>(k, v). json_quote k @ CHR '':'' # json_text v) ms)) < n"
  shows "parse_members n d (str_join '','' (map (\<lambda>(k, v). json_quote k @ CHR '':'' # json_text v) ms) @ CHR ''}'' # t) =
    Some (map (\<lambda>(k, v). (to_valid k, json_text v, json_valid v)) ms, t)"
  using assms
proof (induction ms arbitrary: n)
  case (Cons kv ms)
  obtain k v where kv: "kv = (k, v)" by fastforce
  obtain m where n: "n = Suc m" using Cons.prems(3) by (cases n) auto
  have v: "json_wf v" "json_depth v \<le> d" "reads_back v" using Cons.prems(2) by (auto simp: kv)
  have head: "parse_members n d (json_quote k @ CHR '':'' # json_text v @ e # t') =
      (if e = CHR '','' then map_option (apfst (\<lambda>ms. (to_valid k, json_text v, json_valid v) # ms)) (parse_members m d t')
       else if e = CHR ''}'' then Some ([(to_valid k, json_text v, json_valid v)], t') else None)"
    if "e = CHR '','' \<or> e = CHR ''}''" "length (json_text v) \<le> m" for e t'
  proof -
    have pv: "parse_value m d (json_text v @ e # t') = Some (json_valid v, e # t')" using v that by (auto simp: reads_back_def)
    have "skip_ws (e # t') = e # t'" by (rule skip_ws_delimited) (use that(1) in auto)
    moreover have "json_quote k @ CHR '':'' # json_text v @ e # t' =
        quotation_mark # quote_body k @ quotation_mark # CHR '':'' # json_text v @ e # t'" by (simp add: json_quote_def)
    ultimately show ?thesis using v(1) that(1) unfolding n
      by (simp only: parse_members.simps) (auto simp: skip_ws_text scan_json_quote unquote_quote pv)
  qed
  show ?case
  proof (cases ms)
    case Nil
    with head [of "CHR ''}''" t] Cons.prems(3) show ?thesis by (simp add: kv n)
  next
    case (Cons x xs)
    let ?rest = "str_join '','' (map (\<lambda>(k, v). json_quote k @ CHR '':'' # json_text v) ms)"
    have joined: "str_join '','' (map (\<lambda>(k, v). json_quote k @ CHR '':'' # json_text v) (kv # ms)) @ CHR ''}'' # t =
        json_quote k @ CHR '':'' # json_text v @ CHR '','' # ?rest @ CHR ''}'' # t"
      by (simp add: kv Cons)
    have len: "length (json_text v) \<le> m" "length ?rest < m"
      using Cons.prems(3) by (simp_all add: n kv Cons)
    have pm: "parse_members m d (?rest @ CHR ''}'' # t) = Some (map (\<lambda>(k, v). (to_valid k, json_text v, json_valid v)) ms, t)"
      by (rule Cons.IH) (use Cons.prems(2) len(2) Cons in auto)
    show ?thesis unfolding joined using head [of "CHR '',''" "?rest @ CHR ''}'' # t"] len(1) pm by (simp add: kv)
  qed
qed simp

lemma str_join_head: "xs \<noteq> [] \<Longrightarrow> hd xs = c # t \<Longrightarrow> \<exists>t'. str_join sep xs = c # t'"
  by (induction sep xs rule: str_join.induct) auto

lemma literal_append [simp]: "literal word v (word @ t) = Some (v, t)"
  by (simp add: literal_def has_prefix_def)

lemma reads_back: "json_wf v \<Longrightarrow> reads_back v"
proof (induction v)
  case (JNum s)
  then have num: "after_number s = Some []" by simp
  then obtain c u where s: "s = c # u" "c = CHR ''-'' \<or> is_digit c" by (rule after_number_head)
  then have c: "\<not> is_ws c" "c \<notin> {quotation_mark, CHR ''['', CHR ''{'', CHR ''t'', CHR ''f'', CHR ''n''}"
    by (auto simp: is_ws_def is_digit_def)
  show ?case unfolding reads_back_def
  proof (intro allI impI)
    fix n d t assume n: "length (json_text (JNum s)) \<le> n" and t: "delimited t"
    from n obtain m where m: "n = Suc m" using s by (cases n) auto
    have "after_number (c # u @ t) = Some t" using after_number_append [OF num t] s(1) by simp
    moreover have "span (c # u @ t) t = s" using span_append [of s t] s(1) by simp
    ultimately show "parse_value n d (json_text (JNum s) @ t) = Some (json_valid (JNum s), t)"
      using c by (simp add: m s(1) skip_ws_def)
  qed
next
  case (JStr s)
  show ?case unfolding reads_back_def
  proof (intro allI impI)
    fix n d t assume "length (json_text (JStr s)) \<le> n"
    then obtain m where "n = Suc m" by (cases n) (auto simp: json_quote_def)
    with JStr show "parse_value n d (json_text (JStr s) @ t) = Some (json_valid (JStr s), t)"
      by (simp add: json_quote_def scan_json_quote unquote_quote)
  qed
next
  case (JArr vs)
  show ?case unfolding reads_back_def
  proof (intro allI impI)
    fix n d t assume d: "json_depth (JArr vs) \<le> d" and n: "length (json_text (JArr vs)) \<le> n"
    from n obtain m where m: "n = Suc m" by (cases n) auto
    from d obtain d' where d': "d = Suc d'" by (cases d) auto
    show "parse_value n d (json_text (JArr vs) @ t) = Some (json_valid (JArr vs), t)"
    proof (cases "vs = []")
      case True
      then show ?thesis by (simp add: m d' skip_ws_def is_ws_def)
    next
      case False
      then obtain v where v: "v = hd vs" "v \<in> set vs" by simp
      then have "json_wf v" using JArr.prems by (auto simp: list_all_iff)
      then obtain c u where cu: "json_text v = c # u" "\<not> is_ws c" "c \<noteq> CHR '']''" by (rule json_text_head)
      then obtain u' where head: "str_join '','' (map json_text vs) = c # u'"
        using str_join_head [of "map json_text vs" c u "'',''"] False v by (auto simp: hd_map)
      have "parse_elems m d' (str_join '','' (map json_text vs) @ CHR '']'' # t) = Some (map (\<lambda>v. (json_text v, json_valid v)) vs, t)"
      proof (rule parse_elems_text)
        show "\<forall>v \<in> set vs. json_wf v \<and> json_depth v \<le> d' \<and> reads_back v"
          using JArr d depth_elem [of _ vs] by (fastforce simp: d' list_all_iff)
      qed (use False n in \<open>auto simp: m\<close>)
      with head cu show ?thesis by (simp add: m d' skip_ws_def is_ws_def comp_def)
    qed
  qed
next
  case (JObj ms)
  let ?texts = "map (\<lambda>(k, v). json_quote k @ CHR '':'' # json_text v) ms"
  show ?case unfolding reads_back_def
  proof (intro allI impI)
    fix n d t assume d: "json_depth (JObj ms) \<le> d" and n: "length (json_text (JObj ms)) \<le> n"
    from n obtain m where m: "n = Suc m" by (cases n) auto
    from d obtain d' where d': "d = Suc d'" by (cases d) auto
    show "parse_value n d (json_text (JObj ms) @ t) = Some (json_valid (JObj ms), t)"
    proof (cases "ms = []")
      case True
      then show ?thesis by (simp add: m d' skip_ws_def is_ws_def)
    next
      case False
      then obtain k v ms' where "ms = (k, v) # ms'" by (cases ms) auto
      then obtain u' where head: "str_join '','' ?texts = quotation_mark # u'"
        using str_join_head [of ?texts quotation_mark _ "'',''"] by (auto simp: json_quote_def)
      have "parse_members m d' (str_join '','' ?texts @ CHR ''}'' # t) = Some (map (\<lambda>(k, v). (to_valid k, json_text v, json_valid v)) ms, t)"
      proof (rule parse_members_text)
        show "\<forall>(k, v) \<in> set ms. json_wf v \<and> json_depth v \<le> d' \<and> reads_back v"
          using JObj d depth_member [of _ _ ms] by (fastforce simp: d' list_all_iff)
      qed (use False n in \<open>auto simp: m\<close>)
      moreover have "map ((\<lambda>(k, raw, v). (k, v)) \<circ> (\<lambda>(k, v). (to_valid k, json_text v, json_valid v))) ms =
          map (\<lambda>(k, v). (to_valid k, json_valid v)) ms"
        by (simp add: comp_def case_prod_unfold)
      ultimately show ?thesis using head by (simp add: m d' skip_ws_def is_ws_def)
    qed
  qed
next
  case (JBool b)
  have "parse_value n d (json_text (JBool b) @ t) = Some (JBool b, t)" if "length (json_text (JBool b)) \<le> n" for n d t
    using that by (cases n; cases b) (simp_all add: skip_ws_def is_ws_def literal_def has_prefix_def)
  then show ?case by (simp add: reads_back_def)
next
  case JNull
  have "parse_value n d (json_text JNull @ t) = Some (JNull, t)" if "length (json_text JNull) \<le> n" for n d t
    using that by (cases n) (simp_all add: skip_ws_def is_ws_def literal_def has_prefix_def)
  then show ?case by (simp add: reads_back_def)
qed

theorem json_doc_text:
  assumes "json_wf v" "json_depth v \<le> max_depth"
  shows "json_doc (json_text v) = Some (json_valid v)"
proof -
  have "length (json_text v) \<le> enough (json_text v)" by (simp add: enough_def)
  then have "parse_value (enough (json_text v)) max_depth (json_text v @ []) = Some (json_valid v, [])"
    using reads_back [OF assms(1)] assms(2) unfolding reads_back_def by (metis delimited_simps(1))
  then show ?thesis by (simp add: json_doc_def del: parse_value.simps)
qed

section \<open>The fuel is enough\<close>

lemma scan_string_shorter: "scan_string s = Some (b, r) \<Longrightarrow> length r < length s"
proof (induction s arbitrary: b rule: scan_string.induct)
  case (2 c s)
  show ?case
  proof (cases "c = quotation_mark")
    case nq: False
    show ?thesis
    proof (cases "c = backslash")
      case True
      with 2(4) obtain e t where s: "s = e # t" by (cases s) (auto simp: scan_string.simps(2))
      show ?thesis
      proof (cases "e \<in> set escape_chars")
        case True
        with 2(4) nq \<open>c = backslash\<close> s obtain b' where "scan_string t = Some (b', r)"
          by (auto simp: scan_string.simps(2) split: if_splits)
        from 2(1) [OF nq \<open>c = backslash\<close> s True this] show ?thesis by (simp add: s)
      next
        case False
        with 2(4) nq \<open>c = backslash\<close> s obtain b' where "e = CHR ''u'' \<and> hex4 t \<noteq> None" "scan_string (drop 4 t) = Some (b', r)"
          by (auto simp: scan_string.simps(2) split: if_splits)
        from 2(2) [OF nq \<open>c = backslash\<close> s False this] show ?thesis by (simp add: s)
      qed
    next
      case False
      with 2(4) nq obtain b' where "\<not> byte c < 32" "scan_string s = Some (b', r)"
        by (auto simp: scan_string.simps(2) split: if_splits)
      from 2(3) [OF nq False this] show ?thesis by simp
    qed
  qed (use 2(4) in \<open>simp add: scan_string.simps(2)\<close>)
qed simp

lemma length_skip_ws: "length (skip_ws s) \<le> length s"
  by (simp add: skip_ws_def length_dropWhile_le)

lemma skip_ws_Cons_shorter: "skip_ws s = c # t \<Longrightarrow> length t < length s"
  using length_skip_ws [of s] by simp

lemma after_number_shorter: "after_number s = Some r \<Longrightarrow> length r < length s"
proof -
  have digits: "leading_digits s = Some r \<Longrightarrow> length r < length s" for s r
    by (cases s) (auto simp: leading_digits_def le_imp_less_Suc length_dropWhile_le split: if_splits)
  have sign: "length (after_sign s) \<le> length s" "length (after_minus s) \<le> length s" for s
    by (simp_all add: after_sign_def after_minus_def)
  have int: "after_int s = Some r \<Longrightarrow> length r < length s" for s r
    using digits [of s r] by (cases s) (auto simp: after_int_def split: if_splits)
  have frac: "after_frac s = Some r \<Longrightarrow> length r \<le> length s" for s r
    using digits [of "tl s" r] by (cases s) (auto simp: after_frac_def split: if_splits)
  have exp: "after_exp s = Some r \<Longrightarrow> length r \<le> length s" for s r
    using digits [of "after_sign (tl s)" r] sign(1) [of "tl s"] by (cases s) (auto simp: after_exp_def split: if_splits)
  assume "after_number s = Some r"
  then obtain u w where "after_int (after_minus s) = Some u" "after_frac u = Some w" "after_exp w = Some r"
    by (auto simp: after_number_def split: option.splits)
  with int frac exp sign(2) [of s] show ?thesis by (meson le_less_trans less_le_trans)
qed

lemma literal_shorter: "literal word v s = Some (w, r) \<Longrightarrow> word \<noteq> [] \<Longrightarrow> length r < length s"
  by (cases s; cases word) (auto simp: literal_def has_prefix_def split: if_splits)

lemma parse_shorter:
  "parse_value n d s = Some (v, r) \<Longrightarrow> length r < length s"
  "parse_elems n d s = Some (vs, r) \<Longrightarrow> length r < length s"
  "parse_members n d s = Some (ms, r) \<Longrightarrow> length r < length s"
proof (induction n d s and n d s and n d s arbitrary: v r and vs r and ms r rule: parse_value_parse_elems_parse_members.induct)
  case (2 n d s)
  then obtain c t where s: "skip_ws s = c # t" by (cases "skip_ws s") auto
  note t = skip_ws_Cons_shorter [OF s]
  have "length r < length (c # t)"
    using 2(3) length_skip_ws [of t] 2(1,2) [OF s]
    by (auto simp: s split: if_splits dest!: scan_string_shorter after_number_shorter literal_shorter intro: less_SucI)
  with t show ?case by simp
next
  case (4 n d s)
  then obtain v u where v: "parse_value n d s = Some (v, u)" by (auto split: option.splits)
  with 4(3) obtain c t where u: "skip_ws u = c # t" by (auto split: list.splits)
  have "length u < length s" by (rule 4(1) [OF v])
  moreover have "length r \<le> length t"
    using 4(3) v u 4(2) [OF v refl u] by (auto split: if_splits intro: less_imp_le)
  ultimately show ?case using skip_ws_Cons_shorter [OF u] by linarith
next
  case (6 n d s)
  then obtain q r0 where q: "skip_ws s = q # r0" "q = quotation_mark" by (auto split: list.splits if_splits)
  with 6(3) obtain k r1 where k: "scan_string r0 = Some (k, r1)" by (auto split: option.splits)
  with 6(3) q obtain r2 where c: "skip_ws r1 = CHR '':'' # r2" by (auto split: list.splits if_splits)
  with 6(3) q k obtain v r3 where v: "parse_value n d r2 = Some (v, r3)" by (auto split: option.splits)
  with 6(3) q k c obtain e t where e: "skip_ws r3 = e # t" by (auto split: list.splits)
  have "length r3 < length r2" using 6(1) [OF q(1) _ k refl c _ v] q by simp
  moreover have "length r \<le> length t"
    using 6(3) q k c v e 6(2) [OF q(1) _ k refl c _ v refl e] by (auto split: if_splits intro: less_imp_le)
  ultimately show ?case
    using skip_ws_Cons_shorter [OF q(1)] skip_ws_Cons_shorter [OF c] skip_ws_Cons_shorter [OF e] scan_string_shorter [OF k]
    by linarith
qed simp_all

text \<open>From twice the length of the input on, the fuel makes no difference.\<close>

lemma fuel_enough:
  "(2 * length s + 1 \<le> n \<longrightarrow> 2 * length s + 1 \<le> m \<longrightarrow> parse_value n d s = parse_value m d s) \<and>
   (2 * length s + 2 \<le> n \<longrightarrow> 2 * length s + 2 \<le> m \<longrightarrow> parse_elems n d s = parse_elems m d s) \<and>
   (2 * length s + 2 \<le> n \<longrightarrow> 2 * length s + 2 \<le> m \<longrightarrow> parse_members n d s = parse_members m d s)"
proof (induction n arbitrary: m d s)
  case (Suc n)
  have vals: "parse_value (Suc n) d s = parse_value m d s" if le: "2 * length s + 1 \<le> Suc n" "2 * length s + 1 \<le> m"
  proof (cases "skip_ws s")
    case Nil
    with le show ?thesis by (cases m) simp_all
  next
    case (Cons c r)
    obtain m' where m: "m = Suc m'" using le by (cases m) auto
    have "length r < length s" using skip_ws_Cons_shorter [OF Cons] .
    then have "parse_elems n (d - 1) r = parse_elems m' (d - 1) r" "parse_members n (d - 1) r = parse_members m' (d - 1) r"
      using Suc.IH [of r m' "d - 1"] le by (simp_all add: m)
    then show ?thesis unfolding m parse_value.simps(2) Cons list.case by (simp only:)
  qed
  have elems: "parse_elems (Suc n) d s = parse_elems m d s" if le: "2 * length s + 2 \<le> Suc n" "2 * length s + 2 \<le> m"
  proof -
    obtain m' where m: "m = Suc m'" using le by (cases m) auto
    have v: "parse_value n d s = parse_value m' d s" using Suc.IH [of s m' d] le by (simp add: m)
    have "parse_elems n d t = parse_elems m' d t" if "parse_value m' d s = Some (x, r)" "skip_ws r = c # t" for x r c t
      using Suc.IH [of t m' d] parse_shorter(1) [OF that(1)] skip_ws_Cons_shorter [OF that(2)] le by (simp add: m)
    then show ?thesis unfolding m parse_elems.simps(2) v by (auto split: option.splits list.splits)
  qed
  have members: "parse_members (Suc n) d s = parse_members m d s" if le: "2 * length s + 2 \<le> Suc n" "2 * length s + 2 \<le> m"
  proof -
    obtain m' where m: "m = Suc m'" using le by (cases m) auto
    have v: "parse_value n d r2 = parse_value m' d r2 \<and>
        (\<forall>x r3 e t. parse_value m' d r2 = Some (x, r3) \<longrightarrow> skip_ws r3 = e # t \<longrightarrow> parse_members n d t = parse_members m' d t)"
      if "skip_ws s = q # r0" "scan_string r0 = Some (k, r1)" "skip_ws r1 = c # r2" for q r0 k r1 c r2
    proof -
      have r2: "length r2 < length s"
        using skip_ws_Cons_shorter [OF that(1)] scan_string_shorter [OF that(2)] skip_ws_Cons_shorter [OF that(3)] by linarith
      have "parse_members n d t = parse_members m' d t" if "parse_value m' d r2 = Some (x, r3)" "skip_ws r3 = e # t" for x r3 e t
        using Suc.IH [of t m' d] parse_shorter(1) [OF that(1)] skip_ws_Cons_shorter [OF that(2)] r2 le by (simp add: m)
      with Suc.IH [of r2 m' d] r2 le show ?thesis by (auto simp: m)
    qed
    show ?thesis unfolding m parse_members.simps(2)
      by (intro option.case_cong list.case_cong prod.case_cong if_cong refl) (use v in auto)
  qed
  show ?case using vals elems members by blast
qed simp_all

text \<open>
  What the scanner accepts can be written again: its numbers are literals and its nesting is within
  the depth it was given, also after decoding into \<open>any\<close>.
\<close>

section \<open>Number literals\<close>

definition no_digit :: "string \<Rightarrow> bool" where
  "no_digit s \<longleftrightarrow> s = [] \<or> \<not> is_digit (hd s)"

lemma leading_digits_split:
  assumes "leading_digits s = Some r"
  obtains p where "s = p @ r" "p \<noteq> []" "\<forall>t. no_digit t \<longrightarrow> leading_digits (p @ t) = Some t"
proof -
  have s: "s \<noteq> []" "is_digit (hd s)" "r = dropWhile is_digit s"
    using assms by (auto simp: leading_digits_def split: if_splits)
  have "leading_digits (takeWhile is_digit s @ t) = Some t" if "no_digit t" for t
  proof -
    have "takeWhile is_digit s \<noteq> []" "hd (takeWhile is_digit s) = hd s" using s by (cases s; simp)+
    moreover have "dropWhile is_digit (takeWhile is_digit s @ t) = t"
      using that by (cases t) (auto simp: no_digit_def dropWhile_append dest: set_takeWhileD)
    ultimately show ?thesis using s by (simp add: leading_digits_def)
  qed
  with s that [of "takeWhile is_digit s"] show ?thesis by (cases s) auto
qed

lemma after_int_split:
  assumes "after_int s = Some r"
  obtains p where "s = p @ r" "p \<noteq> []" "hd p \<noteq> CHR ''-''" "\<forall>t. no_digit t \<longrightarrow> after_int (p @ t) = Some t"
proof (cases "s \<noteq> [] \<and> hd s = CHR ''0''")
  case True
  with assms that [of "''0''"] show ?thesis by (cases s) (auto simp: after_int_def)
next
  case False
  with assms have d: "leading_digits s = Some r" by (auto simp: after_int_def)
  then obtain p where p: "s = p @ r" "p \<noteq> []" "\<forall>t. no_digit t \<longrightarrow> leading_digits (p @ t) = Some t"
    by (rule leading_digits_split)
  from d p(1,2) have "is_digit (hd p)" by (auto simp: leading_digits_def split: if_splits)
  then have "hd p \<noteq> CHR ''-''" by (auto simp: is_digit_def)
  with p False that [of p] show ?thesis by (auto simp: after_int_def)
qed

lemma after_frac_split:
  assumes "after_frac s = Some r"
  obtains p where "s = p @ r" "p = [] \<or> hd p = CHR ''.''"
    "\<forall>t. no_digit t \<longrightarrow> t = [] \<or> hd t \<noteq> CHR ''.'' \<longrightarrow> after_frac (p @ t) = Some t"
proof (cases "s \<noteq> [] \<and> hd s = CHR ''.''")
  case True
  with assms have "leading_digits (tl s) = Some r" by (simp add: after_frac_def)
  then obtain p where p: "tl s = p @ r" "\<forall>t. no_digit t \<longrightarrow> leading_digits (p @ t) = Some t"
    by (rule leading_digits_split)
  have "s = (CHR ''.'' # p) @ r" using True p(1) by (cases s) auto
  from that [OF this] p(2) show ?thesis by (simp add: after_frac_def)
next
  case False
  with assms that [of "[]"] show ?thesis by (auto simp: after_frac_def)
qed

lemma after_exp_split:
  assumes "after_exp s = Some r"
  obtains p where "s = p @ r" "p = [] \<or> hd p = CHR ''e'' \<or> hd p = CHR ''E''" "after_exp p = Some []"
proof (cases "s \<noteq> [] \<and> (hd s = CHR ''e'' \<or> hd s = CHR ''E'')")
  case True
  with assms have "leading_digits (after_sign (tl s)) = Some r" by (simp add: after_exp_def)
  then obtain p where p: "after_sign (tl s) = p @ r" "p \<noteq> []" "\<forall>t. no_digit t \<longrightarrow> leading_digits (p @ t) = Some t"
    by (rule leading_digits_split)
  have pd: "is_digit (hd p)" using p(3) p(2) by (auto simp: no_digit_def leading_digits_def split: if_splits)
  obtain c u where s: "s = c # u" using True by (cases s) auto
  show ?thesis
  proof (cases "u \<noteq> [] \<and> (hd u = CHR ''+'' \<or> hd u = CHR ''-'')")
    case sign: True
    then obtain e w where u: "u = e # w" by (cases u) auto
    have "s = (c # e # p) @ r" using p(1) sign by (simp add: s u after_sign_def)
    moreover have "after_exp (c # e # p) = Some []"
      using True sign p(3) by (auto simp: after_exp_def after_sign_def s u no_digit_def)
    ultimately show ?thesis using that [of "c # e # p"] True by (simp add: s)
  next
    case nosign: False
    then have "s = (c # p) @ r" using p(1) by (auto simp: s after_sign_def)
    moreover have "after_sign p = p" using pd p(2) by (auto simp: after_sign_def is_digit_def)
    then have "after_exp (c # p) = Some []" using True p(3) by (auto simp: after_exp_def s no_digit_def)
    ultimately show ?thesis using that [of "c # p"] True by (simp add: s)
  qed
next
  case False
  with assms that [of "[]"] show ?thesis by (auto simp: after_exp_def)
qed

lemma after_number_literal:
  assumes "after_number s = Some r"
  shows "after_number (span s r) = Some []"
proof -
  obtain a b where st: "after_int (after_minus s) = Some a" "after_frac a = Some b" "after_exp b = Some r"
    using assms by (auto simp: after_number_def split: option.splits)
  obtain i where i: "after_minus s = i @ a" "i \<noteq> []" "hd i \<noteq> CHR ''-''" "\<forall>t. no_digit t \<longrightarrow> after_int (i @ t) = Some t"
    using st(1) by (rule after_int_split)
  obtain f where f: "a = f @ b" "f = [] \<or> hd f = CHR ''.''"
    "\<forall>t. no_digit t \<longrightarrow> t = [] \<or> hd t \<noteq> CHR ''.'' \<longrightarrow> after_frac (f @ t) = Some t"
    using st(2) by (rule after_frac_split)
  obtain e where e: "b = e @ r" "e = [] \<or> hd e = CHR ''e'' \<or> hd e = CHR ''E''" "after_exp e = Some []"
    using st(3) by (rule after_exp_split)
  have "no_digit e" "e = [] \<or> hd e \<noteq> CHR ''.''" using e(2) by (auto simp: no_digit_def is_digit_def)
  moreover have "no_digit (f @ e)" using f(2) e(2) by (cases f) (auto simp: no_digit_def is_digit_def)
  ultimately have lit: "after_int (i @ f @ e) = Some (f @ e)" "after_frac (f @ e) = Some e" using i(4) f(3) by auto
  show ?thesis
  proof (cases "s \<noteq> [] \<and> hd s = CHR ''-''")
    case True
    then have s: "s = (CHR ''-'' # i @ f @ e) @ r" using i(1) f(1) e(1) by (cases s) (auto simp: after_minus_def)
    have "after_minus (CHR ''-'' # i @ f @ e) = i @ f @ e" by (simp add: after_minus_def)
    with lit e(3) show ?thesis unfolding s span_append by (simp add: after_number_def)
  next
    case False
    then have s: "s = (i @ f @ e) @ r" using i(1) f(1) e(1) by (auto simp: after_minus_def)
    have "after_minus (i @ f @ e) = i @ f @ e" using i(2,3) by (simp add: after_minus_def)
    with lit e(3) show ?thesis unfolding s span_append by (simp add: after_number_def)
  qed
qed

section \<open>Scanned values\<close>

definition within :: "nat \<Rightarrow> json \<Rightarrow> bool" where
  "within d v \<longleftrightarrow> json_wf v \<and> json_depth v \<le> d"

lemma within_simps [simp]:
  "within d JNull" "within d (JBool b)" "within d (JStr s)"
  "within d (JNum s) \<longleftrightarrow> after_number s = Some []"
  by (simp_all add: within_def)

lemma foldr_max_le: "(\<forall>v \<in> set vs. f v \<le> d) \<Longrightarrow> foldr (\<lambda>v m. max (f v) m) vs 0 \<le> (d :: nat)"
  by (induction vs) auto

lemma within_JArr: "within (Suc d) (JArr vs) \<longleftrightarrow> (\<forall>v \<in> set vs. within d v)"
proof -
  have "json_depth (JArr vs) \<le> Suc d \<longleftrightarrow> (\<forall>v \<in> set vs. json_depth v \<le> d)"
    using foldr_max_le [of vs json_depth d] depth_elem [of _ vs] by (auto intro: order_trans)
  then show ?thesis by (auto simp: within_def list_all_iff simp del: json_depth.simps)
qed

lemma within_JObj: "within (Suc d) (JObj ms) \<longleftrightarrow> (\<forall>v \<in> snd ` set ms. within d v)"
proof -
  have "json_depth (JObj ms) \<le> Suc d \<longleftrightarrow> (\<forall>m \<in> set ms. json_depth (snd m) \<le> d)"
    using foldr_max_le [of ms "\<lambda>m. json_depth (snd m)" d] depth_member [of _ _ ms]
    by (fastforce simp: case_prod_unfold intro: order_trans)
  then show ?thesis by (auto simp: within_def list_all_iff simp del: json_depth.simps)
qed

lemma within_mono: "within d v \<Longrightarrow> d \<le> e \<Longrightarrow> within e v"
  by (auto simp: within_def)

lemma literal_value: "literal w v s = Some (x, r) \<Longrightarrow> x = v"
  by (simp add: literal_def split: if_splits)

lemma parse_within:
  "parse_value n d s = Some (v, r) \<Longrightarrow> within d v"
  "parse_elems n d s = Some (vs, r) \<Longrightarrow> \<forall>(raw, v) \<in> set vs. within d v"
  "parse_members n d s = Some (ms, r) \<Longrightarrow> \<forall>(k, raw, v) \<in> set ms. within d v"
proof (induction n d s and n d s and n d s arbitrary: v r and vs r and ms r rule: parse_value_parse_elems_parse_members.induct)
  case (2 n d s)
  then obtain c t where s: "skip_ws s = c # t" by (cases "skip_ws s") auto
  show ?case
  proof (cases d)
    case 0
    with 2(3) s show ?thesis by (auto simp: after_number_literal split: if_splits dest: literal_value)
  next
    case (Suc d')
    have "within (Suc d') (JArr (map snd vs))" if "\<forall>(raw, v) \<in> set vs. within d' v" for vs :: "(string \<times> json) list"
      using that by (auto simp: within_JArr)
    moreover have "within (Suc d') (JObj (map (\<lambda>(k, raw, v). (k, v)) ms))" if "\<forall>(k, raw, v) \<in> set ms. within d' v"
      for ms :: "(string \<times> string \<times> json) list"
      using that by (auto simp: within_JObj)
    moreover have "within (Suc d') (JArr [])" "within (Suc d') (JObj [])" by (simp_all add: within_JArr within_JObj)
    ultimately show ?thesis using 2(3) s Suc 2(1,2) [OF s]
      by (auto simp: after_number_literal split: if_splits dest: literal_value)
  qed
next
  case (4 n d s)
  then obtain v u where v: "parse_value n d s = Some (v, u)" by (auto split: option.splits)
  with 4(3) obtain c t where u: "skip_ws u = c # t" by (auto split: list.splits)
  show ?case using 4(3) v u 4(2) [OF v refl u] 4(1) [OF v] by (fastforce split: if_splits)
next
  case (6 n d s)
  then obtain q r0 where q: "skip_ws s = q # r0" "q = quotation_mark" by (auto split: list.splits if_splits)
  with 6(3) obtain k r1 where k: "scan_string r0 = Some (k, r1)" by (auto split: option.splits)
  with 6(3) q obtain r2 where c: "skip_ws r1 = CHR '':'' # r2" by (auto split: list.splits if_splits)
  with 6(3) q k obtain v r3 where v: "parse_value n d r2 = Some (v, r3)" by (auto split: option.splits)
  with 6(3) q k c obtain e t where e: "skip_ws r3 = e # t" by (auto split: list.splits)
  have "within d v" using 6(1) [OF q(1) _ k refl c _ v] q by simp
  then show ?case using 6(3) q k c v e 6(2) [OF q(1) _ k refl c _ v refl e] by (fastforce split: if_splits)
qed simp_all

lemma json_doc_within: "json_doc s = Some v \<Longrightarrow> within max_depth v"
  by (auto simp: json_doc_def split: option.splits if_splits dest: parse_within)

lemma values_put_member: "snd ` set (put_member k v ps) \<subseteq> insert v (snd ` set ps)"
  by (induction k v ps rule: put_member.induct) auto

lemma values_as_map: "snd ` set (as_map ms) \<subseteq> snd ` set ms"
proof -
  have "snd ` set (foldl (\<lambda>ps (k, v). put_member k v ps) acc ms) \<subseteq> snd ` set acc \<union> snd ` set ms" for acc
  proof (induction ms arbitrary: acc)
    case (Cons m ms)
    show ?case using Cons.IH [of "put_member (fst m) (snd m) acc"] values_put_member [of "fst m" "snd m" acc]
      by (auto simp: case_prod_unfold)
  qed simp
  then show ?thesis by (fastforce simp: as_map_def)
qed

lemma any_value_within: "within d v \<Longrightarrow> within d (any_value v)"
proof (induction v arbitrary: d rule: any_value.induct)
  case (1 vs)
  then obtain e where d: "d = Suc e" by (cases d) (auto simp: within_def)
  with 1 show ?case by (simp add: within_JArr)
next
  case (2 ms)
  then obtain e where d: "d = Suc e" by (cases d) (auto simp: within_def)
  have "\<forall>v \<in> snd ` set (map (\<lambda>(k, v). (k, any_value v)) ms). within e v"
    using 2 by (fastforce simp: d within_JObj)
  with values_as_map [of "map (\<lambda>(k, v). (k, any_value v)) ms"]
  have "\<forall>v \<in> snd ` set (as_map (map (\<lambda>(k, v). (k, any_value v)) ms)). within e v" by blast
  then show ?case by (simp add: d within_JObj)
qed auto

lemma json_doc_written: "within max_depth v \<Longrightarrow> json_doc (json_text v) = Some (json_valid v)"
  by (simp add: within_def json_doc_text)

end
