(* ===== verification/Api_Text.thy ===== *)
theory Api_Text
  imports Json_Laws Notice Go_Time
begin

text \<open>
  The text functions of internal/procurement/client.go: the redaction of the service key in fields,
  links and raw items, and the decoding of a source item into a notice. NFC, the lower-case table
  from code point 128 on, SHA-256, \<open>url.Parse\<close> (the keys of the query, or an error) and
  \<open>time.ParseInLocation\<close> in KST are given by the environment.
\<close>

record api_env =
  ae_nfc :: "string \<Rightarrow> string"
  ae_lower :: "nat \<Rightarrow> nat"
  ae_sha :: "string \<Rightarrow> string"
  ae_query_keys :: "string \<Rightarrow> string list option"
  ae_parse_time :: "string \<Rightarrow> string \<Rightarrow> ztime option"

section \<open>URL escapes\<close>

definition unreserved :: "char \<Rightarrow> bool" where
  "unreserved c \<longleftrightarrow> 97 \<le> byte c \<and> byte c \<le> 122 \<or> 65 \<le> byte c \<and> byte c \<le> 90 \<or> is_digit c \<or> c \<in> set ''-_.~''"

definition upper_hex :: "nat \<Rightarrow> char" where
  "upper_hex n = (if n < 10 then char_of (48 + n) else char_of (55 + n))"

definition percent :: "char \<Rightarrow> string" where
  "percent c = [CHR ''%'', upper_hex (byte c div 16), upper_hex (byte c mod 16)]"

definition QueryEscape :: "string \<Rightarrow> string" where
  "QueryEscape s = concat (map (\<lambda>c. if unreserved c then [c] else if c = CHR '' '' then ''+'' else percent c) s)"

definition PathEscape :: "string \<Rightarrow> string" where
  "PathEscape s = concat (map (\<lambda>c. if unreserved c \<or> c \<in> set ''$&+:=@'' then [c] else percent c) s)"

section \<open>Redaction\<close>

definition redacted :: string where
  "redacted = ''[redacted]''"

definition redact_candidates :: "string \<Rightarrow> string list" where
  "redact_candidates secret =
     [secret, QueryEscape secret, PathEscape secret, map lower_byte (QueryEscape secret), map lower_byte (PathEscape secret)]"

definition redactSecret :: "string \<Rightarrow> string \<Rightarrow> string" where
  "redactSecret v secret =
     (if secret = [] then v
      else foldl (\<lambda>v candidate. if candidate \<noteq> [] then replace_all v candidate redacted else v) v (redact_candidates secret))"

definition sanitizedNoticeField :: "string \<Rightarrow> string list \<Rightarrow> string" where
  "sanitizedNoticeField v secrets = foldl redactSecret v secrets"

definition without_marks :: "api_env \<Rightarrow> string \<Rightarrow> string" where
  "without_marks E v = to_lower (ae_lower E) (replace_all (replace_all v ''_'' []) ''-'' [])"

definition containsSensitiveURLMarker :: "api_env \<Rightarrow> string \<Rightarrow> bool" where
  "containsSensitiveURLMarker E v =
     list_ex (\<lambda>marker. str_contains (without_marks E v) marker) [''servicekey='', ''apikey='', ''password='', ''token='']"

definition sensitiveFieldName :: "api_env \<Rightarrow> string \<Rightarrow> bool" where
  "sensitiveFieldName E v =
     (str_contains (without_marks E v) ''servicekey'' \<or> str_contains (without_marks E v) ''apikey'' \<or>
      str_contains (without_marks E v) ''password'' \<or> str_contains (without_marks E v) ''token'')"

definition sanitizedSourceURL :: "api_env \<Rightarrow> string \<Rightarrow> string list \<Rightarrow> string" where
  "sanitizedSourceURL E v0 secrets =
     (let v = trim_space v0 in
      if v = [] then []
      else if sanitizedNoticeField v secrets \<noteq> v then []
      else case ae_query_keys E v of
        None \<Rightarrow> if containsSensitiveURLMarker E v then [] else v
      | Some keys \<Rightarrow> if list_ex (sensitiveFieldName E) keys then [] else v)"

text \<open>A value is what \<open>any_value\<close> gives: members are the entries of a Go map.\<close>

fun scrubSecretFields :: "api_env \<Rightarrow> string list \<Rightarrow> json \<Rightarrow> json" where
  "scrubSecretFields E secrets (JObj ms) =
     JObj (map (\<lambda>(k, v). (k, scrubSecretFields E secrets v)) (filter (\<lambda>(k, v). \<not> sensitiveFieldName E k) ms))"
| "scrubSecretFields E secrets (JArr vs) = JArr (map (scrubSecretFields E secrets) vs)"
| "scrubSecretFields E secrets (JStr s) = JStr (foldl redactSecret s secrets)"
| "scrubSecretFields E secrets v = v"

definition maxWarningRawBytes :: nat where
  "maxWarningRawBytes = 4096"

definition omitted_json :: string where
  "omitted_json = json_quote ''invalid JSON omitted''"

text \<open>The entries of the bounded form, in the order of their keys; \<open>ae_sha\<close> is the hexadecimal digest.\<close>

definition bounded_json :: "api_env \<Rightarrow> string \<Rightarrow> string" where
  "bounded_json E encoded =
     json_text (JObj [(''prefix'', JStr (take 512 encoded)), (''sha256'', JStr (ae_sha E encoded)), (''truncated'', JBool True)])"

definition sanitizedRawJSON :: "api_env \<Rightarrow> string \<Rightarrow> string list \<Rightarrow> string" where
  "sanitizedRawJSON E raw secrets =
     (case json_doc raw of
        None \<Rightarrow> omitted_json
      | Some v \<Rightarrow>
          let encoded = json_text (scrubSecretFields E secrets (any_value v)) in
          if length encoded \<le> maxWarningRawBytes then encoded else bounded_json E encoded)"

section \<open>Source items\<close>

record api_notice =
  ap_bid_number :: string
  ap_bid_sequence :: string
  ap_title :: string
  ap_agency :: string
  ap_region :: string
  ap_url :: string
  ap_amount :: string
  ap_posted :: string
  ap_deadline :: string

definition notice_fields :: "string list" where
  "notice_fields = [''bidNtceNo'', ''bidNtceOrd'', ''bidNtceNm'', ''ntceInsttNm'', ''prtcptPsblRgnNm'', ''bidNtceDtlUrl'',
     ''presmptPrce'', ''bidNtceDt'', ''bidClseDt'']"

definition zero_notice :: api_notice where
  "zero_notice = \<lparr>ap_bid_number = [], ap_bid_sequence = [], ap_title = [], ap_agency = [], ap_region = [], ap_url = [],
     ap_amount = [], ap_posted = [], ap_deadline = []\<rparr>"

text \<open>\<open>json.Unmarshal\<close> of an item: every field is a string; null leaves the item or the field alone.\<close>

fun decode_notice :: "json \<Rightarrow> api_notice option" where
  "decode_notice JNull = Some zero_notice"
| "decode_notice (JObj ms) =
     (case all_some (map (\<lambda>n. decode_string_field notice_fields n ms) notice_fields) of
        Some [a, b, c, d, e, f, g, h, i] \<Rightarrow>
          Some \<lparr>ap_bid_number = a, ap_bid_sequence = b, ap_title = c, ap_agency = d, ap_region = e, ap_url = f,
            ap_amount = g, ap_posted = h, ap_deadline = i\<rparr>
      | _ \<Rightarrow> None)"
| "decode_notice v = None"

definition sanitize :: "api_env \<Rightarrow> string list \<Rightarrow> api_notice \<Rightarrow> api_notice" where
  "sanitize E secrets n =
     n\<lparr>ap_bid_number := sanitizedNoticeField (ap_bid_number n) secrets,
       ap_bid_sequence := sanitizedNoticeField (ap_bid_sequence n) secrets,
       ap_title := sanitizedNoticeField (ap_title n) secrets,
       ap_agency := sanitizedNoticeField (ap_agency n) secrets,
       ap_region := sanitizedNoticeField (ap_region n) secrets,
       ap_url := sanitizedSourceURL E (ap_url n) secrets\<rparr>"

text \<open>The amount and whether it is valid; \<open>strconv.ParseInt\<close> gives the nearest bound out of range
  and 0 for a syntax error, the amount beside \<open>False\<close> is not used.\<close>

definition parseAmount :: "string \<Rightarrow> int \<times> bool" where
  "parseAmount v0 =
     (let v = trim_space (replace_all v0 '','' []) in
      if v = [] then (0, True)
      else case parse_int64 v of None \<Rightarrow> (0, False) | Some a \<Rightarrow> (a, 0 \<le> a))"

definition time_layouts :: "string list" where
  "time_layouts = [''2006-01-02 15:04:05'', ''200601021504'', ''2006-01-02T15:04:05Z07:00'']"

fun first_layout :: "api_env \<Rightarrow> string \<Rightarrow> string list \<Rightarrow> ztime \<times> bool" where
  "first_layout E s [] = (zt_zero, False)"
| "first_layout E s (l # ls) = (case ae_parse_time E l (trim_space s) of Some p \<Rightarrow> (p, True) | None \<Rightarrow> first_layout E s ls)"

definition parseTime :: "api_env \<Rightarrow> string \<Rightarrow> ztime \<times> bool" where
  "parseTime E s = (if trim_space s = [] then (zt_zero, True) else first_layout E s time_layouts)"

record field_warning =
  fw_page :: int
  fw_item :: int
  fw_field :: string
  fw_code :: string
  fw_raw :: string

definition warning :: "string \<Rightarrow> string \<Rightarrow> string \<Rightarrow> field_warning" where
  "warning f c raw = \<lparr>fw_page = 0, fw_item = 0, fw_field = f, fw_code = c, fw_raw = raw\<rparr>"

definition notice_of :: "api_env \<Rightarrow> string \<Rightarrow> string \<Rightarrow> api_notice \<Rightarrow> notice" where
  "notice_of E c raw n =
     \<lparr>n_category = c, n_bid_number = ap_bid_number n, n_bid_sequence = ap_bid_sequence n,
      n_title = NormalizeText (ae_nfc E) (ap_title n), n_agency = NormalizeText (ae_nfc E) (ap_agency n),
      n_region = NormalizeText (ae_nfc E) (ap_region n), n_source_url = NormalizeText (ae_nfc E) (ap_url n),
      n_amount = fst (parseAmount (ap_amount n)), n_posted_at = fst (parseTime E (ap_posted n)),
      n_deadline = fst (parseTime E (ap_deadline n)), n_raw_json = raw\<rparr>"

text \<open>\<open>apiNotice.notice\<close>: the notice, the warnings, and whether the notice is kept.\<close>

definition notice_warnings :: "api_env \<Rightarrow> string \<Rightarrow> string \<Rightarrow> api_notice \<Rightarrow> field_warning list" where
  "notice_warnings E c raw n =
     (if trim_space (ap_amount n) \<noteq> [] \<and> \<not> snd (parseAmount (ap_amount n)) then [warning ''amount'' ''invalid_amount'' raw] else []) @
     (if trim_space (ap_posted n) \<noteq> [] \<and> \<not> snd (parseTime E (ap_posted n)) then [warning ''posted_at'' ''invalid_time'' raw] else []) @
     (if trim_space (ap_deadline n) \<noteq> [] \<and> \<not> snd (parseTime E (ap_deadline n)) then [warning ''deadline'' ''invalid_time'' raw] else []) @
     (case ValidateSource (ae_nfc E) (notice_of E c raw n) of None \<Rightarrow> [] | Some f \<Rightarrow> [warning f ''missing_required'' raw]) @
     (if n_region (notice_of E c raw n) = [] then [warning ''region'' ''unavailable'' raw] else [])"

definition notice_valid :: "api_env \<Rightarrow> string \<Rightarrow> string \<Rightarrow> api_notice \<Rightarrow> bool" where
  "notice_valid E c raw n \<longleftrightarrow>
     snd (parseAmount (ap_amount n)) \<and> snd (parseTime E (ap_posted n)) \<and> snd (parseTime E (ap_deadline n)) \<and>
     ValidateSource (ae_nfc E) (notice_of E c raw n) = None"

end
