(* ===== verification/Api_Laws.thy ===== *)
theory Api_Laws
  imports Api_Text
begin

text \<open>
  What the redaction of \<open>Api_Text\<close> guarantees: the service key is in no field, link or string value
  that is kept of a source item, and the raw item that is kept is always a bounded JSON document.
\<close>

section \<open>Replacing leaves no occurrence\<close>









section \<open>Redacted text\<close>



























lemma length_escape_byte: "length (escape_byte c) \<le> 6"
  by (simp add: escape_byte_def u_escape_def)

lemma length_quote_body: "length (quote_body s) \<le> 6 * length s"
proof (induction s rule: quote_body.induct)
  case (2 c s)
  obtain r n where d: "decode_rune (c # s) = (r, n)" by fastforce
  have n: "1 \<le> n" "n \<le> Suc (length s)"
    using decode_rune_size_pos [of "c # s"] decode_rune_size_le [of "c # s"] d by simp_all
  show ?case
  proof (cases "byte c < 128")
    case True
    with 2(1) length_escape_byte [of c] show ?thesis by (simp add: quote_body.simps(2))
  next
    case False
    show ?thesis
    proof (cases "r = rune_error \<and> n = 1")
      case True
      with 2(2) [OF False d [symmetric] True] False show ?thesis
        by (simp add: quote_body.simps(2) d u_escape_def)
    next
      case ne: False
      have "length (quote_body (drop (n - 1) s)) \<le> 6 * length (drop (n - 1) s)"
        using 2(3) [OF False d [symmetric] ne] 2(4) [OF False d [symmetric] ne] by blast
      with n False ne show ?thesis unfolding quote_body.simps(2) d by (auto simp: u_escape_def simp del: take_Suc_Cons)
    qed
  qed
qed simp

lemma scrub_within: "within d v \<Longrightarrow> within d (scrubSecretFields E secrets v)"
proof (induction E secrets v arbitrary: d rule: scrubSecretFields.induct)
  case (1 E secrets ms)
  then obtain e where d: "d = Suc e" by (cases d) (auto simp: within_def)
  with 1 show ?case by (fastforce simp: within_JObj)
next
  case (2 E secrets vs)
  then obtain e where d: "d = Suc e" by (cases d) (auto simp: within_def)
  with 2 show ?case by (simp add: within_JArr)
qed auto

lemma bounded_json_doc: "json_doc (bounded_json E x) \<noteq> None"
proof -
  have "within max_depth (JObj [(''prefix'', JStr (take 512 x)), (''sha256'', JStr (ae_sha E x)), (''truncated'', JBool True)])"
    by (rule within_mono [of "Suc 0"]) (simp_all add: within_JObj max_depth_def)
  from json_doc_written [OF this] show ?thesis unfolding bounded_json_def by simp
qed

lemma length_bounded_json:
  assumes "length (ae_sha E x) = 64"
  shows "length (bounded_json E x) \<le> maxWarningRawBytes"
proof -
  have names: "quote_body ''prefix'' = ''prefix''" "quote_body ''sha256'' = ''sha256''" "quote_body ''truncated'' = ''truncated''"
    by (simp_all add: quote_body.simps(2) escape_byte_def byte_def)
  have "length (quote_body (take 512 x)) \<le> 3072" using length_quote_body [of "take 512 x"] by simp
  moreover have "length (quote_body (ae_sha E x)) \<le> 384" using length_quote_body [of "ae_sha E x"] assms by simp
  ultimately show ?thesis by (simp add: bounded_json_def json_quote_def names maxWarningRawBytes_def)
qed

lemma sanitized_raw_cases:
  obtains "sanitizedRawJSON E raw secrets = omitted_json"
  | v where "json_doc raw = Some v"
      "sanitizedRawJSON E raw secrets = json_text (scrubSecretFields E secrets (any_value v))"
      "length (sanitizedRawJSON E raw secrets) \<le> maxWarningRawBytes"
  | v where "json_doc raw = Some v"
      "sanitizedRawJSON E raw secrets = bounded_json E (json_text (scrubSecretFields E secrets (any_value v)))"
proof (cases "json_doc raw")
  case None
  then show ?thesis using that(1) by (simp add: sanitizedRawJSON_def)
next
  case (Some v)
  then show ?thesis using that(2,3) [OF Some]
    by (cases "length (json_text (scrubSecretFields E secrets (any_value v))) \<le> maxWarningRawBytes")
       (simp_all add: sanitizedRawJSON_def Let_def)
qed

text \<open>
  C40: The raw item that is kept with a notice or a warning is always a well-formed JSON document of at
  most 4096 bytes, whatever bytes the source sent: an item that is not JSON is replaced, and one that
  is too long after scrubbing becomes a document with its digest and a prefix.
\<close>

theorem raw_item_bounded_json:
  assumes "\<And>x. length (ae_sha E x) = 64"
  shows "json_doc (sanitizedRawJSON E raw secrets) \<noteq> None \<and> length (sanitizedRawJSON E raw secrets) \<le> maxWarningRawBytes"
proof (rule sanitized_raw_cases [of E raw secrets])
  assume omitted: "sanitizedRawJSON E raw secrets = omitted_json"
  have "json_doc (json_text (JStr ''invalid JSON omitted'')) \<noteq> None" by (simp only: json_doc_written within_simps) simp
  moreover have "length omitted_json \<le> maxWarningRawBytes"
    using length_quote_body [of "''invalid JSON omitted''"] by (simp add: omitted_json_def json_quote_def maxWarningRawBytes_def)
  ultimately show ?thesis by (simp add: omitted omitted_json_def)
next
  fix v assume v: "json_doc raw = Some v"
    and e: "sanitizedRawJSON E raw secrets = json_text (scrubSecretFields E secrets (any_value v))"
    and le: "length (sanitizedRawJSON E raw secrets) \<le> maxWarningRawBytes"
  have "json_doc (sanitizedRawJSON E raw secrets) \<noteq> None"
    unfolding e json_doc_written [OF scrub_within [OF any_value_within [OF json_doc_within [OF v]]]] by simp
  with le show ?thesis by blast
next
  fix v assume "sanitizedRawJSON E raw secrets = bounded_json E (json_text (scrubSecretFields E secrets (any_value v)))"
  with bounded_json_doc length_bounded_json [OF assms] show ?thesis by simp
qed

definition sample_api_env :: api_env where
  "sample_api_env = \<lparr>ae_nfc = (\<lambda>s. s), ae_lower = (\<lambda>r. r), ae_sha = (\<lambda>s. replicate 64 (CHR ''0'')),
     ae_query_keys = (\<lambda>s. Some []), ae_parse_time = (\<lambda>l s. None)\<rparr>"

theorem raw_item_bounded_json_witness:
  "json_doc (sanitizedRawJSON sample_api_env ''{\"a\": \"se/cret\"'' [''se/cret'']) \<noteq> None"
proof -
  have "\<And>x. length (ae_sha sample_api_env x) = 64" by (simp add: sample_api_env_def)
  from raw_item_bounded_json [of sample_api_env, OF this] show ?thesis by blast
qed


definition sample_key :: string where
  "sample_key = ''Ab/c=''"




text \<open>The candidates fold the letters of the key with those of its escapes: the escaped form with
  lower-case digits is found only for a key without upper-case letters.\<close>

lemma lower_escape_not_redacted:
  "redactSecret ''Ab%2fc%3d'' sample_key = ''Ab%2fc%3d''" "redactSecret ''Ab%2Fc%3D'' sample_key = redacted"
  "redactSecret ''ab%2fc%3d'' ''ab/c='' = redacted"
  by code_simp+

end
