(* ===== verification/Api_Response.thy ===== *)
theory Api_Response
  imports Api_Text
begin

text \<open>
  The response of the procurement service as internal/procurement/client.go decodes it: the envelope,
  the count that may be a number or a string, and the items, which stay raw text.
\<close>

section \<open>Decoding a struct\<close>

text \<open>The members in their order: each decodes into the field it names, over the value the field has;
  the first wrong type makes \<open>json.Unmarshal\<close> fail.\<close>

fun fold_fields :: "string list \<Rightarrow> (string \<Rightarrow> string \<Rightarrow> 'a \<Rightarrow> 'a option) \<Rightarrow> (string \<times> string) list \<Rightarrow> 'a \<Rightarrow> 'a option" where
  "fold_fields names upd [] a = Some a"
| "fold_fields names upd ((k, raw) # ms) a =
     (case field_for names k of
        None \<Rightarrow> fold_fields names upd ms a
      | Some n \<Rightarrow> (case upd n raw a of None \<Rightarrow> None | Some b \<Rightarrow> fold_fields names upd ms b))"

definition decode_struct :: "string list \<Rightarrow> (string \<Rightarrow> string \<Rightarrow> 'a \<Rightarrow> 'a option) \<Rightarrow> string \<Rightarrow> 'a \<Rightarrow> 'a option" where
  "decode_struct names upd raw a =
     (case json_doc raw of
        Some JNull \<Rightarrow> Some a
      | Some (JObj vs) \<Rightarrow> (case raw_members raw of None \<Rightarrow> None | Some ms \<Rightarrow> fold_fields names upd ms a)
      | _ \<Rightarrow> None)"

text \<open>A pointer: null sets it to nil, any other value decodes into what it points to.\<close>

definition decode_pointer :: "(string \<Rightarrow> 'a \<Rightarrow> 'a option) \<Rightarrow> 'a \<Rightarrow> string \<Rightarrow> 'a option \<Rightarrow> 'a option option" where
  "decode_pointer dec zero raw p =
     (if json_doc raw = Some JNull then Some None
      else map_option Some (dec raw (case p of None \<Rightarrow> zero | Some a \<Rightarrow> a)))"

definition decode_string :: "string \<Rightarrow> string \<Rightarrow> string option" where
  "decode_string raw old =
     (case json_doc raw of Some JNull \<Rightarrow> Some old | Some (JStr s) \<Rightarrow> Some s | _ \<Rightarrow> None)"

text \<open>\<open>flexInt.UnmarshalJSON\<close>\<close>

definition decode_count :: "string \<Rightarrow> int option" where
  "decode_count raw =
     (if raw = [] then None
      else case (if hd raw = quotation_mark
                 then (case json_doc raw of Some (JStr s) \<Rightarrow> Some s | _ \<Rightarrow> None) else Some raw) of
        None \<Rightarrow> None
      | Some s \<Rightarrow> (case parse_int64 s of None \<Rightarrow> None | Some v \<Rightarrow> if v < 0 then None else Some v))"

section \<open>The envelope\<close>

record api_header =
  ah_code :: string
  ah_message :: string

record api_body =
  ab_items :: string
  ab_total :: int

record api_envelope =
  ae_header :: "api_header option"
  ae_body :: "api_body option"

record api_response =
  ar_response :: "api_envelope option"

definition header_field :: "string \<Rightarrow> string \<Rightarrow> api_header \<Rightarrow> api_header option" where
  "header_field n raw h =
     (if n = ''resultCode'' then map_option (\<lambda>s. h\<lparr>ah_code := s\<rparr>) (decode_string raw (ah_code h))
      else map_option (\<lambda>s. h\<lparr>ah_message := s\<rparr>) (decode_string raw (ah_message h)))"

definition body_field :: "string \<Rightarrow> string \<Rightarrow> api_body \<Rightarrow> api_body option" where
  "body_field n raw b =
     (if n = ''items'' then Some (b\<lparr>ab_items := raw\<rparr>)
      else map_option (\<lambda>v. b\<lparr>ab_total := v\<rparr>) (decode_count raw))"

definition envelope_field :: "string \<Rightarrow> string \<Rightarrow> api_envelope \<Rightarrow> api_envelope option" where
  "envelope_field n raw e =
     (if n = ''header''
      then map_option (\<lambda>h. e\<lparr>ae_header := h\<rparr>)
             (decode_pointer (decode_struct [''resultCode'', ''resultMsg''] header_field) \<lparr>ah_code = [], ah_message = []\<rparr> raw (ae_header e))
      else map_option (\<lambda>b. e\<lparr>ae_body := b\<rparr>)
             (decode_pointer (decode_struct [''items'', ''totalCount''] body_field) \<lparr>ab_items = [], ab_total = 0\<rparr> raw (ae_body e)))"

definition response_field :: "string \<Rightarrow> string \<Rightarrow> api_response \<Rightarrow> api_response option" where
  "response_field n raw p =
     map_option (\<lambda>r. p\<lparr>ar_response := r\<rparr>)
       (decode_pointer (decode_struct [''header'', ''body''] envelope_field) \<lparr>ae_header = None, ae_body = None\<rparr> raw (ar_response p))"

definition decode_response :: "string \<Rightarrow> api_response option" where
  "decode_response data = decode_struct [''response''] response_field data \<lparr>ar_response = None\<rparr>"

definition malformed :: "string \<Rightarrow> goerr" where
  "malformed msg = ErrText (''malformed '' @
     [CHR 0xEB, CHR 0x82, CHR 0x98, CHR 0xEB, CHR 0x9D, CHR 0xBC, CHR 0xEC, CHR 0x9E, CHR 0xA5,
      CHR 0xED, CHR 0x84, CHR 0xB0] @ '' API response: '' @ msg)"

text \<open>\<open>validate\<close> and the header it makes sure of.\<close>

definition validated_header :: "api_response \<Rightarrow> goerr + api_header" where
  "validated_header p =
     (case Option.bind (ar_response p) ae_header of
        Some h \<Rightarrow> if ah_code h = [] then Inl (malformed ''missing response envelope, header, or result code'') else Inr h
      | None \<Rightarrow> Inl (malformed ''missing response envelope, header, or result code''))"

section \<open>Items\<close>

definition itemSlice :: "string \<Rightarrow> goerr + string list" where
  "itemSlice raw =
     (case json_doc raw of
        Some (JArr vs) \<Rightarrow> (case raw_elems raw of Some es \<Rightarrow> Inr es | None \<Rightarrow> Inl (malformed ''invalid items''))
      | Some JNull \<Rightarrow> Inr []
      | Some (JObj ms) \<Rightarrow> Inr [raw]
      | _ \<Rightarrow> Inl (malformed ''invalid items''))"

definition items :: "api_body option \<Rightarrow> goerr + string list" where
  "items b =
     (case b of
        None \<Rightarrow> Inl (malformed ''missing response body'')
      | Some b \<Rightarrow>
          if ab_items b = [] \<or> ab_items b = ''null'' then Inr []
          else (case decode_struct [''item''] (\<lambda>n raw c. Some raw) (ab_items b) [] of
                  Some c \<Rightarrow> if c \<noteq> [] then itemSlice c else itemSlice (ab_items b)
                | None \<Rightarrow> itemSlice (ab_items b)))"

lemma decode_count_nonneg: "decode_count raw = Some v \<Longrightarrow> 0 \<le> v \<and> v \<le> int64_max"
  by (auto simp: decode_count_def in_int64_def split: option.splits if_splits json.splits dest!: parse_int64_range)

end
