(* ===== verification/Api_Client.thy ===== *)
theory Api_Client
  imports Api_Response "HOL-Library.Char_ord" "HOL-Library.List_Lexorder"
begin

text \<open>
  The HTTP client of internal/procurement/client.go: one request with its budget, the retries, the
  listing over pages and the region of one notice. The HTTP exchange, the call budget, the context,
  the waits and the warnings act on an environment state \<open>'s\<close>.
\<close>

section \<open>Configuration\<close>

record api_config =
  ac_base :: string
  ac_key :: string
  ac_attempts :: int
  ac_base_delay :: duration
  ac_max_delay :: duration
  ac_max_body :: int
  ac_lookup_budget :: int
  ac_max_pages :: int

definition OfficialBaseURL :: string where
  "OfficialBaseURL = ''https://apis.data.go.kr/1230000/ad/BidPublicInfoService''"

definition maxResponseBytes :: int where "maxResponseBytes = 8388608"
definition maxPageSize :: int where "maxPageSize = 999"
definition defaultMaxPages :: int where "defaultMaxPages = 1000"
definition regionPageSize :: int where "regionPageSize = 100"

abbreviation millisecond_ns :: int where "millisecond_ns \<equiv> 1000000"

definition NewClient :: "api_config \<Rightarrow> api_config" where
  "NewClient c =
     \<lparr>ac_base = (if ac_base c = [] then OfficialBaseURL else ac_base c), ac_key = ac_key c,
      ac_attempts = (if ac_attempts c < 1 then 3 else ac_attempts c),
      ac_base_delay = (if ac_base_delay c \<le> 0 then 100 * millisecond_ns else ac_base_delay c),
      ac_max_delay = (if ac_max_delay c \<le> 0 then second_ns else ac_max_delay c),
      ac_max_body = (if ac_max_body c \<le> 0 \<or> maxResponseBytes < ac_max_body c then maxResponseBytes else ac_max_body c),
      ac_lookup_budget = (if ac_lookup_budget c \<le> 0 then 500 else ac_lookup_budget c),
      ac_max_pages = (if ac_max_pages c \<le> 0 then defaultMaxPages else ac_max_pages c)\<rparr>"

text \<open>What an HTTP exchange gives: an error, no response or no body, or a response with its status,
  its Retry-After header and its body, which may break off.\<close>

record http_reply =
  hr_status :: int
  hr_retry_after :: string
  hr_body :: string
  hr_broken :: bool

datatype http_result = HttpFailed | HttpEmpty | HttpReply http_reply

record 's client_env =
  ce_api :: api_env
  ce_config :: api_config
  ce_parse_url :: "string \<Rightarrow> (string \<times> string list) list option"
  ce_take_call :: "('s \<Rightarrow> goerr option \<times> 's) option"
  ce_http :: "string \<Rightarrow> string \<Rightarrow> 's \<Rightarrow> http_result \<times> 's"
  ce_ctx_err :: "'s \<Rightarrow> goerr option"
  ce_wait :: "duration \<Rightarrow> 's \<Rightarrow> goerr option \<times> 's"
  ce_until :: "string \<Rightarrow> 's \<Rightarrow> duration option"
  ce_warning :: "field_warning \<Rightarrow> 's \<Rightarrow> 's"

text \<open>\<open>ce_parse_url\<close> is \<open>url.Parse\<close> with the query it finds; \<open>ce_until\<close> is the time until a
  date of the Retry-After header that is still to come.\<close>

section \<open>Errors\<close>

text \<open>Error texts with \<open>%q\<close> are modelled without the quotation.\<close>

definition api_name :: string where
  "api_name = [CHR 0xEB, CHR 0x82, CHR 0x98, CHR 0xEB, CHR 0x9D, CHR 0xBC, CHR 0xEC, CHR 0x9E, CHR 0xA5,
      CHR 0xED, CHR 0x84, CHR 0xB0] @ '' API''"

definition ErrEncodedServiceKey :: string where
  "ErrEncodedServiceKey = ''service key must be the decoded portal key, not URL-encoded''"
definition ErrResponseTooLarge :: string where
  "ErrResponseTooLarge = api_name @ '' response exceeds limit''"
definition ErrInvalidRequest :: string where
  "ErrInvalidRequest = api_name @ '' request could not be constructed''"
definition ErrHTTPTransport :: string where
  "ErrHTTPTransport = api_name @ '' transport failed''"

definition service_error :: "string \<Rightarrow> string \<Rightarrow> goerr" where
  "service_error code message = ErrText (api_name @ '' '' @ code @ '': '' @ message)"

definition incomplete_page :: "int \<Rightarrow> int \<Rightarrow> int \<Rightarrow> int \<Rightarrow> goerr" where
  "incomplete_page page expected received total_count =
     ErrText (api_name @ '' page '' @ show_int page @ '' is incomplete: received '' @ show_int received @ '' of '' @
       show_int expected @ '' expected items (total '' @ show_int total_count @ '')'')"

definition repeated_page :: "int \<Rightarrow> int \<Rightarrow> goerr" where
  "repeated_page page first_page = ErrText (api_name @ '' page '' @ show_int page @ '' repeats page '' @ show_int first_page)"

definition max_page :: "int \<Rightarrow> int \<Rightarrow> int \<Rightarrow> goerr" where
  "max_page page limit total_count =
     ErrText (api_name @ '' requires page '' @ show_int page @ '' beyond maximum '' @ show_int limit @
       '' (total '' @ show_int total_count @ '')'')"

section \<open>One request\<close>

definition set_param :: "string \<Rightarrow> string list \<Rightarrow> (string \<times> string list) list \<Rightarrow> (string \<times> string list) list" where
  "set_param k vs q = (k, vs) # filter (\<lambda>(k', _). k' \<noteq> k) q"

text \<open>\<open>url.Values.Encode\<close>\<close>

definition encode_query :: "(string \<times> string list) list \<Rightarrow> string" where
  "encode_query q =
     str_join ''&'' (concat (map (\<lambda>(k, vs). map (\<lambda>v. QueryEscape k @ ''='' @ QueryEscape v) vs) (sort_key fst q)))"

definition trim_right_slash :: "string \<Rightarrow> string" where
  "trim_right_slash s = rev (dropWhile (\<lambda>c. c = CHR ''/'') (rev s))"

definition request_query :: "string \<Rightarrow> (string \<times> string) list \<Rightarrow> (string \<times> string list) list \<Rightarrow> string" where
  "request_query key params q =
     encode_query (set_param ''type'' [''json''] (set_param ''serviceKey'' [key]
       (foldl (\<lambda>q (k, v). set_param k [v] q) q params)))"

definition transientCode :: "string \<Rightarrow> bool" where
  "transientCode code \<longleftrightarrow> code = ''01'' \<or> code = ''05'' \<or> code = ''23''"

definition retryAfter :: "'s client_env \<Rightarrow> string \<Rightarrow> 's \<Rightarrow> duration" where
  "retryAfter C header s =
     (case parse_int64 header of
        Some v \<Rightarrow> if 0 < v then dur_mul v second_ns else (case ce_until C header s of Some d \<Rightarrow> d | None \<Rightarrow> 0)
      | None \<Rightarrow> (case ce_until C header s of Some d \<Rightarrow> d | None \<Rightarrow> 0))"

text \<open>\<open>io.ReadAll\<close> of the body limited to one byte more than allowed.\<close>

definition read_body :: "api_config \<Rightarrow> http_reply \<Rightarrow> string option" where
  "read_body c r =
     (if ac_max_body c + 1 \<le> int (length (hr_body r)) then Some (take (nat (ac_max_body c + 1)) (hr_body r))
      else if hr_broken r then None else Some (hr_body r))"

text \<open>An attempt that failed: whether to try again, the delay the server asked for, and the error.\<close>

type_synonym attempt_error = "bool \<times> duration \<times> goerr"

definition read_reply :: "'s client_env \<Rightarrow> http_reply \<Rightarrow> 's \<Rightarrow> attempt_error + api_response" where
  "read_reply C r s =
     (let c = ce_config C in
      if hr_status r < 200 \<or> 300 \<le> hr_status r then
        Inl (hr_status r = 429 \<or> 500 \<le> hr_status r, retryAfter C (hr_retry_after r) s,
             ErrText (api_name @ '' HTTP '' @ show_int (hr_status r)))
      else case read_body c r of
        None \<Rightarrow> Inl (True, 0, ErrText (api_name @ '' response read failed''))
      | Some data \<Rightarrow>
          if ac_max_body c < int (length data) then Inl (False, 0, Sentinel ErrResponseTooLarge)
          else case decode_response data of
            None \<Rightarrow> Inl (False, 0, malformed ''invalid JSON'')
          | Some p \<Rightarrow>
              (case validated_header p of
                 Inl e \<Rightarrow> Inl (False, 0, e)
               | Inr h \<Rightarrow>
                   if ah_code h \<noteq> ''00'' \<and> ah_code h \<noteq> ''0000'' then
                     Inl (transientCode (ah_code h), 0,
                          service_error (redactSecret (ah_code h) (ac_key c)) (redactSecret (ah_message h) (ac_key c)))
                   else if Option.bind (ar_response p) ae_body = None then Inl (False, 0, malformed ''missing response body'')
                   else Inr p))"

definition doRequest ::
  "'s client_env \<Rightarrow> string \<Rightarrow> (string \<times> string) list \<Rightarrow> 's \<Rightarrow> (attempt_error + api_response) \<times> 's" where
  "doRequest C path params s =
     (let endpoint = trim_right_slash (ac_base (ce_config C)) @ ''/'' @ path in
      case ce_parse_url C endpoint of
        None \<Rightarrow> (Inl (False, 0, Sentinel ErrInvalidRequest), s)
      | Some q \<Rightarrow>
          (case (case ce_take_call C of None \<Rightarrow> (None, s) | Some tk \<Rightarrow> tk s) of
             (Some e, s1) \<Rightarrow> (Inl (False, 0, e), s1)
           | (None, s1) \<Rightarrow>
               (case ce_http C endpoint (request_query (ac_key (ce_config C)) params q) s1 of
                  (HttpFailed, s2) \<Rightarrow>
                    (case ce_ctx_err C s2 of
                       Some e \<Rightarrow> (Inl (False, 0, e), s2)
                     | None \<Rightarrow> (Inl (True, 0, Sentinel ErrHTTPTransport), s2))
                | (HttpEmpty, s2) \<Rightarrow> (Inl (False, 0, malformed ''missing HTTP response body''), s2)
                | (HttpReply r, s2) \<Rightarrow> (read_reply C r s2, s2))))"

section \<open>Retries\<close>

fun backoff_loop :: "nat \<Rightarrow> duration \<Rightarrow> duration \<Rightarrow> duration" where
  "backoff_loop 0 base max_delay = base"
| "backoff_loop (Suc i) base max_delay =
     (if base < max_delay then backoff_loop i (wrap64 (base * 2)) max_delay else base)"

definition backoff :: "duration \<Rightarrow> duration \<Rightarrow> nat \<Rightarrow> duration" where
  "backoff base max_delay attempt =
     (let b = backoff_loop attempt base max_delay in if max_delay < b then max_delay else b)"

definition retry_delay :: "api_config \<Rightarrow> nat \<Rightarrow> duration \<Rightarrow> duration" where
  "retry_delay c attempt after0 =
     (let delay = backoff (ac_base_delay c) (ac_max_delay c) attempt;
          after = (if ac_max_delay c < after0 then ac_max_delay c else after0)
      in if delay < after then after else delay)"

text \<open>The attempts from number \<open>attempt\<close> on, \<open>left\<close> of them.\<close>

fun request_loop ::
  "'s client_env \<Rightarrow> string \<Rightarrow> (string \<times> string) list \<Rightarrow> nat \<Rightarrow> nat \<Rightarrow> 's \<Rightarrow> api_response res \<times> 's" where
  "request_loop C path params 0 attempt s = (Inr \<lparr>ar_response = None\<rparr>, s)"
| "request_loop C path params (Suc left) attempt s =
     (case doRequest C path params s of
        (Inr p, s1) \<Rightarrow> (Inr p, s1)
      | (Inl (retry, after, e), s1) \<Rightarrow>
          if \<not> retry \<or> left = 0 then (Inl e, s1)
          else (case ce_wait C (retry_delay (ce_config C) attempt after) s1 of
                  (Some w, s2) \<Rightarrow> (Inl w, s2)
                | (None, s2) \<Rightarrow> request_loop C path params left (Suc attempt) s2))"

definition request :: "'s client_env \<Rightarrow> string \<Rightarrow> (string \<times> string) list \<Rightarrow> 's \<Rightarrow> api_response res \<times> 's" where
  "request C path params s =
     (case ce_ctx_err C s of
        Some e \<Rightarrow> (Inl e, s)
      | None \<Rightarrow>
          if str_contains (ac_key (ce_config C)) ''%'' then (Inl (Sentinel ErrEncodedServiceKey), s)
          else request_loop C path params (nat (ac_attempts (ce_config C))) 0 s)"

section \<open>Listing\<close>

definition operationFor :: "string \<Rightarrow> string option" where
  "operationFor c =
     (if c = CategoryConstruction then Some ''getBidPblancListInfoCnstwk''
      else if c = CategoryService then Some ''getBidPblancListInfoServc''
      else if c = CategoryGoods then Some ''getBidPblancListInfoThng''
      else if c = CategoryForeign then Some ''getBidPblancListInfoFrgcpt''
      else None)"

record list_query =
  lq_start :: time
  lq_end :: time
  lq_size :: int

text \<open>The layout \<open>200601021504\<close> in KST.\<close>

definition query_time :: "time \<Rightarrow> string" where
  "query_time t = format_date [] kst_offset t @ (case clock_of kst_offset t of (h, m, sec) \<Rightarrow> pad 2 h @ pad 2 m)"

definition page_params :: "list_query \<Rightarrow> int \<Rightarrow> int \<Rightarrow> (string \<times> string) list" where
  "page_params q page size' =
     [(''inqryDiv'', ''1''), (''pageNo'', show_int page), (''numOfRows'', show_int size')] @
     (if is_zero (lq_start q) then [] else [(''inqryBgnDt'', query_time (lq_start q))]) @
     (if is_zero (lq_end q) then [] else [(''inqryEndDt'', query_time (lq_end q))])"

definition requestPage :: "'s client_env \<Rightarrow> string \<Rightarrow> list_query \<Rightarrow> int \<Rightarrow> int \<Rightarrow> 's \<Rightarrow> api_response res \<times> 's" where
  "requestPage C op q page size' s = request C op (page_params q page size') s"

definition response_body :: "api_response \<Rightarrow> api_body option" where
  "response_body p = Option.bind (ar_response p) ae_body"

definition total_count :: "api_response \<Rightarrow> int" where
  "total_count p = (case response_body p of None \<Rightarrow> 0 | Some b \<Rightarrow> ab_total b)"

definition pageSignature :: "api_env \<Rightarrow> string list \<Rightarrow> string" where
  "pageSignature E is = ae_sha E (concat (map (\<lambda>i. i @ [CHR 0x00]) is))"

text \<open>One item: the notice it is kept as, if any, and its warnings.\<close>

definition read_item :: "'s client_env \<Rightarrow> string \<Rightarrow> string \<Rightarrow> notice option \<times> field_warning list" where
  "read_item C category raw =
     (let E = ce_api C; key = ac_key (ce_config C); safe = sanitizedRawJSON E raw [key] in
      case Option.bind (json_doc raw) decode_notice of
        None \<Rightarrow> (None, [warning ''item'' ''malformed_item'' safe])
      | Some n \<Rightarrow>
          let n' = sanitize E [key] n in
          (if notice_valid E category safe n' then Some (notice_of E category safe n') else None,
           notice_warnings E category safe n'))"

definition warn_item :: "'s client_env \<Rightarrow> int \<Rightarrow> int \<Rightarrow> field_warning list \<Rightarrow> 's \<Rightarrow> 's" where
  "warn_item C page item ws s = foldl (\<lambda>s w. ce_warning C (w\<lparr>fw_page := page, fw_item := item\<rparr>) s) s ws"

fun take_items ::
  "'s client_env \<Rightarrow> string \<Rightarrow> int \<Rightarrow> int \<Rightarrow> string list \<Rightarrow> notice list \<Rightarrow> 's \<Rightarrow> notice list \<times> 's" where
  "take_items C category page item [] out s = (out, s)"
| "take_items C category page item (raw # rs) out s =
     (case read_item C category raw of (kept, ws) \<Rightarrow>
        take_items C category page (item + 1) rs (out @ (case kept of None \<Rightarrow> [] | Some n \<Rightarrow> [n])) (warn_item C page item ws s))"

definition expected_items :: "int \<Rightarrow> int \<Rightarrow> int \<Rightarrow> int" where
  "expected_items total_items page size' =
     (let e = wrap64 (total_items - wrap64 ((page - 1) * size'));
          e' = (if size' < e then size' else e)
      in if e' < 0 then 0 else e')"

definition short_page :: "int \<Rightarrow> string list \<Rightarrow> field_warning" where
  "short_page page is =
     \<lparr>fw_page = page, fw_item = 0, fw_field = ''items'',
      fw_code = (if is = [] then ''empty_page'' else ''incomplete_page''), fw_raw = []\<rparr>"

text \<open>The pages from number \<open>page\<close> on; \<open>left\<close> is how many may still be asked for. \<open>total_items\<close> is
  negative before the first page; \<open>seen\<close> are the signatures with their pages.\<close>

fun list_pages ::
  "'s client_env \<Rightarrow> string \<Rightarrow> string \<Rightarrow> list_query \<Rightarrow> int \<Rightarrow> nat \<Rightarrow> int \<Rightarrow> int \<Rightarrow> (string \<times> int) list \<Rightarrow> notice list \<Rightarrow> 's \<Rightarrow>
   notice list res \<times> 's" where
  "list_pages C category op q size' 0 page total_items seen out s =
     (Inl (max_page page (ac_max_pages (ce_config C)) total_items), s)"
| "list_pages C category op q size' (Suc left) page total_items seen out s =
     (case requestPage C op q page size' s of
        (Inl e, s1) \<Rightarrow> (Inl e, s1)
      | (Inr p, s1) \<Rightarrow>
          (case items (response_body p) of
             Inl e \<Rightarrow> (Inl e, s1)
           | Inr is \<Rightarrow>
               (let t = (if total_items < 0 then total_count p else total_items);
                    expected = expected_items t page size' in
                if int (length is) < expected then
                  (Inl (incomplete_page page expected (int (length is)) t), ce_warning C (short_page page is) s1)
                else
                  (case (if is = [] then None else map_of seen (pageSignature (ce_api C) is)) of
                     Some first_page \<Rightarrow> (Inl (repeated_page page first_page), s1)
                   | None \<Rightarrow>
                       (case take_items C category page 1 is out s1 of (out', s2) \<Rightarrow>
                          if t = 0 \<or> t \<le> wrap64 (page * size') then (Inr out', s2)
                          else list_pages C category op q size' left (page + 1) t
                                 (if is = [] then seen else (pageSignature (ce_api C) is, page) # seen) out' s2)))))"

definition page_size :: "list_query \<Rightarrow> int" where
  "page_size q =
     (let n = (if lq_size q < 1 then 100 else lq_size q) in if maxPageSize < n then maxPageSize else n)"

definition List :: "'s client_env \<Rightarrow> string \<Rightarrow> list_query \<Rightarrow> 's \<Rightarrow> notice list res \<times> 's" where
  "List C category q s =
     (case ce_ctx_err C s of
        Some e \<Rightarrow> (Inl e, s)
      | None \<Rightarrow>
          if str_contains (ac_key (ce_config C)) ''%'' then (Inl (Sentinel ErrEncodedServiceKey), s)
          else (case operationFor category of
             None \<Rightarrow> (Inl (ErrText (''unsupported procurement category '' @ category)), s)
           | Some op \<Rightarrow>
               list_pages C category op q (page_size q) (nat (ac_max_pages (ce_config C))) 1 (- 1) [] [] s))"

section \<open>The region of a notice\<close>

definition decode_region :: "string \<Rightarrow> string option" where
  "decode_region raw =
     decode_struct [''prtcptPsblRgnNm''] (\<lambda>n r old. decode_string r old) raw []"

fun read_regions :: "api_env \<Rightarrow> string list \<Rightarrow> string list option" where
  "read_regions E [] = Some []"
| "read_regions E (raw # rs) =
     (case decode_region raw of
        None \<Rightarrow> None
      | Some r \<Rightarrow>
          (case read_regions E rs of
             None \<Rightarrow> None
           | Some regions \<Rightarrow>
               let v = NormalizeText (ae_nfc E) r in Some (if v = [] then regions else v # regions)))"

text \<open>The texts in order, each once.\<close>

definition region_text :: "string list \<Rightarrow> string" where
  "region_text regions = str_join '', '' (remdups_adj (sort regions))"

definition region_params :: "string \<Rightarrow> string \<Rightarrow> (string \<times> string) list" where
  "region_params bidNumber bidSequence =
     [(''inqryDiv'', ''2''), (''pageNo'', ''1''), (''numOfRows'', show_int regionPageSize),
      (''bidNtceNo'', bidNumber), (''bidNtceOrd'', bidSequence)]"

definition fetchRegion :: "'s client_env \<Rightarrow> string \<Rightarrow> string \<Rightarrow> 's \<Rightarrow> string res \<times> 's" where
  "fetchRegion C bidNumber bidSequence s =
     (case request C ''getBidPblancListInfoPrtcptPsblRgn'' (region_params bidNumber bidSequence) s of
        (Inl e, s1) \<Rightarrow> (Inl e, s1)
      | (Inr p, s1) \<Rightarrow>
          (case items (response_body p) of
             Inl e \<Rightarrow> (Inl e, s1)
           | Inr is \<Rightarrow>
               let expected = min (total_count p) regionPageSize in
               if int (length is) < expected then
                 (Inl (incomplete_page 1 expected (int (length is)) (total_count p)), s1)
               else (case read_regions (ce_api C) is of
                  None \<Rightarrow> (Inl (malformed ''invalid region item''), s1)
                | Some regions \<Rightarrow> (Inr (region_text regions), s1))))"

end
