(* ===== verification/Api_Client_Laws.thy ===== *)
theory Api_Client_Laws
  imports Api_Client
begin

text \<open>
  What the client of the procurement service guarantees: a listing that succeeds is complete, and a
  request makes a bounded number of calls, each granted by the budget, with bounded waits between.
\<close>

section \<open>Counts\<close>

lemma fold_fields_inv:
  assumes step: "\<And>n raw a b. P a \<Longrightarrow> upd n raw a = Some b \<Longrightarrow> P b"
  shows "P a \<Longrightarrow> fold_fields names upd ms a = Some b \<Longrightarrow> P b"
proof (induction ms arbitrary: a)
  case (Cons m ms)
  obtain k raw where m: "m = (k, raw)" by fastforce
  show ?case
  proof (cases "field_for names k")
    case None
    with Cons m show ?thesis by simp
  next
    case (Some n)
    with Cons.prems m obtain c where c: "upd n raw a = Some c" "fold_fields names upd ms c = Some b"
      by (auto split: option.splits)
    show ?thesis by (rule Cons.IH [OF step [OF Cons.prems(1) c(1)] c(2)])
  qed
qed simp

lemma decode_struct_inv:
  assumes "\<And>n raw a b. P a \<Longrightarrow> upd n raw a = Some b \<Longrightarrow> P b" "P a" "decode_struct names upd raw a = Some b"
  shows "P b"
proof -
  from assms(3) have "b = a \<or> (\<exists>ms. fold_fields names upd ms a = Some b)"
    by (auto simp: decode_struct_def split: option.splits json.splits)
  then show ?thesis
  proof (elim disjE exE)
    fix ms assume f: "fold_fields names upd ms a = Some b"
    show "P b" by (rule fold_fields_inv [of P upd, OF _ assms(2) f]) (rule assms(1))
  qed (use assms(2) in simp)
qed

lemma decode_pointer_inv:
  assumes "\<And>a b. P a \<Longrightarrow> dec raw a = Some b \<Longrightarrow> P b" "P zero" "\<And>a. p = Some a \<Longrightarrow> P a"
    and "decode_pointer dec zero raw p = Some q" "q = Some b"
  shows "P b"
proof -
  have "dec raw (case p of None \<Rightarrow> zero | Some a \<Rightarrow> a) = Some b"
    using assms(4,5) by (auto simp: decode_pointer_def split: if_splits)
  moreover have "P (case p of None \<Rightarrow> zero | Some a \<Rightarrow> a)" using assms(2,3) by (cases p) auto
  ultimately show ?thesis by (rule assms(1) [rotated])
qed

definition count_ok :: "api_body option \<Rightarrow> bool" where
  "count_ok b \<longleftrightarrow> (case b of None \<Rightarrow> True | Some b \<Rightarrow> 0 \<le> ab_total b \<and> ab_total b \<le> int64_max)"

lemma count_ok_Some [simp]: "count_ok (Some b) \<longleftrightarrow> 0 \<le> ab_total b \<and> ab_total b \<le> int64_max"
  by (simp add: count_ok_def)

lemma count_ok_None [simp]: "count_ok None"
  by (simp add: count_ok_def)

lemma body_counts:
  assumes "count_ok (Some b)" "decode_struct names body_field raw b = Some b'"
  shows "count_ok (Some b')"
  using assms(1,2)
proof (rule decode_struct_inv [rotated])
  fix n raw a b assume "count_ok (Some a)" "body_field n raw a = Some b"
  then show "count_ok (Some b)" using decode_count_nonneg by (auto simp: body_field_def split: if_splits)
qed

lemma envelope_counts:
  assumes "count_ok (ae_body e)" "decode_struct names envelope_field raw e = Some e'"
  shows "count_ok (ae_body e')"
  using assms(1,2)
proof (rule decode_struct_inv [rotated])
  fix n raw a b assume a: "count_ok (ae_body a)" and u: "envelope_field n raw a = Some b"
  show "count_ok (ae_body b)"
  proof (cases "ae_body b")
    case (Some x)
    show ?thesis
    proof (cases "n = ''header''")
      case True
      with a u show ?thesis by (auto simp: envelope_field_def)
    next
      case False
      with u Some obtain q where q: "decode_pointer (decode_struct [''items'', ''totalCount''] body_field)
          \<lparr>ab_items = [], ab_total = 0\<rparr> raw (ae_body a) = Some q" "q = Some x"
        by (auto simp: envelope_field_def)
      have "count_ok (Some x)"
      proof (rule decode_pointer_inv [where P = "\<lambda>b. count_ok (Some b)", OF _ _ _ q])
        show "count_ok (Some \<lparr>ab_items = [], ab_total = 0\<rparr>)" by (simp add: int64_max_def)
        show "count_ok (Some y)" if "ae_body a = Some y" for y using a that by simp
      qed (rule body_counts)
      with Some show ?thesis by simp
    qed
  qed simp
qed

lemma decode_response_count:
  assumes "decode_response data = Some p"
  shows "0 \<le> total_count p \<and> total_count p \<le> int64_max"
proof -
  have "case ar_response p of None \<Rightarrow> True | Some e \<Rightarrow> count_ok (ae_body e)"
    using assms unfolding decode_response_def
  proof (rule decode_struct_inv [rotated 2])
    fix n raw and a b :: api_response
    assume a: "case ar_response a of None \<Rightarrow> True | Some e \<Rightarrow> count_ok (ae_body e)" and u: "response_field n raw a = Some b"
    then obtain q where q: "decode_pointer (decode_struct [''header'', ''body''] envelope_field) \<lparr>ae_header = None, ae_body = None\<rparr>
        raw (ar_response a) = Some q" "b = a\<lparr>ar_response := q\<rparr>"
      by (auto simp: response_field_def)
    have "count_ok (ae_body e)" if "q = Some e" for e
    proof (rule decode_pointer_inv [where P = "\<lambda>e. count_ok (ae_body e)", OF _ _ _ q(1) that])
      show "count_ok (ae_body y)" if "ar_response a = Some y" for y using a that by simp
    qed (rule envelope_counts, simp_all)
    with q(2) show "case ar_response b of None \<Rightarrow> True | Some e \<Rightarrow> count_ok (ae_body e)" by (cases q) auto
  qed simp
  then show ?thesis
    by (auto simp: total_count_def response_body_def count_ok_def int64_max_def split: option.splits bind_splits)
qed

lemma read_reply_decodes: "read_reply C r s = Inr p \<Longrightarrow> \<exists>data. decode_response data = Some p"
  by (auto simp: read_reply_def Let_def split: if_splits option.splits sum.splits)

lemma doRequest_decodes: "doRequest C path params s = (Inr p, s1) \<Longrightarrow> \<exists>data. decode_response data = Some p"
  by (auto simp: doRequest_def Let_def dest!: read_reply_decodes split: option.splits prod.splits http_result.splits)

lemma request_loop_count:
  "request_loop C path params left attempt s = (Inr p, s') \<Longrightarrow> 0 \<le> total_count p \<and> total_count p \<le> int64_max"
proof (induction C path params left attempt s rule: request_loop.induct)
  case (1 C path params attempt s)
  then show ?case by (auto simp: total_count_def response_body_def int64_max_def)
next
  case (2 C path params left attempt s)
  then show ?case
    by (auto dest!: doRequest_decodes decode_response_count split: prod.splits sum.splits if_splits option.splits)
qed

lemma requestPage_count:
  "requestPage C op q page n s = (Inr p, s') \<Longrightarrow> 0 \<le> total_count p \<and> total_count p \<le> int64_max"
  by (auto simp: requestPage_def request_def split: option.splits if_splits dest: request_loop_count)

section \<open>A listing is complete\<close>

definition kept_items :: "'s client_env \<Rightarrow> string \<Rightarrow> string list \<Rightarrow> notice list" where
  "kept_items C category is = List.map_filter (\<lambda>raw. fst (read_item C category raw)) is"

lemma take_items_result:
  "fst (take_items C category page i is out s) = out @ kept_items C category is \<and>
   snd (take_items C category page i is out s) = snd (take_items C category page i is [] s)"
proof (induction "is" arbitrary: i out s)
  case (Cons raw rs)
  obtain kept ws where r: "read_item C category raw = (kept, ws)" by fastforce
  note IH1 = Cons.IH [of "i + 1" "out @ (case kept of None \<Rightarrow> [] | Some n \<Rightarrow> [n])" "warn_item C page i ws s"]
  note IH2 = Cons.IH [of "i + 1" "case kept of None \<Rightarrow> [] | Some n \<Rightarrow> [n]" "warn_item C page i ws s"]
  from IH1 IH2 show ?case
    by (cases kept) (simp_all add: r kept_items_def List.map_filter_simps)
qed (simp add: kept_items_def List.map_filter_simps)

text \<open>The pages the service gave, one answered request after the other.\<close>

fun fetched_pages ::
  "'s client_env \<Rightarrow> string \<Rightarrow> string \<Rightarrow> list_query \<Rightarrow> int \<Rightarrow> int \<Rightarrow> (api_response \<times> string list) list \<Rightarrow> 's \<Rightarrow> 's \<Rightarrow> bool" where
  "fetched_pages C category op q size' page [] s s' = (s = s')"
| "fetched_pages C category op q size' page ((p, is) # ps) s s' =
     (\<exists>s1. requestPage C op q page size' s = (Inr p, s1) \<and> items (response_body p) = Inr is \<and>
        fetched_pages C category op q size' (page + 1) ps (snd (take_items C category page 1 is [] s1)) s')"

definition page_marks :: "api_env \<Rightarrow> (api_response \<times> string list) list \<Rightarrow> string list" where
  "page_marks E pages = map (\<lambda>(p, is). pageSignature E is) (filter (\<lambda>(p, is). is \<noteq> []) pages)"

lemma wrap64_small: "0 \<le> x \<Longrightarrow> x \<le> int64_max \<Longrightarrow> wrap64 x = x"
  by (rule wrap64_id) (simp add: in_int64_def int64_min_def int64_max_def)

lemma expected_items_exact:
  assumes "0 \<le> t" "t \<le> int64_max" "1 \<le> page" "1 \<le> n" "page * n \<le> int64_max"
  shows "expected_items t page n = max 0 (min n (t - (page - 1) * n))"
proof -
  have m: "0 \<le> (page - 1) * n" "(page - 1) * n \<le> page * n" using assms by (auto simp: mult_right_mono)
  then have "wrap64 ((page - 1) * n) = (page - 1) * n"
    by (intro wrap64_small m(1) order_trans [OF m(2) assms(5)])
  moreover have "in_int64 (t - (page - 1) * n)"
    using assms(1,2) m(1) order_trans [OF m(2) assms(5)] unfolding in_int64_def int64_min_def int64_max_def by linarith
  then have "wrap64 (t - (page - 1) * n) = t - (page - 1) * n" by (rule wrap64_id)
  ultimately show ?thesis by (auto simp: expected_items_def Let_def)
qed

definition listing ::
  "'s client_env \<Rightarrow> string \<Rightarrow> string \<Rightarrow> list_query \<Rightarrow> int \<Rightarrow> nat \<Rightarrow> int \<Rightarrow> int \<Rightarrow> string set \<Rightarrow> 's \<Rightarrow> notice list \<Rightarrow> 's \<Rightarrow> bool" where
  "listing C category op q n left page t0 seen s ns s' \<longleftrightarrow>
     (\<exists>pages T. pages \<noteq> [] \<and> length pages \<le> left \<and> fetched_pages C category op q n page pages s s' \<and>
        T = (if t0 < 0 then total_count (fst (hd pages)) else t0) \<and>
        ns = concat (map (\<lambda>(p, is). kept_items C category is) pages) \<and>
        T - (page - 1) * n \<le> int (length (concat (map snd pages))) \<and>
        distinct (page_marks (ce_api C) pages) \<and> set (page_marks (ce_api C) pages) \<inter> seen = {})"

lemma list_pages_listing:
  assumes "list_pages C category op q n left page t0 seen out s = (Inr ns, s')"
    and "1 \<le> page" "1 \<le> n" "(page + int left) * n \<le> int64_max" "t0 \<le> int64_max"
  shows "\<exists>ns'. ns = out @ ns' \<and> listing C category op q n left page t0 (fst ` set seen) s ns' s'"
  using assms
proof (induction left arbitrary: page t0 seen out s)
  case (Suc left)
  obtain p s1 where p: "requestPage C op q page n s = (Inr p, s1)"
    using Suc.prems(1) by (auto split: prod.splits sum.splits)
  obtain "is" where i: "items (response_body p) = Inr is"
    using Suc.prems(1) p by (auto split: sum.splits)
  define t where "t = (if t0 < 0 then total_count p else t0)"
  have t: "0 \<le> t" "t \<le> int64_max" using requestPage_count [OF p] Suc.prems(5) by (auto simp: t_def)
  have "page * n \<le> (page + int (Suc left)) * n" using Suc.prems(3) by (intro mult_right_mono) auto
  then have pn: "page * n \<le> int64_max" using Suc.prems(4) by (rule order_trans)
  note e = expected_items_exact [OF t Suc.prems(2,3) pn]
  let ?sig = "pageSignature (ce_api C) is"
  let ?new = "if is = [] then seen else (?sig, page) # seen"
  obtain out' s2 where ti: "take_items C category page 1 is out s1 = (out', s2)" by fastforce
  have out': "out' = out @ kept_items C category is" and s2: "s2 = snd (take_items C category page 1 is [] s1)"
    using take_items_result [of C category page 1 "is" out s1] ti by simp_all
  have full: "\<not> int (length is) < expected_items t page n" and fresh: "is = [] \<or> map_of seen ?sig = None"
    and go: "(if t = 0 \<or> t \<le> wrap64 (page * n) then (Inr out', s2)
        else list_pages C category op q n left (page + 1) t ?new out' s2) = (Inr ns, s')"
    by (cases "is = []"; use Suc.prems(1) ti in \<open>auto simp: p i Let_def t_def [symmetric] split: if_splits option.splits\<close>)+
  have marks: "page_marks (ce_api C) ((p, is) # ps) = (if is = [] then [] else [?sig]) @ page_marks (ce_api C) ps" for ps
    by (simp add: page_marks_def)
  have new: "is \<noteq> [] \<Longrightarrow> ?sig \<notin> fst ` set seen" using fresh by (auto simp: map_of_eq_None_iff)
  have wpn: "wrap64 (page * n) = page * n" using Suc.prems(2,3) pn by (intro wrap64_small) auto
  show ?case
  proof (cases "t = 0 \<or> t \<le> page * n")
    case True
    with go wpn have fin: "ns = out'" "s2 = s'" by simp_all
    have "0 \<le> (page - 1) * n" using Suc.prems(2,3) by simp
    then have "t - (page - 1) * n \<le> n" using True Suc.prems(3) by (auto simp: left_diff_distrib)
    then have enough: "t - (page - 1) * n \<le> int (length is)" using full e by linarith
    have "listing C category op q n (Suc left) page t0 (fst ` set seen) s (kept_items C category is) s'"
      unfolding listing_def
      by (rule exI [of _ "[(p, is)]"], rule exI [of _ t])
         (use p i s2 fin enough new marks [of "[]"] in \<open>auto simp: t_def page_marks_def\<close>)
    with fin out' show ?thesis by blast
  next
    case False
    with go wpn have rec: "list_pages C category op q n left (page + 1) t ?new out' s2 = (Inr ns, s')" by simp
    have "(page + 1 + int left) * n \<le> int64_max" using Suc.prems(4) by (simp add: algebra_simps)
    from Suc.IH [OF rec _ Suc.prems(3) this t(2)] Suc.prems(2)
    obtain ns' where ns': "ns = out' @ ns'" and l: "listing C category op q n left (page + 1) t (fst ` set ?new) s2 ns' s'"
      by auto
    then obtain pages where pages: "pages \<noteq> []" "length pages \<le> left" "fetched_pages C category op q n (page + 1) pages s2 s'"
      "ns' = concat (map (\<lambda>(p, is). kept_items C category is) pages)"
      "t - page * n \<le> int (length (concat (map snd pages)))"
      "distinct (page_marks (ce_api C) pages)" "set (page_marks (ce_api C) pages) \<inter> fst ` set ?new = {}"
      unfolding listing_def using t(1) by auto
    have "n \<le> int (length is)" using False full e Suc.prems(3) by (auto simp: left_diff_distrib)
    then have cnt: "t - (page - 1) * n \<le> int (length (concat (map snd ((p, is) # pages))))"
      using pages(5) by (simp add: left_diff_distrib)
    have "listing C category op q n (Suc left) page t0 (fst ` set seen) s (kept_items C category is @ ns') s'"
      unfolding listing_def
      by (rule exI [of _ "(p, is) # pages"], rule exI [of _ t])
         (use p i s2 pages cnt new in \<open>auto simp: t_def marks split: if_splits\<close>)
    with ns' out' show ?thesis by auto
  qed
qed simp

text \<open>
  C23: A listing that succeeds is complete: it asked for the pages from the first on without a gap, at
  most the maximum number, and each was answered; the pages hold at least as many items as the first
  page announced, no two pages with items are the same, and the result is the valid notices of all
  pages in their order, none dropped and none twice.
\<close>

theorem listing_is_complete:
  assumes "List C category q s = (Inr ns, s')" and "(ac_max_pages (ce_config C) + 1) * maxPageSize \<le> int64_max"
  shows "\<exists>op pages. operationFor category = Some op \<and> pages \<noteq> [] \<and> int (length pages) \<le> ac_max_pages (ce_config C) \<and>
    fetched_pages C category op q (page_size q) 1 pages s s' \<and>
    total_count (fst (hd pages)) \<le> int (length (concat (map snd pages))) \<and>
    distinct (page_marks (ce_api C) pages) \<and>
    ns = concat (map (\<lambda>(p, is). kept_items C category is) pages)"
proof -
  let ?n = "page_size q" and ?left = "nat (ac_max_pages (ce_config C))"
  obtain op where op: "operationFor category = Some op"
    and run: "list_pages C category op q ?n ?left 1 (- 1) [] [] s = (Inr ns, s')"
    using assms(1) by (auto simp: List_def split: option.splits if_splits)
  have n: "1 \<le> ?n" "?n \<le> maxPageSize" by (auto simp: page_size_def maxPageSize_def Let_def)
  then have "(1 + int ?left) * ?n \<le> (1 + int ?left) * maxPageSize" by (intro mult_left_mono) auto
  also have "\<dots> \<le> int64_max" using assms(2) by (cases "0 \<le> ac_max_pages (ce_config C)") (simp_all add: maxPageSize_def int64_max_def)
  finally have "(1 + int ?left) * ?n \<le> int64_max" .
  from list_pages_listing [OF run _ n(1) this] have "listing C category op q ?n ?left 1 (- 1) {} s ns s'"
    by (auto simp: int64_max_def)
  then obtain pages where "pages \<noteq> []" "length pages \<le> ?left" "fetched_pages C category op q ?n 1 pages s s'"
    "ns = concat (map (\<lambda>(p, is). kept_items C category is) pages)"
    "total_count (fst (hd pages)) \<le> int (length (concat (map snd pages)))" "distinct (page_marks (ce_api C) pages)"
    unfolding listing_def by auto
  moreover have "int (length pages) \<le> ac_max_pages (ce_config C)" if "pages \<noteq> []" "length pages \<le> ?left"
    using that by (cases pages) auto
  ultimately show ?thesis using op by blast
qed

section \<open>Bounded calls\<close>

lemma backoff_exact:
  assumes "0 < base" "0 < cap" "cap \<le> 2 ^ 62"
  shows "backoff base cap n = min cap (base * 2 ^ n)"
proof -
  have "min cap (backoff_loop n base cap) = min cap (base * 2 ^ n)" if "0 < base" for base
    using that
  proof (induction n arbitrary: base)
    case (Suc n)
    show ?case
    proof (cases "base < cap")
      case True
      then have "wrap64 (base * 2) = base * 2" using assms(3) Suc.prems by (intro wrap64_small) (auto simp: int64_max_def)
      with True Suc.IH [of "base * 2"] Suc.prems show ?thesis by (simp add: mult.assoc)
    next
      case False
      have "(1 :: int) \<le> 2 ^ Suc n" by (rule one_le_power) simp
      then have "base * 1 \<le> base * 2 ^ Suc n" using Suc.prems by (intro mult_left_mono) simp_all
      with False show ?thesis by simp
    qed
  qed simp
  from this [OF assms(1)] have "min cap (backoff_loop n base cap) = min cap (base * 2 ^ n)" .
  moreover have "backoff base cap n = min cap (backoff_loop n base cap)" by (auto simp: backoff_def Let_def)
  ultimately show ?thesis by simp
qed

datatype call_event = CallGranted | CallRefused | CallHTTP | CallWait duration

text \<open>The environment with a log of the calls; it is the given one otherwise.\<close>

definition logged :: "'s client_env \<Rightarrow> ('s \<times> call_event list) client_env" where
  "logged C =
     \<lparr>ce_api = ce_api C, ce_config = ce_config C, ce_parse_url = ce_parse_url C,
      ce_take_call = map_option (\<lambda>tk (s, es). case tk s of (r, s1) \<Rightarrow>
         (r, s1, es @ [if r = None then CallGranted else CallRefused])) (ce_take_call C),
      ce_http = (\<lambda>u q (s, es). case ce_http C u q s of (r, s1) \<Rightarrow> (r, s1, es @ [CallHTTP])),
      ce_ctx_err = (\<lambda>(s, es). ce_ctx_err C s),
      ce_wait = (\<lambda>d (s, es). case ce_wait C d s of (r, s1) \<Rightarrow> (r, s1, es @ [CallWait d])),
      ce_until = (\<lambda>h (s, es). ce_until C h s), ce_warning = (\<lambda>w (s, es). (ce_warning C w s, es))\<rparr>"

text \<open>A log in which every exchange was granted, and the waits follow the attempts.\<close>

fun paid_log :: "api_config \<Rightarrow> nat \<Rightarrow> nat \<Rightarrow> call_event list \<Rightarrow> bool" where
  "paid_log c left attempt [] = True"
| "paid_log c (Suc left) attempt [CallRefused] = True"
| "paid_log c (Suc left) attempt [CallGranted, CallHTTP] = True"
| "paid_log c (Suc left) attempt (CallGranted # CallHTTP # CallWait d # es) =
     (left \<noteq> 0 \<and> min (ac_max_delay c) (ac_base_delay c * 2 ^ attempt) \<le> d \<and> d \<le> ac_max_delay c \<and>
      paid_log c left (Suc attempt) es)"
| "paid_log c left attempt es = False"

lemma retry_delay_bounds:
  assumes "0 < ac_base_delay c" "0 < ac_max_delay c" "ac_max_delay c \<le> 2 ^ 62"
  shows "min (ac_max_delay c) (ac_base_delay c * 2 ^ n) \<le> retry_delay c n after" "retry_delay c n after \<le> ac_max_delay c"
  using backoff_exact [OF assms, of n] by (auto simp: retry_delay_def Let_def)

lemma logged_doRequest:
  assumes "doRequest (logged C) path params (s, es) = (r, s', es')" "ce_take_call C \<noteq> None"
  shows "(\<exists>l. es' = es @ l \<and> (l = [] \<or> l = [CallRefused] \<or> l = [CallGranted, CallHTTP])) \<and>
    (\<forall>retry after e. r = Inl (retry, after, e) \<longrightarrow> retry \<longrightarrow> es' = es @ [CallGranted, CallHTTP])"
proof -
  obtain tk where tk: "ce_take_call C = Some tk" using assms(2) by auto
  have budget: "ce_take_call (logged C) = Some (\<lambda>(s, es). case tk s of (r, s1) \<Rightarrow>
      (r, s1, es @ [if r = None then CallGranted else CallRefused]))"
    by (simp add: logged_def tk)
  have http: "ce_http (logged C) u q (s, es) = (case ce_http C u q s of (r, s1) \<Rightarrow> (r, s1, es @ [CallHTTP]))" for u q s es
    by (simp add: logged_def)
  obtain t s1 where t: "tk s = (t, s1)" by fastforce
  show ?thesis
    using assms(1) unfolding doRequest_def budget
    by (cases t) (auto simp: Let_def t http split: option.splits prod.splits http_result.splits)
qed

lemma logged_request_loop:
  assumes "request_loop (logged C) path params left attempt (s, es) = (r, s', es')" "ce_take_call C \<noteq> None"
    and c: "0 < ac_base_delay (ce_config C)" "0 < ac_max_delay (ce_config C)" "ac_max_delay (ce_config C) \<le> 2 ^ 62"
  shows "\<exists>l. es' = es @ l \<and> paid_log (ce_config C) left attempt l"
  using assms(1)
proof (induction left arbitrary: attempt s es)
  case (Suc left)
  obtain x s1 es1 where d: "doRequest (logged C) path params (s, es) = (x, s1, es1)" by (metis surj_pair)
  note log = logged_doRequest [OF d assms(2)]
  show ?case
  proof (cases x)
    case (Inr p)
    with Suc.prems d have "es' = es1" by simp
    with log show ?thesis by auto
  next
    case (Inl a)
    obtain retry after e where a: "a = (retry, after, e)" by (cases a)
    show ?thesis
    proof (cases "\<not> retry \<or> left = 0")
      case True
      with Suc.prems d Inl a have "es' = es1" by simp
      with log show ?thesis by auto
    next
      case False
      then have es1: "es1 = es @ [CallGranted, CallHTTP]" using log Inl a by auto
      let ?d = "retry_delay (ce_config C) attempt after"
      obtain w s2 where w: "ce_wait C ?d s1 = (w, s2)" by fastforce
      have wait: "ce_wait (logged C) ?d (s1, es1) = (w, s2, es1 @ [CallWait ?d])" and conf: "ce_config (logged C) = ce_config C"
        by (simp_all add: logged_def w)
      note bounds = retry_delay_bounds [OF c, of attempt after]
      have "\<exists>l. es' = es1 @ CallWait ?d # l \<and> paid_log (ce_config C) left (Suc attempt) l"
      proof (cases w)
        case None
        with Suc.prems d Inl a False wait conf
        have "request_loop (logged C) path params left (Suc attempt) (s2, es1 @ [CallWait ?d]) = (r, s', es')" by simp
        from Suc.IH [OF this] show ?thesis by auto
      next
        case (Some e)
        with Suc.prems d Inl a False wait conf have "es' = es1 @ [CallWait ?d]" by simp
        then show ?thesis by simp
      qed
      then show ?thesis using es1 bounds False by auto
    qed
  qed
qed simp

lemma paid_log_counts:
  "paid_log c left attempt es \<Longrightarrow> 0 < ac_base_delay c \<Longrightarrow> length (filter (\<lambda>e. e = CallHTTP) es) \<le> left \<and>
     length (filter (\<lambda>e. e = CallHTTP) es) = length (filter (\<lambda>e. e = CallGranted) es) \<and>
     (\<forall>d. CallWait d \<in> set es \<longrightarrow> min (ac_max_delay c) (ac_base_delay c) \<le> d \<and> d \<le> ac_max_delay c)"
proof (induction c left attempt es rule: paid_log.induct)
  case (4 c left attempt d es)
  then have d: "min (ac_max_delay c) (ac_base_delay c * 2 ^ attempt) \<le> d" "d \<le> ac_max_delay c"
    and rest: "paid_log c left (Suc attempt) es" by simp_all
  have "ac_base_delay c * 1 \<le> ac_base_delay c * 2 ^ attempt" using 4(3) by (intro mult_left_mono) simp_all
  with d have "min (ac_max_delay c) (ac_base_delay c) \<le> d" by linarith
  with 4(1) [OF rest 4(3)] d(2) show ?case by auto
qed simp_all

text \<open>
  A request makes at most the configured number of HTTP calls, each of them granted by the call
  budget immediately before, and the waits between attempts double from the base delay up to the
  maximum delay, whatever the server answers and whatever delay it asks for.
\<close>

theorem request_calls_bounded:
  assumes "request (logged C) path params (s, []) = (r, s', es)" "ce_take_call C \<noteq> None"
    and "0 < ac_base_delay (ce_config C)" "0 < ac_max_delay (ce_config C)" "ac_max_delay (ce_config C) \<le> 2 ^ 62"
  shows "paid_log (ce_config C) (nat (ac_attempts (ce_config C))) 0 es \<and>
    length (filter (\<lambda>e. e = CallHTTP) es) \<le> nat (ac_attempts (ce_config C)) \<and>
    length (filter (\<lambda>e. e = CallHTTP) es) = length (filter (\<lambda>e. e = CallGranted) es) \<and>
    (\<forall>d. CallWait d \<in> set es \<longrightarrow> min (ac_max_delay (ce_config C)) (ac_base_delay (ce_config C)) \<le> d \<and>
       d \<le> ac_max_delay (ce_config C))"
proof -
  have "paid_log (ce_config C) (nat (ac_attempts (ce_config C))) 0 es"
  proof (cases "ce_ctx_err C s = None \<and> \<not> str_contains (ac_key (ce_config C)) ''%''")
    case True
    then have "request_loop (logged C) path params (nat (ac_attempts (ce_config C))) 0 (s, []) = (r, s', es)"
      using assms(1) by (simp add: request_def logged_def)
    from logged_request_loop [OF this assms(2-5)] show ?thesis by simp
  next
    case False
    then have "es = []" using assms(1) by (auto simp: request_def logged_def split: option.splits)
    then show ?thesis by simp
  qed
  with paid_log_counts [OF this assms(3)] show ?thesis by blast
qed

text \<open>An environment in which every exchange gives the same reply.\<close>

definition replying :: "string \<Rightarrow> unit client_env" where
  "replying body =
     \<lparr>ce_api = \<lparr>ae_nfc = (\<lambda>s. s), ae_lower = (\<lambda>r. r), ae_sha = (\<lambda>s. s), ae_query_keys = (\<lambda>s. Some []), ae_parse_time = (\<lambda>l s. None)\<rparr>,
      ce_config = NewClient \<lparr>ac_base = [], ac_key = ''key'', ac_attempts = 0, ac_base_delay = 0, ac_max_delay = 0, ac_max_body = 0,
        ac_lookup_budget = 0, ac_max_pages = 0\<rparr>,
      ce_parse_url = (\<lambda>u. Some []), ce_take_call = Some (\<lambda>s. (None, s)),
      ce_http = (\<lambda>u q s. (HttpReply \<lparr>hr_status = 200, hr_retry_after = [], hr_body = body, hr_broken = False\<rparr>, s)),
      ce_ctx_err = (\<lambda>s. None), ce_wait = (\<lambda>d s. (None, s)), ce_until = (\<lambda>h s. None), ce_warning = (\<lambda>w s. s)\<rparr>"

text \<open>A server that is overloaded: three calls, with waits of 100 and 200 milliseconds.\<close>

definition busy_service :: "unit client_env" where
  "busy_service = (replying [])\<lparr>ce_http := (\<lambda>u q s.
     (HttpReply \<lparr>hr_status = 503, hr_retry_after = [], hr_body = [], hr_broken = False\<rparr>, s))\<rparr>"

lemma busy_service_calls:
  "snd (snd (request (logged busy_service) ''x'' [] ((), []))) =
     [CallGranted, CallHTTP, CallWait 100000000, CallGranted, CallHTTP, CallWait 200000000, CallGranted, CallHTTP]"
  by code_simp

theorem request_calls_bounded_witness:
  "paid_log (ce_config busy_service) 3 0
     [CallGranted, CallHTTP, CallWait 100000000, CallGranted, CallHTTP, CallWait 200000000, CallGranted, CallHTTP]"
proof -
  have run: "request (logged busy_service) ''x'' [] ((), []) =
      (fst (request (logged busy_service) ''x'' [] ((), [])), (), snd (snd (request (logged busy_service) ''x'' [] ((), []))))"
    by (simp only: prod_eq_iff fst_conv snd_conv simp_thms unit_eq)
  have "ce_take_call busy_service \<noteq> None" "0 < ac_base_delay (ce_config busy_service)" "0 < ac_max_delay (ce_config busy_service)"
    "ac_max_delay (ce_config busy_service) \<le> 2 ^ 62" "nat (ac_attempts (ce_config busy_service)) = 3"
    by (simp_all add: busy_service_def replying_def NewClient_def)
  with request_calls_bounded [OF run] show ?thesis unfolding busy_service_calls by simp
qed

end
