(* ===== verification/Api_Reply.thy ===== *)
theory Api_Reply
  imports Api_Client_Laws
begin

text \<open>
  The reply of the procurement service read back by internal/procurement/client.go: what is written in
  the documented form decodes to the code, the count and the raw items it was written with.
\<close>

section \<open>Members and elements of a written document\<close>

lemma parse_members_written:
  assumes "ms \<noteq> []" "within (Suc d) (JObj ms)"
    and "length (str_join '','' (map (\<lambda>(k, v). json_quote k @ CHR '':'' # json_text v) ms)) < n"
  shows "parse_members n d (str_join '','' (map (\<lambda>(k, v). json_quote k @ CHR '':'' # json_text v) ms) @ ''}'') =
    Some (map (\<lambda>(k, v). (to_valid k, json_text v, json_valid v)) ms, [])"
proof (rule parse_members_text [OF assms(1) _ assms(3)])
  show "\<forall>(k, v) \<in> set ms. json_wf v \<and> json_depth v \<le> d \<and> reads_back v"
    using assms(2) unfolding within_JObj by (auto simp: within_def intro!: reads_back)
qed

lemma parse_elems_written:
  assumes "vs \<noteq> []" "within (Suc d) (JArr vs)" "length (str_join '','' (map json_text vs)) < n"
  shows "parse_elems n d (str_join '','' (map json_text vs) @ '']'') = Some (map (\<lambda>v. (json_text v, json_valid v)) vs, [])"
proof (rule parse_elems_text [OF assms(1) _ assms(3)])
  show "\<forall>v \<in> set vs. json_wf v \<and> json_depth v \<le> d \<and> reads_back v"
    using assms(2) unfolding within_JArr by (auto simp: within_def intro!: reads_back)
qed

lemma within_max: "within max_depth v \<Longrightarrow> within (Suc max_depth) v"
  by (erule within_mono) simp

lemma raw_members_written:
  assumes "within max_depth (JObj ms)"
  shows "raw_members (json_text (JObj ms)) = Some (map (\<lambda>(k, v). (to_valid k, json_text v)) ms)"
proof (cases ms)
  case Nil
  then show ?thesis by (simp add: raw_members_def skip_ws_def is_ws_def)
next
  case (Cons m ms')
  let ?texts = "map (\<lambda>(k, v). json_quote k @ CHR '':'' # json_text v) ms"
  obtain u where "str_join '','' ?texts = quotation_mark # u"
    using str_join_head [of ?texts quotation_mark _ "'',''"] by (cases m) (auto simp: Cons json_quote_def)
  moreover have "parse_members (enough (json_text (JObj ms))) max_depth (str_join '','' ?texts @ ''}'') =
      Some (map (\<lambda>(k, v). (to_valid k, json_text v, json_valid v)) ms, [])"
    by (rule parse_members_written) (use Cons within_max [OF assms] in \<open>auto simp: enough_def\<close>)
  ultimately show ?thesis
    by (simp add: raw_members_def skip_ws_def is_ws_def comp_def case_prod_unfold)
qed

lemma raw_elems_written:
  assumes "within max_depth (JArr vs)"
  shows "raw_elems (json_text (JArr vs)) = Some (map json_text vs)"
proof (cases vs)
  case Nil
  then show ?thesis by (simp add: raw_elems_def skip_ws_def is_ws_def)
next
  case (Cons v vs')
  then have "json_wf v" using assms by (simp add: within_def)
  then obtain c t where c: "json_text v = c # t" "\<not> is_ws c" "c \<noteq> CHR '']''" by (rule json_text_head)
  then obtain u where "str_join '','' (map json_text vs) = c # u"
    using str_join_head [of "map json_text vs" c t "'',''"] Cons by auto
  moreover have "parse_elems (enough (json_text (JArr vs))) max_depth (str_join '','' (map json_text vs) @ '']'') =
      Some (map (\<lambda>v. (json_text v, json_valid v)) vs, [])"
    by (rule parse_elems_written) (use Cons within_max [OF assms] in \<open>auto simp: enough_def\<close>)
  ultimately show ?thesis using c
    by (simp add: raw_elems_def skip_ws_def is_ws_def comp_def)
qed

lemma decode_struct_written:
  assumes "within max_depth (JObj ms)"
  shows "decode_struct names upd (json_text (JObj ms)) a =
    fold_fields names upd (map (\<lambda>(k, v). (to_valid k, json_text v)) ms) a"
  unfolding decode_struct_def json_doc_written [OF assms] raw_members_written [OF assms] by simp

lemma decode_pointer_written:
  assumes "within max_depth (JObj ms)"
  shows "decode_pointer dec zero (json_text (JObj ms)) None = map_option Some (dec (json_text (JObj ms)) zero)"
  unfolding decode_pointer_def json_doc_written [OF assms] by simp

lemma decode_string_written: "decode_string (json_text (JStr s)) old = Some (to_valid s)"
  unfolding decode_string_def json_doc_written [OF within_simps(3)] by simp

section \<open>The documented reply\<close>

definition written_reply :: "string \<Rightarrow> string \<Rightarrow> json list \<Rightarrow> string \<Rightarrow> json" where
  "written_reply code msg is cnt =
     JObj [(''response'', JObj [(''header'', JObj [(''resultCode'', JStr code), (''resultMsg'', JStr msg)]),
       (''body'', JObj [(''items'', JArr is), (''totalCount'', JNum cnt)])])]"

lemma names_valid:
  "to_valid ''response'' = ''response''" "to_valid ''header'' = ''header''" "to_valid ''body'' = ''body''"
  "to_valid ''resultCode'' = ''resultCode''" "to_valid ''resultMsg'' = ''resultMsg''"
  "to_valid ''items'' = ''items''" "to_valid ''totalCount'' = ''totalCount''"
  by (simp_all add: to_valid_valid valid_utf8_ascii byte_def)

lemma within_reply:
  assumes "\<forall>v \<in> set is. within (max_depth - 4) v" "after_number cnt = Some []"
  shows "within (max_depth - 3) (JArr is)"
    "within (max_depth - 2) (JObj [(''items'', JArr is), (''totalCount'', JNum cnt)])"
    "within (max_depth - 1) (JObj [(''header'', JObj [(''resultCode'', JStr code), (''resultMsg'', JStr msg)]),
       (''body'', JObj [(''items'', JArr is), (''totalCount'', JNum cnt)])])"
    "within max_depth (written_reply code msg is cnt)"
proof -
  have d: "max_depth - 3 = Suc (max_depth - 4)" "max_depth - 2 = Suc (max_depth - 3)"
    "max_depth - 1 = Suc (max_depth - 2)" "max_depth = Suc (max_depth - 1)" by (simp_all add: max_depth_def)
  show 1: "within (max_depth - 3) (JArr is)" unfolding d(1) within_JArr by (rule assms(1))
  show 2: "within (max_depth - 2) (JObj [(''items'', JArr is), (''totalCount'', JNum cnt)])"
    unfolding d(2) within_JObj using 1 assms(2) by simp
  have "within (max_depth - 2) (JObj [(''resultCode'', JStr code), (''resultMsg'', JStr msg)])"
    unfolding d(2) within_JObj by simp
  with 2 show 3: "within (max_depth - 1) (JObj [(''header'', JObj [(''resultCode'', JStr code), (''resultMsg'', JStr msg)]),
       (''body'', JObj [(''items'', JArr is), (''totalCount'', JNum cnt)])])"
    unfolding d(3) within_JObj by simp
  show "within max_depth (written_reply code msg is cnt)"
    unfolding written_reply_def by (subst d(4)) (use 3 in \<open>simp add: within_JObj\<close>)
qed

text \<open>What is read back: the code and message, the count, and every item with exactly its text.\<close>

lemma reply_read_back:
  assumes "\<forall>v \<in> set is. within (max_depth - 4) v" "after_number cnt = Some []" "parse_int64 cnt = Some t" "0 \<le> t"
    and "code \<noteq> []" "valid_utf8 code" "valid_utf8 msg"
  shows "\<exists>p. decode_response (json_text (written_reply code msg is cnt)) = Some p \<and>
    validated_header p = Inr \<lparr>ah_code = code, ah_message = msg\<rparr> \<and> total_count p = t \<and>
    items (response_body p) = Inr (map json_text is)"
proof -
  note w = within_reply [OF assms(1,2)]
  have top_doc: "within max_depth (written_reply code msg is cnt)" by (rule w(4))
  have body: "within max_depth (JObj [(''items'', JArr is), (''totalCount'', JNum cnt)])"
    and arr: "within max_depth (JArr is)"
    and header: "within max_depth (JObj [(''resultCode'', JStr code), (''resultMsg'', JStr msg)])"
    and envelope: "within max_depth (JObj [(''header'', JObj [(''resultCode'', JStr code), (''resultMsg'', JStr msg)]),
       (''body'', JObj [(''items'', JArr is), (''totalCount'', JNum cnt)])])"
    using w by (auto elim!: within_mono simp: within_def max_depth_def)
  have count: "decode_count (json_text (JNum cnt)) = Some t"
  proof -
    obtain c u where "cnt = c # u" "c = CHR ''-'' \<or> is_digit c" using assms(2) by (rule after_number_head)
    then have "cnt \<noteq> []" "hd cnt \<noteq> quotation_mark" by (auto simp: is_digit_def)
    with assms(3,4) show ?thesis by (simp add: decode_count_def)
  qed
  let ?h = "\<lparr>ah_code = code, ah_message = msg\<rparr>" and ?b = "\<lparr>ab_items = json_text (JArr is), ab_total = t\<rparr>"
  have dh: "decode_struct [''resultCode'', ''resultMsg''] header_field
      (json_text (JObj [(''resultCode'', JStr code), (''resultMsg'', JStr msg)])) \<lparr>ah_code = [], ah_message = []\<rparr> = Some ?h"
    unfolding decode_struct_written [OF header] using assms(6,7)
    by (simp add: names_valid field_for_def header_field_def decode_string_written to_valid_valid del: json_text.simps)
  have db: "decode_struct [''items'', ''totalCount''] body_field
      (json_text (JObj [(''items'', JArr is), (''totalCount'', JNum cnt)])) \<lparr>ab_items = [], ab_total = 0\<rparr> = Some ?b"
    unfolding decode_struct_written [OF body]
    by (simp add: names_valid field_for_def body_field_def count del: json_text.simps)
  let ?e = "\<lparr>ae_header = Some ?h, ae_body = Some ?b\<rparr>"
  have de: "decode_struct [''header'', ''body''] envelope_field
      (json_text (JObj [(''header'', JObj [(''resultCode'', JStr code), (''resultMsg'', JStr msg)]),
       (''body'', JObj [(''items'', JArr is), (''totalCount'', JNum cnt)])])) \<lparr>ae_header = None, ae_body = None\<rparr> = Some ?e"
    unfolding decode_struct_written [OF envelope]
    by (simp add: names_valid field_for_def envelope_field_def decode_pointer_written [OF header] decode_pointer_written [OF body]
        dh db del: json_text.simps)
  have dr: "decode_response (json_text (written_reply code msg is cnt)) = Some \<lparr>ar_response = Some ?e\<rparr>"
    unfolding decode_response_def written_reply_def decode_struct_written [OF top_doc [unfolded written_reply_def]]
    by (simp add: names_valid field_for_def response_field_def decode_pointer_written [OF envelope] de del: json_text.simps)
  have "items (Some ?b) = Inr (map json_text is)"
    by (simp add: items_def decode_struct_def itemSlice_def json_doc_written [OF arr] raw_elems_written [OF arr] del: json_text.simps)
      (simp)
  with dr assms(5) show ?thesis
    by (intro exI [of _ "\<lparr>ar_response = Some ?e\<rparr>"]) (simp add: validated_header_def total_count_def response_body_def)
qed

section \<open>A service that serves its pages\<close>

lemma kept_items_append: "kept_items C category (xs @ ys) = kept_items C category xs @ kept_items C category ys"
  by (induction xs) (simp_all add: kept_items_def List.map_filter_simps split: option.split)

lemma show_nat_head: "0 < n \<Longrightarrow> hd (show_nat n) \<noteq> CHR ''0''"
proof (induction n rule: show_nat.induct)
  case (1 n)
  show ?case
  proof (cases "n < 10")
    case True
    with 1(2) show ?thesis using digit_char_code [of n] by (subst show_nat.simps) auto
  next
    case False
    then have "0 < n div 10" by simp
    with 1(1) [OF False] False show ?thesis by (subst show_nat.simps) (simp add: hd_append)
  qed
qed

lemma count_literal: "after_number (show_int (int n)) = Some []"
proof (cases "n = 0")
  case True
  have "show_int 0 = [CHR ''0'']" by code_simp
  with True show ?thesis by (simp add: after_number_def after_minus_def after_int_def after_frac_def after_exp_def)
next
  case False
  have "dropWhile is_digit (show_nat n) = []" using show_nat_digits by (simp add: list_all_iff)
  with False show_nat_head [of n] is_digit_not_sign [OF hd_show_nat_digit, of n] hd_show_nat_digit [of n]
  show ?thesis by (simp add: show_int_def after_number_def after_minus_def after_int_def leading_digits_def after_frac_def after_exp_def)
qed

definition page_of :: "nat \<Rightarrow> nat \<Rightarrow> 'a list \<Rightarrow> 'a list" where
  "page_of n k vs = take n (drop (k * n) vs)"

text \<open>The reply to the request for page number \<open>k + 1\<close> of the items \<open>vs\<close>.\<close>

definition page_reply :: "nat \<Rightarrow> nat \<Rightarrow> json list \<Rightarrow> string" where
  "page_reply n k vs = json_text (written_reply ''00'' ''OK'' (page_of n k vs) (show_int (int (length vs))))"

text \<open>Every request for a page of the items is granted and answered with that page.\<close>

definition serves :: "'s client_env \<Rightarrow> string \<Rightarrow> list_query \<Rightarrow> json list \<Rightarrow> bool" where
  "serves C op q vs \<longleftrightarrow>
     (\<forall>v \<in> set vs. within (max_depth - 4) v) \<and> int (length vs) \<le> int64_max \<and>
     0 < ac_attempts (ce_config C) \<and> \<not> str_contains (ac_key (ce_config C)) ''%'' \<and>
     (\<forall>s. ce_ctx_err C s = None) \<and> (\<forall>tk s. ce_take_call C = Some tk \<longrightarrow> fst (tk s) = None) \<and>
     (\<exists>urlq. ce_parse_url C (trim_right_slash (ac_base (ce_config C)) @ ''/'' @ op) = Some urlq \<and>
        (\<forall>k s. k * nat (page_size q) < max 1 (length vs) \<longrightarrow>
           int (length (page_reply (nat (page_size q)) k vs)) \<le> ac_max_body (ce_config C) \<and>
           (\<exists>s' after. ce_http C (trim_right_slash (ac_base (ce_config C)) @ ''/'' @ op)
              (request_query (ac_key (ce_config C)) (page_params q (int k + 1) (page_size q)) urlq) s =
              (HttpReply \<lparr>hr_status = 200, hr_retry_after = after, hr_body = page_reply (nat (page_size q)) k vs, hr_broken = False\<rparr>, s'))))"

lemma served_page:
  assumes "serves C op q vs" "k * nat (page_size q) < max 1 (length vs)"
  shows "\<exists>p s'. requestPage C op q (int k + 1) (page_size q) s = (Inr p, s') \<and> total_count p = int (length vs) \<and>
    items (response_body p) = Inr (map json_text (page_of (nat (page_size q)) k vs))"
proof -
  let ?n = "nat (page_size q)" and ?e = "trim_right_slash (ac_base (ce_config C)) @ ''/'' @ op"
  let ?body = "page_reply ?n k vs"
  from assms obtain urlq where u: "ce_parse_url C ?e = Some urlq"
    and http: "\<forall>s. \<exists>s' after. ce_http C ?e (request_query (ac_key (ce_config C)) (page_params q (int k + 1) (page_size q)) urlq) s =
      (HttpReply \<lparr>hr_status = 200, hr_retry_after = after, hr_body = ?body, hr_broken = False\<rparr>, s')"
    and len: "int (length ?body) \<le> ac_max_body (ce_config C)"
    unfolding serves_def by blast
  have items: "\<forall>v \<in> set (page_of ?n k vs). within (max_depth - 4) v"
    using assms(1) by (auto simp: serves_def page_of_def dest!: in_set_takeD in_set_dropD)
  have "parse_int64 (show_int (int (length vs))) = Some (int (length vs))"
    using assms(1) by (intro parse_int64_show_int) (simp add: serves_def in_int64_def int64_min_def)
  from reply_read_back [OF items count_literal this, of "''00''" "''OK''"]
  obtain p where p: "decode_response ?body = Some p" "validated_header p = Inr \<lparr>ah_code = ''00'', ah_message = ''OK''\<rparr>"
    "total_count p = int (length vs)" "items (response_body p) = Inr (map json_text (page_of ?n k vs))"
    unfolding page_reply_def by (auto simp: valid_utf8_ascii byte_def)
  have ctx: "ce_ctx_err C s = None" and key: "\<not> str_contains (ac_key (ce_config C)) ''%''" for s
    using assms(1) by (simp_all add: serves_def)
  obtain s1 where take: "(case ce_take_call C of None \<Rightarrow> (None, s) | Some tk \<Rightarrow> tk s) = (None, s1)"
    using assms(1) unfolding serves_def by (cases "ce_take_call C") (auto, metis prod.exhaust_sel)
  obtain s2 after where h: "ce_http C ?e (request_query (ac_key (ce_config C)) (page_params q (int k + 1) (page_size q)) urlq) s1 =
      (HttpReply \<lparr>hr_status = 200, hr_retry_after = after, hr_body = ?body, hr_broken = False\<rparr>, s2)"
    using http by blast
  have "response_body p \<noteq> None" using p(4) by (cases "response_body p") (simp_all add: items_def)
  then have "read_reply C \<lparr>hr_status = 200, hr_retry_after = after, hr_body = ?body, hr_broken = False\<rparr> s2 = Inr p"
    using len p(1,2) by (simp add: read_reply_def read_body_def response_body_def Let_def)
  then have "doRequest C op (page_params q (int k + 1) (page_size q)) s = (Inr p, s2)"
    unfolding doRequest_def Let_def u option.case take prod.case h http_result.case by simp
  moreover obtain left where "nat (ac_attempts (ce_config C)) = Suc left"
    using assms(1) unfolding serves_def by (cases "nat (ac_attempts (ce_config C))") auto
  ultimately have "requestPage C op q (int k + 1) (page_size q) s = (Inr p, s2)"
    by (simp add: requestPage_def request_def ctx key)
  with p(3,4) show ?thesis by blast
qed

text \<open>The pages of the items have different signatures.\<close>

definition page_sig :: "'s client_env \<Rightarrow> nat \<Rightarrow> json list \<Rightarrow> nat \<Rightarrow> string" where
  "page_sig C n vs k = pageSignature (ce_api C) (map json_text (page_of n k vs))"

definition pages_differ :: "'s client_env \<Rightarrow> nat \<Rightarrow> json list \<Rightarrow> bool" where
  "pages_differ C n vs \<longleftrightarrow> inj_on (page_sig C n vs) {k. k * n < length vs}"

lemma served_pages:
  assumes "serves C op q vs" "pages_differ C n vs" "n = nat (page_size q)" "0 < n"
    and "max 1 (length vs) \<le> (k + left) * n" "int (k + left + 1) * int n \<le> int64_max"
    and "k * n < max 1 (length vs)" "t0 < 0 \<or> t0 = int (length vs)"
    and "fst ` set seen \<subseteq> page_sig C n vs ` {j. j < k \<and> j * n < length vs}"
  shows "\<exists>s'. list_pages C category op q (page_size q) left (int k + 1) t0 seen out s =
    (Inr (out @ kept_items C category (map json_text (drop (k * n) vs))), s')"
  using assms(5-)
proof (induction left arbitrary: k t0 seen out s)
  case 0
  then have False by (metis add_0_right leD)
  then show ?case ..
next
  case (Suc left)
  let ?N = "int (length vs)" and ?is = "map json_text (page_of n k vs)"
  have n: "page_size q = int n" using assms(3,4) by simp
  obtain p s1 where p: "requestPage C op q (int k + 1) (page_size q) s = (Inr p, s1)" "total_count p = ?N"
    "items (response_body p) = Inr ?is"
    using served_page [OF assms(1), of k s] Suc.prems(3) assms(3) by auto
  have t: "(if t0 < 0 then total_count p else t0) = ?N" using p(2) Suc.prems(4) by auto
  have "int (k + 1) * int n \<le> int (k + Suc left + 1) * int n" by (intro mult_right_mono) simp_all
  then have pn: "(int k + 1) * int n \<le> int64_max" using Suc.prems(2) by (simp add: add.commute)
  have N: "?N \<le> int64_max" using assms(1) by (simp add: serves_def)
  have "expected_items ?N (int k + 1) (page_size q) = max 0 (min (int n) (?N - int k * int n))"
    using expected_items_exact [of ?N "int k + 1" "int n"] N assms(4) pn by (simp add: n)
  also have "\<dots> = max 0 (min (int n) (?N - int (k * n)))" by simp
  also have "\<dots> = int (min n (length vs - k * n))" by linarith
  also have "\<dots> = int (length ?is)" by (simp add: page_of_def min.commute)
  finally have e: "expected_items ?N (int k + 1) (page_size q) = int (length ?is)" .
  have fresh: "?is = [] \<or> map_of seen (pageSignature (ce_api C) ?is) = None"
  proof (rule disjCI)
    assume "map_of seen (pageSignature (ce_api C) ?is) \<noteq> None"
    then have "page_sig C n vs k \<in> fst ` set seen" by (auto simp: page_sig_def map_of_eq_None_iff)
    then obtain j where j: "j < k" "j * n < length vs" "page_sig C n vs k = page_sig C n vs j" using Suc.prems(5) by auto
    then have "\<not> k * n < length vs" using assms(2) unfolding pages_differ_def inj_on_def by auto
    then show "?is = []" by (simp add: page_of_def)
  qed
  then have unseen: "(if ?is = [] then None else map_of seen (pageSignature (ce_api C) ?is)) = None" by argo
  obtain out' s2 where ti: "take_items C category (int k + 1) 1 ?is out s1 = (out', s2)" by fastforce
  have out': "out' = out @ kept_items C category ?is"
    using take_items_result [of C category "int k + 1" 1 ?is out s1] ti by simp
  have wpn: "wrap64 ((int k + 1) * page_size q) = (int k + 1) * int n" using pn by (simp add: n wrap64_small)
  have split: "map json_text (drop (k * n) vs) = ?is @ map json_text (drop (Suc k * n) vs)"
    unfolding page_of_def map_append [symmetric] by (metis append_take_drop_id drop_drop mult_Suc add.commute)
  let ?seen = "if ?is = [] then seen else (pageSignature (ce_api C) ?is, int k + 1) # seen"
  have step: "list_pages C category op q (page_size q) (Suc left) (int k + 1) t0 seen out s =
      (if ?N = 0 \<or> ?N \<le> (int k + 1) * int n then (Inr out', s2)
       else list_pages C category op q (page_size q) left (int k + 1 + 1) ?N ?seen out' s2)"
    unfolding list_pages.simps
    by (simp only: p(1,3) prod.case sum.case Let_def t e less_irrefl if_False unseen option.case ti wpn)
  show ?case
  proof (cases "length vs \<le> Suc k * n")
    case True
    then have "?N \<le> (int k + 1) * int n" by (metis of_nat_Suc of_nat_le_iff of_nat_mult add.commute)
    with step out' True show ?thesis unfolding split by simp
  next
    case False
    then have "\<not> ?N \<le> (int k + 1) * int n" by (metis of_nat_Suc of_nat_le_iff of_nat_mult add.commute)
    moreover have "?N \<noteq> 0" using False by auto
    moreover have "int k + 1 + 1 = int (Suc k) + 1" by simp
    ultimately have go: "list_pages C category op q (page_size q) (Suc left) (int k + 1) t0 seen out s =
        list_pages C category op q (page_size q) left (int (Suc k) + 1) ?N ?seen out' s2"
      unfolding step by (simp only: simp_thms if_False)
    have "page_of n k vs \<noteq> []" "k * n < length vs" using False assms(4) by (auto simp: page_of_def)
    then have "fst ` set ?seen \<subseteq> page_sig C n vs ` {j. j < Suc k \<and> j * n < length vs}"
      using Suc.prems(5) by (auto simp: page_sig_def less_Suc_eq)
    from Suc.IH [OF _ _ _ _ this, of ?N out' s2] Suc.prems(1,2) False obtain s' where
      "list_pages C category op q (page_size q) left (int (Suc k) + 1) ?N ?seen out' s2 =
        (Inr (out' @ kept_items C category (map json_text (drop (Suc k * n) vs))), s')"
      by auto
    then show ?thesis unfolding go split out' by (simp add: kept_items_append)
  qed
qed

text \<open>
  C22: When the service holds the items, answers the request for each of their pages in its documented
  form within the configured limits, and no two pages have the same signature, the listing succeeds
  and is the list of the valid notices among exactly these items, in their order.
\<close>

theorem served_items_listed:
  assumes "operationFor category = Some op" "serves C op q vs" "pages_differ C (nat (page_size q)) vs"
    and "max 1 (int (length vs)) \<le> ac_max_pages (ce_config C) * page_size q"
    and "(ac_max_pages (ce_config C) + 1) * page_size q \<le> int64_max"
  shows "\<exists>s'. List C category q s = (Inr (kept_items C category (map json_text vs)), s')"
proof -
  let ?n = "nat (page_size q)" and ?left = "nat (ac_max_pages (ce_config C))"
  have n: "0 < page_size q" by (simp add: page_size_def Let_def maxPageSize_def)
  have "0 < ac_max_pages (ce_config C) * page_size q" using assms(4) by linarith
  then have m: "0 < ac_max_pages (ce_config C)" using n by (simp add: zero_less_mult_iff)
  have le: "max 1 (length vs) \<le> (0 + ?left) * ?n" using assms(4) m n by (simp add: nat_mult_distrib [symmetric] le_nat_iff max_def split: if_splits)
  have bd: "int (0 + ?left + 1) * int ?n \<le> int64_max" using assms(5) m n by (simp add: add.commute)
  have "\<exists>s'. list_pages C category op q (page_size q) ?left (int 0 + 1) (- 1) [] [] s =
      (Inr ([] @ kept_items C category (map json_text (drop (0 * ?n) vs))), s')"
    by (rule served_pages [OF assms(2,3) refl _ le bd]) (use n in simp_all)
  then show ?thesis using assms(1,2) by (simp add: List_def serves_def)
qed

text \<open>A service that holds one item, which has no notice number.\<close>

definition day_query :: list_query where
  "day_query = \<lparr>lq_start = 0, lq_end = 0, lq_size = 10\<rparr>"

definition one_item :: "json list" where
  "one_item = [JObj [(''bidNtceNo'', JNum ''5'')]]"

definition one_item_service :: "unit client_env" where
  "one_item_service = replying (page_reply 10 0 one_item)"

lemma one_item_facts:
  "page_size day_query = 10" "operationFor CategoryGoods = Some ''getBidPblancListInfoThng''"
  "ac_max_pages (ce_config one_item_service) = 1000" "pages_differ one_item_service 10 one_item"
  "serves one_item_service ''getBidPblancListInfoThng'' day_query one_item"
proof -
  show size: "page_size day_query = 10" by (simp add: page_size_def day_query_def maxPageSize_def)
  show "operationFor CategoryGoods = Some ''getBidPblancListInfoThng''"
    by (simp add: operationFor_def CategoryConstruction_def CategoryService_def CategoryGoods_def)
  show "ac_max_pages (ce_config one_item_service) = 1000"
    by (simp add: one_item_service_def replying_def NewClient_def defaultMaxPages_def)
  show "pages_differ one_item_service 10 one_item" by (auto simp: pages_differ_def inj_on_def one_item_def)
  have depth: "max_depth - 4 = Suc (max_depth - 5)" by (simp add: max_depth_def)
  have "after_number ''5'' = Some []" by code_simp
  then have "\<forall>v \<in> set one_item. within (max_depth - 4) v" unfolding depth by (simp add: one_item_def within_JObj)
  moreover have "int (length (page_reply 10 0 one_item)) \<le> maxResponseBytes" by code_simp
  moreover have "\<not> str_contains ''key'' ''%''" by code_simp
  ultimately show "serves one_item_service ''getBidPblancListInfoThng'' day_query one_item"
    by (auto simp: serves_def size one_item_service_def replying_def NewClient_def maxResponseBytes_def one_item_def int64_max_def)
qed

theorem served_items_listed_witness:
  "\<exists>s'. List one_item_service CategoryGoods day_query () =
     (Inr (kept_items one_item_service CategoryGoods (map json_text one_item)), s')"
  by (rule served_items_listed [OF one_item_facts(2,5)])
    (simp_all add: one_item_facts one_item_def [THEN arg_cong [where f = length]] int64_max_def)

lemma one_item_run:
  "List one_item_service CategoryGoods day_query () =
     (Inr (kept_items one_item_service CategoryGoods (map json_text one_item)), ())"
proof -
  have le: "max 1 (length one_item) \<le> (0 + 1000) * 10" and bd: "int (0 + 1000 + 1) * int 10 \<le> int64_max"
    by (simp_all add: one_item_def int64_max_def)
  have "\<exists>s'. list_pages one_item_service CategoryGoods ''getBidPblancListInfoThng'' day_query (page_size day_query) 1000 (int 0 + 1)
      (- 1) [] [] () = (Inr ([] @ kept_items one_item_service CategoryGoods (map json_text (drop (0 * 10) one_item))), s')"
    by (rule served_pages [OF one_item_facts(5,4) _ _ le bd]) (simp_all add: one_item_facts(1))
  then show ?thesis
    using one_item_facts by (simp add: List_def serves_def)
qed

theorem listing_is_complete_witness:
  "\<exists>pages. pages \<noteq> [] \<and> int (length pages) \<le> 1000 \<and>
     fetched_pages one_item_service CategoryGoods ''getBidPblancListInfoThng'' day_query 10 1 pages () () \<and>
     total_count (fst (hd pages)) \<le> int (length (concat (map snd pages)))"
proof -
  have le: "(ac_max_pages (ce_config one_item_service) + 1) * maxPageSize \<le> int64_max"
    by (simp add: one_item_facts(3) maxPageSize_def int64_max_def)
  from listing_is_complete [OF one_item_run le] show ?thesis
    unfolding one_item_facts(1-3) option.inject by blast
qed

end
