(* ===== verification/Region_Lookup.thy ===== *)
theory Region_Lookup
  imports Api_Client_Laws Collector "HOL-Library.AList"
begin

text \<open>
  \<open>Client.LookupRegion\<close> of internal/procurement/client.go with its callers in parallel: the cache of at
  most 500 regions, the calls in flight that later callers wait for, and the number of lookups. The
  two sections under the mutex are one step each; a fetch lasts from the first to the second.
\<close>

definition regionCacheLimit :: nat where "regionCacheLimit = 500"

record region_client =
  rc_regions :: "(string \<times> string) list"
  rc_keys :: "string list"
  rc_pending :: "(string \<times> nat) list"
  rc_calls :: "string res option list"
  rc_lookups :: int

text \<open>The Go maps are lists of entries; a call is known by its number, and holds its result once its
  channel is closed.\<close>

definition new_region_client :: region_client where
  "new_region_client = \<lparr>rc_regions = [], rc_keys = [], rc_pending = [], rc_calls = [], rc_lookups = 0\<rparr>"

definition lookup_key :: "string \<Rightarrow> string \<Rightarrow> string" where
  "lookup_key bidNumber bidSequence = bidNumber @ [CHR 0x00] @ bidSequence"

definition lookup_budget_error :: "int \<Rightarrow> int \<Rightarrow> string \<Rightarrow> string \<Rightarrow> goerr" where
  "lookup_budget_error limit used bidNumber bidSequence =
     ErrAs (''participant region lookup budget exhausted ('' @ show_int used @ ''/'' @ show_int limit @ '') for '' @
       bidNumber @ ''/'' @ bidSequence) (Sentinel ErrLookupBudget)"

definition cacheRegionLocked :: "string \<Rightarrow> string \<Rightarrow> region_client \<Rightarrow> region_client" where
  "cacheRegionLocked key region c =
     (let c1 = (if regionCacheLimit \<le> length (rc_regions c)
                then c\<lparr>rc_regions := AList.delete (hd (rc_keys c)) (rc_regions c), rc_keys := tl (rc_keys c)\<rparr> else c)
      in c1\<lparr>rc_regions := AList.update key region (rc_regions c1), rc_keys := rc_keys c1 @ [key]\<rparr>)"

text \<open>A caller of \<open>LookupRegion\<close>: it fetches for a call, waits for one, or has returned.\<close>

datatype caller =
    Fetching string string nat
  | Waiting string string nat
  | Returned string string "string res"

text \<open>Up to the end of the first section: the checks, the cache, the call in flight, the budget.\<close>

definition begin_lookup ::
  "'s client_env \<Rightarrow> goerr option \<Rightarrow> string \<Rightarrow> string \<Rightarrow> region_client \<Rightarrow> caller \<times> region_client" where
  "begin_lookup C cancel bidNumber bidSequence c =
     (let key = lookup_key bidNumber bidSequence; budget = ac_lookup_budget (ce_config C) in
      case cancel of
        Some e \<Rightarrow> (Returned bidNumber bidSequence (Inl e), c)
      | None \<Rightarrow>
          if str_contains (ac_key (ce_config C)) ''%'' then
            (Returned bidNumber bidSequence (Inl (Sentinel ErrEncodedServiceKey)), c)
          else (case map_of (rc_regions c) key of
            Some region \<Rightarrow> (Returned bidNumber bidSequence (Inr region), c)
          | None \<Rightarrow>
              (case map_of (rc_pending c) key of
                 Some call \<Rightarrow> (Waiting bidNumber bidSequence call, c)
               | None \<Rightarrow>
                   if budget \<le> rc_lookups c then
                     (Returned bidNumber bidSequence
                        (Inl (lookup_budget_error budget (rc_lookups c) bidNumber bidSequence)), c)
                   else
                     (Fetching bidNumber bidSequence (length (rc_calls c)),
                      c\<lparr>rc_lookups := rc_lookups c + 1, rc_calls := rc_calls c @ [None],
                        rc_pending := (key, length (rc_calls c)) # rc_pending c\<rparr>))))"

text \<open>The second section: a region is cached, the call gets its result and is no longer in flight.\<close>

definition end_lookup :: "string \<Rightarrow> nat \<Rightarrow> string res \<Rightarrow> region_client \<Rightarrow> region_client" where
  "end_lookup key call r c =
     (let c1 = (case r of Inr region \<Rightarrow> cacheRegionLocked key region c | Inl e \<Rightarrow> c)
      in c1\<lparr>rc_calls := (rc_calls c1)[call := Some r], rc_pending := AList.delete key (rc_pending c1)\<rparr>)"

inductive region_step ::
  "'s client_env \<Rightarrow> region_client \<times> (nat \<rightharpoonup> caller) \<Rightarrow> region_client \<times> (nat \<rightharpoonup> caller) \<Rightarrow> bool"
  for C where
  arrive: "W i = None \<Longrightarrow> begin_lookup C cancel bidNumber bidSequence c = (w, c') \<Longrightarrow>
    region_step C (c, W) (c', W(i \<mapsto> w))"
| fetched: "W i = Some (Fetching bidNumber bidSequence call) \<Longrightarrow> fetchRegion C bidNumber bidSequence s = (r, s') \<Longrightarrow>
    region_step C (c, W) (end_lookup (lookup_key bidNumber bidSequence) call r c, W(i \<mapsto> Returned bidNumber bidSequence r))"
| woken: "W i = Some (Waiting bidNumber bidSequence call) \<Longrightarrow> call < length (rc_calls c) \<Longrightarrow> rc_calls c ! call = Some r \<Longrightarrow>
    region_step C (c, W) (c, W(i \<mapsto> Returned bidNumber bidSequence r))"
| canceled: "W i = Some (Waiting bidNumber bidSequence call) \<Longrightarrow>
    region_step C (c, W) (c, W(i \<mapsto> Returned bidNumber bidSequence (Inl e)))"

definition region_runs :: "'s client_env \<Rightarrow> region_client \<times> (nat \<rightharpoonup> caller) \<Rightarrow> bool" where
  "region_runs C x \<longleftrightarrow> (region_step C)\<^sup>*\<^sup>* (new_region_client, Map.empty) x"

section \<open>The cache\<close>

definition cache_ok :: "region_client \<Rightarrow> bool" where
  "cache_ok c \<longleftrightarrow> distinct (map fst (rc_regions c)) \<and> set (map fst (rc_regions c)) = set (rc_keys c) \<and>
     distinct (rc_keys c) \<and> length (rc_keys c) \<le> regionCacheLimit"

lemma cache_length: "cache_ok c \<Longrightarrow> length (rc_regions c) = length (rc_keys c)"
  unfolding cache_ok_def by (metis distinct_card length_map)

lemma keys_delete: "fst ` set (AList.delete k al) = fst ` set al - {k}"
  by (metis AList.delete_keys image_set set_removeAll)

lemma cacheRegionLocked_ok:
  assumes "cache_ok c" "key \<notin> set (rc_keys c)"
  shows "cache_ok (cacheRegionLocked key region c)"
proof (cases "regionCacheLimit \<le> length (rc_regions c)")
  case True
  then have "rc_keys c \<noteq> []" using cache_length [OF assms(1)] by (auto simp: regionCacheLimit_def)
  then obtain k ks where ks: "rc_keys c = k # ks" by (cases "rc_keys c") auto
  have "length ks < regionCacheLimit" using assms(1) by (simp add: cache_ok_def ks)
  with True assms show ?thesis
    by (simp add: cacheRegionLocked_def cache_ok_def ks Let_def distinct_update distinct_delete AList.dom_update keys_delete)
next
  case False
  then have "length (rc_keys c) < regionCacheLimit" using cache_length [OF assms(1)] by simp
  with False assms show ?thesis
    by (simp add: cacheRegionLocked_def cache_ok_def Let_def distinct_update AList.dom_update)
qed

section \<open>The lookups\<close>

text \<open>What a fetch for the key may give.\<close>

definition fetch_result :: "'s client_env \<Rightarrow> string \<Rightarrow> string res \<Rightarrow> bool" where
  "fetch_result C key r \<longleftrightarrow>
     (\<exists>bidNumber bidSequence s s'. lookup_key bidNumber bidSequence = key \<and> fetchRegion C bidNumber bidSequence s = (r, s'))"

definition fetching :: "(nat \<rightharpoonup> caller) \<Rightarrow> string \<Rightarrow> nat \<Rightarrow> nat \<Rightarrow> bool" where
  "fetching W key call i \<longleftrightarrow> (\<exists>n q. W i = Some (Fetching n q call) \<and> lookup_key n q = key)"

text \<open>A call in flight: it has no result, its key is not cached, and one caller fetches for it.\<close>

definition pending_ok :: "region_client \<Rightarrow> (nat \<rightharpoonup> caller) \<Rightarrow> bool" where
  "pending_ok c W \<longleftrightarrow> (\<forall>key call. map_of (rc_pending c) key = Some call \<longrightarrow>
     call < length (rc_calls c) \<and> rc_calls c ! call = None \<and> key \<notin> set (rc_keys c) \<and> (\<exists>i. fetching W key call i))"

definition fetchers_ok :: "region_client \<Rightarrow> (nat \<rightharpoonup> caller) \<Rightarrow> bool" where
  "fetchers_ok c W \<longleftrightarrow>
     (\<forall>key call i. fetching W key call i \<longrightarrow> map_of (rc_pending c) key = Some call) \<and>
     (\<forall>key call i k j. fetching W key call i \<longrightarrow> fetching W k call j \<longrightarrow> i = j)"

text \<open>A caller that waits: its call is in flight, or has a result that a fetch for its key gave; a
  caller that has returned a region: a fetch for its key gave it.\<close>

definition caller_ok :: "'s client_env \<Rightarrow> region_client \<Rightarrow> caller \<Rightarrow> bool" where
  "caller_ok C c w =
     (case w of
        Fetching n q call \<Rightarrow> True
      | Waiting n q call \<Rightarrow> call < length (rc_calls c) \<and>
          (case rc_calls c ! call of None \<Rightarrow> map_of (rc_pending c) (lookup_key n q) = Some call
           | Some r \<Rightarrow> fetch_result C (lookup_key n q) r)
      | Returned n q r \<Rightarrow> (case r of Inl e \<Rightarrow> True | Inr region \<Rightarrow> fetch_result C (lookup_key n q) r))"

definition lookups_ok :: "'s client_env \<Rightarrow> region_client \<Rightarrow> bool" where
  "lookups_ok C c \<longleftrightarrow> rc_lookups c = int (length (rc_calls c)) \<and> rc_lookups c \<le> max 0 (ac_lookup_budget (ce_config C)) \<and>
     (\<forall>key region. map_of (rc_regions c) key = Some region \<longrightarrow> fetch_result C key (Inr region))"

definition region_ok :: "'s client_env \<Rightarrow> region_client \<times> (nat \<rightharpoonup> caller) \<Rightarrow> bool" where
  "region_ok C = (\<lambda>(c, W). cache_ok c \<and> pending_ok c W \<and> fetchers_ok c W \<and> (\<forall>w \<in> ran W. caller_ok C c w) \<and> lookups_ok C c)"

lemma cached_keys: "cache_ok c \<Longrightarrow> map_of (rc_regions c) key = None \<Longrightarrow> key \<notin> set (rc_keys c)"
  unfolding cache_ok_def by (metis image_set map_of_eq_None_iff)

lemma tl_subset: "x \<in> set (tl xs) \<Longrightarrow> x \<in> set xs"
  by (cases xs) simp_all

lemma cached_unchanged:
  "rc_pending (cacheRegionLocked key r c) = rc_pending c" "rc_calls (cacheRegionLocked key r c) = rc_calls c"
  "rc_lookups (cacheRegionLocked key r c) = rc_lookups c"
  "set (rc_keys (cacheRegionLocked key r c)) \<subseteq> insert key (set (rc_keys c))"
  by (auto simp: cacheRegionLocked_def Let_def dest: tl_subset)

lemma cached_region:
  "map_of (rc_regions (cacheRegionLocked key r c)) k = Some v \<Longrightarrow> k = key \<and> v = r \<or> map_of (rc_regions c) k = Some v"
  by (auto simp: cacheRegionLocked_def Let_def update_conv' delete_conv' split: if_splits)

lemma end_lookup_unchanged:
  "rc_pending (end_lookup key call r c) = AList.delete key (rc_pending c)"
  "rc_calls (end_lookup key call r c) = (rc_calls c)[call := Some r]"
  "rc_lookups (end_lookup key call r c) = rc_lookups c"
  "set (rc_keys (end_lookup key call r c)) \<subseteq> insert key (set (rc_keys c))"
  using cached_unchanged(4) [of key _ c] by (cases r; auto simp: end_lookup_def Let_def cached_unchanged(1-3))+

lemma end_lookup_region:
  "map_of (rc_regions (end_lookup key call r c)) k = Some v \<Longrightarrow> k = key \<and> r = Inr v \<or> map_of (rc_regions c) k = Some v"
  by (cases r) (auto simp: end_lookup_def Let_def dest: cached_region)

lemma end_lookup_cache:
  assumes "cache_ok c" "key \<notin> set (rc_keys c)"
  shows "cache_ok (end_lookup key call r c)"
  using assms(1) cacheRegionLocked_ok [OF assms] by (cases r) (simp_all add: end_lookup_def Let_def cache_ok_def)

lemma fetching_upd:
  "fetching (W(i \<mapsto> w)) key call j \<longleftrightarrow>
     (if j = i then (\<exists>n q. w = Fetching n q call \<and> lookup_key n q = key) else fetching W key call j)"
  by (simp add: fetching_def)

lemma not_fetching_None: "W i = None \<Longrightarrow> \<not> fetching W key call i"
  by (simp add: fetching_def)

lemma ran_upd: "w' \<in> ran (W(i \<mapsto> w)) \<Longrightarrow> w' = w \<or> w' \<in> ran W"
  by (auto simp: ran_def split: if_splits)

text \<open>A new caller that does not fetch, or one that stops waiting.\<close>

lemma quiet_step:
  assumes ok: "region_ok C (c, W)" and i: "\<And>key call. \<not> fetching W key call i"
    and w: "caller_ok C c w" "\<And>n q call. w \<noteq> Fetching n q call"
  shows "region_ok C (c, W(i \<mapsto> w))"
proof -
  have f: "fetching (W(i \<mapsto> w)) key call j \<longleftrightarrow> fetching W key call j" for key call j
    using i w(2) by (auto simp: fetching_upd)
  have "pending_ok c (W(i \<mapsto> w)) = pending_ok c W" "fetchers_ok c (W(i \<mapsto> w)) = fetchers_ok c W"
    by (simp_all only: pending_ok_def fetchers_ok_def f)
  with ok w(1) show ?thesis unfolding region_ok_def case_prod_conv by (blast dest: ran_upd)
qed

lemma arrive_ok:
  assumes ok: "region_ok C (c, W)" and i: "W i = None" and b: "begin_lookup C cancel n q c = (w, c')"
  shows "region_ok C (c', W(i \<mapsto> w))"
proof -
  let ?k = "lookup_key n q" and ?call = "length (rc_calls c)"
  note parts = ok [unfolded region_ok_def case_prod_conv]
  consider (known) r where "w = Returned n q r" "c' = c" "\<forall>region. r = Inr region \<longrightarrow> map_of (rc_regions c) ?k = Some region"
    | (wait) call where "w = Waiting n q call" "c' = c" "map_of (rc_pending c) ?k = Some call"
    | (fetch) "w = Fetching n q ?call" "map_of (rc_regions c) ?k = None" "map_of (rc_pending c) ?k = None"
        "rc_lookups c < ac_lookup_budget (ce_config C)"
        "c' = c\<lparr>rc_lookups := rc_lookups c + 1, rc_calls := rc_calls c @ [None], rc_pending := (?k, ?call) # rc_pending c\<rparr>"
  proof (cases "cancel = None \<and> \<not> str_contains (ac_key (ce_config C)) ''%'' \<and> map_of (rc_regions c) ?k = None")
    case False
    with b have "c' = c \<and> (\<exists>r. w = Returned n q r \<and> (\<forall>region. r = Inr region \<longrightarrow> map_of (rc_regions c) ?k = Some region))"
      by (cases cancel; cases "map_of (rc_regions c) ?k"; cases "str_contains (ac_key (ce_config C)) ''%''")
        (simp_all add: begin_lookup_def Let_def, force+)
    with known show ?thesis by blast
  next
    case True
    show ?thesis
    proof (cases "map_of (rc_pending c) ?k")
      case (Some call)
      with b True have "w = Waiting n q call" "c' = c" by (simp_all add: begin_lookup_def Let_def)
      with wait Some show ?thesis by blast
    next
      case None
      show ?thesis
      proof (cases "rc_lookups c < ac_lookup_budget (ce_config C)")
        case lt: True
        with b True None show ?thesis by (intro fetch) (simp_all add: begin_lookup_def Let_def)
      next
        case False
        let ?e = "lookup_budget_error (ac_lookup_budget (ce_config C)) (rc_lookups c) n q"
        from False b True None have "w = Returned n q (Inl ?e)" "c' = c" by (auto simp: begin_lookup_def Let_def)
        with known [of "Inl ?e"] show ?thesis by simp
      qed
    qed
  qed
  then show ?thesis
  proof cases
    case known
    have "caller_ok C c w" using parts known(3) by (auto simp: known(1) caller_ok_def lookups_ok_def split: sum.split)
    then show ?thesis unfolding known(2) using known(1) by (intro quiet_step ok not_fetching_None i) simp_all
  next
    case wait
    have "caller_ok C c w" using parts wait(3) by (auto simp: wait(1) caller_ok_def pending_ok_def)
    then show ?thesis unfolding wait(2) using wait(1) by (intro quiet_step ok not_fetching_None i) simp_all
  next
    case fetch
    have key: "?k \<notin> set (rc_keys c)" using parts fetch(2) by (blast dest: cached_keys)
    have f: "fetching (W(i \<mapsto> w)) key call j \<longleftrightarrow> (if j = i then call = ?call \<and> key = ?k else fetching W key call j)" for key call j
      by (auto simp: fetching_upd fetch(1))
    have fresh: "call < ?call" "j \<noteq> i" if "fetching W key call j" for key call j
    proof -
      have "map_of (rc_pending c) key = Some call" using parts that unfolding fetchers_ok_def by blast
      then show "call < ?call" using parts unfolding pending_ok_def by blast
      show "j \<noteq> i" using that i not_fetching_None by blast
    qed
    have "cache_ok c'" using parts by (simp add: fetch(5) cache_ok_def)
    moreover have "lookups_ok C c'" using parts fetch(4) by (auto simp: fetch(5) lookups_ok_def)
    moreover have "pending_ok c' (W(i \<mapsto> w))"
      unfolding pending_ok_def f
    proof (intro allI impI)
      fix k call assume k: "map_of (rc_pending c') k = Some call"
      show "call < length (rc_calls c') \<and> rc_calls c' ! call = None \<and> k \<notin> set (rc_keys c') \<and>
          (\<exists>j. if j = i then call = ?call \<and> k = ?k else fetching W k call j)"
      proof (cases "k = ?k")
        case True
        then have "call = ?call" using k by (simp add: fetch(5))
        with True key show ?thesis by (auto simp: fetch(5))
      next
        case False
        then have "map_of (rc_pending c) k = Some call" using k by (simp add: fetch(5))
        then have "call < ?call" "rc_calls c ! call = None" "k \<notin> set (rc_keys c)" "\<exists>j. fetching W k call j"
          using parts by (auto simp: pending_ok_def)
        moreover from this(4) fresh(2) have "\<exists>j. j \<noteq> i \<and> fetching W k call j" by blast
        ultimately show ?thesis by (auto simp: fetch(5) nth_append)
      qed
    qed
    moreover have "fetchers_ok c' (W(i \<mapsto> w))"
      unfolding fetchers_ok_def f
    proof (intro conjI allI impI)
      fix k call j assume a: "if j = i then call = ?call \<and> k = ?k else fetching W k call j"
      show "map_of (rc_pending c') k = Some call"
      proof (cases "j = i")
        case False
        with a parts have p: "map_of (rc_pending c) k = Some call" unfolding fetchers_ok_def by auto
        with fetch(3) have "k \<noteq> ?k" by auto
        with p show ?thesis by (simp add: fetch(5))
      qed (use a in \<open>simp add: fetch(5)\<close>)
    next
      fix k call j m j'
      assume j: "if j = i then call = ?call \<and> k = ?k else fetching W k call j"
        and j': "if j' = i then call = ?call \<and> m = ?k else fetching W m call j'"
      have inj: "fetching W k call j \<Longrightarrow> fetching W m call j' \<Longrightarrow> j = j'" using parts unfolding fetchers_ok_def by blast
      show "j = j'"
      proof (cases "call = ?call")
        case True
        then have "j = i" "j' = i" using j j' fresh(1) [of k call j] fresh(1) [of m call j'] by (auto split: if_splits)
        then show ?thesis by simp
      qed (use j j' inj in \<open>auto split: if_splits\<close>)
    qed
    moreover have "caller_ok C c' w'" if "w' \<in> ran W" for w'
    proof -
      have "caller_ok C c w'" using parts that by blast
      then show ?thesis using fetch(3) by (auto simp: caller_ok_def fetch(5) nth_append split: caller.splits option.splits)
    qed
    moreover have "caller_ok C c' w" by (simp add: fetch(1) caller_ok_def)
    ultimately show ?thesis unfolding region_ok_def case_prod_conv by (blast dest: ran_upd)
  qed
qed

lemma fetched_ok:
  assumes ok: "region_ok C (c, W)" and i: "W i = Some (Fetching n q call)" and f: "fetchRegion C n q s = (r, s')"
  shows "region_ok C (end_lookup (lookup_key n q) call r c, W(i \<mapsto> Returned n q r))"
proof -
  let ?k = "lookup_key n q" and ?W = "W(i \<mapsto> Returned n q r)"
  let ?c = "end_lookup ?k call r c"
  note parts = ok [unfolded region_ok_def case_prod_conv]
  have me: "fetching W ?k call i" using i by (auto simp: fetching_def)
  then have pend: "map_of (rc_pending c) ?k = Some call" using parts by (auto simp: fetchers_ok_def)
  then have key: "?k \<notin> set (rc_keys c)" and call: "call < length (rc_calls c)" "rc_calls c ! call = None"
    using parts by (auto simp: pending_ok_def)
  have res: "fetch_result C ?k r" using f by (auto simp: fetch_result_def)
  have f: "fetching ?W key cl j \<longleftrightarrow> j \<noteq> i \<and> fetching W key cl j" for key cl j by (simp add: fetching_upd)
  have only: "j = i \<and> key = ?k" if "fetching W key call j" for key j
    using parts me that unfolding fetchers_ok_def by (metis i fetching_def caller.inject(1) option.inject)
  have other: "k = ?k" if "map_of (rc_pending c) k = Some call" for k
    using parts that only unfolding pending_ok_def by blast
  have rest: "key \<noteq> ?k" if "fetching W key cl j" "j \<noteq> i" for key cl j
    using parts me that pend unfolding fetchers_ok_def by (metis option.inject)
  note e = end_lookup_unchanged [of ?k call r c]
  have del: "map_of (rc_pending ?c) key = Some cl \<longleftrightarrow> key \<noteq> ?k \<and> map_of (rc_pending c) key = Some cl" for key cl
    by (simp add: e delete_conv')
  have "pending_ok ?c ?W"
    unfolding pending_ok_def del f
  proof (intro allI impI)
    fix key cl assume k: "key \<noteq> ?k \<and> map_of (rc_pending c) key = Some cl"
    then have p: "cl < length (rc_calls c)" "rc_calls c ! cl = None" "key \<notin> set (rc_keys c)" "\<exists>j. fetching W key cl j"
      using parts by (auto simp: pending_ok_def)
    have "cl \<noteq> call" using k other by blast
    moreover have "key \<notin> set (rc_keys ?c)" using e(4) p(3) k by blast
    moreover have "\<exists>j. j \<noteq> i \<and> fetching W key cl j" using p(4) k i by (metis fetching_def caller.inject(1) option.inject)
    ultimately show "cl < length (rc_calls ?c) \<and> rc_calls ?c ! cl = None \<and> key \<notin> set (rc_keys ?c) \<and> (\<exists>j. j \<noteq> i \<and> fetching W key cl j)"
      using p(1,2) by (simp add: e(2))
  qed
  moreover have "fetchers_ok ?c ?W"
    using parts rest unfolding fetchers_ok_def f del by blast
  moreover have "caller_ok C ?c w" if "w \<in> ran W" for w
  proof (cases w)
    case (Waiting m p cl)
    have "caller_ok C c w" using parts that by blast
    then have cl: "cl < length (rc_calls c)"
      "case rc_calls c ! cl of None \<Rightarrow> map_of (rc_pending c) (lookup_key m p) = Some cl | Some r \<Rightarrow> fetch_result C (lookup_key m p) r"
      by (simp_all add: Waiting caller_ok_def)
    show ?thesis
    proof (cases "cl = call")
      case True
      then have "lookup_key m p = ?k" using cl(2) call(2) other by simp
      with True res call(1) show ?thesis by (simp add: Waiting caller_ok_def e(2))
    next
      case False
      then have "map_of (rc_pending c) (lookup_key m p) = Some cl \<Longrightarrow> lookup_key m p \<noteq> ?k" using pend by auto
      with False cl show ?thesis by (auto simp: Waiting caller_ok_def e(1,2) delete_conv' split: option.splits)
    qed
  next
    case (Returned m p v)
    then show ?thesis using parts that by (auto simp: caller_ok_def split: sum.splits)
  qed (simp add: caller_ok_def)
  moreover have "caller_ok C ?c (Returned n q r)" using res by (cases r) (simp_all add: caller_ok_def)
  moreover have "lookups_ok C ?c"
    using parts res by (auto simp: lookups_ok_def e dest!: end_lookup_region)
  moreover have "cache_ok ?c" using parts key by (blast intro: end_lookup_cache)
  ultimately show ?thesis unfolding region_ok_def case_prod_conv by (blast dest: ran_upd)
qed

lemma region_step_ok: "region_step C x y \<Longrightarrow> region_ok C x \<Longrightarrow> region_ok C y"
proof (induction rule: region_step.induct)
  case (woken W i n q call c r)
  then have "caller_ok C c (Waiting n q call)" by (auto simp: region_ok_def ran_def)
  then have "caller_ok C c (Returned n q r)" using woken by (auto simp: caller_ok_def split: sum.split)
  with woken show ?case by (intro quiet_step) (auto simp: fetching_def)
next
  case (canceled W i n q call c e)
  then show ?case by (intro quiet_step) (auto simp: fetching_def caller_ok_def)
next
  case (arrive W i cancel n q c w c')
  then show ?case by (intro arrive_ok)
next
  case (fetched W i n q call s r s' c)
  then show ?case by (intro fetched_ok)
qed

lemma region_runs_ok:
  assumes "region_runs C x"
  shows "region_ok C x"
proof -
  have "region_ok C (new_region_client, Map.empty)"
    by (auto simp: region_ok_def new_region_client_def cache_ok_def pending_ok_def fetchers_ok_def lookups_ok_def fetching_def)
  with assms [unfolded region_runs_def] show ?thesis
    by (induction rule: rtranclp_induct) (auto intro: region_step_ok)
qed

text \<open>
  C24: However the callers of LookupRegion interleave: at most the budgeted number of fetches are
  started, the cache holds at most 500 regions, no two fetches in flight are for the same notice,
  a caller that waits has a fetch in flight for its notice or a result to take, and a region that a
  caller got is one that a fetch for its notice gave.
\<close>

theorem region_lookups_shared:
  assumes "region_runs C (c, W)"
  shows "int (length (rc_calls c)) \<le> max 0 (ac_lookup_budget (ce_config C)) \<and> length (rc_regions c) \<le> regionCacheLimit \<and>
    (\<forall>i j k a b. i \<noteq> j \<longrightarrow> fetching W k a i \<longrightarrow> \<not> fetching W k b j) \<and>
    (\<forall>i n q a. W i = Some (Waiting n q a) \<longrightarrow> rc_calls c ! a \<noteq> None \<or> (\<exists>j. fetching W (lookup_key n q) a j)) \<and>
    (\<forall>i n q region. W i = Some (Returned n q (Inr region)) \<longrightarrow> fetch_result C (lookup_key n q) (Inr region))"
proof -
  have ok: "cache_ok c" "pending_ok c W" "fetchers_ok c W" "lookups_ok C c" and callers: "\<forall>w \<in> ran W. caller_ok C c w"
    using region_runs_ok [OF assms] by (simp_all add: region_ok_def)
  have "int (length (rc_calls c)) \<le> max 0 (ac_lookup_budget (ce_config C))" using ok(4) by (simp add: lookups_ok_def)
  moreover have "length (rc_regions c) \<le> regionCacheLimit"
    using ok(1) cache_length [OF ok(1)] by (simp add: cache_ok_def)
  moreover have "\<not> fetching W k b j" if "i \<noteq> j" "fetching W k a i" for i j k a b
  proof
    assume b: "fetching W k b j"
    then have "a = b" using ok(3) that(2) unfolding fetchers_ok_def by (metis option.inject)
    then show False using ok(3) that b unfolding fetchers_ok_def by blast
  qed
  moreover have "rc_calls c ! a \<noteq> None \<or> (\<exists>j. fetching W (lookup_key n q) a j)" if w: "W i = Some (Waiting n q a)" for i n q a
  proof (cases "rc_calls c ! a")
    case None
    have "caller_ok C c (Waiting n q a)" using callers w by (auto simp: ran_def)
    then show ?thesis using None ok(2) unfolding pending_ok_def caller_ok_def by auto
  qed simp
  moreover have "fetch_result C (lookup_key n q) (Inr region)" if w: "W i = Some (Returned n q (Inr region))" for i n q region
  proof -
    have "caller_ok C c (Returned n q (Inr region))" using callers w by (auto simp: ran_def)
    then show ?thesis by (simp add: caller_ok_def)
  qed
  ultimately show ?thesis by blast
qed

text \<open>Two callers of one notice: the first fetches and the second waits for it.\<close>

definition shared_client :: region_client where
  "shared_client = \<lparr>rc_regions = [], rc_keys = [], rc_pending = [(lookup_key ''1'' ''0'', 0)], rc_calls = [None], rc_lookups = 1\<rparr>"

definition shared_callers :: "nat \<rightharpoonup> caller" where
  "shared_callers = [0 \<mapsto> Fetching ''1'' ''0'' 0, 1 \<mapsto> Waiting ''1'' ''0'' 0]"

lemma shared_run: "region_runs (replying []) (shared_client, shared_callers)"
proof -
  have key: "\<not> str_contains (ac_key (ce_config (replying []))) ''%''"
    unfolding replying_def NewClient_def by code_simp
  have budget: "ac_lookup_budget (ce_config (replying [])) = 500" by (simp add: replying_def NewClient_def)
  have "begin_lookup (replying []) None ''1'' ''0'' new_region_client = (Fetching ''1'' ''0'' 0, shared_client)"
    using key budget by (simp add: begin_lookup_def Let_def new_region_client_def shared_client_def)
  from arrive [OF _ this, where W = Map.empty and i = 0]
  have 1: "region_step (replying []) (new_region_client, Map.empty) (shared_client, [0 \<mapsto> Fetching ''1'' ''0'' 0])" by simp
  have "begin_lookup (replying []) None ''1'' ''0'' shared_client = (Waiting ''1'' ''0'' 0, shared_client)"
    using key budget by (simp add: begin_lookup_def Let_def shared_client_def)
  from arrive [OF _ this, where W = "[0 \<mapsto> Fetching ''1'' ''0'' 0]" and i = 1]
  have "region_step (replying []) (shared_client, [0 \<mapsto> Fetching ''1'' ''0'' 0]) (shared_client, shared_callers)"
    by (simp add: shared_callers_def)
  with 1 show ?thesis unfolding region_runs_def by (meson converse_rtranclp_into_rtranclp rtranclp.rtrancl_refl)
qed

theorem region_lookups_shared_witness:
  "int (length (rc_calls shared_client)) \<le> 500 \<and> (\<exists>j. fetching shared_callers (lookup_key ''1'' ''0'') 0 j)"
proof -
  have "shared_callers 1 = Some (Waiting ''1'' ''0'' 0)" "rc_calls shared_client ! 0 = None"
    "max 0 (ac_lookup_budget (ce_config (replying []))) = 500"
    by (simp_all add: shared_callers_def shared_client_def replying_def NewClient_def)
  with region_lookups_shared [OF shared_run] show ?thesis by metis
qed

end
