(* ===== verification/Auth.thy ===== *)
theory Auth
  imports Go_Utf8 Go_Time Json_Text
begin

text \<open>
  internal/auth/auth.go: roles, opaque tokens, the hashes of tokens that are stored, and sessions.
  SHA-256 is a parameter that gives the digest as 32 bytes; the hexadecimal and the unpadded URL
  form of base 64 of the standard library are modelled. Random bytes are given.
\<close>

section \<open>Roles\<close>

type_synonym role = string

definition PlatformAdmin :: role where "PlatformAdmin = ''platform_admin''"
definition TenantAdmin :: role where "TenantAdmin = ''tenant_admin''"
definition Member :: role where "Member = ''member''"

definition role_valid :: "role \<Rightarrow> bool" where
  "role_valid r \<longleftrightarrow> r = PlatformAdmin \<or> r = TenantAdmin \<or> r = Member"

section \<open>Encodings\<close>

text \<open>\<open>hex.EncodeToString\<close> and \<open>hex.DecodeString\<close>\<close>

fun hex_encode :: "string \<Rightarrow> string" where
  "hex_encode [] = []"
| "hex_encode (c # s) = hex_digit (byte c div 16) # hex_digit (byte c mod 16) # hex_encode s"

fun hex_decode :: "string \<Rightarrow> string option" where
  "hex_decode [] = Some []"
| "hex_decode [c] = None"
| "hex_decode (a # b # s) =
     (case (hex_val a, hex_val b, hex_decode s) of
        (Some x, Some y, Some r) \<Rightarrow> Some (char_of (16 * x + y) # r)
      | _ \<Rightarrow> None)"

text \<open>\<open>base64.RawURLEncoding\<close>: six bits a character, no padding; \<open>DecodeString\<close> skips line ends and
  does not look at bits left over.\<close>

definition b64_char :: "nat \<Rightarrow> char" where
  "b64_char n =
     (if n < 26 then char_of (65 + n) else if n < 52 then char_of (97 + (n - 26))
      else if n < 62 then char_of (48 + (n - 52)) else if n = 62 then CHR ''-'' else CHR ''_'')"

definition b64_val :: "char \<Rightarrow> nat option" where
  "b64_val c =
     (if 65 \<le> byte c \<and> byte c \<le> 90 then Some (byte c - 65)
      else if 97 \<le> byte c \<and> byte c \<le> 122 then Some (byte c - 97 + 26)
      else if 48 \<le> byte c \<and> byte c \<le> 57 then Some (byte c - 48 + 52)
      else if c = CHR ''-'' then Some 62 else if c = CHR ''_'' then Some 63 else None)"

fun b64_encode :: "string \<Rightarrow> string" where
  "b64_encode [] = []"
| "b64_encode [a] = [b64_char (byte a div 4), b64_char (byte a mod 4 * 16)]"
| "b64_encode [a, b] = [b64_char (byte a div 4), b64_char (byte a mod 4 * 16 + byte b div 16), b64_char (byte b mod 16 * 4)]"
| "b64_encode (a # b # c # s) =
     b64_char (byte a div 4) # b64_char (byte a mod 4 * 16 + byte b div 16) #
     b64_char (byte b mod 16 * 4 + byte c div 64) # b64_char (byte c mod 64) # b64_encode s"

fun b64_bytes :: "nat list \<Rightarrow> string option" where
  "b64_bytes [] = Some []"
| "b64_bytes [w] = None"
| "b64_bytes [w, x] = Some [char_of (w * 4 + x div 16)]"
| "b64_bytes [w, x, y] = Some [char_of (w * 4 + x div 16), char_of (x mod 16 * 16 + y div 4)]"
| "b64_bytes (w # x # y # z # s) =
     map_option (\<lambda>r. char_of (w * 4 + x div 16) # char_of (x mod 16 * 16 + y div 4) # char_of (y mod 4 * 64 + z) # r) (b64_bytes s)"

fun b64_values :: "string \<Rightarrow> nat list option" where
  "b64_values [] = Some []"
| "b64_values (c # s) =
     (if c = CHR 0x0A \<or> c = CHR 0x0D then b64_values s
      else case (b64_val c, b64_values s) of (Some v, Some vs) \<Rightarrow> Some (v # vs) | _ \<Rightarrow> None)"

definition b64_decode :: "string \<Rightarrow> string option" where
  "b64_decode s = Option.bind (b64_values s) b64_bytes"

section \<open>Tokens\<close>

definition HashSessionToken :: "(string \<Rightarrow> string) \<Rightarrow> string \<Rightarrow> string" where
  "HashSessionToken sha token = hex_encode (sha token)"

definition VerifySessionToken :: "(string \<Rightarrow> string) \<Rightarrow> string \<Rightarrow> string \<Rightarrow> bool" where
  "VerifySessionToken sha stored token = (case hex_decode stored of None \<Rightarrow> False | Some expected \<Rightarrow> expected = sha token)"

abbreviation HashCSRFToken :: "(string \<Rightarrow> string) \<Rightarrow> string \<Rightarrow> string" where
  "HashCSRFToken \<equiv> HashSessionToken"
abbreviation VerifyCSRFToken :: "(string \<Rightarrow> string) \<Rightarrow> string \<Rightarrow> string \<Rightarrow> bool" where
  "VerifyCSRFToken \<equiv> VerifySessionToken"

definition HashInvitationToken :: "(string \<Rightarrow> string) \<Rightarrow> string \<Rightarrow> string" where
  "HashInvitationToken sha token = HashSessionToken sha token"

definition ValidInvitationToken :: "string \<Rightarrow> bool" where
  "ValidInvitationToken token = (case b64_decode token of None \<Rightarrow> False | Some raw \<Rightarrow> length raw = 32)"

text \<open>\<open>rand.Read\<close> of 32 bytes gives them or an error.\<close>

definition newOpaqueToken :: "string res \<Rightarrow> string res" where
  "newOpaqueToken random = (case random of Inl e \<Rightarrow> Inl e | Inr b \<Rightarrow> Inr (b64_encode b))"

definition NewCSRFToken :: "string res \<Rightarrow> string res" where
  "NewCSRFToken random = newOpaqueToken random"

definition NewInvitationToken :: "(string \<Rightarrow> string) \<Rightarrow> string res \<Rightarrow> (string \<times> string) res" where
  "NewInvitationToken sha random =
     (case newOpaqueToken random of Inl e \<Rightarrow> Inl e | Inr token \<Rightarrow> Inr (token, HashInvitationToken sha token))"

section \<open>Sessions\<close>

record session =
  se_user :: string
  se_token :: string
  se_hash :: string
  se_expires :: time

definition NewSession :: "(string \<Rightarrow> string) \<Rightarrow> string res \<Rightarrow> string \<Rightarrow> time \<Rightarrow> duration \<Rightarrow> session res" where
  "NewSession sha random userID now lifetime =
     (case newOpaqueToken random of
        Inl e \<Rightarrow> Inl e
      | Inr token \<Rightarrow> Inr \<lparr>se_user = userID, se_token = token, se_hash = HashSessionToken sha token, se_expires = now + lifetime\<rparr>)"

definition ValidAt :: "(string \<Rightarrow> string) \<Rightarrow> session \<Rightarrow> time \<Rightarrow> string \<Rightarrow> bool" where
  "ValidAt sha s now token \<longleftrightarrow> now < se_expires s \<and> VerifySessionToken sha (se_hash s) token"

section \<open>Laws\<close>

lemma char_of_byte_eq: "char_of (byte c) = c"
  by (simp add: byte_def)

lemma hex_decode_encode [simp]: "hex_decode (hex_encode s) = Some s"
proof (induction s)
  case (Cons c s)
  have "byte c div 16 < 16" using byte_less [of c] by simp
  then show ?case using Cons by (simp add: hex_val_digit) (simp add: byte_def)
qed simp

lemma length_hex_encode: "length (hex_encode s) = 2 * length s"
  by (induction s) simp_all

lemma b64_val_char: "n < 64 \<Longrightarrow> b64_val (b64_char n) = Some n"
  by (auto simp: b64_val_def b64_char_def byte_def)

lemma b64_char_no_line: "n < 64 \<Longrightarrow> b64_char n \<noteq> CHR 0x0A \<and> b64_char n \<noteq> CHR 0x0D"
proof -
  assume n: "n < 64"
  have "b64_val (CHR 0x0A) = None" "b64_val (CHR 0x0D) = None" by (simp_all add: b64_val_def byte_def)
  with b64_val_char [OF n] show ?thesis by auto
qed

lemma b64_values_Cons: "n < 64 \<Longrightarrow> b64_values (b64_char n # s) = map_option (Cons n) (b64_values s)"
  using b64_char_no_line [of n] by (auto simp: b64_val_char split: option.split)

lemma digit_parts: "y < k \<Longrightarrow> (x * k + y :: nat) div k = x" "y < k \<Longrightarrow> (x * k + y :: nat) mod k = y"
  by simp_all

lemma byte_quot: "byte c div 4 < 64" "byte c div 16 < 16" "byte c div 64 < 4"
  using byte_less [of c] by (simp_all add: less_mult_imp_div_less)

lemma byte_parts: "byte a mod 4 * 16 + byte b div 16 < 64" "byte b mod 16 * 4 + byte c div 64 < 64"
  "byte a mod 4 * 16 < 64" "byte b mod 16 * 4 < 64" "byte c mod 64 < 64"
proof -
  have "byte a mod 4 < 4" "byte b mod 16 < 16" by simp_all
  then show "byte a mod 4 * 16 + byte b div 16 < 64" "byte b mod 16 * 4 + byte c div 64 < 64"
    "byte a mod 4 * 16 < 64" "byte b mod 16 * 4 < 64" "byte c mod 64 < 64"
    using byte_quot(2) [of b] byte_quot(3) [of c] by linarith+
qed

lemma bytes_back:
  "char_of (byte a div 4 * 4 + (byte a mod 4 * 16 + byte b div 16) div 16) = a"
  "char_of ((byte a mod 4 * 16 + byte b div 16) mod 16 * 16 + (byte b mod 16 * 4 + byte c div 64) div 4) = b"
  "char_of ((byte b mod 16 * 4 + byte c div 64) mod 4 * 64 + byte c mod 64) = c"
  "char_of (byte a div 4 * 4 + byte a mod 4 * 16 div 16) = a"
  "char_of ((byte a mod 4 * 16 + byte b div 16) mod 16 * 16 + byte b mod 16 * 4 div 4) = b"
  by (simp_all add: digit_parts byte_quot div_mult_mod_eq) (simp_all add: byte_def)

lemma b64_decode_encode: "b64_decode (b64_encode s) = Some s"
proof -
  have "\<exists>vs. b64_values (b64_encode s) = Some vs \<and> b64_bytes vs = Some s"
    by (induction s rule: b64_encode.induct)
      (auto simp: b64_values_Cons byte_parts byte_quot bytes_back char_of_byte_eq simp del: b64_values.simps(2))
  then show ?thesis by (auto simp: b64_decode_def)
qed

text \<open>A token verifies under the hash that is stored for it, and another token only with the same
  digest; tokens for invitations are well formed.\<close>

lemma VerifySessionToken_iff: "VerifySessionToken sha (HashSessionToken sha token) t \<longleftrightarrow> sha t = sha token"
  by (auto simp: VerifySessionToken_def HashSessionToken_def)

lemma ValidInvitationToken_new:
  "NewInvitationToken sha (Inr b) = Inr (token, h) \<Longrightarrow> length b = 32 \<Longrightarrow> ValidInvitationToken token \<and> h = HashSessionToken sha token"
  by (auto simp: NewInvitationToken_def newOpaqueToken_def ValidInvitationToken_def b64_decode_encode HashInvitationToken_def)

lemma ValidAt_iff:
  "NewSession sha random user now lifetime = Inr s \<Longrightarrow>
     ValidAt sha s t token \<longleftrightarrow> t < now + lifetime \<and> sha token = sha (se_token s)"
  by (auto simp: NewSession_def ValidAt_def VerifySessionToken_iff split: sum.splits)

end
