(* ===== verification/Account_Tables.thy ===== *)
theory Account_Tables
  imports Auth Sql Digest_Window "HOL-Library.Product_Lexorder"
begin

text \<open>
  The tables of accounts, sessions, invitations and companies, and the functions of
  src/migrations that are the only way to them for the service. A function is a statement: it runs
  on the tables as a whole, with one reading of the clock, and raises an error with a code or
  returns rows. The collation's \<open>lower\<close>, the white space of \<open>[:space:]\<close> beyond ASCII and the reading
  of a \<open>uuid\<close> are given.
\<close>

section \<open>Tables\<close>

record user_row =
  u_id :: string
  u_tenant :: "string option"
  u_email :: string
  u_display :: string
  u_password :: string
  u_role :: string
  u_created :: time

record session_row =
  ss_user :: string
  ss_hash :: string
  ss_expires :: time

record invitation_row =
  iv_id :: string
  iv_tenant :: string
  iv_email :: string
  iv_display :: string
  iv_role :: string
  iv_hash :: string
  iv_expires :: time
  iv_accepted :: "time option"

record company_row =
  co_id :: string
  co_name :: string
  co_contact :: string
  co_admin :: string
  co_admin_email :: string
  co_created :: time

record accounts =
  ac_users :: "user_row list"
  ac_sessions :: "session_row list"
  ac_invites :: "invitation_row list"
  ac_companies :: "company_row list"
  ac_schedules :: "(string \<times> string) list"

record sql_text =
  sq_lower :: "string \<Rightarrow> string"
  sq_space :: "nat \<Rightarrow> bool"
  sq_uuid :: "string \<Rightarrow> string option"

section \<open>Text\<close>

definition is_blank :: "char \<Rightarrow> bool" where
  "is_blank c \<longleftrightarrow> c = CHR '' ''"

text \<open>\<open>btrim\<close> removes spaces, and nothing else.\<close>

definition btrim :: "string \<Rightarrow> string" where
  "btrim s = rev (dropWhile is_blank (rev (dropWhile is_blank s)))"

definition clean_email :: "sql_text \<Rightarrow> string \<Rightarrow> string" where
  "clean_email Q s = sq_lower Q (btrim s)"

definition space_rune :: "sql_text \<Rightarrow> nat \<Rightarrow> bool" where
  "space_rune Q r = (if r < 128 then r = 32 \<or> 9 \<le> r \<and> r \<le> 13 else sq_space Q r)"

text \<open>\<open>^[^[:space:]@]+@[^[:space:]@]+$\<close>\<close>

definition email_shape :: "sql_text \<Rightarrow> string \<Rightarrow> bool" where
  "email_shape Q s =
     (let rs = map fst (runes s); left = takeWhile (\<lambda>r. r \<noteq> 64) rs; right = tl (dropWhile (\<lambda>r. r \<noteq> 64) rs) in
      64 \<in> set rs \<and> left \<noteq> [] \<and> right \<noteq> [] \<and> 64 \<notin> set right \<and> list_all (\<lambda>r. \<not> space_rune Q r) (left @ right))"

definition email_ok :: "sql_text \<Rightarrow> string \<Rightarrow> bool" where
  "email_ok Q s \<longleftrightarrow> email_shape Q s \<and> length s \<le> 320"

definition name_ok :: "string \<Rightarrow> bool" where
  "name_ok s \<longleftrightarrow> s \<noteq> [] \<and> length s \<le> 512"

text \<open>\<open>^[0-9a-f]{64}$\<close>\<close>

definition hash_shape :: "string \<Rightarrow> bool" where
  "hash_shape s \<longleftrightarrow> length s = 64 \<and> list_all (\<lambda>c. is_digit c \<or> 97 \<le> byte c \<and> byte c \<le> 102) s"

definition password_shape :: "string \<Rightarrow> bool" where
  "password_shape p \<longleftrightarrow> 59 \<le> rune_count p \<and> take 2 p = ''$2''"

definition expiry_ok :: "time \<Rightarrow> time \<Rightarrow> bool" where
  "expiry_ok now t \<longleftrightarrow> now < t \<and> t \<le> now + 48 * hour_ns + 5 * minute_ns"

section \<open>Errors\<close>

definition raise :: "string \<Rightarrow> string \<Rightarrow> goerr + 'a" where
  "raise code message = Inl (ErrPg code message)"

definition unique_violation :: "goerr + 'a" where
  "unique_violation = raise ''23505'' ''duplicate key value violates unique constraint''"

definition cast_uuid :: "sql_text \<Rightarrow> string \<Rightarrow> goerr + string" where
  "cast_uuid Q s = (case sq_uuid Q s of Some u \<Rightarrow> Inr u | None \<Rightarrow> raise ''22P02'' ''invalid input syntax for type uuid'')"

definition and_then :: "goerr + 'a \<Rightarrow> ('a \<Rightarrow> goerr + 'b) \<Rightarrow> goerr + 'b" where
  "and_then r f = (case r of Inl e \<Rightarrow> Inl e | Inr a \<Rightarrow> f a)"

section \<open>Rows\<close>

text \<open>The check \<open>users_role_tenant_scope\<close>.\<close>

definition role_scope :: "string \<Rightarrow> string option \<Rightarrow> bool" where
  "role_scope r tenant \<longleftrightarrow>
     r = PlatformAdmin \<and> tenant = None \<or> r = TenantAdmin \<and> tenant \<noteq> None \<or> r = Member"

definition company_exists :: "accounts \<Rightarrow> string \<Rightarrow> bool" where
  "company_exists t i \<longleftrightarrow> i \<in> co_id ` set (ac_companies t)"

definition insert_user :: "user_row \<Rightarrow> accounts \<Rightarrow> goerr + accounts" where
  "insert_user u t =
     (if \<not> role_scope (u_role u) (u_tenant u) then raise ''23514'' ''users_role_tenant_scope''
      else if list_ex (\<lambda>v. u_id v = u_id u \<or> u_email v = u_email u) (ac_users t) then unique_violation
      else if u_tenant u \<noteq> None \<and> \<not> company_exists t (the (u_tenant u)) then raise ''23503'' ''users_tenant_id_fkey''
      else Inr (t\<lparr>ac_users := ac_users t @ [u]\<rparr>))"

definition is_pending :: "invitation_row \<Rightarrow> bool" where
  "is_pending i \<longleftrightarrow> iv_accepted i = None"

definition insert_invitation :: "sql_text \<Rightarrow> invitation_row \<Rightarrow> accounts \<Rightarrow> goerr + accounts" where
  "insert_invitation Q i t =
     (if list_ex (\<lambda>j. iv_id j = iv_id i \<or> iv_hash j = iv_hash i \<or>
            is_pending j \<and> sq_lower Q (iv_email j) = sq_lower Q (iv_email i)) (ac_invites t) then unique_violation
      else if \<not> company_exists t (iv_tenant i) then raise ''23503'' ''invitations_tenant_id_fkey''
      else Inr (t\<lparr>ac_invites := ac_invites t @ [i]\<rparr>))"

definition default_schedule :: string where
  "default_schedule = [CHR 0xEA, CHR 0xB8, CHR 0xB0, CHR 0xEB, CHR 0xB3, CHR 0xB8, CHR 0x20, CHR 0xEC, CHR 0x95, CHR 0x8C,
     CHR 0xEB, CHR 0xA6, CHR 0xBC]"

definition insert_schedule :: "string \<Rightarrow> accounts \<Rightarrow> accounts" where
  "insert_schedule tenant t =
     (if (tenant, default_schedule) \<in> set (ac_schedules t) then t
      else t\<lparr>ac_schedules := ac_schedules t @ [(tenant, default_schedule)]\<rparr>)"

definition has_platform_role :: "accounts \<Rightarrow> string \<Rightarrow> bool" where
  "has_platform_role t actor \<longleftrightarrow>
     list_ex (\<lambda>u. u_id u = actor \<and> u_tenant u = None \<and> u_role u = PlatformAdmin) (ac_users t)"

definition has_company_role :: "accounts \<Rightarrow> string \<Rightarrow> string \<Rightarrow> bool" where
  "has_company_role t actor tenant \<longleftrightarrow>
     list_ex (\<lambda>u. u_id u = actor \<and> u_tenant u = Some tenant \<and> u_role u = TenantAdmin) (ac_users t)"

definition platform_required :: "goerr + 'a" where
  "platform_required = raise ''42501'' ''platform administrator role is required''"

definition is_seat :: "user_row \<Rightarrow> bool" where
  "is_seat u \<longleftrightarrow> u_role u = Member \<or> u_role u = TenantAdmin"

section \<open>Sessions\<close>

definition auth_account_lookup :: "string \<Rightarrow> accounts \<Rightarrow> user_row option" where
  "auth_account_lookup email t = find (\<lambda>u. u_email u = email) (ac_users t)"

definition auth_session_lookup :: "time \<Rightarrow> string \<Rightarrow> accounts \<Rightarrow> (session_row \<times> user_row) option" where
  "auth_session_lookup now h t =
     (case find (\<lambda>s. ss_hash s = h \<and> now < ss_expires s) (ac_sessions t) of
        None \<Rightarrow> None
      | Some s \<Rightarrow> map_option (Pair s) (find (\<lambda>u. u_id u = ss_user s) (ac_users t)))"

definition auth_session_create :: "time \<Rightarrow> string \<Rightarrow> string \<Rightarrow> time \<Rightarrow> accounts \<Rightarrow> goerr + accounts" where
  "auth_session_create now user h expires t =
     (if btrim h = [] then raise ''P0001'' ''session token hash is required''
      else if expires \<le> now \<or> now + 90 * day_ns < expires
        then raise ''P0001'' ''session expiry must be future and within 90 days''
      else if list_ex (\<lambda>s. ss_hash s = h) (ac_sessions t) then unique_violation
      else if user \<notin> u_id ` set (ac_users t) then raise ''23503'' ''sessions_user_id_fkey''
      else Inr (t\<lparr>ac_sessions := ac_sessions t @ [\<lparr>ss_user = user, ss_hash = h, ss_expires = expires\<rparr>]\<rparr>))"

definition auth_session_delete :: "string \<Rightarrow> accounts \<Rightarrow> goerr + accounts" where
  "auth_session_delete h t =
     (if btrim h = [] then raise ''P0001'' ''session token hash is required''
      else Inr (t\<lparr>ac_sessions := filter (\<lambda>s. ss_hash s \<noteq> h) (ac_sessions t)\<rparr>))"

section \<open>Signup\<close>

definition new_user_name :: string where
  "new_user_name = [CHR 0xEC, CHR 0x8B, CHR 0xA0, CHR 0xEA, CHR 0xB7, CHR 0x9C, CHR 0x20, CHR 0xEC, CHR 0x82, CHR 0xAC,
     CHR 0xEC, CHR 0x9A, CHR 0xA9, CHR 0xEC, CHR 0x9E, CHR 0x90]"

definition display_of :: "string \<Rightarrow> string" where
  "display_of email = (let n = btrim (takeWhile (\<lambda>c. c \<noteq> CHR ''@'') email) in if n = [] then new_user_name else n)"

definition email_taken :: "sql_text \<Rightarrow> string \<Rightarrow> accounts \<Rightarrow> bool" where
  "email_taken Q email t \<longleftrightarrow> list_ex (\<lambda>u. sq_lower Q (u_email u) = email) (ac_users t)"

definition signup_create_account :: "sql_text \<Rightarrow> time \<Rightarrow> string \<Rightarrow> string \<Rightarrow> string \<Rightarrow> accounts \<Rightarrow> goerr + user_row \<times> accounts" where
  "signup_create_account Q now new_id email0 password t =
     (let email = clean_email Q email0;
          u = \<lparr>u_id = new_id, u_tenant = None, u_email = email, u_display = display_of email, u_password = password,
               u_role = Member, u_created = now\<rparr> in
      if \<not> email_ok Q email then raise ''22023'' ''valid email address is required''
      else if \<not> password_shape password then raise ''22023'' ''valid password hash is required''
      else if email_taken Q email t then raise ''23505'' ''email already belongs to an account''
      else if list_ex (\<lambda>i. sq_lower Q (iv_email i) = email \<and> is_pending i \<and> now < iv_expires i) (ac_invites t)
        then raise ''P0001'' ''invitation already pending''
      else and_then (insert_user u t) (\<lambda>t'. Inr (u, t')))"

section \<open>Access\<close>

definition set_access :: "string \<Rightarrow> string option \<Rightarrow> string \<Rightarrow> user_row \<Rightarrow> user_row" where
  "set_access user tenant role u = (if u_id u = user \<and> is_seat u then u\<lparr>u_tenant := tenant, u_role := role\<rparr> else u)"

definition admin_set_account_access ::
  "string \<Rightarrow> string \<Rightarrow> string option \<Rightarrow> string \<Rightarrow> accounts \<Rightarrow> goerr + accounts" where
  "admin_set_account_access actor user tenant role0 t =
     (let role = btrim role0 in
      if \<not> has_platform_role t actor then platform_required
      else if role \<noteq> Member \<and> role \<noteq> TenantAdmin then raise ''22023'' ''account role must be member or tenant_admin''
      else if tenant = None \<and> role \<noteq> Member then raise ''22023'' ''a company is required for the tenant_admin role''
      else if tenant \<noteq> None \<and> \<not> company_exists t (the tenant) then raise ''P0002'' ''tenant is unavailable''
      else if \<not> list_ex (\<lambda>u. u_id u = user \<and> is_seat u) (ac_users t) then raise ''P0002'' ''member account is unavailable''
      else Inr (t\<lparr>ac_users := map (set_access user tenant role) (ac_users t)\<rparr>))"

definition leave_company :: "string \<Rightarrow> string \<Rightarrow> user_row \<Rightarrow> user_row" where
  "leave_company user tenant u =
     (if u_id u = user \<and> u_tenant u = Some tenant \<and> is_seat u then u\<lparr>u_tenant := None, u_role := Member\<rparr> else u)"

definition tenant_remove_member :: "string \<Rightarrow> string \<Rightarrow> string \<Rightarrow> accounts \<Rightarrow> goerr + accounts" where
  "tenant_remove_member actor tenant user t =
     (if \<not> has_company_role t actor tenant then raise ''42501'' ''company administrator role is required''
      else if actor = user then raise ''22023'' ''an administrator cannot remove itself''
      else if \<not> list_ex (\<lambda>u. u_id u = user \<and> u_tenant u = Some tenant \<and> is_seat u) (ac_users t)
        then raise ''P0002'' ''member account is unavailable''
      else Inr (t\<lparr>ac_users := map (leave_company user tenant) (ac_users t)\<rparr>))"

text \<open>Sessions are deleted with their account.\<close>

definition admin_delete_account :: "string \<Rightarrow> string \<Rightarrow> accounts \<Rightarrow> goerr + accounts" where
  "admin_delete_account actor user t =
     (if \<not> has_platform_role t actor then platform_required
      else if actor = user then raise ''22023'' ''an administrator cannot delete itself''
      else if \<not> list_ex (\<lambda>u. u_id u = user \<and> is_seat u) (ac_users t) then raise ''P0002'' ''member account is unavailable''
      else Inr (t\<lparr>ac_users := filter (\<lambda>u. \<not> (u_id u = user \<and> is_seat u)) (ac_users t),
                 ac_sessions := filter (\<lambda>s. ss_user s \<noteq> user) (ac_sessions t)\<rparr>))"

definition admin_account_registry :: "string \<Rightarrow> accounts \<Rightarrow> goerr + (user_row \<times> string) list" where
  "admin_account_registry actor t =
     (if \<not> has_platform_role t actor then platform_required
      else Inr (map (\<lambda>u. (u, case find (\<lambda>c. Some (co_id c) = u_tenant u) (ac_companies t) of None \<Rightarrow> [] | Some c \<Rightarrow> co_name c))
        (sort_key (\<lambda>u. (u_tenant u \<noteq> None, - u_created u, u_id u)) (filter is_seat (ac_users t)))))"

section \<open>Companies\<close>

definition same_company :: "sql_text \<Rightarrow> string \<Rightarrow> string \<Rightarrow> company_row \<Rightarrow> bool" where
  "same_company Q name contact c \<longleftrightarrow>
     sq_lower Q (btrim (co_name c)) = sq_lower Q name \<and> sq_lower Q (btrim (co_contact c)) = contact"

definition insert_company :: "sql_text \<Rightarrow> company_row \<Rightarrow> accounts \<Rightarrow> goerr + accounts" where
  "insert_company Q c t =
     (if list_ex (\<lambda>d. co_id d = co_id c \<or> same_company Q (btrim (co_name c)) (sq_lower Q (btrim (co_contact c))) d) (ac_companies t)
      then unique_violation else Inr (t\<lparr>ac_companies := ac_companies t @ [c]\<rparr>))"

definition admin_register_tenant ::
  "sql_text \<Rightarrow> time \<Rightarrow> string \<Rightarrow> string \<Rightarrow> string \<Rightarrow> string \<Rightarrow> string \<Rightarrow> string \<Rightarrow> accounts \<Rightarrow> goerr + string \<times> accounts" where
  "admin_register_tenant Q now new_id actor name0 contact0 admin0 admin_email0 t =
     (let name = btrim name0; contact = clean_email Q contact0; admin = btrim admin0; admin_email = clean_email Q admin_email0 in
      if \<not> has_platform_role t actor then platform_required
      else if \<not> name_ok name \<or> \<not> name_ok admin then raise ''22023'' ''company and administrator names are required''
      else if \<not> email_ok Q contact \<or> \<not> email_ok Q admin_email then raise ''22023'' ''valid email addresses are required''
      else if list_ex (same_company Q name contact) (ac_companies t) then raise ''23505'' ''tenant is already registered''
      else and_then (insert_company Q \<lparr>co_id = new_id, co_name = name, co_contact = contact, co_admin = admin,
             co_admin_email = admin_email, co_created = now\<rparr> t)
           (\<lambda>t'. Inr (new_id, insert_schedule new_id t')))"

definition admin_tenant_registry :: "string \<Rightarrow> accounts \<Rightarrow> goerr + (company_row \<times> nat) list" where
  "admin_tenant_registry actor t =
     (if \<not> has_platform_role t actor then platform_required
      else Inr (map (\<lambda>c. (c, length (filter (\<lambda>u. u_tenant u = Some (co_id c)) (ac_users t))))
        (sort_key (\<lambda>c. (co_created c, co_id c)) (ac_companies t))))"

end
