(* ===== verification/Accounts.thy ===== *)
theory Accounts
  imports Account_Tables
begin

text \<open>
  The account repository: internal/app/postgres_identity.go, postgres_tenant_registry.go and
  signup.go, with the account and session types of auth_handler.go. Every operation is one
  statement on the tables of \<open>Account_Tables\<close>, which may fail.
\<close>

section \<open>Errors and records\<close>

definition ErrUnauthenticated :: string where "ErrUnauthenticated = ''unauthenticated''"
definition ErrEmailRegistered :: string where "ErrEmailRegistered = ''email already belongs to an account''"
definition ErrInvitationWaits :: string where "ErrInvitationWaits = ''invitation is already pending for this email''"
definition ErrAccountUnknown :: string where "ErrAccountUnknown = ''member account is unavailable''"
definition ErrAccountRole :: string where "ErrAccountRole = ''account role must be member or tenant_admin with a company''"
definition ErrTenantUnknown :: string where "ErrTenantUnknown = ''tenant is unavailable''"
definition ErrSignupPrivileges :: string where "ErrSignupPrivileges = ''platform administrator role is required''"
definition ErrTenantRegistered :: string where "ErrTenantRegistered = ''tenant is already registered''"
definition ErrTenantInvalid :: string where "ErrTenantInvalid = ''company and administrator details are required''"

definition validSignupPassword :: "string \<Rightarrow> bool" where
  "validSignupPassword password \<longleftrightarrow> valid_utf8 password \<and> 12 \<le> length password \<and> length password \<le> 72"

record login_account =
  la_user :: string
  la_tenant :: string
  la_email :: string
  la_password :: string
  la_role :: role

record session_record =
  sr_user :: string
  sr_tenant :: string
  sr_email :: string
  sr_hash :: string
  sr_role :: role
  sr_expires :: time

record member_account =
  ma_user :: string
  ma_email :: string
  ma_display :: string
  ma_tenant :: string
  ma_tenant_name :: string
  ma_role :: role
  ma_created :: time

record registry_entry =
  re_id :: string
  re_name :: string
  re_contact :: string
  re_admin :: string
  re_admin_email :: string
  re_members :: nat
  re_created :: time

text \<open>A column that may be NULL, scanned into a pointer and then into a string.\<close>

definition tenant_text :: "string option \<Rightarrow> string" where
  "tenant_text t = (case t of None \<Rightarrow> [] | Some i \<Rightarrow> i)"

text \<open>What the repository is given beside the database: the collation and the lower case of Go.\<close>

record account_env =
  ae_text :: sql_text
  ae_case :: "nat \<Rightarrow> nat"
  ae_db :: dbenv

text \<open>\<open>QueryRow(...).Scan\<close> of a statement that returns at most one row.\<close>

definition query_row :: "account_env \<Rightarrow> (nat \<Rightarrow> accounts \<Rightarrow> goerr + 'a option \<times> accounts) \<Rightarrow> (accounts, 'a) sql" where
  "query_row R f = sql_stmt (ae_db R) (\<lambda>n t.
     case f n t of Inl e \<Rightarrow> Inl e | Inr (None, t') \<Rightarrow> Inl (Sentinel ErrNoRows) | Inr (Some a, t') \<Rightarrow> Inr (a, t'))"

definition read_row :: "account_env \<Rightarrow> (time \<Rightarrow> accounts \<Rightarrow> 'a option) \<Rightarrow> (accounts, 'a) sql" where
  "read_row R q = query_row R (\<lambda>n t. Inr (q (clock_at (ae_db R) n) t, t))"

definition change :: "account_env \<Rightarrow> (nat \<Rightarrow> accounts \<Rightarrow> goerr + accounts) \<Rightarrow> (accounts, unit) sql" where
  "change R f = sql_stmt (ae_db R) (\<lambda>n t. map_sum id (Pair ()) (f n t))"

definition map_error :: "(goerr \<Rightarrow> goerr) \<Rightarrow> ('t, 'a) sql \<Rightarrow> ('t, 'a) sql" where
  "map_error h m d = (case m d of (Inl e, d') \<Rightarrow> (Inl (h e), d') | (Inr a, d') \<Rightarrow> (Inr a, d'))"

definition lower_trim :: "account_env \<Rightarrow> string \<Rightarrow> string" where
  "lower_trim R s = trim_space (to_lower (ae_case R) s)"

section \<open>Accounts and sessions\<close>

definition not_found :: "string \<Rightarrow> goerr \<Rightarrow> goerr" where
  "not_found msg e = (if errors_is e ErrNoRows then Sentinel ErrUnauthenticated else ErrWrap msg e)"

definition AccountByEmail :: "account_env \<Rightarrow> string \<Rightarrow> (accounts, login_account) sql" where
  "AccountByEmail R email =
     (if \<not> db_set (ae_db R) then sql_fail (Sentinel ErrUnauthenticated)
      else sql_bind (map_error (not_found ''lookup login account'')
             (read_row R (\<lambda>now t. auth_account_lookup (lower_trim R email) t)))
       (\<lambda>u. if role_valid (u_role u)
             then sql_return \<lparr>la_user = u_id u, la_tenant = tenant_text (u_tenant u), la_email = u_email u,
                    la_password = u_password u, la_role = u_role u\<rparr>
             else sql_fail (Sentinel ErrUnauthenticated)))"

definition SaveSession :: "account_env \<Rightarrow> session_record \<Rightarrow> (accounts, unit) sql" where
  "SaveSession R s =
     (if \<not> db_set (ae_db R) \<or> sr_user s = [] \<or> sr_hash s = [] \<or> is_zero (sr_expires s)
      then sql_fail (ErrText ''valid session record is required'')
      else sql_wrap ''create session'' (change R (\<lambda>n t. and_then (cast_uuid (ae_text R) (sr_user s))
             (\<lambda>user. auth_session_create (clock_at (ae_db R) n) user (sr_hash s) (sr_expires s) t))))"

definition SessionByHash :: "account_env \<Rightarrow> string \<Rightarrow> (accounts, session_record) sql" where
  "SessionByHash R h =
     (if \<not> db_set (ae_db R) \<or> h = [] then sql_fail (Sentinel ErrUnauthenticated)
      else sql_bind (map_error (not_found ''lookup session'') (read_row R (\<lambda>now t. auth_session_lookup now h t)))
       (\<lambda>(s, u). if role_valid (u_role u)
             then sql_return \<lparr>sr_user = ss_user s, sr_tenant = tenant_text (u_tenant u), sr_email = u_email u,
                    sr_hash = h, sr_role = u_role u, sr_expires = ss_expires s\<rparr>
             else sql_fail (Sentinel ErrUnauthenticated)))"

definition DeleteSession :: "account_env \<Rightarrow> string \<Rightarrow> (accounts, unit) sql" where
  "DeleteSession R h =
     (if \<not> db_set (ae_db R) \<or> h = [] then sql_return ()
      else sql_wrap ''delete session'' (change R (\<lambda>n t. auth_session_delete h t)))"

section \<open>Signup and access\<close>

definition signupError :: "goerr \<Rightarrow> goerr" where
  "signupError e =
     (case as_pg e of
        None \<Rightarrow> if errors_is e ErrNoRows then Sentinel ErrAccountUnknown else ErrWrap ''signup account operation'' e
      | Some (code, message) \<Rightarrow>
          if code = ''23505'' then Sentinel ErrEmailRegistered
          else if code = ''P0001'' \<and> message = ''invitation already pending'' then Sentinel ErrInvitationWaits
          else if code = ''42501'' then Sentinel ErrSignupPrivileges
          else if code = ''22023'' then Sentinel ErrAccountRole
          else if code = ''P0002'' \<and> message = ''tenant is unavailable'' then Sentinel ErrTenantUnknown
          else if code = ''P0002'' then Sentinel ErrAccountUnknown
          else ErrWrap ''signup account operation'' e)"

definition no_pool :: goerr where
  "no_pool = ErrText ''database pool is not configured''"

definition CreateAccount :: "account_env \<Rightarrow> string \<Rightarrow> string \<Rightarrow> (accounts, login_account) sql" where
  "CreateAccount R email0 password =
     (let email = lower_trim R email0 in
      if \<not> db_set (ae_db R) then sql_fail no_pool
      else if email = [] \<or> trim_space password = [] then sql_fail (ErrText ''valid signup account is required'')
      else sql_bind (map_error signupError (query_row R (\<lambda>n t. map_sum id (apfst Some)
             (signup_create_account (ae_text R) (clock_at (ae_db R) n) (uuid_at (ae_db R) n 0) email password t))))
       (\<lambda>u. if role_valid (u_role u)
             then sql_return \<lparr>la_user = u_id u, la_tenant = tenant_text (u_tenant u), la_email = u_email u,
                    la_password = password, la_role = u_role u\<rparr>
             else sql_fail (ErrText ''signup produced an invalid role'')))"

fun read_members :: "(user_row \<times> string) list \<Rightarrow> member_account list res" where
  "read_members [] = Inr []"
| "read_members ((u, name) # us) =
     (if \<not> role_valid (u_role u) then Inl (ErrText (''account '' @ u_id u @ '' carries an unknown role''))
      else case read_members us of
        Inl e \<Rightarrow> Inl e
      | Inr ms \<Rightarrow> Inr (\<lparr>ma_user = u_id u, ma_email = u_email u, ma_display = u_display u, ma_tenant = tenant_text (u_tenant u),
          ma_tenant_name = name, ma_role = u_role u, ma_created = u_created u\<rparr> # ms))"

definition MemberAccounts :: "account_env \<Rightarrow> string \<Rightarrow> (accounts, member_account list) sql" where
  "MemberAccounts R actor =
     (if \<not> db_set (ae_db R) then sql_fail no_pool
      else if trim_space actor = [] then sql_fail (Sentinel ErrSignupPrivileges)
      else sql_bind (map_error signupError (sql_stmt (ae_db R) (\<lambda>n t. map_sum id (\<lambda>us. (us, t))
             (and_then (cast_uuid (ae_text R) actor) (\<lambda>a. admin_account_registry a t)))))
       (\<lambda>us. case read_members us of Inl e \<Rightarrow> sql_fail e | Inr ms \<Rightarrow> sql_return ms))"

definition SetAccountAccess :: "account_env \<Rightarrow> string \<Rightarrow> string \<Rightarrow> string \<Rightarrow> role \<Rightarrow> (accounts, unit) sql" where
  "SetAccountAccess R actor user tenant0 r =
     (let tenant = (if trim_space tenant0 = [] then None else Some (trim_space tenant0)) in
      if \<not> db_set (ae_db R) then sql_fail no_pool
      else if trim_space actor = [] then sql_fail (Sentinel ErrSignupPrivileges)
      else if trim_space user = [] then sql_fail (Sentinel ErrAccountUnknown)
      else if r \<noteq> Member \<and> r \<noteq> TenantAdmin then sql_fail (Sentinel ErrAccountRole)
      else if tenant = None \<and> r \<noteq> Member then sql_fail (Sentinel ErrAccountRole)
      else map_error signupError (change R (\<lambda>n t.
        and_then (cast_uuid (ae_text R) actor) (\<lambda>a.
        and_then (cast_uuid (ae_text R) user) (\<lambda>u.
        and_then (case tenant of None \<Rightarrow> Inr None | Some i \<Rightarrow> map_sum id Some (cast_uuid (ae_text R) i)) (\<lambda>i.
          admin_set_account_access a u i r t))))))"

section \<open>Companies\<close>

definition tenantRegistryError :: "goerr \<Rightarrow> goerr" where
  "tenantRegistryError e =
     (case as_pg e of
        None \<Rightarrow> if errors_is e ErrNoRows then Sentinel ErrTenantUnknown else ErrWrap ''tenant registry operation'' e
      | Some (code, message) \<Rightarrow>
          if code = ''23505'' then Sentinel ErrTenantRegistered
          else if code = ''42501'' then Sentinel ErrSignupPrivileges
          else if code = ''22023'' then Sentinel ErrTenantInvalid
          else ErrWrap ''tenant registry operation'' e)"

definition RegisterTenant ::
  "account_env \<Rightarrow> string \<Rightarrow> string \<Rightarrow> string \<Rightarrow> string \<Rightarrow> string \<Rightarrow> (accounts, string) sql" where
  "RegisterTenant R actor name contact admin admin_email =
     (if \<not> db_set (ae_db R) then sql_fail no_pool
      else if trim_space actor = [] then sql_fail (Sentinel ErrSignupPrivileges)
      else map_error tenantRegistryError (query_row R (\<lambda>n t.
        and_then (cast_uuid (ae_text R) actor) (\<lambda>a. map_sum id (apfst Some)
          (admin_register_tenant (ae_text R) (clock_at (ae_db R) n) (uuid_at (ae_db R) n 0) a (trim_space name)
             (lower_trim R contact) (trim_space admin) (lower_trim R admin_email) t)))))"

definition TenantRegistry :: "account_env \<Rightarrow> string \<Rightarrow> (accounts, registry_entry list) sql" where
  "TenantRegistry R actor =
     (if \<not> db_set (ae_db R) then sql_fail no_pool
      else if trim_space actor = [] then sql_fail (Sentinel ErrSignupPrivileges)
      else map_error tenantRegistryError (sql_stmt (ae_db R) (\<lambda>n t. map_sum id (\<lambda>cs. (map (\<lambda>(c, k).
             \<lparr>re_id = co_id c, re_name = co_name c, re_contact = co_contact c, re_admin = co_admin c,
              re_admin_email = co_admin_email c, re_members = k, re_created = co_created c\<rparr>) cs, t))
             (and_then (cast_uuid (ae_text R) actor) (\<lambda>a. admin_tenant_registry a t)))))"

definition accountRemovalError :: "goerr \<Rightarrow> goerr" where
  "accountRemovalError e =
     (case as_pg e of
        None \<Rightarrow> if errors_is e ErrNoRows then Sentinel ErrAccountUnknown else ErrWrap ''account removal'' e
      | Some (code, message) \<Rightarrow>
          if code = ''42501'' then Sentinel ErrSignupPrivileges
          else if code = ''22023'' then Sentinel ErrAccountRole
          else if code = ''P0002'' then Sentinel ErrAccountUnknown
          else ErrWrap ''account removal'' e)"

definition RemoveTenantMember :: "account_env \<Rightarrow> string \<Rightarrow> string \<Rightarrow> string \<Rightarrow> (accounts, unit) sql" where
  "RemoveTenantMember R actor tenant user =
     (if \<not> db_set (ae_db R) then sql_fail no_pool
      else if trim_space actor = [] \<or> trim_space tenant = [] then sql_fail (Sentinel ErrSignupPrivileges)
      else if trim_space user = [] then sql_fail (Sentinel ErrAccountUnknown)
      else map_error accountRemovalError (change R (\<lambda>n t.
        and_then (cast_uuid (ae_text R) actor) (\<lambda>a.
        and_then (cast_uuid (ae_text R) tenant) (\<lambda>i.
        and_then (cast_uuid (ae_text R) user) (\<lambda>u. tenant_remove_member a i u t))))))"

definition DeleteAccount :: "account_env \<Rightarrow> string \<Rightarrow> string \<Rightarrow> (accounts, unit) sql" where
  "DeleteAccount R actor user =
     (if \<not> db_set (ae_db R) then sql_fail no_pool
      else if trim_space actor = [] then sql_fail (Sentinel ErrSignupPrivileges)
      else if trim_space user = [] then sql_fail (Sentinel ErrAccountUnknown)
      else map_error accountRemovalError (change R (\<lambda>n t.
        and_then (cast_uuid (ae_text R) actor) (\<lambda>a.
        and_then (cast_uuid (ae_text R) user) (\<lambda>u. admin_delete_account a u t)))))"

end
