(* ===== verification/Invitations.thy ===== *)
theory Invitations
  imports Accounts
begin

text \<open>
  The invitations in the database: the functions of src/migrations that create, show and accept
  them, and internal/app/postgres_onboarding.go, which calls them.
\<close>

section \<open>The functions\<close>

text \<open>An invitation that has run out counts as used from then on.\<close>

definition close_expired :: "sql_text \<Rightarrow> time \<Rightarrow> string \<Rightarrow> invitation_row \<Rightarrow> invitation_row" where
  "close_expired Q now email i =
     (if sq_lower Q (iv_email i) = email \<and> is_pending i \<and> iv_expires i \<le> now then i\<lparr>iv_accepted := Some now\<rparr> else i)"

definition pending_here :: "sql_text \<Rightarrow> time \<Rightarrow> string \<Rightarrow> string \<Rightarrow> accounts \<Rightarrow> bool" where
  "pending_here Q now tenant email t \<longleftrightarrow>
     list_ex (\<lambda>i. iv_tenant i = tenant \<and> sq_lower Q (iv_email i) = email \<and> is_pending i \<and> now < iv_expires i) (ac_invites t)"

definition replace_admin_invite :: "sql_text \<Rightarrow> time \<Rightarrow> string \<Rightarrow> string \<Rightarrow> invitation_row \<Rightarrow> invitation_row" where
  "replace_admin_invite Q now tenant email i =
     (if iv_tenant i = tenant \<and> iv_role i = TenantAdmin \<and> is_pending i \<and> sq_lower Q (iv_email i) \<noteq> email
      then i\<lparr>iv_accepted := Some now\<rparr> else i)"

definition company_for ::
  "sql_text \<Rightarrow> time \<Rightarrow> string \<Rightarrow> string \<Rightarrow> string \<Rightarrow> accounts \<Rightarrow> goerr + string \<times> accounts" where
  "company_for Q now new_id name contact t =
     (case find (same_company Q name contact) (ac_companies t) of
        Some c \<Rightarrow> Inr (co_id c, t)
      | None \<Rightarrow> and_then (insert_company Q \<lparr>co_id = new_id, co_name = name, co_contact = contact, co_admin = [],
            co_admin_email = [], co_created = now\<rparr> t) (\<lambda>t'. Inr (new_id, t')))"

definition onboarding_create_tenant ::
  "sql_text \<Rightarrow> time \<Rightarrow> string \<Rightarrow> string \<Rightarrow> string \<Rightarrow> string \<Rightarrow> string \<Rightarrow> string \<Rightarrow> string \<Rightarrow> string \<Rightarrow> time \<Rightarrow>
   accounts \<Rightarrow> goerr + accounts" where
  "onboarding_create_tenant Q now new_company new_invite actor name0 contact0 invitee0 display0 h expires t =
     (let contact = clean_email Q contact0; email = clean_email Q invitee0; name = btrim name0; display = btrim display0 in
      if \<not> has_platform_role t actor then platform_required
      else if \<not> name_ok name \<or> \<not> name_ok display then raise ''22023'' ''tenant and invitee names are required''
      else if \<not> email_ok Q contact \<or> \<not> email_ok Q email then raise ''22023'' ''valid email addresses are required''
      else if \<not> hash_shape h then raise ''22023'' ''valid token hash is required''
      else if \<not> expiry_ok now expires then raise ''22023'' ''invitation expiry must be within 48 hours''
      else and_then (company_for Q now new_company name contact t) (\<lambda>(tenant, t1).
        let t2 = t1\<lparr>ac_invites := map (close_expired Q now email) (ac_invites t1)\<rparr> in
        if email_taken Q email t2 then raise ''23505'' ''email already belongs to an account''
        else if list_ex (\<lambda>u. u_tenant u = Some tenant) (ac_users t2) then raise ''23505'' ''tenant is already onboarded''
        else if pending_here Q now tenant email t2 then raise ''P0001'' ''invitation already pending''
        else let t3 = insert_schedule tenant t2 in
             insert_invitation Q \<lparr>iv_id = new_invite, iv_tenant = tenant, iv_email = email, iv_display = display,
                 iv_role = TenantAdmin, iv_hash = h, iv_expires = expires, iv_accepted = None\<rparr>
               (t3\<lparr>ac_invites := map (replace_admin_invite Q now tenant email) (ac_invites t3)\<rparr>)))"

definition onboarding_invite_member ::
  "sql_text \<Rightarrow> time \<Rightarrow> string \<Rightarrow> string \<Rightarrow> string \<Rightarrow> string \<Rightarrow> string \<Rightarrow> string \<Rightarrow> string \<Rightarrow> time \<Rightarrow> accounts \<Rightarrow>
   goerr + accounts" where
  "onboarding_invite_member Q now new_invite actor tenant invitee0 display0 r h expires t =
     (let email = clean_email Q invitee0; display = btrim display0 in
      if \<not> has_company_role t actor tenant then raise ''42501'' ''tenant administrator role is required''
      else if r \<noteq> TenantAdmin \<and> r \<noteq> Member then raise ''22023'' ''invalid invitation role''
      else if \<not> name_ok display \<or> \<not> email_ok Q email then raise ''22023'' ''valid invitee identity is required''
      else if \<not> hash_shape h then raise ''22023'' ''valid token hash is required''
      else if \<not> expiry_ok now expires then raise ''22023'' ''invitation expiry must be within 48 hours''
      else let t1 = t\<lparr>ac_invites := map (close_expired Q now email) (ac_invites t)\<rparr> in
        if email_taken Q email t1 then raise ''23505'' ''email already belongs to an account''
        else if pending_here Q now tenant email t1 then raise ''P0001'' ''invitation already pending''
        else insert_invitation Q \<lparr>iv_id = new_invite, iv_tenant = tenant, iv_email = email, iv_display = display,
               iv_role = r, iv_hash = h, iv_expires = expires, iv_accepted = None\<rparr> t1)"

definition is_open :: "time \<Rightarrow> string \<Rightarrow> invitation_row \<Rightarrow> bool" where
  "is_open now h i \<longleftrightarrow> iv_hash i = h \<and> is_pending i \<and> now < iv_expires i"

definition onboarding_invitation_lookup :: "time \<Rightarrow> string \<Rightarrow> accounts \<Rightarrow> (company_row \<times> invitation_row) option" where
  "onboarding_invitation_lookup now h t =
     (case find (is_open now h) (ac_invites t) of
        None \<Rightarrow> None
      | Some i \<Rightarrow> map_option (\<lambda>c. (c, i)) (find (\<lambda>c. co_id c = iv_tenant i) (ac_companies t)))"

definition use_invite :: "time \<Rightarrow> string \<Rightarrow> invitation_row \<Rightarrow> invitation_row" where
  "use_invite now i_id i = (if iv_id i = i_id \<and> is_pending i then i\<lparr>iv_accepted := Some now\<rparr> else i)"

definition invite_unavailable :: "goerr + 'a" where
  "invite_unavailable = raise ''P0002'' ''invitation is unavailable''"

definition onboarding_accept_invitation ::
  "sql_text \<Rightarrow> time \<Rightarrow> string \<Rightarrow> string \<Rightarrow> string \<Rightarrow> string \<Rightarrow> accounts \<Rightarrow> goerr + user_row \<times> accounts" where
  "onboarding_accept_invitation Q now new_id h display0 password t =
     (let display = btrim display0 in
      if \<not> hash_shape h \<or> \<not> name_ok display \<or> \<not> password_shape password
        then raise ''22023'' ''invalid invitation acceptance''
      else case find (is_open now h) (ac_invites t) of
        None \<Rightarrow> invite_unavailable
      | Some i \<Rightarrow>
          if email_taken Q (sq_lower Q (iv_email i)) t then raise ''23505'' ''email already belongs to an account''
          else let u = \<lparr>u_id = new_id, u_tenant = Some (iv_tenant i), u_email = iv_email i, u_display = display,
                        u_password = password, u_role = iv_role i, u_created = now\<rparr> in
            and_then (insert_user u t) (\<lambda>t'. Inr (u, t'\<lparr>ac_invites := map (use_invite now (iv_id i)) (ac_invites t')\<rparr>)))"

section \<open>The store\<close>

definition ErrInvitationPending :: string where "ErrInvitationPending = ''invitation is already pending''"
definition ErrInvitationUnavailable :: string where "ErrInvitationUnavailable = ''invitation is unavailable''"

record tenant_invitation =
  ti_actor :: string
  ti_tenant_name :: string
  ti_contact :: string
  ti_admin_name :: string
  ti_admin_email :: string
  ti_role :: role
  ti_hash :: string
  ti_expires :: time

record member_invitation =
  mi_actor :: string
  mi_tenant :: string
  mi_name :: string
  mi_email :: string
  mi_role :: role
  mi_hash :: string
  mi_expires :: time

record invitation_record =
  ir_tenant_name :: string
  ir_email :: string
  ir_display :: string
  ir_role :: role
  ir_expires :: time

definition invitationUnavailable :: "goerr \<Rightarrow> bool" where
  "invitationUnavailable e \<longleftrightarrow> errors_is e ErrNoRows \<or> (case as_pg e of None \<Rightarrow> False | Some (code, m) \<Rightarrow> code = ''P0002'')"

definition invitationPending :: "goerr \<Rightarrow> bool" where
  "invitationPending e \<longleftrightarrow> (case as_pg e of None \<Rightarrow> False | Some (code, m) \<Rightarrow> code = ''P0001'' \<and> m = ''invitation already pending'')"

definition pending_error :: "string \<Rightarrow> goerr \<Rightarrow> goerr" where
  "pending_error msg e = (if invitationPending e then Sentinel ErrInvitationPending else ErrWrap msg e)"

definition unavailable_error :: "string \<Rightarrow> goerr \<Rightarrow> goerr" where
  "unavailable_error msg e = (if invitationUnavailable e then Sentinel ErrInvitationUnavailable else ErrWrap msg e)"

definition CreateTenantInvitation :: "account_env \<Rightarrow> tenant_invitation \<Rightarrow> (accounts, unit) sql" where
  "CreateTenantInvitation R x =
     (if \<not> db_set (ae_db R) \<or> ti_role x \<noteq> TenantAdmin \<or> ti_actor x = [] \<or> length (ti_hash x) \<noteq> 64 \<or> is_zero (ti_expires x)
      then sql_fail (ErrText ''valid tenant invitation is required'')
      else map_error (pending_error ''persist tenant invitation'') (change R (\<lambda>n t.
        and_then (cast_uuid (ae_text R) (ti_actor x)) (\<lambda>a.
          onboarding_create_tenant (ae_text R) (clock_at (ae_db R) n) (uuid_at (ae_db R) n 0) (uuid_at (ae_db R) n 1) a
            (ti_tenant_name x) (ti_contact x) (ti_admin_email x) (ti_admin_name x) (ti_hash x) (ti_expires x) t))))"

definition CreateMemberInvitation :: "account_env \<Rightarrow> member_invitation \<Rightarrow> (accounts, unit) sql" where
  "CreateMemberInvitation R x =
     (if \<not> db_set (ae_db R) \<or> (mi_role x \<noteq> TenantAdmin \<and> mi_role x \<noteq> Member) \<or> mi_actor x = [] \<or> mi_tenant x = [] \<or>
         length (mi_hash x) \<noteq> 64 \<or> is_zero (mi_expires x)
      then sql_fail (ErrText ''valid member invitation is required'')
      else map_error (pending_error ''persist member invitation'') (change R (\<lambda>n t.
        and_then (cast_uuid (ae_text R) (mi_actor x)) (\<lambda>a.
        and_then (cast_uuid (ae_text R) (mi_tenant x)) (\<lambda>i.
          onboarding_invite_member (ae_text R) (clock_at (ae_db R) n) (uuid_at (ae_db R) n 0) a i (mi_email x) (mi_name x)
            (mi_role x) (mi_hash x) (mi_expires x) t)))))"

definition InvitationByHash :: "account_env \<Rightarrow> string \<Rightarrow> (accounts, invitation_record) sql" where
  "InvitationByHash R h =
     (if \<not> db_set (ae_db R) \<or> length h \<noteq> 64 then sql_fail (Sentinel ErrInvitationUnavailable)
      else sql_bind (map_error (unavailable_error ''lookup invitation'')
             (read_row R (\<lambda>now t. onboarding_invitation_lookup now h t)))
       (\<lambda>(c, i). if iv_role i = Member \<or> iv_role i = TenantAdmin
             then sql_return \<lparr>ir_tenant_name = co_name c, ir_email = iv_email i, ir_display = iv_display i,
                    ir_role = iv_role i, ir_expires = iv_expires i\<rparr>
             else sql_fail (Sentinel ErrInvitationUnavailable)))"

definition AcceptInvitation :: "account_env \<Rightarrow> string \<Rightarrow> string \<Rightarrow> string \<Rightarrow> (accounts, unit) sql" where
  "AcceptInvitation R h display password =
     (if \<not> db_set (ae_db R) \<or> length h \<noteq> 64 \<or> trim_space display = [] \<or> trim_space password = []
      then sql_fail (Sentinel ErrInvitationUnavailable)
      else map_error (unavailable_error ''accept invitation'') (change R (\<lambda>n t.
        map_sum id snd (onboarding_accept_invitation (ae_text R) (clock_at (ae_db R) n) (uuid_at (ae_db R) n 0) h display password t))))"

end
