(* ===== verification/Account_Laws.thy ===== *)
theory Account_Laws
  imports Invitations Lease
begin

text \<open>
  What the account repository guarantees over any run of its operations with any faults: the tables
  stay consistent, platform administrators are out of reach, access to a company comes only from
  those entitled to give it, and an invitation is used once.
\<close>

section \<open>Commands\<close>

datatype account_command =
    DoSaveSession session_record
  | DoDeleteSession string
  | DoCreateAccount string string
  | DoSetAccess string string string role
  | DoRegister string string string string string
  | DoRemove string string string
  | DoDelete string string
  | DoInviteTenant tenant_invitation
  | DoInviteMember member_invitation
  | DoAccept string string string

definition unit_result :: "('t, 'a) sql \<Rightarrow> ('t, unit) sql" where
  "unit_result m d = (case m d of (r, d') \<Rightarrow> (map_sum id (\<lambda>_. ()) r, d'))"

fun exec :: "account_env \<Rightarrow> account_command \<Rightarrow> (accounts, unit) sql" where
  "exec R (DoSaveSession s) = SaveSession R s"
| "exec R (DoDeleteSession h) = DeleteSession R h"
| "exec R (DoCreateAccount e p) = unit_result (CreateAccount R e p)"
| "exec R (DoSetAccess a u i r) = SetAccountAccess R a u i r"
| "exec R (DoRegister a n c m e) = unit_result (RegisterTenant R a n c m e)"
| "exec R (DoRemove a i u) = RemoveTenantMember R a i u"
| "exec R (DoDelete a u) = DeleteAccount R a u"
| "exec R (DoInviteTenant x) = CreateTenantInvitation R x"
| "exec R (DoInviteMember x) = CreateMemberInvitation R x"
| "exec R (DoAccept h n p) = AcceptInvitation R h n p"

text \<open>The statement of a command, at the call number \<open>n\<close>.\<close>

fun effect :: "account_env \<Rightarrow> nat \<Rightarrow> account_command \<Rightarrow> accounts \<Rightarrow> goerr + accounts" where
  "effect R n (DoSaveSession s) t =
     and_then (cast_uuid (ae_text R) (sr_user s)) (\<lambda>u. auth_session_create (clock_at (ae_db R) n) u (sr_hash s) (sr_expires s) t)"
| "effect R n (DoDeleteSession h) t = (if \<not> db_set (ae_db R) \<or> h = [] then Inr t else auth_session_delete h t)"
| "effect R n (DoCreateAccount e p) t =
     map_sum id snd (signup_create_account (ae_text R) (clock_at (ae_db R) n) (uuid_at (ae_db R) n 0) (lower_trim R e) p t)"
| "effect R n (DoSetAccess a u i r) t =
     and_then (cast_uuid (ae_text R) a) (\<lambda>a. and_then (cast_uuid (ae_text R) u) (\<lambda>u.
       and_then (if trim_space i = [] then Inr None else map_sum id Some (cast_uuid (ae_text R) (trim_space i)))
         (\<lambda>i. admin_set_account_access a u i r t)))"
| "effect R n (DoRegister a m c ad e) t =
     and_then (cast_uuid (ae_text R) a) (\<lambda>a. map_sum id snd
       (admin_register_tenant (ae_text R) (clock_at (ae_db R) n) (uuid_at (ae_db R) n 0) a (trim_space m)
             (lower_trim R c) (trim_space ad) (lower_trim R e) t))"
| "effect R n (DoRemove a i u) t =
     and_then (cast_uuid (ae_text R) a) (\<lambda>a. and_then (cast_uuid (ae_text R) i) (\<lambda>i.
       and_then (cast_uuid (ae_text R) u) (\<lambda>u. tenant_remove_member a i u t)))"
| "effect R n (DoDelete a u) t =
     and_then (cast_uuid (ae_text R) a) (\<lambda>a. and_then (cast_uuid (ae_text R) u) (\<lambda>u. admin_delete_account a u t))"
| "effect R n (DoInviteTenant x) t =
     and_then (cast_uuid (ae_text R) (ti_actor x)) (\<lambda>a.
       onboarding_create_tenant (ae_text R) (clock_at (ae_db R) n) (uuid_at (ae_db R) n 0) (uuid_at (ae_db R) n 1) a
         (ti_tenant_name x) (ti_contact x) (ti_admin_email x) (ti_admin_name x) (ti_hash x) (ti_expires x) t)"
| "effect R n (DoInviteMember x) t =
     and_then (cast_uuid (ae_text R) (mi_actor x)) (\<lambda>a. and_then (cast_uuid (ae_text R) (mi_tenant x)) (\<lambda>i.
       onboarding_invite_member (ae_text R) (clock_at (ae_db R) n) (uuid_at (ae_db R) n 0) a i (mi_email x) (mi_name x)
         (mi_role x) (mi_hash x) (mi_expires x) t))"
| "effect R n (DoAccept h nm p) t =
     map_sum id snd (onboarding_accept_invitation (ae_text R) (clock_at (ae_db R) n) (uuid_at (ae_db R) n 0) h nm p t)"

lemma and_then_Inr: "and_then r f = Inr b \<longleftrightarrow> (\<exists>a. r = Inr a \<and> f a = Inr b)"
  by (auto simp: and_then_def split: sum.splits)

lemma raise_not_Inr [simp]: "raise c m \<noteq> Inr b" "unique_violation \<noteq> Inr b" "platform_required \<noteq> Inr b" "invite_unavailable \<noteq> Inr b"
  by (simp_all add: raise_def unique_violation_def platform_required_def invite_unavailable_def)

lemma map_sum_Inr: "map_sum id f r = Inr b \<longleftrightarrow> (\<exists>a. r = Inr a \<and> b = f a)"
  by (cases r) auto

lemma change_result:
  "change R f d = (r, d') \<Longrightarrow> (case r of Inl e \<Rightarrow> rows d' = rows d | Inr u \<Rightarrow> f (tick d) (rows d) = Inr (rows d'))"
  by (auto simp: change_def sql_stmt_def map_sum_Inr split: option.splits sum.splits prod.splits)

lemma query_row_result:
  "query_row R f d = (r, d') \<Longrightarrow>
     (case r of Inl e \<Rightarrow> rows d' = rows d | Inr a \<Rightarrow> f (tick d) (rows d) = Inr (Some a, rows d'))"
  by (auto simp: query_row_def sql_stmt_def split: option.splits sum.splits prod.splits)

lemma map_error_result:
  "map_error h m d = (r, d') \<Longrightarrow> \<exists>r0. m d = (r0, d') \<and> r = map_sum h id r0"
  by (auto simp: map_error_def split: prod.splits sum.splits)

lemma sql_wrap_error: "sql_wrap msg m = map_error (ErrWrap msg) m"
  by (rule ext) (simp add: sql_wrap_def map_error_def)

lemma changed:
  assumes "map_error h (change R f) d = (r, d')"
  shows "(case r of Inl e \<Rightarrow> rows d' = rows d | Inr u \<Rightarrow> f (tick d) (rows d) = Inr (rows d'))"
  using map_error_result [OF assms] by (auto dest!: change_result split: sum.splits)

text \<open>A command that fails leaves the tables alone; one that succeeds has run its statement.\<close>

lemma exec_effect:
  assumes "exec R c d = (r, d')"
  shows "(case r of Inl e \<Rightarrow> rows d' = rows d | Inr u \<Rightarrow> effect R (tick d) c (rows d) = Inr (rows d'))"
proof (cases c)
  case (DoSaveSession s)
  with assms show ?thesis
    by (auto simp: SaveSession_def sql_wrap_error sql_fail_def dest!: changed split: if_splits sum.splits)
next
  case (DoDeleteSession h)
  with assms show ?thesis
    by (auto simp: DeleteSession_def sql_wrap_error sql_return_def dest!: changed split: if_splits sum.splits)
next
  case (DoCreateAccount e p)
  have role: "\<And>t u t'. signup_create_account Q now i e p t = Inr (u, t') \<Longrightarrow> role_valid (u_role u)" for Q now i e p
    by (auto simp: signup_create_account_def Let_def and_then_Inr role_valid_def split: if_splits)
  show ?thesis using assms DoCreateAccount role
    by (auto simp: CreateAccount_def unit_result_def sql_fail_def sql_bind_def sql_return_def Let_def map_sum_Inr
        dest!: map_error_result query_row_result split: if_splits prod.splits sum.splits)
next
  case (DoRegister a n c m e)
  with assms show ?thesis
    by (auto simp: RegisterTenant_def unit_result_def sql_fail_def and_then_Inr map_sum_Inr
        dest!: map_error_result query_row_result split: if_splits prod.splits sum.splits)
next
  case (DoSetAccess a u i r)
  with assms show ?thesis
    by (auto simp: SetAccountAccess_def sql_fail_def Let_def dest!: changed split: if_splits sum.splits)
qed (use assms in \<open>auto simp: RemoveTenantMember_def DeleteAccount_def CreateTenantInvitation_def
    CreateMemberInvitation_def AcceptInvitation_def sql_fail_def dest!: changed split: if_splits sum.splits\<close>)

section \<open>Consistency\<close>

definition users_ok :: "accounts \<Rightarrow> bool" where
  "users_ok t \<longleftrightarrow> distinct (map u_id (ac_users t)) \<and> distinct (map u_email (ac_users t)) \<and>
     (\<forall>u \<in> set (ac_users t). role_scope (u_role u) (u_tenant u) \<and> (\<forall>i. u_tenant u = Some i \<longrightarrow> company_exists t i))"

definition sessions_ok :: "accounts \<Rightarrow> bool" where
  "sessions_ok t \<longleftrightarrow> distinct (map ss_hash (ac_sessions t)) \<and> (\<forall>s \<in> set (ac_sessions t). ss_user s \<in> u_id ` set (ac_users t))"

definition invites_ok :: "sql_text \<Rightarrow> accounts \<Rightarrow> bool" where
  "invites_ok Q t \<longleftrightarrow> distinct (map iv_id (ac_invites t)) \<and> distinct (map iv_hash (ac_invites t)) \<and>
     distinct (map (\<lambda>i. sq_lower Q (iv_email i)) (filter is_pending (ac_invites t))) \<and>
     (\<forall>i \<in> set (ac_invites t). (iv_role i = Member \<or> iv_role i = TenantAdmin) \<and> company_exists t (iv_tenant i))"

definition companies_ok :: "accounts \<Rightarrow> bool" where
  "companies_ok t \<longleftrightarrow> distinct (map co_id (ac_companies t))"

text \<open>One account for an address, whatever its case.\<close>

definition addresses_ok :: "sql_text \<Rightarrow> accounts \<Rightarrow> bool" where
  "addresses_ok Q t \<longleftrightarrow> distinct (map (\<lambda>u. sq_lower Q (u_email u)) (ac_users t))"

definition accounts_ok :: "sql_text \<Rightarrow> accounts \<Rightarrow> bool" where
  "accounts_ok Q t \<longleftrightarrow> users_ok t \<and> sessions_ok t \<and> invites_ok Q t \<and> companies_ok t \<and> addresses_ok Q t"

lemma roles_differ [simp]: "Member \<noteq> PlatformAdmin" "TenantAdmin \<noteq> PlatformAdmin" "Member \<noteq> TenantAdmin"
  "PlatformAdmin \<noteq> Member" "PlatformAdmin \<noteq> TenantAdmin" "TenantAdmin \<noteq> Member"
  by (simp_all add: Member_def PlatformAdmin_def TenantAdmin_def)

lemma list_ex_conv: "list_ex P xs \<longleftrightarrow> (\<exists>x \<in> set xs. P x)"
  by (induction xs) auto

lemma insert_user_ok:
  assumes "insert_user u t = Inr t'" "accounts_ok Q t" "\<not> email_taken Q (sq_lower Q (u_email u)) t"
  shows "accounts_ok Q t'" "t' = t\<lparr>ac_users := ac_users t @ [u]\<rparr>"
proof -
  have t': "t' = t\<lparr>ac_users := ac_users t @ [u]\<rparr>" and r: "role_scope (u_role u) (u_tenant u)"
    and new: "u_id u \<notin> u_id ` set (ac_users t)" "u_email u \<notin> u_email ` set (ac_users t)"
    and co: "\<forall>i. u_tenant u = Some i \<longrightarrow> company_exists t i"
    using assms(1) by (auto simp: insert_user_def list_ex_conv image_iff split: if_splits)
  have "sq_lower Q (u_email u) \<notin> (\<lambda>v. sq_lower Q (u_email v)) ` set (ac_users t)"
    using assms(3) by (auto simp: email_taken_def list_ex_conv)
  then have "addresses_ok Q t'" using assms(2) by (simp add: t' accounts_ok_def addresses_ok_def)
  moreover have "users_ok t'" using assms(2) r new co by (simp add: t' accounts_ok_def users_ok_def company_exists_def)
  moreover have "sessions_ok t'" using assms(2) by (simp add: t' accounts_ok_def sessions_ok_def)
  moreover have "invites_ok Q t'" "companies_ok t'"
    using assms(2) by (simp_all add: t' accounts_ok_def invites_ok_def companies_ok_def company_exists_def)
  ultimately show "accounts_ok Q t'" by (simp add: accounts_ok_def)
  show "t' = t\<lparr>ac_users := ac_users t @ [u]\<rparr>" by (rule t')
qed

lemma insert_invitation_ok:
  assumes "insert_invitation Q i t = Inr t'" "accounts_ok Q t" "iv_role i = Member \<or> iv_role i = TenantAdmin"
  shows "accounts_ok Q t'" "t' = t\<lparr>ac_invites := ac_invites t @ [i]\<rparr>"
proof -
  have t': "t' = t\<lparr>ac_invites := ac_invites t @ [i]\<rparr>" and co: "company_exists t (iv_tenant i)"
    and new: "iv_id i \<notin> iv_id ` set (ac_invites t)" "iv_hash i \<notin> iv_hash ` set (ac_invites t)"
      "sq_lower Q (iv_email i) \<notin> (\<lambda>i. sq_lower Q (iv_email i)) ` set (filter is_pending (ac_invites t))"
    using assms(1) by (auto simp: insert_invitation_def list_ex_conv image_iff split: if_splits)
  have "invites_ok Q t'" using assms(2,3) co new by (simp add: t' accounts_ok_def invites_ok_def company_exists_def)
  moreover have "users_ok t'" "sessions_ok t'" "companies_ok t'" "addresses_ok Q t'"
    using assms(2) by (simp_all add: t' accounts_ok_def users_ok_def sessions_ok_def companies_ok_def addresses_ok_def company_exists_def)
  ultimately show "accounts_ok Q t'" by (simp add: accounts_ok_def)
  show "t' = t\<lparr>ac_invites := ac_invites t @ [i]\<rparr>" by (rule t')
qed

lemma insert_company_ok:
  assumes "insert_company Q c t = Inr t'" "accounts_ok Q t"
  shows "accounts_ok Q t'" "t' = t\<lparr>ac_companies := ac_companies t @ [c]\<rparr>"
proof -
  have t': "t' = t\<lparr>ac_companies := ac_companies t @ [c]\<rparr>" and new: "co_id c \<notin> co_id ` set (ac_companies t)"
    using assms(1) by (auto simp: insert_company_def list_ex_conv image_iff split: if_splits)
  have "companies_ok t'" using assms(2) new by (simp add: t' accounts_ok_def companies_ok_def)
  moreover have "users_ok t'" "sessions_ok t'" "invites_ok Q t'" "addresses_ok Q t'"
    using assms(2) by (auto simp: t' accounts_ok_def users_ok_def sessions_ok_def invites_ok_def addresses_ok_def company_exists_def)
  ultimately show "accounts_ok Q t'" by (simp add: accounts_ok_def)
  show "t' = t\<lparr>ac_companies := ac_companies t @ [c]\<rparr>" by (rule t')
qed

text \<open>An update that keeps the keys of invitations and opens none.\<close>

definition closes :: "(invitation_row \<Rightarrow> invitation_row) \<Rightarrow> bool" where
  "closes f \<longleftrightarrow> (\<forall>i. f i = i \<or> (\<exists>now. f i = i\<lparr>iv_accepted := Some now\<rparr> \<and> is_pending i))"

lemma closes_keeps:
  assumes "closes f"
  shows "iv_id (f i) = iv_id i" "iv_hash (f i) = iv_hash i" "iv_email (f i) = iv_email i" "iv_role (f i) = iv_role i"
    "iv_tenant (f i) = iv_tenant i" "iv_expires (f i) = iv_expires i" "is_pending (f i) \<Longrightarrow> f i = i"
proof -
  have "f i = i \<or> (\<exists>now. f i = i\<lparr>iv_accepted := Some now\<rparr>)" using assms by (auto simp: closes_def)
  then show "iv_id (f i) = iv_id i" "iv_hash (f i) = iv_hash i" "iv_email (f i) = iv_email i" "iv_role (f i) = iv_role i"
    "iv_tenant (f i) = iv_tenant i" "iv_expires (f i) = iv_expires i" "is_pending (f i) \<Longrightarrow> f i = i"
    by (auto simp: is_pending_def)
qed

lemma pending_closed:
  assumes "closes f"
  shows "set (filter is_pending (map f is)) \<subseteq> set (filter is_pending is)"
  using closes_keeps(7) [OF assms] by force

lemma distinct_closed:
  assumes "closes f" "distinct (map (\<lambda>i. sq_lower Q (iv_email i)) (filter is_pending is))"
  shows "distinct (map (\<lambda>i. sq_lower Q (iv_email i)) (filter is_pending (map f is)))"
  using assms(2)
proof (induction "is")
  case (Cons i "is")
  have tail: "distinct (map (\<lambda>i. sq_lower Q (iv_email i)) (filter is_pending (map f is)))"
    using Cons by (cases "is_pending i") simp_all
  show ?case
  proof (cases "is_pending (f i)")
    case True
    then have i: "f i = i" "is_pending i" using closes_keeps(7) [OF assms(1), of i] by auto
    have "(\<lambda>i. sq_lower Q (iv_email i)) ` set (filter is_pending (map f is)) \<subseteq>
        (\<lambda>i. sq_lower Q (iv_email i)) ` set (filter is_pending is)"
      using pending_closed [OF assms(1)] by (rule image_mono)
    then show ?thesis using tail Cons.prems i by auto
  qed (use tail in simp)
qed simp

lemma close_ok:
  assumes "accounts_ok Q t" "closes f"
  shows "accounts_ok Q (t\<lparr>ac_invites := map f (ac_invites t)\<rparr>)"
proof -
  have "map iv_id (map f (ac_invites t)) = map iv_id (ac_invites t)" "map iv_hash (map f (ac_invites t)) = map iv_hash (ac_invites t)"
    by (simp_all add: closes_keeps(1,2) [OF assms(2)] comp_def)
  then have "invites_ok Q (t\<lparr>ac_invites := map f (ac_invites t)\<rparr>)"
    using assms(1) distinct_closed [OF assms(2), of Q "ac_invites t"]
    by (simp add: accounts_ok_def invites_ok_def company_exists_def closes_keeps(1-6) [OF assms(2)] del: map_map)
  then show ?thesis using assms(1)
    by (simp add: accounts_ok_def users_ok_def sessions_ok_def companies_ok_def addresses_ok_def company_exists_def)
qed

lemma closing [simp]: "closes (close_expired Q now e)" "closes (replace_admin_invite Q now i e)" "closes (use_invite now k)"
  by (auto simp: closes_def close_expired_def replace_admin_invite_def use_invite_def)

lemma schedule_ok: "accounts_ok Q (insert_schedule i t) = accounts_ok Q t"
  "ac_users (insert_schedule i t) = ac_users t" "ac_invites (insert_schedule i t) = ac_invites t"
  by (simp_all add: insert_schedule_def accounts_ok_def users_ok_def sessions_ok_def invites_ok_def companies_ok_def
      addresses_ok_def company_exists_def)

text \<open>An update of accounts that keeps who they are.\<close>

lemma update_users_ok:
  assumes "accounts_ok Q t" "\<And>u. u_id (f u) = u_id u" "\<And>u. u_email (f u) = u_email u"
    and "\<And>u. u \<in> set (ac_users t) \<Longrightarrow> f u \<noteq> u \<Longrightarrow>
      role_scope (u_role (f u)) (u_tenant (f u)) \<and> (\<forall>i. u_tenant (f u) = Some i \<longrightarrow> company_exists t i)"
  shows "accounts_ok Q (t\<lparr>ac_users := map f (ac_users t)\<rparr>)"
proof -
  have "role_scope (u_role (f u)) (u_tenant (f u)) \<and> (\<forall>i. u_tenant (f u) = Some i \<longrightarrow> company_exists t i)"
    if "u \<in> set (ac_users t)" for u
    using assms(1) assms(4) [OF that] that by (cases "f u = u") (auto simp: accounts_ok_def users_ok_def)
  moreover have "u_id ` f ` set (ac_users t) = u_id ` set (ac_users t)" by (simp add: image_image assms(2))
  ultimately show ?thesis using assms(1)
    by (simp add: accounts_ok_def users_ok_def sessions_ok_def invites_ok_def companies_ok_def
      addresses_ok_def company_exists_def comp_def assms(2,3))
qed

definition admins :: "accounts \<Rightarrow> user_row list" where
  "admins t = filter (\<lambda>u. u_role u = PlatformAdmin) (ac_users t)"

definition lower_twice :: "sql_text \<Rightarrow> bool" where
  "lower_twice Q \<longleftrightarrow> (\<forall>s. sq_lower Q (sq_lower Q s) = sq_lower Q s)"

lemma admins_map:
  assumes "\<And>u. f u = u \<or> u_role u \<noteq> PlatformAdmin \<and> u_role (f u) \<noteq> PlatformAdmin"
  shows "filter (\<lambda>u. u_role u = PlatformAdmin) (map f us) = filter (\<lambda>u. u_role u = PlatformAdmin) us"
proof (induction us)
  case (Cons u us)
  with assms [of u] show ?case by auto
qed simp

lemma signup_ok:
  assumes "signup_create_account Q now i e p t = Inr (u, t')" "accounts_ok Q t" "lower_twice Q"
  shows "accounts_ok Q t' \<and> admins t' = admins t \<and> ac_users t' = ac_users t @ [u] \<and> ac_invites t' = ac_invites t \<and>
    u_role u = Member \<and> u_tenant u = None"
proof -
  have ins: "insert_user u t = Inr t'" and free: "\<not> email_taken Q (clean_email Q e) t" and u: "u_email u = clean_email Q e"
    "u_role u = Member" "u_tenant u = None"
    using assms(1) by (auto simp: signup_create_account_def Let_def and_then_Inr split: if_splits)
  have "sq_lower Q (u_email u) = clean_email Q e" using assms(3) by (simp add: u clean_email_def lower_twice_def)
  then have "accounts_ok Q t'" "t' = t\<lparr>ac_users := ac_users t @ [u]\<rparr>" using insert_user_ok [OF ins assms(2)] free by auto
  then show ?thesis using u by (simp add: admins_def)
qed

lemma accept_ok:
  assumes "onboarding_accept_invitation Q now new h m p t = Inr (u, t')" "accounts_ok Q t"
  shows "accounts_ok Q t' \<and> admins t' = admins t \<and> ac_users t' = ac_users t @ [u] \<and>
    (\<exists>i \<in> set (ac_invites t). is_open now h i \<and> u_tenant u = Some (iv_tenant i) \<and> u_role u = iv_role i \<and> u_email u = iv_email i \<and>
       ac_invites t' = map (use_invite now (iv_id i)) (ac_invites t))"
proof -
  obtain i t1 where find: "find (is_open now h) (ac_invites t) = Some i"
    and free: "\<not> email_taken Q (sq_lower Q (iv_email i)) t" and ins: "insert_user u t = Inr t1"
    and u: "u_tenant u = Some (iv_tenant i)" "u_role u = iv_role i" "u_email u = iv_email i"
    and t': "t' = t1\<lparr>ac_invites := map (use_invite now (iv_id i)) (ac_invites t1)\<rparr>"
    using assms(1) by (auto simp: onboarding_accept_invitation_def Let_def and_then_Inr split: if_splits option.splits)
  have i: "i \<in> set (ac_invites t)" "is_open now h i" using find by (auto simp: find_Some_iff)
  have ok: "accounts_ok Q t1" "t1 = t\<lparr>ac_users := ac_users t @ [u]\<rparr>" using insert_user_ok [OF ins assms(2), unfolded u, OF free] by auto
  have "accounts_ok Q t'" unfolding t' by (rule close_ok [OF ok(1)]) simp
  moreover have "u_role u \<noteq> PlatformAdmin" using assms(2) i(1) u(2) by (auto simp: accounts_ok_def invites_ok_def)
  moreover have "ac_users t' = ac_users t @ [u]" "ac_invites t' = map (use_invite now (iv_id i)) (ac_invites t)"
    by (simp_all add: t' ok(2))
  ultimately show ?thesis using i u by (auto simp: admins_def)
qed

lemma access_ok:
  assumes "admin_set_account_access a u i r t = Inr t'" "accounts_ok Q t"
  shows "accounts_ok Q t' \<and> admins t' = admins t \<and> ac_invites t' = ac_invites t \<and> has_platform_role t a \<and>
    ac_users t' = map (set_access u i (btrim r)) (ac_users t)"
proof -
  have t': "t' = t\<lparr>ac_users := map (set_access u i (btrim r)) (ac_users t)\<rparr>" and a: "has_platform_role t a"
    and r: "btrim r = Member \<or> btrim r = TenantAdmin" "i = None \<longrightarrow> btrim r = Member" "\<forall>k. i = Some k \<longrightarrow> company_exists t k"
    using assms(1) by (auto simp: admin_set_account_access_def Let_def split: if_splits)
  have "accounts_ok Q t'" unfolding t'
    by (rule update_users_ok [OF assms(2)]) (use r in \<open>auto simp: set_access_def role_scope_def\<close>)
  moreover have "admins t' = admins t" unfolding t' admins_def
    by simp (rule admins_map, use r in \<open>auto simp: set_access_def is_seat_def\<close>)
  ultimately show ?thesis using a t' by simp
qed

lemma remove_ok:
  assumes "tenant_remove_member a i u t = Inr t'" "accounts_ok Q t"
  shows "accounts_ok Q t' \<and> admins t' = admins t \<and> ac_invites t' = ac_invites t \<and>
    ac_users t' = map (leave_company u i) (ac_users t)"
proof -
  have t': "t' = t\<lparr>ac_users := map (leave_company u i) (ac_users t)\<rparr>"
    using assms(1) by (auto simp: tenant_remove_member_def split: if_splits)
  have "accounts_ok Q t'" unfolding t'
    by (rule update_users_ok [OF assms(2)]) (auto simp: leave_company_def role_scope_def)
  moreover have "admins t' = admins t" unfolding t' admins_def
    by simp (rule admins_map, auto simp: leave_company_def is_seat_def)
  ultimately show ?thesis using t' by simp
qed

lemma distinct_map_filter_keep: "distinct (map f xs) \<Longrightarrow> distinct (map f (filter P xs))"
  by (rule distinct_map_filter)

lemma delete_ok:
  assumes "admin_delete_account a u t = Inr t'" "accounts_ok Q t"
  shows "accounts_ok Q t' \<and> admins t' = admins t \<and> ac_invites t' = ac_invites t \<and> set (ac_users t') \<subseteq> set (ac_users t)"
proof -
  have t': "t' = t\<lparr>ac_users := filter (\<lambda>v. \<not> (u_id v = u \<and> is_seat v)) (ac_users t), ac_sessions := filter (\<lambda>s. ss_user s \<noteq> u) (ac_sessions t)\<rparr>"
    using assms(1) by (auto simp: admin_delete_account_def split: if_splits)
  have "sessions_ok t'" using assms(2) by (auto simp: t' accounts_ok_def sessions_ok_def distinct_map_filter image_iff)
  moreover have "users_ok t'" "addresses_ok Q t'"
    using assms(2) by (auto simp: t' accounts_ok_def users_ok_def addresses_ok_def distinct_map_filter company_exists_def)
  moreover have "invites_ok Q t'" "companies_ok t'"
    using assms(2) by (simp_all add: t' accounts_ok_def invites_ok_def companies_ok_def company_exists_def)
  moreover have "admins t' = admins t" unfolding t' admins_def
    by (simp, rule filter_cong) (auto simp: is_seat_def)
  ultimately show ?thesis by (auto simp: accounts_ok_def t')
qed

lemma session_create_ok:
  assumes "auth_session_create now u h e t = Inr t'" "accounts_ok Q t"
  shows "accounts_ok Q t' \<and> ac_users t' = ac_users t \<and> ac_invites t' = ac_invites t"
proof -
  have t': "t' = t\<lparr>ac_sessions := ac_sessions t @ [\<lparr>ss_user = u, ss_hash = h, ss_expires = e\<rparr>]\<rparr>"
    and new: "h \<notin> ss_hash ` set (ac_sessions t)" "u \<in> u_id ` set (ac_users t)"
    using assms(1) by (auto simp: auth_session_create_def list_ex_conv image_iff split: if_splits)
  have "sessions_ok t'" using assms(2) new by (simp add: t' accounts_ok_def sessions_ok_def)
  then show ?thesis using assms(2)
    by (simp add: t' accounts_ok_def users_ok_def invites_ok_def companies_ok_def addresses_ok_def company_exists_def)
qed

lemma session_delete_ok:
  assumes "auth_session_delete h t = Inr t'" "accounts_ok Q t"
  shows "accounts_ok Q t' \<and> ac_users t' = ac_users t \<and> ac_invites t' = ac_invites t"
proof -
  have t': "t' = t\<lparr>ac_sessions := filter (\<lambda>s. ss_hash s \<noteq> h) (ac_sessions t)\<rparr>"
    using assms(1) by (auto simp: auth_session_delete_def split: if_splits)
  have "sessions_ok t'" using assms(2) by (auto simp: t' accounts_ok_def sessions_ok_def distinct_map_filter)
  then show ?thesis using assms(2)
    by (simp add: t' accounts_ok_def users_ok_def invites_ok_def companies_ok_def addresses_ok_def company_exists_def)
qed

lemma register_ok:
  assumes "admin_register_tenant Q now new a m c ad e t = Inr (i, t')" "accounts_ok Q t"
  shows "accounts_ok Q t' \<and> ac_users t' = ac_users t \<and> ac_invites t' = ac_invites t"
proof -
  obtain k t1 where "insert_company Q k t = Inr t1" "t' = insert_schedule new t1"
    using assms(1) by (auto simp: admin_register_tenant_def Let_def and_then_Inr split: if_splits)
  moreover from this insert_company_ok [OF _ assms(2)] have "accounts_ok Q t1" "t1 = t\<lparr>ac_companies := ac_companies t @ [k]\<rparr>" by auto
  ultimately show ?thesis by (simp add: schedule_ok)
qed

text \<open>A new invitation: who gave it, for which company and role.\<close>

definition invited :: "(invitation_row \<Rightarrow> invitation_row) \<Rightarrow> invitation_row \<Rightarrow> accounts \<Rightarrow> accounts \<Rightarrow> bool" where
  "invited f i t t' \<longleftrightarrow> closes f \<and> ac_invites t' = map f (ac_invites t) @ [i] \<and> is_pending i"

lemma closes_comp: "closes f \<Longrightarrow> closes g \<Longrightarrow> closes (\<lambda>i. f (g i))"
proof -
  assume f: "closes f" and g: "closes g"
  have "f (g i) = i \<or> (\<exists>now. f (g i) = i\<lparr>iv_accepted := Some now\<rparr> \<and> is_pending i)" for i
  proof (cases "f (g i) = g i")
    case True
    with g show ?thesis unfolding closes_def by simp
  next
    case False
    then obtain now where n: "f (g i) = (g i)\<lparr>iv_accepted := Some now\<rparr>" "is_pending (g i)" using f unfolding closes_def by metis
    then have "g i = i" using closes_keeps(7) [OF g] by simp
    with n show ?thesis by auto
  qed
  then show ?thesis by (simp add: closes_def)
qed

lemma invite_member_ok:
  assumes "onboarding_invite_member Q now new a i e m r h x t = Inr t'" "accounts_ok Q t"
  shows "accounts_ok Q t' \<and> ac_users t' = ac_users t \<and> has_company_role t a i \<and>
    (\<exists>f v. invited f v t t' \<and> iv_tenant v = i \<and> iv_role v = r \<and> (r = Member \<or> r = TenantAdmin) \<and> iv_expires v \<le> now + 48 * hour_ns + 5 * minute_ns)"
proof -
  let ?f = "close_expired Q now (clean_email Q e)"
  obtain v where ins: "insert_invitation Q v (t\<lparr>ac_invites := map ?f (ac_invites t)\<rparr>) = Inr t'"
    and v: "iv_tenant v = i" "iv_role v = r" "iv_accepted v = None" "iv_expires v = x"
    and r: "r = Member \<or> r = TenantAdmin" "expiry_ok now x" "has_company_role t a i"
    using assms(1) by (auto simp: onboarding_invite_member_def Let_def split: if_splits)
  have "accounts_ok Q (t\<lparr>ac_invites := map ?f (ac_invites t)\<rparr>)" by (rule close_ok [OF assms(2)]) simp
  from insert_invitation_ok [OF ins this] v r
  have ok: "accounts_ok Q t'" and eq: "t' = t\<lparr>ac_invites := map ?f (ac_invites t) @ [v]\<rparr>" by auto
  then have "ac_users t' = ac_users t" "invited ?f v t t'" using v by (simp_all add: invited_def is_pending_def)
  with ok v r show ?thesis by (auto simp: expiry_ok_def)
qed

lemma create_tenant_ok:
  assumes "onboarding_create_tenant Q now nc ni a m c e d h x t = Inr t'" "accounts_ok Q t"
  shows "accounts_ok Q t' \<and> ac_users t' = ac_users t \<and> has_platform_role t a \<and>
    (\<exists>f v. invited f v t t' \<and> iv_role v = TenantAdmin \<and> iv_expires v \<le> now + 48 * hour_ns + 5 * minute_ns)"
proof -
  have a: "has_platform_role t a" "expiry_ok now x"
    using assms(1) by (auto simp: onboarding_create_tenant_def Let_def split: if_splits)
  obtain i t1 where co: "company_for Q now nc (btrim m) (clean_email Q c) t = Inr (i, t1)"
    using assms(1) by (auto simp: onboarding_create_tenant_def Let_def and_then_Inr split: if_splits)
  let ?f = "close_expired Q now (clean_email Q e)" and ?g = "replace_admin_invite Q now i (clean_email Q e)"
  let ?t3 = "insert_schedule i (t1\<lparr>ac_invites := map ?f (ac_invites t1)\<rparr>)"
  let ?v = "\<lparr>iv_id = ni, iv_tenant = i, iv_email = clean_email Q e, iv_display = btrim d, iv_role = TenantAdmin, iv_hash = h,
    iv_expires = x, iv_accepted = None\<rparr>"
  have ins: "insert_invitation Q ?v (?t3\<lparr>ac_invites := map ?g (ac_invites ?t3)\<rparr>) = Inr t'"
    using assms(1) by (simp add: onboarding_create_tenant_def Let_def co and_then_def split: if_splits)
  have t1: "accounts_ok Q t1 \<and> ac_users t1 = ac_users t \<and> ac_invites t1 = ac_invites t"
  proof (cases "find (same_company Q (btrim m) (clean_email Q c)) (ac_companies t)")
    case None
    with co obtain k where "insert_company Q k t = Inr t1" by (auto simp: company_for_def and_then_Inr)
    note ok = insert_company_ok [OF this assms(2)]
    then have "ac_users t1 = ac_users t" "ac_invites t1 = ac_invites t" by simp_all
    with ok(1) show ?thesis by blast
  next
    case (Some k)
    with co assms(2) show ?thesis by (simp add: company_for_def)
  qed
  have "accounts_ok Q (t1\<lparr>ac_invites := map ?f (ac_invites t1)\<rparr>)" by (rule close_ok) (simp_all add: t1)
  then have "accounts_ok Q (?t3\<lparr>ac_invites := map ?g (ac_invites ?t3)\<rparr>)" by (intro close_ok) (simp_all add: schedule_ok)
  from insert_invitation_ok [OF ins this]
  have ok: "accounts_ok Q t'" and eq: "t' = ?t3\<lparr>ac_invites := map ?g (ac_invites ?t3) @ [?v]\<rparr>" by auto
  have "ac_users t' = ac_users t" "invited (\<lambda>i. ?g (?f i)) ?v t t'"
    by (simp_all add: eq t1 invited_def is_pending_def schedule_ok comp_def closes_comp [OF closing(2) closing(1)])
  then show ?thesis using ok a(1) a(2) [unfolded expiry_ok_def] by (intro conjI exI [of _ "\<lambda>i. ?g (?f i)"] exI [of _ ?v]) simp_all
qed

section \<open>Steps\<close>

text \<open>Who has access to what: the account, the company and the role in it.\<close>

definition has_access :: "accounts \<Rightarrow> string \<Rightarrow> string \<Rightarrow> string \<Rightarrow> bool" where
  "has_access t user company r \<longleftrightarrow> (\<exists>u \<in> set (ac_users t). u_id u = user \<and> u_tenant u = Some company \<and> u_role u = r)"

text \<open>What gives an account \<open>user\<close> the role \<open>r\<close> in a company: an administrator of the platform sets the
  access of this very account to this company and role, or an invitation that is open and names the
  company, the role and the address of the account, which is new, is accepted.\<close>

definition granted :: "account_env \<Rightarrow> nat \<Rightarrow> account_command \<Rightarrow> accounts \<Rightarrow> accounts \<Rightarrow> string \<Rightarrow> string \<Rightarrow> string \<Rightarrow> bool" where
  "granted R n c t t' user company r =
     (case c of
        DoSetAccess a u i x \<Rightarrow>
          (\<exists>actor. sq_uuid (ae_text R) a = Some actor \<and> has_platform_role t actor) \<and>
          sq_uuid (ae_text R) u = Some user \<and> sq_uuid (ae_text R) (trim_space i) = Some company \<and> btrim x = r
      | DoAccept h m p \<Rightarrow>
          user \<notin> u_id ` set (ac_users t) \<and>
          (\<exists>i \<in> set (ac_invites t). is_open (clock_at (ae_db R) n) h i \<and> iv_tenant i = company \<and> iv_role i = r \<and>
             (\<exists>u \<in> set (ac_users t'). u_id u = user \<and> u_email u = iv_email i))
      | _ \<Rightarrow> False)"

text \<open>What takes the access to a company from an account: its access is set to something else, or an
  administrator of the company removes it, or an administrator of the platform deletes it.\<close>

definition withdrawn :: "account_env \<Rightarrow> account_command \<Rightarrow> accounts \<Rightarrow> string \<Rightarrow> string \<Rightarrow> bool" where
  "withdrawn R c t user company =
     (case c of
        DoSetAccess a u i x \<Rightarrow>
          (\<exists>actor. sq_uuid (ae_text R) a = Some actor \<and> has_platform_role t actor) \<and> sq_uuid (ae_text R) u = Some user
      | DoRemove a i u \<Rightarrow>
          (\<exists>actor. sq_uuid (ae_text R) a = Some actor \<and> has_company_role t actor company) \<and>
          sq_uuid (ae_text R) i = Some company \<and> sq_uuid (ae_text R) u = Some user
      | DoDelete a u \<Rightarrow>
          (\<exists>actor. sq_uuid (ae_text R) a = Some actor \<and> has_platform_role t actor) \<and> sq_uuid (ae_text R) u = Some user
      | _ \<Rightarrow> False)"

definition gave_invitation :: "account_env \<Rightarrow> account_command \<Rightarrow> accounts \<Rightarrow> invitation_row \<Rightarrow> bool" where
  "gave_invitation R c t i =
     (case c of
        DoInviteTenant x \<Rightarrow> (\<exists>actor. sq_uuid (ae_text R) (ti_actor x) = Some actor \<and> has_platform_role t actor)
      | DoInviteMember x \<Rightarrow> (\<exists>actor. sq_uuid (ae_text R) (mi_actor x) = Some actor \<and> has_company_role t actor (iv_tenant i))
      | _ \<Rightarrow> False)"

definition used_up :: "accounts \<Rightarrow> string \<Rightarrow> bool" where
  "used_up t h \<longleftrightarrow> (\<exists>i \<in> set (ac_invites t). iv_hash i = h \<and> \<not> is_pending i)"

lemma cast_uuid_Inr: "cast_uuid Q s = Inr u \<longleftrightarrow> sq_uuid Q s = Some u"
  by (auto simp: cast_uuid_def split: option.splits)

lemma accepted_keeps: "closes f \<Longrightarrow> i \<in> set (map f is) \<Longrightarrow> is_pending i \<Longrightarrow> i \<in> set is"
  using closes_keeps(7) by force

lemma invited_new:
  assumes "invited f v t t'" "i \<in> set (ac_invites t')" "is_pending i" "i \<notin> set (ac_invites t)"
  shows "i = v"
  using assms accepted_keeps [of f i "ac_invites t"] by (auto simp: invited_def)

lemma closed_used: "closes f \<Longrightarrow> used_up t h \<Longrightarrow> \<exists>i \<in> f ` set (ac_invites t). iv_hash i = h \<and> \<not> is_pending i"
  unfolding used_up_def using closes_keeps(2,7) by (metis imageI)

text \<open>What a command that succeeds does: everything the properties below rest on.\<close>

definition step_ok :: "account_env \<Rightarrow> nat \<Rightarrow> account_command \<Rightarrow> accounts \<Rightarrow> accounts \<Rightarrow> bool" where
  "step_ok R n c t t' \<longleftrightarrow> accounts_ok (ae_text R) t' \<and> admins t' = admins t \<and>
     (\<forall>user company r. has_access t' user company r \<longrightarrow> has_access t user company r \<or> granted R n c t t' user company r) \<and>
     (\<forall>user company r. has_access t user company r \<longrightarrow> has_access t' user company r \<or> withdrawn R c t user company) \<and>
     (\<forall>i \<in> set (ac_invites t'). is_pending i \<longrightarrow> i \<in> set (ac_invites t) \<or> gave_invitation R c t i) \<and>
     (\<forall>h. used_up t h \<longrightarrow> used_up t' h)"

lemma quiet_step_ok:
  "accounts_ok (ae_text R) t' \<and> ac_users t' = ac_users t \<and> ac_invites t' = ac_invites t \<Longrightarrow> step_ok R n c t t'"
  by (simp add: step_ok_def admins_def has_access_def used_up_def)

lemma same_invites_step_ok:
  assumes "accounts_ok (ae_text R) t'" "admins t' = admins t" "ac_invites t' = ac_invites t"
    and "\<And>user company r. has_access t' user company r \<Longrightarrow> has_access t user company r \<or> granted R n c t t' user company r"
    and "\<And>user company r. has_access t user company r \<Longrightarrow> has_access t' user company r \<or> withdrawn R c t user company"
  shows "step_ok R n c t t'"
  using assms by (simp add: step_ok_def used_up_def)

lemma invited_step_ok:
  assumes "accounts_ok (ae_text R) t'" "ac_users t' = ac_users t" "invited f v t t'" "gave_invitation R c t v"
  shows "step_ok R n c t t'"
proof -
  have "used_up t' h" if "used_up t h" for h
    using closed_used [OF _ that, of f] assms(3) by (auto simp: invited_def used_up_def)
  moreover have "i \<in> set (ac_invites t) \<or> gave_invitation R c t i" if "i \<in> set (ac_invites t')" "is_pending i" for i
    using invited_new [OF assms(3) that] assms(4) by auto
  ultimately show ?thesis using assms(1,2) by (simp add: step_ok_def admins_def has_access_def)
qed

lemma effect_step:
  assumes ok: "accounts_ok (ae_text R) t" and low: "lower_twice (ae_text R)" and run: "effect R n c t = Inr t'"
  shows "step_ok R n c t t'"
proof (cases c)
  case (DoSaveSession s)
  with run obtain u where "auth_session_create (clock_at (ae_db R) n) u (sr_hash s) (sr_expires s) t = Inr t'"
    by (auto simp: and_then_Inr)
  from session_create_ok [OF this ok] show ?thesis by (rule quiet_step_ok)
next
  case (DoDeleteSession h)
  with run have "t' = t \<or> auth_session_delete h t = Inr t'" by (auto split: if_splits)
  with session_delete_ok [OF _ ok] ok show ?thesis by (intro quiet_step_ok) auto
next
  case (DoCreateAccount e p)
  with run obtain u where "signup_create_account (ae_text R) (clock_at (ae_db R) n) (uuid_at (ae_db R) n 0) (lower_trim R e) p t = Inr (u, t')"
    by (auto simp: map_sum_Inr)
  from signup_ok [OF this ok low] show ?thesis by (intro same_invites_step_ok) (auto simp: has_access_def)
next
  case (DoSetAccess a u i r)
  with run obtain a' u' i' where a: "sq_uuid (ae_text R) a = Some a'" "sq_uuid (ae_text R) u = Some u'"
    and i: "i' = None \<or> (\<exists>k. sq_uuid (ae_text R) (trim_space i) = Some k \<and> i' = Some k)"
    and x: "admin_set_account_access a' u' i' r t = Inr t'"
    by (auto simp: and_then_Inr cast_uuid_Inr map_sum_Inr split: if_splits)
  note ok = access_ok [OF x ok]
  have gain: "has_access t user company x \<or> granted R n c t t' user company x" if "has_access t' user company x" for user company x
    using that ok a i unfolding DoSetAccess has_access_def granted_def
    by (auto simp: set_access_def split: if_splits)
  have loss: "has_access t' user company x \<or> withdrawn R c t user company" if "has_access t user company x" for user company x
    using that ok a unfolding DoSetAccess has_access_def withdrawn_def
    by (auto simp: set_access_def image_iff split: if_splits)
  from ok gain loss show ?thesis by (intro same_invites_step_ok) auto
next
  case (DoRegister a m co ad e)
  with run obtain a' i where "admin_register_tenant (ae_text R) (clock_at (ae_db R) n) (uuid_at (ae_db R) n 0) a' (trim_space m)
      (lower_trim R co) (trim_space ad) (lower_trim R e) t = Inr (i, t')"
    by (auto simp: and_then_Inr map_sum_Inr)
  from register_ok [OF this ok] show ?thesis by (rule quiet_step_ok)
next
  case (DoRemove a i u)
  with run obtain a' i' u' where a: "sq_uuid (ae_text R) a = Some a'" "sq_uuid (ae_text R) i = Some i'" "sq_uuid (ae_text R) u = Some u'"
    and x: "tenant_remove_member a' i' u' t = Inr t'" by (auto simp: and_then_Inr cast_uuid_Inr)
  have actor: "has_company_role t a' i'" using x by (auto simp: tenant_remove_member_def split: if_splits)
  note ok = remove_ok [OF x ok]
  have loss: "has_access t' user company x \<or> withdrawn R c t user company" if "has_access t user company x" for user company x
    using that ok a actor unfolding DoRemove has_access_def withdrawn_def
    by (auto simp: leave_company_def image_iff split: if_splits)
  from ok loss show ?thesis
    by (intro same_invites_step_ok) (auto simp: has_access_def leave_company_def split: if_splits)
next
  case (DoDelete a u)
  with run obtain a' u' where a: "sq_uuid (ae_text R) a = Some a'" "sq_uuid (ae_text R) u = Some u'"
    and x: "admin_delete_account a' u' t = Inr t'" by (auto simp: and_then_Inr cast_uuid_Inr)
  have actor: "has_platform_role t a'" and users: "ac_users t' = filter (\<lambda>v. \<not> (u_id v = u' \<and> is_seat v)) (ac_users t)"
    using x by (auto simp: admin_delete_account_def split: if_splits)
  have loss: "has_access t' user company x \<or> withdrawn R c t user company" if "has_access t user company x" for user company x
    using that users a actor unfolding DoDelete has_access_def withdrawn_def by auto
  from delete_ok [OF x ok] loss show ?thesis by (intro same_invites_step_ok) (auto simp: has_access_def)
next
  case (DoInviteTenant x)
  with run obtain a where a: "sq_uuid (ae_text R) (ti_actor x) = Some a" and "onboarding_create_tenant (ae_text R) (clock_at (ae_db R) n)
      (uuid_at (ae_db R) n 0) (uuid_at (ae_db R) n 1) a
      (ti_tenant_name x) (ti_contact x) (ti_admin_email x) (ti_admin_name x) (ti_hash x) (ti_expires x) t = Inr t'"
    by (auto simp: and_then_Inr cast_uuid_Inr)
  from create_tenant_ok [OF this(2) ok] a show ?thesis
    by (auto simp: DoInviteTenant gave_invitation_def intro: invited_step_ok)
next
  case (DoInviteMember x)
  with run obtain a k where a: "sq_uuid (ae_text R) (mi_actor x) = Some a" and "onboarding_invite_member (ae_text R) (clock_at (ae_db R) n)
      (uuid_at (ae_db R) n 0) a k (mi_email x) (mi_name x) (mi_role x) (mi_hash x) (mi_expires x) t = Inr t'"
    by (auto simp: and_then_Inr cast_uuid_Inr)
  from invite_member_ok [OF this(2) ok] a show ?thesis
    by (auto simp: DoInviteMember gave_invitation_def intro: invited_step_ok)
next
  case (DoAccept h m p)
  let ?now = "clock_at (ae_db R) n"
  from DoAccept run obtain u where "onboarding_accept_invitation (ae_text R) ?now (uuid_at (ae_db R) n 0) h m p t = Inr (u, t')"
    by (auto simp: map_sum_Inr)
  from accept_ok [OF this ok] obtain i where t': "accounts_ok (ae_text R) t'" "admins t' = admins t" "ac_users t' = ac_users t @ [u]"
    and i: "i \<in> set (ac_invites t)" "is_open ?now h i" "u_tenant u = Some (iv_tenant i)" "u_role u = iv_role i" "u_email u = iv_email i"
      "ac_invites t' = map (use_invite ?now (iv_id i)) (ac_invites t)" by blast
  have "used_up t' k" if "used_up t k" for k
    using closed_used [OF closing(3) that] unfolding used_up_def i(6) by simp
  moreover have "j \<in> set (ac_invites t)" if "j \<in> set (ac_invites t')" "is_pending j" for j
    using accepted_keeps [OF closing(3) that [unfolded i(6)]] .
  moreover have "u_id u \<notin> u_id ` set (ac_users t)"
    using t'(1,3) by (simp add: accounts_ok_def users_ok_def)
  then have "has_access t user company r \<or> granted R n c t t' user company r" if "has_access t' user company r" for user company r
    using that i(1-5) t'(3) unfolding has_access_def DoAccept granted_def account_command.case by auto
  moreover have "has_access t' user company r" if "has_access t user company r" for user company r
    using that t'(3) by (auto simp: has_access_def)
  ultimately show ?thesis using t'(1,2) by (simp add: step_ok_def)
qed

text \<open>A command, successful or not.\<close>

lemma exec_step:
  assumes "accounts_ok (ae_text R) (rows d)" "lower_twice (ae_text R)"
  shows "step_ok R (tick d) c (rows d) (rows (snd (exec R c d)))"
proof -
  obtain r d' where e: "exec R c d = (r, d')" by fastforce
  show ?thesis
  proof (cases r)
    case (Inl x)
    with exec_effect [OF e] e assms(1) show ?thesis by (intro quiet_step_ok) simp
  next
    case (Inr u)
    with exec_effect [OF e] have "effect R (tick d) c (rows d) = Inr (rows d')" by simp
    from effect_step [OF assms this] e show ?thesis by simp
  qed
qed

lemma exec_ok:
  assumes "accounts_ok (ae_text R) (rows d)" "lower_twice (ae_text R)"
  shows "accounts_ok (ae_text R) (rows (snd (exec R c d))) \<and> admins (rows (snd (exec R c d))) = admins (rows d)"
  using exec_step [OF assms] by (simp add: step_ok_def)

definition account_run :: "account_env \<Rightarrow> account_command list \<Rightarrow> accounts db \<Rightarrow> accounts db" where
  "account_run R cs d = run_commands (\<lambda>c d. snd (exec R c d)) cs d"

lemma run_ok:
  assumes "accounts_ok (ae_text R) (rows d)" "lower_twice (ae_text R)"
  shows "accounts_ok (ae_text R) (rows (account_run R cs d))"
  unfolding account_run_def using assms(1)
proof (induction cs arbitrary: d)
  case (Cons c cs)
  with exec_ok [OF Cons.prems assms(2), of c] show ?case by simp
qed simp

text \<open>
  C17: Over any run of the repository's operations, with any faults of the database: accounts,
  sessions, invitations and companies stay consistent, no address has two accounts, whatever its
  case, and the platform administrators are exactly those there were: none is made, changed or
  deleted by way of the service.
\<close>

theorem platform_admins_fixed:
  assumes "accounts_ok (ae_text R) (rows d)" "lower_twice (ae_text R)"
  shows "accounts_ok (ae_text R) (rows (account_run R cs d)) \<and> admins (rows (account_run R cs d)) = admins (rows d)"
  using assms(1)
proof (induction cs arbitrary: d)
  case (Cons c cs)
  note step = exec_ok [OF Cons.prems assms(2), of c]
  from Cons.IH [OF step [THEN conjunct1]] step show ?case by (simp add: account_run_def)
qed (simp add: account_run_def)

section \<open>Access to a company\<close>

text \<open>
  C18: Access to a company comes and goes only by those who may decide it, and only for the account they
  name. An account gets a company or another role in it only when a platform administrator assigns
  exactly this company and role to exactly this account, or when the account is new and comes from
  accepting an invitation that is open and names this company, this role and the address of the
  account; it loses access only when a platform administrator sets its access or deletes it, or an
  administrator of the company removes it. An invitation is made only by a platform administrator or
  by an administrator of the company it is for.
\<close>

theorem company_access_is_granted:
  assumes "accounts_ok (ae_text R) (rows d)" "lower_twice (ae_text R)" "d1 = account_run R cs d" "exec R c d1 = (res, d2)"
  shows "(has_access (rows d2) user company r \<and> \<not> has_access (rows d1) user company r \<longrightarrow>
      granted R (tick d1) c (rows d1) (rows d2) user company r) \<and>
    (has_access (rows d1) user company r \<and> \<not> has_access (rows d2) user company r \<longrightarrow> withdrawn R c (rows d1) user company) \<and>
    (i \<in> set (ac_invites (rows d2)) \<and> is_pending i \<and> i \<notin> set (ac_invites (rows d1)) \<longrightarrow> gave_invitation R c (rows d1) i)"
proof -
  have "accounts_ok (ae_text R) (rows d1)" unfolding assms(3) by (rule run_ok [OF assms(1,2)])
  from exec_step [OF this assms(2), of c] assms(4) have step: "step_ok R (tick d1) c (rows d1) (rows d2)" by simp
  show ?thesis using step unfolding step_ok_def by blast
qed

section \<open>Invitations are used once\<close>

definition accepted_by :: "account_env \<Rightarrow> account_command \<Rightarrow> accounts db \<Rightarrow> string option" where
  "accepted_by R c d = (case c of DoAccept h m p \<Rightarrow> if fst (exec R c d) = Inr () then Some h else None | _ \<Rightarrow> None)"

lemma exec_used:
  assumes "accounts_ok (ae_text R) (rows d)" "lower_twice (ae_text R)" "used_up (rows d) h"
  shows "used_up (rows (snd (exec R c d))) h"
  using exec_step [OF assms(1,2)] assms(3) by (simp add: step_ok_def)

lemma accepted_uses:
  assumes ok: "accounts_ok (ae_text R) (rows d)" and a: "accepted_by R c d = Some h"
  shows "\<not> used_up (rows d) h \<and> used_up (rows (snd (exec R c d))) h \<and>
    (\<exists>i \<in> set (ac_invites (rows d)). iv_hash i = h \<and> clock_at (ae_db R) (tick d) < iv_expires i)"
proof -
  obtain m p where c: "c = DoAccept h m p" and r: "fst (exec R c d) = Inr ()"
    using a by (auto simp: accepted_by_def split: account_command.splits if_splits)
  obtain d' where e: "exec R c d = (Inr (), d')" using r by (metis prod.collapse)
  from exec_effect [OF e] c obtain u where
    "onboarding_accept_invitation (ae_text R) (clock_at (ae_db R) (tick d)) (uuid_at (ae_db R) (tick d) 0) h m p (rows d) = Inr (u, rows d')"
    by (auto simp: map_sum_Inr)
  from accept_ok [OF this ok] obtain i where i: "i \<in> set (ac_invites (rows d))" "is_open (clock_at (ae_db R) (tick d)) h i"
    "ac_invites (rows d') = map (use_invite (clock_at (ae_db R) (tick d)) (iv_id i)) (ac_invites (rows d))" by blast
  have inj: "inj_on iv_hash (set (ac_invites (rows d)))" using ok by (simp add: accounts_ok_def invites_ok_def distinct_map)
  have "\<not> used_up (rows d) h" using i(1,2) inj unfolding used_up_def is_open_def inj_on_def by metis
  moreover have "used_up (rows d') h" unfolding used_up_def i(3)
  proof (rule bexI)
    let ?i = "use_invite (clock_at (ae_db R) (tick d)) (iv_id i) i"
    show "iv_hash ?i = h \<and> \<not> is_pending ?i" using i(2) by (simp add: is_open_def use_invite_def is_pending_def)
    show "?i \<in> set (map (use_invite (clock_at (ae_db R) (tick d)) (iv_id i)) (ac_invites (rows d)))" using i(1) by simp
  qed
  ultimately show ?thesis using i(1,2) e by (auto simp: is_open_def)
qed

interpretation invite_uses: claim_counter "\<lambda>c d. snd (exec R c d)" "accepted_by R"
  "\<lambda>d. accounts_ok (ae_text R) (rows d) \<and> lower_twice (ae_text R)" "\<lambda>d h. if used_up (rows d) h then 1 else 0" 1
  for R :: account_env
proof unfold_locales
  fix d :: "accounts db" and c h
  assume ok: "accounts_ok (ae_text R) (rows d) \<and> lower_twice (ae_text R)"
  then show "accounts_ok (ae_text R) (rows (snd (exec R c d))) \<and> lower_twice (ae_text R)" using exec_ok by blast
  show "0 \<le> (if used_up (rows d) h then 1 else 0 :: int) \<and> (if used_up (rows d) h then 1 else 0 :: int) \<le> 1" by simp
  show "(if used_up (rows d) h then 1 else 0 :: int) \<le> (if used_up (rows (snd (exec R c d))) h then 1 else 0)"
    using exec_used ok by auto
  show "(if used_up (rows (snd (exec R c d))) h then 1 else 0 :: int) = (if used_up (rows d) h then 1 else 0) + 1"
    if "accepted_by R c d = Some h"
    using accepted_uses [OF ok [THEN conjunct1] that] by simp
qed

text \<open>
  C19: An invitation is used once: over any run of the repository's operations with any faults at most
  one acceptance of a token succeeds, and none at all when its invitation was already used or closed.
\<close>

theorem invitation_used_once:
  assumes "accounts_ok (ae_text R) (rows d)" "lower_twice (ae_text R)"
  shows "int (claims_in (\<lambda>c d. snd (exec R c d)) (accepted_by R) h cs d) \<le> (if used_up (rows d) h then 0 else 1)"
  using invite_uses.claims_bounded [of R d h cs] assms by (auto split: if_splits)

section \<open>A small service\<close>

definition small_env :: account_env where
  "small_env =
     \<lparr>ae_text = \<lparr>sq_lower = (\<lambda>s. s), sq_space = (\<lambda>r. False), sq_uuid = Some\<rparr>, ae_case = (\<lambda>r. r),
      ae_db = \<lparr>fault = (\<lambda>n. None), clock_at = (\<lambda>n. 1000), uuid_at = (\<lambda>n i. ''new''), db_set = True\<rparr>\<rparr>"

definition small_accounts :: accounts where
  "small_accounts =
     \<lparr>ac_users =
        [\<lparr>u_id = ''boss'', u_tenant = None, u_email = ''boss'', u_display = [], u_password = [], u_role = PlatformAdmin, u_created = 1\<rparr>,
         \<lparr>u_id = ''ann'', u_tenant = None, u_email = ''ann@x'', u_display = [], u_password = [], u_role = Member, u_created = 1\<rparr>],
      ac_sessions = [], ac_invites = [],
      ac_companies = [\<lparr>co_id = ''co'', co_name = ''Co'', co_contact = ''co@x'', co_admin = [], co_admin_email = [], co_created = 1\<rparr>],
      ac_schedules = []\<rparr>"

definition small_db :: "accounts db" where
  "small_db = \<lparr>rows = small_accounts, tick = 0\<rparr>"

lemma small_facts:
  "accounts_ok (ae_text small_env) (rows small_db)" "lower_twice (ae_text small_env)"
  by (simp_all add: small_env_def small_db_def small_accounts_def accounts_ok_def users_ok_def sessions_ok_def invites_ok_def
      companies_ok_def addresses_ok_def company_exists_def role_scope_def lower_twice_def)

definition give_ann :: account_command where
  "give_ann = DoSetAccess ''boss'' ''ann'' ''co'' TenantAdmin"

theorem platform_admins_fixed_witness:
  "map u_id (admins (rows (account_run small_env [give_ann, DoDelete ''ann'' ''boss'', DoAccept [] [] []] small_db))) = [''boss'']"
proof -
  have "admins (rows small_db) = [hd (ac_users small_accounts)]" "u_id (hd (ac_users small_accounts)) = ''boss''"
    by (simp_all add: small_db_def small_accounts_def admins_def)
  with platform_admins_fixed [OF small_facts] show ?thesis by simp
qed

definition ann_in_company :: accounts where
  "ann_in_company = small_accounts\<lparr>ac_users := map (set_access ''ann'' (Some ''co'') TenantAdmin) (ac_users small_accounts)\<rparr>"

lemma ann_gets_access:
  "exec small_env give_ann small_db = (Inr (), \<lparr>rows = ann_in_company, tick = 1\<rparr>)"
  "has_access ann_in_company ''ann'' ''co'' TenantAdmin"
  "\<not> has_access (rows small_db) ''ann'' ''co'' TenantAdmin"
proof -
  have names: "trim_space ''boss'' = ''boss''" "trim_space ''ann'' = ''ann''" "trim_space ''co'' = ''co''"
    by (rule trim_space_visible; simp add: visible_def byte_def)+
  have "admin_set_account_access ''boss'' ''ann'' (Some ''co'') TenantAdmin small_accounts = Inr ann_in_company"
    by (simp add: admin_set_account_access_def ann_in_company_def small_accounts_def has_platform_role_def company_exists_def
        TenantAdmin_def PlatformAdmin_def Member_def btrim_def is_blank_def is_seat_def Let_def)
  then show "exec small_env give_ann small_db = (Inr (), \<lparr>rows = ann_in_company, tick = 1\<rparr>)"
    by (simp add: give_ann_def SetAccountAccess_def names small_env_def small_db_def map_error_def change_def sql_stmt_def
        cast_uuid_def and_then_def)
qed (simp_all add: has_access_def ann_in_company_def small_db_def small_accounts_def set_access_def is_seat_def)

theorem company_access_is_granted_witness:
  "granted small_env 0 give_ann (rows small_db) ann_in_company ''ann'' ''co'' TenantAdmin"
proof -
  have "small_db = account_run small_env [] small_db" "tick small_db = 0" by (simp_all add: account_run_def small_db_def)
  with company_access_is_granted [OF small_facts _ ann_gets_access(1), of "[]"] ann_gets_access(2,3) show ?thesis by simp
qed

theorem invitation_used_once_witness:
  "claims_in (\<lambda>c d. snd (exec small_env c d)) (accepted_by small_env) ''t'' [DoAccept ''t'' ''Ann'' ''p'', DoAccept ''t'' ''Bob'' ''q''] small_db \<le> 1"
  using invitation_used_once [OF small_facts, of "''t''" "[DoAccept ''t'' ''Ann'' ''p'', DoAccept ''t'' ''Bob'' ''q'']"]
  by (auto split: if_splits)

end
