(* ===== verification/Auth_Handler.thy ===== *)
theory Auth_Handler
  imports Accounts
begin

text \<open>
  internal/app/auth_handler.go: the handler in front of the web surface. It answers the login, signup
  and logout requests itself, and passes every other request on only with the account of its
  session. The state \<open>'s\<close> of the environment holds the repository, the clock and the random bytes; a
  response is its headers, its cookies and either a status with a text, a redirect, or the request
  passed on with what its context carries.
\<close>

section \<open>Requests and responses\<close>

text \<open>\<open>rq_form\<close> is what \<open>ParseForm\<close> gives for a body of at most 1 MiB, or an error.\<close>

record http_request =
  rq_method :: string
  rq_path :: string
  rq_cookies :: "(string \<times> string) list"
  rq_form :: "(string \<times> string) list option"

record cookie =
  ck_name :: string
  ck_value :: string
  ck_path :: string
  ck_expires :: time
  ck_max_age :: int
  ck_secure :: bool

text \<open>Every cookie is HttpOnly and SameSite=Lax.\<close>

datatype web_outcome =
    Failed int string
  | Redirected string
  | Passed "session_record option" "string option"

record web_response =
  wr_headers :: "(string \<times> string) list"
  wr_cookies :: "cookie list"
  wr_outcome :: web_outcome

definition respond :: "web_outcome \<Rightarrow> web_response" where
  "respond x = \<lparr>wr_headers = [], wr_cookies = [], wr_outcome = x\<rparr>"

definition with_header :: "string \<Rightarrow> string \<Rightarrow> web_response \<Rightarrow> web_response" where
  "with_header k v r = r\<lparr>wr_headers := (k, v) # wr_headers r\<rparr>"

definition with_cookie :: "cookie \<Rightarrow> web_response \<Rightarrow> web_response" where
  "with_cookie c r = r\<lparr>wr_cookies := c # wr_cookies r\<rparr>"

definition form_get :: "(string \<times> string) list \<Rightarrow> string \<Rightarrow> string" where
  "form_get form k = (case map_of form k of None \<Rightarrow> [] | Some v \<Rightarrow> v)"

definition request_cookie :: "http_request \<Rightarrow> string \<Rightarrow> string option" where
  "request_cookie rq n = map_of (rq_cookies rq) n"

definition SessionCookieName :: string where "SessionCookieName = ''namo_session''"
definition LoginCSRFCookieName :: string where "LoginCSRFCookieName = ''namo_login_csrf''"
definition SignupCSRFCookieName :: string where "SignupCSRFCookieName = ''namo_signup_csrf''"
definition InviteCSRFCookieName :: string where "InviteCSRFCookieName = ''namo_invite_csrf''"

definition dummyLoginPasswordHash :: string where
  "dummyLoginPasswordHash = ''$2a$10$C6UzMDM.H6dfI/f/IKcEe.ko4ZJzV3BLH5Kf.Z8LFehYKmX3G/6y''"

section \<open>Texts\<close>

definition text_session_error :: string where
  "text_session_error =
     [CHR 0xEC, CHR 0x84, CHR 0xB8, CHR 0xEC, CHR 0x85, CHR 0x98, CHR 0xEC, CHR 0x9D, CHR 0x84, CHR 0x20, CHR 0xED,
      CHR 0x99, CHR 0x95, CHR 0xEC, CHR 0x9D, CHR 0xB8, CHR 0xED, CHR 0x95, CHR 0x98, CHR 0xEC, CHR 0xA7, CHR 0x80,
      CHR 0x20, CHR 0xEB, CHR 0xAA, CHR 0xBB, CHR 0xED, CHR 0x96, CHR 0x88, CHR 0xEC, CHR 0x8A, CHR 0xB5, CHR 0xEB,
      CHR 0x8B, CHR 0x88, CHR 0xEB, CHR 0x8B, CHR 0xA4, CHR 0x2E, CHR 0x20, CHR 0xEC, CHR 0x9E, CHR 0xA0, CHR 0xEC,
      CHR 0x8B, CHR 0x9C, CHR 0x20, CHR 0xED, CHR 0x9B, CHR 0x84, CHR 0x20, CHR 0xEB, CHR 0x8B, CHR 0xA4, CHR 0xEC,
      CHR 0x8B, CHR 0x9C, CHR 0x20, CHR 0xEC, CHR 0x8B, CHR 0x9C, CHR 0xEB, CHR 0x8F, CHR 0x84, CHR 0xED, CHR 0x95,
      CHR 0xB4, CHR 0x20, CHR 0xEC, CHR 0xA3, CHR 0xBC, CHR 0xEC, CHR 0x84, CHR 0xB8, CHR 0xEC, CHR 0x9A, CHR 0x94,
      CHR 0x2E]"

definition text_no_access :: string where
  "text_no_access =
     [CHR 0xEC, CHR 0xA0, CHR 0x91, CHR 0xEA, CHR 0xB7, CHR 0xBC, CHR 0x20, CHR 0xEA, CHR 0xB6, CHR 0x8C, CHR 0xED,
      CHR 0x95, CHR 0x9C, CHR 0xEC, CHR 0x9D, CHR 0xB4, CHR 0x20, CHR 0xEC, CHR 0x97, CHR 0x86, CHR 0xEC, CHR 0x8A,
      CHR 0xB5, CHR 0xEB, CHR 0x8B, CHR 0x88, CHR 0xEB, CHR 0x8B, CHR 0xA4, CHR 0x2E]"

definition text_bad_request :: string where
  "text_bad_request =
     [CHR 0xEC, CHR 0x9A, CHR 0x94, CHR 0xEC, CHR 0xB2, CHR 0xAD, CHR 0xEC, CHR 0x9D, CHR 0x84, CHR 0x20, CHR 0xED,
      CHR 0x99, CHR 0x95, CHR 0xEC, CHR 0x9D, CHR 0xB8, CHR 0xED, CHR 0x95, CHR 0xA0, CHR 0x20, CHR 0xEC, CHR 0x88,
      CHR 0x98, CHR 0x20, CHR 0xEC, CHR 0x97, CHR 0x86, CHR 0xEC, CHR 0x8A, CHR 0xB5, CHR 0xEB, CHR 0x8B, CHR 0x88,
      CHR 0xEB, CHR 0x8B, CHR 0xA4, CHR 0x2E]"

definition text_logout_error :: string where
  "text_logout_error =
     [CHR 0xEB, CHR 0xA1, CHR 0x9C, CHR 0xEA, CHR 0xB7, CHR 0xB8, CHR 0xEC, CHR 0x95, CHR 0x84, CHR 0xEC, CHR 0x9B,
      CHR 0x83, CHR 0xEC, CHR 0x9D, CHR 0x84, CHR 0x20, CHR 0xEC, CHR 0x99, CHR 0x84, CHR 0xEB, CHR 0xA3, CHR 0x8C,
      CHR 0xED, CHR 0x95, CHR 0x98, CHR 0xEC, CHR 0xA7, CHR 0x80, CHR 0x20, CHR 0xEB, CHR 0xAA, CHR 0xBB, CHR 0xED,
      CHR 0x96, CHR 0x88, CHR 0xEC, CHR 0x8A, CHR 0xB5, CHR 0xEB, CHR 0x8B, CHR 0x88, CHR 0xEB, CHR 0x8B, CHR 0xA4,
      CHR 0x2E, CHR 0x20, CHR 0xEC, CHR 0x9E, CHR 0xA0, CHR 0xEC, CHR 0x8B, CHR 0x9C, CHR 0x20, CHR 0xED, CHR 0x9B,
      CHR 0x84, CHR 0x20, CHR 0xEB, CHR 0x8B, CHR 0xA4, CHR 0xEC, CHR 0x8B, CHR 0x9C, CHR 0x20, CHR 0xEC, CHR 0x8B,
      CHR 0x9C, CHR 0xEB, CHR 0x8F, CHR 0x84, CHR 0xED, CHR 0x95, CHR 0xB4, CHR 0x20, CHR 0xEC, CHR 0xA3, CHR 0xBC,
      CHR 0xEC, CHR 0x84, CHR 0xB8, CHR 0xEC, CHR 0x9A, CHR 0x94, CHR 0x2E]"

definition text_login_page :: string where
  "text_login_page =
     [CHR 0xEB, CHR 0xA1, CHR 0x9C, CHR 0xEA, CHR 0xB7, CHR 0xB8, CHR 0xEC, CHR 0x9D, CHR 0xB8, CHR 0x20, CHR 0xED,
      CHR 0x99, CHR 0x94, CHR 0xEB, CHR 0xA9, CHR 0xB4, CHR 0xEC, CHR 0x9D, CHR 0x84, CHR 0x20, CHR 0xEC, CHR 0xA4,
      CHR 0x80, CHR 0xEB, CHR 0xB9, CHR 0x84, CHR 0xED, CHR 0x95, CHR 0x98, CHR 0xEC, CHR 0xA7, CHR 0x80, CHR 0x20,
      CHR 0xEB, CHR 0xAA, CHR 0xBB, CHR 0xED, CHR 0x96, CHR 0x88, CHR 0xEC, CHR 0x8A, CHR 0xB5, CHR 0xEB, CHR 0x8B,
      CHR 0x88, CHR 0xEB, CHR 0x8B, CHR 0xA4, CHR 0x2E]"

definition text_invite_form :: string where
  "text_invite_form =
     [CHR 0xEC, CHR 0xB4, CHR 0x88, CHR 0xEB, CHR 0x8C, CHR 0x80, CHR 0x20, CHR 0xEC, CHR 0xA0, CHR 0x95, CHR 0xEB,
      CHR 0xB3, CHR 0xB4, CHR 0xEB, CHR 0xA5, CHR 0xBC, CHR 0x20, CHR 0xED, CHR 0x99, CHR 0x95, CHR 0xEC, CHR 0x9D,
      CHR 0xB8, CHR 0xED, CHR 0x95, CHR 0xB4, CHR 0x20, CHR 0xEC, CHR 0xA3, CHR 0xBC, CHR 0xEC, CHR 0x84, CHR 0xB8,
      CHR 0xEC, CHR 0x9A, CHR 0x94, CHR 0x2E]"

definition text_login_form :: string where
  "text_login_form =
     [CHR 0xEB, CHR 0xA1, CHR 0x9C, CHR 0xEA, CHR 0xB7, CHR 0xB8, CHR 0xEC, CHR 0x9D, CHR 0xB8, CHR 0x20, CHR 0xEC,
      CHR 0xA0, CHR 0x95, CHR 0xEB, CHR 0xB3, CHR 0xB4, CHR 0xEB, CHR 0xA5, CHR 0xBC, CHR 0x20, CHR 0xED, CHR 0x99,
      CHR 0x95, CHR 0xEC, CHR 0x9D, CHR 0xB8, CHR 0xED, CHR 0x95, CHR 0xB4, CHR 0x20, CHR 0xEC, CHR 0xA3, CHR 0xBC,
      CHR 0xEC, CHR 0x84, CHR 0xB8, CHR 0xEC, CHR 0x9A, CHR 0x94, CHR 0x2E]"

definition text_bad_login :: string where
  "text_bad_login =
     [CHR 0xEC, CHR 0x9D, CHR 0xB4, CHR 0xEB, CHR 0xA9, CHR 0x94, CHR 0xEC, CHR 0x9D, CHR 0xBC, CHR 0x20, CHR 0xEB,
      CHR 0x98, CHR 0x90, CHR 0xEB, CHR 0x8A, CHR 0x94, CHR 0x20, CHR 0xEC, CHR 0x95, CHR 0x84, CHR 0xEC, CHR 0x9D,
      CHR 0xB4, CHR 0xEB, CHR 0x94, CHR 0x94, CHR 0xEC, CHR 0x99, CHR 0x80, CHR 0x20, CHR 0xEB, CHR 0xB9, CHR 0x84,
      CHR 0xEB, CHR 0xB0, CHR 0x80, CHR 0xEB, CHR 0xB2, CHR 0x88, CHR 0xED, CHR 0x98, CHR 0xB8, CHR 0xEA, CHR 0xB0,
      CHR 0x80, CHR 0x20, CHR 0xEC, CHR 0x98, CHR 0xAC, CHR 0xEB, CHR 0xB0, CHR 0x94, CHR 0xEB, CHR 0xA5, CHR 0xB4,
      CHR 0xEC, CHR 0xA7, CHR 0x80, CHR 0x20, CHR 0xEC, CHR 0x95, CHR 0x8A, CHR 0xEC, CHR 0x8A, CHR 0xB5, CHR 0xEB,
      CHR 0x8B, CHR 0x88, CHR 0xEB, CHR 0x8B, CHR 0xA4, CHR 0x2E]"

definition text_signup_form :: string where
  "text_signup_form =
     [CHR 0xEA, CHR 0xB0, CHR 0x80, CHR 0xEC, CHR 0x9E, CHR 0x85, CHR 0x20, CHR 0xEC, CHR 0xA0, CHR 0x95, CHR 0xEB,
      CHR 0xB3, CHR 0xB4, CHR 0xEB, CHR 0xA5, CHR 0xBC, CHR 0x20, CHR 0xED, CHR 0x99, CHR 0x95, CHR 0xEC, CHR 0x9D,
      CHR 0xB8, CHR 0xED, CHR 0x95, CHR 0xB4, CHR 0x20, CHR 0xEC, CHR 0xA3, CHR 0xBC, CHR 0xEC, CHR 0x84, CHR 0xB8,
      CHR 0xEC, CHR 0x9A, CHR 0x94, CHR 0x2E]"

definition text_bad_email :: string where
  "text_bad_email =
     [CHR 0xEC, CHR 0x9D, CHR 0xB4, CHR 0xEB, CHR 0xA9, CHR 0x94, CHR 0xEC, CHR 0x9D, CHR 0xBC, CHR 0x20, CHR 0xEC,
      CHR 0xA3, CHR 0xBC, CHR 0xEC, CHR 0x86, CHR 0x8C, CHR 0xEB, CHR 0xA5, CHR 0xBC, CHR 0x20, CHR 0xED, CHR 0x99,
      CHR 0x95, CHR 0xEC, CHR 0x9D, CHR 0xB8, CHR 0xED, CHR 0x95, CHR 0xB4, CHR 0x20, CHR 0xEC, CHR 0xA3, CHR 0xBC,
      CHR 0xEC, CHR 0x84, CHR 0xB8, CHR 0xEC, CHR 0x9A, CHR 0x94, CHR 0x2E]"

definition text_bad_password :: string where
  "text_bad_password =
     [CHR 0xEB, CHR 0xB9, CHR 0x84, CHR 0xEB, CHR 0xB0, CHR 0x80, CHR 0xEB, CHR 0xB2, CHR 0x88, CHR 0xED, CHR 0x98,
      CHR 0xB8, CHR 0xEB, CHR 0x8A, CHR 0x94, CHR 0x20, CHR 0x55, CHR 0x54, CHR 0x46, CHR 0x2D, CHR 0x38, CHR 0x20,
      CHR 0xEA, CHR 0xB8, CHR 0xB0, CHR 0xEC, CHR 0xA4, CHR 0x80, CHR 0x20, CHR 0x31, CHR 0x32, CHR 0x7E, CHR 0x37,
      CHR 0x32, CHR 0xEB, CHR 0xB0, CHR 0x94, CHR 0xEC, CHR 0x9D, CHR 0xB4, CHR 0xED, CHR 0x8A, CHR 0xB8, CHR 0xEB,
      CHR 0xA1, CHR 0x9C, CHR 0x20, CHR 0xEC, CHR 0x9E, CHR 0x85, CHR 0xEB, CHR 0xA0, CHR 0xA5, CHR 0xED, CHR 0x95,
      CHR 0xB4, CHR 0x20, CHR 0xEC, CHR 0xA3, CHR 0xBC, CHR 0xEC, CHR 0x84, CHR 0xB8, CHR 0xEC, CHR 0x9A, CHR 0x94,
      CHR 0x2E]"

definition text_bad_confirm :: string where
  "text_bad_confirm =
     [CHR 0xEB, CHR 0xB9, CHR 0x84, CHR 0xEB, CHR 0xB0, CHR 0x80, CHR 0xEB, CHR 0xB2, CHR 0x88, CHR 0xED, CHR 0x98,
      CHR 0xB8, CHR 0x20, CHR 0xED, CHR 0x99, CHR 0x95, CHR 0xEC, CHR 0x9D, CHR 0xB8, CHR 0xEC, CHR 0x9D, CHR 0xB4,
      CHR 0x20, CHR 0xEC, CHR 0x9D, CHR 0xBC, CHR 0xEC, CHR 0xB9, CHR 0x98, CHR 0xED, CHR 0x95, CHR 0x98, CHR 0xEC,
      CHR 0xA7, CHR 0x80, CHR 0x20, CHR 0xEC, CHR 0x95, CHR 0x8A, CHR 0xEC, CHR 0x8A, CHR 0xB5, CHR 0xEB, CHR 0x8B,
      CHR 0x88, CHR 0xEB, CHR 0x8B, CHR 0xA4, CHR 0x2E]"

definition text_signup_error :: string where
  "text_signup_error =
     [CHR 0xEA, CHR 0xB0, CHR 0x80, CHR 0xEC, CHR 0x9E, CHR 0x85, CHR 0xEC, CHR 0x9D, CHR 0x84, CHR 0x20, CHR 0xEC,
      CHR 0x99, CHR 0x84, CHR 0xEB, CHR 0xA3, CHR 0x8C, CHR 0xED, CHR 0x95, CHR 0x98, CHR 0xEC, CHR 0xA7, CHR 0x80,
      CHR 0x20, CHR 0xEB, CHR 0xAA, CHR 0xBB, CHR 0xED, CHR 0x96, CHR 0x88, CHR 0xEC, CHR 0x8A, CHR 0xB5, CHR 0xEB,
      CHR 0x8B, CHR 0x88, CHR 0xEB, CHR 0x8B, CHR 0xA4, CHR 0x2E]"

definition text_registered :: string where
  "text_registered =
     [CHR 0xEC, CHR 0x9D, CHR 0xB4, CHR 0xEB, CHR 0xAF, CHR 0xB8, CHR 0x20, CHR 0xEB, CHR 0x93, CHR 0xB1, CHR 0xEB,
      CHR 0xA1, CHR 0x9D, CHR 0xEB, CHR 0x90, CHR 0x9C, CHR 0x20, CHR 0xEC, CHR 0x9D, CHR 0xB4, CHR 0xEB, CHR 0xA9,
      CHR 0x94, CHR 0xEC, CHR 0x9D, CHR 0xBC, CHR 0xEC, CHR 0x9E, CHR 0x85, CHR 0xEB, CHR 0x8B, CHR 0x88, CHR 0xEB,
      CHR 0x8B, CHR 0xA4, CHR 0x2E, CHR 0x20, CHR 0xEB, CHR 0xA1, CHR 0x9C, CHR 0xEA, CHR 0xB7, CHR 0xB8, CHR 0xEC,
      CHR 0x9D, CHR 0xB8, CHR 0x20, CHR 0xED, CHR 0x99, CHR 0x94, CHR 0xEB, CHR 0xA9, CHR 0xB4, CHR 0xEC, CHR 0x9D,
      CHR 0x84, CHR 0x20, CHR 0xEC, CHR 0x9D, CHR 0xB4, CHR 0xEC, CHR 0x9A, CHR 0xA9, CHR 0xED, CHR 0x95, CHR 0xB4,
      CHR 0x20, CHR 0xEC, CHR 0xA3, CHR 0xBC, CHR 0xEC, CHR 0x84, CHR 0xB8, CHR 0xEC, CHR 0x9A, CHR 0x94, CHR 0x2E]"

definition text_invited :: string where
  "text_invited =
     [CHR 0xEC, CHR 0x9D, CHR 0xB4, CHR 0x20, CHR 0xEC, CHR 0x9D, CHR 0xB4, CHR 0xEB, CHR 0xA9, CHR 0x94, CHR 0xEC,
      CHR 0x9D, CHR 0xBC, CHR 0xEC, CHR 0x97, CHR 0x90, CHR 0xEB, CHR 0x8A, CHR 0x94, CHR 0x20, CHR 0xEC, CHR 0xB4,
      CHR 0x88, CHR 0xEB, CHR 0x8C, CHR 0x80, CHR 0xEA, CHR 0xB0, CHR 0x80, CHR 0x20, CHR 0xEC, CHR 0xA7, CHR 0x84,
      CHR 0xED, CHR 0x96, CHR 0x89, CHR 0x20, CHR 0xEC, CHR 0xA4, CHR 0x91, CHR 0xEC, CHR 0x9E, CHR 0x85, CHR 0xEB,
      CHR 0x8B, CHR 0x88, CHR 0xEB, CHR 0x8B, CHR 0xA4, CHR 0x2E, CHR 0x20, CHR 0xEC, CHR 0xB4, CHR 0x88, CHR 0xEB,
      CHR 0x8C, CHR 0x80, CHR 0x20, CHR 0xEB, CHR 0xA9, CHR 0x94, CHR 0xEC, CHR 0x9D, CHR 0xBC, CHR 0xEC, CHR 0x9D,
      CHR 0x98, CHR 0x20, CHR 0xEB, CHR 0xA7, CHR 0x81, CHR 0xED, CHR 0x81, CHR 0xAC, CHR 0xEB, CHR 0xA1, CHR 0x9C,
      CHR 0x20, CHR 0xEA, CHR 0xB3, CHR 0x84, CHR 0xEC, CHR 0xA0, CHR 0x95, CHR 0xEC, CHR 0x9D, CHR 0x84, CHR 0x20,
      CHR 0xEB, CHR 0xA7, CHR 0x8C, CHR 0xEB, CHR 0x93, CHR 0xA4, CHR 0xEC, CHR 0x96, CHR 0xB4, CHR 0x20, CHR 0xEC,
      CHR 0xA3, CHR 0xBC, CHR 0xEC, CHR 0x84, CHR 0xB8, CHR 0xEC, CHR 0x9A, CHR 0x94, CHR 0x2E]"

definition text_login_error :: string where
  "text_login_error =
     [CHR 0xEB, CHR 0xA1, CHR 0x9C, CHR 0xEA, CHR 0xB7, CHR 0xB8, CHR 0xEC, CHR 0x9D, CHR 0xB8, CHR 0xEC, CHR 0x9D,
      CHR 0x84, CHR 0x20, CHR 0xEC, CHR 0x8B, CHR 0x9C, CHR 0xEC, CHR 0x9E, CHR 0x91, CHR 0xED, CHR 0x95, CHR 0x98,
      CHR 0xEC, CHR 0xA7, CHR 0x80, CHR 0x20, CHR 0xEB, CHR 0xAA, CHR 0xBB, CHR 0xED, CHR 0x96, CHR 0x88, CHR 0xEC,
      CHR 0x8A, CHR 0xB5, CHR 0xEB, CHR 0x8B, CHR 0x88, CHR 0xEB, CHR 0x8B, CHR 0xA4, CHR 0x2E]"

definition method_not_allowed :: web_outcome where
  "method_not_allowed = Failed 405 ''Method Not Allowed''"

section \<open>The environment\<close>

record 's auth_env =
  au_key :: string
  au_secure :: bool
  au_sha :: "string \<Rightarrow> string"
  au_mac :: "string \<Rightarrow> string \<Rightarrow> string"
  au_lower :: "nat \<Rightarrow> nat"
  au_address :: "string \<Rightarrow> string option"
  au_fold_eq :: "string \<Rightarrow> string \<Rightarrow> bool"
  au_now :: "'s \<Rightarrow> time"
  au_random :: "'s \<Rightarrow> string res \<times> 's"
  au_check :: "string \<Rightarrow> string \<Rightarrow> 's \<Rightarrow> bool \<times> 's"
  au_hash_password :: "string \<Rightarrow> 's \<Rightarrow> string res \<times> 's"
  au_account :: "string \<Rightarrow> 's \<Rightarrow> login_account res \<times> 's"
  au_create :: "string \<Rightarrow> string \<Rightarrow> 's \<Rightarrow> login_account res \<times> 's"
  au_save :: "session_record \<Rightarrow> 's \<Rightarrow> unit res \<times> 's"
  au_session :: "string \<Rightarrow> 's \<Rightarrow> session_record res \<times> 's"
  au_delete :: "string \<Rightarrow> 's \<Rightarrow> unit res \<times> 's"

text \<open>\<open>au_address\<close> is \<open>mail.ParseAddress\<close>, \<open>au_fold_eq\<close> is \<open>strings.EqualFold\<close>, \<open>au_mac\<close> is HMAC-SHA-256.\<close>

definition normalizeMailbox :: "'s auth_env \<Rightarrow> string \<Rightarrow> string option" where
  "normalizeMailbox A raw0 =
     (let raw = trim_space raw0 in
      if raw = [] \<or> CHR 0x0D \<in> set raw \<or> CHR 0x0A \<in> set raw then None
      else case au_address A raw of
        None \<Rightarrow> None
      | Some a \<Rightarrow> if au_fold_eq A a raw then Some (to_lower (au_lower A) a) else None)"

definition is_name_char :: "char \<Rightarrow> bool" where
  "is_name_char c \<longleftrightarrow> 97 \<le> byte c \<and> byte c \<le> 122 \<or> is_digit c"

definition login_name :: "string \<Rightarrow> bool" where
  "login_name s \<longleftrightarrow> 3 \<le> length s \<and> length s \<le> 64 \<and> is_name_char (hd s) \<and>
     list_all (\<lambda>c. is_name_char c \<or> c \<in> set ''._-'') (tl s)"

definition normalizeLoginIdentifier :: "'s auth_env \<Rightarrow> string \<Rightarrow> string option" where
  "normalizeLoginIdentifier A raw =
     (let v = to_lower (au_lower A) (trim_space raw) in
      case normalizeMailbox A v of
        Some email \<Rightarrow> if length email \<le> 320 then Some email else if login_name v then Some v else None
      | None \<Rightarrow> if login_name v then Some v else None)"

section \<open>Signed values\<close>

definition sign :: "'s auth_env \<Rightarrow> string \<Rightarrow> string" where
  "sign A v = b64_encode (au_mac A (au_key A) v)"

definition constantEqual :: "'s auth_env \<Rightarrow> string \<Rightarrow> string \<Rightarrow> bool" where
  "constantEqual A left right \<longleftrightarrow> au_sha A left = au_sha A right"

text \<open>The parts before and after the last dot, both not empty.\<close>

definition split_signed :: "string \<Rightarrow> (string \<times> string) option" where
  "split_signed v =
     (let after = takeWhile (\<lambda>c. c \<noteq> CHR ''.'') (rev v); rest = dropWhile (\<lambda>c. c \<noteq> CHR ''.'') (rev v) in
      if rest = [] \<or> tl rest = [] \<or> after = [] then None else Some (rev (tl rest), rev after))"

definition scoped :: "string \<Rightarrow> string \<Rightarrow> string" where
  "scoped scope token = scope @ [CHR 0x00] @ token"

definition signed_value :: "'s auth_env \<Rightarrow> string \<Rightarrow> string \<Rightarrow> string" where
  "signed_value A scope token = token @ ''.'' @ sign A (scoped scope token)"

text \<open>The token of a signed value, and whether the signature is right.\<close>

definition verify_signed :: "'s auth_env \<Rightarrow> string \<Rightarrow> string \<Rightarrow> string \<times> bool" where
  "verify_signed A scope v =
     (case split_signed v of
        None \<Rightarrow> ([], False)
      | Some (token, signature) \<Rightarrow> (token, constantEqual A signature (sign A (scoped scope token))))"

definition signedSessionValue :: "'s auth_env \<Rightarrow> string \<Rightarrow> string" where
  "signedSessionValue A token = signed_value A ''session'' token"

definition verifySignedSession :: "'s auth_env \<Rightarrow> string \<Rightarrow> string \<times> bool" where
  "verifySignedSession A v = verify_signed A ''session'' v"

definition csrfToken :: "'s auth_env \<Rightarrow> string \<Rightarrow> string" where
  "csrfToken A token = sign A (scoped ''csrf'' token)"

definition anonymousCSRFToken :: "'s auth_env \<Rightarrow> http_request \<Rightarrow> string \<Rightarrow> string \<Rightarrow> string \<times> bool" where
  "anonymousCSRFToken A rq cookieName scope =
     (case request_cookie rq cookieName of None \<Rightarrow> ([], False) | Some v \<Rightarrow> verify_signed A scope v)"

definition unsafeMethod :: "string \<Rightarrow> bool" where
  "unsafeMethod m \<longleftrightarrow> m \<noteq> ''GET'' \<and> m \<noteq> ''HEAD'' \<and> m \<noteq> ''OPTIONS''"

section \<open>Sessions\<close>

definition session_lifetime :: duration where
  "session_lifetime = 12 * hour_ns"

text \<open>1 January 1970, 719162 days after the zero time.\<close>

definition unix_epoch :: time where
  "unix_epoch = 719162 * day_ns"

definition expired_cookie :: "'s auth_env \<Rightarrow> string \<Rightarrow> string \<Rightarrow> cookie" where
  "expired_cookie A n p =
     \<lparr>ck_name = n, ck_value = [], ck_path = p, ck_expires = unix_epoch + second_ns, ck_max_age = - 1, ck_secure = au_secure A\<rparr>"

definition clearCookie :: "'s auth_env \<Rightarrow> web_response \<Rightarrow> web_response" where
  "clearCookie A = with_cookie (expired_cookie A SessionCookieName ''/'')"

definition startSession :: "'s auth_env \<Rightarrow> login_account \<Rightarrow> string \<Rightarrow> string \<Rightarrow> 's \<Rightarrow> web_response \<times> 's" where
  "startSession A account csrfCookieName csrfCookiePath s =
     (let now = au_now A s in
      case au_random A s of (random, s1) \<Rightarrow>
        (case NewSession (au_sha A) random (la_user account) now session_lifetime of
           Inl e \<Rightarrow> (respond (Failed 500 text_login_error), s1)
         | Inr session \<Rightarrow>
             let record = \<lparr>sr_user = la_user account, sr_tenant = la_tenant account, sr_email = la_email account,
                   sr_hash = se_hash session, sr_role = la_role account, sr_expires = se_expires session\<rparr> in
             (case au_save A record s1 of
                (Inl e, s2) \<Rightarrow> (respond (Failed 500 text_login_error), s2)
              | (Inr u, s2) \<Rightarrow>
                  (with_cookie \<lparr>ck_name = SessionCookieName, ck_value = signedSessionValue A (se_token session), ck_path = ''/'',
                       ck_expires = se_expires session, ck_max_age = 43200, ck_secure = au_secure A\<rparr>
                    (with_cookie (expired_cookie A csrfCookieName csrfCookiePath) (respond (Redirected ''/dashboard''))), s2))))"

text \<open>No session is \<open>Inr None\<close>, a failure of the repository \<open>Inl\<close>.\<close>

definition authenticate :: "'s auth_env \<Rightarrow> http_request \<Rightarrow> 's \<Rightarrow> (string \<times> session_record) option res \<times> 's" where
  "authenticate A rq s =
     (case request_cookie rq SessionCookieName of
        None \<Rightarrow> (Inr None, s)
      | Some v \<Rightarrow>
          (case verifySignedSession A v of (token, ok) \<Rightarrow>
             if \<not> ok then (Inr None, s)
             else let h = HashSessionToken (au_sha A) token in
               (case au_session A h s of
                  (Inl e, s1) \<Rightarrow> (if errors_is e ErrUnauthenticated then Inr None else Inl e, s1)
                | (Inr record, s1) \<Rightarrow>
                    (if sr_hash record \<noteq> h \<or> \<not> au_now A s1 < sr_expires record then Inr None
                     else Inr (Some (token, record)), s1))))"

section \<open>Pages without a session\<close>

definition anonymousPage :: "'s auth_env \<Rightarrow> http_request \<Rightarrow> string \<Rightarrow> string \<Rightarrow> string \<Rightarrow> 's \<Rightarrow> web_response \<times> 's" where
  "anonymousPage A rq cookieName scope path s =
     (case anonymousCSRFToken A rq cookieName scope of (token, ok) \<Rightarrow>
        if ok then (respond (Passed None (Some token)), s)
        else (case au_random A s of (random, s1) \<Rightarrow>
          (case NewCSRFToken random of
             Inl e \<Rightarrow> (respond (Failed 500 text_login_page), s1)
           | Inr token \<Rightarrow>
               (with_cookie \<lparr>ck_name = cookieName, ck_value = signed_value A scope token, ck_path = path,
                    ck_expires = au_now A s1 + hour_ns, ck_max_age = 3600, ck_secure = au_secure A\<rparr>
                  (respond (Passed None (Some token))), s1))))"

definition loginPage :: "'s auth_env \<Rightarrow> http_request \<Rightarrow> 's \<Rightarrow> web_response \<times> 's" where
  "loginPage A rq s = anonymousPage A rq LoginCSRFCookieName ''login-csrf'' ''/login'' s"

definition csrf_ok :: "'s auth_env \<Rightarrow> http_request \<Rightarrow> (string \<times> string) list \<Rightarrow> string \<Rightarrow> string \<Rightarrow> bool" where
  "csrf_ok A rq form cookieName scope =
     (case anonymousCSRFToken A rq cookieName scope of (token, ok) \<Rightarrow>
        ok \<and> constantEqual A (form_get form ''_csrf'') token)"

definition invitationPost :: "'s auth_env \<Rightarrow> http_request \<Rightarrow> web_response" where
  "invitationPost A rq =
     (case rq_form rq of
        None \<Rightarrow> respond (Failed 400 text_invite_form)
      | Some form \<Rightarrow>
          if \<not> csrf_ok A rq form InviteCSRFCookieName ''invite-csrf'' then respond (Failed 403 text_bad_request)
          else respond (Passed None (Some (fst (anonymousCSRFToken A rq InviteCSRFCookieName ''invite-csrf'')))))"

definition login :: "'s auth_env \<Rightarrow> http_request \<Rightarrow> 's \<Rightarrow> web_response \<times> 's" where
  "login A rq s =
     (case rq_form rq of
        None \<Rightarrow> (respond (Failed 400 text_login_form), s)
      | Some form \<Rightarrow>
          if \<not> csrf_ok A rq form LoginCSRFCookieName ''login-csrf'' then (respond (Failed 403 text_bad_request), s)
          else
            let identifier = normalizeLoginIdentifier A (form_get form ''email'') in
            (case au_account A (case identifier of None \<Rightarrow> [] | Some i \<Rightarrow> i) s of (account, s1) \<Rightarrow>
               let valid = (identifier \<noteq> None \<and> (case account of Inl e \<Rightarrow> False | Inr a \<Rightarrow> role_valid (la_role a)));
                   passwordHash = (if valid then la_password (projr account) else dummyLoginPasswordHash) in
               (case au_check A passwordHash (form_get form ''password'') s1 of (passwordValid, s2) \<Rightarrow>
                  if \<not> valid \<or> \<not> passwordValid then (respond (Failed 401 text_bad_login), s2)
                  else startSession A (projr account) LoginCSRFCookieName ''/login'' s2)))"

definition signup_failed :: "goerr \<Rightarrow> web_outcome" where
  "signup_failed e =
     (if errors_is e ErrEmailRegistered then Failed 409 text_registered
      else if errors_is e ErrInvitationWaits then Failed 409 text_invited
      else Failed 500 text_signup_error)"

definition signup :: "'s auth_env \<Rightarrow> http_request \<Rightarrow> 's \<Rightarrow> web_response \<times> 's" where
  "signup A rq s =
     (case rq_form rq of
        None \<Rightarrow> (respond (Failed 400 text_signup_form), s)
      | Some form \<Rightarrow>
          if \<not> csrf_ok A rq form SignupCSRFCookieName ''signup-csrf'' then (respond (Failed 403 text_bad_request), s)
          else (case normalizeMailbox A (form_get form ''email'') of
            None \<Rightarrow> (respond (Failed 400 text_bad_email), s)
          | Some email \<Rightarrow>
              let password = form_get form ''password'' in
              if 320 < length email then (respond (Failed 400 text_bad_email), s)
              else if \<not> validSignupPassword password then (respond (Failed 400 text_bad_password), s)
              else if password \<noteq> form_get form ''password_confirm'' then (respond (Failed 400 text_bad_confirm), s)
              else (case au_hash_password A password s of
                (Inl e, s1) \<Rightarrow> (respond (Failed 500 text_signup_error), s1)
              | (Inr passwordHash, s1) \<Rightarrow>
                  (case au_create A email passwordHash s1 of
                     (Inl e, s2) \<Rightarrow> (respond (signup_failed e), s2)
                   | (Inr account, s2) \<Rightarrow> startSession A account SignupCSRFCookieName ''/signup'' s2))))"

section \<open>The handler\<close>

definition allow :: "string \<Rightarrow> web_response \<Rightarrow> web_response" where
  "allow ms = with_header ''Allow'' ms"

definition logout :: "'s auth_env \<Rightarrow> http_request \<Rightarrow> session_record \<Rightarrow> 's \<Rightarrow> web_response \<times> 's" where
  "logout A rq record s =
     (if rq_method rq \<noteq> ''POST'' then (allow ''POST'' (respond method_not_allowed), s)
      else case au_delete A (sr_hash record) s of
        (Inl e, s1) \<Rightarrow> (respond (Failed 503 text_logout_error), s1)
      | (Inr u, s1) \<Rightarrow> (clearCookie A (respond (Redirected ''/login'')), s1))"

text \<open>A request with a session.\<close>

definition serve_session :: "'s auth_env \<Rightarrow> http_request \<Rightarrow> string \<Rightarrow> session_record \<Rightarrow> 's \<Rightarrow> web_response \<times> 's" where
  "serve_session A rq token record s =
     (let csrf = csrfToken A token in
      if rq_path rq = ''/admin'' \<and> sr_role record \<noteq> PlatformAdmin then (respond (Failed 403 text_no_access), s)
      else if unsafeMethod (rq_method rq) \<and>
          (case rq_form rq of None \<Rightarrow> True | Some form \<Rightarrow> \<not> constantEqual A (form_get form ''_csrf'') csrf)
        then (respond (Failed 403 text_bad_request), s)
      else if rq_path rq = ''/logout'' then logout A rq record s
      else (respond (Passed (Some record) (Some csrf)), s))"

definition serve_page :: "'s auth_env \<Rightarrow> http_request \<Rightarrow> 's \<Rightarrow> web_response \<times> 's" where
  "serve_page A rq s =
     (case authenticate A rq s of
        (Inl e, s1) \<Rightarrow> (respond (Failed 503 text_session_error), s1)
      | (Inr None, s1) \<Rightarrow> (clearCookie A (respond (Redirected ''/login'')), s1)
      | (Inr (Some (token, record)), s1) \<Rightarrow> serve_session A rq token record s1)"

definition dispatch :: "'s auth_env \<Rightarrow> http_request \<Rightarrow> 's \<Rightarrow> web_response \<times> 's" where
  "dispatch A rq s =
     (if rq_path rq = ''/login'' then (if rq_method rq = ''POST'' then login A rq s else loginPage A rq s)
      else if rq_path rq = ''/signup'' then
        (if rq_method rq = ''GET'' \<or> rq_method rq = ''HEAD''
           then anonymousPage A rq SignupCSRFCookieName ''signup-csrf'' ''/signup'' s
         else if rq_method rq = ''POST'' then signup A rq s
         else (allow ''GET, HEAD, POST'' (respond method_not_allowed), s))
      else if rq_path rq = ''/accept-invite'' then
        (if rq_method rq = ''GET'' \<or> rq_method rq = ''HEAD''
           then anonymousPage A rq InviteCSRFCookieName ''invite-csrf'' ''/accept-invite'' s
         else if rq_method rq = ''POST'' then (invitationPost A rq, s)
         else (allow ''GET, HEAD, POST'' (respond method_not_allowed), s))
      else serve_page A rq s)"

definition ServeHTTP :: "'s auth_env \<Rightarrow> http_request \<Rightarrow> 's \<Rightarrow> web_response \<times> 's" where
  "ServeHTTP A rq s =
     (if has_prefix (rq_path rq) ''/assets/'' then (respond (Passed None None), s)
      else apfst (with_header ''Cache-Control'' ''private, no-store'') (dispatch A rq s))"

text \<open>\<open>NewAuthHandler\<close> refuses a short key.\<close>

definition NewAuthHandler :: "bool \<Rightarrow> string \<Rightarrow> goerr option" where
  "NewAuthHandler dependencies sessionKey =
     (if \<not> dependencies then Some (ErrText ''auth handler dependencies are required'')
      else if length sessionKey < 32 then Some (ErrText ''session key must contain at least 32 bytes'')
      else None)"

end
