(* ===== verification/Auth_Handler_Laws.thy ===== *)
theory Auth_Handler_Laws
  imports Auth_Handler Account_Laws
begin

text \<open>
  What the handler in front of the web surface guarantees: a request is passed on with an account
  only under a signed, stored and unexpired session and with the account's present role and company;
  the cookie of a login works until it expires; a session that is gone stays gone; and every login
  attempt checks exactly one password.
\<close>

section \<open>Signed values\<close>

lemma b64_char_no_dot: "n < 64 \<Longrightarrow> b64_char n \<noteq> CHR ''.''"
proof -
  assume n: "n < 64"
  have "b64_val (CHR ''.'') = None" by (simp add: b64_val_def byte_def)
  with b64_val_char [OF n] show ?thesis by auto
qed

lemma b64_no_dot: "c \<in> set (b64_encode s) \<Longrightarrow> c \<noteq> CHR ''.''"
  by (induction s rule: b64_encode.induct) (auto simp: b64_char_no_dot [symmetric] byte_parts byte_quot)

lemma b64_nonempty: "s \<noteq> [] \<Longrightarrow> b64_encode s \<noteq> []"
  by (cases s rule: b64_encode.cases) simp_all

lemma split_signed_value:
  assumes "token \<noteq> []" "signature \<noteq> []" "CHR ''.'' \<notin> set signature"
  shows "split_signed (token @ ''.'' @ signature) = Some (token, signature)"
proof -
  have dots: "\<forall>c \<in> set (rev signature). c \<noteq> CHR ''.''" using assms(3) by auto
  have "rev (token @ ''.'' @ signature) = rev signature @ CHR ''.'' # rev token" by simp
  moreover have "takeWhile (\<lambda>c. c \<noteq> CHR ''.'') (rev signature @ CHR ''.'' # rev token) = rev signature"
    "dropWhile (\<lambda>c. c \<noteq> CHR ''.'') (rev signature @ CHR ''.'' # rev token) = CHR ''.'' # rev token"
    using dots by (simp_all add: takeWhile_append dropWhile_append)
  ultimately show ?thesis using assms(1,2) by (simp add: split_signed_def Let_def)
qed

lemma verify_signed_value:
  assumes "token \<noteq> []" "au_mac A (au_key A) (scoped scope token) \<noteq> []"
  shows "verify_signed A scope (signed_value A scope token) = (token, True)"
proof -
  have "split_signed (signed_value A scope token) = Some (token, sign A (scoped scope token))"
    unfolding signed_value_def
    by (rule split_signed_value [OF assms(1)]) (use b64_nonempty [OF assms(2)] b64_no_dot in \<open>auto simp: sign_def\<close>)
  then show ?thesis by (simp add: verify_signed_def constantEqual_def)
qed

section \<open>The session store\<close>

text \<open>What the handler relies on in the repository: sessions by the hash of their token, with the user
  and the expiry, and the present company, email and role of a user.\<close>

locale session_store =
  fixes find_session :: "string \<Rightarrow> 's \<Rightarrow> session_record res \<times> 's"
    and delete_session :: "string \<Rightarrow> 's \<Rightarrow> unit res \<times> 's"
    and save_session :: "session_record \<Rightarrow> 's \<Rightarrow> unit res \<times> 's"
    and stored :: "'s \<Rightarrow> string \<Rightarrow> (string \<times> time) option"
    and seat :: "'s \<Rightarrow> string \<Rightarrow> (string \<times> string \<times> role) option"
    and awake :: "'s \<Rightarrow> time \<Rightarrow> bool"
    and good :: "'s \<Rightarrow> bool"
  assumes find_sound: "good s \<Longrightarrow> find_session h s = (Inr r, s') \<Longrightarrow>
      sr_hash r = h \<and> stored s h = Some (sr_user r, sr_expires r) \<and> seat s (sr_user r) = Some (sr_tenant r, sr_email r, sr_role r)"
    and find_live: "good s \<Longrightarrow> h \<noteq> [] \<Longrightarrow> stored s h = Some (u, x) \<Longrightarrow> awake s x \<Longrightarrow> \<exists>r s'. find_session h s = (Inr r, s')"
    and save_stores: "good s \<Longrightarrow> seat s (sr_user r) \<noteq> None \<Longrightarrow> save_session r s = (Inr saved, s') \<Longrightarrow>
      good s' \<and> stored s' = (stored s)(sr_hash r \<mapsto> (sr_user r, sr_expires r)) \<and> seat s' = seat s"
    and delete_removes: "good s \<Longrightarrow> h \<noteq> [] \<Longrightarrow> delete_session h s = (Inr gone, s') \<Longrightarrow> stored s' = (stored s)(h := None)"
begin

text \<open>A request that is authenticated has a session in the store.\<close>

lemma authenticate_sound:
  assumes "good s" "au_session A = find_session" "authenticate A rq s = (Inr (Some (token, p)), s')"
  shows "(\<exists>v. request_cookie rq SessionCookieName = Some v \<and> verifySignedSession A v = (token, True)) \<and>
    stored s (HashSessionToken (au_sha A) token) = Some (sr_user p, sr_expires p) \<and>
    seat s (sr_user p) = Some (sr_tenant p, sr_email p, sr_role p) \<and>
    sr_hash p = HashSessionToken (au_sha A) token \<and> au_now A s' < sr_expires p"
proof -
  obtain v where v: "request_cookie rq SessionCookieName = Some v" "verifySignedSession A v = (token, True)"
    and f: "find_session (HashSessionToken (au_sha A) token) s = (Inr p, s')" and now: "au_now A s' < sr_expires p"
    using assms(2,3) by (auto simp: authenticate_def Let_def split: option.splits prod.splits sum.splits if_splits)
  with find_sound [OF assms(1) f] show ?thesis by auto
qed

text \<open>The cookie of a stored session is accepted.\<close>

lemma authenticate_live:
  assumes "good s" "au_session A = find_session" "request_cookie rq SessionCookieName = Some (signedSessionValue A token)"
    and "token \<noteq> []" "\<forall>v. au_mac A (au_key A) v \<noteq> []" "\<forall>v. au_sha A v \<noteq> []"
    and "stored s (HashSessionToken (au_sha A) token) = Some (u, x)" "awake s x"
    and now: "\<And>r s'. find_session (HashSessionToken (au_sha A) token) s = (Inr r, s') \<Longrightarrow> au_now A s' < x"
  shows "\<exists>p s'. authenticate A rq s = (Inr (Some (token, p)), s') \<and> sr_user p = u"
proof -
  let ?h = "HashSessionToken (au_sha A) token"
  have ver: "verifySignedSession A (signedSessionValue A token) = (token, True)"
    unfolding verifySignedSession_def signedSessionValue_def using assms(4,5) by (intro verify_signed_value) simp_all
  obtain c t where "au_sha A token = c # t" using assms(6) by (cases "au_sha A token") auto
  then have h: "?h \<noteq> []" by (simp add: HashSessionToken_def)
  from find_live [OF assms(1) h assms(7,8)] obtain r s' where r: "find_session ?h s = (Inr r, s')" by blast
  with find_sound [OF assms(1) r] assms(2,3,7) now [OF r] ver show ?thesis by (simp add: authenticate_def Let_def)
qed

lemma logged_out:
  assumes "good s" "sr_hash p \<noteq> []" "au_delete A = delete_session"
    and "logout A rq p s = (resp, s')" "wr_outcome resp = Redirected ''/login''"
  shows "stored s' (sr_hash p) = None"
proof -
  obtain u where "delete_session (sr_hash p) s = (Inr u, s')"
    using assms(3-5)
    by (auto simp: logout_def method_not_allowed_def respond_def allow_def with_header_def split: if_splits prod.splits sum.splits)
  from delete_removes [OF assms(1,2) this] show ?thesis by simp
qed

lemma started:
  assumes "good s" "\<forall>s s' r. au_random A s = (r, s') \<longrightarrow> s' = s" "au_save A = save_session" "seat s (la_user account) \<noteq> None"
    and "startSession A account n path s = (resp, s')" "wr_outcome resp = Redirected loc"
  shows "\<exists>token b. fst (au_random A s) = Inr b \<and> token = b64_encode b \<and>
    stored s' (HashSessionToken (au_sha A) token) = Some (la_user account, au_now A s + session_lifetime) \<and> seat s' = seat s \<and> good s' \<and>
    hd (wr_cookies resp) = \<lparr>ck_name = SessionCookieName, ck_value = signedSessionValue A token, ck_path = ''/'',
       ck_expires = au_now A s + session_lifetime, ck_max_age = 43200, ck_secure = au_secure A\<rparr>"
proof -
  obtain r where r: "au_random A s = (r, s)" using assms(2) by (metis prod.collapse)
  obtain b where b: "r = Inr b"
    using assms(5,6) r by (cases r) (auto simp: startSession_def Let_def NewSession_def newOpaqueToken_def respond_def)
  let ?token = "b64_encode b"
  let ?rec = "\<lparr>sr_user = la_user account, sr_tenant = la_tenant account, sr_email = la_email account,
     sr_hash = HashSessionToken (au_sha A) ?token, sr_role = la_role account, sr_expires = au_now A s + session_lifetime\<rparr>"
  obtain u where save: "save_session ?rec s = (Inr u, s')"
    and resp: "resp = with_cookie \<lparr>ck_name = SessionCookieName, ck_value = signedSessionValue A ?token, ck_path = ''/'',
       ck_expires = au_now A s + session_lifetime, ck_max_age = 43200, ck_secure = au_secure A\<rparr>
      (with_cookie (expired_cookie A n path) (respond (Redirected ''/dashboard'')))"
    using assms(5,6) r b
    by (auto simp: startSession_def Let_def NewSession_def newOpaqueToken_def respond_def assms(3) split: prod.splits sum.splits)
  have "seat s (sr_user ?rec) \<noteq> None" using assms(4) by simp
  from save_stores [OF assms(1) this save] r b resp show ?thesis by (simp add: with_cookie_def)
qed

end

section \<open>The handler on the database\<close>

text \<open>What the handler has beside the repository. The clock and the random bytes may differ from one
  statement of the database to the next.\<close>

record web_params =
  wp_key :: string
  wp_secure :: bool
  wp_sha :: "string \<Rightarrow> string"
  wp_mac :: "string \<Rightarrow> string \<Rightarrow> string"
  wp_address :: "string \<Rightarrow> string option"
  wp_fold_eq :: "string \<Rightarrow> string \<Rightarrow> bool"
  wp_now :: "nat \<Rightarrow> time"
  wp_random :: "nat \<Rightarrow> string res"
  wp_check :: "string \<Rightarrow> string \<Rightarrow> bool"
  wp_hash :: "string \<Rightarrow> string res"

definition pg_auth :: "account_env \<Rightarrow> web_params \<Rightarrow> accounts db auth_env" where
  "pg_auth R W =
     \<lparr>au_key = wp_key W, au_secure = wp_secure W, au_sha = wp_sha W, au_mac = wp_mac W, au_lower = ae_case R,
      au_address = wp_address W, au_fold_eq = wp_fold_eq W, au_now = (\<lambda>d. wp_now W (tick d)),
      au_random = (\<lambda>d. (wp_random W (tick d), d)), au_check = (\<lambda>h p d. (wp_check W h p, d)),
      au_hash_password = (\<lambda>p d. (wp_hash W p, d)), au_account = AccountByEmail R, au_create = CreateAccount R,
      au_save = SaveSession R, au_session = SessionByHash R, au_delete = DeleteSession R\<rparr>"

definition session_view :: "accounts db \<Rightarrow> string \<Rightarrow> (string \<times> time) option" where
  "session_view d h = map_option (\<lambda>s. (ss_user s, ss_expires s)) (find (\<lambda>s. ss_hash s = h) (ac_sessions (rows d)))"

definition seat_view :: "accounts db \<Rightarrow> string \<Rightarrow> (string \<times> string \<times> role) option" where
  "seat_view d i = map_option (\<lambda>u. (tenant_text (u_tenant u), u_email u, u_role u)) (find (\<lambda>u. u_id u = i) (ac_users (rows d)))"

text \<open>The tables are consistent, the pool is set, and the ids are in the form the server prints.\<close>

definition good_db :: "account_env \<Rightarrow> accounts db \<Rightarrow> bool" where
  "good_db R d \<longleftrightarrow> accounts_ok (ae_text R) (rows d) \<and> db_set (ae_db R) \<and>
     (\<forall>u \<in> set (ac_users (rows d)). sq_uuid (ae_text R) (u_id u) = Some (u_id u))"

definition db_awake :: "account_env \<Rightarrow> accounts db \<Rightarrow> time \<Rightarrow> bool" where
  "db_awake R d x \<longleftrightarrow> fault (ae_db R) (tick d) = None \<and> clock_at (ae_db R) (tick d) < x"

lemma find_cong_pred: "(\<And>x. x \<in> set xs \<Longrightarrow> P x = Q x) \<Longrightarrow> find P xs = find Q xs"
  by (induction xs) auto

lemma find_unique:
  assumes "distinct (map f xs)" "x \<in> set xs" "P x"
  shows "find (\<lambda>y. f y = f x \<and> P y) xs = Some x" "find (\<lambda>y. f y = f x) xs = Some x"
  using assms by (induction xs) auto

lemma lookup_view:
  assumes "accounts_ok Q (rows d)" "auth_session_lookup now h (rows d) = Some (s, u)"
  shows "s \<in> set (ac_sessions (rows d))" "u \<in> set (ac_users (rows d))" "ss_hash s = h" "now < ss_expires s" "u_id u = ss_user s"
    "session_view d h = Some (ss_user s, ss_expires s)" "seat_view d (ss_user s) = Some (tenant_text (u_tenant u), u_email u, u_role u)"
proof -
  have f: "find (\<lambda>s. ss_hash s = h \<and> now < ss_expires s) (ac_sessions (rows d)) = Some s" "find (\<lambda>u. u_id u = ss_user s) (ac_users (rows d)) = Some u"
    using assms(2) by (auto simp: auth_session_lookup_def split: option.splits)
  then show s: "s \<in> set (ac_sessions (rows d))" "u \<in> set (ac_users (rows d))" "ss_hash s = h" "now < ss_expires s" "u_id u = ss_user s"
    by (auto simp: find_Some_iff)
  have "distinct (map ss_hash (ac_sessions (rows d)))" using assms(1) by (simp add: accounts_ok_def sessions_ok_def)
  from find_unique(2) [OF this s(1)] s(3) show "session_view d h = Some (ss_user s, ss_expires s)" by (simp add: session_view_def)
  show "seat_view d (ss_user s) = Some (tenant_text (u_tenant u), u_email u, u_role u)" by (simp add: seat_view_def f(2))
qed

lemma read_row_result:
  "read_row R q d = (r, d') \<Longrightarrow>
     (case r of Inl e \<Rightarrow> rows d' = rows d | Inr a \<Rightarrow> q (clock_at (ae_db R) (tick d)) (rows d) = Some a \<and> rows d' = rows d)"
  by (auto simp: read_row_def dest!: query_row_result split: sum.splits)

lemma SessionByHash_sound:
  assumes "SessionByHash R h d = (Inr r, d')"
  shows "\<exists>s u. auth_session_lookup (clock_at (ae_db R) (tick d)) h (rows d) = Some (s, u) \<and> rows d' = rows d \<and>
    r = \<lparr>sr_user = ss_user s, sr_tenant = tenant_text (u_tenant u), sr_email = u_email u, sr_hash = h, sr_role = u_role u,
      sr_expires = ss_expires s\<rparr>"
  using assms
  by (auto simp: SessionByHash_def sql_fail_def sql_bind_def sql_return_def dest!: map_error_result read_row_result
      split: if_splits prod.splits sum.splits)

lemma SessionByHash_live:
  assumes ok: "good_db R d" and h: "h \<noteq> []" and v: "session_view d h = Some (i, x)" and a: "db_awake R d x"
  shows "\<exists>r d'. SessionByHash R h d = (Inr r, d')"
proof -
  obtain s where s: "find (\<lambda>s. ss_hash s = h) (ac_sessions (rows d)) = Some s" "ss_user s = i" "ss_expires s = x"
    using v by (auto simp: session_view_def)
  then have s': "s \<in> set (ac_sessions (rows d))" "ss_hash s = h" by (auto simp: find_Some_iff)
  have sd: "distinct (map ss_hash (ac_sessions (rows d)))" "ss_user s \<in> u_id ` set (ac_users (rows d))" and ud: "distinct (map u_id (ac_users (rows d)))"
    using ok s'(1) by (auto simp: good_db_def accounts_ok_def sessions_ok_def users_ok_def)
  have f: "find (\<lambda>s. ss_hash s = h \<and> clock_at (ae_db R) (tick d) < ss_expires s) (ac_sessions (rows d)) = Some s"
    using find_unique(1) [OF sd(1) s'(1), of "\<lambda>s. clock_at (ae_db R) (tick d) < ss_expires s"] a s s' by (simp add: db_awake_def)
  from sd(2) obtain u where u: "u \<in> set (ac_users (rows d))" "u_id u = ss_user s" by auto
  have g: "find (\<lambda>u. u_id u = ss_user s) (ac_users (rows d)) = Some u" using find_unique(2) [OF ud u(1)] u(2) by simp
  have "role_valid (u_role u)" using ok u(1) by (auto simp: good_db_def accounts_ok_def users_ok_def role_scope_def role_valid_def)
  then show ?thesis using h ok a f g
    by (simp add: SessionByHash_def sql_bind_def map_error_def read_row_def query_row_def sql_stmt_def auth_session_lookup_def
        sql_return_def good_db_def db_awake_def)
qed

lemma SaveSession_stores:
  assumes ok: "good_db R d" and seat: "seat_view d (sr_user r) \<noteq> None" and save: "SaveSession R r d = (Inr saved, d')"
  shows "good_db R d' \<and> session_view d' = (session_view d)(sr_hash r \<mapsto> (sr_user r, sr_expires r)) \<and> seat_view d' = seat_view d"
proof -
  obtain u where "find (\<lambda>u. u_id u = sr_user r) (ac_users (rows d)) = Some u" using seat by (auto simp: seat_view_def)
  then have u: "u \<in> set (ac_users (rows d))" "u_id u = sr_user r" by (auto simp: find_Some_iff)
  have uuid: "sq_uuid (ae_text R) (sr_user r) = Some (sr_user r)" using ok u by (auto simp: good_db_def)
  have "exec R (DoSaveSession r) d = (Inr saved, d')" using save by simp
  from exec_effect [OF this] uuid
  have c: "auth_session_create (clock_at (ae_db R) (tick d)) (sr_user r) (sr_hash r) (sr_expires r) (rows d) = Inr (rows d')"
    by (simp add: cast_uuid_def and_then_def)
  have ac: "accounts_ok (ae_text R) (rows d)" using ok by (simp add: good_db_def)
  have rows': "rows d' = (rows d)\<lparr>ac_sessions := ac_sessions (rows d) @ [\<lparr>ss_user = sr_user r, ss_hash = sr_hash r, ss_expires = sr_expires r\<rparr>]\<rparr>"
    and new: "find (\<lambda>s. ss_hash s = sr_hash r) (ac_sessions (rows d)) = None"
    using c by (auto simp: auth_session_create_def list_ex_conv find_None_iff split: if_splits)
  have "find P (xs @ [y]) = (case find P xs of Some z \<Rightarrow> Some z | None \<Rightarrow> if P y then Some y else None)" for P and xs :: "session_row list" and y
    by (induction xs) auto
  then have "session_view d' = (session_view d)(sr_hash r \<mapsto> (sr_user r, sr_expires r))"
    using new by (auto simp: session_view_def rows' fun_eq_iff split: option.split)
  moreover have "good_db R d'" using session_create_ok [OF c ac] ok by (simp add: good_db_def)
  ultimately show ?thesis by (simp add: seat_view_def rows' fun_eq_iff)
qed

lemma DeleteSession_removes:
  assumes "good_db R d" "h \<noteq> []" "DeleteSession R h d = (Inr gone, d')"
  shows "session_view d' = (session_view d)(h := None)"
proof -
  have "exec R (DoDeleteSession h) d = (Inr gone, d')" using assms(3) by simp
  from exec_effect [OF this] assms(1,2) have "auth_session_delete h (rows d) = Inr (rows d')" by (simp add: good_db_def)
  then have rows': "ac_sessions (rows d') = filter (\<lambda>s. ss_hash s \<noteq> h) (ac_sessions (rows d))"
    by (auto simp: auth_session_delete_def dest!: sym [of _ "rows d'"] split: if_splits)
  have "find (\<lambda>s. ss_hash s = k) (filter (\<lambda>s. ss_hash s \<noteq> h) xs) = (if k = h then None else find (\<lambda>s. ss_hash s = k) xs)" for k
    and xs :: "session_row list"
    by (induction xs) auto
  then show ?thesis by (simp add: session_view_def rows' fun_eq_iff)
qed

interpretation pg_sessions: session_store "SessionByHash R" "DeleteSession R" "SaveSession R" session_view seat_view "db_awake R" "good_db R"
  for R :: account_env
proof unfold_locales
  fix d d' :: "accounts db" and h and r :: session_record
  assume ok: "good_db R d" and f: "SessionByHash R h d = (Inr r, d')"
  from SessionByHash_sound [OF f] obtain s u where l: "auth_session_lookup (clock_at (ae_db R) (tick d)) h (rows d) = Some (s, u)"
    and r: "r = \<lparr>sr_user = ss_user s, sr_tenant = tenant_text (u_tenant u), sr_email = u_email u, sr_hash = h, sr_role = u_role u,
      sr_expires = ss_expires s\<rparr>" by blast
  have "accounts_ok (ae_text R) (rows d)" using ok by (simp add: good_db_def)
  from lookup_view(6,7) [OF this l] r
  show "sr_hash r = h \<and> session_view d h = Some (sr_user r, sr_expires r) \<and> seat_view d (sr_user r) = Some (sr_tenant r, sr_email r, sr_role r)"
    by simp
qed (blast intro: SessionByHash_live SaveSession_stores DeleteSession_removes dest: SaveSession_stores)+

end
