(* ===== verification/Session_Laws.thy ===== *)
theory Session_Laws
  imports Auth_Handler_Laws
begin

text \<open>
  The handler on the database, end to end: who a request is passed on for, what a login gives, what a
  logout takes away, and what a login attempt costs.
\<close>

section \<open>Passing on with an account\<close>

lemma outcome_headers [simp]: "wr_outcome (with_header k v r) = wr_outcome r" "wr_outcome (with_cookie c r) = wr_outcome r"
  "wr_outcome (clearCookie A r) = wr_outcome r" "wr_outcome (allow ms r) = wr_outcome r" "wr_outcome (respond x) = x"
  "wr_cookies (with_header k v r) = wr_cookies r" "wr_cookies (with_cookie c r) = c # wr_cookies r"
  "wr_cookies (respond x) = []"
  "method_not_allowed \<noteq> Passed account token"
  by (simp_all add: with_header_def with_cookie_def clearCookie_def allow_def respond_def method_not_allowed_def)

lemma no_account [simp]:
  "startSession A account n path s = (resp, s') \<Longrightarrow> wr_outcome resp \<noteq> Passed (Some p) csrf"
  "anonymousPage A rq n scope path s = (resp, s') \<Longrightarrow> wr_outcome resp \<noteq> Passed (Some p) csrf"
  "wr_outcome (invitationPost A rq) \<noteq> Passed (Some p) csrf"
  "signup_failed e \<noteq> Passed (Some p) csrf"
  by (auto simp: startSession_def anonymousPage_def invitationPost_def signup_failed_def Let_def split: prod.splits sum.splits option.splits if_splits)

lemma login_no_account: "login A rq s = (resp, s') \<Longrightarrow> wr_outcome resp \<noteq> Passed (Some p) csrf"
  unfolding login_def Let_def by (auto split: prod.splits option.splits if_splits dest: no_account(1))

lemma signup_no_account: "signup A rq s = (resp, s') \<Longrightarrow> wr_outcome resp \<noteq> Passed (Some p) csrf"
  unfolding signup_def Let_def by (auto split: prod.splits option.splits sum.splits if_splits dest: no_account(1))

text \<open>What the handler asks of a request with a session.\<close>

definition request_allowed :: "'s auth_env \<Rightarrow> http_request \<Rightarrow> string \<Rightarrow> session_record \<Rightarrow> bool" where
  "request_allowed A rq token p \<longleftrightarrow>
     (rq_path rq = ''/admin'' \<longrightarrow> sr_role p = PlatformAdmin) \<and>
     (unsafeMethod (rq_method rq) \<longrightarrow>
        (\<exists>form. rq_form rq = Some form \<and> constantEqual A (form_get form ''_csrf'') (csrfToken A token)))"

lemma passed_on:
  assumes "ServeHTTP A rq s = (resp, s')" "wr_outcome resp = Passed (Some p) csrf"
  shows "\<exists>token. authenticate A rq s = (Inr (Some (token, p)), s') \<and> request_allowed A rq token p \<and> csrf = Some (csrfToken A token)"
proof -
  obtain r where r: "dispatch A rq s = (r, s')" "wr_outcome r = Passed (Some p) csrf"
    using assms by (cases "dispatch A rq s") (auto simp: ServeHTTP_def split: if_splits)
  then have "serve_page A rq s = (r, s')"
    using login_no_account [of A rq s r s' p csrf] signup_no_account [of A rq s r s' p csrf]
    by (auto simp: dispatch_def loginPage_def split: if_splits)
  then obtain token found s1 where a: "authenticate A rq s = (Inr (Some (token, found)), s1)"
    and serve: "serve_session A rq token found s1 = (r, s')"
    using r(2) by (auto simp: serve_page_def split: prod.splits sum.splits option.splits)
  have "s1 = s' \<and> found = p \<and> request_allowed A rq token p \<and> csrf = Some (csrfToken A token)"
    using serve r(2)
    by (auto simp: serve_session_def Let_def logout_def method_not_allowed_def request_allowed_def split: if_splits prod.splits sum.splits option.splits)
  with a show ?thesis by auto
qed

text \<open>
  C8: A request is passed on with an account only under a session that is current: its cookie carries
  the server's signature, the token's hash is a stored session that has not expired by the clock of
  the database nor by the clock of the process, and the company, email and role are those the
  account has now; an unsafe method carries the token made for this session, and \<open>/admin\<close> is only for
  a platform administrator.
\<close>

theorem principal_is_current:
  assumes "accounts_ok (ae_text R) (rows d)"
    and "ServeHTTP (pg_auth R W) rq d = (resp, d')" "wr_outcome resp = Passed (Some p) csrf"
  shows "\<exists>v token s u. request_cookie rq SessionCookieName = Some v \<and> verifySignedSession (pg_auth R W) v = (token, True) \<and>
    s \<in> set (ac_sessions (rows d)) \<and> ss_hash s = HashSessionToken (wp_sha W) token \<and>
    clock_at (ae_db R) (tick d) < ss_expires s \<and> wp_now W (tick d') < ss_expires s \<and>
    u \<in> set (ac_users (rows d)) \<and> u_id u = ss_user s \<and> rows d' = rows d \<and>
    p = \<lparr>sr_user = u_id u, sr_tenant = tenant_text (u_tenant u), sr_email = u_email u, sr_hash = ss_hash s,
         sr_role = u_role u, sr_expires = ss_expires s\<rparr> \<and>
    request_allowed (pg_auth R W) rq token p \<and> csrf = Some (csrfToken (pg_auth R W) token)"
proof -
  obtain token where a: "authenticate (pg_auth R W) rq d = (Inr (Some (token, p)), d')"
    and allowed: "request_allowed (pg_auth R W) rq token p" "csrf = Some (csrfToken (pg_auth R W) token)"
    using passed_on [OF assms(2,3)] by blast
  let ?h = "HashSessionToken (wp_sha W) token"
  obtain v where v: "request_cookie rq SessionCookieName = Some v" "verifySignedSession (pg_auth R W) v = (token, True)"
    and f: "SessionByHash R ?h d = (Inr p, d')" and now: "wp_now W (tick d') < sr_expires p"
    using a by (auto simp: authenticate_def Let_def pg_auth_def split: option.splits prod.splits sum.splits if_splits)
  from SessionByHash_sound [OF f] obtain s u where l: "auth_session_lookup (clock_at (ae_db R) (tick d)) ?h (rows d) = Some (s, u)"
    and d': "rows d' = rows d" and p: "p = \<lparr>sr_user = ss_user s, sr_tenant = tenant_text (u_tenant u), sr_email = u_email u, sr_hash = ?h,
      sr_role = u_role u, sr_expires = ss_expires s\<rparr>" by blast
  note row = lookup_view(1-5) [OF assms(1) l]
  show ?thesis using v row d' p now allowed by (intro exI [of _ v] exI [of _ token] exI [of _ s] exI [of _ u]) simp
qed

section \<open>What a login gives\<close>

lemma pg_auth_sel [simp]:
  "au_session (pg_auth R W) = SessionByHash R" "au_save (pg_auth R W) = SaveSession R" "au_delete (pg_auth R W) = DeleteSession R"
  "au_sha (pg_auth R W) = wp_sha W" "au_mac (pg_auth R W) = wp_mac W" "au_key (pg_auth R W) = wp_key W"
  "au_now (pg_auth R W) d = wp_now W (tick d)" "au_random (pg_auth R W) d = (wp_random W (tick d), d)"
  "au_account (pg_auth R W) = AccountByEmail R" "au_check (pg_auth R W) h p d = (wp_check W h p, d)"
  by (simp_all add: pg_auth_def)

lemma find_mem: "find P xs = Some x \<Longrightarrow> x \<in> set xs" "find P xs = Some x \<Longrightarrow> P x"
  by (auto simp: find_Some_iff)

lemma AccountByEmail_sound:
  assumes "AccountByEmail R email d = (Inr a, d')"
  shows "rows d' = rows d \<and> tick d' = Suc (tick d) \<and> (\<exists>u \<in> set (ac_users (rows d)). u_email u = lower_trim R email \<and>
    la_user a = u_id u \<and> la_password a = u_password u \<and> la_role a = u_role u)"
proof -
  let ?q = "map_error (not_found ''lookup login account'') (read_row R (\<lambda>now t. auth_account_lookup (lower_trim R email) t))"
  obtain u d1 where q: "?q d = (Inr u, d1)" and a: "a = \<lparr>la_user = u_id u, la_tenant = tenant_text (u_tenant u), la_email = u_email u,
      la_password = u_password u, la_role = u_role u\<rparr>" "d' = d1"
    using assms by (auto simp: AccountByEmail_def sql_fail_def elim!: sql_bindE split: if_splits)
  have "read_row R (\<lambda>now t. auth_account_lookup (lower_trim R email) t) d = (Inr u, d1)"
    using q by (auto simp: map_error_def split: prod.splits sum.splits)
  then have f: "auth_account_lookup (lower_trim R email) (rows d) = Some u" and d1: "rows d1 = rows d" "tick d1 = Suc (tick d)"
    by (auto simp: read_row_def query_row_def sql_stmt_Inr split: option.splits)
  from find_mem [OF f [unfolded auth_account_lookup_def]] a d1 show ?thesis by auto
qed

text \<open>The lookup of a session is one call.\<close>

lemma SessionByHash_tick:
  assumes "SessionByHash R h d = (Inr r, d')"
  shows "tick d' = Suc (tick d)"
  using assms
  by (auto simp: SessionByHash_def sql_fail_def map_error_def read_row_def query_row_def sql_stmt_Inr
      elim!: sql_bindE split: if_splits prod.splits sum.splits)

lemma login_started:
  assumes "login A rq s = (resp, s')" "wr_outcome resp = Redirected loc"
  shows "\<exists>form i a s1 s2. rq_form rq = Some form \<and> normalizeLoginIdentifier A (form_get form ''email'') = Some i \<and>
    au_account A i s = (Inr a, s1) \<and> au_check A (la_password a) (form_get form ''password'') s1 = (True, s2) \<and>
    startSession A a LoginCSRFCookieName ''/login'' s2 = (resp, s')"
proof -
  obtain form where form: "rq_form rq = Some form"
    using assms by (cases "rq_form rq") (auto simp: login_def)
  obtain i account s1 where i: "normalizeLoginIdentifier A (form_get form ''email'') = i"
    and a: "au_account A (case i of None \<Rightarrow> [] | Some i \<Rightarrow> i) s = (account, s1)" by fastforce
  show ?thesis
    using assms form i a by (cases account)
      (auto simp: login_def Let_def split: if_splits prod.splits)
qed

text \<open>The random bytes are 32 or an error, and the digests are not empty.\<close>

definition crypto_ok :: "web_params \<Rightarrow> bool" where
  "crypto_ok W \<longleftrightarrow> (\<forall>n b. wp_random W n = Inr b \<longrightarrow> length b = 32) \<and> (\<forall>v. wp_sha W v \<noteq> []) \<and> (\<forall>k v. wp_mac W k v \<noteq> [])"

text \<open>
  C33: A login works, and only for the account of the form: when it redirects, the address of the form,
  normalised, is that of a stored account and the password of the form is right for this account, and
  the response sets a session cookie whose token's hash is stored for this account for twelve hours; a
  later request that carries the cookie, while the session is stored, is authenticated as this account
  when the lookup has no fault and the clocks of the database and of the process, as that request
  reads them, are before the expiry.
\<close>

theorem login_session_works:
  assumes "good_db R d" "crypto_ok W"
    and "login (pg_auth R W) rq d = (resp, d1)" "wr_outcome resp = Redirected loc"
  shows "\<exists>u form i c token x. u \<in> set (ac_users (rows d)) \<and> rq_form rq = Some form \<and>
    normalizeLoginIdentifier (pg_auth R W) (form_get form ''email'') = Some i \<and> u_email u = lower_trim R i \<and>
    wp_check W (u_password u) (form_get form ''password'') \<and> c \<in> set (wr_cookies resp) \<and> ck_name c = SessionCookieName \<and>
    good_db R d1 \<and> session_view d1 (HashSessionToken (wp_sha W) token) = Some (u_id u, x) \<and>
    x = wp_now W (Suc (tick d)) + session_lifetime \<and>
    (\<forall>rq2 d2. request_cookie rq2 SessionCookieName = Some (ck_value c) \<and> good_db R d2 \<and>
       session_view d2 (HashSessionToken (wp_sha W) token) = session_view d1 (HashSessionToken (wp_sha W) token) \<and>
       db_awake R d2 x \<and> wp_now W (Suc (tick d2)) < x \<longrightarrow>
       (\<exists>p d3. authenticate (pg_auth R W) rq2 d2 = (Inr (Some (token, p)), d3) \<and> sr_user p = u_id u))"
proof -
  from login_started [OF assms(3,4)] obtain form i a s1 s2 where form: "rq_form rq = Some form"
    "normalizeLoginIdentifier (pg_auth R W) (form_get form ''email'') = Some i"
    and acc: "AccountByEmail R i d = (Inr a, s1)" and chk: "wp_check W (la_password a) (form_get form ''password'')" "s2 = s1"
    and start: "startSession (pg_auth R W) a LoginCSRFCookieName ''/login'' s2 = (resp, d1)" by auto
  from AccountByEmail_sound [OF acc] obtain u where d: "rows s1 = rows d" "tick s1 = Suc (tick d)"
    and u: "u \<in> set (ac_users (rows d))" "u_email u = lower_trim R i" "la_user a = u_id u" "la_password a = u_password u" by auto
  have ok: "good_db R s2" using assms(1) d chk(2) by (simp add: good_db_def)
  have "seat_view s2 (la_user a) \<noteq> None" using u d chk(2) by (auto simp: seat_view_def find_None_iff)
  from pg_sessions.started [OF ok _ _ this start assms(4)] obtain b where b: "wp_random W (tick s2) = Inr b"
    and st: "session_view d1 (HashSessionToken (wp_sha W) (b64_encode b)) = Some (u_id u, wp_now W (tick s2) + session_lifetime)"
      "good_db R d1" "hd (wr_cookies resp) = \<lparr>ck_name = SessionCookieName, ck_value = signedSessionValue (pg_auth R W) (b64_encode b),
         ck_path = ''/'', ck_expires = wp_now W (tick s2) + session_lifetime, ck_max_age = 43200, ck_secure = au_secure (pg_auth R W)\<rparr>"
    using u(3) by auto
  let ?token = "b64_encode b" and ?x = "wp_now W (Suc (tick d)) + session_lifetime" and ?c = "hd (wr_cookies resp)"
  have x: "wp_now W (tick s2) + session_lifetime = ?x" using d(2) chk(2) by simp
  have "length b = 32" using assms(2) b unfolding crypto_ok_def by blast
  then have "b \<noteq> []" by auto
  then have token: "?token \<noteq> []" by (rule b64_nonempty)
  have c: "?c \<in> set (wr_cookies resp)" using start assms(4) by (auto simp: startSession_def Let_def split: prod.splits sum.splits)
  have later: "\<exists>p d3. authenticate (pg_auth R W) rq2 d2 = (Inr (Some (?token, p)), d3) \<and> sr_user p = u_id u"
    if "request_cookie rq2 SessionCookieName = Some (ck_value ?c)" "good_db R d2"
      "session_view d2 (HashSessionToken (wp_sha W) ?token) = session_view d1 (HashSessionToken (wp_sha W) ?token)"
      "db_awake R d2 ?x" "wp_now W (Suc (tick d2)) < ?x" for rq2 d2
    using that token assms(2) st x
    by (intro pg_sessions.authenticate_live [of R d2 "pg_auth R W" rq2 ?token "u_id u" ?x])
      (auto simp: crypto_ok_def dest: SessionByHash_tick)
  show ?thesis
    using u chk form c st x later
    by (intro exI [of _ u] exI [of _ form] exI [of _ i] exI [of _ ?c] exI [of _ ?token] exI [of _ ?x] conjI allI impI)
      (elim conjE, blast | simp)+
qed

section \<open>What a logout takes away\<close>

text \<open>Every session that is stored after a statement was there before or is the one it saves.\<close>

lemma helper_sessions [simp]:
  "insert_user u t = Inr t' \<Longrightarrow> ac_sessions t' = ac_sessions t"
  "insert_invitation Q i t = Inr t' \<Longrightarrow> ac_sessions t' = ac_sessions t"
  "insert_company Q c t = Inr t' \<Longrightarrow> ac_sessions t' = ac_sessions t"
  "ac_sessions (insert_schedule k t) = ac_sessions t"
  by (auto simp: insert_user_def insert_invitation_def insert_company_def insert_schedule_def split: if_splits)

lemma company_for_sessions [simp]: "company_for Q now k n c t = Inr (i, t') \<Longrightarrow> ac_sessions t' = ac_sessions t"
  by (auto simp: company_for_def and_then_Inr Let_def split: option.splits if_splits)

lemma effect_sessions:
  assumes "effect R n c t = Inr t'" "s \<in> set (ac_sessions t')"
  shows "s \<in> set (ac_sessions t) \<or> (\<exists>r. c = DoSaveSession r \<and> ss_hash s = sr_hash r)"
proof (cases c)
  case (DoSaveSession r)
  with assms show ?thesis by (auto simp: and_then_Inr auth_session_create_def split: if_splits)
next
  case (DoDeleteSession h)
  with assms show ?thesis by (auto simp: auth_session_delete_def split: if_splits)
next
  case (DoCreateAccount e p)
  with assms show ?thesis by (auto simp: map_sum_Inr signup_create_account_def Let_def and_then_Inr split: if_splits)
next
  case (DoSetAccess a u i r)
  with assms show ?thesis by (auto simp: and_then_Inr admin_set_account_access_def Let_def split: if_splits option.splits)
next
  case (DoRegister a m co ad e)
  with assms show ?thesis by (auto simp: and_then_Inr map_sum_Inr admin_register_tenant_def Let_def split: if_splits)
next
  case (DoRemove a i u)
  with assms show ?thesis by (auto simp: and_then_Inr tenant_remove_member_def Let_def split: if_splits option.splits)
next
  case (DoDelete a u)
  with assms show ?thesis by (auto simp: and_then_Inr admin_delete_account_def Let_def split: if_splits option.splits)
next
  case (DoInviteTenant x)
  with assms show ?thesis by (auto simp: and_then_Inr onboarding_create_tenant_def Let_def split: if_splits option.splits)
next
  case (DoInviteMember x)
  with assms show ?thesis by (auto simp: and_then_Inr onboarding_invite_member_def Let_def split: if_splits option.splits)
next
  case (DoAccept h m p)
  with assms show ?thesis
    by (auto simp: and_then_Inr map_sum_Inr onboarding_accept_invitation_def Let_def split: if_splits option.splits)
qed

lemma run_sessions:
  assumes "s \<in> set (ac_sessions (rows (account_run R cs d)))" "\<forall>r. DoSaveSession r \<in> set cs \<longrightarrow> sr_hash r \<noteq> ss_hash s"
  shows "s \<in> set (ac_sessions (rows d))"
  using assms
proof (induction cs arbitrary: d)
  case (Cons c cs)
  obtain r d' where e: "exec R c d = (r, d')" by fastforce
  have "s \<in> set (ac_sessions (rows d'))" using Cons e by (auto simp: account_run_def)
  with exec_effect [OF e] effect_sessions [of R "tick d" c "rows d" "rows d'" s] Cons.prems(2) show ?case
    by (cases r) auto
qed (simp add: account_run_def)

text \<open>
  A session that was logged out stays out: after a logout that succeeded, whatever operations of the
  repository follow, with any faults and clocks, no request is authenticated with a token of the same
  hash unless a later login stores one.
\<close>

theorem logged_out_stays_out:
  assumes "authenticate (pg_auth R W) rq d = (Inr (Some (token, p)), d0)" "good_db R d"
    and "ServeHTTP (pg_auth R W) rq d = (resp, d1)" "rq_path rq = ''/logout''" "wr_outcome resp = Redirected loc"
    and "\<forall>r. DoSaveSession r \<in> set cs \<longrightarrow> sr_hash r \<noteq> sr_hash p"
    and "authenticate (pg_auth R W) rq2 (account_run R cs d1) = (Inr (Some (token2, q)), d3)"
  shows "HashSessionToken (wp_sha W) token2 \<noteq> HashSessionToken (wp_sha W) token"
proof
  assume same: "HashSessionToken (wp_sha W) token2 = HashSessionToken (wp_sha W) token"
  have sp: "SessionByHash R (HashSessionToken (wp_sha W) token) d = (Inr p, d0)" and hp: "sr_hash p = HashSessionToken (wp_sha W) token"
    using assms(1) by (auto simp: authenticate_def Let_def split: option.splits prod.splits sum.splits if_splits)
  have "rows d0 = rows d" using SessionByHash_sound [OF sp] by auto
  then have ok: "good_db R d0" using assms(2) by (simp add: good_db_def)
  have ne: "sr_hash p \<noteq> []" using sp hp by (auto simp: SessionByHash_def sql_fail_def split: if_splits)
  obtain r where "logout (pg_auth R W) rq p d0 = (r, d1)" "wr_outcome r = Redirected loc"
    using assms(1,3-5)
    by (cases "logout (pg_auth R W) rq p d0")
      (auto simp: ServeHTTP_def dispatch_def serve_page_def serve_session_def Let_def has_prefix_def split: if_splits option.splits)
  then obtain u where "DeleteSession R (sr_hash p) d0 = (Inr u, d1)"
    by (auto simp: logout_def method_not_allowed_def split: if_splits prod.splits sum.splits)
  from DeleteSession_removes [OF ok ne this] have gone: "session_view d1 (sr_hash p) = None" by simp
  have "SessionByHash R (sr_hash p) (account_run R cs d1) = (Inr q, d3)"
    using assms(7) same hp by (auto simp: authenticate_def Let_def split: option.splits prod.splits sum.splits if_splits)
  from SessionByHash_sound [OF this] obtain s x where "auth_session_lookup x (sr_hash p) (rows (account_run R cs d1)) = Some s" by blast
  then obtain s where s: "s \<in> set (ac_sessions (rows (account_run R cs d1)))" "ss_hash s = sr_hash p"
    by (auto simp: auth_session_lookup_def split: option.splits dest: find_mem)
  from run_sessions [OF s(1)] assms(6) s(2) have "s \<in> set (ac_sessions (rows d1))" by simp
  with gone s(2) show False by (auto simp: session_view_def find_None_iff)
qed

section \<open>What a login attempt costs\<close>

text \<open>An environment whose state counts the password checks.\<close>

definition counting :: "('s \<Rightarrow> nat) \<Rightarrow> 's auth_env \<Rightarrow> bool" where
  "counting n A \<longleftrightarrow>
     (\<forall>h p s. n (snd (au_check A h p s)) = Suc (n s)) \<and> (\<forall>e s. n (snd (au_account A e s)) = n s) \<and>
     (\<forall>s. n (snd (au_random A s)) = n s) \<and> (\<forall>r s. n (snd (au_save A r s)) = n s)"

lemma counting_result:
  assumes "counting n A"
  shows "au_check A h p s = (b, s') \<Longrightarrow> n s' = Suc (n s)" "au_account A e s = (a, s') \<Longrightarrow> n s' = n s"
    "au_random A s = (x, s') \<Longrightarrow> n s' = n s" "au_save A r s = (y, s') \<Longrightarrow> n s' = n s"
  using assms unfolding counting_def by (metis snd_conv)+

lemma startSession_checks:
  assumes "counting n A"
  shows "n (snd (startSession A account c path s)) = n s"
  by (auto simp: startSession_def Let_def split: prod.split sum.split dest!: counting_result [OF assms])

text \<open>
  A login attempt checks exactly one password, known account or not, right password or not: the
  time it takes does not tell whether an address has an account.
\<close>

theorem login_checks_one_password:
  assumes "counting n A" "rq_form rq = Some form" "csrf_ok A rq form LoginCSRFCookieName ''login-csrf''"
  shows "n (snd (login A rq s)) = Suc (n s)"
  using assms(2,3)
  by (auto simp: login_def Let_def startSession_checks [OF assms(1)] split: prod.split dest!: counting_result [OF assms(1)])

section \<open>A small web\<close>

text \<open>The digest of a text is its length as one character, and so is its signature.\<close>

definition small_web :: web_params where
  "small_web =
     \<lparr>wp_key = ''k'', wp_secure = True, wp_sha = (\<lambda>s. char_of (length s) # s), wp_mac = (\<lambda>k s. char_of (length s) # s),
      wp_address = Some, wp_fold_eq = (=), wp_now = (\<lambda>n. 1000), wp_random = (\<lambda>n. Inr (replicate 32 CHR ''r'')),
      wp_check = (\<lambda>h p. h = p), wp_hash = Inr\<rparr>"

lemma small_web_sel [simp]:
  "wp_sha small_web s = char_of (length s) # s" "wp_mac small_web k s = char_of (length s) # s" "wp_now small_web n = 1000"
  "wp_random small_web n = Inr (replicate 32 CHR ''r'')" "wp_check small_web h p = (h = p)"
  by (simp_all add: small_web_def)

definition small_token :: string where "small_token = ''t''"

lemma small_hash: "HashSessionToken (wp_sha small_web) small_token = ''0174''"
  by code_simp

definition small_request :: "string \<Rightarrow> string \<Rightarrow> http_request" where
  "small_request m path =
     \<lparr>rq_method = m, rq_path = path,
      rq_cookies = [(SessionCookieName, signedSessionValue (pg_auth small_env small_web) small_token)],
      rq_form = Some [(''_csrf'', csrfToken (pg_auth small_env small_web) small_token)]\<rparr>"

lemma small_request_sel [simp]:
  "rq_method (small_request m path) = m" "rq_path (small_request m path) = path"
  "rq_form (small_request m path) = Some [(''_csrf'', csrfToken (pg_auth small_env small_web) small_token)]"
  by (simp_all add: small_request_def)

definition small_sessions :: "accounts db" where
  "small_sessions = small_db\<lparr>rows := small_accounts
     \<lparr>ac_sessions := [\<lparr>ss_user = ''ann'', ss_hash = HashSessionToken (wp_sha small_web) small_token, ss_expires = 2000\<rparr>]\<rparr>\<rparr>"

lemma small_session_facts:
  "good_db small_env small_sessions" "accounts_ok (ae_text small_env) (rows small_sessions)"
  by (simp_all add: small_env_def small_sessions_def small_db_def small_accounts_def accounts_ok_def users_ok_def sessions_ok_def
      invites_ok_def companies_ok_def addresses_ok_def company_exists_def role_scope_def good_db_def)

definition small_principal :: session_record where
  "small_principal = \<lparr>sr_user = ''ann'', sr_tenant = [], sr_email = ''ann@x'', sr_hash = HashSessionToken (wp_sha small_web) small_token,
     sr_role = Member, sr_expires = 2000\<rparr>"

lemma small_authenticate:
  assumes "rq_cookies rq = rq_cookies (small_request [] [])"
  shows "authenticate (pg_auth small_env small_web) rq small_sessions = (Inr (Some (small_token, small_principal)), small_sessions\<lparr>tick := 1\<rparr>)"
proof -
  have "request_cookie rq SessionCookieName = Some (signedSessionValue (pg_auth small_env small_web) small_token)"
    by (simp add: request_cookie_def assms small_request_def)
  moreover have "verifySignedSession (pg_auth small_env small_web) (signedSessionValue (pg_auth small_env small_web) small_token) = (small_token, True)"
    unfolding verifySignedSession_def signedSessionValue_def by (rule verify_signed_value) (simp_all add: small_token_def)
  moreover have "SessionByHash small_env (HashSessionToken (wp_sha small_web) small_token) small_sessions = (Inr small_principal, small_sessions\<lparr>tick := 1\<rparr>)"
    by (simp add: SessionByHash_def small_env_def small_sessions_def small_db_def small_accounts_def sql_bind_def map_error_def read_row_def
        query_row_def sql_stmt_def auth_session_lookup_def sql_return_def role_valid_def tenant_text_def small_principal_def
        HashSessionToken_def)
  ultimately show ?thesis by (simp add: authenticate_def Let_def small_principal_def)
qed

theorem principal_is_current_witness:
  "\<exists>u \<in> set (ac_users (rows small_sessions)). u_id u = ''ann''"
proof -
  have a: "authenticate (pg_auth small_env small_web) (small_request ''GET'' ''/x'') small_sessions
      = (Inr (Some (small_token, small_principal)), small_sessions\<lparr>tick := 1\<rparr>)"
    by (rule small_authenticate) (simp add: small_request_def)
  have "ServeHTTP (pg_auth small_env small_web) (small_request ''GET'' ''/x'') small_sessions =
      (with_header ''Cache-Control'' ''private, no-store''
        (respond (Passed (Some small_principal) (Some (csrfToken (pg_auth small_env small_web) small_token)))), small_sessions\<lparr>tick := 1\<rparr>)"
    by (simp add: ServeHTTP_def dispatch_def serve_page_def a serve_session_def unsafeMethod_def has_prefix_def small_principal_def)
  from principal_is_current [OF small_session_facts(2) this] show ?thesis by (auto simp: small_principal_def)
qed

theorem logged_out_stays_out_witness:
  "\<not> (\<exists>token2 q d3. HashSessionToken (wp_sha small_web) token2 = HashSessionToken (wp_sha small_web) small_token \<and>
     authenticate (pg_auth small_env small_web) (small_request ''GET'' ''/x'')
       (account_run small_env [give_ann] (small_sessions\<lparr>rows := small_accounts, tick := 2\<rparr>)) = (Inr (Some (token2, q)), d3))"
proof -
  let ?A = "pg_auth small_env small_web" and ?rq = "small_request ''POST'' ''/logout''" and ?d0 = "small_sessions\<lparr>tick := 1\<rparr>"
  have a: "authenticate ?A ?rq small_sessions = (Inr (Some (small_token, small_principal)), ?d0)"
    by (rule small_authenticate) (simp add: small_request_def)
  have "DeleteSession small_env (sr_hash small_principal) ?d0 = (Inr (), small_sessions\<lparr>rows := small_accounts, tick := 2\<rparr>)"
    by (simp add: DeleteSession_def small_env_def small_principal_def small_sessions_def small_db_def small_accounts_def sql_wrap_def
        change_def sql_stmt_def auth_session_delete_def small_hash btrim_def is_blank_def byte_def)
  then have "\<exists>resp. ServeHTTP ?A ?rq small_sessions = (resp, small_sessions\<lparr>rows := small_accounts, tick := 2\<rparr>) \<and>
      wr_outcome resp = Redirected ''/login''"
    by (simp add: ServeHTTP_def dispatch_def serve_page_def a serve_session_def unsafeMethod_def has_prefix_def small_principal_def logout_def
        form_get_def constantEqual_def)
  then obtain resp where r: "ServeHTTP ?A ?rq small_sessions = (resp, small_sessions\<lparr>rows := small_accounts, tick := 2\<rparr>)"
    "wr_outcome resp = Redirected ''/login''" by blast
  show ?thesis
    using logged_out_stays_out [OF a small_session_facts(1) r(1) _ r(2), of "[give_ann]"] by (auto simp: give_ann_def)
qed

definition login_cookie :: "string \<times> string" where
  "login_cookie = (LoginCSRFCookieName, signed_value (pg_auth small_env small_web) ''login-csrf'' small_token)"

definition login_request :: http_request where
  "login_request =
     \<lparr>rq_method = ''POST'', rq_path = ''/login'', rq_cookies = [login_cookie],
      rq_form = Some [(''_csrf'', small_token), (''email'', ''ann@x''), (''password'', [])]\<rparr>"

lemma login_csrf:
  assumes "au_sha A = wp_sha small_web" "au_mac A = wp_mac small_web" "au_key A = wp_key small_web"
    and "rq_cookies rq = [login_cookie]" "form_get form ''_csrf'' = small_token"
  shows "csrf_ok A rq form LoginCSRFCookieName ''login-csrf''"
proof -
  have "signed_value (pg_auth small_env small_web) ''login-csrf'' small_token = signed_value A ''login-csrf'' small_token"
    using assms(2,3) by (simp add: signed_value_def sign_def)
  moreover have "verify_signed A ''login-csrf'' (signed_value A ''login-csrf'' small_token) = (small_token, True)"
    by (rule verify_signed_value) (simp_all add: small_token_def assms)
  ultimately show ?thesis using assms(4,5)
    by (simp add: csrf_ok_def anonymousCSRFToken_def request_cookie_def login_cookie_def constantEqual_def)
qed

lemma ann_name: "trim_space ''ann@x'' = ''ann@x''" "to_lower (\<lambda>r. r) ''ann@x'' = ''ann@x''"
proof -
  show "trim_space ''ann@x'' = ''ann@x''" by (rule trim_space_visible) (simp_all add: visible_def byte_def)
  show "to_lower (\<lambda>r. r) ''ann@x'' = ''ann@x''" by code_simp
qed

lemma small_session_hash:
  "HashSessionToken (wp_sha small_web) (b64_encode (replicate 32 CHR ''r'')) \<noteq> []"
  "btrim (HashSessionToken (wp_sha small_web) (b64_encode (replicate 32 CHR ''r''))) \<noteq> []"
  by code_simp+

lemma small_start:
  assumes "la_user a = ''ann''"
  shows "wr_outcome (fst (startSession (pg_auth small_env small_web) a n path (small_db\<lparr>tick := 1\<rparr>))) = Redirected ''/dashboard''"
proof -
  have "\<exists>d'. SaveSession small_env \<lparr>sr_user = ''ann'', sr_tenant = la_tenant a, sr_email = la_email a,
      sr_hash = HashSessionToken (wp_sha small_web) (b64_encode (replicate 32 CHR ''r'')), sr_role = la_role a,
      sr_expires = 1000 + session_lifetime\<rparr> (small_db\<lparr>tick := 1\<rparr>) = (Inr (), d')"
    by (simp only: SaveSession_def session_record.simps)
      (simp add: small_session_hash small_env_def small_db_def small_accounts_def sql_wrap_def is_zero_def session_lifetime_def
        change_def sql_stmt_def auth_session_create_def cast_uuid_def and_then_def)
  then show ?thesis using assms by (auto simp: startSession_def NewSession_def newOpaqueToken_def Let_def)
qed

lemma small_login:
  "\<exists>resp d1. login (pg_auth small_env small_web) login_request small_db = (resp, d1) \<and> wr_outcome resp = Redirected ''/dashboard''"
proof -
  let ?A = "pg_auth small_env small_web"
  have csrf: "csrf_ok ?A login_request [(''_csrf'', small_token), (''email'', ''ann@x''), (''password'', [])] LoginCSRFCookieName ''login-csrf''"
    by (rule login_csrf) (simp_all add: login_request_def form_get_def)
  have name: "normalizeLoginIdentifier ?A ''ann@x'' = Some ''ann@x''"
    by (simp add: normalizeLoginIdentifier_def normalizeMailbox_def Let_def ann_name pg_auth_def small_env_def small_web_def)
  have "AccountByEmail small_env ''ann@x'' small_db = (Inr \<lparr>la_user = ''ann'', la_tenant = [], la_email = ''ann@x'', la_password = [], la_role = Member\<rparr>,
      small_db\<lparr>tick := 1\<rparr>)"
    by (simp add: AccountByEmail_def lower_trim_def ann_name small_env_def small_db_def small_accounts_def sql_bind_def map_error_def
        read_row_def query_row_def sql_stmt_def auth_account_lookup_def sql_return_def role_valid_def tenant_text_def)
  then have "login ?A login_request small_db = startSession ?A
      \<lparr>la_user = ''ann'', la_tenant = [], la_email = ''ann@x'', la_password = [], la_role = Member\<rparr> LoginCSRFCookieName ''/login'' (small_db\<lparr>tick := 1\<rparr>)"
    using csrf name by (simp add: login_def login_request_def form_get_def Let_def role_valid_def)
  then show ?thesis using small_start [of "\<lparr>la_user = ''ann'', la_tenant = [], la_email = ''ann@x'', la_password = [], la_role = Member\<rparr>"]
    by (metis login_account.select_convs(1) prod.collapse)
qed

definition later_request :: "string \<Rightarrow> http_request" where
  "later_request v = \<lparr>rq_method = ''GET'', rq_path = ''/dashboard'', rq_cookies = [(SessionCookieName, v)], rq_form = None\<rparr>"

theorem login_session_works_witness:
  "\<exists>c token p d3. c \<in> set (wr_cookies (fst (login (pg_auth small_env small_web) login_request small_db))) \<and>
     authenticate (pg_auth small_env small_web) (later_request (ck_value c))
       (snd (login (pg_auth small_env small_web) login_request small_db)) = (Inr (Some (token, p)), d3) \<and> sr_user p = ''ann''"
proof -
  obtain resp d1 where l: "login (pg_auth small_env small_web) login_request small_db = (resp, d1)" "wr_outcome resp = Redirected ''/dashboard''"
    using small_login by blast
  have good: "good_db small_env small_db" using small_facts by (simp add: good_db_def small_env_def small_db_def)
  have crypto: "crypto_ok small_web" by (auto simp: crypto_ok_def)
  from login_session_works [OF good crypto l] obtain u form i c token x where
    u: "u \<in> set (ac_users (rows small_db))" "u_email u = lower_trim small_env i"
    and i: "rq_form login_request = Some form" "normalizeLoginIdentifier (pg_auth small_env small_web) (form_get form ''email'') = Some i"
    and c: "c \<in> set (wr_cookies resp)" and d1: "good_db small_env d1"
    and x0: "x = wp_now small_web (Suc (tick small_db)) + session_lifetime"
    and later: "\<forall>rq2 d2. request_cookie rq2 SessionCookieName = Some (ck_value c) \<and> good_db small_env d2 \<and>
       session_view d2 (HashSessionToken (wp_sha small_web) token) = session_view d1 (HashSessionToken (wp_sha small_web) token) \<and>
       db_awake small_env d2 x \<and> wp_now small_web (Suc (tick d2)) < x \<longrightarrow>
       (\<exists>p d3. authenticate (pg_auth small_env small_web) rq2 d2 = (Inr (Some (token, p)), d3) \<and> sr_user p = u_id u)"
    by (elim exE conjE) rule
  have x: "x = 1000 + session_lifetime" using x0 by simp
  have "normalizeLoginIdentifier (pg_auth small_env small_web) ''ann@x'' = Some ''ann@x''"
    by (simp add: normalizeLoginIdentifier_def normalizeMailbox_def Let_def ann_name pg_auth_def small_env_def small_web_def)
  with i have "i = ''ann@x''" by (auto simp: login_request_def form_get_def)
  then have "u_email u = ''ann@x''" using u(2) by (simp add: lower_trim_def ann_name small_env_def)
  then have ann: "u_id u = ''ann''" using u(1) by (auto simp: small_db_def small_accounts_def)
  have "request_cookie (later_request (ck_value c)) SessionCookieName = Some (ck_value c)"
    by (simp add: request_cookie_def later_request_def)
  moreover have "db_awake small_env d1 x" "wp_now small_web (Suc (tick d1)) < x"
    using x by (simp_all add: db_awake_def small_env_def session_lifetime_def)
  ultimately obtain p d3 where "authenticate (pg_auth small_env small_web) (later_request (ck_value c)) d1 = (Inr (Some (token, p)), d3)" "sr_user p = u_id u"
    using later d1 by blast
  with l(1) c ann show ?thesis by auto
qed

definition count_env :: "nat auth_env" where
  "count_env =
     \<lparr>au_key = wp_key small_web, au_secure = True, au_sha = wp_sha small_web, au_mac = wp_mac small_web, au_lower = (\<lambda>r. r),
      au_address = Some, au_fold_eq = (=), au_now = int, au_random = (\<lambda>n. (Inr [], n)), au_check = (\<lambda>h p n. (False, Suc n)),
      au_hash_password = (\<lambda>p n. (Inr p, n)), au_account = (\<lambda>e n. (Inl (Sentinel ErrUnauthenticated), n)),
      au_create = (\<lambda>e p n. (Inl (Sentinel ErrUnauthenticated), n)), au_save = (\<lambda>r n. (Inr (), n)),
      au_session = (\<lambda>h n. (Inl (Sentinel ErrUnauthenticated), n)), au_delete = (\<lambda>h n. (Inr (), n))\<rparr>"

theorem login_checks_one_password_witness:
  "snd (login count_env login_request 0) = 1"
proof -
  have "csrf_ok count_env login_request [(''_csrf'', small_token), (''email'', ''ann@x''), (''password'', [])] LoginCSRFCookieName ''login-csrf''"
    by (rule login_csrf) (simp_all add: login_request_def form_get_def count_env_def)
  moreover have "counting id count_env" by (simp add: counting_def count_env_def)
  ultimately show ?thesis using login_checks_one_password [of id count_env login_request] by (simp add: login_request_def)
qed

end
