(* ===== verification/Web_Text.thy ===== *)
theory Web_Text
  imports Go_Prelude
begin

text \<open>
  The texts of internal/web/handler.go and internal/web/api_key.go as UTF-8 bytes, in the order of the
  files.
\<close>

definition w_no_user :: string where
  "w_no_user =
     [CHR 0xEC, CHR 0x82, CHR 0xAC, CHR 0xEC, CHR 0x9A, CHR 0xA9, CHR 0xEC, CHR 0x9E, CHR 0x90,
      CHR 0x20, CHR 0xEC, CHR 0xA0, CHR 0x95, CHR 0xEB, CHR 0xB3, CHR 0xB4, CHR 0xEB, CHR 0xA5,
      CHR 0xBC, CHR 0x20, CHR 0xED, CHR 0x99, CHR 0x95, CHR 0xEC, CHR 0x9D, CHR 0xB8, CHR 0xED,
      CHR 0x95, CHR 0x98, CHR 0xEC, CHR 0xA7, CHR 0x80, CHR 0x20, CHR 0xEB, CHR 0xAA, CHR 0xBB,
      CHR 0xED, CHR 0x96, CHR 0x88, CHR 0xEC, CHR 0x8A, CHR 0xB5, CHR 0xEB, CHR 0x8B, CHR 0x88,
      CHR 0xEB, CHR 0x8B, CHR 0xA4, CHR 0x2E]"

definition w_platform_only :: string where
  "w_platform_only =
     [CHR 0xED, CHR 0x94, CHR 0x8C, CHR 0xEB, CHR 0x9E, CHR 0xAB, CHR 0xED, CHR 0x8F, CHR 0xBC,
      CHR 0x20, CHR 0xEA, CHR 0xB4, CHR 0x80, CHR 0xEB, CHR 0xA6, CHR 0xAC, CHR 0xEC, CHR 0x9E,
      CHR 0x90, CHR 0x20, CHR 0xEA, CHR 0xB6, CHR 0x8C, CHR 0xED, CHR 0x95, CHR 0x9C, CHR 0xEC,
      CHR 0x9D, CHR 0xB4, CHR 0x20, CHR 0xED, CHR 0x95, CHR 0x84, CHR 0xEC, CHR 0x9A, CHR 0x94,
      CHR 0xED, CHR 0x95, CHR 0xA9, CHR 0xEB, CHR 0x8B, CHR 0x88, CHR 0xEB, CHR 0x8B, CHR 0xA4,
      CHR 0x2E]"

definition w_no_data :: string where
  "w_no_data =
     [CHR 0xED, CHR 0x99, CHR 0x94, CHR 0xEB, CHR 0xA9, CHR 0xB4, CHR 0x20, CHR 0xEB, CHR 0x8D,
      CHR 0xB0, CHR 0xEC, CHR 0x9D, CHR 0xB4, CHR 0xED, CHR 0x84, CHR 0xB0, CHR 0xEB, CHR 0xA5,
      CHR 0xBC, CHR 0x20, CHR 0xEB, CHR 0xB6, CHR 0x88, CHR 0xEB, CHR 0x9F, CHR 0xAC, CHR 0xEC,
      CHR 0x98, CHR 0xA4, CHR 0xEC, CHR 0xA7, CHR 0x80, CHR 0x20, CHR 0xEB, CHR 0xAA, CHR 0xBB,
      CHR 0xED, CHR 0x96, CHR 0x88, CHR 0xEC, CHR 0x8A, CHR 0xB5, CHR 0xEB, CHR 0x8B, CHR 0x88,
      CHR 0xEB, CHR 0x8B, CHR 0xA4, CHR 0x2E]"

definition w_login_title :: string where
  "w_login_title =
     [CHR 0xEB, CHR 0xA1, CHR 0x9C, CHR 0xEA, CHR 0xB7, CHR 0xB8, CHR 0xEC, CHR 0x9D, CHR 0xB8]"

definition w_accepted :: string where
  "w_accepted =
     [CHR 0xEA, CHR 0xB3, CHR 0x84, CHR 0xEC, CHR 0xA0, CHR 0x95, CHR 0xEC, CHR 0x9D, CHR 0x84,
      CHR 0x20, CHR 0xEB, CHR 0xA7, CHR 0x8C, CHR 0xEB, CHR 0x93, CHR 0xA4, CHR 0xEC, CHR 0x97,
      CHR 0x88, CHR 0xEC, CHR 0x8A, CHR 0xB5, CHR 0xEB, CHR 0x8B, CHR 0x88, CHR 0xEB, CHR 0x8B,
      CHR 0xA4, CHR 0x2E, CHR 0x20, CHR 0xEC, CHR 0x83, CHR 0x88, CHR 0x20, CHR 0xEB, CHR 0xB9,
      CHR 0x84, CHR 0xEB, CHR 0xB0, CHR 0x80, CHR 0xEB, CHR 0xB2, CHR 0x88, CHR 0xED, CHR 0x98,
      CHR 0xB8, CHR 0xEB, CHR 0xA1, CHR 0x9C, CHR 0x20, CHR 0xEB, CHR 0xA1, CHR 0x9C, CHR 0xEA,
      CHR 0xB7, CHR 0xB8, CHR 0xEC, CHR 0x9D, CHR 0xB8, CHR 0xED, CHR 0x95, CHR 0x98, CHR 0xEC,
      CHR 0x84, CHR 0xB8, CHR 0xEC, CHR 0x9A, CHR 0x94, CHR 0x2E]"

definition w_signup_title :: string where
  "w_signup_title =
     [CHR 0xED, CHR 0x9A, CHR 0x8C, CHR 0xEC, CHR 0x9B, CHR 0x90, CHR 0xEA, CHR 0xB0, CHR 0x80,
      CHR 0xEC, CHR 0x9E, CHR 0x85]"

definition w_no_invites :: string where
  "w_no_invites =
     [CHR 0xEC, CHR 0xB4, CHR 0x88, CHR 0xEB, CHR 0x8C, CHR 0x80, CHR 0x20, CHR 0xEA, CHR 0xB8,
      CHR 0xB0, CHR 0xEB, CHR 0x8A, CHR 0xA5, CHR 0xEC, CHR 0x9D, CHR 0x84, CHR 0x20, CHR 0xEC,
      CHR 0x82, CHR 0xAC, CHR 0xEC, CHR 0x9A, CHR 0xA9, CHR 0xED, CHR 0x95, CHR 0xA0, CHR 0x20,
      CHR 0xEC, CHR 0x88, CHR 0x98, CHR 0x20, CHR 0xEC, CHR 0x97, CHR 0x86, CHR 0xEC, CHR 0x8A,
      CHR 0xB5, CHR 0xEB, CHR 0x8B, CHR 0x88, CHR 0xEB, CHR 0x8B, CHR 0xA4]"

definition w_ask_admin :: string where
  "w_ask_admin =
     [CHR 0xEA, CHR 0xB4, CHR 0x80, CHR 0xEB, CHR 0xA6, CHR 0xAC, CHR 0xEC, CHR 0x9E, CHR 0x90,
      CHR 0xEC, CHR 0x97, CHR 0x90, CHR 0xEA, CHR 0xB2, CHR 0x8C, CHR 0x20, CHR 0xEB, CHR 0xAC,
      CHR 0xB8, CHR 0xEC, CHR 0x9D, CHR 0x98, CHR 0xED, CHR 0x95, CHR 0xB4, CHR 0x20, CHR 0xEC,
      CHR 0xA3, CHR 0xBC, CHR 0xEC, CHR 0x84, CHR 0xB8, CHR 0xEC, CHR 0x9A, CHR 0x94, CHR 0x2E]"

definition w_check_link_title :: string where
  "w_check_link_title =
     [CHR 0xEC, CHR 0xB4, CHR 0x88, CHR 0xEB, CHR 0x8C, CHR 0x80, CHR 0x20, CHR 0xEB, CHR 0xA7,
      CHR 0x81, CHR 0xED, CHR 0x81, CHR 0xAC, CHR 0xEB, CHR 0xA5, CHR 0xBC, CHR 0x20, CHR 0xED,
      CHR 0x99, CHR 0x95, CHR 0xEC, CHR 0x9D, CHR 0xB8, CHR 0xED, CHR 0x95, CHR 0xB4, CHR 0x20,
      CHR 0xEC, CHR 0xA3, CHR 0xBC, CHR 0xEC, CHR 0x84, CHR 0xB8, CHR 0xEC, CHR 0x9A, CHR 0x94]"

definition w_newest_link :: string where
  "w_newest_link =
     [CHR 0xEB, CHR 0xA9, CHR 0x94, CHR 0xEC, CHR 0x9D, CHR 0xBC, CHR 0xEC, CHR 0x97, CHR 0x90,
      CHR 0x20, CHR 0xEC, CHR 0x9E, CHR 0x88, CHR 0xEB, CHR 0x8A, CHR 0x94, CHR 0x20, CHR 0xEC,
      CHR 0xB5, CHR 0x9C, CHR 0xEC, CHR 0x8B, CHR 0xA0, CHR 0x20, CHR 0xEC, CHR 0xB4, CHR 0x88,
      CHR 0xEB, CHR 0x8C, CHR 0x80, CHR 0x20, CHR 0xEB, CHR 0xA7, CHR 0x81, CHR 0xED, CHR 0x81,
      CHR 0xAC, CHR 0xEB, CHR 0xA5, CHR 0xBC, CHR 0x20, CHR 0xEB, CHR 0x8B, CHR 0xA4, CHR 0xEC,
      CHR 0x8B, CHR 0x9C, CHR 0x20, CHR 0xEC, CHR 0x97, CHR 0xB4, CHR 0xEC, CHR 0x96, CHR 0xB4,
      CHR 0x20, CHR 0xEC, CHR 0xA3, CHR 0xBC, CHR 0xEC, CHR 0x84, CHR 0xB8, CHR 0xEC, CHR 0x9A,
      CHR 0x94, CHR 0x2E]"

definition w_accept_title :: string where
  "w_accept_title =
     [CHR 0xEC, CHR 0xB4, CHR 0x88, CHR 0xEB, CHR 0x8C, CHR 0x80, CHR 0x20, CHR 0xEC, CHR 0x88,
      CHR 0x98, CHR 0xEB, CHR 0x9D, CHR 0xBD]"

definition w_dashboard_title :: string where
  "w_dashboard_title =
     [CHR 0xEC, CHR 0x9E, CHR 0x85, CHR 0xEC, CHR 0xB0, CHR 0xB0, CHR 0xEA, CHR 0xB3, CHR 0xB5,
      CHR 0xEA, CHR 0xB3, CHR 0xA0, CHR 0x20, CHR 0xEB, CHR 0xAA, CHR 0xA8, CHR 0xEB, CHR 0x8B,
      CHR 0x88, CHR 0xED, CHR 0x84, CHR 0xB0, CHR 0xEB, CHR 0xA7, CHR 0x81]"

definition w_notices_title :: string where
  "w_notices_title =
     [CHR 0xEA, CHR 0xB3, CHR 0xB5, CHR 0xEA, CHR 0xB3, CHR 0xA0, CHR 0x20, CHR 0xEB, CHR 0xAA,
      CHR 0xA9, CHR 0xEB, CHR 0xA1, CHR 0x9D]"

definition w_no_notice :: string where
  "w_no_notice =
     [CHR 0xEC, CHR 0xB0, CHR 0xBE, CHR 0xEC, CHR 0x9D, CHR 0x84, CHR 0x20, CHR 0xEC, CHR 0x88,
      CHR 0x98, CHR 0x20, CHR 0xEC, CHR 0x97, CHR 0x86, CHR 0xEB, CHR 0x8A, CHR 0x94, CHR 0x20,
      CHR 0xEA, CHR 0xB3, CHR 0xB5, CHR 0xEA, CHR 0xB3, CHR 0xA0]"

definition w_check_notice :: string where
  "w_check_notice =
     [CHR 0xEA, CHR 0xB3, CHR 0xB5, CHR 0xEA, CHR 0xB3, CHR 0xA0, CHR 0x20, CHR 0xEB, CHR 0xB2,
      CHR 0x88, CHR 0xED, CHR 0x98, CHR 0xB8, CHR 0xEB, CHR 0xA5, CHR 0xBC, CHR 0x20, CHR 0xED,
      CHR 0x99, CHR 0x95, CHR 0xEC, CHR 0x9D, CHR 0xB8, CHR 0xED, CHR 0x95, CHR 0x98, CHR 0xEA,
      CHR 0xB1, CHR 0xB0, CHR 0xEB, CHR 0x82, CHR 0x98, CHR 0x20, CHR 0xEB, CHR 0xAA, CHR 0xA9,
      CHR 0xEB, CHR 0xA1, CHR 0x9D, CHR 0xEC, CHR 0x9C, CHR 0xBC, CHR 0xEB, CHR 0xA1, CHR 0x9C,
      CHR 0x20, CHR 0xEB, CHR 0x8F, CHR 0x8C, CHR 0xEC, CHR 0x95, CHR 0x84, CHR 0xEA, CHR 0xB0,
      CHR 0x80, CHR 0x20, CHR 0xEC, CHR 0xA3, CHR 0xBC, CHR 0xEC, CHR 0x84, CHR 0xB8, CHR 0xEC,
      CHR 0x9A, CHR 0x94, CHR 0x2E]"

definition w_notice_title :: string where
  "w_notice_title =
     [CHR 0xEA, CHR 0xB3, CHR 0xB5, CHR 0xEA, CHR 0xB3, CHR 0xA0, CHR 0x20, CHR 0xEC, CHR 0x83,
      CHR 0x81, CHR 0xEC, CHR 0x84, CHR 0xB8]"

definition w_not_in_filter :: string where
  "w_not_in_filter =
     [CHR 0xED, CHR 0x95, CHR 0x84, CHR 0xED, CHR 0x84, CHR 0xB0, CHR 0xEC, CHR 0x97, CHR 0x90,
      CHR 0x20, CHR 0xEC, CHR 0x97, CHR 0x86, CHR 0xEB, CHR 0x8A, CHR 0x94, CHR 0x20, CHR 0xEA,
      CHR 0xB3, CHR 0xB5, CHR 0xEA, CHR 0xB3, CHR 0xA0]"

definition w_back_to_filter :: string where
  "w_back_to_filter =
     [CHR 0xEC, CHR 0x84, CHR 0xA0, CHR 0xED, CHR 0x83, CHR 0x9D, CHR 0xED, CHR 0x95, CHR 0x9C,
      CHR 0x20, CHR 0xED, CHR 0x95, CHR 0x84, CHR 0xED, CHR 0x84, CHR 0xB0, CHR 0xEC, CHR 0x9D,
      CHR 0x98, CHR 0x20, CHR 0xEA, CHR 0xB3, CHR 0xB5, CHR 0xEA, CHR 0xB3, CHR 0xA0, CHR 0x20,
      CHR 0xEB, CHR 0xAA, CHR 0xA9, CHR 0xEB, CHR 0xA1, CHR 0x9D, CHR 0xEC, CHR 0x9C, CHR 0xBC,
      CHR 0xEB, CHR 0xA1, CHR 0x9C, CHR 0x20, CHR 0xEB, CHR 0x8F, CHR 0x8C, CHR 0xEC, CHR 0x95,
      CHR 0x84, CHR 0xEA, CHR 0xB0, CHR 0x80, CHR 0x20, CHR 0xEC, CHR 0xA3, CHR 0xBC, CHR 0xEC,
      CHR 0x84, CHR 0xB8, CHR 0xEC, CHR 0x9A, CHR 0x94, CHR 0x2E]"

definition w_tenant_only :: string where
  "w_tenant_only =
     [CHR 0xED, CHR 0x85, CHR 0x8C, CHR 0xEB, CHR 0x84, CHR 0x8C, CHR 0xED, CHR 0x8A, CHR 0xB8,
      CHR 0x20, CHR 0xEA, CHR 0xB4, CHR 0x80, CHR 0xEB, CHR 0xA6, CHR 0xAC, CHR 0xEC, CHR 0x9E,
      CHR 0x90, CHR 0x20, CHR 0xEA, CHR 0xB6, CHR 0x8C, CHR 0xED, CHR 0x95, CHR 0x9C, CHR 0xEC,
      CHR 0x9D, CHR 0xB4, CHR 0x20, CHR 0xED, CHR 0x95, CHR 0x84, CHR 0xEC, CHR 0x9A, CHR 0x94,
      CHR 0xED, CHR 0x95, CHR 0xA9, CHR 0xEB, CHR 0x8B, CHR 0x88, CHR 0xEB, CHR 0x8B, CHR 0xA4,
      CHR 0x2E]"

definition w_filters_title :: string where
  "w_filters_title =
     [CHR 0xED, CHR 0x95, CHR 0x84, CHR 0xED, CHR 0x84, CHR 0xB0, CHR 0x20, CHR 0xEA, CHR 0xB4,
      CHR 0x80, CHR 0xEB, CHR 0xA6, CHR 0xAC]"

definition w_reports_title :: string where
  "w_reports_title =
     [CHR 0xEB, CHR 0xA6, CHR 0xAC, CHR 0xED, CHR 0x8F, CHR 0xAC, CHR 0xED, CHR 0x8A, CHR 0xB8]"

definition w_report_requested :: string where
  "w_report_requested =
     [CHR 0xEB, CHR 0xA6, CHR 0xAC, CHR 0xED, CHR 0x8F, CHR 0xAC, CHR 0xED, CHR 0x8A, CHR 0xB8,
      CHR 0x20, CHR 0xEC, CHR 0x83, CHR 0x9D, CHR 0xEC, CHR 0x84, CHR 0xB1, CHR 0xEC, CHR 0x9D,
      CHR 0x84, CHR 0x20, CHR 0xEC, CHR 0x9A, CHR 0x94, CHR 0xEC, CHR 0xB2, CHR 0xAD, CHR 0xED,
      CHR 0x96, CHR 0x88, CHR 0xEC, CHR 0x8A, CHR 0xB5, CHR 0xEB, CHR 0x8B, CHR 0x88, CHR 0xEB,
      CHR 0x8B, CHR 0xA4, CHR 0x2E]"

definition w_retry_requested :: string where
  "w_retry_requested =
     [CHR 0xEB, CHR 0xA6, CHR 0xAC, CHR 0xED, CHR 0x8F, CHR 0xAC, CHR 0xED, CHR 0x8A, CHR 0xB8,
      CHR 0x20, CHR 0xEC, CHR 0x9E, CHR 0xAC, CHR 0xEC, CHR 0x8B, CHR 0x9C, CHR 0xEB, CHR 0x8F,
      CHR 0x84, CHR 0xEB, CHR 0xA5, CHR 0xBC, CHR 0x20, CHR 0xEC, CHR 0x9A, CHR 0x94, CHR 0xEC,
      CHR 0xB2, CHR 0xAD, CHR 0xED, CHR 0x96, CHR 0x88, CHR 0xEC, CHR 0x8A, CHR 0xB5, CHR 0xEB,
      CHR 0x8B, CHR 0x88, CHR 0xEB, CHR 0x8B, CHR 0xA4, CHR 0x2E]"

definition w_report_deleted :: string where
  "w_report_deleted =
     [CHR 0xEB, CHR 0xA6, CHR 0xAC, CHR 0xED, CHR 0x8F, CHR 0xAC, CHR 0xED, CHR 0x8A, CHR 0xB8,
      CHR 0xEB, CHR 0xA5, CHR 0xBC, CHR 0x20, CHR 0xEC, CHR 0x82, CHR 0xAD, CHR 0xEC, CHR 0xA0,
      CHR 0x9C, CHR 0xED, CHR 0x96, CHR 0x88, CHR 0xEC, CHR 0x8A, CHR 0xB5, CHR 0xEB, CHR 0x8B,
      CHR 0x88, CHR 0xEB, CHR 0x8B, CHR 0xA4, CHR 0x2E]"

definition w_settings_title :: string where
  "w_settings_title =
     [CHR 0xED, CHR 0x99, CHR 0x98, CHR 0xEA, CHR 0xB2, CHR 0xBD, CHR 0x20, CHR 0xEC, CHR 0x84,
      CHR 0xA4, CHR 0xEC, CHR 0xA0, CHR 0x95]"

definition w_member_removed :: string where
  "w_member_removed =
     [CHR 0xEA, CHR 0xB5, CHR 0xAC, CHR 0xEC, CHR 0x84, CHR 0xB1, CHR 0xEC, CHR 0x9B, CHR 0x90,
      CHR 0xEC, CHR 0x9D, CHR 0x84, CHR 0x20, CHR 0xED, CHR 0x9A, CHR 0x8C, CHR 0xEC, CHR 0x82,
      CHR 0xAC, CHR 0xEC, CHR 0x97, CHR 0x90, CHR 0xEC, CHR 0x84, CHR 0x9C, CHR 0x20, CHR 0xEC,
      CHR 0xA0, CHR 0x9C, CHR 0xEC, CHR 0x99, CHR 0xB8, CHR 0xED, CHR 0x96, CHR 0x88, CHR 0xEC,
      CHR 0x8A, CHR 0xB5, CHR 0xEB, CHR 0x8B, CHR 0x88, CHR 0xEB, CHR 0x8B, CHR 0xA4, CHR 0x2E]"

definition w_company_only :: string where
  "w_company_only =
     [CHR 0xED, CHR 0x9A, CHR 0x8C, CHR 0xEC, CHR 0x82, CHR 0xAC, CHR 0x20, CHR 0xEA, CHR 0xB4,
      CHR 0x80, CHR 0xEB, CHR 0xA6, CHR 0xAC, CHR 0xEC, CHR 0x9E, CHR 0x90, CHR 0x20, CHR 0xEA,
      CHR 0xB6, CHR 0x8C, CHR 0xED, CHR 0x95, CHR 0x9C, CHR 0xEC, CHR 0x9D, CHR 0xB4, CHR 0x20,
      CHR 0xED, CHR 0x95, CHR 0x84, CHR 0xEC, CHR 0x9A, CHR 0x94, CHR 0xED, CHR 0x95, CHR 0xA9,
      CHR 0xEB, CHR 0x8B, CHR 0x88, CHR 0xEB, CHR 0x8B, CHR 0xA4, CHR 0x2E]"

definition w_admin_title :: string where
  "w_admin_title =
     [CHR 0xED, CHR 0x94, CHR 0x8C, CHR 0xEB, CHR 0x9E, CHR 0xAB, CHR 0xED, CHR 0x8F, CHR 0xBC,
      CHR 0x20, CHR 0xEA, CHR 0xB4, CHR 0x80, CHR 0xEB, CHR 0xA6, CHR 0xAC]"

definition w_collecting :: string where
  "w_collecting =
     [CHR 0xEC, CHR 0x88, CHR 0x98, CHR 0xEC, CHR 0xA7, CHR 0x91, CHR 0x20, CHR 0xEC, CHR 0x9E,
      CHR 0x91, CHR 0xEC, CHR 0x97, CHR 0x85, CHR 0xEC, CHR 0x9D, CHR 0x84, CHR 0x20, CHR 0xEC,
      CHR 0x8B, CHR 0x9C, CHR 0xEC, CHR 0x9E, CHR 0x91, CHR 0xED, CHR 0x96, CHR 0x88, CHR 0xEC,
      CHR 0x8A, CHR 0xB5, CHR 0xEB, CHR 0x8B, CHR 0x88, CHR 0xEB, CHR 0x8B, CHR 0xA4, CHR 0x2E]"

definition w_tenant_created :: string where
  "w_tenant_created =
     [CHR 0xED, CHR 0x9A, CHR 0x8C, CHR 0xEC, CHR 0x82, CHR 0xAC, CHR 0xEB, CHR 0xA5, CHR 0xBC,
      CHR 0x20, CHR 0xEB, CHR 0x93, CHR 0xB1, CHR 0xEB, CHR 0xA1, CHR 0x9D, CHR 0xED, CHR 0x96,
      CHR 0x88, CHR 0xEC, CHR 0x8A, CHR 0xB5, CHR 0xEB, CHR 0x8B, CHR 0x88, CHR 0xEB, CHR 0x8B,
      CHR 0xA4, CHR 0x2E, CHR 0x20, CHR 0xED, CHR 0x9A, CHR 0x8C, CHR 0xEC, CHR 0x9B, CHR 0x90,
      CHR 0x20, CHR 0xEA, CHR 0xB3, CHR 0x84, CHR 0xEC, CHR 0xA0, CHR 0x95, CHR 0x20, CHR 0xEB,
      CHR 0xB0, CHR 0xB0, CHR 0xEC, CHR 0xA0, CHR 0x95, CHR 0xEC, CHR 0x97, CHR 0x90, CHR 0xEC,
      CHR 0x84, CHR 0x9C, CHR 0x20, CHR 0xEC, CHR 0x84, CHR 0xA0, CHR 0xED, CHR 0x83, CHR 0x9D,
      CHR 0xED, CHR 0x95, CHR 0xA0, CHR 0x20, CHR 0xEC, CHR 0x88, CHR 0x98, CHR 0x20, CHR 0xEC,
      CHR 0x9E, CHR 0x88, CHR 0xEC, CHR 0x8A, CHR 0xB5, CHR 0xEB, CHR 0x8B, CHR 0x88, CHR 0xEB,
      CHR 0x8B, CHR 0xA4, CHR 0x2E]"

definition w_account_assigned :: string where
  "w_account_assigned =
     [CHR 0xEA, CHR 0xB3, CHR 0x84, CHR 0xEC, CHR 0xA0, CHR 0x95, CHR 0xEC, CHR 0x9D, CHR 0x98,
      CHR 0x20, CHR 0xED, CHR 0x9A, CHR 0x8C, CHR 0xEC, CHR 0x82, CHR 0xAC, CHR 0xEC, CHR 0x99,
      CHR 0x80, CHR 0x20, CHR 0xEA, CHR 0xB6, CHR 0x8C, CHR 0xED, CHR 0x95, CHR 0x9C, CHR 0xEC,
      CHR 0x9D, CHR 0x84, CHR 0x20, CHR 0xEB, CHR 0xB0, CHR 0x98, CHR 0xEC, CHR 0x98, CHR 0x81,
      CHR 0xED, CHR 0x96, CHR 0x88, CHR 0xEC, CHR 0x8A, CHR 0xB5, CHR 0xEB, CHR 0x8B, CHR 0x88,
      CHR 0xEB, CHR 0x8B, CHR 0xA4, CHR 0x2E]"

definition w_account_revoked :: string where
  "w_account_revoked =
     [CHR 0xEA, CHR 0xB3, CHR 0x84, CHR 0xEC, CHR 0xA0, CHR 0x95, CHR 0xEC, CHR 0x9D, CHR 0x98,
      CHR 0x20, CHR 0xED, CHR 0x9A, CHR 0x8C, CHR 0xEC, CHR 0x82, CHR 0xAC, CHR 0x20, CHR 0xEB,
      CHR 0xB0, CHR 0xB0, CHR 0xEC, CHR 0xA0, CHR 0x95, CHR 0xEC, CHR 0x9D, CHR 0x84, CHR 0x20,
      CHR 0xED, CHR 0x95, CHR 0xB4, CHR 0xEC, CHR 0xA0, CHR 0x9C, CHR 0xED, CHR 0x96, CHR 0x88,
      CHR 0xEC, CHR 0x8A, CHR 0xB5, CHR 0xEB, CHR 0x8B, CHR 0x88, CHR 0xEB, CHR 0x8B, CHR 0xA4,
      CHR 0x2E]"

definition w_account_deleted :: string where
  "w_account_deleted =
     [CHR 0xEA, CHR 0xB3, CHR 0x84, CHR 0xEC, CHR 0xA0, CHR 0x95, CHR 0xEC, CHR 0x9D, CHR 0x84,
      CHR 0x20, CHR 0xEC, CHR 0x82, CHR 0xAD, CHR 0xEC, CHR 0xA0, CHR 0x9C, CHR 0xED, CHR 0x96,
      CHR 0x88, CHR 0xEC, CHR 0x8A, CHR 0xB5, CHR 0xEB, CHR 0x8B, CHR 0x88, CHR 0xEB, CHR 0x8B,
      CHR 0xA4, CHR 0x2E, CHR 0x20, CHR 0xED, CHR 0x95, CHR 0xB4, CHR 0xEB, CHR 0x8B, CHR 0xB9,
      CHR 0x20, CHR 0xEA, CHR 0xB3, CHR 0x84, CHR 0xEC, CHR 0xA0, CHR 0x95, CHR 0xEC, CHR 0x9D,
      CHR 0x98, CHR 0x20, CHR 0xEB, CHR 0xA1, CHR 0x9C, CHR 0xEA, CHR 0xB7, CHR 0xB8, CHR 0xEC,
      CHR 0x9D, CHR 0xB8, CHR 0x20, CHR 0xEC, CHR 0x84, CHR 0xB8, CHR 0xEC, CHR 0x85, CHR 0x98,
      CHR 0xEB, CHR 0x8F, CHR 0x84, CHR 0x20, CHR 0xED, CHR 0x95, CHR 0xA8, CHR 0xEA, CHR 0xBB,
      CHR 0x98, CHR 0x20, CHR 0xEC, CHR 0xA2, CHR 0x85, CHR 0xEB, CHR 0xA3, CHR 0x8C, CHR 0xEB,
      CHR 0x90, CHR 0x98, CHR 0xEC, CHR 0x97, CHR 0x88, CHR 0xEC, CHR 0x8A, CHR 0xB5, CHR 0xEB,
      CHR 0x8B, CHR 0x88, CHR 0xEB, CHR 0x8B, CHR 0xA4, CHR 0x2E]"

definition w_no_page :: string where
  "w_no_page =
     [CHR 0xEC, CHR 0xB0, CHR 0xBE, CHR 0xEC, CHR 0x9D, CHR 0x84, CHR 0x20, CHR 0xEC, CHR 0x88,
      CHR 0x98, CHR 0x20, CHR 0xEC, CHR 0x97, CHR 0x86, CHR 0xEB, CHR 0x8A, CHR 0x94, CHR 0x20,
      CHR 0xED, CHR 0x8E, CHR 0x98, CHR 0xEC, CHR 0x9D, CHR 0xB4, CHR 0xEC, CHR 0xA7, CHR 0x80]"

definition w_check_address :: string where
  "w_check_address =
     [CHR 0xEC, CHR 0xA3, CHR 0xBC, CHR 0xEC, CHR 0x86, CHR 0x8C, CHR 0xEB, CHR 0xA5, CHR 0xBC,
      CHR 0x20, CHR 0xED, CHR 0x99, CHR 0x95, CHR 0xEC, CHR 0x9D, CHR 0xB8, CHR 0xED, CHR 0x95,
      CHR 0x98, CHR 0xEA, CHR 0xB1, CHR 0xB0, CHR 0xEB, CHR 0x82, CHR 0x98, CHR 0x20, CHR 0xEB,
      CHR 0x8C, CHR 0x80, CHR 0xEC, CHR 0x8B, CHR 0x9C, CHR 0xEB, CHR 0xB3, CHR 0xB4, CHR 0xEB,
      CHR 0x93, CHR 0x9C, CHR 0xEB, CHR 0xA1, CHR 0x9C, CHR 0x20, CHR 0xEC, CHR 0x9D, CHR 0xB4,
      CHR 0xEB, CHR 0x8F, CHR 0x99, CHR 0xED, CHR 0x95, CHR 0xB4, CHR 0x20, CHR 0xEC, CHR 0xA3,
      CHR 0xBC, CHR 0xEC, CHR 0x84, CHR 0xB8, CHR 0xEC, CHR 0x9A, CHR 0x94, CHR 0x2E]"

definition w_bad_days :: string where
  "w_bad_days =
     [CHR 0xEB, CHR 0xA7, CHR 0x88, CHR 0xEA, CHR 0xB0, CHR 0x90, CHR 0x20, CHR 0xEC, CHR 0x97,
      CHR 0xAC, CHR 0xEC, CHR 0x9C, CHR 0xA0, CHR 0xEC, CHR 0x9D, CHR 0xBC, CHR 0xEC, CHR 0x9D,
      CHR 0x80, CHR 0x20, CHR 0x31, CHR 0x7E, CHR 0x33, CHR 0x36, CHR 0x35, CHR 0x20, CHR 0xEC,
      CHR 0x82, CHR 0xAC, CHR 0xEC, CHR 0x9D, CHR 0xB4, CHR 0xEB, CHR 0xA1, CHR 0x9C, CHR 0x20,
      CHR 0xEC, CHR 0x9E, CHR 0x85, CHR 0xEB, CHR 0xA0, CHR 0xA5, CHR 0xED, CHR 0x95, CHR 0x98,
      CHR 0xEA, CHR 0xB1, CHR 0xB0, CHR 0xEB, CHR 0x82, CHR 0x98, CHR 0x20, CHR 0xEB, CHR 0xB9,
      CHR 0x84, CHR 0xEC, CHR 0x9B, CHR 0x8C, CHR 0x20, CHR 0xEC, CHR 0xA3, CHR 0xBC, CHR 0xEC,
      CHR 0x84, CHR 0xB8, CHR 0xEC, CHR 0x9A, CHR 0x94, CHR 0x2E]"

definition w_bad_amount :: string where
  "w_bad_amount =
     [CHR 0xEC, CHR 0xB5, CHR 0x9C, CHR 0xEC, CHR 0x86, CHR 0x8C, CHR 0x20, CHR 0xEA, CHR 0xB8,
      CHR 0x88, CHR 0xEC, CHR 0x95, CHR 0xA1, CHR 0xEC, CHR 0x9D, CHR 0x84, CHR 0x20, CHR 0xED,
      CHR 0x99, CHR 0x95, CHR 0xEC, CHR 0x9D, CHR 0xB8, CHR 0xED, CHR 0x95, CHR 0xB4, CHR 0x20,
      CHR 0xEC, CHR 0xA3, CHR 0xBC, CHR 0xEC, CHR 0x84, CHR 0xB8, CHR 0xEC, CHR 0x9A, CHR 0x94,
      CHR 0x2E]"

definition w_construction :: string where
  "w_construction =
     [CHR 0xEA, CHR 0xB3, CHR 0xB5, CHR 0xEC, CHR 0x82, CHR 0xAC]"

definition w_service :: string where
  "w_service =
     [CHR 0xEC, CHR 0x9A, CHR 0xA9, CHR 0xEC, CHR 0x97, CHR 0xAD]"

definition w_goods :: string where
  "w_goods =
     [CHR 0xEB, CHR 0xAC, CHR 0xBC, CHR 0xED, CHR 0x92, CHR 0x88]"

definition w_foreign :: string where
  "w_foreign =
     [CHR 0xEC, CHR 0x99, CHR 0xB8, CHR 0xEC, CHR 0x9E, CHR 0x90]"

definition w_bad_filter :: string where
  "w_bad_filter =
     [CHR 0xED, CHR 0x95, CHR 0x84, CHR 0xED, CHR 0x84, CHR 0xB0, CHR 0x20, CHR 0xEC, CHR 0x9D,
      CHR 0xB4, CHR 0xEB, CHR 0xA6, CHR 0x84, CHR 0xEA, CHR 0xB3, CHR 0xBC, CHR 0x20, CHR 0xEB,
      CHR 0xA7, CHR 0x88, CHR 0xEA, CHR 0xB0, CHR 0x90, CHR 0x20, CHR 0xEC, CHR 0x97, CHR 0xAC,
      CHR 0xEC, CHR 0x9C, CHR 0xA0, CHR 0xEC, CHR 0x9D, CHR 0xBC, CHR 0xEC, CHR 0x9D, CHR 0x84,
      CHR 0x20, CHR 0xED, CHR 0x99, CHR 0x95, CHR 0xEC, CHR 0x9D, CHR 0xB8, CHR 0xED, CHR 0x95,
      CHR 0xB4, CHR 0x20, CHR 0xEC, CHR 0xA3, CHR 0xBC, CHR 0xEC, CHR 0x84, CHR 0xB8, CHR 0xEC,
      CHR 0x9A, CHR 0x94, CHR 0x2E]"

definition w_filter_unsaved :: string where
  "w_filter_unsaved =
     [CHR 0xED, CHR 0x95, CHR 0x84, CHR 0xED, CHR 0x84, CHR 0xB0, CHR 0xEB, CHR 0xA5, CHR 0xBC,
      CHR 0x20, CHR 0xEC, CHR 0xA0, CHR 0x80, CHR 0xEC, CHR 0x9E, CHR 0xA5, CHR 0xED, CHR 0x95,
      CHR 0x98, CHR 0xEC, CHR 0xA7, CHR 0x80, CHR 0x20, CHR 0xEB, CHR 0xAA, CHR 0xBB, CHR 0xED,
      CHR 0x96, CHR 0x88, CHR 0xEC, CHR 0x8A, CHR 0xB5, CHR 0xEB, CHR 0x8B, CHR 0x88, CHR 0xEB,
      CHR 0x8B, CHR 0xA4, CHR 0x2E]"

definition w_bad_filter_id :: string where
  "w_bad_filter_id =
     [CHR 0xED, CHR 0x95, CHR 0x84, CHR 0xED, CHR 0x84, CHR 0xB0, CHR 0x20, CHR 0xEB, CHR 0xB2,
      CHR 0x88, CHR 0xED, CHR 0x98, CHR 0xB8, CHR 0xEA, CHR 0xB0, CHR 0x80, CHR 0x20, CHR 0xEC,
      CHR 0x98, CHR 0xAC, CHR 0xEB, CHR 0xB0, CHR 0x94, CHR 0xEB, CHR 0xA5, CHR 0xB4, CHR 0xEC,
      CHR 0xA7, CHR 0x80, CHR 0x20, CHR 0xEC, CHR 0x95, CHR 0x8A, CHR 0xEC, CHR 0x8A, CHR 0xB5,
      CHR 0xEB, CHR 0x8B, CHR 0x88, CHR 0xEB, CHR 0x8B, CHR 0xA4, CHR 0x2E]"

definition w_toggle_unsaved :: string where
  "w_toggle_unsaved =
     [CHR 0xED, CHR 0x95, CHR 0x84, CHR 0xED, CHR 0x84, CHR 0xB0, CHR 0x20, CHR 0xEC, CHR 0x83,
      CHR 0x81, CHR 0xED, CHR 0x83, CHR 0x9C, CHR 0xEB, CHR 0xA5, CHR 0xBC, CHR 0x20, CHR 0xEC,
      CHR 0xA0, CHR 0x80, CHR 0xEC, CHR 0x9E, CHR 0xA5, CHR 0xED, CHR 0x95, CHR 0x98, CHR 0xEC,
      CHR 0xA7, CHR 0x80, CHR 0x20, CHR 0xEB, CHR 0xAA, CHR 0xBB, CHR 0xED, CHR 0x96, CHR 0x88,
      CHR 0xEC, CHR 0x8A, CHR 0xB5, CHR 0xEB, CHR 0x8B, CHR 0x88, CHR 0xEB, CHR 0x8B, CHR 0xA4,
      CHR 0x2E]"

definition w_filter_undeleted :: string where
  "w_filter_undeleted =
     [CHR 0xED, CHR 0x95, CHR 0x84, CHR 0xED, CHR 0x84, CHR 0xB0, CHR 0xEB, CHR 0xA5, CHR 0xBC,
      CHR 0x20, CHR 0xEC, CHR 0x82, CHR 0xAD, CHR 0xEC, CHR 0xA0, CHR 0x9C, CHR 0xED, CHR 0x95,
      CHR 0x98, CHR 0xEC, CHR 0xA7, CHR 0x80, CHR 0x20, CHR 0xEB, CHR 0xAA, CHR 0xBB, CHR 0xED,
      CHR 0x96, CHR 0x88, CHR 0xEC, CHR 0x8A, CHR 0xB5, CHR 0xEB, CHR 0x8B, CHR 0x88, CHR 0xEB,
      CHR 0x8B, CHR 0xA4, CHR 0x2E]"

definition w_no_weekday :: string where
  "w_no_weekday =
     [CHR 0xEC, CHR 0x83, CHR 0x9D, CHR 0xEC, CHR 0x84, CHR 0xB1, CHR 0x20, CHR 0xEC, CHR 0x9A,
      CHR 0x94, CHR 0xEC, CHR 0x9D, CHR 0xBC, CHR 0xEC, CHR 0x9D, CHR 0x84, CHR 0x20, CHR 0xED,
      CHR 0x95, CHR 0x98, CHR 0xEB, CHR 0x82, CHR 0x98, CHR 0x20, CHR 0xEC, CHR 0x9D, CHR 0xB4,
      CHR 0xEC, CHR 0x83, CHR 0x81, CHR 0x20, CHR 0xEC, CHR 0x84, CHR 0xA0, CHR 0xED, CHR 0x83,
      CHR 0x9D, CHR 0xED, CHR 0x95, CHR 0xB4, CHR 0x20, CHR 0xEC, CHR 0xA3, CHR 0xBC, CHR 0xEC,
      CHR 0x84, CHR 0xB8, CHR 0xEC, CHR 0x9A, CHR 0x94, CHR 0x2E]"

definition w_bad_clock :: string where
  "w_bad_clock =
     [CHR 0xEC, CHR 0x83, CHR 0x9D, CHR 0xEC, CHR 0x84, CHR 0xB1, CHR 0x20, CHR 0xEC, CHR 0x8B,
      CHR 0x9C, CHR 0xEA, CHR 0xB0, CHR 0x81, CHR 0xEC, CHR 0x9D, CHR 0x84, CHR 0x20, CHR 0xED,
      CHR 0x99, CHR 0x95, CHR 0xEC, CHR 0x9D, CHR 0xB8, CHR 0xED, CHR 0x95, CHR 0xB4, CHR 0x20,
      CHR 0xEC, CHR 0xA3, CHR 0xBC, CHR 0xEC, CHR 0x84, CHR 0xB8, CHR 0xEC, CHR 0x9A, CHR 0x94,
      CHR 0x2E]"

definition w_bad_zone :: string where
  "w_bad_zone =
     [CHR 0xEC, CHR 0x8B, CHR 0x9C, CHR 0xEA, CHR 0xB0, CHR 0x84, CHR 0xEB, CHR 0x8C, CHR 0x80,
      CHR 0xEB, CHR 0xA5, CHR 0xBC, CHR 0x20, CHR 0xED, CHR 0x99, CHR 0x95, CHR 0xEC, CHR 0x9D,
      CHR 0xB8, CHR 0xED, CHR 0x95, CHR 0xB4, CHR 0x20, CHR 0xEC, CHR 0xA3, CHR 0xBC, CHR 0xEC,
      CHR 0x84, CHR 0xB8, CHR 0xEC, CHR 0x9A, CHR 0x94, CHR 0x2E]"

definition w_schedule_unsaved :: string where
  "w_schedule_unsaved =
     [CHR 0xEB, CHR 0xA6, CHR 0xAC, CHR 0xED, CHR 0x8F, CHR 0xAC, CHR 0xED, CHR 0x8A, CHR 0xB8,
      CHR 0x20, CHR 0xEC, CHR 0x9D, CHR 0xBC, CHR 0xEC, CHR 0xA0, CHR 0x95, CHR 0xEC, CHR 0x9D,
      CHR 0x84, CHR 0x20, CHR 0xEC, CHR 0xA0, CHR 0x80, CHR 0xEC, CHR 0x9E, CHR 0xA5, CHR 0xED,
      CHR 0x95, CHR 0x98, CHR 0xEC, CHR 0xA7, CHR 0x80, CHR 0x20, CHR 0xEB, CHR 0xAA, CHR 0xBB,
      CHR 0xED, CHR 0x96, CHR 0x88, CHR 0xEC, CHR 0x8A, CHR 0xB5, CHR 0xEB, CHR 0x8B, CHR 0x88,
      CHR 0xEB, CHR 0x8B, CHR 0xA4, CHR 0x2E]"

definition w_report_failed :: string where
  "w_report_failed =
     [CHR 0xEB, CHR 0xA6, CHR 0xAC, CHR 0xED, CHR 0x8F, CHR 0xAC, CHR 0xED, CHR 0x8A, CHR 0xB8,
      CHR 0xEB, CHR 0xA5, CHR 0xBC, CHR 0x20, CHR 0xEC, CHR 0x83, CHR 0x9D, CHR 0xEC, CHR 0x84,
      CHR 0xB1, CHR 0xED, CHR 0x95, CHR 0x98, CHR 0xEC, CHR 0xA7, CHR 0x80, CHR 0x20, CHR 0xEB,
      CHR 0xAA, CHR 0xBB, CHR 0xED, CHR 0x96, CHR 0x88, CHR 0xEC, CHR 0x8A, CHR 0xB5, CHR 0xEB,
      CHR 0x8B, CHR 0x88, CHR 0xEB, CHR 0x8B, CHR 0xA4, CHR 0x2E]"

definition w_no_report :: string where
  "w_no_report =
     [CHR 0xEC, CHR 0xB0, CHR 0xBE, CHR 0xEC, CHR 0x9D, CHR 0x84, CHR 0x20, CHR 0xEC, CHR 0x88,
      CHR 0x98, CHR 0x20, CHR 0xEC, CHR 0x97, CHR 0x86, CHR 0xEB, CHR 0x8A, CHR 0x94, CHR 0x20,
      CHR 0xEB, CHR 0xA6, CHR 0xAC, CHR 0xED, CHR 0x8F, CHR 0xAC, CHR 0xED, CHR 0x8A, CHR 0xB8]"

definition w_check_report :: string where
  "w_check_report =
     [CHR 0xEB, CHR 0xA6, CHR 0xAC, CHR 0xED, CHR 0x8F, CHR 0xAC, CHR 0xED, CHR 0x8A, CHR 0xB8,
      CHR 0x20, CHR 0xEB, CHR 0xB2, CHR 0x88, CHR 0xED, CHR 0x98, CHR 0xB8, CHR 0xEB, CHR 0xA5,
      CHR 0xBC, CHR 0x20, CHR 0xED, CHR 0x99, CHR 0x95, CHR 0xEC, CHR 0x9D, CHR 0xB8, CHR 0xED,
      CHR 0x95, CHR 0xB4, CHR 0x20, CHR 0xEC, CHR 0xA3, CHR 0xBC, CHR 0xEC, CHR 0x84, CHR 0xB8,
      CHR 0xEC, CHR 0x9A, CHR 0x94, CHR 0x2E]"

definition w_retry_failed :: string where
  "w_retry_failed =
     [CHR 0xEB, CHR 0xA6, CHR 0xAC, CHR 0xED, CHR 0x8F, CHR 0xAC, CHR 0xED, CHR 0x8A, CHR 0xB8,
      CHR 0xEB, CHR 0xA5, CHR 0xBC, CHR 0x20, CHR 0xEC, CHR 0x9E, CHR 0xAC, CHR 0xEC, CHR 0x8B,
      CHR 0x9C, CHR 0xEB, CHR 0x8F, CHR 0x84, CHR 0xED, CHR 0x95, CHR 0x98, CHR 0xEC, CHR 0xA7,
      CHR 0x80, CHR 0x20, CHR 0xEB, CHR 0xAA, CHR 0xBB, CHR 0xED, CHR 0x96, CHR 0x88, CHR 0xEC,
      CHR 0x8A, CHR 0xB5, CHR 0xEB, CHR 0x8B, CHR 0x88, CHR 0xEB, CHR 0x8B, CHR 0xA4, CHR 0x2E]"

definition w_undeletable :: string where
  "w_undeletable =
     [CHR 0xEC, CHR 0x82, CHR 0xAD, CHR 0xEC, CHR 0xA0, CHR 0x9C, CHR 0xED, CHR 0x95, CHR 0xA0,
      CHR 0x20, CHR 0xEC, CHR 0x88, CHR 0x98, CHR 0x20, CHR 0xEC, CHR 0x97, CHR 0x86, CHR 0xEB,
      CHR 0x8A, CHR 0x94, CHR 0x20, CHR 0xEB, CHR 0xA6, CHR 0xAC, CHR 0xED, CHR 0x8F, CHR 0xAC,
      CHR 0xED, CHR 0x8A, CHR 0xB8]"

definition w_check_finished :: string where
  "w_check_finished =
     [CHR 0xEC, CHR 0x83, CHR 0x9D, CHR 0xEC, CHR 0x84, CHR 0xB1, CHR 0xEC, CHR 0x9D, CHR 0xB4,
      CHR 0x20, CHR 0xEC, CHR 0x99, CHR 0x84, CHR 0xEB, CHR 0xA3, CHR 0x8C, CHR 0xEB, CHR 0x90,
      CHR 0x98, CHR 0xEC, CHR 0x97, CHR 0x88, CHR 0xEA, CHR 0xB1, CHR 0xB0, CHR 0xEB, CHR 0x82,
      CHR 0x98, CHR 0x20, CHR 0xEC, CHR 0x8B, CHR 0xA4, CHR 0xED, CHR 0x8C, CHR 0xA8, CHR 0xED,
      CHR 0x95, CHR 0x9C, CHR 0x20, CHR 0xEB, CHR 0xA6, CHR 0xAC, CHR 0xED, CHR 0x8F, CHR 0xAC,
      CHR 0xED, CHR 0x8A, CHR 0xB8, CHR 0xEC, CHR 0x9D, CHR 0xB8, CHR 0xEC, CHR 0xA7, CHR 0x80,
      CHR 0x20, CHR 0xED, CHR 0x99, CHR 0x95, CHR 0xEC, CHR 0x9D, CHR 0xB8, CHR 0xED, CHR 0x95,
      CHR 0xB4, CHR 0x20, CHR 0xEC, CHR 0xA3, CHR 0xBC, CHR 0xEC, CHR 0x84, CHR 0xB8, CHR 0xEC,
      CHR 0x9A, CHR 0x94, CHR 0x2E]"

definition w_delete_failed :: string where
  "w_delete_failed =
     [CHR 0xEB, CHR 0xA6, CHR 0xAC, CHR 0xED, CHR 0x8F, CHR 0xAC, CHR 0xED, CHR 0x8A, CHR 0xB8,
      CHR 0xEB, CHR 0xA5, CHR 0xBC, CHR 0x20, CHR 0xEC, CHR 0x82, CHR 0xAD, CHR 0xEC, CHR 0xA0,
      CHR 0x9C, CHR 0xED, CHR 0x95, CHR 0x98, CHR 0xEC, CHR 0xA7, CHR 0x80, CHR 0x20, CHR 0xEB,
      CHR 0xAA, CHR 0xBB, CHR 0xED, CHR 0x96, CHR 0x88, CHR 0xEC, CHR 0x8A, CHR 0xB5, CHR 0xEB,
      CHR 0x8B, CHR 0x88, CHR 0xEB, CHR 0x8B, CHR 0xA4, CHR 0x2E, CHR 0x20, CHR 0xEB, CHR 0xAA,
      CHR 0xA9, CHR 0xEB, CHR 0xA1, CHR 0x9D, CHR 0xEC, CHR 0x9C, CHR 0xBC, CHR 0xEB, CHR 0xA1,
      CHR 0x9C, CHR 0x20, CHR 0xEB, CHR 0x8F, CHR 0x8C, CHR 0xEC, CHR 0x95, CHR 0x84, CHR 0xEA,
      CHR 0xB0, CHR 0x80, CHR 0x20, CHR 0xEB, CHR 0x8B, CHR 0xA4, CHR 0xEC, CHR 0x8B, CHR 0x9C,
      CHR 0x20, CHR 0xEC, CHR 0x8B, CHR 0x9C, CHR 0xEB, CHR 0x8F, CHR 0x84, CHR 0xED, CHR 0x95,
      CHR 0xB4, CHR 0x20, CHR 0xEC, CHR 0xA3, CHR 0xBC, CHR 0xEC, CHR 0x84, CHR 0xB8, CHR 0xEC,
      CHR 0x9A, CHR 0x94, CHR 0x2E]"

definition w_open_failed :: string where
  "w_open_failed =
     [CHR 0xEB, CHR 0xA6, CHR 0xAC, CHR 0xED, CHR 0x8F, CHR 0xAC, CHR 0xED, CHR 0x8A, CHR 0xB8,
      CHR 0xEB, CHR 0xA5, CHR 0xBC, CHR 0x20, CHR 0xEC, CHR 0x97, CHR 0xB4, CHR 0xEC, CHR 0xA7,
      CHR 0x80, CHR 0x20, CHR 0xEB, CHR 0xAA, CHR 0xBB, CHR 0xED, CHR 0x96, CHR 0x88, CHR 0xEC,
      CHR 0x8A, CHR 0xB5, CHR 0xEB, CHR 0x8B, CHR 0x88, CHR 0xEB, CHR 0x8B, CHR 0xA4, CHR 0x2E]"

definition w_bad_recipient :: string where
  "w_bad_recipient =
     [CHR 0xEC, CHR 0x88, CHR 0x98, CHR 0xEC, CHR 0x8B, CHR 0xA0, CHR 0xEC, CHR 0x9E, CHR 0x90,
      CHR 0x20, CHR 0xEC, CHR 0x9D, CHR 0xB4, CHR 0xEB, CHR 0xA6, CHR 0x84, CHR 0xEA, CHR 0xB3,
      CHR 0xBC, CHR 0x20, CHR 0xEC, CHR 0x9D, CHR 0xB4, CHR 0xEB, CHR 0xA9, CHR 0x94, CHR 0xEC,
      CHR 0x9D, CHR 0xBC, CHR 0xEC, CHR 0x9D, CHR 0x84, CHR 0x20, CHR 0xED, CHR 0x99, CHR 0x95,
      CHR 0xEC, CHR 0x9D, CHR 0xB8, CHR 0xED, CHR 0x95, CHR 0xB4, CHR 0x20, CHR 0xEC, CHR 0xA3,
      CHR 0xBC, CHR 0xEC, CHR 0x84, CHR 0xB8, CHR 0xEC, CHR 0x9A, CHR 0x94, CHR 0x2E]"

definition w_recipient_unsaved :: string where
  "w_recipient_unsaved =
     [CHR 0xEC, CHR 0x88, CHR 0x98, CHR 0xEC, CHR 0x8B, CHR 0xA0, CHR 0xEC, CHR 0x9E, CHR 0x90,
      CHR 0xEB, CHR 0xA5, CHR 0xBC, CHR 0x20, CHR 0xEC, CHR 0xB6, CHR 0x94, CHR 0xEA, CHR 0xB0,
      CHR 0x80, CHR 0xED, CHR 0x95, CHR 0x98, CHR 0xEC, CHR 0xA7, CHR 0x80, CHR 0x20, CHR 0xEB,
      CHR 0xAA, CHR 0xBB, CHR 0xED, CHR 0x96, CHR 0x88, CHR 0xEC, CHR 0x8A, CHR 0xB5, CHR 0xEB,
      CHR 0x8B, CHR 0x88, CHR 0xEB, CHR 0x8B, CHR 0xA4, CHR 0x2E]"

definition w_need_key :: string where
  "w_need_key =
     [CHR 0xED, CHR 0x99, CHR 0x98, CHR 0xEA, CHR 0xB2, CHR 0xBD, CHR 0x20, CHR 0xEC, CHR 0x84,
      CHR 0xA4, CHR 0xEC, CHR 0xA0, CHR 0x95, CHR 0xEC, CHR 0x97, CHR 0x90, CHR 0xEC, CHR 0x84,
      CHR 0x9C, CHR 0x20, CHR 0xEB, CHR 0x82, CHR 0x98, CHR 0xEB, CHR 0x9D, CHR 0xBC, CHR 0xEC,
      CHR 0x9E, CHR 0xA5, CHR 0xED, CHR 0x84, CHR 0xB0, CHR 0x20, CHR 0x41, CHR 0x50, CHR 0x49,
      CHR 0x20, CHR 0xED, CHR 0x82, CHR 0xA4, CHR 0xEB, CHR 0xA5, CHR 0xBC, CHR 0x20, CHR 0xEB,
      CHR 0xA8, CHR 0xBC, CHR 0xEC, CHR 0xA0, CHR 0x80, CHR 0x20, CHR 0xEB, CHR 0x93, CHR 0xB1,
      CHR 0xEB, CHR 0xA1, CHR 0x9D, CHR 0xED, CHR 0x95, CHR 0x98, CHR 0xEC, CHR 0x84, CHR 0xB8,
      CHR 0xEC, CHR 0x9A, CHR 0x94, CHR 0x2E]"

definition w_action_failed :: string where
  "w_action_failed =
     [CHR 0xED, CHR 0x94, CHR 0x8C, CHR 0xEB, CHR 0x9E, CHR 0xAB, CHR 0xED, CHR 0x8F, CHR 0xBC,
      CHR 0x20, CHR 0xEC, CHR 0x9E, CHR 0x91, CHR 0xEC, CHR 0x97, CHR 0x85, CHR 0xEC, CHR 0x9D,
      CHR 0x84, CHR 0x20, CHR 0xEC, CHR 0x8B, CHR 0xA4, CHR 0xED, CHR 0x96, CHR 0x89, CHR 0xED,
      CHR 0x95, CHR 0x98, CHR 0xEC, CHR 0xA7, CHR 0x80, CHR 0x20, CHR 0xEB, CHR 0xAA, CHR 0xBB,
      CHR 0xED, CHR 0x96, CHR 0x88, CHR 0xEC, CHR 0x8A, CHR 0xB5, CHR 0xEB, CHR 0x8B, CHR 0x88,
      CHR 0xEB, CHR 0x8B, CHR 0xA4, CHR 0x2E]"

definition w_bad_company :: string where
  "w_bad_company =
     [CHR 0xED, CHR 0x9A, CHR 0x8C, CHR 0xEC, CHR 0x82, CHR 0xAC, CHR 0xEB, CHR 0xAA, CHR 0x85,
      CHR 0x2C, CHR 0x20, CHR 0xEB, CHR 0x8C, CHR 0x80, CHR 0xED, CHR 0x91, CHR 0x9C, CHR 0x20,
      CHR 0xEC, CHR 0x9D, CHR 0xB4, CHR 0xEB, CHR 0xA9, CHR 0x94, CHR 0xEC, CHR 0x9D, CHR 0xBC,
      CHR 0x2C, CHR 0x20, CHR 0xEA, CHR 0xB4, CHR 0x80, CHR 0xEB, CHR 0xA6, CHR 0xAC, CHR 0xEC,
      CHR 0x9E, CHR 0x90, CHR 0x20, CHR 0xEC, CHR 0x9D, CHR 0xB4, CHR 0xEB, CHR 0xA6, CHR 0x84,
      CHR 0x2C, CHR 0x20, CHR 0xEA, CHR 0xB4, CHR 0x80, CHR 0xEB, CHR 0xA6, CHR 0xAC, CHR 0xEC,
      CHR 0x9E, CHR 0x90, CHR 0x20, CHR 0xEC, CHR 0x9D, CHR 0xB4, CHR 0xEB, CHR 0xA9, CHR 0x94,
      CHR 0xEC, CHR 0x9D, CHR 0xBC, CHR 0xEC, CHR 0x9D, CHR 0x84, CHR 0x20, CHR 0xED, CHR 0x99,
      CHR 0x95, CHR 0xEC, CHR 0x9D, CHR 0xB8, CHR 0xED, CHR 0x95, CHR 0xB4, CHR 0x20, CHR 0xEC,
      CHR 0xA3, CHR 0xBC, CHR 0xEC, CHR 0x84, CHR 0xB8, CHR 0xEC, CHR 0x9A, CHR 0x94, CHR 0x2E]"

definition w_company_exists :: string where
  "w_company_exists =
     [CHR 0xEA, CHR 0xB0, CHR 0x99, CHR 0xEC, CHR 0x9D, CHR 0x80, CHR 0x20, CHR 0xED, CHR 0x9A,
      CHR 0x8C, CHR 0xEC, CHR 0x82, CHR 0xAC, CHR 0xEB, CHR 0xAA, CHR 0x85, CHR 0xEA, CHR 0xB3,
      CHR 0xBC, CHR 0x20, CHR 0xEB, CHR 0x8C, CHR 0x80, CHR 0xED, CHR 0x91, CHR 0x9C, CHR 0x20,
      CHR 0xEC, CHR 0x9D, CHR 0xB4, CHR 0xEB, CHR 0xA9, CHR 0x94, CHR 0xEC, CHR 0x9D, CHR 0xBC,
      CHR 0xEC, CHR 0x9D, CHR 0xB4, CHR 0x20, CHR 0xEC, CHR 0x9D, CHR 0xB4, CHR 0xEB, CHR 0xAF,
      CHR 0xB8, CHR 0x20, CHR 0xEB, CHR 0x93, CHR 0xB1, CHR 0xEB, CHR 0xA1, CHR 0x9D, CHR 0xEB,
      CHR 0x90, CHR 0x98, CHR 0xEC, CHR 0x96, CHR 0xB4, CHR 0x20, CHR 0xEC, CHR 0x9E, CHR 0x88,
      CHR 0xEC, CHR 0x8A, CHR 0xB5, CHR 0xEB, CHR 0x8B, CHR 0x88, CHR 0xEB, CHR 0x8B, CHR 0xA4,
      CHR 0x2E]"

definition w_company_unsaved :: string where
  "w_company_unsaved =
     [CHR 0xED, CHR 0x9A, CHR 0x8C, CHR 0xEC, CHR 0x82, CHR 0xAC, CHR 0xEB, CHR 0xA5, CHR 0xBC,
      CHR 0x20, CHR 0xEB, CHR 0x93, CHR 0xB1, CHR 0xEB, CHR 0xA1, CHR 0x9D, CHR 0xED, CHR 0x95,
      CHR 0x98, CHR 0xEC, CHR 0xA7, CHR 0x80, CHR 0x20, CHR 0xEB, CHR 0xAA, CHR 0xBB, CHR 0xED,
      CHR 0x96, CHR 0x88, CHR 0xEC, CHR 0x8A, CHR 0xB5, CHR 0xEB, CHR 0x8B, CHR 0x88, CHR 0xEB,
      CHR 0x8B, CHR 0xA4, CHR 0x2E]"

definition w_bad_assignment :: string where
  "w_bad_assignment =
     [CHR 0xEB, CHR 0x8C, CHR 0x80, CHR 0xEC, CHR 0x83, CHR 0x81, CHR 0x20, CHR 0xEA, CHR 0xB3,
      CHR 0x84, CHR 0xEC, CHR 0xA0, CHR 0x95, CHR 0xEA, CHR 0xB3, CHR 0xBC, CHR 0x20, CHR 0xEA,
      CHR 0xB6, CHR 0x8C, CHR 0xED, CHR 0x95, CHR 0x9C, CHR 0xEC, CHR 0x9D, CHR 0x84, CHR 0x20,
      CHR 0xED, CHR 0x99, CHR 0x95, CHR 0xEC, CHR 0x9D, CHR 0xB8, CHR 0xED, CHR 0x95, CHR 0xB4,
      CHR 0x20, CHR 0xEC, CHR 0xA3, CHR 0xBC, CHR 0xEC, CHR 0x84, CHR 0xB8, CHR 0xEC, CHR 0x9A,
      CHR 0x94, CHR 0x2E]"

definition w_role_needs_company :: string where
  "w_role_needs_company =
     [CHR 0xED, CHR 0x9A, CHR 0x8C, CHR 0xEC, CHR 0x82, CHR 0xAC, CHR 0x20, CHR 0xEA, CHR 0xB4,
      CHR 0x80, CHR 0xEB, CHR 0xA6, CHR 0xAC, CHR 0xEC, CHR 0x9E, CHR 0x90, CHR 0x20, CHR 0xEA,
      CHR 0xB6, CHR 0x8C, CHR 0xED, CHR 0x95, CHR 0x9C, CHR 0xEC, CHR 0x9D, CHR 0x80, CHR 0x20,
      CHR 0xED, CHR 0x9A, CHR 0x8C, CHR 0xEC, CHR 0x82, CHR 0xAC, CHR 0xEB, CHR 0xA5, CHR 0xBC,
      CHR 0x20, CHR 0xED, CHR 0x95, CHR 0xA8, CHR 0xEA, CHR 0xBB, CHR 0x98, CHR 0x20, CHR 0xEC,
      CHR 0x84, CHR 0xA0, CHR 0xED, CHR 0x83, CHR 0x9D, CHR 0xED, CHR 0x95, CHR 0xB4, CHR 0xEC,
      CHR 0x95, CHR 0xBC, CHR 0x20, CHR 0xED, CHR 0x95, CHR 0xA9, CHR 0xEB, CHR 0x8B, CHR 0x88,
      CHR 0xEB, CHR 0x8B, CHR 0xA4, CHR 0x2E]"

definition w_assignment_failed :: string where
  "w_assignment_failed =
     [CHR 0xEA, CHR 0xB3, CHR 0x84, CHR 0xEC, CHR 0xA0, CHR 0x95, CHR 0x20, CHR 0xEB, CHR 0xB0,
      CHR 0xB0, CHR 0xEC, CHR 0xA0, CHR 0x95, CHR 0xEC, CHR 0x9D, CHR 0x84, CHR 0x20, CHR 0xEB,
      CHR 0xB0, CHR 0x98, CHR 0xEC, CHR 0x98, CHR 0x81, CHR 0xED, CHR 0x95, CHR 0x98, CHR 0xEC,
      CHR 0xA7, CHR 0x80, CHR 0x20, CHR 0xEB, CHR 0xAA, CHR 0xBB, CHR 0xED, CHR 0x96, CHR 0x88,
      CHR 0xEC, CHR 0x8A, CHR 0xB5, CHR 0xEB, CHR 0x8B, CHR 0x88, CHR 0xEB, CHR 0x8B, CHR 0xA4,
      CHR 0x2E]"

definition w_bad_member :: string where
  "w_bad_member =
     [CHR 0xEB, CHR 0x8C, CHR 0x80, CHR 0xEC, CHR 0x83, CHR 0x81, CHR 0x20, CHR 0xEA, CHR 0xB5,
      CHR 0xAC, CHR 0xEC, CHR 0x84, CHR 0xB1, CHR 0xEC, CHR 0x9B, CHR 0x90, CHR 0xEC, CHR 0x9D,
      CHR 0x84, CHR 0x20, CHR 0xED, CHR 0x99, CHR 0x95, CHR 0xEC, CHR 0x9D, CHR 0xB8, CHR 0xED,
      CHR 0x95, CHR 0xB4, CHR 0x20, CHR 0xEC, CHR 0xA3, CHR 0xBC, CHR 0xEC, CHR 0x84, CHR 0xB8,
      CHR 0xEC, CHR 0x9A, CHR 0x94, CHR 0x2E]"

definition w_not_yourself :: string where
  "w_not_yourself =
     [CHR 0xEC, CHR 0x9E, CHR 0x90, CHR 0xEC, CHR 0x8B, CHR 0xA0, CHR 0xEC, CHR 0x9D, CHR 0x80,
      CHR 0x20, CHR 0xED, CHR 0x9A, CHR 0x8C, CHR 0xEC, CHR 0x82, CHR 0xAC, CHR 0xEC, CHR 0x97,
      CHR 0x90, CHR 0xEC, CHR 0x84, CHR 0x9C, CHR 0x20, CHR 0xEC, CHR 0xA0, CHR 0x9C, CHR 0xEC,
      CHR 0x99, CHR 0xB8, CHR 0xED, CHR 0x95, CHR 0xA0, CHR 0x20, CHR 0xEC, CHR 0x88, CHR 0x98,
      CHR 0x20, CHR 0xEC, CHR 0x97, CHR 0x86, CHR 0xEC, CHR 0x8A, CHR 0xB5, CHR 0xEB, CHR 0x8B,
      CHR 0x88, CHR 0xEB, CHR 0x8B, CHR 0xA4, CHR 0x2E]"

definition w_member_kept :: string where
  "w_member_kept =
     [CHR 0xEA, CHR 0xB5, CHR 0xAC, CHR 0xEC, CHR 0x84, CHR 0xB1, CHR 0xEC, CHR 0x9B, CHR 0x90,
      CHR 0xEC, CHR 0x9D, CHR 0x84, CHR 0x20, CHR 0xEC, CHR 0xA0, CHR 0x9C, CHR 0xEC, CHR 0x99,
      CHR 0xB8, CHR 0xED, CHR 0x95, CHR 0x98, CHR 0xEC, CHR 0xA7, CHR 0x80, CHR 0x20, CHR 0xEB,
      CHR 0xAA, CHR 0xBB, CHR 0xED, CHR 0x96, CHR 0x88, CHR 0xEC, CHR 0x8A, CHR 0xB5, CHR 0xEB,
      CHR 0x8B, CHR 0x88, CHR 0xEB, CHR 0x8B, CHR 0xA4, CHR 0x2E]"

definition w_bad_account :: string where
  "w_bad_account =
     [CHR 0xEC, CHR 0x82, CHR 0xAD, CHR 0xEC, CHR 0xA0, CHR 0x9C, CHR 0xED, CHR 0x95, CHR 0xA0,
      CHR 0x20, CHR 0xEA, CHR 0xB3, CHR 0x84, CHR 0xEC, CHR 0xA0, CHR 0x95, CHR 0xEC, CHR 0x9D,
      CHR 0x84, CHR 0x20, CHR 0xED, CHR 0x99, CHR 0x95, CHR 0xEC, CHR 0x9D, CHR 0xB8, CHR 0xED,
      CHR 0x95, CHR 0xB4, CHR 0x20, CHR 0xEC, CHR 0xA3, CHR 0xBC, CHR 0xEC, CHR 0x84, CHR 0xB8,
      CHR 0xEC, CHR 0x9A, CHR 0x94, CHR 0x2E]"

definition w_account_kept :: string where
  "w_account_kept =
     [CHR 0xEA, CHR 0xB3, CHR 0x84, CHR 0xEC, CHR 0xA0, CHR 0x95, CHR 0xEC, CHR 0x9D, CHR 0x84,
      CHR 0x20, CHR 0xEC, CHR 0x82, CHR 0xAD, CHR 0xEC, CHR 0xA0, CHR 0x9C, CHR 0xED, CHR 0x95,
      CHR 0x98, CHR 0xEC, CHR 0xA7, CHR 0x80, CHR 0x20, CHR 0xEB, CHR 0xAA, CHR 0xBB, CHR 0xED,
      CHR 0x96, CHR 0x88, CHR 0xEC, CHR 0x8A, CHR 0xB5, CHR 0xEB, CHR 0x8B, CHR 0x88, CHR 0xEB,
      CHR 0x8B, CHR 0xA4, CHR 0x2E]"

definition w_wait_for_company :: string where
  "w_wait_for_company =
     [CHR 0xED, CHR 0x85, CHR 0x8C, CHR 0xEB, CHR 0x84, CHR 0x8C, CHR 0xED, CHR 0x8A, CHR 0xB8,
      CHR 0x20, CHR 0xEB, CHR 0xB0, CHR 0xB0, CHR 0xEC, CHR 0xA0, CHR 0x95, CHR 0xEC, CHR 0x9D,
      CHR 0xB4, CHR 0x20, CHR 0xEB, CHR 0x81, CHR 0x9D, CHR 0xEB, CHR 0x82, CHR 0x9C, CHR 0x20,
      CHR 0xEB, CHR 0x92, CHR 0xA4, CHR 0xEC, CHR 0x97, CHR 0x90, CHR 0x20, CHR 0xEC, CHR 0x9D,
      CHR 0xB4, CHR 0xEC, CHR 0x9A, CHR 0xA9, CHR 0xED, CHR 0x95, CHR 0xA0, CHR 0x20, CHR 0xEC,
      CHR 0x88, CHR 0x98, CHR 0x20, CHR 0xEC, CHR 0x9E, CHR 0x88, CHR 0xEC, CHR 0x8A, CHR 0xB5,
      CHR 0xEB, CHR 0x8B, CHR 0x88, CHR 0xEB, CHR 0x8B, CHR 0xA4, CHR 0x2E]"

definition w_pending_title :: string where
  "w_pending_title =
     [CHR 0xEB, CHR 0xB0, CHR 0xB0, CHR 0xEC, CHR 0xA0, CHR 0x95, CHR 0x20, CHR 0xEB, CHR 0x8C,
      CHR 0x80, CHR 0xEA, CHR 0xB8, CHR 0xB0]"

definition w_bad_settings :: string where
  "w_bad_settings =
     [CHR 0xED, CHR 0x9A, CHR 0x8C, CHR 0xEC, CHR 0x82, CHR 0xAC, CHR 0xEB, CHR 0xAA, CHR 0x85,
      CHR 0xEA, CHR 0xB3, CHR 0xBC, CHR 0x20, CHR 0xEB, CHR 0x8C, CHR 0x80, CHR 0xED, CHR 0x91,
      CHR 0x9C, CHR 0x20, CHR 0xEC, CHR 0x9D, CHR 0xB4, CHR 0xEB, CHR 0xA9, CHR 0x94, CHR 0xEC,
      CHR 0x9D, CHR 0xBC, CHR 0xEC, CHR 0x9D, CHR 0x84, CHR 0x20, CHR 0xED, CHR 0x99, CHR 0x95,
      CHR 0xEC, CHR 0x9D, CHR 0xB8, CHR 0xED, CHR 0x95, CHR 0xB4, CHR 0x20, CHR 0xEC, CHR 0xA3,
      CHR 0xBC, CHR 0xEC, CHR 0x84, CHR 0xB8, CHR 0xEC, CHR 0x9A, CHR 0x94, CHR 0x2E]"

definition w_settings_unsaved :: string where
  "w_settings_unsaved =
     [CHR 0xED, CHR 0x99, CHR 0x98, CHR 0xEA, CHR 0xB2, CHR 0xBD, CHR 0x20, CHR 0xEC, CHR 0x84,
      CHR 0xA4, CHR 0xEC, CHR 0xA0, CHR 0x95, CHR 0xEC, CHR 0x9D, CHR 0x84, CHR 0x20, CHR 0xEC,
      CHR 0xA0, CHR 0x80, CHR 0xEC, CHR 0x9E, CHR 0xA5, CHR 0xED, CHR 0x95, CHR 0x98, CHR 0xEC,
      CHR 0xA7, CHR 0x80, CHR 0x20, CHR 0xEB, CHR 0xAA, CHR 0xBB, CHR 0xED, CHR 0x96, CHR 0x88,
      CHR 0xEC, CHR 0x8A, CHR 0xB5, CHR 0xEB, CHR 0x8B, CHR 0x88, CHR 0xEB, CHR 0x8B, CHR 0xA4,
      CHR 0x2E]"

definition w_bad_name_password :: string where
  "w_bad_name_password =
     [CHR 0xEC, CHR 0x9D, CHR 0xB4, CHR 0xEB, CHR 0xA6, CHR 0x84, CHR 0xEA, CHR 0xB3, CHR 0xBC,
      CHR 0x20, CHR 0x31, CHR 0x32, CHR 0x7E, CHR 0x37, CHR 0x32, CHR 0xEB, CHR 0xB0, CHR 0x94,
      CHR 0xEC, CHR 0x9D, CHR 0xB4, CHR 0xED, CHR 0x8A, CHR 0xB8, CHR 0x20, CHR 0xEB, CHR 0xB9,
      CHR 0x84, CHR 0xEB, CHR 0xB0, CHR 0x80, CHR 0xEB, CHR 0xB2, CHR 0x88, CHR 0xED, CHR 0x98,
      CHR 0xB8, CHR 0xEB, CHR 0xA5, CHR 0xBC, CHR 0x20, CHR 0xED, CHR 0x99, CHR 0x95, CHR 0xEC,
      CHR 0x9D, CHR 0xB8, CHR 0xED, CHR 0x95, CHR 0xB4, CHR 0x20, CHR 0xEC, CHR 0xA3, CHR 0xBC,
      CHR 0xEC, CHR 0x84, CHR 0xB8, CHR 0xEC, CHR 0x9A, CHR 0x94, CHR 0x2E]"

definition w_invite_gone :: string where
  "w_invite_gone =
     [CHR 0xEC, CHR 0xB4, CHR 0x88, CHR 0xEB, CHR 0x8C, CHR 0x80, CHR 0xEA, CHR 0xB0, CHR 0x80,
      CHR 0x20, CHR 0xEB, CHR 0xA7, CHR 0x8C, CHR 0xEB, CHR 0xA3, CHR 0x8C, CHR 0xEB, CHR 0x90,
      CHR 0x98, CHR 0xEC, CHR 0x97, CHR 0x88, CHR 0xEA, CHR 0xB1, CHR 0xB0, CHR 0xEB, CHR 0x82,
      CHR 0x98, CHR 0x20, CHR 0xEC, CHR 0x9D, CHR 0xB4, CHR 0xEB, CHR 0xAF, CHR 0xB8, CHR 0x20,
      CHR 0xEC, CHR 0x82, CHR 0xAC, CHR 0xEC, CHR 0x9A, CHR 0xA9, CHR 0xEB, CHR 0x90, CHR 0x98,
      CHR 0xEC, CHR 0x97, CHR 0x88, CHR 0xEC, CHR 0x8A, CHR 0xB5, CHR 0xEB, CHR 0x8B, CHR 0x88,
      CHR 0xEB, CHR 0x8B, CHR 0xA4, CHR 0x2E]"

definition w_account_unmade :: string where
  "w_account_unmade =
     [CHR 0xEA, CHR 0xB3, CHR 0x84, CHR 0xEC, CHR 0xA0, CHR 0x95, CHR 0xEC, CHR 0x9D, CHR 0x84,
      CHR 0x20, CHR 0xEB, CHR 0xA7, CHR 0x8C, CHR 0xEB, CHR 0x93, CHR 0xA4, CHR 0xEC, CHR 0xA7,
      CHR 0x80, CHR 0x20, CHR 0xEB, CHR 0xAA, CHR 0xBB, CHR 0xED, CHR 0x96, CHR 0x88, CHR 0xEC,
      CHR 0x8A, CHR 0xB5, CHR 0xEB, CHR 0x8B, CHR 0x88, CHR 0xEB, CHR 0x8B, CHR 0xA4, CHR 0x2E]"

definition w_check_link :: string where
  "w_check_link =
     [CHR 0xEC, CHR 0xB4, CHR 0x88, CHR 0xEB, CHR 0x8C, CHR 0x80, CHR 0x20, CHR 0xEB, CHR 0xA7,
      CHR 0x81, CHR 0xED, CHR 0x81, CHR 0xAC, CHR 0xEB, CHR 0xA5, CHR 0xBC, CHR 0x20, CHR 0xED,
      CHR 0x99, CHR 0x95, CHR 0xEC, CHR 0x9D, CHR 0xB8, CHR 0xED, CHR 0x95, CHR 0xB4, CHR 0x20,
      CHR 0xEC, CHR 0xA3, CHR 0xBC, CHR 0xEC, CHR 0x84, CHR 0xB8, CHR 0xEC, CHR 0x9A, CHR 0x94,
      CHR 0x2E]"

definition w_invite_unread :: string where
  "w_invite_unread =
     [CHR 0xEC, CHR 0xB4, CHR 0x88, CHR 0xEB, CHR 0x8C, CHR 0x80, CHR 0x20, CHR 0xEC, CHR 0xA0,
      CHR 0x95, CHR 0xEB, CHR 0xB3, CHR 0xB4, CHR 0xEB, CHR 0xA5, CHR 0xBC, CHR 0x20, CHR 0xED,
      CHR 0x99, CHR 0x95, CHR 0xEC, CHR 0x9D, CHR 0xB8, CHR 0xED, CHR 0x95, CHR 0x98, CHR 0xEC,
      CHR 0xA7, CHR 0x80, CHR 0x20, CHR 0xEB, CHR 0xAA, CHR 0xBB, CHR 0xED, CHR 0x96, CHR 0x88,
      CHR 0xEC, CHR 0x8A, CHR 0xB5, CHR 0xEB, CHR 0x8B, CHR 0x88, CHR 0xEB, CHR 0x8B, CHR 0xA4,
      CHR 0x2E, CHR 0x20, CHR 0xEC, CHR 0x9E, CHR 0xA0, CHR 0xEC, CHR 0x8B, CHR 0x9C, CHR 0x20,
      CHR 0xED, CHR 0x9B, CHR 0x84, CHR 0x20, CHR 0xEB, CHR 0x8B, CHR 0xA4, CHR 0xEC, CHR 0x8B,
      CHR 0x9C, CHR 0x20, CHR 0xEC, CHR 0x8B, CHR 0x9C, CHR 0xEB, CHR 0x8F, CHR 0x84, CHR 0xED,
      CHR 0x95, CHR 0xB4, CHR 0x20, CHR 0xEC, CHR 0xA3, CHR 0xBC, CHR 0xEC, CHR 0x84, CHR 0xB8,
      CHR 0xEC, CHR 0x9A, CHR 0x94, CHR 0x2E]"

definition w_read_only :: string where
  "w_read_only =
     [CHR 0xEC, CHR 0x9D, CHR 0xBD, CHR 0xEA, CHR 0xB8, CHR 0xB0, CHR 0x20, CHR 0xEC, CHR 0xA0,
      CHR 0x84, CHR 0xEC, CHR 0x9A, CHR 0xA9, CHR 0x20, CHR 0xEB, CHR 0x8D, CHR 0xB0, CHR 0xEB,
      CHR 0xAA, CHR 0xA8, CHR 0xEC, CHR 0x97, CHR 0x90, CHR 0xEC, CHR 0x84, CHR 0x9C, CHR 0xEB,
      CHR 0x8A, CHR 0x94, CHR 0x20, CHR 0xEB, CHR 0xB3, CHR 0x80, CHR 0xEA, CHR 0xB2, CHR 0xBD,
      CHR 0x20, CHR 0xEB, CHR 0x82, CHR 0xB4, CHR 0xEC, CHR 0x9A, CHR 0xA9, CHR 0xEC, CHR 0x9D,
      CHR 0x84, CHR 0x20, CHR 0xEC, CHR 0xA0, CHR 0x80, CHR 0xEC, CHR 0x9E, CHR 0xA5, CHR 0xED,
      CHR 0x95, CHR 0x98, CHR 0xEC, CHR 0xA7, CHR 0x80, CHR 0x20, CHR 0xEC, CHR 0x95, CHR 0x8A,
      CHR 0xEC, CHR 0x8A, CHR 0xB5, CHR 0xEB, CHR 0x8B, CHR 0x88, CHR 0xEB, CHR 0x8B, CHR 0xA4,
      CHR 0x2E]"

definition w_method :: string where
  "w_method =
     [CHR 0xEC, CHR 0xA7, CHR 0x80, CHR 0xEC, CHR 0x9B, CHR 0x90, CHR 0xED, CHR 0x95, CHR 0x98,
      CHR 0xEC, CHR 0xA7, CHR 0x80, CHR 0x20, CHR 0xEC, CHR 0x95, CHR 0x8A, CHR 0xEB, CHR 0x8A,
      CHR 0x94, CHR 0x20, CHR 0xEC, CHR 0x9A, CHR 0x94, CHR 0xEC, CHR 0xB2, CHR 0xAD, CHR 0x20,
      CHR 0xEB, CHR 0xB0, CHR 0xA9, CHR 0xEC, CHR 0x8B, CHR 0x9D, CHR 0xEC, CHR 0x9E, CHR 0x85,
      CHR 0xEB, CHR 0x8B, CHR 0x88, CHR 0xEB, CHR 0x8B, CHR 0xA4, CHR 0x2E]"

definition w_report_suffix :: string where
  "w_report_suffix =
     [CHR 0xEB, CHR 0xB3, CHR 0xB4, CHR 0xEA, CHR 0xB3, CHR 0xA0, CHR 0xEC, CHR 0x84, CHR 0x9C,
      CHR 0x2E, CHR 0x68, CHR 0x74, CHR 0x6D, CHR 0x6C]"

definition w_bad_input :: string where
  "w_bad_input =
     [CHR 0xEC, CHR 0x9E, CHR 0x85, CHR 0xEB, CHR 0xA0, CHR 0xA5, CHR 0x20, CHR 0xEB, CHR 0x82,
      CHR 0xB4, CHR 0xEC, CHR 0x9A, CHR 0xA9, CHR 0xEC, CHR 0x9D, CHR 0x84, CHR 0x20, CHR 0xED,
      CHR 0x99, CHR 0x95, CHR 0xEC, CHR 0x9D, CHR 0xB8, CHR 0xED, CHR 0x95, CHR 0xB4, CHR 0x20,
      CHR 0xEC, CHR 0xA3, CHR 0xBC, CHR 0xEC, CHR 0x84, CHR 0xB8, CHR 0xEC, CHR 0x9A, CHR 0x94,
      CHR 0x2E]"

definition w_long_input :: string where
  "w_long_input =
     [CHR 0xEC, CHR 0x9E, CHR 0x85, CHR 0xEB, CHR 0xA0, CHR 0xA5, CHR 0x20, CHR 0xEB, CHR 0x82,
      CHR 0xB4, CHR 0xEC, CHR 0x9A, CHR 0xA9, CHR 0xEC, CHR 0x9D, CHR 0xB4, CHR 0x20, CHR 0xEB,
      CHR 0x84, CHR 0x88, CHR 0xEB, CHR 0xAC, CHR 0xB4, CHR 0x20, CHR 0xEA, CHR 0xB9, CHR 0x81,
      CHR 0xEB, CHR 0x8B, CHR 0x88, CHR 0xEB, CHR 0x8B, CHR 0xA4, CHR 0x2E]"

definition w_no_key_store :: string where
  "w_no_key_store =
     [CHR 0x41, CHR 0x50, CHR 0x49, CHR 0x20, CHR 0xED, CHR 0x82, CHR 0xA4, CHR 0x20, CHR 0xEC,
      CHR 0xA0, CHR 0x80, CHR 0xEC, CHR 0x9E, CHR 0xA5, CHR 0x20, CHR 0xEA, CHR 0xB8, CHR 0xB0,
      CHR 0xEB, CHR 0x8A, CHR 0xA5, CHR 0xEC, CHR 0x9D, CHR 0x84, CHR 0x20, CHR 0xEC, CHR 0x82,
      CHR 0xAC, CHR 0xEC, CHR 0x9A, CHR 0xA9, CHR 0xED, CHR 0x95, CHR 0xA0, CHR 0x20, CHR 0xEC,
      CHR 0x88, CHR 0x98, CHR 0x20, CHR 0xEC, CHR 0x97, CHR 0x86, CHR 0xEC, CHR 0x8A, CHR 0xB5,
      CHR 0xEB, CHR 0x8B, CHR 0x88, CHR 0xEB, CHR 0x8B, CHR 0xA4, CHR 0x2E]"

definition w_key_unsaved :: string where
  "w_key_unsaved =
     [CHR 0x41, CHR 0x50, CHR 0x49, CHR 0x20, CHR 0xED, CHR 0x82, CHR 0xA4, CHR 0xEB, CHR 0xA5,
      CHR 0xBC, CHR 0x20, CHR 0xEC, CHR 0xA0, CHR 0x80, CHR 0xEC, CHR 0x9E, CHR 0xA5, CHR 0xED,
      CHR 0x95, CHR 0x98, CHR 0xEC, CHR 0xA7, CHR 0x80, CHR 0x20, CHR 0xEB, CHR 0xAA, CHR 0xBB,
      CHR 0xED, CHR 0x96, CHR 0x88, CHR 0xEC, CHR 0x8A, CHR 0xB5, CHR 0xEB, CHR 0x8B, CHR 0x88,
      CHR 0xEB, CHR 0x8B, CHR 0xA4, CHR 0x2E, CHR 0x20, CHR 0xEC, CHR 0x84, CHR 0x9C, CHR 0xEB,
      CHR 0xB2, CHR 0x84, CHR 0xEC, CHR 0x9D, CHR 0x98, CHR 0x20, CHR 0xEC, CHR 0xA0, CHR 0x80,
      CHR 0xEC, CHR 0x9E, CHR 0xA5, CHR 0x20, CHR 0xEA, CHR 0xB2, CHR 0xBD, CHR 0xEB, CHR 0xA1,
      CHR 0x9C, CHR 0xEC, CHR 0x99, CHR 0x80, CHR 0x20, CHR 0xEA, CHR 0xB6, CHR 0x8C, CHR 0xED,
      CHR 0x95, CHR 0x9C, CHR 0xEC, CHR 0x9D, CHR 0x84, CHR 0x20, CHR 0xED, CHR 0x99, CHR 0x95,
      CHR 0xEC, CHR 0x9D, CHR 0xB8, CHR 0xED, CHR 0x95, CHR 0xB4, CHR 0x20, CHR 0xEC, CHR 0xA3,
      CHR 0xBC, CHR 0xEC, CHR 0x84, CHR 0xB8, CHR 0xEC, CHR 0x9A, CHR 0x94, CHR 0x2E]"

end
