(* ===== verification/Web_Model.thy ===== *)
theory Web_Model
  imports Api_Client Auth_Handler Web_Text
begin

text \<open>
  internal/web/handler.go: the identity, the read models and the commands the web surface exchanges with
  the application, requests and responses, and the pure helpers of the handler.
\<close>

section \<open>Read models\<close>

record request_context =
  wc_user :: string
  wc_name :: string
  wc_email :: string
  wc_tenant_name :: string
  wc_tenant :: string
  wc_role :: string
  wc_csrf :: string

record dashboard_view =
  dv_collected_at :: string
  dv_collected :: int
  dv_new :: int
  dv_matches :: int
  dv_filters :: int
  dv_run_time :: string
  dv_next :: string
  dv_healthy :: bool

record admin_view =
  av_key :: bool
  av_key_unavailable :: bool
  av_healthy :: bool
  av_collected_at :: string
  av_collected :: int
  av_failed :: int
  av_report_dir :: string

record listed_report =
  rv_id :: string
  rv_file :: string
  rv_trigger :: string
  rv_status :: string
  rv_due :: string
  rv_generated :: string
  rv_notices :: int
  rv_downloadable :: bool

record report_download =
  rd_name :: string
  rd_modified :: time
  rd_body :: "string option"

record listed_notice =
  lv_kind :: string
  lv_keyword :: string
  lv_trade :: string
  lv_date :: string
  lv_clock :: string
  lv_posted :: string
  lv_filter_keywords :: "string \<rightharpoonup> string"
  lv_id :: string
  lv_title :: string
  lv_category :: string
  lv_agency :: string
  lv_region :: string
  lv_amount :: string
  lv_deadline :: string
  lv_source :: string
  lv_reasons :: "string list"
  lv_filter_reasons :: "string \<rightharpoonup> string list"

record pagination_view =
  pv_page :: int
  pv_pages :: int
  pv_size :: int
  pv_total :: int
  pv_previous :: string
  pv_next :: string

record filter_view =
  fv_id :: string
  fv_name :: string
  fv_summary :: string
  fv_matches :: int
  fv_enabled :: bool

record recipient_view =
  ev_name :: string
  ev_email :: string
  ev_state :: string

record member_view =
  mv_user :: string
  mv_name :: string
  mv_email :: string
  mv_role :: string
  mv_removable :: bool

record tenant_view =
  tv_name :: string
  tv_members :: int
  tv_digest :: string
  tv_state :: string
  tv_admin :: string
  tv_admin_email :: string
  tv_contact :: string

record account_view =
  cv_user :: string
  cv_email :: string
  cv_display :: string
  cv_tenant :: string
  cv_tenant_name :: string
  cv_created :: string
  cv_role :: string
  cv_role_label :: string
  cv_assigned :: bool

record tenant_option =
  to_id :: string
  to_name :: string

record app_data =
  ad_dashboard :: dashboard_view
  ad_notices :: "listed_notice list"
  ad_filters :: "filter_view list"
  ad_recipients :: "recipient_view list"
  ad_reports :: "listed_report list"
  ad_members :: "member_view list"
  ad_tenants :: "tenant_view list"
  ad_accounts :: "account_view list"
  ad_options :: "tenant_option list"
  ad_time :: string
  ad_days :: "int list"
  ad_zone :: string
  ad_contact :: string
  ad_admin :: admin_view
  ad_demo :: bool

record invitation_view =
  vi_tenant :: string
  vi_email :: string
  vi_display :: string
  vi_role :: string
  vi_expires :: time

definition zero_dashboard :: dashboard_view where
  "zero_dashboard = \<lparr>dv_collected_at = [], dv_collected = 0, dv_new = 0, dv_matches = 0, dv_filters = 0,
     dv_run_time = [], dv_next = [], dv_healthy = False\<rparr>"

definition zero_admin :: admin_view where
  "zero_admin = \<lparr>av_key = False, av_key_unavailable = False, av_healthy = False, av_collected_at = [],
     av_collected = 0, av_failed = 0, av_report_dir = []\<rparr>"

definition zero_notice_view :: listed_notice where
  "zero_notice_view = \<lparr>lv_kind = [], lv_keyword = [], lv_trade = [], lv_date = [], lv_clock = [], lv_posted = [],
     lv_filter_keywords = Map.empty, lv_id = [], lv_title = [], lv_category = [], lv_agency = [], lv_region = [],
     lv_amount = [], lv_deadline = [], lv_source = [], lv_reasons = [], lv_filter_reasons = Map.empty\<rparr>"

definition zero_pagination :: pagination_view where
  "zero_pagination = \<lparr>pv_page = 0, pv_pages = 0, pv_size = 0, pv_total = 0, pv_previous = [], pv_next = []\<rparr>"

definition zero_app_data :: app_data where
  "zero_app_data = \<lparr>ad_dashboard = zero_dashboard, ad_notices = [], ad_filters = [], ad_recipients = [],
     ad_reports = [], ad_members = [], ad_tenants = [], ad_accounts = [], ad_options = [], ad_time = [],
     ad_days = [], ad_zone = [], ad_contact = [], ad_admin = zero_admin, ad_demo = False\<rparr>"

definition zero_invitation :: invitation_view where
  "zero_invitation = \<lparr>vi_tenant = [], vi_email = [], vi_display = [], vi_role = [], vi_expires = 0\<rparr>"

section \<open>Commands\<close>

record filter_command =
  fc_name :: string
  fc_include :: string
  fc_mode :: string
  fc_exclude :: string
  fc_category :: string
  fc_region :: string
  fc_amount :: "int option"
  fc_days :: "int option"
  fc_agency :: string

record toggle_command =
  tg_filter :: string
  tg_enabled :: bool

record schedule_command =
  sc_time :: string
  sc_days :: "int list"
  sc_zone :: string

record recipient_command =
  cr_name :: string
  cr_email :: string

record assign_command =
  as_user :: string
  as_tenant :: string
  as_role :: string

record settings_command =
  se_tenant :: string
  se_contact :: string

record tenant_command =
  tc_name :: string
  tc_contact :: string
  tc_admin :: string
  tc_admin_email :: string

record accept_command =
  xc_token :: string
  xc_display :: string
  xc_password :: string

text \<open>The methods of \<open>Actions\<close> that change something, with their commands.\<close>

datatype web_action =
    CmdSaveFilter filter_command
  | CmdToggleFilter toggle_command
  | CmdDeleteFilter string
  | CmdSaveSettings settings_command
  | CmdAssignAccount assign_command
  | CmdCreateTenant tenant_command
  | CmdRemoveMember string
  | CmdDeleteAccount string
  | CmdAddRecipient recipient_command
  | CmdRunCollection
  | CmdSendTestMail
  | CmdSaveReportSchedule schedule_command
  | CmdGenerateReport
  | CmdRetryReport string
  | CmdDeleteReport string

definition ErrTenantExists :: string where "ErrTenantExists = ''tenant is already registered''"
definition ErrRoleNeedsCompany :: string where "ErrRoleNeedsCompany = ''account role requires a company''"
definition ErrNoReport :: string where "ErrNoReport = ''report is unavailable''"
definition ErrNoInvitation :: string where "ErrNoInvitation = ''invitation is unavailable''"

definition ErrNoReportMatches :: string where "ErrNoReportMatches = ''no eligible report matches''"

section \<open>Requests\<close>

text \<open>
  \<open>wq_form\<close> and \<open>wq_post\<close> are the \<open>Form\<close> and \<open>PostForm\<close> of the request once \<open>FormValue\<close> or
  \<open>ParseForm\<close> has parsed it, \<open>wq_error\<close> is the error of that first parse, and the session and
  the token are those the outer handler put into the context.
\<close>

datatype form_error = TooLarge | BadForm

record web_request =
  wq_method :: string
  wq_path :: string
  wq_raw :: string
  wq_query :: "(string \<times> string list) list"
  wq_form :: "(string \<times> string list) list"
  wq_post :: "(string \<times> string list) list"
  wq_error :: "form_error option"
  wq_session :: "session_record option"
  wq_token :: "string option"

definition values_of :: "(string \<times> string list) list \<Rightarrow> string \<Rightarrow> string list" where
  "values_of q k = (case map_of q k of None \<Rightarrow> [] | Some vs \<Rightarrow> vs)"

definition value_get :: "(string \<times> string list) list \<Rightarrow> string \<Rightarrow> string" where
  "value_get q k = (case values_of q k of [] \<Rightarrow> [] | v # vs \<Rightarrow> v)"

definition FormValue :: "web_request \<Rightarrow> string \<Rightarrow> string" where
  "FormValue rq k = value_get (wq_form rq) k"

definition query_get :: "web_request \<Rightarrow> string \<Rightarrow> string" where
  "query_get rq k = value_get (wq_query rq) k"

section \<open>Who may do what\<close>

definition canMutateTenant :: "request_context \<Rightarrow> bool" where
  "canMutateTenant rc \<longleftrightarrow> wc_tenant rc \<noteq> [] \<and> (wc_role rc = ''tenant_admin'' \<or> wc_role rc = ''platform_admin'')"

definition canMutateReport :: "request_context \<Rightarrow> bool" where
  "canMutateReport rc \<longleftrightarrow> wc_tenant rc \<noteq> [] \<and> wc_role rc = ''tenant_admin''"

definition canViewAdmin :: "request_context \<Rightarrow> bool" where
  "canViewAdmin rc \<longleftrightarrow> wc_role rc = ''platform_admin''"

definition awaitingTenant :: "request_context \<Rightarrow> bool" where
  "awaitingTenant rc \<longleftrightarrow> wc_user rc \<noteq> [] \<and> wc_tenant rc = [] \<and> wc_role rc \<noteq> ''platform_admin''"

definition validCSRF :: "web_request \<Rightarrow> request_context \<Rightarrow> bool" where
  "validCSRF rq rc \<longleftrightarrow> wc_csrf rc \<noteq> [] \<and> FormValue rq ''_csrf'' \<noteq> [] \<and> FormValue rq ''_csrf'' = wc_csrf rc"

definition removableMembers :: "member_view list \<Rightarrow> request_context \<Rightarrow> member_view list" where
  "removableMembers ms rc = map (\<lambda>m. m\<lparr>mv_removable := mv_user m \<noteq> [] \<and> mv_user m \<noteq> wc_user rc\<rparr>) ms"

section \<open>Routes and names\<close>

definition allows :: "string \<Rightarrow> string list \<Rightarrow> bool" where
  "allows m ms = list_ex (\<lambda>a. m = a) ms"

definition is_hex :: "char \<Rightarrow> bool" where
  "is_hex c \<longleftrightarrow> is_digit c \<or> 97 \<le> byte c \<and> byte c \<le> 102 \<or> 65 \<le> byte c \<and> byte c \<le> 70"

definition validUUID :: "string \<Rightarrow> bool" where
  "validUUID v \<longleftrightarrow> length v = 36 \<and>
     list_all (\<lambda>(i, c). if i = 8 \<or> i = 13 \<or> i = 18 \<or> i = 23 then c = CHR ''-'' else is_hex c) (enumerate 0 v)"

definition reportRouteID :: "string \<Rightarrow> string \<Rightarrow> string option" where
  "reportRouteID path action =
     (if \<not> has_prefix path ''/reports/'' \<or> \<not> has_suffix path (''/'' @ action) then None
      else let i = trim_suffix (trim_prefix path ''/reports/'') (''/'' @ action) in
        if CHR ''/'' \<in> set i \<or> \<not> validUUID i then None else Some i)"

text \<open>\<open>time.Parse\<close> with the layout of eight digits: a day of the calendar.\<close>

definition leap_year :: "nat \<Rightarrow> bool" where
  "leap_year y \<longleftrightarrow> y mod 4 = 0 \<and> (y mod 100 \<noteq> 0 \<or> y mod 400 = 0)"

definition days_in :: "nat \<Rightarrow> nat \<Rightarrow> nat" where
  "days_in y m = (if m = 2 then (if leap_year y then 29 else 28) else if m \<in> {4, 6, 9, 11} then 30 else 31)"

definition is_date :: "string \<Rightarrow> bool" where
  "is_date v \<longleftrightarrow> length v = 8 \<and> list_all is_digit v \<and>
     (let y = digits_val (take 4 v); m = digits_val (take 2 (drop 4 v)); d = digits_val (drop 6 v) in
      1 \<le> m \<and> m \<le> 12 \<and> 1 \<le> d \<and> d \<le> days_in y m)"

text \<open>The bytes of the characters a file name must not have.\<close>

definition bad_name_rune :: "nat \<Rightarrow> bool" where
  "bad_name_rune r \<longleftrightarrow> is_control r \<or> r \<in> {47, 92, 58, 42, 63, 34, 60, 62, 124}"

definition safeAttachmentName :: "(nat \<Rightarrow> nat) \<Rightarrow> string \<Rightarrow> bool" where
  "safeAttachmentName low name \<longleftrightarrow>
     name \<noteq> [] \<and> length name \<le> 255 \<and> valid_utf8 name \<and> has_suffix (to_lower low name) ''.html'' \<and>
     (has_prefix name ''namo-'' \<or>
        23 < length name \<and> name ! 8 = CHR ''_'' \<and> has_suffix name w_report_suffix \<and> is_date (take 8 name)) \<and>
     list_all (\<lambda>(r, n). \<not> bad_name_rune r) (runes name)"

section \<open>Attachments\<close>

text \<open>\<open>mime.FormatMediaType\<close> with one parameter.\<close>

definition token_char :: "char \<Rightarrow> bool" where
  "token_char c \<longleftrightarrow> 32 < byte c \<and> byte c < 127 \<and>
     c \<notin> {CHR ''('', CHR '')'', CHR ''<'', CHR ''>'', CHR ''@'', CHR '','', CHR '';'', CHR '':'', CHR 0x5C, CHR 0x22, CHR ''/'',
       CHR ''['', CHR '']'', CHR ''?'', CHR ''=''}"

definition needs_encoding :: "string \<Rightarrow> bool" where
  "needs_encoding v \<longleftrightarrow> list_ex (\<lambda>c. (byte c < 32 \<or> 126 < byte c) \<and> byte c \<noteq> 9) v"

definition attribute_char :: "char \<Rightarrow> bool" where
  "attribute_char c \<longleftrightarrow> token_char c \<and> c \<noteq> CHR ''*'' \<and> c \<noteq> CHR 0x27 \<and> c \<noteq> CHR ''%''"

definition encode_attribute :: "string \<Rightarrow> string" where
  "encode_attribute v = concat (map (\<lambda>c. if attribute_char c then [c] else percent c) v)"

definition quote_attribute :: "string \<Rightarrow> string" where
  "quote_attribute v =
     [CHR 0x22] @ concat (map (\<lambda>c. if c = CHR 0x22 \<or> c = CHR 0x5C then [CHR 0x5C, c] else [c]) v) @ [CHR 0x22]"

definition attachment_header :: "string \<Rightarrow> string" where
  "attachment_header name =
     ''attachment; filename'' @
     (if needs_encoding name then ''*=utf-8'' @ [CHR 0x27, CHR 0x27] @ encode_attribute name
      else if name \<noteq> [] \<and> list_all token_char name then ''='' @ name
      else ''='' @ quote_attribute name)"

section \<open>Values of forms\<close>

definition allowedValue :: "string \<Rightarrow> string list \<Rightarrow> bool" where
  "allowedValue v allowed \<longleftrightarrow> v = [] \<or> list_ex (\<lambda>c. v = c) allowed"

text \<open>Atoi, the range, and the days seen before.\<close>

fun read_days :: "string list \<Rightarrow> int list \<Rightarrow> int list option" where
  "read_days [] days = Some days"
| "read_days (v # vs) days =
     (case parse_int64 v of
        None \<Rightarrow> None
      | Some d \<Rightarrow>
          if d < 0 \<or> 6 < d then None
          else read_days vs (if d \<in> set days then days else days @ [d]))"

text \<open>The form has been parsed by then, so \<open>ParseForm\<close> returns no error.\<close>

definition parseDeliveryDays :: "web_request \<Rightarrow> int list option" where
  "parseDeliveryDays rq =
     (let vs = values_of (wq_post rq) ''delivery_days'' in if vs = [] then None else read_days vs [])"

text \<open>\<open>time.Parse\<close> with the layout \<open>15:04\<close>: the hour has one or two digits, the minute two.\<close>

definition clock_value :: "string \<Rightarrow> string \<Rightarrow> (int \<times> int) option" where
  "clock_value h m =
     (if list_all is_digit h \<and> list_all is_digit m \<and> digits_val h < 24 \<and> digits_val m < 60
      then Some (int (digits_val h), int (digits_val m)) else None)"

fun parse_clock :: "string \<Rightarrow> (int \<times> int) option" where
  "parse_clock [a, b, c, d] = (if b = CHR '':'' then clock_value [a] [c, d] else None)"
| "parse_clock [a, b, c, d, e] = (if c = CHR '':'' then clock_value [a, b] [d, e] else None)"
| "parse_clock v = None"

section \<open>Lists of notices\<close>

definition matchesRegionSearch :: "(nat \<Rightarrow> nat) \<Rightarrow> string \<Rightarrow> string \<Rightarrow> bool" where
  "matchesRegionSearch low region query0 =
     (let query = trim_space query0 in
      if query = [] then True
      else list_ex (\<lambda>t. let term = to_lower low (trim_space t) in
             term \<noteq> [] \<and> str_contains (to_lower low region) term) (split_byte CHR '','' query))"

text \<open>One notice of the loop: the view to append, or nothing.\<close>

definition filter_notice :: "(nat \<Rightarrow> nat) \<Rightarrow> string \<Rightarrow> string \<Rightarrow> string \<Rightarrow> string \<Rightarrow> listed_notice \<Rightarrow> listed_notice option" where
  "filter_notice low query filterID category region n =
     (if filterID \<noteq> [] \<and> lv_filter_reasons n filterID = None then None
      else
        let m = (if filterID = [] then n
                 else n\<lparr>lv_reasons := the (lv_filter_reasons n filterID),
                        lv_keyword := (case lv_filter_keywords n filterID of None \<Rightarrow> [] | Some k \<Rightarrow> k)\<rparr>) in
        if query \<noteq> [] \<and> \<not> str_contains (to_lower low (lv_title m @ '' '' @ lv_agency m)) query then None
        else if category \<noteq> [] \<and> lv_category m \<noteq> category then None
        else if \<not> matchesRegionSearch low (lv_region m) region then None
        else Some m)"

definition filterNotices :: "(nat \<Rightarrow> nat) \<Rightarrow> listed_notice list \<Rightarrow> string \<Rightarrow> string \<Rightarrow> string \<Rightarrow> string \<Rightarrow> listed_notice list" where
  "filterNotices low ns query filterID category region =
     List.map_filter (filter_notice low (to_lower low query) filterID category region) ns"

text \<open>The values of the link to a page.\<close>

definition link_query :: "(string \<times> string list) list \<Rightarrow> int \<Rightarrow> int \<Rightarrow> (string \<times> string list) list" where
  "link_query q page psize = set_param ''per_page'' [show_int psize] (set_param ''page'' [show_int page] q)"

definition noticePageURL :: "(string \<times> string list) list \<Rightarrow> int \<Rightarrow> int \<Rightarrow> string" where
  "noticePageURL q page psize =
     ''/notices?'' @ encode_query (link_query q page psize)"

definition requested_size :: "(string \<times> string list) list \<Rightarrow> int" where
  "requested_size q =
     (case parse_int64 (value_get q ''per_page'') of
        Some n \<Rightarrow> if n = 10 \<or> n = 20 \<or> n = 30 then n else 10
      | None \<Rightarrow> 10)"

definition requested_page :: "(string \<times> string list) list \<Rightarrow> int" where
  "requested_page q = (case parse_int64 (value_get q ''page'') of Some n \<Rightarrow> if 0 < n then n else 1 | None \<Rightarrow> 1)"

definition paginateNotices :: "listed_notice list \<Rightarrow> (string \<times> string list) list \<Rightarrow> listed_notice list \<times> pagination_view" where
  "paginateNotices ns q =
     (let count = int (length ns);
          pageSize = requested_size q;
          pages = (count + pageSize - 1) div pageSize;
          page = (if pages = 0 then 1 else min (requested_page q) pages);
          start = min ((page - 1) * pageSize) count;
          finish = min (start + pageSize) count in
      (take (nat (finish - start)) (drop (nat start) ns),
       \<lparr>pv_page = page, pv_pages = pages, pv_size = pageSize, pv_total = count,
        pv_previous = (if 1 < page then noticePageURL q (page - 1) pageSize else []),
        pv_next = (if page < pages then noticePageURL q (page + 1) pageSize else [])\<rparr>))"

definition findNotice :: "listed_notice list \<Rightarrow> string \<Rightarrow> listed_notice option" where
  "findNotice ns i = (if i = [] \<or> CHR ''/'' \<in> set i then None else find (\<lambda>n. lv_id n = i) ns)"

section \<open>Functions of the templates\<close>

definition firstReason :: "string list \<Rightarrow> string" where
  "firstReason rs = (case rs of [] \<Rightarrow> [] | r # x \<Rightarrow> r)"

text \<open>The first code point; an invalid byte becomes U+FFFD.\<close>

definition initial :: "string \<Rightarrow> string" where
  "initial name = (if name = [] then [] else encode_rune (fst (decode_rune name)))"

definition hasDay :: "int list \<Rightarrow> int \<Rightarrow> bool" where
  "hasDay days wanted = list_ex (\<lambda>d. d = wanted) days"

text \<open>The loop from the right, three digits at a time, down to the sign.\<close>

function insert_commas :: "nat \<Rightarrow> int \<Rightarrow> string \<Rightarrow> string" where
  "insert_commas start i digits =
     (if i \<le> int start then digits
      else insert_commas start (i - 3) (take (nat i) digits @ '','' @ drop (nat i) digits))"
  by pat_completeness auto
termination by (relation "measure (\<lambda>(start, i, digits). nat i)") auto

declare insert_commas.simps [simp del]

definition formatNumber :: "int \<Rightarrow> string" where
  "formatNumber v =
     (let digits = show_int v in
      insert_commas (if has_prefix digits ''-'' then 1 else 0) (int (length digits) - 3) digits)"

definition state_of :: "web_request \<Rightarrow> string" where
  "state_of rq =
     (let s = query_get rq ''state'' in if s = ''empty'' \<or> s = ''error'' \<or> s = ''loading'' then s else ''ready'')"

end
