(* ===== verification/Api_Key.thy ===== *)
theory Api_Key
  imports Go_Path Sql Go_Utf8 Json_Text
begin

text \<open>
  internal/config/api_key.go: the key of the procurement service and the private file that keeps it.
  The file system maps cleaned absolute paths to what is there; each call may fail at any point (the
  monad of the database calls). The system is not Windows; modes are the permission bits.
\<close>

section \<open>Errors\<close>

definition ErrAPIKeyNotConfigured :: string where
  "ErrAPIKeyNotConfigured =
     [CHR 0xED, CHR 0x99, CHR 0x98, CHR 0xEA, CHR 0xB2, CHR 0xBD, CHR 0x20, CHR 0xEC, CHR 0x84,
      CHR 0xA4, CHR 0xEC, CHR 0xA0, CHR 0x95, CHR 0xEC, CHR 0x97, CHR 0x90, CHR 0xEC, CHR 0x84,
      CHR 0x9C, CHR 0x20, CHR 0xEB, CHR 0x82, CHR 0x98, CHR 0xEB, CHR 0x9D, CHR 0xBC, CHR 0xEC,
      CHR 0x9E, CHR 0xA5, CHR 0xED, CHR 0x84, CHR 0xB0, CHR 0x20, CHR 0x41, CHR 0x50, CHR 0x49,
      CHR 0x20, CHR 0xED, CHR 0x82, CHR 0xA4, CHR 0xEB, CHR 0xA5, CHR 0xBC, CHR 0x20, CHR 0xEB,
      CHR 0xA8, CHR 0xBC, CHR 0xEC, CHR 0xA0, CHR 0x80, CHR 0x20, CHR 0xEB, CHR 0x93, CHR 0xB1,
      CHR 0xEB, CHR 0xA1, CHR 0x9D, CHR 0xED, CHR 0x95, CHR 0x98, CHR 0xEC, CHR 0x84, CHR 0xB8,
      CHR 0xEC, CHR 0x9A, CHR 0x94]"

definition ErrInvalidAPIKey :: string where
  "ErrInvalidAPIKey =
     [CHR 0xEA, CHR 0xB3, CHR 0xB5, CHR 0xEA, CHR 0xB3, CHR 0xB5, CHR 0xEB, CHR 0x8D, CHR 0xB0,
      CHR 0xEC, CHR 0x9D, CHR 0xB4, CHR 0xED, CHR 0x84, CHR 0xB0, CHR 0xED, CHR 0x8F, CHR 0xAC,
      CHR 0xED, CHR 0x84, CHR 0xB8, CHR 0xEC, CHR 0x9D, CHR 0x98, CHR 0x20, CHR 0x45, CHR 0x6E,
      CHR 0x63, CHR 0x6F, CHR 0x64, CHR 0x69, CHR 0x6E, CHR 0x67, CHR 0x20, CHR 0xEB, CHR 0x98,
      CHR 0x90, CHR 0xEB, CHR 0x8A, CHR 0x94, CHR 0x20, CHR 0x44, CHR 0x65, CHR 0x63, CHR 0x6F,
      CHR 0x64, CHR 0x69, CHR 0x6E, CHR 0x67, CHR 0x20, CHR 0xEC, CHR 0x9D, CHR 0xB8, CHR 0xEC,
      CHR 0xA6, CHR 0x9D, CHR 0xED, CHR 0x82, CHR 0xA4, CHR 0xEB, CHR 0xA5, CHR 0xBC, CHR 0x20,
      CHR 0xEC, CHR 0x9E, CHR 0x85, CHR 0xEB, CHR 0xA0, CHR 0xA5, CHR 0xED, CHR 0x95, CHR 0x98,
      CHR 0xEC, CHR 0x84, CHR 0xB8, CHR 0xEC, CHR 0x9A, CHR 0x94, CHR 0x20, CHR 0x28, CHR 0xEA,
      CHR 0xB3, CHR 0xB5, CHR 0xEB, CHR 0xB0, CHR 0xB1, CHR 0x20, CHR 0xEC, CHR 0x97, CHR 0x86,
      CHR 0xEC, CHR 0x9D, CHR 0xB4, CHR 0x20, CHR 0xEC, CHR 0xB5, CHR 0x9C, CHR 0xEB, CHR 0x8C,
      CHR 0x80, CHR 0x20, CHR 0x34, CHR 0x30, CHR 0x39, CHR 0x36, CHR 0xEB, CHR 0xB0, CHR 0x94,
      CHR 0xEC, CHR 0x9D, CHR 0xB4, CHR 0xED, CHR 0x8A, CHR 0xB8, CHR 0x29]"

definition errAPIKeyFile :: string where
  "errAPIKeyFile =
     [CHR 0x41, CHR 0x50, CHR 0x49, CHR 0x20, CHR 0xED, CHR 0x82, CHR 0xA4, CHR 0x20, CHR 0xED,
      CHR 0x8C, CHR 0x8C, CHR 0xEC, CHR 0x9D, CHR 0xBC, CHR 0xEC, CHR 0x9D, CHR 0x84, CHR 0x20,
      CHR 0xEC, CHR 0x82, CHR 0xAC, CHR 0xEC, CHR 0x9A, CHR 0xA9, CHR 0xED, CHR 0x95, CHR 0xA0,
      CHR 0x20, CHR 0xEC, CHR 0x88, CHR 0x98, CHR 0x20, CHR 0xEC, CHR 0x97, CHR 0x86, CHR 0xEC,
      CHR 0x8A, CHR 0xB5, CHR 0xEB, CHR 0x8B, CHR 0x88, CHR 0xEB, CHR 0x8B, CHR 0xA4, CHR 0x2E,
      CHR 0x20, CHR 0xEC, CHR 0xA0, CHR 0x80, CHR 0xEC, CHR 0x9E, CHR 0xA5, CHR 0x20, CHR 0xEA,
      CHR 0xB2, CHR 0xBD, CHR 0xEB, CHR 0xA1, CHR 0x9C, CHR 0xEC, CHR 0x99, CHR 0x80, CHR 0x20,
      CHR 0xEA, CHR 0xB6, CHR 0x8C, CHR 0xED, CHR 0x95, CHR 0x9C, CHR 0xEC, CHR 0x9D, CHR 0x84,
      CHR 0x20, CHR 0xED, CHR 0x99, CHR 0x95, CHR 0xEC, CHR 0x9D, CHR 0xB8, CHR 0xED, CHR 0x95,
      CHR 0x98, CHR 0xEC, CHR 0x84, CHR 0xB8, CHR 0xEC, CHR 0x9A, CHR 0x94]"

section \<open>The key\<close>

text \<open>\<open>url.PathUnescape\<close>: every percent sign starts a two-digit escape, all else stands for itself.\<close>

fun PathUnescape :: "string \<Rightarrow> string option" where
  "PathUnescape [] = Some []"
| "PathUnescape (c # s) =
     (if c \<noteq> CHR ''%'' then map_option (Cons c) (PathUnescape s)
      else case s of
        a # b # r \<Rightarrow>
          (case (hex_val a, hex_val b) of
             (Some x, Some y) \<Rightarrow> map_option (Cons (char_of (16 * x + y))) (PathUnescape r)
           | _ \<Rightarrow> None)
      | _ \<Rightarrow> None)"

definition key_char :: "char \<Rightarrow> bool" where
  "key_char c \<longleftrightarrow> 97 \<le> byte c \<and> byte c \<le> 122 \<or> 65 \<le> byte c \<and> byte c \<le> 90 \<or> is_digit c \<or> c \<in> set ''+/=_-.''"

text \<open>The loop is over code points; those beyond ASCII, and invalid bytes, are refused like any other
  character, so it is a check of every byte.\<close>

definition NormalizeAPIKey :: "string \<Rightarrow> string res" where
  "NormalizeAPIKey raw =
     (let key = trim_space raw in
      if key = [] \<or> 4096 < length key then Inl (Sentinel ErrInvalidAPIKey)
      else case (if CHR ''%'' \<in> set key then PathUnescape key else Some key) of
        None \<Rightarrow> Inl (Sentinel ErrInvalidAPIKey)
      | Some k \<Rightarrow> if list_all key_char k then Inr k else Inl (Sentinel ErrInvalidAPIKey))"

section \<open>The file system\<close>

datatype key_node = KeyFile string nat | KeyDir nat | KeyLink string | KeyOther

type_synonym key_fs = "string \<Rightarrow> key_node option"
type_synonym 'a kio = "(key_fs, 'a) sql"

record key_store =
  ks_path :: string
  ks_fallback :: string

definition NotExist :: goerr where "NotExist = Sentinel ''file does not exist''"

definition group_or_other :: "nat \<Rightarrow> bool" where
  "group_or_other m \<longleftrightarrow> m mod 64 \<noteq> 0"

definition key_lstat :: "dbenv \<Rightarrow> string \<Rightarrow> key_node kio" where
  "key_lstat E p = sql_stmt E (\<lambda>n fs. case fs p of None \<Rightarrow> Inl NotExist | Some k \<Rightarrow> Inr (k, fs))"

text \<open>\<open>os.Open\<close> and \<open>os.Stat\<close> follow a link (here, one).\<close>

definition followed :: "key_fs \<Rightarrow> string \<Rightarrow> key_node option" where
  "followed fs p = (case fs p of Some (KeyLink q) \<Rightarrow> fs q | k \<Rightarrow> k)"

definition key_stat :: "dbenv \<Rightarrow> string \<Rightarrow> key_node kio" where
  "key_stat E p = sql_stmt E (\<lambda>n fs. case followed fs p of None \<Rightarrow> Inl NotExist | Some k \<Rightarrow> Inr (k, fs))"

definition key_read :: "dbenv \<Rightarrow> string \<Rightarrow> string kio" where
  "key_read E p = sql_stmt E (\<lambda>n fs. case followed fs p of
     Some (KeyFile c m) \<Rightarrow> Inr (take 4097 c, fs) | _ \<Rightarrow> Inl (ErrText ''read''))"

text \<open>\<open>os.CreateTemp\<close>: a new file of mode 0600 with a random name in the directory.\<close>

definition temp_key :: "dbenv \<Rightarrow> nat \<Rightarrow> string \<Rightarrow> string" where
  "temp_key E n dir = Join [dir, ''.g2b-key-'' @ uuid_at E n 0]"

definition key_create :: "dbenv \<Rightarrow> string \<Rightarrow> string kio" where
  "key_create E dir = sql_stmt E (\<lambda>n fs. let p = temp_key E n dir in
     case fs p of None \<Rightarrow> Inr (p, fs(p \<mapsto> KeyFile [] 384)) | Some k \<Rightarrow> Inl (ErrText ''create''))"

definition key_write :: "dbenv \<Rightarrow> string \<Rightarrow> string \<Rightarrow> unit kio" where
  "key_write E p bytes = sql_stmt E (\<lambda>n fs. case fs p of
     Some (KeyFile c m) \<Rightarrow> Inr ((), fs(p \<mapsto> KeyFile (c @ bytes) m)) | _ \<Rightarrow> Inl (ErrText ''write''))"

definition key_rename :: "dbenv \<Rightarrow> string \<Rightarrow> string \<Rightarrow> unit kio" where
  "key_rename E old new = sql_stmt E (\<lambda>n fs. case (fs old, fs new) of
     (None, _) \<Rightarrow> Inl NotExist
   | (Some k, Some (KeyDir m)) \<Rightarrow> Inl (ErrText ''file exists'')
   | (Some k, _) \<Rightarrow> Inr ((), (fs(old := None))(new \<mapsto> k)))"

definition key_remove :: "dbenv \<Rightarrow> string \<Rightarrow> unit kio" where
  "key_remove E p = sql_stmt E (\<lambda>n fs. case fs p of None \<Rightarrow> Inl NotExist | Some k \<Rightarrow> Inr ((), fs(p := None)))"

section \<open>The path\<close>

definition file_error :: "(key_fs, 'a) sql" where
  "file_error = sql_fail (Sentinel errAPIKeyFile)"

definition node_ok :: "key_node res \<Rightarrow> bool" where
  "node_ok r = (case r of Inr (KeyLink q) \<Rightarrow> False | Inr k \<Rightarrow> True | Inl e \<Rightarrow> errors_is e ''file does not exist'')"

text \<open>The loop up to the root of the file system.\<close>

partial_function (option) check_parents :: "dbenv \<Rightarrow> string \<Rightarrow> key_fs db \<Rightarrow> (unit res \<times> key_fs db) option" where
  "check_parents E p d =
     (case key_lstat E p d of (r, d1) \<Rightarrow>
        if \<not> node_ok r then Some (file_error d1)
        else if Dir p = p then Some (Inr (), d1)
        else check_parents E (Dir p) d1)"

definition checkPath :: "dbenv \<Rightarrow> string \<Rightarrow> key_fs db \<Rightarrow> (unit res \<times> key_fs db) option" where
  "checkPath E p d =
     (if \<not> IsAbs p \<or> Clean p \<noteq> p \<or> Dir p = p then Some (file_error d) else check_parents E p d)"

section \<open>Reading and saving\<close>

text \<open>What stands at the path, once the path is checked.\<close>

definition read_file :: "dbenv \<Rightarrow> string \<Rightarrow> key_fs db \<Rightarrow> string option res \<times> key_fs db" where
  "read_file E p d =
     (case key_stat E p d of
        (Inl e, d1) \<Rightarrow> (if errors_is e ''file does not exist'' then (Inr None, d1) else file_error d1)
      | (Inr k, d1) \<Rightarrow>
          (case k of
             KeyFile c m \<Rightarrow>
               if group_or_other m then file_error d1
               else (case key_read E p d1 of
                 (Inl e, d2) \<Rightarrow> file_error d2
               | (Inr bytes, d2) \<Rightarrow>
                   if 4096 < length bytes then file_error d2
                   else (case NormalizeAPIKey bytes of Inl e \<Rightarrow> file_error d2 | Inr key \<Rightarrow> (Inr (Some key), d2)))
           | _ \<Rightarrow> file_error d1))"

definition fallback_key :: "key_store \<Rightarrow> string res" where
  "fallback_key S =
     (let key = trim_space (ks_fallback S) in
      if key = [] then Inl (Sentinel ErrAPIKeyNotConfigured) else NormalizeAPIKey key)"

definition ReadKey :: "dbenv \<Rightarrow> key_store \<Rightarrow> key_fs db \<Rightarrow> (string res \<times> key_fs db) option" where
  "ReadKey E S d =
     (if ks_path S = [] then Some (fallback_key S, d)
      else case checkPath E (ks_path S) d of
        None \<Rightarrow> None
      | Some (Inl e, d1) \<Rightarrow> Some (Inl e, d1)
      | Some (Inr u, d1) \<Rightarrow>
          (case read_file E (ks_path S) d1 of
             (Inl e, d2) \<Rightarrow> Some (Inl e, d2)
           | (Inr (Some key), d2) \<Rightarrow> Some (Inr key, d2)
           | (Inr None, d2) \<Rightarrow> Some (fallback_key S, d2)))"

text \<open>Writing, syncing and closing the new file, and moving it to the path; any error is the same.\<close>

definition fill_key :: "dbenv \<Rightarrow> string \<Rightarrow> string \<Rightarrow> string \<Rightarrow> unit kio" where
  "fill_key E temp key path =
     sql_bind (key_write E temp key) (\<lambda>_. sql_bind (sql_call E) (\<lambda>_. sql_bind (sql_call E) (\<lambda>_. key_rename E temp path)))"

text \<open>The deferred \<open>Remove\<close> of the new file, whose error is ignored.\<close>

definition write_key :: "dbenv \<Rightarrow> string \<Rightarrow> string \<Rightarrow> unit kio" where
  "write_key E path key d =
     (case key_create E (Dir path) d of
        (Inl e, d1) \<Rightarrow> file_error d1
      | (Inr temp, d1) \<Rightarrow>
          (case fill_key E temp key path d1 of (r, d2) \<Rightarrow>
             (case r of Inl e \<Rightarrow> Inl (Sentinel errAPIKeyFile) | Inr u \<Rightarrow> Inr u, snd (key_remove E temp d2))))"

definition private_dir :: "dbenv \<Rightarrow> string \<Rightarrow> unit kio" where
  "private_dir E p d =
     (case key_stat E p d of
        (Inr (KeyDir m), d1) \<Rightarrow> if group_or_other m then file_error d1 else (Inr (), d1)
      | (r, d1) \<Rightarrow> file_error d1)"

definition SaveKey :: "dbenv \<Rightarrow> key_store \<Rightarrow> string \<Rightarrow> key_fs db \<Rightarrow> (unit res \<times> key_fs db) option" where
  "SaveKey E S raw d =
     (case NormalizeAPIKey raw of
        Inl e \<Rightarrow> Some (Inl e, d)
      | Inr key \<Rightarrow>
          (case checkPath E (ks_path S) d of
             None \<Rightarrow> None
           | Some (Inl e, d1) \<Rightarrow> Some (Inl e, d1)
           | Some (Inr u, d1) \<Rightarrow>
               Some (sql_bind (private_dir E (Dir (ks_path S))) (\<lambda>_. write_key E (ks_path S) key) d1)))"

end
