(* ===== verification/Web_Handler.thy ===== *)
theory Web_Handler
  imports Web_Model Api_Key "HOL-Library.Monad_Syntax"
begin

text \<open>
  internal/web/handler.go and internal/web/api_key.go: the handler of the web surface behind the session
  handler. A call of the application may wait and never return, so an answer is optional. A response is
  its headers and either a refusal with a text, a redirect (303), a page with the data of its template, a
  status page, a file of the embedded assets, or a stored report.
\<close>

section \<open>Pages and responses\<close>

record page_data =
  pd_title :: string
  pd_active :: string
  pd_state :: string
  pd_saved :: bool
  pd_key_saved :: bool
  pd_deleted :: bool
  pd_user :: string
  pd_tenant :: string
  pd_notices :: "listed_notice list"
  pd_notice :: listed_notice
  pd_filters :: "filter_view list"
  pd_recipients :: "recipient_view list"
  pd_reports :: "listed_report list"
  pd_members :: "member_view list"
  pd_tenants :: "tenant_view list"
  pd_date :: string
  pd_query :: string
  pd_filter :: string
  pd_category :: string
  pd_region :: string
  pd_pagination :: pagination_view
  pd_role :: string
  pd_csrf :: string
  pd_writable :: bool
  pd_dashboard :: dashboard_view
  pd_demo :: bool
  pd_login :: bool
  pd_time :: string
  pd_zone :: string
  pd_contact :: string
  pd_admin :: admin_view
  pd_days :: "int list"
  pd_admin_writable :: bool
  pd_admin_result :: string
  pd_report_empty :: bool
  pd_invite_result :: string
  pd_invitation :: invitation_view
  pd_invite_expires :: string
  pd_invite_token :: string
  pd_signup :: bool
  pd_accounts :: "account_view list"
  pd_options :: "tenant_option list"

datatype page_outcome =
    Refused int string
  | Moved string
  | Shown string page_data
  | StatusPage int string string
  | Asset string
  | Attachment report_download

record page_response =
  pr_headers :: "(string \<times> string) list"
  pr_outcome :: page_outcome

definition answer :: "page_outcome \<Rightarrow> page_response" where
  "answer x = \<lparr>pr_headers = [], pr_outcome = x\<rparr>"

definition header :: "string \<Rightarrow> string \<Rightarrow> page_response \<Rightarrow> page_response" where
  "header k v r = r\<lparr>pr_headers := (k, v) # pr_headers r\<rparr>"

definition refused :: "int \<Rightarrow> string \<Rightarrow> page_response" where
  "refused n t = answer (Refused n t)"

definition methodNotAllowed :: "string list \<Rightarrow> page_response" where
  "methodNotAllowed ms = header ''Allow'' (str_join '', '' ms) (refused 405 w_method)"

definition demoNotImplemented :: page_response where
  "demoNotImplemented = refused 501 w_read_only"

definition html_type :: "page_response \<Rightarrow> page_response" where
  "html_type = header ''Content-Type'' ''text/html; charset=utf-8''"

definition no_store :: "page_response \<Rightarrow> page_response" where
  "no_store = header ''Cache-Control'' ''no-store''"

text \<open>The template is the name and the data; its execution is \<open>html/template\<close>.\<close>

definition render :: "string \<Rightarrow> page_data \<Rightarrow> page_response" where
  "render name pd = html_type (answer (Shown name pd))"

definition renderStatus :: "int \<Rightarrow> string \<Rightarrow> string \<Rightarrow> page_response" where
  "renderStatus n title message = html_type (answer (StatusPage n title message))"

definition moved :: "string \<Rightarrow> page_response" where
  "moved path = answer (Moved path)"

section \<open>The environment\<close>

text \<open>
  \<open>we_act\<close> is the method of \<open>Actions\<close> of a command, \<open>we_zone\<close> tells whether \<open>time.LoadLocation\<close> knows a
  name, \<open>we_address\<close> is \<open>mail.ParseAddress\<close>, \<open>we_fold_eq\<close> \<open>strings.EqualFold\<close>, and \<open>we_offset\<close> the
  offset of the local zone.
\<close>

record 's web_onboarding =
  wo_invitation :: "string \<Rightarrow> 's \<Rightarrow> (invitation_view res \<times> 's) option"
  wo_accept :: "accept_command \<Rightarrow> 's \<Rightarrow> (unit res \<times> 's) option"

record 's web_env =
  we_demo :: bool
  we_lower :: "nat \<Rightarrow> nat"
  we_address :: "string \<Rightarrow> string option"
  we_fold_eq :: "string \<Rightarrow> string \<Rightarrow> bool"
  we_zone :: "string \<Rightarrow> bool"
  we_offset :: int
  we_now :: "'s \<Rightarrow> time"
  we_map :: "web_request \<Rightarrow> 's \<Rightarrow> (request_context res \<times> 's) option"
  we_load :: "request_context \<Rightarrow> string \<Rightarrow> 's \<Rightarrow> (app_data res \<times> 's) option"
  we_act :: "request_context \<Rightarrow> web_action \<Rightarrow> 's \<Rightarrow> (unit res \<times> 's) option"
  we_open :: "request_context \<Rightarrow> string \<Rightarrow> 's \<Rightarrow> (report_download res \<times> 's) option"
  we_onboarding :: "'s web_onboarding option"
  we_save_key :: "(request_context \<Rightarrow> string \<Rightarrow> 's \<Rightarrow> (unit res \<times> 's) option) option"

type_synonym 's web_io = "'s \<Rightarrow> (page_response \<times> 's) option"

definition reply :: "page_response \<Rightarrow> 's web_io" where
  "reply r s = Some (r, s)"

text \<open>One command, and the answer to its result.\<close>

definition perform :: "'s web_env \<Rightarrow> request_context \<Rightarrow> web_action \<Rightarrow> (unit res \<Rightarrow> page_response) \<Rightarrow> 's web_io" where
  "perform W rc c k s = do { (r, s1) \<leftarrow> we_act W rc c s; Some (k r, s1) }"

definition page :: "'s web_env \<Rightarrow> string \<Rightarrow> string \<Rightarrow> request_context \<Rightarrow> bool \<Rightarrow> bool \<Rightarrow> 's \<Rightarrow> page_data" where
  "page W title active rc writable demo s =
     \<lparr>pd_title = title, pd_active = active, pd_state = [], pd_saved = False, pd_key_saved = False, pd_deleted = False,
      pd_user = wc_name rc, pd_tenant = wc_tenant_name rc, pd_notices = [], pd_notice = zero_notice_view,
      pd_filters = [], pd_recipients = [], pd_reports = [], pd_members = [], pd_tenants = [],
      pd_date = format_date ''.'' (we_offset W) (we_now W s), pd_query = [], pd_filter = [], pd_category = [],
      pd_region = [], pd_pagination = zero_pagination, pd_role = wc_role rc, pd_csrf = wc_csrf rc,
      pd_writable = writable, pd_dashboard = zero_dashboard, pd_demo = demo, pd_login = False, pd_time = [],
      pd_zone = [], pd_contact = [], pd_admin = zero_admin, pd_days = [], pd_admin_writable = False,
      pd_admin_result = [], pd_report_empty = False, pd_invite_result = [], pd_invitation = zero_invitation,
      pd_invite_expires = [], pd_invite_token = [], pd_signup = False, pd_accounts = [], pd_options = []\<rparr>"

section \<open>Guards\<close>

definition reading :: "web_request \<Rightarrow> bool" where
  "reading rq \<longleftrightarrow> allows (wq_method rq) [''GET'', ''HEAD'']"

definition posting :: "web_request \<Rightarrow> bool" where
  "posting rq \<longleftrightarrow> wq_method rq = ''POST''"

text \<open>The check that every form handler starts with.\<close>

definition with_csrf :: "web_request \<Rightarrow> request_context \<Rightarrow> 's web_io \<Rightarrow> 's web_io" where
  "with_csrf rq rc k s = (if \<not> validCSRF rq rc then reply (refused 403 text_bad_request) s else k s)"

definition with_right :: "bool \<Rightarrow> string \<Rightarrow> 's web_io \<Rightarrow> 's web_io" where
  "with_right ok message k s = (if \<not> ok then reply (refused 403 message) s else k s)"

text \<open>A route for posts only, and a page for reads only.\<close>

definition post_route :: "'s web_env \<Rightarrow> web_request \<Rightarrow> 's web_io \<Rightarrow> 's web_io" where
  "post_route W rq k s =
     (if \<not> posting rq then reply (methodNotAllowed [''POST'']) s
      else if we_demo W then reply demoNotImplemented s
      else k s)"

definition read_route :: "web_request \<Rightarrow> string list \<Rightarrow> 's web_io \<Rightarrow> 's web_io" where
  "read_route rq others k s =
     (if \<not> reading rq then reply (methodNotAllowed ([''GET'', ''HEAD''] @ others)) s else k s)"

text \<open>A page whose path takes posts too.\<close>

definition page_route :: "'s web_env \<Rightarrow> web_request \<Rightarrow> 's web_io \<Rightarrow> 's web_io \<Rightarrow> 's web_io" where
  "page_route W rq post get s =
     (if posting rq then (if we_demo W then reply demoNotImplemented s else post s)
      else read_route rq [''POST''] get s)"

section \<open>Forms\<close>

definition field :: "web_request \<Rightarrow> string \<Rightarrow> string" where
  "field rq k = trim_space (FormValue rq k)"

text \<open>An empty field is no bound; \<open>Inl\<close> is a value outside the range.\<close>

definition deadline_field :: "web_request \<Rightarrow> unit + int option" where
  "deadline_field rq =
     (let raw = field rq ''deadline_days'' in
      if raw = [] then Inr None
      else case parse_int64 raw of None \<Rightarrow> Inl () | Some n \<Rightarrow> if n < 1 \<or> 365 < n then Inl () else Inr (Some n))"

definition amount_field :: "web_request \<Rightarrow> unit + int option" where
  "amount_field rq =
     (let raw = field rq ''min_amount'' in
      if raw = [] then Inr None
      else case parse_int64 raw of None \<Rightarrow> Inl () | Some n \<Rightarrow> if n < 0 then Inl () else Inr (Some n))"

definition filter_form :: "web_request \<Rightarrow> int option \<Rightarrow> int option \<Rightarrow> filter_command" where
  "filter_form rq amount days =
     \<lparr>fc_name = field rq ''name'', fc_include = field rq ''include_keywords'',
      fc_mode = (if field rq ''include_mode'' = [] then ''any'' else field rq ''include_mode''),
      fc_exclude = field rq ''exclude_keywords'', fc_category = FormValue rq ''category'',
      fc_region = field rq ''region'', fc_amount = amount, fc_days = days, fc_agency = field rq ''agency''\<rparr>"

definition filter_ok :: "filter_command \<Rightarrow> bool" where
  "filter_ok c \<longleftrightarrow> fc_name c \<noteq> [] \<and> allowedValue (fc_mode c) [''any'', ''all''] \<and>
     allowedValue (fc_category c) [w_construction, w_service, w_goods, w_foreign] \<and> rune_count (fc_region c) \<le> 128"

definition saved_or :: "string \<Rightarrow> string \<Rightarrow> unit res \<Rightarrow> page_response" where
  "saved_or path message r = (case r of Inl e \<Rightarrow> refused 500 message | Inr u \<Rightarrow> moved path)"

definition handleSaveFilter :: "'s web_env \<Rightarrow> web_request \<Rightarrow> request_context \<Rightarrow> 's web_io" where
  "handleSaveFilter W rq rc = with_csrf rq rc (\<lambda>s.
     case deadline_field rq of
       Inl u \<Rightarrow> reply (refused 400 w_bad_days) s
     | Inr days \<Rightarrow>
         (case amount_field rq of
            Inl u \<Rightarrow> reply (refused 400 w_bad_amount) s
          | Inr amount \<Rightarrow>
              let c = filter_form rq amount days in
              if \<not> filter_ok c then reply (refused 400 w_bad_filter) s
              else perform W rc (CmdSaveFilter c) (saved_or ''/filters?saved=1'' w_filter_unsaved) s))"

definition handleFilterToggle :: "'s web_env \<Rightarrow> web_request \<Rightarrow> request_context \<Rightarrow> 's web_io" where
  "handleFilterToggle W rq rc = with_csrf rq rc (\<lambda>s.
     let c = \<lparr>tg_filter = field rq ''filter'', tg_enabled = (FormValue rq ''enabled'' = ''1'')\<rparr> in
     if tg_filter c = [] then reply (refused 400 w_bad_filter_id) s
     else perform W rc (CmdToggleFilter c) (saved_or ''/filters?saved=1'' w_toggle_unsaved) s)"

definition handleFilterDelete :: "'s web_env \<Rightarrow> web_request \<Rightarrow> request_context \<Rightarrow> 's web_io" where
  "handleFilterDelete W rq rc = with_csrf rq rc (\<lambda>s.
     let i = field rq ''filter'' in
     if i = [] then reply (refused 400 w_bad_filter_id) s
     else perform W rc (CmdDeleteFilter i) (saved_or ''/filters?deleted=1'' w_filter_undeleted) s)"

definition handleSaveReportSchedule :: "'s web_env \<Rightarrow> web_request \<Rightarrow> request_context \<Rightarrow> 's web_io" where
  "handleSaveReportSchedule W rq rc = with_csrf rq rc (\<lambda>s.
     case parseDeliveryDays rq of
       None \<Rightarrow> reply (refused 400 w_no_weekday) s
     | Some days \<Rightarrow>
         let c = \<lparr>sc_time = FormValue rq ''delivery_time'', sc_days = days, sc_zone = FormValue rq ''timezone''\<rparr> in
         if parse_clock (sc_time c) = None then reply (refused 400 w_bad_clock) s
         else if \<not> we_zone W (sc_zone c) then reply (refused 400 w_bad_zone) s
         else perform W rc (CmdSaveReportSchedule c) (saved_or ''/reports?saved=1'' w_schedule_unsaved) s)"

section \<open>Reports\<close>

definition handleGenerateReport :: "'s web_env \<Rightarrow> web_request \<Rightarrow> request_context \<Rightarrow> 's web_io" where
  "handleGenerateReport W rq rc = with_csrf rq rc
     (perform W rc CmdGenerateReport (\<lambda>r. case r of
        Inl e \<Rightarrow> if errors_is e ErrNoReportMatches then moved ''/reports?result=empty'' else refused 500 w_report_failed
      | Inr u \<Rightarrow> moved ''/reports?result=generated''))"

definition handleRetryReport :: "'s web_env \<Rightarrow> web_request \<Rightarrow> request_context \<Rightarrow> string \<Rightarrow> 's web_io" where
  "handleRetryReport W rq rc reportID = with_csrf rq rc
     (perform W rc (CmdRetryReport reportID) (\<lambda>r. case r of
        Inl e \<Rightarrow> if errors_is e ErrNoReport then renderStatus 404 w_no_report w_check_report else refused 500 w_retry_failed
      | Inr u \<Rightarrow> moved ''/reports?result=retried''))"

definition handleDeleteReport :: "'s web_env \<Rightarrow> web_request \<Rightarrow> request_context \<Rightarrow> string \<Rightarrow> 's web_io" where
  "handleDeleteReport W rq rc reportID = with_csrf rq rc
     (perform W rc (CmdDeleteReport reportID) (\<lambda>r. case r of
        Inl e \<Rightarrow> if errors_is e ErrNoReport then renderStatus 404 w_undeletable w_check_finished else refused 500 w_delete_failed
      | Inr u \<Rightarrow> moved ''/reports?result=deleted''))"

text \<open>The file of a refused download is closed.\<close>

definition download_reply :: "'s web_env \<Rightarrow> report_download res \<Rightarrow> page_response" where
  "download_reply W r =
     (case r of
        Inl e \<Rightarrow> if errors_is e ErrNoReport then renderStatus 404 w_no_report w_check_report else refused 500 w_open_failed
      | Inr f \<Rightarrow>
          if rd_body f = None \<or> \<not> safeAttachmentName (we_lower W) (rd_name f) then refused 500 w_open_failed
          else header ''Content-Disposition'' (attachment_header (rd_name f))
                (html_type (header ''X-Content-Type-Options'' ''nosniff''
                  (header ''Cache-Control'' ''private, no-store'' (answer (Attachment f))))))"

definition handleReportDownload :: "'s web_env \<Rightarrow> request_context \<Rightarrow> string \<Rightarrow> 's web_io" where
  "handleReportDownload W rc reportID s = do { (r, s1) \<leftarrow> we_open W rc reportID s; Some (download_reply W r, s1) }"

section \<open>Recipients, companies and accounts\<close>

definition handleAddRecipient :: "'s web_env \<Rightarrow> web_request \<Rightarrow> request_context \<Rightarrow> 's web_io" where
  "handleAddRecipient W rq rc = with_csrf rq rc (\<lambda>s.
     let c = \<lparr>cr_name = field rq ''name'', cr_email = to_lower (we_lower W) (field rq ''email'')\<rparr> in
     if cr_name c = [] \<or> we_address W (cr_email c) \<noteq> Some (cr_email c) then reply (refused 400 w_bad_recipient) s
     else perform W rc (CmdAddRecipient c) (saved_or ''/notifications?saved=1'' w_recipient_unsaved) s)"

definition platform_command :: "string \<Rightarrow> web_action option" where
  "platform_command action =
     (if action = ''collection'' then Some CmdRunCollection
      else if action = ''test-mail'' then Some CmdSendTestMail else None)"

definition handlePlatformAction :: "'s web_env \<Rightarrow> web_request \<Rightarrow> request_context \<Rightarrow> string \<Rightarrow> 's web_io" where
  "handlePlatformAction W rq rc action = with_right (canViewAdmin rc) w_platform_only (with_csrf rq rc (\<lambda>s.
     case platform_command action of
       None \<Rightarrow> reply (refused 404 ''404 page not found'') s
     | Some c \<Rightarrow> perform W rc c (\<lambda>r. case r of
         Inl e \<Rightarrow> if errors_is e ErrAPIKeyNotConfigured then refused 409 w_need_key else refused 500 w_action_failed
       | Inr u \<Rightarrow> moved (''/admin?result='' @ action)) s))"

definition plainEmail :: "'s web_env \<Rightarrow> string \<Rightarrow> string option" where
  "plainEmail W raw =
     (let v = trim_space raw in
      if v = [] \<or> CHR 0x0D \<in> set v \<or> CHR 0x0A \<in> set v then None
      else case we_address W v of
        None \<Rightarrow> None
      | Some a \<Rightarrow> if we_fold_eq W a v then Some (to_lower (we_lower W) a) else None)"

definition tenant_form :: "'s web_env \<Rightarrow> web_request \<Rightarrow> tenant_command option" where
  "tenant_form W rq =
     (case (plainEmail W (FormValue rq ''contact_email''), plainEmail W (FormValue rq ''admin_email'')) of
        (Some contact, Some admin) \<Rightarrow>
          let c = \<lparr>tc_name = field rq ''tenant_name'', tc_contact = contact, tc_admin = field rq ''admin_name'', tc_admin_email = admin\<rparr> in
          if tc_name c = [] \<or> tc_admin c = [] \<or> 128 < rune_count (tc_name c) \<or> 128 < rune_count (tc_admin c) then None else Some c
      | _ \<Rightarrow> None)"

definition handleCreateTenant :: "'s web_env \<Rightarrow> web_request \<Rightarrow> request_context \<Rightarrow> 's web_io" where
  "handleCreateTenant W rq rc = with_right (canViewAdmin rc) w_platform_only (with_csrf rq rc (\<lambda>s.
     case tenant_form W rq of
       None \<Rightarrow> reply (refused 400 w_bad_company) s
     | Some c \<Rightarrow> perform W rc (CmdCreateTenant c) (\<lambda>r. case r of
         Inl e \<Rightarrow> if errors_is e ErrTenantExists then refused 409 w_company_exists else refused 500 w_company_unsaved
       | Inr u \<Rightarrow> moved ''/admin?result=tenant-created'') s))"

definition assign_form :: "web_request \<Rightarrow> assign_command" where
  "assign_form rq =
     (let c = \<lparr>as_user = field rq ''user_id'', as_tenant = field rq ''tenant_id'',
               as_role = (if field rq ''role'' = [] then ''member'' else field rq ''role'')\<rparr> in
      if FormValue rq ''mode'' = ''revoke'' then c\<lparr>as_tenant := [], as_role := ''member''\<rparr> else c)"

definition handleAssignAccount :: "'s web_env \<Rightarrow> web_request \<Rightarrow> request_context \<Rightarrow> 's web_io" where
  "handleAssignAccount W rq rc = with_right (canViewAdmin rc) w_platform_only (with_csrf rq rc (\<lambda>s.
     let c = assign_form rq in
     if as_user c = [] \<or> \<not> allowedValue (as_role c) [''member'', ''tenant_admin''] then reply (refused 400 w_bad_assignment) s
     else if as_tenant c = [] \<and> as_role c \<noteq> ''member'' then reply (refused 400 w_role_needs_company) s
     else perform W rc (CmdAssignAccount c) (\<lambda>r. case r of
         Inl e \<Rightarrow> if errors_is e ErrRoleNeedsCompany then refused 400 w_role_needs_company else refused 500 w_assignment_failed
       | Inr u \<Rightarrow> moved (''/admin?result='' @ (if as_tenant c = [] then ''account-revoked'' else ''account-assigned''))) s))"

definition handleRemoveMember :: "'s web_env \<Rightarrow> web_request \<Rightarrow> request_context \<Rightarrow> 's web_io" where
  "handleRemoveMember W rq rc = with_csrf rq rc (\<lambda>s.
     let u = field rq ''user_id'' in
     if u = [] then reply (refused 400 w_bad_member) s
     else if u = wc_user rc then reply (refused 400 w_not_yourself) s
     else perform W rc (CmdRemoveMember u) (saved_or ''/settings?result=member-removed'' w_member_kept) s)"

definition handleDeleteAccount :: "'s web_env \<Rightarrow> web_request \<Rightarrow> request_context \<Rightarrow> 's web_io" where
  "handleDeleteAccount W rq rc = with_right (canViewAdmin rc) w_platform_only (with_csrf rq rc (\<lambda>s.
     let u = field rq ''user_id'' in
     if u = [] \<or> u = wc_user rc then reply (refused 400 w_bad_account) s
     else perform W rc (CmdDeleteAccount u) (saved_or ''/admin?result=account-deleted'' w_account_kept) s))"

definition renderPending :: "'s web_env \<Rightarrow> web_request \<Rightarrow> request_context \<Rightarrow> 's web_io" where
  "renderPending W rq rc s =
     (if \<not> reading rq then reply (refused 403 w_wait_for_company) s
      else reply (no_store (render ''pending'' (page W w_pending_title [] rc False False s))) s)"

definition handleSaveSettings :: "'s web_env \<Rightarrow> web_request \<Rightarrow> request_context \<Rightarrow> 's web_io" where
  "handleSaveSettings W rq rc = with_csrf rq rc (\<lambda>s.
     let c = \<lparr>se_tenant = field rq ''tenant_name'', se_contact = field rq ''contact_email''\<rparr> in
     if se_tenant c = [] \<or> we_address W (se_contact c) \<noteq> Some (se_contact c) then reply (refused 400 w_bad_settings) s
     else perform W rc (CmdSaveSettings c) (saved_or ''/settings?saved=1'' w_settings_unsaved) s)"

section \<open>Invitations\<close>

definition accept_form :: "web_request \<Rightarrow> accept_command" where
  "accept_form rq = \<lparr>xc_token = field rq ''token'', xc_display = field rq ''display_name'', xc_password = FormValue rq ''password''\<rparr>"

definition accept_form_ok :: "web_request \<Rightarrow> accept_command \<Rightarrow> bool" where
  "accept_form_ok rq c \<longleftrightarrow> xc_token c \<noteq> [] \<and> xc_display c \<noteq> [] \<and> valid_utf8 (xc_password c) \<and>
     12 \<le> length (xc_password c) \<and> length (xc_password c) \<le> 72 \<and> xc_password c = FormValue rq ''password_confirm''"

definition handleAcceptInvitation :: "'s web_env \<Rightarrow> 's web_onboarding \<Rightarrow> web_request \<Rightarrow> request_context \<Rightarrow> 's web_io" where
  "handleAcceptInvitation W ob rq rc = with_csrf rq rc (\<lambda>s.
     let c = accept_form rq in
     if \<not> accept_form_ok rq c then reply (refused 400 w_bad_name_password) s
     else do {
       (r, s1) \<leftarrow> wo_accept ob c s;
       Some ((case r of
          Inl e \<Rightarrow> if errors_is e ErrNoInvitation then refused 410 w_invite_gone else refused 500 w_account_unmade
        | Inr u \<Rightarrow> moved ''/login?accepted=1''), s1) })"

definition korean_minute :: "time \<Rightarrow> string" where
  "korean_minute t =
     (case clock_of kst_offset t of (h, m, s) \<Rightarrow> format_date ''.'' kst_offset t @ '' '' @ pad 2 h @ '':'' @ pad 2 m)"

definition handleInspectInvitation :: "'s web_env \<Rightarrow> 's web_onboarding \<Rightarrow> web_request \<Rightarrow> request_context \<Rightarrow> 's web_io" where
  "handleInspectInvitation W ob rq rc = with_csrf rq rc (\<lambda>s.
     let token = field rq ''token'' in
     if token = [] then reply (refused 400 w_check_link) s
     else do {
       (r, s1) \<leftarrow> wo_invitation ob token s;
       Some ((case r of
          Inl e \<Rightarrow> if errors_is e ErrNoInvitation then refused 410 w_invite_gone else refused 503 w_invite_unread
        | Inr i \<Rightarrow> render ''accept-invite'' ((page W w_accept_title [] rc False False s1)
            \<lparr>pd_invitation := i, pd_invite_token := token, pd_invite_expires := korean_minute (vi_expires i)\<rparr>)), s1) })"

section \<open>The key of the procurement service\<close>

definition handleSaveAPIKey :: "'s web_env \<Rightarrow> web_request \<Rightarrow> request_context \<Rightarrow> 's web_io" where
  "handleSaveAPIKey W rq rc s =
     (if \<not> posting rq then reply (no_store (methodNotAllowed [''POST''])) s
      else if we_demo W then reply (no_store demoNotImplemented) s
      else if \<not> canViewAdmin rc \<or> wc_user rc = [] then reply (no_store (refused 403 w_platform_only)) s
      else case wq_error rq of
        Some e \<Rightarrow> reply (no_store (refused (if e = TooLarge then 413 else 400) w_bad_input)) s
      | None \<Rightarrow>
          if 16384 < length (encode_query (wq_post rq)) then reply (no_store (refused 413 w_long_input)) s
          else if \<not> validCSRF rq rc then reply (no_store (refused 403 text_bad_request)) s
          else (case NormalizeAPIKey (value_get (wq_post rq) ''api_key'') of
            Inl e \<Rightarrow> reply (no_store (refused 400 ErrInvalidAPIKey)) s
          | Inr key \<Rightarrow>
              (case we_save_key W of
                 None \<Rightarrow> reply (no_store (refused 503 w_no_key_store)) s
               | Some save \<Rightarrow> do {
                   (r, s1) \<leftarrow> save rc key s;
                   Some (no_store (case r of Inl e \<Rightarrow> refused 500 w_key_unsaved | Inr u \<Rightarrow> moved ''/settings?result=g2b-key-saved''), s1) })))"

end
