(* ===== verification/Web_Route.thy ===== *)
theory Web_Route
  imports Web_Handler
begin

text \<open>
  internal/web/handler.go, \<open>ServeHTTP\<close>: the cases of its switch, and the checks before it.
\<close>

section \<open>Pages without a company\<close>

definition on_reply :: "(page_response \<Rightarrow> page_response) \<Rightarrow> 's web_io \<Rightarrow> 's web_io" where
  "on_reply f k s = map_option (\<lambda>(r, s1). (f r, s1)) (k s)"

text \<open>A post of a page that the session handler answers.\<close>

definition session_page :: "'s web_env \<Rightarrow> web_request \<Rightarrow> 's web_io \<Rightarrow> 's web_io" where
  "session_page W rq get s =
     (if posting rq then reply (if we_demo W then demoNotImplemented else methodNotAllowed [''GET'', ''HEAD'']) s
      else read_route rq [] get s)"

definition serve_login :: "'s web_env \<Rightarrow> web_request \<Rightarrow> request_context \<Rightarrow> app_data \<Rightarrow> 's web_io" where
  "serve_login W rq rc ad = session_page W rq (\<lambda>s.
     let pd = (page W w_login_title [] rc (canMutateTenant rc) (ad_demo ad) s)\<lparr>pd_login := \<not> we_demo W, pd_signup := \<not> we_demo W\<rparr> in
     reply (render ''login''
       (if \<not> we_demo W \<and> query_get rq ''accepted'' = ''1'' then pd\<lparr>pd_invite_result := w_accepted\<rparr> else pd)) s)"

definition serve_signup :: "'s web_env \<Rightarrow> web_request \<Rightarrow> request_context \<Rightarrow> app_data \<Rightarrow> 's web_io" where
  "serve_signup W rq rc ad = session_page W rq (\<lambda>s.
     reply (no_store (render ''signup'' ((page W w_signup_title [] rc False (ad_demo ad) s)\<lparr>pd_signup := \<not> we_demo W\<rparr>))) s)"

definition invitation_page :: "'s web_env \<Rightarrow> web_request \<Rightarrow> request_context \<Rightarrow> 's web_io" where
  "invitation_page W rq rc s =
     (case (if we_demo W then None else we_onboarding W) of
        None \<Rightarrow> reply (renderStatus 503 w_no_invites w_ask_admin) s
      | Some ob \<Rightarrow>
          if posting rq then
            (if FormValue rq ''mode'' = ''inspect'' then handleInspectInvitation W ob rq rc s
             else handleAcceptInvitation W ob rq rc s)
          else read_route rq [''POST''] (\<lambda>s.
            if wq_raw rq \<noteq> [] then reply (renderStatus 400 w_check_link_title w_newest_link) s
            else reply (render ''accept-invite-bootstrap'' (page W w_accept_title [] rc False False s)) s) s)"

definition serve_invitation :: "'s web_env \<Rightarrow> web_request \<Rightarrow> request_context \<Rightarrow> 's web_io" where
  "serve_invitation W rq rc =
     on_reply (\<lambda>r. header ''Referrer-Policy'' ''no-referrer'' (no_store r)) (invitation_page W rq rc)"

section \<open>Dashboard and notices\<close>

definition serve_dashboard :: "'s web_env \<Rightarrow> web_request \<Rightarrow> request_context \<Rightarrow> app_data \<Rightarrow> 's web_io" where
  "serve_dashboard W rq rc ad = read_route rq [] (\<lambda>s.
     reply (render ''dashboard''
       ((page W w_dashboard_title ''dashboard'' rc (canMutateTenant rc) (ad_demo ad) s)\<lparr>pd_dashboard := ad_dashboard ad\<rparr>)) s)"

definition notices_page :: "'s web_env \<Rightarrow> web_request \<Rightarrow> request_context \<Rightarrow> app_data \<Rightarrow> 's \<Rightarrow> page_data" where
  "notices_page W rq rc ad s =
     (let query = trim_space (query_get rq ''q''); chosen = trim_space (query_get rq ''filter'');
          category = query_get rq ''category''; region = query_get rq ''region'' in
      case paginateNotices (filterNotices (we_lower W) (ad_notices ad) query chosen category region) (wq_query rq) of
        (shown, pagination) \<Rightarrow>
          (page W w_notices_title ''notices'' rc (canMutateTenant rc) (ad_demo ad) s)
            \<lparr>pd_state := state_of rq, pd_query := query, pd_filter := chosen, pd_category := category, pd_region := region,
             pd_filters := ad_filters ad, pd_notices := (if state_of rq = ''empty'' then [] else shown), pd_pagination := pagination\<rparr>)"

definition serve_notices :: "'s web_env \<Rightarrow> web_request \<Rightarrow> request_context \<Rightarrow> app_data \<Rightarrow> 's web_io" where
  "serve_notices W rq rc ad = read_route rq [] (\<lambda>s. reply (render ''notices'' (notices_page W rq rc ad s)) s)"

definition serve_notice :: "'s web_env \<Rightarrow> web_request \<Rightarrow> request_context \<Rightarrow> app_data \<Rightarrow> 's web_io" where
  "serve_notice W rq rc ad = read_route rq [] (\<lambda>s.
     case findNotice (ad_notices ad) (trim_prefix (wq_path rq) ''/notices/'') of
       None \<Rightarrow> reply (renderStatus 404 w_no_notice w_check_notice) s
     | Some n \<Rightarrow>
         let chosen = trim_space (query_get rq ''filter'');
             found = (if chosen = [] then [n] else filterNotices (we_lower W) [n] [] chosen [] []) in
         if found = [] then reply (renderStatus 404 w_not_in_filter w_back_to_filter) s
         else reply (render ''notice-detail''
           ((page W w_notice_title ''notices'' rc (canMutateTenant rc) (ad_demo ad) s)\<lparr>pd_filter := chosen, pd_notice := hd found\<rparr>)) s)"

section \<open>Filters and reports\<close>

definition saved_flag :: "'s web_env \<Rightarrow> web_request \<Rightarrow> string \<Rightarrow> bool" where
  "saved_flag W rq k \<longleftrightarrow> \<not> we_demo W \<and> query_get rq k = ''1''"

definition serve_filters :: "'s web_env \<Rightarrow> web_request \<Rightarrow> request_context \<Rightarrow> app_data \<Rightarrow> 's web_io" where
  "serve_filters W rq rc ad = page_route W rq
     (with_right (canMutateTenant rc) w_tenant_only (handleSaveFilter W rq rc))
     (\<lambda>s. reply (render ''filters''
       ((page W w_filters_title ''filters'' rc (canMutateTenant rc) (ad_demo ad) s)
         \<lparr>pd_saved := saved_flag W rq ''saved'', pd_deleted := saved_flag W rq ''deleted'', pd_filters := ad_filters ad\<rparr>)) s)"

definition serve_filter_toggle :: "'s web_env \<Rightarrow> web_request \<Rightarrow> request_context \<Rightarrow> 's web_io" where
  "serve_filter_toggle W rq rc =
     post_route W rq (with_right (canMutateTenant rc) w_tenant_only (handleFilterToggle W rq rc))"

definition serve_filter_delete :: "'s web_env \<Rightarrow> web_request \<Rightarrow> request_context \<Rightarrow> 's web_io" where
  "serve_filter_delete W rq rc =
     post_route W rq (with_right (\<not> (wc_tenant rc = [] \<or> wc_role rc \<noteq> ''tenant_admin'')) w_tenant_only (handleFilterDelete W rq rc))"

definition report_message :: "string \<Rightarrow> page_data \<Rightarrow> page_data" where
  "report_message result pd =
     (if result = ''generated'' then pd\<lparr>pd_admin_result := w_report_requested\<rparr>
      else if result = ''empty'' then pd\<lparr>pd_report_empty := True\<rparr>
      else if result = ''retried'' then pd\<lparr>pd_admin_result := w_retry_requested\<rparr>
      else if result = ''deleted'' then pd\<lparr>pd_admin_result := w_report_deleted\<rparr>
      else pd)"

definition serve_reports :: "'s web_env \<Rightarrow> web_request \<Rightarrow> request_context \<Rightarrow> app_data \<Rightarrow> 's web_io" where
  "serve_reports W rq rc ad = page_route W rq
     (with_right (canMutateReport rc) w_tenant_only (handleSaveReportSchedule W rq rc))
     (\<lambda>s. reply (render ''reports'' (report_message (query_get rq ''result'')
       ((page W w_reports_title ''reports'' rc (canMutateReport rc) (ad_demo ad) s)
         \<lparr>pd_state := state_of rq, pd_saved := saved_flag W rq ''saved'',
          pd_reports := (if state_of rq = ''empty'' then [] else ad_reports ad),
          pd_time := ad_time ad, pd_days := ad_days ad, pd_zone := ad_zone ad, pd_dashboard := ad_dashboard ad\<rparr>))) s)"

text \<open>The posts that change reports.\<close>

definition report_post :: "'s web_env \<Rightarrow> web_request \<Rightarrow> request_context \<Rightarrow> 's web_io \<Rightarrow> 's web_io" where
  "report_post W rq rc k = post_route W rq (with_right (canMutateReport rc) w_tenant_only k)"

definition serve_download :: "'s web_env \<Rightarrow> web_request \<Rightarrow> request_context \<Rightarrow> string \<Rightarrow> 's web_io" where
  "serve_download W rq rc reportID = read_route rq []
     (\<lambda>s. if we_demo W then reply demoNotImplemented s else handleReportDownload W rc reportID s)"

section \<open>Settings and administration\<close>

definition settings_page :: "'s web_env \<Rightarrow> web_request \<Rightarrow> request_context \<Rightarrow> app_data \<Rightarrow> 's \<Rightarrow> page_data" where
  "settings_page W rq rc ad s =
     (let pd = (page W w_settings_title ''settings'' rc (canMutateTenant rc) (ad_demo ad) s)
            \<lparr>pd_saved := saved_flag W rq ''saved'', pd_members := removableMembers (ad_members ad) rc,
             pd_contact := ad_contact ad, pd_admin := ad_admin ad,
             pd_admin_writable := canViewAdmin rc \<and> wc_user rc \<noteq> [] \<and> \<not> we_demo W \<and> we_save_key W \<noteq> None,
             pd_key_saved := \<not> we_demo W \<and> query_get rq ''result'' = ''g2b-key-saved''\<rparr> in
      if query_get rq ''result'' = ''member-removed'' then pd\<lparr>pd_invite_result := w_member_removed\<rparr> else pd)"

definition serve_settings :: "'s web_env \<Rightarrow> web_request \<Rightarrow> request_context \<Rightarrow> app_data \<Rightarrow> 's web_io" where
  "serve_settings W rq rc ad = on_reply no_store (page_route W rq
     (with_right (canMutateTenant rc) w_tenant_only (handleSaveSettings W rq rc))
     (\<lambda>s. reply (render ''settings'' (settings_page W rq rc ad s)) s))"

definition serve_members :: "'s web_env \<Rightarrow> web_request \<Rightarrow> request_context \<Rightarrow> 's web_io" where
  "serve_members W rq rc =
     post_route W rq (with_right (\<not> (wc_role rc \<noteq> ''tenant_admin'' \<or> wc_tenant rc = [])) w_company_only (handleRemoveMember W rq rc))"

definition admin_result :: "string \<Rightarrow> string" where
  "admin_result result =
     (if result = ''collection'' then w_collecting
      else if result = ''tenant-created'' then w_tenant_created
      else if result = ''account-assigned'' then w_account_assigned
      else if result = ''account-revoked'' then w_account_revoked
      else if result = ''account-deleted'' then w_account_deleted
      else [])"

definition serve_admin :: "'s web_env \<Rightarrow> web_request \<Rightarrow> request_context \<Rightarrow> app_data \<Rightarrow> 's web_io" where
  "serve_admin W rq rc ad = read_route rq [] (\<lambda>s.
     reply (render ''admin''
       ((page W w_admin_title ''admin'' rc (canMutateTenant rc) (ad_demo ad) s)
         \<lparr>pd_tenants := ad_tenants ad, pd_accounts := ad_accounts ad, pd_options := ad_options ad, pd_admin := ad_admin ad,
          pd_admin_writable := \<not> we_demo W, pd_admin_result := admin_result (query_get rq ''result'')\<rparr>)) s)"

section \<open>The handler\<close>

text \<open>The switch; its cases are tried in this order.\<close>

definition web_route :: "'s web_env \<Rightarrow> web_request \<Rightarrow> request_context \<Rightarrow> app_data \<Rightarrow> 's web_io" where
  "web_route W rq rc ad =
     (let path = wq_path rq in
      if path = ''/'' then read_route rq [] (reply (moved ''/dashboard''))
      else if path = ''/login'' then serve_login W rq rc ad
      else if path = ''/signup'' then serve_signup W rq rc ad
      else if path = ''/accept-invite'' then serve_invitation W rq rc
      else if path = ''/dashboard'' then serve_dashboard W rq rc ad
      else if path = ''/notices'' then serve_notices W rq rc ad
      else if has_prefix path ''/notices/'' then serve_notice W rq rc ad
      else if path = ''/filters'' then serve_filters W rq rc ad
      else if path = ''/filters/toggle'' then serve_filter_toggle W rq rc
      else if path = ''/filters/delete'' then serve_filter_delete W rq rc
      else if path = ''/reports'' then serve_reports W rq rc ad
      else if path = ''/reports/generate'' then report_post W rq rc (handleGenerateReport W rq rc)
      else (case reportRouteID path ''retry'' of
        Some i \<Rightarrow> report_post W rq rc (handleRetryReport W rq rc i)
      | None \<Rightarrow> (case reportRouteID path ''delete'' of
        Some i \<Rightarrow> report_post W rq rc (handleDeleteReport W rq rc i)
      | None \<Rightarrow> (case reportRouteID path ''download'' of
        Some i \<Rightarrow> serve_download W rq rc i
      | None \<Rightarrow>
          if path = ''/settings/g2b-api-key'' then handleSaveAPIKey W rq rc
          else if path = ''/settings'' then serve_settings W rq rc ad
          else if path = ''/settings/members'' then serve_members W rq rc
          else if path = ''/admin/tenants'' then post_route W rq (handleCreateTenant W rq rc)
          else if path = ''/admin/accounts/delete'' then post_route W rq (handleDeleteAccount W rq rc)
          else if path = ''/admin/accounts'' then post_route W rq (handleAssignAccount W rq rc)
          else if path = ''/admin/collect'' then post_route W rq (handlePlatformAction W rq rc ''collection'')
          else if path = ''/admin'' then serve_admin W rq rc ad
          else reply (renderStatus 404 w_no_page w_check_address)))))"

definition needs_load :: "web_request \<Rightarrow> bool" where
  "needs_load rq \<longleftrightarrow> reading rq \<and> reportRouteID (wq_path rq) ''download'' = None \<and>
     wq_path rq \<notin> {''/login'', ''/signup'', ''/accept-invite'', ''/''}"

definition serve_loaded :: "'s web_env \<Rightarrow> web_request \<Rightarrow> request_context \<Rightarrow> 's web_io" where
  "serve_loaded W rq rc s =
     do { (r, s1) \<leftarrow> (if needs_load rq then we_load W rc (wq_path rq) s else Some (Inr zero_app_data, s));
          (case r of Inl e \<Rightarrow> reply (refused 500 w_no_data) s1 | Inr ad \<Rightarrow> web_route W rq rc ad s1) }"

text \<open>The files below \<open>/assets/\<close> are those embedded in the program.\<close>

definition serveAsset :: "web_request \<Rightarrow> page_response" where
  "serveAsset rq =
     (let r = header ''Cache-Control'' ''public, max-age=3600'' (answer (Asset (trim_prefix (wq_path rq) ''/assets''))) in
      if has_suffix (wq_path rq) ''.js'' then header ''Content-Type'' ''text/javascript; charset=utf-8'' r
      else if has_suffix (wq_path rq) ''.css'' then header ''Content-Type'' ''text/css; charset=utf-8'' r
      else r)"

definition serve_known :: "'s web_env \<Rightarrow> web_request \<Rightarrow> request_context \<Rightarrow> 's web_io" where
  "serve_known W rq rc s =
     (if has_prefix (wq_path rq) ''/admin'' \<and> \<not> canViewAdmin rc then reply (refused 403 w_platform_only) s
      else if awaitingTenant rc then renderPending W rq rc s
      else if wq_path rq = ''/notifications'' then read_route rq [] (reply (moved ''/reports'')) s
      else serve_loaded W rq rc s)"

definition ServeWeb :: "'s web_env \<Rightarrow> web_request \<Rightarrow> 's web_io" where
  "ServeWeb W rq s =
     (if has_prefix (wq_path rq) ''/assets/'' then read_route rq [] (reply (serveAsset rq)) s
      else do { (r, s1) \<leftarrow> we_map W rq s;
        (case r of Inl e \<Rightarrow> reply (refused 500 w_no_user) s1 | Inr rc \<Rightarrow> serve_known W rq rc s1) })"

end
