(* ===== verification/Web_Laws.thy ===== *)
theory Web_Laws
  imports Web_Route
begin

text \<open>
  What the web surface lets through to the application: each command only for a post with the token of the
  identity, the role it needs and a form that was checked. Pages of notices, names of attachments.
\<close>

section \<open>Deliveries of a form\<close>

lemma read_days_sound:
  "read_days vs ds = Some ds' \<Longrightarrow> distinct ds \<Longrightarrow> list_all (\<lambda>d. 0 \<le> d \<and> d \<le> 6) ds \<Longrightarrow>
   distinct ds' \<and> list_all (\<lambda>d. 0 \<le> d \<and> d \<le> 6) ds' \<and> (ds \<noteq> [] \<or> vs \<noteq> [] \<longrightarrow> ds' \<noteq> [])"
  by (induction vs ds rule: read_days.induct) (auto simp: Let_def split: option.splits if_splits)

lemma parseDeliveryDays_sound:
  "parseDeliveryDays rq = Some ds \<Longrightarrow> ds \<noteq> [] \<and> distinct ds \<and> list_all (\<lambda>d. 0 \<le> d \<and> d \<le> 6) ds"
  using read_days_sound [of "values_of (wq_post rq) ''delivery_days''" "[]" ds]
  by (auto simp: parseDeliveryDays_def Let_def split: if_splits)

lemma reportRouteID_valid: "reportRouteID p a = Some i \<Longrightarrow> validUUID i"
  by (auto simp: reportRouteID_def Let_def split: if_splits)

section \<open>The commands that are let through\<close>

definition schedule_form_ok :: "'s web_env \<Rightarrow> schedule_command \<Rightarrow> bool" where
  "schedule_form_ok W c \<longleftrightarrow> sc_days c \<noteq> [] \<and> distinct (sc_days c) \<and> list_all (\<lambda>d. 0 \<le> d \<and> d \<le> 6) (sc_days c) \<and>
     parse_clock (sc_time c) \<noteq> None \<and> we_zone W (sc_zone c)"

definition assign_ok :: "assign_command \<Rightarrow> bool" where
  "assign_ok c \<longleftrightarrow> as_user c \<noteq> [] \<and> allowedValue (as_role c) [''member'', ''tenant_admin''] \<and>
     \<not> (as_tenant c = [] \<and> as_role c \<noteq> ''member'')"

definition company_ok :: "tenant_command \<Rightarrow> bool" where
  "company_ok c \<longleftrightarrow> tc_name c \<noteq> [] \<and> tc_admin c \<noteq> [] \<and> rune_count (tc_name c) \<le> 128 \<and> rune_count (tc_admin c) \<le> 128"

definition bounds_ok :: "filter_command \<Rightarrow> bool" where
  "bounds_ok c \<longleftrightarrow> pred_option (\<lambda>n. 0 \<le> n) (fc_amount c) \<and> pred_option (\<lambda>n. 1 \<le> n \<and> n \<le> 365) (fc_days c)"

text \<open>The role a command needs, and the form it must have. No route leads to the last two.\<close>

fun command_right :: "'s web_env \<Rightarrow> request_context \<Rightarrow> web_action \<Rightarrow> bool" where
  "command_right W rc (CmdSaveFilter c) = (canMutateTenant rc \<and> filter_ok c \<and> bounds_ok c)"
| "command_right W rc (CmdToggleFilter c) = (canMutateTenant rc \<and> tg_filter c \<noteq> [])"
| "command_right W rc (CmdDeleteFilter i) = (canMutateReport rc \<and> i \<noteq> [])"
| "command_right W rc (CmdSaveSettings c) =
     (canMutateTenant rc \<and> se_tenant c \<noteq> [] \<and> we_address W (se_contact c) = Some (se_contact c))"
| "command_right W rc (CmdAssignAccount c) = (canViewAdmin rc \<and> assign_ok c)"
| "command_right W rc (CmdCreateTenant c) = (canViewAdmin rc \<and> company_ok c)"
| "command_right W rc (CmdRemoveMember u) = (canMutateReport rc \<and> u \<noteq> [] \<and> u \<noteq> wc_user rc)"
| "command_right W rc (CmdDeleteAccount u) = (canViewAdmin rc \<and> u \<noteq> [] \<and> u \<noteq> wc_user rc)"
| "command_right W rc CmdRunCollection = canViewAdmin rc"
| "command_right W rc (CmdSaveReportSchedule c) = (canMutateReport rc \<and> schedule_form_ok W c)"
| "command_right W rc CmdGenerateReport = canMutateReport rc"
| "command_right W rc (CmdRetryReport i) = (canMutateReport rc \<and> validUUID i)"
| "command_right W rc (CmdDeleteReport i) = (canMutateReport rc \<and> validUUID i)"
| "command_right W rc (CmdAddRecipient c) = False"
| "command_right W rc CmdSendTestMail = False"

definition posted :: "'s web_env \<Rightarrow> web_request \<Rightarrow> request_context \<Rightarrow> bool" where
  "posted W rq rc \<longleftrightarrow> posting rq \<and> \<not> we_demo W \<and> validCSRF rq rc"

text \<open>The identity is the one of this request.\<close>

definition identified :: "'s web_env \<Rightarrow> web_request \<Rightarrow> 's \<Rightarrow> request_context \<Rightarrow> bool" where
  "identified W rq s rc = (case we_map W rq s of Some (Inr rc', s1) \<Rightarrow> rc' = rc \<and> \<not> awaitingTenant rc | _ \<Rightarrow> False)"

definition permitted :: "'s web_env \<Rightarrow> web_request \<Rightarrow> 's \<Rightarrow> request_context \<Rightarrow> web_action \<Rightarrow> bool" where
  "permitted W rq s rc c \<longleftrightarrow> identified W rq s rc \<and> posted W rq rc \<and> command_right W rc c"

definition key_permitted :: "'s web_env \<Rightarrow> web_request \<Rightarrow> 's \<Rightarrow> request_context \<Rightarrow> string \<Rightarrow> bool" where
  "key_permitted W rq s rc key \<longleftrightarrow> identified W rq s rc \<and> posted W rq rc \<and> canViewAdmin rc \<and> wc_user rc \<noteq> [] \<and>
     NormalizeAPIKey (value_get (wq_post rq) ''api_key'') = Inr key"

text \<open>An application whose calls do something else wherever they are not permitted.\<close>

definition guarded_onboarding :: "web_request \<Rightarrow> (accept_command \<Rightarrow> 's \<Rightarrow> (unit res \<times> 's) option) \<Rightarrow> 's web_onboarding \<Rightarrow> 's web_onboarding" where
  "guarded_onboarding rq other ob =
     ob\<lparr>wo_accept := \<lambda>c. if posting rq \<and> c = accept_form rq \<and> accept_form_ok rq c then wo_accept ob c else other c\<rparr>"

definition guarded ::
  "'s web_env \<Rightarrow> web_request \<Rightarrow> 's \<Rightarrow> (request_context \<Rightarrow> web_action \<Rightarrow> 's \<Rightarrow> (unit res \<times> 's) option) \<Rightarrow>
   (request_context \<Rightarrow> string \<Rightarrow> 's \<Rightarrow> (unit res \<times> 's) option) \<Rightarrow> (accept_command \<Rightarrow> 's \<Rightarrow> (unit res \<times> 's) option) \<Rightarrow> 's web_env" where
  "guarded W rq s act save accept =
     W\<lparr>we_act := \<lambda>rc c. if permitted W rq s rc c then we_act W rc c else act rc c,
       we_save_key := map_option (\<lambda>f rc key. if key_permitted W rq s rc key then f rc key else save rc key) (we_save_key W),
       we_onboarding := map_option (guarded_onboarding rq accept) (we_onboarding W)\<rparr>"

lemma guarded_sel [simp]:
  "we_demo (guarded W rq s act save accept) = we_demo W" "we_lower (guarded W rq s act save accept) = we_lower W"
  "we_address (guarded W rq s act save accept) = we_address W" "we_fold_eq (guarded W rq s act save accept) = we_fold_eq W"
  "we_zone (guarded W rq s act save accept) = we_zone W" "we_map (guarded W rq s act save accept) = we_map W"
  "we_load (guarded W rq s act save accept) = we_load W" "we_open (guarded W rq s act save accept) = we_open W"
  "page (guarded W rq s act save accept) = page W"
  "we_save_key (guarded W rq s act save accept) = None \<longleftrightarrow> we_save_key W = None"
  "saved_flag (guarded W rq s act save accept) = saved_flag W"
  "we_onboarding (guarded W rq s act save accept) = map_option (guarded_onboarding rq accept) (we_onboarding W)"
  by (auto simp: guarded_def page_def saved_flag_def fun_eq_iff)

lemma guarded_email [simp]: "plainEmail (guarded W rq s act save accept) = plainEmail W"
  by (intro ext) (auto simp: plainEmail_def Let_def split: option.splits)

lemma guarded_form [simp]: "tenant_form (guarded W rq s act save accept) = tenant_form W"
  by (intro ext) (simp add: tenant_form_def)

lemma perform_guarded:
  "identified W rq s0 rc \<Longrightarrow> posted W rq rc \<Longrightarrow> command_right W rc c \<Longrightarrow>
   perform (guarded W rq s0 act save accept) rc c k s = perform W rc c k s"
  by (simp add: perform_def guarded_def permitted_def)

lemma with_csrf_cong: "(validCSRF rq rc \<Longrightarrow> k s = k' s) \<Longrightarrow> with_csrf rq rc k s = with_csrf rq rc k' s"
  by (simp add: with_csrf_def)

lemma with_right_cong: "(ok \<Longrightarrow> k s = k' s) \<Longrightarrow> with_right ok message k s = with_right ok message k' s"
  by (simp add: with_right_def)

lemma post_route_cong:
  "(posting rq \<Longrightarrow> \<not> we_demo W \<Longrightarrow> k s = k' s) \<Longrightarrow> we_demo W' = we_demo W \<Longrightarrow> post_route W' rq k s = post_route W rq k' s"
  by (simp add: post_route_def)

lemma page_route_cong:
  "(posting rq \<Longrightarrow> \<not> we_demo W \<Longrightarrow> k s = k' s) \<Longrightarrow> get s = get' s \<Longrightarrow> we_demo W' = we_demo W \<Longrightarrow>
   page_route W' rq k get s = page_route W rq k' get' s"
  by (simp add: page_route_def read_route_def)

lemma on_reply_cong: "k s = k' s \<Longrightarrow> on_reply f k s = on_reply f k' s"
  by (simp add: on_reply_def)

lemma pred_SomeI: "Some x = y \<Longrightarrow> P x \<Longrightarrow> pred_option P y"
  by auto

lemma deadline_field_range: "deadline_field rq = Inr v \<Longrightarrow> pred_option (\<lambda>n. 1 \<le> n \<and> n \<le> 365) v"
  by (auto simp: deadline_field_def Let_def split: if_split_asm option.split_asm intro: pred_SomeI)

lemma amount_field_range: "amount_field rq = Inr v \<Longrightarrow> pred_option (\<lambda>n. 0 \<le> n) v"
  by (auto simp: amount_field_def Let_def split: if_split_asm option.split_asm intro: pred_SomeI)

lemma tenant_form_ok: "tenant_form W rq = Some c \<Longrightarrow> company_ok c"
  by (auto simp: tenant_form_def company_ok_def Let_def split: option.splits if_splits prod.splits)

lemma guarded_save_filter:
  assumes "identified W rq s0 rc" "posting rq" "\<not> we_demo W" "canMutateTenant rc"
  shows "handleSaveFilter (guarded W rq s0 act save accept) rq rc s = handleSaveFilter W rq rc s"
  unfolding handleSaveFilter_def
  by (rule with_csrf_cong)
    (auto simp: Let_def bounds_ok_def filter_form_def posted_def assms deadline_field_range amount_field_range
      split: sum.splits intro!: perform_guarded)

lemma guarded_toggle:
  assumes "identified W rq s0 rc" "posting rq" "\<not> we_demo W" "canMutateTenant rc"
  shows "handleFilterToggle (guarded W rq s0 act save accept) rq rc s = handleFilterToggle W rq rc s"
  unfolding handleFilterToggle_def
  by (rule with_csrf_cong) (auto simp: Let_def posted_def assms intro!: perform_guarded)

lemma guarded_delete_filter:
  assumes "identified W rq s0 rc" "posting rq" "\<not> we_demo W" "canMutateReport rc"
  shows "handleFilterDelete (guarded W rq s0 act save accept) rq rc s = handleFilterDelete W rq rc s"
  unfolding handleFilterDelete_def
  by (rule with_csrf_cong) (auto simp: Let_def posted_def assms intro!: perform_guarded)

lemma guarded_schedule:
  assumes "identified W rq s0 rc" "posting rq" "\<not> we_demo W" "canMutateReport rc"
  shows "handleSaveReportSchedule (guarded W rq s0 act save accept) rq rc s = handleSaveReportSchedule W rq rc s"
  unfolding handleSaveReportSchedule_def
  by (rule with_csrf_cong)
    (auto simp: Let_def posted_def schedule_form_ok_def assms dest: parseDeliveryDays_sound split: option.splits intro!: perform_guarded)

lemma guarded_report_posts:
  assumes "identified W rq s0 rc" "posting rq" "\<not> we_demo W" "canMutateReport rc"
  shows "handleGenerateReport (guarded W rq s0 act save accept) rq rc s = handleGenerateReport W rq rc s"
    and "validUUID i \<Longrightarrow> handleRetryReport (guarded W rq s0 act save accept) rq rc i s = handleRetryReport W rq rc i s"
    and "validUUID i \<Longrightarrow> handleDeleteReport (guarded W rq s0 act save accept) rq rc i s = handleDeleteReport W rq rc i s"
  unfolding handleGenerateReport_def handleRetryReport_def handleDeleteReport_def
  by (rule with_csrf_cong; simp add: perform_guarded posted_def assms)+

lemma guarded_settings:
  assumes "identified W rq s0 rc" "posting rq" "\<not> we_demo W" "canMutateTenant rc"
  shows "handleSaveSettings (guarded W rq s0 act save accept) rq rc s = handleSaveSettings W rq rc s"
  unfolding handleSaveSettings_def
  by (rule with_csrf_cong) (auto simp: Let_def posted_def assms intro!: perform_guarded)

lemma guarded_member:
  assumes "identified W rq s0 rc" "posting rq" "\<not> we_demo W" "canMutateReport rc"
  shows "handleRemoveMember (guarded W rq s0 act save accept) rq rc s = handleRemoveMember W rq rc s"
  unfolding handleRemoveMember_def
  by (rule with_csrf_cong) (auto simp: Let_def posted_def assms intro!: perform_guarded)

lemma guarded_platform:
  assumes "identified W rq s0 rc" "posting rq" "\<not> we_demo W"
  shows "handleCreateTenant (guarded W rq s0 act save accept) rq rc s = handleCreateTenant W rq rc s"
    and "handleDeleteAccount (guarded W rq s0 act save accept) rq rc s = handleDeleteAccount W rq rc s"
    and "handleAssignAccount (guarded W rq s0 act save accept) rq rc s = handleAssignAccount W rq rc s"
    and "handlePlatformAction (guarded W rq s0 act save accept) rq rc ''collection'' s = handlePlatformAction W rq rc ''collection'' s"
  unfolding handleCreateTenant_def handleDeleteAccount_def handleAssignAccount_def handlePlatformAction_def
  by (rule with_right_cong, rule with_csrf_cong;
      auto simp: Let_def posted_def assign_ok_def platform_command_def tenant_form_ok assms split: option.splits intro!: perform_guarded)+

lemma guarded_key:
  assumes "identified W rq s0 rc"
  shows "handleSaveAPIKey (guarded W rq s0 act save accept) rq rc s = handleSaveAPIKey W rq rc s"
  using assms by (auto simp: handleSaveAPIKey_def guarded_def key_permitted_def posted_def split: option.splits sum.splits)

lemma guarded_invitation:
  "invitation_page (guarded W rq s0 act save accept) rq rc s = invitation_page W rq rc s"
proof -
  have "handleAcceptInvitation (guarded W rq s0 act save accept) (guarded_onboarding rq accept ob) rq rc s
      = handleAcceptInvitation W ob rq rc s" if "posting rq" for ob
    unfolding handleAcceptInvitation_def
    by (rule with_csrf_cong) (auto simp: Let_def guarded_onboarding_def that)
  moreover have "handleInspectInvitation (guarded W rq s0 act save accept) (guarded_onboarding rq accept ob) rq rc s
      = handleInspectInvitation W ob rq rc s" for ob
    unfolding handleInspectInvitation_def
    by (rule with_csrf_cong) (simp add: Let_def guarded_onboarding_def cong: sum.case_cong)
  ultimately show ?thesis
    by (auto simp: invitation_page_def read_route_def split: option.splits)
qed

lemma guarded_route:
  fixes act save accept
  assumes "identified W rq s0 rc"
  defines "G \<equiv> guarded W rq s0 act save accept"
  shows "web_route G rq rc ad = web_route W rq rc ad"
proof -
  have tenant: "wc_role rc = ''tenant_admin'' \<Longrightarrow> wc_tenant rc \<noteq> [] \<Longrightarrow> canMutateReport rc"
    by (simp add: canMutateReport_def)
  have save: "G = guarded W rq s0 act save accept" by (simp add: G_def)
  have pages: "notices_page G = notices_page W" "serve_login G = serve_login W" "serve_signup G = serve_signup W"
      "serve_dashboard G = serve_dashboard W" "serve_notice G = serve_notice W" "serve_admin G = serve_admin W"
      "settings_page G = settings_page W" "serve_download G = serve_download W"
    by (intro ext; simp add: G_def Let_def notices_page_def serve_login_def serve_signup_def session_page_def serve_dashboard_def
      serve_notice_def serve_admin_def settings_page_def serve_download_def handleReportDownload_def download_reply_def
      cong: option.case_cong sum.case_cong if_cong)+
  then have notices: "serve_notices G = serve_notices W"
    by (intro ext) (simp add: serve_notices_def)
  have filters: "serve_filters G rq rc ad = serve_filters W rq rc ad"
    unfolding serve_filters_def
    by (rule ext, rule page_route_cong) (auto simp: G_def assms(1) intro!: with_right_cong guarded_save_filter)
  have reports: "serve_reports G rq rc ad = serve_reports W rq rc ad"
    unfolding serve_reports_def
    by (rule ext, rule page_route_cong) (auto simp: G_def assms(1) intro!: with_right_cong guarded_schedule)
  have settings: "serve_settings G rq rc ad = serve_settings W rq rc ad"
    unfolding serve_settings_def
    by (rule ext, rule on_reply_cong, rule page_route_cong) (auto simp: pages, auto simp: G_def assms(1) intro!: with_right_cong guarded_settings)
  have toggle: "serve_filter_toggle G rq rc = serve_filter_toggle W rq rc"
    unfolding serve_filter_toggle_def
    by (rule ext, rule post_route_cong) (auto simp: G_def assms(1) intro!: with_right_cong guarded_toggle)
  have delete: "serve_filter_delete G rq rc = serve_filter_delete W rq rc"
    unfolding serve_filter_delete_def
    by (rule ext, rule post_route_cong) (auto simp: G_def assms(1) tenant intro!: with_right_cong guarded_delete_filter)
  have members: "serve_members G rq rc = serve_members W rq rc"
    unfolding serve_members_def
    by (rule ext, rule post_route_cong) (auto simp: G_def assms(1) tenant intro!: with_right_cong guarded_member)
  have posts: "report_post G rq rc (handleGenerateReport G rq rc) = report_post W rq rc (handleGenerateReport W rq rc)"
      "validUUID i \<Longrightarrow> report_post G rq rc (handleRetryReport G rq rc i) = report_post W rq rc (handleRetryReport W rq rc i)"
      "validUUID i \<Longrightarrow> report_post G rq rc (handleDeleteReport G rq rc i) = report_post W rq rc (handleDeleteReport W rq rc i)" for i
    unfolding report_post_def
    by (rule ext, rule post_route_cong; auto simp: G_def assms(1) intro!: with_right_cong guarded_report_posts)+
  have platform: "post_route G rq (handleCreateTenant G rq rc) = post_route W rq (handleCreateTenant W rq rc)"
      "post_route G rq (handleDeleteAccount G rq rc) = post_route W rq (handleDeleteAccount W rq rc)"
      "post_route G rq (handleAssignAccount G rq rc) = post_route W rq (handleAssignAccount W rq rc)"
      "post_route G rq (handlePlatformAction G rq rc ''collection'') = post_route W rq (handlePlatformAction W rq rc ''collection'')"
    by (rule ext, rule post_route_cong; auto simp: G_def assms(1) intro!: guarded_platform)+
  have invitation: "serve_invitation G rq rc = serve_invitation W rq rc"
    unfolding serve_invitation_def by (rule ext, rule on_reply_cong) (simp add: G_def guarded_invitation)
  have key: "handleSaveAPIKey G rq rc = handleSaveAPIKey W rq rc"
    by (rule ext) (simp add: G_def guarded_key assms(1))
  have retry: "(case reportRouteID p a of Some i \<Rightarrow> report_post G rq rc (handleRetryReport G rq rc i) | None \<Rightarrow> k)
      = (case reportRouteID p a of Some i \<Rightarrow> report_post W rq rc (handleRetryReport W rq rc i) | None \<Rightarrow> k)" for p a k
    by (cases "reportRouteID p a") (simp_all add: posts(2) reportRouteID_valid)
  have remove: "(case reportRouteID p a of Some i \<Rightarrow> report_post G rq rc (handleDeleteReport G rq rc i) | None \<Rightarrow> k)
      = (case reportRouteID p a of Some i \<Rightarrow> report_post W rq rc (handleDeleteReport W rq rc i) | None \<Rightarrow> k)" for p a k
    by (cases "reportRouteID p a") (simp_all add: posts(3) reportRouteID_valid)
  show ?thesis
    unfolding web_route_def Let_def pages notices filters reports settings toggle delete members posts(1) platform invitation key
      retry remove ..
qed

lemma only_guarded:
  "ServeWeb (guarded W rq s act save accept) rq s = ServeWeb W rq s"
proof -
  let ?G = "guarded W rq s act save accept"
  have known: "serve_known ?G rq rc s1 = serve_known W rq rc s1" if "we_map W rq s = Some (Inr rc, s1)" for rc s1
  proof (cases "awaitingTenant rc")
    case True
    have "renderPending ?G = renderPending W" by (intro ext) (simp add: renderPending_def)
    then show ?thesis by (simp only: serve_known_def True if_True)
  next
    case False
    then have "identified W rq s rc" using that by (simp add: identified_def)
    then have route: "web_route ?G rq rc = web_route W rq rc" by (intro ext) (simp add: guarded_route)
    have "serve_loaded ?G rq rc = serve_loaded W rq rc"
      by (intro ext) (simp only: serve_loaded_def route guarded_sel)
    then show ?thesis by (simp only: serve_known_def False if_False)
  qed
  show ?thesis
  proof (cases "we_map W rq s")
    case (Some x)
    then show ?thesis using known by (cases x; cases "fst x") (auto simp: ServeWeb_def)
  qed (simp add: ServeWeb_def)
qed

text \<open>
  C4: The application is called only where it may be. Let any other application be put behind the handler
  that does the same for the permitted calls (a post, the token of the identity this request maps to, the
  role of the command, a checked form) and anything at all for every other call: the answer and the
  state are the same.
\<close>

theorem only_permitted_commands:
  "ServeWeb (guarded W rq s act save accept) rq s = ServeWeb W rq s"
  by (rule only_guarded)

section \<open>Pages of notices\<close>

lemma map_of_filter_key: "k \<noteq> k' \<Longrightarrow> map_of (filter (\<lambda>(x, _). x \<noteq> k) q) k' = map_of q k'"
  by (induction q) auto

lemma value_get_set_param [simp]:
  "value_get (set_param k [v] q) k = v" "k \<noteq> k' \<Longrightarrow> value_get (set_param k vs q) k' = value_get q k'"
  by (simp_all add: value_get_def values_of_def set_param_def map_of_filter_key)

lemma requested_size_range: "requested_size q \<in> {10, 20, 30}"
  by (simp add: requested_size_def split: option.splits)

lemma requested_link:
  assumes "n \<in> {10, 20, 30}" "in_int64 k" "0 < k"
  shows "requested_size (link_query q k n) = n" "requested_page (link_query q k n) = k"
proof -
  have "in_int64 n" using assms(1) by (auto simp: in_int64_def int64_min_def int64_max_def)
  then show "requested_size (link_query q k n) = n"
    using assms(1) by (auto simp: requested_size_def link_query_def parse_int64_show_int)
  show "requested_page (link_query q k n) = k"
    using assms(2,3) by (simp add: requested_page_def link_query_def parse_int64_show_int)
qed

lemma chunks_all:
  "length xs \<le> n * m \<Longrightarrow> concat (map (\<lambda>k. take n (drop (n * k) xs)) [0..<m]) = xs"
proof (induction m arbitrary: xs)
  case (Suc m)
  have "concat (map (\<lambda>k. take n (drop (n * k) xs)) [0..<Suc m])
      = take n xs @ concat (map (\<lambda>k. take n (drop (n * k) (drop n xs))) [0..<m])"
    by (simp add: upt_conv_Cons del: upt_Suc flip: map_Suc_upt) (simp add: comp_def add.commute)
  also have "\<dots> = take n xs @ drop n xs"
    by (subst Suc.IH) (use Suc.prems in auto)
  finally show ?case by simp
qed simp

lemma nat_window: "nat (min (int a + int b) (int c) - int a) = min b (c - a)"
  by linarith

text \<open>The least number of pages.\<close>

lemma page_count:
  fixes l n :: int
  assumes "0 < n" "0 \<le> l"
  defines "p \<equiv> (l + n - 1) div n"
  shows "l \<le> n * p" "k < p \<Longrightarrow> n * k < l" "p \<le> l"
proof -
  have d: "l + n - 1 = n * p + (l + n - 1) mod n" by (simp add: p_def)
  have r: "0 \<le> (l + n - 1) mod n" "(l + n - 1) mod n < n" using assms(1) by simp_all
  show "l \<le> n * p" using d r by linarith
  have below: "n * (p - 1) < l" using d r by (simp add: right_diff_distrib)
  have "0 \<le> p" using assms(1,2) by (simp add: p_def pos_imp_zdiv_nonneg_iff)
  show "n * k < l" if "k < p"
  proof -
    have "n * k \<le> n * (p - 1)" using that assms(1) by (intro mult_left_mono) linarith+
    then show ?thesis using below by linarith
  qed
  show "p \<le> l"
  proof (cases "p = 0")
    case False
    then have "1 * (p - 1) \<le> n * (p - 1)" using \<open>0 \<le> p\<close> assms(1) by (intro mult_right_mono) linarith+
    then have "1 * (p - 1) < l" using below by (rule le_less_trans)
    then show ?thesis by simp
  qed (use assms(2) in simp)
qed

lemma page_of_list:
  fixes n :: int
  assumes "n \<in> {10, 20, 30}" "int (length ns) \<le> int64_max" "k < nat ((int (length ns) + n - 1) div n)"
  shows "fst (paginateNotices ns (link_query q (int k + 1) n)) = take (nat n) (drop (nat n * k) ns)"
proof -
  let ?l = "int (length ns)" and ?pages = "(int (length ns) + n - 1) div n"
  have n: "0 < n" using assms(1) by auto
  have k: "int k + 1 \<le> ?pages" using assms(3) by linarith
  have small: "?pages \<le> ?l" by (rule page_count(3) [OF n]) simp
  have "in_int64 (int k + 1)" using k small assms(2) by (simp add: in_int64_def int64_min_def)
  note link = requested_link [OF assms(1) this, of q]
  have "n * int k < ?l" by (rule page_count(2) [OF n]) (use k in simp_all)
  then have "int k * n \<le> ?l" by (simp add: mult.commute)
  then have start: "min (int k * n) ?l = int k * n" by simp
  have e: "int (nat n * k) = int k * n" "int (nat n) = n" using n by simp_all
  have "nat (min (int k * n + n) ?l - int k * n) = min (nat n) (length ns - nat n * k)"
    using nat_window [of "nat n * k" "nat n" "length ns"] unfolding e .
  moreover have "nat (int k * n) = nat n * k" using n by (simp add: nat_mult_distrib mult.commute)
  moreover have "(if ?pages = 0 then 1 else min (int k + 1) ?pages) = int k + 1" using k by simp
  moreover have "(int k + 1 - 1) * n = int k * n" by simp
  ultimately show ?thesis
    by (simp only: paginateNotices_def Let_def link fst_conv start) (simp add: min_def)
qed

lemma shown_pages: "pv_pages (snd (paginateNotices ns q)) = (int (length ns) + requested_size q - 1) div requested_size q"
  by (simp add: paginateNotices_def Let_def)

text \<open>
  The pages a list of notices is shown in are the list: the pages the links lead to, from the first
  to the last, put one after the other are the list itself, each has at most the size asked for, and
  none is empty.
\<close>

theorem pages_are_the_list:
  fixes q ns
  assumes "int (length ns) \<le> int64_max"
  defines "n \<equiv> requested_size q" and "pages \<equiv> nat (pv_pages (snd (paginateNotices ns q)))"
  defines "shown k \<equiv> fst (paginateNotices ns (link_query q (int k + 1) n))"
  shows "concat (map shown [0..<pages]) = ns \<and> list_all (\<lambda>k. shown k \<noteq> [] \<and> int (length (shown k)) \<le> n) [0..<pages]"
proof -
  have n: "n \<in> {10, 20, 30}" by (simp add: n_def requested_size_range del: insert_iff)
  have pages: "pages = nat ((int (length ns) + n - 1) div n)"
    by (simp only: pages_def n_def shown_pages)
  have shown: "shown k = take (nat n) (drop (nat n * k) ns)" if "k < pages" for k
    unfolding shown_def using page_of_list [OF n assms(1)] that by (simp add: pages)
  have pos: "0 < n" using n by auto
  have "0 \<le> (int (length ns) + n - 1) div n" using pos by (simp add: pos_imp_zdiv_nonneg_iff)
  then have int_pages: "int pages = (int (length ns) + n - 1) div n" by (simp add: pages)
  have "int (length ns) \<le> int (nat n * pages)"
    using page_count(1) [OF pos, of "int (length ns)"] pos by (simp add: int_pages)
  then have cover: "length ns \<le> nat n * pages" by (simp only: of_nat_le_iff)
  have last: "nat n * k < length ns" if "k < pages" for k
  proof -
    have "int k < int pages" using that by simp
    then have "n * int k < int (length ns)" unfolding int_pages by (intro page_count(2) [OF pos]) simp
    then have "int (nat n * k) < int (length ns)" using pos by simp
    then show ?thesis by (simp only: of_nat_less_iff)
  qed
  have "map shown [0..<pages] = map (\<lambda>k. take (nat n) (drop (nat n * k) ns)) [0..<pages]"
    by (rule map_cong) (auto simp: shown)
  then have "concat (map shown [0..<pages]) = ns" by (simp only: chunks_all [OF cover])
  moreover have "list_all (\<lambda>k. shown k \<noteq> [] \<and> int (length (shown k)) \<le> n) [0..<pages]"
    using n last by (auto simp: list_all_iff shown not_le)
  ultimately show ?thesis by blast
qed

theorem pages_are_the_list_witness:
  "concat (map (\<lambda>k. fst (paginateNotices (replicate 12 zero_notice_view) (link_query [] (int k + 1) (requested_size [])))) [0..<2])
     = replicate 12 zero_notice_view"
proof -
  have "requested_size [] = 10" by (simp add: requested_size_def value_get_def values_of_def parse_int64_def parse_uint_def Let_def)
  then have pages: "nat (pv_pages (snd (paginateNotices (replicate 12 zero_notice_view) []))) = 2"
    by (simp add: shown_pages)
  have "int (length (replicate 12 zero_notice_view)) \<le> int64_max" by (simp add: int64_max_def)
  from conjunct1 [OF pages_are_the_list [OF this, of "[]"]] show ?thesis by (simp only: pages)
qed

end
