(* ===== verification/Web_View_Text.thy ===== *)
theory Web_View_Text
  imports Go_Prelude
begin

text \<open>
  The texts of internal/app/postgres_web.go as UTF-8 bytes.
\<close>

definition v_never :: string where
  "v_never =
     [CHR 0xEC, CHR 0x95, CHR 0x84, CHR 0xEC, CHR 0xA7, CHR 0x81, CHR 0x20, CHR 0xEC, CHR 0x97,
      CHR 0x86, CHR 0xEC, CHR 0x9D, CHR 0x8C]"

definition v_scheduled :: string where
  "v_scheduled =
     [CHR 0xEC, CHR 0x98, CHR 0x88, CHR 0xEC, CHR 0x95, CHR 0xBD]"

definition v_manual :: string where
  "v_manual =
     [CHR 0xEC, CHR 0x88, CHR 0x98, CHR 0xEB, CHR 0x8F, CHR 0x99]"

definition v_generated :: string where
  "v_generated =
     [CHR 0xEC, CHR 0x83, CHR 0x9D, CHR 0xEC, CHR 0x84, CHR 0xB1, CHR 0x20, CHR 0xEC, CHR 0x99,
      CHR 0x84, CHR 0xEB, CHR 0xA3, CHR 0x8C]"

definition v_generating :: string where
  "v_generating =
     [CHR 0xEC, CHR 0x83, CHR 0x9D, CHR 0xEC, CHR 0x84, CHR 0xB1, CHR 0x20, CHR 0xEC, CHR 0xA4,
      CHR 0x91]"

definition v_failed :: string where
  "v_failed =
     [CHR 0xEC, CHR 0x83, CHR 0x9D, CHR 0xEC, CHR 0x84, CHR 0xB1, CHR 0x20, CHR 0xEC, CHR 0x8B,
      CHR 0xA4, CHR 0xED, CHR 0x8C, CHR 0xA8]"

definition v_retrying :: string where
  "v_retrying =
     [CHR 0xEC, CHR 0x9E, CHR 0xAC, CHR 0xEC, CHR 0x8B, CHR 0x9C, CHR 0xEB, CHR 0x8F, CHR 0x84,
      CHR 0x20, CHR 0xEB, CHR 0x8C, CHR 0x80, CHR 0xEA, CHR 0xB8, CHR 0xB0]"

definition v_source_kind :: string where
  "v_source_kind =
     [CHR 0xEC, CHR 0x9E, CHR 0x85, CHR 0xEC, CHR 0xB0, CHR 0xB0, CHR 0xEA, CHR 0xB3, CHR 0xB5,
      CHR 0xEA, CHR 0xB3, CHR 0xA0, CHR 0xEB, CHR 0xAA, CHR 0xA9, CHR 0xEB, CHR 0xA1, CHR 0x9D,
      CHR 0x2D, CHR 0xEC, CHR 0x9E, CHR 0x85, CHR 0xEC, CHR 0xB0, CHR 0xB0, CHR 0xEA, CHR 0xB3,
      CHR 0xB5, CHR 0xEA, CHR 0xB3, CHR 0xA0]"

definition v_domestic :: string where
  "v_domestic =
     [CHR 0xEB, CHR 0x82, CHR 0xB4, CHR 0xEC, CHR 0x9E, CHR 0x90]"

definition v_foreign :: string where
  "v_foreign =
     [CHR 0xEC, CHR 0x99, CHR 0xB8, CHR 0xEC, CHR 0x9E, CHR 0x90]"

definition v_receiving :: string where
  "v_receiving =
     [CHR 0xEC, CHR 0x88, CHR 0x98, CHR 0xEC, CHR 0x8B, CHR 0xA0]"

definition v_stopped :: string where
  "v_stopped =
     [CHR 0xEC, CHR 0xA4, CHR 0x91, CHR 0xEC, CHR 0xA7, CHR 0x80]"

definition v_not_yet :: string where
  "v_not_yet =
     [CHR 0xEC, CHR 0x83, CHR 0x9D, CHR 0xEC, CHR 0x84, CHR 0xB1, CHR 0x20, CHR 0xEC, CHR 0xA0,
      CHR 0x84]"

definition v_normal :: string where
  "v_normal =
     [CHR 0xEC, CHR 0xA0, CHR 0x95, CHR 0xEC, CHR 0x83, CHR 0x81]"

definition v_check :: string where
  "v_check =
     [CHR 0xEC, CHR 0xA0, CHR 0x90, CHR 0xEA, CHR 0xB2, CHR 0x80]"

definition v_company_admin :: string where
  "v_company_admin =
     [CHR 0xED, CHR 0x9A, CHR 0x8C, CHR 0xEC, CHR 0x82, CHR 0xAC, CHR 0x20, CHR 0xEA, CHR 0xB4,
      CHR 0x80, CHR 0xEB, CHR 0xA6, CHR 0xAC, CHR 0xEC, CHR 0x9E, CHR 0x90]"

definition v_member :: string where
  "v_member =
     [CHR 0xEC, CHR 0x9D, CHR 0xBC, CHR 0xEB, CHR 0xB0, CHR 0x98, CHR 0x20, CHR 0xEC, CHR 0x82,
      CHR 0xAC, CHR 0xEC, CHR 0x9A, CHR 0xA9, CHR 0xEC, CHR 0x9E, CHR 0x90]"

definition v_default_schedule :: string where
  "v_default_schedule =
     [CHR 0xEA, CHR 0xB8, CHR 0xB0, CHR 0xEB, CHR 0xB3, CHR 0xB8, CHR 0x20, CHR 0xEC, CHR 0x95,
      CHR 0x8C, CHR 0xEB, CHR 0xA6, CHR 0xBC]"

definition v_won :: string where
  "v_won =
     [CHR 0xEC, CHR 0x9B, CHR 0x90]"

definition v_include_any :: string where
  "v_include_any =
     [CHR 0xED, CHR 0x8F, CHR 0xAC, CHR 0xED, CHR 0x95, CHR 0xA8, CHR 0x20, CHR 0xED, CHR 0x82,
      CHR 0xA4, CHR 0xEC, CHR 0x9B, CHR 0x8C, CHR 0xEB, CHR 0x93, CHR 0x9C]"

definition v_include_all :: string where
  "v_include_all =
     [CHR 0xED, CHR 0x95, CHR 0x84, CHR 0xEC, CHR 0x88, CHR 0x98, CHR 0x20, CHR 0xED, CHR 0x82,
      CHR 0xA4, CHR 0xEC, CHR 0x9B, CHR 0x8C, CHR 0xEB, CHR 0x93, CHR 0x9C]"

definition v_category :: string where
  "v_category =
     [CHR 0xEC, CHR 0x97, CHR 0x85, CHR 0xEB, CHR 0xAC, CHR 0xB4, CHR 0xEA, CHR 0xB5, CHR 0xAC,
      CHR 0xEB, CHR 0xB6, CHR 0x84]"

definition v_agency :: string where
  "v_agency =
     [CHR 0xEA, CHR 0xB8, CHR 0xB0, CHR 0xEA, CHR 0xB4, CHR 0x80]"

definition v_region :: string where
  "v_region =
     [CHR 0xEC, CHR 0xA7, CHR 0x80, CHR 0xEC, CHR 0x97, CHR 0xAD]"

definition v_min_amount :: string where
  "v_min_amount =
     [CHR 0xEC, CHR 0xB5, CHR 0x9C, CHR 0xEC, CHR 0x86, CHR 0x8C, CHR 0x20, CHR 0xEA, CHR 0xB8,
      CHR 0x88, CHR 0xEC, CHR 0x95, CHR 0xA1]"

definition v_max_amount :: string where
  "v_max_amount =
     [CHR 0xEC, CHR 0xB5, CHR 0x9C, CHR 0xEB, CHR 0x8C, CHR 0x80, CHR 0x20, CHR 0xEA, CHR 0xB8,
      CHR 0x88, CHR 0xEC, CHR 0x95, CHR 0xA1]"

definition v_weekday :: string where
  "v_weekday =
     [CHR 0xEB, CHR 0xA7, CHR 0x88, CHR 0xEA, CHR 0xB0, CHR 0x90, CHR 0x20, CHR 0xEC, CHR 0x9A,
      CHR 0x94, CHR 0xEC, CHR 0x9D, CHR 0xBC]"

definition v_days_left :: string where
  "v_days_left =
     [CHR 0xEB, CHR 0xA7, CHR 0x88, CHR 0xEA, CHR 0xB0, CHR 0x90, CHR 0x20, CHR 0xEC, CHR 0x9E,
      CHR 0x94, CHR 0xEC, CHR 0x97, CHR 0xAC, CHR 0xEC, CHR 0x9D, CHR 0xBC]"

definition v_matches :: string where
  "v_matches =
     [CHR 0x20, CHR 0xEC, CHR 0x9D, CHR 0xBC, CHR 0xEC, CHR 0xB9, CHR 0x98]"

definition v_quote_open :: string where
  "v_quote_open =
     [CHR 0x20, CHR 0xE2, CHR 0x80, CHR 0x98]"

definition v_quote_close :: string where
  "v_quote_close =
     [CHR 0xE2, CHR 0x80, CHR 0x99, CHR 0x20, CHR 0xEC, CHR 0x9D, CHR 0xBC, CHR 0xEC, CHR 0xB9,
      CHR 0x98]"

definition v_notice_open :: string where
  "v_notice_open =
     [CHR 0x20, CHR 0x28, CHR 0xEA, CHR 0xB3, CHR 0xB5, CHR 0xEA, CHR 0xB3, CHR 0xA0, CHR 0x3A,
      CHR 0x20]"

definition v_exclude :: string where
  "v_exclude =
     [CHR 0xEC, CHR 0xA0, CHR 0x9C, CHR 0xEC, CHR 0x99, CHR 0xB8, CHR 0x3A, CHR 0x20]"

definition v_trades :: string where
  "v_trades =
     [CHR 0xEC, CHR 0x97, CHR 0x85, CHR 0xEC, CHR 0xA2, CHR 0x85, CHR 0x3A, CHR 0x20]"

definition v_agencies :: string where
  "v_agencies =
     [CHR 0xEA, CHR 0xB8, CHR 0xB0, CHR 0xEA, CHR 0xB4, CHR 0x80, CHR 0x3A, CHR 0x20]"

definition v_at_least :: string where
  "v_at_least =
     [CHR 0x20, CHR 0xEC, CHR 0x9D, CHR 0xB4, CHR 0xEC, CHR 0x83, CHR 0x81]"

definition v_due :: string where
  "v_due =
     [CHR 0xEB, CHR 0xA7, CHR 0x88, CHR 0xEA, CHR 0xB0, CHR 0x90, CHR 0x20]"

definition v_within :: string where
  "v_within =
     [CHR 0xEC, CHR 0x9D, CHR 0xBC, CHR 0x20, CHR 0xEC, CHR 0x9D, CHR 0xB4, CHR 0xEB, CHR 0x82,
      CHR 0xB4]"

definition v_everything :: string where
  "v_everything =
     [CHR 0xEC, CHR 0xA0, CHR 0x84, CHR 0xEC, CHR 0xB2, CHR 0xB4, CHR 0x20, CHR 0xEA, CHR 0xB3,
      CHR 0xB5, CHR 0xEA, CHR 0xB3, CHR 0xA0]"

definition v_dot :: string where
  "v_dot =
     [CHR 0x20, CHR 0xC2, CHR 0xB7, CHR 0x20]"

end
