(* ===== verification/Web_Views.thy ===== *)
theory Web_Views
  imports Web_Handler Web_View_Text Pg_Collector
begin

text \<open>
  internal/app/postgres_web.go: the pure functions between the tables and the pages. Rules from the filter
  form, the texts of filters, reasons, amounts and times, the views of notices and reports, and the time
  of the next delivery.
\<close>

section \<open>Rules from the form\<close>

text \<open>\<open>strings.FieldsFunc\<close> for separators that are ASCII: no field is empty.\<close>

function fields_func :: "(char \<Rightarrow> bool) \<Rightarrow> string \<Rightarrow> string list" where
  "fields_func sep [] = []"
| "fields_func sep (c # cs) =
     (if sep c then fields_func sep cs
      else (c # takeWhile (\<lambda>x. \<not> sep x) cs) # fields_func sep (dropWhile (\<lambda>x. \<not> sep x) cs))"
  by pat_completeness auto
termination by (relation "measure (\<lambda>(sep, s). length s)") (auto simp: le_imp_less_Suc length_dropWhile_le)

definition term_separator :: "char \<Rightarrow> bool" where
  "term_separator c \<longleftrightarrow> c = CHR '','' \<or> c = CHR 0x0A \<or> c = CHR 0x0D"

definition splitTerms :: "(string \<Rightarrow> string) \<Rightarrow> string \<Rightarrow> string list" where
  "splitTerms nfc v = filter (\<lambda>t. t \<noteq> []) (map (NormalizeText nfc) (fields_func term_separator v))"

definition categoryFromLabel :: "string \<Rightarrow> string" where
  "categoryFromLabel v =
     (if v = w_construction then CategoryConstruction else if v = w_service then CategoryService
      else if v = w_goods then CategoryGoods else if v = w_foreign then CategoryForeign else [])"

definition webCategoryLabel :: "string \<Rightarrow> string" where
  "webCategoryLabel v =
     (if v = CategoryConstruction then w_construction else if v = CategoryService then w_service
      else if v = CategoryGoods then w_goods else if v = CategoryForeign then w_foreign else [])"

definition filterRuleFromWebCommand :: "(string \<Rightarrow> string) \<Rightarrow> filter_command \<Rightarrow> rule" where
  "filterRuleFromWebCommand nfc c =
     (let terms = splitTerms nfc (fc_include c); category = categoryFromLabel (fc_category c) in
      \<lparr>IncludeAny = (if fc_mode c = ''all'' then [] else terms), IncludeAll = (if fc_mode c = ''all'' then terms else []),
       Exclude = splitTerms nfc (fc_exclude c), Categories = (if category = [] then [] else [category]),
       Agencies = splitTerms nfc (fc_agency c), Regions = splitTerms nfc (fc_region c), MinAmount = fc_amount c,
       MaxAmount = None, DeadlineWeekdays = [], DeadlineWithinDays = fc_days c\<rparr>)"

section \<open>Texts\<close>

definition formatKoreanTime :: "time \<Rightarrow> string" where
  "formatKoreanTime t = (if is_zero t then ''-'' else korean_minute t)"

definition formatKoreanDate :: "(time \<Rightarrow> string) \<Rightarrow> time \<Rightarrow> string" where
  "formatKoreanDate layout t = (if is_zero t then ''-'' else layout t)"

text \<open>The layouts \<open>20060102\<close>, \<open>1504\<close> and \<open>2006-01-02\<close>, and \<open>01.02 15:04\<close> of the next delivery.\<close>

definition korean_day :: "time \<Rightarrow> string" where "korean_day = format_date [] kst_offset"
definition korean_dash_day :: "time \<Rightarrow> string" where "korean_dash_day = format_date ''-'' kst_offset"

definition korean_clock :: "string \<Rightarrow> time \<Rightarrow> string" where
  "korean_clock sep t = (case clock_of kst_offset t of (h, m, s) \<Rightarrow> pad 2 h @ sep @ pad 2 m)"

definition next_text :: "time \<Rightarrow> string" where
  "next_text t = (case civil (kst_day t) of (y, m, d) \<Rightarrow> pad 2 m @ ''.'' @ pad 2 d) @ '' '' @ korean_clock '':'' t"

text \<open>Like \<open>formatNumber\<close>, but the loop goes on to the first character, the sign included.\<close>

definition formatWon :: "int \<Rightarrow> string" where
  "formatWon v = (let digits = show_int v in insert_commas 0 (int (length digits) - 3) digits) @ v_won"

fun reason_label :: "reason \<Rightarrow> string" where
  "reason_label ReasonIncludeAny = v_include_any"
| "reason_label ReasonIncludeAll = v_include_all"
| "reason_label ReasonCategory = v_category"
| "reason_label ReasonAgency = v_agency"
| "reason_label ReasonRegion = v_region"
| "reason_label ReasonMinAmount = v_min_amount"
| "reason_label ReasonMaxAmount = v_max_amount"
| "reason_label ReasonDeadlineWeekday = v_weekday"
| "reason_label ReasonDeadlineWithinDays = v_days_left"
| "reason_label r = reason_code r"

definition reasonText :: "detail \<Rightarrow> string" where
  "reasonText d =
     (let label = reason_label (Code d) in
      if RuleValue d = [] then label @ v_matches
      else label @ v_quote_open @ RuleValue d @ v_quote_close @
        (if NoticeValue d \<noteq> [] then v_notice_open @ NoticeValue d @ '')'' else []))"

definition listed :: "string list \<Rightarrow> string" where
  "listed = str_join '', ''"

definition summary_parts :: "rule \<Rightarrow> string list" where
  "summary_parts r =
     (if IncludeAny r \<noteq> [] then [''ANY: '' @ listed (IncludeAny r)] else []) @
     (if IncludeAll r \<noteq> [] then [''ALL: '' @ listed (IncludeAll r)] else []) @
     (if Exclude r \<noteq> [] then [v_exclude @ listed (Exclude r)] else []) @
     (if Regions r \<noteq> [] then [listed (Regions r)] else []) @
     (if Categories r \<noteq> [] then [v_trades @ listed (map webCategoryLabel (Categories r))] else []) @
     (if Agencies r \<noteq> [] then [v_agencies @ listed (Agencies r)] else []) @
     (case MinAmount r of None \<Rightarrow> [] | Some a \<Rightarrow> [formatWon a @ v_at_least]) @
     (case DeadlineWithinDays r of None \<Rightarrow> [] | Some n \<Rightarrow> [v_due @ show_int n @ v_within])"

definition filterSummary :: "rule \<Rightarrow> string" where
  "filterSummary r = (if summary_parts r = [] then v_everything else str_join v_dot (summary_parts r))"

definition accountRoleLabel :: "string \<Rightarrow> string" where
  "accountRoleLabel r = (if r = TenantAdmin then v_company_admin else v_member)"

section \<open>The next delivery\<close>

definition nextDeliveryAt :: "time \<Rightarrow> int \<Rightarrow> int \<Rightarrow> int list \<Rightarrow> time option" where
  "nextDeliveryAt now hour minute ds =
     (if hour < 0 \<or> 23 < hour \<or> minute < 0 \<or> 59 < minute \<or> ds = [] then None
      else if list_ex (\<lambda>w. w < 0 \<or> 6 < w) ds then None
      else find (\<lambda>t. weekday_of_day (kst_day t) \<in> set ds \<and> now < t)
             (map (\<lambda>k. kst_at (kst_day now + int k) hour minute) [0..<8]))"

section \<open>Notices\<close>

record notice_texts =
  nt_keywords :: "string list"
  nt_filter_keywords :: "string list"
  nt_reasons :: "string list"
  nt_filter_reasons :: "string list"

definition is_keyword :: "reason \<Rightarrow> bool" where
  "is_keyword r \<longleftrightarrow> r = ReasonIncludeAny \<or> r = ReasonIncludeAll"

definition add_detail :: "detail \<Rightarrow> notice_texts \<Rightarrow> notice_texts" where
  "add_detail d x =
     (let y = (if is_keyword (Code d)
               then x\<lparr>nt_keywords := appendUnique (nt_keywords x) (RuleValue d),
                      nt_filter_keywords := appendUnique (nt_filter_keywords x) (RuleValue d)\<rparr> else x)
      in y\<lparr>nt_reasons := appendUnique (nt_reasons y) (reasonText d),
           nt_filter_reasons := appendUnique (nt_filter_reasons y) (reasonText d)\<rparr>)"

definition add_plain_reason :: "reason \<Rightarrow> notice_texts \<Rightarrow> notice_texts" where
  "add_plain_reason r x =
     (let s = reasonText \<lparr>Code = r, Field = [], RuleValue = [], NoticeValue = []\<rparr>
      in x\<lparr>nt_reasons := appendUnique (nt_reasons x) s, nt_filter_reasons := appendUnique (nt_filter_reasons x) s\<rparr>)"

text \<open>One filter of the loop; the keywords are kept until the end.\<close>

definition add_filter ::
  "text_env \<Rightarrow> time \<Rightarrow> notice \<Rightarrow> string \<times> rule \<Rightarrow> listed_notice \<times> string list \<Rightarrow> listed_notice \<times> string list" where
  "add_filter T now n f acc =
     (case (f, acc) of ((filterID, r), (view, keywords)) \<Rightarrow>
        let m = MatchAt (te_nfc T) (te_fold T) now n r in
        if \<not> Matched m then (view, keywords)
        else
          let x0 = \<lparr>nt_keywords = keywords, nt_filter_keywords = [], nt_reasons = lv_reasons view, nt_filter_reasons = []\<rparr>;
              x1 = fold add_detail (Details m) x0;
              x2 = (if Details m = [] then fold add_plain_reason (Reasons m) x1 else x1) in
          (view\<lparr>lv_reasons := nt_reasons x2,
             lv_filter_reasons := (lv_filter_reasons view)(filterID \<mapsto> nt_filter_reasons x2),
             lv_filter_keywords := (lv_filter_keywords view)(filterID \<mapsto> listed (nt_filter_keywords x2))\<rparr>,
           nt_keywords x2))"

definition trade_of :: "string \<Rightarrow> string" where
  "trade_of category =
     (if category = CategoryConstruction \<or> category = CategoryService \<or> category = CategoryGoods then v_domestic
      else if category = CategoryForeign then v_foreign else ''-'')"

definition noticeViewFromModel ::
  "text_env \<Rightarrow> time \<Rightarrow> string \<Rightarrow> notice \<Rightarrow> time \<Rightarrow> (string \<times> rule) list \<Rightarrow> listed_notice" where
  "noticeViewFromModel T now i n collectedAt fs =
     (let view = \<lparr>lv_kind = v_source_kind, lv_keyword = [], lv_trade = trade_of (n_category n),
            lv_date = formatKoreanDate korean_day collectedAt, lv_clock = formatKoreanDate (korean_clock []) collectedAt,
            lv_posted = formatKoreanDate korean_dash_day (z_inst (n_posted_at n)), lv_filter_keywords = Map.empty,
            lv_id = i, lv_title = n_title n, lv_category = webCategoryLabel (n_category n), lv_agency = n_agency n,
            lv_region = n_region n, lv_amount = formatWon (n_amount n), lv_deadline = formatKoreanTime (z_inst (n_deadline n)),
            lv_source = n_source_url n, lv_reasons = [], lv_filter_reasons = Map.empty\<rparr>
      in case fold (add_filter T now n) fs (view, []) of (v, keywords) \<Rightarrow> v\<lparr>lv_keyword := listed keywords\<rparr>)"

definition applyNoticeFilterCounts :: "listed_notice \<Rightarrow> filter_view list \<Rightarrow> filter_view list" where
  "applyNoticeFilterCounts n fs =
     map (\<lambda>f. if lv_filter_reasons n (fv_id f) \<noteq> None then f\<lparr>fv_matches := fv_matches f + 1\<rparr> else f) fs"

section \<open>Reports and failures\<close>

definition report_trigger :: "string \<Rightarrow> string" where
  "report_trigger t = (if t = ''scheduled'' then v_scheduled else if t = ''manual'' then v_manual else [])"

definition report_status_text :: "report_status \<Rightarrow> int \<Rightarrow> string" where
  "report_status_text s attempts =
     (case s of RGenerated \<Rightarrow> v_generated | RGenerating \<Rightarrow> v_generating
      | RFailed \<Rightarrow> if 3 \<le> attempts then v_failed else v_retrying)"

text \<open>\<open>path.Base\<close>\<close>

definition Base :: "string \<Rightarrow> string" where
  "Base p =
     (let q = rev (dropWhile (\<lambda>c. c = slash) (rev p)) in
      if p = [] then ''.'' else if q = [] then [slash] else rev (takeWhile (\<lambda>c. c \<noteq> slash) (rev q)))"

definition reportViewFromRow :: "report_row \<Rightarrow> listed_report" where
  "reportViewFromRow r =
     (let name = (if rp_path r = [] then [] else Base (rp_path r)) in
      \<lparr>rv_id = rp_id r, rv_file = name, rv_trigger = report_trigger (rp_trigger r),
       rv_status = report_status_text (rp_status r) (rp_attempts r), rv_due = formatKoreanTime (rp_due r),
       rv_generated = (case rp_generated r of None \<Rightarrow> ''-'' | Some t \<Rightarrow> formatKoreanTime t), rv_notices = rp_count r,
       rv_downloadable = (rp_status r = RGenerated \<and> name \<noteq> [] \<and> rp_generated r \<noteq> None)\<rparr>)"

definition applyTenantFailures :: "int \<Rightarrow> admin_view \<times> tenant_view \<Rightarrow> admin_view \<times> tenant_view" where
  "applyTenantFailures failures x =
     (case x of (a, v) \<Rightarrow>
        let b = a\<lparr>av_failed := av_failed a + failures\<rparr> in
        if 0 < failures then (b\<lparr>av_healthy := False\<rparr>, v\<lparr>tv_state := v_check\<rparr>) else (b, v))"

definition noticesNeeded :: "string \<Rightarrow> bool" where
  "noticesNeeded p \<longleftrightarrow> p = ''/notices'' \<or> has_prefix p ''/notices/'' \<or> p = ''/filters''"

end
