(* ===== verification/Web_Store.thy ===== *)
theory Web_Store
  imports Web_Views Tenant_Tx
begin

text \<open>
  internal/app/postgres_web.go: the statements of the web repository on the tables of a tenant. Filters
  with their matches, the delivery schedule, recipients, and what the pages read. A rules column is the
  rule it decodes to (documents that differ only in null for an empty list are one); \<open>now()\<close> is the
  start of the transaction.
\<close>

section \<open>Filters\<close>

definition filter_key :: "string \<Rightarrow> string \<Rightarrow> filter_row \<Rightarrow> bool" where
  "filter_key tenantID i f \<longleftrightarrow> f_tenant f = tenantID \<and> f_id f = i"

definition filter_named :: "string \<Rightarrow> string \<Rightarrow> filter_row \<Rightarrow> bool" where
  "filter_named tenantID name f \<longleftrightarrow> f_tenant f = tenantID \<and> f_name f = name"

definition tenant_known :: "string \<Rightarrow> schema \<Rightarrow> bool" where
  "tenant_known tenantID t = list_ex (\<lambda>(i, name). i = tenantID) (tenants t)"

text \<open>\<open>INSERT ... ON CONFLICT (tenant_id, name) DO NOTHING RETURNING id\<close>; the table refuses blank names
  and unknown tenants.\<close>

definition unnamed :: "string \<Rightarrow> bool" where
  "unnamed name = list_all (\<lambda>c. c = CHR '' '') name"

definition insert_filter ::
  "dbenv \<Rightarrow> time \<Rightarrow> string \<Rightarrow> string \<Rightarrow> rule \<Rightarrow> nat \<Rightarrow> schema \<Rightarrow> goerr + bool \<times> schema" where
  "insert_filter E now tenantID name r n t =
     (if unnamed name then Inl (ErrText ''filters_name_check'')
      else if list_ex (filter_named tenantID name) (filters t) then Inr (False, t)
      else if \<not> tenant_known tenantID t then Inl (ErrText ''filters_tenant_id_fkey'')
      else Inr (True, t\<lparr>filters := filters t @ [\<lparr>f_tenant = tenantID, f_id = uuid_at E n 0, f_name = name, f_rule = Some r,
             f_enabled = True, f_created = now, f_updated = now\<rparr>]\<rparr>))"

definition set_rule :: "time \<Rightarrow> rule \<Rightarrow> filter_row \<Rightarrow> filter_row" where
  "set_rule now r f = f\<lparr>f_rule := Some r, f_enabled := True, f_updated := now\<rparr>"

definition update_filter :: "(filter_row \<Rightarrow> filter_row) \<Rightarrow> string \<Rightarrow> string \<Rightarrow> schema \<Rightarrow> schema" where
  "update_filter g tenantID i t = t\<lparr>filters := update_where (filter_key tenantID i) g (filters t)\<rparr>"

definition match_key :: "string \<Rightarrow> string \<Rightarrow> match_row \<Rightarrow> bool" where
  "match_key tenantID i m \<longleftrightarrow> m_tenant m = tenantID \<and> m_filter m = i"

definition delete_matches :: "string \<Rightarrow> string \<Rightarrow> schema \<Rightarrow> schema" where
  "delete_matches tenantID i t = t\<lparr>matches := filter (\<lambda>m. \<not> match_key tenantID i m) (matches t)\<rparr>"

text \<open>An \<open>UPDATE\<close> of one filter that must affect one row.\<close>

definition update_one :: "dbenv \<Rightarrow> (filter_row \<Rightarrow> filter_row) \<Rightarrow> string \<Rightarrow> string \<Rightarrow> (schema, nat) sql" where
  "update_one E g tenantID i =
     sql_stmt E (\<lambda>n t. Inr (affected (filter_key tenantID i) (filters t), update_filter g tenantID i t))"

definition saveFilter :: "dbenv \<Rightarrow> time \<Rightarrow> string \<Rightarrow> string \<Rightarrow> rule \<Rightarrow> (schema, unit) sql" where
  "saveFilter E now tenantID name r =
     sql_bind (sql_wrap ''insert filter'' (sql_stmt E (insert_filter E now tenantID name r))) (\<lambda>created.
     if created then sql_return ()
     else sql_bind (sql_wrap ''lock existing filter'' (sql_query E (\<lambda>t. find (filter_named tenantID name) (filters t)))) (\<lambda>row.
       case row of
         None \<Rightarrow> sql_fail (ErrWrap ''lock existing filter'' (Sentinel ErrNoRows))
       | Some f \<Rightarrow>
           if f_rule f = Some r \<and> f_enabled f then sql_return ()
           else sql_bind (sql_wrap ''update filter'' (update_one E (set_rule now r) tenantID (f_id f))) (\<lambda>n.
             if n \<noteq> 1 then sql_fail (Sentinel ErrNoRows)
             else if f_rule f = Some r then sql_return ()
             else sql_wrap ''delete stale filter matches''
               (sql_stmt E (\<lambda>k t. Inr ((), delete_matches tenantID (f_id f) t))))))"

definition enabled_named :: "string \<Rightarrow> string \<Rightarrow> schema \<Rightarrow> filter_row option" where
  "enabled_named tenantID name t = find (\<lambda>f. filter_named tenantID name f \<and> f_enabled f) (filters t)"

text \<open>The transaction of \<open>SaveFilter\<close>, after its role check; \<open>clk\<close> is the clock of the process.\<close>

definition save_filter_tx ::
  "dbenv \<Rightarrow> lockenv \<Rightarrow> text_env \<Rightarrow> (nat \<Rightarrow> time) \<Rightarrow> string \<Rightarrow> string \<Rightarrow> rule \<Rightarrow> time \<Rightarrow> (schema, unit) sql" where
  "save_filter_tx E L T clk tenantID name r now =
     sql_bind (sql_wrap ''wait for collection before saving filter'' (tryCollectionLock E L)) (\<lambda>_ d.
       let at_time = clk (tick d) in
       sql_bind (loadActiveNotices E T at_time) (\<lambda>ns.
       sql_bind (saveFilter E now tenantID name r) (\<lambda>_.
       sql_bind (sql_wrap ''load saved filter revision'' (sql_query E (enabled_named tenantID name))) (\<lambda>row.
       case row of
         None \<Rightarrow> sql_fail (ErrWrap ''load saved filter revision'' (Sentinel ErrNoRows))
       | Some f \<Rightarrow> refreshFilterMatches E T now at_time
           \<lparr>sf_id = f_id f, sf_tenant = tenantID, sf_rule = r, sf_revision = f_updated f\<rparr> ns))) d)"

definition toggleFilter :: "dbenv \<Rightarrow> time \<Rightarrow> string \<Rightarrow> toggle_command \<Rightarrow> (schema, unit) sql" where
  "toggleFilter E now tenantID c =
     sql_bind (update_one E (\<lambda>f. f\<lparr>f_enabled := tg_enabled c, f_updated := now\<rparr>) tenantID (tg_filter c)) (\<lambda>n.
     if n \<noteq> 1 then sql_fail (Sentinel ErrNoRows)
     else if tg_enabled c then sql_return ()
     else sql_stmt E (\<lambda>k t. Inr ((), delete_matches tenantID (tg_filter c) t)))"

definition enabled_row :: "string \<Rightarrow> string \<Rightarrow> schema \<Rightarrow> filter_row option" where
  "enabled_row tenantID i t = find (\<lambda>f. filter_key tenantID i f \<and> f_enabled f) (filters t)"

definition enable_filter_tx ::
  "dbenv \<Rightarrow> lockenv \<Rightarrow> text_env \<Rightarrow> (nat \<Rightarrow> time) \<Rightarrow> string \<Rightarrow> toggle_command \<Rightarrow> time \<Rightarrow> (schema, unit) sql" where
  "enable_filter_tx E L T clk tenantID c now =
     sql_bind (sql_wrap ''wait for collection before enabling filter'' (tryCollectionLock E L)) (\<lambda>_ d.
       let at_time = clk (tick d) in
       sql_bind (loadActiveNotices E T at_time) (\<lambda>ns.
       sql_bind (toggleFilter E now tenantID c) (\<lambda>_.
       sql_bind (sql_wrap ''load enabled filter revision'' (sql_query E (enabled_row tenantID (tg_filter c)))) (\<lambda>row.
       case row of
         None \<Rightarrow> sql_fail (ErrWrap ''load enabled filter revision'' (Sentinel ErrNoRows))
       | Some f \<Rightarrow>
           (case f_rule f of
              None \<Rightarrow> sql_fail (ErrText ''decode enabled filter rule'')
            | Some r \<Rightarrow> refreshFilterMatches E T now at_time
                \<lparr>sf_id = tg_filter c, sf_tenant = tenantID, sf_rule = r, sf_revision = f_updated f\<rparr> ns)))) d)"

definition toggle_filter_tx ::
  "dbenv \<Rightarrow> lockenv \<Rightarrow> text_env \<Rightarrow> (nat \<Rightarrow> time) \<Rightarrow> string \<Rightarrow> toggle_command \<Rightarrow> time \<Rightarrow> (schema, unit) sql" where
  "toggle_filter_tx E L T clk tenantID c now =
     (if tg_enabled c then enable_filter_tx E L T clk tenantID c now else toggleFilter E now tenantID c)"

text \<open>The matches of a filter go with it (\<open>ON DELETE CASCADE\<close>).\<close>

definition deleteFilter :: "dbenv \<Rightarrow> string \<Rightarrow> string \<Rightarrow> (schema, unit) sql" where
  "deleteFilter E tenantID i =
     sql_bind (sql_stmt E (\<lambda>n t. Inr (affected (filter_key tenantID i) (filters t),
        delete_matches tenantID i (t\<lparr>filters := filter (\<lambda>f. \<not> filter_key tenantID i f) (filters t)\<rparr>)))) (\<lambda>n.
     if n \<noteq> 1 then sql_fail (Sentinel ErrNoRows) else sql_return ())"

section \<open>Schedules and recipients\<close>

definition is_default_schedule :: "string \<Rightarrow> schedule_row \<Rightarrow> bool" where
  "is_default_schedule tenantID s \<longleftrightarrow> s_tenant s = tenantID \<and> s_name s = v_default_schedule"

definition upsert_schedule :: "dbenv \<Rightarrow> string \<Rightarrow> int \<Rightarrow> int \<Rightarrow> string \<Rightarrow> int list \<Rightarrow> (schema, unit) sql" where
  "upsert_schedule E tenantID hour minute zone ds =
     sql_stmt E (\<lambda>n t.
       if list_ex (is_default_schedule tenantID) (schedules t) then
         Inr ((), t\<lparr>schedules := update_where (is_default_schedule tenantID)
           (\<lambda>s. s\<lparr>s_hour := hour, s_minute := minute, s_timezone := zone, s_weekdays := ds, s_enabled := True\<rparr>) (schedules t)\<rparr>)
       else if \<not> tenant_known tenantID t then Inl (ErrText ''schedules_tenant_id_fkey'')
       else Inr ((), t\<lparr>schedules := schedules t @ [\<lparr>s_tenant = tenantID, s_id = uuid_at E n 0, s_name = v_default_schedule,
         s_hour = hour, s_minute = minute, s_timezone = zone, s_weekdays = ds, s_enabled = True, s_last_success = None\<rparr>]\<rparr>))"

definition same_address :: "(string \<Rightarrow> string) \<Rightarrow> string \<Rightarrow> string \<Rightarrow> recipient_row \<Rightarrow> bool" where
  "same_address lower tenantID email r \<longleftrightarrow> rc_tenant r = tenantID \<and> lower (rc_email r) = lower email"

definition upsert_recipient :: "dbenv \<Rightarrow> (string \<Rightarrow> string) \<Rightarrow> string \<Rightarrow> recipient_command \<Rightarrow> (schema, unit) sql" where
  "upsert_recipient E lower tenantID c =
     sql_stmt E (\<lambda>n t.
       if list_ex (same_address lower tenantID (cr_email c)) (recipients t) then
         Inr ((), t\<lparr>recipients := update_where (same_address lower tenantID (cr_email c))
           (\<lambda>r. r\<lparr>rc_name := cr_name c, rc_enabled := True\<rparr>) (recipients t)\<rparr>)
       else if \<not> tenant_known tenantID t then Inl (ErrText ''recipients_tenant_id_fkey'')
       else Inr ((), t\<lparr>recipients := recipients t @ [\<lparr>rc_tenant = tenantID, rc_id = uuid_at E n 0, rc_name = cr_name c,
         rc_email = cr_email c, rc_enabled = True\<rparr>]\<rparr>))"

section \<open>Pages\<close>

definition all_days :: "int list" where "all_days = [0, 1, 2, 3, 4, 5, 6]"

definition next_delivery_text :: "time \<Rightarrow> int \<Rightarrow> int \<Rightarrow> int list \<Rightarrow> string \<Rightarrow> string" where
  "next_delivery_text now hour minute ds old =
     (case nextDeliveryAt now hour minute ds of None \<Rightarrow> old | Some t \<Rightarrow> next_text t)"

text \<open>The row that \<open>ORDER BY created_at LIMIT 1\<close> finds: rows are in the order of their creation.\<close>

definition tenant_schedule :: "string \<Rightarrow> schema \<Rightarrow> schedule_row option" where
  "tenant_schedule tenantID t = find (\<lambda>s. s_tenant s = tenantID \<and> s_enabled s) (schedules t)"

definition show_schedule :: "time \<Rightarrow> string \<Rightarrow> int \<Rightarrow> int \<Rightarrow> string \<Rightarrow> int list \<Rightarrow> app_data \<Rightarrow> app_data" where
  "show_schedule now clock_text hour minute zone ds data =
     data\<lparr>ad_time := clock_text, ad_zone := zone, ad_days := ds,
       ad_dashboard := (ad_dashboard data)\<lparr>dv_run_time := clock_text,
         dv_next := next_delivery_text now hour minute ds (dv_next (ad_dashboard data))\<rparr>\<rparr>"

definition loadTenantSchedule :: "dbenv \<Rightarrow> (nat \<Rightarrow> time) \<Rightarrow> string \<Rightarrow> app_data \<Rightarrow> (schema, app_data) sql" where
  "loadTenantSchedule E clk tenantID data =
     sql_bind (sql_wrap ''load report schedule'' (sql_query E (tenant_schedule tenantID))) (\<lambda>row d.
       (Inr (case row of
          None \<Rightarrow> show_schedule (clk (tick d)) ''07:00'' 7 0 ''Asia/Seoul'' all_days data
        | Some s \<Rightarrow> show_schedule (clk (tick d)) (pad 2 (s_hour s) @ '':'' @ pad 2 (s_minute s)) (s_hour s) (s_minute s)
            (s_timezone s) (s_weekdays s) data), d))"

definition listed_reports :: "string \<Rightarrow> schema \<Rightarrow> report_row list" where
  "listed_reports tenantID t =
     take 50 (sort_key (\<lambda>r. - rp_due r) (filter (\<lambda>r. rp_tenant r = tenantID \<and> rp_deleted r = None) (reports t)))"

definition loadTenantReports :: "dbenv \<Rightarrow> string \<Rightarrow> app_data \<Rightarrow> (schema, app_data) sql" where
  "loadTenantReports E tenantID data =
     sql_bind (sql_wrap ''load tenant reports'' (sql_query E (listed_reports tenantID))) (\<lambda>rs.
       sql_return (data\<lparr>ad_reports := ad_reports data @ map reportViewFromRow rs\<rparr>))"

definition tenant_filters :: "string \<Rightarrow> schema \<Rightarrow> filter_row list" where
  "tenant_filters tenantID t = sort_key f_created (filter (\<lambda>f. f_tenant f = tenantID) (filters t))"

fun scan_web_filters :: "filter_row list \<Rightarrow> goerr + (filter_view list \<times> (string \<times> rule) list)" where
  "scan_web_filters [] = Inr ([], [])"
| "scan_web_filters (f # fs) =
     (case f_rule f of
        None \<Rightarrow> Inl (ErrText ''decode filter rule'')
      | Some r \<Rightarrow>
         (case scan_web_filters fs of
            Inl e \<Rightarrow> Inl e
          | Inr (views, active) \<Rightarrow>
              Inr (\<lparr>fv_id = f_id f, fv_name = f_name f, fv_summary = filterSummary r, fv_matches = 0, fv_enabled = f_enabled f\<rparr> # views,
                   (if f_enabled f then (f_id f, r) # active else active))))"

definition loadTenantFilters :: "dbenv \<Rightarrow> string \<Rightarrow> app_data \<Rightarrow> (schema, app_data \<times> (string \<times> rule) list) sql" where
  "loadTenantFilters E tenantID data =
     sql_bind (sql_wrap ''load filters'' (sql_query E (tenant_filters tenantID))) (\<lambda>fs.
     sql_bind (sql_lift (scan_web_filters fs)) (\<lambda>(views, active).
       sql_return (data\<lparr>ad_filters := ad_filters data @ views,
         ad_dashboard := (ad_dashboard data)\<lparr>dv_filters := dv_filters (ad_dashboard data) + int (length active)\<rparr>\<rparr>, active)))"

text \<open>Notices whose deadline is not over, in the order of \<open>active_rows\<close>; the clock of the server decides.\<close>

fun scan_web_notices ::
  "text_env \<Rightarrow> time \<Rightarrow> (string \<times> rule) list \<Rightarrow> notice_row list \<Rightarrow> app_data \<Rightarrow> goerr + app_data" where
  "scan_web_notices T now fs [] data = Inr data"
| "scan_web_notices T now fs (r # rs) data =
     (case nr_payload r of
        None \<Rightarrow> Inl (ErrText ''decode notice'')
      | Some n \<Rightarrow>
          let view = noticeViewFromModel T now (nr_id r) n (nr_collected r) fs in
          scan_web_notices T now fs rs
            (data\<lparr>ad_notices := ad_notices data @ [view], ad_filters := applyNoticeFilterCounts view (ad_filters data)\<rparr>))"

definition loadTenantNotices ::
  "dbenv \<Rightarrow> text_env \<Rightarrow> (nat \<Rightarrow> time) \<Rightarrow> time \<Rightarrow> (string \<times> rule) list \<Rightarrow> app_data \<Rightarrow> (schema, app_data) sql" where
  "loadTenantNotices E T clk now fs data =
     sql_bind (sql_wrap ''load notices'' (sql_query E (active_rows now))) (\<lambda>rs d.
       (scan_web_notices T (clk (tick d)) fs rs data, d))"

definition recipient_view_of :: "recipient_row \<Rightarrow> recipient_view" where
  "recipient_view_of r = \<lparr>ev_name = rc_name r, ev_email = rc_email r, ev_state = (if rc_enabled r then v_receiving else v_stopped)\<rparr>"

definition loadTenantRecipients :: "dbenv \<Rightarrow> string \<Rightarrow> app_data \<Rightarrow> (schema, app_data) sql" where
  "loadTenantRecipients E tenantID data =
     sql_bind (sql_wrap ''load recipients'' (sql_query E (\<lambda>t. filter (\<lambda>r. rc_tenant r = tenantID) (recipients t)))) (\<lambda>rs.
       sql_return (data\<lparr>ad_recipients := ad_recipients data @ map recipient_view_of rs\<rparr>))"

definition recent_matches :: "string \<Rightarrow> time \<Rightarrow> schema \<Rightarrow> int" where
  "recent_matches tenantID now t =
     int (length (filter (\<lambda>m. m_tenant m = tenantID \<and> now - 24 * hour_ns \<le> m_created m) (matches t)))"

definition failure_count :: "string \<Rightarrow> time \<Rightarrow> schema \<Rightarrow> int" where
  "failure_count tenantID now t =
     int (length (filter (\<lambda>j. jr_tenant j = tenantID \<and> jr_status j = ''failed'' \<and> now - 24 * hour_ns \<le> jr_started j) (job_runs t))) +
     int (length (filter (\<lambda>v. d_tenant v = tenantID \<and> d_status v = DFailed \<and> now - 24 * hour_ns \<le> d_claimed v \<and>
       \<not> str_contains (case d_error v of None \<Rightarrow> [] | Some e \<Rightarrow> e) expiredDigestTerminalReason) (deliveries t)))"

definition loadTenantFailureCount :: "dbenv \<Rightarrow> string \<Rightarrow> time \<Rightarrow> (schema, int) sql" where
  "loadTenantFailureCount E tenantID now =
     sql_wrap ''count tenant job and delivery failures'' (sql_query E (failure_count tenantID now))"

text \<open>Reports as the download needs them.\<close>

definition reportDownloadPath :: "dbenv \<Rightarrow> string \<Rightarrow> string \<Rightarrow> (schema, string) sql" where
  "reportDownloadPath E tenantID reportID =
     (if tenantID = [] \<or> reportID = [] then sql_fail (ErrText ''report download metadata dependencies are required'')
      else sql_bind (sql_wrap ''load report download metadata'' (sql_query E (\<lambda>t. find (\<lambda>r. rp_tenant r = tenantID \<and> rp_id r = reportID \<and>
             rp_status r = RGenerated \<and> rp_deleted r = None \<and> rp_path r \<noteq> []) (reports t)))) (\<lambda>row.
        case row of None \<Rightarrow> sql_fail (Sentinel ErrNoReport) | Some r \<Rightarrow> sql_return (rp_path r)))"

end
