(* ===== verification/Web_Service.thy ===== *)
theory Web_Service
  imports Web_Store Web_Route Accounts Report_Runner Report_Claim
begin

text \<open>
  internal/app/postgres_web.go and report_delete.go: \<open>WebService\<close>, the application behind the web surface.
  Its world is the database, the report files and the key file. The tables of a tenant and the account
  tables are one database with one counter of calls; the companies are the rows of \<open>tenants\<close>. Functions
  the runtime gives the service (the trigger of the collection, the test mail, a report runner) are
  parameters, as are the times of files and the reading of the last collection result.
\<close>

section \<open>The world\<close>

record web_rows =
  wr_work :: schema
  wr_accounts :: accounts

record web_world =
  wx_rows :: "web_rows db"
  wx_files :: "fs db"
  wx_keys :: "key_fs db"

type_synonym 'a web_op = "web_world \<Rightarrow> ('a res \<times> web_world) option"

text \<open>The tables of a tenant; the names of the companies are read from the account tables.\<close>

definition work_of :: "web_rows \<Rightarrow> schema" where
  "work_of w = (wr_work w)\<lparr>tenants := map (\<lambda>c. (co_id c, co_name c)) (ac_companies (wr_accounts w))\<rparr>"

definition put_work :: "schema \<Rightarrow> web_rows \<Rightarrow> web_rows" where
  "put_work t w = w\<lparr>wr_work := t\<lparr>tenants := tenants (wr_work w)\<rparr>\<rparr>"

definition on_work :: "(schema, 'a) sql \<Rightarrow> (web_rows, 'a) sql" where
  "on_work m d =
     (case m \<lparr>rows = work_of (rows d), tick = tick d\<rparr> of
        (r, d') \<Rightarrow> (r, \<lparr>rows = put_work (rows d') (rows d), tick = tick d'\<rparr>))"

text \<open>The functions that make a company insert its default schedule, 07:00 on every day.\<close>

definition default_schedule_row :: "string \<Rightarrow> string \<Rightarrow> string \<Rightarrow> schedule_row" where
  "default_schedule_row i tenantID name =
     \<lparr>s_tenant = tenantID, s_id = i, s_name = name, s_hour = 7, s_minute = 0, s_timezone = ''Asia/Seoul'',
      s_weekdays = all_days, s_enabled = True, s_last_success = None\<rparr>"

definition with_new_schedules :: "(nat \<Rightarrow> string) \<Rightarrow> accounts \<Rightarrow> accounts \<Rightarrow> schema \<Rightarrow> schema" where
  "with_new_schedules ids a b t =
     t\<lparr>schedules := schedules t @ map (\<lambda>(k, i, n). default_schedule_row (ids k) i n) (enumerate 2
         (filter (\<lambda>(i, n). (i, n) \<notin> set (ac_schedules a) \<and> \<not> list_ex (\<lambda>s. s_tenant s = i \<and> s_name s = n) (schedules t))
           (ac_schedules b)))\<rparr>"

definition on_accounts :: "account_env \<Rightarrow> (accounts, 'a) sql \<Rightarrow> (web_rows, 'a) sql" where
  "on_accounts R m d =
     (case m \<lparr>rows = wr_accounts (rows d), tick = tick d\<rparr> of
        (r, d') \<Rightarrow> (r, \<lparr>rows = (rows d)\<lparr>wr_accounts := rows d',
            wr_work := with_new_schedules (uuid_at (ae_db R) (tick d)) (wr_accounts (rows d)) (rows d') (wr_work (rows d))\<rparr>,
          tick = tick d'\<rparr>))"

definition in_world :: "(web_rows db \<Rightarrow> ('a res \<times> web_rows db) option) \<Rightarrow> 'a web_op" where
  "in_world m x = map_option (\<lambda>(r, d). (r, x\<lparr>wx_rows := d\<rparr>)) (m (wx_rows x))"

definition at_once :: "(web_rows, 'a) sql \<Rightarrow> 'a web_op" where
  "at_once m = in_world (\<lambda>d. Some (m d))"

text \<open>An operation of the report runner, on the tables and the files.\<close>

definition on_reports ::
  "(schema db \<times> fs db \<Rightarrow> ('a \<times> (schema db \<times> fs db)) option) \<Rightarrow> web_world \<Rightarrow> ('a \<times> web_world) option" where
  "on_reports m x =
     map_option (\<lambda>(r, d, f). (r, x\<lparr>wx_rows := \<lparr>rows = put_work (rows d) (rows (wx_rows x)), tick = tick d\<rparr>, wx_files := f\<rparr>))
       (m (\<lparr>rows = work_of (rows (wx_rows x)), tick = tick (wx_rows x)\<rparr>, wx_files x))"

definition on_keys :: "(key_fs db \<Rightarrow> ('a res \<times> key_fs db) option) \<Rightarrow> 'a web_op" where
  "on_keys m x = map_option (\<lambda>(r, d). (r, x\<lparr>wx_keys := d\<rparr>)) (m (wx_keys x))"

definition failed :: "goerr \<Rightarrow> 'a web_op" where
  "failed e x = Some (Inl e, x)"

definition and_op :: "'a web_op \<Rightarrow> ('a \<Rightarrow> 'b web_op) \<Rightarrow> 'b web_op" where
  "and_op m k x = do { (r, y) \<leftarrow> m x; (case r of Inl e \<Rightarrow> Some (Inl e, y) | Inr a \<Rightarrow> k a y) }"

definition wrap_op :: "(goerr \<Rightarrow> goerr) \<Rightarrow> 'a web_op \<Rightarrow> 'a web_op" where
  "wrap_op h m x = map_option (apfst (map_sum h id)) (m x)"

section \<open>The service\<close>

record web_service =
  ws_set :: bool
  ws_db :: dbenv
  ws_lock :: lockenv
  ws_text :: text_env
  ws_accounts :: account_env
  ws_lower :: "nat \<Rightarrow> nat"
  ws_address :: "string \<Rightarrow> string option"
  ws_clock :: "nat \<Rightarrow> time"
  ws_result :: "json \<Rightarrow> int \<times> int"
  ws_files :: dbenv
  ws_mtime :: "string \<Rightarrow> time"
  ws_store :: bool
  ws_runner :: "(schema db \<times> fs db) report_env"
  ws_manual :: "(string \<Rightarrow> web_world \<Rightarrow> ((report_outcome \<times> goerr option) \<times> web_world) option) option"
  ws_remove :: "string \<Rightarrow> fs db \<Rightarrow> unit res \<times> fs db"
  ws_key_io :: dbenv
  ws_keys :: key_store
  ws_report_dir :: string
  ws_queue :: "(web_world \<Rightarrow> unit res \<times> web_world) option"
  ws_test_mail :: "(string \<Rightarrow> web_world \<Rightarrow> unit res \<times> web_world) option"

definition not_configured :: goerr where
  "not_configured = ErrText ''web repository is not configured''"

text \<open>A transaction of a tenant.\<close>

definition for_tenant :: "web_service \<Rightarrow> string \<Rightarrow> (time \<Rightarrow> (web_rows, 'a) sql) \<Rightarrow> 'a web_op" where
  "for_tenant S tenantID fn = in_world (withTenant (ws_db S) (ws_lock S) tenantID fn)"

section \<open>The identity of a request\<close>

definition anonymous :: "string \<Rightarrow> request_context" where
  "anonymous csrf = \<lparr>wc_user = [], wc_name = [], wc_email = [], wc_tenant_name = [], wc_tenant = [], wc_role = [], wc_csrf = csrf\<rparr>"

definition session_identity :: "string \<Rightarrow> session_record \<Rightarrow> request_context" where
  "session_identity csrf p =
     \<lparr>wc_user = sr_user p, wc_name = sr_email p, wc_email = sr_email p, wc_tenant_name = [], wc_tenant = sr_tenant p,
      wc_role = sr_role p, wc_csrf = csrf\<rparr>"

text \<open>The join of users and tenants: display name and company name.\<close>

definition web_identity :: "string \<Rightarrow> string \<Rightarrow> accounts \<Rightarrow> (string \<times> string) option" where
  "web_identity user tenant a =
     (case find (\<lambda>u. u_id u = user \<and> u_tenant u = Some tenant) (ac_users a) of
        None \<Rightarrow> None
      | Some u \<Rightarrow> map_option (\<lambda>c. (u_display u, co_name c)) (find (\<lambda>c. co_id c = tenant) (ac_companies a)))"

definition load_identity :: "web_service \<Rightarrow> request_context \<Rightarrow> (web_rows, request_context) sql" where
  "load_identity S rc =
     sql_bind (sql_wrap ''load web identity'' (sql_query (ws_db S) (\<lambda>w. web_identity (wc_user rc) (wc_tenant rc) (wr_accounts w)))) (\<lambda>row.
     case row of
       None \<Rightarrow> sql_fail (ErrWrap ''load web identity'' (Sentinel ErrNoRows))
     | Some (display, name) \<Rightarrow>
         sql_return (rc\<lparr>wc_name := (if trim_space display \<noteq> [] then display else wc_name rc), wc_tenant_name := name\<rparr>))"

definition MapRequest :: "web_service \<Rightarrow> web_request \<Rightarrow> request_context web_op" where
  "MapRequest S rq x =
     (let csrf = (case wq_token rq of None \<Rightarrow> [] | Some t \<Rightarrow> t) in
      case wq_session rq of
        None \<Rightarrow>
          if wq_path rq = ''/login'' \<or> wq_path rq = ''/signup'' \<or> wq_path rq = ''/accept-invite''
          then Some (Inr (anonymous csrf), x) else failed (Sentinel ErrUnauthenticated) x
      | Some p \<Rightarrow>
          let rc = session_identity csrf p in
          if sr_tenant p = [] then Some (Inr rc, x)
          else if \<not> ws_set S then failed not_configured x
          else for_tenant S (sr_tenant p) (\<lambda>now. load_identity S rc) x)"

section \<open>Loading pages\<close>

definition loadGlobalState :: "web_service \<Rightarrow> (web_rows, app_data) sql" where
  "loadGlobalState S =
     sql_bind (sql_wrap ''load collection dashboard'' (sql_query (ws_db S) (\<lambda>w. collection_state (wr_work w)))) (\<lambda>rows.
     case rows of
       [] \<Rightarrow> sql_fail (ErrWrap ''load collection dashboard'' (Sentinel ErrNoRows))
     | c # cs \<Rightarrow>
         (case ws_result S (cs_result c) of (fetched, changed) \<Rightarrow>
            let healthy = (case cs_error c of None \<Rightarrow> True | Some e \<Rightarrow> e = []);
                at_text = (case cs_last_success c of None \<Rightarrow> v_never | Some t \<Rightarrow> formatKoreanTime t) in
            sql_return (zero_app_data
              \<lparr>ad_dashboard := zero_dashboard\<lparr>dv_new := changed, dv_collected := fetched, dv_healthy := healthy, dv_collected_at := at_text\<rparr>,
               ad_admin := zero_admin\<lparr>av_healthy := healthy, av_collected_at := at_text, av_collected := fetched\<rparr>\<rparr>)))"

definition load_contact :: "web_service \<Rightarrow> string \<Rightarrow> app_data \<Rightarrow> (web_rows, app_data) sql" where
  "load_contact S tenantID data =
     sql_bind (sql_wrap ''load tenant settings'' (sql_query (ws_db S) (\<lambda>w. find (\<lambda>c. co_id c = tenantID) (ac_companies (wr_accounts w))))) (\<lambda>row.
     case row of
       None \<Rightarrow> sql_fail (ErrWrap ''load tenant settings'' (Sentinel ErrNoRows))
     | Some c \<Rightarrow> sql_return (data\<lparr>ad_contact := co_contact c\<rparr>))"

definition member_view_of :: "user_row \<Rightarrow> member_view" where
  "member_view_of u = \<lparr>mv_user = u_id u, mv_name = u_display u, mv_email = u_email u, mv_role = accountRoleLabel (u_role u), mv_removable = False\<rparr>"

definition loadTenantMembers :: "web_service \<Rightarrow> string \<Rightarrow> app_data \<Rightarrow> (web_rows, app_data) sql" where
  "loadTenantMembers S tenantID data =
     sql_bind (sql_wrap ''load members'' (sql_query (ws_db S) (\<lambda>w.
        sort_key u_created (filter (\<lambda>u. u_tenant u = Some tenantID) (ac_users (wr_accounts w)))))) (\<lambda>us.
       sql_return (data\<lparr>ad_members := ad_members data @ map member_view_of us\<rparr>))"

definition load_notices :: "web_service \<Rightarrow> bool \<Rightarrow> time \<Rightarrow> (string \<times> rule) list \<Rightarrow> app_data \<Rightarrow> (web_rows, app_data) sql" where
  "load_notices S needed now active data =
     (if needed then on_work (loadTenantNotices (ws_db S) (ws_text S) (ws_clock S) now active data) else sql_return data)"

definition loadTenantWebData :: "web_service \<Rightarrow> string \<Rightarrow> app_data \<Rightarrow> bool \<Rightarrow> time \<Rightarrow> (web_rows, app_data) sql" where
  "loadTenantWebData S tenantID data needed now =
     sql_bind (load_contact S tenantID data) (\<lambda>d1.
     sql_bind (on_work (loadTenantSchedule (ws_db S) (ws_clock S) tenantID d1)) (\<lambda>d2.
     sql_bind (on_work (loadTenantReports (ws_db S) tenantID d2)) (\<lambda>d3.
     sql_bind (on_work (loadTenantFilters (ws_db S) tenantID d3)) (\<lambda>(d4, active).
     sql_bind (load_notices S needed now active d4) (\<lambda>d5.
     sql_bind (on_work (loadTenantRecipients (ws_db S) tenantID d5)) (\<lambda>d6.
     sql_bind (loadTenantMembers S tenantID d6) (\<lambda>d7.
     sql_bind (sql_wrap ''count recent matches'' (on_work (sql_query (ws_db S) (recent_matches tenantID now)))) (\<lambda>n.
       sql_return (d7\<lparr>ad_dashboard := (ad_dashboard d7)\<lparr>dv_matches := n\<rparr>\<rparr>)))))))))"

section \<open>The platform page\<close>

definition account_view_of :: "member_account \<Rightarrow> account_view" where
  "account_view_of a =
     \<lparr>cv_user = ma_user a, cv_email = ma_email a, cv_display = ma_display a, cv_tenant = ma_tenant a,
      cv_tenant_name = ma_tenant_name a, cv_created = formatKoreanTime (ma_created a), cv_role = ma_role a,
      cv_role_label = accountRoleLabel (ma_role a), cv_assigned = (ma_tenant a \<noteq> [])\<rparr>"

definition loadAccountAssignments :: "web_service \<Rightarrow> (string \<times> string) list \<Rightarrow> string \<Rightarrow> app_data \<Rightarrow> app_data web_op" where
  "loadAccountAssignments S ts actor data =
     and_op (wrap_op (ErrWrap ''load member accounts'') (at_once (on_accounts (ws_accounts S) (MemberAccounts (ws_accounts S) actor)))) (\<lambda>as x.
       Some (Inr (data\<lparr>ad_options := ad_options data @ map (\<lambda>(i, n). \<lparr>to_id = i, to_name = n\<rparr>) ts,
         ad_accounts := ad_accounts data @ map account_view_of as\<rparr>), x))"

definition last_generated :: "string \<Rightarrow> schema \<Rightarrow> time option" where
  "last_generated tenantID t =
     (let ts = List.map_filter rp_generated (filter (\<lambda>r. rp_tenant r = tenantID \<and> rp_status r = RGenerated) (reports t)) in
      if ts = [] then None else Some (Max (set ts)))"

definition company_view :: "registry_entry list \<Rightarrow> string \<Rightarrow> string \<Rightarrow> tenant_view" where
  "company_view registry i name =
     (let v = \<lparr>tv_name = name, tv_members = 0, tv_digest = v_not_yet, tv_state = v_normal, tv_admin = [], tv_admin_email = [], tv_contact = []\<rparr> in
      case find (\<lambda>e. re_id e = i) (rev registry) of
        None \<Rightarrow> v
      | Some e \<Rightarrow> v\<lparr>tv_admin := re_admin e, tv_admin_email := re_admin_email e, tv_contact := re_contact e\<rparr>)"

definition load_company :: "web_service \<Rightarrow> string \<Rightarrow> admin_view \<times> tenant_view \<Rightarrow> time \<Rightarrow> (web_rows, admin_view \<times> tenant_view) sql" where
  "load_company S tenantID av now =
     sql_bind (sql_query (ws_db S) (\<lambda>w. length (filter (\<lambda>u. u_tenant u = Some tenantID) (ac_users (wr_accounts w))))) (\<lambda>members.
     sql_bind (on_work (sql_query (ws_db S) (last_generated tenantID))) (\<lambda>sent.
     sql_bind (on_work (loadTenantFailureCount (ws_db S) tenantID now)) (\<lambda>failures.
       case av of (a, v) \<Rightarrow>
         let v1 = v\<lparr>tv_members := int members\<rparr>;
             v2 = (case sent of None \<Rightarrow> v1 | Some t \<Rightarrow> v1\<lparr>tv_digest := formatKoreanTime t\<rparr>) in
         sql_return (applyTenantFailures failures (a, v2)))))"

fun load_companies :: "web_service \<Rightarrow> registry_entry list \<Rightarrow> (string \<times> string) list \<Rightarrow> app_data \<Rightarrow> app_data web_op" where
  "load_companies S registry [] data x = Some (Inr data, x)"
| "load_companies S registry ((i, name) # ts) data x =
     and_op (wrap_op (ErrWrap (''load platform tenant '' @ i))
              (for_tenant S i (load_company S i (ad_admin data, company_view registry i name))))
       (\<lambda>(a, v). load_companies S registry ts (data\<lparr>ad_admin := a, ad_tenants := ad_tenants data @ [v]\<rparr>)) x"

definition loadPlatformData :: "web_service \<Rightarrow> string \<Rightarrow> app_data \<Rightarrow> app_data web_op" where
  "loadPlatformData S actor data =
     and_op (at_once (on_work (tenantCatalog (ws_db S)))) (\<lambda>ts.
     and_op (loadAccountAssignments S ts actor data) (\<lambda>d1.
     and_op (wrap_op (ErrWrap ''load tenant registry'') (at_once (on_accounts (ws_accounts S) (TenantRegistry (ws_accounts S) actor)))) (\<lambda>registry.
       load_companies S registry ts d1)))"

text \<open>The state of the key on the settings page.\<close>

definition load_key_state :: "web_service \<Rightarrow> string \<Rightarrow> app_data \<Rightarrow> app_data web_op" where
  "load_key_state S path data x =
     (if path \<noteq> ''/settings'' then Some (Inr data, x)
      else do {
        (r, y) \<leftarrow> on_keys (ReadKey (ws_key_io S) (ws_keys S)) x;
        Some (Inr (data\<lparr>ad_admin := (ad_admin data)\<lparr>av_key := (case r of Inr k \<Rightarrow> True | Inl e \<Rightarrow> False),
          av_key_unavailable := (case r of Inr k \<Rightarrow> False | Inl e \<Rightarrow> \<not> errors_is e ErrAPIKeyNotConfigured)\<rparr>\<rparr>), y) })"

definition Load :: "web_service \<Rightarrow> request_context \<Rightarrow> string \<Rightarrow> app_data web_op" where
  "Load S rc path =
     (if \<not> ws_set S \<or> \<not> db_set (ws_db S) then failed not_configured
      else and_op (at_once (loadGlobalState S)) (\<lambda>data.
        if wc_role rc = ''platform_admin''
        then and_op (load_key_state S path (data\<lparr>ad_admin := (ad_admin data)\<lparr>av_report_dir := ws_report_dir S\<rparr>\<rparr>))
               (loadPlatformData S (wc_user rc))
        else if wc_tenant rc = [] then failed (Sentinel ErrUnauthenticated)
        else for_tenant S (wc_tenant rc) (loadTenantWebData S (wc_tenant rc) data (noticesNeeded path))))"

section \<open>Companies and accounts\<close>

definition is_platform_admin :: "request_context \<Rightarrow> bool" where
  "is_platform_admin rc \<longleftrightarrow> wc_role rc = ''platform_admin'' \<and> wc_user rc \<noteq> []"

text \<open>An error of the repository that the web surface knows by its own name.\<close>

definition rename_error :: "string \<Rightarrow> string \<Rightarrow> goerr \<Rightarrow> goerr" where
  "rename_error from to e = (if errors_is e from then Sentinel to else e)"

definition account_op :: "web_service \<Rightarrow> (account_env \<Rightarrow> (accounts, 'a) sql) \<Rightarrow> 'a web_op" where
  "account_op S m = at_once (on_accounts (ws_accounts S) (m (ws_accounts S)))"

definition discard :: "'a web_op \<Rightarrow> unit web_op" where
  "discard m x = map_option (apfst (map_sum id (\<lambda>_. ()))) (m x)"

definition CreateTenant :: "web_service \<Rightarrow> request_context \<Rightarrow> tenant_command \<Rightarrow> unit web_op" where
  "CreateTenant S rc c =
     (if \<not> ws_set S then failed not_configured
      else if \<not> is_platform_admin rc then failed (Sentinel ErrSignupPrivileges)
      else discard (wrap_op (rename_error ErrTenantRegistered ErrTenantExists)
        (account_op S (\<lambda>R. RegisterTenant R (wc_user rc) (tc_name c) (tc_contact c) (tc_admin c) (tc_admin_email c)))))"

definition AssignAccountTenant :: "web_service \<Rightarrow> request_context \<Rightarrow> assign_command \<Rightarrow> unit web_op" where
  "AssignAccountTenant S rc c =
     (if \<not> ws_set S then failed not_configured
      else if \<not> is_platform_admin rc then failed (Sentinel ErrSignupPrivileges)
      else wrap_op (rename_error ErrAccountRole ErrRoleNeedsCompany)
        (account_op S (\<lambda>R. SetAccountAccess R (wc_user rc) (as_user c) (as_tenant c) (if as_tenant c = [] then Member else as_role c))))"

definition company_admin_required :: goerr where
  "company_admin_required = ErrText ''company administrator role is required''"

definition RemoveMember :: "web_service \<Rightarrow> request_context \<Rightarrow> string \<Rightarrow> unit web_op" where
  "RemoveMember S rc user =
     (if \<not> ws_set S then failed not_configured
      else if wc_role rc \<noteq> ''tenant_admin'' \<or> wc_user rc = [] \<or> wc_tenant rc = [] then failed company_admin_required
      else account_op S (\<lambda>R. RemoveTenantMember R (wc_user rc) (wc_tenant rc) user))"

definition DeleteMember :: "web_service \<Rightarrow> request_context \<Rightarrow> string \<Rightarrow> unit web_op" where
  "DeleteMember S rc user =
     (if \<not> ws_set S then failed not_configured
      else if \<not> is_platform_admin rc then failed (Sentinel ErrSignupPrivileges)
      else account_op S (\<lambda>R. DeleteAccount R (wc_user rc) user))"

section \<open>Filters, schedules, recipients and settings\<close>

definition admin_required :: goerr where
  "admin_required = ErrText ''tenant administrator role is required''"

definition requireTenantAdmin :: "request_context \<Rightarrow> goerr option" where
  "requireTenantAdmin rc =
     (if wc_tenant rc = [] \<or> (wc_role rc \<noteq> ''tenant_admin'' \<and> wc_role rc \<noteq> ''platform_admin'') then Some admin_required else None)"

definition requireReportAdmin :: "request_context \<Rightarrow> goerr option" where
  "requireReportAdmin rc = (if wc_tenant rc = [] \<or> wc_role rc \<noteq> ''tenant_admin'' then Some admin_required else None)"

definition after_check :: "goerr option \<Rightarrow> 'a web_op \<Rightarrow> 'a web_op" where
  "after_check r k = (case r of Some e \<Rightarrow> failed e | None \<Rightarrow> k)"

text \<open>A transaction of a tenant that touches only its tables.\<close>

definition tenant_work :: "web_service \<Rightarrow> string \<Rightarrow> (time \<Rightarrow> (schema, 'a) sql) \<Rightarrow> 'a web_op" where
  "tenant_work S tenantID fn = for_tenant S tenantID (\<lambda>now. on_work (fn now))"

definition SaveFilter :: "web_service \<Rightarrow> request_context \<Rightarrow> filter_command \<Rightarrow> unit web_op" where
  "SaveFilter S rc c = after_check (requireTenantAdmin rc)
     (tenant_work S (wc_tenant rc) (save_filter_tx (ws_db S) (ws_lock S) (ws_text S) (ws_clock S) (wc_tenant rc) (fc_name c)
        (filterRuleFromWebCommand (te_nfc (ws_text S)) c)))"

definition ToggleFilter :: "web_service \<Rightarrow> request_context \<Rightarrow> toggle_command \<Rightarrow> unit web_op" where
  "ToggleFilter S rc c = after_check (requireTenantAdmin rc)
     (tenant_work S (wc_tenant rc) (toggle_filter_tx (ws_db S) (ws_lock S) (ws_text S) (ws_clock S) (wc_tenant rc) c))"

definition DeleteFilter :: "web_service \<Rightarrow> request_context \<Rightarrow> string \<Rightarrow> unit web_op" where
  "DeleteFilter S rc i = after_check (if wc_tenant rc = [] \<or> wc_role rc \<noteq> ''tenant_admin'' then Some admin_required else None)
     (tenant_work S (wc_tenant rc) (\<lambda>now. deleteFilter (ws_db S) (wc_tenant rc) i))"

definition SaveNotification :: "web_service \<Rightarrow> request_context \<Rightarrow> schedule_command \<Rightarrow> unit web_op" where
  "SaveNotification S rc c = after_check (requireTenantAdmin rc)
     (case (if sc_zone c \<noteq> ''Asia/Seoul'' \<or> sc_days c = [] then None else parse_clock (sc_time c)) of
        None \<Rightarrow> failed (ErrText ''invalid notification schedule'')
      | Some (hour, minute) \<Rightarrow>
          if list_ex (\<lambda>w. w < 0 \<or> 6 < w) (sc_days c) then failed (ErrText ''invalid notification weekday'')
          else tenant_work S (wc_tenant rc) (\<lambda>now. upsert_schedule (ws_db S) (wc_tenant rc) hour minute (sc_zone c) (sc_days c)))"

definition SaveReportSchedule :: "web_service \<Rightarrow> request_context \<Rightarrow> schedule_command \<Rightarrow> unit web_op" where
  "SaveReportSchedule S rc c = after_check (requireReportAdmin rc) (SaveNotification S rc c)"

definition AddRecipient :: "web_service \<Rightarrow> request_context \<Rightarrow> recipient_command \<Rightarrow> unit web_op" where
  "AddRecipient S rc c0 = after_check (requireTenantAdmin rc)
     (let c = \<lparr>cr_name = trim_space (cr_name c0), cr_email = to_lower (ws_lower S) (trim_space (cr_email c0))\<rparr> in
      if cr_name c = [] \<or> ws_address S (cr_email c) \<noteq> Some (cr_email c) then failed (ErrText ''invalid recipient'')
      else tenant_work S (wc_tenant rc) (\<lambda>now. upsert_recipient (ws_db S) (sq_lower (ae_text (ws_accounts S))) (wc_tenant rc) c))"

definition rename_company :: "string \<Rightarrow> settings_command \<Rightarrow> web_rows \<Rightarrow> web_rows" where
  "rename_company tenantID c w =
     w\<lparr>wr_accounts := (wr_accounts w)\<lparr>ac_companies := update_where (\<lambda>k. co_id k = tenantID)
        (\<lambda>k. k\<lparr>co_name := se_tenant c, co_contact := se_contact c\<rparr>) (ac_companies (wr_accounts w))\<rparr>\<rparr>"

definition SaveSettings :: "web_service \<Rightarrow> request_context \<Rightarrow> settings_command \<Rightarrow> unit web_op" where
  "SaveSettings S rc c = after_check (requireTenantAdmin rc)
     (for_tenant S (wc_tenant rc) (\<lambda>now. sql_stmt (ws_db S) (\<lambda>n w.
        if unnamed (se_tenant c) \<and> list_ex (\<lambda>k. co_id k = wc_tenant rc) (ac_companies (wr_accounts w))
        then Inl (ErrText ''tenants_name_check'')
        else Inr ((), rename_company (wc_tenant rc) c w))))"

section \<open>Reports\<close>

definition reports_ready :: "web_service \<Rightarrow> bool" where
  "reports_ready S \<longleftrightarrow> ws_set S \<and> ws_store S"

definition GenerateReport :: "web_service \<Rightarrow> request_context \<Rightarrow> unit web_op" where
  "GenerateReport S rc = after_check (requireReportAdmin rc) (\<lambda>x.
     case (case ws_manual S of
             Some run \<Rightarrow> run (wc_tenant rc) x
           | None \<Rightarrow> if \<not> reports_ready S then Some ((empty_outcome, Some (ErrText ''report generation is unavailable'')), x)
                     else on_reports (RunManual (ws_runner S) (wc_tenant rc)) x) of
       None \<Rightarrow> None
     | Some ((out, Some e), y) \<Rightarrow> Some (Inl e, y)
     | Some ((out, None), y) \<Rightarrow> Some (if ro_created out then Inr () else Inl (Sentinel ErrNoReportMatches), y))"

definition retry_report :: "web_service \<Rightarrow> request_context \<Rightarrow> string \<Rightarrow> unit web_op" where
  "retry_report S rc reportID = after_check (requireReportAdmin rc) (\<lambda>x.
     if \<not> reports_ready S then failed (ErrText ''report retry is unavailable'') x
     else (case on_reports (Retry (ws_runner S) (wc_tenant rc) reportID) x of
       None \<Rightarrow> None
     | Some ((out, Some e), y) \<Rightarrow> Some (Inl e, y)
     | Some ((out, None), y) \<Rightarrow> Some (if ro_created out then Inr () else Inl (Sentinel ErrNoReport), y)))"

definition remove_report :: "web_service \<Rightarrow> request_context \<Rightarrow> string \<Rightarrow> unit web_op" where
  "remove_report S rc reportID = after_check (requireReportAdmin rc)
     (if \<not> reports_ready S then failed (ErrText ''report deletion is unavailable'')
      else on_reports (\<lambda>x. Some (Report_Claim.DeleteReport (ws_db S) (ws_lock S) (ws_remove S) (wc_tenant rc) reportID x)))"

definition allowedReportReader :: "string \<Rightarrow> bool" where
  "allowedReportReader r \<longleftrightarrow> r = ''member'' \<or> r = ''tenant_admin'' \<or> r = ''platform_admin''"

text \<open>\<open>openReportAfterMetadata\<close>: the file is opened after the transaction has ended.\<close>

definition openReportAfterMetadata :: "web_service \<Rightarrow> string web_op \<Rightarrow> report_download web_op" where
  "openReportAfterMetadata S load_path = and_op load_path (\<lambda>p x.
     if p = [] then failed (ErrText ''report download path is required'') x
     else (case Open (ws_files S) p (wx_files x) of
       (Inl e, f) \<Rightarrow> Some (Inl (if errors_is e ErrNotExist then Sentinel ErrNoReport else ErrWrap ''open stored report'' e), x\<lparr>wx_files := f\<rparr>)
     | (Inr content, f) \<Rightarrow> Some (Inr \<lparr>rd_name = Base p, rd_modified = ws_mtime S p, rd_body = Some content\<rparr>, x\<lparr>wx_files := f\<rparr>)))"

definition OpenReport :: "web_service \<Rightarrow> request_context \<Rightarrow> string \<Rightarrow> report_download web_op" where
  "OpenReport S rc reportID =
     (if wc_tenant rc = [] \<or> \<not> allowedReportReader (wc_role rc) then failed (Sentinel ErrNoReport)
      else if \<not> reports_ready S then failed (ErrText ''report download is unavailable'')
      else openReportAfterMetadata S (tenant_work S (wc_tenant rc) (\<lambda>now. reportDownloadPath (ws_db S) (wc_tenant rc) reportID)))"

section \<open>Platform actions\<close>

definition SaveG2BAPIKey :: "web_service \<Rightarrow> request_context \<Rightarrow> string \<Rightarrow> unit web_op" where
  "SaveG2BAPIKey S rc key =
     (if \<not> is_platform_admin rc then failed (ErrText ''platform administrator identity is required'')
      else on_keys (SaveKey (ws_key_io S) (ws_keys S) key))"

definition queue_collection :: "web_service \<Rightarrow> request_context \<Rightarrow> unit web_op" where
  "queue_collection S rc =
     (case (if is_platform_admin rc then ws_queue S else None) of
        None \<Rightarrow> failed (ErrText ''platform collection action is unavailable'')
      | Some queue \<Rightarrow> and_op (on_keys (ReadKey (ws_key_io S) (ws_keys S))) (\<lambda>key x. Some (queue x)))"

definition SendTestMail :: "web_service \<Rightarrow> request_context \<Rightarrow> unit web_op" where
  "SendTestMail S rc =
     (case (if wc_role rc = ''platform_admin'' \<and> wc_email rc \<noteq> [] then ws_test_mail S else None) of
        None \<Rightarrow> failed (ErrText ''platform test-mail action is unavailable'')
      | Some send \<Rightarrow> (\<lambda>x. Some (send (wc_email rc) x)))"

section \<open>The service behind the web surface\<close>

fun Act :: "web_service \<Rightarrow> request_context \<Rightarrow> web_action \<Rightarrow> unit web_op" where
  "Act S rc (CmdSaveFilter c) = SaveFilter S rc c"
| "Act S rc (CmdToggleFilter c) = ToggleFilter S rc c"
| "Act S rc (CmdDeleteFilter i) = DeleteFilter S rc i"
| "Act S rc (CmdSaveSettings c) = SaveSettings S rc c"
| "Act S rc (CmdAssignAccount c) = AssignAccountTenant S rc c"
| "Act S rc (CmdCreateTenant c) = CreateTenant S rc c"
| "Act S rc (CmdRemoveMember u) = RemoveMember S rc u"
| "Act S rc (CmdDeleteAccount u) = DeleteMember S rc u"
| "Act S rc (CmdAddRecipient c) = AddRecipient S rc c"
| "Act S rc CmdRunCollection = queue_collection S rc"
| "Act S rc CmdSendTestMail = SendTestMail S rc"
| "Act S rc (CmdSaveReportSchedule c) = SaveReportSchedule S rc c"
| "Act S rc CmdGenerateReport = GenerateReport S rc"
| "Act S rc (CmdRetryReport i) = retry_report S rc i"
| "Act S rc (CmdDeleteReport i) = remove_report S rc i"

text \<open>What \<open>defaultUIFactory\<close> builds: no demo, no onboarding, the key saved by the service.\<close>

definition defaultUIFactory ::
  "web_service \<Rightarrow> (string \<Rightarrow> string \<Rightarrow> bool) \<Rightarrow> (string \<Rightarrow> bool) \<Rightarrow> int \<Rightarrow> web_world web_env" where
  "defaultUIFactory S fold_eq zone offset =
     \<lparr>we_demo = False, we_lower = ws_lower S, we_address = ws_address S, we_fold_eq = fold_eq, we_zone = zone,
      we_offset = offset, we_now = (\<lambda>x. ws_clock S (tick (wx_rows x))), we_map = MapRequest S, we_load = Load S,
      we_act = Act S, we_open = OpenReport S, we_onboarding = None, we_save_key = Some (SaveG2BAPIKey S)\<rparr>"

end
