(* ===== verification/Service_Laws.thy ===== *)
theory Service_Laws
  imports Web_Service Web_Laws File_Laws Session_Laws Delivery_Laws Collector_Laws
begin

text \<open>
  The web surface on the application behind it: what a request may change, who may change it, and what
  a page shows.
\<close>

section \<open>The application behind the web surface\<close>

text \<open>
  The application as an interface of the web surface: whatever property of its state every one of its
  calls keeps, a request keeps. \<open>io_keeps\<close> is the judgement, one rule per construct of the handlers.
\<close>

definition io_keeps :: "('s \<Rightarrow> bool) \<Rightarrow> ('s \<Rightarrow> ('a \<times> 's) option) \<Rightarrow> bool" where
  "io_keeps I k \<longleftrightarrow> (\<forall>s a s'. I s \<longrightarrow> k s = Some (a, s') \<longrightarrow> I s')"

named_theorems io_intros \<open>rules that decompose the io_keeps judgement\<close>

lemma io_keepsD: "io_keeps I k \<Longrightarrow> I s \<Longrightarrow> k s = Some (a, s') \<Longrightarrow> I s'"
  unfolding io_keeps_def by blast

lemma io_reply [io_intros]: "io_keeps I (\<lambda>s. reply (f s) s)" "io_keeps I (reply r)"
  by (simp_all add: io_keeps_def reply_def)

lemma io_none [io_intros]: "io_keeps I (\<lambda>s. None)"
  by (simp add: io_keeps_def)

lemma io_if [io_intros]:
  "io_keeps I f \<Longrightarrow> io_keeps I g \<Longrightarrow> io_keeps I (\<lambda>s. if c then f s else g s)"
  "io_keeps I f \<Longrightarrow> io_keeps I g \<Longrightarrow> io_keeps I (if c then f else g)"
  by (cases c; simp)+

lemma io_option [io_intros]:
  "io_keeps I f \<Longrightarrow> (\<And>a. o1 = Some a \<Longrightarrow> io_keeps I (g a)) \<Longrightarrow> io_keeps I (\<lambda>s. case o1 of None \<Rightarrow> f s | Some a \<Rightarrow> g a s)"
  "io_keeps I f \<Longrightarrow> (\<And>a. o1 = Some a \<Longrightarrow> io_keeps I (g a)) \<Longrightarrow> io_keeps I (case o1 of None \<Rightarrow> f | Some a \<Rightarrow> g a)"
  by (cases o1; simp)+

lemma io_sum [io_intros]:
  "(\<And>a. io_keeps I (f a)) \<Longrightarrow> (\<And>a. io_keeps I (g a)) \<Longrightarrow> io_keeps I (\<lambda>s. case r of Inl a \<Rightarrow> f a s | Inr a \<Rightarrow> g a s)"
  by (cases r) simp_all

lemma io_bind [io_intros]:
  assumes "io_keeps I m" "\<And>r. io_keeps I (k r)"
  shows "io_keeps I (\<lambda>s. m s \<bind> (\<lambda>(r, s1). k r s1))"
  unfolding io_keeps_def
proof (intro allI impI)
  fix s a s'
  assume "I s" and run: "m s \<bind> (\<lambda>(r, s1). k r s1) = Some (a, s')"
  from run obtain r s1 where m: "m s = Some (r, s1)" and k: "k r s1 = Some (a, s')"
    by (cases "m s") auto
  have "I s1" by (rule io_keepsD [OF assms(1) \<open>I s\<close> m])
  then show "I s'" by (rule io_keepsD [OF assms(2) _ k])
qed

lemma io_answer [io_intros]: "io_keeps I (\<lambda>s. Some (f s, s))"
  by (simp add: io_keeps_def)

lemma io_guards [io_intros]:
  "io_keeps I k \<Longrightarrow> io_keeps I (with_csrf rq rc k)"
  "io_keeps I k \<Longrightarrow> io_keeps I (with_right ok t k)"
  "io_keeps I k \<Longrightarrow> io_keeps I (post_route W rq k)"
  "io_keeps I k \<Longrightarrow> io_keeps I (read_route rq ms k)"
  unfolding with_csrf_def [abs_def] with_right_def [abs_def] post_route_def [abs_def] read_route_def [abs_def]
  by (intro io_intros, assumption)+

lemma io_routes [io_intros]:
  "io_keeps I k \<Longrightarrow> io_keeps I k' \<Longrightarrow> io_keeps I (page_route W rq k k')"
  "io_keeps I k \<Longrightarrow> io_keeps I (session_page W rq k)"
  "io_keeps I k \<Longrightarrow> io_keeps I (report_post W rq rc k)"
  unfolding page_route_def [abs_def] session_page_def [abs_def] report_post_def
  by (intro io_intros; assumption)+

lemma io_on_reply [io_intros]: "io_keeps I k \<Longrightarrow> io_keeps I (on_reply f k)"
  by (auto simp: io_keeps_def on_reply_def)

locale web_backend =
  fixes W :: "'s web_env" and I :: "'s \<Rightarrow> bool"
  assumes map_keeps: "io_keeps I (we_map W rq)"
    and load_keeps: "io_keeps I (we_load W rc path)"
    and act_keeps: "io_keeps I (we_act W rc c)"
    and open_keeps: "io_keeps I (we_open W rc i)"
    and save_keeps: "we_save_key W = Some save \<Longrightarrow> io_keeps I (save rc key)"
    and invitation_keeps: "we_onboarding W = Some ob \<Longrightarrow> io_keeps I (wo_invitation ob token)"
    and accept_keeps: "we_onboarding W = Some ob \<Longrightarrow> io_keeps I (wo_accept ob x)"
begin

lemma perform_keeps: "io_keeps I (perform W rc c k)"
  unfolding perform_def [abs_def] by (intro io_intros act_keeps)

lemma forms_keep:
  "io_keeps I (handleSaveFilter W rq rc)" "io_keeps I (handleFilterToggle W rq rc)" "io_keeps I (handleFilterDelete W rq rc)"
  "io_keeps I (handleSaveReportSchedule W rq rc)" "io_keeps I (handleGenerateReport W rq rc)" "io_keeps I (handleRetryReport W rq rc i)"
  "io_keeps I (handleDeleteReport W rq rc i)" "io_keeps I (handlePlatformAction W rq rc a)" "io_keeps I (handleCreateTenant W rq rc)"
  "io_keeps I (handleAssignAccount W rq rc)" "io_keeps I (handleRemoveMember W rq rc)" "io_keeps I (handleDeleteAccount W rq rc)"
  "io_keeps I (handleSaveSettings W rq rc)"
  unfolding handleSaveFilter_def handleFilterToggle_def handleFilterDelete_def handleSaveReportSchedule_def handleGenerateReport_def
    handleRetryReport_def handleDeleteReport_def handlePlatformAction_def handleCreateTenant_def handleAssignAccount_def
    handleRemoveMember_def handleDeleteAccount_def handleSaveSettings_def Let_def
  by (intro io_intros perform_keeps)+

lemma key_keeps: "io_keeps I (handleSaveAPIKey W rq rc)"
  unfolding handleSaveAPIKey_def by (intro io_intros save_keeps)

lemma download_keeps: "io_keeps I (serve_download W rq rc i)"
  unfolding serve_download_def handleReportDownload_def by (intro io_intros open_keeps)

lemma invitation_page_keeps: "io_keeps I (serve_invitation W rq rc)"
proof -
  have "io_keeps I (handleInspectInvitation W ob rq rc)" "io_keeps I (handleAcceptInvitation W ob rq rc)"
    if "we_onboarding W = Some ob" for ob
    unfolding handleInspectInvitation_def handleAcceptInvitation_def Let_def
    by (intro io_intros invitation_keeps accept_keeps that)+
  then show ?thesis
    unfolding serve_invitation_def invitation_page_def by (intro io_intros) (auto split: if_splits)
qed

lemma pages_keep:
  "io_keeps I (serve_login W rq rc ad)" "io_keeps I (serve_signup W rq rc ad)" "io_keeps I (serve_dashboard W rq rc ad)"
  "io_keeps I (serve_notices W rq rc ad)" "io_keeps I (serve_notice W rq rc ad)" "io_keeps I (serve_filters W rq rc ad)"
  "io_keeps I (serve_filter_toggle W rq rc)" "io_keeps I (serve_filter_delete W rq rc)" "io_keeps I (serve_reports W rq rc ad)"
  "io_keeps I (serve_settings W rq rc ad)" "io_keeps I (serve_members W rq rc)" "io_keeps I (serve_admin W rq rc ad)"
  unfolding serve_login_def serve_signup_def serve_dashboard_def serve_notices_def serve_notice_def serve_filters_def
    serve_filter_toggle_def serve_filter_delete_def serve_reports_def serve_settings_def serve_members_def serve_admin_def Let_def
  by (intro io_intros forms_keep)+

lemma route_keeps: "io_keeps I (web_route W rq rc ad)"
  unfolding web_route_def Let_def by (intro io_intros pages_keep forms_keep key_keeps download_keeps invitation_page_keeps)

lemma loaded_keeps: "io_keeps I (serve_loaded W rq rc)"
  unfolding serve_loaded_def by (intro io_intros load_keeps route_keeps)

lemma known_keeps: "io_keeps I (serve_known W rq rc)"
  unfolding serve_known_def renderPending_def by (intro io_intros loaded_keeps)

lemma ServeWeb_keeps: "io_keeps I (ServeWeb W rq)"
  unfolding ServeWeb_def by (intro io_intros map_keeps known_keeps)

end

section \<open>Reading changes nothing\<close>

definition same_world :: "web_world \<Rightarrow> web_world \<Rightarrow> bool" where
  "same_world x y \<longleftrightarrow> rows (wx_rows y) = rows (wx_rows x) \<and> rows (wx_files y) = rows (wx_files x) \<and> rows (wx_keys y) = rows (wx_keys x)"

lemma put_work_same: "put_work (work_of w) w = w"
  by (simp add: put_work_def work_of_def)

lemma keeps_on_work: "keeps ((=) (work_of w)) m \<Longrightarrow> keeps ((=) w) (on_work m)"
  unfolding keeps_def on_work_def
  by (auto split: prod.splits) (metis db.select_convs(1) put_work_same snd_conv)

lemma no_new_schedules: "with_new_schedules ids a a t = t"
proof -
  have "filter (\<lambda>(i, n). (i, n) \<notin> set (ac_schedules a) \<and> \<not> list_ex (\<lambda>s. s_tenant s = i \<and> s_name s = n) (schedules t)) (ac_schedules a) = []"
    by (auto simp: filter_empty_conv)
  then show ?thesis by (simp add: with_new_schedules_def)
qed

lemma keeps_on_accounts:
  assumes "keeps ((=) (wr_accounts w)) m"
  shows "keeps ((=) w) (on_accounts R m)"
  unfolding keeps_def
proof (intro allI impI)
  fix d :: "web_rows db"
  assume w: "w = rows d"
  obtain r d' where run: "m \<lparr>rows = wr_accounts (rows d), tick = tick d\<rparr> = (r, d')" by (cases "m \<lparr>rows = wr_accounts (rows d), tick = tick d\<rparr>")
  have "wr_accounts w = rows (snd (m \<lparr>rows = wr_accounts (rows d), tick = tick d\<rparr>))"
    using assms unfolding keeps_def by (simp add: w)
  then have "rows d' = wr_accounts (rows d)" by (simp add: run w)
  then show "w = rows (snd (on_accounts R m d))" by (simp add: on_accounts_def run w no_new_schedules)
qed

lemma keeps_map_error: "keeps I m \<Longrightarrow> keeps I (map_error h m)"
  unfolding keeps_def map_error_def by (fastforce split: prod.splits sum.splits)

lemma keeps_read_stmt: "(\<And>n t a t'. f n t = Inr (a, t') \<Longrightarrow> t' = t) \<Longrightarrow> keeps I (sql_stmt E f)"
  unfolding keeps_def sql_stmt_def by (auto split: option.splits sum.splits prod.splits)

lemma keeps_here [keeps_intros]: "keeps I (\<lambda>d. (f d, d))"
  by (simp add: keeps_def)

text \<open>A transaction that only reads leaves the rows, however often it waits.\<close>

lemma for_tenant_reads:
  assumes "\<And>now w. keeps ((=) w) (fn now)"
  shows "io_keeps (same_world x) (for_tenant S tenantID fn)"
  unfolding io_keeps_def for_tenant_def in_world_def
proof (clarsimp)
  fix y r d
  assume same: "same_world x y" and run: "withTenant (ws_db S) (ws_lock S) tenantID fn (wx_rows y) = Some (r, d)"
  have "rows d = rows (wx_rows y) \<and> (\<forall>a. r = Inr a \<longrightarrow> True)"
    by (rule withTenant_unchanged [OF run]) (use assms in \<open>auto simp: keeps_def\<close>, metis snd_conv)
  then show "same_world x (y\<lparr>wx_rows := d\<rparr>)" using same by (simp add: same_world_def)
qed

lemma at_once_reads:
  assumes "\<And>w. keeps ((=) w) m"
  shows "io_keeps (same_world x) (at_once m)"
proof -
  have "rows (snd (m d)) = rows d" for d using assms [of "rows d"] by (simp add: keeps_def)
  then have "m d = (r, d') \<Longrightarrow> rows d' = rows d" for d r d' by (metis snd_conv)
  then show ?thesis by (auto simp: io_keeps_def at_once_def in_world_def same_world_def split: prod.splits)
qed

lemma io_failed [io_intros]: "io_keeps I (failed e)"
  by (simp add: io_keeps_def failed_def)

lemma io_and_op [io_intros]: "io_keeps I m \<Longrightarrow> (\<And>a. io_keeps I (k a)) \<Longrightarrow> io_keeps I (and_op m k)"
  unfolding and_op_def by (intro io_intros)

lemma io_wrap_op [io_intros]: "io_keeps I m \<Longrightarrow> io_keeps I (wrap_op h m)"
  by (auto simp: io_keeps_def wrap_op_def)

lemma check_parents_reads: "check_parents E p d = Some x \<Longrightarrow> rows (snd x) = rows d"
proof (erule check_parents.raw_induct [rotated])
  fix loop E' p' and d0 :: "key_fs db" and x
  assume IH: "\<And>E p (d :: key_fs db) x. loop E p d = Some x \<Longrightarrow> rows (snd x) = rows d"
    and step: "(case key_lstat E' p' d0 of (r, d1) \<Rightarrow>
        if \<not> node_ok r then Some (file_error d1) else if Dir p' = p' then Some (Inr (), d1) else loop E' (Dir p') d1) = Some x"
  have "rows (snd (key_lstat E' p' d0)) = rows d0"
    by (auto simp: key_lstat_def sql_stmt_def split: option.splits)
  then show "rows (snd x) = rows d0"
    using step by (auto simp: file_error_def split: prod.splits if_splits dest!: IH)
qed

lemma read_file_reads: "rows (snd (read_file E p d)) = rows d"
proof -
  have "rows (snd (key_stat E q e)) = rows e" "rows (snd (key_read E q e)) = rows e" for q e
    by (auto simp: key_stat_def key_read_def sql_stmt_def split: option.splits key_node.splits)
  then show ?thesis
    by (auto simp: read_file_def file_error_def split: prod.splits sum.splits key_node.splits) (metis snd_conv)+
qed

lemma ReadKey_reads: "ReadKey E S d = Some (r, d') \<Longrightarrow> rows d' = rows d"
  by (auto simp: ReadKey_def checkPath_def file_error_def dest!: check_parents_reads split: if_splits option.splits prod.splits sum.splits)
    (metis read_file_reads snd_conv)+

lemma on_keys_reads: "io_keeps (same_world x) (on_keys (ReadKey E S))"
  by (auto simp: io_keeps_def on_keys_def same_world_def dest!: ReadKey_reads)

lemma MapRequest_reads: "io_keeps (same_world x) (MapRequest S rq)"
proof -
  have "io_keeps (same_world x) (for_tenant S t (\<lambda>now. load_identity S rc))" for t rc
    unfolding load_identity_def by (intro for_tenant_reads keeps_intros)
  then show ?thesis
    unfolding MapRequest_def Let_def by (intro io_intros)
qed

lemma keeps_list [keeps_intros]:
  "keeps I m \<Longrightarrow> (\<And>a as. keeps I (f a as)) \<Longrightarrow> keeps I (case xs of [] \<Rightarrow> m | a # as \<Rightarrow> f a as)"
  by (cases xs) simp_all

lemma loaders_read:
  "keeps ((=) t) (loadTenantSchedule E clk a data)" "keeps ((=) t) (loadTenantReports E a data)"
  "keeps ((=) t) (loadTenantFilters E a data)" "keeps ((=) t) (loadTenantNotices E T clk now fs data)"
  "keeps ((=) t) (loadTenantRecipients E a data)" "keeps ((=) t) (loadTenantFailureCount E a now)"
  "keeps ((=) t) (reportDownloadPath E a i)" "keeps ((=) t) (tenantCatalog E)"
  unfolding loadTenantSchedule_def loadTenantReports_def loadTenantFilters_def loadTenantNotices_def loadTenantRecipients_def
    loadTenantFailureCount_def reportDownloadPath_def tenantCatalog_def
  by (intro keeps_intros)+

lemma company_lists_read: "keeps ((=) t) (MemberAccounts R actor)" "keeps ((=) t) (TenantRegistry R actor)"
  unfolding MemberAccounts_def TenantRegistry_def
  by (intro keeps_intros keeps_map_error keeps_read_stmt; auto simp: and_then_def map_sum_def split: sum.splits)+

lemma loadTenantWebData_reads: "keeps ((=) w) (loadTenantWebData S a data needed now)"
  unfolding loadTenantWebData_def load_contact_def loadTenantMembers_def load_notices_def
  by (intro keeps_intros keeps_on_work loaders_read)

lemma load_company_reads: "keeps ((=) w) (load_company S a av now)"
  unfolding load_company_def Let_def by (intro keeps_intros keeps_on_work loaders_read)

lemma load_companies_reads: "io_keeps (same_world x) (load_companies S registry ts data)"
proof (induction ts arbitrary: data)
  case Nil
  then show ?case by (simp add: io_keeps_def)
next
  case (Cons c ts)
  have "io_keeps (same_world x) (\<lambda>y. load_companies S registry (c # ts) data y)"
    by (cases c) (simp, intro io_intros for_tenant_reads load_company_reads, auto intro: Cons split: prod.splits)
  then show ?case by simp
qed

lemma Load_reads: "io_keeps (same_world x) (Load S rc path)"
proof -
  have "io_keeps (same_world x) (load_key_state S p data)" for p data
    unfolding load_key_state_def by (intro io_intros on_keys_reads)
  moreover have "keeps ((=) w) (loadGlobalState S)" for w
    unfolding loadGlobalState_def Let_def by (intro keeps_intros)
  moreover have "io_keeps (same_world x) (loadPlatformData S actor data)" for actor data
    unfolding loadPlatformData_def loadAccountAssignments_def
    by (intro io_intros at_once_reads keeps_on_work keeps_on_accounts company_lists_read load_companies_reads loaders_read)
  ultimately show ?thesis
    unfolding Load_def by (intro io_intros at_once_reads for_tenant_reads loadTenantWebData_reads)
qed

lemma Open_reads: "Open E p f = (r, f') \<Longrightarrow> rows f' = rows f"
  using keeps_Open [of "(=) (rows f)" E p] unfolding keeps_def by (metis snd_conv)

definition opened_report :: "web_service \<Rightarrow> string \<Rightarrow> report_download web_op" where
  "opened_report S p x =
     (if p = [] then failed (ErrText ''report download path is required'') x
     else (case Open (ws_files S) p (wx_files x) of
       (Inl e, f) \<Rightarrow> Some (Inl (if errors_is e ErrNotExist then Sentinel ErrNoReport else ErrWrap ''open stored report'' e), x\<lparr>wx_files := f\<rparr>)
     | (Inr content, f) \<Rightarrow> Some (Inr \<lparr>rd_name = Base p, rd_modified = ws_mtime S p, rd_body = Some content\<rparr>, x\<lparr>wx_files := f\<rparr>)))"

lemma opened_report_reads: "io_keeps (same_world x) (opened_report S p)"
  unfolding io_keeps_def
proof (intro allI impI)
  fix y r y'
  assume same: "same_world x y" and run: "opened_report S p y = Some (r, y')"
  obtain o' f where o: "Open (ws_files S) p (wx_files y) = (o', f)" by (cases "Open (ws_files S) p (wx_files y)")
  from run have "y' = y \<or> y' = y\<lparr>wx_files := f\<rparr>"
    unfolding opened_report_def o by (cases o') (simp_all add: failed_def split: if_splits)
  then show "same_world x y'" using same Open_reads [OF o] by (auto simp: same_world_def)
qed

lemma openReportAfterMetadata_opened: "openReportAfterMetadata S m = and_op m (opened_report S)"
  by (simp only: openReportAfterMetadata_def opened_report_def [abs_def])

lemma OpenReport_reads: "io_keeps (same_world x) (OpenReport S rc i)"
proof -
  have "io_keeps (same_world x) (tenant_work S a (\<lambda>now. reportDownloadPath (ws_db S) a i))" for a
    unfolding tenant_work_def by (intro for_tenant_reads keeps_on_work loaders_read)
  then show ?thesis
    by (simp add: OpenReport_def openReportAfterMetadata_opened io_failed io_and_op opened_report_reads)
qed

text \<open>The surface whose commands never return.\<close>

definition read_surface :: "web_service \<Rightarrow> (string \<Rightarrow> string \<Rightarrow> bool) \<Rightarrow> (string \<Rightarrow> bool) \<Rightarrow> int \<Rightarrow> web_world web_env" where
  "read_surface S fold_eq zone offset =
     (defaultUIFactory S fold_eq zone offset)\<lparr>we_act := \<lambda>rc c x. None, we_save_key := Some (\<lambda>rc key x. None)\<rparr>"

interpretation reads: web_backend "read_surface S fold_eq zone offset" "same_world x"
  by unfold_locales
    (auto simp: read_surface_def defaultUIFactory_def MapRequest_reads Load_reads OpenReport_reads io_none)

lemma reading_is_not_posting: "reading rq \<Longrightarrow> \<not> posting rq"
  by (auto simp: reading_def posting_def allows_def)

lemma reading_never_commands:
  assumes "reading rq"
  shows "guarded (defaultUIFactory S fold_eq zone offset) rq x (\<lambda>rc c y. None) (\<lambda>rc key y. None) accept = read_surface S fold_eq zone offset"
proof -
  have "\<not> permitted W rq x rc c" "\<not> key_permitted W rq x rc key" for W rc c key
    using reading_is_not_posting [OF assms] by (simp_all add: permitted_def key_permitted_def posted_def)
  then show ?thesis by (simp add: guarded_def read_surface_def defaultUIFactory_def)
qed

text \<open>
  C20: Reading is safe: a GET or HEAD request to the web surface of the service changes no row of the
  database, no report file and not the key file, whatever page it asks for and whatever faults occur.
\<close>

theorem reading_changes_nothing:
  assumes "wq_method rq = ''GET'' \<or> wq_method rq = ''HEAD''"
    and "ServeWeb (defaultUIFactory S fold_eq zone offset) rq x = Some (resp, y)"
  shows "rows (wx_rows y) = rows (wx_rows x) \<and> rows (wx_files y) = rows (wx_files x) \<and> rows (wx_keys y) = rows (wx_keys x)"
proof -
  have "reading rq" using assms(1) by (auto simp: reading_def allows_def)
  from only_guarded [of "defaultUIFactory S fold_eq zone offset" rq x "\<lambda>rc c y. None" "\<lambda>rc key y. None" "\<lambda>c y. None"]
  have "ServeWeb (read_surface S fold_eq zone offset) rq x = Some (resp, y)"
    by (simp only: reading_never_commands [OF \<open>reading rq\<close>] assms(2))
  from io_keepsD [OF reads.ServeWeb_keeps _ this, of x] show ?thesis by (simp add: same_world_def)
qed

definition small_service :: web_service where
  "small_service =
     \<lparr>ws_set = True, ws_db = ae_db small_env, ws_lock = open_env,
      ws_text = plain_text,
      ws_accounts = small_env, ws_lower = (\<lambda>r. r), ws_address = Some, ws_clock = (\<lambda>n. 1000), ws_result = (\<lambda>j. (0, 0)),
      ws_files = ae_db small_env, ws_mtime = (\<lambda>p. 0), ws_store = False,
      ws_runner = \<lparr>rx_ready = False, rx_due = (\<lambda>t s. (Inr [], s)), rx_manual = (\<lambda>a t s. (Inr None, s)),
        rx_retry = (\<lambda>a b t s. (Inr None, s)), rx_reclaim = (\<lambda>a b s. (Inr None, s)), rx_publish = (\<lambda>w a b s. (Inl not_configured, s)),
        rx_finalize = (\<lambda>w a t s. (None, s)), rx_failure = (\<lambda>w e s. (None, s)), rx_ctx_err = (\<lambda>s. None), rx_now = (\<lambda>s. 1000),
        rx_render = \<lparr>re_url_parse = (\<lambda>u. None), re_offset = 0, re_zone = [], re_execute = (\<lambda>v. Inr [])\<rparr>\<rparr>,
      ws_manual = None, ws_remove = (\<lambda>p f. (Inr (), f)), ws_key_io = ae_db small_env,
      ws_keys = \<lparr>ks_path = ''/keys/g2b'', ks_fallback = []\<rparr>, ws_report_dir = [], ws_queue = None, ws_test_mail = None\<rparr>"

definition small_world :: web_world where
  "small_world =
     \<lparr>wx_rows = \<lparr>rows = \<lparr>wr_work = sample_schema, wr_accounts = small_accounts\<rparr>, tick = 0\<rparr>,
      wx_files = \<lparr>rows = Map.empty, tick = 0\<rparr>, wx_keys = \<lparr>rows = Map.empty, tick = 0\<rparr>\<rparr>"

definition small_page :: "string \<Rightarrow> string \<Rightarrow> web_request" where
  "small_page m p =
     \<lparr>wq_method = m, wq_path = p, wq_raw = p, wq_query = [], wq_form = [], wq_post = [], wq_error = None,
      wq_session = Some small_principal, wq_token = Some ''t''\<rparr>"

theorem reading_changes_nothing_witness:
  "\<exists>resp y. ServeWeb (defaultUIFactory small_service (=) (\<lambda>z. True) 0) (small_page ''GET'' ''/dashboard'') small_world = Some (resp, y) \<and>
     rows (wx_rows y) = rows (wx_rows small_world)"
proof -
  let ?W = "defaultUIFactory small_service (=) (\<lambda>z. True) 0"
  let ?rq = "small_page ''GET'' ''/dashboard''"
  let ?rc = "session_identity ''t'' small_principal"
  have path: "wq_path ?rq = ''/dashboard''" "wq_method ?rq = ''GET''" by (simp_all add: small_page_def)
  have map: "we_map ?W ?rq small_world = Some (Inr ?rc, small_world)"
    by (simp add: defaultUIFactory_def MapRequest_def small_page_def small_principal_def session_identity_def)
  have await: "awaitingTenant ?rc" "reading ?rq"
    by (simp_all add: awaitingTenant_def session_identity_def small_principal_def reading_def allows_def path Member_def)
  obtain resp y where run: "ServeWeb ?W ?rq small_world = Some (resp, y)"
    using map await by (simp add: ServeWeb_def serve_known_def path renderPending_def reply_def has_prefix_def)
  from reading_changes_nothing [OF disjI1 run] path run show ?thesis by blast
qed

end
