(* ===== verification/Filter_Laws.thy ===== *)
theory Filter_Laws
  imports Service_Laws Collector_Laws
begin

text \<open>
  What the commands of a company do to its tables: a saved filter has the matches of its rule, and the
  rows of other companies stay as they are.
\<close>

section \<open>Transactions of a company\<close>

lemma withTenant_ends:
  assumes "withTenant E L tenantID fn d = Some (r, d')"
  shows "case r of Inl e \<Rightarrow> rows d' = rows d | Inr a \<Rightarrow> (\<exists>d0. rows d0 = rows d \<and> tenantTransaction E fn d0 = (Inr a, d'))"
proof (cases "db_set E \<and> tenantID \<noteq> []")
  case True
  then have "retryCollectionBusy L (tenantTransaction E fn) d = Some (r, d')" using assms by (auto simp: withTenant_def)
  moreover have "\<And>d e. fst (tenantTransaction E fn d) = Inl e \<Longrightarrow> rows (snd (tenantTransaction E fn d)) = rows d"
    by (rule tenantTransaction_error)
  ultimately show ?thesis
    using retryCollectionBusy_result [of L "tenantTransaction E fn" d "(r, d')"] by (cases r) simp_all
next
  case False
  then show ?thesis using assms by (auto simp: withTenant_def)
qed

lemma withTenant_commits:
  assumes "withTenant E L tenantID fn d = Some (Inr a, d')"
  obtains now d0 d1 where "rows d0 = rows d" "fn now d0 = (Inr a, d1)" "rows d' = rows d1"
proof -
  obtain e0 where "rows e0 = rows d" "tenantTransaction E fn e0 = (Inr a, d')"
    using withTenant_ends [OF assms] by auto
  then show thesis using that tenantTransaction_Inr [of E fn e0 a d'] by metis
qed

lemma withTenant_rolls_back: "withTenant E L tenantID fn d = Some (Inl e, d') \<Longrightarrow> rows d' = rows d"
  by (drule withTenant_ends) simp

lemma tenant_work_commits:
  assumes "tenant_work S tenantID fn x = Some (Inr a, y)"
  obtains now d0 d1 where "rows d0 = work_of (rows (wx_rows x))" "fn now d0 = (Inr a, d1)"
    "rows (wx_rows y) = put_work (rows d1) (rows (wx_rows x))"
proof -
  obtain d where "withTenant (ws_db S) (ws_lock S) tenantID (\<lambda>now. on_work (fn now)) (wx_rows x) = Some (Inr a, d)" and y: "wx_rows y = d"
    using assms by (auto simp: tenant_work_def for_tenant_def in_world_def)
  from this(1) obtain now d0 d1 where d0: "rows d0 = rows (wx_rows x)" "on_work (fn now) d0 = (Inr a, d1)" "rows d = rows d1"
    by (rule withTenant_commits)
  then show thesis
    by (intro that [of "\<lparr>rows = work_of (rows d0), tick = tick d0\<rparr>" now "snd (fn now \<lparr>rows = work_of (rows d0), tick = tick d0\<rparr>)"])
      (auto simp: on_work_def y split: prod.splits)
qed

section \<open>Saved filters\<close>

lemma scan_active_ids: "scan_active T rs = Inr ns \<Longrightarrow> map an_id ns = map nr_id rs"
  by (induction rs arbitrary: ns) (auto split: option.splits sum.splits)

lemma active_ids_distinct:
  assumes "distinct (map nr_id (notices t))" "scan_active T (active_rows at_time t) = Inr ns"
  shows "distinct (map an_id ns)"
proof -
  have "distinct (map nr_id (filter (row_open at_time) (notices t)))" using assms(1) by (rule distinct_map_filter)
  then have "distinct (map nr_id (active_rows at_time t))"
    by (simp add: active_rows_def distinct_map)
  then show ?thesis by (simp add: scan_active_ids [OF assms(2)])
qed

lemma loadActiveNotices_Inr:
  "loadActiveNotices E T at_time d = (Inr ns, d1) \<Longrightarrow> scan_active T (active_rows at_time (rows d)) = Inr ns \<and> rows d1 = rows d"
  by (auto simp: loadActiveNotices_def sql_Inr_simps sql_lift_Inr)

lemma find_append: "find P (xs @ ys) = (case find P xs of None \<Rightarrow> find P ys | Some x \<Rightarrow> Some x)"
  by (induction xs) auto

lemma find_narrowed: "find P xs = Some x \<Longrightarrow> Q x \<Longrightarrow> find (\<lambda>y. P y \<and> Q y) xs = Some x"
  by (induction xs) (auto split: if_splits)

lemma find_updated:
  assumes "find (filter_named A name) fs = Some f" "\<And>g. f_tenant (u g) = f_tenant g \<and> f_name (u g) = f_name g" "f_enabled (u f)"
  shows "find (\<lambda>g. filter_named A name g \<and> f_enabled g) (update_where (filter_key A (f_id f)) u fs) = Some (u f)"
  using assms(1)
proof (induction fs)
  case (Cons g fs)
  have named: "filter_named A name (if filter_key A (f_id f) g then u g else g) = filter_named A name g"
    by (simp add: filter_named_def assms(2))
  show ?case
  proof (cases "filter_named A name g")
    case True
    then have "g = f" using Cons.prems by simp
    then show ?thesis using True assms(2,3) by (simp add: update_where_def filter_key_def filter_named_def)
  next
    case False
    then show ?thesis using Cons named by (auto simp: update_where_def split: if_splits)
  qed
qed simp

definition overwrite_filter :: "dbenv \<Rightarrow> time \<Rightarrow> string \<Rightarrow> rule \<Rightarrow> filter_row \<Rightarrow> (schema, unit) sql" where
  "overwrite_filter E now A r f =
     (if f_rule f = Some r \<and> f_enabled f then sql_return ()
           else sql_bind (sql_wrap ''update filter'' (update_one E (set_rule now r) A (f_id f))) (\<lambda>n.
             if n \<noteq> 1 then sql_fail (Sentinel ErrNoRows)
             else if f_rule f = Some r then sql_return ()
             else sql_wrap ''delete stale filter matches''
               (sql_stmt E (\<lambda>k t. Inr ((), delete_matches A (f_id f) t)))))"

lemma saveFilter_row:
  assumes "saveFilter E now A name r d = (Inr (), d1)"
  obtains f where "enabled_named A name (rows d1) = Some f" "f_rule f = Some r" "notices (rows d1) = notices (rows d)"
proof -
  from assms [unfolded saveFilter_def] obtain created e
    where ins0: "sql_wrap ''insert filter'' (sql_stmt E (insert_filter E now A name r)) d = (Inr created, e)"
    and rest: "(if created then sql_return ()
      else sql_bind (sql_wrap ''lock existing filter'' (sql_query E (\<lambda>t. find (filter_named A name) (filters t)))) (\<lambda>row.
       case row of
         None \<Rightarrow> sql_fail (ErrWrap ''lock existing filter'' (Sentinel ErrNoRows))
       | Some f \<Rightarrow>
           overwrite_filter E now A r f)) e = (Inr (), d1)"
    unfolding overwrite_filter_def by (rule sql_bindE)
  have ins: "insert_filter E now A name r (tick d) (rows d) = Inr (created, rows e)"
    using ins0 by (auto simp: sql_wrap_eq_Inr sql_stmt_Inr)
  show thesis
  proof (cases created)
    case True
    then have none: "\<not> list_ex (filter_named A name) (filters (rows d))" and
      row: "rows e = (rows d)\<lparr>filters := filters (rows d) @ [\<lparr>f_tenant = A, f_id = uuid_at E (tick d) 0, f_name = name, f_rule = Some r,
             f_enabled = True, f_created = now, f_updated = now\<rparr>]\<rparr>"
      using ins by (auto simp: insert_filter_def split: if_splits)
    from row have new: "filters (rows e) = filters (rows d) @ [\<lparr>f_tenant = A, f_id = uuid_at E (tick d) 0, f_name = name, f_rule = Some r,
             f_enabled = True, f_created = now, f_updated = now\<rparr>]" "notices (rows e) = notices (rows d)" by simp_all
    have "find (\<lambda>f. filter_named A name f \<and> f_enabled f) (filters (rows d)) = None"
      using none by (auto simp: find_None_iff list_ex_iff)
    then have "enabled_named A name (rows e) = Some \<lparr>f_tenant = A, f_id = uuid_at E (tick d) 0, f_name = name, f_rule = Some r,
             f_enabled = True, f_created = now, f_updated = now\<rparr>"
      by (simp add: enabled_named_def new find_append filter_named_def)
    then show thesis using rest True new(2) by (intro that) (auto simp: sql_return_def)
  next
    case False
    then have same: "rows e = rows d" using ins by (auto simp: insert_filter_def split: if_splits)
    from rest False obtain row e1 where got: "sql_wrap ''lock existing filter'' (sql_query E (\<lambda>t. find (filter_named A name) (filters t))) e = (Inr row, e1)"
      and more: "(case row of None \<Rightarrow> sql_fail (ErrWrap ''lock existing filter'' (Sentinel ErrNoRows))
         | Some f \<Rightarrow> overwrite_filter E now A r f) e1 = (Inr (), d1)"
      by (simp only: if_False) (erule sql_bindE)
    obtain f where row: "row = Some f" using more by (cases row) (simp_all add: sql_fail_def)
    have f: "find (filter_named A name) (filters (rows d)) = Some f" and e1: "rows e1 = rows d"
      using got row same by (auto simp: sql_wrap_eq_Inr sql_query_Inr)
    have upd: "overwrite_filter E now A r f e1 = (Inr (), d1)" using more row by simp
    show thesis
    proof (cases "f_rule f = Some r \<and> f_enabled f")
      case True
      have "find (\<lambda>g. filter_named A name g \<and> f_enabled g) (filters (rows d)) = Some f"
        using f True by (simp add: find_narrowed)
      then show thesis using upd True e1 by (intro that) (auto simp: overwrite_filter_def sql_return_def enabled_named_def)
    next
      case False
      have row: "filters (rows d1) = update_where (filter_key A (f_id f)) (set_rule now r) (filters (rows d))"
        and ns: "notices (rows d1) = notices (rows d)"
        using upd False e1 by (auto simp: overwrite_filter_def sql_Inr_simps update_one_def update_filter_def delete_matches_def sql_fail_def sql_return_def split: if_splits)
      have "enabled_named A name (rows d1) = Some (set_rule now r f)"
        unfolding enabled_named_def row by (rule find_updated [OF f]) (simp_all add: set_rule_def)
      then show thesis by (rule that) (simp_all add: set_rule_def ns)
    qed
  qed
qed

definition saved_filter :: "string \<Rightarrow> rule \<Rightarrow> filter_row \<Rightarrow> stored_filter" where
  "saved_filter A r f = \<lparr>sf_id = f_id f, sf_tenant = A, sf_rule = r, sf_revision = f_updated f\<rparr>"

lemma sql_bind_unitE:
  assumes "sql_bind m f d = (Inr b, d')"
  obtains d1 where "m d = (Inr (), d1)" "f () d1 = (Inr b, d')"
  using assms by (auto simp: sql_bind_eq_Inr)

lemma refresh_keeps_filters:
  assumes "refreshFilterMatches E T now at_time f ns d = (Inr (), d')"
  shows "filters (rows d') = filters (rows d)"
proof -
  have one: "refresh_one E T now at_time f a k i t = Inr t' \<Longrightarrow> filters t' = filters t" for a k i t t'
    by (auto simp: refresh_one_def Let_def upsert_match_def delete_match_def update_match_def split: if_splits)
  have "refresh_batch E T now at_time f as k i t = Inr ((), t') \<Longrightarrow> filters t' = filters t" for as k i t t'
    by (induction as arbitrary: i t) (auto dest: one split: sum.splits)
  then show ?thesis using assms by (auto simp: refreshFilterMatches_def sql_wrap_eq_Inr sql_stmt_Inr sql_return_def split: if_splits)
qed

lemma save_filter_tx_matches:
  assumes run: "save_filter_tx E L T clk A name r now d = (Inr (), d')"
    and ids: "distinct (map nr_id (notices (rows d)))"
  obtains f ns k where "enabled_named A name (rows d') = Some f" "f_rule f = Some r"
    "scan_active T (active_rows (clk k) (rows d)) = Inr ns"
    "{p \<in> filter_matches (saved_filter A r f) (rows d'). fst p \<in> an_id ` set ns} =
       {(an_id a, reasons_payload (Reasons m) (Details m)) | a m.
          a \<in> set ns \<and> m = MatchAt (te_nfc T) (te_fold T) (clk k) (an_notice a) r \<and> Matched m}"
proof -
  obtain d1 where lock: "sql_wrap ''wait for collection before saving filter'' (tryCollectionLock E L) d = (Inr (), d1)"
    and run1: "sql_bind (loadActiveNotices E T (clk (tick d1))) (\<lambda>ns.
       sql_bind (saveFilter E now A name r) (\<lambda>_.
       sql_bind (sql_wrap ''load saved filter revision'' (sql_query E (enabled_named A name))) (\<lambda>row.
       case row of
         None \<Rightarrow> sql_fail (ErrWrap ''load saved filter revision'' (Sentinel ErrNoRows))
       | Some f \<Rightarrow> refreshFilterMatches E T now (clk (tick d1)) (saved_filter A r f) ns))) d1 = (Inr (), d')"
    using run unfolding save_filter_tx_def saved_filter_def Let_def by (rule sql_bind_unitE)
  have same: "rows d1 = rows d"
    using lock by (auto simp: sql_wrap_eq_Inr tryCollectionLock_def sql_bind_eq_Inr sql_stmt_Inr sql_return_def sql_fail_def split: if_splits)
  let ?at = "clk (tick d1)"
  obtain ns d2 where load: "loadActiveNotices E T ?at d1 = (Inr ns, d2)"
    and run2: "sql_bind (saveFilter E now A name r) (\<lambda>_.
       sql_bind (sql_wrap ''load saved filter revision'' (sql_query E (enabled_named A name))) (\<lambda>row.
       case row of
         None \<Rightarrow> sql_fail (ErrWrap ''load saved filter revision'' (Sentinel ErrNoRows))
       | Some f \<Rightarrow> refreshFilterMatches E T now ?at (saved_filter A r f) ns)) d2 = (Inr (), d')"
    using run1 by (rule sql_bindE)
  from loadActiveNotices_Inr [OF load] same have scan: "scan_active T (active_rows ?at (rows d)) = Inr ns" and r2: "rows d2 = rows d"
    by simp_all
  obtain d3 where save: "saveFilter E now A name r d2 = (Inr (), d3)"
    and run3: "sql_bind (sql_wrap ''load saved filter revision'' (sql_query E (enabled_named A name))) (\<lambda>row.
       case row of
         None \<Rightarrow> sql_fail (ErrWrap ''load saved filter revision'' (Sentinel ErrNoRows))
       | Some f \<Rightarrow> refreshFilterMatches E T now ?at (saved_filter A r f) ns) d3 = (Inr (), d')"
    using run2 by (rule sql_bind_unitE)
  obtain f where f: "enabled_named A name (rows d3) = Some f" "f_rule f = Some r"
    using saveFilter_row [OF save] by blast
  define d4 where "d4 = \<lparr>rows = rows d3, tick = Suc (tick d3)\<rparr>"
  have r4: "rows d4 = rows d3" by (simp add: d4_def)
  have fresh: "refreshFilterMatches E T now ?at (saved_filter A r f) ns d4 = (Inr (), d')"
    using run3 f(1) by (auto simp: sql_bind_eq_Inr sql_wrap_eq_Inr sql_query_Inr d4_def)
  have here: "f \<in> set (filters (rows d3))" "f_tenant f = A" "f_enabled f"
    using f(1) by (auto simp: enabled_named_def find_Some_iff filter_named_def)
  then have cur: "current_filter (saved_filter A r f) (rows d4)"
    unfolding r4 by (auto simp: current_filter_def eligible_filter_def saved_filter_def list_ex_iff)
  have "distinct (map an_id ns)" using ids scan by (rule active_ids_distinct)
  from refresh_exact [OF fresh cur this]
  have "filter_matches (saved_filter A r f) (rows d') =
      {p \<in> filter_matches (saved_filter A r f) (rows d4). fst p \<notin> an_id ` set ns} \<union>
      {(an_id a, reasons_payload (Reasons m) (Details m)) | a m.
        a \<in> set ns \<and> m = MatchAt (te_nfc T) (te_fold T) ?at (an_notice a) r \<and> Matched m}"
    by (simp add: saved_filter_def)
  then have exact: "{p \<in> filter_matches (saved_filter A r f) (rows d'). fst p \<in> an_id ` set ns} =
       {(an_id a, reasons_payload (Reasons m) (Details m)) | a m.
          a \<in> set ns \<and> m = MatchAt (te_nfc T) (te_fold T) ?at (an_notice a) r \<and> Matched m}"
    by auto
  have "filters (rows d') = filters (rows d4)" using refresh_keeps_filters [OF fresh] .
  then have "enabled_named A name (rows d') = Some f" using f(1) by (simp add: enabled_named_def r4)
  from that [OF this f(2) scan exact] show thesis .
qed

lemma filter_views [simp]:
  "notices (work_of w) = notices (wr_work w)" "filters (work_of w) = filters (wr_work w)"
  "filter_matches f (wr_work (put_work t w)) = filter_matches f t"
  "enabled_named A name (wr_work (put_work t w)) = enabled_named A name t"
  "active_rows at_time (work_of w) = active_rows at_time (wr_work w)"
  by (simp_all add: work_of_def put_work_def filter_matches_def enabled_named_def active_rows_def)

text \<open>
  C6: A saved filter has the matches of its rule. When the service saves a filter, the filter of that
  name is enabled with the rule of the form, and of the notices that are open it has a match for exactly
  those the rule matches, with the reasons the matcher gives.
\<close>

theorem saved_filter_has_its_matches:
  assumes "SaveFilter S rc c x = Some (Inr (), y)"
    and "distinct (map nr_id (notices (wr_work (rows (wx_rows x)))))"
    and "r = filterRuleFromWebCommand (te_nfc (ws_text S)) c"
  shows "\<exists>f ns k. enabled_named (wc_tenant rc) (fc_name c) (wr_work (rows (wx_rows y))) = Some f \<and> f_rule f = Some r \<and>
    scan_active (ws_text S) (active_rows (ws_clock S k) (wr_work (rows (wx_rows x)))) = Inr ns \<and>
    {p \<in> filter_matches (saved_filter (wc_tenant rc) r f) (wr_work (rows (wx_rows y))). fst p \<in> an_id ` set ns} =
      {(an_id a, reasons_payload (Reasons m) (Details m)) | a m.
         a \<in> set ns \<and> m = MatchAt (te_nfc (ws_text S)) (te_fold (ws_text S)) (ws_clock S k) (an_notice a) r \<and> Matched m}"
proof -
  have "tenant_work S (wc_tenant rc) (save_filter_tx (ws_db S) (ws_lock S) (ws_text S) (ws_clock S) (wc_tenant rc) (fc_name c) r) x = Some (Inr (), y)"
    using assms(1) by (auto simp: SaveFilter_def after_check_def failed_def assms(3) split: option.splits)
  then obtain now d0 d1 where d0: "rows d0 = work_of (rows (wx_rows x))"
    and tx: "save_filter_tx (ws_db S) (ws_lock S) (ws_text S) (ws_clock S) (wc_tenant rc) (fc_name c) r now d0 = (Inr (), d1)"
    and y: "rows (wx_rows y) = put_work (rows d1) (rows (wx_rows x))"
    by (rule tenant_work_commits)
  have "distinct (map nr_id (notices (rows d0)))" using assms(2) by (simp add: d0)
  from save_filter_tx_matches [OF tx this] obtain f ns k where f: "enabled_named (wc_tenant rc) (fc_name c) (rows d1) = Some f" "f_rule f = Some r"
    "scan_active (ws_text S) (active_rows (ws_clock S k) (rows d0)) = Inr ns"
    "{p \<in> filter_matches (saved_filter (wc_tenant rc) r f) (rows d1). fst p \<in> an_id ` set ns} =
       {(an_id a, reasons_payload (Reasons m) (Details m)) | a m.
          a \<in> set ns \<and> m = MatchAt (te_nfc (ws_text S)) (te_fold (ws_text S)) (ws_clock S k) (an_notice a) r \<and> Matched m}" .
  show ?thesis
    by (intro exI [of _ f] exI [of _ ns] exI [of _ k] conjI) (use f in \<open>simp_all add: y d0\<close>)
qed

definition all_notices :: filter_command where
  "all_notices = \<lparr>fc_name = ''all'', fc_include = [], fc_mode = ''any'', fc_exclude = [], fc_category = [], fc_region = [],
     fc_amount = None, fc_days = None, fc_agency = []\<rparr>"

lemma all_notices_rule: "filterRuleFromWebCommand id all_notices = open_rule"
  by (simp add: filterRuleFromWebCommand_def all_notices_def open_rule_def Let_def) code_simp

definition filter_world :: web_world where
  "filter_world = small_world\<lparr>wx_rows := \<lparr>rows = \<lparr>wr_work = rows filter_db, wr_accounts = small_accounts\<rparr>, tick = 0\<rparr>\<rparr>"

definition t1_admin :: request_context where
  "t1_admin = \<lparr>wc_user = ''u'', wc_name = ''u'', wc_email = ''u@x'', wc_tenant_name = [], wc_tenant = ''t1'', wc_role = ''tenant_admin'', wc_csrf = ''t''\<rparr>"

lemma filter_world_scan:
  "scan_active plain_text (active_rows k (work_of \<lparr>wr_work = rows filter_db, wr_accounts = a\<rparr>)) =
     Inr [\<lparr>an_id = ''n1'', an_notice = sample_notice, an_complete = True\<rparr>]"
  using sample_valid
  by (simp add: active_rows_def filter_db_def budget_db_def work_of_def row_open_def plain_text_def)

lemma filter_world_load:
  assumes "rows d = work_of (rows (wx_rows filter_world))"
  shows "loadActiveNotices (ae_db small_env) plain_text 1000 d =
    (Inr [\<lparr>an_id = ''n1'', an_notice = sample_notice, an_complete = True\<rparr>], \<lparr>rows = rows d, tick = Suc (tick d)\<rparr>)"
  using filter_world_scan [of 1000 small_accounts]
  by (simp add: assms loadActiveNotices_def sql_bind_def sql_wrap_def sql_query_def sql_stmt_def sql_lift_def sql_return_def
      small_env_def filter_world_def)

lemma filter_world_tx:
  assumes "rows d = work_of (rows (wx_rows filter_world))"
  obtains d' where "save_filter_tx (ae_db small_env) open_env plain_text (\<lambda>k. 1000) ''t1'' ''all'' open_rule 1000 d = (Inr (), d')"
proof -
  let ?E = "ae_db small_env"
  let ?f = "\<lparr>f_tenant = ''t1'', f_id = ''f1'', f_name = ''all'', f_rule = Some open_rule, f_enabled = True, f_created = 1, f_updated = 5\<rparr>"
  have sel: "fault ?E k = None" "lock_free open_env k = True" for k by (simp_all add: small_env_def open_env_def)
  have fs: "filters (work_of (rows (wx_rows filter_world))) = [?f]"
    by (simp add: filter_world_def filter_db_def)
  have ns: "list_ex (\<lambda>r. nr_id r = ''n1'') (notices (work_of (rows (wx_rows filter_world))))"
    by (simp add: filter_world_def filter_db_def)
  have save: "saveFilter ?E 1000 ''t1'' ''all'' open_rule e = (Inr (), \<lparr>rows = rows e, tick = Suc (Suc (tick e))\<rparr>)"
    if "filters (rows e) = [?f]" for e
    by (simp add: saveFilter_def sql_bind_def sql_wrap_def sql_query_def sql_stmt_def sql_return_def sel insert_filter_def
        filter_named_def that unnamed_def)
  have m: "MatchAt id id 1000 sample_notice open_rule = \<lparr>Matched = True, Reasons = [], Details = []\<rparr>"
    by (simp add: MatchAt_def stage_defs open_rule_def hasTerms_def no_result_def)
  have plain: "te_nfc plain_text = id" "te_fold plain_text = id" by (simp_all add: plain_text_def)
  have "\<exists>d'. refreshFilterMatches ?E plain_text 1000 1000 (saved_filter ''t1'' open_rule ?f) [\<lparr>an_id = ''n1'', an_notice = sample_notice, an_complete = True\<rparr>] e = (Inr (), d')"
    if "filters (rows e) = [?f]" "list_ex (\<lambda>r. nr_id r = ''n1'') (notices (rows e))" for e
    using that by (auto simp: Let_def refreshFilterMatches_def sql_wrap_def sql_stmt_def refresh_one_def match_of_def m plain saved_filter_def
        upsert_match_def eligible_filter_def sel)
  then obtain d' where fresh: "refreshFilterMatches ?E plain_text 1000 1000 (saved_filter ''t1'' open_rule ?f)
      [\<lparr>an_id = ''n1'', an_notice = sample_notice, an_complete = True\<rparr>] \<lparr>rows = rows d, tick = tick d + 5\<rparr> = (Inr (), d')"
    using assms fs ns by (metis db.select_convs(1))
  have saved: "saveFilter ?E 1000 ''t1'' ''all'' open_rule \<lparr>rows = work_of (rows (wx_rows filter_world)), tick = k\<rparr> =
      (Inr (), \<lparr>rows = work_of (rows (wx_rows filter_world)), tick = Suc (Suc k)\<rparr>)" for k
    using save [of "\<lparr>rows = work_of (rows (wx_rows filter_world)), tick = k\<rparr>"] fs by simp
  have fs': "filters (wr_work (rows (wx_rows filter_world))) = [?f]" using fs by simp
  have "save_filter_tx ?E open_env plain_text (\<lambda>k. 1000) ''t1'' ''all'' open_rule 1000 d = (Inr (), d')"
    using fresh [unfolded saved_filter_def]
    by (simp add: save_filter_tx_def sql_bind_def tryCollectionLock_def sql_wrap_def sql_stmt_def sql_query_def sql_return_def sel assms
        filter_world_load saved fs fs' enabled_named_def filter_named_def Let_def eval_nat_numeral)
  then show thesis by (rule that)
qed

lemma filter_world_saves: "\<exists>y. SaveFilter small_service t1_admin all_notices filter_world = Some (Inr (), y)"
proof -
  let ?E = "ae_db small_env"
  let ?x = "wx_rows filter_world"
  have sel: "fault ?E k = None" "clock_at ?E k = 1000" "db_set ?E" "ctx_err open_env k = None" for k
    by (simp_all add: small_env_def open_env_def)
  obtain d' where "save_filter_tx ?E open_env plain_text (\<lambda>k. 1000) ''t1'' ''all'' open_rule 1000 \<lparr>rows = work_of (rows ?x), tick = 2\<rparr> = (Inr (), d')"
    using filter_world_tx [of "\<lparr>rows = work_of (rows ?x), tick = 2\<rparr>"] by auto
  moreover have "tick ?x = 0" by (simp add: filter_world_def)
  ultimately have "\<exists>e. tenantTransaction ?E (\<lambda>now. on_work (save_filter_tx ?E open_env plain_text (\<lambda>k. 1000) ''t1'' ''all'' open_rule now)) ?x = (Inr (), e)"
    by (simp add: tenantTransaction_def sql_rollback_def sql_bind_def sql_wrap_def sql_call_def sql_query_def sql_stmt_def sql_return_def
        on_work_def sel eval_nat_numeral)
  then obtain e where "tenantTransaction ?E (\<lambda>now. on_work (save_filter_tx ?E open_env plain_text (\<lambda>k. 1000) ''t1'' ''all'' open_rule now)) ?x = (Inr (), e)" ..
  then have "withTenant ?E open_env ''t1'' (\<lambda>now. on_work (save_filter_tx ?E open_env plain_text (\<lambda>k. 1000) ''t1'' ''all'' open_rule now)) ?x = Some (Inr (), e)"
    by (simp add: withTenant_def sel retryCollectionBusy.simps is_busy_def)
  moreover have "ws_db small_service = ?E" "ws_lock small_service = open_env" "ws_text small_service = plain_text"
    "ws_clock small_service = (\<lambda>k. 1000)" "te_nfc plain_text = id"
    by (simp_all add: small_service_def plain_text_def)
  moreover have "wc_tenant t1_admin = ''t1''" "wc_role t1_admin = ''tenant_admin''" "fc_name all_notices = ''all''"
    by (simp_all add: t1_admin_def all_notices_def)
  ultimately show ?thesis
    by (simp add: SaveFilter_def requireTenantAdmin_def after_check_def tenant_work_def for_tenant_def in_world_def all_notices_rule)
qed

theorem saved_filter_has_its_matches_witness:
  "\<exists>y f. SaveFilter small_service t1_admin all_notices filter_world = Some (Inr (), y) \<and>
     (''n1'', reasons_payload [] []) \<in> filter_matches (saved_filter ''t1'' open_rule f) (wr_work (rows (wx_rows y)))"
proof -
  let ?m = "MatchAt id id 1000 sample_notice open_rule"
  have m: "?m = \<lparr>Matched = True, Reasons = [], Details = []\<rparr>"
    by (simp add: MatchAt_def stage_defs open_rule_def hasTerms_def no_result_def)
  have sel: "ws_text small_service = plain_text" "ws_clock small_service k = 1000" "wc_tenant t1_admin = ''t1''"
    "te_nfc plain_text = id" "te_fold plain_text = id" for k
    by (simp_all add: small_service_def t1_admin_def plain_text_def)
  obtain y where run: "SaveFilter small_service t1_admin all_notices filter_world = Some (Inr (), y)"
    using filter_world_saves by blast
  have "distinct (map nr_id (notices (wr_work (rows (wx_rows filter_world)))))"
    by (simp add: filter_world_def filter_db_def)
  from saved_filter_has_its_matches [OF run this refl] obtain f ns k where
    f: "scan_active plain_text (active_rows 1000 (wr_work (rows (wx_rows filter_world)))) = Inr ns"
    "{p \<in> filter_matches (saved_filter ''t1'' open_rule f) (wr_work (rows (wx_rows y))). fst p \<in> an_id ` set ns} =
      {(an_id a, reasons_payload (Reasons m) (Details m)) | a m.
         a \<in> set ns \<and> m = MatchAt id id 1000 (an_notice a) open_rule \<and> Matched m}"
    by (auto simp: sel all_notices_rule)
  have "ns = [\<lparr>an_id = ''n1'', an_notice = sample_notice, an_complete = True\<rparr>]"
    using f(1) filter_world_scan [of 1000 small_accounts] by (simp add: filter_world_def)
  then have "(''n1'', reasons_payload [] []) \<in> filter_matches (saved_filter ''t1'' open_rule f) (wr_work (rows (wx_rows y)))"
    using f(2) m by auto
  then show ?thesis using run by blast
qed

end
