(* ===== verification/Isolation_Laws.thy ===== *)
theory Isolation_Laws
  imports Filter_Laws
begin

text \<open>
  Who may command what, and whose rows a command reaches: the service checks the role again behind the
  web surface, and the commands on the tables of one company leave every other company alone.
\<close>

section \<open>Roles\<close>

text \<open>The roles of the service, read off its checks: what each command asks of the identity.\<close>

fun may_command :: "request_context \<Rightarrow> web_action \<Rightarrow> bool" where
  "may_command rc (CmdSaveFilter c) = (wc_tenant rc \<noteq> [] \<and> wc_role rc \<in> {TenantAdmin, PlatformAdmin})"
| "may_command rc (CmdToggleFilter c) = (wc_tenant rc \<noteq> [] \<and> wc_role rc \<in> {TenantAdmin, PlatformAdmin})"
| "may_command rc (CmdSaveSettings c) = (wc_tenant rc \<noteq> [] \<and> wc_role rc \<in> {TenantAdmin, PlatformAdmin})"
| "may_command rc (CmdAddRecipient c) = (wc_tenant rc \<noteq> [] \<and> wc_role rc \<in> {TenantAdmin, PlatformAdmin})"
| "may_command rc (CmdDeleteFilter i) = (wc_tenant rc \<noteq> [] \<and> wc_role rc = TenantAdmin)"
| "may_command rc (CmdSaveReportSchedule c) = (wc_tenant rc \<noteq> [] \<and> wc_role rc = TenantAdmin)"
| "may_command rc CmdGenerateReport = (wc_tenant rc \<noteq> [] \<and> wc_role rc = TenantAdmin)"
| "may_command rc (CmdRetryReport i) = (wc_tenant rc \<noteq> [] \<and> wc_role rc = TenantAdmin)"
| "may_command rc (CmdDeleteReport i) = (wc_tenant rc \<noteq> [] \<and> wc_role rc = TenantAdmin)"
| "may_command rc (CmdRemoveMember u) = (wc_tenant rc \<noteq> [] \<and> wc_user rc \<noteq> [] \<and> wc_role rc = TenantAdmin)"
| "may_command rc (CmdAssignAccount c) = (wc_user rc \<noteq> [] \<and> wc_role rc = PlatformAdmin)"
| "may_command rc (CmdCreateTenant c) = (wc_user rc \<noteq> [] \<and> wc_role rc = PlatformAdmin)"
| "may_command rc (CmdDeleteAccount u) = (wc_user rc \<noteq> [] \<and> wc_role rc = PlatformAdmin)"
| "may_command rc CmdRunCollection = (wc_user rc \<noteq> [] \<and> wc_role rc = PlatformAdmin)"
| "may_command rc CmdSendTestMail = (wc_email rc \<noteq> [] \<and> wc_role rc = PlatformAdmin)"

lemmas role_checks = requireTenantAdmin_def requireReportAdmin_def is_platform_admin_def after_check_def failed_def TenantAdmin_def PlatformAdmin_def

lemma refused_without_role:
  assumes "\<not> may_command rc c"
  shows "\<exists>e. Act S rc c x = Some (Inl e, x)"
  using assms
  by (cases c)
    (auto simp: role_checks SaveFilter_def ToggleFilter_def DeleteFilter_def SaveSettings_def AddRecipient_def SaveReportSchedule_def
      GenerateReport_def retry_report_def remove_report_def RemoveMember_def AssignAccountTenant_def CreateTenant_def DeleteMember_def
      queue_collection_def SendTestMail_def)

text \<open>
  C21: The service checks the role of every command itself: for an identity that may not give a command it
  returns an error at once and touches nothing, whatever the web surface in front of it has checked.
\<close>

theorem service_checks_roles:
  assumes "\<not> may_command rc c"
  shows "\<exists>e. Act S rc c x = Some (Inl e, x)"
  using assms by (rule refused_without_role)

theorem service_checks_roles_witness:
  "\<exists>e. Act small_service (t1_admin\<lparr>wc_role := Member\<rparr>) (CmdDeleteReport ''r1'') small_world = Some (Inl e, small_world)"
  by (rule service_checks_roles) (simp add: t1_admin_def Member_def TenantAdmin_def)

section \<open>Rows of other companies\<close>

definition other_rows :: "string \<Rightarrow> schema \<Rightarrow> filter_row list \<times> match_row list \<times> schedule_row list \<times> recipient_row list \<times> schema" where
  "other_rows A t =
     (filter (\<lambda>f. f_tenant f \<noteq> A) (filters t), filter (\<lambda>m. m_tenant m \<noteq> A) (matches t),
      filter (\<lambda>s. s_tenant s \<noteq> A) (schedules t), filter (\<lambda>r. rc_tenant r \<noteq> A) (recipients t),
      t\<lparr>tenants := [], filters := [], matches := [], schedules := [], recipients := []\<rparr>)"

lemma filter_update_other: "(\<And>r. P r \<Longrightarrow> \<not> Q r \<and> \<not> Q (g r)) \<Longrightarrow> filter Q (update_where P g rs) = filter Q rs"
  by (induction rs) (auto simp: update_where_def)

lemma filter_filter_other: "(\<And>r. Q r \<Longrightarrow> P r) \<Longrightarrow> filter Q (filter P rs) = filter Q rs"
  by (induction rs) auto

lemma stmt_other:
  assumes "\<And>n t a t'. f n t = Inr (a, t') \<Longrightarrow> other_rows A t' = other_rows A t"
  shows "keeps (\<lambda>t. other_rows A t = v) (sql_stmt E f)"
  by (rule keeps_stmt) (use assms in auto)

lemma insert_filter_other: "insert_filter E now A name r n t = Inr (b, t') \<Longrightarrow> other_rows A t' = other_rows A t"
  by (auto simp: insert_filter_def other_rows_def split: if_splits)

lemma update_filter_other:
  "(\<And>f. f_tenant (g f) = f_tenant f) \<Longrightarrow> other_rows A (update_filter g A i t) = other_rows A t"
  unfolding update_filter_def other_rows_def by (simp, intro filter_update_other) (simp add: filter_key_def)

lemma delete_matches_other: "other_rows A (delete_matches A i t) = other_rows A t"
  unfolding delete_matches_def other_rows_def by (simp del: filter_filter, intro filter_filter_other) (simp add: match_key_def)

lemma delete_filter_other: "other_rows A (t\<lparr>filters := filter (\<lambda>f. \<not> filter_key A i f) (filters t)\<rparr>) = other_rows A t"
  unfolding other_rows_def by (simp del: filter_filter, intro filter_filter_other) (simp add: filter_key_def)

lemma keeps_lock: "keeps I (tryCollectionLock E L)"
  unfolding tryCollectionLock_def by (intro keeps_intros keeps_stmt) auto

lemma keeps_load_active: "keeps I (loadActiveNotices E T at_time)"
  unfolding loadActiveNotices_def by (intro keeps_intros)

lemma refresh_other:
  assumes "sf_tenant f = A"
  shows "keeps (\<lambda>t. other_rows A t = v) (refreshFilterMatches E T created now f ns)"
proof -
  have one: "refresh_one E T created now f a k i t = Inr t' \<Longrightarrow> other_rows A t' = other_rows A t" for a k i t t'
    using assms
    by (auto simp: refresh_one_def Let_def upsert_match_def delete_match_def update_match_def match_of_def other_rows_def
        same_match_def new_match_def simp del: filter_filter intro!: filter_update_other filter_filter_other split: if_splits)
  have "refresh_batch E T created now f as k i t = Inr ((), t') \<Longrightarrow> other_rows A t' = other_rows A t" for as k i t t'
    by (induction as arbitrary: i t) (auto dest: one split: sum.splits)
  then show ?thesis
    unfolding refreshFilterMatches_def by (intro keeps_intros stmt_other) auto
qed

lemma saveFilter_other: "keeps (\<lambda>t. other_rows A t = v) (saveFilter E now A name r)"
  unfolding saveFilter_def update_one_def
  by (intro keeps_intros stmt_other) (auto simp: insert_filter_other update_filter_other delete_matches_other set_rule_def)

lemma toggleFilter_other: "keeps (\<lambda>t. other_rows A t = v) (toggleFilter E now A c)"
  unfolding toggleFilter_def update_one_def
  by (intro keeps_intros stmt_other) (auto simp: update_filter_other delete_matches_other)

lemma deleteFilter_other: "keeps (\<lambda>t. other_rows A t = v) (deleteFilter E A i)"
  unfolding deleteFilter_def
  by (intro keeps_intros stmt_other) (auto simp: delete_filter_other delete_matches_other)

lemma schedule_other: "keeps (\<lambda>t. other_rows A t = v) (upsert_schedule E A h m z ds)"
  unfolding upsert_schedule_def
  by (intro stmt_other) (auto simp: other_rows_def is_default_schedule_def intro!: filter_update_other split: if_splits)

lemma recipient_other: "keeps (\<lambda>t. other_rows A t = v) (upsert_recipient E lower A c)"
  unfolding upsert_recipient_def
  by (intro stmt_other) (auto simp: other_rows_def same_address_def intro!: filter_update_other split: if_splits)

lemma keeps_let_state: "(\<And>x. keeps I (f x)) \<Longrightarrow> keeps I (\<lambda>d. let x = g d in f x d)"
  by (simp add: keeps_def)

lemma save_filter_tx_other: "keeps (\<lambda>t. other_rows A t = v) (save_filter_tx E L T clk A name r now)"
  unfolding save_filter_tx_def
  by (intro keeps_intros keeps_let_state keeps_lock keeps_load_active saveFilter_other refresh_other) simp

lemma toggle_filter_tx_other: "keeps (\<lambda>t. other_rows A t = v) (toggle_filter_tx E L T clk A c now)"
  unfolding toggle_filter_tx_def enable_filter_tx_def
  by (intro keeps_intros keeps_let_state keeps_lock keeps_load_active toggleFilter_other refresh_other) simp

text \<open>The commands on the tables of a company.\<close>

fun table_command :: "web_action \<Rightarrow> bool" where
  "table_command (CmdSaveFilter c) = True"
| "table_command (CmdToggleFilter c) = True"
| "table_command (CmdDeleteFilter i) = True"
| "table_command (CmdSaveSettings c) = True"
| "table_command (CmdAddRecipient c) = True"
| "table_command (CmdSaveReportSchedule c) = True"
| "table_command c = False"

definition other_companies :: "string \<Rightarrow> accounts \<Rightarrow> company_row list \<times> accounts" where
  "other_companies A a = (filter (\<lambda>k. co_id k \<noteq> A) (ac_companies a), a\<lparr>ac_companies := []\<rparr>)"

definition same_others :: "string \<Rightarrow> web_world \<Rightarrow> web_world \<Rightarrow> bool" where
  "same_others A x y \<longleftrightarrow>
     other_rows A (wr_work (rows (wx_rows y))) = other_rows A (wr_work (rows (wx_rows x))) \<and>
     other_companies A (wr_accounts (rows (wx_rows y))) = other_companies A (wr_accounts (rows (wx_rows x))) \<and>
     wx_files y = wx_files x \<and> wx_keys y = wx_keys x"

lemma for_tenant_others:
  assumes "\<And>now v u. keeps (\<lambda>w. other_rows A (wr_work w) = v \<and> other_companies A (wr_accounts w) = u) (fn now)"
    and run: "for_tenant S A fn x = Some (r, y)"
  shows "same_others A x y"
proof -
  obtain d where d: "withTenant (ws_db S) (ws_lock S) A fn (wx_rows x) = Some (r, d)" "y = x\<lparr>wx_rows := d\<rparr>"
    using run by (auto simp: for_tenant_def in_world_def)
  show ?thesis
  proof (cases r)
    case (Inl e)
    then show ?thesis using withTenant_rolls_back d by (fastforce simp: same_others_def)
  next
    case (Inr a)
    then obtain now d0 d1 where r: "rows d0 = rows (wx_rows x)" "fn now d0 = (Inr a, d1)" "rows d = rows d1"
      using d(1) withTenant_commits by metis
    from keepsD [OF assms(1), of d0 "other_rows A (wr_work (rows d0))" "other_companies A (wr_accounts (rows d0))" now] r
    show ?thesis by (simp add: same_others_def d(2))
  qed
qed

lemma on_work_others:
  assumes "\<And>v. keeps (\<lambda>t. other_rows A t = v) m"
  shows "keeps (\<lambda>w. other_rows A (wr_work w) = v \<and> other_companies A (wr_accounts w) = u) (on_work m)"
  unfolding keeps_def
proof (intro allI impI)
  fix d :: "web_rows db"
  assume d: "other_rows A (wr_work (rows d)) = v \<and> other_companies A (wr_accounts (rows d)) = u"
  obtain r d' where run: "m \<lparr>rows = work_of (rows d), tick = tick d\<rparr> = (r, d')" by (cases "m \<lparr>rows = work_of (rows d), tick = tick d\<rparr>")
  have "other_rows A (rows d') = other_rows A (work_of (rows d))"
    using keepsD [OF assms, of "\<lparr>rows = work_of (rows d), tick = tick d\<rparr>"] run by simp
  then have "other_rows A (wr_work (put_work (rows d') (rows d))) = other_rows A (wr_work (rows d))"
    by (simp add: other_rows_def put_work_def work_of_def)
  then show "other_rows A (wr_work (rows (snd (on_work m d)))) = v \<and> other_companies A (wr_accounts (rows (snd (on_work m d)))) = u"
    using d by (simp add: on_work_def run put_work_def)
qed

lemma tenant_work_others:
  assumes "\<And>now v. keeps (\<lambda>t. other_rows A t = v) (fn now)" "tenant_work S A fn x = Some (r, y)"
  shows "same_others A x y"
  by (rule for_tenant_others [OF on_work_others [OF assms(1)] assms(2) [unfolded tenant_work_def]])

lemma rename_company_others:
  "keeps (\<lambda>w. other_rows A (wr_work w) = v \<and> other_companies A (wr_accounts w) = u)
     (sql_stmt E (\<lambda>n w. if b w then Inl e else Inr ((), rename_company A c w)))"
  by (rule keeps_stmt)
    (auto simp: rename_company_def other_companies_def intro!: filter_update_other split: if_splits)

lemma after_check_cases:
  "after_check r k x = Some (a, y) \<Longrightarrow> (y = x \<or> k x = Some (a, y))"
  by (auto simp: after_check_def failed_def split: option.splits)

lemma same_others_refl: "same_others A x x"
  by (simp add: same_others_def)

lemma SaveNotification_others: "SaveNotification S rc c x = Some (r, y) \<Longrightarrow> same_others (wc_tenant rc) x y"
  unfolding SaveNotification_def
  by (drule after_check_cases)
    (auto simp: failed_def same_others_refl split: option.splits if_splits prod.splits
      dest!: tenant_work_others [OF schedule_other])

lemma table_commands_others:
  assumes "table_command c" "Act S rc c x = Some (r, y)"
  shows "same_others (wc_tenant rc) x y"
proof (cases c)
  case (CmdSaveFilter f)
  then show ?thesis using assms(2)
    by (auto simp: SaveFilter_def same_others_refl dest!: after_check_cases tenant_work_others [OF save_filter_tx_other])
next
  case (CmdToggleFilter f)
  then show ?thesis using assms(2)
    by (auto simp: ToggleFilter_def same_others_refl dest!: after_check_cases tenant_work_others [OF toggle_filter_tx_other])
next
  case (CmdDeleteFilter i)
  then show ?thesis using assms(2)
    by (auto simp: DeleteFilter_def same_others_refl dest!: after_check_cases tenant_work_others [OF deleteFilter_other])
next
  case (CmdSaveSettings c)
  then show ?thesis using assms(2)
    by (auto simp: SaveSettings_def same_others_refl dest!: after_check_cases for_tenant_others [OF rename_company_others])
next
  case (CmdAddRecipient c)
  then show ?thesis using assms(2)
    by (auto simp: AddRecipient_def Let_def failed_def same_others_refl split: if_splits
        dest!: after_check_cases tenant_work_others [OF recipient_other])
next
  case (CmdSaveReportSchedule c)
  then show ?thesis using assms(2)
    by (auto simp: SaveReportSchedule_def same_others_refl dest!: after_check_cases SaveNotification_others)
qed (use assms(1) in simp_all)

text \<open>
  C3: Companies are isolated. A command on the tables of one company, given with whatever identity and
  ending with success or an error, leaves the filters, matches, schedules and recipients of every other
  company as they were, the names of the other companies, every account, the reports and deliveries of
  all companies, the report files and the key file.
\<close>

theorem companies_are_isolated:
  assumes "table_command c" "Act S rc c x = Some (r, y)" "A = wc_tenant rc"
  shows "other_rows A (wr_work (rows (wx_rows y))) = other_rows A (wr_work (rows (wx_rows x))) \<and>
    other_companies A (wr_accounts (rows (wx_rows y))) = other_companies A (wr_accounts (rows (wx_rows x))) \<and>
    wx_files y = wx_files x \<and> wx_keys y = wx_keys x"
  using table_commands_others [OF assms(1,2)] assms(3) by (simp add: same_others_def)

theorem companies_are_isolated_witness:
  "\<exists>y. Act small_service t1_admin (CmdSaveFilter all_notices) filter_world = Some (Inr (), y) \<and>
     other_rows ''t1'' (wr_work (rows (wx_rows y))) = other_rows ''t1'' (rows filter_db)"
proof -
  obtain y where run: "Act small_service t1_admin (CmdSaveFilter all_notices) filter_world = Some (Inr (), y)"
    using filter_world_saves by auto
  have "''t1'' = wc_tenant t1_admin" by (simp add: t1_admin_def)
  from companies_are_isolated [OF _ run this] run show ?thesis by (simp add: filter_world_def)
qed

end
