(* ===== verification/Migrations.thy ===== *)
theory Migrations
  imports Auth Tenant_Tx
begin

text \<open>
  internal/store/migrations.go and migrations/embed.go: the embedded schema files, their order and
  their application. The ledger is the table schema_migrations (absent before the first run); what the
  statements of a file do to the rest of the database is a parameter.
\<close>

record migration =
  mg_version :: int
  mg_sql :: string

section \<open>The embedded files\<close>

record embedded =
  em_name :: string
  em_dir :: bool
  em_body :: "string res"

text \<open>What \<open>All\<close> makes of one entry: skipped, an error, or a migration.\<close>

definition embedded_migration :: "embedded \<Rightarrow> migration option res" where
  "embedded_migration e =
     (if em_dir e \<or> \<not> has_suffix (em_name e) ''.sql'' then Inr None
      else if CHR ''_'' \<notin> set (em_name e) then Inl (ErrText (''migration '' @ em_name e @ '' has no numeric prefix''))
      else case parse_int64 (takeWhile (\<lambda>c. c \<noteq> CHR ''_'') (em_name e)) of
          None \<Rightarrow> Inl (ErrText (''migration '' @ em_name e @ '' has an invalid version''))
        | Some v \<Rightarrow>
            if v < 1 then Inl (ErrText (''migration '' @ em_name e @ '' has an invalid version''))
            else (case em_body e of
                Inl x \<Rightarrow> Inl (ErrWrap (''read migration '' @ em_name e) x)
              | Inr body \<Rightarrow> Inr (Some \<lparr>mg_version = v, mg_sql = replace_all body [CHR 0x0D, CHR 0x0A] [CHR 0x0A]\<rparr>)))"

fun embedded_migrations :: "embedded list \<Rightarrow> migration list res" where
  "embedded_migrations [] = Inr []"
| "embedded_migrations (e # es) =
     (case embedded_migration e of
        Inl x \<Rightarrow> Inl x
      | Inr m \<Rightarrow>
         (case embedded_migrations es of
            Inl x \<Rightarrow> Inl x
          | Inr ms \<Rightarrow> Inr (case m of None \<Rightarrow> ms | Some k \<Rightarrow> k # ms)))"

definition All :: "embedded list res \<Rightarrow> migration list res" where
  "All dir =
     (case dir of
        Inl x \<Rightarrow> Inl (ErrWrap ''read embedded migrations'' x)
      | Inr es \<Rightarrow> map_sum id (sort_key mg_version) (embedded_migrations es))"

section \<open>Applying migrations\<close>

text \<open>The ledger with its rows (version, checksum), and the rest of the database.\<close>

record 'x database =
  led :: "(int \<times> string option) list option"
  body :: 'x

definition recorded :: "'x database \<Rightarrow> (int \<times> string option) list" where
  "recorded t = (case led t of None \<Rightarrow> [] | Some rs \<Rightarrow> rs)"

definition migrationChecksum :: "(string \<Rightarrow> string) \<Rightarrow> string \<Rightarrow> string" where
  "migrationChecksum sha s = hex_encode (sha s)"

text \<open>A Go \<open>int\<close> narrowed to \<open>int32\<close>; a parameter that does not fit an integer column is refused.\<close>

definition to_int32 :: "int \<Rightarrow> int" where
  "to_int32 v = (v + 2 ^ 31) mod 2 ^ 32 - 2 ^ 31"

definition fits_int32 :: "int \<Rightarrow> bool" where
  "fits_int32 v \<longleftrightarrow> - (2 ^ 31) \<le> v \<and> v < 2 ^ 31"

definition out_of_range :: goerr where "out_of_range = ErrText ''value is out of range for int4''"

fun repeated_version :: "migration list \<Rightarrow> int option" where
  "repeated_version (a # b # ms) = (if mg_version a = mg_version b then Some (mg_version b) else repeated_version (b # ms))"
| "repeated_version ms = None"

definition create_ledger :: "'x database \<Rightarrow> 'x database" where
  "create_ledger t = t\<lparr>led := Some (recorded t)\<rparr>"

definition unknown_versions :: "int list \<Rightarrow> 'x database \<Rightarrow> int list" where
  "unknown_versions vs t = sort (filter (\<lambda>v. v \<notin> set vs) (map fst (recorded t)))"

definition find_recorded :: "int \<Rightarrow> 'x database \<Rightarrow> goerr + string option" where
  "find_recorded v t =
     (if \<not> fits_int32 v then Inl out_of_range
      else Inr (map_option (\<lambda>(w, c). case c of None \<Rightarrow> [] | Some s \<Rightarrow> s) (find (\<lambda>(w, c). w = v) (recorded t))))"

definition backfill :: "int \<Rightarrow> string \<Rightarrow> 'x database \<Rightarrow> 'x database" where
  "backfill v c t = t\<lparr>led := Some (update_where (\<lambda>(w, d). w = v \<and> d = None) (\<lambda>(w, d). (w, Some c)) (recorded t))\<rparr>"

definition record_version :: "int \<Rightarrow> string \<Rightarrow> 'x database \<Rightarrow> 'x database" where
  "record_version v c t = (if v \<in> fst ` set (recorded t) then t else t\<lparr>led := Some (recorded t @ [(v, Some c)])\<rparr>)"

definition apply_found ::
  "dbenv \<Rightarrow> (string \<Rightarrow> 'x \<Rightarrow> goerr + 'x) \<Rightarrow> migration \<Rightarrow> string \<Rightarrow> string option \<Rightarrow> ('x database, unit) sql" where
  "apply_found E exec m c row =
     (let v = mg_version m in
      case row of
        Some seen \<Rightarrow>
          if seen = [] then sql_wrap (''backfill migration '' @ show_int v @ '' checksum'') (sql_stmt E (\<lambda>n t. Inr ((), backfill v c t)))
          else if seen \<noteq> c then sql_fail (ErrText (''migration '' @ show_int v @ '' checksum mismatch''))
          else sql_return ()
      | None \<Rightarrow>
          sql_bind (sql_wrap (''apply migration '' @ show_int v)
            (sql_stmt E (\<lambda>n t. map_sum id (\<lambda>x. ((), t\<lparr>body := x\<rparr>)) (exec (mg_sql m) (body t))))) (\<lambda>_.
          sql_wrap (''record migration '' @ show_int v) (sql_stmt E (\<lambda>n t. Inr ((), record_version v c t)))))"

definition apply_one ::
  "dbenv \<Rightarrow> (string \<Rightarrow> string) \<Rightarrow> (string \<Rightarrow> 'x \<Rightarrow> goerr + 'x) \<Rightarrow> migration \<Rightarrow> ('x database, unit) sql" where
  "apply_one E sha exec m =
     sql_bind (sql_wrap (''read migration '' @ show_int (mg_version m))
       (sql_stmt E (\<lambda>n t. map_sum id (\<lambda>row. (row, t)) (find_recorded (mg_version m) t))))
       (apply_found E exec m (migrationChecksum sha (mg_sql m)))"

fun apply_each ::
  "dbenv \<Rightarrow> (string \<Rightarrow> string) \<Rightarrow> (string \<Rightarrow> 'x \<Rightarrow> goerr + 'x) \<Rightarrow> migration list \<Rightarrow> ('x database, unit) sql" where
  "apply_each E sha exec [] = sql_return ()"
| "apply_each E sha exec (m # ms) = sql_bind (apply_one E sha exec m) (\<lambda>_. apply_each E sha exec ms)"

definition migration_tx ::
  "dbenv \<Rightarrow> (string \<Rightarrow> string) \<Rightarrow> (string \<Rightarrow> 'x \<Rightarrow> goerr + 'x) \<Rightarrow> migration list \<Rightarrow> ('x database, unit) sql" where
  "migration_tx E sha exec ms =
     sql_bind (sql_wrap ''begin migration transaction'' (sql_call E)) (\<lambda>_.
     sql_bind (sql_wrap ''lock migrations'' (sql_call E)) (\<lambda>_.
     sql_bind (sql_wrap ''create migration ledger'' (sql_stmt E (\<lambda>n t. Inr ((), create_ledger t)))) (\<lambda>_.
     sql_bind (sql_wrap ''upgrade migration ledger'' (sql_call E)) (\<lambda>_.
     sql_bind (sql_wrap ''read migration ledger'' (sql_query E (unknown_versions (map (\<lambda>m. to_int32 (mg_version m)) ms)))) (\<lambda>unknown.
     if unknown \<noteq> [] then sql_fail (ErrText (''unknown migration versions: '' @ str_join '','' (map show_int unknown)))
     else sql_bind (apply_each E sha exec ms) (\<lambda>_.
       sql_wrap ''commit migrations'' (sql_call E)))))))"

definition ApplyMigrations ::
  "dbenv \<Rightarrow> (string \<Rightarrow> string) \<Rightarrow> (string \<Rightarrow> 'x \<Rightarrow> goerr + 'x) \<Rightarrow> migration list \<Rightarrow> ('x database, unit) sql" where
  "ApplyMigrations E sha exec ms =
     (let ordered = sort_key mg_version ms in
      case repeated_version ordered of
        Some v \<Rightarrow> sql_fail (ErrText (''duplicate migration version '' @ show_int v))
      | None \<Rightarrow> sql_rollback (migration_tx E sha exec ordered))"

end
