(* ===== verification/Migration_Laws.thy ===== *)
theory Migration_Laws
  imports Migrations
begin

text \<open>
  Migrations are applied once and in the order of their versions, all of them or none, and applying
  them again changes nothing.
\<close>

section \<open>The ledger\<close>

definition recorded_of :: "int \<Rightarrow> 'x database \<Rightarrow> string option option" where
  "recorded_of v t = map_option snd (find (\<lambda>(w, c). w = v) (recorded t))"

lemma recorded_of_None: "recorded_of v t = None \<longleftrightarrow> v \<notin> fst ` set (recorded t)"
  by (force simp: recorded_of_def find_None_iff)

lemma find_recorded_Inr:
  "find_recorded v t = Inr row \<longleftrightarrow>
     fits_int32 v \<and> row = map_option (\<lambda>c. case c of None \<Rightarrow> [] | Some s \<Rightarrow> s) (recorded_of v t)"
  by (auto simp: find_recorded_def recorded_of_def option.map_comp comp_def case_prod_unfold)

lemma find_backfill:
  "find (\<lambda>(w, c). w = v) (update_where (\<lambda>(w, d). w = u \<and> d = None) (\<lambda>(w, d). (w, Some c)) rs) =
     map_option (\<lambda>(w, d). if w = u \<and> d = None then (w, Some c) else (w, d)) (find (\<lambda>(w, c). w = v) rs)"
  by (induction rs) (auto simp: update_where_def split: if_splits)

lemma find_key: "find (\<lambda>(w, c). w = v) rs = Some (w, d) \<Longrightarrow> w = v"
  by (auto simp: find_Some_iff)

lemma recorded_of_backfill:
  "recorded_of v (backfill u c t) =
     map_option (\<lambda>d. if v = u \<and> d = None then Some c else d) (recorded_of v t)"
  by (cases "find (\<lambda>(w, c). w = v) (recorded t)")
    (auto simp: recorded_of_def backfill_def recorded_def find_backfill dest: find_key)

lemma recorded_of_record:
  "recorded_of v (record_version u c t) = (if v = u \<and> recorded_of u t = None then Some (Some c) else recorded_of v t)"
proof -
  have find_snoc: "find P (xs @ [x]) = (case find P xs of None \<Rightarrow> if P x then Some x else None | Some y \<Rightarrow> Some y)" for P :: "int \<times> string option \<Rightarrow> bool" and xs x
    by (induction xs) auto
  show ?thesis
  proof (cases "recorded_of u t = None")
    case True
    then have "recorded (record_version u c t) = recorded t @ [(u, Some c)]"
      by (simp add: record_version_def recorded_of_None recorded_def)
    then show ?thesis using True
      by (auto simp: recorded_of_def find_snoc split: option.splits)
  next
    case False
    then have "record_version u c t = t" by (auto simp: record_version_def recorded_of_None)
    then show ?thesis using False by simp
  qed
qed

lemma versions_backfill: "map fst (recorded (backfill u c t)) = map fst (recorded t)"
  by (induction "recorded t") (auto simp: backfill_def recorded_def update_where_def)

lemma recorded_body [simp]: "recorded (t\<lparr>body := x\<rparr>) = recorded t" "recorded_of v (t\<lparr>body := x\<rparr>) = recorded_of v t"
  by (simp_all add: recorded_def recorded_of_def)

section \<open>One migration\<close>

lemma apply_one_cases:
  assumes "apply_one E sha exec m d = (Inr (), d')"
  obtains (new) x where "recorded_of (mg_version m) (rows d) = None" "exec (mg_sql m) (body (rows d)) = Inr x"
      "rows d' = record_version (mg_version m) (migrationChecksum sha (mg_sql m)) ((rows d)\<lparr>body := x\<rparr>)" "fits_int32 (mg_version m)"
  | (fill) "recorded_of (mg_version m) (rows d) = Some None \<or> recorded_of (mg_version m) (rows d) = Some (Some [])"
      "rows d' = backfill (mg_version m) (migrationChecksum sha (mg_sql m)) (rows d)" "fits_int32 (mg_version m)"
  | (seen) "recorded_of (mg_version m) (rows d) = Some (Some (migrationChecksum sha (mg_sql m)))" "rows d' = rows d" "fits_int32 (mg_version m)"
proof -
  let ?v = "mg_version m" and ?c = "migrationChecksum sha (mg_sql m)"
  from assms obtain row d1 where look: "sql_wrap (''read migration '' @ show_int ?v)
      (sql_stmt E (\<lambda>n t. map_sum id (\<lambda>row. (row, t)) (find_recorded ?v t))) d = (Inr row, d1)"
    and rest: "apply_found E exec m ?c row d1 = (Inr (), d')"
    unfolding apply_one_def by (rule sql_bindE)
  have found: "find_recorded ?v (rows d) = Inr row" "rows d1 = rows d"
    using look by (auto simp: sql_wrap_eq_Inr sql_stmt_Inr map_sum_def split: sum.splits)
  have fits: "fits_int32 ?v" and row: "row = map_option (\<lambda>c. case c of None \<Rightarrow> [] | Some s \<Rightarrow> s) (recorded_of ?v (rows d))"
    using found(1) by (simp_all add: find_recorded_Inr)
  show thesis
  proof (cases "recorded_of ?v (rows d)")
    case None
    then have "row = None" using row by simp
    then obtain x where "exec (mg_sql m) (body (rows d)) = Inr x" "rows d' = record_version ?v ?c ((rows d)\<lparr>body := x\<rparr>)"
      using rest found(2) by (auto simp: apply_found_def Let_def sql_Inr_simps map_sum_def split: sum.splits)
    then show thesis using None fits new by blast
  next
    case (Some s)
    then have r: "row = Some (case s of None \<Rightarrow> [] | Some s \<Rightarrow> s)" using row by simp
    show thesis
    proof (cases "s = None \<or> s = Some []")
      case True
      then show thesis using rest found(2) r Some fits fill by (auto simp: apply_found_def Let_def sql_Inr_simps)
    next
      case False
      then obtain c where "s = Some c" "c \<noteq> []" by (cases s) auto
      then show thesis using rest found(2) r Some fits seen by (auto simp: apply_found_def Let_def sql_fail_def sql_return_def split: if_splits)
    qed
  qed
qed

text \<open>A migration that the ledger knows with its checksum.\<close>

definition ledger_settled :: "(string \<Rightarrow> string) \<Rightarrow> 'x database \<Rightarrow> migration \<Rightarrow> bool" where
  "ledger_settled sha t m \<longleftrightarrow> fits_int32 (mg_version m) \<and>
     recorded_of (mg_version m) t \<in> {Some (Some []), Some (Some (migrationChecksum sha (mg_sql m)))}"

lemma apply_one_settles:
  assumes "apply_one E sha exec m d = (Inr (), d')"
  shows "ledger_settled sha (rows d') m"
  using assms by (cases rule: apply_one_cases) (auto simp: ledger_settled_def recorded_of_record recorded_of_backfill)

lemma apply_one_keeps_settled:
  assumes "apply_one E sha exec m d = (Inr (), d')" "ledger_settled sha (rows d) k"
  shows "ledger_settled sha (rows d') k"
  using assms by (cases rule: apply_one_cases) (auto simp: ledger_settled_def recorded_of_record recorded_of_backfill)

lemma apply_each_keeps_settled:
  "apply_each E sha exec ms d = (Inr (), d') \<Longrightarrow> ledger_settled sha (rows d) k \<Longrightarrow> ledger_settled sha (rows d') k"
  by (induction ms arbitrary: d) (auto simp: sql_bind_eq_Inr sql_return_def dest: apply_one_keeps_settled)

lemma apply_each_settles:
  "apply_each E sha exec ms d = (Inr (), d') \<Longrightarrow> m \<in> set ms \<Longrightarrow> ledger_settled sha (rows d') m"
  by (induction ms arbitrary: d)
    (auto simp: sql_bind_eq_Inr dest: apply_one_settles intro: apply_each_keeps_settled)

section \<open>All migrations\<close>

fun run_scripts :: "(string \<Rightarrow> 'x \<Rightarrow> goerr + 'x) \<Rightarrow> string list \<Rightarrow> 'x \<Rightarrow> goerr + 'x" where
  "run_scripts exec [] x = Inr x"
| "run_scripts exec (s # ss) x = (case exec s x of Inl e \<Rightarrow> Inl e | Inr y \<Rightarrow> run_scripts exec ss y)"

text \<open>The migrations the ledger does not know, oldest version first.\<close>

definition missing :: "'x database \<Rightarrow> migration list \<Rightarrow> migration list" where
  "missing t ms = filter (\<lambda>m. recorded_of (mg_version m) t = None) ms"

lemma apply_each_runs:
  "apply_each E sha exec ms d = (Inr (), d') \<Longrightarrow> distinct (map mg_version ms) \<Longrightarrow>
   run_scripts exec (map mg_sql (missing (rows d) ms)) (body (rows d)) = Inr (body (rows d'))"
proof (induction ms arbitrary: d)
  case (Cons m ms)
  then obtain d1 where one: "apply_one E sha exec m d = (Inr (), d1)" and rest: "apply_each E sha exec ms d1 = (Inr (), d')"
    by (auto simp: sql_bind_eq_Inr)
  have ih: "run_scripts exec (map mg_sql (missing (rows d1) ms)) (body (rows d1)) = Inr (body (rows d'))"
    using Cons.IH [OF rest] Cons.prems(2) by simp
  have other: "mg_version k \<noteq> mg_version m" if "k \<in> set ms" for k
    using Cons.prems(2) that by (metis distinct.simps(2) image_eqI list.simps(9) set_map)
  have same: "missing (rows d1) ms = missing (rows d) ms"
    unfolding missing_def using one
    by (intro filter_cong refl, cases rule: apply_one_cases) (auto simp: recorded_of_record recorded_of_backfill dest: other)
  from one show ?case
  proof (cases rule: apply_one_cases)
    case (new x)
    have "body (rows d1) = x" using new(3) by (simp add: record_version_def)
    then show ?thesis using new ih same by (simp add: missing_def)
  next
    case fill
    then show ?thesis using ih same by (auto simp: missing_def backfill_def)
  next
    case seen
    then show ?thesis using ih same by (simp add: missing_def)
  qed
qed (simp add: missing_def sql_return_def)

lemma repeated_version_distinct:
  "repeated_version ms = None \<Longrightarrow> sorted (map mg_version ms) \<Longrightarrow> distinct (map mg_version ms)"
proof (induction ms rule: repeated_version.induct)
  case (1 a b ms)
  then show ?case by (fastforce split: if_splits)
qed simp_all

lemma ApplyMigrations_Inr:
  assumes "ApplyMigrations E sha exec ms d = (Inr (), d')"
  obtains d1 d2 where "rows d1 = create_ledger (rows d)" "apply_each E sha exec (sort_key mg_version ms) d1 = (Inr (), d2)"
    "rows d' = rows d2" "distinct (map mg_version ms)"
    "unknown_versions (map (\<lambda>m. to_int32 (mg_version m)) ms) (create_ledger (rows d)) = []"
proof -
  let ?o = "sort_key mg_version ms"
  have none: "repeated_version ?o = None" and tx: "migration_tx E sha exec ?o d = (Inr (), d')"
    using assms by (auto simp: ApplyMigrations_def Let_def sql_fail_def sql_rollback_eq_Inr split: option.splits)
  have "distinct (map mg_version ?o)" using none by (rule repeated_version_distinct) simp
  then have dist: "distinct (map mg_version ms)" by (simp add: distinct_map)
  from tx obtain d1 d2 where "rows d1 = create_ledger (rows d)" "apply_each E sha exec ?o d1 = (Inr (), d2)" "rows d' = rows d2"
    "unknown_versions (map (\<lambda>m. to_int32 (mg_version m)) ?o) (create_ledger (rows d)) = []"
    by (auto simp: migration_tx_def sql_Inr_simps sql_fail_def split: if_splits) (metis db.select_convs(1))
  moreover have "unknown_versions (map f ?o) t = unknown_versions (map f ms) t" for f and t :: "'a database"
    by (simp add: unknown_versions_def)
  ultimately show thesis using that dist by metis
qed

lemma recorded_create [simp]:
  "recorded_of v (create_ledger t) = recorded_of v t" "body (create_ledger t) = body t" "recorded (create_ledger t) = recorded t"
  by (simp_all add: recorded_of_def create_ledger_def recorded_def)

lemma migrations_run_missing:
  assumes "ApplyMigrations E sha exec ms d = (Inr (), d')"
  shows "run_scripts exec (map mg_sql (missing (rows d) (sort_key mg_version ms))) (body (rows d)) = Inr (body (rows d'))"
    "\<forall>m \<in> set ms. ledger_settled sha (rows d') m"
proof -
  obtain d1 d2 where d: "rows d1 = create_ledger (rows d)" "apply_each E sha exec (sort_key mg_version ms) d1 = (Inr (), d2)"
    "rows d' = rows d2" "distinct (map mg_version ms)" using assms by (rule ApplyMigrations_Inr)
  have "distinct (map mg_version (sort_key mg_version ms))" using d(4) by (simp add: distinct_map)
  from apply_each_runs [OF d(2) this] show "run_scripts exec (map mg_sql (missing (rows d) (sort_key mg_version ms))) (body (rows d)) = Inr (body (rows d'))"
    by (simp add: d(1,3) missing_def)
  show "\<forall>m \<in> set ms. ledger_settled sha (rows d') m" using apply_each_settles [OF d(2)] by (simp add: d(3))
qed

text \<open>
  C25: Migrations run once, in order. A successful run executes exactly the scripts whose versions the
  ledger does not know, in the order of the versions, and afterwards the ledger knows every migration
  with its checksum; a run that fails, at whatever statement, leaves the database as it was.
\<close>

theorem migrations_run_once:
  "(case ApplyMigrations E sha exec ms d of
      (Inl e, d') \<Rightarrow> rows d' = rows d
    | (Inr u, d') \<Rightarrow>
        run_scripts exec (map mg_sql (missing (rows d) (sort_key mg_version ms))) (body (rows d)) = Inr (body (rows d')) \<and>
        set ms \<subseteq> {m. ledger_settled sha (rows d') m})"
proof (cases "ApplyMigrations E sha exec ms d")
  case (Pair r d')
  show ?thesis
  proof (cases r)
    case (Inl e)
    have "rows d' = rows d"
      using Pair Inl by (auto simp: ApplyMigrations_def Let_def sql_fail_def sql_rollback_def split: option.splits prod.splits sum.splits)
    then show ?thesis by (simp add: Pair Inl)
  next
    case (Inr u)
    then show ?thesis using migrations_run_missing [of E sha exec ms d d'] Pair by auto
  qed
qed

section \<open>Migrating again\<close>

definition ledger_ok :: "'x database \<Rightarrow> bool" where
  "ledger_ok t \<longleftrightarrow> distinct (map fst (recorded t))"

lemma backfill_settled:
  assumes "recorded_of v t = Some (Some s)" "ledger_ok t" "led t \<noteq> None"
  shows "backfill v c t = t"
proof -
  obtain rs where rs: "led t = Some rs" using assms(3) by auto
  then have "distinct (map fst rs)" "find (\<lambda>(w, d). w = v) rs = Some (v, Some s)"
    using assms(1,2) by (auto simp: ledger_ok_def recorded_of_def recorded_def dest: find_key)
  then have "update_where (\<lambda>(w, d). w = v \<and> d = None) (\<lambda>(w, d). (w, Some c)) rs = rs"
    by (induction rs) (force simp: update_where_def split: if_splits intro!: map_idI)+
  then show ?thesis using rs by (simp add: backfill_def recorded_def)
qed

lemma apply_one_again:
  assumes "ledger_settled sha (rows e) m" "ledger_ok (rows e)" "led (rows e) \<noteq> None" "apply_one E sha exec m e = (r, e1)"
  shows "rows e1 = rows e \<and> (r = Inr () \<or> (\<exists>n. fault E n \<noteq> None))"
proof -
  let ?v = "mg_version m" and ?c = "migrationChecksum sha (mg_sql m)"
  obtain s where s: "recorded_of ?v (rows e) = Some (Some s)" "s = [] \<or> s = ?c" and fits: "fits_int32 ?v"
    using assms(1) by (auto simp: ledger_settled_def)
  have "find_recorded ?v (rows e) = Inr (Some s)" using fits s(1) by (simp add: find_recorded_Inr)
  then show ?thesis using assms(4) s backfill_settled [OF s(1) assms(2,3)]
    by (auto simp: apply_one_def apply_found_def sql_bind_def sql_wrap_def sql_stmt_def sql_return_def sql_fail_def Let_def
        split: option.splits if_splits)
qed

lemma apply_each_again:
  "\<forall>m \<in> set ms. ledger_settled sha (rows e) m \<Longrightarrow> ledger_ok (rows e) \<Longrightarrow> led (rows e) \<noteq> None \<Longrightarrow> apply_each E sha exec ms e = (r, e1) \<Longrightarrow>
   rows e1 = rows e \<and> (r = Inr () \<or> (\<exists>n. fault E n \<noteq> None))"
proof (induction ms arbitrary: e)
  case (Cons m ms)
  obtain r1 e2 where one: "apply_one E sha exec m e = (r1, e2)" by (cases "apply_one E sha exec m e")
  have a: "rows e2 = rows e \<and> (r1 = Inr () \<or> (\<exists>n. fault E n \<noteq> None))"
    using apply_one_again [OF _ Cons.prems(2,3) one] Cons.prems(1) by simp
  show ?case
  proof (cases r1)
    case (Inl x)
    then show ?thesis using a one Cons.prems(4) by (auto simp: sql_bind_def)
  next
    case (Inr u)
    then have "apply_each E sha exec ms e2 = (r, e1)" using one Cons.prems(4) by (simp add: sql_bind_def)
    then show ?thesis using Cons.IH [of e2] Cons.prems a by simp
  qed
qed (simp add: sql_return_def)

lemma ledger_ok_after:
  assumes "apply_each E sha exec ms d = (Inr (), d')" "ledger_ok (rows d)" "led (rows d) \<noteq> None"
  shows "ledger_ok (rows d') \<and> led (rows d') \<noteq> None \<and>
    fst ` set (recorded (rows d')) \<subseteq> fst ` set (recorded (rows d)) \<union> {v \<in> mg_version ` set ms. fits_int32 v}"
  using assms
proof (induction ms arbitrary: d)
  case (Cons m ms)
  then obtain d1 where one: "apply_one E sha exec m d = (Inr (), d1)" and rest: "apply_each E sha exec ms d1 = (Inr (), d')"
    by (auto simp: sql_bind_eq_Inr)
  have "ledger_ok (rows d1) \<and> led (rows d1) \<noteq> None \<and>
    fst ` set (recorded (rows d1)) \<subseteq> fst ` set (recorded (rows d)) \<union> {v \<in> {mg_version m}. fits_int32 v}"
    using one
  proof (cases rule: apply_one_cases)
    case (new x)
    then show ?thesis using Cons.prems(2,3)
      by (auto simp: ledger_ok_def record_version_def recorded_of_None recorded_def split: option.splits)
  next
    case fill
    have vs: "map fst (recorded (rows d1)) = map fst (recorded (rows d))" by (simp only: fill(2) versions_backfill)
    then have "fst ` set (recorded (rows d1)) = fst ` set (recorded (rows d))" by (metis list.set_map)
    moreover have "led (rows d1) \<noteq> None" by (simp add: fill(2) backfill_def)
    ultimately show ?thesis using Cons.prems(2) vs by (simp add: ledger_ok_def)
  qed (use Cons.prems in auto)
  with Cons.IH [OF rest] show ?case by auto
qed (auto simp: sql_return_def)

lemma unknown_none: "unknown_versions vs t = [] \<longleftrightarrow> fst ` set (recorded t) \<subseteq> set vs"
proof -
  have "unknown_versions vs t = [] \<longleftrightarrow> filter (\<lambda>v. v \<notin> set vs) (map fst (recorded t)) = []"
    unfolding unknown_versions_def by (subst length_0_conv [symmetric]) (simp add: filter_map)
  then show ?thesis by (auto simp: filter_empty_conv)
qed

lemma to_int32_fits: "fits_int32 v \<Longrightarrow> to_int32 v = v"
  by (simp add: fits_int32_def to_int32_def)

lemma migrated_again:
  assumes first: "ApplyMigrations E sha exec ms d = (Inr (), d')" and ok: "ledger_ok (rows d)"
    and again: "ApplyMigrations E' sha exec' ms e = (r, e')" "rows e = rows d'"
  shows "rows e' = rows d' \<and> (r = Inr () \<or> (\<exists>n. fault E' n \<noteq> None))"
proof -
  obtain d1 d2 where d: "rows d1 = create_ledger (rows d)" "apply_each E sha exec (sort_key mg_version ms) d1 = (Inr (), d2)"
    "rows d' = rows d2" "distinct (map mg_version ms)"
    "unknown_versions (map (\<lambda>m. to_int32 (mg_version m)) ms) (create_ledger (rows d)) = []"
    using first by (rule ApplyMigrations_Inr)
  have "ledger_ok (rows d1)" "led (rows d1) \<noteq> None" using ok by (simp_all add: d(1) ledger_ok_def create_ledger_def recorded_def)
  from ledger_ok_after [OF d(2) this] have l: "ledger_ok (rows e)" "led (rows e) \<noteq> None"
    and sub: "fst ` set (recorded (rows e)) \<subseteq> fst ` set (recorded (rows d)) \<union> {v \<in> mg_version ` set ms. fits_int32 v}"
    using d(1,3) again(2) by (auto simp: create_ledger_def recorded_def)
  have created: "create_ledger (rows e) = rows e" using l(2) by (auto simp: create_ledger_def recorded_def)
  let ?vs = "map (\<lambda>m. to_int32 (mg_version m)) (sort_key mg_version ms)"
  have known: "fst ` set (recorded (rows d)) \<subseteq> set ?vs"
    using d(5) by (simp add: unknown_none)
  have "v \<in> set ?vs" if v: "v \<in> fst ` set (recorded (rows e))" for v
  proof (cases "v \<in> fst ` set (recorded (rows d))")
    case True
    then show ?thesis using known by blast
  next
    case False
    then have "v \<in> mg_version ` set ms" "fits_int32 v" using sub v by blast+
    then obtain m where "m \<in> set ms" "mg_version m = v" by blast
    then show ?thesis using to_int32_fits [OF \<open>fits_int32 v\<close>] by (metis (no_types, lifting) image_eqI list.set_map set_sort)
  qed
  then have "fst ` set (recorded (rows e)) \<subseteq> set ?vs" by blast
  then have none: "unknown_versions ?vs (rows e) = []" by (simp only: unknown_none)
  have all: "\<forall>m \<in> set (sort_key mg_version ms). ledger_settled sha (rows e) m"
    using migrations_run_missing(2) [OF first] again(2) by simp
  have rep: "repeated_version (sort_key mg_version ms) = None"
    using first by (auto simp: ApplyMigrations_def Let_def sql_fail_def split: option.splits)
  then have run: "sql_rollback (migration_tx E' sha exec' (sort_key mg_version ms)) e = (r, e')"
    using again(1) by (simp add: ApplyMigrations_def)
  obtain q f where q: "apply_each E' sha exec' (sort_key mg_version ms) \<lparr>rows = rows e, tick = tick e + 5\<rparr> = (q, f)"
    by (cases "apply_each E' sha exec' (sort_key mg_version ms) \<lparr>rows = rows e, tick = tick e + 5\<rparr>")
  from apply_each_again [OF _ _ _ q] all l have same: "rows f = rows e \<and> (q = Inr () \<or> (\<exists>n. fault E' n \<noteq> None))" by simp
  have "rows e' = rows e"
  proof (cases r)
    case (Inl x)
    then show ?thesis using run by (auto simp: sql_rollback_def split: prod.splits sum.splits)
  next
    case (Inr u)
    then have "ApplyMigrations E' sha exec' ms e = (Inr (), e')" using again(1) by simp
    then obtain f1 f2 where f: "rows f1 = create_ledger (rows e)" "apply_each E' sha exec' (sort_key mg_version ms) f1 = (Inr (), f2)" "rows e' = rows f2"
      by (rule ApplyMigrations_Inr)
    have "rows f1 = rows e" using f(1) created by simp
    then show ?thesis using apply_each_again [OF _ _ _ f(2)] all l f(3) by simp
  qed
  moreover have "r = Inr ()" if quiet: "\<And>n. fault E' n = None"
    using run same q quiet
    by (simp add: migration_tx_def sql_rollback_def sql_bind_def sql_wrap_def sql_call_def sql_query_def sql_stmt_def created none
        eval_nat_numeral)
  ultimately have "rows e' = rows e \<and> (r = Inr () \<or> (\<exists>n. fault E' n \<noteq> None))"
    by auto
  then show ?thesis by (simp add: again(2))
qed

text \<open>
  C26: Migrating again changes nothing: after a successful run, another run of the same migrations on the
  database it left ends with the database as it is, whatever statements fail in it, and if none fails it
  succeeds.
\<close>

theorem migrating_again_is_harmless:
  assumes "ApplyMigrations E sha exec ms d = (Inr (), d')" "ledger_ok (rows d)"
    and "ApplyMigrations E' sha exec' ms e = (r, e')" "rows e = rows d'"
  shows "rows e' = rows d' \<and> (r = Inr () \<or> (\<exists>n. fault E' n \<noteq> None))"
  using assms by (rule migrated_again)

definition two_migrations :: "migration list" where
  "two_migrations = [\<lparr>mg_version = 2, mg_sql = ''b''\<rparr>, \<lparr>mg_version = 1, mg_sql = ''a''\<rparr>]"

definition log_script :: "string \<Rightarrow> string list \<Rightarrow> goerr + string list" where
  "log_script s x = Inr (x @ [s])"

lemma two_migrations_run:
  "\<exists>d'. ApplyMigrations plain_env id log_script two_migrations \<lparr>rows = \<lparr>led = None, body = []\<rparr>, tick = 0\<rparr> = (Inr (), d') \<and> body (rows d') = [''a'', ''b'']"
  by (simp add: two_migrations_def ApplyMigrations_def migration_tx_def sql_rollback_def sql_bind_def sql_wrap_def sql_call_def
      sql_query_def sql_stmt_def plain_env_def create_ledger_def recorded_def unknown_versions_def apply_one_def apply_found_def
      find_recorded_def fits_int32_def log_script_def record_version_def sql_return_def Let_def)

theorem migrating_again_is_harmless_witness:
  "\<exists>d' r e'. ApplyMigrations plain_env id log_script two_migrations d' = (r, e') \<and> rows e' = rows d' \<and> r = Inr () \<and> body (rows d') = [''a'', ''b'']"
proof -
  obtain d' where first: "ApplyMigrations plain_env id log_script two_migrations \<lparr>rows = \<lparr>led = None, body = []\<rparr>, tick = 0\<rparr> = (Inr (), d')"
    and b: "body (rows d') = [''a'', ''b'']" using two_migrations_run by blast
  obtain r e' where again: "ApplyMigrations plain_env id log_script two_migrations d' = (r, e')" by (cases "ApplyMigrations plain_env id log_script two_migrations d'")
  have "ledger_ok (rows \<lparr>rows = \<lparr>led = None, body = []\<rparr>, tick = 0\<rparr> :: string list database)"
    by (simp add: ledger_ok_def recorded_def)
  from migrating_again_is_harmless [OF first _ again refl] have "rows e' = rows d' \<and> (r = Inr () \<or> (\<exists>n. fault plain_env n \<noteq> None))"
    by (simp add: ledger_ok_def recorded_def)
  then show ?thesis using again b by (auto simp: plain_env_def)
qed

end
