(* ===== verification/App_Config.thy ===== *)
theory App_Config
  imports Api_Key
begin

text \<open>
  internal/config/config.go and internal/cli/cli.go: the configuration from the environment of the
  process, what a command asks of it, and the command line. Parsers of the standard library for URLs,
  mail addresses and IP addresses, and Unicode case folding, are parameters.
\<close>

section \<open>The configuration\<close>

record config =
  cf_database :: string
  cf_migration :: string
  cf_api_key :: string
  cf_api_key_file :: string
  cf_smtp_host :: string
  cf_smtp_port :: int
  cf_smtp_user :: string
  cf_smtp_password :: string
  cf_smtp_from :: string
  cf_base_url :: string
  cf_session_key :: string
  cf_listen :: string
  cf_time_zone :: string
  cf_delivery :: string
  cf_report_dir :: string

text \<open>A parsed URL: the user name is that of its user information; the escaped path is \<open>EscapedPath()\<close>.\<close>

record url =
  ur_scheme :: string
  ur_user :: "string option"
  ur_host :: string
  ur_path :: string
  ur_escaped :: string
  ur_query :: string
  ur_force_query :: bool
  ur_fragment :: string

record config_env =
  cx_url :: "string \<Rightarrow> url option"
  cx_address :: "string \<Rightarrow> string option"
  cx_loopback :: "string \<Rightarrow> bool"
  cx_fold_eq :: "string \<Rightarrow> string \<Rightarrow> bool"

definition setting :: "(string \<Rightarrow> string option) \<Rightarrow> string \<Rightarrow> string \<Rightarrow> string" where
  "setting lookup k fallback = (case lookup k of Some v \<Rightarrow> trim_space v | None \<Rightarrow> fallback)"

definition defaultAPIKeyFile :: string where
  "defaultAPIKeyFile = ''/var/db/namo/secrets/g2b-api-key''"

definition APIKeys :: "config \<Rightarrow> key_store" where
  "APIKeys c = \<lparr>ks_path = cf_api_key_file c, ks_fallback = cf_api_key c\<rparr>"

definition validBaseURL :: "config_env \<Rightarrow> url \<Rightarrow> bool \<Rightarrow> bool" where
  "validBaseURL X u https \<longleftrightarrow>
     ur_host u \<noteq> [] \<and> ur_user u = None \<and> ur_fragment u = [] \<and> ur_query u = [] \<and> \<not> ur_force_query u \<and>
     (if https then cx_fold_eq X (ur_scheme u) ''https''
      else cx_fold_eq X (ur_scheme u) ''http'' \<or> cx_fold_eq X (ur_scheme u) ''https'') \<and>
     (ur_escaped u = [] \<or> ur_escaped u = ''/'')"

definition base_ok :: "config_env \<Rightarrow> config \<Rightarrow> bool \<Rightarrow> bool" where
  "base_ok X c https = (case cx_url X (cf_base_url c) of None \<Rightarrow> False | Some u \<Rightarrow> validBaseURL X u https)"

definition parse_port :: "string \<Rightarrow> int option" where
  "parse_port s = (case parse_int64 s of None \<Rightarrow> None | Some p \<Rightarrow> if p < 1 \<or> 65535 < p then None else Some p)"

definition settings :: "(string \<Rightarrow> string option) \<Rightarrow> config" where
  "settings lookup =
     \<lparr>cf_database = setting lookup ''DATABASE_URL'' [], cf_migration = setting lookup ''MIGRATION_DATABASE_URL'' [],
      cf_api_key = setting lookup ''G2B_API_KEY'' [], cf_api_key_file = setting lookup ''G2B_API_KEY_FILE'' defaultAPIKeyFile,
      cf_smtp_host = setting lookup ''SMTP_HOST'' [], cf_smtp_port = 0, cf_smtp_user = setting lookup ''SMTP_USER'' [],
      cf_smtp_password = setting lookup ''SMTP_PASSWORD'' [], cf_smtp_from = setting lookup ''SMTP_FROM'' [],
      cf_base_url = setting lookup ''BASE_URL'' ''http://127.0.0.1:8080'', cf_session_key = setting lookup ''SESSION_KEY'' [],
      cf_listen = setting lookup ''LISTEN_ADDR'' ''127.0.0.1:8080'', cf_time_zone = setting lookup ''TIME_ZONE'' ''Asia/Seoul'',
      cf_delivery = setting lookup ''DELIVERY_MODE'' ''report'', cf_report_dir = setting lookup ''REPORT_DIR'' []\<rparr>"

definition LoadConfig :: "config_env \<Rightarrow> (string \<Rightarrow> string option) \<Rightarrow> config res" where
  "LoadConfig X lookup =
     (case parse_port (setting lookup ''SMTP_PORT'' ''587'') of
        None \<Rightarrow> Inl (ErrText ''SMTP_PORT must be a number from 1 to 65535'')
      | Some port \<Rightarrow>
          let c = (settings lookup)\<lparr>cf_smtp_port := port\<rparr> in
          if trim_space (cf_database c) = [] then Inl (ErrText ''DATABASE_URL is required'')
          else if length (cf_session_key c) < 32 then Inl (ErrText ''SESSION_KEY must contain at least 32 characters'')
          else if \<not> base_ok X c False
            then Inl (ErrText ''BASE_URL must be an absolute HTTP(S) origin without credentials, path, query, or fragment'')
          else Inr c)"

section \<open>What a command needs\<close>

text \<open>\<open>hasParentDirectory\<close> looks at the pieces between separators.\<close>

fun parent_loop :: "string \<Rightarrow> string \<Rightarrow> bool" where
  "parent_loop piece [] = (piece = ''..'')"
| "parent_loop piece (c # cs) = (if c = slash then piece = ''..'' \<or> parent_loop [] cs else parent_loop (piece @ [c]) cs)"

definition hasParentDirectory :: "string \<Rightarrow> bool" where
  "hasParentDirectory p = parent_loop [] p"

definition validateReportDelivery :: "config \<Rightarrow> string \<Rightarrow> goerr option" where
  "validateReportDelivery c command =
     (if cf_delivery c \<noteq> ''report'' then Some (ErrText (''DELIVERY_MODE must be report for '' @ command))
      else if cf_report_dir c = [] \<or> \<not> IsAbs (cf_report_dir c) \<or> hasParentDirectory (cf_report_dir c)
        then Some (ErrText (''REPORT_DIR must be a safe absolute directory for '' @ command))
      else let directory = Clean (cf_report_dir c) in
        if Dir directory = directory then Some (ErrText (''REPORT_DIR must not be a filesystem root for '' @ command))
        else None)"

definition validPlainMailbox :: "config_env \<Rightarrow> string \<Rightarrow> bool" where
  "validPlainMailbox X v0 =
     (let v = trim_space v0 in v \<noteq> [] \<and> \<not> contains_any v [CHR 0x0D, CHR 0x0A] \<and> cx_address X v = Some v)"

text \<open>\<open>net.SplitHostPort\<close>: the port follows the last colon; a host with colons stands in brackets.\<close>

definition SplitHostPort :: "string \<Rightarrow> (string \<times> string) option" where
  "SplitHostPort s =
     (case cut_last CHR '':'' s of
        None \<Rightarrow> None
      | Some (host, port) \<Rightarrow>
          if s \<noteq> [] \<and> hd s = CHR ''['' then
            (if 2 \<le> length host \<and> last host = CHR '']'' \<and> CHR '']'' \<notin> set (butlast host) \<and>
                CHR ''['' \<notin> set (tl s) \<and> CHR '']'' \<notin> set port
             then Some (tl (butlast host), port) else None)
          else if CHR '':'' \<in> set host \<or> CHR ''['' \<in> set s \<or> CHR '']'' \<in> set s then None
          else Some (host, port))"

definition validateLoopbackListener :: "config_env \<Rightarrow> string \<Rightarrow> goerr option" where
  "validateLoopbackListener X address =
     (case SplitHostPort (trim_space address) of
        None \<Rightarrow> Some (ErrText ''LISTEN_ADDR must be a loopback host and port'')
      | Some (host, port) \<Rightarrow>
          if host = [] \<or> port = [] then Some (ErrText ''LISTEN_ADDR must be a loopback host and port'')
          else if parse_port port = None then Some (ErrText ''LISTEN_ADDR must use a loopback address and port from 1 to 65535'')
          else if cx_fold_eq X host ''localhost'' then None
          else if \<not> cx_loopback X host then Some (ErrText ''LISTEN_ADDR must use a loopback address'')
          else None)"

definition sameDatabaseRole :: "config_env \<Rightarrow> string \<Rightarrow> string \<Rightarrow> bool" where
  "sameDatabaseRole X left0 right0 =
     (let left = trim_space left0; right = trim_space right0 in
      if left = right then True
      else (case (cx_url X left, cx_url X right) of
          (Some a, Some b) \<Rightarrow>
            ur_scheme a \<noteq> [] \<and> ur_scheme b \<noteq> [] \<and> ur_user a \<noteq> None \<and> ur_user b \<noteq> None \<and>
            cx_fold_eq X (ur_scheme a) (ur_scheme b) \<and> cx_fold_eq X (ur_host a) (ur_host b) \<and>
            ur_path a = ur_path b \<and> ur_user a = ur_user b
        | _ \<Rightarrow> False))"

definition ValidateCommand :: "config_env \<Rightarrow> config \<Rightarrow> string \<Rightarrow> goerr option" where
  "ValidateCommand X c command =
     (if command = ''serve'' then
        (case validateReportDelivery c command of
           Some e \<Rightarrow> Some e
         | None \<Rightarrow> if \<not> base_ok X c True then Some (ErrText ''BASE_URL must be an absolute HTTPS origin for serve'')
                   else validateLoopbackListener X (cf_listen c))
      else if command = ''collect-once'' then None
      else if command = ''send-test-mail'' then
        (if trim_space (cf_smtp_host c) = [] then Some (ErrText ''SMTP_HOST is required for send-test-mail'')
         else if \<not> validPlainMailbox X (cf_smtp_from c)
           then Some (ErrText ''SMTP_FROM must be a plain email address for send-test-mail'')
         else None)
      else if command = ''generate-report'' then validateReportDelivery c command
      else if command = ''migrate'' \<or> command = ''create-admin'' then
        (if trim_space (cf_migration c) = [] then Some (ErrText (''MIGRATION_DATABASE_URL is required for '' @ command))
         else if sameDatabaseRole X (cf_migration c) (cf_database c)
           then Some (ErrText ''MIGRATION_DATABASE_URL must use different owner credentials from DATABASE_URL'')
         else None)
      else Some (ErrText (''unknown command '' @ command)))"

section \<open>The command line\<close>

text \<open>What the process prints, and its exit code; messages of errors are kept as the error.\<close>

datatype cli_line = Usage | MailDisabled | UnknownCommand string | BadConfig goerr | NoExecutor | ReportFailed
  | CommandFailed string goerr | CommandDone string

definition commands :: "string list" where
  "commands = [''serve'', ''migrate'', ''create-admin'', ''collect-once'', ''send-test-mail'', ''generate-report'']"

text \<open>The lines on both streams, in order, the exit code, and the state after the command.\<close>

definition Run_cli ::
  "config_env \<Rightarrow> string list \<Rightarrow> (string \<Rightarrow> string option) \<Rightarrow>
   (string \<Rightarrow> config \<Rightarrow> string list \<Rightarrow> 's \<Rightarrow> goerr option \<times> 's) option \<Rightarrow> 's \<Rightarrow> cli_line list \<times> int \<times> 's" where
  "Run_cli X args lookup execute s =
     (case args of
        [] \<Rightarrow> ([Usage], 2, s)
      | command # rest \<Rightarrow>
          if command = ''send-test-mail'' then ([MailDisabled], 1, s)
          else if command \<notin> set commands then ([UnknownCommand command, Usage], 2, s)
          else (case LoadConfig X lookup of
              Inl e \<Rightarrow> ([BadConfig e], 1, s)
            | Inr c \<Rightarrow>
                (case ValidateCommand X c command of
                   Some e \<Rightarrow> ([BadConfig e], 1, s)
                 | None \<Rightarrow>
                     (case execute of
                        None \<Rightarrow> ([NoExecutor], 1, s)
                      | Some run \<Rightarrow>
                          (case run command c rest s of
                             (Some e, s') \<Rightarrow> ([if command = ''generate-report'' then ReportFailed else CommandFailed command e], 1, s')
                           | (None, s') \<Rightarrow>
                               (if command \<noteq> ''serve'' \<and> command \<noteq> ''generate-report'' then [CommandDone command] else [], 0, s'))))))"

end
