(* ===== verification/Onboarding.thy ===== *)
theory Onboarding
  imports App_Config Invitations Auth_Handler Web_Handler
begin

text \<open>
  internal/app/onboarding.go and interactive_mail.go: the invitation service between the web surface and
  the store of invitations, and the sending of mail with a bounded number of attempts. The production
  wiring sets no onboarding; the service stands for operator tooling and for the web interface
  \<open>Onboarding\<close> that it implements. Deadlines of the contexts appear as errors of the calls.
\<close>

section \<open>Checks\<close>

definition bad_name :: goerr where "bad_name = ErrText ''a valid name is required''"
definition bad_mailbox :: goerr where "bad_mailbox = ErrText ''a plain email address is required''"
definition bad_base_url :: goerr where "bad_base_url = ErrText ''valid BASE_URL is required for invitations''"

definition invitationName :: "string \<Rightarrow> string res" where
  "invitationName v0 =
     (let v = trim_space v0 in
      if v = [] \<or> \<not> valid_utf8 v \<or> 512 < length v \<or> list_ex is_control (map fst (runes v)) then Inl bad_name else Inr v)"

text \<open>\<open>oe_show\<close> is \<open>URL.String()\<close> and \<open>oe_escape\<close> is \<open>url.QueryEscape\<close>.\<close>

record 's onboard_env =
  oe_auth :: "'s auth_env"
  oe_store :: bool
  oe_create_tenant :: "tenant_invitation \<Rightarrow> 's \<Rightarrow> unit res \<times> 's"
  oe_create_member :: "member_invitation \<Rightarrow> 's \<Rightarrow> unit res \<times> 's"
  oe_lookup :: "string \<Rightarrow> 's \<Rightarrow> invitation_record res \<times> 's"
  oe_accept :: "string \<Rightarrow> string \<Rightarrow> string \<Rightarrow> 's \<Rightarrow> unit res \<times> 's"
  oe_base :: string
  oe_url :: "string \<Rightarrow> url option"
  oe_show :: "url \<Rightarrow> string"
  oe_escape :: "string \<Rightarrow> string"

definition invitation_base :: "url \<Rightarrow> bool" where
  "invitation_base u \<longleftrightarrow>
     ur_host u \<noteq> [] \<and> ur_user u = None \<and> ur_scheme u = ''https'' \<and> ur_fragment u = [] \<and> ur_query u = [] \<and>
     \<not> ur_force_query u \<and> (ur_escaped u = [] \<or> ur_escaped u = ''/'')"

definition accept_path :: "string \<Rightarrow> string" where
  "accept_path p = rev (dropWhile (\<lambda>c. c = CHR ''/'') (rev p)) @ ''/accept-invite''"

definition invitationURL :: "'s onboard_env \<Rightarrow> string \<Rightarrow> string res" where
  "invitationURL N token =
     (case oe_url N (trim_space (oe_base N)) of
        None \<Rightarrow> Inl bad_base_url
      | Some u \<Rightarrow>
          if \<not> invitation_base u \<or> \<not> ValidInvitationToken token then Inl bad_base_url
          else Inr (oe_show N (u\<lparr>ur_path := accept_path (ur_path u), ur_escaped := accept_path (ur_path u), ur_query := [],
                 ur_fragment := ''token='' @ oe_escape N token\<rparr>)))"

definition hours_48 :: duration where "hours_48 = 48 * hour_ns"

text \<open>\<open>prepareInvitation\<close>: the link, the hash of its token and the end of its validity.\<close>

definition prepareInvitation :: "'s onboard_env \<Rightarrow> 's \<Rightarrow> (string \<times> string \<times> time) res \<times> 's" where
  "prepareInvitation N s =
     (if \<not> oe_store N then (Inl (ErrText ''invitation store is not configured''), s)
      else (case au_random (oe_auth N) s of
        (random, s1) \<Rightarrow>
          (case NewInvitationToken (au_sha (oe_auth N)) random of
             Inl e \<Rightarrow> (Inl (ErrText ''could not create invitation token''), s1)
           | Inr (token, h) \<Rightarrow>
               (case invitationURL N token of
                  Inl e \<Rightarrow> (Inl e, s1)
                | Inr link \<Rightarrow> (Inr (link, h, au_now (oe_auth N) s1 + hours_48), s1)))))"

section \<open>Inviting\<close>

record tenant_invite =
  tq_name :: string
  tq_contact :: string
  tq_admin :: string
  tq_admin_email :: string

record member_invite =
  mq_name :: string
  mq_email :: string
  mq_role :: string

definition mailbox :: "'s onboard_env \<Rightarrow> string \<Rightarrow> string res" where
  "mailbox N raw = (case normalizeMailbox (oe_auth N) raw of None \<Rightarrow> Inl bad_mailbox | Some m \<Rightarrow> Inr m)"

definition and_also :: "'a res \<Rightarrow> ('a \<Rightarrow> 's \<Rightarrow> 'b res \<times> 's) \<Rightarrow> 's \<Rightarrow> 'b res \<times> 's" where
  "and_also r k s = (case r of Inl e \<Rightarrow> (Inl e, s) | Inr a \<Rightarrow> k a s)"

definition created :: "string \<Rightarrow> string \<Rightarrow> time \<Rightarrow> unit res \<times> 's \<Rightarrow> (string \<times> time) res \<times> 's" where
  "created msg link expires = (\<lambda>(r, s). (case r of Inl e \<Rightarrow> Inl (ErrWrap msg e) | Inr u \<Rightarrow> Inr (link, expires), s))"

definition InviteTenant :: "'s onboard_env \<Rightarrow> request_context \<Rightarrow> tenant_invite \<Rightarrow> 's \<Rightarrow> (string \<times> time) res \<times> 's" where
  "InviteTenant N rc c =
     (if wc_role rc \<noteq> PlatformAdmin \<or> wc_user rc = [] then Pair (Inl (ErrText ''platform administrator role is required''))
      else and_also (invitationName (tq_name c)) (\<lambda>name.
        and_also (invitationName (tq_admin c)) (\<lambda>admin.
        and_also (mailbox N (tq_contact c)) (\<lambda>contact.
        and_also (mailbox N (tq_admin_email c)) (\<lambda>email s.
          (case prepareInvitation N s of
             (Inl e, s1) \<Rightarrow> (Inl e, s1)
           | (Inr (link, h, expires), s1) \<Rightarrow>
               created ''create tenant invitation'' link expires (oe_create_tenant N
                 \<lparr>ti_actor = wc_user rc, ti_tenant_name = name, ti_contact = contact, ti_admin_name = admin, ti_admin_email = email,
                  ti_role = TenantAdmin, ti_hash = h, ti_expires = expires\<rparr> s1)))))))"

definition InviteMember :: "'s onboard_env \<Rightarrow> request_context \<Rightarrow> member_invite \<Rightarrow> 's \<Rightarrow> (string \<times> time) res \<times> 's" where
  "InviteMember N rc c =
     (if wc_role rc \<noteq> TenantAdmin \<or> wc_user rc = [] \<or> wc_tenant rc = [] then Pair (Inl (ErrText ''tenant administrator role is required''))
      else and_also (invitationName (mq_name c)) (\<lambda>name.
        and_also (mailbox N (mq_email c)) (\<lambda>email s.
          if mq_role c \<noteq> Member \<and> mq_role c \<noteq> TenantAdmin
          then (Inl (ErrText ''invitation role must be member or tenant_admin''), s)
          else (case prepareInvitation N s of
             (Inl e, s1) \<Rightarrow> (Inl e, s1)
           | (Inr (link, h, expires), s1) \<Rightarrow>
               created ''create member invitation'' link expires (oe_create_member N
                 \<lparr>mi_actor = wc_user rc, mi_tenant = wc_tenant rc, mi_name = name, mi_email = email, mi_role = mq_role c,
                  mi_hash = h, mi_expires = expires\<rparr> s1)))))"

section \<open>Accepting\<close>

definition Invitation :: "'s onboard_env \<Rightarrow> string \<Rightarrow> 's \<Rightarrow> invitation_view res \<times> 's" where
  "Invitation N token s =
     (if \<not> oe_store N \<or> \<not> ValidInvitationToken token then (Inl (Sentinel ErrNoInvitation), s)
      else (case oe_lookup N (HashInvitationToken (au_sha (oe_auth N)) token) s of
         (Inl e, s1) \<Rightarrow> (Inl e, s1)
       | (Inr r, s1) \<Rightarrow>
           (Inr \<lparr>vi_tenant = ir_tenant_name r, vi_email = ir_email r, vi_display = ir_display r, vi_role = ir_role r,
              vi_expires = ir_expires r\<rparr>, s1)))"

definition AcceptInvite :: "'s onboard_env \<Rightarrow> accept_command \<Rightarrow> 's \<Rightarrow> unit res \<times> 's" where
  "AcceptInvite N c s =
     (if \<not> oe_store N \<or> \<not> ValidInvitationToken (xc_token c) then (Inl (Sentinel ErrNoInvitation), s)
      else case invitationName (xc_display c) of
        Inl e \<Rightarrow> (Inl e, s)
      | Inr name \<Rightarrow>
          if \<not> valid_utf8 (xc_password c) \<or> length (xc_password c) < 12 \<or> 72 < length (xc_password c)
          then (Inl (ErrText ''password must contain 12 to 72 UTF-8 bytes''), s)
          else (let h = HashInvitationToken (au_sha (oe_auth N)) (xc_token c) in
            case oe_lookup N h s of
              (Inl e, s1) \<Rightarrow> (Inl e, s1)
            | (Inr r, s1) \<Rightarrow>
                (case au_hash_password (oe_auth N) (xc_password c) s1 of
                   (Inl e, s2) \<Rightarrow> (Inl (ErrText ''could not secure invitation password''), s2)
                 | (Inr p, s2) \<Rightarrow> oe_accept N h name p s2)))"

text \<open>The service as the web surface sees it.\<close>

definition onboarding :: "'s onboard_env \<Rightarrow> 's web_onboarding" where
  "onboarding N = \<lparr>wo_invitation = (\<lambda>t s. Some (Invitation N t s)), wo_accept = (\<lambda>c s. Some (AcceptInvite N c s))\<rparr>"

section \<open>Mail with retries\<close>

record mail_policy =
  mp_attempts :: int
  mp_total :: duration
  mp_attempt :: duration

definition interactiveMailRetryPolicy :: mail_policy where
  "interactiveMailRetryPolicy = \<lparr>mp_attempts = 3, mp_total = 45 * second_ns, mp_attempt = 12 * second_ns\<rparr>"

text \<open>One attempt gives the error of the mailer and the error of the context of the attempt.\<close>

record 's mail_run =
  mx_ctx :: "'s \<Rightarrow> goerr option"
  mx_overall :: "'s \<Rightarrow> goerr option"
  mx_send :: "string \<Rightarrow> string \<Rightarrow> string \<Rightarrow> 's \<Rightarrow> (goerr option \<times> goerr option) \<times> 's"

fun mail_attempts :: "'s mail_run \<Rightarrow> string \<Rightarrow> string \<Rightarrow> string \<Rightarrow> nat \<Rightarrow> goerr option \<Rightarrow> 's \<Rightarrow> goerr option \<times> 's" where
  "mail_attempts M sender to msg 0 err s = (err, s)"
| "mail_attempts M sender to msg (Suc n) err s =
     (case mx_overall M s of
        Some e \<Rightarrow> (Some e, s)
      | None \<Rightarrow>
         (case mx_send M sender to msg s of
            ((None, a), s1) \<Rightarrow> (None, s1)
          | ((Some e, a), s1) \<Rightarrow>
             (case mx_overall M s1 of
                Some o' \<Rightarrow> (Some o', s1)
              | None \<Rightarrow> mail_attempts M sender to msg n (Some (case a of Some x \<Rightarrow> x | None \<Rightarrow> e)) s1)))"

definition sendMailWithRetry ::
  "'s mail_run option \<Rightarrow> string \<Rightarrow> string \<Rightarrow> string \<Rightarrow> mail_policy \<Rightarrow> 's \<Rightarrow> goerr option \<times> 's" where
  "sendMailWithRetry mailer sender to msg P s =
     (case mailer of
        None \<Rightarrow> (Some (ErrText ''mailer is not configured''), s)
      | Some M \<Rightarrow>
          if mp_attempts P < 1 \<or> mp_total P \<le> 0 \<or> mp_attempt P \<le> 0 then (Some (ErrText ''valid mail retry policy is required''), s)
          else (case mx_ctx M s of
             Some e \<Rightarrow> (Some e, s)
           | None \<Rightarrow> mail_attempts M sender to msg (nat (mp_attempts P)) None s))"

definition ErrInvitationMail :: string where "ErrInvitationMail = ''invitation was saved but mail delivery failed''"

text \<open>\<open>fmt.Errorf("%w: %w")\<close> is both errors.\<close>

definition sendInvitationWithPolicy ::
  "'s mail_run option \<Rightarrow> string \<Rightarrow> string \<Rightarrow> string \<Rightarrow> mail_policy \<Rightarrow> 's \<Rightarrow> goerr option \<times> 's" where
  "sendInvitationWithPolicy mailer sender to msg P s =
     (case mailer of
        None \<Rightarrow> (Some (Sentinel ErrInvitationMail), s)
      | Some M \<Rightarrow>
          (case sendMailWithRetry mailer sender to msg P s of
             (None, s1) \<Rightarrow> (None, s1)
           | (Some e, s1) \<Rightarrow> (Some (ErrJoin [Sentinel ErrInvitationMail, e]), s1)))"

end
