(* ===== verification/Runtime.thy ===== *)
theory Runtime
  imports App_Config Migrations Accounts Auth_Handler Scheduler Onboarding Report_Runner Digest
begin

text \<open>
  internal/app/runtime.go, postgres_security.go: the commands of the program and how they are put
  together. The factories of \<open>Runtime\<close> are functions on the state \<open>'s\<close>; opening a connection pool gives
  an error or nothing. The sockets and goroutines of \<open>serve\<close> are not modelled, only what it builds.
\<close>

section \<open>Flags\<close>

text \<open>\<open>flag.FlagSet.Parse\<close> of string and boolean flags: the values set, in order, and the rest.\<close>

datatype flag_kind = TextFlag | BoolFlag

definition parse_bool :: "string \<Rightarrow> bool option" where
  "parse_bool v =
     (if v \<in> {''1'', ''t'', ''T'', ''TRUE'', ''true'', ''True''} then Some True
      else if v \<in> {''0'', ''f'', ''F'', ''FALSE'', ''false'', ''False''} then Some False else None)"

text \<open>The name after one or two dashes; \<open>None\<close> where the flags end.\<close>

definition flag_body :: "string \<Rightarrow> string option" where
  "flag_body s =
     (if length s < 2 \<or> hd s \<noteq> CHR ''-'' then None
      else if s ! 1 = CHR ''-'' then Some (drop 2 s) else Some (drop 1 s))"

definition flag_name :: "string \<Rightarrow> string" where
  "flag_name b = (case b of [] \<Rightarrow> [] | c # cs \<Rightarrow> c # takeWhile (\<lambda>x. x \<noteq> CHR ''='') cs)"

definition flag_value :: "string \<Rightarrow> string option" where
  "flag_value b = (let r = drop (length (flag_name b)) b in if r = [] then None else Some (tl r))"

fun parse_flags :: "(string \<times> flag_kind) list \<Rightarrow> string list \<Rightarrow> ((string \<times> string) list \<times> string list) res" where
  "parse_flags fs [] = Inr ([], [])"
| "parse_flags fs (s # args) =
     (case flag_body s of
        None \<Rightarrow> Inr ([], s # args)
      | Some b \<Rightarrow>
          if s = ''--'' then Inr ([], args)
          else if b = [] \<or> hd b = CHR ''-'' \<or> hd b = CHR ''='' then Inl (ErrText (''bad flag syntax: '' @ s))
          else let name = flag_name b in
            (case map_of fs name of
               None \<Rightarrow> if name = ''help'' \<or> name = ''h'' then Inl (Sentinel ''flag: help requested'')
                       else Inl (ErrText (''flag provided but not defined: -'' @ name))
             | Some BoolFlag \<Rightarrow>
                 (case flag_value b of
                    None \<Rightarrow> map_sum id (apfst ((#) (name, ''true''))) (parse_flags fs args)
                  | Some v \<Rightarrow>
                      if parse_bool v = None then Inl (ErrText (''invalid boolean value '' @ v @ '' for -'' @ name))
                      else map_sum id (apfst ((#) (name, v))) (parse_flags fs args))
             | Some TextFlag \<Rightarrow>
                 (case flag_value b of
                    Some v \<Rightarrow> map_sum id (apfst ((#) (name, v))) (parse_flags fs args)
                  | None \<Rightarrow>
                      (case args of
                         [] \<Rightarrow> Inl (ErrText (''flag needs an argument: -'' @ name))
                       | v # rest \<Rightarrow> map_sum id (apfst ((#) (name, v))) (parse_flags fs rest)))))"

text \<open>The last value of a flag wins.\<close>

definition flag_text :: "(string \<times> string) list \<Rightarrow> string \<Rightarrow> string" where
  "flag_text vs k = (case map_of (rev vs) k of None \<Rightarrow> [] | Some v \<Rightarrow> v)"

definition flag_set :: "(string \<times> string) list \<Rightarrow> string \<Rightarrow> bool" where
  "flag_set vs k = (case map_of (rev vs) k of None \<Rightarrow> False | Some v \<Rightarrow> parse_bool v = Some True)"

section \<open>Creating an administrator\<close>

record create_admin_options =
  ca_email :: string
  ca_name :: string

definition create_admin_flags :: "(string \<times> flag_kind) list" where
  "create_admin_flags = [(''email'', TextFlag), (''name'', TextFlag), (''password-file'', TextFlag), (''password-stdin'', BoolFlag)]"

text \<open>\<open>readPassword\<close> of a reader that yields some bytes or fails.\<close>

definition readPassword :: "string res \<Rightarrow> string res" where
  "readPassword reader =
     (case reader of
        Inl e \<Rightarrow> Inl (ErrWrap ''read password'' e)
      | Inr raw \<Rightarrow>
          if 1024 < length raw then Inl (ErrText ''password input is too large'')
          else let password = trim_suffix (trim_suffix raw [CHR 0x0A]) [CHR 0x0D] in
            if contains_any password [CHR 0x0D, CHR 0x0A] then Inl (ErrText ''password must be a single line'')
            else if rune_count password < 12 then Inl (ErrText ''password must contain at least 12 characters'')
            else if 72 < length password then Inl (ErrText ''password must contain at most 72 UTF-8 bytes'')
            else Inr password)"

definition bad_login :: goerr where "bad_login = ErrText ''an email address or 3-64 character username is required''"

definition parseCreateAdminOptions ::
  "'s auth_env \<Rightarrow> string list \<Rightarrow> string res option \<Rightarrow> (string \<Rightarrow> string res res) option \<Rightarrow> (create_admin_options \<times> string) res" where
  "parseCreateAdminOptions A args input openFile =
     (case parse_flags create_admin_flags args of
        Inl e \<Rightarrow> Inl (ErrWrap ''create-admin options'' e)
      | Inr (vs, rest) \<Rightarrow>
          if rest \<noteq> [] then Inl (ErrText ''create-admin does not accept positional arguments'')
          else (case normalizeLoginIdentifier A (flag_text vs ''email'') of
              None \<Rightarrow> Inl (ErrWrap ''login'' bad_login)
            | Some email \<Rightarrow>
                let name = trim_space (flag_text vs ''name''); passwordFile = flag_text vs ''password-file'' in
                if 120 < rune_count name then Inl (ErrText ''name must contain at most 120 characters'')
                else if flag_set vs ''password-stdin'' = (trim_space passwordFile \<noteq> [])
                  then Inl (ErrText ''exactly one of --password-stdin or --password-file is required'')
                else map_sum id (Pair \<lparr>ca_email = email, ca_name = name\<rparr>)
                  (if flag_set vs ''password-stdin''
                   then (case input of None \<Rightarrow> Inl (ErrText ''password stdin is unavailable'') | Some r \<Rightarrow> readPassword r)
                   else (case openFile of
                       None \<Rightarrow> Inl (ErrText ''password file reader is unavailable'')
                     | Some f \<Rightarrow>
                         (case f passwordFile of
                            Inl e \<Rightarrow> Inl (ErrWrap ''open password file'' e)
                          | Inr r \<Rightarrow> readPassword r)))))"

definition insertPlatformAdmin ::
  "account_env \<Rightarrow> (string \<Rightarrow> string res) \<Rightarrow> create_admin_options \<Rightarrow> string \<Rightarrow> (accounts, unit) sql" where
  "insertPlatformAdmin R secure o' password =
     (if \<not> db_set (ae_db R) then sql_fail (ErrText ''administrator database is not configured'')
      else case secure password of
        Inl e \<Rightarrow> sql_fail (ErrWrap ''hash administrator password'' e)
      | Inr h \<Rightarrow> sql_wrap ''create platform administrator'' (change R (\<lambda>n t.
          insert_user \<lparr>u_id = uuid_at (ae_db R) n 0, u_tenant = None, u_email = ca_email o', u_display = ca_name o', u_password = h,
            u_role = PlatformAdmin, u_created = clock_at (ae_db R) n\<rparr> t)))"

text \<open>The commands; \<open>pool\<close> is the error of opening the connection pool.\<close>

definition createAdmin ::
  "account_env \<Rightarrow> 's auth_env \<Rightarrow> (string \<Rightarrow> string res) \<Rightarrow> string res option \<Rightarrow> (string \<Rightarrow> string res res) option \<Rightarrow>
   goerr option \<Rightarrow> string list \<Rightarrow> (accounts, unit) sql" where
  "createAdmin R A secure input openFile pool args =
     (case parseCreateAdminOptions A args input openFile of
        Inl e \<Rightarrow> sql_fail e
      | Inr (o', password) \<Rightarrow> (case pool of Some e \<Rightarrow> sql_fail e | None \<Rightarrow> insertPlatformAdmin R secure o' password))"

section \<open>Other commands\<close>

definition rejectCommandArguments :: "string \<Rightarrow> string list \<Rightarrow> goerr option" where
  "rejectCommandArguments command args = (if args \<noteq> [] then Some (ErrText (command @ '' does not accept arguments'')) else None)"

definition migrate_command ::
  "dbenv \<Rightarrow> (string \<Rightarrow> string) \<Rightarrow> (string \<Rightarrow> 'x \<Rightarrow> goerr + 'x) \<Rightarrow> embedded list res \<Rightarrow> goerr option \<Rightarrow> string list \<Rightarrow>
   ('x database, unit) sql" where
  "migrate_command E sha exec dir pool args =
     (case rejectCommandArguments ''migrate'' args of
        Some e \<Rightarrow> sql_fail e
      | None \<Rightarrow>
         (case pool of
            Some e \<Rightarrow> sql_fail e
          | None \<Rightarrow>
             (case All dir of
                Inl e \<Rightarrow> sql_fail e
              | Inr ms \<Rightarrow> sql_wrap ''apply PostgreSQL migrations'' (ApplyMigrations E sha exec ms))))"

text \<open>What the roles of PostgreSQL say of the current user.\<close>

record db_role =
  dr_name :: string
  dr_super :: bool
  dr_bypassrls :: bool
  dr_createrole :: bool
  dr_createdb :: bool
  dr_replication :: bool
  dr_runtime :: bool

definition VerifyMigrationRole :: "db_role res option \<Rightarrow> goerr option" where
  "VerifyMigrationRole db =
     (case db of
        None \<Rightarrow> Some (ErrText ''PostgreSQL superuser migration database is required'')
      | Some (Inl e) \<Rightarrow> Some (ErrWrap ''verify PostgreSQL superuser migration role'' e)
      | Some (Inr r) \<Rightarrow>
          if \<not> dr_super r then Some (ErrText (''database role '' @ dr_name r @ '' is not a PostgreSQL superuser required for migrations''))
          else None)"

definition safe_role :: "db_role \<Rightarrow> bool" where
  "safe_role r \<longleftrightarrow> \<not> (dr_super r \<or> dr_bypassrls r \<or> dr_createrole r \<or> dr_createdb r \<or> dr_replication r)"

definition VerifyRuntimeRole :: "db_role res option \<Rightarrow> goerr option" where
  "VerifyRuntimeRole db =
     (case db of
        None \<Rightarrow> Some (ErrText ''runtime database is required'')
      | Some (Inl e) \<Rightarrow> Some (ErrWrap ''verify runtime database role'' e)
      | Some (Inr r) \<Rightarrow>
          if \<not> safe_role r \<or> \<not> dr_runtime r
          then Some (ErrText (''database role '' @ dr_name r @ '' is not a safe NOBYPASSRLS namo_runtime user'')) else None)"

type_synonym 's collection_runner = "'s \<Rightarrow> ((collection_result \<times> goerr option) \<times> 's) option"

text \<open>\<open>collectionWithAPIKey\<close>: the key is read for each run.\<close>

definition collectionWithAPIKey ::
  "config \<Rightarrow> (key_store \<Rightarrow> 's \<Rightarrow> (string res \<times> 's) option) \<Rightarrow> (config \<Rightarrow> 's collection_runner) \<Rightarrow> collection_result \<Rightarrow>
   's collection_runner" where
  "collectionWithAPIKey c read run zero s =
     do { (key, s1) \<leftarrow> read (APIKeys c) s;
          (case key of Inl e \<Rightarrow> Some ((zero, Some e), s1) | Inr k \<Rightarrow> run (c\<lparr>cf_api_key := k\<rparr>) s1) }"

datatype 'a factory = Unset | Build "'a option res"

text \<open>A factory that is set, gives no error and a value.\<close>

definition built :: "string \<Rightarrow> string \<Rightarrow> string \<Rightarrow> 'a factory \<Rightarrow> 'a res" where
  "built unset wrap none f =
     (case f of
        Unset \<Rightarrow> Inl (ErrText unset)
      | Build (Inl e) \<Rightarrow> Inl (if wrap = [] then e else ErrWrap wrap e)
      | Build (Inr None) \<Rightarrow> Inl (ErrText none)
      | Build (Inr (Some a)) \<Rightarrow> Inr a)"

definition collectOnce ::
  "goerr option \<Rightarrow> 's collection_runner factory \<Rightarrow> string list \<Rightarrow> 's \<Rightarrow> (collection_result res \<times> 's) option" where
  "collectOnce pool factory args s =
     (case rejectCommandArguments ''collect-once'' args of
        Some e \<Rightarrow> Some (Inl e, s)
      | None \<Rightarrow>
         (case pool of
            Some e \<Rightarrow> Some (Inl e, s)
          | None \<Rightarrow>
             (case built ''collection runner factory is not configured'' ''build collection runner''
                 ''collection runner factory returned no runner'' factory of
                Inl e \<Rightarrow> Some (Inl e, s)
              | Inr run \<Rightarrow> map_option (\<lambda>((r, e), s1). (case e of None \<Rightarrow> Inr r | Some x \<Rightarrow> Inl x, s1)) (run s))))"

section \<open>Reports from the command line\<close>

definition parseGenerateReportOptions :: "(string \<Rightarrow> string option) \<Rightarrow> string list \<Rightarrow> string res" where
  "parseGenerateReportOptions uuid args =
     (case parse_flags [(''tenant'', TextFlag)] args of
        Inl e \<Rightarrow> Inl (ErrWrap ''generate-report options'' e)
      | Inr (vs, rest) \<Rightarrow>
          if rest \<noteq> [] then Inl (ErrText ''generate-report does not accept positional arguments'')
          else (case uuid (trim_space (flag_text vs ''tenant'')) of
              None \<Rightarrow> Inl (ErrText ''generate-report --tenant must be a UUID'')
            | Some i \<Rightarrow> Inr i))"

text \<open>The store of the report files is closed after its use; both errors are joined.\<close>

definition withReportFileStore ::
  "(string \<Rightarrow> 's \<Rightarrow> 'f res \<times> 's) \<Rightarrow> ('f \<Rightarrow> 's \<Rightarrow> goerr option \<times> 's) \<Rightarrow> string \<Rightarrow>
   ('f \<Rightarrow> 's \<Rightarrow> (goerr option \<times> 's) option) \<Rightarrow> 's \<Rightarrow> (goerr option \<times> 's) option" where
  "withReportFileStore open close root run s =
     (case open root s of
        (Inl e, s1) \<Rightarrow> Some (Some e, s1)
      | (Inr store, s1) \<Rightarrow>
          do { (e, s2) \<leftarrow> run store s1;
               (case close store s2 of (c, s3) \<Rightarrow> Some (errors_join [e, c], s3)) })"

definition report_not_generated :: goerr where
  "report_not_generated = ErrText
       [CHR 0xEB, CHR 0xA6, CHR 0xAC, CHR 0xED, CHR 0x8F, CHR 0xAC, CHR 0xED, CHR 0x8A, CHR 0xB8,
        CHR 0xEB, CHR 0xA5, CHR 0xBC, CHR 0x20, CHR 0xEC, CHR 0x83, CHR 0x9D, CHR 0xEC, CHR 0x84,
        CHR 0xB1, CHR 0xED, CHR 0x95, CHR 0x98, CHR 0xEC, CHR 0xA7, CHR 0x80, CHR 0x20, CHR 0xEB,
        CHR 0xAA, CHR 0xBB, CHR 0xED, CHR 0x96, CHR 0x88, CHR 0xEC, CHR 0x8A, CHR 0xB5, CHR 0xEB,
        CHR 0x8B, CHR 0x88, CHR 0xEB, CHR 0x8B, CHR 0xA4]"

type_synonym 's manual_runner = "string \<Rightarrow> 's \<Rightarrow> ((report_outcome \<times> goerr option) \<times> 's) option"

definition generateReportWithRepository ::
  "(string \<Rightarrow> ('s \<times> report_outcome) \<Rightarrow> 'f res \<times> ('s \<times> report_outcome)) \<Rightarrow>
   ('f \<Rightarrow> ('s \<times> report_outcome) \<Rightarrow> goerr option \<times> ('s \<times> report_outcome)) \<Rightarrow>
   ('f \<Rightarrow> 's manual_runner factory) \<Rightarrow> config \<Rightarrow> string \<Rightarrow> 's \<Rightarrow> (report_outcome res \<times> 's) option" where
  "generateReportWithRepository open close factory c tenantID s =
     do { (e, (s1, outcome)) \<leftarrow> withReportFileStore open close (cf_report_dir c) (\<lambda>store (s0, out).
            (case built ''manual report factory is not configured'' [] ''manual report factory returned no runner'' (factory store) of
               Inl e \<Rightarrow> Some (Some e, (s0, out))
             | Inr run \<Rightarrow> map_option (\<lambda>((r, e), s1). (e, (s1, r))) (run tenantID s0))) (s, empty_outcome);
          Some (case e of Some x \<Rightarrow> Inl report_not_generated | None \<Rightarrow> Inr outcome, s1) }"

definition generateReport ::
  "config_env \<Rightarrow> (string \<Rightarrow> string option) \<Rightarrow> string option res \<Rightarrow> goerr option \<Rightarrow>
   (string \<Rightarrow> 's \<Rightarrow> (report_outcome res \<times> 's) option) \<Rightarrow> config \<Rightarrow> string list \<Rightarrow> 's \<Rightarrow> (report_outcome res \<times> 's) option" where
  "generateReport X uuid account pool run c args s =
     (case parseGenerateReportOptions uuid args of
        Inl e \<Rightarrow> Some (Inl e, s)
      | Inr tenantID \<Rightarrow>
         (case ValidateCommand X c ''generate-report'' of
            Some e \<Rightarrow> Some (Inl e, s)
          | None \<Rightarrow>
             (case account of
                Inl e \<Rightarrow> Some (Inl (ErrWrap ''identify current user'' e), s)
              | Inr uid \<Rightarrow>
                  if uid = Some ''0'' then Some (Inl (ErrText ''generate-report must not run as root; use daemon -f -u namo''), s)
                  else (case pool of Some e \<Rightarrow> Some (Inl e, s) | None \<Rightarrow> run tenantID s))))"

section \<open>Mail\<close>

definition mail_disabled :: goerr where
  "mail_disabled = ErrText
       [CHR 0xEB, CHR 0xA9, CHR 0x94, CHR 0xEC, CHR 0x9D, CHR 0xBC, CHR 0x20, CHR 0xEA, CHR 0xB8,
        CHR 0xB0, CHR 0xEB, CHR 0x8A, CHR 0xA5, CHR 0xEC, CHR 0x9D, CHR 0x80, CHR 0x20, CHR 0xED,
        CHR 0x98, CHR 0x84, CHR 0xEC, CHR 0x9E, CHR 0xAC, CHR 0x20, CHR 0xEB, CHR 0xB9, CHR 0x84,
        CHR 0xED, CHR 0x99, CHR 0x9C, CHR 0xEC, CHR 0x84, CHR 0xB1, CHR 0xED, CHR 0x99, CHR 0x94,
        CHR 0xEB, CHR 0x90, CHR 0x98, CHR 0xEC, CHR 0x96, CHR 0xB4, CHR 0x20, CHR 0xEC, CHR 0x9E,
        CHR 0x88, CHR 0xEC, CHR 0x8A, CHR 0xB5, CHR 0xEB, CHR 0x8B, CHR 0x88, CHR 0xEB, CHR 0x8B,
        CHR 0xA4]"

definition parseTestMailOptions :: "'s auth_env \<Rightarrow> string list \<Rightarrow> string res" where
  "parseTestMailOptions A args =
     (case parse_flags [(''to'', TextFlag)] args of
        Inl e \<Rightarrow> Inl (ErrWrap ''send-test-mail options'' e)
      | Inr (vs, rest) \<Rightarrow>
          if rest \<noteq> [] then Inl (ErrText ''send-test-mail does not accept positional arguments'')
          else (case normalizeMailbox A (flag_text vs ''to'') of
              None \<Rightarrow> Inl (ErrWrap ''recipient'' bad_mailbox)
            | Some to \<Rightarrow> Inr to))"

definition test_subject :: string where
  "test_subject =
     [CHR 0xEB, CHR 0x82, CHR 0x98, CHR 0xEB, CHR 0x9D, CHR 0xBC, CHR 0xEC, CHR 0x9E, CHR 0xA5,
      CHR 0xED, CHR 0x84, CHR 0xB0, CHR 0x20, CHR 0xEB, CHR 0xAA, CHR 0xA8, CHR 0xEB, CHR 0x8B,
      CHR 0x88, CHR 0xED, CHR 0x84, CHR 0xB0, CHR 0xEB, CHR 0xA7, CHR 0x81, CHR 0x20, CHR 0xED,
      CHR 0x85, CHR 0x8C, CHR 0xEC, CHR 0x8A, CHR 0xA4, CHR 0xED, CHR 0x8A, CHR 0xB8, CHR 0x20,
      CHR 0xEB, CHR 0xA9, CHR 0x94, CHR 0xEC, CHR 0x9D, CHR 0xBC]"

definition sendTestMailWithPolicy ::
  "mail_env \<Rightarrow> 's mail_run option \<Rightarrow> string \<Rightarrow> string \<Rightarrow> mail_policy \<Rightarrow> 's \<Rightarrow> goerr option \<times> 's" where
  "sendTestMailWithPolicy M mailer sender to P s =
     (case mailer of
        None \<Rightarrow> (Some (ErrText ''mailer is not configured''), s)
      | Some m \<Rightarrow>
         (case BuildSMTPMessageWithID M sender [to] test_subject [] [] of
            Inl e \<Rightarrow> (Some (ErrWrap ''build test mail'' e), s)
          | Inr msg \<Rightarrow>
             (case sendMailWithRetry mailer sender to msg P s of
                (None, s1) \<Rightarrow> (None, s1)
              | (Some e, s1) \<Rightarrow>
                  (Some (ErrWrap (''send test mail after up to '' @ show_int (mp_attempts P) @ '' attempts'') e), s1))))"

section \<open>Serving\<close>

text \<open>A collection without a key is no failure of the scheduler. A run that never returns has no value.\<close>

definition serve_collection :: "('s \<Rightarrow> (collection_result \<times> goerr option) \<times> 's) \<Rightarrow> time \<Rightarrow> 's \<Rightarrow> goerr option \<times> 's" where
  "serve_collection run now s =
     (case run s of ((r, e), s1) \<Rightarrow>
        ((case e of None \<Rightarrow> None | Some x \<Rightarrow> if errors_is x ErrAPIKeyNotConfigured then None else Some x), s1))"

definition newServeScheduler ::
  "('s \<Rightarrow> (collection_result \<times> goerr option) \<times> 's) \<Rightarrow> (time \<Rightarrow> 's \<Rightarrow> goerr option \<times> 's) \<Rightarrow> ('s \<Rightarrow> time) \<Rightarrow>
   scheduler \<times> 's scheduler_jobs" where
  "newServeScheduler run reportJob now = newScheduler hour_ns (Some (serve_collection run)) (Some reportJob) None now"

definition buildServeComponents :: "'u res option \<Rightarrow> 'j factory \<Rightarrow> 'c factory \<Rightarrow> ('u \<times> 'c \<times> 'j) res" where
  "buildServeComponents ui reportJob collector =
     (case (ui, reportJob, collector) of
        (Some u, Build j, Build c) \<Rightarrow>
          (case u of
             Inl e \<Rightarrow> Inl (ErrWrap ''build web UI'' e)
           | Inr web \<Rightarrow>
              (case built [] ''build report job'' ''report job factory returned no job'' reportJob of
                 Inl e \<Rightarrow> Inl e
               | Inr job \<Rightarrow>
                  (case built [] ''build collection runner'' ''collection runner factory returned no runner'' collector of
                     Inl e \<Rightarrow> Inl e
                   | Inr run \<Rightarrow> Inr (web, run, job))))
      | _ \<Rightarrow> Inl (ErrText ''serve integration factories are not configured''))"

text \<open>The ticks of \<open>runScheduler\<close>: one at the start and one a minute until the context is done; errors are
  printed while it is not.\<close>

fun serve_ticks :: "'s scheduler_jobs \<Rightarrow> ('s \<Rightarrow> bool) \<Rightarrow> scheduler \<Rightarrow> time list \<Rightarrow> 's \<Rightarrow> goerr list \<times> scheduler \<times> 's" where
  "serve_ticks J stopped sch [] s = ([], sch, s)"
| "serve_ticks J stopped sch (now # ts) s =
     (case Tick J sch now s of (e, sch1, s1) \<Rightarrow>
       (case serve_ticks J stopped sch1 ts s1 of (es, sch2, s2) \<Rightarrow>
          ((case e of Some x \<Rightarrow> if stopped s1 then es else x # es | None \<Rightarrow> es), sch2, s2)))"

section \<open>Commands by name\<close>

record 's operations =
  op_serve :: "(config \<Rightarrow> string list \<Rightarrow> 's \<Rightarrow> goerr option \<times> 's) option"
  op_migrate :: "(config \<Rightarrow> string list \<Rightarrow> 's \<Rightarrow> goerr option \<times> 's) option"
  op_create_admin :: "(config \<Rightarrow> string list \<Rightarrow> 's \<Rightarrow> goerr option \<times> 's) option"
  op_collect_once :: "(config \<Rightarrow> string list \<Rightarrow> 's \<Rightarrow> goerr option \<times> 's) option"
  op_generate_report :: "(config \<Rightarrow> string list \<Rightarrow> 's \<Rightarrow> goerr option \<times> 's) option"

definition Execute :: "'s operations option \<Rightarrow> string \<Rightarrow> config \<Rightarrow> string list \<Rightarrow> 's \<Rightarrow> goerr option \<times> 's" where
  "Execute r command c args s =
     (case r of
        None \<Rightarrow> (Some (ErrText ''runtime is not configured''), s)
      | Some ops \<Rightarrow>
          if command = ''send-test-mail'' then (Some mail_disabled, s)
          else let pick = (if command = ''serve'' then Some (op_serve ops) else if command = ''migrate'' then Some (op_migrate ops)
              else if command = ''create-admin'' then Some (op_create_admin ops)
              else if command = ''collect-once'' then Some (op_collect_once ops)
              else if command = ''generate-report'' then Some (op_generate_report ops) else None) in
            (case pick of
               None \<Rightarrow> (Some (ErrText (''unsupported command '' @ command)), s)
             | Some None \<Rightarrow> (Some (ErrText (command @ '' command handler is not configured'')), s)
             | Some (Some run) \<Rightarrow> run c args s))"

end
