(* ===== verification/Http_Front.thy ===== *)
theory Http_Front
  imports Auth_Handler
begin

text \<open>
  internal/app/http.go: the handler in front of everything, with the health checks and the headers that
  every response carries. The rest of the requests goes to the handler behind it.
\<close>

datatype 'r front = Plain int "(string \<times> string) list" string | Inner 'r

record 'r served =
  sv_headers :: "(string \<times> string) list"
  sv_answer :: "'r front"

definition csp :: string where
  "csp =
     ''default-src '' @ [CHR 0x27] @ ''self'' @ [CHR 0x27] @ ''; style-src '' @ [CHR 0x27] @ ''self'' @
     [CHR 0x27] @ ''; script-src '' @ [CHR 0x27] @ ''self'' @ [CHR 0x27] @ ''; img-src '' @ [CHR 0x27] @
     ''self'' @ [CHR 0x27] @ '' data:; frame-ancestors '' @ [CHR 0x27] @ ''none'' @ [CHR 0x27] @
     ''; base-uri '' @ [CHR 0x27] @ ''self'' @ [CHR 0x27] @ ''; form-action '' @ [CHR 0x27] @ ''self'' @
     [CHR 0x27]"

definition security_headers :: "(string \<times> string) list" where
  "security_headers =
     [(''X-Content-Type-Options'', ''nosniff''), (''X-Frame-Options'', ''DENY''), (''Referrer-Policy'', ''same-origin''),
      (''Content-Security-Policy'',
        csp)]"

definition http_error :: "string \<Rightarrow> int \<Rightarrow> 'r front" where
  "http_error msg code = Plain code [(''Content-Type'', ''text/plain; charset=utf-8''), (''X-Content-Type-Options'', ''nosniff'')] (msg @ [CHR 0x0A])"

definition health_method :: "string \<Rightarrow> bool" where
  "health_method m \<longleftrightarrow> m = ''GET'' \<or> m = ''HEAD''"

definition not_allowed :: "'r front" where
  "not_allowed = Plain 405 [(''Allow'', ''GET, HEAD''), (''Content-Type'', ''text/plain; charset=utf-8''), (''X-Content-Type-Options'', ''nosniff'')]
     (''Method Not Allowed'' @ [CHR 0x0A])"

definition status_json :: "int \<Rightarrow> string \<Rightarrow> 'r front" where
  "status_json code state = Plain code [(''Content-Type'', ''application/json; charset=utf-8'')]
     ([CHR ''{'', CHR 0x22] @ ''status'' @ [CHR 0x22, CHR '':'', CHR 0x22] @ state @ [CHR 0x22, CHR ''}'', CHR 0x0A])"

text \<open>The checker pings the database; the handler behind answers every other path.\<close>

definition serve_front ::
  "(http_request \<Rightarrow> 's \<Rightarrow> 'r \<times> 's) option \<Rightarrow> ('s \<Rightarrow> goerr option \<times> 's) option \<Rightarrow> http_request \<Rightarrow> 's \<Rightarrow> 'r front \<times> 's" where
  "serve_front ui checker rq s =
     (if rq_path rq = ''/healthz'' then (if health_method (rq_method rq) then status_json 200 ''ok'' else not_allowed, s)
      else if rq_path rq = ''/readyz'' then
        (if \<not> health_method (rq_method rq) then (not_allowed, s)
         else case checker of
           None \<Rightarrow> (status_json 503 ''unavailable'', s)
         | Some ping \<Rightarrow>
             (case ping s of
                (Some e, s1) \<Rightarrow> (status_json 503 ''unavailable'', s1)
              | (None, s1) \<Rightarrow> (status_json 200 ''ready'', s1)))
      else (case ui of
          None \<Rightarrow> (http_error ''404 page not found'' 404, s)
        | Some h \<Rightarrow> (case h rq s of (r, s1) \<Rightarrow> (Inner r, s1))))"

definition NewHTTPHandler ::
  "(http_request \<Rightarrow> 's \<Rightarrow> 'r \<times> 's) option \<Rightarrow> ('s \<Rightarrow> goerr option \<times> 's) option \<Rightarrow> http_request \<Rightarrow> 's \<Rightarrow> 'r served \<times> 's" where
  "NewHTTPHandler ui checker rq s =
     (case serve_front ui checker rq s of (a, s1) \<Rightarrow> (\<lparr>sv_headers = security_headers, sv_answer = a\<rparr>, s1))"

end
