(* ===== verification/Key_Laws.thy ===== *)
theory Key_Laws
  imports App_Config
begin

text \<open>
  What the key file guarantees: a check of its path ends, a saved key is the one read back, a failed
  save changes nothing that was there, and a key is only taken from a private file that no link leads to.
\<close>

section \<open>Absolute paths\<close>

definition abs_path :: "string list \<Rightarrow> string" where
  "abs_path cs = slash # str_join ''/'' cs"

lemma clean_step_rooted: "list_all plain st \<Longrightarrow> slash \<notin> set c \<Longrightarrow> list_all plain (clean_step True st c)"
  by (auto simp: plain_def list_all_iff dest: in_set_butlastD)

lemma clean_rooted_plain: "list_all plain st \<Longrightarrow> (\<And>c. c \<in> set cs \<Longrightarrow> slash \<notin> set c) \<Longrightarrow>
  list_all plain (foldl (clean_step True) st cs)"
proof (induction cs arbitrary: st)
  case (Cons c cs)
  have "list_all plain (clean_step True st c)" using Cons.prems by (intro clean_step_rooted) auto
  then show ?case using Cons.IH [of "clean_step True st c"] Cons.prems(2) by (simp del: clean_step.simps)
qed simp

lemma clean_absolute:
  assumes "IsAbs p" "Clean p = p"
  obtains cs where "list_all plain cs" "p = abs_path cs"
proof
  let ?cs = "foldl (clean_step True) [] (components p)"
  show "list_all plain ?cs" by (rule clean_rooted_plain) (auto dest: components_no_slash)
  have "p \<noteq> []" using assms(1) by (auto simp: IsAbs_components)
  with assms have "p = ''/'' @ str_join ''/'' ?cs" by (simp add: Clean_def Let_def)
  then show "p = abs_path ?cs" by (simp only: abs_path_def append.simps)
qed

lemma components_slash_end: "components (s @ ''/'') = components s @ [[]]"
  unfolding components_def by (induction s) (auto split: list.splits)

lemma Clean_abs_end:
  assumes "list_all plain cs"
  shows "Clean (abs_path cs @ ''/'') = abs_path cs"
proof (cases "cs = []")
  case False
  have "components (abs_path cs @ ''/'') = [] # cs @ [[]]"
    using components_join [OF False assms] components_slash_end [of "slash # str_join ''/'' cs"]
    by (simp add: abs_path_def components_def)
  then show ?thesis
    by (simp add: Clean_def Let_def IsAbs_components abs_path_def foldl_clean_plain [OF assms])
qed (simp add: abs_path_def Clean_def IsAbs_components components_def)

lemma Dir_root [simp]: "Dir (abs_path []) = abs_path []"
  by (simp add: abs_path_def Dir_def cut_last_def Clean_def IsAbs_components components_def)

lemma Dir_abs:
  assumes "list_all plain cs" "plain c"
  shows "Dir (abs_path (cs @ [c])) = abs_path cs"
proof (cases "cs = []")
  case True
  have "cut_last slash (slash # c) = Some ([], c)"
    using cut_last_append [of slash c "[]"] assms(2) by (simp add: plain_def)
  then show ?thesis using True by (simp add: abs_path_def Dir_def Clean_def IsAbs_components components_def)
next
  case False
  have "abs_path (cs @ [c]) = abs_path cs @ slash # c"
    unfolding abs_path_def using False by (induction "''/''" cs rule: str_join.induct) auto
  then have "cut_last slash (abs_path (cs @ [c])) = Some (abs_path cs, c)"
    using assms(2) by (simp add: cut_last_append plain_def)
  then show ?thesis using Clean_abs_end [OF assms(1)] by (simp add: Dir_def)
qed

lemma abs_path_snoc: "plain c \<Longrightarrow> abs_path (cs @ [c]) \<noteq> abs_path cs"
  by (induction "''/''" cs rule: str_join.induct) (auto simp: abs_path_def plain_def)

section \<open>The check of the path\<close>

definition no_link :: "key_fs \<Rightarrow> string \<Rightarrow> bool" where
  "no_link fs p \<longleftrightarrow> (case fs p of Some (KeyLink q) \<Rightarrow> False | k \<Rightarrow> True)"

text \<open>No directory on the way to the path, nor what stands at it, is a link.\<close>

definition link_free :: "key_fs \<Rightarrow> string list \<Rightarrow> bool" where
  "link_free fs cs \<longleftrightarrow> list_all (\<lambda>k. no_link fs (abs_path (take k cs))) [0..<Suc (length cs)]"

text \<open>No call fails with the error of an absent file when the file is there.\<close>

definition honest :: "dbenv \<Rightarrow> bool" where
  "honest E \<longleftrightarrow> (\<forall>n e. fault E n = Some e \<longrightarrow> \<not> errors_is e ''file does not exist'')"

definition no_faults :: "dbenv \<Rightarrow> bool" where
  "no_faults E \<longleftrightarrow> (\<forall>n. fault E n = None)"

lemma not_exist_is [simp]: "errors_is NotExist ''file does not exist''"
  by (simp add: NotExist_def)

lemma link_free_Nil: "link_free fs [] \<longleftrightarrow> no_link fs (abs_path [])"
  by (simp add: link_free_def)

lemma link_free_snoc: "link_free fs (cs @ [c]) \<longleftrightarrow> link_free fs cs \<and> no_link fs (abs_path (cs @ [c]))"
  by (auto simp: link_free_def list_all_iff less_Suc_eq)

lemma link_free_last: "link_free fs cs \<Longrightarrow> no_link fs (abs_path cs)"
  by (simp add: link_free_def list_all_iff)

lemma key_lstat_rows [simp]: "rows (snd (key_lstat E p d)) = rows d"
  by (simp add: key_lstat_def sql_stmt_def split: option.splits sum.splits prod.splits)

lemma key_lstat_same: "key_lstat E p d = (r, d1) \<Longrightarrow> rows d1 = rows d"
  using key_lstat_rows [of E p d] by simp

lemma key_lstat_ok: "honest E \<Longrightarrow> node_ok (fst (key_lstat E p d)) \<Longrightarrow> no_link (rows d) p"
  by (auto simp: key_lstat_def sql_stmt_def node_ok_def no_link_def honest_def
      split: option.splits sum.splits prod.splits key_node.splits)

lemma key_lstat_no_link: "no_faults E \<Longrightarrow> no_link (rows d) p \<Longrightarrow> node_ok (fst (key_lstat E p d))"
  by (auto simp: key_lstat_def sql_stmt_def node_ok_def no_link_def no_faults_def
      split: option.splits sum.splits prod.splits key_node.splits)

lemma check_parents_step:
  "check_parents E (abs_path []) d =
     (let (r, d1) = key_lstat E (abs_path []) d in if \<not> node_ok r then Some (file_error d1) else Some (Inr (), d1))"
  "list_all plain cs \<Longrightarrow> plain c \<Longrightarrow> check_parents E (abs_path (cs @ [c])) d =
     (let (r, d1) = key_lstat E (abs_path (cs @ [c])) d in
        if \<not> node_ok r then Some (file_error d1) else check_parents E (abs_path cs) d1)"
  by (subst check_parents.simps, simp add: Let_def split: prod.splits)
    (subst check_parents.simps, use abs_path_snoc [of c cs] in \<open>auto simp: Dir_abs Let_def split: prod.splits\<close>)

lemma check_parents_returns: "list_all plain cs \<Longrightarrow> check_parents E (abs_path cs) d \<noteq> None"
  by (induction cs arbitrary: d rule: rev_induct) (auto simp: check_parents_step Let_def split: prod.splits)

lemma check_parents_rows:
  "list_all plain cs \<Longrightarrow> check_parents E (abs_path cs) d = Some (r, d1) \<Longrightarrow> rows d1 = rows d"
proof (induction cs arbitrary: d rule: rev_induct)
  case Nil
  show ?case using Nil(2)
    by (auto simp: check_parents_step Let_def file_error_def dest: key_lstat_same split: prod.splits if_splits)
next
  case (snoc c cs)
  show ?case
    using snoc.prems snoc.IH [of "snd (key_lstat E (abs_path (cs @ [c])) d)"]
    by (auto simp: check_parents_step Let_def file_error_def dest: key_lstat_same split: prod.splits if_splits)
qed

lemma check_parents_ok:
  assumes "honest E"
  shows "list_all plain cs \<Longrightarrow> check_parents E (abs_path cs) d = Some (Inr u, d1) \<Longrightarrow> link_free (rows d) cs"
proof (induction cs arbitrary: d rule: rev_induct)
  case Nil
  show ?case using Nil(2) key_lstat_ok [OF assms, of "abs_path []" d]
    by (auto simp: check_parents_step Let_def file_error_def link_free_Nil split: prod.splits if_splits)
next
  case (snoc c cs)
  show ?case
    using snoc.prems snoc.IH [of "snd (key_lstat E (abs_path (cs @ [c])) d)"]
      key_lstat_ok [OF assms, of "abs_path (cs @ [c])" d]
    by (auto simp: check_parents_step Let_def file_error_def link_free_snoc dest: key_lstat_same split: prod.splits if_splits)
qed

lemma check_parents_link_free:
  assumes "no_faults E"
  shows "list_all plain cs \<Longrightarrow> link_free (rows d) cs \<Longrightarrow> \<exists>d1. check_parents E (abs_path cs) d = Some (Inr (), d1)"
proof (induction cs arbitrary: d rule: rev_induct)
  case Nil
  then show ?case using key_lstat_no_link [OF assms, of d "abs_path []"]
    by (auto simp: check_parents_step Let_def link_free_Nil split: prod.splits)
next
  case (snoc c cs)
  show ?case
    using snoc.prems snoc.IH [of "snd (key_lstat E (abs_path (cs @ [c])) d)"]
      key_lstat_no_link [OF assms, of d "abs_path (cs @ [c])"]
    by (auto simp: check_parents_step Let_def link_free_snoc dest: key_lstat_same split: prod.splits)
qed

section \<open>The key\<close>

lemma key_char_visible: "key_char c \<Longrightarrow> visible c \<and> c \<noteq> CHR ''%''"
  by (auto simp: key_char_def visible_def is_digit_def byte_def)

lemma PathUnescape_length: "PathUnescape s = Some k \<Longrightarrow> length k \<le> length s \<and> (k = [] \<longleftrightarrow> s = [])"
proof (induction s arbitrary: k rule: PathUnescape.induct)
  case (2 c s)
  show ?case
  proof (cases "c = CHR ''%''")
    case False
    then obtain k1 where "PathUnescape s = Some k1" "k = c # k1" using 2(3) by auto
    with 2(1) [OF False] show ?thesis by auto
  next
    case True
    then obtain a b r x y k1 where "s = a # b # r" "hex_val a = Some x" "hex_val b = Some y"
        "PathUnescape r = Some k1" "length k = Suc (length k1)"
      using 2(3) by (auto split: list.splits option.splits)
    with 2(2) [OF _ _ _ refl] True show ?thesis by force
  qed
qed simp

text \<open>A normal form is a sequence of key characters of at most 4096 bytes and its own normal form.\<close>

lemma NormalizeAPIKey_normal:
  assumes "NormalizeAPIKey raw = Inr k"
  shows "list_all key_char k" "k \<noteq> []" "length k \<le> 4096" "NormalizeAPIKey k = Inr k"
proof -
  obtain t where t: "t = trim_space raw" "t \<noteq> []" "length t \<le> 4096" "list_all key_char k"
      "(if CHR ''%'' \<in> set t then PathUnescape t else Some t) = Some k"
    using assms by (auto simp: NormalizeAPIKey_def Let_def split: if_splits option.splits)
  then show k: "list_all key_char k" "k \<noteq> []" "length k \<le> 4096"
    using PathUnescape_length [of t k] by (auto split: if_splits)
  have "trim_space k = k" using k by (intro trim_space_visible) (auto simp: list_all_iff key_char_visible)
  moreover have "CHR ''%'' \<notin> set k" using k(1) by (auto simp: list_all_iff dest: key_char_visible)
  ultimately show "NormalizeAPIKey k = Inr k" using k by (simp add: NormalizeAPIKey_def Let_def)
qed

section \<open>Saving\<close>

lemma key_write_rows:
  "key_write E p bytes d = (r, d1) \<Longrightarrow> q \<noteq> p \<Longrightarrow> rows d1 q = rows d q"
  "key_write E p bytes d = (Inr u, d1) \<Longrightarrow> rows d p = Some (KeyFile c m) \<Longrightarrow> rows d1 = (rows d)(p \<mapsto> KeyFile (c @ bytes) m)"
  by (auto simp: key_write_def sql_stmt_def split: option.splits key_node.splits)

lemma key_sync_rows: "sql_call E d = (r, d1) \<Longrightarrow> rows d1 = rows d"
  by (auto simp: sql_call_def sql_query_def sql_stmt_def split: option.splits)

lemma key_rename_rows:
  "key_rename E old new d = (Inl e, d1) \<Longrightarrow> rows d1 = rows d"
  "key_rename E old new d = (Inr u, d1) \<Longrightarrow> rows d old = Some k \<Longrightarrow> rows d1 = (rows d)(old := None, new \<mapsto> k)"
  by (auto simp: key_rename_def sql_stmt_def split: option.splits key_node.splits)

lemma sql_bind_InlE:
  assumes "sql_bind m f d = (Inl e, d')"
  obtains "m d = (Inl e, d')" | a d1 where "m d = (Inr a, d1)" "f a d1 = (Inl e, d')"
  using assms by (auto simp: sql_bind_def split: prod.splits sum.splits)

lemma fill_key_done:
  assumes "fill_key E temp key path d = (Inr u, d')" "rows d temp = Some (KeyFile [] 384)"
  shows "rows d' = (rows d)(temp := None, path \<mapsto> KeyFile key 384)"
proof -
  obtain a d1 where 1: "key_write E temp key d = (Inr a, d1)"
      "sql_bind (sql_call E) (\<lambda>_. sql_bind (sql_call E) (\<lambda>_. key_rename E temp path)) d1 = (Inr u, d')"
    using assms(1) unfolding fill_key_def by (rule sql_bindE)
  obtain b d2 where 2: "sql_call E d1 = (Inr b, d2)" "sql_bind (sql_call E) (\<lambda>_. key_rename E temp path) d2 = (Inr u, d')"
    using 1(2) by (rule sql_bindE)
  obtain c d3 where 3: "sql_call E d2 = (Inr c, d3)" "key_rename E temp path d3 = (Inr u, d')"
    using 2(2) by (rule sql_bindE)
  have "rows d3 = (rows d)(temp \<mapsto> KeyFile key 384)"
    using key_write_rows(2) [OF 1(1) assms(2)] key_sync_rows [OF 2(1)] key_sync_rows [OF 3(1)] by simp
  with key_rename_rows(2) [OF 3(2)] show ?thesis by simp
qed

lemma fill_key_failed:
  assumes "fill_key E temp key path d = (Inl e, d')" "p \<noteq> temp"
  shows "rows d' p = rows d p"
proof -
  from assms(1) consider "key_write E temp key d = (Inl e, d')"
    | a d1 where "key_write E temp key d = (Inr a, d1)"
      "sql_bind (sql_call E) (\<lambda>_. sql_bind (sql_call E) (\<lambda>_. key_rename E temp path)) d1 = (Inl e, d')"
    unfolding fill_key_def by (rule sql_bind_InlE)
  then show ?thesis
  proof cases
    case 1
    then show ?thesis using assms(2) by (rule key_write_rows(1))
  next
    case (2 a d1)
    have "rows d' = rows d1"
      using 2(2) by (elim sql_bind_InlE) (auto dest!: key_sync_rows dest: key_rename_rows(1))
    with key_write_rows(1) [OF 2(1) assms(2)] show ?thesis by simp
  qed
qed

lemma key_create_done:
  "key_create E dir d = (Inr temp, d1) \<Longrightarrow>
   rows d temp = None \<and> rows d1 = (rows d)(temp \<mapsto> KeyFile [] 384) \<and> (\<exists>n. temp = temp_key E n dir)"
  by (auto simp: key_create_def sql_stmt_def Let_def split: option.splits sum.splits prod.splits)

lemma key_create_failed: "key_create E dir d = (Inl e, d1) \<Longrightarrow> rows d1 = rows d"
  by (auto simp: key_create_def sql_stmt_def Let_def split: option.splits sum.splits prod.splits)

lemma key_remove_rows: "rows (snd (key_remove E p d)) = rows d \<or> rows (snd (key_remove E p d)) = (rows d)(p := None)"
  by (simp add: key_remove_def sql_stmt_def split: option.splits)

lemma key_remove_absent: "rows d p = None \<Longrightarrow> rows (snd (key_remove E p d)) = rows d"
  by (simp add: key_remove_def sql_stmt_def split: option.splits)

lemma private_dir_rows: "private_dir E p d = (r, d1) \<Longrightarrow> rows d1 = rows d"
  by (auto simp: private_dir_def key_stat_def sql_stmt_def file_error_def
      split: prod.splits sum.splits option.splits key_node.splits if_splits)

lemma write_key_done:
  assumes "write_key E path key d = (Inr u, d')" "\<And>n. temp_key E n (Dir path) \<noteq> path"
  shows "rows d' = (rows d)(path \<mapsto> KeyFile key 384)"
proof -
  obtain temp d1 d2 where c: "key_create E (Dir path) d = (Inr temp, d1)" "fill_key E temp key path d1 = (Inr u, d2)"
      and d': "d' = snd (key_remove E temp d2)"
    using assms(1) by (auto simp: write_key_def file_error_def split: prod.splits sum.splits)
  from key_create_done [OF c(1)] assms(2) have t: "rows d temp = None" "rows d1 = (rows d)(temp \<mapsto> KeyFile [] 384)" "temp \<noteq> path"
    by auto
  with fill_key_done [OF c(2)] have "rows d2 = (rows d)(path \<mapsto> KeyFile key 384)" by (auto simp: fun_eq_iff)
  with t key_remove_absent [of d2 temp E] d' show ?thesis by simp
qed

lemma write_key_failed:
  assumes "write_key E path key d = (Inl e, d')" "\<And>n. temp_key E n (Dir path) \<noteq> path" "rows d p \<noteq> None"
  shows "rows d' p = rows d p"
proof (cases "key_create E (Dir path) d")
  case (Pair r d1)
  show ?thesis
  proof (cases r)
    case (Inl e1)
    with Pair assms(1) key_create_failed [of E "Dir path" d e1 d1] show ?thesis
      by (auto simp: write_key_def file_error_def)
  next
    case (Inr temp)
    obtain r2 d2 where f: "fill_key E temp key path d1 = (r2, d2)" by fastforce
    with Pair Inr assms(1) obtain e2 where e2: "r2 = Inl e2" and d': "d' = snd (key_remove E temp d2)"
      by (auto simp: write_key_def file_error_def split: sum.splits)
    have t: "rows d temp = None" "rows d1 = (rows d)(temp \<mapsto> KeyFile [] 384)" "temp \<noteq> path"
      using key_create_done [of E "Dir path" d temp d1] Pair Inr assms(2) by auto
    with assms(3) have "p \<noteq> temp" by auto
    with t fill_key_failed [of E temp key path d1 e2 d2 p] \<open>p \<noteq> temp\<close> f e2 have "rows d2 p = rows d p" by simp
    then show ?thesis using \<open>p \<noteq> temp\<close> key_remove_rows [of E temp d2] d' by auto
  qed
qed

section \<open>Reading\<close>

lemma checkPath_path:
  assumes "checkPath E p d = Some (Inr u, d1)"
  obtains cs where "list_all plain cs" "p = abs_path cs" "check_parents E p d = Some (Inr u, d1)"
    "IsAbs p" "Clean p = p" "Dir p \<noteq> p"
  using assms clean_absolute by (auto simp: checkPath_def file_error_def split: if_splits)

lemma checkPath_returns: "\<exists>r d1. checkPath E p d = Some (r, d1) \<and> rows d1 = rows d"
proof (cases "\<not> IsAbs p \<or> Clean p \<noteq> p \<or> Dir p = p")
  case False
  then obtain cs where cs: "list_all plain cs" "p = abs_path cs" using clean_absolute by blast
  then obtain r d1 where c: "check_parents E p d = Some (r, d1)" using check_parents_returns [of cs E d] by auto
  then show ?thesis using False check_parents_rows [OF cs(1)] cs(2) by (auto simp: checkPath_def)
qed (auto simp: checkPath_def file_error_def)

lemma checkPath_link_free:
  assumes "checkPath E p d = Some (Inr u, d1)" "honest E"
  obtains cs where "list_all plain cs" "p = abs_path cs" "link_free (rows d) cs" "Dir p \<noteq> p" "Clean p = p"
  using checkPath_path [OF assms(1)] check_parents_ok [OF assms(2)] by metis

lemma key_stat_rows: "key_stat E p d = (r, d1) \<Longrightarrow> rows d1 = rows d"
  by (auto simp: key_stat_def sql_stmt_def split: option.splits)

lemma key_read_rows: "key_read E p d = (r, d1) \<Longrightarrow> rows d1 = rows d"
  by (auto simp: key_read_def sql_stmt_def split: option.splits key_node.splits)

lemma read_file_rows: "read_file E p d = (r, d1) \<Longrightarrow> rows d1 = rows d"
  by (auto simp: read_file_def file_error_def dest!: key_stat_rows dest: key_read_rows
      split: prod.splits sum.splits key_node.splits if_splits)

lemma not_followed: "no_link fs p \<Longrightarrow> followed fs p = fs p"
  by (auto simp: no_link_def followed_def split: option.splits key_node.splits)

lemma read_file_absent:
  assumes "read_file E p d = (Inr None, d1)" "honest E" "no_link (rows d) p"
  shows "rows d p = None"
proof -
  obtain e where "fst (key_stat E p d) = Inl e" "errors_is e ''file does not exist''"
    using assms(1) by (auto simp: read_file_def file_error_def split: prod.splits sum.splits key_node.splits if_splits)
  then show ?thesis using assms(2) not_followed [OF assms(3)]
    by (auto simp: key_stat_def sql_stmt_def honest_def split: option.splits)
qed

lemma key_stat_there: "key_stat E p d = (Inr k, d1) \<Longrightarrow> followed (rows d) p = Some k"
  by (auto simp: key_stat_def sql_stmt_def split: option.splits)

lemma key_read_there:
  "key_read E p d = (Inr bytes, d1) \<Longrightarrow> \<exists>c m. followed (rows d) p = Some (KeyFile c m) \<and> bytes = take 4097 c"
  by (auto simp: key_read_def sql_stmt_def split: option.splits key_node.splits)

lemma read_file_key:
  assumes "read_file E p d = (Inr (Some k), d1)" "no_link (rows d) p"
  shows "\<exists>c m. rows d p = Some (KeyFile c m) \<and> \<not> group_or_other m \<and> length c \<le> 4096 \<and> NormalizeAPIKey c = Inr k"
proof -
  obtain c m d2 bytes where s: "key_stat E p d = (Inr (KeyFile c m), d2)" "\<not> group_or_other m"
      and r: "key_read E p d2 = (Inr bytes, d1)" "length bytes \<le> 4096" "NormalizeAPIKey bytes = Inr k"
    using assms(1) by (auto simp: read_file_def file_error_def split: prod.splits sum.splits key_node.splits if_splits)
  have "rows d p = Some (KeyFile c m)" using key_stat_there [OF s(1)] not_followed [OF assms(2)] by simp
  moreover have "bytes = c"
    using key_read_there [OF r(1)] key_stat_rows [OF s(1)] key_stat_there [OF s(1)] r(2) by (auto simp: min_def split: if_splits)
  ultimately show ?thesis using s(2) r by blast
qed

lemma read_file_gives:
  assumes "no_faults E" "rows d p = Some (KeyFile k m)" "\<not> group_or_other m" "NormalizeAPIKey k = Inr k" "length k \<le> 4096"
  shows "\<exists>d1. read_file E p d = (Inr (Some k), d1)"
  using assms by (simp add: read_file_def key_stat_def key_read_def sql_stmt_def no_faults_def followed_def)

lemma fallback_key_normal: "fallback_key S = Inr k \<Longrightarrow> NormalizeAPIKey k = Inr k"
  by (auto simp: fallback_key_def Let_def dest: NormalizeAPIKey_normal(4) split: if_splits)

text \<open>Where a key comes from.\<close>

definition key_source :: "key_store \<Rightarrow> key_fs \<Rightarrow> string \<Rightarrow> bool" where
  "key_source S fs k \<longleftrightarrow>
     (ks_path S = [] \<or> fs (ks_path S) = None) \<and> fallback_key S = Inr k \<or>
     (\<exists>cs c m. list_all plain cs \<and> ks_path S = abs_path cs \<and> link_free fs cs \<and>
        fs (ks_path S) = Some (KeyFile c m) \<and> \<not> group_or_other m \<and> length c \<le> 4096 \<and> NormalizeAPIKey c = Inr k)"

lemma ReadKey_returns: "\<exists>r d1. ReadKey E S d = Some (r, d1) \<and> rows d1 = rows d"
proof (cases "ks_path S = []")
  case False
  obtain r d1 where c: "checkPath E (ks_path S) d = Some (r, d1)" "rows d1 = rows d" using checkPath_returns by blast
  obtain v d2 where v: "read_file E (ks_path S) d1 = (v, d2)" "rows d2 = rows d1"
    using read_file_rows by fastforce
  have "\<exists>w. ReadKey E S d = Some (w, d1) \<or> ReadKey E S d = Some (w, d2)"
    using False c(1) v(1) by (auto simp: ReadKey_def split: sum.split option.split)
  with v(2) c(2) show ?thesis by auto
qed (simp add: ReadKey_def)

lemma ReadKey_source:
  assumes "ReadKey E S d = Some (Inr k, d1)" "honest E"
  shows "key_source S (rows d) k"
proof (cases "ks_path S = []")
  case True
  with assms(1) show ?thesis by (simp add: ReadKey_def key_source_def)
next
  case False
  obtain r d2 where c: "checkPath E (ks_path S) d = Some (r, d2)" "rows d2 = rows d" using checkPath_returns by blast
  with assms(1) False obtain u where u: "r = Inr u" by (auto simp: ReadKey_def split: sum.splits)
  with c(1) assms(2) obtain cs where cs: "list_all plain cs" "ks_path S = abs_path cs" "link_free (rows d) cs"
    using checkPath_link_free by metis
  then have l: "no_link (rows d2) (ks_path S)" using c(2) link_free_last by simp
  obtain v d3 where v: "read_file E (ks_path S) d2 = (v, d3)" by fastforce
  with assms(1) False c(1) u consider "v = Inr (Some k)" | "v = Inr None" "fallback_key S = Inr k"
    by (auto simp: ReadKey_def split: sum.splits option.splits)
  then show ?thesis
  proof cases
    case 1
    with v have "read_file E (ks_path S) d2 = (Inr (Some k), d3)" by simp
    from read_file_key [OF this l] c(2) cs show ?thesis unfolding key_source_def by auto
  next
    case 2
    then show ?thesis using read_file_absent [of E "ks_path S" d2 d3] v l c(2) assms(2) unfolding key_source_def by simp
  qed
qed

section \<open>Properties\<close>

text \<open>
  C30: Reading the key returns whatever fails, changes nothing, and gives a key in its normal form only
  from a regular file without rights for others that no link leads to, or, without a file, from the
  environment.
\<close>

theorem key_only_from_private_file:
  assumes "honest E"
  shows "\<exists>r d1. ReadKey E S d = Some (r, d1) \<and> rows d1 = rows d \<and>
    (case r of Inl e \<Rightarrow> True | Inr k \<Rightarrow> key_source S (rows d) k \<and> list_all key_char k \<and> k \<noteq> [] \<and> length k \<le> 4096)"
proof -
  obtain r d1 where r: "ReadKey E S d = Some (r, d1)" "rows d1 = rows d" using ReadKey_returns by blast
  have "key_source S (rows d) k \<and> list_all key_char k \<and> k \<noteq> [] \<and> length k \<le> 4096" if "r = Inr k" for k
  proof -
    have k: "key_source S (rows d) k" using r(1) that assms by (auto intro: ReadKey_source)
    then have "\<exists>raw. NormalizeAPIKey raw = Inr k" by (auto simp: key_source_def dest: fallback_key_normal)
    with k NormalizeAPIKey_normal show ?thesis by blast
  qed
  with r show ?thesis by (auto split: sum.splits)
qed

text \<open>What a successful save does, and that the new file is read back.\<close>

lemma SaveKey_done:
  assumes "SaveKey E S raw d = Some (Inr u, d')" "honest E" "\<And>n. temp_key E n (Dir (ks_path S)) \<noteq> ks_path S"
  obtains key cs where "NormalizeAPIKey raw = Inr key" "rows d' = (rows d)(ks_path S \<mapsto> KeyFile key 384)"
    "list_all plain cs" "ks_path S = abs_path cs" "link_free (rows d) cs" "Dir (ks_path S) \<noteq> ks_path S"
    "Clean (ks_path S) = ks_path S"
proof -
  obtain key d1 v where n: "NormalizeAPIKey raw = Inr key" and c: "checkPath E (ks_path S) d = Some (Inr v, d1)"
      and b: "sql_bind (private_dir E (Dir (ks_path S))) (\<lambda>_. write_key E (ks_path S) key) d1 = (Inr u, d')"
    using assms(1) by (auto simp: SaveKey_def split: sum.splits option.splits prod.splits)
  obtain w d2 where p: "private_dir E (Dir (ks_path S)) d1 = (Inr w, d2)" and k: "write_key E (ks_path S) key d2 = (Inr u, d')"
    using b by (rule sql_bindE)
  have "rows d2 = rows d" using private_dir_rows [OF p] checkPath_returns [of E "ks_path S" d] c by auto
  with write_key_done [OF k assms(3)] have "rows d' = (rows d)(ks_path S \<mapsto> KeyFile key 384)" by simp
  then show ?thesis using that n checkPath_link_free [OF c assms(2)] by metis
qed

lemma SaveKey_failed:
  assumes "SaveKey E S raw d = Some (Inl e, d')" "\<And>n. temp_key E n (Dir (ks_path S)) \<noteq> ks_path S" "rows d p \<noteq> None"
  shows "rows d' p = rows d p"
proof -
  obtain r d1 where c: "checkPath E (ks_path S) d = Some (r, d1)" "rows d1 = rows d" using checkPath_returns by blast
  then consider "d' = d" | "d' = d1" | key where
      "sql_bind (private_dir E (Dir (ks_path S))) (\<lambda>_. write_key E (ks_path S) key) d1 = (Inl e, d')"
    using assms(1) by (auto simp: SaveKey_def split: sum.splits)
  then show ?thesis
  proof cases
    case 3
    then consider "private_dir E (Dir (ks_path S)) d1 = (Inl e, d')"
      | w d2 where "private_dir E (Dir (ks_path S)) d1 = (Inr w, d2)" "write_key E (ks_path S) key d2 = (Inl e, d')"
      by (rule sql_bind_InlE)
    then show ?thesis
    proof cases
      case 1
      then show ?thesis using c(2) private_dir_rows by metis
    next
      case (2 w d2)
      then show ?thesis using c(2) private_dir_rows [OF 2(1)] write_key_failed [OF 2(2) assms(2)] assms(3) by simp
    qed
  qed (use c in simp_all)
qed

lemma SaveKey_returns: "\<exists>r d'. SaveKey E S raw d = Some (r, d')"
  using checkPath_returns [of E "ks_path S" d] by (auto simp: SaveKey_def split: sum.splits)

lemma link_free_file:
  assumes "link_free fs cs" "list_all plain cs"
  shows "link_free (fs(p \<mapsto> KeyFile k m)) cs"
  using assms by (auto simp: link_free_def list_all_iff no_link_def)

lemma ReadKey_gives:
  assumes "no_faults E" "list_all plain cs" "path = abs_path cs" "link_free (rows d) cs" "Dir path \<noteq> path" "Clean path = path"
    and "rows d path = Some (KeyFile k 384)" "NormalizeAPIKey k = Inr k" "length k \<le> 4096"
  shows "\<exists>d1. ReadKey E \<lparr>ks_path = path, ks_fallback = F\<rparr> d = Some (Inr k, d1)"
proof -
  obtain d1 where "check_parents E path d = Some (Inr (), d1)"
    using check_parents_link_free [OF assms(1,2,4)] assms(3) by blast
  moreover have abs: "IsAbs path" "path \<noteq> []" by (simp_all add: assms(3) abs_path_def IsAbs_components)
  ultimately have c: "checkPath E path d = Some (Inr (), d1)" using assms(5,6) by (simp add: checkPath_def)
  then have "rows d1 path = Some (KeyFile k 384)" using checkPath_returns [of E path d] assms(7) by auto
  then obtain d2 where "read_file E path d1 = (Inr (Some k), d2)"
    using read_file_gives [OF assms(1), of d1 path k 384] assms(8,9) by (auto simp: group_or_other_def)
  with c abs show ?thesis by (simp add: ReadKey_def)
qed

text \<open>
  C29: Saving a key returns whatever fails. When it succeeds, nothing but the key file has changed, which
  holds the normal form of the key with rights for its owner only, and reading gives just that key,
  whatever the environment holds; when it fails, all that was there is as it was.
\<close>

theorem saved_key_is_read_back:
  assumes "honest E" "\<And>n. temp_key E n (Dir (ks_path S)) \<noteq> ks_path S"
  shows "\<exists>r d'. SaveKey E S raw d = Some (r, d') \<and>
    (case r of
       Inl e \<Rightarrow> \<forall>p. rows d p \<noteq> None \<longrightarrow> rows d' p = rows d p
     | Inr u \<Rightarrow> \<exists>key. NormalizeAPIKey raw = Inr key \<and> rows d' = (rows d)(ks_path S \<mapsto> KeyFile key 384) \<and>
         (\<forall>E' F. no_faults E' \<longrightarrow> (\<exists>d1. ReadKey E' \<lparr>ks_path = ks_path S, ks_fallback = F\<rparr> d' = Some (Inr key, d1))))"
proof -
  obtain r d' where s: "SaveKey E S raw d = Some (r, d')" using SaveKey_returns by blast
  show ?thesis
  proof (cases r)
    case (Inl e)
    with s SaveKey_failed [of E S raw d e d'] assms(2) show ?thesis by auto
  next
    case (Inr u)
    obtain key cs where k: "NormalizeAPIKey raw = Inr key" "rows d' = (rows d)(ks_path S \<mapsto> KeyFile key 384)"
        and c: "list_all plain cs" "ks_path S = abs_path cs" "link_free (rows d) cs" "Dir (ks_path S) \<noteq> ks_path S"
          "Clean (ks_path S) = ks_path S"
      using SaveKey_done [of E S raw d u d'] s Inr assms by blast
    have "\<exists>d1. ReadKey E' \<lparr>ks_path = ks_path S, ks_fallback = F\<rparr> d' = Some (Inr key, d1)" if "no_faults E'" for E' F
      using ReadKey_gives [OF that c(1,2) _ c(4,5), of d' key F] link_free_file [OF c(3,1)] k(2)
        NormalizeAPIKey_normal [OF k(1)] by simp
    with s Inr k show ?thesis by auto
  qed
qed

section \<open>A concrete key file\<close>

lemma SaveKey_succeeds:
  assumes E: "no_faults E" and p: "list_all plain cs" "plain c" "path = abs_path (cs @ [c])" "Clean path = path"
    and fs: "link_free (rows d) (cs @ [c])" "rows d (abs_path cs) = Some (KeyDir m)" "\<not> group_or_other m" "rows d path = None"
    and t: "\<And>n. rows d (temp_key E n (abs_path cs)) = None" "\<And>n. temp_key E n (abs_path cs) \<noteq> path"
    and k: "NormalizeAPIKey raw = Inr key"
  shows "\<exists>d'. SaveKey E \<lparr>ks_path = path, ks_fallback = F\<rparr> raw d = Some (Inr (), d')"
proof -
  have dir: "Dir path = abs_path cs" using Dir_abs [OF p(1,2)] p(3) by simp
  obtain d1 where "check_parents E path d = Some (Inr (), d1)"
    using check_parents_link_free [OF E _ fs(1)] p by auto
  moreover have "IsAbs path" "Dir path \<noteq> path"
    using dir abs_path_snoc [OF p(2), of cs] p(3) by (auto simp: abs_path_def IsAbs_components)
  ultimately have c: "checkPath E path d = Some (Inr (), d1)" using p(4) by (simp add: checkPath_def)
  then have r: "rows d1 = rows d" using checkPath_returns [of E path d] by auto
  have "followed (rows d) (abs_path cs) = Some (KeyDir m)" using fs(2) by (simp add: followed_def)
  then obtain d2 where pd: "private_dir E (Dir path) d1 = (Inr (), d2)" "rows d2 = rows d"
    using E r fs(3) dir by (simp add: private_dir_def key_stat_def sql_stmt_def no_faults_def)
  define temp where "temp = temp_key E (tick d2) (abs_path cs)"
  define d3 where "d3 = \<lparr>rows = (rows d)(temp \<mapsto> KeyFile [] 384), tick = Suc (tick d2)\<rparr>"
  have kc: "key_create E (Dir path) d2 = (Inr temp, d3)"
    using E t(1) pd(2) dir by (simp add: key_create_def sql_stmt_def no_faults_def temp_def d3_def Let_def)
  have "temp \<noteq> path" using t(2) by (simp add: temp_def)
  then obtain d4 where "fill_key E temp key path d3 = (Inr (), d4)"
    using E fs(4) by (simp add: fill_key_def sql_bind_def key_write_def key_rename_def sql_call_def sql_query_def
      sql_stmt_def no_faults_def d3_def)
  with kc have "write_key E path key d2 = (Inr (), snd (key_remove E temp d4))" by (simp add: write_key_def)
  with c pd(1) k show ?thesis by (simp add: SaveKey_def sql_bind_def)
qed

definition key_env :: dbenv where
  "key_env = \<lparr>fault = (\<lambda>n. None), clock_at = (\<lambda>n. 0), uuid_at = (\<lambda>n i. ''1''), db_set = True\<rparr>"

definition key_place :: key_store where
  "key_place = \<lparr>ks_path = ''/k/key'', ks_fallback = []\<rparr>"

definition key_disk :: "key_fs db" where
  "key_disk = \<lparr>rows = [''/'' \<mapsto> KeyDir 493, ''/k'' \<mapsto> KeyDir 448], tick = 0\<rparr>"

lemma key_env_honest: "honest key_env" "no_faults key_env"
  by (simp_all add: honest_def no_faults_def key_env_def)

lemma key_place_path: "''/k/key'' = abs_path ([''k''] @ [''key''])" "''/k'' = abs_path [''k'']"
  by (simp_all add: abs_path_def)

lemma key_place_temp: "temp_key key_env n ''/k'' = ''/k/.g2b-key-1''"
  by (simp add: temp_key_def key_env_def Join_def Clean_def IsAbs_components components_def Let_def)

lemma key_place_dir: "Dir ''/k/key'' = ''/k''"
  using Dir_abs [of "[''k'']" "''key''"] by (simp add: abs_path_def plain_def)

lemma key_place_normal: "NormalizeAPIKey ''a%2Bb'' = Inr ''a+b''"
proof -
  have "char_of (43 :: nat) = CHR ''+''" by (simp add: char_of_def bit_0)
  then show ?thesis
    by (simp add: NormalizeAPIKey_def trim_space_visible visible_def byte_def hex_val_def key_char_def is_digit_def)
qed

lemma key_place_clean: "Clean ''/k/key'' = ''/k/key''"
  by (simp add: Clean_def IsAbs_components components_def Let_def)

lemma key_place_saves: "\<exists>d'. SaveKey key_env key_place ''a%2Bb'' key_disk = Some (Inr (), d')"
proof -
  have "link_free (rows key_disk) ([''k''] @ [''key''])"
    by (simp add: link_free_def key_disk_def abs_path_def no_link_def upt_rec)
  moreover note key_place_normal
  ultimately show ?thesis
    using key_place_clean unfolding key_place_def
    by (intro SaveKey_succeeds [where cs = "[''k'']" and c = "''key''" and m = 448, OF key_env_honest(2)])
      (simp_all add: plain_def abs_path_def key_disk_def group_or_other_def key_place_temp)
qed

theorem saved_key_is_read_back_witness:
  "\<exists>d' d1. SaveKey key_env key_place ''a%2Bb'' key_disk = Some (Inr (), d') \<and> rows d' ''/k/key'' = Some (KeyFile ''a+b'' 384) \<and>
     ReadKey key_env key_place d' = Some (Inr ''a+b'', d1)"
proof -
  obtain d' where s: "SaveKey key_env key_place ''a%2Bb'' key_disk = Some (Inr (), d')" using key_place_saves by blast
  have "temp_key key_env i (Dir (ks_path key_place)) \<noteq> ks_path key_place" for i
    by (simp add: key_place_def key_place_dir key_place_temp)
  from saved_key_is_read_back [OF key_env_honest(1) this, of "''a%2Bb''" key_disk] s key_place_normal key_env_honest(2)
  have "rows d' = (rows key_disk)(''/k/key'' \<mapsto> KeyFile ''a+b'' 384)"
      "\<exists>d1. ReadKey key_env \<lparr>ks_path = ''/k/key'', ks_fallback = []\<rparr> d' = Some (Inr ''a+b'', d1)"
    by (auto simp: key_place_def)
  with s show ?thesis by (auto simp: key_place_def)
qed

definition kept_disk :: "key_fs db" where
  "kept_disk = \<lparr>rows = [''/'' \<mapsto> KeyDir 493, ''/k'' \<mapsto> KeyDir 448, ''/k/key'' \<mapsto> KeyFile ''a+b'' 384], tick = 0\<rparr>"

theorem key_only_from_private_file_witness:
  "\<exists>d1. ReadKey key_env key_place kept_disk = Some (Inr ''a+b'', d1) \<and> rows d1 = rows kept_disk \<and>
     key_source key_place (rows kept_disk) ''a+b''"
proof -
  have "link_free (rows kept_disk) ([''k''] @ [''key''])"
    by (simp add: link_free_def kept_disk_def abs_path_def no_link_def upt_rec)
  then obtain d1 where "ReadKey key_env \<lparr>ks_path = ''/k/key'', ks_fallback = []\<rparr> kept_disk = Some (Inr ''a+b'', d1)"
    using ReadKey_gives [OF key_env_honest(2) _ key_place_path(1), of kept_disk "''a+b''" "[]"] key_place_dir key_place_clean
      NormalizeAPIKey_normal(4) [OF key_place_normal] by (auto simp: plain_def kept_disk_def)
  with key_only_from_private_file [OF key_env_honest(1), of key_place kept_disk] show ?thesis
    by (auto simp: key_place_def)
qed

end
