(* ===== verification/Command_Laws.thy ===== *)
theory Command_Laws
  imports Runtime Key_Laws Account_Laws
begin

text \<open>
  What the command line guarantees: a command runs only under a configuration that is fit for it, and the
  exit code tells its result. The first administrator comes from the command line alone.
\<close>

section \<open>Directories\<close>

lemma split_byte_cons: "split_byte c s = hd (split_byte c s) # tl (split_byte c s)"
  by (induction s) (auto split: list.splits)

lemma parent_loop_components:
  "parent_loop piece s \<longleftrightarrow> ''..'' \<in> set ((piece @ hd (components s)) # tl (components s))"
  unfolding components_def
proof (induction s arbitrary: piece)
  case (Cons c s)
  show ?case
  proof (cases "c = slash")
    case True
    then show ?thesis using Cons [of "[]"] split_byte_cons [of slash s] by auto
  next
    case False
    then show ?thesis using Cons [of "piece @ [c]"] split_byte_cons [of slash s] by (auto split: list.splits)
  qed
qed auto

text \<open>The loop over the bytes of a path finds just the parent components.\<close>

lemma hasParentDirectory_iff: "hasParentDirectory p \<longleftrightarrow> ''..'' \<in> set (components p)"
  using split_byte_cons [of slash p] unfolding hasParentDirectory_def parent_loop_components components_def
  by (metis append_Nil)

lemma Clean_abs: "IsAbs p \<Longrightarrow> \<exists>cs. list_all plain cs \<and> Clean p = abs_path cs"
  using clean_rooted_plain [of "[]" "components p"] components_no_slash [of _ p]
  by (intro exI [of _ "foldl (clean_step True) [] (components p)"])
    (auto simp: Clean_def Let_def abs_path_def IsAbs_components)

section \<open>Configurations\<close>

text \<open>A proper directory below the root, named without a way up.\<close>

definition report_place :: "config \<Rightarrow> bool" where
  "report_place c \<longleftrightarrow> cf_delivery c = ''report'' \<and> ''..'' \<notin> set (components (cf_report_dir c)) \<and>
     (\<exists>cs. cs \<noteq> [] \<and> list_all plain cs \<and> Clean (cf_report_dir c) = abs_path cs)"

definition loopback_listener :: "config_env \<Rightarrow> config \<Rightarrow> bool" where
  "loopback_listener X c \<longleftrightarrow>
     (\<exists>host port n. SplitHostPort (trim_space (cf_listen c)) = Some (host, port) \<and> parse_int64 port = Some n \<and>
        1 \<le> n \<and> n \<le> 65535 \<and> (cx_fold_eq X host ''localhost'' \<or> cx_loopback X host))"

definition fit_config :: "config_env \<Rightarrow> string \<Rightarrow> config \<Rightarrow> bool" where
  "fit_config X command c \<longleftrightarrow>
     32 \<le> length (cf_session_key c) \<and> trim_space (cf_database c) \<noteq> [] \<and> 1 \<le> cf_smtp_port c \<and> cf_smtp_port c \<le> 65535 \<and>
     base_ok X c False \<and>
     (command = ''serve'' \<longrightarrow> report_place c \<and> base_ok X c True \<and> loopback_listener X c) \<and>
     (command = ''generate-report'' \<longrightarrow> report_place c) \<and>
     (command = ''migrate'' \<or> command = ''create-admin'' \<longrightarrow>
        trim_space (cf_migration c) \<noteq> [] \<and> \<not> sameDatabaseRole X (cf_migration c) (cf_database c))"

lemma validateReportDelivery_place: "validateReportDelivery c command = None \<Longrightarrow> report_place c"
proof -
  assume v: "validateReportDelivery c command = None"
  then have d: "cf_delivery c = ''report''" "IsAbs (cf_report_dir c)" "\<not> hasParentDirectory (cf_report_dir c)"
      "Dir (Clean (cf_report_dir c)) \<noteq> Clean (cf_report_dir c)"
    by (auto simp: validateReportDelivery_def Let_def split: if_splits)
  obtain cs where cs: "list_all plain cs" "Clean (cf_report_dir c) = abs_path cs" using Clean_abs [OF d(2)] by blast
  then have "cs \<noteq> []" using d(4) by auto
  with cs d show ?thesis by (auto simp: report_place_def hasParentDirectory_iff)
qed

lemma parse_port_range: "parse_port s = Some n \<Longrightarrow> parse_int64 s = Some n \<and> 1 \<le> n \<and> n \<le> 65535"
  by (auto simp: parse_port_def split: option.splits if_splits)

lemma validateLoopbackListener_loopback: "validateLoopbackListener X (cf_listen c) = None \<Longrightarrow> loopback_listener X c"
  unfolding loopback_listener_def validateLoopbackListener_def
  by (auto dest: parse_port_range split: option.splits prod.splits if_splits)

lemma LoadConfig_loaded:
  assumes "LoadConfig X lookup = Inr c"
  shows "32 \<le> length (cf_session_key c)" "trim_space (cf_database c) \<noteq> []" "1 \<le> cf_smtp_port c" "cf_smtp_port c \<le> 65535"
    "base_ok X c False"
  using assms by (auto simp: LoadConfig_def Let_def dest: parse_port_range split: option.splits if_splits)

lemma ValidateCommand_fit:
  assumes "LoadConfig X lookup = Inr c" "ValidateCommand X c command = None"
  shows "fit_config X command c"
proof -
  have "report_place c \<and> base_ok X c True \<and> loopback_listener X c" if "command = ''serve''"
    using assms(2) that by (auto simp: ValidateCommand_def intro: validateReportDelivery_place validateLoopbackListener_loopback
      split: option.splits if_splits)
  moreover have "report_place c" if "command = ''generate-report''"
    using assms(2) that by (auto simp: ValidateCommand_def intro: validateReportDelivery_place)
  moreover have "trim_space (cf_migration c) \<noteq> [] \<and> \<not> sameDatabaseRole X (cf_migration c) (cf_database c)"
    if "command = ''migrate'' \<or> command = ''create-admin''"
    using assms(2) that by (auto simp: ValidateCommand_def split: if_splits)
  ultimately show ?thesis using LoadConfig_loaded [OF assms(1)] by (simp add: fit_config_def)
qed

section \<open>Running a command\<close>

definition handler_of :: "'s operations \<Rightarrow> string \<Rightarrow> (config \<Rightarrow> string list \<Rightarrow> 's \<Rightarrow> goerr option \<times> 's) option" where
  "handler_of ops command =
     (if command = ''serve'' then op_serve ops else if command = ''migrate'' then op_migrate ops
      else if command = ''create-admin'' then op_create_admin ops else if command = ''collect-once'' then op_collect_once ops
      else if command = ''generate-report'' then op_generate_report ops else None)"

text \<open>The choice by name, over any conditions.\<close>

lemma picked_handler:
  assumes "(case (if x1 then Some h1 else if x2 then Some h2 else if x3 then Some h3 else if x4 then Some h4
      else if x5 then Some h5 else None) of
      None \<Rightarrow> (Some e1, s) | Some None \<Rightarrow> (Some e2, s) | Some (Some run) \<Rightarrow> run c args s) = (e, s')"
  shows "(if x1 then h1 else if x2 then h2 else if x3 then h3 else if x4 then h4 else if x5 then h5 else None) = None \<and>
      e \<noteq> None \<and> s' = s \<or>
    (\<exists>run. (if x1 then h1 else if x2 then h2 else if x3 then h3 else if x4 then h4 else if x5 then h5 else None) = Some run \<and>
       run c args s = (e, s'))"
  using assms by (auto split: if_splits option.splits)

lemma Execute_handler:
  assumes "Execute (Some ops) command c args s = (e, s')"
  shows "handler_of ops command = None \<and> e \<noteq> None \<and> s' = s \<or>
    (\<exists>run. handler_of ops command = Some run \<and> run c args s = (e, s'))"
proof (cases "command = ''send-test-mail''")
  case True
  then show ?thesis using assms by (auto simp: Execute_def handler_of_def)
next
  case False
  show ?thesis using assms unfolding Execute_def handler_of_def Let_def option.case if_not_P [OF False]
    by (rule picked_handler)
qed

lemma Run_cli_ran:
  assumes "Run_cli X args lookup (Some run) s = (out, code, s')" "code = 0 \<or> s' \<noteq> s"
  obtains command rest c where "args = command # rest" "command \<in> set commands" "LoadConfig X lookup = Inr c"
    "ValidateCommand X c command = None" "snd (run command c rest s) = s'" "code = 0 \<longleftrightarrow> fst (run command c rest s) = None"
proof -
  have "args \<noteq> []" using assms by (auto simp only: Run_cli_def list.case prod.inject)
  then obtain command rest where a: "args = command # rest" by (cases args) auto
  define mail where "mail = (command = ''send-test-mail'')"
  define known where "known = (command \<in> set commands)"
  define line where "line e = (if command = ''generate-report'' then ReportFailed else CommandFailed command e)" for e
  define quiet where "quiet = (command \<noteq> ''serve'' \<and> command \<noteq> ''generate-report'')"
  have r: "(if mail then ([MailDisabled], 1, s) else if \<not> known then ([UnknownCommand command, Usage], 2, s)
      else case LoadConfig X lookup of
        Inl e \<Rightarrow> ([BadConfig e], 1, s)
      | Inr c \<Rightarrow> (case ValidateCommand X c command of
          Some e \<Rightarrow> ([BadConfig e], 1, s)
        | None \<Rightarrow> (case run command c rest s of
            (Some e, s') \<Rightarrow> ([line e], 1, s')
          | (None, s') \<Rightarrow> (if quiet then [CommandDone command] else [], 0, s')))) = (out, code, s')"
    using assms(1) unfolding a Run_cli_def list.case option.case mail_def known_def line_def quiet_def .
  then obtain c where c: "known" "LoadConfig X lookup = Inr c" "ValidateCommand X c command = None"
    using assms(2) by (auto split: if_splits sum.splits option.splits)
  have "\<not> mail" using r assms(2) by (cases mail) auto
  obtain e s1 where x: "run command c rest s = (e, s1)" by fastforce
  have "(case e of Some e \<Rightarrow> ([line e], 1, s1) | None \<Rightarrow> (if quiet then [CommandDone command] else [], 0, s1)) = (out, code, s')"
    using r \<open>\<not> mail\<close> c x by simp
  then have "s1 = s'" "code = (case e of Some e \<Rightarrow> 1 | None \<Rightarrow> 0)" by (cases e; simp only: option.case prod.inject)+
  then have "snd (run command c rest s) = s'" "code = 0 \<longleftrightarrow> fst (run command c rest s) = None"
    unfolding x by (simp_all split: option.split)
  with a c show ?thesis unfolding known_def by (intro that) simp_all
qed

text \<open>
  C31: The program exits with success, or changes anything at all, only after it ran the operation of a
  known command under a configuration loaded from its environment that is fit for the command; and it
  exits with success exactly when that operation gave no error.
\<close>

theorem commands_run_checked:
  assumes "Run_cli X args lookup (Some (Execute (Some ops))) s = (out, code, s')" "code = 0 \<or> s' \<noteq> s"
  shows "\<exists>command rest c run. args = command # rest \<and> LoadConfig X lookup = Inr c \<and> fit_config X command c \<and>
    handler_of ops command = Some run \<and> snd (run c rest s) = s' \<and> (code = 0 \<longleftrightarrow> fst (run c rest s) = None)"
proof -
  from assms show ?thesis
  proof (rule Run_cli_ran)
    fix command rest c
    assume a: "args = command # rest" and c: "LoadConfig X lookup = Inr c" "ValidateCommand X c command = None"
      and r: "snd (Execute (Some ops) command c rest s) = s'" "code = 0 \<longleftrightarrow> fst (Execute (Some ops) command c rest s) = None"
    obtain e where x: "Execute (Some ops) command c rest s = (e, s')" using r(1) by (cases "Execute (Some ops) command c rest s") simp
    then have e: "code = 0 \<longleftrightarrow> e = None" using r(2) by simp
    then obtain run where "handler_of ops command = Some run" "run c rest s = (e, s')"
      using Execute_handler [OF x] assms(2) by blast
    with a c(1) e ValidateCommand_fit [OF c] show ?thesis by auto
  qed
qed

section \<open>The administrator\<close>

text \<open>A password of one line of at least 12 characters and at most 72 bytes.\<close>

definition admin_password :: "string \<Rightarrow> bool" where
  "admin_password p \<longleftrightarrow> 12 \<le> rune_count p \<and> length p \<le> 72 \<and> \<not> contains_any p [CHR 0x0D, CHR 0x0A]"

lemma readPassword_ok: "readPassword reader = Inr p \<Longrightarrow> admin_password p"
  by (auto simp: readPassword_def admin_password_def Let_def split: sum.splits if_splits)

lemma parseCreateAdminOptions_ok:
  assumes "parseCreateAdminOptions A args input openFile = Inr (o', p)"
  shows "\<exists>raw. normalizeLoginIdentifier A raw = Some (ca_email o')" "admin_password p"
  using assms
  by (auto simp: parseCreateAdminOptions_def Let_def map_sum_Inr intro: readPassword_ok
      split: sum.splits prod.splits option.splits if_splits)

definition new_admin :: "account_env \<Rightarrow> 's auth_env \<Rightarrow> (string \<Rightarrow> string res) \<Rightarrow> accounts \<Rightarrow> user_row \<Rightarrow> bool" where
  "new_admin R A secure t u \<longleftrightarrow>
     u_role u = PlatformAdmin \<and> u_tenant u = None \<and> (\<exists>raw. normalizeLoginIdentifier A raw = Some (u_email u)) \<and>
     (\<exists>p. admin_password p \<and> secure p = Inr (u_password u)) \<and> list_all (\<lambda>v. u_id v \<noteq> u_id u \<and> u_email v \<noteq> u_email u) (ac_users t)"

lemma createAdmin_effect:
  assumes "createAdmin R A secure input openFile pool args d = (r, d')"
  shows "case r of
      Inl e \<Rightarrow> rows d' = rows d
    | Inr x \<Rightarrow> \<exists>u. rows d' = (rows d)\<lparr>ac_users := ac_users (rows d) @ [u]\<rparr> \<and> new_admin R A secure (rows d) u \<and>
        admins (rows d') = admins (rows d) @ [u]"
proof -
  from assms consider "rows d' = rows d \<and> (\<exists>e. r = Inl e)"
    | o' p where "parseCreateAdminOptions A args input openFile = Inr (o', p) \<and> pool = None \<and>
      insertPlatformAdmin R secure o' p d = (r, d')"
    by (auto simp: createAdmin_def sql_fail_def split: sum.splits option.splits)
  then show ?thesis
  proof cases
    case (2 o' p)
    then have a: "parseCreateAdminOptions A args input openFile = Inr (o', p) \<and> pool = None \<and> insertPlatformAdmin R secure o' p d = (r, d')" .
    show ?thesis
    proof (cases r)
      case (Inl e)
      then show ?thesis using a
        by (auto simp: insertPlatformAdmin_def sql_fail_def sql_wrap_def change_def sql_stmt_def
            split: if_splits sum.splits prod.splits option.splits)
    next
      case (Inr x)
      then obtain h n where h: "secure p = Inr h" and t: "insert_user \<lparr>u_id = uuid_at (ae_db R) n 0, u_tenant = None,
            u_email = ca_email o', u_display = ca_name o', u_password = h, u_role = PlatformAdmin,
            u_created = clock_at (ae_db R) n\<rparr> (rows d) = Inr (rows d')"
        using a
        by (auto simp: insertPlatformAdmin_def sql_fail_def sql_wrap_def change_def sql_stmt_def map_sum_Inr
            split: if_splits sum.splits prod.splits option.splits)
      define u where "u = \<lparr>u_id = uuid_at (ae_db R) n 0, u_tenant = None, u_email = ca_email o', u_display = ca_name o',
          u_password = h, u_role = PlatformAdmin, u_created = clock_at (ae_db R) n\<rparr>"
      have i: "insert_user u (rows d) = Inr (rows d')" using t by (simp add: u_def)
      have "rows d' = (rows d)\<lparr>ac_users := ac_users (rows d) @ [u]\<rparr>"
          "list_all (\<lambda>v. u_id v \<noteq> u_id u \<and> u_email v \<noteq> u_email u) (ac_users (rows d))"
        using i by (auto simp: insert_user_def list_ex_conv list_all_iff split: if_splits)
      moreover have "new_admin R A secure (rows d) u"
        using calculation(2) h parseCreateAdminOptions_ok [of A args input openFile o' p] a by (auto simp: new_admin_def u_def)
      moreover have "admins (rows d') = admins (rows d) @ [u]" using calculation(1) by (simp add: admins_def u_def)
      ultimately show ?thesis using Inr by auto
    qed
  qed auto
qed

text \<open>
  The command that creates an administrator either fails and leaves every table as it was, or adds
  exactly one account: a platform administrator without a company, with a login in its normal form that
  no account has, and the hash of a password of at least 12 characters and at most 72 bytes.
\<close>

theorem administrator_created:
  "case createAdmin R A secure input openFile pool args d of
      (Inl e, d') \<Rightarrow> rows d' = rows d
    | (Inr x, d') \<Rightarrow> \<exists>u. rows d' = (rows d)\<lparr>ac_users := ac_users (rows d) @ [u]\<rparr> \<and> new_admin R A secure (rows d) u \<and>
        admins (rows d') = admins (rows d) @ [u]"
proof -
  obtain r d' where c: "createAdmin R A secure input openFile pool args d = (r, d')" by fastforce
  from createAdmin_effect [OF c] show ?thesis unfolding c by (cases r) simp_all
qed

section \<open>A concrete environment\<close>

definition site_env :: config_env where
  "site_env = \<lparr>cx_url = (\<lambda>u. Some \<lparr>ur_scheme = ''https'', ur_user = None, ur_host = u, ur_path = [], ur_escaped = [],
      ur_query = [], ur_force_query = False, ur_fragment = []\<rparr>), cx_address = Some, cx_loopback = (\<lambda>h. h = ''127.0.0.1''),
      cx_fold_eq = (=)\<rparr>"

definition site_settings :: "string \<Rightarrow> string option" where
  "site_settings k =
     (if k = ''DATABASE_URL'' then Some ''db'' else if k = ''SESSION_KEY'' then Some (replicate 32 CHR ''k'')
      else if k = ''BASE_URL'' then Some ''site'' else if k = ''REPORT_DIR'' then Some ''/r'' else None)"

definition site_operations :: "nat operations" where
  "site_operations = \<lparr>op_serve = Some (\<lambda>c args n. (None, Suc n)), op_migrate = None, op_create_admin = None,
      op_collect_once = None, op_generate_report = None\<rparr>"

definition site_config :: config where
  "site_config = \<lparr>cf_database = ''db'', cf_migration = [], cf_api_key = [], cf_api_key_file = defaultAPIKeyFile,
      cf_smtp_host = [], cf_smtp_port = 587, cf_smtp_user = [], cf_smtp_password = [], cf_smtp_from = [], cf_base_url = ''site'',
      cf_session_key = replicate 32 CHR ''k'', cf_listen = ''127.0.0.1:8080'', cf_time_zone = ''Asia/Seoul'',
      cf_delivery = ''report'', cf_report_dir = ''/r''\<rparr>"

lemma trim_visible_hd: "visible c \<Longrightarrow> visible (last (c # cs)) \<Longrightarrow> trim_space (c # cs) = c # cs"
  by (rule trim_space_visible) auto

lemma site_settings_read:
  "setting site_settings ''DATABASE_URL'' x = ''db''" "setting site_settings ''SESSION_KEY'' x = replicate 32 CHR ''k''"
  "setting site_settings ''BASE_URL'' x = ''site''" "setting site_settings ''REPORT_DIR'' x = ''/r''"
  by (simp_all add: setting_def site_settings_def trim_visible_hd visible_def byte_def numeral_eq_Suc)

lemma site_settings_unset:
  "k \<notin> {''DATABASE_URL'', ''SESSION_KEY'', ''BASE_URL'', ''REPORT_DIR''} \<Longrightarrow> setting site_settings k x = x"
  by (simp add: setting_def site_settings_def)

lemma site_config_settings: "(settings site_settings)\<lparr>cf_smtp_port := 587\<rparr> = site_config"
  unfolding settings_def site_settings_read site_config_def by (simp add: site_settings_unset)

lemma site_config_loaded: "LoadConfig site_env site_settings = Inr site_config"
proof -
  have "setting site_settings ''SMTP_PORT'' ''587'' = ''587''" by (simp add: site_settings_unset)
  moreover have "parse_port ''587'' = Some 587"
    using parse_int64_show_int [of 587]
    by (simp add: parse_port_def show_int_def show_nat.simps digit_char_def char_of_def bit_0 in_int64_def int64_min_def int64_max_def)
  moreover have "base_ok site_env site_config False"
    by (simp add: base_ok_def validBaseURL_def site_env_def site_config_def)
  moreover have "trim_space (cf_database site_config) \<noteq> []" "32 \<le> length (cf_session_key site_config)"
    by (simp_all add: site_config_def trim_visible_hd visible_def byte_def)
  ultimately show ?thesis by (simp add: LoadConfig_def site_config_settings Let_def)
qed

lemma site_config_serves: "ValidateCommand site_env site_config ''serve'' = None"
proof -
  have "validateReportDelivery site_config ''serve'' = None"
    using Dir_abs [of "[]" "''r''"]
    by (simp add: validateReportDelivery_def site_config_def IsAbs_components hasParentDirectory_def Clean_def components_def
        Let_def abs_path_def plain_def)
  moreover have "base_ok site_env site_config True"
    by (simp add: base_ok_def validBaseURL_def site_env_def site_config_def)
  moreover have "validateLoopbackListener site_env ''127.0.0.1:8080'' = None"
  proof -
    have "parse_port ''8080'' = Some 8080"
      using parse_int64_show_int [of 8080]
      by (simp add: parse_port_def show_int_def show_nat.simps digit_char_def char_of_def bit_0 in_int64_def int64_min_def int64_max_def)
    moreover have "cut_last CHR '':'' ''127.0.0.1:8080'' = Some (''127.0.0.1'', ''8080'')"
      using cut_last_append [of "CHR '':''" "''8080''" "''127.0.0.1''"] by simp
    moreover have "trim_space ''127.0.0.1:8080'' = ''127.0.0.1:8080''" by (rule trim_visible_hd) (simp_all add: visible_def byte_def)
    ultimately show ?thesis by (simp add: validateLoopbackListener_def SplitHostPort_def site_env_def)
  qed
  ultimately show ?thesis by (simp add: ValidateCommand_def site_config_def)
qed

theorem commands_run_checked_witness:
  "\<exists>c. LoadConfig site_env site_settings = Inr c \<and> fit_config site_env ''serve'' c \<and>
     Run_cli site_env [''serve''] site_settings (Some (Execute (Some site_operations))) 7 = ([], 0, 8)"
proof -
  have x: "Execute (Some site_operations) ''serve'' c args n = (None, Suc n)" for c args n
    by (simp add: Execute_def site_operations_def)
  have r: "Run_cli site_env [''serve''] site_settings (Some (Execute (Some site_operations))) 7 = ([], 0, 8)"
    unfolding Run_cli_def list.case option.case site_config_loaded sum.case site_config_serves x by (simp add: commands_def)
  have "0 = (0 :: int) \<or> 8 \<noteq> (7 :: nat)" by simp
  from commands_run_checked [OF r this] r show ?thesis by auto
qed

end
