(* ===== verification/View_Laws.thy ===== *)
theory View_Laws
  imports Web_Store Render Digest_Laws
begin

text \<open>
  The pages say what the service does: the next delivery on the settings page is the slot at which the
  schedule becomes due, and amounts on the pages are those of the reports.
\<close>

section \<open>The next delivery\<close>

text \<open>A slot of a schedule: an allowed weekday at its hour and minute, in Korean time.\<close>

definition is_slot :: "int \<Rightarrow> int \<Rightarrow> int list \<Rightarrow> time \<Rightarrow> bool" where
  "is_slot hour minute ds t \<longleftrightarrow> weekday_of_day (kst_day t) \<in> set ds \<and> t = kst_at (kst_day t) hour minute"

lemma is_slot_at:
  assumes "0 \<le> hour" "hour \<le> 23" "0 \<le> minute" "minute \<le> 59"
  shows "is_slot hour minute ds (kst_at d hour minute) \<longleftrightarrow> weekday_of_day d \<in> set ds"
  using kst_day_at [OF assms] by (simp add: is_slot_def)

lemma weekday_in_a_week:
  assumes "0 \<le> w" "w \<le> 6"
  shows "\<exists>k. 1 \<le> k \<and> k \<le> (7::nat) \<and> weekday_of_day (d + int k) = w"
proof -
  obtain j where j: "1 \<le> j" "j \<le> (7::nat)" "weekday_of_day (d + 8 - int j) = w"
    using weekday_within_week [OF assms] by blast
  then show ?thesis by (intro exI [of _ "8 - j"]) (auto simp: of_nat_diff algebra_simps)
qed

text \<open>The first slot after now, and when it becomes due.\<close>

lemma next_delivery_slot:
  assumes h: "0 \<le> hour" "hour \<le> 23" "0 \<le> minute" "minute \<le> 59"
    and ds: "ds \<noteq> []" "\<forall>w \<in> set ds. 0 \<le> w \<and> w \<le> 6"
  obtains t where "nextDeliveryAt now hour minute ds = Some t" "is_slot hour minute ds t" "now < t" "t \<le> now + 8 * day_ns"
    "\<And>u. is_slot hour minute ds u \<Longrightarrow> now < u \<Longrightarrow> t \<le> u"
proof -
  let ?D = "kst_day now" and ?at = "\<lambda>k. kst_at (kst_day now + int k) hour minute"
  let ?ok = "\<lambda>k. weekday_of_day (kst_day (?at k)) \<in> set ds \<and> now < ?at k"
  have ok: "?ok k \<longleftrightarrow> weekday_of_day (?D + int k) \<in> set ds \<and> now < ?at k" for k by (simp add: kst_day_at [OF h])
  have run: "nextDeliveryAt now hour minute ds = map_option ?at (find ?ok [0..<8])"
  proof -
    have bad: "\<not> list_ex (\<lambda>w. w < 0 \<or> 6 < w) ds" using ds(2) by (force simp: list_ex_iff)
    have "find (\<lambda>t. weekday_of_day (kst_day t) \<in> set ds \<and> now < t) (map ?at ks) = map_option ?at (find ?ok ks)" for ks
      by (induction ks) auto
    then show ?thesis using h ds(1) bad by (simp add: nextDeliveryAt_def del: upt_Suc)
  qed
  obtain w where w: "w \<in> set ds" using ds(1) by (cases ds) auto
  then obtain k0 where k0: "1 \<le> k0" "k0 \<le> (7::nat)" "weekday_of_day (?D + int k0) = w"
    using weekday_in_a_week [of w ?D] ds(2) by auto
  have "now < ?at k0" using k0(1) h by (intro kst_at_after_day) auto
  with k0 w have "?ok k0" unfolding ok by simp
  moreover have "k0 \<in> set [0..<8]" using k0(2) by simp
  ultimately have "find ?ok [0..<8] \<noteq> None" unfolding find_None_iff by blast
  then obtain k where k: "find ?ok [0..<8] = Some k" by auto
  then have okk: "?ok k" "k < 8" and first: "\<And>i. i < k \<Longrightarrow> \<not> ?ok i" by (auto simp: find_upt_Some)
  show ?thesis
  proof
    show "nextDeliveryAt now hour minute ds = Some (?at k)" using run k by simp
    show "is_slot hour minute ds (?at k)" "now < ?at k" using okk by (simp_all add: is_slot_at [OF h] ok)
    show "?at k \<le> now + 8 * day_ns"
    proof -
      have "?at k \<le> kst_at (?D + 7) 23 59" using okk(2) h by (simp add: kst_at_def)
      with kst_day_bounds [of now] show ?thesis by (simp add: kst_at_def)
    qed
    fix u assume u: "is_slot hour minute ds u" "now < u"
    have d: "?D \<le> kst_day u" using kst_day_mono [of now u] u(2) by simp
    then have e: "?at (nat (kst_day u - ?D)) = u" using u(1) by (simp add: is_slot_def)
    with u d have "?ok (nat (kst_day u - ?D))" by (simp add: is_slot_def)
    then have "k \<le> nat (kst_day u - ?D)" using first not_le by blast
    then have "?at k \<le> ?at (nat (kst_day u - ?D))" using d by (intro kst_at_mono_day) simp
    with e show "?at k \<le> u" by simp
  qed
qed

text \<open>
  C32: The next delivery that the settings page announces for a valid schedule always exists, is the
  earliest slot after now and at most eight days away, and is what the runner finds due: from that
  instant until the following slot the schedule is due at just that time, unless it has been served.
\<close>

theorem announced_delivery_is_due:
  assumes "0 \<le> hour" "hour \<le> 23" "0 \<le> minute" "minute \<le> 59" "ds \<noteq> []" "\<forall>w \<in> set ds. 0 \<le> w \<and> w \<le> 6"
  shows "\<exists>t. nextDeliveryAt now hour minute ds = Some t \<and> now < t \<and> t \<le> now + 8 * day_ns \<and> is_slot hour minute ds t \<and>
    (\<forall>u. is_slot hour minute ds u \<and> now < u \<longrightarrow> t \<le> u) \<and>
    (\<forall>later served. t \<le> later \<and> (\<forall>u. nextDeliveryAt t hour minute ds = Some u \<longrightarrow> later < u) \<longrightarrow>
       latestDigestDue True later served hour minute ds = (if served = 0 \<or> served < t then Some t else None))"
proof -
  note h = assms(1-4)
  obtain t where t: "nextDeliveryAt now hour minute ds = Some t" "is_slot hour minute ds t" "now < t" "t \<le> now + 8 * day_ns"
      "\<And>u. is_slot hour minute ds u \<Longrightarrow> now < u \<Longrightarrow> t \<le> u"
    using next_delivery_slot [OF assms] by blast
  obtain u where u: "nextDeliveryAt t hour minute ds = Some u" "\<And>v. is_slot hour minute ds v \<Longrightarrow> t < v \<Longrightarrow> u \<le> v"
    using next_delivery_slot [OF assms, of t] by blast
  have "latestDigestDue True later served hour minute ds = (if served = 0 \<or> served < t then Some t else None)"
    if later: "t \<le> later" "later < u" for later served
  proof -
    have slots: "is_slot hour minute ds (kst_at d hour minute) \<longleftrightarrow> weekday_of_day d \<in> set ds" for d by (rule is_slot_at [OF h])
    have latest: "kst_at d hour minute \<le> t" if "weekday_of_day d \<in> set ds" "kst_at d hour minute \<le> later" for d
      using u(2) [of "kst_at d hour minute"] that slots later(2) by force
    have is_t: "(\<exists>d. t = kst_at d hour minute \<and> weekday_of_day d \<in> set ds)" using t(2) unfolding is_slot_def by blast
    have "c = t" if "latestDigestDue True later served hour minute ds = Some c" for c
    proof -
      have c: "\<exists>d. c = kst_at d hour minute \<and> weekday_of_day d \<in> set ds" "c \<le> later"
          "\<And>d. weekday_of_day d \<in> set ds \<Longrightarrow> kst_at d hour minute \<le> later \<Longrightarrow> kst_at d hour minute \<le> c"
        using that unfolding latestDigestDue_exact [OF assms] by blast+
      have "t \<le> c" using is_t c(3) later(1) by blast
      moreover have "c \<le> t" using c(1,2) latest by blast
      ultimately show ?thesis by simp
    qed
    moreover have "latestDigestDue True later served hour minute ds = Some t \<longleftrightarrow> served = 0 \<or> served < t"
      unfolding latestDigestDue_exact [OF assms] using is_t later(1) latest by blast
    ultimately show ?thesis by (cases "latestDigestDue True later served hour minute ds") auto
  qed
  with t u(1) show ?thesis by auto
qed

theorem announced_delivery_is_due_witness:
  "nextDeliveryAt (kst_at 738000 10 30) 9 0 [0, 1, 2, 3, 4, 5, 6] = Some (kst_at 738001 9 0) \<and>
   latestDigestDue True (kst_at 738001 12 0) 0 9 0 [0, 1, 2, 3, 4, 5, 6] = Some (kst_at 738001 9 0)"
proof -
  have n: "nextDeliveryAt (kst_at 738000 10 30) 9 0 [0, 1, 2, 3, 4, 5, 6] = Some (kst_at 738001 9 0)"
      "nextDeliveryAt (kst_at 738001 9 0) 9 0 [0, 1, 2, 3, 4, 5, 6] = Some (kst_at 738002 9 0)"
    by (simp_all add: nextDeliveryAt_def kst_day_at weekday_of_day_def upt_rec) (simp_all add: kst_at_def)
  with announced_delivery_is_due [of 9 0 "[0, 1, 2, 3, 4, 5, 6]" "kst_at 738000 10 30"]
  have "latestDigestDue True (kst_at 738001 12 0) 0 9 0 [0, 1, 2, 3, 4, 5, 6] = Some (kst_at 738001 9 0)"
    by (auto simp: kst_at_def)
  with n show ?thesis by simp
qed

section \<open>Amounts\<close>

lemma insert_commas_loop: "insert_commas 0 i s = group_loop (nat i) s"
proof (induction "nat i" arbitrary: i s rule: less_induct)
  case less
  show ?case
  proof (cases "i \<le> 0")
    case True
    then show ?thesis by (simp add: insert_commas.simps group_loop.simps)
  next
    case False
    then have "insert_commas 0 i s = insert_commas 0 (i - 3) (take (nat i) s @ '','' @ drop (nat i) s)"
      by (subst insert_commas.simps) simp
    also have "\<dots> = group_loop (nat (i - 3)) (take (nat i) s @ '','' @ drop (nat i) s)"
      using False by (intro less) simp
    also have "\<dots> = group_loop (nat i) s"
    proof -
      have "nat (i - 3) = nat i - 3" by linarith
      then show ?thesis using False by (subst (2) group_loop.simps) simp
    qed
    finally show ?thesis .
  qed
qed

lemma insert_commas_sign: "insert_commas (Suc 0) i (c # s) = c # insert_commas 0 (i - 1) s"
proof (induction "nat i" arbitrary: i s rule: less_induct)
  case less
  show ?case
  proof (cases "i \<le> 1")
    case True
    then show ?thesis by (simp add: insert_commas.simps)
  next
    case False
    then have n: "nat i = Suc (nat (i - 1))" by simp
    have "insert_commas (Suc 0) i (c # s) = insert_commas (Suc 0) (i - 3) (c # (take (nat (i - 1)) s @ '','' @ drop (nat (i - 1)) s))"
      using False n by (subst insert_commas.simps) simp
    also have "\<dots> = c # insert_commas 0 (i - 1 - 3) (take (nat (i - 1)) s @ '','' @ drop (nat (i - 1)) s)"
      using False by (subst less) (simp_all add: algebra_simps)
    also have "\<dots> = c # insert_commas 0 (i - 1) s"
      using False by (subst (2) insert_commas.simps) simp
    finally show ?thesis .
  qed
qed

text \<open>The two loops of the pages and the one of the reports.\<close>

lemma formatNumber_groupDigits: "formatNumber v = groupDigits v"
proof (cases "has_prefix (show_int v) ''-''")
  case True
  then obtain s where s: "show_int v = CHR ''-'' # s" by (auto simp: has_prefix_iff prefix_def)
  then have "formatNumber v = CHR ''-'' # insert_commas 0 (int (length s) - 3) s"
    by (simp add: formatNumber_def Let_def has_prefix_iff insert_commas_sign algebra_simps)
  also have "\<dots> = groupDigits v"
    using s by (simp add: groupDigits_def has_prefix_iff insert_commas_loop nat_diff_distrib' Let_def)
  finally show ?thesis .
next
  case False
  then show ?thesis by (simp add: formatNumber_def groupDigits_def Let_def insert_commas_loop nat_diff_distrib')
qed

lemma formatWon_groupDigits: "0 \<le> v \<Longrightarrow> formatWon v = groupDigits v @ v_won"
  using is_digit_not_sign [OF hd_show_nat_digit, of "nat v"]
  by (cases "show_nat (nat v)")
    (auto simp: formatWon_def groupDigits_def Let_def insert_commas_loop nat_diff_distrib' show_int_def has_prefix_iff show_nat_nonempty)

text \<open>
  An amount reads the same on the pages as in the reports: numbers of the pages are grouped as in the
  report for every value, and an amount in won is, from zero on, the grouped digits of the report and
  the unit.
\<close>

theorem amounts_agree: "formatNumber v = groupDigits v \<and> formatWon (int n) = groupDigits (int n) @ v_won"
  by (simp_all add: formatNumber_groupDigits formatWon_groupDigits)

text \<open>Below zero the loop of \<open>formatWon\<close> can put a comma behind the sign, which the others do not.\<close>

lemma formatWon_negative: "formatWon (- 123) = ''-,123'' @ v_won" "groupDigits (- 123) = ''-123''"
  by (simp_all add: formatWon_def groupDigits_def show_int_def show_nat.simps insert_commas.simps group_loop.simps
      Let_def has_prefix_iff digit_char_def char_of_def bit_0)

end
