(* ===== verification/Spec2Isabelle.thy ===== *)
theory Spec2Isabelle
  imports Notice Matcher_Laws Scheduler Digest_Run_Laws Digest_Laws File_Laws Collector_Laws Report_Lease Report_Grants Work_Laws
    Run_Records    Report_Run_Laws Collection_Laws Collection_Job Async_Collection Api_Laws Api_Reply Region_Lookup Account_Laws Session_Laws Web_Laws
    Isolation_Laws Migration_Laws Runtime Http_Front Command_Laws View_Laws
begin

text \<open>
  NAMO: a service that collects the Korean public procurement notices, matches them against the filters
  of its companies, and delivers what matched as digests and reports. This library models the Go code under
  \<^verbatim>\<open>src/internal\<close> together with the SQL it runs, and proves what makes it correct.

  \<^bold>\<open>The program.\<close> A scheduler ticks once a minute. Once an hour it runs a collection: the procurement
  client lists the notices of each category page by page within a daily call budget, the collector stores
  them with their revisions, looks up missing regions, and stores a match for every filter of every company
  that a notice satisfies. Every tick also runs the report job: for each schedule that is due a claim takes
  a window and a snapshot of the matches, the report is rendered, published as a file and finalized under
  the fencing token of the claim. Digest mails run in the same way, one delivery per recipient. The web
  surface sits behind a handler that authenticates the session of a request; its commands change filters,
  schedules, accounts, companies, reports and the key of the procurement service. All state is in
  PostgreSQL, in the report directory and in one private key file.

  \<^bold>\<open>How code is modelled.\<close> A Go string is a list of bytes. A 64-bit integer is an \<open>int\<close> with
  \<open>wrap64\<close> where the code can overflow. An instant is a number of nanoseconds. An error is a
  \<open>goerr\<close>, and a call that may fail returns a sum. A struct is a record, an interface or a set of function
  fields is a record of functions. A database call is a function on the rows that consults an environment:
  for every call the environment decides whether it fails, what the clock of the server shows and which
  random identifiers it gives, so each theorem over all environments holds for every placement of faults.
  Transactions are serial and roll back on an error (\<open>Sql\<close>, \<open>Tenant_Tx\<close>). A loop that may not end is a
  \<open>partial_function\<close> into \<open>option\<close> (\<open>retryCollectionBusy\<close>, \<open>runClaimed_loop\<close>, \<open>check_parents\<close>); that the
  last two end is proved (\<open>claimed_report_returns\<close>, \<open>check_parents_returns\<close>), the first ends once the
  context is done (\<open>withTenant_returns\<close>). Goroutines that interleave are step relations
  (\<open>Async_Collection\<close>, \<open>Region_Lookup\<close>). The JSON scanner alone has fuel: twice the length of the input,
  and \<open>fuel_enough\<close> shows that more makes no difference.

  \<^bold>\<open>The theories and the code.\<close>
  \<^item> Go and its library: \<open>Go_Prelude\<close> (errors, integers, decimal text, byte strings; the collections
    \<open>go_simps\<close> and \<open>go_bounds\<close>), \<open>Go_Utf8\<close>, \<open>Go_Time\<close>, \<open>Go_Path\<close>, \<open>Json\<close>, \<open>Json_Text\<close> with
    \<open>Json_Laws\<close>, \<open>Sql\<close> (statements, and the judgements \<open>keeps\<close>, \<open>ensures\<close> and
    \<open>forward\<close> with one rule per construct), \<open>Tables\<close> (the rows of \<^verbatim>\<open>src/migrations\<close>).
  \<^item> Notices: \<open>Notice\<close> (model/notice.go), \<open>Matcher\<close> (matcher/matcher.go) with \<open>Matcher_Laws\<close>.
  \<^item> Procurement: \<open>Api_Text\<close>, \<open>Api_Response\<close>, \<open>Api_Client\<close>, \<open>Region_Lookup\<close>
    (procurement/client.go), with \<open>Api_Laws\<close>, \<open>Api_Client_Laws\<close> and \<open>Api_Reply\<close>.
  \<^item> Collection: \<open>Pg_Collector\<close> (app/postgres_collector.go), \<open>Collector\<close> (app/collector.go),
    \<open>Collection_Job\<close> (app/collection_job.go), \<open>Async_Collection\<close> (app/async_collection.go), with
    \<open>Collector_Laws\<close> and \<open>Collection_Laws\<close>.
  \<^item> Digests: \<open>Deliveries\<close> (store/deliveries.go), \<open>Tenant_Tx\<close> (app/postgres_tenant.go),
    \<open>Digest_Window\<close> (app/postgres_digest.go), \<open>Digest\<close> (digest/digest.go), \<open>Digest_Runner\<close>
    (app/digest_runner.go, digest_job.go), with \<open>Delivery_Laws\<close>, \<open>Digest_Laws\<close> and \<open>Digest_Run_Laws\<close>.
  \<^item> Reports: \<open>File_Store\<close> (report/files.go), \<open>Report_Model\<close> and \<open>Render\<close> (report/render.go),
    \<open>Report_Table\<close> and \<open>Report_Claim\<close> (app/postgres_report.go, report_delete.go), \<open>Report_Runner\<close>
    (app/report_runner.go, report_job.go), \<open>Run_Tally\<close> and \<open>Run_Records\<close> (the run journals), with
    \<open>File_Laws\<close>, \<open>Report_Lease\<close>, \<open>Report_Commands\<close> (the repository as a system of seven
    commands), \<open>Report_Grants\<close> and \<open>Report_Run_Laws\<close>. \<open>Work_Laws\<close> takes deliveries, digest windows and reports
    together, which share the table of windows.
  \<^item> Accounts and sessions: \<open>Auth\<close> (auth/auth.go), \<open>Account_Tables\<close> (the SQL functions of
    \<^verbatim>\<open>src/migrations\<close>), \<open>Accounts\<close> (app/postgres_identity.go, postgres_tenant_registry.go, signup.go),
    \<open>Invitations\<close> (app/postgres_onboarding.go), \<open>Onboarding\<close> (app/onboarding.go, interactive_mail.go),
    \<open>Auth_Handler\<close> (app/auth_handler.go), with \<open>Account_Laws\<close>, \<open>Auth_Handler_Laws\<close> and \<open>Session_Laws\<close>.
  \<^item> The web surface: \<open>Web_Text\<close>, \<open>Web_Model\<close>, \<open>Web_Handler\<close>, \<open>Web_Route\<close> (web/handler.go,
    web/api_key.go), \<open>Web_View_Text\<close>, \<open>Web_Views\<close>, \<open>Web_Store\<close>, \<open>Web_Service\<close>
    (app/postgres_web.go), with \<open>Web_Laws\<close>, \<open>Service_Laws\<close>, \<open>Filter_Laws\<close>,
    \<open>Isolation_Laws\<close> and \<open>View_Laws\<close>.
  \<^item> The process: \<open>Scheduler\<close> (jobs/scheduler.go), \<open>Migrations\<close> (store/migrations.go) with
    \<open>Migration_Laws\<close>, \<open>Api_Key\<close> (config/api_key.go) with \<open>Key_Laws\<close>, \<open>App_Config\<close> (config/config.go,
    cli/cli.go), \<open>Runtime\<close> (app/runtime.go, postgres_security.go) with \<open>Command_Laws\<close>, \<open>Http_Front\<close>
    (app/http.go).

  \<^bold>\<open>Interfaces.\<close> Ten locales state what one component relies on, each interpreted on the model of the
  component that provides it. \<open>claim_counter\<close>, \<open>restarting_counter\<close> and \<open>fenced\<close> (\<open>Lease\<close>): work is claimed a
  bounded number of times, between two restarts where a count may start anew, and only under the present
  token; interpreted for deliveries, reports, the call budget and the uses of an invitation.
  \<open>claim_invariant\<close> and \<open>report_invariant\<close> (\<open>Report_Commands\<close>): what every statement of the report
  repository does to the rows, so that a property of the rows which each statement keeps is kept by every
  command; used for the tokens, the count of the attempts, the rows of the works and the rule of
  closed windows. \<open>digest_repository\<close>: what the digest runner asks of its repository. \<open>report_service\<close>:
  what the report runner asks of repository and files. \<open>checkpointed\<close>: what a collection asks of its
  repository. \<open>session_store\<close>: what the session handler asks of the account repository. \<open>web_backend\<close>:
  a property of the state that all calls of the application keep, which then every request keeps.

  \<^bold>\<open>What is proved.\<close>
  \<^item> Deliveries and reports: at most three claims whatever fails (of a report, between two manual retries),
    no effect under a superseded token, a sent delivery is final, a window closes only when all its
    deliveries are settled or its scheduled report has been generated, a window is fixed once, what a run
    counts as sent or created is so recorded, and a claimed report is finished within the attempts left.
  \<^item> Files: a report is published under its own digest, replaces nothing, and stays below the root.
  \<^item> Collection: the budget of a day is never exceeded, the checkpoint moves exactly with a success, a match
    of an old filter revision is dropped, one collection runs at a time and an accepted one is carried out.
  \<^item> Procurement: a listing that succeeds is complete, a reply in the documented form is listed, the
    service key and its escaped forms are in no text that is kept, and parallel lookups share one fetch.
  \<^item> Matching: the matcher decides the declarative meaning of a rule, and the reasons it stores stand in the
    order of its checks (the linear order on \<open>reason\<close>).
  \<^item> Accounts: platform administrators are out of reach of the service, access to a company is granted only
    by those entitled to, an invitation is used once, a request has the present role of its account, a login
    is for the account of its address and works until it expires, and a logout ends it.
  \<^item> Web: only permitted commands pass, reading changes nothing, the service checks roles again, companies are
    isolated from each other, a saved filter has exactly its matches, and the pages announce the delivery
    that becomes due.
  \<^item> Process: a command runs only under a configuration fit for it, migrations run once in order and all or
    none, and the key that was saved is the one read.

  \<^bold>\<open>Parameters.\<close> Code outside the repository is an argument of the definitions that use it: Unicode NFC,
  case folding and lower case beyond ASCII, SHA-256, HMAC and bcrypt, net/url, net/mail and mime, the
  parsing of times and IP addresses, the execution of html/template, the collation of the server and the
  encoding of jsonb. Laws assumed of them (for instance that digests of different texts differ) are named
  hypotheses of the theorems that need them.

  \<^bold>\<open>Not modelled.\<close> Listeners, sockets, goroutines and streams of \<open>serve\<close>, the SMTP client, connection
  pools and embedded assets are calls into libraries without a decision of their own (app/server.go,
  adapters.go, postgres_pool.go, web/embed.go). Domain types that no code uses (app/domain.go), the sample
  data of the demonstration, \<open>safeURL\<close> of the templates and \<open>buildInvitationMessage\<close>, which nothing calls.
  In the report store, modes and symbolic links; in the key file, more than one link in a row, and a path
  below a regular file, which is absent here. A commit that reports an error has rolled back. The scripts
  of the migrations are modelled where the code calls their functions; row-level security appears as the
  tenant that every statement carries. Timestamps keep nanoseconds, where the server keeps microseconds.
  Rows are read in the order of their creation where the SQL leaves the order open.
\<close>

end
